(* ===== verification/Prelude.thy ===== *)
theory Prelude
  imports Main
begin

text \<open>
  The vocabulary every other theory of the development shares: identifiers, instants and
  durations, the values a JSON document decodes to, the framework errors a service can meet,
  and the state-and-exception programs in which the Python services are written down, with
  the weakest-precondition rules the proofs calculate with.
\<close>

named_theorems wp_simps "weakest preconditions of the program combinators"
named_theorems frame_intros "introduction rules that lift a frame relation to programs"

subsection \<open>Identifiers and instants\<close>

text \<open>
  A UUID is its canonical text. An instant is the number of microseconds since the Unix
  epoch in UTC, which is what a Python aware \<open>datetime\<close> holds; a \<open>timedelta\<close> is a number
  of microseconds.
\<close>

type_synonym uuid = string
type_synonym instant = int

definition seconds :: "int \<Rightarrow> instant" where
  "seconds n = n * 1000000"

definition minutes :: "int \<Rightarrow> instant" where
  "minutes n = seconds (60 * n)"

definition days :: "int \<Rightarrow> instant" where
  "days n = seconds (86400 * n)"

text \<open>\<open>int(x.timestamp())\<close>: Python truncates the seconds towards zero.\<close>

definition unix_timestamp :: "instant \<Rightarrow> int" where
  "unix_timestamp t = (if 0 \<le> t then t div 1000000 else - ((- t) div 1000000))"

lemma unix_timestamp_seconds [simp]: "unix_timestamp (seconds n) = n"
  by (cases "0 \<le> n") (simp_all add: unix_timestamp_def seconds_def)

subsection \<open>JSON values\<close>

text \<open>
  What \<open>json.loads\<close> returns. A float is \<open>m * 2 ^ e\<close>, as the machine stores it; an object is
  the list of its members. The code reads an object only through \<open>.get\<close>, \<open>in\<close> and
  indexing by a literal key.
\<close>

datatype json =
    JNull
  | JBool bool
  | JInt int
  | JFloat int int
  | JStr string
  | JArr "json list"
  | JObj "(string \<times> json) list"

fun is_dict :: "json \<Rightarrow> bool" where
  "is_dict (JObj _) = True"
| "is_dict _ = False"

fun is_str :: "json \<Rightarrow> bool" where
  "is_str (JStr _) = True"
| "is_str _ = False"

text \<open>\<open>isinstance(v, int) and not isinstance(v, bool)\<close>: a JSON boolean is no integer here.\<close>

fun is_int :: "json \<Rightarrow> bool" where
  "is_int (JInt _) = True"
| "is_int _ = False"

fun as_str :: "json \<Rightarrow> string option" where
  "as_str (JStr s) = Some s"
| "as_str _ = None"

fun as_int :: "json \<Rightarrow> int option" where
  "as_int (JInt i) = Some i"
| "as_int _ = None"

text \<open>\<open>d.get(k)\<close> answers \<open>None\<close> for a missing key and for a null member alike.\<close>

fun jget :: "string \<Rightarrow> json \<Rightarrow> json" where
  "jget k (JObj kvs) = (case map_of kvs k of None \<Rightarrow> JNull | Some v \<Rightarrow> v)"
| "jget k _ = JNull"

fun jhas :: "string \<Rightarrow> json \<Rightarrow> bool" where
  "jhas k (JObj kvs) = (k \<in> set (map fst kvs))"
| "jhas k _ = False"

text \<open>Python's truth value of a decoded JSON value.\<close>

fun truthy :: "json \<Rightarrow> bool" where
  "truthy JNull = False"
| "truthy (JBool b) = b"
| "truthy (JInt i) = (i \<noteq> 0)"
| "truthy (JFloat m e) = (m \<noteq> 0)"
| "truthy (JStr s) = (s \<noteq> [])"
| "truthy (JArr xs) = (xs \<noteq> [])"
| "truthy (JObj kvs) = (kvs \<noteq> [])"

text \<open>\<open>a == b\<close> for a nullable text column \<open>a\<close> and a decoded value \<open>b\<close>.\<close>

fun same_text :: "string option \<Rightarrow> json \<Rightarrow> bool" where
  "same_text (Some s) j = (j = JStr s)"
| "same_text None j = (j = JNull)"

lemma is_str_iff [simp]: "is_str j \<longleftrightarrow> (\<exists>s. j = JStr s)"
  by (cases j) auto

lemma is_int_iff [simp]: "is_int j \<longleftrightarrow> (\<exists>i. j = JInt i)"
  by (cases j) auto

lemma as_str_Some [simp]: "as_str j = Some s \<longleftrightarrow> j = JStr s"
  by (cases j) auto

lemma as_int_Some [simp]: "as_int j = Some i \<longleftrightarrow> j = JInt i"
  by (cases j) auto

lemma jget_dict: "jget k j \<noteq> JNull \<Longrightarrow> is_dict j"
  by (cases j) auto

lemma same_text_str [simp]: "same_text x (JStr s) \<longleftrightarrow> x = Some s"
  by (cases x) auto

lemma same_text_truthy: "truthy j \<Longrightarrow> same_text x j \<Longrightarrow> \<exists>s. s \<noteq> [] \<and> x = Some s \<and> j = JStr s"
  by (cases x) auto

definition nullable_str :: "string option \<Rightarrow> json" where
  "nullable_str x = (case x of None \<Rightarrow> JNull | Some s \<Rightarrow> JStr s)"

subsection \<open>Lists and options\<close>

definition first :: "('a \<Rightarrow> bool) \<Rightarrow> 'a list \<Rightarrow> 'a option" where
  "first P xs = find P xs"

lemma first_None: "first P xs = None \<longleftrightarrow> (\<forall>x\<in>set xs. \<not> P x)"
  by (auto simp: first_def find_None_iff)

lemma first_SomeD: "first P xs = Some x \<Longrightarrow> x \<in> set xs \<and> P x"
  by (auto simp: first_def find_Some_iff)

lemma first_simps [simp]:
  "first P [] = None"
  "first P (x # xs) = (if P x then Some x else first P xs)"
  by (simp_all add: first_def)

lemma first_append:
  "first P (xs @ ys) = (case first P xs of None \<Rightarrow> first P ys | Some x \<Rightarrow> Some x)"
  by (induction xs) auto

lemma first_map_same:
  assumes "\<And>x. x \<in> set xs \<Longrightarrow> P (f x) = P x" "\<And>x. x \<in> set xs \<Longrightarrow> P x \<Longrightarrow> f x = x"
  shows "first P (map f xs) = first P xs"
  using assms by (induction xs) auto

fun truthy_text :: "string option \<Rightarrow> bool" where
  "truthy_text None = False"
| "truthy_text (Some s) = (s \<noteq> [])"

definition prefix_of :: "'a list \<Rightarrow> 'a list \<Rightarrow> bool" where
  "prefix_of xs ys \<longleftrightarrow> take (length xs) ys = xs"

lemma prefix_of_refl [simp, intro]: "prefix_of xs xs"
  by (simp add: prefix_of_def)

lemma prefix_of_append [simp, intro]: "prefix_of xs (xs @ ys)"
  by (simp add: prefix_of_def)

lemma prefix_of_iff: "prefix_of xs ys \<longleftrightarrow> (\<exists>zs. ys = xs @ zs)"
  by (metis append_eq_conv_conj append_take_drop_id prefix_of_def)

lemma prefix_of_trans: "prefix_of xs ys \<Longrightarrow> prefix_of ys zs \<Longrightarrow> prefix_of xs zs"
  by (auto simp: prefix_of_iff)

text \<open>A table whose rows stay, each related by \<open>P\<close> to what it was, and which gains rows at its end.\<close>

definition grown :: "('a \<Rightarrow> 'a \<Rightarrow> bool) \<Rightarrow> 'a list \<Rightarrow> 'a list \<Rightarrow> bool" where
  "grown P xs ys \<longleftrightarrow> (\<exists>us vs. ys = us @ vs \<and> list_all2 P xs us)"

lemma grown_refl: "(\<And>x. P x x) \<Longrightarrow> grown P xs xs"
  unfolding grown_def by (rule exI [of _ xs], rule exI [of _ "[]"]) (simp add: list_all2_refl)

lemma grown_add: "(\<And>x. P x x) \<Longrightarrow> grown P xs (xs @ ys)"
  unfolding grown_def by (rule exI [of _ xs], rule exI [of _ ys]) (simp add: list_all2_refl)

lemma grown_map: "(\<And>x. P x (f x)) \<Longrightarrow> grown P xs (map f xs)"
  unfolding grown_def by (rule exI [of _ "map f xs"], rule exI [of _ "[]"]) (simp add: list_all2_map2 list_all2_refl)

lemma grown_trans:
  assumes "grown P xs ys" "grown P ys zs" "\<And>x y z. P x y \<Longrightarrow> P y z \<Longrightarrow> P x z"
  shows "grown P xs zs"
proof -
  from assms(1) obtain us vs where y: "ys = us @ vs" "list_all2 P xs us" by (auto simp: grown_def)
  with assms(2) obtain us' vs' ws where z: "zs = us' @ vs' @ ws" "list_all2 P us us'"
    by (auto simp: grown_def list_all2_append1)
  have "list_all2 P xs us'" by (rule list_all2_trans [OF _ y(2) z(2)]) (rule assms(3))
  with z(1) show ?thesis by (auto simp: grown_def)
qed

lemma grown_eq: "grown (=) xs ys \<longleftrightarrow> (\<exists>zs. ys = xs @ zs)"
  by (auto simp: grown_def list.rel_eq)

subsection \<open>Errors\<close>

text \<open>
  The exceptions a service can raise: those of the framework and of Python, and under
  \<open>App\<close> the domain errors of the application module at hand.
\<close>

datatype 'e exn =
    TenantContextError
  | RuntimeErr
  | ValueErr
  | TypeErr
  | AttributeErr
  | NotImplementedErr
  | DoesNotExist
  | CheckViolation
  | UniqueViolation string
  | DataErr
  | DatabaseErr
  | ActorNotMember
  | App 'e

text \<open>\<open>except IntegrityError\<close> catches a violated check or unique constraint, not a value that
  is too long for its column (\<open>DataError\<close>).\<close>

fun integrity_error :: "'e exn \<Rightarrow> bool" where
  "integrity_error CheckViolation = True"
| "integrity_error (UniqueViolation _) = True"
| "integrity_error _ = False"

subsection \<open>Programs\<close>

text \<open>
  A program takes the state of the world and answers a value or an exception together with
  the world it leaves: effects made before an exception stay unless a transaction undoes
  them.
\<close>

type_synonym ('w, 'e, 'a) prog = "'w \<Rightarrow> ('e + 'a) \<times> 'w"

definition ret :: "'a \<Rightarrow> ('w, 'e, 'a) prog" where
  "ret a = (\<lambda>w. (Inr a, w))"

definition throw :: "'e \<Rightarrow> ('w, 'e, 'a) prog" where
  "throw e = (\<lambda>w. (Inl e, w))"

definition bindM :: "('w, 'e, 'a) prog \<Rightarrow> ('a \<Rightarrow> ('w, 'e, 'b) prog) \<Rightarrow> ('w, 'e, 'b) prog" where
  "bindM m f = (\<lambda>w. case m w of (Inr a, w') \<Rightarrow> f a w' | (Inl e, w') \<Rightarrow> (Inl e, w'))"

definition seqM :: "('w, 'e, unit) prog \<Rightarrow> ('w, 'e, 'b) prog \<Rightarrow> ('w, 'e, 'b) prog" where
  "seqM m n = bindM m (\<lambda>_. n)"

definition asks :: "('w \<Rightarrow> 'a) \<Rightarrow> ('w, 'e, 'a) prog" where
  "asks f = (\<lambda>w. (Inr (f w), w))"

definition modifyM :: "('w \<Rightarrow> 'w) \<Rightarrow> ('w, 'e, unit) prog" where
  "modifyM f = (\<lambda>w. (Inr (), f w))"

definition whenM :: "bool \<Rightarrow> ('w, 'e, unit) prog \<Rightarrow> ('w, 'e, unit) prog" where
  "whenM b m = (if b then m else ret ())"

text \<open>\<open>try: m except ...\<close>: the handler answers \<open>None\<close> for an exception it does not catch.\<close>

definition catchM ::
  "('w, 'e, 'a) prog \<Rightarrow> ('e \<Rightarrow> ('w, 'e, 'a) prog option) \<Rightarrow> ('w, 'e, 'a) prog" where
  "catchM m h = (\<lambda>w. case m w of
       (Inr a, w') \<Rightarrow> (Inr a, w')
     | (Inl e, w') \<Rightarrow> (case h e of None \<Rightarrow> (Inl e, w') | Some k \<Rightarrow> k w'))"

text \<open>\<open>try: m finally: f\<close>: \<open>f\<close> always runs; an exception of \<open>f\<close> replaces the outcome of \<open>m\<close>.\<close>

definition finallyM :: "('w, 'e, 'a) prog \<Rightarrow> ('w, 'e, unit) prog \<Rightarrow> ('w, 'e, 'a) prog" where
  "finallyM m f = (\<lambda>w. case m w of (r, w') \<Rightarrow>
     (case f w' of (Inl e, w'') \<Rightarrow> (Inl e, w'') | (Inr _, w'') \<Rightarrow> (r, w'')))"

text \<open>A \<open>for\<close> loop over a list.\<close>

fun forM :: "'a list \<Rightarrow> ('a \<Rightarrow> ('w, 'e, unit) prog) \<Rightarrow> ('w, 'e, unit) prog" where
  "forM [] f = ret ()"
| "forM (x # xs) f = seqM (f x) (forM xs f)"

text \<open>Using a value that may be \<open>None\<close>: Python raises \<open>TypeError\<close> on arithmetic or comparison.\<close>

definition need :: "'a option \<Rightarrow> ('w, 'e exn, 'a) prog" where
  "need x = (case x of None \<Rightarrow> throw TypeErr | Some a \<Rightarrow> ret a)"

lemmas prog_defs = ret_def throw_def bindM_def seqM_def asks_def modifyM_def whenM_def
  catchM_def finallyM_def

lemma run_ret [simp]: "ret a w = (Inr a, w)"
  by (simp add: ret_def)

lemma run_throw [simp]: "throw e w = (Inl e, w)"
  by (simp add: throw_def)

lemma run_bind: "bindM m f w = (case m w of (Inr a, w') \<Rightarrow> f a w' | (Inl e, w') \<Rightarrow> (Inl e, w'))"
  by (simp add: bindM_def)

lemma run_seq: "seqM m n w = (case m w of (Inr a, w') \<Rightarrow> n w' | (Inl e, w') \<Rightarrow> (Inl e, w'))"
  by (simp add: seqM_def bindM_def)

lemma run_asks [simp]: "asks f w = (Inr (f w), w)"
  by (simp add: asks_def)

lemma run_modify [simp]: "modifyM f w = (Inr (), f w)"
  by (simp add: modifyM_def)

lemma run_when [simp]: "whenM b m w = (if b then m w else (Inr (), w))"
  by (simp add: whenM_def)

lemma run_if: "(if b then m else n) w = (if b then m w else n w)"
  by simp

lemma run_bind_Inr [simp]: "m w = (Inr a, w') \<Longrightarrow> bindM m f w = f a w'"
  by (simp add: bindM_def)

lemma run_bind_Inl [simp]: "m w = (Inl e, w') \<Longrightarrow> bindM m f w = (Inl e, w')"
  by (simp add: bindM_def)

lemma run_seq_Inr [simp]: "m w = (Inr a, w') \<Longrightarrow> seqM m n w = n w'"
  by (simp add: seqM_def)

lemma run_seq_Inl [simp]: "m w = (Inl e, w') \<Longrightarrow> seqM m n w = (Inl e, w')"
  by (simp add: seqM_def)

lemma run_catch_Inr [simp]: "m w = (Inr a, w') \<Longrightarrow> catchM m h w = (Inr a, w')"
  by (simp add: catchM_def)

lemma run_catch_Inl [simp]:
  "m w = (Inl e, w') \<Longrightarrow> catchM m h w = (case h e of None \<Rightarrow> (Inl e, w') | Some k \<Rightarrow> k w')"
  by (simp add: catchM_def)

lemma bind_assoc: "bindM (bindM m f) g = bindM m (\<lambda>x. bindM (f x) g)"
  by (auto simp: bindM_def fun_eq_iff split: prod.splits sum.splits)

lemma bind_ret [simp]: "bindM (ret a) f = f a" "bindM m ret = m"
  by (auto simp: bindM_def fun_eq_iff split: prod.splits sum.splits)

subsection \<open>Weakest preconditions\<close>

text \<open>
  \<open>wp m Q E w\<close>: run from \<open>w\<close>, \<open>m\<close> ends in a value and a world in \<open>Q\<close>, or in an exception and
  a world in \<open>E\<close>. Programs are total functions, so this is total correctness.
\<close>

definition wp ::
  "('w, 'e, 'a) prog \<Rightarrow> ('a \<Rightarrow> 'w \<Rightarrow> bool) \<Rightarrow> ('e \<Rightarrow> 'w \<Rightarrow> bool) \<Rightarrow> 'w \<Rightarrow> bool" where
  "wp m Q E w = (case m w of (Inr a, w') \<Rightarrow> Q a w' | (Inl e, w') \<Rightarrow> E e w')"

lemma wp_ret [wp_simps]: "wp (ret a) Q E w = Q a w"
  by (simp add: wp_def)

lemma wp_throw [wp_simps]: "wp (throw e) Q E w = E e w"
  by (simp add: wp_def)

lemma wp_bind [wp_simps]: "wp (bindM m f) Q E w = wp m (\<lambda>a. wp (f a) Q E) E w"
  by (simp add: wp_def bindM_def split: prod.splits sum.splits)

lemma wp_seq [wp_simps]: "wp (seqM m n) Q E w = wp m (\<lambda>_. wp n Q E) E w"
  by (simp add: seqM_def wp_bind)

lemma wp_asks [wp_simps]: "wp (asks f) Q E w = Q (f w) w"
  by (simp add: wp_def)

lemma wp_modify [wp_simps]: "wp (modifyM f) Q E w = Q () (f w)"
  by (simp add: wp_def)

lemma wp_if [wp_simps]:
  "wp (if b then m else n) Q E w = (if b then wp m Q E w else wp n Q E w)"
  by simp

lemma wp_when [wp_simps]: "wp (whenM b m) Q E w = (if b then wp m Q E w else Q () w)"
  by (simp add: wp_def)

lemma wp_catch [wp_simps]:
  "wp (catchM m h) Q E w =
     wp m Q (\<lambda>e w'. case h e of None \<Rightarrow> E e w' | Some k \<Rightarrow> wp k Q E w') w"
  by (simp add: wp_def catchM_def split: prod.splits sum.splits option.splits)

lemma wp_need [wp_simps]: "wp (need x) Q E w = (case x of None \<Rightarrow> E TypeErr w | Some a \<Rightarrow> Q a w)"
  by (simp add: need_def wp_def split: option.split)

lemma wp_mono:
  assumes "wp m Q E w"
    and "\<And>a w'. m w = (Inr a, w') \<Longrightarrow> Q a w' \<Longrightarrow> Q' a w'"
    and "\<And>e w'. m w = (Inl e, w') \<Longrightarrow> E e w' \<Longrightarrow> E' e w'"
  shows "wp m Q' E' w"
  using assms by (auto simp: wp_def split: prod.splits sum.splits)

lemma wp_conj:
  assumes "wp m Q E w" "wp m Q' E' w"
  shows "wp m (\<lambda>a w. Q a w \<and> Q' a w) (\<lambda>e w. E e w \<and> E' e w) w"
  using assms by (auto simp: wp_def split: prod.splits sum.splits)

text \<open>Chaining a program whose outcome is known only by a specification.\<close>

lemma wp_conseq:
  assumes "wp m P X w" "\<And>a w'. P a w' \<Longrightarrow> Q a w'" "\<And>e w'. X e w' \<Longrightarrow> E e w'"
  shows "wp m Q E w"
  using assms by (auto simp: wp_def split: prod.splits sum.splits)

lemma wp_bind_spec:
  assumes "wp m P X w" "\<And>a w'. P a w' \<Longrightarrow> wp (f a) Q E w'" "\<And>e w'. X e w' \<Longrightarrow> E e w'"
  shows "wp (bindM m f) Q E w"
  unfolding wp_bind using assms by (rule wp_conseq)

lemma wp_seq_spec:
  assumes "wp m P X w" "\<And>a w'. P a w' \<Longrightarrow> wp n Q E w'" "\<And>e w'. X e w' \<Longrightarrow> E e w'"
  shows "wp (seqM m n) Q E w"
  unfolding seqM_def using assms by (rule wp_bind_spec)

lemma wp_InrD: "wp m Q E w \<Longrightarrow> m w = (Inr a, w') \<Longrightarrow> Q a w'"
  by (simp add: wp_def)

lemma wp_InlD: "wp m Q E w \<Longrightarrow> m w = (Inl e, w') \<Longrightarrow> E e w'"
  by (simp add: wp_def)

lemma wp_runD: "wp m (\<lambda>a w'. a = A \<and> w' = W) (\<lambda>_ _. False) w \<Longrightarrow> m w = (Inr A, W)"
  by (auto simp: wp_def split: prod.splits sum.splits)

end
