(* ===== verification/Tenancy.thy ===== *)
theory Tenancy
  imports Prelude
begin

text \<open>
  The world a request or a task runs in, and \<open>core/tenancy.py\<close>: the ContextVars that say which
  merchant (or which pre-tenant lookup) a thread acts for, database transactions with their
  savepoints, the \<open>SET LOCAL\<close> settings the row-level-security policies of \<open>core/rls.py\<close> read,
  and the clock. Other transactions are part of the world: \<open>env\<close> says what they commit, and
  acts where a statement of this thread can see it (at the start of a transaction, while it
  waits for a row lock, and during a provider call made outside every transaction).
\<close>

subsection \<open>The world\<close>

text \<open>The ContextVars of \<open>core.tenancy\<close>; the same names serve for the \<open>app.*\<close> settings of the
  database session that \<open>SET LOCAL\<close> writes.\<close>

record ctxvars =
  merchant_var :: "uuid option"
  user_var :: "string option"
  key_hash_var :: "string option"
  integration_var :: "string option"
  billing_ref_var :: "string option"
  phone_number_var :: "string option"
  platform_write_var :: "string option"

definition no_vars :: ctxvars where
  "no_vars = \<lparr>merchant_var = None, user_var = None, key_hash_var = None, integration_var = None,
     billing_ref_var = None, phone_number_var = None, platform_write_var = None\<rparr>"

text \<open>
  \<open>'d\<close> is the database, \<open>'t\<close> the tasks a service can enqueue. \<open>saves\<close> holds the database at the
  start of every open transaction or savepoint, innermost first, so \<open>in_atomic_block\<close> is
  \<open>saves \<noteq> []\<close>. \<open>pending\<close> are the \<open>transaction.on_commit\<close> callbacks, \<open>queue\<close> what reached the broker.
\<close>

record ('d, 't) world =
  db :: 'd
  saves :: "'d list"
  ctx :: ctxvars
  guc :: ctxvars
  row_locked :: bool
  clock :: "nat \<Rightarrow> instant"
  ticks :: nat
  env :: "nat \<Rightarrow> 'd \<Rightarrow> 'd"
  env_n :: nat
  pending :: "'t list"
  queue :: "'t list"

definition in_atomic_block :: "('d, 't, 'z) world_scheme \<Rightarrow> bool" where
  "in_atomic_block w \<longleftrightarrow> saves w \<noteq> []"

text \<open>No other transaction commits: the world of a single thread.\<close>

definition quiet :: "('d, 't, 'z) world_scheme \<Rightarrow> bool" where
  "quiet w \<longleftrightarrow> env w = (\<lambda>_ d. d)"

definition tick :: "('d, 't, 'z) world_scheme \<Rightarrow> ('d, 't, 'z) world_scheme" where
  "tick w = w\<lparr>ticks := Suc (ticks w)\<rparr>"

text \<open>\<open>dj_timezone.now()\<close>: every call reads the clock again.\<close>

definition now :: "(('d, 't, 'z) world_scheme, 'e, instant) prog" where
  "now = (\<lambda>w. (Inr (clock w (ticks w)), tick w))"

definition on_commit :: "'t \<Rightarrow> (('d, 't, 'z) world_scheme, 'e, unit) prog" where
  "on_commit t = (\<lambda>w. (Inr (), if saves w = [] then w\<lparr>queue := queue w @ [t]\<rparr>
     else w\<lparr>pending := pending w @ [t]\<rparr>))"

text \<open>What other transactions commit meanwhile reaches the current state and stays when this
  thread rolls back.\<close>

definition interfere :: "('d, 't, 'z) world_scheme \<Rightarrow> ('d, 't, 'z) world_scheme" where
  "interfere w = (let f = env w (env_n w) in
     w\<lparr>db := f (db w), saves := map f (saves w), env_n := Suc (env_n w)\<rparr>)"

text \<open>\<open>select_for_update()\<close> of the row the operation works on: the wait lets others commit; a
  lock this thread already holds does not wait. Locks are kept until the transaction that took
  them ends.\<close>

definition take_row_lock :: "(('d, 't, 'z) world_scheme, 'e, unit) prog" where
  "take_row_lock = modifyM (\<lambda>w. if row_locked w then w else (interfere w)\<lparr>row_locked := True\<rparr>)"

subsection \<open>Transactions and savepoints\<close>

definition begin_block :: "('d, 't, 'z) world_scheme \<Rightarrow> ('d, 't, 'z) world_scheme" where
  "begin_block w = (let w0 = (if saves w = [] then interfere w else w) in w0\<lparr>saves := db w0 # saves w0\<rparr>)"

definition commit_block ::
  "('d, 't, 'z) world_scheme \<Rightarrow> ('d, 't, 'z) world_scheme \<Rightarrow> ('d, 't, 'z) world_scheme" where
  "commit_block w w' = (if saves w = []
     then w'\<lparr>saves := tl (saves w'), guc := no_vars, row_locked := False,
            queue := queue w' @ pending w', pending := []\<rparr>
     else w'\<lparr>saves := tl (saves w')\<rparr>)"

text \<open>A rollback restores the data, the \<open>SET LOCAL\<close> settings, the row locks and the callbacks as
  they were when the block began.\<close>

definition rollback_block ::
  "('d, 't, 'z) world_scheme \<Rightarrow> ('d, 't, 'z) world_scheme \<Rightarrow> ('d, 't, 'z) world_scheme" where
  "rollback_block w w' = (case saves w' of [] \<Rightarrow> w'
     | d # ds \<Rightarrow> w'\<lparr>db := d, saves := ds, guc := (if saves w = [] then no_vars else guc w),
                    row_locked := row_locked w, pending := pending w\<rparr>)"

definition atomic :: "(('d, 't, 'z) world_scheme, 'e, 'a) prog \<Rightarrow> (('d, 't, 'z) world_scheme, 'e, 'a) prog" where
  "atomic m = (\<lambda>w. case m (begin_block w) of
       (Inr a, w') \<Rightarrow> (Inr a, commit_block w w')
     | (Inl e, w') \<Rightarrow> (Inl e, rollback_block w w'))"

text \<open>\<open>transaction.atomic(durable=True)\<close> refuses to be nested.\<close>

definition durable_atomic ::
  "(('d, 't, 'z) world_scheme, 'e exn, 'a) prog \<Rightarrow> (('d, 't, 'z) world_scheme, 'e exn, 'a) prog" where
  "durable_atomic m = (\<lambda>w. if saves w = [] then atomic m w else (Inl RuntimeErr, w))"

lemma wp_atomic [wp_simps]:
  "wp (atomic m) Q E w =
     wp m (\<lambda>a w'. Q a (commit_block w w')) (\<lambda>e w'. E e (rollback_block w w')) (begin_block w)"
  by (simp add: wp_def atomic_def split: prod.splits sum.splits)

subsection \<open>Tenant context\<close>

definition get_current_merchant_id :: "(('d, 't, 'z) world_scheme, 'e, uuid option) prog" where
  "get_current_merchant_id = asks (\<lambda>w. merchant_var (ctx w))"

text \<open>\<open>token = var.set(v); try: ... finally: var.reset(token)\<close>: the old value comes back however
  the block ends.\<close>

definition with_var ::
  "(ctxvars \<Rightarrow> string option) \<Rightarrow> ((string option \<Rightarrow> string option) \<Rightarrow> ctxvars \<Rightarrow> ctxvars) \<Rightarrow> string \<Rightarrow>
   (('d, 't, 'z) world_scheme, 'e, 'a) prog \<Rightarrow> (('d, 't, 'z) world_scheme, 'e, 'a) prog" where
  "with_var rd up v m = (\<lambda>w. case m (w\<lparr>ctx := up (\<lambda>_. Some v) (ctx w)\<rparr>) of
     (r, w') \<Rightarrow> (r, w'\<lparr>ctx := up (\<lambda>_. rd (ctx w)) (ctx w')\<rparr>))"

definition set_local ::
  "((string option \<Rightarrow> string option) \<Rightarrow> ctxvars \<Rightarrow> ctxvars) \<Rightarrow> string \<Rightarrow> (('d, 't, 'z) world_scheme, 'e, unit) prog" where
  "set_local up v = modifyM (\<lambda>w. w\<lparr>guc := up (\<lambda>_. Some v) (guc w)\<rparr>)"

text \<open>The argument is \<open>None\<close> where \<open>uuid.UUID(str(merchant_id))\<close> raises.\<close>

definition tenant_context ::
  "uuid option \<Rightarrow> (('d, 't, 'z) world_scheme, 'e exn, 'a) prog \<Rightarrow> (('d, 't, 'z) world_scheme, 'e exn, 'a) prog" where
  "tenant_context merchant_id m = (case merchant_id of
       None \<Rightarrow> throw ValueErr
     | Some mid \<Rightarrow> (\<lambda>w.
         case merchant_var (ctx w) of
           Some active \<Rightarrow> if active \<noteq> mid then (Inl TenantContextError, w)
                          else with_var merchant_var merchant_var_update mid m w
         | None \<Rightarrow> with_var merchant_var merchant_var_update mid m w))"

definition tenant_atomic ::
  "bool \<Rightarrow> (('d, 't, 'z) world_scheme, 'e exn, 'a) prog \<Rightarrow> (('d, 't, 'z) world_scheme, 'e exn, 'a) prog" where
  "tenant_atomic durable m = (\<lambda>w. case merchant_var (ctx w) of
       None \<Rightarrow> (Inl TenantContextError, w)
     | Some mid \<Rightarrow>
         (if durable then durable_atomic else atomic) (seqM (set_local merchant_var_update mid) m) w)"

definition tenant_task ::
  "(uuid \<Rightarrow> (('d, 't, 'z) world_scheme, 'e exn, 'a) prog) \<Rightarrow> uuid option \<Rightarrow> (('d, 't, 'z) world_scheme, 'e exn, 'a) prog" where
  "tenant_task fn merchant_id = tenant_context merchant_id (case merchant_id of None \<Rightarrow> throw ValueErr | Some m \<Rightarrow> fn m)"

subsection \<open>Pre-tenant lookups\<close>

text \<open>
  The five lookup scopes share one shape: refuse inside a merchant context, validate the key,
  set the ContextVar, open a durable transaction and \<open>SET LOCAL\<close> the one setting their
  \<open>SELECT\<close>-only policy reads.
\<close>

definition lookup_atomic ::
  "(ctxvars \<Rightarrow> string option) \<Rightarrow> ((string option \<Rightarrow> string option) \<Rightarrow> ctxvars \<Rightarrow> ctxvars) \<Rightarrow> (string \<Rightarrow> bool) \<Rightarrow>
   string \<Rightarrow> (('d, 't, 'z) world_scheme, 'e exn, 'a) prog \<Rightarrow> (('d, 't, 'z) world_scheme, 'e exn, 'a) prog" where
  "lookup_atomic rd up valid v m = (\<lambda>w.
     if merchant_var (ctx w) \<noteq> None then (Inl TenantContextError, w)
     else if \<not> valid v then (Inl ValueErr, w)
     else with_var rd up v (durable_atomic (seqM (set_local up v) m)) w)"

definition word_char :: "char \<Rightarrow> bool" where
  "word_char c \<longleftrightarrow> (let n = (of_char c :: nat) in
     65 \<le> n \<and> n \<le> 90 \<or> 97 \<le> n \<and> n \<le> 122 \<or> 48 \<le> n \<and> n \<le> 57 \<or> n = 95)"

definition digit_char :: "char \<Rightarrow> bool" where
  "digit_char c \<longleftrightarrow> (let n = (of_char c :: nat) in 48 \<le> n \<and> n \<le> 57)"

definition hex_char :: "char \<Rightarrow> bool" where
  "hex_char c \<longleftrightarrow> (let n = (of_char c :: nat) in 48 \<le> n \<and> n \<le> 57 \<or> 97 \<le> n \<and> n \<le> 102)"

text \<open>\<open>_BILLING_REF.fullmatch(ref)\<close>.\<close>

definition is_valid_billing_ref :: "string \<Rightarrow> bool" where
  "is_valid_billing_ref ref \<longleftrightarrow> 1 \<le> length ref \<and> length ref \<le> 64 \<and> list_all word_char ref"

definition is_valid_phone_number_id :: "string \<Rightarrow> bool" where
  "is_valid_phone_number_id v \<longleftrightarrow> 1 \<le> length v \<and> length v \<le> 64 \<and> list_all digit_char v"

text \<open>\<open>_HEX64.match(key_hash)\<close>: with \<open>match\<close> and a closing \<open>$\<close> the pattern also accepts one newline
  after the 64 digits.\<close>

definition hex64_match :: "string \<Rightarrow> bool" where
  "hex64_match s \<longleftrightarrow> list_all hex_char (take 64 s) \<and>
     (length s = 64 \<or> length s = 65 \<and> s ! 64 = CHR 0x0A)"

definition user_lookup_atomic ::
  "uuid \<Rightarrow> (('d, 't, 'z) world_scheme, 'e exn, 'a) prog \<Rightarrow> (('d, 't, 'z) world_scheme, 'e exn, 'a) prog" where
  "user_lookup_atomic = lookup_atomic user_var user_var_update (\<lambda>_. True)"

definition api_key_lookup_atomic ::
  "string \<Rightarrow> (('d, 't, 'z) world_scheme, 'e exn, 'a) prog \<Rightarrow> (('d, 't, 'z) world_scheme, 'e exn, 'a) prog" where
  "api_key_lookup_atomic = lookup_atomic key_hash_var key_hash_var_update hex64_match"

definition integration_lookup_atomic ::
  "uuid \<Rightarrow> (('d, 't, 'z) world_scheme, 'e exn, 'a) prog \<Rightarrow> (('d, 't, 'z) world_scheme, 'e exn, 'a) prog" where
  "integration_lookup_atomic = lookup_atomic integration_var integration_var_update (\<lambda>_. True)"

definition billing_ref_lookup_atomic ::
  "string \<Rightarrow> (('d, 't, 'z) world_scheme, 'e exn, 'a) prog \<Rightarrow> (('d, 't, 'z) world_scheme, 'e exn, 'a) prog" where
  "billing_ref_lookup_atomic = lookup_atomic billing_ref_var billing_ref_var_update is_valid_billing_ref"

definition whatsapp_number_lookup_atomic ::
  "string \<Rightarrow> (('d, 't, 'z) world_scheme, 'e exn, 'a) prog \<Rightarrow> (('d, 't, 'z) world_scheme, 'e exn, 'a) prog" where
  "whatsapp_number_lookup_atomic =
     lookup_atomic phone_number_var phone_number_var_update is_valid_phone_number_id"

definition platform_write_scopes :: "string list" where
  "platform_write_scopes = [''whatsapp_shared_pool'', ''staff_auth'']"

definition platform_write_atomic ::
  "string \<Rightarrow> (('d, 't, 'z) world_scheme, 'e exn, 'a) prog \<Rightarrow> (('d, 't, 'z) world_scheme, 'e exn, 'a) prog" where
  "platform_write_atomic =
     lookup_atomic platform_write_var platform_write_var_update (\<lambda>s. s \<in> set platform_write_scopes)"

text \<open>\<open>TeamMember\<close> of \<open>accounts/models.py\<close> as the services receive it, and the permission classes of
  \<open>accounts/permissions.py\<close>.\<close>

datatype role = OWNER | ADMIN | MANAGER | VIEWER

record team_member =
  tm_id :: uuid
  tm_user :: uuid
  tm_role :: role

text \<open>\<open>HasRole.has_permission\<close>: an accepted membership with one of the roles.\<close>

definition has_role :: "role list \<Rightarrow> team_member option \<Rightarrow> bool" where
  "has_role roles member \<longleftrightarrow> (case member of None \<Rightarrow> False | Some tm \<Rightarrow> tm_role tm \<in> set roles)"

end
