(* ===== verification/Frames.thy ===== *)
theory Frames
  imports Tenancy
begin

text \<open>
  Frame relations: preorders on the database that every step of a program respects, through
  savepoints, rollbacks and the commits of other transactions. An invariant \<open>I\<close> is the preorder
  \<open>I d \<longrightarrow> I d'\<close>, "rows of this table are never changed" is a prefix order, tenant isolation is
  equality of the other merchants' rows. A component states the frame obligations of its
  primitives once, derives them for its operations, and every property of this kind is an
  interpretation. The second half of the theory gives the rules for evaluating the
  transaction blocks of a single thread.
\<close>

subsection \<open>Frame relations\<close>

definition rely :: "('d \<Rightarrow> 'd \<Rightarrow> bool) \<Rightarrow> ('d, 't, 'z) world_scheme \<Rightarrow> bool" where
  "rely R w \<longleftrightarrow> (\<forall>n d. R d (env w n d))"

definition frames ::
  "('d \<Rightarrow> 'd \<Rightarrow> bool) \<Rightarrow> (ctxvars \<Rightarrow> bool) \<Rightarrow> (('d, 't, 'z) world_scheme, 'e, 'a) prog \<Rightarrow> bool" where
  "frames R G m \<longleftrightarrow> (\<forall>w. G (ctx w) \<longrightarrow> rely R w \<longrightarrow>
     ctx (snd (m w)) = ctx w \<and> env (snd (m w)) = env w \<and> R (db w) (db (snd (m w))) \<and>
     list_all2 R (saves w) (saves (snd (m w))) \<and> (quiet w \<longrightarrow> saves (snd (m w)) = saves w))"

lemma framesD:
  assumes "frames R G m" "G (ctx w)" "rely R w" "m w = (r, w')"
  shows "ctx w' = ctx w" "env w' = env w" "R (db w) (db w')" "list_all2 R (saves w) (saves w')" "rely R w'"
    "quiet w \<longrightarrow> saves w' = saves w" "quiet w' = quiet w"
  using assms by (auto simp: frames_def rely_def quiet_def dest!: spec [of _ w])

lemma framesI:
  assumes "\<And>w r w'. G (ctx w) \<Longrightarrow> rely R w \<Longrightarrow> m w = (r, w') \<Longrightarrow>
    ctx w' = ctx w \<and> env w' = env w \<and> R (db w) (db w') \<and> list_all2 R (saves w) (saves w') \<and>
      (quiet w \<longrightarrow> saves w' = saves w)"
  shows "frames R G m"
  unfolding frames_def using assms by (metis prod.collapse)

lemma rely_quiet: "(\<And>d. R d d) \<Longrightarrow> quiet w \<Longrightarrow> rely R w"
  by (simp add: rely_def quiet_def)

locale db_frame =
  fixes R :: "'d \<Rightarrow> 'd \<Rightarrow> bool"
  assumes R_refl: "R d d"
    and R_trans: "R a b \<Longrightarrow> R b c \<Longrightarrow> R a c"
begin

lemma saves_refl: "list_all2 R ds ds"
  by (simp add: R_refl list_all2_refl)

lemma saves_trans: "list_all2 R as bs \<Longrightarrow> list_all2 R bs cs \<Longrightarrow> list_all2 R as cs"
  by (rule list_all2_trans [of R R R]) (blast intro: R_trans)+

text \<open>Programs that leave the database, the savepoints and the context alone.\<close>

lemma frames_pure:
  assumes "\<And>w. let w' = snd (m w) in ctx w' = ctx w \<and> env w' = env w \<and> db w' = db w \<and> saves w' = saves w"
  shows "frames R G m"
  unfolding frames_def using assms by (simp add: Let_def R_refl saves_refl)

lemma frames_ret [frame_intros]: "frames R G (ret a)"
  by (rule frames_pure) (simp add: Let_def)

lemma frames_throw [frame_intros]: "frames R G (throw e)"
  by (rule frames_pure) (simp add: Let_def)

lemma frames_asks [frame_intros]: "frames R G (asks f)"
  by (rule frames_pure) (simp add: Let_def)

lemma frames_need [frame_intros]: "frames R G (need x)"
  by (rule frames_pure) (simp add: need_def Let_def split: option.split)

lemma frames_now [frame_intros]: "frames R G now"
  by (rule frames_pure) (simp add: now_def tick_def Let_def)

lemma frames_merchant [frame_intros]: "frames R G get_current_merchant_id"
  unfolding get_current_merchant_id_def by (rule frames_asks)

lemma frames_on_commit [frame_intros]: "frames R G (on_commit t)"
  by (rule frames_pure) (simp add: on_commit_def Let_def)

lemma frames_set_local [frame_intros]: "frames R G (set_local up v)"
  by (rule frames_pure) (simp add: set_local_def Let_def)

lemma frames_modify:
  assumes "\<And>w. G (ctx w) \<Longrightarrow> ctx (f w) = ctx w \<and> env (f w) = env w \<and> R (db w) (db (f w)) \<and> saves (f w) = saves w"
  shows "frames R G (modifyM f)"
  unfolding frames_def using assms by (simp add: saves_refl)

lemma frames_bind [frame_intros]:
  assumes m: "frames R G m" and f: "\<And>a. frames R G (f a)"
  shows "frames R G (bindM m f)"
proof (rule framesI)
  fix w r w'
  assume G: "G (ctx w)" and rel: "rely R w" and run: "bindM m f w = (r, w')"
  obtain r1 w1 where m1: "m w = (r1, w1)" by fastforce
  note fr = framesD [OF m G rel m1]
  show "ctx w' = ctx w \<and> env w' = env w \<and> R (db w) (db w') \<and> list_all2 R (saves w) (saves w') \<and>
      (quiet w \<longrightarrow> saves w' = saves w)"
  proof (cases r1)
    case (Inl e)
    with run m1 fr show ?thesis by (auto simp: bindM_def)
  next
    case (Inr a)
    with run m1 have "f a w1 = (r, w')" by (simp add: bindM_def)
    from framesD [OF f _ fr(5) this] G fr
    show ?thesis by (metis R_trans saves_trans)
  qed
qed

lemma frames_seq [frame_intros]: "frames R G m \<Longrightarrow> frames R G n \<Longrightarrow> frames R G (seqM m n)"
  unfolding seqM_def by (rule frames_bind)

lemma frames_if [frame_intros]:
  "(b \<Longrightarrow> frames R G m) \<Longrightarrow> (\<not> b \<Longrightarrow> frames R G n) \<Longrightarrow> frames R G (if b then m else n)"
  by simp

lemma frames_when [frame_intros]: "(b \<Longrightarrow> frames R G m) \<Longrightarrow> frames R G (whenM b m)"
  unfolding whenM_def by (simp add: frames_ret)

lemma frames_case_option [frame_intros]:
  "(x = None \<Longrightarrow> frames R G m) \<Longrightarrow> (\<And>a. x = Some a \<Longrightarrow> frames R G (f a)) \<Longrightarrow>
     frames R G (case x of None \<Rightarrow> m | Some a \<Rightarrow> f a)"
  by (cases x) simp_all

lemma frames_case_prod [frame_intros]:
  "(\<And>a b. x = (a, b) \<Longrightarrow> frames R G (f a b)) \<Longrightarrow> frames R G (case x of (a, b) \<Rightarrow> f a b)"
  by (cases x) simp

lemma frames_let [frame_intros]: "(\<And>a. a = x \<Longrightarrow> frames R G (f a)) \<Longrightarrow> frames R G (let a = x in f a)"
  by simp

lemma frames_catch [frame_intros]:
  assumes m: "frames R G m" and h: "\<And>e k. h e = Some k \<Longrightarrow> frames R G k"
  shows "frames R G (catchM m h)"
proof (rule framesI)
  fix w r w'
  assume G: "G (ctx w)" and rel: "rely R w" and run: "catchM m h w = (r, w')"
  obtain r1 w1 where m1: "m w = (r1, w1)" by fastforce
  note fr = framesD [OF m G rel m1]
  show "ctx w' = ctx w \<and> env w' = env w \<and> R (db w) (db w') \<and> list_all2 R (saves w) (saves w') \<and>
      (quiet w \<longrightarrow> saves w' = saves w)"
  proof (cases "\<exists>e k. r1 = Inl e \<and> h e = Some k")
    case True
    then obtain e k where e: "r1 = Inl e" and k: "h e = Some k" by blast
    with run m1 have "k w1 = (r, w')" by (simp add: catchM_def)
    from framesD [OF h [OF k] _ fr(5) this] G fr
    show ?thesis by (metis R_trans saves_trans)
  next
    case False
    with run m1 fr show ?thesis
      by (auto simp: catchM_def split: sum.splits option.splits)
  qed
qed

lemma frames_finally [frame_intros]:
  assumes m: "frames R G m" and f: "frames R G f"
  shows "frames R G (finallyM m f)"
proof (rule framesI)
  fix w r w'
  assume G: "G (ctx w)" and rel: "rely R w" and run: "finallyM m f w = (r, w')"
  obtain r1 w1 where m1: "m w = (r1, w1)" by fastforce
  obtain r2 w2 where f2: "f w1 = (r2, w2)" by fastforce
  note fr = framesD [OF m G rel m1]
  have "ctx w1 = ctx w" by (rule fr)
  with G have "G (ctx w1)" by simp
  note fr2 = framesD [OF f this fr(5) f2]
  from run m1 f2 have "w' = w2" by (auto simp: finallyM_def split: sum.splits)
  with fr fr2 show "ctx w' = ctx w \<and> env w' = env w \<and> R (db w) (db w') \<and> list_all2 R (saves w) (saves w') \<and>
      (quiet w \<longrightarrow> saves w' = saves w)"
    by (metis R_trans saves_trans)
qed

lemma frames_for [frame_intros]: "(\<And>x. frames R G (f x)) \<Longrightarrow> frames R G (forM xs f)"
  by (induction xs) (simp_all add: frames_ret frames_seq)

lemma interfere_frame:
  assumes "rely R w"
  shows "ctx (interfere w) = ctx w" "env (interfere w) = env w" "R (db w) (db (interfere w))"
    "list_all2 R (saves w) (saves (interfere w))" "quiet w \<Longrightarrow> saves (interfere w) = saves w"
  using assms by (simp_all add: interfere_def Let_def rely_def list_all2_map2 list_all2_refl quiet_def)

lemma interfere_saves: "saves (interfere w) = map (env w (env_n w)) (saves w)"
  by (simp add: interfere_def Let_def)

lemma frames_take_row_lock [frame_intros]: "frames R G take_row_lock"
  by (rule framesI) (auto simp: take_row_lock_def R_refl saves_refl interfere_frame split: if_splits)

lemma frames_atomic [frame_intros]:
  assumes m: "frames R G m"
  shows "frames R G (atomic m)"
proof (rule framesI)
  fix w r w'
  assume G: "G (ctx w)" and rel: "rely R w" and run: "atomic m w = (r, w')"
  let ?w0 = "if saves w = [] then interfere w else w"
  have b: "begin_block w = ?w0\<lparr>saves := db ?w0 # saves ?w0\<rparr>"
    by (simp add: begin_block_def Let_def)
  have w0: "ctx ?w0 = ctx w" "env ?w0 = env w" "R (db w) (db ?w0)" "list_all2 R (saves w) (saves ?w0)"
    "quiet w \<longrightarrow> saves ?w0 = saves w"
    using interfere_frame [OF rel] by (auto simp: R_refl saves_refl)
  have G1: "G (ctx (begin_block w))" and rel1: "rely R (begin_block w)"
    using G rel w0 by (simp_all add: b rely_def)
  obtain r1 w1 where m1: "m (begin_block w) = (r1, w1)" by fastforce
  note fr = framesD [OF m G1 rel1 m1]
  from fr(4) obtain d ds where s: "saves w1 = d # ds" and d: "R (db ?w0) d" and ds: "list_all2 R (saves ?w0) ds"
    by (auto simp: b list_all2_Cons1)
  have d': "R (db w) d" using w0(3) d by (rule R_trans)
  have ds': "list_all2 R (saves w) ds" using w0(4) ds by (rule saves_trans)
  have c: "R (db w) (db w1)" using w0(3) fr(3) by (simp add: b) (rule R_trans)
  show "ctx w' = ctx w \<and> env w' = env w \<and> R (db w) (db w') \<and> list_all2 R (saves w) (saves w') \<and>
      (quiet w \<longrightarrow> saves w' = saves w)"
    using run m1 fr(1,2,6) s d' ds' c w0(1,2,5)
    by (auto simp: atomic_def commit_block_def rollback_block_def b quiet_def split: sum.splits if_splits)
qed

lemma frames_durable_atomic [frame_intros]:
  assumes m: "frames R G m"
  shows "frames R G (durable_atomic m)"
  using frames_atomic [OF m] frames_throw [where e = RuntimeErr]
  by (auto simp: frames_def durable_atomic_def)

lemma frames_tenant_atomic [frame_intros]:
  assumes m: "frames R G m"
  shows "frames R G (tenant_atomic durable m)"
proof -
  have s: "frames R G (seqM (set_local merchant_var_update mid) m)" for mid
    by (rule frames_seq [OF frames_set_local m])
  show ?thesis
  proof (rule framesI)
    fix w r w'
    assume g: "G (ctx w)" "rely R w" and run: "tenant_atomic durable m w = (r, w')"
    show "ctx w' = ctx w \<and> env w' = env w \<and> R (db w) (db w') \<and> list_all2 R (saves w) (saves w') \<and>
      (quiet w \<longrightarrow> saves w' = saves w)"
    proof (cases "merchant_var (ctx w)")
      case None
      with run show ?thesis by (auto simp: tenant_atomic_def R_refl saves_refl)
    next
      case (Some mid)
      with run framesD [OF frames_atomic [OF s] g] framesD [OF frames_durable_atomic [OF s] g]
      show ?thesis by (cases durable) (auto simp: tenant_atomic_def)
    qed
  qed
qed

text \<open>A context block sets a ContextVar for its body and puts the old value back.\<close>

lemma frames_with_var:
  assumes m: "frames R G' m" and c: "\<And>c. G c \<Longrightarrow> G' (up (\<lambda>_. Some v) c)"
    and reset: "\<And>c. up (\<lambda>_. rd c) (up (\<lambda>_. Some v) c) = c"
  shows "frames R G (with_var rd up v m)"
proof (rule framesI)
  fix w r w'
  assume G: "G (ctx w)" and rel: "rely R w" and run: "with_var rd up v m w = (r, w')"
  let ?w = "w\<lparr>ctx := up (\<lambda>_. Some v) (ctx w)\<rparr>"
  obtain r1 w1 where m1: "m ?w = (r1, w1)" by fastforce
  have "G' (ctx ?w)" "rely R ?w" using c [OF G] rel by (simp_all add: rely_def)
  note fr = framesD [OF m this m1]
  show "ctx w' = ctx w \<and> env w' = env w \<and> R (db w) (db w') \<and> list_all2 R (saves w) (saves w') \<and>
      (quiet w \<longrightarrow> saves w' = saves w)"
    using run m1 fr reset by (auto simp: with_var_def quiet_def)
qed

lemma frames_tenant_context:
  assumes m: "\<And>mid. x = Some mid \<Longrightarrow> frames R G' m" and c: "\<And>c mid. x = Some mid \<Longrightarrow> G c \<Longrightarrow> G' (c\<lparr>merchant_var := Some mid\<rparr>)"
  shows "frames R G (tenant_context x m)"
proof (cases x)
  case None
  then show ?thesis by (simp add: tenant_context_def frames_throw)
next
  case (Some mid)
  have "frames R G (with_var merchant_var merchant_var_update mid m)"
    by (rule frames_with_var [OF m [OF Some]]) (simp_all add: c [OF Some])
  then show ?thesis
    using frames_throw [of G TenantContextError]
    by (auto simp: frames_def tenant_context_def Some split: option.split)
qed

lemma frames_lookup_atomic:
  assumes m: "frames R G' m" and c: "\<And>c. G c \<Longrightarrow> G' (up (\<lambda>_. Some v) c)"
    and reset: "\<And>c. up (\<lambda>_. rd c) (up (\<lambda>_. Some v) c) = c"
  shows "frames R G (lookup_atomic rd up valid v m)"
proof -
  have "frames R G (with_var rd up v (durable_atomic (seqM (set_local up v) m)))"
    by (rule frames_with_var [OF frames_durable_atomic [OF frames_seq [OF frames_set_local m]] c reset])
  then show ?thesis
    using frames_throw [of G TenantContextError] frames_throw [of G ValueErr]
    by (auto simp: frames_def lookup_atomic_def)
qed

text \<open>A block that ends in an exception leaves the database as it found it, for a thread alone.\<close>

lemma atomic_rollback:
  assumes m: "frames R G m" and G: "G (ctx w)" and q: "quiet w" and run: "atomic m w = (Inl e, w')"
  shows "db w' = db w"
proof -
  have q1: "quiet (begin_block w)" and G1: "G (ctx (begin_block w))" and s: "saves (begin_block w) = db w # saves w"
    using q G by (auto simp: begin_block_def interfere_def quiet_def Let_def)
  obtain r1 w1 where m1: "m (begin_block w) = (r1, w1)" by fastforce
  have "saves w1 = db w # saves w"
    using framesD(6) [OF m G1 rely_quiet [OF R_refl q1] m1] q1 s by simp
  then show ?thesis using run m1 by (auto simp: atomic_def rollback_block_def split: sum.splits)
qed

lemma tenant_atomic_rollback:
  assumes m: "frames R G m" and G: "G (ctx w)" and q: "quiet w" and run: "tenant_atomic durable m w = (Inl e, w')"
  shows "db w' = db w"
  using run atomic_rollback [OF frames_seq [OF frames_set_local m] G q]
  by (auto simp: tenant_atomic_def durable_atomic_def split: option.splits if_splits)

lemma frame_result:
  assumes "frames R G m" "G (ctx w)" "rely R w"
  shows "R (db w) (db (snd (m w)))"
  using assms by (simp add: frames_def)

end

subsection \<open>A single thread inside a transaction\<close>

text \<open>\<open>in_tx m w\<close>: the thread acts for merchant \<open>m\<close>, inside a tenant transaction that has set the
  session variable, and nobody interferes.\<close>

definition in_tx :: "uuid \<Rightarrow> ('d, 't, 'z) world_scheme \<Rightarrow> bool" where
  "in_tx m w \<longleftrightarrow> merchant_var (ctx w) = Some m \<and> merchant_var (guc w) = Some m \<and> saves w \<noteq> [] \<and> quiet w"

lemma in_tx_update [simp]:
  "in_tx m (w\<lparr>db := d\<rparr>) = in_tx m w"
  "in_tx m (w\<lparr>ticks := n\<rparr>) = in_tx m w"
  "in_tx m (w\<lparr>row_locked := b\<rparr>) = in_tx m w"
  "in_tx m (w\<lparr>env_n := n\<rparr>) = in_tx m w"
  "in_tx m (w\<lparr>pending := p\<rparr>) = in_tx m w"
  "in_tx m (w\<lparr>queue := q\<rparr>) = in_tx m w"
  "in_tx m (tick w) = in_tx m w"
  by (simp_all add: in_tx_def quiet_def tick_def)

lemma in_txD:
  assumes "in_tx m w"
  shows "merchant_var (ctx w) = Some m" "merchant_var (guc w) = Some m" "saves w \<noteq> []" "quiet w"
  using assms by (simp_all add: in_tx_def)

lemma interfere_quiet: "quiet w \<Longrightarrow> interfere w = w\<lparr>env_n := Suc (env_n w)\<rparr>"
  by (simp add: interfere_def quiet_def)

lemma wp_now [wp_simps]: "wp now Q E w = Q (clock w (ticks w)) (tick w)"
  by (simp add: wp_def now_def)

lemma wp_merchant [wp_simps]: "wp get_current_merchant_id Q E w = Q (merchant_var (ctx w)) w"
  by (simp add: get_current_merchant_id_def wp_simps)

lemma wp_tenant_atomic:
  "wp (tenant_atomic False m) Q E w = (case merchant_var (ctx w) of
       None \<Rightarrow> E TenantContextError w
     | Some mid \<Rightarrow> wp (atomic (seqM (set_local merchant_var_update mid) m)) Q E w)"
  by (simp add: wp_def tenant_atomic_def split: option.split)

lemma guc_same: "merchant_var (guc w) = Some m \<Longrightarrow> w\<lparr>guc := guc w\<lparr>merchant_var := Some m\<rparr>\<rparr> = w"
  by (cases w; cases "guc w") simp

text \<open>A nested tenant transaction is a savepoint.\<close>

lemma wp_tenant_atomic_nested:
  assumes "merchant_var (ctx w) = Some m" "merchant_var (guc w) = Some m" "saves w \<noteq> []"
  shows "wp (tenant_atomic False p) Q E w =
    wp p (\<lambda>a w'. Q a (w'\<lparr>saves := tl (saves w')\<rparr>)) (\<lambda>e w'. E e (rollback_block w w')) (w\<lparr>saves := db w # saves w\<rparr>)"
proof -
  have b: "begin_block w = w\<lparr>saves := db w # saves w\<rparr>" using assms by (simp add: begin_block_def)
  have "w\<lparr>saves := x, guc := guc w\<lparr>merchant_var := Some m\<rparr>\<rparr> = w\<lparr>saves := x\<rparr>" for x
    using guc_same [of "w\<lparr>saves := x\<rparr>" m] assms by simp
  note nop = this
  show ?thesis
    using assms by (simp add: wp_tenant_atomic wp_simps b set_local_def commit_block_def nop)
qed

lemma wp_tenant_atomic_tx:
  "in_tx m w \<Longrightarrow> wp (tenant_atomic False p) Q E w =
    wp p (\<lambda>a w'. Q a (w'\<lparr>saves := tl (saves w')\<rparr>)) (\<lambda>e w'. E e (rollback_block w w')) (w\<lparr>saves := db w # saves w\<rparr>)"
  by (rule wp_tenant_atomic_nested) (simp_all add: in_tx_def)

end
