(* ===== verification/BillingModels.thy ===== *)
theory BillingModels
  imports Frames
begin

text \<open>
  \<open>billing/models.py\<close> and \<open>billing/exceptions.py\<close>: the five billing tables with their
  constraints, the domain errors with their HTTP mapping, and the database and world the
  billing services run in. Every access goes through the primitives at the end, which play
  the part of Django's managers: tenant scoping, \<open>save(update_fields=...)\<close>, and the check and
  unique constraints PostgreSQL enforces.
\<close>

subsection \<open>Domain errors\<close>

datatype billing_error =
    BillingProviderUnavailable
  | BillingProviderRejected "string option" "int option" "string option"
  | BillingNotConfigured
  | PlanNotAvailable
  | SubscriptionPastDue
  | SubscriptionCancelling
  | SubscriptionActivating
  | PlanChangeUnsupported
  | SubscriptionNotCancellable
  | WebhookRejected
  | InvalidWebhookPayload
  | ProviderStateUnsupported
  | SubscriptionPlanUnsupported
  | ReplacementInProgress
  | NoCreditAcknowledgementRequired
  | ReplacementActivating
  | ReplacementCommitted
  | PlanUnchanged

type_synonym berror = "billing_error exn"

text \<open>The declared \<open>http_status\<close> and \<open>code\<close>; \<open>BillingProviderRejected\<close> declares none.\<close>

fun billing_http :: "billing_error \<Rightarrow> (nat \<times> string) option" where
  "billing_http BillingProviderUnavailable = Some (502, ''billing_provider_unavailable'')"
| "billing_http (BillingProviderRejected _ _ _) = None"
| "billing_http BillingNotConfigured = Some (503, ''billing_not_configured'')"
| "billing_http PlanNotAvailable = Some (422, ''validation_error'')"
| "billing_http SubscriptionPastDue = Some (409, ''subscription_past_due'')"
| "billing_http SubscriptionCancelling = Some (409, ''subscription_cancelling'')"
| "billing_http SubscriptionActivating = Some (409, ''subscription_activating'')"
| "billing_http PlanChangeUnsupported = Some (409, ''plan_change_unsupported'')"
| "billing_http SubscriptionNotCancellable = Some (409, ''subscription_not_cancellable'')"
| "billing_http WebhookRejected = Some (401, ''invalid_signature'')"
| "billing_http InvalidWebhookPayload = Some (400, ''invalid_payload'')"
| "billing_http ProviderStateUnsupported = Some (409, ''subscription_provider_state_unsupported'')"
| "billing_http SubscriptionPlanUnsupported = Some (409, ''subscription_plan_unsupported'')"
| "billing_http ReplacementInProgress = Some (409, ''replacement_in_progress'')"
| "billing_http NoCreditAcknowledgementRequired = Some (422, ''no_credit_acknowledgement_required'')"
| "billing_http ReplacementActivating = Some (409, ''replacement_activating'')"
| "billing_http ReplacementCommitted = Some (409, ''replacement_committed'')"
| "billing_http PlanUnchanged = Some (422, ''validation_error'')"

subsection \<open>Tables\<close>

text \<open>Prices are \<open>Decimal\<close> columns with two decimal places, kept as a number of hundredths.\<close>

record plan =
  p_id :: uuid
  p_name :: string
  p_monthly_price :: int
  p_currency :: string
  p_quota_requests :: nat
  p_features_json :: "json option"
  p_provider_plan_id :: "string option"
  p_is_active :: bool

datatype sub_status = Incomplete | Active | PastDue | Cancelled | Expired

fun status_value :: "sub_status \<Rightarrow> string" where
  "status_value Incomplete = ''INCOMPLETE''"
| "status_value Active = ''ACTIVE''"
| "status_value PastDue = ''PAST_DUE''"
| "status_value Cancelled = ''CANCELLED''"
| "status_value Expired = ''EXPIRED''"

datatype retired_kind = SwitchedOld | AbandonedReplacement

record subscription =
  s_id :: uuid
  s_merchant :: uuid
  s_plan :: uuid
  s_status :: sub_status
  s_period_start :: "instant option"
  s_period_end :: "instant option"
  s_payment_ref :: "string option"
  s_pending_plan :: "uuid option"
  s_past_due_at :: "instant option"
  s_dunning_stage :: "nat option"
  s_cancel_at_period_end :: bool
  s_provider_status :: "string option"
  s_provider_synced_at :: "instant option"
  s_replacement_ref :: "string option"
  s_replacement_expires_at :: "instant option"
  s_replacement_plan :: "uuid option"
  s_replacement_committed_at :: "instant option"
  s_replacement_confirmed_at :: "instant option"
  s_retired_ref :: "string option"
  s_retired_kind :: "retired_kind option"
  s_updated_at :: instant

text \<open>The columns a \<open>save(update_fields=...)\<close> can name.\<close>

datatype sub_field =
    F_plan | F_status | F_period_start | F_period_end | F_payment_ref | F_pending_plan
  | F_past_due_at | F_dunning_stage | F_cancel_at_period_end | F_provider_status
  | F_provider_synced_at | F_replacement_ref | F_replacement_expires_at | F_replacement_plan
  | F_replacement_committed_at | F_replacement_confirmed_at | F_retired_ref | F_retired_kind
  | F_updated_at

record usage_record =
  u_merchant :: uuid
  u_period_start :: instant
  u_period_end :: instant
  u_requests_used :: nat

datatype attempt_type = Renewal | Retry
datatype attempt_status = Initiated | Succeeded | Failed

record payment_attempt =
  pa_merchant :: uuid
  pa_subscription :: uuid
  pa_provider :: string
  pa_provider_attempt_id :: string
  pa_attempt_type :: attempt_type
  pa_status :: attempt_status
  pa_attempted_at :: instant

record billing_event =
  be_merchant :: uuid
  be_provider :: string
  be_provider_event_id :: string
  be_event_type :: string
  be_provider_ref :: string
  be_created_at :: instant
  be_processed_at :: "instant option"
  be_updated_at :: instant

text \<open>\<open>auditlog/models.py\<close>.\<close>

record audit_log =
  al_merchant :: "uuid option"
  al_actor_user :: "uuid option"
  al_action :: string
  al_target_type :: "string option"
  al_target_id :: "string option"
  al_metadata :: "(string \<times> json) list"

datatype merchant_status = MActive | MSuspended | MDeleted

text \<open>
  The database. \<open>subs m\<close> is the subscription row of merchant \<open>m\<close>: \<open>UNIQUE(merchant)\<close> allows one.
  \<open>members\<close> are the accepted team memberships, as pairs of merchant and user.
\<close>

record bdb =
  plans :: "plan list"
  merchants :: "(uuid \<times> merchant_status) list"
  members :: "(uuid \<times> uuid) list"
  subs :: "uuid \<Rightarrow> subscription option"
  usage_records :: "usage_record list"
  payment_attempts :: "payment_attempt list"
  billing_events :: "billing_event list"
  audit_logs :: "audit_log list"

subsection \<open>The world of the billing services\<close>

datatype btask = SyncSubscription uuid | MaintainSubscription uuid | AdvanceDunning uuid

record billing_settings =
  key_id :: string
  key_secret :: string
  webhook_secret :: string
  total_count :: int
  upgrade_enabled :: bool
  downgrade_enabled :: bool
  upgrade_auth_window :: "int option"
  downgrade_expire_margin :: "int option"

datatype http_method = GET | POST | PATCH

record http_request =
  rq_method :: http_method
  rq_path :: string
  rq_body :: "json option"

text \<open>What \<open>urlopen\<close> does: a response whose body \<open>json.loads\<close> decodes or not, an HTTP error
  status with its body, or a transport failure.\<close>

datatype http_reply = Reply "json option" | HttpError int "json option" | TransportError

text \<open>The three module constants of \<open>billing/razorpay.py\<close> that gate the replacement flow.\<close>

record razorpay_gates =
  update_unsupported_refusals :: "(int \<times> string \<times> string) list"
  downgrade_start_field :: "string option"
  downgrade_expiry_field :: "string option"

record billing_world = "(bdb, btask) world" +
  cfg :: billing_settings
  gates :: razorpay_gates
  http :: "nat \<Rightarrow> http_request \<Rightarrow> http_reply"
  calls :: "http_request list"
  uuids :: "nat \<Rightarrow> uuid"
  uuid_n :: nat

type_synonym 'a bprog = "(billing_world, berror, 'a) prog"

text \<open>\<open>uuid.uuid4\<close>, the default of the primary keys.\<close>

definition new_uuid :: "uuid bprog" where
  "new_uuid = (\<lambda>w. (Inr (uuids w (uuid_n w)), w\<lparr>uuid_n := Suc (uuid_n w)\<rparr>))"

lemma billing_world_updates [simp]:
  "in_tx m (w\<lparr>calls := c\<rparr>) = in_tx m (w :: billing_world)"
  "in_tx m (w\<lparr>uuid_n := n\<rparr>) = in_tx m (w :: billing_world)"
  by (simp_all add: in_tx_def quiet_def)

subsection \<open>Constraints of the subscription table\<close>

text \<open>The check constraints, in the order of \<open>Subscription.Meta\<close>; SQL accepts a row for which a
  check evaluates to unknown.\<close>

fun before_or_null :: "instant option \<Rightarrow> instant option \<Rightarrow> bool" where
  "before_or_null (Some a) (Some b) = (a < b)"
| "before_or_null _ _ = True"

definition period_checks :: "subscription \<Rightarrow> bool" where
  "period_checks s \<longleftrightarrow>
     (s_status s = Incomplete \<or> s_period_start s \<noteq> None \<and> s_period_end s \<noteq> None) \<and>
     before_or_null (s_period_start s) (s_period_end s)"

definition grace_checks :: "subscription \<Rightarrow> bool" where
  "grace_checks s \<longleftrightarrow>
     (s_status s = PastDue \<longleftrightarrow> s_past_due_at s \<noteq> None) \<and>
     (s_dunning_stage s = None \<longleftrightarrow> s_past_due_at s = None) \<and>
     s_dunning_stage s \<in> {None, Some 0, Some 3, Some 6}"

definition replacement_checks :: "subscription \<Rightarrow> bool" where
  "replacement_checks s \<longleftrightarrow>
     (s_replacement_ref s = None \<or> s_replacement_ref s \<noteq> s_payment_ref s) \<and>
     (s_replacement_ref s = None \<longleftrightarrow> s_replacement_expires_at s = None) \<and>
     (s_replacement_ref s = None \<longleftrightarrow> s_replacement_plan s = None) \<and>
     (s_replacement_committed_at s = None \<or> s_replacement_ref s \<noteq> None) \<and>
     (s_replacement_confirmed_at s = None \<or> s_replacement_committed_at s \<noteq> None)"

definition retired_checks :: "subscription \<Rightarrow> bool" where
  "retired_checks s \<longleftrightarrow> (s_retired_ref s = None \<longleftrightarrow> s_retired_kind s = None)"

definition sub_checks :: "subscription \<Rightarrow> bool" where
  "sub_checks s \<longleftrightarrow> period_checks s \<and> grace_checks s \<and> replacement_checks s \<and> retired_checks s"

lemmas checks_defs = sub_checks_def period_checks_def grace_checks_def replacement_checks_def retired_checks_def

lemma checks_update [simp]:
  "period_checks (s\<lparr>s_plan := p\<rparr>) = period_checks s"
  "grace_checks (s\<lparr>s_plan := p\<rparr>) = grace_checks s"
  "replacement_checks (s\<lparr>s_plan := p\<rparr>) = replacement_checks s"
  "retired_checks (s\<lparr>s_plan := p\<rparr>) = retired_checks s"
  "period_checks (s\<lparr>s_pending_plan := q\<rparr>) = period_checks s"
  "grace_checks (s\<lparr>s_pending_plan := q\<rparr>) = grace_checks s"
  "replacement_checks (s\<lparr>s_pending_plan := q\<rparr>) = replacement_checks s"
  "retired_checks (s\<lparr>s_pending_plan := q\<rparr>) = retired_checks s"
  "period_checks (s\<lparr>s_cancel_at_period_end := b\<rparr>) = period_checks s"
  "grace_checks (s\<lparr>s_cancel_at_period_end := b\<rparr>) = grace_checks s"
  "replacement_checks (s\<lparr>s_cancel_at_period_end := b\<rparr>) = replacement_checks s"
  "retired_checks (s\<lparr>s_cancel_at_period_end := b\<rparr>) = retired_checks s"
  "period_checks (s\<lparr>s_provider_status := v\<rparr>) = period_checks s"
  "grace_checks (s\<lparr>s_provider_status := v\<rparr>) = grace_checks s"
  "replacement_checks (s\<lparr>s_provider_status := v\<rparr>) = replacement_checks s"
  "retired_checks (s\<lparr>s_provider_status := v\<rparr>) = retired_checks s"
  "period_checks (s\<lparr>s_provider_synced_at := t\<rparr>) = period_checks s"
  "grace_checks (s\<lparr>s_provider_synced_at := t\<rparr>) = grace_checks s"
  "replacement_checks (s\<lparr>s_provider_synced_at := t\<rparr>) = replacement_checks s"
  "retired_checks (s\<lparr>s_provider_synced_at := t\<rparr>) = retired_checks s"
  "period_checks (s\<lparr>s_updated_at := u\<rparr>) = period_checks s"
  "grace_checks (s\<lparr>s_updated_at := u\<rparr>) = grace_checks s"
  "replacement_checks (s\<lparr>s_updated_at := u\<rparr>) = replacement_checks s"
  "retired_checks (s\<lparr>s_updated_at := u\<rparr>) = retired_checks s"
  "replacement_checks (s\<lparr>s_status := st\<rparr>) = replacement_checks s"
  "retired_checks (s\<lparr>s_status := st\<rparr>) = retired_checks s"
  "replacement_checks (s\<lparr>s_period_start := t1\<rparr>) = replacement_checks s"
  "retired_checks (s\<lparr>s_period_start := t1\<rparr>) = retired_checks s"
  "replacement_checks (s\<lparr>s_period_end := t2\<rparr>) = replacement_checks s"
  "retired_checks (s\<lparr>s_period_end := t2\<rparr>) = retired_checks s"
  "replacement_checks (s\<lparr>s_past_due_at := t3\<rparr>) = replacement_checks s"
  "retired_checks (s\<lparr>s_past_due_at := t3\<rparr>) = retired_checks s"
  "replacement_checks (s\<lparr>s_dunning_stage := n\<rparr>) = replacement_checks s"
  "retired_checks (s\<lparr>s_dunning_stage := n\<rparr>) = retired_checks s"
  by (simp_all add: checks_defs)

text \<open>The unique constraints on the three reference columns, over all merchants.\<close>

definition column_taken :: "(subscription \<Rightarrow> string option) \<Rightarrow> uuid \<Rightarrow> subscription \<Rightarrow> bdb \<Rightarrow> bool" where
  "column_taken col m row d \<longleftrightarrow> col row \<noteq> None \<and>
     list_ex (\<lambda>(m', _). m' \<noteq> m \<and> (case subs d m' of None \<Rightarrow> False | Some s' \<Rightarrow> col s' = col row)) (merchants d)"

definition sub_unique_failure :: "uuid \<Rightarrow> subscription \<Rightarrow> bdb \<Rightarrow> string option" where
  "sub_unique_failure m row d =
     (if column_taken s_payment_ref m row d then Some ''billing_subscription_ref_uniq''
      else if column_taken s_replacement_ref m row d then Some ''billing_subscription_replacement_ref_uniq''
      else if column_taken s_retired_ref m row d then Some ''billing_subscription_retired_ref_uniq''
      else None)"

text \<open>\<open>save(update_fields=F)\<close> copies the named columns of the object in memory onto the row.\<close>

definition write_fields :: "sub_field set \<Rightarrow> subscription \<Rightarrow> subscription \<Rightarrow> subscription" where
  "write_fields F s row = row\<lparr>
     s_plan := if F_plan \<in> F then s_plan s else s_plan row,
     s_status := if F_status \<in> F then s_status s else s_status row,
     s_period_start := if F_period_start \<in> F then s_period_start s else s_period_start row,
     s_period_end := if F_period_end \<in> F then s_period_end s else s_period_end row,
     s_payment_ref := if F_payment_ref \<in> F then s_payment_ref s else s_payment_ref row,
     s_pending_plan := if F_pending_plan \<in> F then s_pending_plan s else s_pending_plan row,
     s_past_due_at := if F_past_due_at \<in> F then s_past_due_at s else s_past_due_at row,
     s_dunning_stage := if F_dunning_stage \<in> F then s_dunning_stage s else s_dunning_stage row,
     s_cancel_at_period_end := if F_cancel_at_period_end \<in> F then s_cancel_at_period_end s else s_cancel_at_period_end row,
     s_provider_status := if F_provider_status \<in> F then s_provider_status s else s_provider_status row,
     s_provider_synced_at := if F_provider_synced_at \<in> F then s_provider_synced_at s else s_provider_synced_at row,
     s_replacement_ref := if F_replacement_ref \<in> F then s_replacement_ref s else s_replacement_ref row,
     s_replacement_expires_at := if F_replacement_expires_at \<in> F then s_replacement_expires_at s else s_replacement_expires_at row,
     s_replacement_plan := if F_replacement_plan \<in> F then s_replacement_plan s else s_replacement_plan row,
     s_replacement_committed_at := if F_replacement_committed_at \<in> F then s_replacement_committed_at s else s_replacement_committed_at row,
     s_replacement_confirmed_at := if F_replacement_confirmed_at \<in> F then s_replacement_confirmed_at s else s_replacement_confirmed_at row,
     s_retired_ref := if F_retired_ref \<in> F then s_retired_ref s else s_retired_ref row,
     s_retired_kind := if F_retired_kind \<in> F then s_retired_kind s else s_retired_kind row,
     s_updated_at := if F_updated_at \<in> F then s_updated_at s else s_updated_at row\<rparr>"

end
