(* ===== verification/BillingStore.thy ===== *)
theory BillingStore
  imports BillingModels
begin

text \<open>
  The statements the billing services issue against their tables, as Django and PostgreSQL run
  them: tenant-scoped reads, locking reads, \<open>save\<close>, conditional \<open>update\<close>, inserts under unique
  and check constraints, and the audit row of \<open>auditlog/services.py\<close>. The locale at the end is
  the contract a frame relation has to meet on these statements.
\<close>

subsection \<open>Reads\<close>

text \<open>A query through \<open>TenantScopedManager\<close>: the rows of the current merchant, or
  \<open>TenantContextError\<close> without one.\<close>

definition query :: "(uuid \<Rightarrow> bdb \<Rightarrow> 'a) \<Rightarrow> 'a bprog" where
  "query f = (\<lambda>w. case merchant_var (ctx w) of
     None \<Rightarrow> (Inl TenantContextError, w) | Some m \<Rightarrow> (Inr (f m (db w)), w))"

definition sub_first :: "subscription option bprog" where
  "sub_first = query (\<lambda>m d. subs d m)"

definition sub_get :: "uuid \<Rightarrow> subscription bprog" where
  "sub_get pk = bindM sub_first (\<lambda>r. case r of
     None \<Rightarrow> throw DoesNotExist | Some s \<Rightarrow> if s_id s = pk then ret s else throw DoesNotExist)"

text \<open>\<open>Plan\<close> is global reference data: no tenant filter.\<close>

definition plan_by_id :: "bdb \<Rightarrow> uuid \<Rightarrow> plan option" where
  "plan_by_id d i = first (\<lambda>p. p_id p = i) (plans d)"

definition plan_by_provider_id :: "bdb \<Rightarrow> string \<Rightarrow> plan option" where
  "plan_by_provider_id d i = first (\<lambda>p. p_provider_plan_id p = Some i) (plans d)"

text \<open>Following the foreign key \<open>plan\<close> of a row.\<close>

definition get_plan :: "uuid \<Rightarrow> plan bprog" where
  "get_plan i = (\<lambda>w. case plan_by_id (db w) i of None \<Rightarrow> (Inl DoesNotExist, w) | Some p \<Rightarrow> (Inr p, w))"

definition same_period_row :: "uuid \<Rightarrow> instant \<Rightarrow> instant \<Rightarrow> usage_record \<Rightarrow> bool" where
  "same_period_row m a b u \<longleftrightarrow> u_merchant u = m \<and> u_period_start u = a \<and> u_period_end u = b"

definition usage_of :: "bdb \<Rightarrow> uuid \<Rightarrow> instant \<Rightarrow> instant \<Rightarrow> usage_record option" where
  "usage_of d m a b = first (same_period_row m a b) (usage_records d)"

subsection \<open>Writes to the subscription row\<close>

definition put_sub :: "uuid \<Rightarrow> subscription \<Rightarrow> bdb \<Rightarrow> bdb" where
  "put_sub m s d = d\<lparr>subs := (subs d)(m := Some s)\<rparr>"

text \<open>The \<open>WITH CHECK\<close> clause of the row-level-security policies of \<open>core/rls.py\<close>: a row can only be
  written for the current merchant.\<close>

definition rls_check :: "uuid \<Rightarrow> unit bprog" where
  "rls_check m = (\<lambda>w. if merchant_var (ctx w) = Some m then (Inr (), w) else (Inl DatabaseErr, w))"

text \<open>The current merchant's row becomes \<open>row'\<close>: the \<open>WITH CHECK\<close> of the row-level-security policy,
  the check constraints and the unique constraints decide.\<close>

definition update_row :: "uuid \<Rightarrow> subscription \<Rightarrow> unit bprog" where
  "update_row m row' = (\<lambda>w.
     if s_merchant row' \<noteq> m then (Inl DatabaseErr, w)
     else if \<not> sub_checks row' then (Inl CheckViolation, w)
     else case sub_unique_failure m row' (db w) of
       Some c \<Rightarrow> (Inl (UniqueViolation c), w)
     | None \<Rightarrow> (Inr (), w\<lparr>db := put_sub m row' (db w)\<rparr>))"

text \<open>\<open>sub.save(update_fields=F)\<close>: \<open>auto_now\<close> stamps \<open>updated_at\<close> when it is among the fields. An
  update that matches no row is a \<open>DatabaseError\<close>; row-level security hides other merchants' rows.\<close>

definition save_sub :: "sub_field set \<Rightarrow> subscription \<Rightarrow> subscription bprog" where
  "save_sub F s =
     bindM (if F_updated_at \<in> F then bindM now (\<lambda>t. ret (s\<lparr>s_updated_at := t\<rparr>)) else ret s) (\<lambda>s'.
     bindM (query (\<lambda>m d. if m = s_merchant s then subs d m else None)) (\<lambda>row. case row of
       None \<Rightarrow> throw DatabaseErr
     | Some r \<Rightarrow> if s_id r \<noteq> s_id s then throw DatabaseErr
               else seqM (update_row (s_merchant s) (write_fields F s' r)) (ret s')))"

text \<open>\<open>filter(pk=..., cond).update(...)\<close>: whether a row matched.\<close>

definition update_sub_where ::
  "(subscription \<Rightarrow> bool) \<Rightarrow> (subscription \<Rightarrow> subscription) \<Rightarrow> bool bprog" where
  "update_sub_where cond f =
     bindM (query (\<lambda>m d. (m, subs d m))) (\<lambda>(m, row). case row of
       None \<Rightarrow> ret False
     | Some r \<Rightarrow> if cond r then seqM (update_row m (f r)) (ret True) else ret False)"

definition create_sub :: "subscription \<Rightarrow> unit bprog" where
  "create_sub s = bindM (query (\<lambda>m d. (m, subs d m))) (\<lambda>(m, row).
     if row \<noteq> None then throw (UniqueViolation ''billing_subscription_merchant_uniq'')
     else update_row m s)"

text \<open>An insert waits for a concurrent insert of the same key to commit or abort.\<close>

definition insert_wait :: "unit bprog" where
  "insert_wait = modifyM interfere"

text \<open>\<open>_lock_subscription\<close> of \<open>billing/services.py\<close>: the subscription row lock, then that of the
  current usage record.\<close>

definition lock_subscription :: "uuid \<Rightarrow> subscription bprog" where
  "lock_subscription pk = seqM take_row_lock (sub_get pk)"

subsection \<open>Usage, payments, events, audit\<close>

definition create_usage :: "uuid \<Rightarrow> instant \<Rightarrow> instant \<Rightarrow> usage_record bprog" where
  "create_usage m a b = seqM (rls_check m) (\<lambda>w.
     if usage_of (db w) m a b \<noteq> None then (Inl (UniqueViolation ''billing_usagerecord_period_uniq''), w)
     else if \<not> a < b then (Inl CheckViolation, w)
     else let u = \<lparr>u_merchant = m, u_period_start = a, u_period_end = b, u_requests_used = 0\<rparr> in
       (Inr u, w\<lparr>db := (db w)\<lparr>usage_records := usage_records (db w) @ [u]\<rparr>\<rparr>))"

definition increment_usage :: "instant \<Rightarrow> instant \<Rightarrow> unit bprog" where
  "increment_usage a b = bindM (query (\<lambda>m d. m)) (\<lambda>m. modifyM (\<lambda>w. w\<lparr>db := (db w)\<lparr>usage_records :=
     map (\<lambda>u. if same_period_row m a b u then u\<lparr>u_requests_used := Suc (u_requests_used u)\<rparr> else u)
       (usage_records (db w))\<rparr>\<rparr>))"

text \<open>\<open>PaymentAttempt.objects.create\<close>: the id column holds 64 characters, is unique per provider,
  and starts with \<open>pay_\<close>.\<close>

definition create_payment :: "payment_attempt \<Rightarrow> unit bprog" where
  "create_payment p = seqM (rls_check (pa_merchant p)) (\<lambda>w.
     if 64 < length (pa_provider_attempt_id p) then (Inl DataErr, w)
     else if take 4 (pa_provider_attempt_id p) \<noteq> ''pay_'' then (Inl CheckViolation, w)
     else if list_ex (\<lambda>q. pa_provider q = pa_provider p \<and> pa_provider_attempt_id q = pa_provider_attempt_id p)
               (payment_attempts (db w))
     then (Inl (UniqueViolation ''billing_paymentattempt_provider_uniq''), w)
     else (Inr (), w\<lparr>db := (db w)\<lparr>payment_attempts := payment_attempts (db w) @ [p]\<rparr>\<rparr>))"

definition create_event :: "billing_event \<Rightarrow> unit bprog" where
  "create_event e = seqM (rls_check (be_merchant e)) (\<lambda>w.
     if list_ex (\<lambda>q. be_provider q = be_provider e \<and> be_provider_event_id q = be_provider_event_id e)
          (billing_events (db w))
     then (Inl (UniqueViolation ''billing_billingevent_provider_uniq''), w)
     else (Inr (), w\<lparr>db := (db w)\<lparr>billing_events := billing_events (db w) @ [e]\<rparr>\<rparr>))"

text \<open>\<open>BillingEvent.objects.filter(processed_at__isnull=True, ...).update(processed_at=stamp,
  updated_at=stamp)\<close>.\<close>

definition mark_event :: "uuid \<Rightarrow> (billing_event \<Rightarrow> bool) \<Rightarrow> instant \<Rightarrow> billing_event \<Rightarrow> billing_event" where
  "mark_event m cond stamp e =
     (if be_merchant e = m \<and> be_processed_at e = None \<and> cond e
      then e\<lparr>be_processed_at := Some stamp, be_updated_at := stamp\<rparr> else e)"

definition mark_events :: "(billing_event \<Rightarrow> bool) \<Rightarrow> instant \<Rightarrow> unit bprog" where
  "mark_events cond stamp = bindM (query (\<lambda>m d. m)) (\<lambda>m.
     modifyM (\<lambda>w. w\<lparr>db := (db w)\<lparr>billing_events := map (mark_event m cond stamp) (billing_events (db w))\<rparr>\<rparr>))"

text \<open>\<open>record()\<close> of \<open>auditlog/services.py\<close>: the merchant comes from the context; an actor who is no
  accepted member is refused.\<close>

definition record_audit ::
  "string \<Rightarrow> uuid option \<Rightarrow> string option \<Rightarrow> string option \<Rightarrow> (string \<times> json) list \<Rightarrow> unit bprog" where
  "record_audit action actor target_type target_id metadata =
     tenant_atomic False (bindM (query (\<lambda>m d. (m, members d))) (\<lambda>(m, ms).
       case actor of
         Some u \<Rightarrow> if (m, u) \<notin> set ms then throw ActorNotMember
                  else modifyM (\<lambda>w. w\<lparr>db := (db w)\<lparr>audit_logs := audit_logs (db w) @
                    [\<lparr>al_merchant = Some m, al_actor_user = Some u, al_action = action, al_target_type = target_type,
                      al_target_id = target_id, al_metadata = metadata\<rparr>]\<rparr>\<rparr>)
       | None \<Rightarrow> modifyM (\<lambda>w. w\<lparr>db := (db w)\<lparr>audit_logs := audit_logs (db w) @
                    [\<lparr>al_merchant = Some m, al_actor_user = None, al_action = action, al_target_type = target_type,
                      al_target_id = target_id, al_metadata = metadata\<rparr>]\<rparr>\<rparr>)))"

text \<open>\<open>_audit\<close> of \<open>billing/services.py\<close>.\<close>

definition audit :: "string \<Rightarrow> subscription \<Rightarrow> uuid option \<Rightarrow> (string \<times> json) list \<Rightarrow> unit bprog" where
  "audit action s actor metadata =
     record_audit action actor (Some ''billing.subscription'') (Some (s_id s)) metadata"

subsection \<open>Evaluation inside a transaction\<close>

definition audit_row :: "uuid \<Rightarrow> string \<Rightarrow> subscription \<Rightarrow> uuid option \<Rightarrow> (string \<times> json) list \<Rightarrow> audit_log" where
  "audit_row m action s actor md = \<lparr>al_merchant = Some m, al_actor_user = actor, al_action = action,
     al_target_type = Some ''billing.subscription'', al_target_id = Some (s_id s), al_metadata = md\<rparr>"

definition add_audit :: "audit_log \<Rightarrow> bdb \<Rightarrow> bdb" where
  "add_audit a d = d\<lparr>audit_logs := audit_logs d @ [a]\<rparr>"

definition actor_ok :: "uuid \<Rightarrow> uuid option \<Rightarrow> bdb \<Rightarrow> bool" where
  "actor_ok m actor d \<longleftrightarrow> (case actor of None \<Rightarrow> True | Some u \<Rightarrow> (m, u) \<in> set (members d))"

lemma run_query: "merchant_var (ctx w) = Some m \<Longrightarrow> query f w = (Inr (f m (db w)), w)"
  by (simp add: query_def)

lemma run_query_tx [simp]: "in_tx m w \<Longrightarrow> query f w = (Inr (f m (db w)), w)"
  by (simp add: query_def in_tx_def)

lemma run_sub_first [simp]: "in_tx m w \<Longrightarrow> sub_first w = (Inr (subs (db w) m), w)"
  by (simp add: sub_first_def)

lemma run_audit [simp]:
  assumes "in_tx m w"
  shows "audit action s actor md w =
    (if actor_ok m actor (db w) then (Inr (), w\<lparr>db := add_audit (audit_row m action s actor md) (db w)\<rparr>)
     else (Inl ActorNotMember, w))"
proof -
  have g: "merchant_var (ctx w) = Some m" "merchant_var (guc w) = Some m" "saves w \<noteq> []"
    using assms by (simp_all add: in_tx_def)
  have b: "begin_block w = w\<lparr>saves := db w # saves w\<rparr>" using g by (simp add: begin_block_def)
  have gs: "w\<lparr>saves := x, guc := guc w\<lparr>merchant_var := Some m\<rparr>\<rparr> = w\<lparr>saves := x\<rparr>" for x
    using g guc_same [of "w\<lparr>saves := x\<rparr>" m] by simp
  show ?thesis
    using g by (cases actor)
      (auto simp: audit_def record_audit_def tenant_atomic_def atomic_def b run_seq run_bind set_local_def gs
        query_def commit_block_def rollback_block_def actor_ok_def add_audit_def audit_row_def)
qed

lemma write_fields_ids [simp]:
  "s_id (write_fields F s r) = s_id r" "s_merchant (write_fields F s r) = s_merchant r"
  by (simp_all add: write_fields_def)

definition stamped :: "sub_field set \<Rightarrow> billing_world \<Rightarrow> subscription \<Rightarrow> subscription" where
  "stamped F w s = (if F_updated_at \<in> F then s\<lparr>s_updated_at := clock w (ticks w)\<rparr> else s)"

definition save_tick :: "sub_field set \<Rightarrow> billing_world \<Rightarrow> billing_world" where
  "save_tick F w = (if F_updated_at \<in> F then tick w else w)"

lemma in_tx_save_tick [simp]: "in_tx m (save_tick F w) = in_tx m w"
  by (simp add: save_tick_def)

lemma tick_fields [simp]:
  "db (tick w) = db w" "saves (tick w) = saves w" "ctx (tick w) = ctx w" "guc (tick w) = guc w"
  "clock (tick w) = clock w" "env (tick w) = env w" "row_locked (tick w) = row_locked w"
  "pending (tick w) = pending w" "queue (tick w) = queue w" "ticks (tick w) = Suc (ticks w)"
  by (simp_all add: tick_def)

lemma tick_billing_fields [simp]:
  "cfg (tick w) = cfg w" "gates (tick w) = gates w" "http (tick w) = http w" "calls (tick w) = calls w"
  by (simp_all add: tick_def)

lemma save_tick_fields [simp]:
  "db (save_tick F w) = db w" "calls (save_tick F w) = calls w" "gates (save_tick F w) = gates w"
  "cfg (save_tick F w) = cfg w" "http (save_tick F w) = http w" "saves (save_tick F w) = saves w"
  "clock (save_tick F w) = clock w" "queue (save_tick F w) = queue w"
  by (simp_all add: save_tick_def)

lemma run_save_sub:
  assumes "in_tx m w" "subs (db w) m = Some r" "s_merchant s = m" "s_merchant r = m" "s_id r = s_id s"
  shows "save_sub F s w =
    (let row' = write_fields F (stamped F w s) r; w' = save_tick F w in
     if \<not> sub_checks row' then (Inl CheckViolation, w')
     else case sub_unique_failure m row' (db w) of
       Some c \<Rightarrow> (Inl (UniqueViolation c), w')
     | None \<Rightarrow> (Inr (stamped F w s), w'\<lparr>db := put_sub m row' (db w)\<rparr>))"
proof -
  have g: "merchant_var (ctx w) = Some m" using assms by (simp add: in_tx_def)
  show ?thesis
    using assms(2-) g
    by (cases "F_updated_at \<in> F")
      (simp_all add: save_sub_def run_bind run_seq now_def query_def update_row_def Let_def
        stamped_def save_tick_def split: option.splits)
qed

subsection \<open>The contract of a frame relation\<close>

text \<open>
  What a preorder has to satisfy on the single statements, so that every billing operation
  respects it. \<open>G\<close> is what is known of the thread's ContextVars.
\<close>

locale billing_frame = db_frame R for R :: "bdb \<Rightarrow> bdb \<Rightarrow> bool" +
  fixes G :: "ctxvars \<Rightarrow> bool"
  assumes R_put_sub: "G c \<Longrightarrow> merchant_var c = Some m \<Longrightarrow> sub_checks s \<Longrightarrow> sub_unique_failure m s d = None \<Longrightarrow>
      s_merchant s = m \<Longrightarrow> R d (put_sub m s d)"
    and R_create_usage: "G c \<Longrightarrow> merchant_var c = Some m \<Longrightarrow> usage_of d m a b = None \<Longrightarrow> a < b \<Longrightarrow>
      R d (d\<lparr>usage_records := usage_records d @
        [\<lparr>u_merchant = m, u_period_start = a, u_period_end = b, u_requests_used = 0\<rparr>]\<rparr>)"
    and R_increment: "G c \<Longrightarrow> merchant_var c = Some m \<Longrightarrow> R d (d\<lparr>usage_records :=
      map (\<lambda>u. if same_period_row m a b u then u\<lparr>u_requests_used := Suc (u_requests_used u)\<rparr> else u) (usage_records d)\<rparr>)"
    and R_payment: "G c \<Longrightarrow> merchant_var c = Some (pa_merchant p) \<Longrightarrow> length (pa_provider_attempt_id p) \<le> 64 \<Longrightarrow>
      \<not> list_ex (\<lambda>q. pa_provider q = pa_provider p \<and> pa_provider_attempt_id q = pa_provider_attempt_id p)
        (payment_attempts d) \<Longrightarrow> R d (d\<lparr>payment_attempts := payment_attempts d @ [p]\<rparr>)"
    and R_event: "G c \<Longrightarrow> merchant_var c = Some (be_merchant e) \<Longrightarrow>
      \<not> list_ex (\<lambda>q. be_provider q = be_provider e \<and> be_provider_event_id q = be_provider_event_id e)
        (billing_events d) \<Longrightarrow> R d (d\<lparr>billing_events := billing_events d @ [e]\<rparr>)"
    and R_mark: "G c \<Longrightarrow> merchant_var c = Some m \<Longrightarrow>
      R d (d\<lparr>billing_events := map (mark_event m cond stamp) (billing_events d)\<rparr>)"
    and R_audit: "G c \<Longrightarrow> merchant_var c = Some m \<Longrightarrow> al_merchant entry = Some m \<Longrightarrow> R d (add_audit entry d)"
begin

lemma frames_query [frame_intros]: "frames R H (query f)"
  by (rule frames_pure) (simp add: query_def Let_def split: option.split)

lemma frames_sub_first [frame_intros]: "frames R G sub_first"
  unfolding sub_first_def by (rule frames_query)

lemma frames_new_uuid [frame_intros]: "frames R G new_uuid"
  by (rule frames_pure) (simp add: new_uuid_def Let_def)

lemma frames_insert_wait [frame_intros]: "frames R G insert_wait"
  by (rule framesI) (auto simp: insert_wait_def interfere_frame)

lemma frames_get_plan [frame_intros]: "frames R G (get_plan i)"
  by (rule frames_pure) (simp add: get_plan_def Let_def split: option.split)

lemma frames_sub_get [frame_intros]: "frames R G (sub_get pk)"
  unfolding sub_get_def by (intro frame_intros)

lemma frames_lock_subscription [frame_intros]: "frames R G (lock_subscription pk)"
  unfolding lock_subscription_def by (intro frame_intros)

lemma frames_mark_events [frame_intros]: "frames R G (mark_events cond stamp)"
  by (rule framesI)
    (auto simp: mark_events_def run_bind query_def saves_refl R_refl R_mark split: option.splits)

lemma frames_increment_usage [frame_intros]: "frames R G (increment_usage a b)"
  by (rule framesI)
    (auto simp: increment_usage_def run_bind query_def saves_refl R_refl R_increment split: option.splits)

lemma frames_rls_check [frame_intros]: "frames R G (rls_check m)"
  by (rule frames_pure) (simp add: rls_check_def Let_def)

lemma frames_create_usage [frame_intros]: "frames R G (create_usage m a b)"
  by (rule framesI)
    (auto simp: create_usage_def run_seq rls_check_def saves_refl R_refl R_create_usage Let_def split: if_splits)

lemma frames_create_payment [frame_intros]: "frames R G (create_payment p)"
  by (rule framesI)
    (auto simp: create_payment_def run_seq rls_check_def saves_refl R_refl R_payment split: if_splits)

lemma frames_create_event [frame_intros]: "frames R G (create_event e)"
  by (rule framesI)
    (auto simp: create_event_def run_seq rls_check_def saves_refl R_refl R_event split: if_splits)

lemma frames_tenant_step:
  assumes "\<And>m d. frames R (\<lambda>c. G c \<and> merchant_var c = Some m) (f (g m d))"
  shows "frames R G (bindM (query g) f)"
proof (rule framesI)
  fix w r w'
  assume G: "G (ctx w)" and rel: "rely R w" and run: "bindM (query g) f w = (r, w')"
  show "ctx w' = ctx w \<and> env w' = env w \<and> R (db w) (db w') \<and> list_all2 R (saves w) (saves w') \<and> (quiet w \<longrightarrow> saves w' = saves w)"
  proof (cases "merchant_var (ctx w)")
    case None
    with run show ?thesis by (auto simp: run_bind query_def R_refl saves_refl)
  next
    case (Some m)
    with run have "f (g m (db w)) w = (r, w')" by (simp add: run_bind query_def)
    from framesD [OF assms _ rel this] G Some show ?thesis by simp
  qed
qed

lemma frames_weaken: "frames R G m \<Longrightarrow> (\<And>c. G' c \<Longrightarrow> G c) \<Longrightarrow> frames R G' m"
  by (simp add: frames_def)

lemma frames_update_row:
  "frames R (\<lambda>c. G c \<and> merchant_var c = Some m) (update_row m row')"
  by (rule framesI)
    (auto simp: update_row_def R_refl saves_refl R_put_sub split: if_splits option.splits)

lemma frames_save_sub [frame_intros]: "frames R G (save_sub F s)"
proof -
  have "frames R (\<lambda>c. G c \<and> merchant_var c = Some m)
      (case (if m = s_merchant s then subs d m else None) of
         None \<Rightarrow> throw DatabaseErr
       | Some r \<Rightarrow> if s_id r \<noteq> s_id s then throw DatabaseErr
                 else seqM (update_row (s_merchant s) (write_fields F s' r)) (ret s'))" for m d s'
  proof (cases "m = s_merchant s")
    case True
    have "frames R (\<lambda>c. G c \<and> merchant_var c = Some m) (update_row (s_merchant s) x)" for x
      using frames_update_row [of "s_merchant s"] True by simp
    then show ?thesis by (intro frame_intros)
  qed (simp add: frames_throw)
  then have "frames R G (bindM (query (\<lambda>m d. if m = s_merchant s then subs d m else None)) (\<lambda>row. case row of
         None \<Rightarrow> throw DatabaseErr
       | Some r \<Rightarrow> if s_id r \<noteq> s_id s then throw DatabaseErr
                 else seqM (update_row (s_merchant s) (write_fields F s' r)) (ret s')))" for s'
    by (rule frames_tenant_step)
  note body = this
  show ?thesis
    unfolding save_sub_def by (rule frames_bind) (intro frame_intros, rule body)
qed

lemma frames_update_sub_where [frame_intros]: "frames R G (update_sub_where cond f)"
  unfolding update_sub_where_def
  by (rule frames_tenant_step, simp, intro frame_intros frames_update_row)

lemma frames_create_sub [frame_intros]: "frames R G (create_sub s)"
proof -
  have "frames R (\<lambda>c. G c \<and> merchant_var c = Some m) (case (m, subs d m) of (m, row) \<Rightarrow>
     if row \<noteq> None then throw (UniqueViolation ''billing_subscription_merchant_uniq'') else update_row m s)" for m d
    by (simp add: frames_throw frames_update_row)
  then show ?thesis
    unfolding create_sub_def by (rule frames_tenant_step)
qed

lemma frames_record_audit [frame_intros]: "frames R G (record_audit action actor tt ti md)"
proof -
  have app: "frames R (\<lambda>c. G c \<and> merchant_var c = Some m)
      (modifyM (\<lambda>w :: billing_world. w\<lparr>db := (db w)\<lparr>audit_logs := audit_logs (db w) @ [e]\<rparr>\<rparr>))"
    if "al_merchant e = Some m" for m e
    using that by (intro frames_modify) (auto simp: add_audit_def [symmetric] intro: R_audit)
  show ?thesis
    unfolding record_audit_def
    by (intro frames_tenant_atomic frames_tenant_step) (auto simp: frames_throw app split: option.split)
qed

lemma frames_audit [frame_intros]: "frames R G (audit action s actor md)"
  unfolding audit_def by (rule frames_record_audit)

end

text \<open>The trivial relation is a frame: its consequence is that every operation keeps the stack of
  savepoints, so that a rollback restores what the block found.\<close>

interpretation stack: billing_frame "\<lambda>_ _. True" "\<lambda>_. True"
  by unfold_locales auto

end
