(* ===== verification/Sha256.thy ===== *)
theory Sha256
  imports "HOL-Library.Word"
begin

text \<open>
  What the code uses of \<open>hashlib\<close> and \<open>hmac\<close>: SHA-256 (FIPS 180-4) and HMAC-SHA-256 (RFC 2104)
  over byte strings, with the lower-case hexadecimal digest. A byte is an 8-bit word, a byte
  string the text of its characters.
\<close>

unbundle bit_operations_syntax

definition rotr32 :: "nat \<Rightarrow> 32 word \<Rightarrow> 32 word" where
  "rotr32 n x = (drop_bit n x) OR (push_bit (32 - n) x)"

definition sha256_k :: "32 word list" where
  "sha256_k = [
    1116352408, 1899447441, 3049323471, 3921009573, 961987163, 1508970993, 2453635748, 2870763221,
    3624381080, 310598401, 607225278, 1426881987, 1925078388, 2162078206, 2614888103, 3248222580,
    3835390401, 4022224774, 264347078, 604807628, 770255983, 1249150122, 1555081692, 1996064986,
    2554220882, 2821834349, 2952996808, 3210313671, 3336571891, 3584528711, 113926993, 338241895,
    666307205, 773529912, 1294757372, 1396182291, 1695183700, 1986661051, 2177026350, 2456956037,
    2730485921, 2820302411, 3259730800, 3345764771, 3516065817, 3600352804, 4094571909, 275423344,
    430227734, 506948616, 659060556, 883997877, 958139571, 1322822218, 1537002063, 1747873779,
    1955562222, 2024104815, 2227730452, 2361852424, 2428436474, 2756734187, 3204031479, 3329325298]"

definition sha256_init :: "32 word list" where
  "sha256_init = [1779033703, 3144134277, 1013904242, 2773480762,
                  1359893119, 2600822924, 528734635, 1541459225]"

definition be32 :: "8 word list \<Rightarrow> 32 word" where
  "be32 bs = foldl (\<lambda>acc b. push_bit 8 acc OR ucast b) 0 bs"

definition bytes32 :: "32 word \<Rightarrow> 8 word list" where
  "bytes32 w = [ucast (drop_bit 24 w), ucast (drop_bit 16 w), ucast (drop_bit 8 w), ucast w]"

fun chunks :: "nat \<Rightarrow> 'a list \<Rightarrow> 'a list list" where
  "chunks n xs = (if n = 0 \<or> xs = [] then [] else take n xs # chunks n (drop n xs))"

declare chunks.simps [simp del]

definition sha256_pad :: "8 word list \<Rightarrow> 8 word list" where
  "sha256_pad bs = (let n = length bs; z = (119 - n mod 64) mod 64; bits = 8 * n in
     bs @ [0x80] @ replicate z 0 @ bytes32 (of_nat (bits div 2 ^ 32)) @ bytes32 (of_nat bits))"

text \<open>The message schedule, newest word first.\<close>

fun schedule :: "nat \<Rightarrow> 32 word list \<Rightarrow> 32 word list" where
  "schedule 0 ws = ws"
| "schedule (Suc k) ws = (let w2 = ws ! 1; w7 = ws ! 6; w15 = ws ! 14; w16 = ws ! 15;
     s0 = (rotr32 7 w15) XOR (rotr32 18 w15) XOR (drop_bit 3 w15);
     s1 = (rotr32 17 w2) XOR (rotr32 19 w2) XOR (drop_bit 10 w2)
   in schedule k ((w16 + s0 + w7 + s1) # ws))"

fun sha256_round :: "32 word list \<Rightarrow> 32 word \<times> 32 word \<Rightarrow> 32 word list" where
  "sha256_round [a, b, c, d, e, f, g, h] (k, w) = (let
     t1 = h + ((rotr32 6 e) XOR (rotr32 11 e) XOR (rotr32 25 e)) + ((e AND f) XOR (NOT e AND g)) + k + w;
     t2 = ((rotr32 2 a) XOR (rotr32 13 a) XOR (rotr32 22 a)) + ((a AND b) XOR (a AND c) XOR (b AND c))
   in [t1 + t2, a, b, c, d + t1, e, f, g])"
| "sha256_round st _ = st"

definition sha256_block :: "32 word list \<Rightarrow> 8 word list \<Rightarrow> 32 word list" where
  "sha256_block st block = (let ws = rev (schedule 48 (rev (map be32 (chunks 4 block)))) in
     map2 (+) st (foldl sha256_round st (zip sha256_k ws)))"

definition sha256 :: "8 word list \<Rightarrow> 8 word list" where
  "sha256 bs = concat (map bytes32 (foldl sha256_block sha256_init (chunks 64 (sha256_pad bs))))"

definition hmac_sha256 :: "8 word list \<Rightarrow> 8 word list \<Rightarrow> 8 word list" where
  "hmac_sha256 key msg = (let k0 = (if 64 < length key then sha256 key else key);
       k = k0 @ replicate (64 - length k0) 0
     in sha256 (map ((XOR) 0x5c) k @ sha256 (map ((XOR) 0x36) k @ msg)))"

definition text_bytes :: "string \<Rightarrow> 8 word list" where
  "text_bytes s = map (\<lambda>c. of_nat (of_char c)) s"

definition hex_digit :: "nat \<Rightarrow> char" where
  "hex_digit n = ''0123456789abcdef'' ! n"

definition hexdigest :: "8 word list \<Rightarrow> string" where
  "hexdigest bs = concat (map (\<lambda>b. [hex_digit (unat (drop_bit 4 b)), hex_digit (unat (b AND 15))]) bs)"

lemma round_length: "length (sha256_round st kw) = length st"
  by (cases "(st, kw)" rule: sha256_round.cases) (simp_all add: Let_def)

lemma foldl_round_length: "length (foldl sha256_round st kws) = length st"
  by (induction kws arbitrary: st) (simp_all add: round_length)

lemma foldl_block_length: "length (foldl sha256_block st blocks) = length st"
  by (induction blocks arbitrary: st) (simp_all add: sha256_block_def Let_def foldl_round_length)

lemma concat_fixed_length: "(\<And>x. length (f x) = n) \<Longrightarrow> length (concat (map f xs)) = length xs * n"
  by (induction xs) simp_all

lemma sha256_length [simp]: "length (sha256 bs) = 32"
  by (simp add: sha256_def concat_fixed_length [of bytes32 4] bytes32_def foldl_block_length sha256_init_def)

lemma hmac_sha256_length [simp]: "length (hmac_sha256 k m) = 32"
  by (simp add: hmac_sha256_def Let_def)

lemma hexdigest_length [simp]: "length (hexdigest bs) = 2 * length bs"
  unfolding hexdigest_def by (subst concat_fixed_length [where n = 2]) simp_all

end
