(* ===== verification/Razorpay.thy ===== *)
theory Razorpay
  imports BillingStore Sha256
begin

text \<open>
  \<open>billing/razorpay.py\<close>, the only module that talks to the payment provider: one request
  function with its error mapping, and one function per provider operation. What the provider
  answers is the field \<open>http\<close> of the world, a function of the number of the call and of the
  request, so that every answer sequence is possible.
\<close>

subsection \<open>Requests\<close>

definition check_ref :: "string \<Rightarrow> string bprog" where
  "check_ref ref = (if is_valid_billing_ref ref then ret ref else throw ValueErr)"

definition provider_error_code :: "json option \<Rightarrow> string option" where
  "provider_error_code body = (case body of
     None \<Rightarrow> None
   | Some b \<Rightarrow> (case as_str (jget ''code'' (jget ''error'' b)) of
       None \<Rightarrow> None | Some c \<Rightarrow> if length c \<le> 64 then Some c else None))"

definition reason_char :: "char \<Rightarrow> bool" where
  "reason_char c \<longleftrightarrow> word_char c \<or> c \<in> set ''.:-''"

definition provider_error_reason :: "json option \<Rightarrow> string option" where
  "provider_error_reason body = (case body of
     None \<Rightarrow> None
   | Some b \<Rightarrow> (case as_str (jget ''reason'' (jget ''error'' b)) of
       None \<Rightarrow> None
     | Some r \<Rightarrow> if 1 \<le> length r \<and> length r \<le> 64 \<and> list_all reason_char r then Some r else None))"

text \<open>\<open>urlopen\<close>: the call is recorded; outside every transaction others commit meanwhile.\<close>

definition urlopen :: "http_request \<Rightarrow> http_reply bprog" where
  "urlopen rq = (\<lambda>w. let w' = (if saves w = [] then interfere w else w) in
     (Inr (http w (length (calls w)) rq), w'\<lparr>calls := calls w' @ [rq]\<rparr>))"

definition request :: "http_method \<Rightarrow> string \<Rightarrow> json option \<Rightarrow> json bprog" where
  "request method path body = bindM (asks cfg) (\<lambda>c.
     if key_id c = [] \<or> key_secret c = [] then throw (App BillingNotConfigured)
     else bindM (urlopen \<lparr>rq_method = method, rq_path = path, rq_body = body\<rparr>) (\<lambda>reply. case reply of
       HttpError status error_body \<Rightarrow>
         if 400 \<le> status \<and> status < 500
         then throw (App (BillingProviderRejected (provider_error_code error_body) (Some status)
                (provider_error_reason error_body)))
         else throw (App BillingProviderUnavailable)
     | TransportError \<Rightarrow> throw (App BillingProviderUnavailable)
     | Reply result \<Rightarrow> (case result of
           None \<Rightarrow> throw (App BillingProviderUnavailable)
         | Some r \<Rightarrow> if is_dict r then ret r else throw (App BillingProviderUnavailable))))"

text \<open>\<open>verify_webhook_signature\<close>: an unset secret rejects everything. The digest is ASCII, so
  comparing the UTF-8 bytes is comparing the texts.\<close>

definition verify_webhook_signature :: "billing_settings \<Rightarrow> string \<Rightarrow> string option \<Rightarrow> bool" where
  "verify_webhook_signature c raw_body signature = (
     if webhook_secret c = [] \<or> \<not> truthy_text signature then False
     else signature = Some (hexdigest (hmac_sha256 (text_bytes (webhook_secret c)) (text_bytes raw_body))))"

subsection \<open>Operations\<close>

definition unix_time :: "int \<Rightarrow> int bprog" where
  "unix_time value = (if value \<le> 0 then throw ValueErr else ret value)"

definition optional_time :: "string \<Rightarrow> int option \<Rightarrow> (string \<times> json) list bprog" where
  "optional_time name v = (case v of None \<Rightarrow> ret [] | Some t \<Rightarrow> bindM (unix_time t) (\<lambda>x. ret [(name, JInt x)]))"

definition create_subscription :: "string \<Rightarrow> int option \<Rightarrow> int option \<Rightarrow> json bprog" where
  "create_subscription provider_plan_id start_at expire_by = bindM (asks cfg) (\<lambda>c.
     bindM (optional_time ''start_at'' start_at) (\<lambda>s.
     bindM (optional_time ''expire_by'' expire_by) (\<lambda>x.
     request POST ''/v1/subscriptions'' (Some (JObj ([(''plan_id'', JStr provider_plan_id),
       (''total_count'', JInt (total_count c)), (''customer_notify'', JBool True)] @ s @ x))))))"

definition subscription_path :: "string \<Rightarrow> string" where
  "subscription_path ref = ''/v1/subscriptions/'' @ ref"

definition fetch_subscription :: "string \<Rightarrow> json bprog" where
  "fetch_subscription ref = bindM (check_ref ref) (\<lambda>r. request GET (subscription_path r) None)"

text \<open>\<open>fetch_invoices\<close> raises on purpose: how the complete list is obtained is an open question of
  the repository.\<close>

definition fetch_invoices :: "string \<Rightarrow> json list bprog" where
  "fetch_invoices ref = bindM (check_ref ref) (\<lambda>_. throw NotImplementedErr)"

definition update_subscription :: "string \<Rightarrow> string \<Rightarrow> string \<Rightarrow> json bprog" where
  "update_subscription ref provider_plan_id schedule_change_at = (
     if schedule_change_at \<noteq> ''now'' \<and> schedule_change_at \<noteq> ''cycle_end'' then throw ValueErr
     else bindM (check_ref ref) (\<lambda>r. request PATCH (subscription_path r)
       (Some (JObj [(''plan_id'', JStr provider_plan_id), (''schedule_change_at'', JStr schedule_change_at)]))))"

definition cancel_path :: "string \<Rightarrow> string" where
  "cancel_path ref = subscription_path ref @ ''/cancel''"

definition cancel_subscription :: "string \<Rightarrow> bool \<Rightarrow> json bprog" where
  "cancel_subscription ref at_cycle_end = bindM (check_ref ref) (\<lambda>r.
     request POST (cancel_path r) (Some (JObj [(''cancel_at_cycle_end'', JBool at_cycle_end)])))"

text \<open>The constants as they ship.\<close>

definition shipped_gates :: razorpay_gates where
  "shipped_gates = \<lparr>update_unsupported_refusals = [], downgrade_start_field = None, downgrade_expiry_field = None\<rparr>"

subsection \<open>Requests by frame and by outcome\<close>

context billing_frame
begin

lemma frames_urlopen [frame_intros]: "frames R G (urlopen rq)"
  by (rule framesI) (auto simp: urlopen_def Let_def interfere_frame interfere_saves R_refl saves_refl split: if_splits)

lemma frames_request [frame_intros]: "frames R G (request method path body)"
proof -
  have "frames R G (case reply of HttpError st b \<Rightarrow> k st b | TransportError \<Rightarrow> m | Reply r \<Rightarrow> f r)"
    if "\<And>st b. frames R G (k st b)" "frames R G m" "\<And>r. frames R G (f r)" for reply k m f
    using that by (cases reply) simp_all
  note frame_intros = frame_intros this
  show ?thesis
    unfolding request_def by (intro frame_intros)
qed

lemma frames_check_ref [frame_intros]: "frames R G (check_ref ref)"
  unfolding check_ref_def by (intro frame_intros)

lemma frames_optional_time [frame_intros]: "frames R G (optional_time name v)"
  unfolding optional_time_def unix_time_def by (intro frame_intros)

lemma frames_create_subscription [frame_intros]: "frames R G (create_subscription p s x)"
  unfolding create_subscription_def by (intro frame_intros)

lemma frames_fetch_subscription [frame_intros]: "frames R G (fetch_subscription ref)"
  unfolding fetch_subscription_def by (intro frame_intros)

lemma frames_fetch_invoices [frame_intros]: "frames R G (fetch_invoices ref)"
  unfolding fetch_invoices_def by (intro frame_intros)

lemma frames_update_subscription [frame_intros]: "frames R G (update_subscription ref p s)"
  unfolding update_subscription_def by (intro frame_intros)

lemma frames_cancel_subscription [frame_intros]: "frames R G (cancel_subscription ref c)"
  unfolding cancel_subscription_def by (intro frame_intros)

end

text \<open>The errors a request can end in, and that an answer is an object.\<close>

definition provider_error :: "berror \<Rightarrow> bool" where
  "provider_error e \<longleftrightarrow> e = App BillingNotConfigured \<or> e = App BillingProviderUnavailable \<or>
     (\<exists>c s r. e = App (BillingProviderRejected c (Some s) r) \<and> 400 \<le> s \<and> s < 500)"

lemma wp_urlopen [wp_simps]:
  "wp (urlopen rq) Q E w = (let w' = (if saves w = [] then interfere w else w) in
     Q (http w (length (calls w)) rq) (w'\<lparr>calls := calls w' @ [rq]\<rparr>))"
  by (simp add: wp_def urlopen_def Let_def)

definition after_call :: "http_request \<Rightarrow> billing_world \<Rightarrow> billing_world" where
  "after_call rq w = (let w' = (if saves w = [] then interfere w else w) in w'\<lparr>calls := calls w' @ [rq]\<rparr>)"

lemma wp_request_post:
  assumes "\<And>e. provider_error e \<Longrightarrow> E e w"
    and "\<And>e. provider_error e \<Longrightarrow> E e (after_call \<lparr>rq_method = method, rq_path = path, rq_body = body\<rparr> w)"
    and "\<And>r. is_dict r \<Longrightarrow> Q r (after_call \<lparr>rq_method = method, rq_path = path, rq_body = body\<rparr> w)"
  shows "wp (request method path body) Q E w"
  using assms
  by (auto simp: request_def wp_simps after_call_def Let_def provider_error_def
      split: http_reply.split option.split)

end
