(* ===== verification/BillingQuota.thy ===== *)
theory BillingQuota
  imports Razorpay "HOL-Library.List_Lexorder" "HOL-Library.Product_Lexorder"
begin

text \<open>
  Concrete plans, subscription rows, databases and worlds, on which the theorems of the billing
  components are applied.
\<close>

definition basic_plan :: plan where
  "basic_plan = \<lparr>p_id = ''p1'', p_name = ''Basic'', p_monthly_price = 49900, p_currency = ''INR'',
     p_quota_requests = 2, p_features_json = None, p_provider_plan_id = Some ''plan_A'', p_is_active = True\<rparr>"

definition pro_plan :: plan where
  "pro_plan = \<lparr>p_id = ''p2'', p_name = ''Pro'', p_monthly_price = 99900, p_currency = ''INR'',
     p_quota_requests = 5, p_features_json = None, p_provider_plan_id = Some ''plan_B'', p_is_active = True\<rparr>"

definition incomplete_sub :: subscription where
  "incomplete_sub = \<lparr>s_id = ''s1'', s_merchant = ''m1'', s_plan = ''p1'', s_status = Incomplete,
     s_period_start = None, s_period_end = None, s_payment_ref = Some ''sub_1'', s_pending_plan = None,
     s_past_due_at = None, s_dunning_stage = None, s_cancel_at_period_end = False, s_provider_status = None,
     s_provider_synced_at = None, s_replacement_ref = None, s_replacement_expires_at = None,
     s_replacement_plan = None, s_replacement_committed_at = None, s_replacement_confirmed_at = None,
     s_retired_ref = None, s_retired_kind = None, s_updated_at = 0\<rparr>"

definition active_sub :: subscription where
  "active_sub = incomplete_sub\<lparr>s_status := Active, s_period_start := Some (seconds 1000),
     s_period_end := Some (seconds 2000), s_provider_status := Some ''active'', s_provider_synced_at := Some (seconds 1000)\<rparr>"

definition past_due_sub :: subscription where
  "past_due_sub = active_sub\<lparr>s_status := PastDue, s_past_due_at := Some (seconds 1500), s_dunning_stage := Some 0\<rparr>"

definition sample_db :: "subscription option \<Rightarrow> bdb" where
  "sample_db s = \<lparr>plans = [basic_plan, pro_plan], merchants = [(''m1'', MActive), (''m2'', MActive)],
     members = [(''m1'', ''u1'')], subs = (\<lambda>m. if m = ''m1'' then s else None),
     usage_records = [\<lparr>u_merchant = ''m1'', u_period_start = seconds 1000, u_period_end = seconds 2000, u_requests_used = 1\<rparr>],
     payment_attempts = [], billing_events = [], audit_logs = []\<rparr>"

definition sample_cfg :: billing_settings where
  "sample_cfg = \<lparr>key_id = ''k'', key_secret = ''s'', webhook_secret = ''hook'', total_count = 1200,
     upgrade_enabled = False, downgrade_enabled = False, upgrade_auth_window = None, downgrade_expire_margin = None\<rparr>"

text \<open>A thread of merchant \<open>m1\<close> inside its transaction at second 1600, and the same thread before
  any transaction.\<close>

definition m1_vars :: ctxvars where
  "m1_vars = no_vars\<lparr>merchant_var := Some ''m1''\<rparr>"

definition tx_world :: "bdb \<Rightarrow> billing_world" where
  "tx_world d = \<lparr>db = d, saves = [d], ctx = m1_vars, guc = m1_vars, row_locked = False,
     clock = (\<lambda>n. seconds (1600 + int n)), ticks = 0, env = (\<lambda>_ d. d), env_n = 0, pending = [], queue = [],
     cfg = sample_cfg, gates = shipped_gates, http = (\<lambda>_ _. TransportError), calls = [],
     uuids = (\<lambda>n. ''id'' @ replicate n (CHR ''x'')), uuid_n = 0\<rparr>"

definition idle_world :: "bdb \<Rightarrow> billing_world" where
  "idle_world d = (tx_world d)\<lparr>saves := [], guc := no_vars\<rparr>"

text \<open>The provider's subscription \<open>sub_1\<close> as \<open>active\<close> in the period from second 2000 to 3000, and the
  invoice that pays it.\<close>

definition provider_entity :: "string \<Rightarrow> json" where
  "provider_entity st = JObj [(''id'', JStr ''sub_1''), (''plan_id'', JStr ''plan_A''), (''status'', JStr st),
     (''current_start'', JInt 2000), (''current_end'', JInt 3000)]"

definition paid_invoice :: json where
  "paid_invoice = JObj [(''subscription_id'', JStr ''sub_1''), (''status'', JStr ''paid''), (''amount_due'', JInt 0),
     (''payment_id'', JStr ''pay_1''), (''billing_start'', JInt 2000), (''billing_end'', JInt 3000), (''paid_at'', JInt 2001)]"

lemmas sample_defs = basic_plan_def pro_plan_def incomplete_sub_def active_sub_def past_due_sub_def sample_db_def
  sample_cfg_def m1_vars_def tx_world_def idle_world_def no_vars_def seconds_def

lemma in_tx_world [simp]: "in_tx ''m1'' (tx_world d)"
  by (simp add: in_tx_def tx_world_def m1_vars_def quiet_def)

lemma tx_world_fields [simp]:
  "db (tx_world d) = d" "ticks (tx_world d) = 0" "clock (tx_world d) n = seconds (1600 + int n)"
  "saves (tx_world d) = [d]" "calls (tx_world d) = []"
  by (simp_all add: tx_world_def)

lemma quiet_samples [simp]: "quiet (tx_world d)" "quiet (idle_world d)"
  by (simp_all add: quiet_def tx_world_def idle_world_def)

text \<open>
  Entitlement and quota of \<open>billing/services.py\<close>: \<open>get_entitlement\<close>, \<open>reserve_quota_unit\<close> and
  \<open>reset_usage_period\<close>, with the readers of the subscription. The reservation is specified
  exactly for a thread nobody interferes with, and for soundness under every interleaving of
  other transactions while it waits for the usage row.
\<close>

subsection \<open>Definitions\<close>

definition merchant_id_or_raise :: "uuid bprog" where
  "merchant_id_or_raise = bindM get_current_merchant_id (\<lambda>m. case m of
     None \<Rightarrow> throw TenantContextError | Some i \<Rightarrow> ret i)"

definition list_plans :: "plan list bprog" where
  "list_plans = asks (\<lambda>w. sort_key (\<lambda>p. (p_monthly_price p, map (of_char :: char \<Rightarrow> nat) (p_id p)))
     (filter p_is_active (plans (db w))))"

definition get_subscription :: "subscription option bprog" where
  "get_subscription = bindM merchant_id_or_raise (\<lambda>_. tenant_atomic False sub_first)"

definition get_merchant_plan_summary :: "uuid \<Rightarrow> (uuid \<times> string) option bprog" where
  "get_merchant_plan_summary merchant_id = bindM merchant_id_or_raise (\<lambda>current.
     if current \<noteq> merchant_id then throw TenantContextError
     else bindM (tenant_atomic False sub_first) (\<lambda>s. case s of
       None \<Rightarrow> ret None
     | Some sub \<Rightarrow> if s_status sub \<noteq> Active \<and> s_status sub \<noteq> PastDue then ret None
                else bindM (get_plan (s_plan sub)) (\<lambda>p. ret (Some (s_plan sub, p_name p)))))"

record entitlement =
  e_status :: "sub_status option"
  e_plan :: "plan option"
  e_period_start :: "instant option"
  e_period_end :: "instant option"
  e_quota_requests :: "nat option"
  e_requests_used :: "nat option"
  e_requests_remaining :: "nat option"
  e_can_send :: bool

datatype reservation_result = RESERVED | QUOTA_EXHAUSTED | NOT_ENTITLED

definition usage_for :: "subscription \<Rightarrow> usage_record option bprog" where
  "usage_for s = (case (s_period_start s, s_period_end s) of
     (Some a, Some b) \<Rightarrow> query (\<lambda>m d. usage_of d m a b) | _ \<Rightarrow> ret None)"

definition entitled_now :: "subscription option \<Rightarrow> bool bprog" where
  "entitled_now s = (case s of
     None \<Rightarrow> ret False
   | Some sub \<Rightarrow> if s_status sub \<noteq> Active then ret False
              else case s_period_end sub of None \<Rightarrow> ret False | Some e \<Rightarrow> bindM now (\<lambda>t. ret (t < e)))"

definition get_entitlement :: "entitlement bprog" where
  "get_entitlement = bindM merchant_id_or_raise (\<lambda>_. tenant_atomic False (bindM sub_first (\<lambda>s. case s of
     None \<Rightarrow> ret \<lparr>e_status = None, e_plan = None, e_period_start = None, e_period_end = None,
       e_quota_requests = None, e_requests_used = None, e_requests_remaining = None, e_can_send = False\<rparr>
   | Some sub \<Rightarrow>
       bindM (usage_for sub) (\<lambda>usage.
       bindM (get_plan (s_plan sub)) (\<lambda>p.
       let quota = p_quota_requests p; used = map_option u_requests_used usage in
       bindM (entitled_now (Some sub)) (\<lambda>inside.
       ret \<lparr>e_status = Some (s_status sub), e_plan = Some p, e_period_start = s_period_start sub,
         e_period_end = s_period_end sub, e_quota_requests = Some quota, e_requests_used = used,
         e_requests_remaining = map_option (\<lambda>u. quota - u) used,
         e_can_send = (inside \<and> (case used of None \<Rightarrow> False | Some u \<Rightarrow> u < quota))\<rparr>))))))"

definition reserve_quota_unit :: "reservation_result bprog" where
  "reserve_quota_unit = bindM merchant_id_or_raise (\<lambda>_. bindM (asks in_atomic_block) (\<lambda>inside.
     if \<not> inside then throw RuntimeErr
     else tenant_atomic False (
       bindM sub_first (\<lambda>s0. bindM (entitled_now s0) (\<lambda>ok0.
       case s0 of None \<Rightarrow> ret NOT_ENTITLED | Some sub0 \<Rightarrow>
       if \<not> ok0 then ret NOT_ENTITLED
       else seqM take_row_lock (bindM (usage_for sub0) (\<lambda>usage.
         case usage of None \<Rightarrow> ret NOT_ENTITLED | Some u \<Rightarrow>
         bindM (sub_get (s_id sub0)) (\<lambda>sub. bindM (entitled_now (Some sub)) (\<lambda>ok.
         if \<not> ok \<or> (s_period_start sub, s_period_end sub) \<noteq> (Some (u_period_start u), Some (u_period_end u))
         then ret NOT_ENTITLED
         else bindM (get_plan (s_plan sub)) (\<lambda>p.
           if p_quota_requests p \<le> u_requests_used u then ret QUOTA_EXHAUSTED
           else bindM now (\<lambda>_.
             seqM (increment_usage (u_period_start u) (u_period_end u)) (ret RESERVED)))))))))))) "

definition reset_usage_period :: "subscription \<Rightarrow> usage_record bprog" where
  "reset_usage_period sub = bindM merchant_id_or_raise (\<lambda>m.
     if s_merchant sub \<noteq> m then throw TenantContextError
     else case (s_period_start sub, s_period_end sub) of
       (Some a, Some b) \<Rightarrow> tenant_atomic False (catchM (atomic (create_usage m a b))
         (\<lambda>e. if integrity_error e
              then Some (bindM (query (\<lambda>m' d. usage_of d m' a b)) (\<lambda>r. case r of
                None \<Rightarrow> throw DoesNotExist | Some u \<Rightarrow> ret u))
              else None))
     | _ \<Rightarrow> throw ValueErr)"

subsection \<open>The reservation of a single thread\<close>

text \<open>What the database says at the two instants the code looks at the clock.\<close>

definition reserve_outcome :: "uuid \<Rightarrow> instant \<Rightarrow> instant \<Rightarrow> bdb \<Rightarrow> reservation_result" where
  "reserve_outcome m t1 t2 d = (case subs d m of
     None \<Rightarrow> NOT_ENTITLED
   | Some s \<Rightarrow> (case (s_status s, s_period_start s, s_period_end s) of
       (Active, Some a, Some e) \<Rightarrow>
         (case usage_of d m a e of
            None \<Rightarrow> NOT_ENTITLED
          | Some u \<Rightarrow>
              if \<not> t1 < e \<or> \<not> t2 < e then NOT_ENTITLED
              else (case plan_by_id d (s_plan s) of
                  None \<Rightarrow> NOT_ENTITLED
                | Some p \<Rightarrow> if u_requests_used u < p_quota_requests p then RESERVED else QUOTA_EXHAUSTED))
     | _ \<Rightarrow> NOT_ENTITLED))"

definition add_unit :: "uuid \<Rightarrow> instant \<Rightarrow> instant \<Rightarrow> bdb \<Rightarrow> bdb" where
  "add_unit m a b d = d\<lparr>usage_records := map (\<lambda>u. if same_period_row m a b u
     then u\<lparr>u_requests_used := Suc (u_requests_used u)\<rparr> else u) (usage_records d)\<rparr>"

lemma wp_query [wp_simps]:
  "wp (query f) Q E w = (case merchant_var (ctx w) of None \<Rightarrow> E TenantContextError w | Some m \<Rightarrow> Q (f m (db w)) w)"
  by (simp add: wp_def query_def split: option.split)

lemma wp_get_plan [wp_simps]:
  "wp (get_plan i) Q E w = (case plan_by_id (db w) i of None \<Rightarrow> E DoesNotExist w | Some p \<Rightarrow> Q p w)"
  by (simp add: wp_def get_plan_def split: option.split)

lemma wp_take_row_lock [wp_simps]:
  "wp take_row_lock Q E w = Q () (if row_locked w then w else (interfere w)\<lparr>row_locked := True\<rparr>)"
  by (simp add: take_row_lock_def wp_simps)

lemma wp_increment [wp_simps]:
  "wp (increment_usage a b) Q E w = (case merchant_var (ctx w) of None \<Rightarrow> E TenantContextError w
     | Some m \<Rightarrow> Q () (w\<lparr>db := add_unit m a b (db w)\<rparr>))"
  by (simp add: increment_usage_def wp_simps add_unit_def split: option.split)

lemma wp_rls_check [wp_simps]:
  "wp (rls_check m) Q E w = (if merchant_var (ctx w) = Some m then Q () w else E DatabaseErr w)"
  by (simp add: wp_def rls_check_def)

lemma usage_of_period: "usage_of d m a b = Some u \<Longrightarrow> u_period_start u = a \<and> u_period_end u = b \<and> u_merchant u = m"
  by (auto simp: usage_of_def same_period_row_def dest!: first_SomeD)

lemma usage_of_add_unit:
  "usage_of (add_unit m a b d) m a b =
     map_option (\<lambda>u. u\<lparr>u_requests_used := Suc (u_requests_used u)\<rparr>) (usage_of d m a b)"
proof -
  have "first (same_period_row m a b) (map (\<lambda>u. if same_period_row m a b u
      then u\<lparr>u_requests_used := Suc (u_requests_used u)\<rparr> else u) us)
    = map_option (\<lambda>u. u\<lparr>u_requests_used := Suc (u_requests_used u)\<rparr>) (first (same_period_row m a b) us)" for us
    by (induction us) (auto simp: same_period_row_def)
  then show ?thesis by (simp add: usage_of_def add_unit_def)
qed

lemma wp_merchant_id_or_raise [wp_simps]:
  "wp merchant_id_or_raise Q E w = (case merchant_var (ctx w) of None \<Rightarrow> E TenantContextError w | Some m \<Rightarrow> Q m w)"
  by (simp add: merchant_id_or_raise_def wp_simps split: option.split)

lemma wp_sub_first [wp_simps]:
  "wp sub_first Q E w = (case merchant_var (ctx w) of None \<Rightarrow> E TenantContextError w | Some m \<Rightarrow> Q (subs (db w) m) w)"
  by (simp add: sub_first_def wp_simps)

lemma wp_sub_get [wp_simps]:
  "wp (sub_get pk) Q E w = (case merchant_var (ctx w) of None \<Rightarrow> E TenantContextError w
     | Some m \<Rightarrow> (case subs (db w) m of None \<Rightarrow> E DoesNotExist w
        | Some s \<Rightarrow> if s_id s = pk then Q s w else E DoesNotExist w))"
  by (simp add: sub_get_def wp_simps split: option.split)

lemma wp_usage_for:
  "merchant_var (ctx w) = Some m \<Longrightarrow> wp (usage_for s) Q E w = (case (s_period_start s, s_period_end s) of
     (Some a, Some b) \<Rightarrow> Q (usage_of (db w) m a b) w | _ \<Rightarrow> Q None w)"
  by (simp add: usage_for_def wp_simps split: option.split)

lemma wp_entitled_now:
  "wp (entitled_now s) Q E w = (case s of None \<Rightarrow> Q False w
     | Some sub \<Rightarrow> if s_status sub \<noteq> Active then Q False w
        else case s_period_end sub of None \<Rightarrow> Q False w | Some e \<Rightarrow> Q (clock w (ticks w) < e) (tick w))"
  by (simp add: entitled_now_def wp_simps split: option.split)

text \<open>What is left of a world in which a single thread ran: the database may differ, the stack of
  savepoints may not.\<close>

lemma reserve_wp:
  assumes tx: "in_tx m w"
    and fk: "\<And>s. subs (db w) m = Some s \<Longrightarrow> plan_by_id (db w) (s_plan s) \<noteq> None"
  shows "wp reserve_quota_unit
    (\<lambda>r w'. r = reserve_outcome m (clock w (ticks w)) (clock w (Suc (ticks w))) (db w) \<and> saves w' = saves w \<and>
       (r \<noteq> RESERVED \<longrightarrow> db w' = db w) \<and>
       (r = RESERVED \<longrightarrow> (\<exists>s a e. subs (db w) m = Some s \<and> s_period_start s = Some a \<and> s_period_end s = Some e \<and>
          db w' = add_unit m a e (db w)))) (\<lambda>_ _. False) w"
proof (cases "subs (db w) m")
  case None
  then show ?thesis
    using in_txD [OF tx]
    by (simp add: reserve_quota_unit_def wp_simps wp_tenant_atomic_tx [OF tx] wp_entitled_now in_atomic_block_def
        reserve_outcome_def)
next
  case (Some s)
  obtain p where p: "plan_by_id (db w) (s_plan s) = Some p" using fk [OF Some] by blast
  note g = in_txD [OF tx]
  show ?thesis
    using g Some p
    by (cases "s_period_start s"; cases "s_period_end s"; cases "s_status s")
      (auto simp: reserve_quota_unit_def wp_simps wp_tenant_atomic_tx [OF tx] wp_entitled_now in_atomic_block_def
        reserve_outcome_def wp_usage_for interfere_quiet quiet_def tick_def not_less
        split: option.split dest: usage_of_period)
qed

text \<open>
  C1: Run by a thread nobody interferes with, \<open>reserve_quota_unit\<close> answers exactly what the row, its
  usage record and its plan say at the two instants it looks at the clock; it increments the
  usage record of the current period if and only if it answers \<open>RESERVED\<close>, and changes nothing else.
\<close>

theorem reserve_exact:
  assumes "in_tx m w" "\<And>s. subs (db w) m = Some s \<Longrightarrow> plan_by_id (db w) (s_plan s) \<noteq> None"
    and "reserve_quota_unit w = (r, w')"
  shows "r = Inr (reserve_outcome m (clock w (ticks w)) (clock w (Suc (ticks w))) (db w)) \<and>
    (if r = Inr RESERVED
     then \<exists>s a e. subs (db w) m = Some s \<and> s_period_start s = Some a \<and> s_period_end s = Some e \<and>
            db w' = add_unit m a e (db w)
     else db w' = db w)"
  using reserve_wp [OF assms(1,2)] assms(3) by (auto simp: wp_def split: sum.splits)

theorem reserve_exact_witness:
  "fst (reserve_quota_unit (tx_world (sample_db (Some active_sub)))) = Inr RESERVED \<and>
   usage_of (db (snd (reserve_quota_unit (tx_world (sample_db (Some active_sub)))))) ''m1'' (seconds 1000) (seconds 2000)
     = Some \<lparr>u_merchant = ''m1'', u_period_start = seconds 1000, u_period_end = seconds 2000, u_requests_used = 2\<rparr>"
proof -
  let ?w = "tx_world (sample_db (Some active_sub))"
  have fk: "plan_by_id (db ?w) (s_plan s) \<noteq> None" if "subs (db ?w) ''m1'' = Some s" for s
    using that by (auto simp: sample_db_def plan_by_id_def active_sub_def incomplete_sub_def basic_plan_def)
  obtain r w' where run: "reserve_quota_unit ?w = (r, w')" by fastforce
  note ex = reserve_exact [OF in_tx_world fk run]
  have r: "r = Inr RESERVED"
    using ex by (simp add: reserve_outcome_def usage_of_def plan_by_id_def same_period_row_def sample_defs)
  with ex have "db w' = add_unit ''m1'' (seconds 1000) (seconds 2000) (db ?w)"
    by (auto simp: sample_db_def active_sub_def)
  with r run show ?thesis
    by (simp add: usage_of_add_unit) (simp add: usage_of_def same_period_row_def sample_defs)
qed


text \<open>Another thread reserves a unit of the same period while this one waits.\<close>

definition contended_world :: billing_world where
  "contended_world = (tx_world (sample_db (Some (active_sub\<lparr>s_plan := ''p2''\<rparr>))))\<lparr>
     env := (\<lambda>_. add_unit ''m1'' (seconds 1000) (seconds 2000))\<rparr>"


lemma entitlement_wp:
  assumes tx: "in_tx m w"
    and fk: "\<And>s. subs (db w) m = Some s \<Longrightarrow> plan_by_id (db w) (s_plan s) \<noteq> None"
  shows "wp get_entitlement (\<lambda>en w'. db w' = db w \<and> clock w' = clock w \<and> in_tx m w' \<and>
     (e_can_send en \<longleftrightarrow> reserve_outcome m (clock w (ticks w)) (clock w (ticks w)) (db w) = RESERVED) \<and>
     (ticks w' = ticks w \<or> ticks w' = Suc (ticks w))) (\<lambda>_ _. False) w"
proof (cases "subs (db w) m")
  case None
  then show ?thesis
    using in_txD [OF tx] tx
    by (simp add: get_entitlement_def wp_simps wp_tenant_atomic_tx [OF tx] reserve_outcome_def in_tx_def quiet_def)
next
  case (Some s)
  obtain p where p: "plan_by_id (db w) (s_plan s) = Some p" using fk [OF Some] by blast
  show ?thesis
    using in_txD [OF tx] tx Some p
    by (cases "s_period_start s"; cases "s_period_end s"; cases "s_status s")
      (auto simp: get_entitlement_def wp_simps wp_tenant_atomic_tx [OF tx] wp_entitled_now Let_def
        reserve_outcome_def wp_usage_for in_tx_def quiet_def tick_def split: option.split)
qed

lemma reserve_outcome_earlier:
  "reserve_outcome m t1 t2 d = RESERVED \<Longrightarrow> t \<le> t1 \<Longrightarrow> reserve_outcome m t t d = RESERVED"
  by (auto simp: reserve_outcome_def split: option.splits sub_status.splits if_splits)

lemma reserve_outcome_later:
  "reserve_outcome m t t d = RESERVED \<Longrightarrow> reserve_outcome m t1 t2 d \<noteq> RESERVED \<Longrightarrow>
     \<exists>s e. subs d m = Some s \<and> s_period_end s = Some e \<and> (e \<le> t1 \<or> e \<le> t2)"
  by (auto simp: reserve_outcome_def not_less split: option.splits sub_status.splits if_splits)

text \<open>
  The dashboard's \<open>can_send\<close> and the reservation agree. A reservation that follows the read
  succeeds only if \<open>can_send\<close> was true, and if \<open>can_send\<close> was true it succeeds unless the period
  ended between the two.
\<close>

theorem can_send_iff_reserved:
  assumes "in_tx m w" "\<And>s. subs (db w) m = Some s \<Longrightarrow> plan_by_id (db w) (s_plan s) \<noteq> None" "mono (clock w)"
    and "get_entitlement w = (Inr en, w1)" "reserve_quota_unit w1 = (Inr r, w2)"
  shows "(r = RESERVED \<longrightarrow> e_can_send en) \<and>
    (e_can_send en \<longrightarrow> r = RESERVED \<or>
       (\<exists>s e n. subs (db w) m = Some s \<and> s_period_end s = Some e \<and> e \<le> clock w n))"
proof -
  have e: "db w1 = db w" "clock w1 = clock w" "in_tx m w1" "ticks w \<le> ticks w1"
    "e_can_send en \<longleftrightarrow> reserve_outcome m (clock w (ticks w)) (clock w (ticks w)) (db w) = RESERVED"
    using entitlement_wp [OF assms(1,2)] assms(4) by (auto simp: wp_def)
  have "wp reserve_quota_unit (\<lambda>r _. r = reserve_outcome m (clock w1 (ticks w1)) (clock w1 (Suc (ticks w1))) (db w1))
      (\<lambda>_ _. False) w1"
    using reserve_wp [OF e(3)] assms(2) e(1) by (simp add: wp_def split: prod.splits sum.splits)
  then have r: "r = reserve_outcome m (clock w (ticks w1)) (clock w (Suc (ticks w1))) (db w)"
    using assms(5) e(1,2) by (simp add: wp_def)
  have le: "clock w (ticks w) \<le> clock w (ticks w1)" using e(4) assms(3) by (simp add: monoD)
  show ?thesis
    using e(5) r reserve_outcome_earlier [OF _ le] reserve_outcome_later by metis
qed

theorem can_send_iff_reserved_witness:
  "\<exists>en w1. get_entitlement (tx_world (sample_db (Some active_sub))) = (Inr en, w1) \<and> e_can_send en"
proof -
  let ?w = "tx_world (sample_db (Some active_sub))"
  obtain x w1 where a: "get_entitlement ?w = (x, w1)" by fastforce
  have "isl x = False" using a entitlement_wp [of "''m1''" ?w]
    by (auto simp: wp_def sample_db_def plan_by_id_def active_sub_def incomplete_sub_def basic_plan_def split: sum.splits)
  then obtain en where en: "x = Inr en" by (cases x) auto
  have fk: "plan_by_id (db ?w) (s_plan s) \<noteq> None" if "subs (db ?w) ''m1'' = Some s" for s
    using that by (auto simp: sample_db_def plan_by_id_def active_sub_def incomplete_sub_def basic_plan_def)
  have m: "mono (clock ?w)" by (simp add: mono_def tx_world_def seconds_def)
  have "fst (reserve_quota_unit (snd (get_entitlement ?w))) = Inr RESERVED" by code_simp
  then have r: "reserve_quota_unit w1 = (Inr RESERVED, snd (reserve_quota_unit w1))"
    using a by (metis prod.collapse snd_conv)
  from can_send_iff_reserved [OF in_tx_world fk m a [unfolded en] r] a en show ?thesis by auto
qed

text \<open>The record \<open>reset_usage_period\<close> answers, and the database it leaves.\<close>

definition fresh_usage :: "uuid \<Rightarrow> instant \<Rightarrow> instant \<Rightarrow> usage_record" where
  "fresh_usage m a e = \<lparr>u_merchant = m, u_period_start = a, u_period_end = e, u_requests_used = 0\<rparr>"

definition ensure_usage :: "uuid \<Rightarrow> instant \<Rightarrow> instant \<Rightarrow> bdb \<Rightarrow> bdb" where
  "ensure_usage m a e d = (case usage_of d m a e of Some u \<Rightarrow> d
     | None \<Rightarrow> d\<lparr>usage_records := usage_records d @ [fresh_usage m a e]\<rparr>)"

lemma usage_of_ensure:
  "usage_of (ensure_usage m a e d) m a e = Some (case usage_of d m a e of Some u \<Rightarrow> u | None \<Rightarrow> fresh_usage m a e)"
  by (auto simp: ensure_usage_def usage_of_def first_append fresh_usage_def same_period_row_def split: option.split)

lemma wp_create_usage [wp_simps]:
  "wp (create_usage m a b) Q E w = (
     if merchant_var (ctx w) \<noteq> Some m then E DatabaseErr w
     else if usage_of (db w) m a b \<noteq> None then E (UniqueViolation ''billing_usagerecord_period_uniq'') w
     else if \<not> a < b then E CheckViolation w
     else Q (fresh_usage m a b) (w\<lparr>db := (db w)\<lparr>usage_records := usage_records (db w) @ [fresh_usage m a b]\<rparr>\<rparr>))"
  by (simp add: wp_def create_usage_def run_seq rls_check_def fresh_usage_def Let_def)

lemma run_reset_usage:
  assumes "in_tx m w" "s_merchant s = m" "s_period_start s = Some a" "s_period_end s = Some e" "a < e"
  shows "reset_usage_period s w = (Inr (the (usage_of (ensure_usage m a e (db w)) m a e)), w\<lparr>db := ensure_usage m a e (db w)\<rparr>)"
  using assms(2-) in_txD [OF assms(1)]
  by (intro wp_runD)
    (auto simp: reset_usage_period_def wp_simps wp_tenant_atomic_tx [OF assms(1)] begin_block_def commit_block_def
      rollback_block_def ensure_usage_def usage_of_ensure [unfolded ensure_usage_def] split: option.split)

text \<open>
  \<open>reset_usage_period\<close> is an insert-or-ignore: afterwards the record of the row's current period
  exists, an existing one is answered as it is, a new one starts at zero, nothing else of the
  world changes, and a second call changes nothing.
\<close>

theorem reset_usage_period_insert_or_ignore:
  assumes "in_tx m w" "s_merchant s = m" "s_period_start s = Some a" "s_period_end s = Some e" "a < e"
    and "reset_usage_period s w = (r, w')"
  shows "w' = w\<lparr>db := ensure_usage m a e (db w)\<rparr> \<and>
    r = Inr (case usage_of (db w) m a e of Some u \<Rightarrow> u | None \<Rightarrow> fresh_usage m a e) \<and>
    usage_of (db w') m a e = Some (case usage_of (db w) m a e of Some u \<Rightarrow> u | None \<Rightarrow> fresh_usage m a e) \<and>
    reset_usage_period s w' = (r, w')"
proof -
  have tx: "in_tx m (w\<lparr>db := ensure_usage m a e (db w)\<rparr>)" using assms(1) by simp
  have "ensure_usage m a e (ensure_usage m a e (db w)) = ensure_usage m a e (db w)"
    by (simp add: ensure_usage_def [of m a e "ensure_usage m a e (db w)"] usage_of_ensure)
  with run_reset_usage [OF assms(1-5)] run_reset_usage [OF tx assms(2-5)] assms(6)
  show ?thesis by (auto simp: usage_of_ensure)
qed

theorem reset_usage_period_insert_or_ignore_witness:
  "map u_requests_used (usage_records (db (snd (reset_usage_period
     (active_sub\<lparr>s_period_end := Some (seconds 3000)\<rparr>) (tx_world (sample_db (Some active_sub))))))) = [1, 0]"
proof -
  let ?s = "active_sub\<lparr>s_period_end := Some (seconds 3000)\<rparr>" and ?w = "tx_world (sample_db (Some active_sub))"
  have s: "s_merchant ?s = ''m1''" "s_period_start ?s = Some (seconds 1000)" "s_period_end ?s = Some (seconds 3000)"
    "seconds 1000 < seconds 3000"
    by (simp_all add: active_sub_def incomplete_sub_def seconds_def)
  obtain r w' where run: "reset_usage_period ?s ?w = (r, w')" by fastforce
  from reset_usage_period_insert_or_ignore [OF in_tx_world s run] run show ?thesis
    by (simp add: ensure_usage_def usage_of_def same_period_row_def sample_db_def seconds_def fresh_usage_def)
qed

subsection \<open>Frames\<close>

context billing_frame
begin

lemma frames_merchant_id_or_raise [frame_intros]: "frames R H merchant_id_or_raise"
  unfolding merchant_id_or_raise_def by (intro frame_intros)

lemma frames_entitled_now [frame_intros]: "frames R G (entitled_now s)"
  unfolding entitled_now_def by (intro frame_intros)

lemma frames_usage_for [frame_intros]: "frames R G (usage_for s)"
  unfolding usage_for_def by (intro frame_intros)

lemma frames_get_entitlement [frame_intros]: "frames R G get_entitlement"
  unfolding get_entitlement_def by (intro frame_intros)

lemma frames_reserve_quota_unit [frame_intros]: "frames R G reserve_quota_unit"
  unfolding reserve_quota_unit_def by (intro frame_intros)

lemma frames_reset_usage_period [frame_intros]: "frames R G (reset_usage_period s)"
  unfolding reset_usage_period_def by (intro frame_intros) (auto split: if_splits intro!: frame_intros)

end

end
