(* ===== verification/BillingSnapshot.thy ===== *)
theory BillingSnapshot
  imports BillingQuota
begin

text \<open>
  Reconciliation of \<open>billing/services.py\<close>: the paid-period proof, \<open>_apply_snapshot\<close> with its
  helpers (the one place where status, plan or period change), and the local moves of the
  plan-change replacement it shares. The helpers change the object in memory and collect the
  field names to save; here they return both.
\<close>

subsection \<open>The paid-period proof\<close>

text \<open>\<open>datetime.fromtimestamp(value, tz=utc)\<close> covers the years 1 to 9999.\<close>

definition from_unix :: "json \<Rightarrow> instant option" where
  "from_unix v = (case as_int v of None \<Rightarrow> None
     | Some n \<Rightarrow> if -62135596800 \<le> n \<and> n \<le> 253402300799 then Some (seconds n) else None)"

definition invoice_pays :: "string \<Rightarrow> int \<Rightarrow> json \<Rightarrow> bool" where
  "invoice_pays ref current_start invoice \<longleftrightarrow>
     is_dict invoice \<and>
     jget ''subscription_id'' invoice = JStr ref \<and>
     jget ''status'' invoice = JStr ''paid'' \<and>
     jget ''amount_due'' invoice = JInt 0 \<and>
     (case as_str (jget ''payment_id'' invoice) of None \<Rightarrow> False | Some p \<Rightarrow> p \<noteq> []) \<and>
     (case (as_int (jget ''billing_start'' invoice), as_int (jget ''billing_end'' invoice)) of
        (Some a, Some b) \<Rightarrow> a \<le> current_start \<and> current_start < b
      | _ \<Rightarrow> False)"

definition current_period_paid :: "json \<Rightarrow> json list option \<Rightarrow> json option" where
  "current_period_paid entity invoices = (case invoices of None \<Rightarrow> None
     | Some xs \<Rightarrow> if \<not> is_dict entity \<or> xs = [] then None
         else (case (as_str (jget ''id'' entity), as_int (jget ''current_start'' entity)) of
           (Some ref, Some current_start) \<Rightarrow> first (invoice_pays ref current_start) xs
         | _ \<Rightarrow> None))"

subsection \<open>Constants and audit actions\<close>

definition GRACE :: instant where "GRACE = days 7"

definition TERMINAL_PROVIDER_STATUSES :: "string list" where
  "TERMINAL_PROVIDER_STATUSES = [''cancelled'', ''completed'', ''expired'']"

definition CANCELLABLE_PROVIDER_STATUSES :: "string list" where
  "CANCELLABLE_PROVIDER_STATUSES = [''created'', ''pending'', ''halted'', ''active'']"

definition provider_may_be_cancelled :: "string option \<Rightarrow> bool" where
  "provider_may_be_cancelled st \<longleftrightarrow> (case st of None \<Rightarrow> False | Some x \<Rightarrow> x \<in> set CANCELLABLE_PROVIDER_STATUSES)"

definition AUDIT_PLAN_CHANGED :: string where "AUDIT_PLAN_CHANGED = ''billing.plan_changed''"
definition AUDIT_ACTIVATED :: string where "AUDIT_ACTIVATED = ''billing.subscription_activated''"
definition AUDIT_PAST_DUE :: string where "AUDIT_PAST_DUE = ''billing.subscription_past_due''"
definition AUDIT_RECOVERED :: string where "AUDIT_RECOVERED = ''billing.subscription_recovered''"
definition AUDIT_CANCELLED :: string where "AUDIT_CANCELLED = ''billing.subscription_cancelled''"
definition AUDIT_EXPIRED :: string where "AUDIT_EXPIRED = ''billing.subscription_expired''"
definition AUDIT_REPLACEMENT_ABANDONED :: string where
  "AUDIT_REPLACEMENT_ABANDONED = ''billing.replacement_abandoned''"

record snapshot_result =
  changed :: bool
  settled :: bool

definition result :: "bool \<Rightarrow> bool \<Rightarrow> snapshot_result" where
  "result c s = \<lparr>changed = c, settled = s\<rparr>"

subsection \<open>The payment ledger\<close>

definition record_payment :: "subscription \<Rightarrow> json \<Rightarrow> bool \<Rightarrow> unit bprog" where
  "record_payment sub invoice was_past_due = bindM merchant_id_or_raise (\<lambda>m.
     if s_merchant sub \<noteq> m then throw TenantContextError
     else case from_unix (jget ''paid_at'' invoice) of
       None \<Rightarrow> ret ()
     | Some paid_at \<Rightarrow>
         catchM
           (atomic (create_payment
              \<lparr>pa_merchant = m, pa_subscription = s_id sub, pa_provider = ''RAZORPAY'',
               pa_provider_attempt_id = (case as_str (jget ''payment_id'' invoice) of None \<Rightarrow> [] | Some p \<Rightarrow> p),
               pa_attempt_type = (if was_past_due then Retry else Renewal), pa_status = Succeeded,
               pa_attempted_at = paid_at\<rparr>))
           (\<lambda>e. if integrity_error e then Some (ret ()) else None))"

subsection \<open>Changes of the object in memory\<close>

type_synonym draft = "subscription \<times> sub_field set"

definition take_plan :: "uuid \<Rightarrow> uuid option \<Rightarrow> (instant \<times> instant) option \<Rightarrow> draft \<Rightarrow> draft" where
  "take_plan plan old_pending period = (\<lambda>(sub, fields).
     let sub1 = sub\<lparr>s_plan := plan\<rparr>; f1 = insert F_plan fields;
         (sub2, f2) = (if old_pending = Some plan then (sub1\<lparr>s_pending_plan := None\<rparr>, insert F_pending_plan f1) else (sub1, f1))
     in (case period of None \<Rightarrow> (sub2, f2)
         | Some (a, b) \<Rightarrow> (sub2\<lparr>s_period_start := Some a, s_period_end := Some b\<rparr>, f2 \<union> {F_period_start, F_period_end})))"

definition clear_grace :: "draft \<Rightarrow> draft" where
  "clear_grace = (\<lambda>(sub, fields).
     (sub\<lparr>s_past_due_at := None, s_dunning_stage := None\<rparr>, fields \<union> {F_past_due_at, F_dunning_stage}))"

definition status_json :: "sub_status \<Rightarrow> json" where
  "status_json s = JStr (status_value s)"

definition audit_plan_change ::
  "subscription \<Rightarrow> uuid option \<Rightarrow> plan \<Rightarrow> plan \<Rightarrow> uuid option \<Rightarrow> string option \<Rightarrow> unit bprog" where
  "audit_plan_change sub actor old_plan plan old_pending effective =
     audit AUDIT_PLAN_CHANGED sub actor
       ([(''effective'', JStr (case effective of Some e \<Rightarrow> e
            | None \<Rightarrow> if old_pending = Some (p_id plan) then ''APPLIED'' else ''IMMEDIATE'')),
         (''from_plan'', JStr (p_name old_plan)), (''to_plan'', JStr (p_name plan)), (''plan_id'', JStr (p_id plan))]
        @ (if effective = Some ''REPLACEMENT_IMMEDIATE'' then [(''acknowledged_no_credit'', JBool True)] else []))"

record active_result =
  a_changed :: bool
  a_settled :: bool
  a_advanced :: bool

text \<open>The branch of \<open>_apply_active\<close> inside an unchanged period: a plan refresh needs no paid proof.\<close>

definition refresh_plan ::
  "plan \<Rightarrow> plan \<Rightarrow> uuid option \<Rightarrow> string option \<Rightarrow> draft \<Rightarrow> (bool \<times> draft) bprog" where
  "refresh_plan old_plan plan actor effective = (\<lambda>(sub, fields).
     let old_pending = s_pending_plan sub in
     if p_id old_plan \<noteq> p_id plan then
       let (sub1, f1) = take_plan (p_id plan) old_pending None (sub, fields) in
       seqM (audit_plan_change sub1 actor old_plan plan old_pending effective) (ret (True, sub1, f1))
     else if old_pending = Some (p_id plan) then
       ret (True, sub\<lparr>s_pending_plan := None\<rparr>, insert F_pending_plan fields)
     else ret (False, sub, fields))"

text \<open>The branch that enters a paid period.\<close>

definition activated_draft :: "draft \<Rightarrow> draft" where
  "activated_draft = (\<lambda>(sub, fields).
     let sub1 = sub\<lparr>s_status := Active\<rparr>; f1 = insert F_status fields in
     if s_status sub = PastDue then clear_grace (sub1, f1)
     else (sub1\<lparr>s_cancel_at_period_end := False\<rparr>, insert F_cancel_at_period_end f1))"

definition enter_period ::
  "instant \<Rightarrow> instant \<Rightarrow> json \<Rightarrow> plan \<Rightarrow> plan \<Rightarrow> uuid option \<Rightarrow> string option \<Rightarrow> draft \<Rightarrow> draft bprog" where
  "enter_period current_start current_end paid old_plan plan actor effective = (\<lambda>(sub, fields).
     let old_status = s_status sub; was_past_due = (old_status = PastDue); old_pending = s_pending_plan sub;
         (sub1, f1) = take_plan (p_id plan) old_pending (Some (current_start, current_end)) (sub, fields) in
     bindM (if old_status \<noteq> Active then
         let (sub2, f2) = activated_draft (sub1, f1) in
         seqM (audit (if was_past_due then AUDIT_RECOVERED else AUDIT_ACTIVATED) sub2 None
            [(''from_status'', status_json old_status), (''to_status'', status_json Active),
             (''plan_id'', JStr (p_id plan)), (''plan_name'', JStr (p_name plan))])
         (seqM (whenM (effective \<noteq> None \<and> was_past_due \<and> p_id old_plan \<noteq> p_id plan)
            (audit_plan_change sub2 actor old_plan plan old_pending effective))
         (ret (sub2, f2)))
       else seqM (whenM (p_id old_plan \<noteq> p_id plan)
           (audit_plan_change sub1 actor old_plan plan old_pending effective)) (ret (sub1, f1)))
     (\<lambda>(sub3, f3). seqM (record_payment sub3 paid was_past_due) (ret (sub3, f3))))"

definition apply_active ::
  "json \<Rightarrow> json list option \<Rightarrow> plan \<Rightarrow> uuid option \<Rightarrow> string option \<Rightarrow> draft \<Rightarrow> (active_result \<times> draft) bprog" where
  "apply_active entity invoices plan actor effective = (\<lambda>(sub, fields).
     case (from_unix (jget ''current_start'' entity), from_unix (jget ''current_end'' entity)) of
       (Some current_start, Some current_end) \<Rightarrow>
         if current_end \<le> current_start then ret (\<lparr>a_changed = False, a_settled = False, a_advanced = False\<rparr>, sub, fields)
         else bindM (get_plan (s_plan sub)) (\<lambda>old_plan.
           if s_status sub = Active \<and> s_period_start sub = Some current_start then
             bindM (refresh_plan old_plan plan actor effective (sub, fields)) (\<lambda>(ch, sub1, f1).
             seqM (case current_period_paid entity invoices of None \<Rightarrow> ret () | Some paid \<Rightarrow> record_payment sub1 paid False)
               (ret (\<lparr>a_changed = ch, a_settled = True, a_advanced = False\<rparr>, sub1, f1)))
           else (case current_period_paid entity invoices of
             None \<Rightarrow> ret (\<lparr>a_changed = False, a_settled = False, a_advanced = False\<rparr>, sub, fields)
           | Some paid \<Rightarrow> bindM (enter_period current_start current_end paid old_plan plan actor effective (sub, fields))
               (\<lambda>dr. ret (\<lparr>a_changed = True, a_settled = True, a_advanced = True\<rparr>, dr))))
     | _ \<Rightarrow> ret (\<lparr>a_changed = False, a_settled = False, a_advanced = False\<rparr>, sub, fields))"

definition apply_payment_failed :: "instant \<Rightarrow> draft \<Rightarrow> (bool \<times> draft) bprog" where
  "apply_payment_failed t = (\<lambda>(sub, fields).
     if s_status sub \<noteq> Active then ret (False, sub, fields)
     else let sub1 = sub\<lparr>s_status := PastDue, s_past_due_at := Some t, s_dunning_stage := Some 0\<rparr> in
       seqM (audit AUDIT_PAST_DUE sub1 None [(''from_status'', status_json Active), (''to_status'', status_json PastDue),
               (''plan_id'', JStr (s_plan sub1))])
         (ret (True, sub1, fields \<union> {F_status, F_past_due_at, F_dunning_stage})))"

definition committed_downgrade_replacement :: "subscription \<Rightarrow> bool" where
  "committed_downgrade_replacement sub \<longleftrightarrow>
     s_status sub = Active \<and> s_replacement_ref sub \<noteq> None \<and> s_replacement_committed_at sub \<noteq> None"

definition apply_terminal :: "instant \<Rightarrow> draft \<Rightarrow> (bool \<times> draft) bprog" where
  "apply_terminal t = (\<lambda>(sub, fields).
     if s_status sub = Active then
       let sub1 = sub\<lparr>s_status := Cancelled\<rparr> in
       seqM (audit AUDIT_CANCELLED sub1 None [(''from_status'', status_json Active), (''to_status'', status_json Cancelled)])
         (ret (True, sub1, insert F_status fields))
     else if s_status sub = PastDue then
       bindM (need (s_past_due_at sub)) (\<lambda>since.
         let grace_over = (since + GRACE \<le> t); st = (if grace_over then Expired else Cancelled);
             (sub1, f1) = clear_grace (sub\<lparr>s_status := st\<rparr>, insert F_status fields) in
         seqM (audit (if grace_over then AUDIT_EXPIRED else AUDIT_CANCELLED) sub1 None
                [(''from_status'', status_json PastDue), (''to_status'', status_json st)])
           (ret (True, sub1, f1)))
     else ret (False, sub, fields))"

subsection \<open>The replacement, as the snapshot touches it\<close>

definition REPLACEMENT_FAILED :: "string list" where
  "REPLACEMENT_FAILED = [''pending'', ''halted'', ''cancelled'', ''expired'']"

definition REPLACEMENT_NOT_ACTIVE :: "string list" where
  "REPLACEMENT_NOT_ACTIVE = [''created'', ''authenticated''] @ REPLACEMENT_FAILED"

definition status_in :: "string list \<Rightarrow> json \<Rightarrow> bool" where
  "status_in xs entity \<longleftrightarrow> jget ''status'' entity \<in> set (map JStr xs)"

definition not_active :: "json \<Rightarrow> bool bprog" where
  "not_active entity = ret (status_in REPLACEMENT_NOT_ACTIVE entity)"

text \<open>The deadline comparison raises when the row has no deadline.\<close>

definition failed_or_lapsed :: "instant \<Rightarrow> instant option \<Rightarrow> json \<Rightarrow> bool bprog" where
  "failed_or_lapsed t expires_at entity = (
     if status_in REPLACEMENT_FAILED entity then ret True
     else if jget ''status'' entity = JStr ''created'' then bindM (need expires_at) (\<lambda>e. ret (e \<le> t))
     else ret False)"

text \<open>\<open>except (BillingProviderUnavailable, BillingProviderRejected, BillingNotConfigured)\<close>.\<close>

fun provider_failure :: "berror \<Rightarrow> bool" where
  "provider_failure (App BillingProviderUnavailable) = True"
| "provider_failure (App (BillingProviderRejected _ _ _)) = True"
| "provider_failure (App BillingNotConfigured) = True"
| "provider_failure _ = False"

definition or_none :: "'a bprog \<Rightarrow> 'a option bprog" where
  "or_none m = catchM (bindM m (\<lambda>a. ret (Some a))) (\<lambda>e. if provider_failure e then Some (ret None) else None)"

definition refetch_replacement :: "subscription \<Rightarrow> json option bprog" where
  "refetch_replacement sub = (case s_replacement_ref sub of
     None \<Rightarrow> throw TypeErr
   | Some ref \<Rightarrow> bindM (or_none (fetch_subscription ref)) (\<lambda>r. case r of
       None \<Rightarrow> ret None
     | Some entity \<Rightarrow> if is_dict entity \<and> jget ''id'' entity = JStr ref \<and> is_str (jget ''status'' entity)
                     then ret (Some entity) else ret None))"

definition replacement_plan :: "json \<Rightarrow> plan option bprog" where
  "replacement_plan entity = (case as_str (jget ''plan_id'' entity) of
     None \<Rightarrow> ret None | Some i \<Rightarrow> asks (\<lambda>w. plan_by_provider_id (db w) i))"

definition mark_events_processed :: "string option \<Rightarrow> unit bprog" where
  "mark_events_processed ref = bindM now (\<lambda>stamp. mark_events (\<lambda>e. Some (be_provider_ref e) = ref) stamp)"

text \<open>The fields \<open>_retire_replacement\<close> adds, beside \<open>pending_plan\<close> when it is cleared.\<close>

definition retire_fields :: "sub_field set" where
  "retire_fields = {F_retired_ref, F_retired_kind, F_replacement_ref, F_replacement_plan,
     F_replacement_expires_at, F_replacement_committed_at, F_replacement_confirmed_at}"

definition retired_draft :: "plan option \<Rightarrow> draft \<Rightarrow> draft" where
  "retired_draft target = (\<lambda>(sub, fields).
     let sub1 = sub\<lparr>s_retired_ref := s_replacement_ref sub, s_retired_kind := Some AbandonedReplacement,
           s_replacement_ref := None, s_replacement_plan := None, s_replacement_expires_at := None,
           s_replacement_committed_at := None, s_replacement_confirmed_at := None\<rparr>;
         (sub2, f2) = (if target \<noteq> None \<and> s_pending_plan sub1 = map_option p_id target
           then (sub1\<lparr>s_pending_plan := None\<rparr>, insert F_pending_plan fields) else (sub1, fields))
     in (sub2, f2 \<union> retire_fields))"

definition retire_replacement :: "json \<Rightarrow> string \<Rightarrow> uuid option \<Rightarrow> draft \<Rightarrow> draft bprog" where
  "retire_replacement entity reason actor = (\<lambda>(sub, fields).
     bindM (case s_replacement_plan sub of
         Some i \<Rightarrow> bindM (get_plan i) (\<lambda>p. ret (Some p))
       | None \<Rightarrow> replacement_plan entity) (\<lambda>target.
     let departing = s_replacement_ref sub; (sub1, f1) = retired_draft target (sub, fields) in
     seqM (mark_events_processed departing)
       (seqM (audit AUDIT_REPLACEMENT_ABANDONED sub1 actor
           [(''reason'', JStr reason), (''plan_name'', nullable_str (map_option p_name target))])
         (ret (sub1, f1)))))"

definition abandon_unless_active ::
  "string \<Rightarrow> (json \<Rightarrow> bool bprog) \<Rightarrow> json option \<Rightarrow> draft \<Rightarrow> (bool \<times> json option \<times> draft) bprog" where
  "abandon_unless_active reason abandonable entity = (\<lambda>(sub, fields).
     if s_replacement_ref sub = None \<or> s_replacement_committed_at sub \<noteq> None then ret (False, None, sub, fields)
     else bindM (case entity of None \<Rightarrow> refetch_replacement sub | Some e \<Rightarrow> ret (Some e)) (\<lambda>got. case got of
       None \<Rightarrow> ret (False, None, sub, fields)
     | Some e \<Rightarrow> bindM (abandonable e) (\<lambda>ok.
         if \<not> ok then ret (False, Some e, sub, fields)
         else if s_retired_ref sub \<noteq> None then ret (False, Some e, sub, fields)
         else bindM (retire_replacement e reason None (sub, fields)) (\<lambda>dr. ret (True, Some e, dr)))))"

subsection \<open>Applying a snapshot\<close>

definition dispatch_status ::
  "string \<Rightarrow> json \<Rightarrow> json list option \<Rightarrow> plan \<Rightarrow> uuid option \<Rightarrow> instant \<Rightarrow> draft \<Rightarrow> (active_result \<times> draft) bprog" where
  "dispatch_status provider_status entity invoices plan actor t = (\<lambda>dr.
     if provider_status = ''active'' then apply_active entity invoices plan actor None dr
     else if provider_status = ''pending'' \<or> provider_status = ''halted'' then
       bindM (apply_payment_failed t dr) (\<lambda>(ch, dr1).
         bindM (if ch then bindM (abandon_unless_active ''past_due'' not_active None dr1) (\<lambda>(_, _, dr2). ret dr2) else ret dr1)
           (\<lambda>dr2. ret (\<lparr>a_changed = ch, a_settled = True, a_advanced = False\<rparr>, dr2)))
     else if provider_status \<in> set TERMINAL_PROVIDER_STATUSES then
       (if committed_downgrade_replacement (fst dr) then ret (\<lparr>a_changed = False, a_settled = True, a_advanced = False\<rparr>, dr)
        else bindM (apply_terminal t dr) (\<lambda>(ch, dr1).
          bindM (if ch then bindM (abandon_unless_active ''row_ended'' not_active None dr1) (\<lambda>(_, _, dr2). ret dr2) else ret dr1)
            (\<lambda>dr2. ret (\<lparr>a_changed = ch, a_settled = True, a_advanced = False\<rparr>, dr2))))
     else ret (\<lparr>a_changed = False, a_settled = True, a_advanced = False\<rparr>, dr))"

text \<open>\<open>_apply_snapshot\<close> on the row it has locked.\<close>

definition apply_locked ::
  "json \<Rightarrow> json list option \<Rightarrow> instant \<Rightarrow> uuid option \<Rightarrow> subscription \<Rightarrow> snapshot_result bprog" where
  "apply_locked entity invoices fetch_started_at actor sub = bindM now (\<lambda>t.
     let ref = (if is_dict entity then jget ''id'' entity else JNull) in
     if \<not> truthy ref \<or> \<not> same_text (s_payment_ref sub) ref then ret (result False False)
     else if (case s_provider_synced_at sub of None \<Rightarrow> False | Some x \<Rightarrow> fetch_started_at \<le> x) then ret (result False False)
     else bindM (replacement_plan entity) (\<lambda>found. case found of
       None \<Rightarrow> ret (result False False)
     | Some plan \<Rightarrow> (case as_str (jget ''status'' entity) of
         None \<Rightarrow> ret (result False False)
       | Some provider_status \<Rightarrow>
           bindM (dispatch_status provider_status entity invoices plan actor t
               (sub, {F_provider_status, F_provider_synced_at})) (\<lambda>(ar, sub1, fields).
           let sub2 = sub1\<lparr>s_provider_status := Some (take 16 provider_status), s_provider_synced_at := Some fetch_started_at\<rparr> in
           bindM (save_sub (if a_changed ar then insert F_updated_at fields else fields) sub2) (\<lambda>sub3.
           seqM (if a_advanced ar then bindM (reset_usage_period sub3) (\<lambda>_. ret ()) else ret ())
             (ret (result (a_changed ar) (a_settled ar))))))))"

definition apply_snapshot ::
  "subscription \<Rightarrow> json \<Rightarrow> json list option \<Rightarrow> instant \<Rightarrow> uuid option \<Rightarrow> snapshot_result bprog" where
  "apply_snapshot subscription entity invoices fetch_started_at actor = bindM merchant_id_or_raise (\<lambda>m.
     if s_merchant subscription \<noteq> m then throw TenantContextError
     else tenant_atomic False (
       bindM (lock_subscription (s_id subscription)) (apply_locked entity invoices fetch_started_at actor)))"

definition apply_provider_snapshot ::
  "subscription \<Rightarrow> json \<Rightarrow> json list option \<Rightarrow> instant \<Rightarrow> uuid option \<Rightarrow> bool bprog" where
  "apply_provider_snapshot subscription entity invoices fetch_started_at actor =
     bindM (apply_snapshot subscription entity invoices fetch_started_at actor) (\<lambda>r. ret (changed r))"

subsection \<open>Frames\<close>

context billing_frame
begin

lemma frames_or_none [frame_intros]: "frames R G m \<Longrightarrow> frames R G (or_none m)"
  unfolding or_none_def by (intro frame_intros) (auto split: if_splits intro: frame_intros)

lemma frames_record_payment [frame_intros]: "frames R G (record_payment sub invoice b)"
  unfolding record_payment_def by (intro frame_intros) (auto split: if_splits intro: frame_intros)

lemma frames_audit_plan_change [frame_intros]: "frames R G (audit_plan_change sub actor op p pend eff)"
  unfolding audit_plan_change_def by (intro frame_intros)

lemma frames_refresh_plan [frame_intros]: "frames R G (refresh_plan op p actor effective dr)"
  unfolding refresh_plan_def by (intro frame_intros)

lemma frames_enter_period [frame_intros]: "frames R G (enter_period a b paid op p actor effective dr)"
  unfolding enter_period_def by (intro frame_intros)

lemma frames_apply_active [frame_intros]: "frames R G (apply_active entity invoices plan actor effective dr)"
  unfolding apply_active_def by (intro frame_intros)

lemma frames_apply_payment_failed [frame_intros]: "frames R G (apply_payment_failed t dr)"
  unfolding apply_payment_failed_def by (intro frame_intros)

lemma frames_apply_terminal [frame_intros]: "frames R G (apply_terminal t dr)"
  unfolding apply_terminal_def by (intro frame_intros)

lemma frames_not_active [frame_intros]: "frames R G (not_active e)"
  unfolding not_active_def by (intro frame_intros)

lemma frames_failed_or_lapsed [frame_intros]: "frames R G (failed_or_lapsed t x e)"
  unfolding failed_or_lapsed_def by (intro frame_intros)

lemma frames_refetch_replacement [frame_intros]: "frames R G (refetch_replacement sub)"
  unfolding refetch_replacement_def by (intro frame_intros)

lemma frames_replacement_plan [frame_intros]: "frames R G (replacement_plan e)"
  unfolding replacement_plan_def by (intro frame_intros)

lemma frames_mark_events_processed [frame_intros]: "frames R G (mark_events_processed ref)"
  unfolding mark_events_processed_def by (intro frame_intros)

lemma frames_retire_replacement [frame_intros]: "frames R G (retire_replacement e reason actor dr)"
  unfolding retire_replacement_def by (intro frame_intros)

lemma frames_abandon_unless_active [frame_intros]:
  "(\<And>e. frames R G (ab e)) \<Longrightarrow> frames R G (abandon_unless_active reason ab entity dr)"
  unfolding abandon_unless_active_def by (intro frame_intros)

lemma frames_dispatch_status [frame_intros]: "frames R G (dispatch_status st e invs p actor t dr)"
  unfolding dispatch_status_def by (intro frame_intros)

lemma frames_apply_locked [frame_intros]: "frames R G (apply_locked e invs t actor s)"
  unfolding apply_locked_def by (intro frame_intros)

lemma frames_apply_snapshot [frame_intros]: "frames R G (apply_snapshot s e invs t actor)"
  unfolding apply_snapshot_def by (intro frame_intros)

end

end
