(* ===== verification/BillingReplacement.thy ===== *)
theory BillingReplacement
  imports BillingSnapshot
begin

text \<open>
  The plan-change replacement of \<open>billing/services.py\<close>: its snapshot (switch, abandon, clear), the
  downgrade commit point with its two transactions around the provider cancel, the re-issued
  cancel of the sweep, the retired subscription, and the cancellation of a pending replacement by
  the owner.
\<close>

subsection \<open>Configuration and classification\<close>

datatype replacement_kind = UPGRADE | DOWNGRADE

definition replacement_enabled :: "replacement_kind \<Rightarrow> bool bprog" where
  "replacement_enabled kind = asks (\<lambda>w. case kind of UPGRADE \<Rightarrow> upgrade_enabled (cfg w) | DOWNGRADE \<Rightarrow> downgrade_enabled (cfg w))"

definition replacement_window :: "replacement_kind \<Rightarrow> instant bprog" where
  "replacement_window kind = bindM (asks cfg) (\<lambda>c.
     case (case kind of UPGRADE \<Rightarrow> upgrade_auth_window c | DOWNGRADE \<Rightarrow> downgrade_expire_margin c) of
       None \<Rightarrow> throw (App BillingNotConfigured)
     | Some v \<Rightarrow> if v \<le> 0 then throw (App BillingNotConfigured) else ret (seconds v))"

definition is_update_unsupported_refusal :: "razorpay_gates \<Rightarrow> berror \<Rightarrow> bool" where
  "is_update_unsupported_refusal g error = (case error of
     App (BillingProviderRejected (Some code) (Some status) (Some reason)) \<Rightarrow>
       (status, code, reason) \<in> set (update_unsupported_refusals g)
   | _ \<Rightarrow> False)"

subsection \<open>The replacement's snapshot\<close>

definition AUDIT_REPLACEMENT_PAID_AFTER_END :: string where
  "AUDIT_REPLACEMENT_PAID_AFTER_END = ''billing.replacement_paid_after_end''"

definition AUDIT_REPLACEMENT_COMMITTED :: string where
  "AUDIT_REPLACEMENT_COMMITTED = ''billing.replacement_committed''"

definition clear_failed_committed :: "subscription \<Rightarrow> snapshot_result bprog" where
  "clear_failed_committed sub = bindM (refetch_replacement sub) (\<lambda>got. case got of
     None \<Rightarrow> ret (result False False)
   | Some entity \<Rightarrow>
       if \<not> status_in REPLACEMENT_FAILED entity \<or> s_retired_ref sub \<noteq> None then ret (result False False)
       else bindM (retire_replacement entity ''committed_replacement_failed'' None (sub, {})) (\<lambda>(sub1, fields).
         bindM (save_sub (insert F_updated_at fields) sub1) (\<lambda>_. ret (result True True))))"

text \<open>The fields the switch saves beside those of \<open>_apply_active\<close>.\<close>

definition switch_fields :: "sub_field set" where
  "switch_fields = {F_payment_ref, F_replacement_ref, F_replacement_plan, F_replacement_expires_at,
     F_replacement_committed_at, F_replacement_confirmed_at, F_retired_ref, F_retired_kind, F_pending_plan,
     F_cancel_at_period_end, F_updated_at}"

definition switched :: "string \<Rightarrow> instant \<Rightarrow> string option \<Rightarrow> subscription \<Rightarrow> subscription" where
  "switched st fetch_started_at departing sub = sub\<lparr>
     s_retired_ref := departing, s_retired_kind := Some SwitchedOld,
     s_payment_ref := s_replacement_ref sub, s_replacement_ref := None, s_replacement_plan := None,
     s_replacement_expires_at := None, s_replacement_committed_at := None, s_replacement_confirmed_at := None,
     s_pending_plan := None, s_cancel_at_period_end := False,
     s_provider_status := Some (take 16 st), s_provider_synced_at := Some fetch_started_at\<rparr>"

definition switch_to_replacement ::
  "subscription \<Rightarrow> json \<Rightarrow> json list option \<Rightarrow> plan \<Rightarrow> instant \<Rightarrow> snapshot_result bprog" where
  "switch_to_replacement sub entity invoices plan fetch_started_at = (
     let start = from_unix (jget ''current_start'' entity) in
     if start = None \<or> start = s_period_start sub then ret (result False False)
     else if s_retired_ref sub \<noteq> None then ret (result False False)
     else bindM (get_plan (s_plan sub)) (\<lambda>old_plan.
       let departing = s_payment_ref sub;
           effective = (if p_monthly_price plan < p_monthly_price old_plan then ''REPLACEMENT_SCHEDULED'' else ''REPLACEMENT_IMMEDIATE'')
       in bindM (apply_active entity invoices plan None (Some effective) (sub, {F_provider_status, F_provider_synced_at}))
         (\<lambda>(ar, sub1, fields).
           if \<not> a_advanced ar then ret (result False False)
           else (case as_str (jget ''status'' entity) of
             None \<Rightarrow> throw TypeErr
           | Some st \<Rightarrow>
               bindM (save_sub (fields \<union> switch_fields) (switched st fetch_started_at departing sub1)) (\<lambda>sub2.
               bindM (reset_usage_period sub2) (\<lambda>_.
               seqM (whenM (truthy_text departing) (mark_events_processed departing)) (ret (result True True))))))))"

definition paid_after_end_told :: "uuid \<Rightarrow> string \<Rightarrow> audit_log \<Rightarrow> bool" where
  "paid_after_end_told m pk a \<longleftrightarrow> al_merchant a = Some m \<and> al_action a = AUDIT_REPLACEMENT_PAID_AFTER_END \<and>
     al_target_type a = Some ''billing.subscription'' \<and> al_target_id a = Some pk"

definition replacement_active ::
  "subscription \<Rightarrow> json \<Rightarrow> json list option \<Rightarrow> instant \<Rightarrow> snapshot_result bprog" where
  "replacement_active sub entity invoices fetch_started_at = (
     if current_period_paid entity invoices = None then ret (result False False)
     else bindM (replacement_plan entity) (\<lambda>found. case found of
       None \<Rightarrow> ret (result False False)
     | Some plan \<Rightarrow>
         if s_status sub = Cancelled \<or> s_status sub = Expired then
           bindM (query (\<lambda>m d. list_ex (paid_after_end_told m (s_id sub)) (audit_logs d))) (\<lambda>told.
           seqM (whenM (\<not> told) (audit AUDIT_REPLACEMENT_PAID_AFTER_END sub None
               [(''row_status'', status_json (s_status sub)), (''plan_name'', JStr (p_name plan))]))
             (ret (result False True)))
         else if s_status sub \<noteq> Active \<and> s_status sub \<noteq> PastDue then ret (result False False)
         else switch_to_replacement sub entity invoices plan fetch_started_at))"

definition abandon_if_wanted ::
  "subscription \<Rightarrow> (json \<Rightarrow> bool bprog) \<Rightarrow> string \<Rightarrow> bool \<Rightarrow> snapshot_result bprog" where
  "abandon_if_wanted sub abandonable reason wanted = (
     if \<not> wanted then ret (result False True)
     else bindM (abandon_unless_active reason abandonable None (sub, {})) (\<lambda>(abandoned, _, sub1, fields).
       if \<not> abandoned then ret (result False False)
       else bindM (save_sub (insert F_updated_at fields) sub1) (\<lambda>_. ret (result True True))))"

definition apply_replacement_locked ::
  "json \<Rightarrow> json list option \<Rightarrow> instant \<Rightarrow> subscription \<Rightarrow> snapshot_result bprog" where
  "apply_replacement_locked entity invoices fetch_started_at sub = (
     let ref = (if is_dict entity then jget ''id'' entity else JNull);
         status = (if is_dict entity then jget ''status'' entity else JNull) in
     if \<not> truthy ref \<or> \<not> same_text (s_replacement_ref sub) ref \<or> \<not> is_str status then ret (result False False)
     else if status = JStr ''active'' then replacement_active sub entity invoices fetch_started_at
     else if s_replacement_committed_at sub \<noteq> None then
       (if status_in REPLACEMENT_FAILED entity then clear_failed_committed sub else ret (result False True))
     else
       if s_status sub \<noteq> Active then
         abandon_if_wanted sub not_active (if s_status sub = PastDue then ''past_due'' else ''row_ended'')
           (status_in REPLACEMENT_NOT_ACTIVE entity)
       else bindM now (\<lambda>t. bindM (failed_or_lapsed t (s_replacement_expires_at sub) entity) (\<lambda>wanted.
         abandon_if_wanted sub (failed_or_lapsed t (s_replacement_expires_at sub))
           (if status_in REPLACEMENT_FAILED entity then ''provider_failed'' else ''deadline_passed'') wanted)))"

definition apply_replacement_snapshot ::
  "subscription \<Rightarrow> json \<Rightarrow> json list option \<Rightarrow> instant \<Rightarrow> snapshot_result bprog" where
  "apply_replacement_snapshot subscription entity invoices fetch_started_at = bindM merchant_id_or_raise (\<lambda>m.
     if s_merchant subscription \<noteq> m then throw TenantContextError
     else tenant_atomic False (
       bindM (lock_subscription (s_id subscription)) (apply_replacement_locked entity invoices fetch_started_at)))"

subsection \<open>The downgrade commit point\<close>

definition is_downgrade :: "subscription \<Rightarrow> bool bprog" where
  "is_downgrade sub = (case s_replacement_plan sub of None \<Rightarrow> ret False
     | Some i \<Rightarrow> bindM (get_plan i) (\<lambda>target. bindM (get_plan (s_plan sub)) (\<lambda>current.
         ret (p_monthly_price target < p_monthly_price current))))"

text \<open>The two entity fields are gated: while either name is unset nothing verifies. The checks follow
  each other as the conjunction of the code does.\<close>

definition verify_dates ::
  "string \<Rightarrow> string \<Rightarrow> instant \<Rightarrow> subscription \<Rightarrow> json \<Rightarrow> instant \<Rightarrow> bool bprog" where
  "verify_dates start_field expiry_field margin sub entity t = (case as_int (jget start_field entity) of
     None \<Rightarrow> ret False
   | Some start \<Rightarrow> bindM (need (s_period_end sub)) (\<lambda>period_end.
       if start \<noteq> unix_timestamp period_end then ret False
       else (case as_int (jget expiry_field entity) of
         None \<Rightarrow> ret False
       | Some expiry \<Rightarrow> bindM (need (s_replacement_expires_at sub)) (\<lambda>expires_at.
           ret (expiry = unix_timestamp expires_at \<and> t < seconds expiry \<and> t < period_end - margin)))))"

definition downgrade_verified :: "subscription \<Rightarrow> json \<Rightarrow> instant \<Rightarrow> bool bprog" where
  "downgrade_verified sub entity t = bindM (asks gates) (\<lambda>g.
     case (downgrade_start_field g, downgrade_expiry_field g) of
       (Some start_field, Some expiry_field) \<Rightarrow>
         bindM (catchM (bindM (replacement_window DOWNGRADE) (\<lambda>x. ret (Some x)))
             (\<lambda>e. if e = App BillingNotConfigured then Some (ret None) else None)) (\<lambda>window. case window of
           None \<Rightarrow> ret False
         | Some margin \<Rightarrow>
             if jget ''status'' entity \<noteq> JStr ''authenticated'' then ret False
             else (case s_replacement_plan sub of
               None \<Rightarrow> ret False
             | Some i \<Rightarrow> bindM (get_plan i) (\<lambda>target.
                 if \<not> same_text (p_provider_plan_id target) (jget ''plan_id'' entity) then ret False
                 else verify_dates start_field expiry_field margin sub entity t)))
     | _ \<Rightarrow> ret False)"

definition commit_candidate :: "subscription option \<Rightarrow> bool" where
  "commit_candidate row \<longleftrightarrow> (case row of None \<Rightarrow> False
     | Some sub \<Rightarrow> s_status sub = Active \<and> s_replacement_ref sub \<noteq> None \<and> s_replacement_committed_at sub = None)"

text \<open>T1: verify and record the intent; \<open>None\<close> where the code returns \<open>False\<close>.\<close>

definition commit_t1 :: "(uuid \<times> string option \<times> string option) option bprog" where
  "commit_t1 = bindM sub_first (\<lambda>row. case row of
     None \<Rightarrow> ret None
   | Some r \<Rightarrow> if \<not> commit_candidate row then ret None
     else bindM (lock_subscription (s_id r)) (\<lambda>sub.
       if \<not> commit_candidate (Some sub) then ret None
       else bindM (is_downgrade sub) (\<lambda>dg. if \<not> dg then ret None
       else bindM (refetch_replacement sub) (\<lambda>got. case got of
         None \<Rightarrow> ret None
       | Some entity \<Rightarrow> if jget ''status'' entity \<noteq> JStr ''authenticated'' then ret None
         else bindM now (\<lambda>t. bindM (downgrade_verified sub entity t) (\<lambda>ok.
           if \<not> ok then
             bindM (abandon_unless_active ''verification_failed'' not_active (Some entity) (sub, {})) (\<lambda>(abandoned, _, sub1, fields).
               bindM (if abandoned then bindM (save_sub (insert F_updated_at fields) sub1) (\<lambda>_. ret ()) else ret ()) (\<lambda>_. ret None))
           else
             bindM (save_sub {F_replacement_committed_at, F_updated_at} (sub\<lparr>s_replacement_committed_at := Some t\<rparr>)) (\<lambda>sub1.
             bindM (get_plan (s_plan sub1)) (\<lambda>from_plan. bindM (need (s_replacement_plan sub1)) (\<lambda>i. bindM (get_plan i) (\<lambda>to_plan.
             seqM (audit AUDIT_REPLACEMENT_COMMITTED sub1 None [(''from_plan'', JStr (p_name from_plan)),
                 (''to_plan'', JStr (p_name to_plan)), (''effective'', JStr ''REPLACEMENT_SCHEDULED'')])
               (ret (Some (s_id sub1, s_payment_ref sub1, s_replacement_ref sub1))))))))))))) "

datatype cancel_outcome = Confirmed | Refused | Unknown

text \<open>The provider call between the two transactions.\<close>

definition commit_call :: "string option \<Rightarrow> cancel_outcome bprog" where
  "commit_call old_ref = catchM (bindM (need old_ref) (\<lambda>ref. bindM (cancel_subscription ref True) (\<lambda>_. ret Confirmed)))
     (\<lambda>e. case e of
        App (BillingProviderRejected _ _ _) \<Rightarrow> Some (ret Refused)
      | App BillingProviderUnavailable \<Rightarrow> Some (ret Unknown)
      | App BillingNotConfigured \<Rightarrow> Some (ret Unknown)
      | _ \<Rightarrow> None)"

text \<open>T2: record the outcome.\<close>

definition commit_t2 :: "cancel_outcome \<Rightarrow> uuid \<times> string option \<times> string option \<Rightarrow> bool bprog" where
  "commit_t2 outcome = (\<lambda>(pk, old_ref, repl_ref). bindM (lock_subscription pk) (\<lambda>sub.
     if s_payment_ref sub \<noteq> old_ref \<or> s_replacement_ref sub \<noteq> repl_ref \<or> s_replacement_committed_at sub = None then ret False
     else if outcome = Confirmed then
       bindM now (\<lambda>t. bindM (save_sub {F_replacement_confirmed_at, F_updated_at} (sub\<lparr>s_replacement_confirmed_at := Some t\<rparr>))
         (\<lambda>_. ret True))
     else
       bindM (abandon_unless_active ''cancel_refused'' not_active None
           (sub\<lparr>s_replacement_committed_at := None\<rparr>, {F_replacement_committed_at})) (\<lambda>(_, _, sub1, fields).
       bindM (save_sub (insert F_updated_at fields) sub1) (\<lambda>_. ret False))))"

definition commit_downgrade_replacement :: "bool bprog" where
  "commit_downgrade_replacement = bindM merchant_id_or_raise (\<lambda>_.
     bindM (tenant_atomic False commit_t1) (\<lambda>t1. case t1 of
       None \<Rightarrow> ret False
     | Some refs \<Rightarrow> bindM (commit_call (fst (snd refs))) (\<lambda>outcome.
         if outcome = Unknown then ret True else tenant_atomic False (commit_t2 outcome refs))))"

definition reissue_wanted :: "subscription \<Rightarrow> bool" where
  "reissue_wanted row \<longleftrightarrow> s_status row = Active \<and> s_replacement_ref row \<noteq> None \<and>
     s_replacement_committed_at row \<noteq> None \<and> s_replacement_confirmed_at row = None"

definition reissue_committed_cancel :: "unit bprog" where
  "reissue_committed_cancel = bindM merchant_id_or_raise (\<lambda>_.
     bindM (tenant_atomic False sub_first) (\<lambda>row. case row of
       None \<Rightarrow> ret ()
     | Some r \<Rightarrow> if \<not> reissue_wanted r then ret ()
         else bindM (or_none (bindM (need (s_payment_ref r)) (\<lambda>ref. cancel_subscription ref True))) (\<lambda>got. case got of
           None \<Rightarrow> ret ()
         | Some _ \<Rightarrow> tenant_atomic False (bindM (lock_subscription (s_id r)) (\<lambda>sub.
             if s_payment_ref sub = s_payment_ref r \<and> s_replacement_ref sub = s_replacement_ref r \<and>
                s_replacement_committed_at sub \<noteq> None \<and> s_replacement_confirmed_at sub = None
             then bindM now (\<lambda>t. bindM (save_sub {F_replacement_confirmed_at, F_updated_at}
                    (sub\<lparr>s_replacement_confirmed_at := Some t\<rparr>)) (\<lambda>_. ret ()))
             else ret ())))))"

subsection \<open>The retired subscription\<close>

definition retired_may_be_cancelled :: "retired_kind option \<Rightarrow> string \<Rightarrow> bool" where
  "retired_may_be_cancelled kind provider_status = (
     if provider_status \<in> set TERMINAL_PROVIDER_STATUSES then False
     else if kind = Some SwitchedOld then True
     else provider_status = ''created'' \<or> provider_status = ''authenticated'')"

definition clear_retired :: "uuid \<Rightarrow> string \<Rightarrow> unit bprog" where
  "clear_retired pk ref = tenant_atomic False (bindM (lock_subscription pk) (\<lambda>sub.
     if s_retired_ref sub = Some ref then
       bindM (save_sub {F_retired_ref, F_retired_kind, F_updated_at} (sub\<lparr>s_retired_ref := None, s_retired_kind := None\<rparr>))
         (\<lambda>_. mark_events_processed (Some ref))
     else ret ()))"

text \<open>The two provider calls of \<open>_sync_retired\<close>: the status they end with, if it is text.\<close>

definition retired_status :: "string \<Rightarrow> retired_kind option \<Rightarrow> string option bprog" where
  "retired_status ref kind = bindM (fetch_subscription ref) (\<lambda>entity.
     let status = (if is_dict entity \<and> jget ''id'' entity = JStr ref then jget ''status'' entity else JNull) in
     case as_str status of
       None \<Rightarrow> ret None
     | Some st \<Rightarrow> if st \<in> set TERMINAL_PROVIDER_STATUSES then ret (Some st)
         else if \<not> retired_may_be_cancelled kind st then ret None
         else bindM (cancel_subscription ref False) (\<lambda>e2. ret (as_str (if is_dict e2 then jget ''status'' e2 else JNull))))"

definition sync_retired :: "unit bprog" where
  "sync_retired = bindM merchant_id_or_raise (\<lambda>_.
     bindM (tenant_atomic False sub_first) (\<lambda>row. case row of
       None \<Rightarrow> ret ()
     | Some r \<Rightarrow> (case s_retired_ref r of
         None \<Rightarrow> ret ()
       | Some ref \<Rightarrow> if ref = [] then ret ()
           else bindM (or_none (retired_status ref (s_retired_kind r))) (\<lambda>got. case got of
             Some (Some st) \<Rightarrow> if st \<in> set TERMINAL_PROVIDER_STATUSES then clear_retired (s_id r) ref else ret ()
           | _ \<Rightarrow> ret ()))))"

subsection \<open>Cancelling a pending replacement\<close>

definition reject_as_unavailable :: "'a bprog \<Rightarrow> 'a bprog" where
  "reject_as_unavailable m = catchM m (\<lambda>e. case e of
     App (BillingProviderRejected _ _ _) \<Rightarrow> Some (throw (App BillingProviderUnavailable)) | _ \<Rightarrow> None)"

definition cancel_and_retire_replacement :: "subscription \<Rightarrow> uuid option \<Rightarrow> string \<Rightarrow> bool \<Rightarrow> subscription bprog" where
  "cancel_and_retire_replacement sub actor reason refuse_committed = tenant_atomic False (
     if refuse_committed \<and> s_replacement_committed_at sub \<noteq> None then throw (App ReplacementCommitted)
     else bindM (refetch_replacement sub) (\<lambda>got. case got of
       None \<Rightarrow> throw (App BillingProviderUnavailable)
     | Some entity \<Rightarrow>
         if jget ''status'' entity = JStr ''active'' then throw (App ReplacementActivating)
         else if \<not> status_in REPLACEMENT_NOT_ACTIVE entity \<or> s_retired_ref sub \<noteq> None then throw (App ProviderStateUnsupported)
         else seqM (whenM (status_in [''created'', ''authenticated''] entity)
             (bindM (need (s_replacement_ref sub)) (\<lambda>ref.
              bindM (reject_as_unavailable (cancel_subscription ref False)) (\<lambda>_. ret ()))))
           (bindM (retire_replacement entity reason actor (sub, {})) (\<lambda>(sub1, fields).
            save_sub (insert F_updated_at fields) sub1))))"

definition require_request_transaction :: "unit bprog" where
  "require_request_transaction = bindM (asks in_atomic_block) (\<lambda>b. if b then ret () else throw RuntimeErr)"

definition lock_current_subscription :: "subscription option bprog" where
  "lock_current_subscription = tenant_atomic False (bindM sub_first (\<lambda>r. case r of
     None \<Rightarrow> ret None | Some s \<Rightarrow> bindM (lock_subscription (s_id s)) (\<lambda>x. ret (Some x))))"

definition cancel_replacement :: "uuid option \<Rightarrow> subscription option bprog" where
  "cancel_replacement actor = bindM merchant_id_or_raise (\<lambda>_. seqM require_request_transaction (
     bindM lock_current_subscription (\<lambda>r. case r of
       None \<Rightarrow> ret None
     | Some sub \<Rightarrow> if s_replacement_ref sub = None then ret (Some sub)
         else bindM (cancel_and_retire_replacement sub actor ''merchant_cancelled'' True) (\<lambda>x. ret (Some x)))))"

subsection \<open>Frames\<close>

context billing_frame
begin

lemma frames_replacement_window [frame_intros]: "frames R G (replacement_window kind)"
  unfolding replacement_window_def by (intro frame_intros)

lemma frames_clear_failed_committed [frame_intros]: "frames R G (clear_failed_committed sub)"
  unfolding clear_failed_committed_def by (intro frame_intros)

lemma frames_switch_to_replacement [frame_intros]: "frames R G (switch_to_replacement sub entity invoices plan t)"
  unfolding switch_to_replacement_def by (intro frame_intros)

lemma frames_replacement_active [frame_intros]: "frames R G (replacement_active sub entity invoices t)"
  unfolding replacement_active_def by (intro frame_intros)

lemma frames_abandon_if_wanted [frame_intros]:
  "(\<And>e. frames R G (ab e)) \<Longrightarrow> frames R G (abandon_if_wanted sub ab reason wanted)"
  unfolding abandon_if_wanted_def by (intro frame_intros)

lemma frames_apply_replacement_locked [frame_intros]: "frames R G (apply_replacement_locked entity invoices t sub)"
  unfolding apply_replacement_locked_def by (intro frame_intros)

lemma frames_apply_replacement_snapshot [frame_intros]: "frames R G (apply_replacement_snapshot s e invs t)"
  unfolding apply_replacement_snapshot_def by (intro frame_intros)

lemma frames_is_downgrade [frame_intros]: "frames R G (is_downgrade sub)"
  unfolding is_downgrade_def by (intro frame_intros)

lemma frames_downgrade_verified [frame_intros]: "frames R G (downgrade_verified sub entity t)"
  unfolding downgrade_verified_def verify_dates_def
  by (intro frame_intros) (auto split: if_splits intro: frame_intros)

lemma frames_commit_t1 [frame_intros]: "frames R G commit_t1"
  unfolding commit_t1_def by (intro frame_intros)

lemma frames_commit_call [frame_intros]: "frames R G (commit_call old_ref)"
  unfolding commit_call_def
  by (intro frame_intros) (auto split: exn.splits billing_error.splits intro: frame_intros)

lemma frames_commit_t2 [frame_intros]: "frames R G (commit_t2 outcome refs)"
  unfolding commit_t2_def by (intro frame_intros)

lemma frames_commit_downgrade_replacement [frame_intros]: "frames R G commit_downgrade_replacement"
  unfolding commit_downgrade_replacement_def by (intro frame_intros)

lemma frames_reissue_committed_cancel [frame_intros]: "frames R G reissue_committed_cancel"
  unfolding reissue_committed_cancel_def by (intro frame_intros)

lemma frames_clear_retired [frame_intros]: "frames R G (clear_retired pk ref)"
  unfolding clear_retired_def by (intro frame_intros)

lemma frames_retired_status [frame_intros]: "frames R G (retired_status ref kind)"
  unfolding retired_status_def by (intro frame_intros)

lemma frames_sync_retired [frame_intros]: "frames R G sync_retired"
  unfolding sync_retired_def by (intro frame_intros)

lemma frames_reject_as_unavailable [frame_intros]: "frames R G m \<Longrightarrow> frames R G (reject_as_unavailable m)"
  unfolding reject_as_unavailable_def
  by (intro frame_intros) (auto split: exn.splits billing_error.splits intro: frame_intros)

lemma frames_cancel_and_retire_replacement [frame_intros]: "frames R G (cancel_and_retire_replacement sub actor reason b)"
  unfolding cancel_and_retire_replacement_def by (intro frame_intros)

lemma frames_require_request_transaction [frame_intros]: "frames R G require_request_transaction"
  unfolding require_request_transaction_def by (intro frame_intros)

lemma frames_lock_current_subscription [frame_intros]: "frames R G lock_current_subscription"
  unfolding lock_current_subscription_def by (intro frame_intros)

lemma frames_cancel_replacement [frame_intros]: "frames R G (cancel_replacement actor)"
  unfolding cancel_replacement_def by (intro frame_intros)

end

end
