(* ===== verification/BillingSync.thy ===== *)
theory BillingSync
  imports BillingReplacement
begin

text \<open>
  The syncs and the sweep of \<open>billing/services.py\<close>: \<open>sync_subscription\<close> with its three steps, the sync a
  webhook enqueues, dunning with the owed provider cancel, and \<open>maintenance_due\<close>. Every provider call
  here is made outside the transactions of the module.
\<close>

subsection \<open>Syncing\<close>

definition EVENT_SETTLE_AFTER :: instant where "EVENT_SETTLE_AFTER = minutes 2"
definition EVENT_CLOCK_SKEW :: instant where "EVENT_CLOCK_SKEW = seconds 5"
definition INCOMPLETE_SWEEP_WINDOW :: instant where "INCOMPLETE_SWEEP_WINDOW = days 7"

definition fetch_invoices_if_needed ::
  "string \<Rightarrow> sub_status \<Rightarrow> instant option \<Rightarrow> json \<Rightarrow> json list option bprog" where
  "fetch_invoices_if_needed ref old_status old_period_start entity = (
     if jget ''status'' entity \<noteq> JStr ''active'' then ret None
     else if old_status = Active \<and> old_period_start \<noteq> None \<and> from_unix (jget ''current_start'' entity) = old_period_start
     then ret None
     else bindM (fetch_invoices ref) (\<lambda>xs. ret (Some xs)))"

text \<open>The fetch of a sync step: the entity and the invoices, or \<open>None\<close> when the step ends here.\<close>

definition fetch_main :: "string \<Rightarrow> sub_status \<Rightarrow> instant option \<Rightarrow> (json \<times> json list option) option bprog" where
  "fetch_main ref old_status old_period_start = or_none (bindM (fetch_subscription ref) (\<lambda>entity.
     bindM (fetch_invoices_if_needed ref old_status old_period_start entity) (\<lambda>invoices. ret (entity, invoices))))"

definition fetch_replacement :: "string \<Rightarrow> sub_status \<Rightarrow> instant option \<Rightarrow> (json \<times> json list option) option bprog" where
  "fetch_replacement ref old_status old_period_start =
     bindM (or_none (bindM (fetch_subscription ref) (\<lambda>entity.
       if \<not> is_dict entity \<or> jget ''id'' entity \<noteq> JStr ref then ret None
       else bindM (fetch_invoices_if_needed ref old_status old_period_start entity) (\<lambda>invoices. ret (Some (entity, invoices))))))
     (\<lambda>r. ret (case r of None \<Rightarrow> None | Some x \<Rightarrow> x))"

definition observed_before :: "instant \<Rightarrow> billing_event \<Rightarrow> bool" where
  "observed_before fetch_started_at e \<longleftrightarrow> be_created_at e < fetch_started_at - EVENT_CLOCK_SKEW"

definition sync_replacement :: "unit bprog" where
  "sync_replacement = bindM merchant_id_or_raise (\<lambda>_.
     bindM (tenant_atomic False sub_first) (\<lambda>row. case row of
       None \<Rightarrow> ret ()
     | Some r \<Rightarrow> (case s_replacement_ref r of
         None \<Rightarrow> ret ()
       | Some ref \<Rightarrow> if ref = [] then ret ()
         else bindM now (\<lambda>fetch_started_at.
           bindM (fetch_replacement ref (s_status r) (s_period_start r)) (\<lambda>got. case got of
             None \<Rightarrow> ret ()
           | Some (entity, invoices) \<Rightarrow>
               seqM (tenant_atomic False (bindM (apply_replacement_snapshot r entity invoices fetch_started_at) (\<lambda>res.
                   if settled res
                   then bindM now (\<lambda>stamp. mark_events (\<lambda>e. be_provider_ref e = ref \<and> observed_before fetch_started_at e) stamp)
                   else ret ())))
                 (if jget ''status'' entity = JStr ''authenticated''
                  then bindM commit_downgrade_replacement (\<lambda>committed. if committed then ret () else reissue_committed_cancel)
                  else ret ()))))))"

definition sync_main :: "unit bprog" where
  "sync_main = bindM merchant_id_or_raise (\<lambda>_.
     bindM (tenant_atomic False sub_first) (\<lambda>row. case row of
       None \<Rightarrow> ret ()
     | Some r \<Rightarrow> (case s_payment_ref r of
         None \<Rightarrow> ret ()
       | Some ref \<Rightarrow> if ref = [] then ret ()
         else bindM now (\<lambda>fetch_started_at.
           bindM (fetch_main ref (s_status r) (s_period_start r)) (\<lambda>got. case got of
             None \<Rightarrow> ret ()
           | Some (entity, invoices) \<Rightarrow>
               tenant_atomic False (bindM (apply_snapshot r entity invoices fetch_started_at None) (\<lambda>res.
                 if settled res
                 then bindM now (\<lambda>stamp. bindM sub_first (\<lambda>s.
                   let live = (case s of None \<Rightarrow> None | Some x \<Rightarrow> s_replacement_ref x) in
                   mark_events (\<lambda>e. observed_before fetch_started_at e \<and>
                     \<not> (truthy_text live \<and> Some (be_provider_ref e) = live)) stamp))
                 else ret ())))))))"

definition sync_subscription :: "unit bprog" where
  "sync_subscription = finallyM sync_replacement (finallyM sync_main sync_retired)"

definition unprocessed :: "uuid \<Rightarrow> billing_event \<Rightarrow> bool" where
  "unprocessed m e \<longleftrightarrow> be_merchant e = m \<and> be_processed_at e = None"

definition sync_pending_events :: "unit bprog" where
  "sync_pending_events = bindM merchant_id_or_raise (\<lambda>_.
     bindM (tenant_atomic False (query (\<lambda>m d. list_ex (unprocessed m) (billing_events d)))) (\<lambda>pend.
       if pend then sync_subscription else ret ()))"

subsection \<open>Dunning\<close>

definition AUDIT_DUNNING_CHECKPOINT :: string where
  "AUDIT_DUNNING_CHECKPOINT = ''billing.dunning_checkpoint''"

definition DUNNING_STAGES :: "(nat \<times> instant) list" where
  "DUNNING_STAGES = [(6, days 6), (3, days 3)]"

text \<open>The loop over the stages returns at the first one that is due.\<close>

fun advance_stages :: "(nat \<times> instant) list \<Rightarrow> subscription \<Rightarrow> instant \<Rightarrow> instant \<Rightarrow> unit bprog" where
  "advance_stages [] sub since t = ret ()"
| "advance_stages ((stage, offset) # rest) sub since t = (
     if since + offset \<le> t then
       bindM (update_sub_where
           (\<lambda>r. s_id r = s_id sub \<and> s_past_due_at r = Some since \<and> (case s_dunning_stage r of None \<Rightarrow> False | Some n \<Rightarrow> n < stage))
           (\<lambda>r. r\<lparr>s_dunning_stage := Some stage, s_updated_at := t\<rparr>)) (\<lambda>advanced.
         whenM advanced (audit AUDIT_DUNNING_CHECKPOINT sub None [(''stage'', JInt (int stage))]))
     else advance_stages rest sub since t)"

definition advance_past_due :: "subscription \<Rightarrow> instant \<Rightarrow> unit bprog" where
  "advance_past_due sub t = bindM (need (s_past_due_at sub)) (\<lambda>since.
     if since + GRACE \<le> t then
       bindM (save_sub {F_status, F_past_due_at, F_dunning_stage, F_updated_at}
           (sub\<lparr>s_status := Expired, s_past_due_at := None, s_dunning_stage := None\<rparr>)) (\<lambda>sub1.
         audit AUDIT_EXPIRED sub1 None [(''from_status'', status_json PastDue), (''to_status'', status_json Expired)])
     else advance_stages DUNNING_STAGES sub since t)"

definition owed_cancel :: "subscription \<Rightarrow> bool" where
  "owed_cancel s \<longleftrightarrow> (s_status s = Cancelled \<or> s_status s = Expired) \<and> s_payment_ref s \<noteq> None \<and>
     provider_may_be_cancelled (s_provider_status s)"

definition retry_owed_provider_cancel :: "unit bprog" where
  "retry_owed_provider_cancel =
     bindM (tenant_atomic False sub_first) (\<lambda>row. case row of
       None \<Rightarrow> ret ()
     | Some r \<Rightarrow> if \<not> owed_cancel r then ret ()
         else bindM (or_none (bindM (need (s_payment_ref r)) (\<lambda>ref. cancel_subscription ref False))) (\<lambda>got. case got of
           None \<Rightarrow> ret ()
         | Some entity \<Rightarrow> (case as_str (jget ''status'' entity) of
             None \<Rightarrow> ret ()
           | Some st \<Rightarrow> tenant_atomic False (bindM (update_sub_where (\<lambda>x. s_id x = s_id r \<and> s_payment_ref x = s_payment_ref r)
               (\<lambda>x. x\<lparr>s_provider_status := Some (take 16 st)\<rparr>)) (\<lambda>_. ret ())))))"

definition advance_dunning :: "instant option \<Rightarrow> unit bprog" where
  "advance_dunning at = bindM merchant_id_or_raise (\<lambda>_.
     bindM (case at of None \<Rightarrow> now | Some t \<Rightarrow> ret t) (\<lambda>t.
     seqM (tenant_atomic False (bindM sub_first (\<lambda>row. case row of
         None \<Rightarrow> ret ()
       | Some r \<Rightarrow> bindM (lock_subscription (s_id r)) (\<lambda>sub.
           if s_status sub = PastDue then advance_past_due sub t else ret ()))))
       retry_owed_provider_cancel))"

subsection \<open>The sweep\<close>

definition settled_event_due :: "uuid \<Rightarrow> instant \<Rightarrow> billing_event \<Rightarrow> bool" where
  "settled_event_due m t e \<longleftrightarrow> unprocessed m e \<and> be_created_at e \<le> t - EVENT_SETTLE_AFTER"

definition row_due :: "instant \<Rightarrow> subscription \<Rightarrow> bool" where
  "row_due t s \<longleftrightarrow>
     s_status s = Incomplete \<and> s_payment_ref s \<noteq> None \<and> t - INCOMPLETE_SWEEP_WINDOW \<le> s_updated_at s \<or>
     s_status s = Active \<and> (case s_period_end s of None \<Rightarrow> False | Some e \<Rightarrow> e \<le> t) \<and> s_payment_ref s \<noteq> None \<or>
     s_status s = PastDue \<or>
     s_replacement_ref s \<noteq> None \<or>
     s_retired_ref s \<noteq> None \<or>
     (s_status s = Cancelled \<or> s_status s = Expired) \<and> s_payment_ref s \<noteq> None \<and>
       (case s_provider_status s of None \<Rightarrow> True | Some st \<Rightarrow> st \<notin> set TERMINAL_PROVIDER_STATUSES)"

definition maintenance_due :: "instant option \<Rightarrow> bool bprog" where
  "maintenance_due at = bindM merchant_id_or_raise (\<lambda>_.
     bindM (case at of None \<Rightarrow> now | Some t \<Rightarrow> ret t) (\<lambda>t.
     tenant_atomic False (query (\<lambda>m d. list_ex (settled_event_due m t) (billing_events d) \<or>
       (case subs d m of None \<Rightarrow> False | Some s \<Rightarrow> row_due t s)))))"

subsection \<open>The Celery tasks\<close>

text \<open>\<open>billing/tasks.py\<close>: each task enters the tenant context of its merchant; the sweep enqueues two
  tasks per due merchant when the check's transaction commits, and a failure of one merchant
  never stops the loop.\<close>

definition sync_subscription_task :: "uuid option \<Rightarrow> unit bprog" where
  "sync_subscription_task = tenant_task (\<lambda>_. sync_pending_events)"

definition maintain_subscription :: "uuid option \<Rightarrow> unit bprog" where
  "maintain_subscription = tenant_task (\<lambda>_. sync_subscription)"

definition advance_subscription_dunning :: "uuid option \<Rightarrow> unit bprog" where
  "advance_subscription_dunning = tenant_task (\<lambda>_. advance_dunning None)"

definition enqueue_maintenance :: "uuid \<Rightarrow> unit bprog" where
  "enqueue_maintenance merchant_id = seqM (on_commit (MaintainSubscription merchant_id)) (on_commit (AdvanceDunning merchant_id))"

definition check_merchant :: "uuid \<Rightarrow> unit bprog" where
  "check_merchant merchant_id = catchM
     (tenant_context (Some merchant_id) (tenant_atomic False (bindM (maintenance_due None) (\<lambda>due.
        whenM due (enqueue_maintenance merchant_id)))))
     (\<lambda>e. Some (ret ()))"

definition run_billing_maintenance :: "unit bprog" where
  "run_billing_maintenance = bindM (asks (\<lambda>w. map fst (filter (\<lambda>(_, st). st \<noteq> MDeleted) (merchants (db w)))))
     (\<lambda>merchant_ids. forM merchant_ids check_merchant)"

subsection \<open>Frames\<close>

context billing_frame
begin

lemma frames_fetch_invoices_if_needed [frame_intros]: "frames R G (fetch_invoices_if_needed ref st ps e)"
  unfolding fetch_invoices_if_needed_def by (intro frame_intros)

lemma frames_fetch_main [frame_intros]: "frames R G (fetch_main ref st ps)"
  unfolding fetch_main_def by (intro frame_intros)

lemma frames_fetch_replacement [frame_intros]: "frames R G (fetch_replacement ref st ps)"
  unfolding fetch_replacement_def by (intro frame_intros)

lemma frames_sync_replacement [frame_intros]: "frames R G sync_replacement"
  unfolding sync_replacement_def by (intro frame_intros)

lemma frames_sync_main [frame_intros]: "frames R G sync_main"
  unfolding sync_main_def by (intro frame_intros)

lemma frames_sync_subscription [frame_intros]: "frames R G sync_subscription"
  unfolding sync_subscription_def by (intro frame_intros)

lemma frames_sync_pending_events [frame_intros]: "frames R G sync_pending_events"
  unfolding sync_pending_events_def by (intro frame_intros)

lemma frames_advance_stages [frame_intros]: "frames R G (advance_stages xs sub since t)"
  by (induction xs sub since t rule: advance_stages.induct) (simp_all only: advance_stages.simps, (intro frame_intros; simp)+)

lemma frames_advance_past_due [frame_intros]: "frames R G (advance_past_due sub t)"
  unfolding advance_past_due_def by (intro frame_intros)

lemma frames_retry_owed_provider_cancel [frame_intros]: "frames R G retry_owed_provider_cancel"
  unfolding retry_owed_provider_cancel_def by (intro frame_intros)

lemma frames_advance_dunning [frame_intros]: "frames R G (advance_dunning at)"
  unfolding advance_dunning_def by (intro frame_intros)

lemma frames_maintenance_due [frame_intros]: "frames R H (maintenance_due at)"
  unfolding maintenance_due_def by (intro frame_intros)

end

end
