(* ===== verification/BillingCheckout.thy ===== *)
theory BillingCheckout
  imports BillingSync
begin

text \<open>
  Checkout, cancel and the dashboard view of \<open>billing/services.py\<close>. They run inside the request's
  transaction, under the row lock; each phase is its own savepoint.
\<close>

subsection \<open>Results and helpers\<close>

definition AUDIT_CHECKOUT_STARTED :: string where "AUDIT_CHECKOUT_STARTED = ''billing.checkout_started''"
definition AUDIT_CANCELLATION_REQUESTED :: string where
  "AUDIT_CANCELLATION_REQUESTED = ''billing.cancellation_requested''"
definition AUDIT_REPLACEMENT_STARTED :: string where "AUDIT_REPLACEMENT_STARTED = ''billing.replacement_started''"

definition RECOGNIZED_PROVIDER_STATUSES :: "string list" where
  "RECOGNIZED_PROVIDER_STATUSES = [''created'', ''authenticated'', ''active'', ''pending'', ''halted'', ''cancelled'',
     ''completed'', ''expired'', ''paused'']"

record checkout_result =
  cr_created :: bool
  cr_checkout :: "json option"

definition require_configured :: "unit bprog" where
  "require_configured = bindM (asks cfg) (\<lambda>c.
     if key_id c = [] \<or> key_secret c = [] then throw (App BillingNotConfigured) else ret ())"

definition checkout_payload :: "string \<Rightarrow> json bprog" where
  "checkout_payload ref = asks (\<lambda>w. JObj [(''provider'', JStr ''razorpay''), (''key_id'', JStr (key_id (cfg w))),
     (''subscription_id'', JStr ref)])"

definition offered_plan :: "uuid \<Rightarrow> plan bprog" where
  "offered_plan plan_id = bindM (asks (\<lambda>w. first (\<lambda>p. p_id p = plan_id \<and> p_is_active p) (plans (db w)))) (\<lambda>found. case found of
     None \<Rightarrow> throw (App PlanNotAvailable)
   | Some p \<Rightarrow> if truthy_text (p_provider_plan_id p) then ret p else throw (App PlanNotAvailable))"

definition valid_ref_json :: "json \<Rightarrow> string option" where
  "valid_ref_json j = (case as_str j of None \<Rightarrow> None | Some s \<Rightarrow> if is_valid_billing_ref s then Some s else None)"

subsection \<open>The dashboard view\<close>

datatype action_type = SUBSCRIBE | COMPLETE_CHECKOUT | UPDATE_PAYMENT_METHOD | RESUBSCRIBE | CANCELLATION | PLAN_CHANGE | RENEWAL

definition next_action :: "subscription option \<Rightarrow> instant option \<Rightarrow> action_type \<times> instant option" where
  "next_action subscription grace_ends_at = (case subscription of
     None \<Rightarrow> (SUBSCRIBE, None)
   | Some s \<Rightarrow>
       if s_status s = Cancelled \<or> s_status s = Expired then (SUBSCRIBE, None)
       else if s_status s = Incomplete then (COMPLETE_CHECKOUT, None)
       else if s_status s = PastDue then
         (if s_provider_status s = Some ''pending'' then UPDATE_PAYMENT_METHOD else RESUBSCRIBE, grace_ends_at)
       else if s_cancel_at_period_end s then (CANCELLATION, s_period_end s)
       else if s_pending_plan s \<noteq> None then (PLAN_CHANGE, s_period_end s)
       else (RENEWAL, s_period_end s))"

record replacement_info =
  ri_plan :: plan
  ri_kind :: replacement_kind
  ri_committed :: bool
  ri_effective_at :: "instant option"

definition replacement_view :: "subscription option \<Rightarrow> replacement_info option bprog" where
  "replacement_view subscription = (case subscription of
     None \<Rightarrow> ret None
   | Some s \<Rightarrow> if s_replacement_ref s = None then ret None
       else (case s_replacement_plan s of
         None \<Rightarrow> throw AttributeErr
       | Some i \<Rightarrow> bindM (get_plan i) (\<lambda>target. bindM (get_plan (s_plan s)) (\<lambda>current.
           let downgrade = (p_monthly_price target < p_monthly_price current) in
           ret (Some \<lparr>ri_plan = target, ri_kind = (if downgrade then DOWNGRADE else UPGRADE),
             ri_committed = (s_replacement_committed_at s \<noteq> None),
             ri_effective_at = (if downgrade then s_period_end s else None)\<rparr>)))))"

record overview =
  o_subscription :: "subscription option"
  o_entitlement :: entitlement
  o_grace_ends_at :: "instant option"
  o_checkout :: "(json \<times> bool) option"
  o_next_action :: "action_type \<times> instant option"
  o_replacement :: "replacement_info option"

definition overview_checkout :: "bool \<Rightarrow> subscription option \<Rightarrow> (json \<times> bool) option bprog" where
  "overview_checkout is_owner subscription = (case subscription of
     None \<Rightarrow> ret None
   | Some s \<Rightarrow> (case s_payment_ref s of
       None \<Rightarrow> ret None
     | Some ref \<Rightarrow>
         if \<not> is_owner \<or> ref = [] then ret None
         else if s_status s = Incomplete then bindM (checkout_payload ref) (\<lambda>c. ret (Some (c, False)))
         else if s_status s = PastDue \<and> s_provider_status s = Some ''pending'' then
           bindM (checkout_payload ref) (\<lambda>c. ret (Some (c, True)))
         else ret None))"

definition get_subscription_overview :: "bool \<Rightarrow> overview bprog" where
  "get_subscription_overview is_owner = bindM merchant_id_or_raise (\<lambda>_.
     bindM (tenant_atomic False (bindM sub_first (\<lambda>s. bindM get_entitlement (\<lambda>e. ret (s, e))))) (\<lambda>(subscription, ent).
     bindM (case subscription of None \<Rightarrow> ret None
            | Some s \<Rightarrow> if s_status s = PastDue then bindM (need (s_past_due_at s)) (\<lambda>d. ret (Some (d + GRACE))) else ret None)
       (\<lambda>grace_ends_at.
     bindM (overview_checkout is_owner subscription) (\<lambda>checkout.
     bindM (replacement_view subscription) (\<lambda>rep.
     ret \<lparr>o_subscription = subscription, o_entitlement = ent, o_grace_ends_at = grace_ends_at, o_checkout = checkout,
          o_next_action = next_action subscription grace_ends_at, o_replacement = rep\<rparr>)))))"

subsection \<open>Reconcile\<close>

definition well_formed_entity :: "string \<Rightarrow> json \<Rightarrow> bool" where
  "well_formed_entity ref entity \<longleftrightarrow> is_dict entity \<and> jget ''id'' entity = JStr ref \<and> is_str (jget ''status'' entity)"

definition fetch_provider_entity :: "string \<Rightarrow> json bprog" where
  "fetch_provider_entity ref = bindM (reject_as_unavailable (fetch_subscription ref)) (\<lambda>entity.
     if well_formed_entity ref entity then ret entity else throw (App BillingProviderUnavailable))"

definition reconcile :: "subscription \<Rightarrow> uuid option \<Rightarrow> (subscription \<times> json) bprog" where
  "reconcile subscription actor = bindM (need (s_payment_ref subscription)) (\<lambda>ref.
     bindM now (\<lambda>started.
     bindM (fetch_provider_entity ref) (\<lambda>entity.
     bindM (reject_as_unavailable
        (fetch_invoices_if_needed ref (s_status subscription) (s_period_start subscription) entity)) (\<lambda>invoices.
     bindM (tenant_atomic False (apply_snapshot subscription entity invoices started actor)) (\<lambda>_.
     bindM (tenant_atomic False (lock_subscription (s_id subscription))) (\<lambda>sub. ret (sub, entity)))))))"

definition check_provider_state :: "json \<Rightarrow> unit bprog" where
  "check_provider_state entity = (
     if jget ''status'' entity = JStr ''paused'' \<or> \<not> status_in RECOGNIZED_PROVIDER_STATUSES entity
     then throw (App ProviderStateUnsupported)
     else bindM (replacement_plan entity) (\<lambda>p. if p = None then throw (App SubscriptionPlanUnsupported) else ret ()))"

subsection \<open>Creating and replacing the provider subscription\<close>

definition create_provider_subscription :: "plan \<Rightarrow> (json \<times> string) bprog" where
  "create_provider_subscription plan = bindM (need (p_provider_plan_id plan)) (\<lambda>i.
     bindM (reject_as_unavailable (create_subscription i None None)) (\<lambda>entity.
     case valid_ref_json (jget ''id'' entity) of
       None \<Rightarrow> throw (App BillingProviderUnavailable)
     | Some ref \<Rightarrow> if is_dict entity then ret (entity, ref) else throw (App BillingProviderUnavailable)))"

definition cancel_old_provider_subscription :: "string \<Rightarrow> unit bprog" where
  "cancel_old_provider_subscription ref = bindM (reject_as_unavailable (cancel_subscription ref False)) (\<lambda>_. ret ())"

text \<open>The row as a new provider subscription resets it.\<close>

definition reset_row :: "uuid \<Rightarrow> string \<Rightarrow> json \<Rightarrow> subscription \<Rightarrow> subscription" where
  "reset_row plan ref entity s = s\<lparr>s_plan := plan, s_status := Incomplete, s_payment_ref := Some ref,
     s_provider_status := map_option (take 16) (as_str (jget ''status'' entity)), s_pending_plan := None,
     s_cancel_at_period_end := False, s_provider_synced_at := None, s_period_start := None, s_period_end := None\<rparr>"

definition reset_fields :: "sub_field set" where
  "reset_fields = {F_plan, F_status, F_payment_ref, F_provider_status, F_pending_plan, F_cancel_at_period_end,
     F_provider_synced_at, F_period_start, F_period_end, F_updated_at}"

definition store_new_provider_subscription :: "subscription \<Rightarrow> plan \<Rightarrow> json \<Rightarrow> string \<Rightarrow> uuid option \<Rightarrow> unit bprog" where
  "store_new_provider_subscription s plan entity ref actor =
     bindM (save_sub reset_fields (reset_row (p_id plan) ref entity s)) (\<lambda>s1.
       audit AUDIT_CHECKOUT_STARTED s1 actor [(''plan_id'', JStr (p_id plan)), (''plan_name'', JStr (p_name plan))])"

definition clear_replacement_before_reset :: "subscription \<Rightarrow> subscription bprog" where
  "clear_replacement_before_reset s = (
     if s_replacement_ref s = None then ret s
     else bindM (abandon_unless_active ''row_ended'' not_active None (s, {})) (\<lambda>(abandoned, entity, s1, fields).
       if abandoned then save_sub (insert F_updated_at fields) s1
       else (case entity of
         None \<Rightarrow> if s_replacement_committed_at s1 = None then throw (App BillingProviderUnavailable)
                 else throw (App ProviderStateUnsupported)
       | Some e \<Rightarrow> if jget ''status'' e = JStr ''active'' then throw (App ReplacementActivating)
                   else throw (App ProviderStateUnsupported))))"

definition replace_provider_subscription ::
  "subscription \<Rightarrow> plan \<Rightarrow> uuid option \<Rightarrow> string option \<Rightarrow> checkout_result bprog" where
  "replace_provider_subscription s plan actor cancel_ref =
     bindM (tenant_atomic False (
       bindM (clear_replacement_before_reset s) (\<lambda>s1.
       seqM (case cancel_ref of None \<Rightarrow> ret () | Some ref \<Rightarrow> cancel_old_provider_subscription ref)
         (bindM (create_provider_subscription plan) (\<lambda>(entity, ref).
          seqM (store_new_provider_subscription s1 plan entity ref actor) (ret ref)))))) (\<lambda>ref.
     bindM (checkout_payload ref) (\<lambda>c. ret \<lparr>cr_created = True, cr_checkout = Some c\<rparr>))"

definition new_row :: "uuid \<Rightarrow> uuid \<Rightarrow> uuid \<Rightarrow> instant \<Rightarrow> subscription" where
  "new_row i m plan t = \<lparr>s_id = i, s_merchant = m, s_plan = plan, s_status = Incomplete, s_period_start = None,
     s_period_end = None, s_payment_ref = None, s_pending_plan = None, s_past_due_at = None, s_dunning_stage = None,
     s_cancel_at_period_end = False, s_provider_status = None, s_provider_synced_at = None, s_replacement_ref = None,
     s_replacement_expires_at = None, s_replacement_plan = None, s_replacement_committed_at = None,
     s_replacement_confirmed_at = None, s_retired_ref = None, s_retired_kind = None, s_updated_at = t\<rparr>"

definition first_checkout :: "plan \<Rightarrow> uuid option \<Rightarrow> checkout_result option bprog" where
  "first_checkout plan actor = bindM merchant_id_or_raise (\<lambda>m.
     bindM (tenant_atomic False (
       bindM new_uuid (\<lambda>i. bindM now (\<lambda>t.
       bindM (catchM (atomic (seqM insert_wait (seqM (create_sub (new_row i m (p_id plan) t)) (ret True))))
          (\<lambda>e. if integrity_error e then Some (ret False) else None)) (\<lambda>inserted.
       if \<not> inserted then ret None
       else bindM (create_provider_subscription plan) (\<lambda>(entity, ref).
         seqM (store_new_provider_subscription (new_row i m (p_id plan) t) plan entity ref actor) (ret (Some ref)))))))) (\<lambda>r.
     case r of None \<Rightarrow> ret None
     | Some ref \<Rightarrow> bindM (checkout_payload ref) (\<lambda>c. ret (Some \<lparr>cr_created = True, cr_checkout = Some c\<rparr>))))"

subsection \<open>The plan-change replacement\<close>

definition replacement_pending :: "subscription \<Rightarrow> plan \<Rightarrow> checkout_result bprog" where
  "replacement_pending s plan = (
     if s_replacement_plan s = Some (p_id plan)
     then bindM (need (s_replacement_ref s)) (\<lambda>ref. bindM (checkout_payload ref) (\<lambda>c. ret \<lparr>cr_created = False, cr_checkout = Some c\<rparr>))
     else throw (App ReplacementInProgress))"

definition create_replacement_subscription :: "plan \<Rightarrow> int option \<Rightarrow> int \<Rightarrow> string option \<Rightarrow> string bprog" where
  "create_replacement_subscription plan start_at expire_by current_ref = bindM (need (p_provider_plan_id plan)) (\<lambda>i.
     bindM (reject_as_unavailable (create_subscription i start_at (Some expire_by))) (\<lambda>entity.
     case valid_ref_json (jget ''id'' entity) of
       None \<Rightarrow> throw (App BillingProviderUnavailable)
     | Some ref \<Rightarrow> if \<not> is_dict entity \<or> Some ref = current_ref then throw (App BillingProviderUnavailable) else ret ref))"

text \<open>Start time and deadline of the replacement, checked before any provider call.\<close>

definition replacement_schedule ::
  "subscription \<Rightarrow> replacement_kind \<Rightarrow> instant \<Rightarrow> instant \<Rightarrow> (int option \<times> instant) bprog" where
  "replacement_schedule s kind window t = (case kind of
     UPGRADE \<Rightarrow> ret (None, t + window)
   | DOWNGRADE \<Rightarrow> bindM (need (s_period_end s)) (\<lambda>e. bindM (asks gates) (\<lambda>g.
       let cutoff = e - window in
       if downgrade_start_field g = None \<or> cutoff \<le> t then throw (App PlanChangeUnsupported)
       else ret (Some (unix_timestamp e), cutoff - seconds 1))))"

definition start_plan_change_replacement ::
  "subscription \<Rightarrow> plan \<Rightarrow> replacement_kind \<Rightarrow> uuid option \<Rightarrow> bool \<Rightarrow> checkout_result bprog" where
  "start_plan_change_replacement s plan kind actor acknowledge_no_credit =
     bindM (replacement_window kind) (\<lambda>window. bindM now (\<lambda>t.
     bindM (replacement_schedule s kind window t) (\<lambda>(start_at, expires_at).
     if s_retired_ref s \<noteq> None then throw (App ReplacementInProgress)
     else if kind = UPGRADE \<and> \<not> acknowledge_no_credit then throw (App NoCreditAcknowledgementRequired)
     else bindM (create_replacement_subscription plan start_at (unix_timestamp expires_at) (s_payment_ref s)) (\<lambda>ref.
       seqM (tenant_atomic False (
         let s1 = s\<lparr>s_replacement_ref := Some ref, s_replacement_plan := Some (p_id plan), s_replacement_expires_at := Some expires_at\<rparr>;
             f1 = {F_replacement_ref, F_replacement_plan, F_replacement_expires_at, F_updated_at};
             (s2, f2) = (if kind = DOWNGRADE then (s1\<lparr>s_pending_plan := Some (p_id plan)\<rparr>, insert F_pending_plan f1) else (s1, f1))
         in bindM (save_sub f2 s2) (\<lambda>s3. bindM (get_plan (s_plan s3)) (\<lambda>from_plan.
           audit AUDIT_REPLACEMENT_STARTED s3 actor [(''kind'', JStr (if kind = UPGRADE then ''UPGRADE'' else ''DOWNGRADE'')),
             (''from_plan'', JStr (p_name from_plan)), (''to_plan'', JStr (p_name plan)), (''plan_id'', JStr (p_id plan))]))))
         (bindM (checkout_payload ref) (\<lambda>c. ret \<lparr>cr_created = True, cr_checkout = Some c\<rparr>))))))"

subsection \<open>Checkout\<close>

definition no_checkout :: checkout_result where
  "no_checkout = \<lparr>cr_created = False, cr_checkout = None\<rparr>"

text \<open>The provider update of a plan change: its entity, or the refusal.\<close>

definition try_update :: "string \<Rightarrow> string \<Rightarrow> string \<Rightarrow> (berror + json) bprog" where
  "try_update ref provider_plan_id at = catchM (bindM (update_subscription ref provider_plan_id at) (\<lambda>e. ret (Inr e)))
     (\<lambda>e. case e of App (BillingProviderRejected _ _ _) \<Rightarrow> Some (ret (Inl e)) | _ \<Rightarrow> None)"

definition apply_upgrade :: "subscription \<Rightarrow> string \<Rightarrow> json \<Rightarrow> instant \<Rightarrow> uuid option \<Rightarrow> unit bprog" where
  "apply_upgrade s ref entity started actor = (
     if \<not> well_formed_entity ref entity then throw (App BillingProviderUnavailable)
     else bindM (reject_as_unavailable (fetch_invoices_if_needed ref (s_status s) (s_period_start s) entity)) (\<lambda>invoices.
       bindM (apply_snapshot s entity invoices started actor) (\<lambda>_. ret ())))"

definition schedule_downgrade :: "subscription \<Rightarrow> plan \<Rightarrow> plan \<Rightarrow> uuid option \<Rightarrow> unit bprog" where
  "schedule_downgrade s current plan actor =
     bindM (save_sub {F_pending_plan, F_updated_at} (s\<lparr>s_pending_plan := Some (p_id plan)\<rparr>)) (\<lambda>s1.
       audit AUDIT_PLAN_CHANGED s1 actor [(''effective'', JStr ''SCHEDULED''), (''from_plan'', JStr (p_name current)),
         (''to_plan'', JStr (p_name plan)), (''plan_id'', JStr (p_id plan))])"

definition checkout_active :: "subscription \<Rightarrow> plan \<Rightarrow> uuid option \<Rightarrow> bool \<Rightarrow> checkout_result bprog" where
  "checkout_active s plan actor acknowledge_no_credit = (
     if s_cancel_at_period_end s then throw (App SubscriptionCancelling)
     else bindM (get_plan (s_plan s)) (\<lambda>current.
     if p_id plan = p_id current \<or> p_monthly_price plan = p_monthly_price current then throw (App PlanUnchanged)
     else if s_pending_plan s = Some (p_id plan) then ret no_checkout
     else let upgrade = (p_monthly_price current < p_monthly_price plan) in
       bindM (need (s_payment_ref s)) (\<lambda>ref. bindM now (\<lambda>started. bindM (need (p_provider_plan_id plan)) (\<lambda>i.
       bindM (try_update ref i (if upgrade then ''now'' else ''cycle_end'')) (\<lambda>outcome. case outcome of
         Inl refusal \<Rightarrow>
           bindM (asks gates) (\<lambda>g. bindM (replacement_enabled (if upgrade then UPGRADE else DOWNGRADE)) (\<lambda>enabled.
             if is_update_unsupported_refusal g refusal \<and> enabled
             then start_plan_change_replacement s plan (if upgrade then UPGRADE else DOWNGRADE) actor acknowledge_no_credit
             else throw (App PlanChangeUnsupported)))
       | Inr entity \<Rightarrow>
           seqM (tenant_atomic False (if upgrade then apply_upgrade s ref entity started actor
                                      else schedule_downgrade s current plan actor))
             (ret no_checkout)))))))"

definition checkout_incomplete :: "subscription \<Rightarrow> json option \<Rightarrow> plan \<Rightarrow> uuid option \<Rightarrow> checkout_result bprog" where
  "checkout_incomplete s entity plan actor = (case entity of
     None \<Rightarrow> replace_provider_subscription s plan actor None
   | Some e \<Rightarrow>
       if status_in TERMINAL_PROVIDER_STATUSES e then replace_provider_subscription s plan actor None
       else if same_text (p_provider_plan_id plan) (jget ''plan_id'' e) then
         bindM (need (s_payment_ref s)) (\<lambda>ref. bindM (checkout_payload ref) (\<lambda>c. ret \<lparr>cr_created = False, cr_checkout = Some c\<rparr>))
       else if jget ''status'' e = JStr ''created'' then replace_provider_subscription s plan actor (s_payment_ref s)
       else throw (App SubscriptionActivating))"

definition checkout_ended :: "subscription \<Rightarrow> json option \<Rightarrow> plan \<Rightarrow> uuid option \<Rightarrow> checkout_result bprog" where
  "checkout_ended s entity plan actor = (case entity of
     None \<Rightarrow> replace_provider_subscription s plan actor None
   | Some e \<Rightarrow>
       if status_in TERMINAL_PROVIDER_STATUSES e then replace_provider_subscription s plan actor None
       else if status_in CANCELLABLE_PROVIDER_STATUSES e then replace_provider_subscription s plan actor (s_payment_ref s)
       else throw (App ProviderStateUnsupported))"

text \<open>The state table on the locked row.\<close>

definition checkout_row :: "subscription \<Rightarrow> plan \<Rightarrow> uuid option \<Rightarrow> bool \<Rightarrow> checkout_result bprog" where
  "checkout_row s0 plan actor acknowledge_no_credit = (
     if s_status s0 = PastDue then throw (App SubscriptionPastDue)
     else if s_status s0 = Active \<and> truthy_text (s_replacement_ref s0) then replacement_pending s0 plan
     else bindM (if truthy_text (s_payment_ref s0) then
           bindM (reconcile s0 None) (\<lambda>(s, entity).
             if s_status s = PastDue then throw (App SubscriptionPastDue)
             else seqM (check_provider_state entity) (ret (s, Some entity)))
         else if s_status s0 = Active then throw (App ProviderStateUnsupported)
         else ret (s0, None)) (\<lambda>(s, entity).
       if s_status s = Active then
         (if s_status s0 \<noteq> Active \<and> s_plan s = p_id plan then ret no_checkout
          else checkout_active s plan actor acknowledge_no_credit)
       else if s_status s = Incomplete then checkout_incomplete s entity plan actor
       else checkout_ended s entity plan actor))"

definition start_checkout :: "uuid option \<Rightarrow> uuid \<Rightarrow> bool \<Rightarrow> checkout_result bprog" where
  "start_checkout actor plan_id acknowledge_no_credit = bindM merchant_id_or_raise (\<lambda>_.
     seqM require_request_transaction (
     bindM (offered_plan plan_id) (\<lambda>plan.
     seqM require_configured (
     bindM lock_current_subscription (\<lambda>row. case row of
       Some s \<Rightarrow> checkout_row s plan actor acknowledge_no_credit
     | None \<Rightarrow> bindM (first_checkout plan actor) (\<lambda>res. case res of
         Some r \<Rightarrow> ret r
       | None \<Rightarrow> bindM lock_current_subscription (\<lambda>row2. case row2 of
           None \<Rightarrow> throw AttributeErr
         | Some s \<Rightarrow> checkout_row s plan actor acknowledge_no_credit)))))))"

subsection \<open>Cancel\<close>

definition cancel_at_period_end :: "subscription \<Rightarrow> uuid option \<Rightarrow> subscription bprog" where
  "cancel_at_period_end s actor = bindM (need (s_payment_ref s)) (\<lambda>ref.
     bindM (reject_as_unavailable (cancel_subscription ref True)) (\<lambda>_.
     tenant_atomic False (
       bindM (save_sub {F_cancel_at_period_end, F_updated_at} (s\<lparr>s_cancel_at_period_end := True\<rparr>)) (\<lambda>s1.
       seqM (audit AUDIT_CANCELLATION_REQUESTED s1 actor [(''effective'', JStr ''PERIOD_END'')]) (ret s1)))))"

definition cancel_past_due :: "subscription \<Rightarrow> uuid option \<Rightarrow> subscription bprog" where
  "cancel_past_due s actor =
     seqM (tenant_atomic False (
       bindM (save_sub {F_status, F_past_due_at, F_dunning_stage, F_updated_at}
           (s\<lparr>s_status := Cancelled, s_past_due_at := None, s_dunning_stage := None\<rparr>)) (\<lambda>s1.
       seqM (audit AUDIT_CANCELLATION_REQUESTED s1 actor [(''from_status'', status_json PastDue),
           (''to_status'', status_json Cancelled), (''effective'', JStr ''IMMEDIATE'')])
         (bindM (abandon_unless_active ''row_ended'' not_active None (s1, {})) (\<lambda>(abandoned, _, s2, fields).
           if abandoned then bindM (save_sub (insert F_updated_at fields) s2) (\<lambda>_. ret ()) else ret ())))))
     (seqM (case s_payment_ref s of
         None \<Rightarrow> ret ()
       | Some ref \<Rightarrow> if ref = [] \<or> \<not> provider_may_be_cancelled (s_provider_status s) then ret ()
           else bindM (or_none (cancel_subscription ref False)) (\<lambda>got. case got of
             None \<Rightarrow> ret ()
           | Some entity \<Rightarrow> (case as_str (if is_dict entity then jget ''status'' entity else JNull) of
               None \<Rightarrow> ret ()
             | Some st \<Rightarrow> tenant_atomic False (bindM (update_sub_where (\<lambda>x. s_id x = s_id s \<and> s_payment_ref x = Some ref)
                 (\<lambda>x. x\<lparr>s_provider_status := Some (take 16 st)\<rparr>)) (\<lambda>_. ret ())))))
       (tenant_atomic False (sub_get (s_id s))))"

definition billing_cancel_subscription :: "uuid option \<Rightarrow> subscription bprog" where
  "billing_cancel_subscription actor = bindM merchant_id_or_raise (\<lambda>_. seqM require_request_transaction (
     bindM lock_current_subscription (\<lambda>row. case row of
       None \<Rightarrow> throw (App SubscriptionNotCancellable)
     | Some s0 \<Rightarrow>
         if s_status s0 \<in> {Incomplete, Cancelled, Expired} then throw (App SubscriptionNotCancellable)
         else bindM (if s_replacement_ref s0 = None then ret s0
                     else cancel_and_retire_replacement s0 actor ''merchant_cancelled'' False) (\<lambda>s.
           if s_status s = Active then
             (if s_cancel_at_period_end s then ret s
              else if \<not> truthy_text (s_payment_ref s) then throw (App ProviderStateUnsupported)
              else bindM (reconcile s None) (\<lambda>(s1, entity).
                if s_status s1 = Active then
                  (if jget ''status'' entity = JStr ''paused'' then throw (App ProviderStateUnsupported)
                   else cancel_at_period_end s1 actor)
                else if s_status s1 \<noteq> PastDue then throw (App SubscriptionNotCancellable)
                else cancel_past_due s1 actor))
           else cancel_past_due s actor))))"

subsection \<open>Frames\<close>

context billing_frame
begin

lemma frames_fresh [frame_intros]: "frames R G (fetch_provider_entity ref)" "frames R G (checkout_payload ref)"
  "frames R G require_configured" "frames R G (offered_plan i)"
  unfolding fetch_provider_entity_def checkout_payload_def require_configured_def offered_plan_def
  by (intro frame_intros)+

lemma frames_get_subscription_overview [frame_intros]: "frames R G (get_subscription_overview b)"
  unfolding get_subscription_overview_def overview_checkout_def replacement_view_def by (intro frame_intros)

lemma frames_reconcile [frame_intros]: "frames R G (reconcile s actor)"
  unfolding reconcile_def by (intro frame_intros)

lemma frames_check_provider_state [frame_intros]: "frames R G (check_provider_state e)"
  unfolding check_provider_state_def by (intro frame_intros)

lemma frames_create_provider_subscription [frame_intros]: "frames R G (create_provider_subscription p)"
  unfolding create_provider_subscription_def by (intro frame_intros)

lemma frames_cancel_old [frame_intros]: "frames R G (cancel_old_provider_subscription ref)"
  unfolding cancel_old_provider_subscription_def by (intro frame_intros)

lemma frames_store_new [frame_intros]: "frames R G (store_new_provider_subscription s p e ref actor)"
  unfolding store_new_provider_subscription_def by (intro frame_intros)

lemma frames_clear_replacement [frame_intros]: "frames R G (clear_replacement_before_reset s)"
  unfolding clear_replacement_before_reset_def by (intro frame_intros)

lemma frames_replace_provider_subscription [frame_intros]: "frames R G (replace_provider_subscription s p actor c)"
  unfolding replace_provider_subscription_def by (intro frame_intros)

lemma frames_first_checkout [frame_intros]: "frames R G (first_checkout p actor)"
  unfolding first_checkout_def by (intro frame_intros) (auto split: if_splits intro: frame_intros)

lemma frames_replacement_pending [frame_intros]: "frames R G (replacement_pending s p)"
  unfolding replacement_pending_def by (intro frame_intros)

lemma frames_create_replacement_subscription [frame_intros]: "frames R G (create_replacement_subscription p st ex c)"
  unfolding create_replacement_subscription_def by (intro frame_intros)

lemma frames_replacement_schedule [frame_intros]: "frames R G (replacement_schedule s k win t)"
  unfolding replacement_schedule_def by (cases k) (simp_all only: replacement_kind.case, (intro frame_intros)+)

lemma frames_start_plan_change_replacement [frame_intros]: "frames R G (start_plan_change_replacement s p k actor b)"
  unfolding start_plan_change_replacement_def by (intro frame_intros)

lemma frames_checkout_active [frame_intros]: "frames R G (checkout_active s p actor b)"
proof -
  have upd: "frames R G (try_update ref i at)" for ref i at
    unfolding try_update_def
    by (intro frame_intros) (auto split: exn.splits billing_error.splits intro: frame_intros)
  have en: "frames R G (replacement_enabled k)" for k
    unfolding replacement_enabled_def by (intro frame_intros)
  have sum: "frames R G (case x of Inl e \<Rightarrow> f e | Inr a \<Rightarrow> g a)" if "\<And>e. frames R G (f e)" "\<And>a. frames R G (g a)" for x f g
    using that by (cases x) simp_all
  show ?thesis
    unfolding checkout_active_def apply_upgrade_def schedule_downgrade_def by (intro frame_intros upd en sum)
qed

lemma frames_checkout_row [frame_intros]: "frames R G (checkout_row s p actor b)"
  unfolding checkout_row_def checkout_incomplete_def checkout_ended_def by (intro frame_intros)

lemma frames_start_checkout [frame_intros]: "frames R G (start_checkout actor i b)"
  unfolding start_checkout_def by (intro frame_intros)

lemma frames_cancel_at_period_end [frame_intros]: "frames R G (cancel_at_period_end s actor)"
  unfolding cancel_at_period_end_def by (intro frame_intros)

lemma frames_cancel_past_due [frame_intros]: "frames R G (cancel_past_due s actor)"
  unfolding cancel_past_due_def by (intro frame_intros)

lemma frames_billing_cancel_subscription [frame_intros]: "frames R G (billing_cancel_subscription actor)"
  unfolding billing_cancel_subscription_def by (intro frame_intros)

end

end
