(* ===== verification/BillingWebhook.thy ===== *)
theory BillingWebhook
  imports BillingCheckout
begin

text \<open>
  The Razorpay webhook receiver of \<open>billing/services.py\<close>, with the pre-tenant lookup of
  \<open>billing/models.py\<close> and the row-level-security policy it relies on (\<open>core/rls.py\<close>). The decoder
  \<open>loads\<close> stands for \<open>json.loads\<close>; every property holds for every decoder.
\<close>

subsection \<open>The pre-tenant lookup\<close>

text \<open>The policies of \<open>billing_subscription\<close>: \<open>tenant_isolation\<close>, and the \<open>SELECT\<close>-only
  \<open>billing_ref_lookup\<close> on the two reference columns. An unset or empty setting matches nothing.\<close>

definition ref_columns :: "(subscription \<Rightarrow> string option) list" where
  "ref_columns = [s_payment_ref, s_replacement_ref]"

definition sub_selectable :: "ctxvars \<Rightarrow> subscription \<Rightarrow> bool" where
  "sub_selectable g s \<longleftrightarrow> merchant_var g = Some (s_merchant s) \<or>
     truthy_text (billing_ref_var g) \<and> list_ex (\<lambda>col. col s = billing_ref_var g) ref_columns"

definition sub_rows :: "bdb \<Rightarrow> subscription list" where
  "sub_rows d = concat (map (\<lambda>(m, _). case subs d m of None \<Rightarrow> [] | Some s \<Rightarrow> [s]) (merchants d))"

text \<open>\<open>.first()\<close> orders an unordered query by primary key.\<close>

definition by_pk :: "subscription list \<Rightarrow> subscription list" where
  "by_pk = sort_key (\<lambda>s. map (of_char :: char \<Rightarrow> nat) (s_id s))"

definition for_lookup_ref :: "string \<Rightarrow> subscription list bprog" where
  "for_lookup_ref ref = (\<lambda>w.
     if billing_ref_var (ctx w) \<noteq> Some ref then (Inl TenantContextError, w)
     else (Inr (by_pk (filter (\<lambda>s. sub_selectable (guc w) s \<and> (s_payment_ref s = Some ref \<or> s_replacement_ref s = Some ref))
        (sub_rows (db w)))), w))"

definition lookup_subscription :: "string \<Rightarrow> subscription option bprog" where
  "lookup_subscription ref = billing_ref_lookup_atomic ref (bindM (for_lookup_ref ref) (\<lambda>xs. ret (case xs of [] \<Rightarrow> None | s # _ \<Rightarrow> Some s)))"

subsection \<open>Parsing\<close>

record webhook_request =
  wr_body :: string
  wr_signature :: "string option"
  wr_event_id :: json

datatype event_id_problem = Missing | NotString | Empty | TooLong | InvalidCharacters

definition event_id_char :: "char \<Rightarrow> bool" where
  "event_id_char c \<longleftrightarrow> (let n = (of_char c :: nat) in 33 \<le> n \<and> n \<le> 126)"

definition event_id_failure :: "json \<Rightarrow> event_id_problem option" where
  "event_id_failure value = (
     if value = JNull then Some Missing
     else case as_str value of
       None \<Rightarrow> Some NotString
     | Some s \<Rightarrow> if s = [] then Some Empty
         else if 64 < length s then Some TooLong
         else if \<not> list_all event_id_char s then Some InvalidCharacters
         else None)"

definition parse_event :: "(string \<Rightarrow> json option) \<Rightarrow> string \<Rightarrow> (string \<times> bool \<times> json) bprog" where
  "parse_event loads raw_body = (case loads raw_body of
     None \<Rightarrow> throw (App InvalidWebhookPayload)
   | Some payload \<Rightarrow> if \<not> is_dict payload then throw (App InvalidWebhookPayload)
     else (case as_str (jget ''event'' payload) of
       None \<Rightarrow> throw (App InvalidWebhookPayload)
     | Some event_type \<Rightarrow>
         if \<not> (1 \<le> length event_type \<and> length event_type \<le> 64) then throw (App InvalidWebhookPayload)
         else let entity = jget ''entity'' (jget ''subscription'' (jget ''payload'' payload)) in
           if \<not> is_dict entity \<or> \<not> jhas ''id'' entity then ret (event_type, False, JNull)
           else ret (event_type, True, jget ''id'' entity)))"

subsection \<open>Receiving\<close>

definition EVENT_UNIQUE_CONSTRAINT :: string where
  "EVENT_UNIQUE_CONSTRAINT = ''billing_billingevent_provider_uniq''"

definition is_duplicate_event :: "berror \<Rightarrow> bool" where
  "is_duplicate_event e \<longleftrightarrow> e = UniqueViolation EVENT_UNIQUE_CONSTRAINT"

definition new_event :: "uuid \<Rightarrow> string \<Rightarrow> string \<Rightarrow> string \<Rightarrow> instant \<Rightarrow> billing_event" where
  "new_event m event_id event_type ref t = \<lparr>be_merchant = m, be_provider = ''RAZORPAY'', be_provider_event_id = event_id,
     be_event_type = event_type, be_provider_ref = ref, be_created_at = t, be_processed_at = None, be_updated_at = t\<rparr>"

definition persist_event :: "uuid \<Rightarrow> string \<Rightarrow> string \<Rightarrow> string \<Rightarrow> unit bprog" where
  "persist_event m event_id event_type ref = tenant_context (Some m) (tenant_atomic False (
     bindM now (\<lambda>t.
     bindM (catchM (atomic (seqM insert_wait (seqM (create_event (new_event m event_id event_type ref t)) (ret True))))
        (\<lambda>e. if is_duplicate_event e then Some (ret False) else None)) (\<lambda>created.
     whenM created (on_commit (SyncSubscription m))))))"

definition receive_webhook :: "(string \<Rightarrow> json option) \<Rightarrow> webhook_request \<Rightarrow> unit bprog" where
  "receive_webhook loads req = bindM (asks cfg) (\<lambda>c.
     if \<not> verify_webhook_signature c (wr_body req) (wr_signature req) then throw (App WebhookRejected)
     else case as_str (wr_event_id req) of
       None \<Rightarrow> throw (App WebhookRejected)
     | Some event_id \<Rightarrow>
         if event_id_failure (wr_event_id req) \<noteq> None then throw (App WebhookRejected)
         else bindM (parse_event loads (wr_body req)) (\<lambda>(event_type, has_entity, ref_value).
           if \<not> has_entity then ret ()
           else case valid_ref_json ref_value of
             None \<Rightarrow> ret ()
           | Some ref \<Rightarrow>
               bindM (catchM (lookup_subscription ref)
                  (\<lambda>e. if e = TenantContextError then Some (throw (App WebhookRejected)) else None)) (\<lambda>found. case found of
                 None \<Rightarrow> ret ()
               | Some s \<Rightarrow> persist_event (s_merchant s) event_id event_type ref)))"

subsection \<open>Frames\<close>

context billing_frame
begin

lemma frames_for_lookup_ref [frame_intros]: "frames R H (for_lookup_ref ref)"
  by (rule frames_pure) (simp add: for_lookup_ref_def Let_def)

lemma frames_lookup_subscription: "frames R (\<lambda>_. True) (lookup_subscription ref)"
  unfolding lookup_subscription_def billing_ref_lookup_atomic_def
  by (rule frames_lookup_atomic [where G' = "\<lambda>_. True"]) (intro frame_intros, simp_all)

lemma frames_parse_event [frame_intros]: "frames R H (parse_event loads b)"
  unfolding parse_event_def by (intro frame_intros)

lemma frames_persist_event:
  assumes "\<And>c. G c"
  shows "frames R (\<lambda>_. True) (persist_event m i t ref)"
  unfolding persist_event_def
  by (rule frames_tenant_context [where G' = G])
    ((intro frame_intros)?; auto simp: assms split: if_splits intro: frame_intros)+

lemma frames_receive_webhook:
  assumes "\<And>c. G c"
  shows "frames R (\<lambda>_. True) (receive_webhook loads req)"
  unfolding receive_webhook_def
  by (intro frame_intros frames_lookup_subscription frames_persist_event assms) (auto split: if_splits intro: frame_intros)

end

end
