(* ===== verification/Middleware.thy ===== *)
theory Middleware
  imports Frames
begin

text \<open>
  The request middleware: which merchant a request acts for (\<open>accounts/middleware.py\<close>), the tenant
  transaction around it and the admin allow-list (\<open>core/middleware.py\<close>).
\<close>

subsection \<open>Requests\<close>

text \<open>\<open>rq_url_name\<close> is what \<open>resolve(path)\<close> answers, \<open>None\<close> for \<open>Resolver404\<close>.\<close>

record web_request =
  wq_method :: string
  wq_path :: string
  wq_url_name :: "string option"
  wq_session_merchant :: "uuid option"
  wq_authenticated :: bool
  wq_client_ip :: string

text \<open>The reversed paths the middleware compares with.\<close>

record url_table =
  pre_tenant_paths :: "string list"
  admin_prefix :: string

definition starts_with :: "string \<Rightarrow> string \<Rightarrow> bool" where
  "starts_with p s \<longleftrightarrow> take (length p) s = p"

definition PRE_TENANT_URL_NAMES :: "string list" where
  "PRE_TENANT_URL_NAMES = [''webhook-generic'', ''webhook-shopify'', ''webhook-billing-razorpay'']"

text \<open>\<open>SessionMerchantMiddleware\<close>: the merchant of the session, unless the request is pre-tenant, for the
  admin, or not logged in.\<close>

definition session_merchant :: "url_table \<Rightarrow> web_request \<Rightarrow> uuid option" where
  "session_merchant urls rq = (case wq_session_merchant rq of
     None \<Rightarrow> None
   | Some m \<Rightarrow>
       if m = [] \<or> wq_path rq \<in> set (pre_tenant_paths urls) \<or> starts_with (admin_prefix urls) (wq_path rq) \<or> \<not> wq_authenticated rq
       then None
       else (case wq_url_name rq of None \<Rightarrow> Some m | Some u \<Rightarrow> if u \<in> set PRE_TENANT_URL_NAMES then None else Some m))"

definition NON_ATOMIC_TENANT_REQUESTS :: "(string \<times> string) list" where
  "NON_ATOMIC_TENANT_REQUESTS = [(''POST'', ''whatsapp-embedded-signup-complete''),
     (''GET'', ''google-connection-locations''), (''PUT'', ''location-google-location'')]"

definition is_non_atomic_tenant_request :: "web_request \<Rightarrow> bool" where
  "is_non_atomic_tenant_request rq \<longleftrightarrow> (case wq_url_name rq of None \<Rightarrow> False
     | Some u \<Rightarrow> (wq_method rq, u) \<in> set NON_ATOMIC_TENANT_REQUESTS)"

subsection \<open>TenantMiddleware\<close>

text \<open>For a request that has a merchant and is none of the three exempt ones.\<close>

definition tenant_middleware ::
  "uuid \<Rightarrow> (('d, 't, 'z) world_scheme, 'e exn, 'a) prog \<Rightarrow> (('d, 't, 'z) world_scheme, 'e exn, 'a) prog" where
  "tenant_middleware merchant_id get_response = tenant_context (Some merchant_id) (tenant_atomic False get_response)"

definition tenant_request ::
  "url_table \<Rightarrow> web_request \<Rightarrow> (('d, 't, 'z) world_scheme, 'e exn, 'a) prog \<Rightarrow> (('d, 't, 'z) world_scheme, 'e exn, 'a) prog" where
  "tenant_request urls rq get_response = (case session_merchant urls rq of
     None \<Rightarrow> get_response
   | Some m \<Rightarrow> if is_non_atomic_tenant_request rq then tenant_context (Some m) get_response
       else tenant_middleware m get_response)"

subsection \<open>The admin allow-list\<close>

text \<open>\<open>ipaddress\<close> of the standard library decides what parses and what contains what.\<close>

record ('ip, 'net) ipaddress =
  ip_network :: "string \<Rightarrow> 'net option"
  ip_address :: "string \<Rightarrow> 'ip option"
  ip_in :: "'ip \<Rightarrow> 'net \<Rightarrow> bool"

definition admin_ip_allowed :: "('ip, 'net) ipaddress \<Rightarrow> (string \<Rightarrow> string) \<Rightarrow> string list \<Rightarrow> string \<Rightarrow> bool" where
  "admin_ip_allowed ips strip_text entries client = (
     let networks = map (\<lambda>e. ip_network ips (strip_text e)) entries in
     entries \<noteq> [] \<and> None \<notin> set networks \<and>
     (case ip_address ips client of None \<Rightarrow> False | Some ip \<Rightarrow> list_ex (\<lambda>n. ip_in ips ip (the n)) networks))"

text \<open>Whether \<open>AdminIPAllowlistMiddleware\<close> answers 404 instead of passing the request on.\<close>

definition admin_hidden :: "url_table \<Rightarrow> ('ip, 'net) ipaddress \<Rightarrow> (string \<Rightarrow> string) \<Rightarrow> string list \<Rightarrow> web_request \<Rightarrow> bool" where
  "admin_hidden urls ips strip_text entries rq \<longleftrightarrow>
     (wq_path rq = rev (dropWhile (\<lambda>c. c = CHR 0x2F) (rev (admin_prefix urls))) \<or> starts_with (admin_prefix urls) (wq_path rq)) \<and>
     \<not> admin_ip_allowed ips strip_text entries (wq_client_ip rq)"

end
