(* ===== verification/SnapshotSpec.thy ===== *)
theory SnapshotSpec
  imports BillingSnapshot
begin

text \<open>
  The abstract specification of reconciliation: what a provider snapshot makes of the row, as a
  pure function of row, snapshot, plan and time, and the refinement that \<open>_apply_snapshot\<close>
  implements it, with the row saved being the object in memory (no field is lost).
\<close>

subsection \<open>What a snapshot makes of the row\<close>

definition no_effect :: active_result where
  "no_effect = \<lparr>a_changed = False, a_settled = False, a_advanced = False\<rparr>"

definition kept :: "bool \<Rightarrow> active_result" where
  "kept ch = \<lparr>a_changed = ch, a_settled = True, a_advanced = False\<rparr>"

definition with_plan :: "uuid \<Rightarrow> subscription \<Rightarrow> subscription" where
  "with_plan p s = s\<lparr>s_plan := p, s_pending_plan := if s_pending_plan s = Some p then None else s_pending_plan s\<rparr>"

definition activated :: "uuid \<Rightarrow> instant \<Rightarrow> instant \<Rightarrow> subscription \<Rightarrow> subscription" where
  "activated p a b s = (with_plan p s)\<lparr>s_status := Active, s_period_start := Some a, s_period_end := Some b,
     s_past_due_at := if s_status s = PastDue then None else s_past_due_at s,
     s_dunning_stage := if s_status s = PastDue then None else s_dunning_stage s,
     s_cancel_at_period_end := if s_status s \<in> {Active, PastDue} then s_cancel_at_period_end s else False\<rparr>"

definition active_next :: "json \<Rightarrow> json list option \<Rightarrow> plan \<Rightarrow> subscription \<Rightarrow> active_result \<times> subscription" where
  "active_next entity invoices plan s =
     (case (from_unix (jget ''current_start'' entity), from_unix (jget ''current_end'' entity)) of
        (Some a, Some b) \<Rightarrow>
          if b \<le> a then (no_effect, s)
          else if s_status s = Active \<and> s_period_start s = Some a then
            (kept (s_plan s \<noteq> p_id plan \<or> s_pending_plan s = Some (p_id plan)), with_plan (p_id plan) s)
          else if current_period_paid entity invoices = None then (no_effect, s)
          else (\<lparr>a_changed = True, a_settled = True, a_advanced = True\<rparr>, activated (p_id plan) a b s)
      | _ \<Rightarrow> (no_effect, s))"

definition failed_next :: "instant \<Rightarrow> subscription \<Rightarrow> active_result \<times> subscription" where
  "failed_next t s = (if s_status s = Active
     then (kept True, s\<lparr>s_status := PastDue, s_past_due_at := Some t, s_dunning_stage := Some 0\<rparr>)
     else (kept False, s))"

definition terminal_next :: "instant \<Rightarrow> subscription \<Rightarrow> active_result \<times> subscription" where
  "terminal_next t s = (if committed_downgrade_replacement s then (kept False, s)
     else if s_status s = Active then (kept True, s\<lparr>s_status := Cancelled\<rparr>)
     else if s_status s = PastDue then
       (kept True, s\<lparr>s_status := if the (s_past_due_at s) + GRACE \<le> t then Expired else Cancelled,
                     s_past_due_at := None, s_dunning_stage := None\<rparr>)
     else (kept False, s))"

definition snapshot_next ::
  "string \<Rightarrow> json \<Rightarrow> json list option \<Rightarrow> plan \<Rightarrow> instant \<Rightarrow> subscription \<Rightarrow> active_result \<times> subscription" where
  "snapshot_next st entity invoices plan t s = (
     if st = ''active'' then active_next entity invoices plan s
     else if st = ''pending'' \<or> st = ''halted'' then failed_next t s
     else if st \<in> set TERMINAL_PROVIDER_STATUSES then terminal_next t s
     else (kept False, s))"

text \<open>Giving up a replacement: only an uncommitted one, into a free slot.\<close>

definition may_retire :: "subscription \<Rightarrow> bool" where
  "may_retire s \<longleftrightarrow> s_replacement_ref s \<noteq> None \<and> s_replacement_committed_at s = None \<and> s_retired_ref s = None"

definition retired :: "plan option \<Rightarrow> subscription \<Rightarrow> subscription" where
  "retired target s = s\<lparr>s_retired_ref := s_replacement_ref s, s_retired_kind := Some AbandonedReplacement,
     s_replacement_ref := None, s_replacement_plan := None, s_replacement_expires_at := None,
     s_replacement_committed_at := None, s_replacement_confirmed_at := None,
     s_pending_plan := if target \<noteq> None \<and> s_pending_plan s = map_option p_id target then None else s_pending_plan s\<rparr>"

text \<open>The draft differs from the row read under the lock only in fields that will be saved.\<close>

definition covered :: "subscription \<Rightarrow> draft \<Rightarrow> bool" where
  "covered r dr \<longleftrightarrow> s_id r = s_id (fst dr) \<and> s_merchant r = s_merchant (fst dr) \<and>
     (F_plan \<notin> snd dr \<longrightarrow> s_plan r = s_plan (fst dr)) \<and>
     (F_status \<notin> snd dr \<longrightarrow> s_status r = s_status (fst dr)) \<and>
     (F_period_start \<notin> snd dr \<longrightarrow> s_period_start r = s_period_start (fst dr)) \<and>
     (F_period_end \<notin> snd dr \<longrightarrow> s_period_end r = s_period_end (fst dr)) \<and>
     (F_payment_ref \<notin> snd dr \<longrightarrow> s_payment_ref r = s_payment_ref (fst dr)) \<and>
     (F_pending_plan \<notin> snd dr \<longrightarrow> s_pending_plan r = s_pending_plan (fst dr)) \<and>
     (F_past_due_at \<notin> snd dr \<longrightarrow> s_past_due_at r = s_past_due_at (fst dr)) \<and>
     (F_dunning_stage \<notin> snd dr \<longrightarrow> s_dunning_stage r = s_dunning_stage (fst dr)) \<and>
     (F_cancel_at_period_end \<notin> snd dr \<longrightarrow> s_cancel_at_period_end r = s_cancel_at_period_end (fst dr)) \<and>
     (F_provider_status \<notin> snd dr \<longrightarrow> s_provider_status r = s_provider_status (fst dr)) \<and>
     (F_provider_synced_at \<notin> snd dr \<longrightarrow> s_provider_synced_at r = s_provider_synced_at (fst dr)) \<and>
     (F_replacement_ref \<notin> snd dr \<longrightarrow> s_replacement_ref r = s_replacement_ref (fst dr)) \<and>
     (F_replacement_expires_at \<notin> snd dr \<longrightarrow> s_replacement_expires_at r = s_replacement_expires_at (fst dr)) \<and>
     (F_replacement_plan \<notin> snd dr \<longrightarrow> s_replacement_plan r = s_replacement_plan (fst dr)) \<and>
     (F_replacement_committed_at \<notin> snd dr \<longrightarrow> s_replacement_committed_at r = s_replacement_committed_at (fst dr)) \<and>
     (F_replacement_confirmed_at \<notin> snd dr \<longrightarrow> s_replacement_confirmed_at r = s_replacement_confirmed_at (fst dr)) \<and>
     (F_retired_ref \<notin> snd dr \<longrightarrow> s_retired_ref r = s_retired_ref (fst dr)) \<and>
     (F_retired_kind \<notin> snd dr \<longrightarrow> s_retired_kind r = s_retired_kind (fst dr)) \<and>
     (F_updated_at \<notin> snd dr \<longrightarrow> s_updated_at r = s_updated_at (fst dr))"

lemma covered_write: "covered r (s, F) \<Longrightarrow> write_fields F s r = s"
  by (rule subscription.equality) (simp_all add: covered_def write_fields_def)

lemma covered_refl [simp]: "covered r (r, F)"
  by (simp add: covered_def)

lemma covered_retired: "covered r dr \<Longrightarrow> covered r (retired_draft target dr)"
  by (cases dr) (simp add: covered_def retired_draft_def retire_fields_def Let_def)

lemma retired_draft_fst: "fst (retired_draft target (s, F)) = retired target s"
  by (simp add: retired_draft_def retired_def Let_def)

text \<open>The specification keeps the constraints of the table.\<close>

lemma with_plan_checks [simp]: "sub_checks (with_plan p s) = sub_checks s"
  by (simp add: with_plan_def sub_checks_def)

lemma activated_checks: "sub_checks s \<Longrightarrow> a < b \<Longrightarrow> sub_checks (activated p a b s)"
  by (auto simp: activated_def with_plan_def sub_checks_def period_checks_def grace_checks_def)

lemma failed_next_checks: "sub_checks s \<Longrightarrow> sub_checks (snd (failed_next t s))"
  by (auto simp: failed_next_def sub_checks_def period_checks_def grace_checks_def)

lemma terminal_next_checks: "sub_checks s \<Longrightarrow> sub_checks (snd (terminal_next t s))"
  by (auto simp: terminal_next_def sub_checks_def period_checks_def grace_checks_def)

lemma active_next_checks: "sub_checks s \<Longrightarrow> sub_checks (snd (active_next entity invoices plan s))"
  by (simp add: active_next_def activated_checks not_le split: option.split)

lemma snapshot_next_checks:
  "sub_checks s \<Longrightarrow> sub_checks (snd (snapshot_next st entity invoices plan t s))"
  by (simp add: snapshot_next_def active_next_checks failed_next_checks terminal_next_checks)

lemma retired_keeps_checks: "sub_checks s \<Longrightarrow> s_replacement_ref s \<noteq> None \<Longrightarrow> sub_checks (retired target s)"
  by (simp add: checks_defs retired_def) auto

subsection \<open>Side effects\<close>

text \<open>The helpers that run under the row lock leave the subscription rows, plans, members and usage
  records alone: they append audit and ledger rows, mark events, and call the provider.\<close>

definition side_effects :: "uuid \<Rightarrow> billing_world \<Rightarrow> billing_world \<Rightarrow> bool" where
  "side_effects m w w' \<longleftrightarrow> in_tx m w' \<and> saves w' = saves w \<and> clock w' = clock w \<and> gates w' = gates w \<and>
     cfg w' = cfg w \<and> http w' = http w \<and> row_locked w' = row_locked w \<and> guc w' = guc w \<and>
     subs (db w') = subs (db w) \<and> plans (db w') = plans (db w) \<and> merchants (db w') = merchants (db w) \<and>
     members (db w') = members (db w) \<and> usage_records (db w') = usage_records (db w) \<and>
     prefix_of (audit_logs (db w)) (audit_logs (db w')) \<and> prefix_of (payment_attempts (db w)) (payment_attempts (db w'))"

lemma side_effects_refl: "in_tx m w \<Longrightarrow> side_effects m w w"
  by (simp add: side_effects_def)

lemma side_effects_trans: "side_effects m w w' \<Longrightarrow> side_effects m w' w'' \<Longrightarrow> side_effects m w w''"
  by (auto simp: side_effects_def intro: prefix_of_trans)

lemma side_effects_tx: "side_effects m w w' \<Longrightarrow> in_tx m w'"
  by (simp add: side_effects_def)

lemma wp_effect:
  assumes "side_effects m w0 w" "\<And>w. in_tx m w \<Longrightarrow> wp p (\<lambda>_. side_effects m w) X w"
    "\<And>w'. side_effects m w0 w' \<Longrightarrow> wp n Q E w'" "\<And>e w'. X e w' \<Longrightarrow> E e w'"
  shows "wp (seqM p n) Q E w"
  by (rule wp_seq_spec [OF assms(2)]) (use assms in \<open>auto intro: side_effects_trans side_effects_tx\<close>)

fun known_plan :: "bdb \<Rightarrow> uuid option \<Rightarrow> bool" where
  "known_plan d None = True"
| "known_plan d (Some i) = (plan_by_id d i \<noteq> None)"

definition fk_ok :: "bdb \<Rightarrow> subscription \<Rightarrow> bool" where
  "fk_ok d s \<longleftrightarrow> plan_by_id d (s_plan s) \<noteq> None \<and> known_plan d (s_replacement_plan s)"

lemma plan_by_id_cong: "plans d = plans d' \<Longrightarrow> plan_by_id d = plan_by_id d'"
  by (simp add: plan_by_id_def fun_eq_iff)

lemma side_effects_plan: "side_effects m w w' \<Longrightarrow> plan_by_id (db w') = plan_by_id (db w)"
  by (rule plan_by_id_cong) (simp add: side_effects_def)

lemma known_plan_cong: "plan_by_id d = plan_by_id d' \<Longrightarrow> known_plan d x = known_plan d' x"
  by (cases x) simp_all

lemma fk_ok_cong: "plan_by_id d = plan_by_id d' \<Longrightarrow> fk_ok d s = fk_ok d' s"
  using known_plan_cong [of d d'] by (simp add: fk_ok_def)

lemma fk_ok_side_effects: "side_effects m w w' \<Longrightarrow> fk_ok (db w') s = fk_ok (db w) s"
  by (rule fk_ok_cong) (rule side_effects_plan)

lemma plan_by_idD: "plan_by_id d i = Some p \<Longrightarrow> p_id p = i"
  by (auto simp: plan_by_id_def dest: first_SomeD)

text \<open>The errors reconciliation can end in.\<close>

definition snapshot_failure :: "berror \<Rightarrow> bool" where
  "snapshot_failure e \<longleftrightarrow> e = ActorNotMember \<or> e = DataErr \<or> e = ValueErr"

lemma wp_audit:
  "in_tx m w \<Longrightarrow> wp (audit action s actor md) (\<lambda>_. side_effects m w) (\<lambda>e w'. e = ActorNotMember \<and> actor \<noteq> None) w"
  by (auto simp: wp_def side_effects_def add_audit_def actor_ok_def split: option.split)

lemma wp_audit_plan_change:
  "in_tx m w \<Longrightarrow> wp (audit_plan_change s actor p q pend eff) (\<lambda>_. side_effects m w) (\<lambda>e w'. e = ActorNotMember \<and> actor \<noteq> None) w"
  unfolding audit_plan_change_def by (rule wp_audit)

lemma wp_create_payment [wp_simps]:
  "wp (create_payment p) Q E w = (
     if merchant_var (ctx w) \<noteq> Some (pa_merchant p) then E DatabaseErr w
     else if 64 < length (pa_provider_attempt_id p) then E DataErr w
     else if take 4 (pa_provider_attempt_id p) \<noteq> ''pay_'' then E CheckViolation w
     else if list_ex (\<lambda>q. pa_provider q = pa_provider p \<and> pa_provider_attempt_id q = pa_provider_attempt_id p)
               (payment_attempts (db w))
     then E (UniqueViolation ''billing_paymentattempt_provider_uniq'') w
     else Q () (w\<lparr>db := (db w)\<lparr>payment_attempts := payment_attempts (db w) @ [p]\<rparr>\<rparr>))"
  by (simp add: wp_def create_payment_def run_seq rls_check_def)

lemma wp_record_payment:
  assumes tx: "in_tx m w" and s: "s_merchant s = m"
  shows "wp (record_payment s invoice b) (\<lambda>_. side_effects m w) (\<lambda>e w'. e = DataErr) w"
  using tx s in_txD [OF tx]
  by (auto simp: record_payment_def wp_simps begin_block_def commit_block_def rollback_block_def
      side_effects_def in_tx_def quiet_def split: option.split)

lemma wp_mark_events_processed:
  "in_tx m w \<Longrightarrow> wp (mark_events_processed ref) (\<lambda>_. side_effects m w) (\<lambda>_ _. False) w"
  by (simp add: mark_events_processed_def mark_events_def wp_simps side_effects_def in_tx_def quiet_def)

lemma wp_request_tx:
  assumes "in_tx m w"
  shows "wp (request method path body) (\<lambda>r w'. is_dict r \<and> side_effects m w w')
           (\<lambda>e w'. provider_error e \<and> side_effects m w w') w"
  using assms by (intro wp_request_post) (auto simp: side_effects_def after_call_def in_tx_def quiet_def)

lemma provider_error_failure [simp]: "provider_error e \<Longrightarrow> provider_failure e"
  by (auto simp: provider_error_def)

lemma wp_or_none:
  assumes "wp m (\<lambda>a. Q (Some a)) (\<lambda>e w'. if provider_failure e then Q None w' else E e w') w"
  shows "wp (or_none m) Q E w"
  using assms by (auto simp: or_none_def wp_simps intro: wp_conseq split: if_splits)

lemma wp_fetch_subscription:
  assumes "in_tx m w"
  shows "wp (fetch_subscription ref) (\<lambda>r w'. is_dict r \<and> side_effects m w w')
           (\<lambda>e w'. e = ValueErr \<or> provider_error e \<and> side_effects m w w') w"
  using wp_request_tx [OF assms]
  by (auto simp: fetch_subscription_def check_ref_def wp_simps intro: wp_conseq)

lemma wp_refetch:
  assumes "in_tx m w" "s_replacement_ref s = Some ref"
  shows "wp (refetch_replacement s)
    (\<lambda>r w'. side_effects m w w' \<and> (\<forall>e. r = Some e \<longrightarrow> is_dict e \<and> jget ''id'' e = JStr ref \<and> (\<exists>st. jget ''status'' e = JStr st)))
    (\<lambda>e w'. e = ValueErr) w"
  unfolding refetch_replacement_def assms(2) option.case
  by (rule wp_bind_spec [where P = "\<lambda>r w'. side_effects m w w'" and X = "\<lambda>e _. e = ValueErr"])
    (auto simp: wp_simps intro!: wp_or_none wp_conseq [OF wp_fetch_subscription [OF assms(1)]] split: option.split)

lemma wp_replacement_plan [wp_simps]:
  "wp (replacement_plan e) Q E w = Q (case as_str (jget ''plan_id'' e) of None \<Rightarrow> None
     | Some i \<Rightarrow> plan_by_provider_id (db w) i) w"
  by (simp add: replacement_plan_def wp_simps split: option.split)

subsection \<open>The helpers refine the specification\<close>

text \<open>What a replacement's target plan can be: the stored one, if there is one.\<close>

definition target_ok :: "subscription \<Rightarrow> plan option \<Rightarrow> bool" where
  "target_ok s target \<longleftrightarrow> (\<forall>i. s_replacement_plan s = Some i \<longrightarrow> map_option p_id target = Some i)"

lemma wp_retire:
  assumes tx: "in_tx m w" and fk: "fk_ok (db w) s"
  shows "wp (retire_replacement entity reason actor (s, F))
    (\<lambda>dr w'. side_effects m w w' \<and> (\<exists>target. target_ok s target \<and> dr = retired_draft target (s, F)))
    (\<lambda>e w'. e = ActorNotMember \<and> actor \<noteq> None) w"
proof -
  have tail: "wp (let departing = s_replacement_ref s; (sub1, f1) = retired_draft target (s, F) in
      seqM (mark_events_processed departing)
       (seqM (audit AUDIT_REPLACEMENT_ABANDONED sub1 actor
           [(''reason'', JStr reason), (''plan_name'', nullable_str (map_option p_name target))])
         (ret (sub1, f1))))
    (\<lambda>dr w'. side_effects m w w' \<and> (\<exists>target. target_ok s target \<and> dr = retired_draft target (s, F)))
    (\<lambda>e w'. e = ActorNotMember \<and> actor \<noteq> None) w" if t: "target_ok s target" for target
  proof -
    obtain sub1 f1 where d: "retired_draft target (s, F) = (sub1, f1)" by fastforce
    show ?thesis
      unfolding d Let_def prod.case
      by (intro wp_effect [OF side_effects_refl [OF tx] wp_mark_events_processed] wp_effect [OF _ wp_audit])
        (use t in \<open>auto simp: wp_simps d [symmetric]\<close>)
  qed
  show ?thesis
    unfolding retire_replacement_def prod.case
  proof (rule wp_bind_spec [where P = "\<lambda>target w'. w' = w \<and> target_ok s target" and X = "\<lambda>_ _. False"])
    show "wp (case s_replacement_plan s of None \<Rightarrow> replacement_plan entity
         | Some i \<Rightarrow> bindM (get_plan i) (\<lambda>p. ret (Some p))) (\<lambda>target w'. w' = w \<and> target_ok s target) (\<lambda>_ _. False) w"
      using fk by (auto simp: wp_simps fk_ok_def target_ok_def dest: plan_by_idD split: option.splits)
  qed (use tail in blast)+
qed

lemma wp_abandon:
  assumes tx: "in_tx m w" and fk: "fk_ok (db w) s"
    and ab: "\<And>e w. wp (abandonable e) (\<lambda>b w'. w' = w \<and> (b \<longrightarrow> A e)) (\<lambda>_ _. False) w"
  shows "wp (abandon_unless_active reason abandonable entity (s, F))
    (\<lambda>(b, got, dr) w'. side_effects m w w' \<and>
       (if b then may_retire s \<and> (\<exists>e. got = Some e \<and> A e \<and> (entity = None \<longrightarrow> jget ''id'' e = nullable_str (s_replacement_ref s))) \<and>
          (\<exists>target. target_ok s target \<and> dr = retired_draft target (s, F))
        else dr = (s, F)))
    (\<lambda>e w'. e = ValueErr) w"
proof (cases "s_replacement_ref s = None \<or> s_replacement_committed_at s \<noteq> None")
  case True
  then show ?thesis using tx by (simp add: abandon_unless_active_def wp_simps side_effects_refl)
next
  case False
  then obtain ref where ref: "s_replacement_ref s = Some ref" and c: "s_replacement_committed_at s = None" by auto
  have got: "wp (case entity of None \<Rightarrow> refetch_replacement s | Some e \<Rightarrow> ret (Some e))
    (\<lambda>r w'. side_effects m w w' \<and> (\<forall>e. r = Some e \<longrightarrow> entity = None \<longrightarrow> jget ''id'' e = JStr ref))
    (\<lambda>e w'. e = ValueErr) w"
    using wp_refetch [OF tx ref] tx
    by (cases entity) (auto simp: wp_simps side_effects_refl intro: wp_conseq)
  have body: "wp (bindM (abandonable e) (\<lambda>ok.
         if \<not> ok then ret (False, Some e, s, F)
         else if s_retired_ref s \<noteq> None then ret (False, Some e, s, F)
         else bindM (retire_replacement e reason None (s, F)) (\<lambda>dr. ret (True, Some e, dr))))
    (\<lambda>(b, got, dr) w'. side_effects m w w' \<and>
       (if b then may_retire s \<and> (\<exists>e. got = Some e \<and> A e \<and> (entity = None \<longrightarrow> jget ''id'' e = nullable_str (s_replacement_ref s))) \<and>
          (\<exists>target. target_ok s target \<and> dr = retired_draft target (s, F))
        else dr = (s, F)))
    (\<lambda>e w'. e = ValueErr) w1" if w1: "side_effects m w w1" and i: "entity = None \<longrightarrow> jget ''id'' e = JStr ref" for e w1
  proof (rule wp_bind_spec [OF ab])
    fix ok w2 assume "w2 = w1 \<and> (ok \<longrightarrow> A e)"
    then have w2: "w2 = w1" "ok \<longrightarrow> A e" by auto
    have fk1: "fk_ok (db w1) s" using fk w1 by (simp add: fk_ok_side_effects)
    show "wp (if \<not> ok then ret (False, Some e, s, F) else if s_retired_ref s \<noteq> None then ret (False, Some e, s, F)
         else bindM (retire_replacement e reason None (s, F)) (\<lambda>dr. ret (True, Some e, dr)))
      (\<lambda>(b, got, dr) w'. side_effects m w w' \<and>
       (if b then may_retire s \<and> (\<exists>e. got = Some e \<and> A e \<and> (entity = None \<longrightarrow> jget ''id'' e = nullable_str (s_replacement_ref s))) \<and>
          (\<exists>target. target_ok s target \<and> dr = retired_draft target (s, F))
        else dr = (s, F))) (\<lambda>e w'. e = ValueErr) w2"
    proof (cases "ok \<and> s_retired_ref s = None")
      case True
      note go = wp_bind_spec [OF wp_retire [OF side_effects_tx [OF w1] fk1]]
      have "wp (bindM (retire_replacement e reason None (s, F)) (\<lambda>dr. ret (True, Some e, dr)))
        (\<lambda>(b, got, dr) w'. side_effects m w w' \<and>
          (if b then may_retire s \<and> (\<exists>e. got = Some e \<and> A e \<and> (entity = None \<longrightarrow> jget ''id'' e = nullable_str (s_replacement_ref s))) \<and>
             (\<exists>target. target_ok s target \<and> dr = retired_draft target (s, F))
           else dr = (s, F))) (\<lambda>e w'. e = ValueErr) w1"
        by (rule go) (use True w2 i ref c w1 in
            \<open>auto simp: may_retire_def wp_ret nullable_str_def intro: side_effects_trans\<close>)
      with True w2 show ?thesis by simp
    qed (use w2 w1 in \<open>auto simp: wp_simps\<close>)
  qed simp
  have eq: "abandon_unless_active reason abandonable entity (s, F) =
      bindM (case entity of None \<Rightarrow> refetch_replacement s | Some e \<Rightarrow> ret (Some e)) (\<lambda>got. case got of
       None \<Rightarrow> ret (False, None, s, F)
     | Some e \<Rightarrow> bindM (abandonable e) (\<lambda>ok.
         if \<not> ok then ret (False, Some e, s, F)
         else if s_retired_ref s \<noteq> None then ret (False, Some e, s, F)
         else bindM (retire_replacement e reason None (s, F)) (\<lambda>dr. ret (True, Some e, dr))))"
    using ref c by (simp add: abandon_unless_active_def)
  show ?thesis
    unfolding eq
  proof (rule wp_bind_spec [OF got])
    fix r w1 assume "side_effects m w w1 \<and> (\<forall>e. r = Some e \<longrightarrow> entity = None \<longrightarrow> jget ''id'' e = JStr ref)"
    then show "wp (case r of None \<Rightarrow> ret (False, None, s, F)
       | Some e \<Rightarrow> bindM (abandonable e) (\<lambda>ok.
           if \<not> ok then ret (False, Some e, s, F)
           else if s_retired_ref s \<noteq> None then ret (False, Some e, s, F)
           else bindM (retire_replacement e reason None (s, F)) (\<lambda>dr. ret (True, Some e, dr))))
      (\<lambda>(b, got, dr) w'. side_effects m w w' \<and>
       (if b then may_retire s \<and> (\<exists>e. got = Some e \<and> A e \<and> (entity = None \<longrightarrow> jget ''id'' e = nullable_str (s_replacement_ref s))) \<and>
          (\<exists>target. target_ok s target \<and> dr = retired_draft target (s, F))
        else dr = (s, F))) (\<lambda>e w'. e = ValueErr) w1"
      by (cases r) (use body in \<open>simp_all add: wp_ret\<close>)
  qed simp
qed

lemma wp_not_active: "wp (not_active e) (\<lambda>b w'. w' = w \<and> (b \<longrightarrow> status_in REPLACEMENT_NOT_ACTIVE e)) (\<lambda>_ _. False) w"
  by (simp add: not_active_def wp_simps)

lemma wp_ledger:
  assumes "side_effects m w0 w" "s_merchant s = m"
  shows "wp (seqM (record_payment s invoice b) (ret x)) (\<lambda>y w'. side_effects m w0 w' \<and> y = x) (\<lambda>e w'. snapshot_failure e) w"
  by (rule wp_effect [OF assms(1) wp_record_payment]) (use assms in \<open>auto simp: wp_ret snapshot_failure_def\<close>)

lemma wp_ledger_opt:
  assumes "side_effects m w0 w" "s_merchant s = m"
  shows "wp (seqM (case paid of None \<Rightarrow> ret () | Some p \<Rightarrow> record_payment s p b) (ret x))
    (\<lambda>y w'. side_effects m w0 w' \<and> y = x) (\<lambda>e w'. snapshot_failure e) w"
  using wp_ledger [OF assms] assms(1) by (cases paid) (simp_all add: wp_seq wp_ret)

lemma wp_audited:
  assumes "side_effects m w0 w" "\<And>w'. side_effects m w0 w' \<Longrightarrow> wp n Q (\<lambda>e w'. snapshot_failure e) w'"
  shows "wp (seqM (audit action s actor md) n) Q (\<lambda>e w'. snapshot_failure e) w"
  by (rule wp_effect [OF assms(1) wp_audit]) (use assms in \<open>auto simp: snapshot_failure_def\<close>)

lemma wp_plan_audited:
  assumes "side_effects m w0 w" "\<And>w'. side_effects m w0 w' \<Longrightarrow> wp n Q (\<lambda>e w'. snapshot_failure e) w'"
  shows "wp (seqM (audit_plan_change s actor p q pend eff) n) Q (\<lambda>e w'. snapshot_failure e) w"
  unfolding audit_plan_change_def using assms by (rule wp_audited)

lemma wp_when_plan_audited:
  assumes "side_effects m w0 w" "\<And>w'. side_effects m w0 w' \<Longrightarrow> wp n Q (\<lambda>e w'. snapshot_failure e) w'"
  shows "wp (seqM (whenM b (audit_plan_change s actor p q pend eff)) n) Q (\<lambda>e w'. snapshot_failure e) w"
  using assms wp_plan_audited [OF assms] by (cases b) (auto simp: wp_seq wp_when)

lemma covered_trans:
  assumes "covered r (s, F)" "covered s (s', F')" "F \<subseteq> F'"
  shows "covered r (s', F')"
proof -
  have "x \<notin> F'  \<Longrightarrow> x \<notin> F" for x using assms(3) by blast
  then show ?thesis using assms(1,2) by (simp add: covered_def)
qed

lemma take_plan_spec:
  assumes "take_plan p (s_pending_plan s) None (s, F) = (s', F')"
  shows "s' = with_plan p s \<and> F \<subseteq> F' \<and> covered s (s', F')"
  using assms [symmetric] by (cases "s_pending_plan s = Some p") (simp_all add: take_plan_def with_plan_def covered_def subset_insertI2)

lemma take_plan_period_spec:
  assumes "take_plan p (s_pending_plan s) (Some (a, b)) (s, F) = (s', F')"
  shows "s' = (with_plan p s)\<lparr>s_period_start := Some a, s_period_end := Some b\<rparr> \<and> F \<subseteq> F' \<and> covered s (s', F')"
  using assms [symmetric] by (cases "s_pending_plan s = Some p") (simp_all add: take_plan_def with_plan_def covered_def subset_insertI2)

lemma activated_draft_spec:
  assumes "activated_draft (s, F) = (s', F')"
  shows "s' = s\<lparr>s_status := Active,
       s_past_due_at := if s_status s = PastDue then None else s_past_due_at s,
       s_dunning_stage := if s_status s = PastDue then None else s_dunning_stage s,
       s_cancel_at_period_end := if s_status s = PastDue then s_cancel_at_period_end s else False\<rparr> \<and>
    F \<subseteq> F' \<and> covered s (s', F')"
  using assms [symmetric]
  by (cases "s_status s = PastDue") (simp_all add: activated_draft_def clear_grace_def covered_def subset_insertI2)

lemma with_plan_fields [simp]:
  "s_merchant (with_plan p s) = s_merchant s" "s_status (with_plan p s) = s_status s"
  "s_past_due_at (with_plan p s) = s_past_due_at s" "s_cancel_at_period_end (with_plan p s) = s_cancel_at_period_end s"
  "s_dunning_stage (with_plan p s) = s_dunning_stage s" "s_id (with_plan p s) = s_id s"
  by (simp_all add: with_plan_def)

lemma wp_refresh_plan:
  assumes se: "side_effects m w0 w" and q: "p_id old_plan = s_plan s" and cov: "covered r (s, F)"
  shows "wp (refresh_plan old_plan plan actor effective (s, F))
    (\<lambda>(ch, s', F') w'. side_effects m w0 w' \<and> s' = with_plan (p_id plan) s \<and>
       ch = (s_plan s \<noteq> p_id plan \<or> s_pending_plan s = Some (p_id plan)) \<and> covered r (s', F') \<and> F \<subseteq> F')
    (\<lambda>e w'. snapshot_failure e) w"
proof (cases "s_plan s = p_id plan")
  case True
  have "with_plan (p_id plan) s = (if s_pending_plan s = Some (p_id plan) then s\<lparr>s_pending_plan := None\<rparr> else s)"
    using True [symmetric] by (simp add: with_plan_def)
  then show ?thesis using True q se cov by (simp add: refresh_plan_def wp_ret Let_def covered_def subset_insertI)
next
  case False
  obtain s' F' where t: "take_plan (p_id plan) (s_pending_plan s) None (s, F) = (s', F')" by fastforce
  have t': "s' = with_plan (p_id plan) s" "F \<subseteq> F'" "covered r (s', F')"
    using take_plan_spec [OF t] covered_trans [OF cov] by auto
  have "refresh_plan old_plan plan actor effective (s, F) =
      seqM (audit_plan_change s' actor old_plan plan (s_pending_plan s) effective) (ret (True, s', F'))"
    using False q by (simp add: refresh_plan_def t)
  then show ?thesis
    using False by (auto simp: t' wp_ret intro!: wp_plan_audited [OF se] simp flip: t'(1))
qed

lemma wp_enter_period:
  assumes se: "side_effects m w0 w" and own: "s_merchant s = m" and cov: "covered r (s, F)"
  shows "wp (enter_period a b paid old_plan plan actor effective (s, F))
    (\<lambda>(s', F') w'. side_effects m w0 w' \<and> s' = activated (p_id plan) a b s \<and> covered r (s', F') \<and> F \<subseteq> F')
    (\<lambda>e w'. snapshot_failure e) w"
proof -
  obtain s1 F1 where t: "take_plan (p_id plan) (s_pending_plan s) (Some (a, b)) (s, F) = (s1, F1)" by fastforce
  obtain s2 F2 where u: "activated_draft (s1, F1) = (s2, F2)" by fastforce
  have t': "s1 = (with_plan (p_id plan) s)\<lparr>s_period_start := Some a, s_period_end := Some b\<rparr>" "F \<subseteq> F1" "covered r (s1, F1)"
    using take_plan_period_spec [OF t] covered_trans [OF cov] by auto
  have u': "F \<subseteq> F2" "covered r (s2, F2)"
    using activated_draft_spec [OF u] covered_trans [OF t'(3)] t'(2) by auto
  have mid: "wp (if s_status s \<noteq> Active then
         let (sub2, f2) = activated_draft (s1, F1) in
         seqM (audit (if s_status s = PastDue then AUDIT_RECOVERED else AUDIT_ACTIVATED) sub2 None
            [(''from_status'', status_json (s_status s)), (''to_status'', status_json Active),
             (''plan_id'', JStr (p_id plan)), (''plan_name'', JStr (p_name plan))])
         (seqM (whenM (effective \<noteq> None \<and> s_status s = PastDue \<and> p_id old_plan \<noteq> p_id plan)
            (audit_plan_change sub2 actor old_plan plan (s_pending_plan s) effective))
         (ret (sub2, f2)))
       else seqM (whenM (p_id old_plan \<noteq> p_id plan)
           (audit_plan_change s1 actor old_plan plan (s_pending_plan s) effective)) (ret (s1, F1)))
    (\<lambda>(s', F') w'. side_effects m w0 w' \<and> s' = activated (p_id plan) a b s \<and> covered r (s', F') \<and> F \<subseteq> F')
    (\<lambda>e w'. snapshot_failure e) w"
  proof (cases "s_status s = Active")
    case True
    have "s1 = activated (p_id plan) a b s" using True by (simp add: t'(1) activated_def)
    then show ?thesis using True t'(2,3) by (simp add: wp_ret wp_when_plan_audited [OF se])
  next
    case False
    have "s2 = activated (p_id plan) a b s" using False activated_draft_spec [OF u] by (simp add: t'(1) activated_def)
    with u' have fin: "wp (ret (s2, F2)) (\<lambda>(s', F') w'. side_effects m w0 w' \<and> s' = activated (p_id plan) a b s \<and>
        covered r (s', F') \<and> F \<subseteq> F') (\<lambda>e w'. snapshot_failure e) w'" if "side_effects m w0 w'" for w'
      using that by (simp add: wp_ret)
    show ?thesis
      using False by (simp only: u Let_def prod.case if_True not_False_eq_True)
        (intro wp_audited [OF se] wp_when_plan_audited fin, assumption+)
  qed
  show ?thesis
    unfolding enter_period_def prod.case Let_def t
    by (rule wp_bind_spec [OF mid [unfolded Let_def]])
      (clarsimp simp del: not_None_eq, rule wp_conseq [OF wp_ledger], assumption,
        simp_all add: activated_def own)
qed

lemma wp_apply_active:
  assumes tx: "in_tx m w" and fk: "fk_ok (db w) s" and own: "s_merchant s = m" and cov: "covered r (s, F)"
  shows "wp (apply_active entity invoices plan actor effective (s, F))
    (\<lambda>(ar, s', F') w'. side_effects m w w' \<and> (ar, s') = active_next entity invoices plan s \<and> covered r (s', F') \<and> F \<subseteq> F')
    (\<lambda>e w'. snapshot_failure e) w"
proof (cases "from_unix (jget ''current_start'' entity)")
  case None
  then show ?thesis using tx cov by (simp add: apply_active_def active_next_def no_effect_def wp_ret side_effects_refl)
next
  case (Some a)
  note a = this
  show ?thesis
  proof (cases "from_unix (jget ''current_end'' entity)")
    case None
    then show ?thesis using tx cov a by (simp add: apply_active_def active_next_def no_effect_def wp_ret side_effects_refl)
  next
    case (Some b)
    note se = side_effects_refl [OF tx]
    obtain q where q: "plan_by_id (db w) (s_plan s) = Some q" using fk by (auto simp: fk_ok_def)
    then have qid: "p_id q = s_plan s" by (rule plan_by_idD)
    have refresh: "wp (bindM (refresh_plan q plan actor effective (s, F)) (\<lambda>(ch, sub1, f1).
             seqM (case current_period_paid entity invoices of None \<Rightarrow> ret () | Some paid \<Rightarrow> record_payment sub1 paid False)
               (ret (\<lparr>a_changed = ch, a_settled = True, a_advanced = False\<rparr>, sub1, f1))))
      (\<lambda>(ar, s', F') w'. side_effects m w w' \<and> (ar, s') = (kept (s_plan s \<noteq> p_id plan \<or> s_pending_plan s = Some (p_id plan)),
         with_plan (p_id plan) s) \<and> covered r (s', F') \<and> F \<subseteq> F') (\<lambda>e w'. snapshot_failure e) w"
      by (rule wp_bind_spec [OF wp_refresh_plan [OF se qid cov]])
        (clarsimp, rule wp_conseq [OF wp_ledger_opt], assumption, simp_all add: own kept_def)
    have enter: "wp (bindM (enter_period a b paid q plan actor effective (s, F))
        (\<lambda>dr. ret (\<lparr>a_changed = True, a_settled = True, a_advanced = True\<rparr>, dr)))
      (\<lambda>(ar, s', F') w'. side_effects m w w' \<and> (ar, s') = (\<lparr>a_changed = True, a_settled = True, a_advanced = True\<rparr>,
         activated (p_id plan) a b s) \<and> covered r (s', F') \<and> F \<subseteq> F') (\<lambda>e w'. snapshot_failure e) w" for paid
      by (rule wp_bind_spec [OF wp_enter_period [OF se own cov]]) (auto simp: wp_ret)
    note start = wp_bind [of "get_plan (s_plan s)"] wp_get_plan q
    show ?thesis
    proof (cases "b \<le> a")
      case True
      then show ?thesis using a Some cov se by (simp add: apply_active_def active_next_def no_effect_def wp_ret)
    next
      case False
      then show ?thesis
        using a Some refresh enter cov se
        by (cases "s_status s = Active"; cases "s_period_start s = Some a"; cases "current_period_paid entity invoices")
          (simp_all add: apply_active_def active_next_def no_effect_def start wp_ret)
    qed
  qed
qed

lemma wp_payment_failed:
  assumes tx: "in_tx m w"
  shows "wp (apply_payment_failed t (s, F))
    (\<lambda>(ch, s', F') w'. side_effects m w w' \<and> (kept ch, s') = failed_next t s \<and> F \<subseteq> F' \<and> covered s (s', F'))
    (\<lambda>e w'. snapshot_failure e) w"
proof (cases "s_status s = Active")
  case True
  show ?thesis
    unfolding apply_payment_failed_def prod.case Let_def using True
    by (simp, intro wp_audited [OF side_effects_refl [OF tx]]) (auto simp: wp_ret failed_next_def covered_def)
qed (use tx in \<open>simp add: apply_payment_failed_def failed_next_def wp_ret side_effects_refl\<close>)

lemma wp_terminal:
  assumes tx: "in_tx m w" and c: "\<not> committed_downgrade_replacement s" and chk: "sub_checks s"
  shows "wp (apply_terminal t (s, F))
    (\<lambda>(ch, s', F') w'. side_effects m w w' \<and> (kept ch, s') = terminal_next t s \<and> F \<subseteq> F' \<and> covered s (s', F'))
    (\<lambda>e w'. snapshot_failure e) w"
proof -
  note se = side_effects_refl [OF tx]
  consider "s_status s = Active" | "s_status s = PastDue" | "s_status s \<notin> {Active, PastDue}" by blast
  then show ?thesis
  proof cases
    case 1
    show ?thesis
      unfolding apply_terminal_def prod.case Let_def using 1 c
      by (simp, intro wp_audited [OF se]) (auto simp: wp_ret terminal_next_def covered_def)
  next
    case 2
    then obtain d where d: "s_past_due_at s = Some d" using chk by (auto simp: sub_checks_def grace_checks_def)
    show ?thesis
      unfolding apply_terminal_def prod.case Let_def clear_grace_def using 2 c d
      by (cases "d + GRACE \<le> t"; simp add: wp_bind wp_need; intro wp_audited [OF se])
        (auto simp: wp_ret terminal_next_def covered_def)
  next
    case 3
    with c se show ?thesis by (auto simp: apply_terminal_def terminal_next_def wp_ret)
  qed
qed

text \<open>After a transition away from \<open>ACTIVE\<close> an uncommitted replacement that is not active may be given up.\<close>

definition after_abandon :: "subscription \<Rightarrow> subscription \<Rightarrow> bool" where
  "after_abandon s s' \<longleftrightarrow> s' = s \<or> (\<exists>target. may_retire s \<and> target_ok s target \<and> s' = retired target s)"

lemma retired_draft_covers: "covered s (retired_draft target (s, F)) \<and> F \<subseteq> snd (retired_draft target (s, F))"
  by (simp add: retired_draft_def retire_fields_def covered_def Let_def subset_insertI2 le_supI1)

lemma wp_abandon_draft:
  assumes "side_effects m w0 w" "fk_ok (db w) s" "covered r (s, F)"
  shows "wp (bindM (abandon_unless_active reason not_active None (s, F)) (\<lambda>(_, _, dr2). ret dr2))
    (\<lambda>(s', F') w'. side_effects m w0 w' \<and> after_abandon s s' \<and> covered r (s', F') \<and> F \<subseteq> F')
    (\<lambda>e w'. snapshot_failure e) w"
proof (rule wp_bind_spec [OF wp_abandon [OF side_effects_tx [OF assms(1)] assms(2) wp_not_active]], goal_cases)
  case (1 a w')
  obtain b got dr where a: "a = (b, got, dr)" by (cases a)
  have "covered r (retired_draft target (s, F))" for target
    using covered_trans [OF assms(3), of "fst (retired_draft target (s, F))" "snd (retired_draft target (s, F))"]
      retired_draft_covers [of s target F] by simp
  note cr = this
  show ?case
  proof (cases b)
    case True
    with 1 obtain target where t: "may_retire s" "target_ok s target" "dr = retired_draft target (s, F)" "side_effects m w w'"
      by (auto simp: a)
    obtain s' F' where d: "retired_draft target (s, F) = (s', F')" by fastforce
    have "s' = retired target s" using retired_draft_fst [of target s F] d by simp
    then have "after_abandon s s'" using t by (auto simp: after_abandon_def)
    then show ?thesis
      using a t d cr [of target] retired_draft_covers [of s target F] side_effects_trans [OF assms(1) t(4)] by (simp add: wp_ret)
  next
    case False
    with 1 assms show ?thesis by (auto simp: a wp_ret after_abandon_def intro: side_effects_trans)
  qed
qed (simp add: snapshot_failure_def)

lemma wp_maybe_abandon:
  assumes "side_effects m w0 w" "fk_ok (db w) s" "covered r (s, F)"
  shows "wp (if ch then bindM (abandon_unless_active reason not_active None (s, F)) (\<lambda>(_, _, dr2). ret dr2) else ret (s, F))
    (\<lambda>(s', F') w'. side_effects m w0 w' \<and> (s' = s \<or> ch \<and> after_abandon s s') \<and> covered r (s', F') \<and> F \<subseteq> F')
    (\<lambda>e w'. snapshot_failure e) w"
proof (cases ch)
  case True
  then show ?thesis by simp (rule wp_conseq [OF wp_abandon_draft [OF assms]], auto)
qed (use assms in \<open>simp add: wp_ret\<close>)

lemma snapshot_next_fk:
  "fk_ok d s \<Longrightarrow> fk_ok d (snd (failed_next t s))" "fk_ok d s \<Longrightarrow> fk_ok d (snd (terminal_next t s))"
  by (simp_all add: fk_ok_def failed_next_def terminal_next_def)

definition snapshot_refines ::
  "string \<Rightarrow> json \<Rightarrow> json list option \<Rightarrow> plan \<Rightarrow> instant \<Rightarrow> subscription \<Rightarrow> active_result \<Rightarrow> subscription \<Rightarrow> bool" where
  "snapshot_refines st entity invoices plan t s ar s' \<longleftrightarrow>
     ar = fst (snapshot_next st entity invoices plan t s) \<and>
     (s' = snd (snapshot_next st entity invoices plan t s) \<or>
      a_changed ar \<and> st \<noteq> ''active'' \<and> after_abandon (snd (snapshot_next st entity invoices plan t s)) s')"

lemma wp_dispatch:
  assumes tx: "in_tx m w" and fk: "fk_ok (db w) s" and own: "s_merchant s = m" and chk: "sub_checks s"
  shows "wp (dispatch_status st entity invoices plan actor t (s, F))
    (\<lambda>(ar, s', F') w'. side_effects m w w' \<and> snapshot_refines st entity invoices plan t s ar s' \<and> covered s (s', F') \<and> F \<subseteq> F')
    (\<lambda>e w'. snapshot_failure e) w"
proof -
  have step: "wp (bindM p (\<lambda>(ch, dr1).
         bindM (if ch then bindM (abandon_unless_active reason not_active None dr1) (\<lambda>(_, _, dr2). ret dr2) else ret dr1)
           (\<lambda>dr2. ret (\<lparr>a_changed = ch, a_settled = True, a_advanced = False\<rparr>, dr2))))
      (\<lambda>(ar, s', F') w'. side_effects m w w' \<and> (ar = fst nx \<and> (s' = snd nx \<or> a_changed ar \<and> after_abandon (snd nx) s')) \<and>
         covered s (s', F') \<and> F \<subseteq> F') (\<lambda>e w'. snapshot_failure e) w"
    if p: "wp p (\<lambda>(ch, s', F') w'. side_effects m w w' \<and> (kept ch, s') = nx \<and> F \<subseteq> F' \<and> covered s (s', F')) (\<lambda>e w'. snapshot_failure e) w"
      and nx: "fk_ok (db w) (snd nx)" for p nx reason
  proof (rule wp_bind_spec [OF p])
    fix a w' assume "(\<lambda>(ch, s', F') w'. side_effects m w w' \<and> (kept ch, s') = nx \<and> F \<subseteq> F' \<and> covered s (s', F')) a w'"
    then obtain ch s' F' where a: "a = (ch, s', F')" "side_effects m w w'" "nx = (kept ch, s')" "F \<subseteq> F'" "covered s (s', F')"
      by (cases a) auto
    have "fk_ok (db w') s'" using nx a by (simp add: fk_ok_side_effects)
    from wp_maybe_abandon [OF a(2) this a(5)]
    show "wp (case a of (ch, dr1) \<Rightarrow>
         bindM (if ch then bindM (abandon_unless_active reason not_active None dr1) (\<lambda>(_, _, dr2). ret dr2) else ret dr1)
           (\<lambda>dr2. ret (\<lparr>a_changed = ch, a_settled = True, a_advanced = False\<rparr>, dr2)))
      (\<lambda>(ar, s', F') w'. side_effects m w w' \<and> (ar = fst nx \<and> (s' = snd nx \<or> a_changed ar \<and> after_abandon (snd nx) s')) \<and>
         covered s (s', F') \<and> F \<subseteq> F') (\<lambda>e w'. snapshot_failure e) w'"
      unfolding a(1) prod.case
      by (rule wp_bind_spec) (use a in \<open>auto simp: wp_ret kept_def\<close>)
  qed simp
  consider "st = ''active''" | "st \<noteq> ''active''" "st = ''pending'' \<or> st = ''halted''"
    | "st \<noteq> ''active''" "\<not> (st = ''pending'' \<or> st = ''halted'')" "st \<in> set TERMINAL_PROVIDER_STATUSES" "committed_downgrade_replacement s"
    | "st \<noteq> ''active''" "\<not> (st = ''pending'' \<or> st = ''halted'')" "st \<in> set TERMINAL_PROVIDER_STATUSES" "\<not> committed_downgrade_replacement s"
    | "st \<noteq> ''active''" "\<not> (st = ''pending'' \<or> st = ''halted'')" "st \<notin> set TERMINAL_PROVIDER_STATUSES"
    by blast
  then show ?thesis
  proof cases
    case 1
    then show ?thesis
      by (simp add: dispatch_status_def, intro wp_conseq [OF wp_apply_active [OF tx fk own covered_refl]])
        (auto simp: snapshot_refines_def snapshot_next_def dest: sym)
  next
    case 2
    have "dispatch_status st entity invoices plan actor t (s, F) = bindM (apply_payment_failed t (s, F)) (\<lambda>(ch, dr1).
         bindM (if ch then bindM (abandon_unless_active ''past_due'' not_active None dr1) (\<lambda>(_, _, dr2). ret dr2) else ret dr1)
           (\<lambda>dr2. ret (\<lparr>a_changed = ch, a_settled = True, a_advanced = False\<rparr>, dr2)))"
      using 2 by (simp add: dispatch_status_def)
    note eq = this
    show ?thesis
      unfolding eq by (rule wp_conseq [OF step [OF wp_payment_failed [OF tx] snapshot_next_fk(1) [OF fk]]])
        (use 2 in \<open>auto simp: snapshot_refines_def snapshot_next_def\<close>)
  next
    case 3
    then show ?thesis
      using tx by (simp add: dispatch_status_def snapshot_refines_def snapshot_next_def terminal_next_def kept_def wp_ret side_effects_refl)
  next
    case 4
    then have "dispatch_status st entity invoices plan actor t (s, F) = bindM (apply_terminal t (s, F)) (\<lambda>(ch, dr1).
         bindM (if ch then bindM (abandon_unless_active ''row_ended'' not_active None dr1) (\<lambda>(_, _, dr2). ret dr2) else ret dr1)
           (\<lambda>dr2. ret (\<lparr>a_changed = ch, a_settled = True, a_advanced = False\<rparr>, dr2)))"
      by (simp add: dispatch_status_def)
    note eq = this
    show ?thesis
      unfolding eq by (rule wp_conseq [OF step [OF wp_terminal [OF tx 4(4) chk] snapshot_next_fk(2) [OF fk]]])
        (use 4 in \<open>auto simp: snapshot_refines_def snapshot_next_def\<close>)
  next
    case 5
    then show ?thesis
      using tx by (simp add: dispatch_status_def snapshot_refines_def snapshot_next_def kept_def wp_ret side_effects_refl)
  qed
qed

subsection \<open>Saving the draft\<close>

lemma covered_stamped: "covered r (s, F) \<Longrightarrow> write_fields F (stamped F w s) r = stamped F w s"
  by (rule covered_write) (simp add: covered_def stamped_def)

lemma stamped_checks [simp]: "sub_checks (stamped F w s) = sub_checks s"
  by (simp add: stamped_def sub_checks_def)

lemma stamped_same: "stamped F w s = s\<lparr>s_updated_at := s_updated_at (stamped F w s)\<rparr>"
  by (simp add: stamped_def)

lemma wp_save_covered:
  assumes tx: "in_tx m w" and row: "subs (db w) m = Some r" "s_merchant r = m" and cov: "covered r (s, F)" and chk: "sub_checks s"
  shows "wp (save_sub F s) (\<lambda>s' w'. s' = stamped F w s \<and> w' = (save_tick F w)\<lparr>db := put_sub m s' (db w)\<rparr>)
     (\<lambda>e w'. \<exists>c. e = UniqueViolation c) w"
proof -
  have "s_merchant s = m" "s_id r = s_id s" using cov row by (auto simp: covered_def)
  from run_save_sub [OF tx row(1) this(1) row(2) this(2), of F]
  show ?thesis
    by (simp add: wp_def Let_def covered_stamped [OF cov] chk split: option.split)
qed

subsection \<open>The refinement\<close>

text \<open>When a snapshot is acted upon at all: it names the row's subscription, is newer than the last
  applied fetch, names a known plan, and has a status.\<close>

definition usable_snapshot :: "json \<Rightarrow> instant \<Rightarrow> bdb \<Rightarrow> subscription \<Rightarrow> (plan \<times> string) option" where
  "usable_snapshot entity fetch_started_at d r = (
     let ref = (if is_dict entity then jget ''id'' entity else JNull) in
     if \<not> truthy ref \<or> \<not> same_text (s_payment_ref r) ref then None
     else if (case s_provider_synced_at r of None \<Rightarrow> False | Some x \<Rightarrow> fetch_started_at \<le> x) then None
     else (case as_str (jget ''plan_id'' entity) of None \<Rightarrow> None
       | Some i \<Rightarrow> (case plan_by_provider_id d i of None \<Rightarrow> None
         | Some plan \<Rightarrow> map_option (Pair plan) (as_str (jget ''status'' entity)))))"

text \<open>The database after an accepted snapshot.\<close>

definition applied_snapshot ::
  "uuid \<Rightarrow> string \<Rightarrow> instant \<Rightarrow> bdb \<Rightarrow> active_result \<Rightarrow> subscription \<Rightarrow> bdb \<Rightarrow> bool" where
  "applied_snapshot m st fetch_started_at d ar s' d' \<longleftrightarrow>
     (\<exists>u. subs d' = (subs d)(m \<mapsto> s'\<lparr>s_provider_status := Some (take 16 st),
        s_provider_synced_at := Some fetch_started_at, s_updated_at := u\<rparr>)) \<and>
     usage_records d' = (if a_advanced ar then usage_records (ensure_usage m (the (s_period_start s')) (the (s_period_end s')) d)
       else usage_records d) \<and>
     plans d' = plans d \<and> merchants d' = merchants d \<and> members d' = members d \<and>
     prefix_of (audit_logs d) (audit_logs d') \<and> prefix_of (payment_attempts d) (payment_attempts d')"

lemma snapshot_refines_checks:
  assumes "snapshot_refines st entity invoices plan t s ar s'" "sub_checks s"
  shows "sub_checks s'"
proof -
  have "sub_checks (snd (snapshot_next st entity invoices plan t s))" using assms(2) by (rule snapshot_next_checks)
  with assms(1) show ?thesis
    by (auto simp: snapshot_refines_def after_abandon_def may_retire_def intro: retired_keeps_checks)
qed

lemma snapshot_next_advanced:
  assumes "a_advanced (fst (snapshot_next st entity invoices plan t s))"
  shows "\<exists>a b. st = ''active'' \<and> a < b \<and> from_unix (jget ''current_start'' entity) = Some a \<and>
     from_unix (jget ''current_end'' entity) = Some b \<and> current_period_paid entity invoices \<noteq> None \<and>
     snd (snapshot_next st entity invoices plan t s) = activated (p_id plan) a b s"
  using assms by (auto simp: snapshot_next_def active_next_def no_effect_def kept_def failed_next_def terminal_next_def
      split: if_splits option.splits)

lemma snapshot_refines_advanced:
  assumes "snapshot_refines st entity invoices plan t s ar s'" "a_advanced ar"
  shows "\<exists>a b. a < b \<and> s_period_start s' = Some a \<and> s_period_end s' = Some b"
  using assms snapshot_next_advanced [of st entity invoices plan t s]
  by (auto simp: snapshot_refines_def activated_def)

lemma ensure_usage_fields [simp]:
  "subs (ensure_usage m a b d) = subs d" "plans (ensure_usage m a b d) = plans d"
  "merchants (ensure_usage m a b d) = merchants d" "members (ensure_usage m a b d) = members d"
  "audit_logs (ensure_usage m a b d) = audit_logs d" "payment_attempts (ensure_usage m a b d) = payment_attempts d"
  "billing_events (ensure_usage m a b d) = billing_events d"
  by (simp_all add: ensure_usage_def split: option.split)

lemma usage_of_cong: "usage_records d = usage_records d' \<Longrightarrow> usage_of d = usage_of d'"
  by (simp add: usage_of_def fun_eq_iff)

lemma ensure_usage_cong:
  "usage_records d = usage_records d' \<Longrightarrow> usage_records (ensure_usage m a b d) = usage_records (ensure_usage m a b d')"
  using usage_of_cong [of d d'] by (simp add: ensure_usage_def split: option.split)

lemma put_sub_fields [simp]:
  "subs (put_sub m s d) = (subs d)(m \<mapsto> s)" "plans (put_sub m s d) = plans d"
  "merchants (put_sub m s d) = merchants d" "members (put_sub m s d) = members d"
  "usage_records (put_sub m s d) = usage_records d" "audit_logs (put_sub m s d) = audit_logs d"
  "payment_attempts (put_sub m s d) = payment_attempts d" "billing_events (put_sub m s d) = billing_events d"
  by (simp_all add: put_sub_def)

lemma wp_save_applied:
  assumes se: "side_effects m w w1" and row: "subs (db w) m = Some r" "s_merchant r = m"
    and ref: "snapshot_refines st entity invoices plan t r ar s'" and chk: "sub_checks r"
    and cov: "covered r (s', F)" "{F_provider_status, F_provider_synced_at} \<subseteq> F"
  shows "wp (bindM (save_sub (if a_changed ar then insert F_updated_at F else F)
        (s'\<lparr>s_provider_status := Some (take 16 st), s_provider_synced_at := Some fetch_started_at\<rparr>)) (\<lambda>sub3.
     seqM (if a_advanced ar then bindM (reset_usage_period sub3) (\<lambda>_. ret ()) else ret ())
       (ret (result (a_changed ar) (a_settled ar)))))
    (\<lambda>res w'. res = result (a_changed ar) (a_settled ar) \<and> in_tx m w' \<and> saves w' = saves w \<and> guc w' = guc w \<and>
        applied_snapshot m st fetch_started_at (db w) ar s' (db w'))
    (\<lambda>e w'. \<exists>c. e = UniqueViolation c) w1"
proof -
  let ?s = "s'\<lparr>s_provider_status := Some (take 16 st), s_provider_synced_at := Some fetch_started_at\<rparr>"
  let ?F = "if a_changed ar then insert F_updated_at F else F"
  let ?x = "stamped ?F w1 ?s"
  have tx1: "in_tx m w1" and row1: "subs (db w1) m = Some r" using se row by (auto simp: side_effects_def)
  have own: "s_merchant s' = m" using cov(1) row(2) by (simp add: covered_def)
  have cov': "covered r (?s, ?F)" using cov by (auto simp: covered_def)
  have chk': "sub_checks ?s" using snapshot_refines_checks [OF ref chk] by (simp add: sub_checks_def)
  obtain x u where x: "?x = x" "x = s'\<lparr>s_provider_status := Some (take 16 st),
      s_provider_synced_at := Some fetch_started_at, s_updated_at := u\<rparr>"
    using stamped_same [of ?F w1 ?s] by auto
  have xs: "s_merchant x = m" "s_period_start x = s_period_start s'" "s_period_end x = s_period_end s'"
    by (simp_all add: x(2) own)
  show ?thesis
  proof (rule wp_bind_spec [OF wp_save_covered [OF tx1 row1 row(2) cov' chk']], goal_cases)
    case (1 s3 w2)
    then have w2: "s3 = x" "w2 = (save_tick ?F w1)\<lparr>db := put_sub m x (db w1)\<rparr>" using x(1) by simp_all
    have tx2: "in_tx m w2" using tx1 by (simp add: w2)
    show ?case
    proof (cases "a_advanced ar")
      case False
      then show ?thesis
        using tx2 se x(2) by (auto simp: wp_ret wp_seq w2 applied_snapshot_def side_effects_def save_tick_def)
    next
      case True
      then obtain a b where ab: "a < b" "s_period_start s' = Some a" "s_period_end s' = Some b"
        using snapshot_refines_advanced [OF ref] by blast
      have "reset_usage_period x w2 = (Inr (the (usage_of (ensure_usage m a b (db w2)) m a b)), w2\<lparr>db := ensure_usage m a b (db w2)\<rparr>)"
        using run_reset_usage [OF tx2 xs(1) xs(2) [unfolded ab] xs(3) [unfolded ab] ab(1)] .
      moreover have "usage_records (ensure_usage m a b (put_sub m x (db w1))) = usage_records (ensure_usage m a b (db w))"
        by (rule ensure_usage_cong) (use se in \<open>simp add: side_effects_def\<close>)
      ultimately show ?thesis
        using True tx2 se x(2) ab
        by (auto simp: wp_def run_seq run_bind w2 applied_snapshot_def side_effects_def save_tick_def tick_def)
    qed
  qed simp
qed

definition snapshot_outcome ::
  "uuid \<Rightarrow> json \<Rightarrow> json list option \<Rightarrow> instant \<Rightarrow> instant \<Rightarrow> subscription \<Rightarrow> bdb \<Rightarrow> snapshot_result \<Rightarrow> bdb \<Rightarrow> bool" where
  "snapshot_outcome m entity invoices fetch_started_at t r d res d' \<longleftrightarrow>
     (case usable_snapshot entity fetch_started_at d r of
        None \<Rightarrow> res = result False False \<and> d' = d
      | Some (plan, st) \<Rightarrow> \<exists>ar s'. res = result (a_changed ar) (a_settled ar) \<and>
          snapshot_refines st entity invoices plan t r ar s' \<and>
          applied_snapshot m st fetch_started_at d ar s' d')"

text \<open>The row of the current merchant as the theorems need it: present, its own, within the table's
  constraints, its foreign keys intact.\<close>

definition row_ok :: "uuid \<Rightarrow> bdb \<Rightarrow> subscription \<Rightarrow> bool" where
  "row_ok m d r \<longleftrightarrow> subs d m = Some r \<and> s_merchant r = m \<and> sub_checks r \<and> fk_ok d r"

lemma quiet_lock:
  assumes "in_tx m w"
  shows "wp take_row_lock (\<lambda>_ w'. in_tx m w' \<and> db w' = db w \<and> clock w' = clock w \<and> ticks w' = ticks w \<and> saves w' = saves w \<and>
     guc w' = guc w \<and> gates w' = gates w \<and> cfg w' = cfg w \<and> http w' = http w \<and> calls w' = calls w) (\<lambda>_ _. False) w"
  using assms by (auto simp: take_row_lock_def wp_modify interfere_quiet in_txD)

lemma wp_lock_subscription:
  assumes "in_tx m w" "subs (db w) m = Some r" "s_id r = pk"
  shows "wp (lock_subscription pk) (\<lambda>s w'. s = r \<and> in_tx m w' \<and> db w' = db w \<and> clock w' = clock w \<and> ticks w' = ticks w \<and>
     saves w' = saves w \<and> guc w' = guc w \<and> gates w' = gates w \<and> cfg w' = cfg w \<and> http w' = http w \<and> calls w' = calls w) (\<lambda>_ _. False) w"
  unfolding lock_subscription_def
  by (rule wp_seq_spec [OF quiet_lock [OF assms(1)]]) (use assms in \<open>auto simp: wp_sub_get in_tx_def\<close>)

lemma wp_apply_locked:
  assumes tx: "in_tx m w" and row: "row_ok m (db w) r"
  shows "wp (apply_locked entity invoices fetch_started_at actor r)
    (\<lambda>res w'. in_tx m w' \<and> saves w' = saves w \<and> guc w' = guc w \<and>
       snapshot_outcome m entity invoices fetch_started_at (clock w (ticks w)) r (db w) res (db w'))
    (\<lambda>e w'. snapshot_failure e \<or> (\<exists>c. e = UniqueViolation c)) w"
proof -
  let ?tw = "tick w" and ?t = "clock w (ticks w)"
  have r: "subs (db w) m = Some r" "s_merchant r = m" "sub_checks r" "fk_ok (db w) r" using row by (auto simp: row_ok_def)
  show ?thesis
  proof (cases "usable_snapshot entity fetch_started_at (db w) r")
    case None
    then show ?thesis
      using tx by (auto simp: apply_locked_def wp_bind wp_now wp_ret wp_replacement_plan snapshot_outcome_def usable_snapshot_def Let_def
          split: option.splits if_splits)
  next
    case (Some ps)
    obtain plan st where ps: "ps = (plan, st)" by fastforce
    obtain i where u: "is_dict entity" "truthy (jget ''id'' entity)" "same_text (s_payment_ref r) (jget ''id'' entity)"
      "\<not> (case s_provider_synced_at r of None \<Rightarrow> False | Some x \<Rightarrow> fetch_started_at \<le> x)"
      "jget ''plan_id'' entity = JStr i" "plan_by_provider_id (db w) i = Some plan" "jget ''status'' entity = JStr st"
      using Some ps by (auto simp: usable_snapshot_def Let_def split: if_splits option.splits)
    let ?F = "{F_provider_status, F_provider_synced_at}"
    have disp: "wp (dispatch_status st entity invoices plan actor ?t (r, ?F))
      (\<lambda>(ar, s', F') w'. side_effects m ?tw w' \<and> snapshot_refines st entity invoices plan ?t r ar s' \<and> covered r (s', F') \<and> ?F \<subseteq> F')
      (\<lambda>e w'. snapshot_failure e) ?tw"
      by (rule wp_dispatch) (use tx r in simp_all)
    have body: "wp (bindM (dispatch_status st entity invoices plan actor ?t (r, ?F)) (\<lambda>(ar, sub1, fields).
             bindM (save_sub (if a_changed ar then insert F_updated_at fields else fields)
                (sub1\<lparr>s_provider_status := Some (take 16 st), s_provider_synced_at := Some fetch_started_at\<rparr>)) (\<lambda>sub3.
             seqM (if a_advanced ar then bindM (reset_usage_period sub3) (\<lambda>_. ret ()) else ret ())
               (ret (result (a_changed ar) (a_settled ar))))))
      (\<lambda>res w'. in_tx m w' \<and> saves w' = saves w \<and> guc w' = guc w \<and>
         snapshot_outcome m entity invoices fetch_started_at ?t r (db w) res (db w'))
      (\<lambda>e w'. snapshot_failure e \<or> (\<exists>c. e = UniqueViolation c)) ?tw"
    proof (rule wp_bind_spec [OF disp], goal_cases)
      case (1 a w1)
      then obtain ar s' F' where a: "a = (ar, s', F')" "side_effects m ?tw w1" "snapshot_refines st entity invoices plan ?t r ar s'"
        "covered r (s', F')" "?F \<subseteq> F'" by (cases a) auto
      have "subs (db ?tw) m = Some r" by (simp add: r)
      from wp_save_applied [OF a(2) this r(2) a(3) r(3) a(4,5)]
      show ?case
        unfolding a(1) prod.case by (rule wp_conseq) (use a(3) Some ps in \<open>auto simp: snapshot_outcome_def\<close>)
    qed simp
    show ?thesis
      using body u by (simp add: apply_locked_def wp_bind [of now] wp_now wp_bind [of "replacement_plan entity"] wp_replacement_plan Let_def)
  qed
qed

lemma in_tx_saves: "in_tx m (w\<lparr>saves := x\<rparr>) \<longleftrightarrow> merchant_var (ctx w) = Some m \<and> merchant_var (guc w) = Some m \<and> x \<noteq> [] \<and> quiet w"
  by (simp add: in_tx_def quiet_def)

lemma wp_apply_snapshot:
  assumes tx: "in_tx m w" and row: "row_ok m (db w) r" and own: "s_merchant s0 = m" "s_id s0 = s_id r"
  shows "wp (apply_snapshot s0 entity invoices fetch_started_at actor)
    (\<lambda>res w'. in_tx m w' \<and> saves w' = saves w \<and>
       snapshot_outcome m entity invoices fetch_started_at (clock w (ticks w)) r (db w) res (db w'))
    (\<lambda>e w'. (snapshot_failure e \<or> (\<exists>c. e = UniqueViolation c))) w"
proof -
  let ?w0 = "w\<lparr>saves := db w # saves w\<rparr>"
  have tx0: "in_tx m ?w0" using tx by (simp add: in_tx_def quiet_def)
  have row0: "subs (db ?w0) m = Some r" using row by (simp add: row_ok_def)
  have "wp (bindM (lock_subscription (s_id r)) (apply_locked entity invoices fetch_started_at actor))
    (\<lambda>res w'. in_tx m w' \<and> saves w' = db w # saves w \<and>
       snapshot_outcome m entity invoices fetch_started_at (clock w (ticks w)) r (db w) res (db w'))
    (\<lambda>e w'. snapshot_failure e \<or> (\<exists>c. e = UniqueViolation c)) ?w0"
  proof (rule wp_bind_spec [OF wp_lock_subscription [OF tx0 row0 refl]], goal_cases)
    case (1 s w1)
    then have w1: "in_tx m w1" "row_ok m (db w1) r" "s = r" using row by simp_all
    show ?case unfolding w1(3) by (rule wp_conseq [OF wp_apply_locked [OF w1(1,2)]]) (use 1 in auto)
  qed simp
  then show ?thesis
    unfolding apply_snapshot_def
    using in_txD [OF tx] own
    by (simp add: wp_bind [of merchant_id_or_raise] wp_merchant_id_or_raise wp_tenant_atomic_tx [OF tx])
      (erule wp_conseq, auto simp: in_tx_saves in_txD)
qed

end
