(* ===== verification/BillingConstraints.thy ===== *)
theory BillingConstraints
  imports SnapshotSpec
begin

text \<open>
  The state invariant of the billing tables, as PostgreSQL enforces it, its preservation by every
  statement (an interpretation of \<open>billing_frame\<close>), and its consequence for a row that is written
  back with its references unchanged.
\<close>

subsection \<open>The constraints\<close>

text \<open>What PostgreSQL promises of a committed state: the check constraints of every row, one owner per
  provider reference among the registered merchants, one usage record per period, one payment and
  one event per provider id.\<close>

definition refs_distinct :: "(subscription \<Rightarrow> string option) \<Rightarrow> bdb \<Rightarrow> bool" where
  "refs_distinct col d \<longleftrightarrow> (\<forall>m\<in>fst ` set (merchants d). \<forall>m'\<in>fst ` set (merchants d). m \<noteq> m' \<longrightarrow>
     (\<forall>s s'. subs d m = Some s \<longrightarrow> subs d m' = Some s' \<longrightarrow> col s \<noteq> None \<longrightarrow> col s \<noteq> col s'))"

definition constraints :: "bdb \<Rightarrow> bool" where
  "constraints d \<longleftrightarrow>
     (\<forall>m s. subs d m = Some s \<longrightarrow> sub_checks s \<and> s_merchant s = m) \<and>
     refs_distinct s_payment_ref d \<and> refs_distinct s_replacement_ref d \<and> refs_distinct s_retired_ref d \<and>
     distinct (map (\<lambda>u. (u_merchant u, u_period_start u, u_period_end u)) (usage_records d)) \<and>
     (\<forall>u\<in>set (usage_records d). u_period_start u < u_period_end u) \<and>
     distinct (map (\<lambda>p. (pa_provider p, pa_provider_attempt_id p)) (payment_attempts d)) \<and>
     distinct (map (\<lambda>e. (be_provider e, be_provider_event_id e)) (billing_events d))"

lemma column_free:
  assumes "\<not> column_taken col m s d" "refs_distinct col d"
  shows "refs_distinct col (put_sub m s d)"
proof -
  have free: "col s \<noteq> col s'" if "m' \<noteq> m" "m' \<in> fst ` set (merchants d)" "subs d m' = Some s'" "col s \<noteq> None" for m' s'
    using assms(1) that by (force simp: column_taken_def list_ex_iff)
  show ?thesis
    unfolding refs_distinct_def
  proof (intro ballI impI allI)
    fix m1 m2 s1 s2
    assume a: "m1 \<in> fst ` set (merchants (put_sub m s d))" "m2 \<in> fst ` set (merchants (put_sub m s d))" "m1 \<noteq> m2"
      "subs (put_sub m s d) m1 = Some s1" "subs (put_sub m s d) m2 = Some s2" "col s1 \<noteq> None"
    consider "m1 = m" | "m2 = m" | "m1 \<noteq> m" "m2 \<noteq> m" by blast
    then show "col s1 \<noteq> col s2"
    proof cases
      case 1
      with a show ?thesis using free [of m2 s2] by (auto simp: put_sub_def)
    next
      case 2
      with a show ?thesis using free [of m1 s1] by (auto simp: put_sub_def)
    next
      case 3
      with a have "m1 \<in> fst ` set (merchants d)" "m2 \<in> fst ` set (merchants d)" "subs d m1 = Some s1" "subs d m2 = Some s2"
        by (simp_all add: put_sub_def)
      with a(3,6) show ?thesis using assms(2) unfolding refs_distinct_def by blast
    qed
  qed
qed

lemma constraints_put_sub:
  assumes "constraints d" "sub_checks s" "sub_unique_failure m s d = None" "s_merchant s = m"
  shows "constraints (put_sub m s d)"
proof -
  have "\<not> column_taken s_payment_ref m s d" "\<not> column_taken s_replacement_ref m s d" "\<not> column_taken s_retired_ref m s d"
    using assms(3) by (auto simp: sub_unique_failure_def split: if_splits)
  with assms show ?thesis by (simp add: constraints_def column_free)
qed

lemma refs_distinct_other [simp]:
  "refs_distinct col (d\<lparr>usage_records := x\<rparr>) = refs_distinct col d"
  "refs_distinct col (d\<lparr>payment_attempts := p\<rparr>) = refs_distinct col d"
  "refs_distinct col (d\<lparr>billing_events := e\<rparr>) = refs_distinct col d"
  "refs_distinct col (add_audit a d) = refs_distinct col d"
  by (simp_all add: refs_distinct_def add_audit_def)

lemma usage_of_None:
  "usage_of d m a b = None \<Longrightarrow> (m, a, b) \<notin> (\<lambda>u. (u_merchant u, u_period_start u, u_period_end u)) ` set (usage_records d)"
  by (auto simp: usage_of_def first_None same_period_row_def)

interpretation checked: billing_frame "\<lambda>d d'. constraints d \<longrightarrow> constraints d'" "\<lambda>_. True"
proof unfold_locales
  fix d m a b
  assume "usage_of d m a b = None" and "a < b"
  then show "constraints d \<longrightarrow> constraints (d\<lparr>usage_records := usage_records d @
      [\<lparr>u_merchant = m, u_period_start = a, u_period_end = b, u_requests_used = 0\<rparr>]\<rparr>)"
    using usage_of_None [of d m a b] by (auto simp: constraints_def)
next
  fix d m a b
  let ?f = "\<lambda>u. if same_period_row m a b u then u\<lparr>u_requests_used := Suc (u_requests_used u)\<rparr> else u"
  have "map (\<lambda>u. (u_merchant u, u_period_start u, u_period_end u)) (map ?f us) =
      map (\<lambda>u. (u_merchant u, u_period_start u, u_period_end u)) us" for us by simp
  then show "constraints d \<longrightarrow> constraints (d\<lparr>usage_records := map ?f (usage_records d)\<rparr>)"
    by (auto simp: constraints_def simp del: map_map)
next
  fix d m cond stamp
  have "map (\<lambda>e. (be_provider e, be_provider_event_id e)) (map (mark_event m cond stamp) es) =
      map (\<lambda>e. (be_provider e, be_provider_event_id e)) es" for es by (simp add: mark_event_def)
  then show "constraints d \<longrightarrow> constraints (d\<lparr>billing_events := map (mark_event m cond stamp) (billing_events d)\<rparr>)"
    by (simp add: constraints_def del: map_map)
next
  fix d a show "constraints d \<longrightarrow> constraints (add_audit a d)"
    by (simp add: constraints_def) (simp add: add_audit_def)
qed (auto simp: constraints_put_sub, (force simp: constraints_def list_ex_iff)+)

subsection \<open>Writing a row back\<close>

definition same_refs :: "subscription \<Rightarrow> subscription \<Rightarrow> bool" where
  "same_refs r s \<longleftrightarrow> s_payment_ref s = s_payment_ref r \<and> s_replacement_ref s = s_replacement_ref r \<and> s_retired_ref s = s_retired_ref r"

lemma column_not_taken:
  assumes "refs_distinct col d" "m \<in> fst ` set (merchants d)" "subs d m = Some r" "col s = col r"
  shows "\<not> column_taken col m s d"
proof
  assume t: "column_taken col m s d"
  then obtain m' st s' where "(m', st) \<in> set (merchants d)" "m' \<noteq> m" "subs d m' = Some s'" "col s' = col s" "col s \<noteq> None"
    by (auto simp: column_taken_def list_ex_iff split: option.splits)
  moreover from this have "m' \<in> fst ` set (merchants d)" by force
  ultimately show False using assms unfolding refs_distinct_def by metis
qed

lemma no_unique_failure:
  assumes "constraints d" "m \<in> fst ` set (merchants d)" "subs d m = Some r" "same_refs r s"
  shows "sub_unique_failure m s d = None"
  using assms column_not_taken [of _ d m r s] by (simp add: sub_unique_failure_def constraints_def same_refs_def)

end
