(* ===== verification/BillingSystem.thy ===== *)
theory BillingSystem
  imports BillingCheckout BillingWebhook Middleware BillingConstraints
begin

text \<open>
  The HTTP surface of billing, behind the tenant middleware: the exception handler of
  \<open>core/api.py\<close>, the views of \<open>billing/views.py\<close> and the webhook view of \<open>billing/receivers.py\<close>. An
  exception of a view becomes a response inside the tenant transaction of the middleware, so the
  request's transaction commits also when the answer is an error: what an error undoes are the
  savepoints of the service. Throttling, pagination and the rendering of bodies are not modelled;
  a view answers the values its serializers render.
\<close>

subsection \<open>Responses\<close>

datatype 'a http_response = Response nat 'a | ErrorResponse nat string | ServerError

text \<open>An exception class with a declared \<open>http_status\<close> is answered with it; of the others the REST
  framework knows none, so they are unhandled. \<open>ActorNotMember\<close> declares 403.\<close>

fun exception_handler :: "berror \<Rightarrow> 'a http_response" where
  "exception_handler (App e) = (case billing_http e of
     None \<Rightarrow> ServerError | Some (http_status, code) \<Rightarrow> ErrorResponse http_status code)"
| "exception_handler ActorNotMember = ErrorResponse 403 ''actor_not_member''"
| "exception_handler _ = ServerError"

definition respond :: "(nat \<times> 'a) bprog \<Rightarrow> 'a http_response bprog" where
  "respond m = catchM (bindM m (\<lambda>(status, body). ret (Response status body))) (\<lambda>e. Some (ret (exception_handler e)))"

subsection \<open>Views\<close>

definition view :: "role list \<Rightarrow> team_member option \<Rightarrow> (uuid \<Rightarrow> role \<Rightarrow> (nat \<times> 'a) bprog) \<Rightarrow> 'a http_response bprog" where
  "view roles member handler = (case member of
     None \<Rightarrow> ret (ErrorResponse 403 ''permission_denied'')
   | Some tm \<Rightarrow> if has_role roles member then respond (handler (tm_user tm) (tm_role tm))
       else ret (ErrorResponse 403 ''permission_denied''))"

definition plan_list_get :: "team_member option \<Rightarrow> plan list http_response bprog" where
  "plan_list_get member = view [OWNER, ADMIN] member (\<lambda>_ _. bindM list_plans (\<lambda>ps. ret (200, ps)))"

definition subscription_get :: "team_member option \<Rightarrow> overview http_response bprog" where
  "subscription_get member = view [OWNER, ADMIN] member (\<lambda>_ r.
     bindM (get_subscription_overview (r = OWNER)) (\<lambda>ov. ret (200, ov)))"

definition checkout_post ::
  "team_member option \<Rightarrow> uuid \<Rightarrow> bool \<Rightarrow> (json option \<times> overview) http_response bprog" where
  "checkout_post member plan_id acknowledge_no_credit = view [OWNER] member (\<lambda>user _.
     bindM (start_checkout (Some user) plan_id acknowledge_no_credit) (\<lambda>res.
     bindM (get_subscription_overview True) (\<lambda>ov.
     ret (if cr_created res then 201 else 200, (cr_checkout res, ov)))))"

definition subscription_cancel_post :: "team_member option \<Rightarrow> overview http_response bprog" where
  "subscription_cancel_post member = view [OWNER] member (\<lambda>user _.
     bindM (billing_cancel_subscription (Some user)) (\<lambda>_.
     bindM (get_subscription_overview True) (\<lambda>ov. ret (200, ov))))"

definition replacement_cancel_post :: "team_member option \<Rightarrow> overview http_response bprog" where
  "replacement_cancel_post member = view [OWNER] member (\<lambda>user _.
     bindM (cancel_replacement (Some user)) (\<lambda>_.
     bindM (get_subscription_overview True) (\<lambda>ov. ret (200, ov))))"

definition webhook_post :: "(string \<Rightarrow> json option) \<Rightarrow> webhook_request \<Rightarrow> unit http_response bprog" where
  "webhook_post loads req = respond (bindM (receive_webhook loads req) (\<lambda>_. ret (200, ())))"

subsection \<open>Frames\<close>

context billing_frame
begin

lemma frames_respond [frame_intros]: "frames R H m \<Longrightarrow> frames R H (respond m)"
  unfolding respond_def by (intro frame_intros) (auto intro: frame_intros)

lemma frames_view [frame_intros]: "(\<And>u r. frames R H (handler u r)) \<Longrightarrow> frames R H (view roles member handler)"
  unfolding view_def by (intro frame_intros)

lemma frames_list_plans [frame_intros]: "frames R G list_plans"
  unfolding list_plans_def by (intro frame_intros)

lemma frames_views [frame_intros]:
  "frames R G (plan_list_get member)" "frames R G (subscription_get member)"
  "frames R G (checkout_post member i b)" "frames R G (subscription_cancel_post member)"
  "frames R G (replacement_cancel_post member)"
  unfolding plan_list_get_def subscription_get_def checkout_post_def subscription_cancel_post_def
    replacement_cancel_post_def
  by (intro frame_intros)+

lemma frames_webhook_post:
  assumes "\<And>c. G c"
  shows "frames R (\<lambda>_. True) (webhook_post loads req)"
  unfolding webhook_post_def by (intro frame_intros frames_receive_webhook assms)

text \<open>A thread that enters the context of a merchant \<open>G\<close> allows.\<close>

lemma frames_entry:
  assumes "\<And>c. G (c\<lparr>merchant_var := Some m\<rparr>)" "frames R G p"
  shows "frames R H (tenant_context (Some m) p)"
  by (rule frames_tenant_context [where G' = G]) (use assms in auto)

lemma frames_tenant_middleware:
  "(\<And>c. G (c\<lparr>merchant_var := Some m\<rparr>)) \<Longrightarrow> frames R G p \<Longrightarrow> frames R H (tenant_middleware m p)"
  unfolding tenant_middleware_def by (intro frames_entry frame_intros)

end

text \<open>
  The billing system as the set of everything that enters it: the requests of merchants, the Celery
  tasks, the sweep and webhook deliveries, each a thread that runs while others commit. \<open>serves\<close> is
  the closure: the database after any finite history of such threads, where what a thread is
  interfered with is itself such a history. Every frame relation of the components therefore holds
  along every history.
\<close>

subsection \<open>Entries\<close>

datatype billing_entry =
    PlanList uuid "team_member option"
  | SubscriptionPage uuid "team_member option"
  | Checkout uuid "team_member option" uuid bool
  | CancelRequest uuid "team_member option"
  | CancelReplacement uuid "team_member option"
  | ReserveUnit uuid
  | SyncTask uuid
  | MaintainTask uuid
  | DunningTask uuid
  | Sweep
  | Webhook "string \<Rightarrow> json option" webhook_request

definition run_entry :: "billing_entry \<Rightarrow> unit bprog" where
  "run_entry entry = (case entry of
     PlanList m tm \<Rightarrow> bindM (tenant_middleware m (plan_list_get tm)) (\<lambda>_. ret ())
   | SubscriptionPage m tm \<Rightarrow> bindM (tenant_middleware m (subscription_get tm)) (\<lambda>_. ret ())
   | Checkout m tm p ack \<Rightarrow> bindM (tenant_middleware m (checkout_post tm p ack)) (\<lambda>_. ret ())
   | CancelRequest m tm \<Rightarrow> bindM (tenant_middleware m (subscription_cancel_post tm)) (\<lambda>_. ret ())
   | CancelReplacement m tm \<Rightarrow> bindM (tenant_middleware m (replacement_cancel_post tm)) (\<lambda>_. ret ())
   | ReserveUnit m \<Rightarrow> bindM (tenant_middleware m reserve_quota_unit) (\<lambda>_. ret ())
   | SyncTask m \<Rightarrow> sync_subscription_task (Some m)
   | MaintainTask m \<Rightarrow> maintain_subscription (Some m)
   | DunningTask m \<Rightarrow> advance_subscription_dunning (Some m)
   | Sweep \<Rightarrow> run_billing_maintenance
   | Webhook loads req \<Rightarrow> bindM (webhook_post loads req) (\<lambda>_. ret ()))"

text \<open>The merchant an entry acts for; the sweep and a delivery name none.\<close>

fun entry_merchant :: "billing_entry \<Rightarrow> uuid option" where
  "entry_merchant (PlanList m _) = Some m"
| "entry_merchant (SubscriptionPage m _) = Some m"
| "entry_merchant (Checkout m _ _ _) = Some m"
| "entry_merchant (CancelRequest m _) = Some m"
| "entry_merchant (CancelReplacement m _) = Some m"
| "entry_merchant (ReserveUnit m) = Some m"
| "entry_merchant (SyncTask m) = Some m"
| "entry_merchant (MaintainTask m) = Some m"
| "entry_merchant (DunningTask m) = Some m"
| "entry_merchant Sweep = None"
| "entry_merchant (Webhook _ _) = None"

text \<open>A thread before it does anything: no transaction, no context.\<close>

definition starts :: "billing_world \<Rightarrow> bool" where
  "starts w \<longleftrightarrow> saves w = [] \<and> ctx w = no_vars \<and> guc w = no_vars \<and> pending w = [] \<and> \<not> row_locked w"

text \<open>\<open>serves A d d'\<close>: from database \<open>d\<close>, threads whose entries satisfy \<open>A\<close> lead to \<open>d'\<close>; what commits
  while a thread runs is a history of the same kind.\<close>

inductive serves :: "(billing_entry \<Rightarrow> bool) \<Rightarrow> bdb \<Rightarrow> bdb \<Rightarrow> bool" for A where
  serves_none: "serves A d d"
| serves_step: "serves A d (db w) \<Longrightarrow> starts w \<Longrightarrow> A entry \<Longrightarrow> (\<And>n x. serves A x (env w n x)) \<Longrightarrow>
    run_entry entry w = (r, w') \<Longrightarrow> serves A d (db w')"

text \<open>One thread alone.\<close>

lemma serves_alone:
  assumes "starts w" "quiet w" "A entry" "run_entry entry w = (r, w')"
  shows "serves A (db w) (db w')"
  using assms(2) by (intro serves_step [where w = w and A = A, OF serves_none assms(1,3) _ assms(4)])
    (simp add: quiet_def serves_none)

subsection \<open>Frames of the entries\<close>

context billing_frame
begin

text \<open>The sweep only reads, whatever the merchant.\<close>

lemma frames_sweep: "frames R (\<lambda>_. True) run_billing_maintenance"
  unfolding run_billing_maintenance_def check_merchant_def enqueue_maintenance_def
  by (intro frame_intros frames_tenant_context [where G' = "\<lambda>_. True"]) (auto intro: frame_intros)

lemma frames_merchant_entry:
  assumes "entry_merchant entry = Some m" "\<And>c. G (c\<lparr>merchant_var := Some m\<rparr>)"
  shows "frames R (\<lambda>_. True) (run_entry entry)"
  using assms
  by (cases entry)
    (simp_all add: run_entry_def sync_subscription_task_def maintain_subscription_def advance_subscription_dunning_def
      tenant_task_def, (intro frame_intros frames_tenant_middleware frames_entry; simp add: assms)+)

lemma frames_all_entries:
  assumes "\<And>c. G c"
  shows "frames R (\<lambda>_. True) (run_entry entry)"
proof (cases "entry_merchant entry")
  case (Some m)
  then show ?thesis by (rule frames_merchant_entry) (rule assms)
next
  case None
  have "frames R (\<lambda>_. True) (bindM (webhook_post loads req) (\<lambda>_. ret ()))" for loads req
    by (intro frame_intros frames_webhook_post assms)
  with frames_sweep show ?thesis using None by (cases entry) (simp_all add: run_entry_def)
qed

lemma serves_respects:
  assumes "serves A d d'" "\<And>entry. A entry \<Longrightarrow> frames R (\<lambda>_. True) (run_entry entry)"
  shows "R d d'"
  using assms(1)
proof (induction rule: serves.induct)
  case (serves_none d)
  show ?case by (rule R_refl)
next
  case (serves_step d w entry r w')
  have "rely R w" using serves_step.IH(2) by (simp add: rely_def)
  from framesD(3) [OF assms(2) [OF serves_step.hyps(3)] _ this serves_step.hyps(5)] serves_step.IH(1)
  show ?case by (blast intro: R_trans)
qed

end

end
