(* ===== verification/SnapshotProps.thy ===== *)
theory SnapshotProps
  imports SnapshotSpec BillingQuota
begin

text \<open>
  The properties of reconciliation: the paid-period proof, the refinement of \<open>_apply_snapshot\<close> and
  what follows from it for status, entitlement, quota records, staleness and errors.
\<close>

subsection \<open>The paid-period proof\<close>

text \<open>
  \<open>current_period_paid\<close> answers an invoice exactly when some invoice of the list proves the current
  period paid: it names this subscription, is \<open>paid\<close> with nothing due, carries a payment id, and its
  billing window contains the start of the period; the answer is the first such invoice.
\<close>

theorem current_period_paid_spec:
  "(current_period_paid entity invoices = Some i) =
   (\<exists>xs ys zs ref start. is_dict entity \<and> jget ''id'' entity = JStr ref \<and> jget ''current_start'' entity = JInt start \<and>
      invoices = Some xs \<and> xs = ys @ i # zs \<and> (\<forall>y\<in>set ys. \<not> invoice_pays ref start y) \<and>
      is_dict i \<and> jget ''subscription_id'' i = JStr ref \<and> jget ''status'' i = JStr ''paid'' \<and> jget ''amount_due'' i = JInt 0 \<and>
      (\<exists>p. p \<noteq> [] \<and> jget ''payment_id'' i = JStr p) \<and>
      (\<exists>a b. jget ''billing_start'' i = JInt a \<and> jget ''billing_end'' i = JInt b \<and> a \<le> start \<and> start < b))"
proof -
  have find: "first P xs = Some i \<longleftrightarrow> (\<exists>ys zs. xs = ys @ i # zs \<and> (\<forall>y\<in>set ys. \<not> P y) \<and> P i)" for P and xs :: "json list"
  proof (induction xs)
    case (Cons x xs)
    show ?case
    proof (cases "P x")
      case True
      then show ?thesis by (auto simp: Cons_eq_append_conv)
    next
      case False
      then show ?thesis using Cons by (auto simp: Cons_eq_append_conv) (metis set_ConsD)
    qed
  qed simp
  have pays: "invoice_pays ref start i \<longleftrightarrow> is_dict i \<and> jget ''subscription_id'' i = JStr ref \<and> jget ''status'' i = JStr ''paid'' \<and>
      jget ''amount_due'' i = JInt 0 \<and> (\<exists>p. p \<noteq> [] \<and> jget ''payment_id'' i = JStr p) \<and>
      (\<exists>a b. jget ''billing_start'' i = JInt a \<and> jget ''billing_end'' i = JInt b \<and> a \<le> start \<and> start < b)" for ref start
    by (auto simp: invoice_pays_def split: option.splits)
  show ?thesis
    unfolding current_period_paid_def
    by (auto simp: find pays split: option.split if_splits)
qed

text \<open>An unpaid invoice is passed over.\<close>

theorem current_period_paid_spec_witness:
  "current_period_paid (provider_entity ''active'') (Some [JObj [(''status'', JStr ''issued'')], paid_invoice]) = Some paid_invoice"
proof -
  have "\<not> invoice_pays ''sub_1'' 2000 (JObj [(''status'', JStr ''issued'')])" by code_simp
  then show ?thesis
    unfolding current_period_paid_spec
    by (intro exI [of _ "[JObj [(''status'', JStr ''issued'')], paid_invoice]"] exI [of _ "[JObj [(''status'', JStr ''issued'')]]"]
        exI [of _ "[]"] exI [of _ "''sub_1''"] exI [of _ "2000::int"])
      (simp add: provider_entity_def paid_invoice_def)
qed

subsection \<open>Refinement\<close>

lemma snapshot_implements:
  assumes "in_tx m w" "row_ok m (db w) r" "s_merchant s0 = m" "s_id s0 = s_id r"
    and "apply_snapshot s0 entity invoices fetch_started_at actor w = (Inr res, w')"
  shows "snapshot_outcome m entity invoices fetch_started_at (clock w (ticks w)) r (db w) res (db w')"
  using wp_InrD [OF wp_apply_snapshot [OF assms(1-4)] assms(5)] by blast



text \<open>
  If \<open>_apply_snapshot\<close> ends in an exception, the database is what it was before the call, and the
  exception is one of: an actor who is no member, an over-long payment id, a malformed replacement
  reference, or a reference another merchant's row already holds. In particular the row it saves
  never violates a check constraint.
\<close>

theorem apply_snapshot_error_rolls_back:
  assumes "in_tx m w" "row_ok m (db w) r" "s_merchant s0 = m" "s_id s0 = s_id r"
    and "apply_snapshot s0 entity invoices fetch_started_at actor w = (Inl e, w')"
  shows "db w' = db w \<and> (e = ActorNotMember \<or> e = DataErr \<or> e = ValueErr \<or> (\<exists>c. e = UniqueViolation c))"
proof -
  have f: "frames (\<lambda>_ _. True) (\<lambda>_. True) (bindM (lock_subscription (s_id s0)) (apply_locked entity invoices fetch_started_at actor))"
    by (intro stack.frames_bind stack.frames_lock_subscription stack.frames_apply_locked)
  have "tenant_atomic False (bindM (lock_subscription (s_id s0)) (apply_locked entity invoices fetch_started_at actor)) w = (Inl e, w')"
    using assms(5) in_txD(1) [OF assms(1)] assms(3)
    by (simp add: apply_snapshot_def run_bind merchant_id_or_raise_def get_current_merchant_id_def)
  from stack.tenant_atomic_rollback [OF f TrueI in_txD(4) [OF assms(1)] this]
  have "db w' = db w" .
  moreover have "snapshot_failure e \<or> (\<exists>c. e = UniqueViolation c)"
    by (rule wp_InlD [OF wp_apply_snapshot [OF assms(1-4)] assms(5)])
  ultimately show ?thesis by (auto simp: snapshot_failure_def)
qed

lemma outcome_row:
  assumes "snapshot_outcome m entity invoices fs t r d res d'" "row_ok m d r"
  shows "\<exists>r'. subs d' = (subs d)(m \<mapsto> r') \<and>
    (r' = r \<and> d' = d \<and> usable_snapshot entity fs d r = None \<and> res = result False False \<or>
     (\<exists>plan st ar s' u. usable_snapshot entity fs d r = Some (plan, st) \<and> snapshot_refines st entity invoices plan t r ar s' \<and>
        res = result (a_changed ar) (a_settled ar) \<and> applied_snapshot m st fs d ar s' d' \<and>
        r' = s'\<lparr>s_provider_status := Some (take 16 st), s_provider_synced_at := Some fs, s_updated_at := u\<rparr>))"
proof (cases "usable_snapshot entity fs d r")
  case None
  with assms have "d' = d" "res = result False False" by (simp_all add: snapshot_outcome_def)
  with None assms(2) show ?thesis by (intro exI [of _ r]) (auto simp: row_ok_def fun_upd_idem)
next
  case (Some ps)
  obtain plan st where ps: "ps = (plan, st)" by fastforce
  from assms(1) Some ps obtain ar s' where o: "res = result (a_changed ar) (a_settled ar)"
    "snapshot_refines st entity invoices plan t r ar s'" "applied_snapshot m st fs d ar s' d'"
    by (auto simp: snapshot_outcome_def)
  then obtain u where "subs d' = (subs d)(m \<mapsto> s'\<lparr>s_provider_status := Some (take 16 st), s_provider_synced_at := Some fs, s_updated_at := u\<rparr>)"
    by (auto simp: applied_snapshot_def)
  with o Some ps show ?thesis by blast
qed

lemma retired_fields [simp]:
  "s_status (retired target s) = s_status s" "s_period_start (retired target s) = s_period_start s"
  "s_period_end (retired target s) = s_period_end s" "s_plan (retired target s) = s_plan s"
  "s_payment_ref (retired target s) = s_payment_ref s" "s_past_due_at (retired target s) = s_past_due_at s"
  "s_id (retired target s) = s_id s" "s_merchant (retired target s) = s_merchant s"
  "s_provider_synced_at (retired target s) = s_provider_synced_at s"
  by (simp_all add: retired_def)

lemma refines_fields:
  assumes "snapshot_refines st entity invoices plan t s ar s'"
  shows "s_status s' = s_status (snd (snapshot_next st entity invoices plan t s))"
    "s_period_start s' = s_period_start (snd (snapshot_next st entity invoices plan t s))"
    "s_period_end s' = s_period_end (snd (snapshot_next st entity invoices plan t s))"
    "s_plan s' = s_plan (snd (snapshot_next st entity invoices plan t s))"
    "s_payment_ref s' = s_payment_ref (snd (snapshot_next st entity invoices plan t s))"
  using assms by (auto simp: snapshot_refines_def after_abandon_def)

text \<open>The transitions the reconciliation allows.\<close>

definition allowed_transition :: "sub_status \<Rightarrow> sub_status \<Rightarrow> bool" where
  "allowed_transition old new \<longleftrightarrow> old = new \<or> new = Active \<or>
     old = Active \<and> new \<in> {PastDue, Cancelled} \<or> old = PastDue \<and> new \<in> {Cancelled, Expired}"

lemma allowed_simps [simp]:
  "allowed_transition st st" "allowed_transition st Active" "allowed_transition Active PastDue"
  "allowed_transition Active Cancelled" "allowed_transition PastDue Cancelled" "allowed_transition PastDue Expired"
  by (simp_all add: allowed_transition_def)

definition same_identity :: "subscription \<Rightarrow> subscription \<Rightarrow> bool" where
  "same_identity s s' \<longleftrightarrow> s_id s' = s_id s \<and> s_merchant s' = s_merchant s \<and> s_payment_ref s' = s_payment_ref s \<and>
     allowed_transition (s_status s) (s_status s')"

lemma next_identity:
  "same_identity s (snd (active_next entity invoices plan s))"
  "same_identity s (snd (failed_next t s))" "same_identity s (snd (terminal_next t s))" "same_identity s s"
  by (simp_all add: same_identity_def active_next_def activated_def with_plan_def failed_next_def terminal_next_def split: option.split)

lemma snapshot_next_identity: "same_identity s (snd (snapshot_next st entity invoices plan t s))"
  by (simp add: snapshot_next_def next_identity)

lemma refines_identity: "snapshot_refines st entity invoices plan t s ar s' \<Longrightarrow> same_identity s s'"
  using snapshot_next_identity [of s st entity invoices plan t]
  by (auto simp: snapshot_refines_def after_abandon_def same_identity_def)

text \<open>
  C4: The row \<open>_apply_snapshot\<close> leaves satisfies every check constraint, keeps its identity and payment
  reference, and its status moved only along the lifecycle: to \<open>ACTIVE\<close>, from \<open>ACTIVE\<close> to \<open>PAST_DUE\<close> or
  \<open>CANCELLED\<close>, from \<open>PAST_DUE\<close> to \<open>CANCELLED\<close> or \<open>EXPIRED\<close>; nothing returns to \<open>INCOMPLETE\<close>. Rows of
  other merchants are untouched.
\<close>

theorem snapshot_lifecycle:
  assumes "in_tx m w" "row_ok m (db w) r" "s_merchant s0 = m" "s_id s0 = s_id r"
    and "apply_snapshot s0 entity invoices fetch_started_at actor w = (Inr res, w')"
  shows "\<exists>r'. subs (db w') = (subs (db w))(m \<mapsto> r') \<and> sub_checks r' \<and> s_id r' = s_id r \<and> s_merchant r' = m \<and>
     s_payment_ref r' = s_payment_ref r \<and> allowed_transition (s_status r) (s_status r')"
proof -
  from outcome_row [OF snapshot_implements [OF assms] assms(2)]
  obtain r' where r': "subs (db w') = (subs (db w))(m \<mapsto> r')"
    and c: "r' = r \<or> (\<exists>plan st ar s' u. snapshot_refines st entity invoices plan (clock w (ticks w)) r ar s' \<and>
        r' = s'\<lparr>s_provider_status := Some (take 16 st), s_provider_synced_at := Some fetch_started_at, s_updated_at := u\<rparr>)"
    by blast
  have row: "s_merchant r = m" "sub_checks r" using assms(2) by (auto simp: row_ok_def)
  from c show ?thesis
  proof (elim disjE exE conjE)
    assume "r' = r"
    with r' row show ?thesis by (intro exI [of _ r]) simp
  next
    fix plan st ar s' u
    assume sr: "snapshot_refines st entity invoices plan (clock w (ticks w)) r ar s'"
      and e: "r' = s'\<lparr>s_provider_status := Some (take 16 st), s_provider_synced_at := Some fetch_started_at, s_updated_at := u\<rparr>"
    have nx: "same_identity r s'" using sr by (rule refines_identity)
    have "sub_checks r'" using snapshot_refines_checks [OF sr row(2)] by (simp add: e sub_checks_def)
    with nx r' row e show ?thesis by (intro exI [of _ r']) (simp add: same_identity_def)
  qed
qed

text \<open>A world in which the sample row can be reconciled.\<close>

lemma sample_row_ok [simp]:
  "row_ok ''m1'' (sample_db (Some active_sub)) active_sub"
  "row_ok ''m1'' (sample_db (Some incomplete_sub)) incomplete_sub"
  "row_ok ''m1'' (sample_db (Some past_due_sub)) past_due_sub"
  by (simp_all add: row_ok_def checks_defs fk_ok_def plan_by_id_def sample_defs)

lemma sample_sub_fields [simp]:
  "s_merchant active_sub = ''m1''" "s_merchant incomplete_sub = ''m1''" "s_merchant past_due_sub = ''m1''"
  by (simp_all add: sample_defs)

lemma pair_Inr: "\<not> isl (fst x) \<Longrightarrow> x = (Inr (projr (fst x)), snd x)"
  by (metis prod.collapse sum.collapse(2))

lemma pair_Inl: "isl (fst x) \<Longrightarrow> x = (Inl (projl (fst x)), snd x)"
  by (metis prod.collapse sum.collapse(1))

definition paid_run :: "(berror + snapshot_result) \<times> billing_world" where
  "paid_run = apply_snapshot incomplete_sub (provider_entity ''active'') (Some [paid_invoice]) (seconds 2500) None
     (tx_world (sample_db (Some incomplete_sub)))"

lemma paid_run_eq: "paid_run = (Inr (projr (fst paid_run)), snd paid_run)"
  by (rule pair_Inr) code_simp


theorem snapshot_lifecycle_witness:
  "\<exists>r'. subs (db (snd paid_run)) ''m1'' = Some r' \<and> sub_checks r' \<and> allowed_transition Incomplete (s_status r')"
proof -
  have "s_status incomplete_sub = Incomplete" by (simp add: sample_defs)
  with snapshot_lifecycle [OF in_tx_world _ _ _ paid_run_eq [unfolded paid_run_def], of incomplete_sub]
  show ?thesis by (auto simp: paid_run_def)
qed

definition failing_run :: "(berror + snapshot_result) \<times> billing_world" where
  "failing_run = apply_snapshot active_sub (JObj [(''id'', JStr ''sub_1''), (''plan_id'', JStr ''plan_B''), (''status'', JStr ''active''),
       (''current_start'', JInt 1000), (''current_end'', JInt 2000)]) None (seconds 2500) (Some ''stranger'')
     (tx_world (sample_db (Some active_sub)))"

lemma failing_run_eq: "failing_run = (Inl (projl (fst failing_run)), snd failing_run)"
  by (rule pair_Inl) code_simp

theorem apply_snapshot_error_rolls_back_witness:
  "db (snd failing_run) = sample_db (Some active_sub)"
  using apply_snapshot_error_rolls_back [OF in_tx_world _ _ _ failing_run_eq [unfolded failing_run_def], of active_sub]
  by (simp add: failing_run_def)

subsection \<open>Entitlement\<close>

text \<open>
  C5: After \<open>_apply_snapshot\<close> a row is \<open>ACTIVE\<close> with another period than before, or \<open>ACTIVE\<close> where it was
  not, only if the provider said \<open>active\<close> for this very subscription, an invoice proves that period
  paid, the row took exactly the provider's period, and the usage record of that period exists.
\<close>

theorem entitlement_needs_payment:
  assumes "in_tx m w" "row_ok m (db w) r" "s_merchant s0 = m" "s_id s0 = s_id r"
    and "apply_snapshot s0 entity invoices fetch_started_at actor w = (Inr res, w')"
    and "subs (db w') m = Some r'" "s_status r' = Active"
    and "s_status r \<noteq> Active \<or> s_period_start r' \<noteq> s_period_start r \<or> s_period_end r' \<noteq> s_period_end r"
  shows "jget ''status'' entity = JStr ''active'' \<and> same_text (s_payment_ref r) (jget ''id'' entity) \<and>
    current_period_paid entity invoices \<noteq> None \<and>
    (\<exists>a b. from_unix (jget ''current_start'' entity) = Some a \<and> from_unix (jget ''current_end'' entity) = Some b \<and> a < b \<and>
       s_period_start r' = Some a \<and> s_period_end r' = Some b \<and> usage_of (db w') m a b \<noteq> None)"
proof -
  have ne: "r' \<noteq> r" using assms(7,8) by auto
  from outcome_row [OF snapshot_implements [OF assms(1-5)] assms(2)] ne assms(2,6)
  obtain plan st ar s' u where us: "usable_snapshot entity fetch_started_at (db w) r = Some (plan, st)"
    and sr: "snapshot_refines st entity invoices plan (clock w (ticks w)) r ar s'"
    and ap: "applied_snapshot m st fetch_started_at (db w) ar s' (db w')"
    and e: "r' = s'\<lparr>s_provider_status := Some (take 16 st), s_provider_synced_at := Some fetch_started_at, s_updated_at := u\<rparr>"
    by (auto simp: row_ok_def)
  let ?nx = "snapshot_next st entity invoices plan (clock w (ticks w)) r"
  have ent: "jget ''status'' entity = JStr st" "same_text (s_payment_ref r) (jget ''id'' entity)"
    using us by (auto simp: usable_snapshot_def Let_def split: if_splits option.splits)
  have f: "s_status (snd ?nx) = Active" "s_period_start (snd ?nx) = s_period_start r'" "s_period_end (snd ?nx) = s_period_end r'"
    using refines_fields [OF sr] assms(7) by (simp_all add: e)
  have "a_advanced (fst ?nx)"
    using f assms(8)
    by (auto simp: snapshot_next_def active_next_def failed_next_def terminal_next_def with_plan_def split: if_splits option.splits)
  from snapshot_next_advanced [OF this] obtain a b where ab: "st = ''active''" "a < b"
    "from_unix (jget ''current_start'' entity) = Some a" "from_unix (jget ''current_end'' entity) = Some b"
    "current_period_paid entity invoices \<noteq> None" "snd ?nx = activated (p_id plan) a b r" by blast
  have p: "s_period_start r' = Some a" "s_period_end r' = Some b" using f ab(6) by (simp_all add: activated_def)
  have "usage_records (db w') = usage_records (ensure_usage m a b (db w))"
    using ap \<open>a_advanced (fst ?nx)\<close> sr p e by (simp add: applied_snapshot_def snapshot_refines_def)
  then have "usage_of (db w') m a b \<noteq> None" using usage_of_cong usage_of_ensure by (metis option.distinct(1))
  with ent ab p show ?thesis by blast
qed

theorem entitlement_needs_payment_witness:
  "current_period_paid (provider_entity ''active'') (Some [paid_invoice]) \<noteq> None \<and>
   (\<exists>r'. subs (db (snd paid_run)) ''m1'' = Some r' \<and> s_status r' = Active \<and> s_period_start r' = Some (seconds 2000))"
proof -
  have row: "\<exists>r'. subs (db (snd paid_run)) ''m1'' = Some r' \<and> s_status r' = Active"
  proof -
    have "map_option s_status (subs (db (snd paid_run)) ''m1'') = Some Active" by code_simp
    then show ?thesis by auto
  qed
  then obtain r' where r': "subs (db (snd paid_run)) ''m1'' = Some r'" "s_status r' = Active" by blast
  have i: "s_status incomplete_sub \<noteq> Active" by (simp add: sample_defs)
  have st: "from_unix (jget ''current_start'' (provider_entity ''active'')) = Some (seconds 2000)" by code_simp
  from entitlement_needs_payment [OF in_tx_world _ _ _ paid_run_eq [unfolded paid_run_def], of incomplete_sub r'] r' i st
  show ?thesis by (auto simp: paid_run_def)
qed

subsection \<open>Order and repetition\<close>

lemma first_found: "x \<in> set xs \<Longrightarrow> P x \<Longrightarrow> first P xs \<noteq> None"
  by (auto simp: first_None)

lemma plan_by_provider_id_known: "plan_by_provider_id d i = Some p \<Longrightarrow> plan_by_id d (p_id p) \<noteq> None"
  unfolding plan_by_provider_id_def plan_by_id_def by (drule first_SomeD, elim conjE, erule first_found) simp

lemma usable_snapshot_plan: "usable_snapshot entity fs d r = Some (plan, st) \<Longrightarrow> plan_by_id d (p_id plan) \<noteq> None"
  by (auto simp: usable_snapshot_def Let_def split: if_splits option.splits dest: plan_by_provider_id_known)

lemma active_next_fk: "fk_ok d s \<Longrightarrow> plan_by_id d (p_id plan) \<noteq> None \<Longrightarrow> fk_ok d (snd (active_next entity invoices plan s))"
  by (simp add: fk_ok_def active_next_def activated_def with_plan_def split: option.split)

lemma next_fk:
  "fk_ok d s \<Longrightarrow> plan_by_id d (p_id plan) \<noteq> None \<Longrightarrow> fk_ok d (snd (snapshot_next st entity invoices plan t s))"
  by (simp add: snapshot_next_def active_next_fk snapshot_next_fk)

lemma refines_fk:
  assumes "snapshot_refines st entity invoices plan t s ar s'" "fk_ok d s" "plan_by_id d (p_id plan) \<noteq> None"
  shows "fk_ok d s'"
  using assms(1) next_fk [OF assms(2,3), of st entity invoices t]
  by (auto simp: snapshot_refines_def after_abandon_def fk_ok_def retired_def)

lemma outcome_row_ok:
  assumes "snapshot_outcome m entity invoices fs t r d res d'" "row_ok m d r" "usable_snapshot entity fs d r \<noteq> None"
  shows "\<exists>r'. row_ok m d' r' \<and> s_id r' = s_id r \<and> s_provider_synced_at r' = Some fs"
proof -
  from outcome_row [OF assms(1,2)] assms(3)
  obtain r' plan st ar s' u where o: "subs d' = (subs d)(m \<mapsto> r')" "usable_snapshot entity fs d r = Some (plan, st)"
    "snapshot_refines st entity invoices plan t r ar s'" "applied_snapshot m st fs d ar s' d'"
    "r' = s'\<lparr>s_provider_status := Some (take 16 st), s_provider_synced_at := Some fs, s_updated_at := u\<rparr>" by auto
  have r: "s_merchant r = m" "sub_checks r" "fk_ok d r" using assms(2) by (auto simp: row_ok_def)
  have "fk_ok d s'" using refines_fk [OF o(3) r(3) usable_snapshot_plan [OF o(2)]] .
  moreover have "sub_checks s'" using snapshot_refines_checks [OF o(3) r(2)] .
  moreover have "same_identity r s'" using refines_identity [OF o(3)] .
  moreover have "plan_by_id d' = plan_by_id d" using o(4) by (intro plan_by_id_cong) (simp add: applied_snapshot_def)
  moreover have "fk_ok d' r' = fk_ok d' s'" by (simp add: o(5) fk_ok_def)
  ultimately show ?thesis
    using o(1,5) r(1) fk_ok_cong [of d' d s'] by (intro exI [of _ r']) (simp add: row_ok_def sub_checks_def same_identity_def)
qed

text \<open>
  A snapshot is applied at most once and never after a newer one: when a usable snapshot has been
  applied, applying it again, or any snapshot whose fetch did not start later, changes nothing and
  reports neither a change nor a settled sync.
\<close>

theorem stale_snapshot_ignored:
  assumes "in_tx m w" "row_ok m (db w) r" "s_merchant s0 = m" "s_id s0 = s_id r"
    and "apply_snapshot s0 entity invoices fetch_started_at actor w = (Inr res, w')"
    and "usable_snapshot entity fetch_started_at (db w) r \<noteq> None"
    and "fetched2 \<le> fetch_started_at" "apply_snapshot s0 entity2 invoices2 fetched2 actor2 w' = (x, w'')"
  shows "x = Inr (result False False) \<and> db w'' = db w'"
proof -
  have tx': "in_tx m w'" using wp_InrD [OF wp_apply_snapshot [OF assms(1-4)] assms(5)] by blast
  from outcome_row_ok [OF snapshot_implements [OF assms(1-5)] assms(2,6)]
  obtain r' where r': "row_ok m (db w') r'" "s_id r' = s_id r" "s_provider_synced_at r' = Some fetch_started_at" by blast
  have u: "usable_snapshot entity2 fetched2 (db w') r' = None"
    using r'(3) assms(7) by (simp add: usable_snapshot_def Let_def)
  have "wp (apply_locked entity2 invoices2 fetched2 actor2 r') (\<lambda>res w2. res = result False False \<and> db w2 = db w1 \<and> saves w2 = saves w1)
     (\<lambda>_ _. False) w1" for w1
    using r'(3) assms(7) by (simp add: apply_locked_def wp_bind [of now] wp_now wp_ret Let_def)
  note inert = this
  let ?w0 = "w'\<lparr>saves := db w' # saves w'\<rparr>"
  have tx0: "in_tx m ?w0" using tx' by (simp add: in_tx_def quiet_def)
  have row0: "subs (db ?w0) m = Some r'" using r'(1) by (simp add: row_ok_def)
  have "wp (apply_snapshot s0 entity2 invoices2 fetched2 actor2) (\<lambda>res w2. res = result False False \<and> db w2 = db w') (\<lambda>_ _. False) w'"
    unfolding apply_snapshot_def
    using in_txD [OF tx'] assms(3,4) r'(2)
    by (simp add: wp_bind [of merchant_id_or_raise] wp_merchant_id_or_raise wp_tenant_atomic_tx [OF tx'])
      (rule wp_bind_spec [OF wp_lock_subscription [OF tx0 row0 r'(2)]], elim conjE, simp, rule wp_conseq [OF inert], simp_all)
  with assms(8) show ?thesis by (auto simp: wp_def split: sum.splits)
qed

theorem stale_snapshot_ignored_witness:
  "fst (apply_snapshot incomplete_sub (provider_entity ''cancelled'') None (seconds 2500) None (snd paid_run)) = Inr (result False False)"
proof -
  let ?w = "tx_world (sample_db (Some incomplete_sub))"
  have u: "usable_snapshot (provider_entity ''active'') (seconds 2500) (db ?w) incomplete_sub \<noteq> None" by code_simp
  obtain x w'' where x: "apply_snapshot incomplete_sub (provider_entity ''cancelled'') None (seconds 2500) None (snd paid_run) = (x, w'')"
    by fastforce
  from stale_snapshot_ignored [OF in_tx_world _ _ _ paid_run_eq [unfolded paid_run_def] u, of "seconds 2500"
      "provider_entity ''cancelled''" None None x w''] x
  show ?thesis by (simp add: paid_run_def)
qed

text \<open>
  While a committed downgrade replacement stands on an \<open>ACTIVE\<close> row, a terminal status of the old
  subscription does not end the row: only provider status and fetch time are recorded, the sync
  counts as settled, and nothing else of the row changes.
\<close>

theorem committed_downgrade_defers_terminal:
  assumes "in_tx m w" "row_ok m (db w) r" "s_merchant s0 = m" "s_id s0 = s_id r"
    and "apply_snapshot s0 entity invoices fetch_started_at actor w = (Inr res, w')"
    and "usable_snapshot entity fetch_started_at (db w) r = Some (plan, st)" "st \<in> set TERMINAL_PROVIDER_STATUSES"
    and "committed_downgrade_replacement r"
  shows "res = result False True \<and> (\<exists>u. subs (db w') m = Some (r\<lparr>s_provider_status := Some (take 16 st),
     s_provider_synced_at := Some fetch_started_at, s_updated_at := u\<rparr>))"
proof -
  from outcome_row [OF snapshot_implements [OF assms(1-5)] assms(2)] assms(6)
  obtain r' ar s' u where o: "subs (db w') = (subs (db w))(m \<mapsto> r')" "res = result (a_changed ar) (a_settled ar)"
    "snapshot_refines st entity invoices plan (clock w (ticks w)) r ar s'"
    "r' = s'\<lparr>s_provider_status := Some (take 16 st), s_provider_synced_at := Some fetch_started_at, s_updated_at := u\<rparr>" by auto
  have "snapshot_next st entity invoices plan (clock w (ticks w)) r = (kept False, r)"
    using assms(7,8) by (auto simp: snapshot_next_def terminal_next_def TERMINAL_PROVIDER_STATUSES_def)
  with o(3) have "ar = kept False" "s' = r" by (auto simp: snapshot_refines_def kept_def)
  with o show ?thesis by (auto simp: kept_def)
qed

definition committed_sub :: subscription where
  "committed_sub = active_sub\<lparr>s_replacement_ref := Some ''sub_2'', s_replacement_expires_at := Some (seconds 1900),
     s_replacement_plan := Some ''p2'', s_replacement_committed_at := Some (seconds 1500)\<rparr>"

definition deferred_run :: "(berror + snapshot_result) \<times> billing_world" where
  "deferred_run = apply_snapshot committed_sub (provider_entity ''cancelled'') None (seconds 2500) None
     (tx_world (sample_db (Some committed_sub)))"

lemma deferred_run_eq: "deferred_run = (Inr (projr (fst deferred_run)), snd deferred_run)"
  by (rule pair_Inr) code_simp

theorem committed_downgrade_defers_terminal_witness:
  "\<exists>r'. subs (db (snd deferred_run)) ''m1'' = Some r' \<and> s_status r' = Active"
proof -
  let ?w = "tx_world (sample_db (Some committed_sub))"
  have row: "row_ok ''m1'' (db ?w) committed_sub"
    by (simp add: row_ok_def checks_defs fk_ok_def plan_by_id_def committed_sub_def sample_defs)
  have u: "usable_snapshot (provider_entity ''cancelled'') (seconds 2500) (db ?w) committed_sub = Some (basic_plan, ''cancelled'')"
    by (simp add: usable_snapshot_def plan_by_provider_id_def provider_entity_def committed_sub_def sample_defs)
  have c: "committed_downgrade_replacement committed_sub" "s_merchant committed_sub = ''m1''" "s_status committed_sub = Active"
    by (simp_all add: committed_downgrade_replacement_def committed_sub_def sample_defs)
  from committed_downgrade_defers_terminal [OF in_tx_world row c(2) refl deferred_run_eq [unfolded deferred_run_def] u _ c(1)] c(3)
  show ?thesis by (auto simp: deferred_run_def TERMINAL_PROVIDER_STATUSES_def)
qed

end
