(* ===== verification/Scopes.thy ===== *)
theory Scopes
  imports Frames
begin

text \<open>
  Weakest preconditions of the context managers of \<open>core/tenancy.py\<close>: context variables, durable
  transactions and the lookup scopes, and the evaluation of nested transactions.
\<close>

lemma wp_with_var [wp_simps]:
  "wp (with_var rd up v m) Q E w = wp m (\<lambda>a w'. Q a (w'\<lparr>ctx := up (\<lambda>_. rd (ctx w)) (ctx w')\<rparr>))
     (\<lambda>e w'. E e (w'\<lparr>ctx := up (\<lambda>_. rd (ctx w)) (ctx w')\<rparr>)) (w\<lparr>ctx := up (\<lambda>_. Some v) (ctx w)\<rparr>)"
  by (simp add: wp_def with_var_def split: prod.splits sum.splits)

lemma wp_durable_atomic [wp_simps]:
  "wp (durable_atomic m) Q E w = (if saves w = [] then wp (atomic m) Q E w else E RuntimeErr w)"
  by (simp add: wp_def durable_atomic_def)

lemma wp_set_local [wp_simps]: "wp (set_local up v) Q E w = Q () (w\<lparr>guc := up (\<lambda>_. Some v) (guc w)\<rparr>)"
  by (simp add: set_local_def wp_simps)

lemma wp_lookup_atomic [wp_simps]:
  "wp (lookup_atomic rd up valid v m) Q E w = (if merchant_var (ctx w) \<noteq> None then E TenantContextError w
     else if \<not> valid v then E ValueErr w
     else wp (with_var rd up v (durable_atomic (seqM (set_local up v) m))) Q E w)"
  by (simp add: wp_def lookup_atomic_def)

lemma wp_tenant_context:
  "merchant_var (ctx w) = None \<Longrightarrow> wp (tenant_context (Some mid) m) Q E w = wp (with_var merchant_var merchant_var_update mid m) Q E w"
  by (simp add: wp_def tenant_context_def)

subsection \<open>Evaluation inside a transaction\<close>

lemma tick_world [simp]:
  "db (tick w) = db w" "saves (tick w) = saves w" "ctx (tick w) = ctx w" "guc (tick w) = guc w"
  "clock (tick w) = clock w" "env (tick w) = env w" "row_locked (tick w) = row_locked w"
  "pending (tick w) = pending w" "queue (tick w) = queue w" "ticks (tick w) = Suc (ticks w)"
  by (simp_all add: tick_def)

lemma run_now: "now w = (Inr (clock w (ticks w)), tick w)"
  by (simp add: now_def)

lemma run_merchant: "in_tx m w \<Longrightarrow> get_current_merchant_id w = (Inr (Some m), w)"
  by (simp add: get_current_merchant_id_def in_tx_def)

text \<open>A nested tenant transaction that succeeds or fails.\<close>

lemma run_nested:
  assumes "in_tx m w"
  shows "tenant_atomic False p w = (case p (w\<lparr>saves := db w # saves w\<rparr>) of
     (Inr a, w') \<Rightarrow> (Inr a, w'\<lparr>saves := tl (saves w')\<rparr>) | (Inl e, w') \<Rightarrow> (Inl e, rollback_block w w'))"
proof -
  have g: "merchant_var (ctx w) = Some m" "merchant_var (guc w) = Some m" "saves w \<noteq> []"
    using assms by (simp_all add: in_tx_def)
  have b: "begin_block w = w\<lparr>saves := db w # saves w\<rparr>" using g by (simp add: begin_block_def)
  have nop: "w\<lparr>saves := x, guc := guc w\<lparr>merchant_var := Some m\<rparr>\<rparr> = w\<lparr>saves := x\<rparr>" for x
    using guc_same [of "w\<lparr>saves := x\<rparr>" m] g by simp
  show ?thesis
    using g by (simp add: tenant_atomic_def atomic_def run_seq set_local_def b nop commit_block_def split: prod.split sum.split)
qed

lemma run_savepoint:
  assumes "in_tx m w"
  shows "atomic p w = (case p (w\<lparr>saves := db w # saves w\<rparr>) of
     (Inr a, w') \<Rightarrow> (Inr a, w'\<lparr>saves := tl (saves w')\<rparr>) | (Inl e, w') \<Rightarrow> (Inl e, rollback_block w w'))"
  using assms by (simp add: atomic_def begin_block_def commit_block_def in_tx_def split: prod.split sum.split)

lemma restore: "rollback_block w (w\<lparr>saves := db w # saves w, env_n := n\<rparr>) = w\<lparr>env_n := n\<rparr>" if "saves w \<noteq> []"
  using that by (simp add: rollback_block_def)

end
