(* ===== verification/WebhookProps.thy ===== *)
theory WebhookProps
  imports BillingWebhook SnapshotProps Scopes
begin

text \<open>
  The webhook receiver as one decision on configuration, request and stored rows, and what it
  writes: the theorems say who can cause an event to be stored, for which merchant, and how often.
\<close>

subsection \<open>Statements of the receiver\<close>

lemma wp_on_commit [wp_simps]:
  "wp (on_commit t) Q E w = Q () (if saves w = [] then w\<lparr>queue := queue w @ [t]\<rparr> else w\<lparr>pending := pending w @ [t]\<rparr>)"
  by (simp add: wp_def on_commit_def)

lemma wp_create_event [wp_simps]:
  "wp (create_event e) Q E w = (
     if merchant_var (ctx w) \<noteq> Some (be_merchant e) then E DatabaseErr w
     else if list_ex (\<lambda>q. be_provider q = be_provider e \<and> be_provider_event_id q = be_provider_event_id e) (billing_events (db w))
     then E (UniqueViolation ''billing_billingevent_provider_uniq'') w
     else Q () (w\<lparr>db := (db w)\<lparr>billing_events := billing_events (db w) @ [e]\<rparr>\<rparr>))"
  by (simp add: wp_def create_event_def run_seq rls_check_def)

lemma wp_insert_wait [wp_simps]: "wp insert_wait Q E w = Q () (interfere w)"
  by (simp add: insert_wait_def wp_simps)

text \<open>A thread before any transaction, with no context: how the receiver is called.\<close>

definition idle :: "billing_world \<Rightarrow> bool" where
  "idle w \<longleftrightarrow> saves w = [] \<and> ctx w = no_vars \<and> guc w = no_vars \<and> pending w = [] \<and> \<not> row_locked w \<and> quiet w"

subsection \<open>The decision\<close>

definition stored_row :: "string \<Rightarrow> bdb \<Rightarrow> subscription option" where
  "stored_row ref d = (case by_pk (filter (\<lambda>s. s_payment_ref s = Some ref \<or> s_replacement_ref s = Some ref) (sub_rows d)) of
     [] \<Rightarrow> None | s # _ \<Rightarrow> Some s)"

definition known_event :: "string \<Rightarrow> bdb \<Rightarrow> bool" where
  "known_event event_id d \<longleftrightarrow>
     list_ex (\<lambda>q. be_provider q = ''RAZORPAY'' \<and> be_provider_event_id q = event_id) (billing_events d)"

datatype webhook_decision = Reject billing_error | Ignore | Store uuid string string string

definition decide_ref :: "string \<Rightarrow> string \<Rightarrow> string \<Rightarrow> bdb \<Rightarrow> webhook_decision" where
  "decide_ref event_id ty ref d = (case stored_row ref d of
     None \<Rightarrow> Ignore
   | Some s \<Rightarrow> if known_event event_id d then Ignore else Store (s_merchant s) event_id ty ref)"

definition decide_payload :: "(string \<Rightarrow> json option) \<Rightarrow> string \<Rightarrow> string \<Rightarrow> bdb \<Rightarrow> webhook_decision" where
  "decide_payload loads body event_id d = (case loads body of
     None \<Rightarrow> Reject InvalidWebhookPayload
   | Some p \<Rightarrow> if \<not> is_dict p then Reject InvalidWebhookPayload
     else (case as_str (jget ''event'' p) of
       None \<Rightarrow> Reject InvalidWebhookPayload
     | Some ty \<Rightarrow> if \<not> (1 \<le> length ty \<and> length ty \<le> 64) then Reject InvalidWebhookPayload
         else let entity = jget ''entity'' (jget ''subscription'' (jget ''payload'' p)) in
           if \<not> is_dict entity then Ignore
           else (case valid_ref_json (jget ''id'' entity) of
             None \<Rightarrow> Ignore
           | Some ref \<Rightarrow> decide_ref event_id ty ref d)))"

definition decide :: "billing_settings \<Rightarrow> (string \<Rightarrow> json option) \<Rightarrow> webhook_request \<Rightarrow> bdb \<Rightarrow> webhook_decision" where
  "decide c loads req d = (
     if \<not> verify_webhook_signature c (wr_body req) (wr_signature req) then Reject WebhookRejected
     else case wr_event_id req of
       JStr event_id \<Rightarrow> if event_id_failure (JStr event_id) \<noteq> None then Reject WebhookRejected
         else decide_payload loads (wr_body req) event_id d
     | _ \<Rightarrow> Reject WebhookRejected)"

lemma wp_lookup_subscription:
  assumes "idle w" "is_valid_billing_ref ref"
  shows "wp (lookup_subscription ref) (\<lambda>found w'. found = stored_row ref (db w) \<and> idle w' \<and> db w' = db w \<and> queue w' = queue w \<and>
     cfg w' = cfg w \<and> clock w' = clock w \<and> ticks w' = ticks w) (\<lambda>_ _. False) w"
proof -
  have ref: "ref \<noteq> []" using assms(2) by (auto simp: is_valid_billing_ref_def)
  have sel: "(\<lambda>s. sub_selectable (no_vars\<lparr>billing_ref_var := Some ref\<rparr>) s \<and> (s_payment_ref s = Some ref \<or> s_replacement_ref s = Some ref))
      = (\<lambda>s. s_payment_ref s = Some ref \<or> s_replacement_ref s = Some ref)"
    using ref by (auto simp: fun_eq_iff sub_selectable_def ref_columns_def no_vars_def)
  have look: "wp (for_lookup_ref ref) Q E v = (if billing_ref_var (ctx v) \<noteq> Some ref then E TenantContextError v
     else Q (by_pk (filter (\<lambda>s. sub_selectable (guc v) s \<and> (s_payment_ref s = Some ref \<or> s_replacement_ref s = Some ref)) (sub_rows (db v)))) v)" for Q E v
    by (simp add: wp_def for_lookup_ref_def)
  show ?thesis
    using assms
    by (simp add: lookup_subscription_def billing_ref_lookup_atomic_def wp_simps look idle_def begin_block_def commit_block_def
        interfere_quiet sel stored_row_def quiet_def) (simp add: no_vars_def)
qed

lemma wp_persist_event:
  assumes "idle w"
  shows "wp (persist_event m event_id ty ref) (\<lambda>_ w'. idle w' \<and> cfg w' = cfg w \<and>
      (if known_event event_id (db w) then db w' = db w \<and> queue w' = queue w
       else (\<exists>t. db w' = (db w)\<lparr>billing_events := billing_events (db w) @ [new_event m event_id ty ref t]\<rparr>) \<and>
         queue w' = queue w @ [SyncSubscription m])) (\<lambda>_ _. False) w"
proof -
  have i: "merchant_var (ctx w) = None" using assms by (simp add: idle_def no_vars_def)
  show ?thesis
    using assms
    by (simp add: persist_event_def wp_tenant_context [OF i] wp_simps wp_tenant_atomic idle_def begin_block_def commit_block_def
        rollback_block_def interfere_quiet interfere_def quiet_def new_event_def known_event_def is_duplicate_event_def
        EVENT_UNIQUE_CONSTRAINT_def Let_def) (auto simp: no_vars_def)
qed

definition receives :: "webhook_decision \<Rightarrow> billing_world \<Rightarrow> berror + unit \<Rightarrow> billing_world \<Rightarrow> bool" where
  "receives dec w r w' \<longleftrightarrow> idle w' \<and> cfg w' = cfg w \<and> (case dec of
     Reject e \<Rightarrow> r = Inl (App e) \<and> db w' = db w \<and> queue w' = queue w
   | Ignore \<Rightarrow> r = Inr () \<and> db w' = db w \<and> queue w' = queue w
   | Store m event_id ty ref \<Rightarrow> r = Inr () \<and>
       (\<exists>t. db w' = (db w)\<lparr>billing_events := billing_events (db w) @ [new_event m event_id ty ref t]\<rparr>) \<and>
       queue w' = queue w @ [SyncSubscription m])"

lemma wp_receive_verified:
  assumes i: "idle w" and v: "verify_webhook_signature (cfg w) (wr_body req) (wr_signature req)"
    and e: "wr_event_id req = JStr event_id" "event_id_failure (JStr event_id) = None"
  shows "wp (receive_webhook loads req) (\<lambda>_ w'. receives (decide_payload loads (wr_body req) event_id (db w)) w (Inr ()) w')
    (\<lambda>x w'. receives (decide_payload loads (wr_body req) event_id (db w)) w (Inl x) w') w"
proof -
  have "jget ''id'' j = JNull" if "\<not> jhas ''id'' j" for j
    using that by (cases j) (auto simp: map_of_eq_None_iff split: option.split dest: map_of_SomeD intro: rev_image_eqI)
  then have nohas: "valid_ref_json (jget ''id'' j) = None" if "\<not> jhas ''id'' j" for j
    using that by (simp add: valid_ref_json_def)
  have found: "wp (bindM (catchM (lookup_subscription ref)
                  (\<lambda>e. if e = TenantContextError then Some (throw (App WebhookRejected)) else None)) (\<lambda>found. case found of
                 None \<Rightarrow> ret ()
               | Some s \<Rightarrow> persist_event (s_merchant s) event_id ty ref))
       (\<lambda>_ w'. receives (decide_ref event_id ty ref (db w)) w (Inr ()) w')
       (\<lambda>x w'. receives (decide_ref event_id ty ref (db w)) w (Inl x) w') w"
    if valid: "is_valid_billing_ref ref" for ref ty
  proof (rule wp_bind_spec [where P = "\<lambda>found w'. found = stored_row ref (db w) \<and> idle w' \<and> db w' = db w \<and> queue w' = queue w \<and> cfg w' = cfg w"
        and X = "\<lambda>_ _. False"])
    show "wp (catchM (lookup_subscription ref) (\<lambda>e. if e = TenantContextError then Some (throw (App WebhookRejected)) else None))
      (\<lambda>found w'. found = stored_row ref (db w) \<and> idle w' \<and> db w' = db w \<and> queue w' = queue w \<and> cfg w' = cfg w) (\<lambda>_ _. False) w"
      unfolding wp_catch by (rule wp_conseq [OF wp_lookup_subscription [OF i valid]]) auto
  next
    fix f w1 assume f: "f = stored_row ref (db w) \<and> idle w1 \<and> db w1 = db w \<and> queue w1 = queue w \<and> cfg w1 = cfg w"
    show "wp (case f of None \<Rightarrow> ret () | Some s \<Rightarrow> persist_event (s_merchant s) event_id ty ref)
       (\<lambda>_ w'. receives (decide_ref event_id ty ref (db w)) w (Inr ()) w')
       (\<lambda>x w'. receives (decide_ref event_id ty ref (db w)) w (Inl x) w') w1"
    proof (cases "stored_row ref (db w)")
      case None
      with f show ?thesis by (simp add: wp_ret receives_def decide_ref_def)
    next
      case (Some s)
      have "idle w1" using f by blast
      note pe = wp_persist_event [OF this, of "s_merchant s" event_id ty ref]
      have "f = Some s" using f Some by simp
      then show ?thesis
        using f by (cases "known_event event_id (db w)")
          (simp_all add: Some decide_ref_def, (rule wp_conseq [OF pe]; simp add: receives_def)+)
    qed
  qed simp
  have valid: "is_valid_billing_ref ref" if "valid_ref_json j = Some ref" for j ref
    using that by (auto simp: valid_ref_json_def split: option.splits if_splits)
  have stay: "receives (Reject x) w (Inl (App x)) w" "receives Ignore w (Inr ()) w" for x
    using i by (simp_all add: receives_def)
  show ?thesis
    unfolding receive_webhook_def decide_payload_def parse_event_def
    using i v e
    by (simp add: wp_bind [of "asks cfg"] wp_asks wp_bind [of "throw x" for x] wp_throw stay wp_ret Let_def nohas
        split: option.split del: run_ret run_throw) (blast intro: found valid)
qed

lemma webhook_decides_core:
  assumes "idle w" "receive_webhook loads req w = (r, w')"
  shows "receives (decide (cfg w) loads req (db w)) w r w'"
proof (cases "verify_webhook_signature (cfg w) (wr_body req) (wr_signature req)")
  case False
  with assms show ?thesis by (auto simp: receive_webhook_def decide_def run_bind receives_def)
next
  case v: True
  show ?thesis
  proof (cases "\<exists>i. wr_event_id req = JStr i \<and> event_id_failure (JStr i) = None")
    case False
    with assms v show ?thesis
      by (cases "wr_event_id req") (auto simp: receive_webhook_def decide_def run_bind receives_def)
  next
    case True
    then obtain i where i: "wr_event_id req = JStr i" "event_id_failure (JStr i) = None" by blast
    have "decide (cfg w) loads req (db w) = decide_payload loads (wr_body req) i (db w)"
      using v i by (simp add: decide_def)
    with wp_receive_verified [OF assms(1) v i, of loads] assms(2)
    show ?thesis by (auto simp: wp_def split: sum.splits)
  qed
qed


text \<open>The signed delivery of an event for subscription \<open>sub_1\<close>; the digest is left symbolic.\<close>

definition sample_delivery :: webhook_request where
  "sample_delivery = \<lparr>wr_body = ''body'',
     wr_signature = Some (hexdigest (hmac_sha256 (text_bytes ''hook'') (text_bytes ''body''))), wr_event_id = JStr ''evt_1''\<rparr>"

definition sample_loads :: "string \<Rightarrow> json option" where
  "sample_loads b = Some (JObj [(''event'', JStr ''subscription.charged''),
     (''payload'', JObj [(''subscription'', JObj [(''entity'', JObj [(''id'', JStr ''sub_1'')])])])])"

lemma sample_signature: "verify_webhook_signature sample_cfg (wr_body sample_delivery) (wr_signature sample_delivery)"
proof -
  have "hexdigest (hmac_sha256 (text_bytes ''hook'') (text_bytes ''body'')) \<noteq> []"
    using hexdigest_length [of "hmac_sha256 (text_bytes ''hook'') (text_bytes ''body'')"] by fastforce
  then show ?thesis by (simp add: verify_webhook_signature_def sample_delivery_def sample_cfg_def)
qed

lemma sample_payload:
  "decide_payload sample_loads ''body'' ''evt_1'' (sample_db (Some active_sub)) = Store ''m1'' ''evt_1'' ''subscription.charged'' ''sub_1''"
  by code_simp

lemma sample_decision:
  "decide sample_cfg sample_loads sample_delivery (sample_db (Some active_sub)) = Store ''m1'' ''evt_1'' ''subscription.charged'' ''sub_1''"
proof -
  have "event_id_failure (JStr ''evt_1'') = None" by code_simp
  with sample_signature sample_payload show ?thesis by (simp add: decide_def) (simp add: sample_delivery_def)
qed

definition outside_world :: "bdb \<Rightarrow> billing_world" where
  "outside_world d = (idle_world d)\<lparr>ctx := no_vars\<rparr>"

lemma outside_idle [simp]: "idle (outside_world d)" "cfg (outside_world d) = sample_cfg" "db (outside_world d) = d"
  by (simp_all add: idle_def outside_world_def idle_world_def tx_world_def quiet_def)


lemma receives_keeps_rows:
  assumes "receives dec w r w'"
  shows "sub_rows (db w') = sub_rows (db w)"
  using assms by (auto simp: receives_def sub_rows_def split: webhook_decision.splits)

text \<open>
  Delivering the same webhook again is a no-op: whatever the first delivery did, a second run of
  the receiver on the same event id stores nothing, enqueues nothing, and answers as the first did.
\<close>

theorem webhook_redelivery_noop:
  assumes "idle w" "receive_webhook loads req w = (r, w')" "receive_webhook loads req w' = (r2, w'')"
  shows "db w'' = db w' \<and> queue w'' = queue w' \<and> r2 = r"
proof -
  let ?d = "decide (cfg w) loads req (db w)" and ?d' = "decide (cfg w) loads req (db w')"
  have a: "receives ?d w r w'" by (rule webhook_decides_core [OF assms(1,2)])
  have "idle w'" "cfg w' = cfg w" using a by (simp_all add: receives_def)
  then have b: "receives ?d' w' r2 w''" using webhook_decides_core [OF _ assms(3)] by simp
  show ?thesis
  proof (cases ?d)
    case (Store m i ty ref)
    have k: "known_event i (db w')" using a Store by (auto simp: receives_def known_event_def new_event_def)
    have e: "wr_event_id req = JStr i"
      using Store by (auto simp: decide_def decide_payload_def decide_ref_def Let_def split: if_splits json.splits option.splits)
    have "stored_row ref' (db w') = stored_row ref' (db w)" for ref'
      by (simp add: stored_row_def receives_keeps_rows [OF a])
    with Store e k have "?d' = Ignore"
      by (auto simp: decide_def decide_payload_def decide_ref_def Let_def split: if_splits option.splits)
    with a b Store show ?thesis by (auto simp: receives_def)
  next
    case (Reject x)
    with a have "db w' = db w" by (simp add: receives_def)
    with a b Reject show ?thesis by (auto simp: receives_def)
  next
    case Ignore
    with a have "db w' = db w" by (simp add: receives_def)
    with a b Ignore show ?thesis by (auto simp: receives_def)
  qed
qed

theorem webhook_redelivery_noop_witness:
  "\<exists>r w' r2 w''. receive_webhook sample_loads sample_delivery (outside_world (sample_db (Some active_sub))) = (r, w') \<and>
     receive_webhook sample_loads sample_delivery w' = (r2, w'') \<and> r2 = r \<and> queue w'' = queue w'"
proof -
  obtain r w' r2 w'' where a: "receive_webhook sample_loads sample_delivery (outside_world (sample_db (Some active_sub))) = (r, w')"
    and b: "receive_webhook sample_loads sample_delivery w' = (r2, w'')" by fastforce
  from webhook_redelivery_noop [OF outside_idle(1) a b] a b show ?thesis by blast
qed

end
