(* ===== verification/ReplacementSpec.thy ===== *)
theory ReplacementSpec
  imports BillingReplacement SnapshotProps
begin

text \<open>
  The abstract specification of the replacement's snapshot: one decision on row, snapshot, plans and
  time (leave the row, switch to the replacement, give the replacement up), and the refinement that
  \<open>_apply_replacement_snapshot\<close> carries out exactly that decision.
\<close>

subsection \<open>The decision\<close>

datatype replacement_step = Stay bool | SwitchTo plan instant instant | GiveUp

definition switch_step :: "json \<Rightarrow> plan \<Rightarrow> subscription \<Rightarrow> replacement_step" where
  "switch_step entity plan r =
     (case (from_unix (jget ''current_start'' entity), from_unix (jget ''current_end'' entity)) of
        (Some a, Some b) \<Rightarrow> if Some a = s_period_start r \<or> s_retired_ref r \<noteq> None \<or> b \<le> a then Stay False else SwitchTo plan a b
      | _ \<Rightarrow> Stay False)"

definition active_step :: "json \<Rightarrow> json list option \<Rightarrow> bdb \<Rightarrow> subscription \<Rightarrow> replacement_step" where
  "active_step entity invoices d r = (
     if current_period_paid entity invoices = None then Stay False
     else case (case as_str (jget ''plan_id'' entity) of None \<Rightarrow> None | Some i \<Rightarrow> plan_by_provider_id d i) of
       None \<Rightarrow> Stay False
     | Some plan \<Rightarrow> if s_status r \<in> {Cancelled, Expired} then Stay True
         else if s_status r \<notin> {Active, PastDue} then Stay False
         else switch_step entity plan r)"

definition inactive_step :: "json \<Rightarrow> instant \<Rightarrow> subscription \<Rightarrow> replacement_step" where
  "inactive_step entity t r = (
     if s_replacement_committed_at r \<noteq> None then (if status_in REPLACEMENT_FAILED entity then GiveUp else Stay True)
     else if s_status r \<noteq> Active then (if status_in REPLACEMENT_NOT_ACTIVE entity then GiveUp else Stay True)
     else if status_in REPLACEMENT_FAILED entity \<or> jget ''status'' entity = JStr ''created'' \<and> the (s_replacement_expires_at r) \<le> t
     then GiveUp else Stay True)"

definition replacement_step_of :: "json \<Rightarrow> json list option \<Rightarrow> instant \<Rightarrow> bdb \<Rightarrow> subscription \<Rightarrow> replacement_step" where
  "replacement_step_of entity invoices t d r = (
     let ref = (if is_dict entity then jget ''id'' entity else JNull);
         status = (if is_dict entity then jget ''status'' entity else JNull) in
     if \<not> truthy ref \<or> \<not> same_text (s_replacement_ref r) ref \<or> \<not> is_str status then Stay False
     else if status = JStr ''active'' then active_step entity invoices d r
     else inactive_step entity t r)"

text \<open>What the decision makes of the database.\<close>

definition logs_grow :: "bdb \<Rightarrow> bdb \<Rightarrow> bool" where
  "logs_grow d d' \<longleftrightarrow> plans d' = plans d \<and> merchants d' = merchants d \<and> members d' = members d \<and>
     prefix_of (audit_logs d) (audit_logs d') \<and> prefix_of (payment_attempts d) (payment_attempts d')"

definition replacement_outcome ::
  "uuid \<Rightarrow> replacement_step \<Rightarrow> instant \<Rightarrow> subscription \<Rightarrow> bdb \<Rightarrow> snapshot_result \<Rightarrow> bdb \<Rightarrow> bool" where
  "replacement_outcome m decision fetch_started_at r d res d' \<longleftrightarrow> logs_grow d d' \<and> (case decision of
     Stay done \<Rightarrow> res = result False done \<and> subs d' = subs d \<and> usage_records d' = usage_records d
   | SwitchTo plan a b \<Rightarrow> res = result True True \<and>
       (\<exists>u. subs d' = (subs d)(m \<mapsto> (switched ''active'' fetch_started_at (s_payment_ref r) (activated (p_id plan) a b r))\<lparr>s_updated_at := u\<rparr>)) \<and>
       usage_records d' = usage_records (ensure_usage m a b d)
   | GiveUp \<Rightarrow> usage_records d' = usage_records d \<and>
       (res = result False False \<and> subs d' = subs d \<or>
        res = result True True \<and> s_retired_ref r = None \<and> (\<exists>target u. target_ok r target \<and> subs d' = (subs d)(m \<mapsto> (retired target r)\<lparr>s_updated_at := u\<rparr>))))"

subsection \<open>The helpers\<close>

lemma side_effects_grow:
  "side_effects m w w' \<Longrightarrow> logs_grow (db w) (db w') \<and> subs (db w') = subs (db w) \<and> usage_records (db w') = usage_records (db w)"
  by (simp add: side_effects_def logs_grow_def)

definition replacement_failure :: "berror \<Rightarrow> bool" where
  "replacement_failure e \<longleftrightarrow> snapshot_failure e \<or> e = CheckViolation \<or> (\<exists>c. e = UniqueViolation c)"

lemma replacement_failures [simp]:
  "snapshot_failure e \<Longrightarrow> replacement_failure e" "replacement_failure CheckViolation" "replacement_failure (UniqueViolation c)"
  "replacement_failure ValueErr"
  by (auto simp: replacement_failure_def snapshot_failure_def)

lemma wp_save_any:
  assumes tx: "in_tx m w" and row: "subs (db w) m = Some r" "s_merchant r = m" and cov: "covered r (s, F)"
  shows "wp (save_sub F s) (\<lambda>s' w'. s' = stamped F w s \<and> w' = (save_tick F w)\<lparr>db := put_sub m s' (db w)\<rparr>)
     (\<lambda>e w'. replacement_failure e) w"
proof -
  have "s_merchant s = m" "s_id r = s_id s" using cov row by (auto simp: covered_def)
  from run_save_sub [OF tx row(1) this(1) row(2) this(2), of F]
  show ?thesis
    by (simp add: wp_def Let_def covered_stamped [OF cov] split: option.split)
qed

text \<open>Giving up: the row saved is the retired one.\<close>

lemma wp_save_retired:
  assumes se: "side_effects m w w1" and row: "row_ok m (db w) r" and ref: "s_replacement_ref r \<noteq> None"
    and t: "target_ok r target" and d: "retired_draft target (r, F) = (sub1, F')" and free: "s_retired_ref r = None"
  shows "wp (bindM (save_sub (insert F_updated_at F') sub1) (\<lambda>_. ret (result True True)))
    (\<lambda>res w'. in_tx m w' \<and> saves w' = saves w \<and> replacement_outcome m GiveUp fs r (db w) res (db w'))
    (\<lambda>e w'. replacement_failure e) w1"
proof -
  have sub1: "sub1 = retired target r" using retired_draft_fst [of target r F] d by simp
  have chk: "sub_checks sub1" using row ref unfolding sub1 by (intro retired_keeps_checks) (auto simp: row_ok_def)
  have tx1: "in_tx m w1" and row1: "subs (db w1) m = Some r" "s_merchant r = m"
    using se row by (auto simp: side_effects_def row_ok_def)
  have "covered r (sub1, insert F_updated_at F')"
    using retired_draft_covers [of r target F] d by (auto simp: covered_def)
  note sv = wp_save_covered [OF tx1 row1 this chk]
  obtain u where u: "stamped (insert F_updated_at F') w1 sub1 = (retired target r)\<lparr>s_updated_at := u\<rparr>"
    using stamped_same [of "insert F_updated_at F'" w1 sub1] sub1 by auto
  show ?thesis
    by (rule wp_bind_spec [OF sv])
      (use se t free tx1 in \<open>auto simp: wp_ret u replacement_outcome_def logs_grow_def side_effects_def\<close>)
qed

lemma outcome_unchanged:
  "side_effects m w w1 \<Longrightarrow> replacement_outcome m GiveUp fs r (db w) (result False False) (db w1)"
  "side_effects m w w1 \<Longrightarrow> replacement_outcome m (Stay b) fs r (db w) (result False b) (db w1)"
  by (simp_all add: replacement_outcome_def side_effects_def logs_grow_def)

lemma wp_give_up:
  assumes tx: "in_tx m w" and row: "row_ok m (db w) r" and ref: "s_replacement_ref r \<noteq> None"
    and ab: "\<And>e w. wp (abandonable e) (\<lambda>b w'. w' = w \<and> (b \<longrightarrow> A e)) (\<lambda>_ _. False) w"
  shows "wp (abandon_if_wanted r abandonable reason True)
    (\<lambda>res w'. in_tx m w' \<and> saves w' = saves w \<and> replacement_outcome m GiveUp fs r (db w) res (db w'))
    (\<lambda>e w'. replacement_failure e) w"
proof -
  have fk: "fk_ok (db w) r" using row by (simp add: row_ok_def)
  show ?thesis
    unfolding abandon_if_wanted_def
  proof (simp only: if_False not_True_eq_False, rule wp_bind_spec [OF wp_abandon [OF tx fk ab]], goal_cases)
    case (1 x w1)
    obtain b got dr where x: "x = (b, got, dr)" by (cases x)
    obtain sub1 fields where dr: "dr = (sub1, fields)" by fastforce
    show ?case
    proof (cases b)
      case False
      with 1 show ?thesis by (auto simp: x dr wp_ret side_effects_def outcome_unchanged intro: side_effects_tx)
    next
      case True
      with 1 obtain target where t: "may_retire r" "target_ok r target" "retired_draft target (r, {}) = (sub1, fields)" "side_effects m w w1"
        by (auto simp: x dr)
      with wp_save_retired [OF t(4) row ref t(2,3)] True show ?thesis by (simp add: x dr may_retire_def)
    qed
  qed simp
qed

lemma wp_clear_failed:
  assumes tx: "in_tx m w" and row: "row_ok m (db w) r" and ref: "s_replacement_ref r = Some ref"
  shows "wp (clear_failed_committed r)
    (\<lambda>res w'. in_tx m w' \<and> saves w' = saves w \<and> replacement_outcome m GiveUp fs r (db w) res (db w'))
    (\<lambda>e w'. replacement_failure e) w"
  unfolding clear_failed_committed_def
proof (rule wp_bind_spec [OF wp_refetch [OF tx ref]], goal_cases)
  case (1 got w1)
  then have se: "side_effects m w w1" by blast
  have tx1: "in_tx m w1" using se by (rule side_effects_tx)
  have fk1: "fk_ok (db w1) r" using fk_ok_side_effects [OF se, of r] row by (simp add: row_ok_def)
  have out: "in_tx m w1 \<and> saves w1 = saves w \<and> replacement_outcome m GiveUp fs r (db w) (result False False) (db w1)"
    using se tx1 by (simp add: outcome_unchanged side_effects_def)
  show ?case
  proof (cases "\<exists>entity. got = Some entity \<and> status_in REPLACEMENT_FAILED entity \<and> s_retired_ref r = None")
    case False
    with out show ?thesis by (cases got) (auto simp: wp_ret)
  next
    case True
    then obtain entity where e: "got = Some entity" "status_in REPLACEMENT_FAILED entity" "s_retired_ref r = None" by blast
    have "wp (bindM (retire_replacement entity ''committed_replacement_failed'' None (r, {})) (\<lambda>(sub1, fields).
         bindM (save_sub (insert F_updated_at fields) sub1) (\<lambda>_. ret (result True True))))
      (\<lambda>res w'. in_tx m w' \<and> saves w' = saves w \<and> replacement_outcome m GiveUp fs r (db w) res (db w'))
      (\<lambda>e w'. replacement_failure e) w1"
    proof (rule wp_bind_spec [OF wp_retire [OF tx1 fk1]], goal_cases)
      case (1 dr w2)
      obtain sub1 fields where dr: "dr = (sub1, fields)" by fastforce
      from 1 obtain target where t: "target_ok r target" "retired_draft target (r, {}) = (sub1, fields)" "side_effects m w1 w2"
        by (auto simp: dr)
      have "side_effects m w w2" using se t(3) by (rule side_effects_trans)
      from wp_save_retired [OF this row _ t(1,2) e(3)] ref show ?case by (simp add: dr)
    qed (simp add: snapshot_failure_def)
    with e show ?thesis by simp
  qed
qed simp

subsection \<open>The switch\<close>

lemma switched_covered:
  assumes "covered r (s, F)"
  shows "covered r (switched st fs departing s, F \<union> switch_fields \<union> {F_provider_status, F_provider_synced_at})"
  using assms by (auto simp: covered_def switched_def switch_fields_def)

lemma activated_simps [simp]:
  "s_merchant (activated p a b s) = s_merchant s" "s_period_start (activated p a b s) = Some a"
  "s_period_end (activated p a b s) = Some b" "s_payment_ref (activated p a b s) = s_payment_ref s"
  by (simp_all add: activated_def with_plan_def)

lemma switched_simps [simp]:
  "s_merchant (switched st fs dep s) = s_merchant s" "s_period_start (switched st fs dep s) = s_period_start s"
  "s_period_end (switched st fs dep s) = s_period_end s"
  by (simp_all add: switched_def)

text \<open>Saving the switched row, opening its usage record and closing the old reference's events.\<close>

lemma wp_save_switched:
  assumes se: "side_effects m w w1" and row: "row_ok m (db w) r" and cov: "covered r (activated (p_id plan) a b r, F')"
    and F: "{F_provider_status, F_provider_synced_at} \<subseteq> F'" and ab: "a < b"
  shows "wp (bindM (save_sub (F' \<union> switch_fields) (switched ''active'' fs (s_payment_ref r) (activated (p_id plan) a b r))) (\<lambda>sub2.
       bindM (reset_usage_period sub2) (\<lambda>_.
       seqM (whenM (truthy_text (s_payment_ref r)) (mark_events_processed (s_payment_ref r))) (ret (result True True)))))
    (\<lambda>res w'. in_tx m w' \<and> saves w' = saves w \<and> replacement_outcome m (SwitchTo plan a b) fs r (db w) res (db w'))
    (\<lambda>e w'. replacement_failure e) w1"
proof -
  let ?s = "switched ''active'' fs (s_payment_ref r) (activated (p_id plan) a b r)"
  let ?F = "F' \<union> switch_fields"
  have tx1: "in_tx m w1" and row1: "subs (db w1) m = Some r" "s_merchant r = m"
    using se row by (auto simp: side_effects_def row_ok_def)
  have "F' \<union> switch_fields \<union> {F_provider_status, F_provider_synced_at} = ?F" using F by auto
  with switched_covered [OF cov] have cov': "covered r (?s, ?F)" by simp
  obtain x u where x: "stamped ?F w1 ?s = x" "x = ?s\<lparr>s_updated_at := u\<rparr>"
    using stamped_same [of ?F w1 ?s] by auto
  have xs: "s_merchant x = m" "s_period_start x = Some a" "s_period_end x = Some b"
    by (simp_all add: x(2) row1)
  show ?thesis
  proof (rule wp_bind_spec [OF wp_save_any [OF tx1 row1 cov']], goal_cases)
    case (1 s3 w2)
    then have w2: "s3 = x" "w2 = (save_tick ?F w1)\<lparr>db := put_sub m x (db w1)\<rparr>" using x(1) by simp_all
    have tx2: "in_tx m w2" using tx1 by (simp add: w2)
    let ?w3 = "w2\<lparr>db := ensure_usage m a b (db w2)\<rparr>"
    have tx3: "in_tx m ?w3" using tx2 by simp
    have reset: "reset_usage_period x w2 = (Inr (the (usage_of (ensure_usage m a b (db w2)) m a b)), ?w3)"
      using run_reset_usage [OF tx2 xs ab] .
    have us: "usage_records (ensure_usage m a b (put_sub m x (db w1))) = usage_records (ensure_usage m a b (db w))"
      by (rule ensure_usage_cong) (use se in \<open>simp add: side_effects_def\<close>)
    have out: "replacement_outcome m (SwitchTo plan a b) fs r (db w) (result True True) (db w')"
      if "side_effects m ?w3 w'" for w'
      using that se us by (auto simp: replacement_outcome_def logs_grow_def side_effects_def w2 x(2) intro: prefix_of_trans)
    have fin: "wp (seqM (whenM (truthy_text (s_payment_ref r)) (mark_events_processed (s_payment_ref r))) (ret (result True True)))
      (\<lambda>res w'. in_tx m w' \<and> saves w' = saves w \<and> replacement_outcome m (SwitchTo plan a b) fs r (db w) res (db w'))
      (\<lambda>e w'. replacement_failure e) ?w3"
    proof (rule wp_effect [OF side_effects_refl [OF tx3], where X = "\<lambda>_ _. False"])
      show "wp (whenM (truthy_text (s_payment_ref r)) (mark_events_processed (s_payment_ref r))) (\<lambda>_. side_effects m v) (\<lambda>_ _. False) v"
        if "in_tx m v" for v
        using that wp_mark_events_processed [OF that] by (simp add: wp_when side_effects_refl)
    next
      fix w' assume s': "side_effects m ?w3 w'"
      have "saves w' = saves w" using s' se by (simp add: side_effects_def w2 save_tick_def)
      with out [OF s'] s' show "wp (ret (result True True))
        (\<lambda>res w'. in_tx m w' \<and> saves w' = saves w \<and> replacement_outcome m (SwitchTo plan a b) fs r (db w) res (db w'))
        (\<lambda>e w'. replacement_failure e) w'"
        by (simp add: wp_ret side_effects_tx)
    qed simp
    show ?case
      using reset fin by (simp add: w2(1) wp_def run_bind)
  qed simp
qed

lemma wp_switch:
  assumes tx: "in_tx m w" and row: "row_ok m (db w) r" and st: "jget ''status'' entity = JStr ''active''"
    and paid: "current_period_paid entity invoices \<noteq> None"
  shows "wp (switch_to_replacement r entity invoices plan fs)
    (\<lambda>res w'. in_tx m w' \<and> saves w' = saves w \<and> replacement_outcome m (switch_step entity plan r) fs r (db w) res (db w'))
    (\<lambda>e w'. replacement_failure e) w"
proof -
  have fk: "fk_ok (db w) r" and own: "s_merchant r = m" using row by (auto simp: row_ok_def)
  obtain q where q: "plan_by_id (db w) (s_plan r) = Some q" using fk by (auto simp: fk_ok_def)
  have stay: "in_tx m w \<and> saves w = saves w \<and> replacement_outcome m (Stay False) fs r (db w) (result False False) (db w)"
    using tx outcome_unchanged(2) [OF side_effects_refl [OF tx]] by simp
  show ?thesis
  proof (cases "from_unix (jget ''current_start'' entity) = None \<or> from_unix (jget ''current_start'' entity) = s_period_start r \<or>
      s_retired_ref r \<noteq> None")
    case True
    then have "switch_step entity plan r = Stay False" by (auto simp: switch_step_def split: option.split)
    then show ?thesis using True stay by (auto simp: switch_to_replacement_def Let_def wp_ret)
  next
    case False
    then obtain a where a: "from_unix (jget ''current_start'' entity) = Some a" "Some a \<noteq> s_period_start r" "s_retired_ref r = None"
      by auto
    let ?eff = "Some (if p_monthly_price plan < p_monthly_price q then ''REPLACEMENT_SCHEDULED'' else ''REPLACEMENT_IMMEDIATE'')"
    let ?F = "{F_provider_status, F_provider_synced_at}"
    have act: "wp (apply_active entity invoices plan None ?eff (r, ?F))
      (\<lambda>(ar, s', F') w'. side_effects m w w' \<and> (ar, s') = active_next entity invoices plan r \<and> covered r (s', F') \<and> ?F \<subseteq> F')
      (\<lambda>e w'. snapshot_failure e) w"
      by (rule wp_apply_active [OF tx fk own covered_refl])
    have body: "wp (bindM (apply_active entity invoices plan None ?eff (r, ?F))
         (\<lambda>(ar, sub1, fields).
           if \<not> a_advanced ar then ret (result False False)
           else (case as_str (jget ''status'' entity) of
             None \<Rightarrow> throw TypeErr
           | Some st \<Rightarrow>
               bindM (save_sub (fields \<union> switch_fields) (switched st fs (s_payment_ref r) sub1)) (\<lambda>sub2.
               bindM (reset_usage_period sub2) (\<lambda>_.
               seqM (whenM (truthy_text (s_payment_ref r)) (mark_events_processed (s_payment_ref r))) (ret (result True True)))))))
      (\<lambda>res w'. in_tx m w' \<and> saves w' = saves w \<and> replacement_outcome m (switch_step entity plan r) fs r (db w) res (db w'))
      (\<lambda>e w'. replacement_failure e) w"
    proof (rule wp_bind_spec [OF act], goal_cases)
      case (1 x w1)
      obtain ar s' F' where x: "x = (ar, s', F')" by (cases x)
      with 1 have nx: "side_effects m w w1" "(ar, s') = active_next entity invoices plan r" "covered r (s', F')" "?F \<subseteq> F'" by auto
      have no: "in_tx m w1 \<and> saves w1 = saves w \<and> replacement_outcome m (Stay False) fs r (db w) (result False False) (db w1)"
        using outcome_unchanged(2) [OF nx(1)] nx(1) by (simp add: side_effects_def)
      show ?case
      proof (cases "from_unix (jget ''current_end'' entity)")
        case None
        then show ?thesis using nx(2) a no by (simp add: x active_next_def no_effect_def switch_step_def wp_ret)
      next
        case (Some b)
        show ?thesis
        proof (cases "b \<le> a")
          case True
          then show ?thesis using nx(2) a Some no by (simp add: x active_next_def no_effect_def switch_step_def wp_ret)
        next
          case False
          then have "ar = \<lparr>a_changed = True, a_settled = True, a_advanced = True\<rparr>" and s': "s' = activated (p_id plan) a b r"
            using nx(2) a Some paid by (auto simp: active_next_def)
          moreover have "switch_step entity plan r = SwitchTo plan a b" using a Some False by (simp add: switch_step_def)
          ultimately show ?thesis
            using wp_save_switched [OF nx(1) row nx(3) [unfolded s'] nx(4), of fs] False st by (simp add: x s')
        qed
      qed
    qed simp
    show ?thesis
      using a q body by (simp add: switch_to_replacement_def wp_bind [of "get_plan (s_plan r)"] wp_get_plan Let_def)
  qed
qed

subsection \<open>The refinement\<close>

lemma wp_told:
  assumes "side_effects m w0 w"
  shows "wp (seqM (whenM b (audit action s None md)) (ret x)) (\<lambda>y w'. side_effects m w0 w' \<and> y = x) (\<lambda>e w'. snapshot_failure e) w"
  using wp_audited [OF assms, of "ret x" "\<lambda>y w'. side_effects m w0 w' \<and> y = x" action s None md] assms
  by (cases b) (auto simp: wp_seq wp_when wp_ret)

lemma wp_replacement_active:
  assumes tx: "in_tx m w" and row: "row_ok m (db w) r" and st: "jget ''status'' entity = JStr ''active''"
  shows "wp (replacement_active r entity invoices fs)
    (\<lambda>res w'. in_tx m w' \<and> saves w' = saves w \<and> replacement_outcome m (active_step entity invoices (db w) r) fs r (db w) res (db w'))
    (\<lambda>e w'. replacement_failure e) w"
proof -
  note se = side_effects_refl [OF tx]
  have stay: "in_tx m w \<and> replacement_outcome m (Stay False) fs r (db w) (result False False) (db w)"
    using tx outcome_unchanged(2) [OF se] by simp
  let ?plan = "case as_str (jget ''plan_id'' entity) of None \<Rightarrow> None | Some i \<Rightarrow> plan_by_provider_id (db w) i"
  show ?thesis
  proof (cases "current_period_paid entity invoices = None \<or> ?plan = None \<or> s_status r = Incomplete")
    case True
    then have "active_step entity invoices (db w) r = Stay False" by (auto simp: active_step_def split: option.splits)
    then show ?thesis
      using True stay by (auto simp: replacement_active_def wp_simps split: option.splits)
  next
    case False
    then obtain plan where p: "?plan = Some plan" and paid: "current_period_paid entity invoices \<noteq> None" and inc: "s_status r \<noteq> Incomplete"
      by (cases ?plan) auto
    show ?thesis
    proof (cases "s_status r = Cancelled \<or> s_status r = Expired")
      case True
      then have step: "active_step entity invoices (db w) r = Stay True" using p paid by (auto simp: active_step_def)
      have "wp (bindM (query (\<lambda>m d. list_ex (paid_after_end_told m (s_id r)) (audit_logs d))) (\<lambda>told.
           seqM (whenM (\<not> told) (audit AUDIT_REPLACEMENT_PAID_AFTER_END r None
               [(''row_status'', status_json (s_status r)), (''plan_name'', JStr (p_name plan))]))
             (ret (result False True))))
        (\<lambda>res w'. in_tx m w' \<and> saves w' = saves w \<and> replacement_outcome m (Stay True) fs r (db w) res (db w'))
        (\<lambda>e w'. replacement_failure e) w"
        using in_txD [OF tx]
        by (simp add: wp_bind wp_query)
          (rule wp_conseq [OF wp_told [OF se]], auto simp: outcome_unchanged side_effects_def)
      then show ?thesis using True p paid by (auto simp: step replacement_active_def wp_bind [of "replacement_plan entity"] wp_replacement_plan)
    next
      case ended: False
      then have "s_status r = Active \<or> s_status r = PastDue" using inc by (cases "s_status r") auto
      then have "active_step entity invoices (db w) r = switch_step entity plan r"
        using p paid by (auto simp: active_step_def)
      then show ?thesis
        using wp_switch [OF tx row st paid, of plan fs] p paid ended inc \<open>s_status r = Active \<or> s_status r = PastDue\<close>
        by (auto simp: replacement_active_def wp_bind [of "replacement_plan entity"] wp_replacement_plan)
    qed
  qed
qed

lemma wp_failed_or_lapsed:
  assumes "expires \<noteq> None"
  shows "wp (failed_or_lapsed t expires e) (\<lambda>b w'. w' = w \<and>
      b = (status_in REPLACEMENT_FAILED e \<or> jget ''status'' e = JStr ''created'' \<and> the expires \<le> t)) (\<lambda>_ _. False) w"
  using assms by (auto simp: failed_or_lapsed_def wp_simps)

lemma failed_not_created: "status_in REPLACEMENT_FAILED e \<Longrightarrow> jget ''status'' e \<noteq> JStr ''created''"
  by (auto simp: status_in_def REPLACEMENT_FAILED_def)

lemma truthy_same_text: "truthy j \<Longrightarrow> same_text x j \<Longrightarrow> x \<noteq> None"
  by (cases x; cases j) auto

lemma wp_apply_replacement_locked:
  assumes tx: "in_tx m w" and row: "row_ok m (db w) r"
  shows "wp (apply_replacement_locked entity invoices fs r)
    (\<lambda>res w'. in_tx m w' \<and> saves w' = saves w \<and>
       replacement_outcome m (replacement_step_of entity invoices (clock w (ticks w)) (db w) r) fs r (db w) res (db w'))
    (\<lambda>e w'. replacement_failure e) w"
proof -
  let ?ref = "if is_dict entity then jget ''id'' entity else JNull" and ?st = "if is_dict entity then jget ''status'' entity else JNull"
  let ?t = "clock w (ticks w)"
  have stay: "in_tx m w \<and> replacement_outcome m (Stay b) fs r (db w) (result False b) (db w)" for b
    using tx outcome_unchanged(2) [OF side_effects_refl [OF tx]] by simp
  show ?thesis
  proof (cases "\<not> truthy ?ref \<or> \<not> same_text (s_replacement_ref r) ?ref \<or> \<not> is_str ?st")
    case True
    then have "replacement_step_of entity invoices ?t (db w) r = Stay False" by (simp add: replacement_step_of_def Let_def)
    moreover have "apply_replacement_locked entity invoices fs r = ret (result False False)"
      using True by (simp add: apply_replacement_locked_def Let_def)
    ultimately show ?thesis using stay by (simp add: wp_ret)
  next
    case False
    then have d: "is_dict entity" and u: "truthy (jget ''id'' entity)" "same_text (s_replacement_ref r) (jget ''id'' entity)" "is_str (jget ''status'' entity)"
      by (auto split: if_splits)
    have ref: "s_replacement_ref r \<noteq> None" using u by (blast dest: truthy_same_text)
    then obtain rr where rr: "s_replacement_ref r = Some rr" by blast
    have ex: "s_replacement_expires_at r \<noteq> None" using row ref by (auto simp: row_ok_def checks_defs)
    show ?thesis
    proof (cases "jget ''status'' entity = JStr ''active''")
      case True
      then show ?thesis
        using wp_replacement_active [OF tx row True, of invoices fs] d u
        by (simp add: apply_replacement_locked_def replacement_step_of_def Let_def)
    next
      case inactive: False
      then have step: "replacement_step_of entity invoices ?t (db w) r = inactive_step entity ?t r"
        using d u by (auto simp: replacement_step_of_def Let_def)
      show ?thesis
      proof (cases "s_replacement_committed_at r = None")
        case False
        then show ?thesis
          using wp_clear_failed [OF tx row rr, of fs] stay inactive d u
          by (auto simp: apply_replacement_locked_def step inactive_step_def Let_def wp_ret)
      next
        case uncommitted: True
        show ?thesis
        proof (cases "s_status r = Active")
          case False
          have gu: "wp (abandon_if_wanted r not_active reason True)
             (\<lambda>res w'. in_tx m w' \<and> saves w' = saves w \<and> replacement_outcome m GiveUp fs r (db w) res (db w'))
             (\<lambda>e w'. replacement_failure e) w" for reason
            by (rule wp_give_up [OF tx row ref wp_not_active])
          show ?thesis
            using False uncommitted inactive d u gu stay
            by (auto simp: apply_replacement_locked_def step inactive_step_def Let_def abandon_if_wanted_def wp_ret)
        next
          case True
          let ?tw = "tick w"
          have tx2: "in_tx m ?tw" and rowt: "row_ok m (db ?tw) r" using tx row by simp_all
          have ab: "wp (failed_or_lapsed ?t (s_replacement_expires_at r) e) (\<lambda>b w'. w' = v \<and> (b \<longrightarrow> True)) (\<lambda>_ _. False) v" for e v
            by (rule wp_conseq [OF wp_failed_or_lapsed [OF ex]]) auto
          have gu: "wp (abandon_if_wanted r (failed_or_lapsed ?t (s_replacement_expires_at r)) reason True)
             (\<lambda>res w'. in_tx m w' \<and> saves w' = saves ?tw \<and> replacement_outcome m GiveUp fs r (db ?tw) res (db w'))
             (\<lambda>e w'. replacement_failure e) ?tw" for reason
            by (rule wp_give_up [OF tx2 rowt ref ab])
          let ?wanted = "status_in REPLACEMENT_FAILED entity \<or> jget ''status'' entity = JStr ''created'' \<and> the (s_replacement_expires_at r) \<le> ?t"
          have tail: "wp (abandon_if_wanted r (failed_or_lapsed ?t (s_replacement_expires_at r)) reason ?wanted)
             (\<lambda>res w'. in_tx m w' \<and> saves w' = saves w \<and>
               replacement_outcome m (if ?wanted then GiveUp else Stay True) fs r (db w) res (db w'))
             (\<lambda>e w'. replacement_failure e) ?tw" for reason
          proof (cases ?wanted)
            case True
            with gu [of reason] show ?thesis by simp
          next
            case False
            with stay [of True] show ?thesis by (simp only: abandon_if_wanted_def if_False if_True not_False_eq_True) (simp add: wp_ret)
          qed
          have eq: "apply_replacement_locked entity invoices fs r = bindM now (\<lambda>t. bindM (failed_or_lapsed t (s_replacement_expires_at r) entity) (\<lambda>wanted.
              abandon_if_wanted r (failed_or_lapsed t (s_replacement_expires_at r))
               (if status_in REPLACEMENT_FAILED entity then ''provider_failed'' else ''deadline_passed'') wanted))"
            using True uncommitted inactive d u by (auto simp: apply_replacement_locked_def Let_def)
          have st: "inactive_step entity ?t r = (if ?wanted then GiveUp else Stay True)"
            using True uncommitted by (simp add: inactive_step_def)
          show ?thesis
            unfolding eq step st wp_bind [of now] wp_now
            by (rule wp_bind_spec [OF wp_failed_or_lapsed [OF ex]]) (use tail in auto)
        qed
      qed
    qed
  qed
qed

lemma wp_apply_replacement_snapshot:
  assumes tx: "in_tx m w" and row: "row_ok m (db w) r" and own: "s_merchant s0 = m" "s_id s0 = s_id r"
  shows "wp (apply_replacement_snapshot s0 entity invoices fs)
    (\<lambda>res w'. in_tx m w' \<and> saves w' = saves w \<and>
       replacement_outcome m (replacement_step_of entity invoices (clock w (ticks w)) (db w) r) fs r (db w) res (db w'))
    (\<lambda>e w'. replacement_failure e) w"
proof -
  let ?w0 = "w\<lparr>saves := db w # saves w\<rparr>"
  have tx0: "in_tx m ?w0" using tx by (simp add: in_tx_def quiet_def)
  have row0: "subs (db ?w0) m = Some r" using row by (simp add: row_ok_def)
  have "wp (bindM (lock_subscription (s_id r)) (apply_replacement_locked entity invoices fs))
    (\<lambda>res w'. in_tx m w' \<and> saves w' = db w # saves w \<and>
       replacement_outcome m (replacement_step_of entity invoices (clock w (ticks w)) (db w) r) fs r (db w) res (db w'))
    (\<lambda>e w'. replacement_failure e) ?w0"
  proof (rule wp_bind_spec [OF wp_lock_subscription [OF tx0 row0 refl]], goal_cases)
    case (1 s w1)
    then have w1: "in_tx m w1" "row_ok m (db w1) r" "s = r" using row by simp_all
    show ?case unfolding w1(3) by (rule wp_conseq [OF wp_apply_replacement_locked [OF w1(1,2)]]) (use 1 in auto)
  qed simp
  then show ?thesis
    unfolding apply_replacement_snapshot_def
    using in_txD [OF tx] own
    by (simp add: wp_bind [of merchant_id_or_raise] wp_merchant_id_or_raise wp_tenant_atomic_tx [OF tx])
      (erule wp_conseq, auto simp: in_tx_saves in_txD)
qed

end
