(* ===== verification/ReplacementProps.thy ===== *)
theory ReplacementProps
  imports ReplacementSpec
begin

text \<open>
  The properties of the plan-change replacement: the snapshot carries out its decision or changes
  nothing, the switch needs a paid proof and keeps the old reference for its cancellation, and
  neither a committed replacement nor an occupied retired slot is lost.
\<close>

subsection \<open>Refinement\<close>

lemma replacement_implements:
  assumes "in_tx m w" "row_ok m (db w) r" "s_merchant s0 = m" "s_id s0 = s_id r"
    and "apply_replacement_snapshot s0 entity invoices fs w = (Inr res, w')"
  shows "replacement_outcome m (replacement_step_of entity invoices (clock w (ticks w)) (db w) r) fs r (db w) res (db w')"
  using wp_InrD [OF wp_apply_replacement_snapshot [OF assms(1-4)] assms(5)] by blast

lemma replacement_rollback:
  assumes "in_tx m w" "s_merchant s0 = m" "apply_replacement_snapshot s0 entity invoices fs w = (Inl e, w')"
  shows "db w' = db w"
proof -
  have f: "frames (\<lambda>_ _. True) (\<lambda>_. True) (bindM (lock_subscription (s_id s0)) (apply_replacement_locked entity invoices fs))"
    by (intro stack.frames_bind stack.frames_lock_subscription stack.frames_apply_replacement_locked)
  have "tenant_atomic False (bindM (lock_subscription (s_id s0)) (apply_replacement_locked entity invoices fs)) w = (Inl e, w')"
    using assms(3) in_txD(1) [OF assms(1)] assms(2)
    by (simp add: apply_replacement_snapshot_def run_bind merchant_id_or_raise_def get_current_merchant_id_def)
  from stack.tenant_atomic_rollback [OF f TrueI in_txD(4) [OF assms(1)] this] show ?thesis .
qed


text \<open>A paid upgrade of the sample merchant, and the run that switches to it.\<close>

definition switching_sub :: subscription where
  "switching_sub = active_sub\<lparr>s_replacement_ref := Some ''sub_2'', s_replacement_expires_at := Some (seconds 1900),
     s_replacement_plan := Some ''p2''\<rparr>"

definition replacement_entity :: "string \<Rightarrow> json" where
  "replacement_entity st = JObj [(''id'', JStr ''sub_2''), (''plan_id'', JStr ''plan_B''), (''status'', JStr st),
     (''current_start'', JInt 1600), (''current_end'', JInt 2600)]"

definition replacement_invoice :: json where
  "replacement_invoice = JObj [(''subscription_id'', JStr ''sub_2''), (''status'', JStr ''paid''), (''amount_due'', JInt 0),
     (''payment_id'', JStr ''pay_2''), (''billing_start'', JInt 1600), (''billing_end'', JInt 2600), (''paid_at'', JInt 1601)]"

definition switch_run :: "(berror + snapshot_result) \<times> billing_world" where
  "switch_run = apply_replacement_snapshot switching_sub (replacement_entity ''active'') (Some [replacement_invoice]) (seconds 1600)
     (tx_world (sample_db (Some switching_sub)))"

lemma switch_run_eq: "switch_run = (Inr (projr (fst switch_run)), snd switch_run)"
  by (rule pair_Inr) code_simp

lemma switching_sub_ok: "row_ok ''m1'' (sample_db (Some switching_sub)) switching_sub" "s_merchant switching_sub = ''m1''"
  by (simp_all add: row_ok_def checks_defs fk_ok_def plan_by_id_def switching_sub_def sample_defs)


subsection \<open>The switch\<close>

text \<open>
  C24: The reference a merchant is billed by changes only in a switch, and a switch needs proof of
  payment: the provider reports this very replacement \<open>active\<close>, one of its invoices proves the new
  period paid, and the retired slot was free. The departing reference is kept there, to be
  cancelled; the row is \<open>ACTIVE\<close> in the new period with every replacement column cleared, and the
  new period has its usage record.
\<close>

theorem switch_needs_proof:
  assumes "in_tx m w" "row_ok m (db w) r" "s_merchant s0 = m" "s_id s0 = s_id r"
    and "apply_replacement_snapshot s0 entity invoices fs w = (Inr res, w')"
    and "subs (db w') m = Some r'" "s_payment_ref r' \<noteq> s_payment_ref r"
  shows "jget ''status'' entity = JStr ''active'' \<and> same_text (s_replacement_ref r) (jget ''id'' entity) \<and>
    current_period_paid entity invoices \<noteq> None \<and> s_retired_ref r = None \<and>
    s_payment_ref r' = s_replacement_ref r \<and> s_retired_ref r' = s_payment_ref r \<and> s_retired_kind r' = Some SwitchedOld \<and>
    s_status r' = Active \<and> s_replacement_ref r' = None \<and> s_replacement_committed_at r' = None \<and>
    (\<exists>a b. from_unix (jget ''current_start'' entity) = Some a \<and> from_unix (jget ''current_end'' entity) = Some b \<and> a < b \<and>
       s_period_start r' = Some a \<and> s_period_end r' = Some b \<and> usage_of (db w') m a b \<noteq> None)"
proof -
  let ?step = "replacement_step_of entity invoices (clock w (ticks w)) (db w) r"
  have out: "replacement_outcome m ?step fs r (db w) res (db w')" by (rule replacement_implements [OF assms(1-5)])
  have row: "subs (db w) m = Some r" using assms(2) by (simp add: row_ok_def)
  from out row assms(6,7) obtain plan a b where s: "?step = SwitchTo plan a b"
    by (cases ?step) (auto simp: replacement_outcome_def retired_def)
  have st: "jget ''status'' entity = JStr ''active''" "same_text (s_replacement_ref r) (jget ''id'' entity)"
    "current_period_paid entity invoices \<noteq> None" "switch_step entity plan r = SwitchTo plan a b"
    using s by (auto simp: replacement_step_of_def active_step_def inactive_step_def switch_step_def Let_def split: if_splits option.splits)
  then have ab: "from_unix (jget ''current_start'' entity) = Some a" "from_unix (jget ''current_end'' entity) = Some b" "a < b"
    "s_retired_ref r = None"
    by (auto simp: switch_step_def split: option.splits if_splits)
  from out s obtain u where u: "subs (db w') = (subs (db w))(m \<mapsto> (switched ''active'' fs (s_payment_ref r) (activated (p_id plan) a b r))\<lparr>s_updated_at := u\<rparr>)"
    "usage_records (db w') = usage_records (ensure_usage m a b (db w))"
    by (auto simp: replacement_outcome_def)
  have "usage_of (db w') m a b = usage_of (ensure_usage m a b (db w)) m a b" using usage_of_cong [OF u(2)] by simp
  then have "usage_of (db w') m a b \<noteq> None" by (simp add: usage_of_ensure)
  moreover have "r' = (switched ''active'' fs (s_payment_ref r) (activated (p_id plan) a b r))\<lparr>s_updated_at := u\<rparr>"
    using u(1) assms(6) by simp
  ultimately show ?thesis using st(1-3) ab by (simp add: switched_def activated_def with_plan_def)
qed

theorem switch_needs_proof_witness:
  "\<exists>r'. subs (db (snd switch_run)) ''m1'' = Some r' \<and> s_payment_ref r' = Some ''sub_2'' \<and> s_retired_ref r' = Some ''sub_1'' \<and>
     s_status r' = Active \<and> s_retired_kind r' = Some SwitchedOld"
proof -
  have e: "map_option s_payment_ref (subs (db (snd switch_run)) ''m1'') = Some (Some ''sub_2'')" by code_simp
  then obtain r' where r': "subs (db (snd switch_run)) ''m1'' = Some r'" "s_payment_ref r' = Some ''sub_2''" by auto
  have ref: "s_payment_ref switching_sub = Some ''sub_1''" by (simp add: switching_sub_def sample_defs)
  from switch_needs_proof [OF in_tx_world _ switching_sub_ok(2) refl switch_run_eq [unfolded switch_run_def], of r']
    r' ref switching_sub_ok
  show ?thesis by (auto simp: switch_run_def)
qed

subsection \<open>What is never lost\<close>

text \<open>
  Once a downgrade replacement is committed, its snapshot gives it up only if the provider says it
  failed; and while the retired slot still holds a subscription to be cancelled, no snapshot of a
  replacement touches the row at all, so the slot is never overwritten.
\<close>

theorem replacement_kept:
  assumes "in_tx m w" "row_ok m (db w) r" "s_merchant s0 = m" "s_id s0 = s_id r"
    and "apply_replacement_snapshot s0 entity invoices fs w = (Inr res, w')"
    and "s_retired_ref r \<noteq> None \<or>
      s_replacement_committed_at r \<noteq> None \<and> \<not> status_in REPLACEMENT_FAILED entity \<and> jget ''status'' entity \<noteq> JStr ''active''"
  shows "subs (db w') = subs (db w) \<and> usage_records (db w') = usage_records (db w) \<and> \<not> changed res"
proof -
  let ?step = "replacement_step_of entity invoices (clock w (ticks w)) (db w) r"
  have out: "replacement_outcome m ?step fs r (db w) res (db w')" by (rule replacement_implements [OF assms(1-5)])
  have sw: "s_retired_ref r = None \<and> jget ''status'' entity = JStr ''active''" if "?step = SwitchTo plan a b" for plan a b
    using that by (auto simp: replacement_step_of_def active_step_def inactive_step_def switch_step_def Let_def split: if_splits option.splits)
  have gu: "s_replacement_committed_at r \<noteq> None \<longrightarrow> status_in REPLACEMENT_FAILED entity" if "?step = GiveUp"
    using that by (auto simp: replacement_step_of_def active_step_def inactive_step_def switch_step_def Let_def split: if_splits option.splits)
  show ?thesis
    using out assms(6) sw gu by (cases ?step) (auto simp: replacement_outcome_def result_def)
qed

text \<open>A committed replacement the provider reports as still authenticated.\<close>

definition kept_run :: "(berror + snapshot_result) \<times> billing_world" where
  "kept_run = apply_replacement_snapshot committed_sub (replacement_entity ''authenticated'') None (seconds 1600)
     (tx_world (sample_db (Some committed_sub)))"

lemma kept_run_eq: "kept_run = (Inr (projr (fst kept_run)), snd kept_run)"
  by (rule pair_Inr) code_simp

theorem replacement_kept_witness:
  "subs (db (snd kept_run)) ''m1'' = Some committed_sub \<and> \<not> changed (projr (fst kept_run))"
proof -
  have row: "row_ok ''m1'' (sample_db (Some committed_sub)) committed_sub" and own: "s_merchant committed_sub = ''m1''"
    and c: "s_replacement_committed_at committed_sub \<noteq> None"
    by (simp_all add: row_ok_def checks_defs fk_ok_def plan_by_id_def committed_sub_def sample_defs)
  have n: "\<not> status_in REPLACEMENT_FAILED (replacement_entity ''authenticated'')"
    "jget ''status'' (replacement_entity ''authenticated'') \<noteq> JStr ''active''"
    by code_simp+
  from replacement_kept [OF in_tx_world _ own refl kept_run_eq [unfolded kept_run_def]] row c n
  show ?thesis by (simp add: kept_run_def) (simp add: row_ok_def)
qed

end
