(* ===== verification/Threads.thy ===== *)
theory Threads
  imports BillingConstraints BillingReplacement
begin

text \<open>
  A thread in the context of its merchant and outside every transaction, as the tasks run: what an
  outermost tenant transaction does for it, and a provider call.
\<close>

definition alone :: "uuid \<Rightarrow> billing_world \<Rightarrow> bool" where
  "alone m w \<longleftrightarrow> merchant_var (ctx w) = Some m \<and> saves w = [] \<and> guc w = no_vars \<and> pending w = [] \<and> \<not> row_locked w \<and> quiet w"

definition enter_tx :: "uuid \<Rightarrow> billing_world \<Rightarrow> billing_world" where
  "enter_tx m w = w\<lparr>saves := [db w], guc := no_vars\<lparr>merchant_var := Some m\<rparr>, env_n := Suc (env_n w)\<rparr>"

definition leave_tx :: "billing_world \<Rightarrow> billing_world" where
  "leave_tx w = w\<lparr>saves := tl (saves w), guc := no_vars, row_locked := False, queue := queue w @ pending w, pending := []\<rparr>"

definition abort_tx :: "billing_world \<Rightarrow> billing_world \<Rightarrow> billing_world" where
  "abort_tx w w' = w'\<lparr>db := hd (saves w'), saves := tl (saves w'), guc := no_vars, row_locked := False, pending := []\<rparr>"

lemma enter_fields [simp]:
  "db (enter_tx m w) = db w" "saves (enter_tx m w) = [db w]" "clock (enter_tx m w) = clock w" "ticks (enter_tx m w) = ticks w"
  "ctx (enter_tx m w) = ctx w" "cfg (enter_tx m w) = cfg w" "gates (enter_tx m w) = gates w" "http (enter_tx m w) = http w"
  "calls (enter_tx m w) = calls w" "row_locked (enter_tx m w) = row_locked w" "queue (enter_tx m w) = queue w"
  "pending (enter_tx m w) = pending w" "env (enter_tx m w) = env w"
  by (simp_all add: enter_tx_def)

lemma in_tx_enter [simp]: "alone m w \<Longrightarrow> in_tx m (enter_tx m w)"
  by (simp add: in_tx_def alone_def enter_tx_def quiet_def)

lemma alone_leave: "in_tx m w \<Longrightarrow> length (saves w) = 1 \<Longrightarrow> alone m (leave_tx w)"
  by (cases "saves w") (simp_all add: alone_def leave_tx_def in_tx_def quiet_def)

lemma leave_fields [simp]:
  "db (leave_tx w) = db w" "clock (leave_tx w) = clock w" "ticks (leave_tx w) = ticks w" "cfg (leave_tx w) = cfg w"
  "gates (leave_tx w) = gates w" "http (leave_tx w) = http w" "calls (leave_tx w) = calls w" "ctx (leave_tx w) = ctx w"
  "queue (leave_tx w) = queue w @ pending w"
  by (simp_all add: leave_tx_def)

text \<open>The outermost transaction of a thread nobody interferes with.\<close>

lemma wp_outermost:
  assumes a: "alone m w" and p: "wp p (\<lambda>x w'. Q x (leave_tx w')) (\<lambda>e w'. saves w' \<noteq> [] \<and> E e (abort_tx w w')) (enter_tx m w)"
  shows "wp (tenant_atomic False p) Q E w"
proof -
  have b: "(begin_block w)\<lparr>guc := (guc (begin_block w))\<lparr>merchant_var := Some m\<rparr>\<rparr> = enter_tx m w"
    using a by (simp add: begin_block_def interfere_def alone_def quiet_def enter_tx_def)
  have l: "commit_block w w' = leave_tx w'" for w' using a by (simp add: commit_block_def leave_tx_def alone_def)
  have r: "saves w' \<noteq> [] \<Longrightarrow> rollback_block w w' = abort_tx w w'" for w'
    using a by (simp add: rollback_block_def abort_tx_def alone_def split: list.split)
  show ?thesis
    using a p
    by (simp add: wp_tenant_atomic alone_def wp_atomic wp_seq set_local_def wp_modify b l)
      (erule wp_conseq, auto simp: r)
qed

text \<open>A read in a transaction of its own.\<close>

lemma wp_read_row:
  assumes "alone m w"
  shows "wp (tenant_atomic False sub_first) (\<lambda>x w'. x = subs (db w) m \<and> alone m w' \<and> db w' = db w \<and> clock w' = clock w \<and>
    ticks w' = ticks w \<and> calls w' = calls w \<and> gates w' = gates w \<and> cfg w' = cfg w \<and> http w' = http w \<and> queue w' = queue w) (\<lambda>_ _. False) w"
proof (rule wp_outermost [OF assms])
  have "pending w = []" using assms by (simp add: alone_def)
  then show "wp sub_first (\<lambda>x w'. x = subs (db w) m \<and> alone m (leave_tx w') \<and> db (leave_tx w') = db w \<and> clock (leave_tx w') = clock w \<and>
      ticks (leave_tx w') = ticks w \<and> calls (leave_tx w') = calls w \<and> gates (leave_tx w') = gates w \<and> cfg (leave_tx w') = cfg w \<and>
      http (leave_tx w') = http w \<and> queue (leave_tx w') = queue w)
    (\<lambda>e w'. saves w' \<noteq> [] \<and> False) (enter_tx m w)"
    using assms alone_leave [OF in_tx_enter [OF assms]] by (simp add: wp_sub_first) (simp add: alone_def)
qed

text \<open>A provider call outside every transaction.\<close>

lemma alone_called:
  assumes "alone m w"
  shows "alone m (after_call rq w)" "db (after_call rq w) = db w" "calls (after_call rq w) = calls w @ [rq]"
    "clock (after_call rq w) = clock w" "ticks (after_call rq w) = ticks w" "gates (after_call rq w) = gates w"
    "cfg (after_call rq w) = cfg w" "http (after_call rq w) = http w"
  using assms by (simp_all add: after_call_def alone_def interfere_quiet quiet_def)

lemma wp_called:
  assumes "alone m w"
  shows "wp (request method path body)
    (\<lambda>r w'. is_dict r \<and> alone m w' \<and> db w' = db w \<and> calls w' = calls w @ [\<lparr>rq_method = method, rq_path = path, rq_body = body\<rparr>])
    (\<lambda>e w'. provider_error e \<and> alone m w' \<and> db w' = db w \<and>
       (calls w' = calls w \<or> calls w' = calls w @ [\<lparr>rq_method = method, rq_path = path, rq_body = body\<rparr>])) w"
  using assms alone_called [OF assms] by (intro wp_request_post) auto

lemma wp_cancel_called:
  assumes "alone m w"
  shows "wp (cancel_subscription ref at_end)
    (\<lambda>r w'. is_dict r \<and> is_valid_billing_ref ref \<and> alone m w' \<and> db w' = db w \<and> calls w' = calls w @
       [\<lparr>rq_method = POST, rq_path = cancel_path ref, rq_body = Some (JObj [(''cancel_at_cycle_end'', JBool at_end)])\<rparr>])
    (\<lambda>e w'. (e = ValueErr \<and> w' = w \<or> provider_error e) \<and> alone m w' \<and> db w' = db w \<and>
       (calls w' = calls w \<or> is_valid_billing_ref ref \<and> calls w' = calls w @
       [\<lparr>rq_method = POST, rq_path = cancel_path ref, rq_body = Some (JObj [(''cancel_at_cycle_end'', JBool at_end)])\<rparr>])) w"
  using assms by (auto simp: cancel_subscription_def check_ref_def wp_simps intro!: wp_conseq [OF wp_called])

end
