(* ===== verification/DunningProps.thy ===== *)
theory DunningProps
  imports Threads BillingSync SnapshotProps
begin

text \<open>
  The dunning step: what it makes of a row at a given time, that the program does exactly this, that
  it converges whatever ticks were missed, and when the provider is asked to cancel.
\<close>

subsection \<open>The step on a row\<close>

definition due_stage :: "instant \<Rightarrow> instant \<Rightarrow> nat option" where
  "due_stage since t = (if since + days 6 \<le> t then Some 6 else if since + days 3 \<le> t then Some 3 else None)"

definition stage_below :: "nat option \<Rightarrow> nat \<Rightarrow> bool" where
  "stage_below x n \<longleftrightarrow> (case x of None \<Rightarrow> False | Some k \<Rightarrow> k < n)"

definition dunning_row :: "instant \<Rightarrow> instant \<Rightarrow> subscription \<Rightarrow> subscription" where
  "dunning_row t stamp r = (case (s_status r, s_past_due_at r) of
     (PastDue, Some since) \<Rightarrow>
       if since + GRACE \<le> t then r\<lparr>s_status := Expired, s_past_due_at := None, s_dunning_stage := None, s_updated_at := stamp\<rparr>
       else (case due_stage since t of
           Some n \<Rightarrow> if stage_below (s_dunning_stage r) n then r\<lparr>s_dunning_stage := Some n, s_updated_at := t\<rparr> else r
         | None \<Rightarrow> r)
   | _ \<Rightarrow> r)"

definition dunning_audit :: "uuid \<Rightarrow> instant \<Rightarrow> subscription \<Rightarrow> audit_log list" where
  "dunning_audit m t r = (case (s_status r, s_past_due_at r) of
     (PastDue, Some since) \<Rightarrow>
       if since + GRACE \<le> t then [audit_row m AUDIT_EXPIRED r None [(''from_status'', status_json PastDue), (''to_status'', status_json Expired)]]
       else (case due_stage since t of
           Some n \<Rightarrow> if stage_below (s_dunning_stage r) n then [audit_row m AUDIT_DUNNING_CHECKPOINT r None [(''stage'', JInt (int n))]] else []
         | None \<Rightarrow> [])
   | _ \<Rightarrow> [])"

definition after_dunning :: "uuid \<Rightarrow> instant \<Rightarrow> instant \<Rightarrow> subscription \<Rightarrow> bdb \<Rightarrow> bdb" where
  "after_dunning m t stamp r d = d\<lparr>subs := (subs d)(m \<mapsto> dunning_row t stamp r), audit_logs := audit_logs d @ dunning_audit m t r\<rparr>"

text \<open>A row of a registered merchant, in a database within its constraints.\<close>

definition proper :: "uuid \<Rightarrow> bdb \<Rightarrow> subscription \<Rightarrow> bool" where
  "proper m d r \<longleftrightarrow> constraints d \<and> m \<in> fst ` set (merchants d) \<and> subs d m = Some r"

lemma proper_checks: "proper m d r \<Longrightarrow> sub_checks r \<and> s_merchant r = m"
  unfolding proper_def constraints_def by blast

lemma put_audit_after:
  "add_audit a (put_sub m s d) = d\<lparr>subs := (subs d)(m \<mapsto> s), audit_logs := audit_logs d @ [a]\<rparr>"
  by (simp add: add_audit_def put_sub_def)

lemma same_row: "subs d m = Some r \<Longrightarrow> d\<lparr>subs := (subs d)(m \<mapsto> r), audit_logs := audit_logs d\<rparr> = d"
  by (simp add: fun_upd_idem)

text \<open>Within a transaction, on the locked row.\<close>

lemma run_expire:
  assumes tx: "in_tx m w" and p: "proper m (db w) r" and s: "s_status r = PastDue" "s_past_due_at r = Some since" "since + GRACE \<le> t"
  shows "advance_past_due r t w = (Inr (), (tick w)\<lparr>db := after_dunning m t (clock w (ticks w)) r (db w)\<rparr>)"
proof -
  let ?F = "{F_status, F_past_due_at, F_dunning_stage, F_updated_at}"
  let ?s = "r\<lparr>s_status := Expired, s_past_due_at := None, s_dunning_stage := None\<rparr>"
  let ?x = "?s\<lparr>s_updated_at := clock w (ticks w)\<rparr>"
  have r: "subs (db w) m = Some r" "s_merchant r = m" "sub_checks r" using p proper_checks [OF p] by (auto simp: proper_def)
  have w: "write_fields ?F (stamped ?F w ?s) r = ?x"
    by (rule subscription.equality) (simp_all add: write_fields_def stamped_def)
  have chk: "sub_checks ?x" using r(3) s by (auto simp: checks_defs)
  have u: "sub_unique_failure m ?x (db w) = None"
    using p by (intro no_unique_failure) (auto simp: proper_def same_refs_def)
  have save: "save_sub ?F ?s w = (Inr ?x, (tick w)\<lparr>db := put_sub m ?x (db w)\<rparr>)"
    using run_save_sub [OF tx r(1) _ r(2), of ?s ?F] r(2) chk u by (simp add: w [unfolded]) (simp add: stamped_def save_tick_def)
  let ?w = "(tick w)\<lparr>db := put_sub m ?x (db w)\<rparr>"
  let ?md = "[(''from_status'', status_json PastDue), (''to_status'', status_json Expired)]"
  have "in_tx m ?w" using tx by simp
  from run_audit [OF this]
  have aud: "audit AUDIT_EXPIRED ?x None ?md ?w = (Inr (), ?w\<lparr>db := add_audit (audit_row m AUDIT_EXPIRED r None ?md) (put_sub m ?x (db w))\<rparr>)"
    by (simp add: actor_ok_def audit_row_def)
  have "advance_past_due r t w = (Inr (), ?w\<lparr>db := add_audit (audit_row m AUDIT_EXPIRED r None ?md) (put_sub m ?x (db w))\<rparr>)"
    unfolding advance_past_due_def s(2) need_def option.case bind_ret if_P [OF s(3)] run_bind_Inr [where m = "save_sub ?F ?s" and w = w, OF save] by (rule aud)
  then show ?thesis
    using s by (simp add: after_dunning_def dunning_row_def dunning_audit_def put_audit_after)
qed

lemma stage_checks:
  assumes "sub_checks r" "s_past_due_at r = Some since" "n = 3 \<or> n = 6"
  shows "sub_checks (r\<lparr>s_dunning_stage := Some n, s_updated_at := t\<rparr>)"
  using assms(1) assms(2,3) unfolding sub_checks_def by (simp add: grace_checks_def period_checks_def) (elim conjE, auto)

lemma stage_refs: "same_refs r (r\<lparr>s_dunning_stage := Some n, s_updated_at := t\<rparr>)"
  unfolding same_refs_def by simp

lemma run_stage_update:
  assumes tx: "in_tx m w" and p: "proper m (db w) r" and s: "s_past_due_at r = Some since" "n \<in> {3, 6}"
  shows "update_sub_where
      (\<lambda>x. s_id x = s_id r \<and> s_past_due_at x = Some since \<and> (case s_dunning_stage x of None \<Rightarrow> False | Some k \<Rightarrow> k < n))
      (\<lambda>x. x\<lparr>s_dunning_stage := Some n, s_updated_at := t\<rparr>) w =
    (if stage_below (s_dunning_stage r) n
     then (Inr True, w\<lparr>db := put_sub m (r\<lparr>s_dunning_stage := Some n, s_updated_at := t\<rparr>) (db w)\<rparr>)
     else (Inr False, w))"
proof -
  let ?x = "r\<lparr>s_dunning_stage := Some n, s_updated_at := t\<rparr>"
  have r: "subs (db w) m = Some r" using p unfolding proper_def by blast
  have r: "subs (db w) m = Some r" "s_merchant ?x = m" "sub_checks r"
    using r proper_checks [OF p] by (blast, simp, blast)
  have chk: "sub_checks ?x" using stage_checks [OF r(3) s(1)] s(2) by blast
  have u: "sub_unique_failure m ?x (db w) = None"
    using p unfolding proper_def by (intro no_unique_failure [OF _ _ _ stage_refs]) blast+
  have upd: "update_row m ?x w = (Inr (), w\<lparr>db := put_sub m ?x (db w)\<rparr>)"
    using r(2) chk u by (simp only: update_row_def option.case if_False not_True_eq_False simp_thms)
  show ?thesis
    unfolding update_sub_where_def run_bind run_query_tx [OF tx] r(1) s(1) stage_below_def
    using upd by (cases "s_dunning_stage r") (simp_all add: run_seq s(1))
qed

lemma run_update_stage:
  assumes tx: "in_tx m w" and p: "proper m (db w) r" and s: "s_past_due_at r = Some since" "n \<in> {3, 6}"
  shows "bindM (update_sub_where
           (\<lambda>x. s_id x = s_id r \<and> s_past_due_at x = Some since \<and> (case s_dunning_stage x of None \<Rightarrow> False | Some k \<Rightarrow> k < n))
           (\<lambda>x. x\<lparr>s_dunning_stage := Some n, s_updated_at := t\<rparr>)) (\<lambda>advanced.
         whenM advanced (audit AUDIT_DUNNING_CHECKPOINT r None [(''stage'', JInt (int n))])) w =
    (Inr (), if stage_below (s_dunning_stage r) n
       then w\<lparr>db := (db w)\<lparr>subs := (subs (db w))(m \<mapsto> r\<lparr>s_dunning_stage := Some n, s_updated_at := t\<rparr>),
         audit_logs := audit_logs (db w) @ [audit_row m AUDIT_DUNNING_CHECKPOINT r None [(''stage'', JInt (int n))]]\<rparr>\<rparr>
       else w)"
proof -
  let ?w = "w\<lparr>db := put_sub m (r\<lparr>s_dunning_stage := Some n, s_updated_at := t\<rparr>) (db w)\<rparr>"
  have "in_tx m ?w" using tx by simp
  from run_audit [OF this, of AUDIT_DUNNING_CHECKPOINT r None "[(''stage'', JInt (int n))]"]
  have aud: "audit AUDIT_DUNNING_CHECKPOINT r None [(''stage'', JInt (int n))] ?w =
      (Inr (), ?w\<lparr>db := add_audit (audit_row m AUDIT_DUNNING_CHECKPOINT r None [(''stage'', JInt (int n))]) (db ?w)\<rparr>)"
    by (simp add: actor_ok_def)
  show ?thesis
    unfolding run_bind run_stage_update [OF assms] using aud by (simp add: put_audit_after)
qed

lemma run_past_due:
  assumes tx: "in_tx m w" and p: "proper m (db w) r" and s: "s_status r = PastDue"
  shows "\<exists>w'. advance_past_due r t w = (Inr (), w') \<and> (w' = w\<lparr>db := db w'\<rparr> \<or> w' = (tick w)\<lparr>db := db w'\<rparr>) \<and>
    db w' = after_dunning m t (clock w (ticks w)) r (db w)"
proof -
  obtain since where d: "s_past_due_at r = Some since" using s proper_checks [OF p] by (auto simp: checks_defs)
  have row: "subs (db w) m = Some r" using p by (simp add: proper_def)
  note defs = advance_past_due_def need_def run_bind DUNNING_STAGES_def after_dunning_def dunning_row_def dunning_audit_def due_stage_def
    same_row [OF row]
  consider "since + GRACE \<le> t" | "\<not> since + GRACE \<le> t" "since + days 6 \<le> t" | "\<not> since + GRACE \<le> t" "\<not> since + days 6 \<le> t" "since + days 3 \<le> t"
    | "\<not> since + GRACE \<le> t" "\<not> since + days 6 \<le> t" "\<not> since + days 3 \<le> t" by blast
  then show ?thesis
  proof cases
    case 1
    then show ?thesis using run_expire [OF tx p s d 1] by simp
  next
    case 2
    then show ?thesis using run_update_stage [OF tx p d, of 6 t] s d by (simp add: defs)
  next
    case 3
    then show ?thesis using run_update_stage [OF tx p d, of 3 t] s d by (simp add: defs)
  next
    case 4
    then show ?thesis using s d by (simp add: defs)
  qed
qed

subsection \<open>The dunning transaction\<close>

definition dunning_tx :: "instant \<Rightarrow> unit bprog" where
  "dunning_tx t = tenant_atomic False (bindM sub_first (\<lambda>row. case row of
     None \<Rightarrow> ret ()
   | Some r \<Rightarrow> bindM (lock_subscription (s_id r)) (\<lambda>sub.
       if s_status sub = PastDue then advance_past_due sub t else ret ())))"

lemma advance_dunning_tx:
  "advance_dunning (Some t) = bindM merchant_id_or_raise (\<lambda>_. seqM (dunning_tx t) retry_owed_provider_cancel)"
  by (simp add: advance_dunning_def dunning_tx_def)

lemma not_past_due: "s_status r \<noteq> PastDue \<Longrightarrow> subs d m = Some r \<Longrightarrow> after_dunning m t stamp r d = d"
  by (cases "s_status r") (simp_all add: after_dunning_def dunning_row_def dunning_audit_def same_row)

lemma alone_pending: "alone m w \<Longrightarrow> pending w = []"
  by (simp add: alone_def)

lemma wp_dunning_tx:
  assumes a: "alone m w" and p: "proper m (db w) r"
  shows "wp (dunning_tx t) (\<lambda>_ w'. alone m w' \<and> db w' = after_dunning m t (clock w (ticks w)) r (db w) \<and>
    calls w' = calls w \<and> queue w' = queue w \<and> cfg w' = cfg w) (\<lambda>_ _. False) w"
  unfolding dunning_tx_def
proof (rule wp_outermost [OF a])
  let ?w = "enter_tx m w"
  let ?v = "(interfere ?w)\<lparr>row_locked := True\<rparr>"
  have tx: "in_tx m ?w" and row: "subs (db w) m = Some r" using a p by (simp_all add: proper_def)
  have lk: "row_locked ?w = False" using a by (simp add: alone_def)
  have v: "in_tx m ?v" "db ?v = db w" "clock ?v = clock w" "ticks ?v = ticks w" "calls ?v = calls w" "queue ?v = queue w" "cfg ?v = cfg w"
    "pending ?v = []" "saves ?v = [db w]"
    unfolding interfere_quiet [OF in_txD(4) [OF tx]] using tx alone_pending [OF a] by simp_all
  have lock: "lock_subscription (s_id r) ?w = (Inr r, ?v)"
    using v(1) row lk by (simp add: lock_subscription_def take_row_lock_def run_seq sub_get_def run_bind v(2))
  show "wp (bindM sub_first (\<lambda>row. case row of None \<Rightarrow> ret ()
      | Some r \<Rightarrow> bindM (lock_subscription (s_id r)) (\<lambda>sub. if s_status sub = PastDue then advance_past_due sub t else ret ())))
    (\<lambda>_ w'. alone m (leave_tx w') \<and> db (leave_tx w') = after_dunning m t (clock w (ticks w)) r (db w) \<and>
      calls (leave_tx w') = calls w \<and> queue (leave_tx w') = queue w \<and> cfg (leave_tx w') = cfg w) (\<lambda>e w'. saves w' \<noteq> [] \<and> False) ?w"
  proof (cases "s_status r = PastDue")
    case True
    obtain w' where run: "advance_past_due r t ?v = (Inr (), w')" and w': "w' = ?v\<lparr>db := db w'\<rparr> \<or> w' = (tick ?v)\<lparr>db := db w'\<rparr>"
      and d: "db w' = after_dunning m t (clock w (ticks w)) r (db w)"
      using run_past_due [OF v(1) _ True, of t] p v(2-4) by auto
    from w' have "in_tx m w' \<and> length (saves w') = 1 \<and> calls w' = calls w \<and> queue w' = queue w \<and> pending w' = [] \<and> cfg w' = cfg w"
    proof
      assume e: "w' = ?v\<lparr>db := db w'\<rparr>"
      show ?thesis by (subst (1 2 3 4 5 6) e) (use v in simp)
    next
      assume e: "w' = (tick ?v)\<lparr>db := db w'\<rparr>"
      show ?thesis by (subst (1 2 3 4 5 6) e) (use v in simp)
    qed
    then show ?thesis
      using run lock tx row True d by (simp add: wp_def run_bind alone_leave)
  next
    case False
    then show ?thesis
      using lock tx row v not_past_due [OF False row] by (simp add: wp_def run_bind alone_leave)
  qed
qed

subsection \<open>The owed cancel\<close>

definition dunning_cancel :: "string \<Rightarrow> http_request" where
  "dunning_cancel ref = \<lparr>rq_method = POST, rq_path = cancel_path ref, rq_body = Some (JObj [(''cancel_at_cycle_end'', JBool False)])\<rparr>"

text \<open>What the provider answers is recorded in one column.\<close>

definition status_recorded :: "uuid \<Rightarrow> subscription \<Rightarrow> bdb \<Rightarrow> bdb \<Rightarrow> bool" where
  "status_recorded m r d d' \<longleftrightarrow> d' = d \<or> (\<exists>st. d' = put_sub m (r\<lparr>s_provider_status := Some st\<rparr>) d)"

lemma status_refs: "same_refs r (r\<lparr>s_provider_status := v\<rparr>)"
  unfolding same_refs_def by simp

lemma wp_record_status:
  assumes a: "alone m w" and p: "proper m (db w) r"
  shows "wp (tenant_atomic False (bindM (update_sub_where (\<lambda>x. s_id x = s_id r \<and> s_payment_ref x = s_payment_ref r)
      (\<lambda>x. x\<lparr>s_provider_status := Some st\<rparr>)) (\<lambda>_. ret ())))
    (\<lambda>_ w'. alone m w' \<and> db w' = put_sub m (r\<lparr>s_provider_status := Some st\<rparr>) (db w) \<and> calls w' = calls w \<and> queue w' = queue w \<and> cfg w' = cfg w)
    (\<lambda>_ _. False) w"
proof (rule wp_outermost [OF a])
  let ?w = "enter_tx m w"
  let ?x = "r\<lparr>s_provider_status := Some st\<rparr>"
  have tx: "in_tx m ?w" and row: "subs (db w) m = Some r" using a p by (simp_all add: proper_def)
  have chk: "sub_checks ?x" using proper_checks [OF p] by (simp add: sub_checks_def)
  have u: "sub_unique_failure m ?x (db w) = None"
    using p unfolding proper_def by (intro no_unique_failure [OF _ _ _ status_refs]) blast+
  have upd: "update_row m ?x ?w = (Inr (), ?w\<lparr>db := put_sub m ?x (db w)\<rparr>)"
    using proper_checks [OF p] chk u by (simp add: update_row_def)
  have q: "query (\<lambda>m d. (m, subs d m)) ?w = (Inr (m, Some r), ?w)" using tx row by simp
  have run: "bindM (update_sub_where (\<lambda>x. s_id x = s_id r \<and> s_payment_ref x = s_payment_ref r)
      (\<lambda>x. x\<lparr>s_provider_status := Some st\<rparr>)) (\<lambda>_. ret ()) ?w = (Inr (), ?w\<lparr>db := put_sub m ?x (db w)\<rparr>)"
    unfolding update_sub_where_def run_bind q by (simp add: run_seq upd)
  have "in_tx m (?w\<lparr>db := put_sub m ?x (db w)\<rparr>)" using tx by simp
  from alone_leave [OF this]
  show "wp (bindM (update_sub_where (\<lambda>x. s_id x = s_id r \<and> s_payment_ref x = s_payment_ref r)
      (\<lambda>x. x\<lparr>s_provider_status := Some st\<rparr>)) (\<lambda>_. ret ()))
    (\<lambda>_ w'. alone m (leave_tx w') \<and> db (leave_tx w') = put_sub m ?x (db w) \<and> calls (leave_tx w') = calls w \<and> queue (leave_tx w') = queue w \<and> cfg (leave_tx w') = cfg w)
    (\<lambda>e w'. saves w' \<noteq> [] \<and> False) ?w"
    using alone_pending [OF a] by (simp add: wp_def run)
qed

lemma wp_dunning_or_none: "wp (or_none m) Q E w = wp m (\<lambda>a. Q (Some a)) (\<lambda>e w'. if provider_failure e then Q None w' else E e w') w"
  by (auto simp: wp_def or_none_def catchM_def bindM_def split: prod.splits sum.splits)

definition configured :: "billing_world \<Rightarrow> bool" where
  "configured w \<longleftrightarrow> key_id (cfg w) \<noteq> [] \<and> key_secret (cfg w) \<noteq> []"

lemma dunning_provider_failure: "provider_error e \<Longrightarrow> provider_failure e"
  by (auto simp: provider_error_def)

lemma wp_dunning_cancel:
  assumes a: "alone m w" and c: "configured w" "is_valid_billing_ref ref"
  shows "wp (cancel_subscription ref False) (\<lambda>_ w'. w' = after_call (dunning_cancel ref) w)
    (\<lambda>e w'. provider_failure e \<and> w' = after_call (dunning_cancel ref) w) w"
  using c
  by (auto simp: cancel_subscription_def check_ref_def wp_def request_def run_bind urlopen_def configured_def dunning_cancel_def
      after_call_def Let_def split: http_reply.split option.split)

definition owed_calls :: "subscription \<Rightarrow> http_request list" where
  "owed_calls r = (if owed_cancel r then (case s_payment_ref r of None \<Rightarrow> [] | Some ref \<Rightarrow> [dunning_cancel ref]) else [])"

lemma wp_retry_owed:
  assumes a: "alone m w" and p: "proper m (db w) r"
    and c: "owed_cancel r \<Longrightarrow> configured w \<and> (\<forall>ref. s_payment_ref r = Some ref \<longrightarrow> is_valid_billing_ref ref)"
  shows "wp retry_owed_provider_cancel (\<lambda>_ w'. alone m w' \<and> calls w' = calls w @ owed_calls r \<and> status_recorded m r (db w) (db w') \<and> cfg w' = cfg w)
    (\<lambda>_ _. False) w"
  unfolding retry_owed_provider_cancel_def
proof (rule wp_bind_spec [OF wp_read_row [OF a]])
  fix x w1
  assume x: "x = subs (db w) m \<and> alone m w1 \<and> db w1 = db w \<and> clock w1 = clock w \<and> ticks w1 = ticks w \<and> calls w1 = calls w \<and>
    gates w1 = gates w \<and> cfg w1 = cfg w \<and> http w1 = http w \<and> queue w1 = queue w"
  then have x1: "x = Some r" and a1: "alone m w1" and p1: "proper m (db w1) r" and f1: "db w1 = db w" "calls w1 = calls w" "cfg w1 = cfg w"
    using p by (simp_all add: proper_def)
  show "wp (case x of None \<Rightarrow> ret () | Some r \<Rightarrow> if \<not> owed_cancel r then ret ()
       else bindM (or_none (bindM (need (s_payment_ref r)) (\<lambda>ref. cancel_subscription ref False))) (\<lambda>got. case got of
         None \<Rightarrow> ret () | Some entity \<Rightarrow> (case as_str (jget ''status'' entity) of None \<Rightarrow> ret ()
         | Some st \<Rightarrow> tenant_atomic False (bindM (update_sub_where (\<lambda>x. s_id x = s_id r \<and> s_payment_ref x = s_payment_ref r)
             (\<lambda>x. x\<lparr>s_provider_status := Some (take 16 st)\<rparr>)) (\<lambda>_. ret ())))))
    (\<lambda>_ w'. alone m w' \<and> calls w' = calls w @ owed_calls r \<and> status_recorded m r (db w) (db w') \<and> cfg w' = cfg w) (\<lambda>_ _. False) w1"
  proof (cases "owed_cancel r")
    case False
    then show ?thesis using x1 a1 f1 by (simp add: wp_ret owed_calls_def status_recorded_def)
  next
    case True
    then obtain ref where ref: "s_payment_ref r = Some ref" by (auto simp: owed_cancel_def)
    with c [OF True] f1 have cf: "configured w1" "is_valid_billing_ref ref" by (simp_all add: configured_def)
    let ?v = "after_call (dunning_cancel ref) w1"
    have v: "alone m ?v" "db ?v = db w" "calls ?v = calls w @ owed_calls r" "proper m (db ?v) r" "cfg ?v = cfg w"
      using alone_called [OF a1, of "dunning_cancel ref"] f1 p True ref by (simp_all add: owed_calls_def)
    have stop: "alone m w' \<and> calls w' = calls w @ owed_calls r \<and> status_recorded m r (db w) (db w') \<and> cfg w' = cfg w" if "w' = ?v" for w'
      using v that by (simp add: status_recorded_def)
    have rec: "wp (tenant_atomic False (bindM (update_sub_where (\<lambda>x. s_id x = s_id r \<and> s_payment_ref x = s_payment_ref r)
          (\<lambda>x. x\<lparr>s_provider_status := Some st\<rparr>)) (\<lambda>_. ret ())))
        (\<lambda>_ w'. alone m w' \<and> calls w' = calls w @ owed_calls r \<and> status_recorded m r (db w) (db w') \<and> cfg w' = cfg w) (\<lambda>_ _. False) ?v" for st
      by (rule wp_conseq [OF wp_record_status [OF v(1) v(4)]]) (use v in \<open>auto simp: status_recorded_def\<close>)
    show ?thesis
      unfolding x1 option.case using True
      apply (simp only: not_True_eq_False if_False wp_bind wp_dunning_or_none ref wp_need option.case)
      apply (rule wp_conseq [OF wp_dunning_cancel [OF a1 cf]])
      subgoal for entity w' by (cases "jget ''status'' entity") (use stop rec ref in \<open>auto simp: wp_ret\<close>)
      subgoal for e w' using stop by (auto simp: wp_ret)
      done
  qed
qed

subsection \<open>The theorems\<close>

lemma proper_after:
  assumes p: "proper m d r" and c: "constraints (after_dunning m t stamp r d)"
  shows "proper m (after_dunning m t stamp r d) (dunning_row t stamp r)"
  using assms by (simp add: proper_def after_dunning_def)

lemma dunning_row_payment [simp]:
  "s_payment_ref (dunning_row t stamp r) = s_payment_ref r" "s_provider_status (dunning_row t stamp r) = s_provider_status r"
  by (auto simp: dunning_row_def split: sub_status.split option.split)

context billing_frame
begin

lemma frames_dunning_tx: "frames R G (dunning_tx t)"
  unfolding dunning_tx_def by (intro frame_intros)

lemma frames_dunning_at: "frames R G (advance_dunning (Some t))"
  by (rule frames_advance_dunning)

end

lemma dunning_tx_checked:
  assumes "alone m w" "constraints (db w)"
  shows "constraints (db (snd (dunning_tx t w)))"
proof -
  have "rely (\<lambda>d d'. constraints d \<longrightarrow> constraints d') w"
    using assms(1) by (simp add: alone_def rely_def quiet_def)
  from checked.frame_result [OF checked.frames_dunning_tx TrueI this] assms(2) show ?thesis by blast
qed

text \<open>The dunning step of a thread alone, in one statement.\<close>

definition dunning_result :: "uuid \<Rightarrow> instant \<Rightarrow> subscription \<Rightarrow> billing_world \<Rightarrow> billing_world \<Rightarrow> bool" where
  "dunning_result m t r w w' \<longleftrightarrow>
     alone m w' \<and> calls w' = calls w @ owed_calls (dunning_row t (clock w (ticks w)) r) \<and>
     status_recorded m (dunning_row t (clock w (ticks w)) r) (after_dunning m t (clock w (ticks w)) r (db w)) (db w') \<and> cfg w' = cfg w"

lemma dunning_implements:
  assumes a: "alone m w" and p: "proper m (db w) r"
    and c: "configured w" "\<And>ref. s_payment_ref r = Some ref \<Longrightarrow> is_valid_billing_ref ref"
  shows "wp (advance_dunning (Some t)) (\<lambda>_ w'. dunning_result m t r w w') (\<lambda>_ _. False) w"
proof -
  let ?d = "after_dunning m t (clock w (ticks w)) r (db w)"
  have mid: "merchant_id_or_raise w = (Inr m, w)"
    using a by (simp add: merchant_id_or_raise_def run_bind get_current_merchant_id_def alone_def)
  obtain x w1 where run: "dunning_tx t w = (x, w1)" by fastforce
  from wp_dunning_tx [OF a p, of t] run obtain y where x: "x = Inr y" and w1: "alone m w1" "db w1 = ?d" "calls w1 = calls w" and cfg: "cfg w1 = cfg w"
    by (cases x) (simp_all add: wp_def)
  have c1: "constraints ?d" using dunning_tx_checked [OF a, of t] p run w1 by (simp add: proper_def)
  note p1 = proper_after [OF p c1]
  have "wp retry_owed_provider_cancel (\<lambda>_ w'. dunning_result m t r w w') (\<lambda>_ _. False) w1"
    by (rule wp_conseq [OF wp_retry_owed [OF w1(1), of "dunning_row t (clock w (ticks w)) r"]])
      (use p1 w1 c cfg in \<open>auto simp: dunning_result_def configured_def\<close>)
  then show ?thesis
    by (simp add: advance_dunning_tx wp_bind wp_seq) (simp add: wp_def mid run x)
qed

lemma dunning_run:
  assumes "alone m w" "proper m (db w) r" "configured w" "\<And>ref. s_payment_ref r = Some ref \<Longrightarrow> is_valid_billing_ref ref"
    and "advance_dunning (Some t) w = (out, w')"
  shows "out = Inr () \<and> dunning_result m t r w w'"
  using dunning_implements [OF assms(1-4), of t] assms(5) by (auto simp: wp_def split: sum.splits)

lemma status_recorded_row:
  assumes "status_recorded m r d d'" "subs d m = Some r"
  obtains v where "subs d' = (subs d)(m \<mapsto> r\<lparr>s_provider_status := v\<rparr>)" "d' = put_sub m (r\<lparr>s_provider_status := v\<rparr>) d"
proof -
  have same: "put_sub m (r\<lparr>s_provider_status := s_provider_status r\<rparr>) d = d"
    using assms(2) by (simp add: put_sub_def fun_upd_idem)
  from assms(1) obtain v where "d' = put_sub m (r\<lparr>s_provider_status := v\<rparr>) d"
    unfolding status_recorded_def using same by metis
  then show ?thesis using that by (simp add: put_sub_def)
qed

text \<open>
  C25: \<open>advance_dunning\<close>, run for a merchant nobody interferes with, always returns: it makes of the
  row what the dunning schedule says for the given time (expiry after the grace period, else the
  highest stage reached, never a lower one), appends the audit entry of exactly that change, and asks
  the provider for an immediate cancellation exactly once when the resulting row owes one, and not at
  all otherwise. Nothing else changes but the recorded provider status.
\<close>

theorem dunning_exact:
  assumes "alone m w" "proper m (db w) r" "configured w" "\<And>ref. s_payment_ref r = Some ref \<Longrightarrow> is_valid_billing_ref ref"
    and "advance_dunning (Some t) w = (out, w')"
  defines "r1 \<equiv> dunning_row t (clock w (ticks w)) r"
  shows "out = Inr () \<and> calls w' = calls w @ owed_calls r1 \<and>
    (\<exists>v. db w' = (db w)\<lparr>subs := (subs (db w))(m \<mapsto> r1\<lparr>s_provider_status := v\<rparr>),
       audit_logs := audit_logs (db w) @ dunning_audit m t r\<rparr>)"
proof -
  let ?d = "after_dunning m t (clock w (ticks w)) r (db w)"
  from dunning_run [OF assms(1-5)] have o: "out = Inr ()" "calls w' = calls w @ owed_calls r1"
    and s: "status_recorded m r1 ?d (db w')" by (simp_all add: dunning_result_def r1_def)
  have "subs ?d m = Some r1" by (simp add: after_dunning_def r1_def)
  from status_recorded_row [OF s this] obtain v where "db w' = put_sub m (r1\<lparr>s_provider_status := v\<rparr>) ?d" by blast
  then have "db w' = (db w)\<lparr>subs := (subs (db w))(m \<mapsto> r1\<lparr>s_provider_status := v\<rparr>), audit_logs := audit_logs (db w) @ dunning_audit m t r\<rparr>"
    by (simp add: put_sub_def after_dunning_def)
  with o show ?thesis by blast
qed

subsection \<open>Missed ticks\<close>

definition same_dunning :: "subscription \<Rightarrow> subscription \<Rightarrow> bool" where
  "same_dunning a b \<longleftrightarrow> a\<lparr>s_updated_at := 0, s_provider_status := None\<rparr> = b\<lparr>s_updated_at := 0, s_provider_status := None\<rparr>"

lemma dunning_row_converges:
  assumes "t1 \<le> t2"
  shows "same_dunning (dunning_row t2 s2 ((dunning_row t1 s1 r)\<lparr>s_provider_status := v\<rparr>)) (dunning_row t2 s3 r)"
proof (cases "s_status r = PastDue \<and> s_past_due_at r \<noteq> None")
  case False
  then show ?thesis by (auto simp: same_dunning_def dunning_row_def split: sub_status.splits option.splits)
next
  case True
  then obtain since where r: "s_status r = PastDue" "s_past_due_at r = Some since" by blast
  show ?thesis
  proof (cases "since + GRACE \<le> t1")
    case True
    then have "since + GRACE \<le> t2" using assms by simp
    with True r show ?thesis by (simp add: same_dunning_def dunning_row_def)
  next
    case False
    consider "since + days 6 \<le> t1" | "\<not> since + days 6 \<le> t1" "since + days 3 \<le> t1" | "\<not> since + days 6 \<le> t1" "\<not> since + days 3 \<le> t1" by blast
    then show ?thesis
      using False r assms
      by cases (cases "s_dunning_stage r"; auto simp: same_dunning_def dunning_row_def due_stage_def stage_below_def)+
  qed
qed

lemma dunning_leaves_proper:
  assumes "alone m w" "proper m (db w) r" "configured w" "\<And>ref. s_payment_ref r = Some ref \<Longrightarrow> is_valid_billing_ref ref"
    and "advance_dunning (Some t) w = (out, w')"
  obtains v where "alone m w'" "proper m (db w') ((dunning_row t (clock w (ticks w)) r)\<lparr>s_provider_status := v\<rparr>)" "configured w'"
proof -
  let ?r = "dunning_row t (clock w (ticks w)) r"
  let ?d = "after_dunning m t (clock w (ticks w)) r (db w)"
  from dunning_run [OF assms] have w': "alone m w'" "configured w'" and s: "status_recorded m ?r ?d (db w')"
    using assms(3) by (simp_all add: dunning_result_def configured_def)
  have "subs ?d m = Some ?r" by (simp add: after_dunning_def)
  from status_recorded_row [OF s this] obtain v where d: "subs (db w') m = Some (?r\<lparr>s_provider_status := v\<rparr>)"
    "db w' = put_sub m (?r\<lparr>s_provider_status := v\<rparr>) ?d" by auto
  have "frames (\<lambda>d d'. constraints d \<longrightarrow> constraints d') (\<lambda>_. True) (advance_dunning (Some t))" by (rule checked.frames_dunning_at)
  moreover have "rely (\<lambda>d d'. constraints d \<longrightarrow> constraints d') w" using assms(1) by (simp add: alone_def rely_def quiet_def)
  ultimately have "constraints (db (snd (advance_dunning (Some t) w)))"
    using checked.frame_result assms(2) unfolding proper_def by blast
  then have "constraints (db w')" using assms(5) by simp
  moreover have "merchants (db w') = merchants (db w)" unfolding d(2) put_sub_def after_dunning_def by simp
  ultimately have "proper m (db w') (?r\<lparr>s_provider_status := v\<rparr>)" using d(1) assms(2) unfolding proper_def by simp
  then show ?thesis by (rule that [OF w'(1) _ w'(2)])
qed

text \<open>
  C26: Missed or repeated dunning ticks do not matter. Running the step at an earlier time and then at a
  later one leaves the same row as running it once at the later time (up to \<open>updated_at\<close> and the
  recorded provider status), so a sweep that was down for days converges on its next run.
\<close>

theorem dunning_converges:
  assumes "alone m w" "proper m (db w) r" "configured w" "\<And>ref. s_payment_ref r = Some ref \<Longrightarrow> is_valid_billing_ref ref"
    and "t1 \<le> t2" "advance_dunning (Some t1) w = (o1, w1)" "advance_dunning (Some t2) w1 = (o2, w2)"
    and "advance_dunning (Some t2) w = (o3, w3)"
  shows "\<exists>a b. subs (db w2) m = Some a \<and> subs (db w3) m = Some b \<and> same_dunning a b"
proof -
  obtain v where w1: "alone m w1" "proper m (db w1) ((dunning_row t1 (clock w (ticks w)) r)\<lparr>s_provider_status := v\<rparr>)" "configured w1"
    using dunning_leaves_proper [OF assms(1-4,6)] by blast
  let ?r1 = "(dunning_row t1 (clock w (ticks w)) r)\<lparr>s_provider_status := v\<rparr>"
  obtain v2 where w2: "proper m (db w2) ((dunning_row t2 (clock w1 (ticks w1)) ?r1)\<lparr>s_provider_status := v2\<rparr>)"
    using dunning_leaves_proper [OF w1 _ assms(7)] assms(4) by auto
  obtain v3 where w3: "proper m (db w3) ((dunning_row t2 (clock w (ticks w)) r)\<lparr>s_provider_status := v3\<rparr>)"
    using dunning_leaves_proper [OF assms(1-4,8)] by blast
  have "same_dunning ((dunning_row t2 (clock w1 (ticks w1)) ?r1)\<lparr>s_provider_status := v2\<rparr>) ((dunning_row t2 (clock w (ticks w)) r)\<lparr>s_provider_status := v3\<rparr>)"
    using dunning_row_converges [OF assms(5)] by (simp add: same_dunning_def)
  with w2 w3 show ?thesis unfolding proper_def by blast
qed

text \<open>
  Grace ends. Whatever the rest of the row, a past-due subscription whose grace period is over at
  the time of the step is \<open>EXPIRED\<close> after it, its dunning state is cleared, and a subscription the
  provider may still charge has been cancelled there in the same run.
\<close>

theorem grace_ends:
  assumes "alone m w" "proper m (db w) r" "configured w" "s_payment_ref r = Some ref" "is_valid_billing_ref ref"
    and "s_status r = PastDue" "s_past_due_at r = Some since" "since + days 7 \<le> t"
    and "advance_dunning (Some t) w = (out, w')"
  shows "\<exists>r'. subs (db w') m = Some r' \<and> s_status r' = Expired \<and> s_past_due_at r' = None \<and> s_dunning_stage r' = None \<and>
    s_payment_ref r' = Some ref \<and>
    calls w' = calls w @ (if provider_may_be_cancelled (s_provider_status r) then [dunning_cancel ref] else [])"
proof -
  have v: "\<And>x. s_payment_ref r = Some x \<Longrightarrow> is_valid_billing_ref x" using assms(4,5) by simp
  let ?r = "dunning_row t (clock w (ticks w)) r"
  have r1: "?r = r\<lparr>s_status := Expired, s_past_due_at := None, s_dunning_stage := None, s_updated_at := clock w (ticks w)\<rparr>"
    using assms(6-8) by (simp add: dunning_row_def GRACE_def)
  obtain v where "proper m (db w') (?r\<lparr>s_provider_status := v\<rparr>)" using dunning_leaves_proper [OF assms(1-3) v assms(9)] by blast
  then have "subs (db w') m = Some (?r\<lparr>s_provider_status := v\<rparr>)" by (simp add: proper_def)
  moreover have "calls w' = calls w @ owed_calls ?r" using dunning_run [OF assms(1-3) v assms(9)] by (simp add: dunning_result_def)
  ultimately show ?thesis using assms(4) unfolding r1 by (simp add: owed_calls_def owed_cancel_def)
qed

subsection \<open>A past-due merchant\<close>

definition past_due_world :: billing_world where
  "past_due_world = idle_world (sample_db (Some past_due_sub))"

lemma past_due_proper:
  "alone ''m1'' past_due_world" "proper ''m1'' (db past_due_world) past_due_sub" "configured past_due_world"
  "s_payment_ref past_due_sub = Some ''sub_1''" "is_valid_billing_ref ''sub_1''"
  "s_status past_due_sub = PastDue" "s_past_due_at past_due_sub = Some (seconds 1500)"
proof -
  show "proper ''m1'' (db past_due_world) past_due_sub"
    by (simp add: proper_def constraints_def refs_distinct_def checks_defs past_due_world_def sample_defs)
qed (simp_all add: alone_def quiet_def configured_def past_due_world_def sample_defs, code_simp)

lemma past_due_ref: "s_payment_ref past_due_sub = Some ref \<Longrightarrow> is_valid_billing_ref ref"
  using past_due_proper(4,5) by simp

theorem dunning_exact_witness:
  "fst (advance_dunning (Some (seconds 1500 + days 4)) past_due_world) = Inr () \<and>
   calls (snd (advance_dunning (Some (seconds 1500 + days 4)) past_due_world)) = []"
proof -
  have "owed_calls (dunning_row (seconds 1500 + days 4) (clock past_due_world (ticks past_due_world)) past_due_sub) = []"
    by code_simp
  moreover have "calls past_due_world = []" by (simp add: past_due_world_def sample_defs)
  ultimately show ?thesis
    using dunning_exact [OF past_due_proper(1-3) past_due_ref prod.collapse [symmetric], of "seconds 1500 + days 4"] by simp
qed

theorem dunning_converges_witness:
  "\<exists>a b. subs (db (snd (advance_dunning (Some (days 8)) (snd (advance_dunning (Some (days 4)) past_due_world))))) ''m1'' = Some a \<and>
     subs (db (snd (advance_dunning (Some (days 8)) past_due_world))) ''m1'' = Some b \<and> same_dunning a b"
  by (rule dunning_converges [OF past_due_proper(1-3) past_due_ref _ prod.collapse [symmetric] prod.collapse [symmetric] prod.collapse [symmetric]])
    (simp_all add: days_def seconds_def)

theorem grace_ends_witness:
  "\<exists>r'. subs (db (snd (advance_dunning (Some (days 8)) past_due_world))) ''m1'' = Some r' \<and> s_status r' = Expired"
  using grace_ends [OF past_due_proper _ prod.collapse [symmetric], of "days 8"] by (force simp: days_def seconds_def)

end
