(* ===== verification/PyText.thy ===== *)
theory PyText
  imports Tenancy Sha256
begin

text \<open>
  What the intake code uses of Python's text and number types: \<open>str.strip\<close>, \<open>str.split\<close>, \<open>str()\<close> of a
  decoded JSON value, \<open>int()\<close> and \<open>Decimal()\<close> of a text, UTF-8, and base64. Characters are code points
  below 256.
\<close>

subsection \<open>Characters\<close>

definition code_point :: "char \<Rightarrow> nat" where
  "code_point c = of_char c"

definition space_char :: "char \<Rightarrow> bool" where
  "space_char c \<longleftrightarrow> code_point c \<in> {9, 10, 11, 12, 13, 28, 29, 30, 31, 32, 133, 160}"

definition upper_char :: "char \<Rightarrow> bool" where
  "upper_char c \<longleftrightarrow> 65 \<le> code_point c \<and> code_point c \<le> 90"

definition lower_ascii :: "char \<Rightarrow> char" where
  "lower_ascii c = (if upper_char c then char_of (code_point c + 32) else c)"

definition strip :: "string \<Rightarrow> string" where
  "strip s = rev (dropWhile space_char (rev (dropWhile space_char s)))"

fun split_on :: "char \<Rightarrow> string \<Rightarrow> string list" where
  "split_on d [] = [[]]"
| "split_on d (c # cs) = (if c = d then [] # split_on d cs
     else (case split_on d cs of [] \<Rightarrow> [[c]] | x # xs \<Rightarrow> (c # x) # xs))"

lemma split_on_nonempty [simp]: "split_on d s \<noteq> []"
  by (induction s) (auto split: list.splits)

lemma strip_no_space: "list_all (\<lambda>c. \<not> space_char c) s \<Longrightarrow> strip s = s"
proof -
  assume a: "list_all (\<lambda>c. \<not> space_char c) s"
  have d: "dropWhile space_char s = s" using a by (cases s) simp_all
  have "dropWhile space_char (rev s) = rev s"
    using a by (cases s rule: rev_cases) simp_all
  with d show ?thesis by (simp add: strip_def)
qed

lemma strip_strip [simp]: "strip (strip s) = strip s"
proof -
  let ?t = "dropWhile space_char s" and ?r = "rev (dropWhile space_char (rev (dropWhile space_char s)))"
  obtain us where us: "?t = ?r @ us"
    by (metis append_Nil2 rev_append rev_rev_ident takeWhile_dropWhile_id)
  have "dropWhile space_char ?r = ?r"
  proof (cases ?r)
    case (Cons c cs)
    with us have "hd ?t = c" "?t \<noteq> []" by simp_all
    then have "\<not> space_char c" using hd_dropWhile by blast
    with Cons show ?thesis by simp
  next
    case Nil
    show ?thesis unfolding Nil by simp
  qed
  then show ?thesis by (simp add: strip_def)
qed

text \<open>A pattern anchored with a closing \<open>$\<close> and used with \<open>match\<close> accepts one final newline.\<close>

definition dollar :: "(string \<Rightarrow> bool) \<Rightarrow> string \<Rightarrow> bool" where
  "dollar P s \<longleftrightarrow> P s \<or> s \<noteq> [] \<and> last s = CHR 0x0A \<and> P (butlast s)"

text \<open>\<open>str.lower\<close> on code points below 256.\<close>

definition py_lower :: "string \<Rightarrow> string" where
  "py_lower s = map (\<lambda>c. let n = code_point c in
     if 65 \<le> n \<and> n \<le> 90 \<or> 192 \<le> n \<and> n \<le> 222 \<and> n \<noteq> 215 then char_of (n + 32) else c) s"

subsection \<open>Integers\<close>

definition digit_value :: "char \<Rightarrow> nat" where
  "digit_value c = code_point c - 48"

definition digits_value :: "string \<Rightarrow> nat" where
  "digits_value s = foldl (\<lambda>n c. 10 * n + digit_value c) 0 s"

fun nat_digits :: "nat \<Rightarrow> string" where
  "nat_digits n = (if n < 10 then [char_of (48 + n)] else nat_digits (n div 10) @ [char_of (48 + n mod 10)])"

declare nat_digits.simps [simp del]

definition int_text :: "int \<Rightarrow> string" where
  "int_text i = (if i < 0 then CHR 0x2D # nat_digits (nat (- i)) else nat_digits (nat i))"

lemma digit_char_of: "n < 10 \<Longrightarrow> digit_char (char_of (48 + n)) \<and> digit_value (char_of (48 + n)) = n"
  by (simp add: digit_char_def digit_value_def code_point_def Let_def)

lemma nat_digits_ok: "list_all digit_char (nat_digits n) \<and> nat_digits n \<noteq> []"
proof (induction n rule: nat_digits.induct)
  case (1 n)
  then show ?case
    using digit_char_of [of n] digit_char_of [of "n mod 10"] by (cases "n < 10") (simp_all add: nat_digits.simps [of n])
qed

lemma digits_value_snoc: "digits_value (s @ [c]) = 10 * digits_value s + digit_value c"
  by (simp add: digits_value_def)

lemma digits_round_trip: "digits_value (nat_digits n) = n"
proof (induction n rule: nat_digits.induct)
  case (1 n)
  show ?case
  proof (cases "n < 10")
    case True
    then show ?thesis using digit_char_of [of n] by (simp add: nat_digits.simps [of n] digits_value_def)
  next
    case False
    then show ?thesis
      using 1 digit_char_of [of "n mod 10"] by (simp add: nat_digits.simps [of n] digits_value_snoc)
  qed
qed

text \<open>\<open>int(text)\<close>: surrounding blanks, a sign, and single underscores between digits are allowed.\<close>

fun underscored :: "bool \<Rightarrow> string \<Rightarrow> string option" where
  "underscored after_digit [] = (if after_digit then Some [] else None)"
| "underscored after_digit (c # cs) = (
     if digit_char c then map_option ((#) c) (underscored True cs)
     else if c = CHR 0x5F \<and> after_digit then underscored False cs else None)"

definition py_int :: "string \<Rightarrow> int option" where
  "py_int s = (case strip s of
     [] \<Rightarrow> None
   | c # cs \<Rightarrow>
       if c = CHR 0x2D then map_option (\<lambda>ds. - int (digits_value ds)) (underscored False cs)
       else map_option (\<lambda>ds. int (digits_value ds)) (underscored False (if c = CHR 0x2B then cs else c # cs)))"

subsection \<open>Decimals\<close>

text \<open>A finite \<open>Decimal\<close> is a sign, a coefficient and an exponent.\<close>

datatype py_decimal = DFin (d_negative: bool) (d_coeff: nat) (d_exp: int) | DInf bool | DNaN

definition digit_count :: "nat \<Rightarrow> nat" where
  "digit_count n = length (nat_digits n)"

definition split_while :: "(char \<Rightarrow> bool) \<Rightarrow> string \<Rightarrow> string \<times> string" where
  "split_while P s = (takeWhile P s, dropWhile P s)"

text \<open>The exponent part: nothing, or \<open>e\<close>, a sign and digits up to the end.\<close>

definition parse_exponent :: "string \<Rightarrow> int option" where
  "parse_exponent s = (case s of
     [] \<Rightarrow> Some 0
   | c # cs \<Rightarrow> if lower_ascii c \<noteq> CHR 0x65 then None
       else (let neg = (cs \<noteq> [] \<and> hd cs = CHR 0x2D);
                 ds = (if cs \<noteq> [] \<and> (hd cs = CHR 0x2D \<or> hd cs = CHR 0x2B) then tl cs else cs) in
         if ds = [] \<or> \<not> list_all digit_char ds then None
         else Some (if neg then - int (digits_value ds) else int (digits_value ds))))"

text \<open>The exponents the exact conversion accepts; beyond them it signals \<open>InvalidOperation\<close>.\<close>

definition exact_exponent :: "nat \<Rightarrow> int \<Rightarrow> bool" where
  "exact_exponent n e \<longleftrightarrow> -1999999999999999997 \<le> e \<and>
     (if n = 0 then e \<le> 999999999999999999 else e + int (digit_count n) - 1 \<le> 999999999999999999)"

definition parse_unsigned :: "bool \<Rightarrow> string \<Rightarrow> py_decimal option" where
  "parse_unsigned neg s = (let
      (whole, r1) = split_while digit_char s;
      (frac, r2) = (case r1 of [] \<Rightarrow> ([], []) | c # cs \<Rightarrow> if c = CHR 0x2E then split_while digit_char cs else ([], r1));
      low = map lower_ascii s in
    if whole \<noteq> [] \<or> frac \<noteq> [] then (case parse_exponent r2 of
        None \<Rightarrow> None
      | Some e \<Rightarrow> let n = digits_value (whole @ frac); x = e - int (length frac) in
          if exact_exponent n x then Some (DFin neg n x) else None)
    else if low = ''inf'' \<or> low = ''infinity'' then Some (DInf neg)
    else if take 3 low = ''nan'' \<and> list_all digit_char (drop 3 low) then Some DNaN
    else if take 4 low = ''snan'' \<and> list_all digit_char (drop 4 low) then Some DNaN
    else None)"

text \<open>\<open>Decimal(text)\<close>; \<open>None\<close> stands for \<open>InvalidOperation\<close>.\<close>

definition parse_decimal :: "string \<Rightarrow> py_decimal option" where
  "parse_decimal s = (case filter (\<lambda>c. c \<noteq> CHR 0x5F) (strip s) of
     [] \<Rightarrow> None
   | c # cs \<Rightarrow> if c = CHR 0x2D then parse_unsigned True cs
              else parse_unsigned False (if c = CHR 0x2B then cs else c # cs))"

subsection \<open>The library functions taken as parameters\<close>

text \<open>
  Functions of Python's library and of third-party packages whose algorithms the code relies on but
  never looks into: the JSON decoder, \<open>str()\<close> of a float, a list or a dict, \<open>datetime.fromisoformat\<close> (the
  instant, and whether the text carried an offset), the \<open>utf-8-sig\<close> decoder, Fernet, and the names
  of the time zone database.
\<close>

record pylib =
  loads :: "string \<Rightarrow> json option"
  str_other :: "json \<Rightarrow> string"
  fromisoformat :: "string \<Rightarrow> (bool \<times> instant) option"
  decode_utf8_sig :: "string \<Rightarrow> string option"
  dumps :: "json \<Rightarrow> string"
  encrypt :: "string \<Rightarrow> string"
  decrypt :: "string \<Rightarrow> string option"
  available_timezones :: "string \<Rightarrow> bool"

fun py_str :: "pylib \<Rightarrow> json \<Rightarrow> string" where
  "py_str lib JNull = ''None''"
| "py_str lib (JBool b) = (if b then ''True'' else ''False'')"
| "py_str lib (JInt i) = int_text i"
| "py_str lib (JStr s) = s"
| "py_str lib j = str_other lib j"

subsection \<open>Bytes\<close>

definition utf8 :: "string \<Rightarrow> 8 word list" where
  "utf8 s = concat (map (\<lambda>c. if code_point c < 128 then [of_nat (code_point c)]
     else [of_nat (192 + code_point c div 64), of_nat (128 + code_point c mod 64)]) s)"

definition base64_char :: "nat \<Rightarrow> char" where
  "base64_char n = ''ABCDEFGHIJKLMNOPQRSTUVWXYZabcdefghijklmnopqrstuvwxyz0123456789+/'' ! n"

fun base64 :: "8 word list \<Rightarrow> string" where
  "base64 (a # b # c # rest) = (let n = unat a * 65536 + unat b * 256 + unat c in
     [base64_char (n div 262144), base64_char (n div 4096 mod 64), base64_char (n div 64 mod 64), base64_char (n mod 64)] @ base64 rest)"
| "base64 [a, b] = (let n = unat a * 65536 + unat b * 256 in
     [base64_char (n div 262144), base64_char (n div 4096 mod 64), base64_char (n div 64 mod 64), CHR 0x3D])"
| "base64 [a] = (let n = unat a * 65536 in
     [base64_char (n div 262144), base64_char (n div 4096 mod 64), CHR 0x3D, CHR 0x3D])"
| "base64 [] = []"

subsection \<open>A result or an exception\<close>

text \<open>Pure code that may raise.\<close>

definition bindE :: "'e + 'a \<Rightarrow> ('a \<Rightarrow> 'e + 'b) \<Rightarrow> 'e + 'b" where
  "bindE r f = (case r of Inl e \<Rightarrow> Inl e | Inr a \<Rightarrow> f a)"

lemma bindE_simps [simp]: "bindE (Inl e) f = Inl e" "bindE (Inr a) f = f a"
  by (simp_all add: bindE_def)

lemma bindE_Inr: "bindE r f = Inr b \<longleftrightarrow> (\<exists>a. r = Inr a \<and> f a = Inr b)"
  by (cases r) simp_all

lemma bindE_Inl: "bindE r f = Inl e \<longleftrightarrow> r = Inl e \<or> (\<exists>a. r = Inr a \<and> f a = Inl e)"
  by (cases r) simp_all

definition guardE :: "bool \<Rightarrow> 'e \<Rightarrow> 'e + unit" where
  "guardE b e = (if b then Inr () else Inl e)"

lemma guardE_simps [simp]: "guardE b e = Inr u \<longleftrightarrow> b" "guardE b e = Inl x \<longleftrightarrow> \<not> b \<and> x = e"
  by (auto simp: guardE_def)

definition liftE :: "'e + 'a \<Rightarrow> ('w, 'e, 'a) prog" where
  "liftE r = (\<lambda>w. (r, w))"

lemma run_liftE [simp]: "liftE r w = (r, w)"
  by (simp add: liftE_def)

lemma wp_liftE [wp_simps]: "wp (liftE r) Q E w = (case r of Inl e \<Rightarrow> E e w | Inr a \<Rightarrow> Q a w)"
  by (simp add: wp_def)

end
