(* ===== verification/SaleSchema.thy ===== *)
theory SaleSchema
  imports PyText
begin

text \<open>
  The normalized sale of \<open>integrations/core/events.py\<close> and the validation primitives of
  \<open>integrations/core/schemas.py\<close> every adapter shares, with the errors of the intake applications.
\<close>

subsection \<open>Errors\<close>

datatype intake_error =
    PayloadValidationError string
  | AdapterNotFound
  | InvalidOperation
  | LocationUnresolved
  | IntegrationDisconnected
  | IntegrationExists
  | IntegrationNotFound
  | IntegrationNotConnected
  | MappingExists
  | WebhookRejected
  | PayloadRejected string
  | InvalidWebhookPayload
  | ShopifyConnectNotSupported
  | TransactionNotFound
  | CustomerNotFound
  | LocationNotFound
  | ValidationError "(string \<times> string) list"
  | StorageError
  | CsvError
  | UnicodeDecodeError
  | ShopifyInstallInvalid
  | ShopifyInstallExpired
  | ShopifyUnavailable "string list"

type_synonym ierror = "intake_error exn"

abbreviation payload_error :: "string \<Rightarrow> ierror" where
  "payload_error code \<equiv> App (PayloadValidationError code)"

subsection \<open>Validation primitives\<close>

definition e164 :: "string \<Rightarrow> bool" where
  "e164 s \<longleftrightarrow> (case s of p # d # ds \<Rightarrow> p = CHR 0x2B \<and> digit_char d \<and> d \<noteq> CHR 0x30 \<and>
     7 \<le> length ds \<and> length ds \<le> 14 \<and> list_all digit_char ds | _ \<Rightarrow> False)"

definition iso4217 :: "string \<Rightarrow> bool" where
  "iso4217 s \<longleftrightarrow> length s = 3 \<and> list_all upper_char s"

definition validate_e164 :: "string \<Rightarrow> ierror + string" where
  "validate_e164 phone = (if dollar e164 phone then Inr phone else Inl (payload_error ''INVALID_PHONE''))"

definition validate_currency :: "string \<Rightarrow> ierror + string" where
  "validate_currency c = (if dollar iso4217 c then Inr c else Inl (payload_error ''INVALID_CURRENCY''))"

definition parse_amount :: "pylib \<Rightarrow> json \<Rightarrow> ierror + py_decimal" where
  "parse_amount lib value = (
     if value = JNull \<or> (case as_str value of None \<Rightarrow> False | Some s \<Rightarrow> strip s = []) then Inl (payload_error ''INVALID_AMOUNT'')
     else (case parse_decimal (py_str lib value) of
         None \<Rightarrow> Inl (payload_error ''INVALID_AMOUNT'')
       | Some d \<Rightarrow> Inr d))"

text \<open>The result says whether the time carries an offset.\<close>

definition parse_occurred_at :: "pylib \<Rightarrow> json \<Rightarrow> ierror + bool \<times> instant" where
  "parse_occurred_at lib value = (
     if value = JNull then Inl (payload_error ''INVALID_OCCURRED_AT'')
     else let text = py_str lib value;
              text' = (if text \<noteq> [] \<and> last text = CHR 0x5A then butlast text @ ''+00:00'' else text) in
       (case fromisoformat lib text' of
          None \<Rightarrow> Inl (payload_error ''INVALID_OCCURRED_AT'')
        | Some d \<Rightarrow> Inr d))"

definition event_key_text :: "string option \<Rightarrow> string \<Rightarrow> string" where
  "event_key_text external_location_id external_transaction_id =
     (case external_location_id of None \<Rightarrow> [] | Some l \<Rightarrow> l) @ CHR 0x1F # external_transaction_id"

definition sale_event_key :: "string option \<Rightarrow> string \<Rightarrow> string" where
  "sale_event_key external_location_id external_transaction_id =
     hexdigest (sha256 (utf8 (event_key_text external_location_id external_transaction_id)))"

definition path_step :: "json \<Rightarrow> string \<Rightarrow> json" where
  "path_step current segment = (case current of
     JObj _ \<Rightarrow> jget segment current
   | JArr xs \<Rightarrow> (case py_int segment of
         None \<Rightarrow> JNull
       | Some i \<Rightarrow> if 0 \<le> i \<and> i < int (length xs) then xs ! nat i else JNull)
   | _ \<Rightarrow> JNull)"

fun path_steps :: "json \<Rightarrow> string list \<Rightarrow> json" where
  "path_steps current [] = current"
| "path_steps current (s # ss) = (let next = path_step current s in if next = JNull then JNull else path_steps next ss)"

definition resolve_path :: "json \<Rightarrow> string \<Rightarrow> json" where
  "resolve_path obj dotted_path = path_steps obj (split_on (CHR 0x2E) dotted_path)"

datatype hmac_encoding = Hex | Base64

definition verify_hmac_sha256 :: "string \<Rightarrow> string \<Rightarrow> string \<Rightarrow> hmac_encoding \<Rightarrow> bool" where
  "verify_hmac_sha256 secret body signature enc = (
     if signature = [] \<or> secret = [] then False
     else let digest = hmac_sha256 (utf8 secret) (text_bytes body) in
       (case enc of Hex \<Rightarrow> hexdigest digest = signature | Base64 \<Rightarrow> base64 digest = signature))"

subsection \<open>SaleCreated\<close>

text \<open>
  \<open>name\<close>, \<open>payment_method\<close> and \<open>external_location_id\<close> are whatever the adapter passed on: the REST
  adapter does not insist on texts.
\<close>

record sale =
  sa_source :: string
  sa_external_id :: string
  sa_amount :: py_decimal
  sa_currency :: string
  sa_occurred_at :: instant
  sa_phone :: "string option"
  sa_name :: json
  sa_payment_method :: json
  sa_external_location :: json

definition fits_decimal :: "nat \<Rightarrow> nat \<Rightarrow> py_decimal \<Rightarrow> ierror + bool" where
  "fits_decimal max_digits decimal_places value = (case value of
     DFin neg n e \<Rightarrow>
       let (int_digits, frac_digits) =
         (if e > 0 then (int (digit_count n) + e, 0)
          else (max (int (digit_count n) - (- e)) 1, - e)) in
       Inr (\<not> frac_digits > int decimal_places \<and> int_digits \<le> int max_digits - int decimal_places)
   | _ \<Rightarrow> Inl TypeErr)"

text \<open>\<open>value < 0\<close>: comparing a NaN signals \<open>InvalidOperation\<close>.\<close>

definition negative :: "py_decimal \<Rightarrow> ierror + bool" where
  "negative value = (case value of
     DFin neg n e \<Rightarrow> Inr (neg \<and> n \<noteq> 0) | DInf neg \<Rightarrow> Inr neg | DNaN \<Rightarrow> Inl (App InvalidOperation))"

text \<open>\<open>len(x)\<close>, with \<open>TypeError\<close> for a number or a truth value.\<close>

definition py_len :: "json \<Rightarrow> ierror + nat" where
  "py_len j = (case j of JStr s \<Rightarrow> Inr (length s) | JArr xs \<Rightarrow> Inr (length xs)
     | JObj kvs \<Rightarrow> Inr (length (remdups (map fst kvs))) | _ \<Rightarrow> Inl TypeErr)"

definition at_most :: "nat \<Rightarrow> json \<Rightarrow> ierror + unit" where
  "at_most n j = (if j = JNull then Inr () else bindE (py_len j) (\<lambda>k. guardE (k \<le> n) (payload_error ''PAYLOAD_INVALID'')))"

text \<open>A blank phone is no phone; a value that is not a text has no \<open>strip\<close>.\<close>

definition clean_phone :: "json \<Rightarrow> ierror + string option" where
  "clean_phone j = (case j of JNull \<Rightarrow> Inr None
     | JStr s \<Rightarrow> if strip s = [] then Inr None else bindE (validate_e164 s) (\<lambda>p. Inr (Some p))
     | _ \<Rightarrow> Inl AttributeErr)"

definition sale_created ::
  "string \<Rightarrow> string \<Rightarrow> py_decimal \<Rightarrow> string \<Rightarrow> bool \<times> instant \<Rightarrow> json \<Rightarrow> json \<Rightarrow> json \<Rightarrow> json \<Rightarrow> ierror + sale" where
  "sale_created source external_id amount currency occurred_at phone name payment_method external_location =
     bindE (guardE (external_id \<noteq> [] \<and> length external_id \<le> 255) (payload_error ''INVALID_EXTERNAL_TRANSACTION_ID'')) (\<lambda>_.
     bindE (clean_phone phone) (\<lambda>p.
     bindE (at_most 255 name) (\<lambda>_.
     bindE (at_most 32 payment_method) (\<lambda>_.
     bindE (negative amount) (\<lambda>neg.
     bindE (guardE (\<not> neg) (payload_error ''INVALID_AMOUNT'')) (\<lambda>_.
     bindE (fits_decimal 12 2 amount) (\<lambda>fits.
     bindE (guardE fits (payload_error ''PAYLOAD_INVALID'')) (\<lambda>_.
     bindE (validate_currency currency) (\<lambda>c.
     bindE (guardE (fst occurred_at) (payload_error ''INVALID_OCCURRED_AT'')) (\<lambda>_.
     Inr \<lparr>sa_source = source, sa_external_id = external_id, sa_amount = amount, sa_currency = c,
       sa_occurred_at = snd occurred_at, sa_phone = p, sa_name = name, sa_payment_method = payment_method,
       sa_external_location = external_location\<rparr>))))))))))"

subsection \<open>What a constructed sale satisfies\<close>

text \<open>The amount in hundredths, as the \<open>numeric(12, 2)\<close> column stores it.\<close>

definition cents :: "py_decimal \<Rightarrow> int" where
  "cents v = (case v of DFin neg n e \<Rightarrow> (let c = int n * 10 ^ nat (e + 2) in if neg then - c else c) | _ \<Rightarrow> 0)"

definition sale_ok :: "sale \<Rightarrow> bool" where
  "sale_ok s \<longleftrightarrow> sa_external_id s \<noteq> [] \<and> length (sa_external_id s) \<le> 255 \<and>
     (case sa_phone s of None \<Rightarrow> True | Some p \<Rightarrow> dollar e164 p) \<and> dollar iso4217 (sa_currency s) \<and>
     fits_decimal 12 2 (sa_amount s) = Inr True \<and> negative (sa_amount s) = Inr False"

lemma sale_created_ok: "sale_created a b c d e f g h i = Inr s \<Longrightarrow> sale_ok s"
  by (auto simp: sale_created_def bindE_Inr sale_ok_def validate_currency_def validate_e164_def clean_phone_def
      split: if_splits json.splits option.splits)

end
