(* ===== verification/IntakeModels.thy ===== *)
theory IntakeModels
  imports BillingModels SaleSchema
begin

text \<open>
  The tables of sale intake (\<open>locations\<close>, \<open>integrations\<close>, \<open>events\<close>, \<open>customers\<close>, \<open>transactions\<close>) and the world
  their services run in.
\<close>

subsection \<open>Rows\<close>

record location =
  lo_id :: uuid
  lo_merchant :: uuid
  lo_name :: string
  lo_address :: "string option"
  lo_phone :: "string option"
  lo_timezone :: "string option"
  lo_active :: bool
  lo_updated_at :: instant

datatype integration_status = Connected | ErrorStatus | Disconnected

text \<open>\<open>Integration.Provider\<close>.\<close>

definition PROVIDERS :: "string list" where
  "PROVIDERS = [''shopify'', ''woocommerce'', ''petpooja'', ''gofrugal'', ''webhook'', ''csv'', ''zapier'', ''make'', ''api'']"

record integration =
  ig_id :: uuid
  ig_merchant :: uuid
  ig_provider :: string
  ig_status :: integration_status
  ig_credentials :: "string option"
  ig_config :: json
  ig_updated_at :: instant

record location_mapping =
  lm_merchant :: uuid
  lm_integration :: uuid
  lm_location :: uuid
  lm_config :: json
  lm_active :: bool

datatype event_status = Received | Processed | Failed | DeadLetter | CancelledEvent

record integration_event =
  ie_id :: uuid
  ie_merchant :: uuid
  ie_integration :: uuid
  ie_source :: string
  ie_external_id :: string
  ie_location :: "uuid option"
  ie_payload :: json
  ie_status :: event_status
  ie_received_at :: "instant option"
  ie_processed_at :: "instant option"
  ie_attempts :: nat
  ie_error_code :: "string option"
  ie_error_message :: "string option"
  ie_updated_at :: instant

record customer =
  cu_id :: uuid
  cu_merchant :: uuid
  cu_phone :: string
  cu_name :: "string option"
  cu_first_seen :: "instant option"
  cu_last_seen :: "instant option"
  cu_total :: nat
  cu_opted_out :: bool
  cu_opted_out_at :: "instant option"
  cu_updated_at :: instant

datatype transaction_status = Completed | Refunded | Voided

record sale_row =
  tx_id :: uuid
  tx_merchant :: uuid
  tx_location :: uuid
  tx_customer :: "uuid option"
  tx_integration :: "uuid option"
  tx_external_id :: string
  tx_amount :: int
  tx_currency :: string
  tx_payment_method :: "string option"
  tx_status :: transaction_status
  tx_occurred_at :: instant
  tx_created_at :: instant

subsection \<open>The database and the world\<close>

text \<open>\<open>assignments\<close> are the location assignments of team members (\<open>locations\<close> a \<open>MANAGER\<close> may see).\<close>

record idb =
  i_merchants :: "(uuid \<times> merchant_status) list"
  i_members :: "(uuid \<times> uuid) list"
  assignments :: "(uuid \<times> uuid) list"
  locations :: "location list"
  integrations :: "integration list"
  mappings :: "location_mapping list"
  events :: "integration_event list"
  customers :: "customer list"
  sales :: "sale_row list"
  i_audit :: "audit_log list"

datatype itask = ProcessIntegrationEvent uuid uuid | ImportCsv uuid uuid string

record intake_settings =
  csv_max_bytes :: nat
  csv_max_rows :: nat
  shopify_client_id :: string
  shopify_client_secret :: string
  shopify_client_secret_previous :: string

text \<open>\<open>blobs\<close> is the R2 bucket, \<open>storage_up n\<close> whether its \<open>n\<close>th call succeeds, \<open>secrets\<close> what
  \<open>secrets.token_urlsafe\<close> and \<open>uuid.uuid4\<close> answer.\<close>

record intake_world = "(idb, itask) world" +
  py :: pylib
  icfg :: intake_settings
  blobs :: "string \<Rightarrow> string option"
  storage_up :: "nat \<Rightarrow> bool"
  storage_n :: nat
  secrets :: "nat \<Rightarrow> string"
  secret_n :: nat

type_synonym 'a iprog = "(intake_world, ierror, 'a) prog"

definition fresh :: "string iprog" where
  "fresh = (\<lambda>w. (Inr (secrets w (secret_n w)), w\<lparr>secret_n := Suc (secret_n w)\<rparr>))"

lemma intake_world_updates [simp]:
  "in_tx m (w\<lparr>secret_n := n\<rparr>) = in_tx m (w :: intake_world)"
  "in_tx m (w\<lparr>blobs := b\<rparr>) = in_tx m (w :: intake_world)"
  "in_tx m (w\<lparr>storage_n := n\<rparr>) = in_tx m (w :: intake_world)"
  by (simp_all add: in_tx_def quiet_def)

lemma tick_intake_fields [simp]:
  "py (tick w) = py w" "icfg (tick w) = icfg w" "secrets (tick w) = secrets w" "secret_n (tick w) = secret_n w"
  by (simp_all add: tick_def)

lemma wp_fresh [wp_simps]: "wp fresh Q E w = Q (secrets w (secret_n w)) (w\<lparr>secret_n := Suc (secret_n w)\<rparr>)"
  by (simp add: wp_def fresh_def)

subsection \<open>Reading rows\<close>

definition find_row :: "('r \<Rightarrow> uuid) \<Rightarrow> ('r \<Rightarrow> uuid) \<Rightarrow> uuid \<Rightarrow> uuid \<Rightarrow> 'r list \<Rightarrow> 'r option" where
  "find_row owner key m i rows = first (\<lambda>r. owner r = m \<and> key r = i) rows"

abbreviation find_location :: "idb \<Rightarrow> uuid \<Rightarrow> uuid \<Rightarrow> location option" where
  "find_location d m i \<equiv> find_row lo_merchant lo_id m i (locations d)"

abbreviation find_integration :: "idb \<Rightarrow> uuid \<Rightarrow> uuid \<Rightarrow> integration option" where
  "find_integration d m i \<equiv> find_row ig_merchant ig_id m i (integrations d)"

abbreviation find_event :: "idb \<Rightarrow> uuid \<Rightarrow> uuid \<Rightarrow> integration_event option" where
  "find_event d m i \<equiv> find_row ie_merchant ie_id m i (events d)"

abbreviation find_customer :: "idb \<Rightarrow> uuid \<Rightarrow> uuid \<Rightarrow> customer option" where
  "find_customer d m i \<equiv> find_row cu_merchant cu_id m i (customers d)"

lemma find_rowD: "find_row owner key m i rows = Some r \<Longrightarrow> r \<in> set rows \<and> owner r = m \<and> key r = i"
  using first_SomeD unfolding find_row_def by fastforce

end
