(* ===== verification/Adapters.thy ===== *)
theory Adapters
  imports IntakeModels
begin

text \<open>
  The provider adapters of \<open>integrations/\<close>: generic webhook, CSV, REST API and Shopify, behind the
  registry of \<open>integrations/core/registry.py\<close>. An adapter is what \<open>BaseAdapter\<close> promises: verify a
  delivery, derive its idempotency key, parse the payload and normalize it to a sale.
\<close>

subsection \<open>Deliveries\<close>

text \<open>A header that is absent reads as the given default.\<close>

record delivery =
  headers :: "string \<Rightarrow> string option"
  dl_body :: string

definition header :: "delivery \<Rightarrow> string \<Rightarrow> string" where
  "header r name = (case headers r name of None \<Rightarrow> [] | Some v \<Rightarrow> v)"

definition ERR_TXN_ID :: ierror where
  "ERR_TXN_ID = payload_error ''INVALID_EXTERNAL_TRANSACTION_ID''"

text \<open>\<open>x or y\<close> of a decoded value.\<close>

definition or_else :: "json \<Rightarrow> json \<Rightarrow> json" where
  "or_else a b = (if truthy a then a else b)"

text \<open>\<open>x.get(key)\<close>: anything but a dict has no such attribute.\<close>

definition get_attr :: "json \<Rightarrow> string \<Rightarrow> ierror + json" where
  "get_attr j k = (if is_dict j then Inr (jget k j) else Inl AttributeErr)"

definition config_of :: "integration \<Rightarrow> json" where
  "config_of ig = or_else (ig_config ig) (JObj [])"

text \<open>\<open>str(x) if x is not None else None\<close>.\<close>

definition opt_str :: "pylib \<Rightarrow> json \<Rightarrow> json" where
  "opt_str lib j = (if j = JNull then JNull else JStr (py_str lib j))"

definition opt_text :: "pylib \<Rightarrow> json \<Rightarrow> string option" where
  "opt_text lib j = (if j = JNull then None else Some (py_str lib j))"

text \<open>The last steps every adapter shares, in the order the constructor call evaluates them.\<close>

definition finish_sale :: "pylib \<Rightarrow> string \<Rightarrow> string \<Rightarrow> json \<Rightarrow> string \<Rightarrow> json \<Rightarrow> json \<Rightarrow> json \<Rightarrow> json \<Rightarrow> json \<Rightarrow> ierror + sale" where
  "finish_sale lib source txn_id amount currency occurred_at phone name payment location =
     bindE (parse_amount lib amount) (\<lambda>a.
     bindE (validate_currency currency) (\<lambda>c.
     bindE (parse_occurred_at lib occurred_at) (\<lambda>t.
     sale_created source txn_id a c t phone name payment location)))"

subsection \<open>The REST adapter\<close>

definition api_blank_to_none :: "json \<Rightarrow> json" where
  "api_blank_to_none value = (case value of JStr s \<Rightarrow> if strip s = [] then JNull else JStr (strip s) | _ \<Rightarrow> value)"

definition api_event_id :: "pylib \<Rightarrow> json \<Rightarrow> ierror + string" where
  "api_event_id lib payload = (case api_blank_to_none (jget ''external_transaction_id'' payload) of
     JStr txn_id \<Rightarrow> Inr (sale_event_key (opt_text lib (api_blank_to_none (jget ''external_location_id'' payload))) txn_id)
   | _ \<Rightarrow> Inl ERR_TXN_ID)"

definition api_parse :: "json \<Rightarrow> json" where
  "api_parse payload = (let c = or_else (jget ''customer'' payload) (JObj []); customer = (if is_dict c then c else JObj []) in
     JObj [(''external_transaction_id'', api_blank_to_none (jget ''external_transaction_id'' payload)),
       (''amount'', jget ''amount'' payload), (''currency'', jget ''currency'' payload),
       (''occurred_at'', jget ''occurred_at'' payload),
       (''customer_phone'', api_blank_to_none (jget ''phone'' customer)),
       (''customer_name'', api_blank_to_none (jget ''name'' customer)),
       (''payment_method'', api_blank_to_none (jget ''payment_method'' payload)),
       (''external_location_id'', api_blank_to_none (jget ''external_location_id'' payload))])"

definition api_normalize :: "pylib \<Rightarrow> json \<Rightarrow> ierror + sale" where
  "api_normalize lib parsed = (let txn_id = jget ''external_transaction_id'' parsed in
     if \<not> truthy txn_id then Inl ERR_TXN_ID
     else finish_sale lib ''api'' (py_str lib txn_id) (jget ''amount'' parsed)
       (py_str lib (or_else (jget ''currency'' parsed) (JStr []))) (jget ''occurred_at'' parsed)
       (jget ''customer_phone'' parsed) (jget ''customer_name'' parsed) (jget ''payment_method'' parsed)
       (jget ''external_location_id'' parsed))"

definition reject_client_credentials :: "json \<Rightarrow> ierror + unit" where
  "reject_client_credentials credentials = guardE (\<not> truthy credentials)
     (App (ValidationError [(''credentials'', ''This provider does not accept client-supplied credentials.'')]))"

subsection \<open>The CSV adapter\<close>

definition REQUIRED_COLUMNS :: "string list" where
  "REQUIRED_COLUMNS = [''external_transaction_id'', ''amount'', ''currency'', ''occurred_at'']"

definition OPTIONAL_COLUMNS :: "string list" where
  "OPTIONAL_COLUMNS = [''customer_phone'', ''customer_name'', ''payment_method'', ''external_location_id'']"

definition csv_blank_to_none :: "pylib \<Rightarrow> json \<Rightarrow> json" where
  "csv_blank_to_none lib value = (if value = JNull then JNull
     else let s = strip (py_str lib value) in if s = [] then JNull else JStr s)"

definition csv_event_id :: "pylib \<Rightarrow> json \<Rightarrow> ierror + string" where
  "csv_event_id lib payload = (case csv_blank_to_none lib (jget ''external_transaction_id'' payload) of
     JStr txn_id \<Rightarrow> Inr (sale_event_key (as_str (csv_blank_to_none lib (jget ''external_location_id'' payload))) txn_id)
   | _ \<Rightarrow> Inl ERR_TXN_ID)"

definition csv_parse :: "pylib \<Rightarrow> json \<Rightarrow> json" where
  "csv_parse lib payload = JObj (map (\<lambda>key. (key, csv_blank_to_none lib (jget key payload))) (REQUIRED_COLUMNS @ OPTIONAL_COLUMNS))"

definition csv_normalize :: "pylib \<Rightarrow> json \<Rightarrow> ierror + sale" where
  "csv_normalize lib parsed = (let txn_id = jget ''external_transaction_id'' parsed in
     if txn_id = JNull then Inl ERR_TXN_ID
     else finish_sale lib ''csv'' (py_str lib txn_id) (jget ''amount'' parsed)
       (py_str lib (or_else (jget ''currency'' parsed) (JStr []))) (jget ''occurred_at'' parsed)
       (jget ''customer_phone'' parsed) (jget ''customer_name'' parsed) (jget ''payment_method'' parsed)
       (jget ''external_location_id'' parsed))"

subsection \<open>The generic webhook adapter\<close>

definition SIG_PREFIX :: string where "SIG_PREFIX = ''sha256=''"

definition webhook_required :: "string list" where
  "webhook_required = [''external_transaction_id'', ''amount'', ''occurred_at'']"

definition webhook_optional :: "string list" where
  "webhook_optional = [''currency'', ''customer_phone'', ''customer_name'', ''payment_method'', ''external_location_id'']"

definition decrypted_secret :: "pylib \<Rightarrow> integration \<Rightarrow> json" where
  "decrypted_secret lib ig = (if \<not> truthy_text (ig_credentials ig) then JNull
     else (case ig_credentials ig of None \<Rightarrow> JNull | Some c \<Rightarrow> (case decrypt lib c of
         None \<Rightarrow> JNull
       | Some text \<Rightarrow> (case loads lib text of None \<Rightarrow> JNull | Some creds \<Rightarrow> or_else (jget ''webhook_secret'' creds) JNull))))"

definition webhook_verify :: "pylib \<Rightarrow> integration \<Rightarrow> delivery \<Rightarrow> ierror + bool" where
  "webhook_verify lib ig r = (let signature = header r ''X-ReviewFlow-Signature'' in
     if take 7 signature \<noteq> SIG_PREFIX then Inr False
     else let secret = decrypted_secret lib ig in
       if \<not> truthy secret then Inr False
       else if drop 7 signature = [] then Inr False
       else (case as_str secret of
           None \<Rightarrow> Inl AttributeErr
         | Some s \<Rightarrow> Inr (verify_hmac_sha256 s (dl_body r) (drop 7 signature) Hex)))"

definition field_map :: "integration \<Rightarrow> ierror + json" where
  "field_map ig = bindE (get_attr (config_of ig) ''field_map'') (\<lambda>fm. Inr (or_else fm (JObj [])))"

text \<open>A path of the field map is split as a text.\<close>

definition follow_path :: "json \<Rightarrow> json \<Rightarrow> ierror + json" where
  "follow_path payload path = (case as_str path of None \<Rightarrow> Inl AttributeErr | Some p \<Rightarrow> Inr (resolve_path payload p))"

definition webhook_event_id :: "pylib \<Rightarrow> integration \<Rightarrow> json \<Rightarrow> ierror + string" where
  "webhook_event_id lib ig payload =
     bindE (field_map ig) (\<lambda>fm.
     bindE (if is_dict fm then Inr () else Inl AttributeErr) (\<lambda>_.
     bindE (follow_path payload (if jhas ''external_transaction_id'' fm then jget ''external_transaction_id'' fm else JStr [])) (\<lambda>txn_id.
     if txn_id = JNull \<or> py_str lib txn_id = [] then Inl ERR_TXN_ID
     else let location_path = jget ''external_location_id'' fm in
       bindE (if truthy location_path then follow_path payload location_path else Inr JNull) (\<lambda>location_id.
       Inr (sale_event_key (opt_text lib location_id) (py_str lib txn_id))))))"

fun resolve_fields :: "json \<Rightarrow> json \<Rightarrow> string list \<Rightarrow> ierror + (string \<times> json) list" where
  "resolve_fields fm payload [] = Inr []"
| "resolve_fields fm payload (key # keys) =
     bindE (if jhas key fm then follow_path payload (jget key fm) else Inr JNull) (\<lambda>v.
     bindE (resolve_fields fm payload keys) (\<lambda>rest. Inr ((key, v) # rest)))"

text \<open>\<open>validate_connection\<close> admits only a dict as field map.\<close>

definition webhook_parse :: "integration \<Rightarrow> json \<Rightarrow> ierror + json" where
  "webhook_parse ig payload = bindE (field_map ig) (\<lambda>fm.
     bindE (resolve_fields fm payload (webhook_required @ webhook_optional)) (\<lambda>resolved.
     if jget ''currency'' (JObj resolved) = JNull
     then Inr (JObj ((''currency'', jget ''default_currency'' (config_of ig)) # resolved))
     else Inr (JObj resolved)))"

definition webhook_normalize :: "pylib \<Rightarrow> json \<Rightarrow> ierror + sale" where
  "webhook_normalize lib parsed = (let txn_id = jget ''external_transaction_id'' parsed in
     if txn_id = JNull \<or> py_str lib txn_id = [] then Inl ERR_TXN_ID
     else finish_sale lib ''webhook'' (py_str lib txn_id) (jget ''amount'' parsed)
       (py_str lib (or_else (jget ''currency'' parsed) (JStr []))) (jget ''occurred_at'' parsed)
       (opt_str lib (jget ''customer_phone'' parsed)) (opt_str lib (jget ''customer_name'' parsed))
       (opt_str lib (jget ''payment_method'' parsed)) (opt_str lib (jget ''external_location_id'' parsed)))"

fun nonempty_paths :: "(string \<times> json) list \<Rightarrow> ierror + unit" where
  "nonempty_paths [] = Inr ()"
| "nonempty_paths ((key, value) # rest) =
     (if (case as_str value of None \<Rightarrow> True | Some p \<Rightarrow> p = [])
      then Inl (App (ValidationError [(''config_json'', ''field_map.'' @ key @ '' must be a non-empty string path.'')]))
      else nonempty_paths rest)"

definition config_error :: "string \<Rightarrow> ierror" where
  "config_error msg = App (ValidationError [(''config_json'', msg)])"

definition webhook_validate :: "json \<Rightarrow> json \<Rightarrow> ierror + unit" where
  "webhook_validate credentials config =
     bindE (reject_client_credentials credentials) (\<lambda>_.
     bindE (guardE (is_dict config) (config_error ''field_map is required.'')) (\<lambda>_.
     case jget ''field_map'' config of
       JObj kvs \<Rightarrow>
         bindE (nonempty_paths kvs) (\<lambda>_.
         bindE (case first (\<lambda>key. key \<notin> set (map fst kvs)) webhook_required of
             None \<Rightarrow> Inr () | Some key \<Rightarrow> Inl (config_error (''field_map.'' @ key @ '' is required.''))) (\<lambda>_.
         let default = jget ''default_currency'' config in
         bindE (guardE (default = JNull \<or> as_str default \<noteq> None) (config_error ''default_currency must be a string.'')) (\<lambda>_.
         guardE (''currency'' \<in> set (map fst kvs) \<or> truthy default) (config_error ''field_map.currency or default_currency is required.''))))
     | _ \<Rightarrow> Inl (config_error ''field_map is required.'')))"

subsection \<open>The Shopify adapter\<close>

definition shopify_verify :: "intake_settings \<Rightarrow> integration \<Rightarrow> delivery \<Rightarrow> bool" where
  "shopify_verify s ig r = (let signature = header r ''X-Shopify-Hmac-Sha256'' in
     (verify_hmac_sha256 (shopify_client_secret s) (dl_body r) signature Base64 \<or>
      shopify_client_secret_previous s \<noteq> [] \<and> verify_hmac_sha256 (shopify_client_secret_previous s) (dl_body r) signature Base64) \<and>
     JStr (header r ''X-Shopify-Shop-Domain'') = jget ''shop_domain'' (config_of ig))"

definition ORDER_ONLY_KEYS :: "string list" where
  "ORDER_ONLY_KEYS = [''line_items'', ''order_number'', ''financial_status'', ''total_price'']"

definition uninstall_payload_matches :: "integration \<Rightarrow> json \<Rightarrow> bool" where
  "uninstall_payload_matches ig payload = (case jget ''id'' payload of
     JInt i \<Rightarrow> list_all (\<lambda>key. \<not> jhas key payload) ORDER_ONLY_KEYS \<and> jget ''shop_id'' (config_of ig) = JStr (int_text i)
   | _ \<Rightarrow> False)"

definition shopify_event_id :: "delivery \<Rightarrow> ierror + string" where
  "shopify_event_id r = (let webhook_id = header r ''X-Shopify-Webhook-Id'' in
     if webhook_id = [] then Inl (App WebhookRejected) else Inr webhook_id)"

text \<open>\<open>(x or "").strip()\<close>: a value that is no text has no \<open>strip\<close>.\<close>

definition stripped :: "json \<Rightarrow> ierror + string" where
  "stripped j = (case or_else j (JStr []) of JStr s \<Rightarrow> Inr (strip s) | _ \<Rightarrow> Inl AttributeErr)"

definition none_if_blank :: "string \<Rightarrow> json" where
  "none_if_blank s = (if s = [] then JNull else JStr s)"

text \<open>\<open>str(gateways[0])[:32]\<close>.\<close>

definition first_gateway :: "pylib \<Rightarrow> json \<Rightarrow> ierror + json" where
  "first_gateway lib j = (case or_else j (JArr []) of
     JArr [] \<Rightarrow> Inr JNull
   | JArr (g # _) \<Rightarrow> Inr (JStr (take 32 (py_str lib g)))
   | JStr (c # _) \<Rightarrow> Inr (JStr [c])
   | _ \<Rightarrow> Inl TypeErr)"

definition shopify_parse :: "pylib \<Rightarrow> json \<Rightarrow> ierror + json" where
  "shopify_parse lib payload = (let customer = or_else (jget ''customer'' payload) (JObj []) in
     bindE (get_attr customer ''first_name'') (\<lambda>f.
     bindE (stripped f) (\<lambda>first_name.
     bindE (stripped (jget ''last_name'' customer)) (\<lambda>last_name.
     bindE (stripped (jget ''phone'' payload)) (\<lambda>phone.
     bindE (stripped (jget ''phone'' customer)) (\<lambda>customer_phone.
     bindE (first_gateway lib (jget ''payment_gateway_names'' payload)) (\<lambda>method.
     Inr (JObj [(''id'', jget ''id'' payload), (''total_price'', jget ''total_price'' payload),
       (''currency'', jget ''currency'' payload), (''processed_at'', jget ''processed_at'' payload),
       (''created_at'', jget ''created_at'' payload),
       (''phone'', none_if_blank phone), (''customer_phone'', none_if_blank customer_phone),
       (''customer_name'', none_if_blank (strip (first_name @ '' '' @ last_name))),
       (''payment_method'', method), (''external_location_id'', opt_str lib (jget ''location_id'' payload))]))))))))"

text \<open>Unlike the other adapters this one leaves the currency to the constructor.\<close>

definition shopify_normalize :: "pylib \<Rightarrow> json \<Rightarrow> ierror + sale" where
  "shopify_normalize lib parsed = (let txn_id = jget ''id'' parsed;
       processed = jget ''processed_at'' parsed;
       occurred_at = (if processed = JNull then jget ''created_at'' parsed else processed) in
     if txn_id = JNull \<or> py_str lib txn_id = [] then Inl ERR_TXN_ID
     else bindE (parse_amount lib (jget ''total_price'' parsed)) (\<lambda>a.
       bindE (parse_occurred_at lib occurred_at) (\<lambda>t.
       sale_created ''shopify'' (py_str lib txn_id) a (py_str lib (or_else (jget ''currency'' parsed) (JStr []))) t
         (or_else (jget ''phone'' parsed) (jget ''customer_phone'' parsed)) (jget ''customer_name'' parsed)
         (jget ''payment_method'' parsed) (jget ''external_location_id'' parsed))))"

subsection \<open>The registry\<close>

datatype adapter = WebhookAdapter | CsvAdapter | ApiAdapter | ShopifyAdapter

definition ADAPTERS :: "(string \<times> adapter) list" where
  "ADAPTERS = [(''webhook'', WebhookAdapter), (''csv'', CsvAdapter), (''api'', ApiAdapter), (''shopify'', ShopifyAdapter)]"

definition is_registered :: "string \<Rightarrow> bool" where
  "is_registered provider \<longleftrightarrow> provider \<in> set (map fst ADAPTERS)"

definition get_adapter :: "string \<Rightarrow> ierror + adapter" where
  "get_adapter provider = (case map_of ADAPTERS provider of None \<Rightarrow> Inl (App AdapterNotFound) | Some a \<Rightarrow> Inr a)"

definition verify :: "pylib \<Rightarrow> intake_settings \<Rightarrow> adapter \<Rightarrow> integration \<Rightarrow> delivery \<Rightarrow> ierror + bool" where
  "verify lib s a ig r = (case a of
     WebhookAdapter \<Rightarrow> webhook_verify lib ig r
   | CsvAdapter \<Rightarrow> Inr False
   | ApiAdapter \<Rightarrow> Inr False
   | ShopifyAdapter \<Rightarrow> Inr (shopify_verify s ig r))"

definition is_sale_event :: "adapter \<Rightarrow> delivery \<Rightarrow> bool" where
  "is_sale_event a r = (case a of ShopifyAdapter \<Rightarrow> headers r ''X-Shopify-Topic'' = Some ''orders/paid'' | _ \<Rightarrow> True)"

definition is_uninstall_event :: "adapter \<Rightarrow> delivery \<Rightarrow> bool" where
  "is_uninstall_event a r = (case a of ShopifyAdapter \<Rightarrow> headers r ''X-Shopify-Topic'' = Some ''app/uninstalled'' | _ \<Rightarrow> False)"

definition get_external_event_id :: "pylib \<Rightarrow> adapter \<Rightarrow> integration \<Rightarrow> delivery \<Rightarrow> json \<Rightarrow> ierror + string" where
  "get_external_event_id lib a ig r payload = (case a of
     WebhookAdapter \<Rightarrow> webhook_event_id lib ig payload
   | CsvAdapter \<Rightarrow> csv_event_id lib payload
   | ApiAdapter \<Rightarrow> api_event_id lib payload
   | ShopifyAdapter \<Rightarrow> shopify_event_id r)"

text \<open>\<open>adapter.normalize(adapter.parse(payload))\<close>.\<close>

definition to_sale :: "pylib \<Rightarrow> adapter \<Rightarrow> integration \<Rightarrow> json \<Rightarrow> ierror + sale" where
  "to_sale lib a ig payload = (case a of
     WebhookAdapter \<Rightarrow> bindE (webhook_parse ig payload) (webhook_normalize lib)
   | CsvAdapter \<Rightarrow> csv_normalize lib (csv_parse lib payload)
   | ApiAdapter \<Rightarrow> api_normalize lib (api_parse payload)
   | ShopifyAdapter \<Rightarrow> bindE (shopify_parse lib payload) (shopify_normalize lib))"

definition validate_connection :: "adapter \<Rightarrow> json \<Rightarrow> json \<Rightarrow> ierror + unit" where
  "validate_connection a credentials config = (case a of
     WebhookAdapter \<Rightarrow> webhook_validate credentials config
   | ShopifyAdapter \<Rightarrow> Inl (config_error (''The Shopify integration'' @ [CHR 0x27] @ ''s config is server-managed and cannot be edited.''))
   | _ \<Rightarrow> reject_client_credentials credentials)"

text \<open>The generic webhook's signing secret, generated by the server.\<close>

definition issue_credentials :: "adapter \<Rightarrow> json option iprog" where
  "issue_credentials a = (case a of
     WebhookAdapter \<Rightarrow> bindM fresh (\<lambda>token. ret (Some (JObj [(''webhook_secret'', JStr (''whsec_'' @ token))])))
   | _ \<Rightarrow> ret None)"

lemma to_sale_ok: "to_sale lib a ig payload = Inr s \<Longrightarrow> sale_ok s"
  by (cases a)
    (auto simp: to_sale_def bindE_Inr webhook_normalize_def csv_normalize_def api_normalize_def shopify_normalize_def
      finish_sale_def Let_def split: if_splits intro: sale_created_ok)

end
