(* ===== verification/IntakeStore.thy ===== *)
theory IntakeStore
  imports Adapters
begin

text \<open>
  The statements of the intake services on their tables: tenant-scoped reads, inserts under the unique
  constraints and column widths, updates of selected rows, and the audit row. The locale at the end is
  what a frame relation has to meet on them.
\<close>

subsection \<open>Reads and checks\<close>

definition scoped :: "(uuid \<Rightarrow> idb \<Rightarrow> 'a) \<Rightarrow> 'a iprog" where
  "scoped f = (\<lambda>w. case merchant_var (ctx w) of
     None \<Rightarrow> (Inl TenantContextError, w) | Some m \<Rightarrow> (Inr (f m (db w)), w))"

text \<open>The \<open>WITH CHECK\<close> of the tenant policies (\<open>core/rls.py\<close>).\<close>

definition with_check :: "uuid \<Rightarrow> unit iprog" where
  "with_check m = (\<lambda>w. if merchant_var (ctx w) = Some m then (Inr (), w) else (Inl DatabaseErr, w))"

definition require_row :: "ierror \<Rightarrow> 'r option \<Rightarrow> 'r iprog" where
  "require_row e r = (case r of None \<Rightarrow> throw e | Some x \<Rightarrow> ret x)"

definition wait_for_insert :: "unit iprog" where
  "wait_for_insert = modifyM interfere"

text \<open>PostgreSQL's \<open>jsonb\<close> holds no NUL character.\<close>

definition no_nul :: "string \<Rightarrow> bool" where
  "no_nul s \<longleftrightarrow> CHR 0x00 \<notin> set s"

fun jsonb_ok :: "json \<Rightarrow> bool" where
  "jsonb_ok (JStr s) = no_nul s"
| "jsonb_ok (JArr xs) = list_all jsonb_ok xs"
| "jsonb_ok (JObj kvs) = list_all (\<lambda>kv. no_nul (fst kv) \<and> jsonb_ok (snd kv)) kvs"
| "jsonb_ok _ = True"

fun fits_text :: "nat \<Rightarrow> string option \<Rightarrow> bool" where
  "fits_text n None = True"
| "fits_text n (Some s) = (length s \<le> n)"

subsection \<open>Updates\<close>

definition update_rows :: "('r \<Rightarrow> uuid) \<Rightarrow> uuid \<Rightarrow> ('r \<Rightarrow> bool) \<Rightarrow> ('r \<Rightarrow> 'r) \<Rightarrow> 'r list \<Rightarrow> 'r list" where
  "update_rows owner m P f rows = map (\<lambda>r. if owner r = m \<and> P r then f r else r) rows"

definition update_events :: "(integration_event \<Rightarrow> bool) \<Rightarrow> (integration_event \<Rightarrow> integration_event) \<Rightarrow> unit iprog" where
  "update_events P f = bindM (scoped (\<lambda>m d. m)) (\<lambda>m.
     modifyM (\<lambda>w. w\<lparr>db := (db w)\<lparr>events := update_rows ie_merchant m P f (events (db w))\<rparr>\<rparr>))"

definition update_customers :: "(customer \<Rightarrow> bool) \<Rightarrow> (customer \<Rightarrow> customer) \<Rightarrow> unit iprog" where
  "update_customers P f = bindM (scoped (\<lambda>m d. m)) (\<lambda>m.
     modifyM (\<lambda>w. w\<lparr>db := (db w)\<lparr>customers := update_rows cu_merchant m P f (customers (db w))\<rparr>\<rparr>))"

definition update_integrations :: "(integration \<Rightarrow> bool) \<Rightarrow> (integration \<Rightarrow> integration) \<Rightarrow> unit iprog" where
  "update_integrations P f = bindM (scoped (\<lambda>m d. m)) (\<lambda>m.
     modifyM (\<lambda>w. w\<lparr>db := (db w)\<lparr>integrations := update_rows ig_merchant m P f (integrations (db w))\<rparr>\<rparr>))"

definition update_mappings :: "(location_mapping \<Rightarrow> bool) \<Rightarrow> (location_mapping \<Rightarrow> location_mapping) \<Rightarrow> unit iprog" where
  "update_mappings P f = bindM (scoped (\<lambda>m d. m)) (\<lambda>m.
     modifyM (\<lambda>w. w\<lparr>db := (db w)\<lparr>mappings := update_rows lm_merchant m P f (mappings (db w))\<rparr>\<rparr>))"

definition delete_mappings :: "(location_mapping \<Rightarrow> bool) \<Rightarrow> unit iprog" where
  "delete_mappings P = bindM (scoped (\<lambda>m d. m)) (\<lambda>m.
     modifyM (\<lambda>w. w\<lparr>db := (db w)\<lparr>mappings := filter (\<lambda>r. \<not> (lm_merchant r = m \<and> P r)) (mappings (db w))\<rparr>\<rparr>))"

definition update_locations :: "(location \<Rightarrow> bool) \<Rightarrow> (location \<Rightarrow> location) \<Rightarrow> unit iprog" where
  "update_locations P f = bindM (scoped (\<lambda>m d. m)) (\<lambda>m.
     modifyM (\<lambda>w. w\<lparr>db := (db w)\<lparr>locations := update_rows lo_merchant m P f (locations (db w))\<rparr>\<rparr>))"

text \<open>\<open>obj.save(update_fields=...)\<close>: an update by primary key, which fails when no row matches.\<close>

definition save_event :: "uuid \<Rightarrow> (instant \<Rightarrow> integration_event \<Rightarrow> integration_event) \<Rightarrow> unit iprog" where
  "save_event i f = bindM now (\<lambda>t. bindM (scoped (\<lambda>m d. find_event d m i)) (\<lambda>r.
     if r = None then throw DatabaseErr else update_events (\<lambda>e. ie_id e = i) (\<lambda>e. (f t e)\<lparr>ie_updated_at := t\<rparr>)))"

definition save_integration :: "uuid \<Rightarrow> (integration \<Rightarrow> integration) \<Rightarrow> unit iprog" where
  "save_integration i f = bindM now (\<lambda>t. bindM (scoped (\<lambda>m d. find_integration d m i)) (\<lambda>r.
     if r = None then throw DatabaseErr else update_integrations (\<lambda>x. ig_id x = i) (\<lambda>x. (f x)\<lparr>ig_updated_at := t\<rparr>)))"

definition save_location :: "uuid \<Rightarrow> (location \<Rightarrow> location) \<Rightarrow> unit iprog" where
  "save_location i f = bindM now (\<lambda>t. bindM (scoped (\<lambda>m d. find_location d m i)) (\<lambda>r.
     if r = None then throw DatabaseErr else update_locations (\<lambda>x. lo_id x = i) (\<lambda>x. (f x)\<lparr>lo_updated_at := t\<rparr>)))"

subsection \<open>Inserts\<close>

definition same_event_key :: "integration_event \<Rightarrow> integration_event \<Rightarrow> bool" where
  "same_event_key e q \<longleftrightarrow> ie_integration q = ie_integration e \<and> ie_external_id q = ie_external_id e"

definition insert_event :: "integration_event \<Rightarrow> unit iprog" where
  "insert_event e = seqM (with_check (ie_merchant e)) (seqM wait_for_insert (\<lambda>w.
     if 255 < length (ie_external_id e) \<or> \<not> jsonb_ok (ie_payload e) then (Inl DataErr, w)
     else if list_ex (same_event_key e) (events (db w))
     then (Inl (UniqueViolation ''uniq_integrationevent_integration_external_event''), w)
     else (Inr (), w\<lparr>db := (db w)\<lparr>events := events (db w) @ [e]\<rparr>\<rparr>)))"

definition same_customer_key :: "customer \<Rightarrow> customer \<Rightarrow> bool" where
  "same_customer_key c q \<longleftrightarrow> cu_merchant q = cu_merchant c \<and> cu_phone q = cu_phone c"

definition insert_customer :: "customer \<Rightarrow> unit iprog" where
  "insert_customer c = seqM (with_check (cu_merchant c)) (seqM wait_for_insert (\<lambda>w.
     if 16 < length (cu_phone c) \<or> \<not> fits_text 255 (cu_name c) then (Inl DataErr, w)
     else if list_ex (same_customer_key c) (customers (db w)) then (Inl (UniqueViolation ''uniq_customer_merchant_phone''), w)
     else (Inr (), w\<lparr>db := (db w)\<lparr>customers := customers (db w) @ [c]\<rparr>\<rparr>)))"

definition same_sale_key :: "sale_row \<Rightarrow> sale_row \<Rightarrow> bool" where
  "same_sale_key t q \<longleftrightarrow> tx_location q = tx_location t \<and> tx_external_id q = tx_external_id t"

definition insert_sale :: "sale_row \<Rightarrow> unit iprog" where
  "insert_sale t = seqM (with_check (tx_merchant t)) (seqM wait_for_insert (\<lambda>w.
     if 255 < length (tx_external_id t) \<or> 3 < length (tx_currency t) \<or> \<not> fits_text 32 (tx_payment_method t) then (Inl DataErr, w)
     else if list_ex (same_sale_key t) (sales (db w)) then (Inl (UniqueViolation ''uniq_transaction_location_external_txn''), w)
     else (Inr (), w\<lparr>db := (db w)\<lparr>sales := sales (db w) @ [t]\<rparr>\<rparr>)))"

text \<open>At most one connected \<open>api\<close> integration per merchant.\<close>

definition connected_api :: "integration \<Rightarrow> bool" where
  "connected_api ig \<longleftrightarrow> ig_provider ig = ''api'' \<and> ig_status ig = Connected"

definition insert_integration :: "integration \<Rightarrow> unit iprog" where
  "insert_integration ig = seqM (with_check (ig_merchant ig)) (seqM wait_for_insert (\<lambda>w.
     if 32 < length (ig_provider ig) \<or> \<not> jsonb_ok (ig_config ig) then (Inl DataErr, w)
     else if connected_api ig \<and> list_ex (\<lambda>q. ig_merchant q = ig_merchant ig \<and> connected_api q) (integrations (db w))
     then (Inl (UniqueViolation ''uniq_integration_merchant_connected_api''), w)
     else (Inr (), w\<lparr>db := (db w)\<lparr>integrations := integrations (db w) @ [ig]\<rparr>\<rparr>)))"

definition same_mapping_key :: "location_mapping \<Rightarrow> location_mapping \<Rightarrow> bool" where
  "same_mapping_key p q \<longleftrightarrow> lm_integration q = lm_integration p \<and> lm_location q = lm_location p"

definition insert_mapping :: "location_mapping \<Rightarrow> unit iprog" where
  "insert_mapping p = seqM (with_check (lm_merchant p)) (seqM wait_for_insert (\<lambda>w.
     if \<not> jsonb_ok (lm_config p) then (Inl DataErr, w)
     else if list_ex (same_mapping_key p) (mappings (db w))
     then (Inl (UniqueViolation ''uniq_integrationlocationmapping_integration_location''), w)
     else (Inr (), w\<lparr>db := (db w)\<lparr>mappings := mappings (db w) @ [p]\<rparr>\<rparr>)))"

definition insert_location :: "location \<Rightarrow> unit iprog" where
  "insert_location l = seqM (with_check (lo_merchant l)) (\<lambda>w.
     if 255 < length (lo_name l) \<or> \<not> fits_text 500 (lo_address l) \<or> \<not> fits_text 32 (lo_phone l) \<or> \<not> fits_text 64 (lo_timezone l)
     then (Inl DataErr, w)
     else (Inr (), w\<lparr>db := (db w)\<lparr>locations := locations (db w) @ [l]\<rparr>\<rparr>))"

text \<open>\<open>record()\<close> of \<open>auditlog/services.py\<close> with an integration as target.\<close>

definition audit_integration :: "string \<Rightarrow> uuid option \<Rightarrow> integration \<Rightarrow> (string \<times> json) list \<Rightarrow> unit iprog" where
  "audit_integration action actor ig metadata =
     tenant_atomic False (bindM (scoped (\<lambda>m d. (m, i_members d))) (\<lambda>(m, ms).
       if (case actor of None \<Rightarrow> False | Some u \<Rightarrow> (m, u) \<notin> set ms) then throw ActorNotMember
       else modifyM (\<lambda>w. w\<lparr>db := (db w)\<lparr>i_audit := i_audit (db w) @
         [\<lparr>al_merchant = Some m, al_actor_user = actor, al_action = action, al_target_type = Some ''integrations.integration'',
           al_target_id = Some (ig_id ig), al_metadata = metadata\<rparr>]\<rparr>\<rparr>)))"

text \<open>\<open>with transaction.atomic(): create(...)\<close> followed by \<open>except IntegrityError\<close>: whether the row is new.\<close>

definition create_or_conflict :: "unit iprog \<Rightarrow> bool iprog" where
  "create_or_conflict create = catchM (bindM (atomic create) (\<lambda>_. ret True))
     (\<lambda>e. if integrity_error e then Some (ret False) else None)"

end
