(* ===== verification/Sales.thy ===== *)
theory Sales
  imports IntakeStore
begin

text \<open>
  \<open>locations/services.py\<close> and \<open>customers/services.py\<close>: which locations an actor sees, the soft-deleted
  locations, and the customers a sale brings with it.
\<close>

subsection \<open>Locations\<close>

definition visible_location :: "team_member \<Rightarrow> uuid \<Rightarrow> idb \<Rightarrow> location \<Rightarrow> bool" where
  "visible_location actor m d l \<longleftrightarrow> lo_merchant l = m \<and> (tm_role actor = MANAGER \<longrightarrow> (tm_id actor, lo_id l) \<in> set (assignments d))"

definition accessible_locations :: "team_member \<Rightarrow> location list iprog" where
  "accessible_locations actor = scoped (\<lambda>m d. filter (visible_location actor m d) (locations d))"

definition get_accessible_location :: "team_member \<Rightarrow> uuid \<Rightarrow> location iprog" where
  "get_accessible_location actor location_id = bindM (accessible_locations actor) (\<lambda>ls.
     require_row (App LocationNotFound) (first (\<lambda>l. lo_id l = location_id) ls))"

definition validate_timezone :: "string \<Rightarrow> unit iprog" where
  "validate_timezone value = bindM (asks py) (\<lambda>lib.
     if available_timezones lib value then ret ()
     else throw (App (ValidationError [(''timezone'', ''Must be a valid IANA time zone name.'')])))"

definition check_timezone :: "string option \<Rightarrow> unit iprog" where
  "check_timezone tz = (case tz of None \<Rightarrow> ret () | Some v \<Rightarrow> validate_timezone v)"

definition create_location :: "string \<Rightarrow> string option \<Rightarrow> string option \<Rightarrow> string option \<Rightarrow> location iprog" where
  "create_location name address phone tz = seqM (check_timezone tz)
     (tenant_atomic False (bindM (scoped (\<lambda>m d. m)) (\<lambda>m.
        bindM fresh (\<lambda>i. bindM now (\<lambda>t.
        let l = \<lparr>lo_id = i, lo_merchant = m, lo_name = name, lo_address = address, lo_phone = phone,
          lo_timezone = tz, lo_active = True, lo_updated_at = t\<rparr> in
        seqM (insert_location l) (ret l))))))"

text \<open>\<open>None\<close> stands for an argument that was not given (\<open>_UNSET\<close>).\<close>

record location_changes =
  ch_name :: "string option"
  ch_address :: "string option option"
  ch_phone :: "string option option"
  ch_timezone :: "string option option"

definition set_if :: "'a option \<Rightarrow> 'a \<Rightarrow> 'a" where
  "set_if new old = (case new of None \<Rightarrow> old | Some x \<Rightarrow> x)"

definition changed_location :: "location_changes \<Rightarrow> location \<Rightarrow> location" where
  "changed_location c l = l\<lparr>lo_name := set_if (ch_name c) (lo_name l), lo_address := set_if (ch_address c) (lo_address l),
     lo_phone := set_if (ch_phone c) (lo_phone l), lo_timezone := set_if (ch_timezone c) (lo_timezone l)\<rparr>"

definition no_changes :: "location_changes \<Rightarrow> bool" where
  "no_changes c \<longleftrightarrow> ch_name c = None \<and> ch_address c = None \<and> ch_phone c = None \<and> ch_timezone c = None"

definition update_location :: "location \<Rightarrow> location_changes \<Rightarrow> location iprog" where
  "update_location l c = seqM (check_timezone (case ch_timezone c of None \<Rightarrow> None | Some tz \<Rightarrow> tz))
     (seqM (whenM (\<not> no_changes c) (save_location (lo_id l) (changed_location c))) (ret (changed_location c l)))"

definition deactivate_location :: "location \<Rightarrow> unit iprog" where
  "deactivate_location l = whenM (lo_active l) (save_location (lo_id l) (\<lambda>x. x\<lparr>lo_active := False\<rparr>))"

subsection \<open>Customers\<close>

text \<open>\<open>CharField\<close> stores \<open>str(value)\<close>.\<close>

definition new_customer :: "pylib \<Rightarrow> uuid \<Rightarrow> string \<Rightarrow> json \<Rightarrow> uuid \<Rightarrow> instant \<Rightarrow> customer" where
  "new_customer lib m phone name i t = \<lparr>cu_id = i, cu_merchant = m, cu_phone = phone, cu_name = opt_text lib name,
     cu_first_seen = None, cu_last_seen = None, cu_total = 0, cu_opted_out = False, cu_opted_out_at = None, cu_updated_at = t\<rparr>"

definition insert_or_get_customer :: "customer \<Rightarrow> (customer \<times> bool) iprog" where
  "insert_or_get_customer c = bindM (create_or_conflict (insert_customer c)) (\<lambda>created.
     if created then ret (c, True)
     else bindM (bindM (scoped (\<lambda>m d. first (\<lambda>x. cu_merchant x = m \<and> cu_phone x = cu_phone c) (customers d))) (require_row DoesNotExist)) (\<lambda>x.
       ret (x, False)))"

definition get_or_create_customer :: "string \<Rightarrow> json \<Rightarrow> (customer \<times> bool) iprog" where
  "get_or_create_customer phone name = bindM (liftE (validate_e164 phone)) (\<lambda>_.
     tenant_atomic False (bindM (scoped (\<lambda>m d. m)) (\<lambda>m. bindM (asks py) (\<lambda>lib. bindM fresh (\<lambda>i. bindM now (\<lambda>t.
       insert_or_get_customer (new_customer lib m phone name i t)))))))"

definition OPT_OUT_SOURCES :: "string list" where
  "OPT_OUT_SOURCES = [''INBOUND_KEYWORD'', ''MANUAL'']"

definition get_customer :: "uuid \<Rightarrow> customer iprog" where
  "get_customer customer_id = bindM (tenant_atomic False (scoped (\<lambda>m d. find_customer d m customer_id))) (require_row (App CustomerNotFound))"

definition opt_out_customer :: "string option \<Rightarrow> customer option \<Rightarrow> string \<Rightarrow> customer option iprog" where
  "opt_out_customer phone customer source = (
     if source \<notin> set OPT_OUT_SOURCES then throw ValueErr
     else if (phone = None) = (customer = None) then throw ValueErr
     else tenant_atomic False (bindM now (\<lambda>t.
       let wanted = (\<lambda>c. case customer of Some x \<Rightarrow> cu_id c = cu_id x | None \<Rightarrow> Some (cu_phone c) = phone) in
       seqM (update_customers (\<lambda>c. wanted c \<and> \<not> cu_opted_out c)
           (\<lambda>c. c\<lparr>cu_opted_out := True, cu_opted_out_at := Some t, cu_updated_at := t\<rparr>))
         (scoped (\<lambda>m d. first (\<lambda>c. cu_merchant c = m \<and> wanted c) (customers d))))))"

text \<open>
  \<open>transactions/services.py\<close>: the recording of a normalized sale, in one transaction with the customer it
  belongs to, and the readers of the sales.
\<close>

subsection \<open>Recording\<close>

definition least_seen :: "instant \<Rightarrow> instant option \<Rightarrow> instant" where
  "least_seen t x = (case x of None \<Rightarrow> t | Some y \<Rightarrow> min y t)"

definition greatest_seen :: "instant \<Rightarrow> instant option \<Rightarrow> instant" where
  "greatest_seen t x = (case x of None \<Rightarrow> t | Some y \<Rightarrow> max y t)"

definition count_sale :: "instant \<Rightarrow> customer \<Rightarrow> customer" where
  "count_sale t c = c\<lparr>cu_total := Suc (cu_total c), cu_first_seen := Some (least_seen t (cu_first_seen c)),
     cu_last_seen := Some (greatest_seen t (cu_last_seen c))\<rparr>"

definition sale_customer :: "sale \<Rightarrow> customer option iprog" where
  "sale_customer s = (case sa_phone s of
     None \<Rightarrow> ret None
   | Some phone \<Rightarrow> if phone = [] then ret None
       else bindM (get_or_create_customer phone (sa_name s)) (\<lambda>(c, _). ret (Some c)))"

definition sale_row_of :: "pylib \<Rightarrow> uuid \<Rightarrow> instant \<Rightarrow> uuid \<Rightarrow> integration \<Rightarrow> location \<Rightarrow> customer option \<Rightarrow> sale \<Rightarrow> sale_row" where
  "sale_row_of lib i t m ig l c s = \<lparr>tx_id = i, tx_merchant = m, tx_location = lo_id l, tx_customer = map_option cu_id c,
     tx_integration = Some (ig_id ig), tx_external_id = sa_external_id s, tx_amount = cents (sa_amount s),
     tx_currency = sa_currency s, tx_payment_method = opt_text lib (sa_payment_method s), tx_status = Completed,
     tx_occurred_at = sa_occurred_at s, tx_created_at = t\<rparr>"

definition count_for :: "customer option \<Rightarrow> sale \<Rightarrow> unit iprog" where
  "count_for customer s = (case customer of
     None \<Rightarrow> ret ()
   | Some c \<Rightarrow> seqM (update_customers (\<lambda>x. cu_id x = cu_id c) (count_sale (sa_occurred_at s)))
       (bindM (bindM (scoped (\<lambda>m d. find_customer d m (cu_id c))) (require_row DoesNotExist)) (\<lambda>_. ret ())))"

definition insert_or_get_sale :: "sale_row \<Rightarrow> customer option \<Rightarrow> sale \<Rightarrow> (sale_row \<times> bool) iprog" where
  "insert_or_get_sale row customer s = bindM (create_or_conflict (insert_sale row)) (\<lambda>created.
     if created then seqM (count_for customer s) (ret (row, True))
     else bindM (bindM (scoped (\<lambda>m d. first (\<lambda>x. tx_merchant x = m \<and> tx_location x = tx_location row \<and>
              tx_external_id x = tx_external_id row) (sales d))) (require_row DoesNotExist)) (\<lambda>x. ret (x, False)))"

text \<open>The guards against a mismatched tenant context.\<close>

definition same_tenant :: "uuid option \<Rightarrow> integration \<Rightarrow> location \<Rightarrow> customer option \<Rightarrow> bool" where
  "same_tenant merchant ig l customer \<longleftrightarrow> Some (lo_merchant l) = merchant \<and> Some (ig_merchant ig) = merchant \<and>
     (case customer of None \<Rightarrow> True | Some c \<Rightarrow> Some (cu_merchant c) = merchant)"

definition record_sale :: "integration \<Rightarrow> location \<Rightarrow> sale \<Rightarrow> (sale_row \<times> bool) iprog" where
  "record_sale ig l s = bindM get_current_merchant_id (\<lambda>merchant.
     tenant_atomic False (bindM (sale_customer s) (\<lambda>customer.
       if \<not> same_tenant merchant ig l customer then throw TenantContextError
       else bindM (asks py) (\<lambda>lib. bindM fresh (\<lambda>i. bindM now (\<lambda>t.
         insert_or_get_sale (sale_row_of lib i t (lo_merchant l) ig l customer s) customer s))))))"

subsection \<open>Reading\<close>

record sale_filter =
  sf_location :: "uuid option"
  sf_from :: "instant option"
  sf_to :: "instant option"
  sf_status :: "transaction_status option"

definition apply_filters :: "sale_filter \<Rightarrow> sale_row \<Rightarrow> bool" where
  "apply_filters f t \<longleftrightarrow>
     (case sf_location f of None \<Rightarrow> True | Some l \<Rightarrow> tx_location t = l) \<and>
     (case sf_from f of None \<Rightarrow> True | Some a \<Rightarrow> a \<le> tx_occurred_at t) \<and>
     (case sf_to f of None \<Rightarrow> True | Some b \<Rightarrow> tx_occurred_at t \<le> b) \<and>
     (case sf_status f of None \<Rightarrow> True | Some s \<Rightarrow> tx_status t = s)"

text \<open>\<open>order_by("-created_at")\<close>.\<close>

definition newest_first :: "sale_row list \<Rightarrow> sale_row list" where
  "newest_first ts = sort_key (\<lambda>t. - tx_created_at t) ts"

definition list_transactions :: "team_member \<Rightarrow> sale_filter \<Rightarrow> sale_row list iprog" where
  "list_transactions actor f = bindM (accessible_locations actor) (\<lambda>ls.
     scoped (\<lambda>m d. newest_first (filter (\<lambda>t. tx_merchant t = m \<and> tx_location t \<in> set (map lo_id ls) \<and> apply_filters f t) (sales d))))"

definition list_sales :: "sale_filter \<Rightarrow> sale_row list iprog" where
  "list_sales f = scoped (\<lambda>m d. newest_first (filter (\<lambda>t. tx_merchant t = m \<and> apply_filters f t) (sales d)))"

definition get_transaction :: "team_member \<Rightarrow> uuid \<Rightarrow> sale_row iprog" where
  "get_transaction actor transaction_id = bindM (accessible_locations actor) (\<lambda>ls.
     bindM (scoped (\<lambda>m d. first (\<lambda>t. tx_merchant t = m \<and> tx_location t \<in> set (map lo_id ls) \<and> tx_id t = transaction_id) (sales d)))
       (require_row (App TransactionNotFound)))"

end
