(* ===== verification/Integrations.thy ===== *)
theory Integrations
  imports Sales
begin

text \<open>
  \<open>integrations/services.py\<close> without the intake paths: connecting and disconnecting a provider, its
  configuration, its location mappings, and the resolution of a sale's location.
\<close>

definition AUDIT_CONNECTED :: string where "AUDIT_CONNECTED = ''integration.connected''"
definition AUDIT_DISCONNECTED :: string where "AUDIT_DISCONNECTED = ''integration.disconnected''"

subsection \<open>Connecting\<close>

definition assert_generic_connect_allowed :: "string \<Rightarrow> unit iprog" where
  "assert_generic_connect_allowed provider = (if provider = ''shopify'' then throw (App ShopifyConnectNotSupported) else ret ())"

definition stored_credentials :: "pylib \<Rightarrow> json option \<Rightarrow> json \<Rightarrow> string option" where
  "stored_credentials lib issued credentials = (let stored = (case issued of None \<Rightarrow> credentials | Some c \<Rightarrow> c) in
     if truthy stored then Some (encrypt lib (dumps lib stored)) else None)"

definition connect_integration :: "uuid \<Rightarrow> string \<Rightarrow> json \<Rightarrow> json \<Rightarrow> (integration \<times> json option) iprog" where
  "connect_integration actor provider credentials config = seqM (assert_generic_connect_allowed provider)
     (if provider \<notin> set PROVIDERS \<or> \<not> is_registered provider
      then throw (App (ValidationError [(''provider'', ''This provider is not available.'')]))
      else bindM (liftE (get_adapter provider)) (\<lambda>a.
        seqM (liftE (validate_connection a credentials config))
        (bindM (issue_credentials a) (\<lambda>issued.
        tenant_atomic False (bindM (asks py) (\<lambda>lib. bindM (scoped (\<lambda>m d. m)) (\<lambda>m. bindM fresh (\<lambda>i. bindM now (\<lambda>t.
          let ig = \<lparr>ig_id = i, ig_merchant = m, ig_provider = provider, ig_status = Connected,
            ig_credentials = stored_credentials lib issued credentials, ig_config = config, ig_updated_at = t\<rparr> in
          bindM (create_or_conflict (insert_integration ig)) (\<lambda>created.
            if \<not> created then throw (App IntegrationExists)
            else seqM (audit_integration AUDIT_CONNECTED (Some actor) ig [(''provider'', JStr provider)]) (ret (ig, issued))))))))))))"

definition get_integration :: "uuid \<Rightarrow> integration iprog" where
  "get_integration integration_id = bindM (scoped (\<lambda>m d. find_integration d m integration_id)) (require_row (App IntegrationNotFound))"

definition list_integrations :: "integration list iprog" where
  "list_integrations = scoped (\<lambda>m d. filter (\<lambda>ig. ig_merchant ig = m) (integrations d))"

definition update_integration_config :: "integration \<Rightarrow> json \<Rightarrow> integration iprog" where
  "update_integration_config ig config = bindM (liftE (get_adapter (ig_provider ig))) (\<lambda>a.
     seqM (liftE (validate_connection a JNull config))
       (if \<not> jsonb_ok config then throw DataErr
        else seqM (save_integration (ig_id ig) (\<lambda>x. x\<lparr>ig_config := config\<rparr>)) (ret (ig\<lparr>ig_config := config\<rparr>))))"

subsection \<open>Disconnecting\<close>

definition lock_integration :: "uuid \<Rightarrow> integration iprog" where
  "lock_integration i = seqM take_row_lock (bindM (scoped (\<lambda>m d. find_integration d m i)) (require_row DoesNotExist))"

definition pending_event :: "uuid \<Rightarrow> integration_event \<Rightarrow> bool" where
  "pending_event i e \<longleftrightarrow> ie_integration e = i \<and> (ie_status e = Received \<or> ie_status e = Failed)"

definition cancel_pending :: "uuid \<Rightarrow> unit iprog" where
  "cancel_pending i = bindM now (\<lambda>t. update_events (pending_event i) (\<lambda>e. e\<lparr>ie_status := CancelledEvent, ie_updated_at := t\<rparr>))"

definition disconnect_metadata :: "string \<Rightarrow> string option \<Rightarrow> (string \<times> json) list" where
  "disconnect_metadata provider reason = (''provider'', JStr provider) # (case reason of None \<Rightarrow> [] | Some r \<Rightarrow> [(''reason'', JStr r)])"

definition disconnect_integration :: "uuid option \<Rightarrow> integration \<Rightarrow> string option \<Rightarrow> unit iprog" where
  "disconnect_integration actor ig reason = tenant_atomic False (bindM (lock_integration (ig_id ig)) (\<lambda>row.
     if ig_status row = Disconnected then ret ()
     else seqM (save_integration (ig_id row) (\<lambda>x. x\<lparr>ig_status := Disconnected, ig_credentials := None\<rparr>))
       (seqM (update_mappings (\<lambda>p. lm_integration p = ig_id row) (\<lambda>p. p\<lparr>lm_active := False\<rparr>))
       (seqM (cancel_pending (ig_id row))
         (audit_integration AUDIT_DISCONNECTED actor row (disconnect_metadata (ig_provider row) reason))))))"

subsection \<open>Location mappings\<close>

definition location_error :: "string \<Rightarrow> ierror" where
  "location_error f = App (ValidationError [(f, ''One or more locations were not found.'')])"

definition assert_same_merchant :: "integration \<Rightarrow> location \<Rightarrow> string \<Rightarrow> unit iprog" where
  "assert_same_merchant ig l f = bindM get_current_merchant_id (\<lambda>m.
     if Some (ig_merchant ig) \<noteq> m \<or> Some (lo_merchant l) \<noteq> m then throw (location_error f) else ret ())"

definition mapped_external_id :: "location_mapping \<Rightarrow> json" where
  "mapped_external_id p = jget ''external_location_id'' (or_else (lm_config p) (JObj []))"

definition active_mappings :: "uuid \<Rightarrow> uuid \<Rightarrow> idb \<Rightarrow> location_mapping list" where
  "active_mappings i m d = filter (\<lambda>p. lm_merchant p = m \<and> lm_integration p = i \<and> lm_active p) (mappings d)"

definition validate_external_location_id :: "integration \<Rightarrow> json \<Rightarrow> bool \<Rightarrow> unit iprog" where
  "validate_external_location_id ig config is_active = (
     if \<not> is_active \<or> \<not> truthy config then ret ()
     else let ext_id = jget ''external_location_id'' config in
       if ext_id = JNull then ret ()
       else if as_str ext_id = None then throw (config_error ''external_location_id must be a string.'')
       else bindM (scoped (\<lambda>m d. list_ex (\<lambda>p. jget ''external_location_id'' (lm_config p) = ext_id) (active_mappings (ig_id ig) m d))) (\<lambda>taken.
         if taken then throw (config_error ''external_location_id must be unique among the active mappings.'') else ret ()))"

definition add_location_mapping :: "integration \<Rightarrow> uuid \<Rightarrow> json \<Rightarrow> bool \<Rightarrow> location_mapping iprog" where
  "add_location_mapping ig location_id config is_active = tenant_atomic False (bindM (lock_integration (ig_id ig)) (\<lambda>row.
     bindM (bindM (scoped (\<lambda>m d. find_location d m location_id)) (require_row (location_error ''location_id''))) (\<lambda>l.
     seqM (assert_same_merchant row l ''location_id'')
     (seqM (validate_external_location_id row config is_active)
     (let p = \<lparr>lm_merchant = ig_merchant row, lm_integration = ig_id row, lm_location = lo_id l, lm_config = config, lm_active = is_active\<rparr> in
      bindM (create_or_conflict (insert_mapping p)) (\<lambda>created. if created then ret p else throw (App MappingExists)))))))"

record mapping_request =
  mr_location :: uuid
  mr_config :: json
  mr_active :: bool

definition mappings_error :: "string \<Rightarrow> ierror" where
  "mappings_error msg = App (ValidationError [(''mappings'', msg)])"

text \<open>The external ids of the requested active mappings are texts, and no two are the same.\<close>

fun check_external_ids :: "mapping_request list \<Rightarrow> json list \<Rightarrow> ierror + unit" where
  "check_external_ids [] seen = Inr ()"
| "check_external_ids (m # ms) seen = (
     let ext_id = jget ''external_location_id'' (or_else (mr_config m) (JObj [])) in
     if \<not> mr_active m \<or> ext_id = JNull then check_external_ids ms seen
     else if as_str ext_id = None then Inl (mappings_error ''external_location_id must be a string.'')
     else if ext_id \<in> set seen then Inl (mappings_error ''external_location_id must be unique among active mappings.'')
     else check_external_ids ms (ext_id # seen))"

definition put_mapping :: "integration \<Rightarrow> location_mapping list \<Rightarrow> mapping_request \<Rightarrow> unit iprog" where
  "put_mapping ig existing r = (
     if mr_location r \<in> set (map lm_location existing)
     then if \<not> jsonb_ok (mr_config r) then throw DataErr
       else update_mappings (\<lambda>p. lm_integration p = ig_id ig \<and> lm_location p = mr_location r)
         (\<lambda>p. p\<lparr>lm_config := mr_config r, lm_active := mr_active r\<rparr>)
     else insert_mapping \<lparr>lm_merchant = ig_merchant ig, lm_integration = ig_id ig, lm_location = mr_location r,
       lm_config = mr_config r, lm_active = mr_active r\<rparr>)"

definition replace_location_mappings :: "integration \<Rightarrow> mapping_request list \<Rightarrow> integration iprog" where
  "replace_location_mappings ig requests = tenant_atomic False (bindM (lock_integration (ig_id ig)) (\<lambda>row.
     let ids = map mr_location requests in
     if \<not> distinct ids then throw (mappings_error ''Duplicate location_id in the request.'')
     else bindM (scoped (\<lambda>m d. filter (\<lambda>l. lo_merchant l = m \<and> lo_id l \<in> set ids) (locations d))) (\<lambda>found.
       if length (remdups (map lo_id found)) \<noteq> length ids then throw (mappings_error ''One or more locations were not found.'')
       else seqM (forM found (\<lambda>l. assert_same_merchant row l ''mappings''))
         (seqM (liftE (check_external_ids requests []))
         (bindM (scoped (\<lambda>m d. filter (\<lambda>p. lm_merchant p = m \<and> lm_integration p = ig_id row) (mappings d))) (\<lambda>existing.
          seqM (forM requests (put_mapping row existing))
          (seqM (delete_mappings (\<lambda>p. lm_integration p = ig_id row \<and> lm_location p \<notin> set ids)) (ret row))))))))"

subsection \<open>Resolving the location of a sale\<close>

definition mapped_location :: "location_mapping \<Rightarrow> location iprog" where
  "mapped_location p = bindM (scoped (\<lambda>m d. find_location d m (lm_location p))) (require_row DoesNotExist)"

definition choose_mapping :: "location_mapping list \<Rightarrow> json \<Rightarrow> location_mapping option" where
  "choose_mapping active ext_id = (
     if length active = 1 \<and> \<not> truthy (mapped_external_id (hd active)) then Some (hd active)
     else if truthy ext_id then (case filter (\<lambda>p. mapped_external_id p = ext_id) active of [p] \<Rightarrow> Some p | _ \<Rightarrow> None)
     else None)"

definition resolve_location :: "integration \<Rightarrow> sale \<Rightarrow> location iprog" where
  "resolve_location ig s = bindM (scoped (active_mappings (ig_id ig))) (\<lambda>active.
     case choose_mapping active (sa_external_location s) of
       Some p \<Rightarrow> mapped_location p
     | None \<Rightarrow> throw (App LocationUnresolved))"

end
