(* ===== verification/Events.thy ===== *)
theory Events
  imports Integrations
begin

text \<open>
  The event inbox of \<open>events/services.py\<close> and its tasks (\<open>events/tasks.py\<close>): the idempotent inbox write, one
  processing attempt, the recording of a failure under a safe code, and the retry sweep.
\<close>

definition MAX_EVENT_ATTEMPTS :: nat where "MAX_EVENT_ATTEMPTS = 5"
definition RETRY_BASE :: instant where "RETRY_BASE = minutes 5"
definition STALE_RECEIVED_AFTER :: instant where "STALE_RECEIVED_AFTER = minutes 10"

definition SAFE_ERRORS :: "(string \<times> string) list" where
  "SAFE_ERRORS = [
    (''ADAPTER_NOT_FOUND'', ''No adapter is registered for this integration'' @ [CHR 0x27] @ ''s provider.''),
    (''PAYLOAD_INVALID'', ''The event payload failed validation.''),
    (''INVALID_PHONE'', ''The customer phone is not a valid E.164 number.''),
    (''INVALID_CURRENCY'', ''The currency is not a valid ISO 4217 code.''),
    (''INVALID_AMOUNT'', ''The amount is missing or negative.''),
    (''INVALID_OCCURRED_AT'', ''The sale time is missing or has no timezone.''),
    (''INVALID_EXTERNAL_TRANSACTION_ID'', ''The external transaction ID is missing or too long.''),
    (''LOCATION_UNRESOLVED'', ''The sale could not be mapped to a location.''),
    (''PROCESSING_ERROR'', ''Event processing failed'')]"

subsection \<open>The inbox write\<close>

definition new_event :: "integration \<Rightarrow> string \<Rightarrow> json \<Rightarrow> uuid \<Rightarrow> instant \<Rightarrow> instant \<Rightarrow> integration_event" where
  "new_event ig external_event_id payload i t u = \<lparr>ie_id = i, ie_merchant = ig_merchant ig, ie_integration = ig_id ig,
     ie_source = ig_provider ig, ie_external_id = external_event_id, ie_location = None, ie_payload = payload, ie_status = Received,
     ie_received_at = Some t, ie_processed_at = None, ie_attempts = 0, ie_error_code = None, ie_error_message = None, ie_updated_at = u\<rparr>"

definition insert_or_get_event :: "integration_event \<Rightarrow> (integration_event \<times> bool) iprog" where
  "insert_or_get_event e = bindM (create_or_conflict (insert_event e)) (\<lambda>created.
     if created then seqM (on_commit (ProcessIntegrationEvent (ie_merchant e) (ie_id e))) (ret (e, True))
     else bindM (bindM (scoped (\<lambda>m d. first (\<lambda>x. ie_merchant x = m \<and> ie_integration x = ie_integration e \<and>
              ie_external_id x = ie_external_id e) (events d))) (require_row DoesNotExist)) (\<lambda>existing. ret (existing, False)))"

definition record_event :: "integration \<Rightarrow> string \<Rightarrow> json \<Rightarrow> (integration_event \<times> bool) iprog" where
  "record_event ig external_event_id payload = bindM get_current_merchant_id (\<lambda>merchant.
     if merchant \<noteq> Some (ig_merchant ig) then throw TenantContextError
     else if ig_status ig = Disconnected then throw (App IntegrationDisconnected)
     else tenant_atomic False (bindM fresh (\<lambda>i. bindM now (\<lambda>t. bindM now (\<lambda>u.
       insert_or_get_event (new_event ig external_event_id payload i t u))))))"

subsection \<open>Failures\<close>

definition safe_code :: "ierror \<Rightarrow> string" where
  "safe_code e = (case e of
     App AdapterNotFound \<Rightarrow> ''ADAPTER_NOT_FOUND''
   | App (PayloadValidationError c) \<Rightarrow> if c \<in> set (map fst SAFE_ERRORS) then c else ''PAYLOAD_INVALID''
   | App LocationUnresolved \<Rightarrow> ''LOCATION_UNRESOLVED''
   | _ \<Rightarrow> ''PROCESSING_ERROR'')"

definition safe_error :: "ierror \<Rightarrow> string \<times> string" where
  "safe_error e = (safe_code e, (case map_of SAFE_ERRORS (safe_code e) of None \<Rightarrow> [] | Some msg \<Rightarrow> msg))"

definition failed_event :: "ierror \<Rightarrow> integration_event \<Rightarrow> integration_event \<Rightarrow> integration_event" where
  "failed_event exc event x = (let n = Suc (ie_attempts event) in
     x\<lparr>ie_attempts := n, ie_error_code := Some (fst (safe_error exc)), ie_error_message := Some (snd (safe_error exc)),
       ie_status := (if MAX_EVENT_ATTEMPTS \<le> n then DeadLetter else Failed)\<rparr>)"

definition record_failure :: "integration_event \<Rightarrow> ierror \<Rightarrow> unit iprog" where
  "record_failure event exc = save_event (ie_id event) (\<lambda>_. failed_event exc event)"

subsection \<open>One processing attempt\<close>

definition backoff :: "integration_event \<Rightarrow> instant" where
  "backoff e = RETRY_BASE * 2 ^ (ie_attempts e - 1)"

definition is_due :: "integration_event \<Rightarrow> bool iprog" where
  "is_due e = bindM now (\<lambda>t. ret (ie_updated_at e \<le> t - backoff e))"

definition lock_event :: "uuid \<Rightarrow> integration_event iprog" where
  "lock_event i = seqM take_row_lock (bindM (scoped (\<lambda>m d. find_event d m i)) (require_row DoesNotExist))"

definition terminal :: "event_status \<Rightarrow> bool" where
  "terminal s \<longleftrightarrow> s = Processed \<or> s = DeadLetter \<or> s = CancelledEvent"

definition attempt :: "integration \<Rightarrow> integration_event \<Rightarrow> location iprog" where
  "attempt ig event = atomic (bindM (asks py) (\<lambda>lib.
     bindM (liftE (get_adapter (ig_provider ig))) (\<lambda>a.
     bindM (liftE (to_sale lib a ig (ie_payload event))) (\<lambda>s.
     bindM (resolve_location ig s) (\<lambda>l.
     bindM (record_sale ig l s) (\<lambda>_. ret l))))))"

definition processed_event :: "location \<Rightarrow> instant \<Rightarrow> integration_event \<Rightarrow> integration_event" where
  "processed_event l t x = x\<lparr>ie_status := Processed, ie_location := Some (lo_id l), ie_processed_at := Some t,
     ie_error_code := None, ie_error_message := None\<rparr>"

text \<open>Whether the attempt raised is the only thing the handler looks at before it stores the failure.\<close>

definition try_attempt :: "integration \<Rightarrow> integration_event \<Rightarrow> (ierror + location) iprog" where
  "try_attempt ig event = catchM (bindM (attempt ig event) (\<lambda>l. ret (Inr l))) (\<lambda>exc. Some (ret (Inl exc)))"

definition event_after :: "uuid \<Rightarrow> integration_event iprog" where
  "event_after i = bindM (scoped (\<lambda>m d. find_event d m i)) (require_row DoesNotExist)"

definition attempt_event :: "integration \<Rightarrow> integration_event \<Rightarrow> integration_event iprog" where
  "attempt_event ig event = bindM (try_attempt ig event) (\<lambda>out.
     seqM (case out of
         Inl exc \<Rightarrow> record_failure event exc
       | Inr l \<Rightarrow> bindM now (\<lambda>t. save_event (ie_id event) (\<lambda>_. processed_event l t)))
       (event_after (ie_id event)))"

definition handle_event :: "integration_event \<Rightarrow> integration_event iprog" where
  "handle_event event = bindM (bindM (scoped (\<lambda>m d. find_integration d m (ie_integration event))) (require_row DoesNotExist)) (\<lambda>ig.
     if terminal (ie_status event) then ret event
     else bindM (if ie_status event = Failed then is_due event else ret True) (\<lambda>due.
       if \<not> due then ret event
       else if ig_status ig = Disconnected
       then seqM (save_event (ie_id event) (\<lambda>_ x. x\<lparr>ie_status := CancelledEvent\<rparr>)) (event_after (ie_id event))
       else attempt_event ig event))"

definition process_event :: "uuid \<Rightarrow> integration_event iprog" where
  "process_event event_id = tenant_atomic False (bindM (lock_event event_id) handle_event)"

subsection \<open>The retry sweep\<close>

text \<open>\<open>locked\<close> are the rows other workers hold (\<open>skip_locked\<close>).\<close>

fun due_among :: "instant \<Rightarrow> integration_event list \<Rightarrow> uuid list iprog" where
  "due_among cutoff [] = ret []"
| "due_among cutoff (e # es) =
     bindM (if ie_status e = Received
            then ret (case ie_received_at e of None \<Rightarrow> False | Some r \<Rightarrow> r < cutoff)
            else is_due e) (\<lambda>due.
     bindM (due_among cutoff es) (\<lambda>ids. ret (if due then ie_id e # ids else ids)))"

definition due_event_ids :: "(uuid \<Rightarrow> bool) \<Rightarrow> uuid list iprog" where
  "due_event_ids locked = bindM now (\<lambda>t.
     bindM (scoped (\<lambda>m d. filter (\<lambda>e. ie_merchant e = m \<and> (ie_status e = Failed \<or> ie_status e = Received) \<and> \<not> locked (ie_id e)) (events d)))
       (due_among (t - STALE_RECEIVED_AFTER)))"

definition process_integration_event :: "uuid \<Rightarrow> uuid option \<Rightarrow> unit iprog" where
  "process_integration_event event_id = tenant_task (\<lambda>_. bindM (process_event event_id) (\<lambda>_. ret ()))"

definition sweep_merchant :: "(uuid \<Rightarrow> bool) \<Rightarrow> uuid \<Rightarrow> unit iprog" where
  "sweep_merchant locked merchant_id = tenant_context (Some merchant_id) (tenant_atomic False (bindM (due_event_ids locked) (\<lambda>ids.
     forM ids (\<lambda>event_id. on_commit (ProcessIntegrationEvent merchant_id event_id)))))"

definition retry_failed_events :: "(uuid \<Rightarrow> bool) \<Rightarrow> unit iprog" where
  "retry_failed_events locked = bindM (asks (\<lambda>w. map fst (filter (\<lambda>(_, st). st = MActive) (i_merchants (db w)))))
     (\<lambda>merchant_ids. forM merchant_ids (sweep_merchant locked))"

subsection \<open>Dead letters\<close>

record dead_letter =
  dl_id :: uuid
  dl_integration :: uuid
  dl_source :: string
  dl_external_id :: string
  dl_attempts :: nat
  dl_error_code :: "string option"
  dl_error_message :: "string option"
  dl_received_at :: "instant option"
  dl_updated_at :: instant

definition dead_letter_of :: "integration_event \<Rightarrow> dead_letter" where
  "dead_letter_of e = \<lparr>dl_id = ie_id e, dl_integration = ie_integration e, dl_source = ie_source e, dl_external_id = ie_external_id e,
     dl_attempts = ie_attempts e, dl_error_code = ie_error_code e, dl_error_message = ie_error_message e,
     dl_received_at = ie_received_at e, dl_updated_at = ie_updated_at e\<rparr>"

definition list_dead_letter_events :: "nat \<Rightarrow> (nat \<times> dead_letter list) iprog" where
  "list_dead_letter_events limit = bindM (scoped (\<lambda>m d. filter (\<lambda>e. ie_merchant e = m \<and> ie_status e = DeadLetter) (events d))) (\<lambda>dead.
     ret (length dead, map dead_letter_of (take limit (sort_key (\<lambda>e. - ie_updated_at e) dead))))"

end
