(* ===== verification/Intake.thy ===== *)
theory Intake
  imports Events
begin

text \<open>
  What the CSV import uses of Python's \<open>csv\<close> module: \<open>csv.DictReader(io.StringIO(text))\<close> with the default
  \<open>excel\<close> dialect. Lines end at a line feed; the reader is fed the characters of a line and then its end.
\<close>

datatype csv_state = StartRecord | StartField | InField | InQuoted | QuoteInQuoted | EatNewline

record csv_machine =
  cm_state :: csv_state
  cm_field :: string
  cm_fields :: "string list"

definition FIELD_LIMIT :: nat where "FIELD_LIMIT = 131072"

abbreviation newline_char :: "char \<Rightarrow> bool" where
  "newline_char c \<equiv> c = CHR 0x0A \<or> c = CHR 0x0D"

definition save_field :: "csv_state \<Rightarrow> csv_machine \<Rightarrow> csv_machine" where
  "save_field s m = m\<lparr>cm_state := s, cm_field := [], cm_fields := cm_fields m @ [cm_field m]\<rparr>"

text \<open>\<open>None\<close> is \<open>csv.Error\<close>.\<close>

definition add_char :: "csv_state \<Rightarrow> char \<Rightarrow> csv_machine \<Rightarrow> csv_machine option" where
  "add_char s c m = (if FIELD_LIMIT \<le> length (cm_field m) then None else Some (m\<lparr>cm_state := s, cm_field := cm_field m @ [c]\<rparr>))"

definition field_char :: "char \<Rightarrow> csv_machine \<Rightarrow> csv_machine option" where
  "field_char c m = (if newline_char c then Some (save_field EatNewline m)
     else if c = CHR 0x2C then Some (save_field StartField m) else add_char InField c m)"

definition start_field :: "char \<Rightarrow> csv_machine \<Rightarrow> csv_machine option" where
  "start_field c m = (if c = CHR 0x22 then Some (m\<lparr>cm_state := InQuoted\<rparr>) else field_char c m)"

definition csv_char :: "char \<Rightarrow> csv_machine \<Rightarrow> csv_machine option" where
  "csv_char c m = (case cm_state m of
     StartRecord \<Rightarrow> if newline_char c then Some (m\<lparr>cm_state := EatNewline\<rparr>) else start_field c m
   | StartField \<Rightarrow> start_field c m
   | InField \<Rightarrow> field_char c m
   | InQuoted \<Rightarrow> if c = CHR 0x22 then Some (m\<lparr>cm_state := QuoteInQuoted\<rparr>) else add_char InQuoted c m
   | QuoteInQuoted \<Rightarrow> if c = CHR 0x22 then add_char InQuoted c m else field_char c m
   | EatNewline \<Rightarrow> if newline_char c then Some m else None)"

definition end_line :: "csv_machine \<Rightarrow> csv_machine" where
  "end_line m = (case cm_state m of
     StartRecord \<Rightarrow> m
   | EatNewline \<Rightarrow> m\<lparr>cm_state := StartRecord\<rparr>
   | InQuoted \<Rightarrow> m
   | _ \<Rightarrow> save_field StartRecord m)"

definition new_record :: csv_machine where
  "new_record = \<lparr>cm_state = StartRecord, cm_field = [], cm_fields = []\<rparr>"

text \<open>The records read so far, and whether reading ended in an error.\<close>

fun csv_records :: "csv_machine \<Rightarrow> bool \<Rightarrow> string \<Rightarrow> string list list \<times> bool" where
  "csv_records m open_line [] =
     (let m' = (if open_line then end_line m else m) in
      if open_line \<and> cm_state m' = StartRecord then ([cm_fields m'], False)
      else if cm_state m' = InQuoted then ([cm_fields (save_field StartRecord m')], False)
      else ([], False))"
| "csv_records m open_line (c # cs) = (case csv_char c m of
     None \<Rightarrow> ([], True)
   | Some m1 \<Rightarrow>
       if c \<noteq> CHR 0x0A then csv_records m1 True cs
       else let m2 = end_line m1 in
         if cm_state m2 = StartRecord then (let (rows, err) = csv_records new_record False cs in (cm_fields m2 # rows, err))
         else csv_records m2 False cs)"

definition csv_rows :: "string \<Rightarrow> string list list \<times> bool" where
  "csv_rows text = csv_records new_record False text"

text \<open>\<open>DictReader\<close>: the first record names the columns, empty records are skipped, surplus values go under
  the key \<open>None\<close> (stored as \<open>null\<close>), missing ones are \<open>None\<close>. A later column of the same name wins.\<close>

definition dict_row :: "string list \<Rightarrow> string list \<Rightarrow> json" where
  "dict_row names row = JObj (map (\<lambda>k. (k, JNull)) (drop (length row) names) @ rev (zip names (map JStr row)) @
     (if length names < length row then [(''null'', JArr (map JStr (drop (length names) row)))] else []))"

text \<open>Column names, rows, and whether reading the rows ends in an error; \<open>None\<close> when already the column
  names cannot be read.\<close>

definition dict_reader :: "string \<Rightarrow> (string list \<times> json list \<times> bool) option" where
  "dict_reader text = (case csv_rows text of
     ([], True) \<Rightarrow> None
   | ([], False) \<Rightarrow> Some ([], [], False)
   | (names # rows, err) \<Rightarrow> Some (names, map (dict_row names) (filter (\<lambda>r. r \<noteq> []) rows), err))"

text \<open>
  The three ways a sale comes in (\<open>integrations/services.py\<close>): a provider's webhook, a CSV file and the REST
  API, with the receivers and the response table of \<open>integrations/views.py\<close>.
\<close>

subsection \<open>Webhooks\<close>

text \<open>\<open>IntegrationManager.for_lookup_id\<close> under the policies of the table (\<open>core/rls.py\<close>): the current merchant's
  rows, or the one row whose id the lookup scope has set.\<close>

definition integration_selectable :: "ctxvars \<Rightarrow> integration \<Rightarrow> bool" where
  "integration_selectable g ig \<longleftrightarrow> merchant_var g = Some (ig_merchant ig) \<or> integration_var g = Some (ig_id ig)"

definition for_lookup_id :: "uuid \<Rightarrow> integration option iprog" where
  "for_lookup_id i = (\<lambda>w.
     if integration_var (ctx w) \<noteq> Some i then (Inl TenantContextError, w)
     else (Inr (first (\<lambda>ig. integration_selectable (guc w) ig \<and> ig_id ig = i) (integrations (db w))), w))"

definition webhook_rejected :: ierror where "webhook_rejected = App WebhookRejected"

text \<open>\<open>None\<close> is an id that is no UUID. A lookup error is answered like any other rejection.\<close>

definition lookup_integration :: "uuid option \<Rightarrow> integration option iprog" where
  "lookup_integration integration_id = (case integration_id of
     None \<Rightarrow> throw webhook_rejected
   | Some i \<Rightarrow> catchM (integration_lookup_atomic i (for_lookup_id i))
       (\<lambda>e. if e = ValueErr \<or> e = TenantContextError then Some (throw webhook_rejected) else None))"

definition handle_uninstall :: "adapter \<Rightarrow> integration \<Rightarrow> delivery \<Rightarrow> unit iprog" where
  "handle_uninstall a ig r = bindM (asks py) (\<lambda>lib.
     seqM (bindM (liftE (get_external_event_id lib a ig r (JObj []))) (\<lambda>_. ret ()))
     (case loads lib (dl_body r) of
        None \<Rightarrow> throw webhook_rejected
      | Some payload \<Rightarrow>
          if \<not> is_dict payload \<or> \<not> uninstall_payload_matches ig payload then throw webhook_rejected
          else if ig_status ig = Disconnected then ret ()
          else tenant_context (Some (ig_merchant ig)) (disconnect_integration None ig (Some ''app_uninstalled''))))"

definition rejected_payload :: "ierror \<Rightarrow> ierror" where
  "rejected_payload e = (case e of App (PayloadValidationError c) \<Rightarrow> App (PayloadRejected (map lower_ascii c)) | _ \<Rightarrow> e)"

definition payload_checked :: "'a iprog \<Rightarrow> 'a iprog" where
  "payload_checked m = catchM m (\<lambda>e. Some (throw (rejected_payload e)))"

definition handle_sale_delivery :: "adapter \<Rightarrow> integration \<Rightarrow> delivery \<Rightarrow> unit iprog" where
  "handle_sale_delivery a ig r = bindM (asks py) (\<lambda>lib. case loads lib (dl_body r) of
     None \<Rightarrow> throw (App InvalidWebhookPayload)
   | Some payload \<Rightarrow> if \<not> is_dict payload then throw (App InvalidWebhookPayload)
       else bindM (payload_checked (liftE (get_external_event_id lib a ig r payload))) (\<lambda>key.
         tenant_context (Some (ig_merchant ig)) (catchM (bindM (record_event ig key payload) (\<lambda>_. ret ()))
           (\<lambda>e. if e = App IntegrationDisconnected then Some (throw webhook_rejected) else None))))"

definition receive_webhook :: "string \<Rightarrow> uuid option \<Rightarrow> delivery \<Rightarrow> unit iprog" where
  "receive_webhook provider integration_id r = bindM (lookup_integration integration_id) (\<lambda>found. case found of
     None \<Rightarrow> throw webhook_rejected
   | Some ig \<Rightarrow> if ig_provider ig \<noteq> provider then throw webhook_rejected
       else bindM (liftE (get_adapter (ig_provider ig))) (\<lambda>a.
       bindM (bindM (asks (\<lambda>w. (py w, icfg w))) (\<lambda>(lib, s). liftE (verify lib s a ig r))) (\<lambda>verified.
       if \<not> verified then throw webhook_rejected
       else if is_uninstall_event a r then handle_uninstall a ig r
       else if ig_status ig = Disconnected then throw webhook_rejected
       else if \<not> is_sale_event a r then ret ()
       else handle_sale_delivery a ig r)))"

subsection \<open>CSV import\<close>

text \<open>A call of the object store fails with \<open>ClientError\<close>.\<close>

definition storage_call :: "(intake_world \<Rightarrow> 'a \<times> intake_world) \<Rightarrow> 'a iprog" where
  "storage_call f = (\<lambda>w. let w' = w\<lparr>storage_n := Suc (storage_n w)\<rparr> in
     if storage_up w (storage_n w) then (case f w' of (x, w'') \<Rightarrow> (Inr x, w'')) else (Inl (App StorageError), w'))"

definition put_object :: "string \<Rightarrow> string \<Rightarrow> unit iprog" where
  "put_object key data = storage_call (\<lambda>w. ((), w\<lparr>blobs := (blobs w)(key := Some data)\<rparr>))"

definition get_object :: "string \<Rightarrow> string option iprog" where
  "get_object key = storage_call (\<lambda>w. (blobs w key, w))"

definition delete_object :: "string \<Rightarrow> unit iprog" where
  "delete_object key = storage_call (\<lambda>w. ((), w\<lparr>blobs := (blobs w)(key := None)\<rparr>))"

definition file_error :: "string \<Rightarrow> ierror" where
  "file_error msg = App (ValidationError [(''file'', msg)])"

text \<open>The rows that fail validation, at most 50 of them; any other exception escapes.\<close>

fun row_errors :: "pylib \<Rightarrow> adapter \<Rightarrow> integration \<Rightarrow> nat \<Rightarrow> json list \<Rightarrow> (string \<times> string) list \<Rightarrow> ierror + (string \<times> string) list" where
  "row_errors lib a ig idx [] errs = Inr errs"
| "row_errors lib a ig idx (row # rows) errs = (case to_sale lib a ig row of
     Inr _ \<Rightarrow> row_errors lib a ig (Suc idx) rows errs
   | Inl e \<Rightarrow> (case e of
       App (PayloadValidationError c) \<Rightarrow> row_errors lib a ig (Suc idx) rows
         (if length errs < 50 then errs @ [(''row_'' @ nat_digits idx, c)] else errs)
     | _ \<Rightarrow> Inl e))"

definition join_comma :: "string list \<Rightarrow> string" where
  "join_comma xs = (case xs of [] \<Rightarrow> [] | y # ys \<Rightarrow> y @ concat (map (\<lambda>z. '', '' @ z) ys))"

definition start_csv_import :: "integration \<Rightarrow> string option \<Rightarrow> nat iprog" where
  "start_csv_import ig file = (
     if ig_provider ig \<noteq> ''csv'' \<or> ig_status ig \<noteq> Connected
     then throw (App (ValidationError [(''integration'', ''This integration cannot accept a CSV import.'')]))
     else case file of None \<Rightarrow> throw (file_error ''A file is required.'') | Some raw \<Rightarrow>
       if raw = [] then throw (file_error ''The file is empty.'')
       else bindM (asks (\<lambda>w. (py w, icfg w))) (\<lambda>(lib, s).
         if csv_max_bytes s < length raw then throw (file_error ''The file is too large.'')
         else case decode_utf8_sig lib raw of None \<Rightarrow> throw (file_error ''The file must be UTF-8 encoded.'') | Some text \<Rightarrow>
           bindM (liftE (get_adapter (ig_provider ig))) (\<lambda>a. case dict_reader text of None \<Rightarrow> throw (App CsvError) | Some (names, rows, err) \<Rightarrow>
             let missing = filter (\<lambda>c. c \<notin> set names) REQUIRED_COLUMNS in
             if missing \<noteq> [] then throw (file_error (''Missing required column(s): '' @ join_comma missing @ ''.''))
             else if err then throw (App CsvError)
             else if rows = [] then throw (file_error ''The file has no data rows.'')
             else if csv_max_rows s < length rows then throw (file_error ''The file has too many rows.'')
             else bindM (liftE (row_errors lib a ig 1 rows [])) (\<lambda>errs.
               if errs \<noteq> [] then throw (App (ValidationError errs))
               else bindM fresh (\<lambda>u. let key = ''csv-imports/'' @ ig_merchant ig @ ''/'' @ u @ ''.csv'' in
                 seqM (put_object key raw)
                 (bindM get_current_merchant_id (\<lambda>m.
                  seqM (on_commit (ImportCsv (case m of None \<Rightarrow> [] | Some x \<Rightarrow> x) (ig_id ig) key)) (ret (length rows)))))))))"

text \<open>A disconnected integration ends the run and drops the staged file.\<close>

fun import_rows :: "pylib \<Rightarrow> adapter \<Rightarrow> integration \<Rightarrow> string \<Rightarrow> json list \<Rightarrow> bool \<Rightarrow> unit iprog" where
  "import_rows lib a ig key [] err = (if err then throw (App CsvError) else delete_object key)"
| "import_rows lib a ig key (row # rows) err =
     bindM (liftE (get_external_event_id lib a ig \<lparr>headers = (\<lambda>_. None), dl_body = []\<rparr> row)) (\<lambda>event_id.
     bindM (catchM (bindM (record_event ig event_id row) (\<lambda>_. ret True))
         (\<lambda>e. if e = App IntegrationDisconnected then Some (ret False) else None)) (\<lambda>recorded.
     if recorded then import_rows lib a ig key rows err else delete_object key))"

definition import_csv_rows :: "uuid \<Rightarrow> string \<Rightarrow> unit iprog" where
  "import_csv_rows integration_id object_key =
     bindM (catchM (get_object object_key) (\<lambda>e. if e = App StorageError then Some (ret None) else None)) (\<lambda>found. case found of
       None \<Rightarrow> ret ()
     | Some raw \<Rightarrow> bindM (tenant_atomic False (bindM (scoped (\<lambda>m d. find_integration d m integration_id)) (require_row DoesNotExist))) (\<lambda>ig.
         bindM (liftE (get_adapter (ig_provider ig))) (\<lambda>a.
         bindM (asks py) (\<lambda>lib. case decode_utf8_sig lib raw of
           None \<Rightarrow> throw (App UnicodeDecodeError)
         | Some text \<Rightarrow> (case dict_reader text of
             None \<Rightarrow> throw (App CsvError)
           | Some (names, rows, err) \<Rightarrow> import_rows lib a ig object_key rows err)))))"

definition import_csv :: "uuid \<Rightarrow> string \<Rightarrow> uuid option \<Rightarrow> unit iprog" where
  "import_csv integration_id object_key = tenant_task (\<lambda>_. import_csv_rows integration_id object_key)"

subsection \<open>The REST API\<close>

text \<open>\<open>objects.get\<close>: several matching rows are an error of their own.\<close>

definition connected_api_integration :: "integration iprog" where
  "connected_api_integration = bindM (scoped (\<lambda>m d. filter (\<lambda>ig. ig_merchant ig = m \<and> connected_api ig) (integrations d))) (\<lambda>igs.
     case igs of [] \<Rightarrow> throw (App IntegrationNotConnected) | [ig] \<Rightarrow> ret ig | _ \<Rightarrow> throw RuntimeErr)"

definition ingest_api_sale :: "json \<Rightarrow> (integration_event \<times> sale_row option \<times> bool) iprog" where
  "ingest_api_sale payload = (
     if \<not> is_dict payload then throw (App (ValidationError [(''body'', ''Must be a JSON object.'')]))
     else bindM connected_api_integration (\<lambda>ig.
       bindM (liftE (get_adapter (ig_provider ig))) (\<lambda>a.
       bindM (asks py) (\<lambda>lib.
       bindM (payload_checked (bindM (liftE (to_sale lib a ig payload)) (\<lambda>s.
           bindM (resolve_location ig s) (\<lambda>_.
           bindM (liftE (get_external_event_id lib a ig \<lparr>headers = (\<lambda>_. None), dl_body = []\<rparr> payload)) (\<lambda>key. ret (s, key)))))) (\<lambda>(s, key).
       bindM (record_event ig key payload) (\<lambda>(e0, created).
       bindM (if created then process_event (ie_id e0) else ret e0) (\<lambda>e.
       if ie_status e \<noteq> Processed then ret (e, None, created)
       else bindM (scoped (\<lambda>m d. first (\<lambda>t. tx_merchant t = m \<and> Some (tx_location t) = ie_location e \<and>
              tx_external_id t = sa_external_id s) (sales d))) (\<lambda>t. ret (e, t, created)))))))))"

datatype sales_body = SaleDone "uuid option" uuid | SalePending uuid event_status | SaleNotProcessed uuid event_status

definition sales_response :: "integration_event \<Rightarrow> sale_row option \<Rightarrow> bool \<Rightarrow> nat \<times> sales_body" where
  "sales_response e t created = (
     if ie_status e = Processed then (if created then 201 else 200, SaleDone (map_option tx_id t) (ie_id e))
     else if ie_status e = Failed \<or> ie_status e = Received then (202, SalePending (ie_id e) (ie_status e))
     else (409, SaleNotProcessed (ie_id e) (ie_status e)))"

definition sales_post :: "json \<Rightarrow> (nat \<times> sales_body) iprog" where
  "sales_post payload = bindM (ingest_api_sale payload) (\<lambda>(e, t, created). ret (sales_response e t created))"

text \<open>The date filters of \<open>GET /sales\<close> and \<open>GET /transactions\<close> cover whole days in UTC.\<close>

definition day_filter :: "uuid option \<Rightarrow> int option \<Rightarrow> int option \<Rightarrow> transaction_status option \<Rightarrow> sale_filter" where
  "day_filter l from_day to_day status = \<lparr>sf_location = l, sf_from = map_option days from_day,
     sf_to = map_option (\<lambda>d. days (d + 1) - 1) to_day, sf_status = status\<rparr>"

definition sales_get :: "uuid option \<Rightarrow> int option \<Rightarrow> int option \<Rightarrow> transaction_status option \<Rightarrow> sale_row list iprog" where
  "sales_get l from_day to_day status = list_sales (day_filter l from_day to_day status)"

definition transactions_get ::
  "team_member \<Rightarrow> uuid option \<Rightarrow> int option \<Rightarrow> int option \<Rightarrow> transaction_status option \<Rightarrow> sale_row list iprog" where
  "transactions_get actor l from_day to_day status = list_transactions actor (day_filter l from_day to_day status)"

end
