(* ===== verification/Histories.thy ===== *)
theory Histories
  imports Middleware
begin

text \<open>
  An application as the set of entries that reach it, each a thread that runs while others commit. A
  history is the closure of its threads, where what interferes with a thread is itself a history; every
  frame relation of the single entries therefore holds along every history.
\<close>

text \<open>A thread before it does anything: no transaction, no context.\<close>

definition fresh_thread :: "('d, 't, 'z) world_scheme \<Rightarrow> bool" where
  "fresh_thread w \<longleftrightarrow> saves w = [] \<and> ctx w = no_vars \<and> guc w = no_vars \<and> pending w = [] \<and> \<not> row_locked w"

inductive history ::
  "('i \<Rightarrow> (('d, 't, 'z) world_scheme, 'e, unit) prog) \<Rightarrow> ('i \<Rightarrow> bool) \<Rightarrow> 'd \<Rightarrow> 'd \<Rightarrow> bool" for run A where
  history_none: "history run A d d"
| history_step: "history run A d (db w) \<Longrightarrow> fresh_thread w \<Longrightarrow> A entry \<Longrightarrow> (\<And>n x. history run A x (env w n x)) \<Longrightarrow>
    run entry w = (r, w') \<Longrightarrow> history run A d (db w')"

lemma history_alone:
  assumes "fresh_thread w" "quiet w" "A entry" "run entry w = (r, w')"
  shows "history run A (db w) (db w')"
  using assms(2) by (intro history_step [where w = w and A = A and run = run and entry = entry, OF history_none assms(1,3) _ assms(4)])
    (simp add: quiet_def history_none)

lemma history_mono: "history run A d d' \<Longrightarrow> (\<And>e. A e \<Longrightarrow> B e) \<Longrightarrow> history run B d d'"
proof (induction rule: history.induct)
  case (history_step d w entry r w')
  show ?case by (rule history.history_step [where w = w and entry = entry]) (use history_step in blast)+
qed (rule history.history_none)

text \<open>Exceptions of a view become a response inside the request's transaction.\<close>

definition answered :: "(('d, 't, 'z) world_scheme, 'e, 'a) prog \<Rightarrow> (('d, 't, 'z) world_scheme, 'e, unit) prog" where
  "answered m = catchM (bindM m (\<lambda>_. ret ())) (\<lambda>_. Some (ret ()))"

context db_frame
begin

lemma frames_answered [frame_intros]: "frames R G m \<Longrightarrow> frames R G (answered m)"
  unfolding answered_def by (rule frames_catch) (auto intro: frames_bind frames_ret)

lemma frames_in_tenant:
  assumes "frames R G m" "\<And>c. G (c\<lparr>merchant_var := Some x\<rparr>)"
  shows "frames R (\<lambda>_. True) (tenant_middleware x m)"
  unfolding tenant_middleware_def
  by (rule frames_tenant_context [where G' = G]) (auto intro: frames_tenant_atomic assms)

lemma frames_in_task:
  assumes "\<And>x. frames R G (fn x)" "\<And>c x. merchant = Some x \<Longrightarrow> G (c\<lparr>merchant_var := Some x\<rparr>)"
  shows "frames R (\<lambda>_. True) (tenant_task fn merchant)"
  unfolding tenant_task_def
  by (rule frames_tenant_context [where G' = G]) (auto intro: assms split: option.split)

lemma history_respects:
  assumes "history run A d d'" "\<And>entry. A entry \<Longrightarrow> frames R (\<lambda>_. True) (run entry)"
  shows "R d d'"
  using assms(1)
proof (induction rule: history.induct)
  case (history_none d)
  show ?case by (rule R_refl)
next
  case (history_step d w entry r w')
  have "rely R w" using history_step.IH(2) by (simp add: rely_def)
  from framesD(3) [OF assms(2) [OF history_step.hyps(3)] _ this history_step.hyps(5)] history_step.IH(1)
  show ?case by (blast intro: R_trans)
qed

end

end
