(* ===== verification/IntakeRuns.thy ===== *)
theory IntakeRuns
  imports Intake Scopes Histories
begin

text \<open>
  Evaluation of the intake statements inside the transaction of a thread nobody interferes with.
\<close>

named_theorems intake_runs "what the intake statements do inside a transaction"

definition stepped :: "intake_world \<Rightarrow> intake_world" where
  "stepped w = w\<lparr>env_n := Suc (env_n w)\<rparr>"

definition with_db :: "idb \<Rightarrow> intake_world \<Rightarrow> intake_world" where
  "with_db d w = w\<lparr>db := d\<rparr>"

definition took :: "nat \<Rightarrow> intake_world \<Rightarrow> intake_world" where
  "took k w = w\<lparr>ticks := ticks w + k\<rparr>"

lemma in_tx_steps [simp]: "in_tx m (stepped w) = in_tx m w" "in_tx m (with_db d w) = in_tx m w" "in_tx m (took k w) = in_tx m w"
  by (simp_all add: stepped_def with_db_def took_def)

lemma stepped_fields [simp]:
  "db (stepped w) = db w" "clock (stepped w) = clock w" "ticks (stepped w) = ticks w" "py (stepped w) = py w"
  "secrets (stepped w) = secrets w" "secret_n (stepped w) = secret_n w" "pending (stepped w) = pending w" "queue (stepped w) = queue w"
  "saves (stepped w) = saves w" "row_locked (stepped w) = row_locked w" "ctx (stepped w) = ctx w" "guc (stepped w) = guc w"
  by (simp_all add: stepped_def)

lemma with_db_fields [simp]:
  "db (with_db d w) = d" "clock (with_db d w) = clock w" "ticks (with_db d w) = ticks w" "py (with_db d w) = py w"
  "secrets (with_db d w) = secrets w" "secret_n (with_db d w) = secret_n w" "pending (with_db d w) = pending w" "queue (with_db d w) = queue w"
  "saves (with_db d w) = saves w" "row_locked (with_db d w) = row_locked w" "ctx (with_db d w) = ctx w" "guc (with_db d w) = guc w"
  by (simp_all add: with_db_def)

lemma run_scoped [simp]: "in_tx m w \<Longrightarrow> scoped f w = (Inr (f m (db w)), w)"
  by (simp add: scoped_def in_tx_def)

lemma run_fresh: "fresh w = (Inr (secrets w (secret_n w)), w\<lparr>secret_n := Suc (secret_n w)\<rparr>)"
  by (simp add: fresh_def)

lemma run_require: "require_row e r w = (case r of None \<Rightarrow> (Inl e, w) | Some x \<Rightarrow> (Inr x, w))"
  by (simp add: require_row_def split: option.split)

text \<open>An insert under a savepoint.\<close>

lemma run_waited:
  assumes "in_tx m w"
  shows "create_or_conflict (seqM (with_check m) (seqM wait_for_insert (\<lambda>w. if bad then (Inl DataErr, w)
      else if dup (db w) then (Inl (UniqueViolation c), w) else (Inr (), w\<lparr>db := g (db w)\<rparr>)))) w =
    (if bad then (Inl DataErr, stepped w) else if dup (db w) then (Inr False, stepped w) else (Inr True, with_db (g (db w)) (stepped w)))"
proof -
  let ?v = "w\<lparr>saves := db w # saves w\<rparr>"
  have q: "interfere ?v = ?v\<lparr>env_n := Suc (env_n w)\<rparr>" using assms by (simp add: interfere_def in_tx_def quiet_def)
  have m: "merchant_var (ctx w) = Some m" "saves w \<noteq> []" using assms by (simp_all add: in_tx_def)
  have pre: "seqM (with_check m) (seqM wait_for_insert f) ?v = f (?v\<lparr>env_n := Suc (env_n w)\<rparr>)" for f :: "unit iprog"
    using m(1) q by (simp add: run_seq with_check_def wait_for_insert_def)
  have r: "rollback_block w (w\<lparr>saves := db w # saves w, env_n := Suc (env_n w)\<rparr>) = stepped w"
    using restore [OF m(2)] by (simp add: stepped_def)
  show ?thesis
    unfolding create_or_conflict_def catchM_def run_bind run_savepoint [OF assms] pre
    using r by (simp add: stepped_def with_db_def)
qed

lemma run_create_event [intake_runs]:
  assumes "in_tx m w" "ie_merchant e = m"
  shows "create_or_conflict (insert_event e) w =
    (if 255 < length (ie_external_id e) \<or> \<not> jsonb_ok (ie_payload e) then (Inl DataErr, stepped w)
     else if list_ex (same_event_key e) (events (db w)) then (Inr False, stepped w)
     else (Inr True, with_db ((db w)\<lparr>events := events (db w) @ [e]\<rparr>) (stepped w)))"
  unfolding insert_event_def assms(2) by (rule run_waited [OF assms(1)])

lemma run_create_customer [intake_runs]:
  assumes "in_tx m w" "cu_merchant c = m"
  shows "create_or_conflict (insert_customer c) w =
    (if 16 < length (cu_phone c) \<or> \<not> fits_text 255 (cu_name c) then (Inl DataErr, stepped w)
     else if list_ex (same_customer_key c) (customers (db w)) then (Inr False, stepped w)
     else (Inr True, with_db ((db w)\<lparr>customers := customers (db w) @ [c]\<rparr>) (stepped w)))"
  unfolding insert_customer_def assms(2) by (rule run_waited [OF assms(1)])

lemma run_create_sale [intake_runs]:
  assumes "in_tx m w" "tx_merchant t = m"
  shows "create_or_conflict (insert_sale t) w =
    (if 255 < length (tx_external_id t) \<or> 3 < length (tx_currency t) \<or> \<not> fits_text 32 (tx_payment_method t) then (Inl DataErr, stepped w)
     else if list_ex (same_sale_key t) (sales (db w)) then (Inr False, stepped w)
     else (Inr True, with_db ((db w)\<lparr>sales := sales (db w) @ [t]\<rparr>) (stepped w)))"
  unfolding insert_sale_def assms(2) by (rule run_waited [OF assms(1)])

lemma run_update_events [intake_runs]:
  "in_tx m w \<Longrightarrow> update_events P f w = (Inr (), with_db ((db w)\<lparr>events := update_rows ie_merchant m P f (events (db w))\<rparr>) w)"
  by (simp add: update_events_def run_bind with_db_def)

lemma run_update_customers [intake_runs]:
  "in_tx m w \<Longrightarrow> update_customers P f w = (Inr (), with_db ((db w)\<lparr>customers := update_rows cu_merchant m P f (customers (db w))\<rparr>) w)"
  by (simp add: update_customers_def run_bind with_db_def)

lemma run_update_integrations [intake_runs]:
  "in_tx m w \<Longrightarrow> update_integrations P f w =
     (Inr (), with_db ((db w)\<lparr>integrations := update_rows ig_merchant m P f (integrations (db w))\<rparr>) w)"
  by (simp add: update_integrations_def run_bind with_db_def)

lemma run_update_mappings [intake_runs]:
  "in_tx m w \<Longrightarrow> update_mappings P f w = (Inr (), with_db ((db w)\<lparr>mappings := update_rows lm_merchant m P f (mappings (db w))\<rparr>) w)"
  by (simp add: update_mappings_def run_bind with_db_def)

lemma run_save_event [intake_runs]:
  assumes "in_tx m w" "find_event (db w) m i = Some r"
  shows "save_event i f w = (Inr (), with_db ((db w)\<lparr>events := update_rows ie_merchant m (\<lambda>e. ie_id e = i)
      (\<lambda>e. (f (clock w (ticks w)) e)\<lparr>ie_updated_at := clock w (ticks w)\<rparr>) (events (db w))\<rparr>) (tick w))"
  using assms by (simp add: save_event_def run_bind run_now intake_runs)

subsection \<open>Finding a row after an update\<close>

lemma find_update_rows:
  assumes "\<And>r. owner (f r) = owner r" "\<And>r. key (f r) = key r"
  shows "find_row owner key m i (update_rows owner m P f rows) =
    map_option (\<lambda>r. if P r then f r else r) (find_row owner key m i rows)"
  unfolding find_row_def update_rows_def using assms by (induction rows) auto

lemma find_add: "find_row owner key m i (rows @ [r]) =
    (case find_row owner key m i rows of None \<Rightarrow> if owner r = m \<and> key r = i then Some r else None | Some x \<Rightarrow> Some x)"
  unfolding find_row_def first_append by (cases "first (\<lambda>r. owner r = m \<and> key r = i) rows") simp_all

text \<open>
  A concrete shop with one location, a connected REST integration and one sale, on which the theorems
  of sale intake are applied.
\<close>

definition sample_lib :: pylib where
  "sample_lib = \<lparr>loads = (\<lambda>s. if s = ''{}'' then Some (JObj []) else None), str_other = (\<lambda>_. ''?''),
     fromisoformat = (\<lambda>s. if s = ''2026-01-01T00:00:00+00:00'' then Some (True, seconds 1500) else None),
     decode_utf8_sig = Some, dumps = (\<lambda>_. ''{}''), encrypt = (\<lambda>s. s), decrypt = Some, available_timezones = (\<lambda>_. True)\<rparr>"

definition sample_payload :: json where
  "sample_payload = JObj [(''external_transaction_id'', JStr ''t1''), (''amount'', JStr ''12.50''),
     (''currency'', JStr ''INR''), (''occurred_at'', JStr ''2026-01-01T00:00:00Z''),
     (''customer'', JObj [(''phone'', JStr ''+14155550100''), (''name'', JStr ''Ann'')])]"

definition shop :: location where
  "shop = \<lparr>lo_id = ''l1'', lo_merchant = ''m1'', lo_name = ''Shop'', lo_address = None, lo_phone = None,
     lo_timezone = None, lo_active = True, lo_updated_at = 0\<rparr>"

definition rest_api :: integration where
  "rest_api = \<lparr>ig_id = ''i1'', ig_merchant = ''m1'', ig_provider = ''api'', ig_status = Connected,
     ig_credentials = None, ig_config = JObj [], ig_updated_at = 0\<rparr>"

definition shop_mapping :: location_mapping where
  "shop_mapping = \<lparr>lm_merchant = ''m1'', lm_integration = ''i1'', lm_location = ''l1'', lm_config = JObj [], lm_active = True\<rparr>"

definition ann :: customer where
  "ann = \<lparr>cu_id = ''c1'', cu_merchant = ''m1'', cu_phone = ''+14155550100'', cu_name = Some ''Ann'', cu_first_seen = None,
     cu_last_seen = None, cu_total = 0, cu_opted_out = False, cu_opted_out_at = None, cu_updated_at = 0\<rparr>"

definition waiting_event :: integration_event where
  "waiting_event = \<lparr>ie_id = ''e1'', ie_merchant = ''m1'', ie_integration = ''i1'', ie_source = ''api'', ie_external_id = ''k1'',
     ie_location = None, ie_payload = sample_payload, ie_status = Received, ie_received_at = Some 0, ie_processed_at = None,
     ie_attempts = 0, ie_error_code = None, ie_error_message = None, ie_updated_at = 0\<rparr>"

definition intake_db :: "integration_event list \<Rightarrow> idb" where
  "intake_db es = \<lparr>i_merchants = [(''m1'', MActive), (''m2'', MActive)], i_members = [(''m1'', ''u1'')], assignments = [],
     locations = [shop], integrations = [rest_api], mappings = [shop_mapping], events = es, customers = [ann], sales = [], i_audit = []\<rparr>"

definition m1_thread :: ctxvars where
  "m1_thread = no_vars\<lparr>merchant_var := Some ''m1''\<rparr>"

text \<open>A thread inside a request of merchant \<open>m1\<close>, and one that has not started.\<close>

definition intake_tx :: "idb \<Rightarrow> intake_world" where
  "intake_tx d = \<lparr>db = d, saves = [d], ctx = m1_thread, guc = m1_thread, row_locked = False,
     clock = (\<lambda>n. seconds (1600 + int n)), ticks = 0, env = (\<lambda>_ d. d), env_n = 0, pending = [], queue = [],
     py = sample_lib, icfg = \<lparr>csv_max_bytes = 1000, csv_max_rows = 10, shopify_client_id = ''id'',
       shopify_client_secret = ''s'', shopify_client_secret_previous = []\<rparr>,
     blobs = (\<lambda>_. None), storage_up = (\<lambda>_. True), storage_n = 0,
     secrets = (\<lambda>n. ''id'' @ replicate n (CHR ''x'')), secret_n = 0\<rparr>"

definition intake_idle :: "idb \<Rightarrow> intake_world" where
  "intake_idle d = (intake_tx d)\<lparr>saves := [], ctx := no_vars, guc := no_vars\<rparr>"

lemmas intake_sample_defs = sample_lib_def sample_payload_def shop_def rest_api_def shop_mapping_def ann_def waiting_event_def
  intake_db_def m1_thread_def intake_tx_def intake_idle_def

lemma in_intake_tx [simp]: "in_tx ''m1'' (intake_tx d)"
  by (simp add: in_tx_def quiet_def intake_tx_def m1_thread_def)

lemma fresh_intake_idle [simp]: "fresh_thread (intake_idle d)" "quiet (intake_idle d)" "db (intake_idle d) = d"
  by (simp_all add: fresh_thread_def quiet_def intake_idle_def intake_tx_def)

lemma intake_tx_fields [simp]: "db (intake_tx d) = d" "py (intake_tx d) = sample_lib" "secret_n (intake_tx d) = 0" "ticks (intake_tx d) = 0"
  by (simp_all add: intake_tx_def)

end
