(* ===== verification/IntakeSystem.thy ===== *)
theory IntakeSystem
  imports Intake Histories
begin

text \<open>
  The contract of a frame relation on the statements of the intake tables, and that every intake
  operation respects such a relation, whatever other transactions commit meanwhile.
\<close>

subsection \<open>What updates keep of a row\<close>

definition event_kept :: "integration_event \<Rightarrow> integration_event \<Rightarrow> bool" where
  "event_kept e e' \<longleftrightarrow> ie_id e' = ie_id e \<and> ie_merchant e' = ie_merchant e \<and> ie_integration e' = ie_integration e \<and>
     ie_external_id e' = ie_external_id e \<and> ie_source e' = ie_source e \<and> ie_payload e' = ie_payload e"

definition customer_kept :: "customer \<Rightarrow> customer \<Rightarrow> bool" where
  "customer_kept c c' \<longleftrightarrow> cu_id c' = cu_id c \<and> cu_merchant c' = cu_merchant c \<and> cu_phone c' = cu_phone c \<and>
     (cu_opted_out c \<longrightarrow> cu_opted_out c') \<and> cu_total c \<le> cu_total c'"

definition integration_kept :: "integration \<Rightarrow> integration \<Rightarrow> bool" where
  "integration_kept x x' \<longleftrightarrow> ig_id x' = ig_id x \<and> ig_merchant x' = ig_merchant x \<and> ig_provider x' = ig_provider x \<and>
     (ig_status x = Disconnected \<longrightarrow> ig_status x' = Disconnected) \<and> (connected_api x' \<longrightarrow> connected_api x)"

definition mapping_kept :: "location_mapping \<Rightarrow> location_mapping \<Rightarrow> bool" where
  "mapping_kept p p' \<longleftrightarrow> lm_merchant p' = lm_merchant p \<and> lm_integration p' = lm_integration p \<and> lm_location p' = lm_location p"

definition location_kept :: "location \<Rightarrow> location \<Rightarrow> bool" where
  "location_kept l l' \<longleftrightarrow> lo_id l' = lo_id l \<and> lo_merchant l' = lo_merchant l"

lemma connected_api_updates [simp]:
  "connected_api (x\<lparr>ig_updated_at := t\<rparr>) = connected_api x" "connected_api (x\<lparr>ig_config := c\<rparr>) = connected_api x"
  "connected_api (x\<lparr>ig_credentials := k\<rparr>) = connected_api x" "\<not> connected_api (x\<lparr>ig_status := Disconnected\<rparr>)"
  by (simp_all add: connected_api_def)

lemma kept_stamped [intro]:
  "event_kept e e' \<Longrightarrow> event_kept e (e'\<lparr>ie_updated_at := t\<rparr>)"
  "integration_kept x x' \<Longrightarrow> integration_kept x (x'\<lparr>ig_updated_at := t\<rparr>)"
  "location_kept l l' \<Longrightarrow> location_kept l (l'\<lparr>lo_updated_at := t\<rparr>)"
  by (simp_all add: event_kept_def integration_kept_def location_kept_def)

lemmas kept_defs = event_kept_def customer_kept_def integration_kept_def mapping_kept_def location_kept_def

subsection \<open>The contract\<close>

locale intake_frame = db_frame R for R :: "idb \<Rightarrow> idb \<Rightarrow> bool" +
  fixes G :: "ctxvars \<Rightarrow> bool"
  assumes R_new_event: "G c \<Longrightarrow> merchant_var c = Some (ie_merchant e) \<Longrightarrow> \<not> list_ex (same_event_key e) (events d) \<Longrightarrow>
      R d (d\<lparr>events := events d @ [e]\<rparr>)"
    and R_new_customer: "G c \<Longrightarrow> merchant_var c = Some (cu_merchant x) \<Longrightarrow> \<not> list_ex (same_customer_key x) (customers d) \<Longrightarrow>
      R d (d\<lparr>customers := customers d @ [x]\<rparr>)"
    and R_new_sale: "G c \<Longrightarrow> merchant_var c = Some (tx_merchant t) \<Longrightarrow> \<not> list_ex (same_sale_key t) (sales d) \<Longrightarrow>
      R d (d\<lparr>sales := sales d @ [t]\<rparr>)"
    and R_new_integration: "G c \<Longrightarrow> merchant_var c = Some (ig_merchant i) \<Longrightarrow>
      \<not> (connected_api i \<and> list_ex (\<lambda>q. ig_merchant q = ig_merchant i \<and> connected_api q) (integrations d)) \<Longrightarrow>
      R d (d\<lparr>integrations := integrations d @ [i]\<rparr>)"
    and R_new_mapping: "G c \<Longrightarrow> merchant_var c = Some (lm_merchant p) \<Longrightarrow> \<not> list_ex (same_mapping_key p) (mappings d) \<Longrightarrow>
      R d (d\<lparr>mappings := mappings d @ [p]\<rparr>)"
    and R_new_location: "G c \<Longrightarrow> merchant_var c = Some (lo_merchant l) \<Longrightarrow> R d (d\<lparr>locations := locations d @ [l]\<rparr>)"
    and R_new_audit: "G c \<Longrightarrow> merchant_var c = Some m \<Longrightarrow> al_merchant a = Some m \<Longrightarrow> R d (d\<lparr>i_audit := i_audit d @ [a]\<rparr>)"
    and R_events: "G c \<Longrightarrow> merchant_var c = Some m \<Longrightarrow> (\<And>e. event_kept e (f1 e)) \<Longrightarrow>
      R d (d\<lparr>events := update_rows ie_merchant m P1 f1 (events d)\<rparr>)"
    and R_customers: "G c \<Longrightarrow> merchant_var c = Some m \<Longrightarrow> (\<And>x. customer_kept x (f2 x)) \<Longrightarrow>
      R d (d\<lparr>customers := update_rows cu_merchant m P2 f2 (customers d)\<rparr>)"
    and R_integrations: "G c \<Longrightarrow> merchant_var c = Some m \<Longrightarrow> (\<And>x. integration_kept x (f3 x)) \<Longrightarrow>
      R d (d\<lparr>integrations := update_rows ig_merchant m P3 f3 (integrations d)\<rparr>)"
    and R_mappings: "G c \<Longrightarrow> merchant_var c = Some m \<Longrightarrow> (\<And>x. mapping_kept x (f4 x)) \<Longrightarrow>
      R d (d\<lparr>mappings := update_rows lm_merchant m P4 f4 (mappings d)\<rparr>)"
    and R_delete_mappings: "G c \<Longrightarrow> merchant_var c = Some m \<Longrightarrow>
      R d (d\<lparr>mappings := filter (\<lambda>r. \<not> (lm_merchant r = m \<and> P5 r)) (mappings d)\<rparr>)"
    and R_locations: "G c \<Longrightarrow> merchant_var c = Some m \<Longrightarrow> (\<And>x. location_kept x (f6 x)) \<Longrightarrow>
      R d (d\<lparr>locations := update_rows lo_merchant m P6 f6 (locations d)\<rparr>)"
begin

subsection \<open>Statements\<close>

lemma frames_scoped [frame_intros]: "frames R H (scoped f)"
  by (rule frames_pure) (simp add: scoped_def Let_def split: option.split)

lemma frames_liftE [frame_intros]: "frames R H (liftE r)"
  by (rule frames_pure) (simp add: Let_def)

lemma frames_require_row [frame_intros]: "frames R H (require_row e r)"
  by (rule frames_pure) (simp add: require_row_def Let_def split: option.split)

lemma frames_fresh [frame_intros]: "frames R H fresh"
  by (rule frames_pure) (simp add: fresh_def Let_def)

lemma frames_with_check [frame_intros]: "frames R H (with_check m)"
  by (rule frames_pure) (simp add: with_check_def Let_def)

lemma frames_wait [frame_intros]: "frames R H wait_for_insert"
  by (rule framesI) (auto simp: wait_for_insert_def interfere_frame)

lemma frames_checked_insert:
  assumes "\<And>w r w'. G (ctx w) \<Longrightarrow> merchant_var (ctx w) = Some m \<Longrightarrow> ins w = (r, w') \<Longrightarrow>
      ctx w' = ctx w \<and> env w' = env w \<and> R (db w) (db w') \<and> saves w' = saves w"
  shows "frames R G (seqM (with_check m) ins)"
proof (rule framesI)
  fix w r w'
  assume G: "G (ctx w)" and run: "seqM (with_check m) ins w = (r, w')"
  show "ctx w' = ctx w \<and> env w' = env w \<and> R (db w) (db w') \<and> list_all2 R (saves w) (saves w') \<and> (quiet w \<longrightarrow> saves w' = saves w)"
  proof (cases "merchant_var (ctx w) = Some m")
    case True
    with run have "ins w = (r, w')" by (simp add: run_seq with_check_def)
    with assms [of w r w'] G True show ?thesis by (simp add: saves_refl)
  next
    case False
    with run show ?thesis by (auto simp: run_seq with_check_def R_refl saves_refl)
  qed
qed

lemma wait_ctx: "rely R w \<Longrightarrow> ctx (interfere w) = ctx w"
  by (rule interfere_frame)

lemma frames_waited_insert:
  assumes "\<And>w r w'. G (ctx w) \<Longrightarrow> merchant_var (ctx w) = Some m \<Longrightarrow> ins w = (r, w') \<Longrightarrow>
      ctx w' = ctx w \<and> env w' = env w \<and> R (db w) (db w') \<and> saves w' = saves w"
  shows "frames R G (seqM (with_check m) (seqM wait_for_insert ins))"
proof (rule framesI)
  fix w r w'
  assume G: "G (ctx w)" and rel: "rely R w" and run: "seqM (with_check m) (seqM wait_for_insert ins) w = (r, w')"
  note i = interfere_frame [OF rel]
  show "ctx w' = ctx w \<and> env w' = env w \<and> R (db w) (db w') \<and> list_all2 R (saves w) (saves w') \<and> (quiet w \<longrightarrow> saves w' = saves w)"
  proof (cases "merchant_var (ctx w) = Some m")
    case True
    with run have "ins (interfere w) = (r, w')" by (simp add: run_seq with_check_def wait_for_insert_def)
    with assms [of "interfere w" r w'] G True i show ?thesis by (auto intro: R_trans)
  next
    case False
    with run show ?thesis by (auto simp: run_seq with_check_def R_refl saves_refl)
  qed
qed

lemma frames_insert_event [frame_intros]: "frames R G (insert_event e)"
  unfolding insert_event_def by (rule frames_waited_insert) (auto simp: R_refl R_new_event split: if_splits)

lemma frames_insert_customer [frame_intros]: "frames R G (insert_customer c)"
  unfolding insert_customer_def by (rule frames_waited_insert) (auto simp: R_refl R_new_customer split: if_splits)

lemma frames_insert_sale [frame_intros]: "frames R G (insert_sale t)"
  unfolding insert_sale_def by (rule frames_waited_insert) (auto simp: R_refl R_new_sale split: if_splits)

lemma frames_insert_integration [frame_intros]: "frames R G (insert_integration i)"
  unfolding insert_integration_def by (rule frames_waited_insert) (auto simp: R_refl R_new_integration split: if_splits)

lemma frames_insert_mapping [frame_intros]: "frames R G (insert_mapping p)"
  unfolding insert_mapping_def by (rule frames_waited_insert) (auto simp: R_refl R_new_mapping split: if_splits)

lemma frames_insert_location [frame_intros]: "frames R G (insert_location l)"
  unfolding insert_location_def by (rule frames_checked_insert) (auto simp: R_refl R_new_location split: if_splits)

lemma frames_scoped_modify:
  assumes "\<And>c m d. G c \<Longrightarrow> merchant_var c = Some m \<Longrightarrow> R d (g m d)"
  shows "frames R G (bindM (scoped (\<lambda>m d. m)) (\<lambda>m. modifyM (\<lambda>w :: intake_world. w\<lparr>db := g m (db w)\<rparr>)))"
  by (rule framesI) (use assms in \<open>auto simp: run_bind scoped_def saves_refl R_refl split: option.splits\<close>)

lemma frames_update_events [frame_intros]: "(\<And>e. event_kept e (f e)) \<Longrightarrow> frames R G (update_events P f)"
  unfolding update_events_def by (rule frames_scoped_modify) (rule R_events)

lemma frames_update_customers [frame_intros]: "(\<And>e. customer_kept e (f e)) \<Longrightarrow> frames R G (update_customers P f)"
  unfolding update_customers_def by (rule frames_scoped_modify) (rule R_customers)

lemma frames_update_integrations [frame_intros]: "(\<And>e. integration_kept e (f e)) \<Longrightarrow> frames R G (update_integrations P f)"
  unfolding update_integrations_def by (rule frames_scoped_modify) (rule R_integrations)

lemma frames_update_mappings [frame_intros]: "(\<And>e. mapping_kept e (f e)) \<Longrightarrow> frames R G (update_mappings P f)"
  unfolding update_mappings_def by (rule frames_scoped_modify) (rule R_mappings)

lemma frames_delete_mappings [frame_intros]: "frames R G (delete_mappings P)"
  unfolding delete_mappings_def by (rule frames_scoped_modify) (rule R_delete_mappings)

lemma frames_update_locations [frame_intros]: "(\<And>e. location_kept e (f e)) \<Longrightarrow> frames R G (update_locations P f)"
  unfolding update_locations_def by (rule frames_scoped_modify) (rule R_locations)

lemma frames_save_event [frame_intros]: "(\<And>t e. event_kept e (f t e)) \<Longrightarrow> frames R G (save_event i f)"
  unfolding save_event_def by (intro frame_intros) (rule kept_stamped)

lemma frames_save_integration [frame_intros]: "(\<And>e. integration_kept e (f e)) \<Longrightarrow> frames R G (save_integration i f)"
  unfolding save_integration_def by (intro frame_intros) (rule kept_stamped)

lemma frames_save_location [frame_intros]: "(\<And>e. location_kept e (f e)) \<Longrightarrow> frames R G (save_location i f)"
  unfolding save_location_def by (intro frame_intros) (rule kept_stamped)

lemma frames_scoped_step:
  assumes "\<And>m d. frames R (\<lambda>c. G c \<and> merchant_var c = Some m) (f (g m d))"
  shows "frames R G (bindM (scoped g) f)"
proof (rule framesI)
  fix w r w'
  assume G: "G (ctx w)" and rel: "rely R w" and run: "bindM (scoped g) f w = (r, w')"
  show "ctx w' = ctx w \<and> env w' = env w \<and> R (db w) (db w') \<and> list_all2 R (saves w) (saves w') \<and> (quiet w \<longrightarrow> saves w' = saves w)"
  proof (cases "merchant_var (ctx w)")
    case None
    with run show ?thesis by (auto simp: run_bind scoped_def R_refl saves_refl)
  next
    case (Some m)
    with run have "f (g m (db w)) w = (r, w')" by (simp add: run_bind scoped_def)
    from framesD [OF assms _ rel this] G Some show ?thesis by simp
  qed
qed

lemma frames_audit_integration [frame_intros]: "frames R G (audit_integration action actor ig md)"
proof -
  have app: "frames R (\<lambda>c. G c \<and> merchant_var c = Some m)
      (modifyM (\<lambda>w :: intake_world. w\<lparr>db := (db w)\<lparr>i_audit := i_audit (db w) @ [e]\<rparr>\<rparr>))"
    if "al_merchant e = Some m" for m e
    by (rule frames_modify) (auto intro: R_new_audit [OF _ _ that])
  show ?thesis
    unfolding audit_integration_def
    by (intro frames_tenant_atomic frames_scoped_step) (simp only: prod.case, intro frames_if frames_throw app, simp)
qed

lemma frames_create_or_conflict [frame_intros]: "frames R G m \<Longrightarrow> frames R G (create_or_conflict m)"
  unfolding create_or_conflict_def
  by (rule frames_catch) (auto intro: frames_bind frames_atomic frames_ret split: if_splits)

lemma frames_case_sum [frame_intros]:
  "(\<And>a. x = Inl a \<Longrightarrow> frames R G (f a)) \<Longrightarrow> (\<And>b. x = Inr b \<Longrightarrow> frames R G (g b)) \<Longrightarrow>
     frames R G (case x of Inl a \<Rightarrow> f a | Inr b \<Rightarrow> g b)"
  by (cases x) simp_all

lemma frames_case_list [frame_intros]:
  "frames R G m \<Longrightarrow> (\<And>a b. frames R G (f a b)) \<Longrightarrow> frames R G (case x of [] \<Rightarrow> m | a # b \<Rightarrow> f a b)"
  by (cases x) simp_all

subsection \<open>Operations\<close>

lemma frames_check_timezone [frame_intros]: "frames R G (check_timezone tz)"
  unfolding check_timezone_def validate_timezone_def by (intro frame_intros)

lemma frames_create_location [frame_intros]: "frames R G (create_location n a p tz)"
  unfolding create_location_def by (intro frame_intros frames_tenant_atomic)

lemma frames_update_location [frame_intros]: "frames R G (update_location l c)"
  unfolding update_location_def by (intro frame_intros) (simp add: location_kept_def changed_location_def)

lemma frames_deactivate_location [frame_intros]: "frames R G (deactivate_location l)"
  unfolding deactivate_location_def by (intro frame_intros) (simp add: location_kept_def)

lemma frames_get_or_create_customer [frame_intros]: "frames R G (get_or_create_customer p n)"
  unfolding get_or_create_customer_def insert_or_get_customer_def by (intro frame_intros)

lemma frames_opt_out_customer [frame_intros]: "frames R G (opt_out_customer p c s)"
  unfolding opt_out_customer_def by (intro frame_intros) (simp add: customer_kept_def)

lemma frames_sale_customer [frame_intros]: "frames R G (sale_customer s)"
  unfolding sale_customer_def by (intro frame_intros)

lemma frames_count_for [frame_intros]: "frames R G (count_for c s)"
  unfolding count_for_def by (intro frame_intros) (simp add: customer_kept_def count_sale_def)

lemma frames_record_sale [frame_intros]: "frames R G (record_sale ig l s)"
  unfolding record_sale_def insert_or_get_sale_def by (intro frame_intros)

lemma frames_issue_credentials [frame_intros]: "frames R G (issue_credentials a)"
  unfolding issue_credentials_def by (cases a) (simp_all, (intro frame_intros)+)

lemma frames_connect_integration [frame_intros]: "frames R G (connect_integration actor p c config)"
  unfolding connect_integration_def assert_generic_connect_allowed_def by (intro frame_intros)

lemma frames_update_integration_config [frame_intros]: "frames R G (update_integration_config ig c)"
  unfolding update_integration_config_def by (intro frame_intros) (simp add: integration_kept_def)

lemma frames_lock_integration [frame_intros]: "frames R G (lock_integration i)"
  unfolding lock_integration_def by (intro frame_intros)

lemma frames_cancel_pending [frame_intros]: "frames R G (cancel_pending i)"
  unfolding cancel_pending_def by (intro frame_intros) (simp add: event_kept_def)

lemma frames_disconnect_integration [frame_intros]: "frames R G (disconnect_integration actor ig reason)"
  unfolding disconnect_integration_def
  by (intro frame_intros) (simp_all add: integration_kept_def mapping_kept_def)

lemma frames_assert_same_merchant [frame_intros]: "frames R G (assert_same_merchant ig l f)"
  unfolding assert_same_merchant_def by (intro frame_intros)

lemma frames_validate_external_location_id [frame_intros]: "frames R G (validate_external_location_id ig c a)"
  unfolding validate_external_location_id_def by (intro frame_intros)

lemma frames_add_location_mapping [frame_intros]: "frames R G (add_location_mapping ig l c a)"
  unfolding add_location_mapping_def by (intro frame_intros)

lemma frames_put_mapping [frame_intros]: "frames R G (put_mapping ig existing r)"
  unfolding put_mapping_def by (intro frame_intros) (simp add: mapping_kept_def)

lemma frames_replace_location_mappings [frame_intros]: "frames R G (replace_location_mappings ig rs)"
  unfolding replace_location_mappings_def by (intro frame_intros)

lemma frames_resolve_location [frame_intros]: "frames R G (resolve_location ig s)"
  unfolding resolve_location_def mapped_location_def by (intro frame_intros)

lemma frames_record_event [frame_intros]: "frames R G (record_event ig i p)"
  unfolding record_event_def insert_or_get_event_def by (intro frame_intros)

lemma frames_event_after [frame_intros]: "frames R G (event_after i)"
  unfolding event_after_def by (intro frame_intros)

lemma frames_attempt [frame_intros]: "frames R G (attempt ig e)"
  unfolding attempt_def by (intro frame_intros frames_atomic)

lemma frames_try_attempt [frame_intros]: "frames R G (try_attempt ig e)"
  unfolding try_attempt_def by (intro frame_intros) (auto intro: frame_intros)

lemma frames_attempt_event [frame_intros]: "frames R G (attempt_event ig e)"
  unfolding attempt_event_def record_failure_def
  by (intro frame_intros) (simp_all add: event_kept_def failed_event_def processed_event_def Let_def)

lemma frames_handle_event [frame_intros]: "frames R G (handle_event e)"
  unfolding handle_event_def is_due_def by (intro frame_intros) (simp add: event_kept_def)

lemma frames_process_event [frame_intros]: "frames R G (process_event i)"
  unfolding process_event_def lock_event_def by (intro frame_intros)

lemma frames_due_among [frame_intros]: "frames R H (due_among c es)"
proof (induction es)
  case Nil
  show ?case unfolding due_among.simps by (rule frames_ret)
next
  case (Cons e es)
  show ?case unfolding due_among.simps is_due_def by (intro frame_intros Cons)
qed

lemma frames_due_event_ids [frame_intros]: "frames R H (due_event_ids locked)"
  unfolding due_event_ids_def by (intro frame_intros)

lemma frames_sweep_merchant [frame_intros]: "frames R H (sweep_merchant locked m)"
  unfolding sweep_merchant_def by (rule frames_tenant_context [where G' = "\<lambda>_. True"]) (intro frame_intros, simp_all)

lemma frames_put_object [frame_intros]: "frames R G (put_object k d)"
  by (rule frames_pure) (simp add: put_object_def storage_call_def Let_def)

lemma frames_get_object [frame_intros]: "frames R G (get_object k)"
  by (rule frames_pure) (simp add: get_object_def storage_call_def Let_def)

lemma frames_delete_object [frame_intros]: "frames R G (delete_object k)"
  by (rule frames_pure) (simp add: delete_object_def storage_call_def Let_def)

lemma frames_for_lookup_id [frame_intros]: "frames R H (for_lookup_id i)"
  by (rule frames_pure) (simp add: for_lookup_id_def Let_def)

end

text \<open>
  Sale intake as the set of its entries (webhook deliveries, requests, tasks, the retry sweep), each a
  thread of a \<open>history\<close>, and the frame relations that hold along every history.
\<close>

subsection \<open>Entries\<close>

datatype intake_entry =
    Delivery string "uuid option" delivery
  | RestSale uuid json
  | CsvUpload uuid uuid "string option"
  | CsvTask uuid uuid string
  | ProcessTask uuid uuid
  | RetrySweep "uuid \<Rightarrow> bool"
  | Connect uuid uuid string json json
  | Configure uuid uuid json
  | Disconnect uuid uuid uuid
  | AddMapping uuid uuid uuid json bool
  | ReplaceMappings uuid uuid "mapping_request list"
  | NewLocation uuid string "string option" "string option" "string option"
  | ChangeLocation uuid team_member uuid location_changes
  | RemoveLocation uuid team_member uuid
  | OptOut uuid uuid

text \<open>A request runs inside the tenant transaction of the middleware.\<close>

abbreviation in_request :: "uuid \<Rightarrow> 'a iprog \<Rightarrow> unit iprog" where
  "in_request m p \<equiv> tenant_middleware m (answered p)"

definition run_intake :: "intake_entry \<Rightarrow> unit iprog" where
  "run_intake entry = (case entry of
     Delivery provider i r \<Rightarrow> answered (receive_webhook provider i r)
   | RestSale m payload \<Rightarrow> in_request m (sales_post payload)
   | CsvUpload m i file \<Rightarrow> in_request m (bindM (get_integration i) (\<lambda>ig. start_csv_import ig file))
   | CsvTask m i key \<Rightarrow> import_csv i key (Some m)
   | ProcessTask m i \<Rightarrow> process_integration_event i (Some m)
   | RetrySweep locked \<Rightarrow> retry_failed_events locked
   | Connect m actor provider credentials config \<Rightarrow> in_request m (connect_integration actor provider credentials config)
   | Configure m i config \<Rightarrow> in_request m (bindM (get_integration i) (\<lambda>ig. update_integration_config ig config))
   | Disconnect m actor i \<Rightarrow> in_request m (bindM (get_integration i) (\<lambda>ig. disconnect_integration (Some actor) ig None))
   | AddMapping m i l config active \<Rightarrow> in_request m (bindM (get_integration i) (\<lambda>ig. add_location_mapping ig l config active))
   | ReplaceMappings m i rs \<Rightarrow> in_request m (bindM (get_integration i) (\<lambda>ig. replace_location_mappings ig rs))
   | NewLocation m name address phone tz \<Rightarrow> in_request m (create_location name address phone tz)
   | ChangeLocation m actor i c \<Rightarrow> in_request m (bindM (get_accessible_location actor i) (\<lambda>l. update_location l c))
   | RemoveLocation m actor i \<Rightarrow> in_request m (bindM (get_accessible_location actor i) deactivate_location)
   | OptOut m i \<Rightarrow> in_request m (bindM (get_customer i) (\<lambda>c. opt_out_customer None (Some c) ''MANUAL'')))"

fun intake_merchant :: "intake_entry \<Rightarrow> uuid option" where
  "intake_merchant (Delivery _ _ _) = None"
| "intake_merchant (RetrySweep _) = None"
| "intake_merchant (RestSale m _) = Some m"
| "intake_merchant (CsvUpload m _ _) = Some m"
| "intake_merchant (CsvTask m _ _) = Some m"
| "intake_merchant (ProcessTask m _) = Some m"
| "intake_merchant (Connect m _ _ _ _) = Some m"
| "intake_merchant (Configure m _ _) = Some m"
| "intake_merchant (Disconnect m _ _) = Some m"
| "intake_merchant (AddMapping m _ _ _ _) = Some m"
| "intake_merchant (ReplaceMappings m _ _) = Some m"
| "intake_merchant (NewLocation m _ _ _ _) = Some m"
| "intake_merchant (ChangeLocation m _ _ _) = Some m"
| "intake_merchant (RemoveLocation m _ _) = Some m"
| "intake_merchant (OptOut m _) = Some m"

subsection \<open>Frames of the entries\<close>

context intake_frame
begin

lemma frames_payload_checked [frame_intros]: "frames R H m \<Longrightarrow> frames R H (payload_checked m)"
  unfolding payload_checked_def by (intro frame_intros) (auto intro: frames_throw)

lemma frames_sales_post [frame_intros]: "frames R G (sales_post payload)"
proof -
  have "frames R G connected_api_integration"
    unfolding connected_api_integration_def by (intro frame_intros)
  note frame_intros = frame_intros this
  show ?thesis unfolding sales_post_def ingest_api_sale_def by (intro frame_intros)
qed

lemma frames_get_integration [frame_intros]: "frames R G (get_integration i)"
  unfolding get_integration_def by (intro frame_intros)

lemma frames_get_accessible_location [frame_intros]: "frames R G (get_accessible_location a i)"
  unfolding get_accessible_location_def accessible_locations_def by (intro frame_intros)

lemma frames_get_customer [frame_intros]: "frames R G (get_customer i)"
  unfolding get_customer_def by (intro frame_intros)

lemma frames_start_csv_import [frame_intros]: "frames R G (start_csv_import ig file)"
  unfolding start_csv_import_def Let_def by (intro frame_intros)

lemma frames_import_rows [frame_intros]: "frames R G (import_rows lib a ig key rows err)"
proof (induction rows)
  case Nil
  show ?case unfolding import_rows.simps by (intro frame_intros)
next
  case (Cons r rows)
  show ?case unfolding import_rows.simps
    by (intro frame_intros Cons) (auto intro: frames_ret split: if_splits)
qed

lemma frames_import_csv_rows [frame_intros]: "frames R G (import_csv_rows i key)"
  unfolding import_csv_rows_def by (intro frame_intros) (auto intro: frames_ret split: if_splits)

lemma frames_merchant_intake:
  assumes "intake_merchant entry = Some m" "\<And>c. G (c\<lparr>merchant_var := Some m\<rparr>)"
  shows "frames R (\<lambda>_. True) (run_intake entry)"
  using assms
  by (cases entry)
    (simp_all add: run_intake_def import_csv_def process_integration_event_def,
     ((rule frames_in_tenant [of G] frames_in_task [of G], intro frame_intros, simp)+)?)

lemma frames_sweep_intake: "frames R (\<lambda>_. True) (retry_failed_events locked)"
  unfolding retry_failed_events_def by (intro frame_intros)

lemma frames_delivery:
  assumes "\<And>c. G c"
  shows "frames R (\<lambda>_. True) (receive_webhook provider i r)"
proof -
  have lookup: "frames R (\<lambda>_. True) (lookup_integration i)"
    unfolding lookup_integration_def integration_lookup_atomic_def
    by (intro frame_intros frames_lookup_atomic [where G' = "\<lambda>_. True"]) (auto intro: frames_throw split: if_splits)
  have sale: "frames R (\<lambda>_. True) (handle_sale_delivery a ig r)" for a ig
  proof -
    have "frames R (\<lambda>_. True) (tenant_context (Some (ig_merchant ig)) (catchM (bindM (record_event ig key payload) (\<lambda>_. ret ()))
           (\<lambda>e. if e = App IntegrationDisconnected then Some (throw webhook_rejected) else None)))" for key payload
      by (rule frames_tenant_context [where G' = G]) (intro frame_intros, auto intro: frames_throw assms split: if_splits)
    note frame_intros = frame_intros this
    show ?thesis unfolding handle_sale_delivery_def by (intro frame_intros)
  qed
  have uninstall: "frames R (\<lambda>_. True) (handle_uninstall a ig r)" for a ig
  proof -
    have "frames R (\<lambda>_. True) (tenant_context (Some (ig_merchant ig)) (disconnect_integration None ig (Some ''app_uninstalled'')))"
      by (rule frames_tenant_context [where G' = G]) (rule frames_disconnect_integration, rule assms)
    note frame_intros = frame_intros this
    show ?thesis unfolding handle_uninstall_def by (intro frame_intros)
  qed
  show ?thesis unfolding receive_webhook_def by (intro frame_intros lookup sale uninstall)
qed

lemma frames_intake_entry:
  assumes "\<And>c. G c"
  shows "frames R (\<lambda>_. True) (run_intake entry)"
proof (cases "intake_merchant entry")
  case (Some m)
  then show ?thesis by (rule frames_merchant_intake) (rule assms)
next
  case None
  then show ?thesis
    using frames_sweep_intake frames_answered [OF frames_delivery [OF assms]]
    by (cases entry) (simp_all add: run_intake_def)
qed

end

end
