(* ===== verification/SalesProps.thy ===== *)
theory SalesProps
  imports IntakeRuns IntakeSystem
begin

text \<open>
  What recording a sale does to the tables, on every branch, for a thread nobody interferes with.
\<close>

interpretation intake_stack: intake_frame "\<lambda>_ _. True" "\<lambda>_. True"
  by unfold_locales auto

subsection \<open>The customer of a sale\<close>

text \<open>What stays the same while a thread works inside its transaction.\<close>

definition same_thread :: "uuid \<Rightarrow> intake_world \<Rightarrow> intake_world \<Rightarrow> bool" where
  "same_thread m w w' \<longleftrightarrow> in_tx m w' \<and> saves w' = saves w \<and> pending w' = pending w \<and> queue w' = queue w \<and> clock w' = clock w \<and>
     py w' = py w \<and> secrets w' = secrets w \<and> secret_n w \<le> secret_n w'"

lemma same_threadD:
  assumes "same_thread m w w'"
  shows "in_tx m w'" "saves w' = saves w" "pending w' = pending w" "queue w' = queue w" "clock w' = clock w" "py w' = py w"
    "secrets w' = secrets w" "secret_n w \<le> secret_n w'"
  using assms by (simp_all add: same_thread_def)

lemma same_thread_trans: "same_thread m a b \<Longrightarrow> same_thread m b c \<Longrightarrow> same_thread m a c"
  by (auto simp: same_thread_def)

definition the_customer :: "uuid \<Rightarrow> string \<Rightarrow> idb \<Rightarrow> customer option" where
  "the_customer m p d = first (\<lambda>x. cu_merchant x = m \<and> cu_phone x = p) (customers d)"

text \<open>The customer of a phone number: the one there is, or a new one that has no sales yet.\<close>

definition customer_ensured :: "uuid \<Rightarrow> string \<Rightarrow> (uuid \<Rightarrow> bool) \<Rightarrow> customer \<Rightarrow> idb \<Rightarrow> idb \<Rightarrow> bool" where
  "customer_ensured m p is_fresh c d d' \<longleftrightarrow> cu_merchant c = m \<and> cu_phone c = p \<and>
     (case the_customer m p d of
        Some x \<Rightarrow> c = x \<and> d' = d
      | None \<Rightarrow> is_fresh (cu_id c) \<and> cu_total c = 0 \<and> \<not> cu_opted_out c \<and> cu_first_seen c = None \<and> cu_last_seen c = None \<and>
          d' = d\<lparr>customers := customers d @ [c]\<rparr>)"

lemma the_customer_None: "the_customer m p d = None \<longleftrightarrow> \<not> list_ex (\<lambda>q. cu_merchant q = m \<and> cu_phone q = p) (customers d)"
  by (auto simp: the_customer_def first_None list_ex_iff)

lemma the_customerD: "the_customer m p d = Some c \<Longrightarrow> c \<in> set (customers d) \<and> cu_merchant c = m \<and> cu_phone c = p"
  using first_SomeD unfolding the_customer_def by fastforce

text \<open>Ids drawn from here on.\<close>

definition drawn :: "intake_world \<Rightarrow> uuid \<Rightarrow> bool" where
  "drawn w i \<longleftrightarrow> (\<exists>n\<ge>secret_n w. i = secrets w n)"

lemma wp_get_or_create_customer:
  assumes tx: "in_tx m w"
  shows "wp (get_or_create_customer p n) (\<lambda>(c, _) w'. same_thread m w w' \<and> customer_ensured m p (drawn w) c (db w) (db w'))
    (\<lambda>_ _. True) w"
proof (cases "validate_e164 p")
  case (Inl e)
  then show ?thesis by (simp add: wp_def get_or_create_customer_def run_bind)
next
  case (Inr x)
  let ?u = "tick (w\<lparr>saves := db w # saves w, secret_n := Suc (secret_n w)\<rparr>)"
  let ?c = "new_customer (py w) m p n (secrets w (secret_n w)) (clock w (ticks w))"
  have u: "in_tx m ?u" using tx by (simp add: in_tx_def quiet_def tick_def)
  have sv: "in_tx m (w\<lparr>saves := db w # saves w\<rparr>)" using tx by (simp add: in_tx_def quiet_def)
  have key: "list_ex (same_customer_key ?c) (customers (db w)) \<longleftrightarrow> the_customer m p (db w) \<noteq> None"
    by (auto simp: the_customer_None same_customer_key_def list_ex_iff new_customer_def)
  have run: "get_or_create_customer p n w = (case insert_or_get_customer ?c ?u of
       (Inr a, w') \<Rightarrow> (Inr a, w'\<lparr>saves := tl (saves w')\<rparr>) | (Inl e, w') \<Rightarrow> (Inl e, rollback_block w w'))"
    using Inr by (simp add: get_or_create_customer_def run_bind run_nested [OF tx] run_scoped [OF sv] run_fresh run_now)
  have own: "cu_merchant ?c = m" by (simp add: new_customer_def)
  show ?thesis
  proof (cases "16 < length (cu_phone ?c) \<or> \<not> fits_text 255 (cu_name ?c)")
    case True
    then show ?thesis unfolding wp_def run insert_or_get_customer_def run_bind run_create_customer [OF u own] by simp
  next
    case False
    show ?thesis
    proof (cases "the_customer m p (db w)")
      case None
      then show ?thesis
        unfolding wp_def run insert_or_get_customer_def run_bind run_create_customer [OF u own] using False key tx
        by (auto simp: same_thread_def customer_ensured_def drawn_def with_db_def stepped_def in_tx_def quiet_def tick_def new_customer_def)
    next
      case (Some x)
      then show ?thesis
        unfolding wp_def run insert_or_get_customer_def run_bind run_create_customer [OF u own] using False key tx the_customerD [OF Some]
        by (auto simp: same_thread_def customer_ensured_def with_db_def stepped_def in_tx_def quiet_def tick_def run_require scoped_def
            the_customer_def new_customer_def)
    qed
  qed
qed

subsection \<open>The sale\<close>

definition buyer :: "uuid \<Rightarrow> (uuid \<Rightarrow> bool) \<Rightarrow> sale \<Rightarrow> customer option \<Rightarrow> idb \<Rightarrow> idb \<Rightarrow> bool" where
  "buyer m is_fresh s cu d d1 \<longleftrightarrow> (if truthy_text (sa_phone s)
     then (\<exists>p c. sa_phone s = Some p \<and> cu = Some c \<and> customer_ensured m p is_fresh c d d1) else cu = None \<and> d1 = d)"

definition counted_for :: "uuid \<Rightarrow> customer option \<Rightarrow> sale \<Rightarrow> customer list \<Rightarrow> customer list" where
  "counted_for m cu s cs = (case cu of None \<Rightarrow> cs
     | Some c \<Rightarrow> update_rows cu_merchant m (\<lambda>x. cu_id x = cu_id c) (count_sale (sa_occurred_at s)) cs)"

definition sale_taken :: "location \<Rightarrow> sale \<Rightarrow> sale_row \<Rightarrow> bool" where
  "sale_taken l s q \<longleftrightarrow> tx_location q = lo_id l \<and> tx_external_id q = sa_external_id s"

definition sale_recorded ::
  "pylib \<Rightarrow> uuid \<Rightarrow> integration \<Rightarrow> location \<Rightarrow> sale \<Rightarrow> (uuid \<Rightarrow> bool) \<Rightarrow> sale_row \<Rightarrow> bool \<Rightarrow> idb \<Rightarrow> idb \<Rightarrow> bool" where
  "sale_recorded lib m ig l s is_fresh row created d d' \<longleftrightarrow> (\<exists>cu d1. buyer m is_fresh s cu d d1 \<and>
     (if created
      then \<not> list_ex (sale_taken l s) (sales d) \<and> (\<exists>i t. row = sale_row_of lib i t m ig l cu s) \<and>
        d' = d1\<lparr>sales := sales d @ [row], customers := counted_for m cu s (customers d1)\<rparr>
      else row \<in> set (sales d) \<and> tx_merchant row = m \<and> sale_taken l s row \<and> d' = d1))"

lemma customer_ensured_sales: "customer_ensured m p f c d d1 \<Longrightarrow> sales d1 = sales d"
  by (cases "the_customer m p d") (simp_all add: customer_ensured_def)

lemma buyer_sales: "buyer m f s cu d d1 \<Longrightarrow> sales d1 = sales d"
  unfolding buyer_def by (cases "truthy_text (sa_phone s)") (use customer_ensured_sales in fastforce)+

lemma wp_sale_customer:
  assumes "in_tx m w"
  shows "wp (sale_customer s) (\<lambda>cu w'. same_thread m w w' \<and> buyer m (drawn w) s cu (db w) (db w')) (\<lambda>_ _. True) w"
proof (cases "truthy_text (sa_phone s)")
  case False
  then show ?thesis using assms by (cases "sa_phone s") (auto simp: sale_customer_def wp_ret same_thread_def buyer_def)
next
  case True
  then obtain p where p: "sa_phone s = Some p" "p \<noteq> []" by (cases "sa_phone s") auto
  show ?thesis
    unfolding sale_customer_def p(1) option.case if_not_P [OF p(2)]
  proof (rule wp_bind_spec [OF wp_get_or_create_customer [OF assms]])
    fix a w'
    assume "(\<lambda>(c, _) w'. same_thread m w w' \<and> customer_ensured m p (drawn w) c (db w) (db w')) a w'"
    moreover obtain c b where "a = (c, b)" by fastforce
    ultimately show "wp (case a of (c, _) \<Rightarrow> ret (Some c)) (\<lambda>cu w'. same_thread m w w' \<and> buyer m (drawn w) s cu (db w) (db w')) (\<lambda>_ _. True) w'"
      using True by (simp add: wp_ret buyer_def p(1))
  qed simp
qed

lemma find_row_present: "r \<in> set rows \<Longrightarrow> owner r = m \<Longrightarrow> find_row owner key m (key r) rows \<noteq> None"
  by (auto simp: find_row_def first_None)

definition sale_stored :: "uuid \<Rightarrow> customer option \<Rightarrow> sale \<Rightarrow> sale_row \<Rightarrow> sale_row \<Rightarrow> bool \<Rightarrow> idb \<Rightarrow> idb \<Rightarrow> bool" where
  "sale_stored m cu s row r created d d' \<longleftrightarrow>
     (if created then \<not> list_ex (same_sale_key row) (sales d) \<and> r = row \<and>
        d' = d\<lparr>sales := sales d @ [row], customers := counted_for m cu s (customers d)\<rparr>
      else r \<in> set (sales d) \<and> tx_merchant r = m \<and> same_sale_key row r \<and> d' = d)"

lemma wp_insert_sale:
  assumes tx: "in_tx m w" and m: "tx_merchant row = m"
    and cu: "case cu of None \<Rightarrow> True | Some c \<Rightarrow> cu_merchant c = m \<and> c \<in> set (customers (db w))"
  shows "wp (insert_or_get_sale row cu s) (\<lambda>(r, created) w'. same_thread m w w' \<and> sale_stored m cu s row r created (db w) (db w')) (\<lambda>_ _. True) w"
  proof -
  consider (bad) "255 < length (tx_external_id row) \<or> 3 < length (tx_currency row) \<or> \<not> fits_text 32 (tx_payment_method row)"
    | (dup) "\<not> (255 < length (tx_external_id row) \<or> 3 < length (tx_currency row) \<or> \<not> fits_text 32 (tx_payment_method row))"
        "list_ex (same_sale_key row) (sales (db w))"
    | (new) "\<not> (255 < length (tx_external_id row) \<or> 3 < length (tx_currency row) \<or> \<not> fits_text 32 (tx_payment_method row))"
        "\<not> list_ex (same_sale_key row) (sales (db w))" by blast
  then show ?thesis
  proof cases
    case bad
    then show ?thesis unfolding wp_def insert_or_get_sale_def run_bind run_create_sale [OF tx m] by simp
  next
    case dup
    have st: "in_tx m (stepped w)" using tx by simp
    show ?thesis
    proof (cases "first (\<lambda>x. tx_merchant x = m \<and> tx_location x = tx_location row \<and> tx_external_id x = tx_external_id row) (sales (db w))")
      case None
      then show ?thesis
        unfolding wp_def insert_or_get_sale_def run_bind run_create_sale [OF tx m] using dup by (simp add: run_bind run_scoped [OF st] run_require)
    next
      case (Some r)
      from first_SomeD [OF Some] have "r \<in> set (sales (db w)) \<and> tx_merchant r = m \<and> same_sale_key row r" by (simp add: same_sale_key_def)
      then show ?thesis
        unfolding wp_def insert_or_get_sale_def run_bind run_create_sale [OF tx m]
        using dup Some tx by (simp add: run_bind run_scoped [OF st] run_require same_thread_def sale_stored_def)
    qed
  next
    case new
    let ?d = "(db w)\<lparr>sales := sales (db w) @ [row]\<rparr>"
    have st: "in_tx m (with_db ?d (stepped w))" using tx by simp
    show ?thesis
    proof (cases cu)
      case None
      then show ?thesis
        unfolding wp_def insert_or_get_sale_def run_bind run_create_sale [OF tx m]
        using new tx by (simp add: run_seq count_for_def same_thread_def sale_stored_def counted_for_def)
    next
      case (Some c)
      have c: "cu_merchant c = m" "c \<in> set (customers (db w))" using cu Some by simp_all
      let ?cs = "update_rows cu_merchant m (\<lambda>x. cu_id x = cu_id c) (count_sale (sa_occurred_at s)) (customers (db w))"
      have "find_row cu_merchant cu_id m (cu_id c) ?cs \<noteq> None"
        using find_row_present [OF c(2), of cu_merchant m cu_id] c(1) by (simp add: find_update_rows count_sale_def)
      then obtain x where x: "find_row cu_merchant cu_id m (cu_id c) ?cs = Some x" by blast
      have "in_tx m (with_db (?d\<lparr>customers := ?cs\<rparr>) (with_db ?d (stepped w)))" using tx by simp
      then have run: "count_for cu s (with_db ?d (stepped w)) = (Inr (), with_db (?d\<lparr>customers := ?cs\<rparr>) (with_db ?d (stepped w)))"
        using Some x by (simp add: count_for_def run_seq run_update_customers [OF st] run_bind run_scoped run_require)
      then show ?thesis
        unfolding wp_def insert_or_get_sale_def run_bind run_create_sale [OF tx m]
        using new tx Some by (simp add: run_seq same_thread_def sale_stored_def counted_for_def)
    qed
  qed
qed

subsection \<open>The whole recording\<close>

lemma same_thread_block:
  assumes "in_tx m w" "same_thread m (w\<lparr>saves := db w # saves w\<rparr>) w'"
  shows "same_thread m w (w'\<lparr>saves := tl (saves w')\<rparr>)"
  using assms by (auto simp: same_thread_def in_tx_def quiet_def)

lemma same_thread_drawn: "same_thread m a b \<Longrightarrow> drawn b i \<Longrightarrow> drawn a i"
  by (auto simp: same_thread_def drawn_def intro: order_trans)

lemma buyer_known:
  assumes "buyer m f s cu d d1"
  shows "case cu of None \<Rightarrow> True | Some c \<Rightarrow> cu_merchant c = m \<and> c \<in> set (customers d1)"
proof (cases cu)
  case (Some c)
  with assms obtain p where "customer_ensured m p f c d d1" by (auto simp: buyer_def split: if_splits)
  then show ?thesis using Some the_customerD [of m p d c]
    by (cases "the_customer m p d") (auto simp: customer_ensured_def)
qed simp

lemma recorded_if_stored:
  assumes "buyer m f s cu d d1"
    and "if created then \<not> list_ex (sale_taken l s) (sales d1) \<and> r = sale_row_of lib i t m ig l cu s \<and>
        d' = d1\<lparr>sales := sales d1 @ [sale_row_of lib i t m ig l cu s], customers := counted_for m cu s (customers d1)\<rparr>
      else r \<in> set (sales d1) \<and> tx_merchant r = m \<and> sale_taken l s r \<and> d' = d1"
  shows "sale_recorded lib m ig l s f r created d d'"
  unfolding sale_recorded_def using assms buyer_sales [OF assms(1)] by (cases created) auto

lemma wp_record_sale:
  assumes tx: "in_tx m w" and ig: "ig_merchant ig = m" and l: "lo_merchant l = m"
  shows "wp (record_sale ig l s) (\<lambda>(row, created) w'. same_thread m w w' \<and>
      sale_recorded (py w) m ig l s (drawn w) row created (db w) (db w')) (\<lambda>_ _. True) w"
proof -
  let ?v = "w\<lparr>saves := db w # saves w\<rparr>"
  let ?body = "bindM (sale_customer s) (\<lambda>customer.
       if \<not> same_tenant (Some m) ig l customer then throw TenantContextError
       else bindM (asks py) (\<lambda>lib. bindM fresh (\<lambda>i. bindM now (\<lambda>t.
         insert_or_get_sale (sale_row_of lib i t (lo_merchant l) ig l customer s) customer s))))"
  have v: "in_tx m ?v" "drawn ?v = drawn w" using tx by (simp_all add: in_tx_def quiet_def drawn_def fun_eq_iff)
  have "wp ?body (\<lambda>(row, created) w'. same_thread m ?v w' \<and> sale_recorded (py w) m ig l s (drawn w) row created (db w) (db w')) (\<lambda>_ _. True) ?v"
  proof (rule wp_bind_spec [OF wp_sale_customer [OF v(1)]])
    fix cu w1
    assume "same_thread m ?v w1 \<and> buyer m (drawn ?v) s cu (db ?v) (db w1)"
    then have st: "same_thread m ?v w1" and b: "buyer m (drawn w) s cu (db w) (db w1)" using v(2) by simp_all
    note cu = buyer_known [OF b]
    have ten: "same_tenant (Some m) ig l cu" using ig l cu by (simp add: same_tenant_def split: option.splits)
    let ?i = "secrets w1 (secret_n w1)" and ?w2 = "tick (w1\<lparr>secret_n := Suc (secret_n w1)\<rparr>)"
    let ?row = "sale_row_of (py w) ?i (clock w1 (ticks w1)) m ig l cu s"
    have w2: "in_tx m ?w2" "same_thread m w1 ?w2"
      using same_threadD(1) [OF st] by (simp_all add: same_thread_def in_tx_def quiet_def tick_def)
    have key: "same_sale_key ?row = sale_taken l s" by (simp add: same_sale_key_def sale_taken_def sale_row_of_def fun_eq_iff)
    have row: "tx_merchant ?row = m" by (simp add: sale_row_of_def)
    have known: "case cu of None \<Rightarrow> True | Some c \<Rightarrow> cu_merchant c = m \<and> c \<in> set (customers (db ?w2))"
      using cu by (cases cu) simp_all
    have "wp (insert_or_get_sale ?row cu s) (\<lambda>(row, created) w'. same_thread m ?v w' \<and>
        sale_recorded (py w) m ig l s (drawn w) row created (db w) (db w')) (\<lambda>_ _. True) ?w2"
    proof (rule wp_mono [OF wp_insert_sale [OF w2(1) row known]])
      fix x :: "sale_row \<times> bool" and w'
      obtain r created where x: "x = (r, created)" by fastforce
      assume "(\<lambda>(r, created) w'. same_thread m ?w2 w' \<and> sale_stored m cu s ?row r created (db ?w2) (db w')) x w'"
      then have *: "same_thread m ?w2 w'" and post: "sale_stored m cu s ?row r created (db w1) (db w')"
        unfolding x by simp_all
      have "same_thread m ?v w'" using st w2(2) * by (blast intro: same_thread_trans)
      moreover have "sale_recorded (py w) m ig l s (drawn w) r created (db w) (db w')"
        using recorded_if_stored [OF b post [unfolded sale_stored_def key]] .
      ultimately show "(\<lambda>(row, created) w'. same_thread m ?v w' \<and> sale_recorded (py w) m ig l s (drawn w) row created (db w) (db w')) x w'"
        unfolding x by simp
    qed simp
    then show "wp (if \<not> same_tenant (Some m) ig l cu then throw TenantContextError
       else bindM (asks py) (\<lambda>lib. bindM fresh (\<lambda>i. bindM now (\<lambda>t.
         insert_or_get_sale (sale_row_of lib i t (lo_merchant l) ig l cu s) cu s))))
      (\<lambda>(row, created) w'. same_thread m ?v w' \<and> sale_recorded (py w) m ig l s (drawn w) row created (db w) (db w')) (\<lambda>_ _. True) w1"
      using ten l same_threadD(6) [OF st] by (simp add: wp_simps wp_fresh)
  qed simp
  then have "wp ?body (\<lambda>x w'. (\<lambda>(row, created) w'. same_thread m w w' \<and>
      sale_recorded (py w) m ig l s (drawn w) row created (db w) (db w')) x (w'\<lparr>saves := tl (saves w')\<rparr>)) (\<lambda>_ _. True) ?v"
    by (rule wp_mono) (auto intro: same_thread_block [OF tx])
  then have "wp (tenant_atomic False ?body) (\<lambda>(row, created) w'. same_thread m w w' \<and>
      sale_recorded (py w) m ig l s (drawn w) row created (db w) (db w')) (\<lambda>_ _. True) w"
    unfolding wp_tenant_atomic_tx [OF tx] .
  then show ?thesis unfolding record_sale_def wp_bind by (simp add: wp_def run_merchant [OF tx])
qed

subsection \<open>Counters\<close>

definition sales_to :: "customer \<Rightarrow> sale_row list \<Rightarrow> sale_row list" where
  "sales_to c ts = filter (\<lambda>t. tx_customer t = Some (cu_id c)) ts"

definition seen_right :: "sale_row list \<Rightarrow> customer \<Rightarrow> bool" where
  "seen_right ts c \<longleftrightarrow> cu_total c = length (sales_to c ts) \<and>
     (\<forall>t\<in>set (sales_to c ts). \<exists>a b. cu_first_seen c = Some a \<and> cu_last_seen c = Some b \<and> a \<le> tx_occurred_at t \<and> tx_occurred_at t \<le> b)"

definition counters_right :: "idb \<Rightarrow> bool" where
  "counters_right d \<longleftrightarrow> distinct (map cu_id (customers d)) \<and> (\<forall>c\<in>set (customers d). seen_right (sales d) c)"

text \<open>An id that no customer and no sale mentions yet.\<close>

definition unmentioned :: "idb \<Rightarrow> uuid \<Rightarrow> bool" where
  "unmentioned d i \<longleftrightarrow> i \<notin> set (map cu_id (customers d)) \<and> Some i \<notin> set (map tx_customer (sales d))"

lemma counters_buyer:
  assumes "counters_right d" "buyer m f s cu d d1" "\<And>i. f i \<Longrightarrow> unmentioned d i"
  shows "counters_right d1"
proof -
  have "counters_right (d\<lparr>customers := customers d @ [c]\<rparr>)" if "unmentioned d (cu_id c)" "cu_total c = 0" for c
  proof -
    have "sales_to c (sales d) = []" using that(1) by (force simp: sales_to_def unmentioned_def filter_empty_conv)
    then show ?thesis using that assms(1) by (auto simp: counters_right_def seen_right_def unmentioned_def)
  qed
  then show ?thesis using assms
    by (auto simp: buyer_def customer_ensured_def split: if_splits option.splits)
qed

lemma seen_right_count:
  assumes "seen_right ts c" "tx_customer row = Some (cu_id c)" "tx_occurred_at row = t"
  shows "seen_right (ts @ [row]) (count_sale t c)"
  using assms
  by (auto simp: seen_right_def sales_to_def count_sale_def least_seen_def greatest_seen_def min_def max_def split: option.splits)

lemma seen_right_other:
  assumes "seen_right ts c" "tx_customer row \<noteq> Some (cu_id c)"
  shows "seen_right (ts @ [row]) c"
  using assms by (simp add: seen_right_def sales_to_def)

lemma counted_ids: "map cu_id (counted_for m cu s cs) = map cu_id cs"
  by (auto simp: counted_for_def update_rows_def count_sale_def split: option.split)

lemma counters_counted:
  assumes "counters_right d" and cu: "case cu of None \<Rightarrow> True | Some c \<Rightarrow> cu_merchant c = m \<and> c \<in> set (customers d)"
    and row: "tx_customer row = map_option cu_id cu" "tx_occurred_at row = sa_occurred_at s"
  shows "counters_right (d\<lparr>sales := sales d @ [row], customers := counted_for m cu s (customers d)\<rparr>)"
proof (cases cu)
  case None
  then show ?thesis using assms by (simp add: counters_right_def counted_for_def seen_right_other)
next
  case (Some c)
  have dist: "distinct (map cu_id (customers d))" and ok: "\<And>x. x \<in> set (customers d) \<Longrightarrow> seen_right (sales d) x"
    using assms(1) by (simp_all add: counters_right_def)
  have same: "x = c" if "x \<in> set (customers d)" "cu_id x = cu_id c" for x
    using that dist cu Some by (auto simp: distinct_map inj_on_def)
  have "seen_right (sales d @ [row]) (if cu_merchant x = m \<and> cu_id x = cu_id c then count_sale (sa_occurred_at s) x else x)"
    if "x \<in> set (customers d)" for x
    using that same [OF that] cu Some row ok [OF that] by (auto intro: seen_right_count seen_right_other)
  moreover have "y \<in> set (counted_for m cu s (customers d)) \<Longrightarrow>
      \<exists>x\<in>set (customers d). y = (if cu_merchant x = m \<and> cu_id x = cu_id c then count_sale (sa_occurred_at s) x else x)" for y
    using Some by (simp only: counted_for_def update_rows_def option.case set_map image_iff)
  ultimately have "\<forall>y\<in>set (counted_for m cu s (customers d)). seen_right (sales d @ [row]) y" by blast
  then show ?thesis using counted_ids [of m cu s "customers d"] dist by (simp add: counters_right_def)
qed

subsection \<open>The properties\<close>

context intake_frame
begin

lemma record_sale_restored:
  assumes "G (ctx w)" "quiet w" "record_sale ig l s w = (Inl e, w')"
  shows "db w' = db w"
proof -
  let ?m = "merchant_var (ctx w)"
  have body: "frames R G (bindM (sale_customer s) (\<lambda>customer.
      if \<not> same_tenant ?m ig l customer then throw TenantContextError
      else bindM (asks py) (\<lambda>lib. bindM fresh (\<lambda>i. bindM now (\<lambda>t.
        insert_or_get_sale (sale_row_of lib i t (lo_merchant l) ig l customer s) customer s)))))"
    unfolding insert_or_get_sale_def by (intro frame_intros)
  show ?thesis
    using tenant_atomic_rollback [OF body assms(1,2)] assms(3)
    by (simp add: record_sale_def run_bind get_current_merchant_id_def asks_def)
qed

end

lemma record_sale_rollback: "in_tx m w \<Longrightarrow> record_sale ig l s w = (Inl e, w') \<Longrightarrow> db w' = db w"
  using intake_stack.record_sale_restored [of w ig l s e w'] by (simp add: in_tx_def)

text \<open>
  C27: Recording a sale is idempotent and atomic. For a thread of the merchant that owns the location
  and the integration it either stores one row, with the customer of the phone number (the one there
  is, or a new one) counted once, or it finds the transaction id already taken at that location,
  returns the row that holds it and counts nothing; when it raises, no table has changed.
\<close>

theorem record_sale_once:
  assumes "in_tx m w" "ig_merchant ig = m" "lo_merchant l = m" "record_sale ig l s w = (r, w')"
  shows "case r of Inl e \<Rightarrow> db w' = db w
    | Inr (row, created) \<Rightarrow> sale_recorded (py w) m ig l s (drawn w) row created (db w) (db w')"
proof (cases r)
  case (Inl e)
  then show ?thesis using record_sale_rollback [OF assms(1)] assms(4) by simp
next
  case (Inr a)
  then show ?thesis using wp_InrD [OF wp_record_sale [OF assms(1-3)]] assms(4) by (cases a) fastforce
qed

definition sample_sale :: sale where
  "sample_sale = \<lparr>sa_source = ''api'', sa_external_id = ''t1'', sa_amount = DFin False 1250 (-2), sa_currency = ''INR'',
     sa_occurred_at = seconds 1500, sa_phone = Some ''+14155550100'', sa_name = JStr ''Ann'', sa_payment_method = JNull,
     sa_external_location = JNull\<rparr>"

lemma sample_recording:
  "\<exists>row w'. record_sale rest_api shop sample_sale (intake_tx (intake_db [])) = (Inr (row, True), w')"
proof -
  have "(case fst (record_sale rest_api shop sample_sale (intake_tx (intake_db []))) of Inl _ \<Rightarrow> False | Inr (_, c) \<Rightarrow> c)"
    by code_simp
  then show ?thesis by (cases "record_sale rest_api shop sample_sale (intake_tx (intake_db []))") (auto split: sum.splits)
qed

lemma sample_owners: "ig_merchant rest_api = ''m1''" "lo_merchant shop = ''m1''"
  by (simp_all add: rest_api_def shop_def)

theorem record_sale_once_witness:
  "\<exists>row d'. sale_recorded sample_lib ''m1'' rest_api shop sample_sale (drawn (intake_tx (intake_db []))) row True (intake_db []) d'"
proof -
  obtain row w' where run: "record_sale rest_api shop sample_sale (intake_tx (intake_db [])) = (Inr (row, True), w')"
    using sample_recording by (elim exE)
  show ?thesis using record_sale_once [OF in_intake_tx sample_owners run] by (auto simp del: intake_db_def)
qed

text \<open>
  The counters of a customer are right: the number of sales and the first and last time seen
  agree with the sales stored for the customer before a sale is recorded, and after it, whether the
  sale is new, a duplicate or refused.
\<close>

theorem record_sale_counts:
  assumes "in_tx m w" "ig_merchant ig = m" "lo_merchant l = m" "record_sale ig l s w = (r, w')"
    and "counters_right (db w)" "\<And>i. drawn w i \<Longrightarrow> unmentioned (db w) i"
  shows "counters_right (db w')"
proof (cases r)
  case (Inl e)
  then show ?thesis using record_sale_rollback [OF assms(1)] assms(4,5) by simp
next
  case (Inr a)
  then obtain row created where a: "r = Inr (row, created)" by (cases a) simp
  have "sale_recorded (py w) m ig l s (drawn w) row created (db w) (db w')"
    using wp_InrD [OF wp_record_sale [OF assms(1-3)]] assms(4) a by fastforce
  then obtain cu d1 where b: "buyer m (drawn w) s cu (db w) d1"
    and post: "if created then \<not> list_ex (sale_taken l s) (sales (db w)) \<and> (\<exists>i t. row = sale_row_of (py w) i t m ig l cu s) \<and>
        db w' = d1\<lparr>sales := sales (db w) @ [row], customers := counted_for m cu s (customers d1)\<rparr>
      else row \<in> set (sales (db w)) \<and> tx_merchant row = m \<and> sale_taken l s row \<and> db w' = d1"
    unfolding sale_recorded_def by blast
  have d1: "counters_right d1" by (rule counters_buyer [OF assms(5) b assms(6)])
  show ?thesis
  proof (cases created)
    case True
    then have "tx_customer row = map_option cu_id cu" "tx_occurred_at row = sa_occurred_at s"
      "db w' = d1\<lparr>sales := sales d1 @ [row], customers := counted_for m cu s (customers d1)\<rparr>"
      using post buyer_sales [OF b] by (auto simp: sale_row_of_def)
    then show ?thesis using counters_counted [OF d1 buyer_known [OF b]] by simp
  qed (use post d1 in simp)
qed

lemma drawn_sample: "drawn (intake_tx d) i \<Longrightarrow> \<exists>n. i = ''id'' @ replicate n (CHR ''x'')"
  by (auto simp: drawn_def intake_tx_def)

theorem record_sale_counts_witness:
  "\<exists>d'. counters_right d' \<and> map cu_total (customers d') = [1]"
proof -
  let ?run = "record_sale rest_api shop sample_sale (intake_tx (intake_db []))"
  obtain r w' where run: "?run = (r, w')" by fastforce
  have "map cu_total (customers (db (snd ?run))) = [1]" by code_simp
  moreover have "counters_right (intake_db [])"
    by (simp add: counters_right_def seen_right_def sales_to_def intake_db_def ann_def)
  moreover have "unmentioned (intake_db []) i" if "drawn (intake_tx (intake_db [])) i" for i
    using drawn_sample [OF that] by (auto simp: unmentioned_def intake_db_def ann_def)
  ultimately show ?thesis
    using record_sale_counts [OF in_intake_tx sample_owners run] run by (intro exI [of _ "db w'"]) simp
qed

end
