(* ===== verification/EventProps.thy ===== *)
theory EventProps
  imports SalesProps
begin

text \<open>
  The event inbox: what one processing attempt makes of an event and of the sale it carries, that
  attempts end, and what a failure stores.
\<close>

subsection \<open>What an event says\<close>

text \<open>The sale of an event and its location, or the exception on the way to them.\<close>

definition sale_of_event :: "pylib \<Rightarrow> integration \<Rightarrow> integration_event \<Rightarrow> ierror + sale" where
  "sale_of_event lib ig e = bindE (get_adapter (ig_provider ig)) (\<lambda>a. to_sale lib a ig (ie_payload e))"

definition location_for :: "uuid \<Rightarrow> idb \<Rightarrow> integration \<Rightarrow> sale \<Rightarrow> ierror + location" where
  "location_for m d ig s = (case choose_mapping (active_mappings (ig_id ig) m d) (sa_external_location s) of
     None \<Rightarrow> Inl (App LocationUnresolved)
   | Some p \<Rightarrow> (case find_location d m (lm_location p) of None \<Rightarrow> Inl DoesNotExist | Some l \<Rightarrow> Inr l))"

definition sale_at :: "pylib \<Rightarrow> uuid \<Rightarrow> idb \<Rightarrow> integration \<Rightarrow> integration_event \<Rightarrow> ierror + sale \<times> location" where
  "sale_at lib m d ig e = bindE (sale_of_event lib ig e) (\<lambda>s. bindE (location_for m d ig s) (\<lambda>l. Inr (s, l)))"

lemma run_resolve_location: "in_tx m w \<Longrightarrow> resolve_location ig s w = (location_for m (db w) ig s, w)"
  by (simp add: resolve_location_def mapped_location_def location_for_def run_bind run_require split: option.split)

definition attempt_body :: "integration \<Rightarrow> integration_event \<Rightarrow> location iprog" where
  "attempt_body ig event = bindM (asks py) (\<lambda>lib.
     bindM (liftE (get_adapter (ig_provider ig))) (\<lambda>a.
     bindM (liftE (to_sale lib a ig (ie_payload event))) (\<lambda>s.
     bindM (resolve_location ig s) (\<lambda>l.
     bindM (record_sale ig l s) (\<lambda>_. ret l)))))"

lemma attempt_body: "attempt ig event = atomic (attempt_body ig event)"
  by (simp add: attempt_def attempt_body_def)

context intake_frame
begin

lemma frames_attempt_body: "frames R G (attempt_body ig e)"
  unfolding attempt_body_def by (intro frame_intros)

end

lemma run_attempt_body:
  assumes "in_tx m w"
  shows "attempt_body ig e w = (case sale_at (py w) m (db w) ig e of
     Inl exc \<Rightarrow> (Inl exc, w) | Inr (s, l) \<Rightarrow> bindM (record_sale ig l s) (\<lambda>_. ret l) w)"
  unfolding attempt_body_def sale_at_def sale_of_event_def
  by (cases "get_adapter (ig_provider ig)"; cases "to_sale (py w) (projr (get_adapter (ig_provider ig))) ig (ie_payload e)")
    (simp_all add: run_bind asks_def run_resolve_location [OF assms] split: sum.split)

lemma sale_atD: "sale_at lib m d ig e = Inr (s, l) \<Longrightarrow> lo_merchant l = m \<and> sale_ok s"
  by (auto simp: sale_at_def bindE_Inr location_for_def sale_of_event_def dest: to_sale_ok find_rowD split: option.splits)

subsection \<open>An attempt\<close>

text \<open>A failed attempt leaves the thread as it was.\<close>

lemma attempt_undone:
  assumes tx: "in_tx m w" and run: "attempt ig e w = (Inl exc, w')"
  shows "in_tx m w' \<and> db w' = db w \<and> saves w' = saves w"
proof -
  let ?v = "w\<lparr>saves := db w # saves w\<rparr>"
  obtain r u where u: "attempt_body ig e ?v = (r, u)" by fastforce
  have q: "quiet ?v" using tx by (simp add: in_tx_def quiet_def)
  note fr = framesD [OF intake_stack.frames_attempt_body _ rely_quiet [OF _ q] u]
  have "ctx u = ctx w" "env u = env w" "saves u = db w # saves w" using fr q by simp_all
  moreover have "r = Inl exc \<and> w' = rollback_block w u"
    using run u unfolding attempt_body run_savepoint [OF tx] by (auto split: sum.splits)
  ultimately show ?thesis using tx by (simp add: rollback_block_def in_tx_def quiet_def)
qed

lemma attempt_refused:
  assumes tx: "in_tx m w" and run: "attempt ig e w = (Inl exc, w')" and at: "sale_at (py w) m (db w) ig e = Inl x"
  shows "exc = x"
proof -
  have "in_tx m (w\<lparr>saves := db w # saves w\<rparr>)" using tx by (simp add: in_tx_def quiet_def)
  from run_attempt_body [OF this, of ig e] show ?thesis
    using run at unfolding attempt_body run_savepoint [OF tx] by simp
qed

lemma attempt_stores:
  assumes tx: "in_tx m w" and ig: "ig_merchant ig = m" and run: "attempt ig e w = (Inr l, w')"
  shows "same_thread m w w' \<and> (\<exists>s row created. sale_at (py w) m (db w) ig e = Inr (s, l) \<and>
    sale_recorded (py w) m ig l s (drawn w) row created (db w) (db w'))"
proof -
  let ?v = "w\<lparr>saves := db w # saves w\<rparr>"
  have v: "in_tx m ?v" "drawn ?v = drawn w" using tx by (simp_all add: in_tx_def quiet_def drawn_def fun_eq_iff)
  obtain u where u: "attempt_body ig e ?v = (Inr l, u)" "w' = u\<lparr>saves := tl (saves u)\<rparr>"
    using run unfolding attempt_body run_savepoint [OF tx] by (auto split: prod.splits sum.splits)
  obtain s l' where at: "sale_at (py w) m (db w) ig e = Inr (s, l')"
    using u(1) run_attempt_body [OF v(1), of ig e] by (cases "sale_at (py w) m (db w) ig e") auto
  then obtain row created where rec: "record_sale ig l' s ?v = (Inr (row, created), u)" and l: "l' = l"
    using u(1) run_attempt_body [OF v(1), of ig e] by (auto simp: run_bind split: prod.splits sum.splits)
  have "same_thread m ?v u \<and> sale_recorded (py w) m ig l s (drawn w) row created (db w) (db u)"
    using wp_InrD [OF wp_record_sale [OF v(1) ig] rec] sale_atD [OF at] l v(2) by simp
  then show ?thesis using at l u(2) same_thread_block [OF tx] by auto
qed

subsection \<open>One step of an event\<close>

definition put_event :: "uuid \<Rightarrow> uuid \<Rightarrow> instant \<Rightarrow> (integration_event \<Rightarrow> integration_event) \<Rightarrow> idb \<Rightarrow> idb" where
  "put_event m i t f d = d\<lparr>events := update_rows ie_merchant m (\<lambda>x. ie_id x = i) (\<lambda>x. (f x)\<lparr>ie_updated_at := t\<rparr>) (events d)\<rparr>"

definition event_due :: "instant \<Rightarrow> integration_event \<Rightarrow> bool" where
  "event_due t e \<longleftrightarrow> (ie_status e = Failed \<longrightarrow> ie_updated_at e \<le> t - backoff e)"

text \<open>What an attempt may leave: the failure, and nothing else of it, or the processed event with its sale.\<close>

definition attempted :: "uuid \<Rightarrow> pylib \<Rightarrow> integration \<Rightarrow> integration_event \<Rightarrow> (uuid \<Rightarrow> bool) \<Rightarrow> idb \<Rightarrow> idb \<Rightarrow> bool" where
  "attempted m lib ig e is_fresh d d' \<longleftrightarrow> (\<exists>t. case sale_at lib m d ig e of
     Inl exc \<Rightarrow> d' = put_event m (ie_id e) t (failed_event exc e) d
   | Inr (s, l) \<Rightarrow> (\<exists>exc. d' = put_event m (ie_id e) t (failed_event exc e) d) \<or>
       (\<exists>row created d1 t1. sale_recorded lib m ig l s is_fresh row created d d1 \<and>
          d' = put_event m (ie_id e) t (processed_event l t1) d1))"

definition event_step :: "uuid \<Rightarrow> pylib \<Rightarrow> integration \<Rightarrow> integration_event \<Rightarrow> bool \<Rightarrow> (uuid \<Rightarrow> bool) \<Rightarrow> idb \<Rightarrow> idb \<Rightarrow> bool" where
  "event_step m lib ig e due is_fresh d d' \<longleftrightarrow>
     (if terminal (ie_status e) \<or> \<not> due then d' = d
      else if ig_status ig = Disconnected then \<exists>t. d' = put_event m (ie_id e) t (\<lambda>x. x\<lparr>ie_status := CancelledEvent\<rparr>) d
      else attempted m lib ig e is_fresh d d')"

lemma customer_ensured_events: "customer_ensured m p f c d d1 \<Longrightarrow> events d1 = events d"
  by (cases "the_customer m p d") (simp_all add: customer_ensured_def)

lemma buyer_events: "buyer m f s cu d d1 \<Longrightarrow> events d1 = events d"
  unfolding buyer_def by (cases "truthy_text (sa_phone s)") (use customer_ensured_events in fastforce)+

lemma sale_recorded_events: "sale_recorded lib m ig l s f row created d d' \<Longrightarrow> events d' = events d"
  unfolding sale_recorded_def by (elim exE conjE, drule buyer_events, cases created) simp_all

text \<open>Saving the event and reading it back.\<close>

lemma run_save_and_read:
  assumes tx: "in_tx m w" and e: "find_event (db w) m i = Some e"
    and f: "\<And>t x. ie_merchant (f t x) = ie_merchant x" "\<And>t x. ie_id (f t x) = ie_id x"
  shows "\<exists>t. seqM (save_event i f) (event_after i) w = (Inr ((f t e)\<lparr>ie_updated_at := t\<rparr>), with_db (put_event m i t (f t) (db w)) (tick w)) \<and>
    find_event (put_event m i t (f t) (db w)) m i = Some ((f t e)\<lparr>ie_updated_at := t\<rparr>)"
proof -
  let ?t = "clock w (ticks w)"
  have id: "ie_id e = i" using find_rowD [OF e] by simp
  have found: "find_event (put_event m i ?t (f ?t) (db w)) m i = Some ((f ?t e)\<lparr>ie_updated_at := ?t\<rparr>)"
    using e id f by (simp add: put_event_def find_update_rows)
  moreover have "in_tx m (with_db (put_event m i ?t (f ?t) (db w)) (tick w))" using tx by simp
  ultimately show ?thesis
    unfolding run_seq run_save_event [OF tx e] put_event_def [symmetric]
    by (intro exI [of _ ?t]) (simp add: event_after_def run_bind run_scoped run_require)
qed

lemma failed_event_kept: "ie_merchant (failed_event exc e x) = ie_merchant x" "ie_id (failed_event exc e x) = ie_id x"
  "ie_merchant (processed_event l t x) = ie_merchant x" "ie_id (processed_event l t x) = ie_id x"
  by (simp_all add: failed_event_def processed_event_def Let_def)

lemma run_attempt_event:
  assumes tx: "in_tx m w" and ig: "ig_merchant ig = m" and e: "find_event (db w) m (ie_id e) = Some e"
  shows "\<exists>e' w'. attempt_event ig e w = (Inr e', w') \<and> saves w' = saves w \<and> find_event (db w') m (ie_id e) = Some e' \<and>
    attempted m (py w) ig e (drawn w) (db w) (db w')"
proof -
  obtain r u where run: "attempt ig e w = (r, u)" by fastforce
  show ?thesis
  proof (cases r)
    case (Inl exc)
    note undone = attempt_undone [OF tx run [unfolded Inl]]
    have eu: "find_event (db u) m (ie_id e) = Some e" using undone e by simp
    from run_save_and_read [of m u "ie_id e" e "\<lambda>_. failed_event exc e", OF _ eu] undone failed_event_kept
    obtain t e' w' where *: "seqM (record_failure e exc) (event_after (ie_id e)) u = (Inr e', w')" "saves w' = saves u"
      "db w' = put_event m (ie_id e) t (failed_event exc e) (db w)" "find_event (db w') m (ie_id e) = Some e'"
      unfolding record_failure_def by fastforce
    have "attempted m (py w) ig e (drawn w) (db w) (db w')"
      unfolding attempted_def *(3) using attempt_refused [OF tx run [unfolded Inl]]
      by (intro exI [of _ t]) (cases "sale_at (py w) m (db w) ig e"; force)
    then show ?thesis using * undone run Inl
      by (simp add: attempt_event_def try_attempt_def run_bind catchM_def ret_def)
  next
    case (Inr l)
    from attempt_stores [OF tx ig run [unfolded Inr]] obtain s row created where st: "same_thread m w u"
      and at: "sale_at (py w) m (db w) ig e = Inr (s, l)" and rec: "sale_recorded (py w) m ig l s (drawn w) row created (db w) (db u)"
      by (elim exE conjE)
    let ?u = "tick u" and ?t = "clock u (ticks u)"
    have u: "in_tx m ?u" "find_event (db ?u) m (ie_id e) = Some e"
      using same_threadD(1) [OF st] sale_recorded_events [OF rec] e by simp_all
    from run_save_and_read [of m ?u "ie_id e" e "\<lambda>_. processed_event l ?t", OF u] failed_event_kept
    obtain t e' w' where *: "seqM (save_event (ie_id e) (\<lambda>_. processed_event l ?t)) (event_after (ie_id e)) ?u = (Inr e', w')"
      "saves w' = saves u" "db w' = put_event m (ie_id e) t (processed_event l ?t) (db u)" "find_event (db w') m (ie_id e) = Some e'"
      by fastforce
    have "attempted m (py w) ig e (drawn w) (db w) (db w')"
      unfolding attempted_def *(3) at using rec by simp blast
    then show ?thesis using * run Inr same_threadD(2) [OF st]
      by (simp add: attempt_event_def try_attempt_def run_bind run_seq catchM_def ret_def run_now)
  qed
qed

subsection \<open>The handler\<close>

lemma run_due:
  assumes "in_tx m w"
  shows "(if ie_status e = Failed then is_due e else ret True) w =
    (Inr (event_due (clock w (ticks w)) e), if ie_status e = Failed then tick w else w)"
  by (simp add: is_due_def run_bind run_now ret_def event_due_def)

lemma run_handle_event:
  assumes tx: "in_tx m w" and e: "find_event (db w) m (ie_id e) = Some e"
    and ig: "find_integration (db w) m (ie_integration e) = Some ig"
  shows "\<exists>e' w'. handle_event e w = (Inr e', w') \<and> saves w' = saves w \<and> find_event (db w') m (ie_id e) = Some e' \<and>
    event_step m (py w) ig e (event_due (clock w (ticks w)) e) (drawn w) (db w) (db w')"
proof -
  let ?due = "event_due (clock w (ticks w)) e"
  define v where v_def: "v = (if ie_status e = Failed then tick w else w)"
  have v: "in_tx m v" "db v = db w" "saves v = saves w" "py v = py w" "drawn v = drawn w"
    using tx by (auto simp: drawn_def fun_eq_iff v_def)
  have run: "handle_event e w = (if terminal (ie_status e) then (Inr e, w) else if \<not> ?due then (Inr e, v)
     else if ig_status ig = Disconnected
     then seqM (save_event (ie_id e) (\<lambda>_ x. x\<lparr>ie_status := CancelledEvent\<rparr>)) (event_after (ie_id e)) v
     else attempt_event ig e v)"
    using tx ig run_due [OF tx, of e] v_def by (simp add: handle_event_def run_bind run_scoped run_require ret_def)
  consider (none) "terminal (ie_status e) \<or> \<not> ?due" | (cancel) "\<not> (terminal (ie_status e) \<or> \<not> ?due)" "ig_status ig = Disconnected"
    | (attempt) "\<not> (terminal (ie_status e) \<or> \<not> ?due)" "ig_status ig \<noteq> Disconnected" by blast
  then show ?thesis
  proof cases
    case none
    then show ?thesis unfolding run event_step_def using e v(2,3) by auto
  next
    case cancel
    from run_save_and_read [of m v "ie_id e" e "\<lambda>_ x. x\<lparr>ie_status := CancelledEvent\<rparr>"] v e
    obtain t e' w' where "seqM (save_event (ie_id e) (\<lambda>_ x. x\<lparr>ie_status := CancelledEvent\<rparr>)) (event_after (ie_id e)) v = (Inr e', w')"
      "saves w' = saves w" "db w' = put_event m (ie_id e) t (\<lambda>x. x\<lparr>ie_status := CancelledEvent\<rparr>) (db w)"
      "find_event (db w') m (ie_id e) = Some e'"
      by fastforce
    then show ?thesis unfolding run event_step_def using cancel by auto
  next
    case attempt
    have "ig_merchant ig = m" using find_rowD [OF ig] by simp
    from run_attempt_event [OF v(1) this, of e] v e
    show ?thesis unfolding run event_step_def using attempt by simp
  qed
qed

lemma run_lock_event:
  assumes "in_tx m w" "find_event (db w) m i = Some e"
  shows "\<exists>v. lock_event i w = (Inr e, v) \<and> in_tx m v \<and> db v = db w \<and> saves v = saves w \<and> py v = py w \<and> drawn v = drawn w \<and>
    clock v = clock w \<and> ticks v = ticks w"
proof -
  define v where v_def: "v = (if row_locked w then w else (interfere w)\<lparr>row_locked := True\<rparr>)"
  have v: "in_tx m v" "db v = db w" "saves v = saves w" "py v = py w" "drawn v = drawn w" "clock v = clock w" "ticks v = ticks w"
    using assms(1) by (auto simp: v_def in_tx_def quiet_def interfere_def drawn_def fun_eq_iff Let_def intro!: map_idI)
  have "(take_row_lock :: unit iprog) w = (Inr (), v)" by (simp add: take_row_lock_def modifyM_def v_def)
  then have "lock_event i w = (Inr e, v)"
    using assms(2) v(1,2) by (simp add: lock_event_def run_seq run_bind run_scoped run_require)
  with v show ?thesis by blast
qed

lemma process_event_outcome:
  assumes tx: "in_tx m w" and e: "find_event (db w) m i = Some e"
    and ig: "find_integration (db w) m (ie_integration e) = Some ig" and run: "process_event i w = (r, w')"
  shows "\<exists>e'. r = Inr e' \<and> find_event (db w') m i = Some e' \<and>
    event_step m (py w) ig e (event_due (clock w (ticks w)) e) (drawn w) (db w) (db w')"
proof -
  let ?u = "w\<lparr>saves := db w # saves w\<rparr>"
  have u: "in_tx m ?u" "drawn ?u = drawn w" using tx by (simp_all add: in_tx_def quiet_def drawn_def fun_eq_iff)
  have id: "ie_id e = i" using find_rowD [OF e] by simp
  from run_lock_event [OF u(1), of i e] e u(2) obtain v where v: "lock_event i ?u = (Inr e, v)" "in_tx m v" "db v = db w" "py v = py w"
    "drawn v = drawn w" "clock v = clock w" "ticks v = ticks w" by auto
  from run_handle_event [OF v(2), of e ig] v(3-) e ig id
  obtain e' w1 where "handle_event e v = (Inr e', w1)" "find_event (db w1) m i = Some e'"
    "event_step m (py w) ig e (event_due (clock w (ticks w)) e) (drawn w) (db w) (db w1)" by auto
  moreover from this have "process_event i w = (Inr e', w1\<lparr>saves := tl (saves w1)\<rparr>)"
    unfolding process_event_def run_nested [OF tx] by (simp add: run_bind v(1))
  ultimately show ?thesis using run by auto
qed

text \<open>
  C28: Processing an event never raises to its caller and always leaves one of these outcomes. A
  terminal event, and a failed one whose back-off is not over, is left as it is; an event of a
  disconnected integration is cancelled; otherwise the payload is normalized, the location resolved
  and the sale recorded, and the event is processed together with its sale, or whatever the attempt
  wrote is undone and only the failure is stored with the event. The event returned is the stored one.
\<close>

theorem process_event_exact:
  assumes tx: "in_tx m w" and e: "find_event (db w) m i = Some e"
    and ig: "find_integration (db w) m (ie_integration e) = Some ig" and run: "process_event i w = (r, w')"
  shows "\<exists>e'. r = Inr e' \<and> find_event (db w') m i = Some e' \<and>
    event_step m (py w) ig e (event_due (clock w (ticks w)) e) (drawn w) (db w) (db w')"
  by (rule process_event_outcome [OF assms])

lemma sample_event_found: "find_event (intake_db [waiting_event]) ''m1'' ''e1'' = Some waiting_event"
  "find_integration (intake_db [waiting_event]) ''m1'' (ie_integration waiting_event) = Some rest_api"
  by (simp_all add: find_row_def intake_db_def waiting_event_def rest_api_def)

theorem process_event_exact_witness:
  "\<exists>e' d'. find_event d' ''m1'' ''e1'' = Some e' \<and>
    event_step ''m1'' sample_lib rest_api waiting_event True (drawn (intake_tx (intake_db [waiting_event]))) (intake_db [waiting_event]) d'"
proof -
  let ?w = "intake_tx (intake_db [waiting_event])"
  obtain r w' where run: "process_event ''e1'' ?w = (r, w')" by fastforce
  have "event_due (clock ?w (ticks ?w)) waiting_event" by (simp add: event_due_def waiting_event_def)
  then show ?thesis
    using process_event_exact [OF in_intake_tx _ _ run, of waiting_event rest_api] sample_event_found by auto
qed

subsection \<open>Failures and the end of retries\<close>

lemma find_put_event:
  assumes "\<And>x. ie_merchant (f x) = ie_merchant x" "\<And>x. ie_id (f x) = ie_id x" "find_event d m i = Some e"
  shows "find_event (put_event m i t f d) m i = Some ((f e)\<lparr>ie_updated_at := t\<rparr>)"
  using find_rowD [OF assms(3)] assms unfolding put_event_def by (simp add: find_update_rows)

lemma attempted_cases:
  assumes "attempted m lib ig e f d d'"
  obtains t exc where "d' = put_event m (ie_id e) t (failed_event exc e) d"
    | s l row created d1 t t1 where "sale_recorded lib m ig l s f row created d d1" "d' = put_event m (ie_id e) t (processed_event l t1) d1"
proof (cases "sale_at lib m d ig e")
  case (Inl exc)
  then show thesis using assms that(1) unfolding attempted_def by auto
next
  case (Inr sl)
  obtain s l where "sl = (s, l)" by fastforce
  then show thesis using assms that Inr unfolding attempted_def by (elim exE) (simp, blast)
qed

text \<open>The event after a step.\<close>

lemma event_step_result:
  assumes step: "event_step m lib ig e due f d d'" and e: "find_event d m (ie_id e) = Some e" and e': "find_event d' m (ie_id e) = Some e'"
  shows "(terminal (ie_status e) \<or> \<not> due) \<and> e' = e \<and> d' = d \<or>
    \<not> terminal (ie_status e) \<and> due \<and>
      ((\<exists>t. e' = e\<lparr>ie_status := CancelledEvent, ie_updated_at := t\<rparr>) \<or>
       (\<exists>t exc. e' = (failed_event exc e e)\<lparr>ie_updated_at := t\<rparr> \<and> d' = put_event m (ie_id e) t (failed_event exc e) d) \<or>
       (\<exists>l t t1. e' = (processed_event l t1 e)\<lparr>ie_updated_at := t\<rparr>))"
proof -
  consider (none) "terminal (ie_status e) \<or> \<not> due" "d' = d"
    | (cancel) t where "\<not> terminal (ie_status e)" "due" "d' = put_event m (ie_id e) t (\<lambda>x. x\<lparr>ie_status := CancelledEvent\<rparr>) d"
    | (attempt) "\<not> terminal (ie_status e)" "due" "attempted m lib ig e f d d'"
    using step unfolding event_step_def by (auto split: if_splits)
  then show ?thesis
  proof cases
    case none
    then show ?thesis using e e' by simp
  next
    case cancel
    then show ?thesis using find_put_event [OF _ _ e, of "\<lambda>x. x\<lparr>ie_status := CancelledEvent\<rparr>" t] e' by auto
  next
    case attempt
    consider (failed) t exc where "d' = put_event m (ie_id e) t (failed_event exc e) d"
      | (processed) s l row created d1 t t1 where "sale_recorded lib m ig l s f row created d d1" "d' = put_event m (ie_id e) t (processed_event l t1) d1"
      by (rule attempted_cases [OF attempt(3)])
    then show ?thesis
    proof cases
      case failed
      then show ?thesis using attempt e' find_put_event [OF _ _ e, of "failed_event exc e" t] failed_event_kept by auto
    next
      case processed
      then have "find_event d1 m (ie_id e) = Some e" using sale_recorded_events e by simp
      from find_put_event [OF _ _ this, of "processed_event l t1" t]
      have "e' = (processed_event l t1 e)\<lparr>ie_updated_at := t\<rparr>" using processed(2) e' failed_event_kept by simp
      then show ?thesis using attempt(1,2) by blast
    qed
  qed
qed

lemma process_event_result:
  assumes "in_tx m w" "find_event (db w) m i = Some e" "find_integration (db w) m (ie_integration e) = Some ig"
    "process_event i w = (Inr e', w')"
  shows "(terminal (ie_status e) \<or> \<not> event_due (clock w (ticks w)) e) \<and> e' = e \<and> db w' = db w \<or>
    \<not> terminal (ie_status e) \<and> event_due (clock w (ticks w)) e \<and>
      ((\<exists>t. e' = e\<lparr>ie_status := CancelledEvent, ie_updated_at := t\<rparr>) \<or>
       (\<exists>t exc. e' = (failed_event exc e e)\<lparr>ie_updated_at := t\<rparr> \<and> db w' = put_event m i t (failed_event exc e) (db w)) \<or>
       (\<exists>l t t1. e' = (processed_event l t1 e)\<lparr>ie_updated_at := t\<rparr>))"
proof -
  have "ie_id e = i" using find_rowD [OF assms(2)] by simp
  then show ?thesis using process_event_outcome [OF assms] event_step_result assms(2) by blast
qed

lemma safe_error_listed: "safe_error exc \<in> set SAFE_ERRORS"
proof -
  have "safe_code exc \<in> set (map fst SAFE_ERRORS)"
    by (auto simp: safe_code_def SAFE_ERRORS_def split: exn.split intake_error.split)
  moreover have "distinct (map fst SAFE_ERRORS)" by code_simp
  ultimately show ?thesis by (auto simp: safe_error_def split: option.split dest: map_of_SomeD simp: map_of_eq_None_iff)
qed

text \<open>
  A failed attempt is contained. When processing has counted a failure, the event carries a code
  and a message from the fixed table (never the text of the exception), it is a dead letter exactly
  from the fifth failure on, and no sale, customer, mapping, integration or audit row has changed.
\<close>

theorem failure_contained:
  assumes "in_tx m w" "find_event (db w) m i = Some e" "find_integration (db w) m (ie_integration e) = Some ig"
    and "process_event i w = (Inr e', w')" "ie_attempts e' \<noteq> ie_attempts e"
  shows "\<exists>code msg. ie_error_code e' = Some code \<and> ie_error_message e' = Some msg \<and> (code, msg) \<in> set SAFE_ERRORS \<and>
    ie_attempts e' = Suc (ie_attempts e) \<and> ie_status e' = (if MAX_EVENT_ATTEMPTS \<le> ie_attempts e' then DeadLetter else Failed) \<and>
    (\<exists>es. db w' = (db w)\<lparr>events := es\<rparr>)"
proof -
  from process_event_result [OF assms(1-4)] assms(5)
  obtain t exc where e': "e' = (failed_event exc e e)\<lparr>ie_updated_at := t\<rparr>" "db w' = put_event m i t (failed_event exc e) (db w)"
    by (auto simp: processed_event_def)
  then show ?thesis using safe_error_listed [of exc] by (auto simp: failed_event_def Let_def put_event_def)
qed

text \<open>An event of the shop whose payload is no sale.\<close>

definition broken_event :: integration_event where
  "broken_event = waiting_event\<lparr>ie_payload := JObj []\<rparr>"

lemma sample_failure:
  "\<exists>e' w'. process_event ''e1'' (intake_tx (intake_db [broken_event])) = (Inr e', w') \<and> ie_attempts e' = 1"
proof -
  have "(case fst (process_event ''e1'' (intake_tx (intake_db [broken_event]))) of Inl _ \<Rightarrow> False | Inr e' \<Rightarrow> ie_attempts e' = 1)"
    by code_simp
  then show ?thesis
    by (cases "process_event ''e1'' (intake_tx (intake_db [broken_event]))") (auto split: sum.splits)
qed

lemma broken_event_found: "find_event (intake_db [broken_event]) ''m1'' ''e1'' = Some broken_event"
  "find_integration (intake_db [broken_event]) ''m1'' (ie_integration broken_event) = Some rest_api" "ie_attempts broken_event = 0"
  by (simp_all add: find_row_def intake_db_def broken_event_def waiting_event_def rest_api_def)

theorem failure_contained_witness:
  "\<exists>e' es. (\<exists>code msg. ie_error_code e' = Some code \<and> ie_error_message e' = Some msg \<and> (code, msg) \<in> set SAFE_ERRORS) \<and>
     ie_attempts e' = 1 \<and> ie_status e' = Failed \<and> find_event ((intake_db [broken_event])\<lparr>events := es\<rparr>) ''m1'' ''e1'' = Some e'"
proof -
  obtain e' w' where run: "process_event ''e1'' (intake_tx (intake_db [broken_event])) = (Inr e', w')" "ie_attempts e' = 1"
    using sample_failure by blast
  have "find_event (db w') ''m1'' ''e1'' = Some e'"
    using process_event_outcome [OF in_intake_tx _ _ run(1)] broken_event_found by simp
  then show ?thesis
    using failure_contained [OF in_intake_tx _ _ run(1), of broken_event rest_api] broken_event_found run(2)
    by (auto simp: MAX_EVENT_ATTEMPTS_def)
qed

text \<open>How many attempts are left; the last one leaves none, whatever comes of it.\<close>

definition event_rank :: "integration_event \<Rightarrow> nat" where
  "event_rank e = (if terminal (ie_status e) then 0 else max 1 (MAX_EVENT_ATTEMPTS - ie_attempts e))"

lemma rank_decreases:
  assumes "in_tx m w" "find_event (db w) m i = Some e" "find_integration (db w) m (ie_integration e) = Some ig"
    and "process_event i w = (Inr e', w')" "event_due (clock w (ticks w)) e"
  shows "event_rank e' \<le> event_rank e - 1"
  using process_event_result [OF assms(1-4)] assms(5)
  by (auto simp: event_rank_def terminal_def failed_event_def processed_event_def MAX_EVENT_ATTEMPTS_def Let_def
      split: if_splits)

text \<open>
  C29: Retries end. However an event fails, after five processing runs that find it due it is
  processed, cancelled or a dead letter: every such run uses up an attempt, whatever else happens to
  the database and the clock between two runs.
\<close>

theorem event_settles:
  assumes "\<And>k. k < MAX_EVENT_ATTEMPTS \<Longrightarrow> in_tx m (w k) \<and> find_event (db (w k)) m i = Some (e k) \<and>
      find_integration (db (w k)) m (ie_integration (e k)) = Some (ig k) \<and> event_due (clock (w k) (ticks (w k))) (e k) \<and>
      process_event i (w k) = (Inr (e (Suc k)), w' k)"
  shows "terminal (ie_status (e MAX_EVENT_ATTEMPTS))"
proof -
  have "k \<le> MAX_EVENT_ATTEMPTS \<Longrightarrow> event_rank (e k) \<le> MAX_EVENT_ATTEMPTS - k" for k
  proof (induction k)
    case 0
    show ?case by (simp add: event_rank_def MAX_EVENT_ATTEMPTS_def)
  next
    case (Suc k)
    then have k: "k < MAX_EVENT_ATTEMPTS" by simp
    from rank_decreases [of m "w k" i "e k" "ig k" "e (Suc k)" "w' k"] assms [OF k]
    have "event_rank (e (Suc k)) \<le> event_rank (e k) - 1" by blast
    then show ?case using Suc.IH k by simp
  qed
  from this [of MAX_EVENT_ATTEMPTS] show ?thesis by (auto simp: event_rank_def split: if_splits)
qed

text \<open>The broken event on its fifth attempt, and the dead letter it becomes.\<close>

definition last_chance :: integration_event where
  "last_chance = broken_event\<lparr>ie_attempts := 4\<rparr>"

lemma last_chance_fails:
  "\<exists>e' w'. process_event ''e1'' (intake_tx (intake_db [last_chance])) = (Inr e', w') \<and> ie_status e' = DeadLetter \<and> ie_integration e' = ''i1'' \<and>
     ie_merchant e' = ''m1'' \<and> ie_id e' = ''e1''"
proof -
  have "(case fst (process_event ''e1'' (intake_tx (intake_db [last_chance]))) of Inl _ \<Rightarrow> False
     | Inr e' \<Rightarrow> ie_status e' = DeadLetter \<and> ie_integration e' = ''i1'' \<and> ie_merchant e' = ''m1'' \<and> ie_id e' = ''e1'')"
    by code_simp
  then show ?thesis
    by (cases "process_event ''e1'' (intake_tx (intake_db [last_chance]))") (auto split: sum.splits)
qed

lemma dead_stays:
  assumes "ie_status e = DeadLetter" "ie_integration e = ''i1''" "ie_merchant e = ''m1''" "ie_id e = ''e1''"
  shows "\<exists>w'. process_event ''e1'' (intake_tx (intake_db [e])) = (Inr e, w')"
proof -
  obtain r w' where run: "process_event ''e1'' (intake_tx (intake_db [e])) = (r, w')" by fastforce
  have "find_event (intake_db [e]) ''m1'' ''e1'' = Some e" "find_integration (intake_db [e]) ''m1'' (ie_integration e) = Some rest_api"
    using assms by (simp_all add: find_row_def intake_db_def rest_api_def)
  from process_event_outcome [OF in_intake_tx _ _ run, of e rest_api] this
  obtain e' where e': "r = Inr e'" "find_event (db w') ''m1'' ''e1'' = Some e'" "db w' = intake_db [e]"
    using assms(1) by (auto simp: event_step_def terminal_def)
  then show ?thesis using run \<open>find_event (intake_db [e]) ''m1'' ''e1'' = Some e\<close> by simp
qed

theorem event_settles_witness:
  "\<exists>e w'. process_event ''e1'' (intake_tx (intake_db [last_chance])) = (Inr e, w') \<and> terminal (ie_status e)"
proof -
  obtain e' w1 where e': "process_event ''e1'' (intake_tx (intake_db [last_chance])) = (Inr e', w1)" "ie_status e' = DeadLetter"
    "ie_integration e' = ''i1''" "ie_merchant e' = ''m1''" "ie_id e' = ''e1''"
    using last_chance_fails by blast
  obtain w2 where stays: "process_event ''e1'' (intake_tx (intake_db [e'])) = (Inr e', w2)" using dead_stays [OF e'(2-5)] by blast
  define e where "e = (\<lambda>k::nat. if k = 0 then last_chance else e')"
  have "terminal (ie_status (e MAX_EVENT_ATTEMPTS))"
  proof (rule event_settles [where m = "''m1''" and i = "''e1''" and w = "\<lambda>k. intake_tx (intake_db [e k])" and ig = "\<lambda>_. rest_api"
        and w' = "\<lambda>k. if k = 0 then w1 else w2"])
    fix k
    have "find_event (intake_db [e k]) ''m1'' ''e1'' = Some (e k)" "find_integration (intake_db [e k]) ''m1'' (ie_integration (e k)) = Some rest_api"
      "event_due t (e k)" for t
      using e' by (auto simp: e_def find_row_def intake_db_def rest_api_def last_chance_def broken_event_def waiting_event_def event_due_def)
    moreover have "process_event ''e1'' (intake_tx (intake_db [e k])) = (Inr (e (Suc k)), if k = 0 then w1 else w2)"
      using e'(1) stays by (simp add: e_def)
    ultimately show "in_tx ''m1'' (intake_tx (intake_db [e k])) \<and> find_event (db (intake_tx (intake_db [e k]))) ''m1'' ''e1'' = Some (e k) \<and>
        find_integration (db (intake_tx (intake_db [e k]))) ''m1'' (ie_integration (e k)) = Some rest_api \<and>
        event_due (clock (intake_tx (intake_db [e k])) (ticks (intake_tx (intake_db [e k])))) (e k) \<and>
        process_event ''e1'' (intake_tx (intake_db [e k])) = (Inr (e (Suc k)), if k = 0 then w1 else w2)"
      by simp
  qed
  then show ?thesis using e'(1) by (auto simp: e_def MAX_EVENT_ATTEMPTS_def)
qed

end
