(* ===== verification/IntakeProps.thy ===== *)
theory IntakeProps
  imports IntakeSystem IntakeRuns
begin

text \<open>
  What holds along every history of sale intake, however its threads interleave: the unique
  constraints, the ledgers that only grow, and the isolation of merchants.
\<close>

subsection \<open>The constraints\<close>

definition intake_constraints :: "idb \<Rightarrow> bool" where
  "intake_constraints d \<longleftrightarrow>
     distinct (map (\<lambda>e. (ie_integration e, ie_external_id e)) (events d)) \<and>
     distinct (map (\<lambda>c. (cu_merchant c, cu_phone c)) (customers d)) \<and>
     distinct (map (\<lambda>t. (tx_location t, tx_external_id t)) (sales d)) \<and>
     distinct (map (\<lambda>p. (lm_integration p, lm_location p)) (mappings d)) \<and>
     distinct (map ig_merchant (filter connected_api (integrations d)))"

lemma map_update_rows: "(\<And>r. g (f r) = g r) \<Longrightarrow> map g (update_rows owner m P f rows) = map g rows"
  by (simp add: update_rows_def)

lemma connected_after:
  assumes "\<And>x. integration_kept x (f x)"
  shows "distinct (map ig_merchant (filter connected_api rows)) \<Longrightarrow>
    distinct (map ig_merchant (filter connected_api (update_rows ig_merchant m P f rows)))"
proof -
  have k: "ig_merchant (f x) = ig_merchant x" "connected_api (f x) \<Longrightarrow> connected_api x" for x
    using assms [of x] by (simp_all add: integration_kept_def)
  have sub: "ig_merchant ` set (filter connected_api (update_rows ig_merchant m P f xs)) \<subseteq> ig_merchant ` set (filter connected_api xs)" for xs
    using k by (auto simp: update_rows_def split: if_splits)
  show "distinct (map ig_merchant (filter connected_api rows)) \<Longrightarrow> ?thesis"
  proof (induction rows)
    case (Cons x rows)
    have u: "update_rows ig_merchant m P f (x # rows) = (if ig_merchant x = m \<and> P x then f x else x) # update_rows ig_merchant m P f rows"
      by (simp add: update_rows_def)
    show ?case using Cons sub [of rows] k [of x] unfolding u by (auto split: if_splits)
  qed (simp add: update_rows_def)
qed

interpretation keys: intake_frame "\<lambda>d d'. intake_constraints d \<longrightarrow> intake_constraints d'" "\<lambda>_. True"
proof unfold_locales
  fix c m d P1 and f1 :: "integration_event \<Rightarrow> integration_event"
  assume "\<And>e. event_kept e (f1 e)"
  then have "(ie_integration (f1 r), ie_external_id (f1 r)) = (ie_integration r, ie_external_id r)" for r
    by (simp add: event_kept_def)
  then show "intake_constraints d \<longrightarrow> intake_constraints (d\<lparr>events := update_rows ie_merchant m P1 f1 (events d)\<rparr>)"
    by (simp add: intake_constraints_def map_update_rows)
next
  fix c m d P2 and f2 :: "customer \<Rightarrow> customer"
  assume "\<And>e. customer_kept e (f2 e)"
  then have "(cu_merchant (f2 r), cu_phone (f2 r)) = (cu_merchant r, cu_phone r)" for r by (simp add: customer_kept_def)
  then show "intake_constraints d \<longrightarrow> intake_constraints (d\<lparr>customers := update_rows cu_merchant m P2 f2 (customers d)\<rparr>)"
    by (simp add: intake_constraints_def map_update_rows)
next
  fix c m d P3 and f3 :: "integration \<Rightarrow> integration"
  assume "\<And>e. integration_kept e (f3 e)"
  from connected_after [OF this]
  show "intake_constraints d \<longrightarrow> intake_constraints (d\<lparr>integrations := update_rows ig_merchant m P3 f3 (integrations d)\<rparr>)"
    by (simp add: intake_constraints_def)
next
  fix c m d P4 and f4 :: "location_mapping \<Rightarrow> location_mapping"
  assume "\<And>e. mapping_kept e (f4 e)"
  then have "(lm_integration (f4 r), lm_location (f4 r)) = (lm_integration r, lm_location r)" for r by (simp add: mapping_kept_def)
  then show "intake_constraints d \<longrightarrow> intake_constraints (d\<lparr>mappings := update_rows lm_merchant m P4 f4 (mappings d)\<rparr>)"
    by (simp add: intake_constraints_def map_update_rows)
next
  fix c m d and P5 :: "location_mapping \<Rightarrow> bool"
  show "intake_constraints d \<longrightarrow> intake_constraints (d\<lparr>mappings := filter (\<lambda>r. \<not> (lm_merchant r = m \<and> P5 r)) (mappings d)\<rparr>)"
    by (auto simp: intake_constraints_def distinct_map_filter)
qed (auto simp: intake_constraints_def list_ex_iff same_event_key_def same_customer_key_def same_sale_key_def same_mapping_key_def)

subsection \<open>What is never lost\<close>

definition intake_later :: "idb \<Rightarrow> idb \<Rightarrow> bool" where
  "intake_later d d' \<longleftrightarrow> i_merchants d' = i_merchants d \<and> i_members d' = i_members d \<and> assignments d' = assignments d \<and>
     grown (=) (sales d) (sales d') \<and> grown (=) (i_audit d) (i_audit d') \<and>
     grown event_kept (events d) (events d') \<and> grown customer_kept (customers d) (customers d') \<and>
     grown integration_kept (integrations d) (integrations d') \<and> grown location_kept (locations d) (locations d')"

lemma kept_refl [simp, intro]:
  "event_kept e e" "customer_kept c c" "integration_kept i i" "mapping_kept p p" "location_kept l l"
  by (simp_all add: kept_defs)

lemma kept_trans:
  "event_kept a b \<Longrightarrow> event_kept b c \<Longrightarrow> event_kept a c"
  "customer_kept a' b' \<Longrightarrow> customer_kept b' c' \<Longrightarrow> customer_kept a' c'"
  "integration_kept x y \<Longrightarrow> integration_kept y z \<Longrightarrow> integration_kept x z"
  "location_kept l1 l2 \<Longrightarrow> location_kept l2 l3 \<Longrightarrow> location_kept l1 l3"
  unfolding kept_defs by (blast | simp)+

lemma grown_update: "(\<And>x. K x x) \<Longrightarrow> (\<And>x. K x (f x)) \<Longrightarrow> grown K rows (update_rows owner m P f rows)"
  unfolding update_rows_def by (rule grown_map) simp

lemma intake_later_refl: "intake_later d d"
  by (simp add: intake_later_def grown_refl)

lemma intake_later_trans:
  assumes "intake_later a b" "intake_later b c"
  shows "intake_later a c"
proof -
  have "grown (=) (sales a) (sales c)" "grown (=) (i_audit a) (i_audit c)"
    using assms by (auto simp: intake_later_def grown_eq)
  moreover have "grown event_kept (events a) (events c)" "grown customer_kept (customers a) (customers c)"
    "grown integration_kept (integrations a) (integrations c)" "grown location_kept (locations a) (locations c)"
    using assms by (auto simp: intake_later_def intro: grown_trans kept_trans)
  ultimately show ?thesis using assms by (simp add: intake_later_def)
qed

interpretation intake_ledger: intake_frame intake_later "\<lambda>_. True"
proof (unfold_locales, rule intake_later_refl, erule (1) intake_later_trans)
qed (simp_all add: intake_later_def grown_refl grown_add grown_update)

subsection \<open>Isolation\<close>

definition intake_rows_of :: "uuid \<Rightarrow> idb \<Rightarrow> integration_event list \<times> customer list \<times> sale_row list \<times> integration list \<times>
    location_mapping list \<times> location list \<times> audit_log list" where
  "intake_rows_of m d = (filter (\<lambda>e. ie_merchant e = m) (events d), filter (\<lambda>c. cu_merchant c = m) (customers d),
     filter (\<lambda>t. tx_merchant t = m) (sales d), filter (\<lambda>i. ig_merchant i = m) (integrations d),
     filter (\<lambda>p. lm_merchant p = m) (mappings d), filter (\<lambda>l. lo_merchant l = m) (locations d),
     filter (\<lambda>a. al_merchant a = Some m) (i_audit d))"

lemma filter_update_rows:
  assumes "m' \<noteq> m" "\<And>r. owner (f r) = owner r"
  shows "filter (\<lambda>r. owner r = m) (update_rows owner m' P f rows) = filter (\<lambda>r. owner r = m) rows"
  unfolding update_rows_def using assms by (induction rows) auto

interpretation intake_others: intake_frame "\<lambda>d d'. intake_rows_of m d' = intake_rows_of m d" "\<lambda>c. merchant_var c \<noteq> Some m" for m
proof unfold_locales
  fix c m' d and P5 :: "location_mapping \<Rightarrow> bool"
  assume "merchant_var c \<noteq> Some m" "merchant_var c = Some m'"
  then have "filter (\<lambda>p. lm_merchant p = m) (filter (\<lambda>r. \<not> (lm_merchant r = m' \<and> P5 r)) xs) = filter (\<lambda>p. lm_merchant p = m) xs" for xs
    by (induction xs) auto
  then show "intake_rows_of m (d\<lparr>mappings := filter (\<lambda>r. \<not> (lm_merchant r = m' \<and> P5 r)) (mappings d)\<rparr>) = intake_rows_of m d"
    by (simp add: intake_rows_of_def)
qed (auto simp: intake_rows_of_def kept_defs intro!: filter_update_rows)

subsection \<open>The properties\<close>

abbreviation intake_history :: "(intake_entry \<Rightarrow> bool) \<Rightarrow> idb \<Rightarrow> idb \<Rightarrow> bool" where
  "intake_history \<equiv> history run_intake"

text \<open>The history of the examples: the shop disconnects its integration.\<close>

lemma sample_disconnect:
  "\<exists>d'. intake_history (\<lambda>e. e = Disconnect ''m1'' ''u1'' ''i1'') (intake_db [waiting_event]) d' \<and>
     map ie_status (events d') = [CancelledEvent] \<and> map ig_status (integrations d') = [Disconnected] \<and> length (i_audit d') = 1"
proof -
  let ?w = "intake_idle (intake_db [waiting_event])" and ?e = "Disconnect ''m1'' ''u1'' ''i1''"
  obtain r w' where run: "run_intake ?e ?w = (r, w')" by fastforce
  have "intake_history (\<lambda>e. e = ?e) (db ?w) (db w')"
    by (rule history_alone [where run = run_intake and entry = ?e and w = ?w and r = r]) (simp_all add: run)
  moreover have "(let d' = db (snd (run_intake ?e ?w)) in
      map ie_status (events d') = [CancelledEvent] \<and> map ig_status (integrations d') = [Disconnected] \<and> length (i_audit d') = 1)"
    by code_simp
  ultimately show ?thesis using run by (auto simp: Let_def)
qed

text \<open>
  C32: Along every history of deliveries, requests, tasks and sweeps, however their threads
  interleave, no row of the audit log, and no sale, is changed or deleted. An event, customer,
  location or integration keeps its identity, its tenant and its key; an event keeps its payload; an
  opt-out is never taken back, a customer's sale count never goes down, and an integration that is
  disconnected stays disconnected.
\<close>

theorem intake_ledgers:
  assumes "intake_history A d d'"
  shows "intake_later d d'"
  by (rule intake_ledger.history_respects [OF assms]) (rule intake_ledger.frames_intake_entry, simp)

theorem intake_ledgers_witness:
  "\<exists>d'. intake_later (intake_db [waiting_event]) d' \<and> map ig_status (integrations d') = [Disconnected] \<and> length (i_audit d') = 1"
proof -
  obtain d' where d': "intake_history (\<lambda>e. e = Disconnect ''m1'' ''u1'' ''i1'') (intake_db [waiting_event]) d'"
    "map ig_status (integrations d') = [Disconnected]" "length (i_audit d') = 1" using sample_disconnect by (elim exE conjE)
  show ?thesis using intake_ledgers [OF d'(1)] d'(2,3) by (intro exI conjI)
qed

text \<open>
  Every committed state of every history keeps the unique keys of the intake tables, if the
  first does: no integration holds an external event id twice, no merchant a phone number, no
  location an external transaction id, no integration a location mapping, and no merchant has two
  connected REST integrations. A webhook that is delivered twice, or a sale that comes in on two
  ways at once, is therefore stored once.
\<close>

theorem intake_keys:
  assumes "intake_history A d d'" "intake_constraints d"
  shows "intake_constraints d'"
  using keys.history_respects [OF assms(1)] keys.frames_intake_entry assms(2) by blast

lemma sample_intake_constraints: "intake_constraints (intake_db [waiting_event])"
  by (simp add: intake_constraints_def intake_sample_defs connected_api_def)

theorem intake_keys_witness:
  "\<exists>d'. intake_constraints d' \<and> map ie_status (events d') = [CancelledEvent]"
proof -
  obtain d' where d': "intake_history (\<lambda>e. e = Disconnect ''m1'' ''u1'' ''i1'') (intake_db [waiting_event]) d'"
    "map ie_status (events d') = [CancelledEvent]" using sample_disconnect by (elim exE conjE)
  show ?thesis using intake_keys [OF d'(1) sample_intake_constraints] d'(2) by (intro exI conjI)
qed

text \<open>
  Tenant isolation of sale intake. No request and no task of another merchant, and no retry
  sweep, changes a row of merchant \<open>m\<close> in any of the seven tables, after any history of them.
\<close>

theorem intake_isolation:
  assumes "intake_history (\<lambda>e. (\<exists>locked. e = RetrySweep locked) \<or> (\<exists>m'. intake_merchant e = Some m' \<and> m' \<noteq> m)) d d'"
  shows "intake_rows_of m d' = intake_rows_of m d"
proof (rule intake_others.history_respects [OF assms])
  fix e assume "(\<exists>locked. e = RetrySweep locked) \<or> (\<exists>m'. intake_merchant e = Some m' \<and> m' \<noteq> m)"
  then show "frames (\<lambda>d d'. intake_rows_of m d' = intake_rows_of m d) (\<lambda>_. True) (run_intake e)"
  proof
    assume "\<exists>locked. e = RetrySweep locked"
    then show ?thesis by (auto simp: run_intake_def intake_others.frames_sweep_intake)
  next
    assume "\<exists>m'. intake_merchant e = Some m' \<and> m' \<noteq> m"
    then obtain m' where e: "intake_merchant e = Some m'" "m' \<noteq> m" by blast
    show ?thesis by (rule intake_others.frames_merchant_intake [OF e(1)]) (simp add: e(2))
  qed
qed

theorem intake_isolation_witness:
  "\<exists>d'. intake_rows_of ''m2'' d' = intake_rows_of ''m2'' (intake_db [waiting_event]) \<and> map ig_status (integrations d') = [Disconnected]"
proof -
  obtain d' where d': "intake_history (\<lambda>e. e = Disconnect ''m1'' ''u1'' ''i1'') (intake_db [waiting_event]) d'"
    "map ig_status (integrations d') = [Disconnected]" using sample_disconnect by (elim exE conjE)
  have "intake_history (\<lambda>e. (\<exists>locked. e = RetrySweep locked) \<or> (\<exists>m'. intake_merchant e = Some m' \<and> m' \<noteq> ''m2'')) (intake_db [waiting_event]) d'"
    by (rule history_mono [OF d'(1)]) simp
  from intake_isolation [OF this] show ?thesis using d'(2) by (rule exI [of _ d', OF conjI])
qed

end
