(* ===== verification/IntakeSpecs.thy ===== *)
theory IntakeSpecs
  imports SalesProps Scopes
begin

text \<open>
  The doors of sale intake: the idempotent inbox write, the disconnection of a provider, and what has
  to hold before a webhook delivery may change anything.
\<close>

subsection \<open>The inbox write\<close>

definition held_event :: "uuid \<Rightarrow> uuid \<Rightarrow> string \<Rightarrow> idb \<Rightarrow> integration_event option" where
  "held_event m i key d = first (\<lambda>x. ie_merchant x = m \<and> ie_integration x = i \<and> ie_external_id x = key) (events d)"

definition key_taken :: "uuid \<Rightarrow> string \<Rightarrow> idb \<Rightarrow> bool" where
  "key_taken i key d \<longleftrightarrow> list_ex (\<lambda>x. ie_integration x = i \<and> ie_external_id x = key) (events d)"

lemma run_insert_event:
  assumes tx: "in_tx m w" and m: "ie_merchant e = m"
  shows "\<exists>w'. insert_or_get_event e w =
    (if 255 < length (ie_external_id e) \<or> \<not> jsonb_ok (ie_payload e) then Inl DataErr
     else if key_taken (ie_integration e) (ie_external_id e) (db w)
     then (case held_event m (ie_integration e) (ie_external_id e) (db w) of None \<Rightarrow> Inl DoesNotExist | Some x \<Rightarrow> Inr (x, False))
     else Inr (e, True), w') \<and> saves w' = saves w \<and>
    (if 255 < length (ie_external_id e) \<or> \<not> jsonb_ok (ie_payload e) \<or> key_taken (ie_integration e) (ie_external_id e) (db w)
     then db w' = db w \<and> pending w' = pending w
     else db w' = (db w)\<lparr>events := events (db w) @ [e]\<rparr> \<and> pending w' = pending w @ [ProcessIntegrationEvent m (ie_id e)])"
proof -
  have taken: "list_ex (same_event_key e) (events (db w)) = key_taken (ie_integration e) (ie_external_id e) (db w)"
    by (simp add: key_taken_def same_event_key_def list_ex_iff)
  have st: "in_tx m (stepped w)" and s: "saves w \<noteq> []" using tx by (simp, simp add: in_tx_def)
  show ?thesis
  proof (cases "255 < length (ie_external_id e) \<or> \<not> jsonb_ok (ie_payload e)")
    case True
    then show ?thesis unfolding insert_or_get_event_def run_bind run_create_event [OF tx m] by auto
  next
    case False
    show ?thesis
    proof (cases "key_taken (ie_integration e) (ie_external_id e) (db w)")
      case True
      then show ?thesis
        unfolding insert_or_get_event_def run_bind run_create_event [OF tx m] taken
        using False by (simp add: run_bind run_scoped [OF st] run_require held_event_def [symmetric] split: option.split)
    next
      case False2: False
      then show ?thesis
        unfolding insert_or_get_event_def run_bind run_create_event [OF tx m] taken
        using False s m by (simp add: run_seq on_commit_def)
    qed
  qed
qed

text \<open>
  C30: The inbox write is idempotent. For a connected integration of the current merchant it stores a
  new event and hands over one processing task with the commit, unless the external id is already
  taken: then it stores and enqueues nothing and answers with the event that holds the id. An id or
  a payload the columns do not take is an error that stores nothing, and another merchant's or a
  disconnected integration is refused before anything is written.
\<close>

theorem record_event_exact:
  assumes tx: "in_tx m w" and run: "record_event ig key payload w = (r, w')"
  shows "if ig_merchant ig \<noteq> m then r = Inl TenantContextError \<and> w' = w
    else if ig_status ig = Disconnected then r = Inl (App IntegrationDisconnected) \<and> w' = w
    else if 255 < length key \<or> \<not> jsonb_ok payload then r = Inl DataErr \<and> db w' = db w \<and> pending w' = pending w
    else if key_taken (ig_id ig) key (db w)
    then r = (case held_event m (ig_id ig) key (db w) of None \<Rightarrow> Inl DoesNotExist | Some x \<Rightarrow> Inr (x, False)) \<and>
      db w' = db w \<and> pending w' = pending w
    else (\<exists>e. r = Inr (e, True) \<and> ie_merchant e = m \<and> ie_integration e = ig_id ig \<and> ie_external_id e = key \<and> ie_payload e = payload \<and>
      ie_status e = Received \<and> ie_attempts e = 0 \<and> db w' = (db w)\<lparr>events := events (db w) @ [e]\<rparr> \<and>
      pending w' = pending w @ [ProcessIntegrationEvent m (ie_id e)])"
proof (cases "ig_merchant ig = m \<and> ig_status ig \<noteq> Disconnected")
  case False
  then show ?thesis using run by (auto simp: record_event_def run_bind run_merchant [OF tx] throw_def split: if_splits)
next
  case True
  let ?v = "tick (tick (w\<lparr>saves := db w # saves w, secret_n := Suc (secret_n w)\<rparr>))"
  let ?e = "new_event ig key payload (secrets w (secret_n w)) (clock w (ticks w)) (clock w (Suc (ticks w)))"
  have v: "in_tx m ?v" using tx by (simp add: in_tx_def quiet_def)
  have e: "ie_merchant ?e = m" "ie_integration ?e = ig_id ig" "ie_external_id ?e = key" "ie_payload ?e = payload"
    "ie_status ?e = Received" "ie_attempts ?e = 0" using True by (simp_all add: new_event_def)
  obtain q v' where ins: "insert_or_get_event ?e ?v = (q, v')" by fastforce
  have out: "(r, w') = (case q of Inr a \<Rightarrow> (Inr a, v'\<lparr>saves := tl (saves v')\<rparr>) | Inl x \<Rightarrow> (Inl x, rollback_block w v'))"
    using run ins True
    by (simp add: record_event_def run_bind run_merchant [OF tx] run_nested [OF tx] run_fresh run_now split: sum.splits)
  from run_insert_event [OF v e(1)] ins
  have q: "q = (if 255 < length key \<or> \<not> jsonb_ok payload then Inl DataErr
     else if key_taken (ig_id ig) key (db w)
     then (case held_event m (ig_id ig) key (db w) of None \<Rightarrow> Inl DoesNotExist | Some x \<Rightarrow> Inr (x, False))
     else Inr (?e, True))" and s: "saves v' = db w # saves w"
    and d: "if 255 < length key \<or> \<not> jsonb_ok payload \<or> key_taken (ig_id ig) key (db w)
     then db v' = db w \<and> pending v' = pending w
     else db v' = (db w)\<lparr>events := events (db w) @ [?e]\<rparr> \<and> pending v' = pending w @ [ProcessIntegrationEvent m (ie_id ?e)]"
    unfolding e by auto
  show ?thesis
    using True out q s d e by (auto simp: rollback_block_def split: if_splits option.splits)
qed

theorem record_event_exact_witness:
  "\<exists>e d'. ie_external_id e = ''k2'' \<and> ie_status e = Received \<and> d' = (intake_db [waiting_event])\<lparr>events := [waiting_event, e]\<rparr>"
proof -
  obtain r w' where run: "record_event rest_api ''k2'' sample_payload (intake_tx (intake_db [waiting_event])) = (r, w')" by fastforce
  have "ig_merchant rest_api = ''m1''" "ig_status rest_api = Connected" "ig_id rest_api = ''i1''" "jsonb_ok sample_payload"
    "\<not> key_taken ''i1'' ''k2'' (intake_db [waiting_event])" "events (intake_db [waiting_event]) = [waiting_event]"
    by (simp_all add: rest_api_def sample_payload_def no_nul_def key_taken_def intake_db_def waiting_event_def)
  with record_event_exact [OF in_intake_tx run] show ?thesis by auto
qed

subsection \<open>Disconnecting\<close>

text \<open>The tables after a disconnection at \<open>t1\<close> (integration) and \<open>t2\<close> (events).\<close>

definition disconnected_db :: "uuid \<Rightarrow> integration \<Rightarrow> uuid option \<Rightarrow> string option \<Rightarrow> instant \<Rightarrow> instant \<Rightarrow> idb \<Rightarrow> idb" where
  "disconnected_db m row actor reason t1 t2 d = d\<lparr>
     integrations := update_rows ig_merchant m (\<lambda>x. ig_id x = ig_id row)
       (\<lambda>x. x\<lparr>ig_status := Disconnected, ig_credentials := None, ig_updated_at := t1\<rparr>) (integrations d),
     mappings := update_rows lm_merchant m (\<lambda>p. lm_integration p = ig_id row) (\<lambda>p. p\<lparr>lm_active := False\<rparr>) (mappings d),
     events := update_rows ie_merchant m (pending_event (ig_id row))
       (\<lambda>e. e\<lparr>ie_status := CancelledEvent, ie_updated_at := t2\<rparr>) (events d),
     i_audit := i_audit d @ [\<lparr>al_merchant = Some m, al_actor_user = actor, al_action = AUDIT_DISCONNECTED,
       al_target_type = Some ''integrations.integration'', al_target_id = Some (ig_id row),
       al_metadata = disconnect_metadata (ig_provider row) reason\<rparr>]\<rparr>"

lemma run_lock_integration:
  assumes "in_tx m w" "find_integration (db w) m i = Some row"
  shows "\<exists>v. lock_integration i w = (Inr row, v) \<and> in_tx m v \<and> db v = db w \<and> saves v = saves w"
proof -
  define v where v_def: "v = (if row_locked w then w else (interfere w)\<lparr>row_locked := True\<rparr>)"
  have v: "in_tx m v" "db v = db w" "saves v = saves w"
    using assms(1) by (auto simp: v_def in_tx_def quiet_def interfere_def Let_def intro!: map_idI)
  have "(take_row_lock :: unit iprog) w = (Inr (), v)" by (simp add: take_row_lock_def modifyM_def v_def)
  then have "lock_integration i w = (Inr row, v)"
    using assms(2) v(1,2) by (simp add: lock_integration_def run_seq run_bind run_scoped run_require)
  with v show ?thesis by blast
qed

lemma run_save_integration:
  assumes "in_tx m w" "find_integration (db w) m i = Some r"
  shows "save_integration i f w = (Inr (), with_db ((db w)\<lparr>integrations := update_rows ig_merchant m (\<lambda>x. ig_id x = i)
      (\<lambda>x. (f x)\<lparr>ig_updated_at := clock w (ticks w)\<rparr>) (integrations (db w))\<rparr>) (tick w))"
  using assms by (simp add: save_integration_def run_bind run_now intake_runs)

definition stranger :: "uuid \<Rightarrow> uuid option \<Rightarrow> (uuid \<times> uuid) list \<Rightarrow> bool" where
  "stranger m actor ms \<longleftrightarrow> (case actor of None \<Rightarrow> False | Some u \<Rightarrow> (m, u) \<notin> set ms)"

lemma run_audit_integration:
  assumes "in_tx m w"
  shows "audit_integration action actor ig md w =
    (if stranger m actor (i_members (db w)) then (Inl ActorNotMember, w)
     else (Inr (), with_db ((db w)\<lparr>i_audit := i_audit (db w) @ [\<lparr>al_merchant = Some m, al_actor_user = actor, al_action = action,
         al_target_type = Some ''integrations.integration'', al_target_id = Some (ig_id ig), al_metadata = md\<rparr>]\<rparr>) w))"
proof -
  have v: "in_tx m (w\<lparr>saves := db w # saves w\<rparr>)" and s: "saves w \<noteq> []" using assms by (simp_all add: in_tx_def quiet_def)
  show ?thesis
    unfolding audit_integration_def run_nested [OF assms]
    using s by (simp add: run_bind run_scoped [OF v] rollback_block_def with_db_def throw_def modifyM_def stranger_def)
qed

lemma none_pending: "\<not> list_ex (\<lambda>e. ie_merchant e = m \<and> pending_event i e) (update_rows ie_merchant m (pending_event i)
    (\<lambda>e. e\<lparr>ie_status := CancelledEvent, ie_updated_at := t\<rparr>) es)"
  unfolding update_rows_def by (induction es) (simp_all add: pending_event_def)

text \<open>
  Disconnecting is complete. It marks the integration, drops its credentials, deactivates all its
  mappings, cancels every event of it that waits or may be retried (and no other), and writes one
  audit row; it is a no-op on an integration that is already disconnected, and fails without a trace
  when the actor is not a member of the merchant.
\<close>

theorem disconnect_exact:
  assumes tx: "in_tx m w" and row: "find_integration (db w) m (ig_id ig) = Some row"
    and run: "disconnect_integration actor ig reason w = (r, w')"
  shows "if ig_status row = Disconnected then r = Inr () \<and> db w' = db w
    else if stranger m actor (i_members (db w)) then r = Inl ActorNotMember \<and> db w' = db w
    else r = Inr () \<and> (\<exists>t1 t2. db w' = disconnected_db m row actor reason t1 t2 (db w)) \<and>
      \<not> list_ex (\<lambda>e. ie_merchant e = m \<and> pending_event (ig_id ig) e) (events (db w'))"
proof -
  have id: "ig_id row = ig_id ig" using find_rowD [OF row] by simp
  let ?u = "w\<lparr>saves := db w # saves w\<rparr>"
  have u: "in_tx m ?u" using tx by (simp add: in_tx_def quiet_def)
  from run_lock_integration [OF u, of "ig_id ig" row] row obtain v where
    v: "lock_integration (ig_id ig) ?u = (Inr row, v)" "in_tx m v" "db v = db w" "saves v = db w # saves w" by auto
  let ?t = "clock v (ticks v)"
  let ?d1 = "(db w)\<lparr>integrations := update_rows ig_merchant m (\<lambda>x. ig_id x = ig_id row)
       (\<lambda>x. x\<lparr>ig_status := Disconnected, ig_credentials := None, ig_updated_at := ?t\<rparr>) (integrations (db w))\<rparr>"
  let ?d2 = "?d1\<lparr>mappings := update_rows lm_merchant m (\<lambda>p. lm_integration p = ig_id row) (\<lambda>p. p\<lparr>lm_active := False\<rparr>) (mappings (db w))\<rparr>"
  let ?v1 = "with_db ?d1 (tick v)" and ?v2 = "with_db ?d2 (tick v)"
  let ?t2 = "clock v (Suc (ticks v))"
  let ?d3 = "?d2\<lparr>events := update_rows ie_merchant m (pending_event (ig_id row))
       (\<lambda>e. e\<lparr>ie_status := CancelledEvent, ie_updated_at := ?t2\<rparr>) (events (db w))\<rparr>"
  let ?v3 = "with_db ?d3 (tick (tick v))"
  have in123: "in_tx m ?v1" "in_tx m ?v2" "in_tx m (tick ?v2)" "in_tx m ?v3" using v(2) by simp_all
  have save: "save_integration (ig_id row) (\<lambda>x. x\<lparr>ig_status := Disconnected, ig_credentials := None\<rparr>) v = (Inr (), ?v1)"
    using run_save_integration [OF v(2), of "ig_id row" row] row id v(3) by simp
  have maps: "update_mappings (\<lambda>p. lm_integration p = ig_id row) (\<lambda>p. p\<lparr>lm_active := False\<rparr>) ?v1 = (Inr (), ?v2)"
    using run_update_mappings [OF in123(1)] by (simp add: with_db_def)
  have cancel: "cancel_pending (ig_id row) ?v2 = (Inr (), ?v3)"
    by (simp add: cancel_pending_def run_bind run_now run_update_events [OF in123(3)]) (simp add: with_db_def tick_def)
  show ?thesis
  proof (cases "ig_status row = Disconnected")
    case True
    then show ?thesis
      using run v by (auto simp: disconnect_integration_def run_nested [OF tx] run_bind ret_def)
  next
    case False
    have body: "bindM (lock_integration (ig_id ig)) (\<lambda>row. if ig_status row = Disconnected then ret ()
       else seqM (save_integration (ig_id row) (\<lambda>x. x\<lparr>ig_status := Disconnected, ig_credentials := None\<rparr>))
         (seqM (update_mappings (\<lambda>p. lm_integration p = ig_id row) (\<lambda>p. p\<lparr>lm_active := False\<rparr>))
         (seqM (cancel_pending (ig_id row))
           (audit_integration AUDIT_DISCONNECTED actor row (disconnect_metadata (ig_provider row) reason))))) ?u =
       audit_integration AUDIT_DISCONNECTED actor row (disconnect_metadata (ig_provider row) reason) ?v3"
      using False v(1) save maps cancel by (simp add: run_bind run_seq)
    have gone: "\<not> list_ex (\<lambda>e. ie_merchant e = m \<and> pending_event (ig_id ig) e) (update_rows ie_merchant m (pending_event (ig_id row))
       (\<lambda>e. e\<lparr>ie_status := CancelledEvent, ie_updated_at := ?t2\<rparr>) es)" for es
      using none_pending id by simp
    have out: "if stranger m actor (i_members (db w)) then r = Inl ActorNotMember \<and> db w' = db w
      else r = Inr () \<and> db w' = disconnected_db m row actor reason ?t ?t2 (db w)"
      using run v(4) unfolding disconnect_integration_def run_nested [OF tx] body run_audit_integration [OF in123(4)]
      by (auto simp: rollback_block_def disconnected_db_def with_db_def tick_def split: if_splits)
    have "events (disconnected_db m row actor reason ?t ?t2 (db w)) = update_rows ie_merchant m (pending_event (ig_id row))
       (\<lambda>e. e\<lparr>ie_status := CancelledEvent, ie_updated_at := ?t2\<rparr>) (events (db w))" by (simp add: disconnected_db_def)
    with out gone False show ?thesis by (auto split: if_splits)
  qed
qed

theorem disconnect_exact_witness:
  "\<exists>d'. (\<exists>t1 t2. d' = disconnected_db ''m1'' rest_api (Some ''u1'') None t1 t2 (intake_db [waiting_event])) \<and>
     \<not> list_ex (\<lambda>e. ie_merchant e = ''m1'' \<and> pending_event ''i1'' e) (events d')"
proof -
  obtain r w' where run: "disconnect_integration (Some ''u1'') rest_api None (intake_tx (intake_db [waiting_event])) = (r, w')" by fastforce
  have "find_integration (intake_db [waiting_event]) ''m1'' (ig_id rest_api) = Some rest_api" "ig_status rest_api = Connected"
    "ig_id rest_api = ''i1''" "(''m1'', ''u1'') \<in> set (i_members (intake_db [waiting_event]))"
    by (simp_all add: find_row_def intake_db_def rest_api_def)
  with disconnect_exact [OF in_intake_tx _ run, of rest_api] show ?thesis by (auto simp: stranger_def)
qed

subsection \<open>Webhook deliveries\<close>

lemma wp_lookup_integration:
  assumes "fresh_thread w" "quiet w"
  shows "wp (lookup_integration i) (\<lambda>found w'. db w' = db w \<and> py w' = py w \<and> icfg w' = icfg w \<and>
      (\<forall>ig. found = Some ig \<longrightarrow> i = Some (ig_id ig) \<and> ig \<in> set (integrations (db w)))) (\<lambda>_ w'. db w' = db w) w"
proof (cases i)
  case None
  then show ?thesis by (simp add: lookup_integration_def wp_simps)
next
  case (Some j)
  have look: "wp (for_lookup_id j) Q E v = (if integration_var (ctx v) \<noteq> Some j then E TenantContextError v
     else Q (first (\<lambda>ig. integration_selectable (guc v) ig \<and> ig_id ig = j) (integrations (db v))) v)" for Q E v
    by (simp add: wp_def for_lookup_id_def)
  have found: "first P (integrations (db w)) = Some ig \<Longrightarrow> ig \<in> set (integrations (db w)) \<and> P ig" for P ig
    using first_SomeD by fastforce
  have w: "merchant_var (ctx w) = None" "integration_var (ctx w) = None" "saves w = []" "guc w = no_vars" "ctx w = no_vars"
    "interfere (w\<lparr>ctx := c\<rparr>) = w\<lparr>ctx := c, env_n := Suc (env_n w)\<rparr>" for c
    using assms by (simp_all add: fresh_thread_def no_vars_def interfere_quiet quiet_def)
  show ?thesis
    unfolding Some lookup_integration_def integration_lookup_atomic_def
    by (simp add: wp_simps look w begin_block_def commit_block_def no_vars_def) (auto dest: found)
qed

text \<open>
  C31: A webhook delivery changes the database only if it names a stored integration that is not
  disconnected, comes in on the URL of that integration's provider, and carries the signature the
  provider's adapter demands. An unknown or malformed id, a wrong provider, a missing or wrong
  signature leave every table as it was.
\<close>

theorem webhook_gate:
  assumes "fresh_thread w" "quiet w" "receive_webhook provider i r w = (res, w')" "db w' \<noteq> db w"
  shows "\<exists>ig a. i = Some (ig_id ig) \<and> ig \<in> set (integrations (db w)) \<and> ig_provider ig = provider \<and> ig_status ig \<noteq> Disconnected \<and>
    get_adapter provider = Inr a \<and> verify (py w) (icfg w) a ig r = Inr True"
proof (rule ccontr)
  assume no: "\<not> ?thesis"
  have "wp (receive_webhook provider i r) (\<lambda>_ w'. db w' = db w) (\<lambda>_ w'. db w' = db w) w"
    unfolding receive_webhook_def
  proof (rule wp_bind_spec [OF wp_lookup_integration [OF assms(1,2)]])
    fix found :: "integration option" and w1 :: intake_world
    assume look: "db w1 = db w \<and> py w1 = py w \<and> icfg w1 = icfg w \<and>
      (\<forall>ig. found = Some ig \<longrightarrow> i = Some (ig_id ig) \<and> ig \<in> set (integrations (db w)))"
    show "wp (case found of None \<Rightarrow> throw webhook_rejected
     | Some ig \<Rightarrow> if ig_provider ig \<noteq> provider then throw webhook_rejected
       else bindM (liftE (get_adapter (ig_provider ig))) (\<lambda>a.
       bindM (bindM (asks (\<lambda>w. (py w, icfg w))) (\<lambda>(lib, s). liftE (verify lib s a ig r))) (\<lambda>verified.
       if \<not> verified then throw webhook_rejected
       else if is_uninstall_event a r then handle_uninstall a ig r
       else if ig_status ig = Disconnected then throw webhook_rejected
       else if \<not> is_sale_event a r then ret ()
       else handle_sale_delivery a ig r))) (\<lambda>_ w'. db w' = db w) (\<lambda>_ w'. db w' = db w) w1"
    proof (cases found)
      case None
      then show ?thesis using look by (simp add: wp_simps)
    next
      case (Some ig)
      then have ig: "i = Some (ig_id ig)" "ig \<in> set (integrations (db w))" using look by auto
      have gone: "ig_status ig = Disconnected \<Longrightarrow> wp (handle_uninstall a ig r) (\<lambda>_ w'. db w' = db w) (\<lambda>_ w'. db w' = db w) w1" for a
        using look by (simp add: handle_uninstall_def wp_simps split: sum.split option.split)
      show ?thesis
        using Some look no ig gone by (auto simp: wp_simps split: sum.split)
    qed
  qed simp
  then show False using assms(3,4) by (cases res) (auto dest: wp_InrD wp_InlD)
qed

text \<open>A shop that uninstalls the app: the delivery is signed with the client secret.\<close>

definition store_app :: integration where
  "store_app = rest_api\<lparr>ig_provider := ''shopify'', ig_config := JObj [(''shop_domain'', JStr ''a.shop''), (''shop_id'', JStr ''5'')]\<rparr>"

definition uninstall_delivery :: delivery where
  "uninstall_delivery = \<lparr>headers = [''X-Shopify-Topic'' \<mapsto> ''app/uninstalled'', ''X-Shopify-Shop-Domain'' \<mapsto> ''a.shop'', ''X-Shopify-Webhook-Id'' \<mapsto> ''n1'',
     ''X-Shopify-Hmac-Sha256'' \<mapsto> base64 (hmac_sha256 (utf8 ''s'') (text_bytes ''body''))], dl_body = ''body''\<rparr>"

definition store_world :: intake_world where
  "store_world = (intake_idle ((intake_db [])\<lparr>integrations := [store_app]\<rparr>))\<lparr>py := sample_lib\<lparr>loads := (\<lambda>_. Some (JObj [(''id'', JInt 5)]))\<rparr>\<rparr>"

lemma store_lookup: "lookup_integration (Some ''i1'') store_world = (Inr (Some store_app), store_world\<lparr>env_n := 1\<rparr>)"
  by (simp add: lookup_integration_def integration_lookup_atomic_def lookup_atomic_def with_var_def durable_atomic_def atomic_def
      catchM_def run_seq set_local_def for_lookup_id_def begin_block_def interfere_def commit_block_def store_world_def intake_idle_def
      intake_tx_def no_vars_def integration_selectable_def store_app_def rest_api_def intake_db_def)

lemma base64_nonempty: "xs \<noteq> [] \<Longrightarrow> base64 xs \<noteq> []"
  by (cases xs rule: base64.cases) (simp_all add: Let_def)

lemma store_verified: "verify lib (icfg store_world) ShopifyAdapter store_app uninstall_delivery = Inr True"
proof -
  have "hmac_sha256 (utf8 ''s'') (text_bytes ''body'') \<noteq> []" using hmac_sha256_length [of "utf8 ''s''" "text_bytes ''body''"] by fastforce
  from base64_nonempty [OF this] show ?thesis
    by (simp add: verify_def shopify_verify_def header_def uninstall_delivery_def verify_hmac_sha256_def store_world_def intake_idle_def
        intake_tx_def store_app_def config_of_def or_else_def)
qed

lemma store_uninstalled: "ig_status (hd (integrations (db (snd (tenant_context (Some ''m1'')
    (disconnect_integration None store_app (Some ''app_uninstalled'')) (store_world\<lparr>env_n := 1\<rparr>)))))) = Disconnected"
  by code_simp

theorem webhook_gate_witness:
  "\<exists>ig a. ''i1'' = ig_id ig \<and> ig_provider ig = ''shopify'' \<and> get_adapter ''shopify'' = Inr a \<and>
     verify (py store_world) (icfg store_world) a ig uninstall_delivery = Inr True"
proof -
  let ?run = "receive_webhook ''shopify'' (Some ''i1'') uninstall_delivery store_world"
  have five: "int_text 5 = ''5''" by code_simp
  have "ig_provider store_app = ''shopify''" "get_adapter ''shopify'' = Inr ShopifyAdapter" "ig_status store_app = Connected"
    "is_uninstall_event ShopifyAdapter uninstall_delivery" "ig_merchant store_app = ''m1''"
    "icfg (store_world\<lparr>env_n := 1\<rparr>) = icfg store_world" "loads (py (store_world\<lparr>env_n := 1\<rparr>)) ''body'' = Some (JObj [(''id'', JInt 5)])"
    "dl_body uninstall_delivery = ''body''" "uninstall_payload_matches store_app (JObj [(''id'', JInt 5)])"
    "get_external_event_id lib ShopifyAdapter store_app uninstall_delivery p = Inr ''n1''" for lib p
    by (simp_all add: store_app_def rest_api_def get_adapter_def ADAPTERS_def is_uninstall_event_def uninstall_delivery_def store_world_def
        uninstall_payload_matches_def ORDER_ONLY_KEYS_def config_of_def or_else_def get_external_event_id_def shopify_event_id_def header_def
        five)
  then have run: "?run = tenant_context (Some ''m1'') (disconnect_integration None store_app (Some ''app_uninstalled'')) (store_world\<lparr>env_n := 1\<rparr>)"
    using store_verified by (simp add: receive_webhook_def run_bind store_lookup asks_def handle_uninstall_def run_seq ret_def)
  obtain r w' where out: "?run = (r, w')" by fastforce
  have "ig_status (hd (integrations (db w'))) \<noteq> ig_status (hd (integrations (db store_world)))"
    using store_uninstalled run out by (simp add: store_world_def intake_idle_def store_app_def rest_api_def)
  then have "db w' \<noteq> db store_world" by auto
  moreover have "fresh_thread store_world" "quiet store_world"
    by (simp_all add: fresh_thread_def quiet_def store_world_def intake_idle_def intake_tx_def no_vars_def)
  ultimately show ?thesis using webhook_gate [OF _ _ out] by blast
qed

end
