(* ===== verification/SaleSpecs.thy ===== *)
theory SaleSpecs
  imports SalesProps
begin

text \<open>
  What the pure code of sale intake promises: the amounts that reach a sale, the text an idempotency key
  is the digest of, and the location of a sale.
\<close>

subsection \<open>Amounts\<close>

lemma digit_value_less: "digit_char c \<Longrightarrow> digit_value c < 10"
  unfolding digit_char_def digit_value_def code_point_def Let_def by arith

lemma digits_value_less: "list_all digit_char ds \<Longrightarrow> digits_value ds < 10 ^ length ds"
proof (induction ds rule: rev_induct)
  case Nil
  show ?case by (simp add: digits_value_def)
next
  case (snoc c ds)
  then have "digits_value ds < 10 ^ length ds" "digit_value c < 10" by (simp_all add: digit_value_less)
  then show ?case by (simp add: digits_value_snoc)
qed

lemma less_digit_count: "n < 10 ^ digit_count n"
  using digits_value_less [of "nat_digits n"] nat_digits_ok [of n] by (simp add: digits_round_trip digit_count_def)

lemma amount_in_column:
  assumes "fits_decimal 12 2 v = Inr True"
  shows "\<exists>neg n e. v = DFin neg n e \<and> -2 \<le> e \<and> \<bar>cents v\<bar> < 10 ^ 12"
proof -
  from assms obtain neg n e where v: "v = DFin neg n e" by (cases v) (simp_all add: fits_decimal_def)
  have fit: "(if e > 0 then int (digit_count n) + e \<le> 10 else max (int (digit_count n) + e) 1 \<le> 10 \<and> -2 \<le> e)"
    using assms by (auto simp: v fits_decimal_def Let_def split: if_splits)
  then have e: "-2 \<le> e" "int (digit_count n) + e \<le> 10" by (auto split: if_splits)
  have "n * 10 ^ nat (e + 2) < 10 ^ digit_count n * 10 ^ nat (e + 2)" using less_digit_count [of n] by simp
  also have "\<dots> = 10 ^ (digit_count n + nat (e + 2))" by (simp add: power_add)
  also have "\<dots> \<le> 10 ^ 12" using e by (intro power_increasing) auto
  finally have "int (n * 10 ^ nat (e + 2)) < int (10 ^ 12)" by (simp only: of_nat_less_iff)
  then have "int n * 10 ^ nat (e + 2) < 10 ^ 12" by simp
  then show ?thesis using v e(1) by (auto simp: cents_def Let_def)
qed

text \<open>
  C33: Whatever a provider, a file or an API client sends, an amount that reaches a sale is a finite
  decimal with at most two places, neither negative nor too large for the \<open>numeric(12, 2)\<close> column: it is
  stored exactly, without rounding and without overflow.
\<close>

theorem sale_amount_bounds:
  assumes "to_sale lib a ig payload = Inr s"
  shows "(\<exists>neg n e. sa_amount s = DFin neg n e \<and> -2 \<le> e) \<and> 0 \<le> cents (sa_amount s) \<and> cents (sa_amount s) < 10 ^ 12"
proof -
  have ok: "fits_decimal 12 2 (sa_amount s) = Inr True" "negative (sa_amount s) = Inr False"
    using to_sale_ok [OF assms] by (simp_all add: sale_ok_def)
  from amount_in_column [OF ok(1)] obtain neg n e where v: "sa_amount s = DFin neg n e" "-2 \<le> e" "\<bar>cents (sa_amount s)\<bar> < 10 ^ 12"
    by blast
  have "0 \<le> cents (sa_amount s)" using ok(2) by (auto simp: v(1) negative_def cents_def Let_def)
  then show ?thesis using v by auto
qed

lemma sample_to_sale: "to_sale sample_lib ApiAdapter rest_api sample_payload = Inr sample_sale"
  by code_simp

theorem sale_amount_bounds_witness: "0 \<le> cents (sa_amount sample_sale) \<and> cents (sa_amount sample_sale) < 10 ^ 12"
  using sale_amount_bounds [OF sample_to_sale] by blast

subsection \<open>Idempotency keys\<close>

definition split_key_text :: "string \<Rightarrow> string \<times> string" where
  "split_key_text s = (takeWhile (\<lambda>c. c \<noteq> CHR 0x1F) s, drop 1 (dropWhile (\<lambda>c. c \<noteq> CHR 0x1F) s))"

text \<open>
  The text whose digest is the idempotency key of a sale can be read back: when the location id
  holds no unit separator, location and transaction id are recovered from it, so two sales with the same
  key text are the same sale. (A missing location reads as an empty one.)
\<close>

theorem event_key_round_trip:
  assumes "case location of None \<Rightarrow> True | Some l \<Rightarrow> CHR 0x1F \<notin> set l"
  shows "split_key_text (event_key_text location txn) = (case location of None \<Rightarrow> [] | Some l \<Rightarrow> l, txn)"
proof -
  have "takeWhile (\<lambda>c. c \<noteq> CHR 0x1F) (l @ CHR 0x1F # txn) = l \<and> dropWhile (\<lambda>c. c \<noteq> CHR 0x1F) (l @ CHR 0x1F # txn) = CHR 0x1F # txn"
    if "CHR 0x1F \<notin> set l" for l using that by (induction l) auto
  then show ?thesis using assms by (cases location) (auto simp: split_key_text_def event_key_text_def)
qed

theorem event_key_round_trip_witness:
  "split_key_text (event_key_text (Some ''l1'') ''t1'') = (''l1'', ''t1'')"
  using event_key_round_trip [of "Some ''l1''" "''t1''"] by simp

text \<open>Without that condition the boundary is lost.\<close>

lemma event_key_collision: "sale_event_key (Some (''a'' @ [CHR 0x1F])) ''b'' = sale_event_key (Some ''a'') (CHR 0x1F # ''b'')"
  by (simp add: sale_event_key_def event_key_text_def)

subsection \<open>Locations\<close>

lemma choose_mappingD:
  assumes "choose_mapping active ext = Some p"
  shows "p \<in> set active \<and> (active = [p] \<and> \<not> truthy (mapped_external_id p) \<or> truthy ext \<and> filter (\<lambda>q. mapped_external_id q = ext) active = [p])"
proof (cases "length active = 1 \<and> \<not> truthy (mapped_external_id (hd active))")
  case True
  then show ?thesis using assms by (cases active) (auto simp: choose_mapping_def)
next
  case False
  then have f: "truthy ext" "filter (\<lambda>q. mapped_external_id q = ext) active = [p]"
    using assms by (auto simp: choose_mapping_def split: if_splits list.splits)
  have "set (filter (\<lambda>q. mapped_external_id q = ext) active) = {p}" unfolding f(2) by simp
  then have "p \<in> set active" by auto
  then show ?thesis using f by blast
qed

text \<open>
  The location of a sale is never guessed. A sale is booked on a location only when an active
  mapping of its integration says so: the single active mapping, if it names no external location, or the
  one active mapping whose external id is the sale's; the location is of the same merchant. In all other
  cases (no mapping, several without a match, two with the same id) the sale is refused.
\<close>

theorem location_not_guessed:
  assumes "in_tx m w" "resolve_location ig s w = (Inr l, w')"
  shows "w' = w \<and> lo_merchant l = m \<and> (\<exists>p. lm_location p = lo_id l \<and> lm_active p \<and> lm_merchant p = m \<and> lm_integration p = ig_id ig \<and> p \<in> set (mappings (db w)) \<and>
    (active_mappings (ig_id ig) m (db w) = [p] \<and> \<not> truthy (mapped_external_id p) \<or>
     truthy (sa_external_location s) \<and>
       filter (\<lambda>q. mapped_external_id q = sa_external_location s) (active_mappings (ig_id ig) m (db w)) = [p]))"
proof -
  have run: "resolve_location ig s w = (case choose_mapping (active_mappings (ig_id ig) m (db w)) (sa_external_location s) of
      None \<Rightarrow> (Inl (App LocationUnresolved), w)
    | Some p \<Rightarrow> (case find_location (db w) m (lm_location p) of None \<Rightarrow> (Inl DoesNotExist, w) | Some l \<Rightarrow> (Inr l, w)))"
    using assms(1) by (simp add: resolve_location_def mapped_location_def run_bind run_require split: option.split)
  then obtain p where p: "choose_mapping (active_mappings (ig_id ig) m (db w)) (sa_external_location s) = Some p"
    "find_location (db w) m (lm_location p) = Some l" "w' = w"
    using assms(2) by (auto split: option.splits)
  show ?thesis
    using p(3) choose_mappingD [OF p(1)] find_rowD [OF p(2)] by (auto simp: active_mappings_def)
qed

lemma sample_location: "resolve_location rest_api sample_sale (intake_tx (intake_db [])) = (Inr shop, intake_tx (intake_db []))"
  by (simp add: resolve_location_def mapped_location_def run_bind run_scoped [OF in_intake_tx] run_require active_mappings_def
      choose_mapping_def find_row_def)
    (simp add: intake_sample_defs mapped_external_id_def or_else_def)

theorem location_not_guessed_witness: "lo_merchant shop = ''m1'' \<and> (\<exists>p. p \<in> set (mappings (intake_db [])) \<and> lm_location p = lo_id shop)"
  using location_not_guessed [OF in_intake_tx sample_location] by auto

end
