(* ===== verification/Sections.thy ===== *)
theory Sections
  imports Frames
begin

text \<open>
  Critical sections. A frame relation may hold for a write only because of what the same section of code
  has just read: \<open>sect R G P m Q\<close> says that inside a transaction, from a state in \<open>P\<close>, \<open>m\<close> respects \<open>R\<close> and
  ends normally only in \<open>Q\<close>. Statements during which other transactions commit forget \<open>P\<close>.
\<close>

named_theorems sect_intros "rules of critical sections"

definition sect ::
  "('d \<Rightarrow> 'd \<Rightarrow> bool) \<Rightarrow> (ctxvars \<Rightarrow> bool) \<Rightarrow> (ctxvars \<Rightarrow> 'd \<Rightarrow> bool) \<Rightarrow> (('d, 't, 'z) world_scheme, 'e, 'a) prog \<Rightarrow>
   ('a \<Rightarrow> ctxvars \<Rightarrow> 'd \<Rightarrow> bool) \<Rightarrow> bool" where
  "sect R G P m Q \<longleftrightarrow> (\<forall>w r w'. G (ctx w) \<longrightarrow> rely R w \<longrightarrow> saves w \<noteq> [] \<longrightarrow> P (ctx w) (db w) \<longrightarrow> m w = (r, w') \<longrightarrow>
     ctx w' = ctx w \<and> env w' = env w \<and> R (db w) (db w') \<and> list_all2 R (saves w) (saves w') \<and> (quiet w \<longrightarrow> saves w' = saves w) \<and>
     (\<forall>a. r = Inr a \<longrightarrow> Q a (ctx w') (db w')))"

lemma sectI:
  assumes "\<And>w r w'. G (ctx w) \<Longrightarrow> rely R w \<Longrightarrow> saves w \<noteq> [] \<Longrightarrow> P (ctx w) (db w) \<Longrightarrow> m w = (r, w') \<Longrightarrow>
     ctx w' = ctx w \<and> env w' = env w \<and> R (db w) (db w') \<and> list_all2 R (saves w) (saves w') \<and> (quiet w \<longrightarrow> saves w' = saves w) \<and>
     (\<forall>a. r = Inr a \<longrightarrow> Q a (ctx w') (db w'))"
  shows "sect R G P m Q"
  unfolding sect_def using assms by blast

lemma sectD:
  assumes "sect R G P m Q" "G (ctx w)" "rely R w" "saves w \<noteq> []" "P (ctx w) (db w)" "m w = (r, w')"
  shows "ctx w' = ctx w" "env w' = env w" "R (db w) (db w')" "list_all2 R (saves w) (saves w')" "quiet w \<longrightarrow> saves w' = saves w"
    "r = Inr a \<Longrightarrow> Q a (ctx w') (db w')" "rely R w'" "saves w' \<noteq> []" "quiet w' = quiet w"
proof -
  have all: "ctx w' = ctx w \<and> env w' = env w \<and> R (db w) (db w') \<and> list_all2 R (saves w) (saves w') \<and> (quiet w \<longrightarrow> saves w' = saves w) \<and>
     (\<forall>a. r = Inr a \<longrightarrow> Q a (ctx w') (db w'))"
    using assms unfolding sect_def by blast
  then show "ctx w' = ctx w" "env w' = env w" "R (db w) (db w')" "list_all2 R (saves w) (saves w')" "quiet w \<longrightarrow> saves w' = saves w"
    "r = Inr a \<Longrightarrow> Q a (ctx w') (db w')" "quiet w' = quiet w" by (auto simp: quiet_def)
  show "rely R w'" using assms(3) all by (simp add: rely_def)
  show "saves w' \<noteq> []" using assms(4) all by auto
qed

lemma sect_pre:
  assumes "sect R G P m Q" "\<And>c d. P' c d \<Longrightarrow> P c d"
  shows "sect R G P' m Q"
proof (rule sectI)
  fix w r w'
  assume "G (ctx w)" "rely R w" "saves w \<noteq> []" "P' (ctx w) (db w)" "m w = (r, w')"
  from sectD(1-6) [OF assms(1) this(1-3) assms(2) [OF this(4)] this(5)]
  show "ctx w' = ctx w \<and> env w' = env w \<and> R (db w) (db w') \<and> list_all2 R (saves w) (saves w') \<and> (quiet w \<longrightarrow> saves w' = saves w) \<and>
     (\<forall>a. r = Inr a \<longrightarrow> Q a (ctx w') (db w'))" by (intro conjI allI impI) simp_all
qed

lemma sect_post:
  assumes "sect R G P m Q" "\<And>a c d. Q a c d \<Longrightarrow> Q' a c d"
  shows "sect R G P m Q'"
proof (rule sectI)
  fix w r w'
  assume "G (ctx w)" "rely R w" "saves w \<noteq> []" "P (ctx w) (db w)" "m w = (r, w')"
  from sectD(1-6) [OF assms(1) this] assms(2)
  show "ctx w' = ctx w \<and> env w' = env w \<and> R (db w) (db w') \<and> list_all2 R (saves w) (saves w') \<and> (quiet w \<longrightarrow> saves w' = saves w) \<and>
     (\<forall>a. r = Inr a \<longrightarrow> Q' a (ctx w') (db w'))" by (intro conjI allI impI) simp_all
qed

text \<open>A program inside a section, as one that is only run there.\<close>

definition guarded :: "(('d, 't, 'z) world_scheme, 'e exn, 'a) prog \<Rightarrow> (('d, 't, 'z) world_scheme, 'e exn, 'a) prog" where
  "guarded m = (\<lambda>w. if saves w = [] then (Inl RuntimeErr, w) else m w)"

lemma guarded_begin: "guarded m (begin_block w) = m (begin_block w)"
  by (simp add: guarded_def begin_block_def Let_def)

lemma atomic_guarded: "atomic (guarded m) = atomic m"
  unfolding atomic_def guarded_begin ..

lemma guarded_set: "seqM (set_local up v) (guarded m) (begin_block w) = seqM (set_local up v) m (begin_block w)"
  by (simp add: run_seq set_local_def guarded_def begin_block_def Let_def)

lemma atomic_set_guarded: "atomic (seqM (set_local up v) (guarded m)) = atomic (seqM (set_local up v) m)"
  unfolding atomic_def guarded_set ..

lemma tenant_atomic_guarded: "tenant_atomic durable (guarded m) = tenant_atomic durable m"
  by (cases durable) (simp_all add: tenant_atomic_def durable_atomic_def atomic_set_guarded cong: if_cong option.case_cong)

lemma lookup_atomic_guarded: "lookup_atomic rd up valid v (guarded m) = lookup_atomic rd up valid v m"
  by (simp add: lookup_atomic_def durable_atomic_def atomic_set_guarded cong: if_cong)

context db_frame
begin

lemma frames_guarded:
  fixes m :: "(('d, 't, 'z) world_scheme, 'e exn, 'a) prog"
  assumes "sect R G (\<lambda>_ _. True) m Q"
  shows "frames R G (guarded m)"
proof (rule framesI)
  fix w r w'
  assume "G (ctx w)" "rely R w" "guarded m w = (r, w')"
  then show "ctx w' = ctx w \<and> env w' = env w \<and> R (db w) (db w') \<and> list_all2 R (saves w) (saves w') \<and> (quiet w \<longrightarrow> saves w' = saves w)"
  proof (cases "saves w = []")
    case True
    with \<open>guarded m w = (r, w')\<close> show ?thesis by (simp add: guarded_def R_refl saves_refl)
  next
    case False
    with \<open>guarded m w = (r, w')\<close> have "m w = (r, w')" by (simp add: guarded_def)
    from sectD(1-5) [OF assms \<open>G (ctx w)\<close> \<open>rely R w\<close> False TrueI this] show ?thesis by (intro conjI)
  qed
qed

lemma frames_tx_sect:
  assumes "sect R G (\<lambda>_ _. True) m Q"
  shows "frames R G (tenant_atomic durable m)"
  using frames_tenant_atomic [OF frames_guarded [OF assms]] by (simp only: tenant_atomic_guarded)

lemma frames_atomic_sect:
  fixes m :: "(('d, 't, 'z) world_scheme, 'e exn, 'a) prog"
  assumes "sect R G (\<lambda>_ _. True) m Q"
  shows "frames R G (atomic m)"
  using frames_atomic [OF frames_guarded [OF assms]] by (simp only: atomic_guarded)

lemmas frames_tx_end = frames_tx_sect [where Q = "\<lambda>_ _ _. True"]
lemmas frames_atomic_end = frames_atomic_sect [where Q = "\<lambda>_ _ _. True"]

lemma frames_lookup_sect:
  fixes m :: "(('d, 't, 'z) world_scheme, 'e exn, 'a) prog"
  assumes "sect R G' (\<lambda>_ _. True) m Q" "\<And>c. G c \<Longrightarrow> G' (up (\<lambda>_. Some v) c)" "\<And>c. up (\<lambda>_. rd c) (up (\<lambda>_. Some v) c) = c"
  shows "frames R G (lookup_atomic rd up valid v m)"
  using frames_lookup_atomic [OF frames_guarded [OF assms(1)] assms(2,3)] by (simp only: lookup_atomic_guarded)

lemma sect_of_frames:
  assumes "frames R G m"
  shows "sect R G P m (\<lambda>_ _ _. True)"
  by (rule sectI) (use framesD [OF assms] in blast)

text \<open>Knowledge that every frame step keeps survives any program, which may add what its result tells.\<close>

lemma sect_result:
  assumes "frames R G m" "\<And>c d d'. P c d \<Longrightarrow> R d d' \<Longrightarrow> P c d'" "\<And>w a w'. m w = (Inr a, w') \<Longrightarrow> Q a (ctx w') (db w')"
  shows "sect R G P m (\<lambda>a c d. Q a c d \<and> P c d)"
proof (rule sectI)
  fix w r w'
  assume g: "G (ctx w)" "rely R w" "P (ctx w) (db w)" and run: "m w = (r, w')"
  note fr = framesD [OF assms(1) g(1,2) run]
  have "P (ctx w') (db w')" using assms(2) [OF g(3) fr(3)] fr(1) by simp
  moreover have "Q a (ctx w') (db w')" if "r = Inr a" for a using assms(3) run that by simp
  ultimately show "ctx w' = ctx w \<and> env w' = env w \<and> R (db w) (db w') \<and> list_all2 R (saves w) (saves w') \<and> (quiet w \<longrightarrow> saves w' = saves w) \<and>
     (\<forall>a. r = Inr a \<longrightarrow> Q a (ctx w') (db w') \<and> P (ctx w') (db w'))"
    using fr(1-4,6) by (intro conjI allI impI) simp_all
qed

lemmas sect_kept = sect_result [where Q = "\<lambda>_ _ _. True", simplified]

lemma sect_bind [sect_intros]:
  assumes m: "sect R G P m Q" and f: "\<And>a. sect R G (Q a) (f a) S"
  shows "sect R G P (bindM m f) S"
proof (rule sectI)
  fix w r w'
  assume g: "G (ctx w)" "rely R w" "saves w \<noteq> []" "P (ctx w) (db w)" and run: "bindM m f w = (r, w')"
  obtain r1 w1 where m1: "m w = (r1, w1)" by fastforce
  note fr = sectD [OF m g m1]
  show "ctx w' = ctx w \<and> env w' = env w \<and> R (db w) (db w') \<and> list_all2 R (saves w) (saves w') \<and> (quiet w \<longrightarrow> saves w' = saves w) \<and>
     (\<forall>a. r = Inr a \<longrightarrow> S a (ctx w') (db w'))"
  proof (cases r1)
    case (Inl e)
    with run m1 fr show ?thesis by (auto simp: bindM_def)
  next
    case (Inr a)
    with run m1 have k: "f a w1 = (r, w')" by (simp add: bindM_def)
    have G1: "G (ctx w1)" using g(1) fr(1) by simp
    note fs = sectD [OF f G1 fr(7,8) fr(6) [OF Inr] k]
    show ?thesis using fr fs by (metis R_trans saves_trans)
  qed
qed

lemma sect_seq [sect_intros]: "sect R G P m (\<lambda>_. Q) \<Longrightarrow> sect R G Q n S \<Longrightarrow> sect R G P (seqM m n) S"
  unfolding seqM_def by (rule sect_bind)

lemma sect_if [sect_intros]:
  "(b \<Longrightarrow> sect R G P m Q) \<Longrightarrow> (\<not> b \<Longrightarrow> sect R G P n Q) \<Longrightarrow> sect R G P (if b then m else n) Q"
  by simp

lemma sect_case_option [sect_intros]:
  "(x = None \<Longrightarrow> sect R G P m Q) \<Longrightarrow> (\<And>a. x = Some a \<Longrightarrow> sect R G P (f a) Q) \<Longrightarrow>
     sect R G P (case x of None \<Rightarrow> m | Some a \<Rightarrow> f a) Q"
  by (cases x) simp_all

lemma sect_case_prod [sect_intros]:
  "(\<And>a b. x = (a, b) \<Longrightarrow> sect R G P (f a b) Q) \<Longrightarrow> sect R G P (case x of (a, b) \<Rightarrow> f a b) Q"
  by (cases x) simp

lemma sect_let [sect_intros]: "(\<And>a. a = x \<Longrightarrow> sect R G P (f a) Q) \<Longrightarrow> sect R G P (let a = x in f a) Q"
  by simp

text \<open>Statements that change neither the database nor the context.\<close>

lemma sect_calm:
  assumes "\<And>w r w'. m w = (r, w') \<Longrightarrow> ctx w' = ctx w \<and> env w' = env w \<and> db w' = db w \<and> saves w' = saves w"
    and "\<And>w a w'. G (ctx w) \<Longrightarrow> P (ctx w) (db w) \<Longrightarrow> m w = (Inr a, w') \<Longrightarrow> Q a (ctx w) (db w)"
  shows "sect R G P m Q"
proof (rule sectI)
  fix w r w'
  assume g: "G (ctx w)" "P (ctx w) (db w)" and run: "m w = (r, w')"
  have s: "ctx w' = ctx w" "env w' = env w" "db w' = db w" "saves w' = saves w" using assms(1) [OF run] by blast+
  show "ctx w' = ctx w \<and> env w' = env w \<and> R (db w) (db w') \<and> list_all2 R (saves w) (saves w') \<and> (quiet w \<longrightarrow> saves w' = saves w) \<and>
     (\<forall>a. r = Inr a \<longrightarrow> Q a (ctx w') (db w'))"
    using assms(2) [OF g] run by (simp add: s R_refl saves_refl)
qed

lemma sect_ret [sect_intros]: "sect R G P (ret a) (\<lambda>x c d. x = a \<and> P c d)"
  by (rule sect_calm) auto

lemma sect_throw [sect_intros]: "sect R G P (throw e) Q"
  by (rule sect_calm) auto

lemma sect_now [sect_intros]: "sect R G P now (\<lambda>_. P)"
  by (rule sect_calm) (auto simp: now_def tick_def)

lemma sect_asks: "(\<And>w. Q (f w) (ctx w) (db w)) \<Longrightarrow> sect R G P (asks f) (\<lambda>a c d. Q a c d \<and> P c d)"
  by (rule sect_calm) auto

lemma sect_asks_db: "sect R G P (asks (\<lambda>w. f (db w))) (\<lambda>a c d. a = f d \<and> P c d)"
  by (rule sect_asks) simp

lemma sect_asks_any: "sect R G P (asks f) (\<lambda>_. P)"
  by (rule sect_calm) auto

text \<open>A write that is justified by what the section knows.\<close>

lemma sect_modify:
  assumes "\<And>c d. G c \<Longrightarrow> P c d \<Longrightarrow> R d (g d)"
  shows "sect R G P (modifyM (\<lambda>w. w\<lparr>db := g (db w)\<rparr>)) (\<lambda>_ c d. \<exists>d0. P c d0 \<and> d = g d0)"
  by (rule sectI) (use assms in \<open>auto simp: saves_refl quiet_def\<close>)

end

end
