(* ===== verification/Statements.thy ===== *)
theory Statements
  imports BillingModels PyText Scopes Sections Histories
begin

text \<open>
  The statements every service shares, whatever tables it works on: reads and writes of the current tenant,
  waits, updates by primary key, the shape of an audit row, and their frames and evaluation.
\<close>

subsection \<open>Reads, checks and waits\<close>

definition in_tenant :: "(uuid \<Rightarrow> 'd \<Rightarrow> 'a) \<Rightarrow> (('d, 't, 'z) world_scheme, 'e exn, 'a) prog" where
  "in_tenant f = (\<lambda>w. case merchant_var (ctx w) of
     None \<Rightarrow> (Inl TenantContextError, w) | Some m \<Rightarrow> (Inr (f m (db w)), w))"

definition or_raise :: "'e \<Rightarrow> 'r option \<Rightarrow> ('w, 'e, 'r) prog" where
  "or_raise e r = (case r of None \<Rightarrow> throw e | Some x \<Rightarrow> ret x)"

text \<open>The row-level security check of a write: the session variable, which \<open>tenant_atomic\<close> sets from the context.\<close>

definition tenant_write :: "uuid \<Rightarrow> (('d, 't, 'z) world_scheme, 'e exn, unit) prog" where
  "tenant_write m = (\<lambda>w. if merchant_var (ctx w) = Some m \<and> merchant_var (guc w) = Some m then (Inr (), w) else (Inl DatabaseErr, w))"

text \<open>Waiting for a lock, or for the writer of the same key, lets other transactions commit.\<close>

definition wait :: "(('d, 't, 'z) world_scheme, 'e, unit) prog" where
  "wait = modifyM interfere"

text \<open>
  A wait while this transaction holds locks: transactions that would touch what is locked do not get to
  their commit. \<open>keep d d'\<close> says that the step from \<open>d\<close> to \<open>d'\<close> leaves the locked rows alone.
\<close>

definition wait_holding :: "('d \<Rightarrow> 'd \<Rightarrow> bool) \<Rightarrow> (('d, 't, 'z) world_scheme, 'e, unit) prog" where
  "wait_holding keep = modifyM (\<lambda>w. if keep (db w) (env w (env_n w) (db w)) then interfere w else w\<lparr>env_n := Suc (env_n w)\<rparr>)"

text \<open>A statement outside every transaction is one of its own: it sees what has been committed by then.\<close>

definition autocommit :: "(('d, 't, 'z) world_scheme, 'e, unit) prog" where
  "autocommit = modifyM (\<lambda>w. if saves w = [] then interfere w else w)"

text \<open>\<open>with transaction.atomic(): create(...)\<close> followed by \<open>except IntegrityError\<close>: whether the row is new.\<close>

definition created_or_taken :: "(('d, 't, 'z) world_scheme, 'e exn, unit) prog \<Rightarrow> (('d, 't, 'z) world_scheme, 'e exn, bool) prog" where
  "created_or_taken create = catchM (bindM (atomic create) (\<lambda>_. ret True))
     (\<lambda>e. if integrity_error e then Some (ret False) else None)"

subsection \<open>Updates\<close>

text \<open>\<open>save(update_fields=...)\<close>: an update by primary key, of the one row that has it.\<close>

fun update_first :: "('r \<Rightarrow> bool) \<Rightarrow> ('r \<Rightarrow> 'r) \<Rightarrow> 'r list \<Rightarrow> 'r list" where
  "update_first P f [] = []"
| "update_first P f (r # rs) = (if P r then f r # rs else r # update_first P f rs)"

lemma update_first_split: "first P rows = Some r \<Longrightarrow> \<exists>xs ys. rows = xs @ r # ys \<and> P r \<and> (\<forall>x\<in>set xs. \<not> P x) \<and> update_first P f rows = xs @ f r # ys"
proof (induction rows)
  case (Cons x rows)
  show ?case
  proof (cases "P x")
    case True
    with Cons.prems show ?thesis by (intro exI [of _ "[]"] exI [of _ rows]) simp
  next
    case False
    with Cons obtain xs ys where "rows = xs @ r # ys" "P r" "\<forall>x\<in>set xs. \<not> P x" "update_first P f rows = xs @ f r # ys" by auto
    with False show ?thesis by (intro exI [of _ "x # xs"] exI [of _ ys]) simp
  qed
qed simp

lemma first_update_first: "first P rows = Some r \<Longrightarrow> P (f r) \<Longrightarrow> first P (update_first P f rows) = Some (f r)"
  by (induction rows) (auto split: if_splits)

lemma map_update_first: "(\<And>r. r \<in> set rows \<Longrightarrow> P r \<Longrightarrow> first P rows = Some r \<Longrightarrow> g (f r) = g r) \<Longrightarrow> map g (update_first P f rows) = map g rows"
  by (induction rows) auto

lemma map_update_found:
  assumes "first P rows = Some r" "g (f r) = g r"
  shows "map g (update_first P f rows) = map g rows"
  by (rule map_update_first) (use assms in simp)

lemma all_update_found:
  assumes "list_all Q rows" "first P rows = Some r" "Q r \<Longrightarrow> Q (f r)"
  shows "list_all Q (update_first P f rows)"
  using update_first_split [OF assms(2), of f] assms(1,3) by auto

lemma filter_update_first:
  assumes "first P rows = Some r" "\<not> Q r" "\<not> Q (f r)"
  shows "filter Q (update_first P f rows) = filter Q rows"
  using assms by (induction rows) (auto split: if_splits)

lemma grown_update_first:
  assumes "\<And>x. K x x" "first P rows = Some r" "K r (f r)"
  shows "grown K rows (update_first P f rows)"
proof -
  from update_first_split [OF assms(2), of f] obtain xs ys where s: "rows = xs @ r # ys" "update_first P f rows = xs @ f r # ys" by blast
  have "list_all2 K rows (update_first P f rows)"
    unfolding s(2) unfolding s(1) by (intro list_all2_appendI list_all2_Cons [THEN iffD2] conjI assms(3) list_all2_refl assms(1))
  then show ?thesis unfolding grown_def by (intro exI [of _ "update_first P f rows"] exI [of _ "[]"]) simp
qed

text \<open>\<open>filter(...).update(...)\<close>.\<close>

definition map_if :: "('r \<Rightarrow> bool) \<Rightarrow> ('r \<Rightarrow> 'r) \<Rightarrow> 'r list \<Rightarrow> 'r list" where
  "map_if P f rows = map (\<lambda>r. if P r then f r else r) rows"

lemma map_map_if: "(\<And>r. g (f r) = g r) \<Longrightarrow> map g (map_if P f rows) = map g rows"
  by (simp add: map_if_def)

lemma all_map_if: "(\<And>r. Q (f r) = Q r) \<Longrightarrow> list_all Q (map_if P f rows) = list_all Q rows"
  unfolding map_if_def by (induction rows) auto

lemma first_map_if: "(\<And>r. P (f r) = P r) \<Longrightarrow> first P (map_if Q f rows) = map_option (\<lambda>r. if Q r then f r else r) (first P rows)"
  unfolding map_if_def by (induction rows) auto

lemma grown_map_if: "(\<And>x. K x x) \<Longrightarrow> (\<And>x. P x \<Longrightarrow> K x (f x)) \<Longrightarrow> grown K rows (map_if P f rows)"
  unfolding map_if_def by (rule grown_map) simp

lemma filter_map_if: "(\<And>x. P x \<Longrightarrow> \<not> Q x \<and> \<not> Q (f x)) \<Longrightarrow> filter Q (map_if P f rows) = filter Q rows"
  unfolding map_if_def by (induction rows) auto

lemma distinct_filter_map: "distinct (map g rows) \<Longrightarrow> distinct (map g (filter P rows))"
  by (induction rows) auto

text \<open>The columns of an audit row.\<close>

definition log_row :: "uuid option \<Rightarrow> string \<Rightarrow> uuid option \<Rightarrow> string \<Rightarrow> uuid \<Rightarrow> (string \<times> json) list \<Rightarrow> audit_log" where
  "log_row m action actor kind i metadata = \<lparr>al_merchant = m, al_actor_user = actor, al_action = action,
     al_target_type = Some kind, al_target_id = Some i, al_metadata = metadata\<rparr>"

subsection \<open>Frames\<close>

context db_frame
begin

lemma frames_in_tenant_read [frame_intros]: "frames R H (in_tenant f)"
  by (rule frames_pure) (simp add: in_tenant_def Let_def split: option.split)

lemma frames_or_raise [frame_intros]: "frames R H (or_raise e r)"
  by (rule frames_pure) (simp add: or_raise_def Let_def split: option.split)

lemma frames_liftE [frame_intros]: "frames R H (liftE r)"
  by (rule frames_pure) (simp add: Let_def)

lemma frames_tenant_write [frame_intros]: "frames R H (tenant_write m)"
  by (rule frames_pure) (simp add: tenant_write_def Let_def)

lemma frames_wait [frame_intros]: "frames R H wait"
  by (rule framesI) (auto simp: wait_def interfere_frame)

lemma frames_wait_holding [frame_intros]: "frames R H (wait_holding keep)"
  by (rule framesI) (auto simp: wait_holding_def interfere_frame R_refl saves_refl split: if_splits)

lemma frames_autocommit [frame_intros]: "frames R H autocommit"
  by (rule framesI) (auto simp: autocommit_def interfere_frame interfere_saves R_refl saves_refl split: if_splits)

text \<open>An insert: a wait, and a row added unless something is in its way.\<close>

lemma frames_waited:
  assumes "\<And>w r w'. H (ctx w) \<Longrightarrow> ins w = (r, w') \<Longrightarrow> ctx w' = ctx w \<and> env w' = env w \<and> R (db w) (db w') \<and> saves w' = saves w"
  shows "frames R H (seqM wait ins)"
proof (rule frames_seq [OF frames_wait], rule framesI)
  fix w r w'
  assume "H (ctx w)" "ins w = (r, w')"
  from assms [OF this]
  show "ctx w' = ctx w \<and> env w' = env w \<and> R (db w) (db w') \<and> list_all2 R (saves w) (saves w') \<and> (quiet w \<longrightarrow> saves w' = saves w)"
    by (simp add: saves_refl)
qed

lemma frames_tenant_insert:
  assumes "\<And>w r w'. G (ctx w) \<Longrightarrow> merchant_var (ctx w) = Some m \<Longrightarrow> ins w = (r, w') \<Longrightarrow>
      ctx w' = ctx w \<and> env w' = env w \<and> R (db w) (db w') \<and> saves w' = saves w"
  shows "frames R G (seqM (tenant_write m) (seqM wait ins))"
proof (rule framesI)
  fix w r w'
  assume g: "G (ctx w)" "rely R w" and run: "seqM (tenant_write m) (seqM wait ins) w = (r, w')"
  show "ctx w' = ctx w \<and> env w' = env w \<and> R (db w) (db w') \<and> list_all2 R (saves w) (saves w') \<and> (quiet w \<longrightarrow> saves w' = saves w)"
  proof (cases "merchant_var (ctx w) = Some m \<and> merchant_var (guc w) = Some m")
    case True
    with run have r: "seqM wait ins w = (r, w')" by (simp add: run_seq tenant_write_def)
    have "frames R (\<lambda>c. G c \<and> merchant_var c = Some m) (seqM wait ins)" by (rule frames_waited) (rule assms, simp_all)
    from framesD [OF this _ g(2) r] g True show ?thesis by blast
  next
    case False
    with run show ?thesis by (auto simp: run_seq tenant_write_def R_refl saves_refl split: if_splits)
  qed
qed

lemma frames_created_or_taken [frame_intros]: "frames R G p \<Longrightarrow> frames R G (created_or_taken p)"
  unfolding created_or_taken_def by (intro frame_intros) (auto intro: frames_ret split: if_splits)

lemma sect_in_tenant [sect_intros]:
  "sect R G P (in_tenant f) (\<lambda>a c d. (\<exists>m. merchant_var c = Some m \<and> a = f m d) \<and> P c d)"
  by (rule sect_calm) (auto simp: in_tenant_def split: option.splits)

lemma sect_or_raise [sect_intros]: "sect R G P (or_raise e x) (\<lambda>a c d. x = Some a \<and> P c d)"
  by (rule sect_calm) (auto simp: or_raise_def split: option.splits)

lemma sect_liftE [sect_intros]: "sect R G P (liftE r) (\<lambda>a c d. r = Inr a \<and> P c d)"
  by (rule sect_calm) auto

text \<open>What a section knows survives a wait if it is only about the rows it has locked.\<close>

lemma sect_wait_holding:
  assumes "\<And>c d d'. P c d \<Longrightarrow> R d d' \<Longrightarrow> keep d d' \<Longrightarrow> P c d'"
  shows "sect R G P (wait_holding keep) (\<lambda>_. P)"
proof (rule sectI)
  fix w r w'
  assume g: "G (ctx w)" "rely R w" "P (ctx w) (db w)" and run: "wait_holding keep w = (r, w')"
  have "R (db w) (env w (env_n w) (db w))" using g(2) by (simp add: rely_def)
  then show "ctx w' = ctx w \<and> env w' = env w \<and> R (db w) (db w') \<and> list_all2 R (saves w) (saves w') \<and> (quiet w \<longrightarrow> saves w' = saves w) \<and>
     (\<forall>a. r = Inr a \<longrightarrow> P (ctx w') (db w'))"
    using run g assms [OF g(3)] interfere_frame [OF g(2)]
    by (auto simp: wait_holding_def R_refl saves_refl interfere_def Let_def split: if_splits)
qed

lemma sect_wait:
  assumes "\<And>c d d'. P c d \<Longrightarrow> R d d' \<Longrightarrow> P c d'"
  shows "sect R G P wait (\<lambda>_. P)"
proof (rule sectI)
  fix w r w'
  assume g: "G (ctx w)" "rely R w" "P (ctx w) (db w)" and run: "wait w = (r, w')"
  have "R (db w) (env w (env_n w) (db w))" using g(2) by (simp add: rely_def)
  then show "ctx w' = ctx w \<and> env w' = env w \<and> R (db w) (db w') \<and> list_all2 R (saves w) (saves w') \<and> (quiet w \<longrightarrow> saves w' = saves w) \<and>
     (\<forall>a. r = Inr a \<longrightarrow> P (ctx w') (db w'))"
    using run g assms [OF g(3)] interfere_frame [OF g(2)]
    by (auto simp: wait_def interfere_def Let_def)
qed

text \<open>A savepoint that is rolled back: what the section knew must hold of the state it goes back to.\<close>

lemma sect_created_or_taken:
  assumes p: "sect R G P p Q"
    and undo: "\<And>w ds e w'. G (ctx w) \<Longrightarrow> rely R w \<Longrightarrow> P (ctx w) (db w) \<Longrightarrow> saves w = db w # ds \<Longrightarrow> p w = (Inl e, w') \<Longrightarrow> P (ctx w) (hd (saves w'))"
  shows "sect R G P (created_or_taken p) (\<lambda>b c d. if b then Q () c d else P c d)"
proof (rule sectI)
  fix w r w'
  assume g: "G (ctx w)" "rely R w" "saves w \<noteq> []" "P (ctx w) (db w)" and run: "created_or_taken p w = (r, w')"
  let ?b = "w\<lparr>saves := db w # saves w\<rparr>"
  have b: "begin_block w = ?b" using g(3) by (simp add: begin_block_def)
  have q: "quiet ?b = quiet w" by (simp add: quiet_def)
  obtain r1 w1 where m: "p ?b = (r1, w1)" by fastforce
  have gb: "G (ctx ?b)" "rely R ?b" "saves ?b \<noteq> []" "P (ctx ?b) (db ?b)" using g by (simp_all add: rely_def)
  note fr = sectD [OF p gb m]
  from fr(4) obtain d ds where s: "saves w1 = d # ds" "R (db w) d" "list_all2 R (saves w) ds" by (auto simp: list_all2_Cons1)
  show "ctx w' = ctx w \<and> env w' = env w \<and> R (db w) (db w') \<and> list_all2 R (saves w) (saves w') \<and> (quiet w \<longrightarrow> saves w' = saves w) \<and>
     (\<forall>a. r = Inr a \<longrightarrow> (if a then Q () (ctx w') (db w') else P (ctx w') (db w')))"
  proof (cases r1)
    case (Inl e)
    have "P (ctx w) d" using undo [OF gb(1,2,4), of "saves w" e w1] m Inl s by simp
    with run m Inl s fr g(3) q show ?thesis
      by (auto simp: created_or_taken_def catchM_def run_bind atomic_def b rollback_block_def split: if_splits)
  next
    case (Inr u)
    with run m s fr g(3) q show ?thesis
      by (auto simp: created_or_taken_def catchM_def run_bind atomic_def b commit_block_def)
  qed
qed

lemma sect_catch:
  assumes "sect R G P m Q" "\<And>e k. h e = Some k \<Longrightarrow> sect R G (\<lambda>_ _. True) k Q"
  shows "sect R G P (catchM m h) Q"
proof (rule sectI)
  fix w r w'
  assume g: "G (ctx w)" "rely R w" "saves w \<noteq> []" "P (ctx w) (db w)" and run: "catchM m h w = (r, w')"
  obtain r1 w1 where m: "m w = (r1, w1)" by fastforce
  note fr = sectD [OF assms(1) g m]
  show "ctx w' = ctx w \<and> env w' = env w \<and> R (db w) (db w') \<and> list_all2 R (saves w) (saves w') \<and> (quiet w \<longrightarrow> saves w' = saves w) \<and>
     (\<forall>a. r = Inr a \<longrightarrow> Q a (ctx w') (db w'))"
  proof (cases "\<exists>e k. r1 = Inl e \<and> h e = Some k")
    case True
    then obtain e k where e: "r1 = Inl e" and k: "h e = Some k" by blast
    with run m have k1: "k w1 = (r, w')" by (simp add: catchM_def)
    have G1: "G (ctx w1)" using g(1) fr(1) by simp
    note fk = sectD [OF assms(2) [OF k] G1 fr(7,8) TrueI k1]
    show ?thesis using fr fk by (metis R_trans saves_trans)
  next
    case False
    with run m fr show ?thesis by (auto simp: catchM_def split: sum.splits option.splits)
  qed
qed

text \<open>A continuation that only runs on results of a certain kind.\<close>

lemma frames_bind_when:
  assumes "frames R G m" "\<And>w a w'. m w = (Inr a, w') \<Longrightarrow> Q a" "\<And>a. Q a \<Longrightarrow> frames R G (f a)"
  shows "frames R G (bindM m f)"
proof -
  have "bindM m f = bindM m (\<lambda>a. if Q a then f a else ret undefined)"
    by (rule ext) (auto simp: bindM_def assms(2) split: prod.split sum.split)
  moreover have "frames R G (bindM m (\<lambda>a. if Q a then f a else ret undefined))"
    by (intro frames_bind assms(1) frames_if assms(3) frames_ret)
  ultimately show ?thesis by simp
qed

text \<open>A tenant transaction inside a section is a savepoint.\<close>

lemma sect_nested:
  assumes p: "sect R G P p Q"
  shows "sect R G P (tenant_atomic False p) Q"
proof (rule sectI)
  fix w r w'
  assume g: "G (ctx w)" "rely R w" "saves w \<noteq> []" "P (ctx w) (db w)" and run: "tenant_atomic False p w = (r, w')"
  show "ctx w' = ctx w \<and> env w' = env w \<and> R (db w) (db w') \<and> list_all2 R (saves w) (saves w') \<and> (quiet w \<longrightarrow> saves w' = saves w) \<and>
     (\<forall>a. r = Inr a \<longrightarrow> Q a (ctx w') (db w'))"
  proof (cases "merchant_var (ctx w)")
    case None
    with run show ?thesis by (auto simp: tenant_atomic_def R_refl saves_refl)
  next
    case (Some mid)
    let ?b = "w\<lparr>saves := db w # saves w, guc := (guc w)\<lparr>merchant_var := Some mid\<rparr>\<rparr>"
    have b: "begin_block w = w\<lparr>saves := db w # saves w\<rparr>" using g(3) by (simp add: begin_block_def)
    have q: "quiet ?b = quiet w" by (simp add: quiet_def)
    obtain r1 w1 where m: "p ?b = (r1, w1)" by fastforce
    have gb: "G (ctx ?b)" "rely R ?b" "saves ?b \<noteq> []" "P (ctx ?b) (db ?b)" using g by (simp_all add: rely_def)
    note fr = sectD [OF p gb m]
    from fr(4) obtain d ds where s: "saves w1 = d # ds" "R (db w) d" "list_all2 R (saves w) ds" by (auto simp: list_all2_Cons1)
    have run': "(case p ?b of (Inr a, w2) \<Rightarrow> (Inr a, commit_block w w2) | (Inl e, w2) \<Rightarrow> (Inl e, rollback_block w w2)) = (r, w')"
      using run Some by (simp add: tenant_atomic_def atomic_def b run_seq set_local_def)
    show ?thesis
      using run' m s fr g(3) q by (cases r1) (auto simp: commit_block_def rollback_block_def)
  qed
qed

end

subsection \<open>A thread alone\<close>

lemma run_in_tenant: "in_tx m w \<Longrightarrow> in_tenant f w = (Inr (f m (db w)), w)"
  by (simp add: in_tenant_def in_tx_def)

lemma run_wait: "in_tx m w \<Longrightarrow> wait w = (Inr (), w\<lparr>env_n := Suc (env_n w)\<rparr>)"
  by (simp add: wait_def interfere_quiet in_tx_def)

lemma run_wait_holding: "in_tx m w \<Longrightarrow> wait_holding keep w = (Inr (), w\<lparr>env_n := Suc (env_n w)\<rparr>)"
  by (simp add: wait_holding_def interfere_quiet in_tx_def)

lemma run_autocommit: "in_tx m w \<Longrightarrow> autocommit w = (Inr (), w)"
  by (simp add: autocommit_def in_tx_def)

lemma run_or_raise: "or_raise e r w = (case r of None \<Rightarrow> (Inl e, w) | Some x \<Rightarrow> (Inr x, w))"
  by (simp add: or_raise_def split: option.split)

lemma run_tenant_write: "in_tx m w \<Longrightarrow> tenant_write m w = (Inr (), w)"
  by (simp add: tenant_write_def in_tx_def)

lemma in_tx_nested: "in_tx m w \<Longrightarrow> in_tx m (w\<lparr>saves := d # ds\<rparr>)"
  by (simp add: in_tx_def quiet_def)

definition alone :: "('d, 't, 'z) world_scheme \<Rightarrow> bool" where
  "alone w \<longleftrightarrow> fresh_thread w \<and> quiet w"

lemma alone_later [simp]: "alone (w\<lparr>env_n := n\<rparr>) = alone w" "alone (tick w) = alone w"
  by (simp_all add: alone_def fresh_thread_def quiet_def tick_def)

definition entered :: "uuid \<Rightarrow> ('d, 't, 'z) world_scheme \<Rightarrow> ('d, 't, 'z) world_scheme" where
  "entered m w = w\<lparr>ctx := no_vars\<lparr>merchant_var := Some m\<rparr>, saves := [db w], env_n := Suc (env_n w),
     guc := no_vars\<lparr>merchant_var := Some m\<rparr>\<rparr>"

lemma entered_fields [simp]:
  "db (entered m w) = db w" "saves (entered m w) = [db w]" "clock (entered m w) = clock w" "ticks (entered m w) = ticks w"
  "alone w \<Longrightarrow> in_tx m (entered m w)"
  by (simp_all add: entered_def in_tx_def alone_def quiet_def)

definition left :: "('d, 't, 'z) world_scheme \<Rightarrow> ('d, 't, 'z) world_scheme" where
  "left w = w\<lparr>saves := tl (saves w), ctx := (ctx w)\<lparr>merchant_var := None\<rparr>, guc := no_vars, row_locked := False,
     queue := queue w @ pending w, pending := []\<rparr>"

lemma db_left [simp]: "db (left w) = db w"
  by (simp add: left_def)

definition undone :: "('d, 't, 'z) world_scheme \<Rightarrow> ('d, 't, 'z) world_scheme \<Rightarrow> ('d, 't, 'z) world_scheme" where
  "undone w w' = (let r = rollback_block w w' in r\<lparr>ctx := (ctx r)\<lparr>merchant_var := None\<rparr>\<rparr>)"

lemma db_undone [simp]: "saves w' \<noteq> [] \<Longrightarrow> db (undone w w') = hd (saves w')"
  by (simp add: undone_def rollback_block_def Let_def split: list.split)

text \<open>A tenant transaction of a thread that is in no transaction and no context.\<close>

lemma run_outermost:
  assumes "alone w"
  shows "tenant_context (Some m) (tenant_atomic d p) w = (case p (entered m w) of
     (Inr a, w') \<Rightarrow> (Inr a, left w') | (Inl e, w') \<Rightarrow> (Inl e, undone w w'))"
proof -
  have g: "ctx w = no_vars" "guc w = no_vars" "saves w = []" "merchant_var no_vars = None" "quiet w"
    using assms by (simp_all add: alone_def fresh_thread_def no_vars_def)
  have q: "quiet (w\<lparr>ctx := c\<rparr>)" for c using g(5) by (simp add: quiet_def)
  have b: "begin_block (w\<lparr>ctx := c\<rparr>) = w\<lparr>ctx := c, saves := [db w], env_n := Suc (env_n w)\<rparr>" for c
    using g by (simp add: begin_block_def interfere_quiet [OF q])
  have r: "rollback_block (w\<lparr>ctx := c\<rparr>) w' = rollback_block w w'" "commit_block (w\<lparr>ctx := c\<rparr>) w' = commit_block w w'" for c w'
    by (simp_all add: rollback_block_def commit_block_def split: list.split)
  have t: "tenant_atomic d p (w\<lparr>ctx := no_vars\<lparr>merchant_var := Some m\<rparr>\<rparr>) = (case p (entered m w) of
     (Inr a, w') \<Rightarrow> (Inr a, commit_block w w') | (Inl e, w') \<Rightarrow> (Inl e, rollback_block w w'))"
    using g by (simp add: tenant_atomic_def durable_atomic_def atomic_def run_seq set_local_def b r entered_def split: prod.split sum.split)
  show ?thesis
    using g by (auto simp: tenant_context_def with_var_def t left_def undone_def Let_def commit_block_def split: prod.split sum.split)
qed

text \<open>The lookup before any tenant is known leaves nothing behind.\<close>

lemma run_lookup:
  assumes "alone w" "valid v" "up (\<lambda>_. rd no_vars) (up (\<lambda>_. Some v) no_vars) = no_vars" "merchant_var (up (\<lambda>_. Some v) no_vars) = None"
    and m: "\<And>u. ctx u = up (\<lambda>_. Some v) no_vars \<Longrightarrow> guc u = up (\<lambda>_. Some v) no_vars \<Longrightarrow> db u = db w \<Longrightarrow> m u = (Inr a, u)"
  shows "lookup_atomic rd up valid v m w = (Inr a, w\<lparr>env_n := Suc (env_n w)\<rparr>)"
proof -
  have g: "ctx w = no_vars" "guc w = no_vars" "saves w = []" "merchant_var no_vars = None" "quiet w" "pending w = []" "\<not> row_locked w"
    using assms(1) by (simp_all add: alone_def fresh_thread_def no_vars_def)
  have q: "quiet (w\<lparr>ctx := c\<rparr>)" for c using g(5) by (simp add: quiet_def)
  have b: "begin_block (w\<lparr>ctx := c\<rparr>) = w\<lparr>ctx := c, saves := [db w], env_n := Suc (env_n w)\<rparr>" for c
    using g by (simp add: begin_block_def interfere_quiet [OF q])
  show ?thesis
    using g assms(2-4) by (simp add: lookup_atomic_def with_var_def durable_atomic_def atomic_def run_seq set_local_def b m commit_block_def)
qed

end
