(* ===== verification/AccountStore.thy ===== *)
theory AccountStore
  imports Statements
begin

text \<open>
  The tables of \<open>accounts\<close> and \<open>apikeys\<close>, their errors, the libraries the services call (password
  hashing, the signer, TOTP), and the world the services run in.
\<close>

subsection \<open>Errors\<close>

datatype account_error =
    InvalidCredentials
  | InvalidInvite
  | AlreadyMember
  | LastOwner
  | TeamPermissionDenied
  | TeamMemberNotFound
  | ReauthenticationFailed
  | InvalidTotpCode
  | TotpAlreadyEnabled
  | TotpSetupRequired
  | NotActiveStaff
  | TotpNotEnabled
  | StaffAccessDenied
  | InvalidApiKey
  | InvalidScopes
  | ApiKeyNotFound
  | ApiKeyAuthenticationFailed
  | Throttled
  | InvalidToken
  | FieldErrors "(string \<times> string list) list"

type_synonym aerror = "account_error exn"

subsection \<open>Rows\<close>

text \<open>\<open>us_password\<close> is \<open>None\<close> for the unusable password \<open>set_password(None)\<close> stores.\<close>

record user =
  us_id :: uuid
  us_email :: string
  us_password :: "string option"
  us_active :: bool
  us_staff :: bool
  us_totp_secret :: "string option"
  us_totp_confirmed :: "instant option"
  us_last_step :: "int option"
  us_codes :: "string list"

definition is_totp_enabled :: "user \<Rightarrow> bool" where
  "is_totp_enabled u \<longleftrightarrow> us_totp_confirmed u \<noteq> None"

record merchant =
  mc_id :: uuid
  mc_name :: string
  mc_business_type :: "string option"
  mc_timezone :: string
  mc_status :: merchant_status
  mc_updated_at :: instant

record membership = team_member +
  mb_merchant :: uuid
  mb_invited_at :: "instant option"
  mb_accepted_at :: "instant option"
  mb_created_at :: instant
  mb_updated_at :: instant

text \<open>\<open>TeamMemberLocation\<close>.\<close>

record assignment =
  as_merchant :: uuid
  as_member :: uuid
  as_location :: uuid

record api_key =
  ak_id :: uuid
  ak_merchant :: uuid
  ak_hash :: string
  ak_scopes :: "string list"
  ak_active :: bool
  ak_last_used :: "instant option"

definition SCOPES :: "string list" where
  "SCOPES = [''sales:write'', ''reviews:read'', ''transactions:read'']"

text \<open>\<open>ac_locations\<close> has the merchant and the id of the rows of \<open>locations\<close>.\<close>

record adb =
  ac_users :: "user list"
  ac_merchants :: "merchant list"
  ac_members :: "membership list"
  ac_assigned :: "assignment list"
  ac_locations :: "(uuid \<times> uuid) list"
  ac_keys :: "api_key list"
  ac_audit :: "audit_log list"

subsection \<open>The libraries and the world\<close>

text \<open>
  \<open>make_password salt raw\<close> and \<open>check_password raw encoded\<close> of Django, \<open>password_problems raw email\<close> the
  messages of \<open>validate_password\<close>, \<open>sign_object\<close> and \<open>unsign_object\<close> the timestamp signer (\<open>None\<close> for a bad
  signature and for an expired one), \<open>timecode\<close>, \<open>otp_at\<close> and \<open>provisioning_uri\<close> the TOTP of \<open>pyotp\<close>, \<open>uuid_of\<close> the
  constructor \<open>uuid.UUID\<close>, \<open>isoformat\<close> that of \<open>datetime\<close>.
\<close>

record auth_lib =
  make_password :: "string \<Rightarrow> string \<Rightarrow> string"
  check_password :: "string \<Rightarrow> string \<Rightarrow> bool"
  password_problems :: "string \<Rightarrow> string \<Rightarrow> string list"
  sign_object :: "json \<Rightarrow> instant \<Rightarrow> string"
  unsign_object :: "string \<Rightarrow> instant \<Rightarrow> instant \<Rightarrow> json option"
  timecode :: "instant \<Rightarrow> int"
  otp_at :: "string \<Rightarrow> int \<Rightarrow> string"
  provisioning_uri :: "string \<Rightarrow> string \<Rightarrow> string"
  uuid_of :: "string \<Rightarrow> uuid option"
  isoformat :: "instant \<Rightarrow> string"

text \<open>\<open>mint n\<close> is the \<open>n\<close>th random value drawn: an identifier, a salt, a secret, a token.\<close>

record account_world = "(adb, unit) world" +
  auth :: auth_lib
  apy :: pylib
  mint :: "nat \<Rightarrow> string"
  minted :: nat

type_synonym 'a aprog = "(account_world, aerror, 'a) prog"

definition draw :: "string aprog" where
  "draw = (\<lambda>w. (Inr (mint w (minted w)), w\<lparr>minted := Suc (minted w)\<rparr>))"

lemma wp_draw [wp_simps]: "wp draw Q E w = Q (mint w (minted w)) (w\<lparr>minted := Suc (minted w)\<rparr>)"
  by (simp add: wp_def draw_def)

lemma account_world_updates [simp]:
  "in_tx m (w\<lparr>minted := n\<rparr>) = in_tx m (w :: account_world)"
  by (simp add: in_tx_def quiet_def)

lemma tick_account_fields [simp]:
  "auth (tick w) = auth w" "apy (tick w) = apy w" "mint (tick w) = mint w" "minted (tick w) = minted w"
  by (simp_all add: tick_def)

subsection \<open>Finding rows\<close>

abbreviation find_user :: "adb \<Rightarrow> uuid \<Rightarrow> user option" where
  "find_user d i \<equiv> first (\<lambda>u. us_id u = i) (ac_users d)"

abbreviation user_of_email :: "adb \<Rightarrow> string \<Rightarrow> user option" where
  "user_of_email d e \<equiv> first (\<lambda>u. us_email u = e) (ac_users d)"

abbreviation find_merchant :: "adb \<Rightarrow> uuid \<Rightarrow> merchant option" where
  "find_merchant d i \<equiv> first (\<lambda>m. mc_id m = i) (ac_merchants d)"

definition merchant_active :: "adb \<Rightarrow> uuid \<Rightarrow> bool" where
  "merchant_active d i \<longleftrightarrow> (case find_merchant d i of None \<Rightarrow> False | Some m \<Rightarrow> mc_status m = MActive)"

text \<open>Rows of one merchant's team, by key.\<close>

definition find_member :: "adb \<Rightarrow> uuid \<Rightarrow> uuid \<Rightarrow> membership option" where
  "find_member d m i = first (\<lambda>r. mb_merchant r = m \<and> tm_id r = i) (ac_members d)"

definition accepted :: "membership \<Rightarrow> bool" where
  "accepted r \<longleftrightarrow> mb_accepted_at r \<noteq> None"

definition is_member :: "adb \<Rightarrow> uuid \<Rightarrow> uuid \<Rightarrow> bool" where
  "is_member d m u \<longleftrightarrow> list_ex (\<lambda>r. mb_merchant r = m \<and> tm_user r = u \<and> accepted r) (ac_members d)"

definition unique_members :: "adb \<Rightarrow> bool" where
  "unique_members d \<longleftrightarrow> distinct (map tm_id (ac_members d))"

lemma find_memberD: "find_member d m i = Some r \<Longrightarrow> r \<in> set (ac_members d) \<and> mb_merchant r = m \<and> tm_id r = i"
  using first_SomeD unfolding find_member_def by fastforce

text \<open>\<open>UserManager.normalize_email\<close>.\<close>

definition normalize_email :: "string \<Rightarrow> string" where
  "normalize_email e = py_lower (strip e)"

text \<open>
  The statements of the account services on their tables: reads scoped to the tenant, inserts under the
  unique constraints and column widths, updates by primary key, row locks, and the audit rows of
  \<open>auditlog/services.py\<close>.
\<close>

subsection \<open>Reads before a tenant is known\<close>

text \<open>The two \<open>SELECT\<close>-only policies of the pre-tenant lookups, next to that of the tenant.\<close>

definition member_selectable :: "ctxvars \<Rightarrow> membership \<Rightarrow> bool" where
  "member_selectable g r \<longleftrightarrow> merchant_var g = Some (mb_merchant r) \<or> user_var g = Some (tm_user r)"

definition key_selectable :: "ctxvars \<Rightarrow> api_key \<Rightarrow> bool" where
  "key_selectable g k \<longleftrightarrow> merchant_var g = Some (ak_merchant k) \<or> key_hash_var g = Some (ak_hash k)"

definition for_lookup_user :: "uuid \<Rightarrow> membership list aprog" where
  "for_lookup_user u = (\<lambda>w. if user_var (ctx w) \<noteq> Some u then (Inl TenantContextError, w)
     else (Inr (filter (\<lambda>r. tm_user r = u \<and> member_selectable (guc w) r) (ac_members (db w))), w))"

definition for_lookup_hash :: "string \<Rightarrow> api_key list aprog" where
  "for_lookup_hash h = (\<lambda>w. if key_hash_var (ctx w) \<noteq> Some h then (Inl TenantContextError, w)
     else (Inr (filter (\<lambda>k. ak_hash k = h \<and> key_selectable (guc w) k) (ac_keys (db w))), w))"

subsection \<open>Inserts\<close>

definition insert_user :: "user \<Rightarrow> unit aprog" where
  "insert_user u = seqM wait (\<lambda>w.
     if 254 < length (us_email u) then (Inl DataErr, w)
     else if list_ex (\<lambda>q. us_id q = us_id u) (ac_users (db w)) then (Inl (UniqueViolation ''accounts_user_pkey''), w)
     else if list_ex (\<lambda>q. us_email q = us_email u) (ac_users (db w)) then (Inl (UniqueViolation ''accounts_user_email_key''), w)
     else (Inr (), w\<lparr>db := (db w)\<lparr>ac_users := ac_users (db w) @ [u]\<rparr>\<rparr>))"

definition insert_merchant :: "merchant \<Rightarrow> unit aprog" where
  "insert_merchant m = seqM wait (\<lambda>w.
     if 255 < length (mc_name m) \<or> 64 < length (mc_timezone m) \<or> (case mc_business_type m of None \<Rightarrow> False | Some b \<Rightarrow> 100 < length b)
     then (Inl DataErr, w)
     else if list_ex (\<lambda>q. mc_id q = mc_id m) (ac_merchants (db w)) then (Inl (UniqueViolation ''accounts_merchant_pkey''), w)
     else (Inr (), w\<lparr>db := (db w)\<lparr>ac_merchants := ac_merchants (db w) @ [m]\<rparr>\<rparr>))"

definition insert_member :: "membership \<Rightarrow> unit aprog" where
  "insert_member r = seqM (tenant_write (mb_merchant r)) (seqM wait (\<lambda>w.
     if list_ex (\<lambda>q. tm_id q = tm_id r) (ac_members (db w)) then (Inl (UniqueViolation ''accounts_teammember_pkey''), w)
     else if list_ex (\<lambda>q. mb_merchant q = mb_merchant r \<and> tm_user q = tm_user r) (ac_members (db w))
     then (Inl (UniqueViolation ''uniq_teammember_merchant_user''), w)
     else (Inr (), w\<lparr>db := (db w)\<lparr>ac_members := ac_members (db w) @ [r]\<rparr>\<rparr>)))"

definition insert_assignment :: "assignment \<Rightarrow> unit aprog" where
  "insert_assignment a = seqM (tenant_write (as_merchant a)) (seqM wait (\<lambda>w.
     if list_ex (\<lambda>q. as_member q = as_member a \<and> as_location q = as_location a) (ac_assigned (db w))
     then (Inl (UniqueViolation ''uniq_teammemberlocation_member_location''), w)
     else (Inr (), w\<lparr>db := (db w)\<lparr>ac_assigned := ac_assigned (db w) @ [a]\<rparr>\<rparr>)))"

definition insert_key :: "api_key \<Rightarrow> unit aprog" where
  "insert_key k = seqM (tenant_write (ak_merchant k)) (seqM wait (\<lambda>w.
     if 64 < length (ak_hash k) then (Inl DataErr, w)
     else if list_ex (\<lambda>q. ak_id q = ak_id k) (ac_keys (db w)) then (Inl (UniqueViolation ''apikeys_apikey_pkey''), w)
     else if list_ex (\<lambda>q. ak_hash q = ak_hash k) (ac_keys (db w)) then (Inl (UniqueViolation ''apikeys_apikey_key_hash_uniq''), w)
     else (Inr (), w\<lparr>db := (db w)\<lparr>ac_keys := ac_keys (db w) @ [k]\<rparr>\<rparr>)))"

subsection \<open>Updates and deletes\<close>

text \<open>\<open>save(update_fields=...)\<close> is an error when no row has the primary key.\<close>

definition save_user :: "uuid \<Rightarrow> (user \<Rightarrow> user) \<Rightarrow> unit aprog" where
  "save_user i f = (\<lambda>w. if find_user (db w) i = None then (Inl DatabaseErr, w)
     else (Inr (), w\<lparr>db := (db w)\<lparr>ac_users := update_first (\<lambda>u. us_id u = i) f (ac_users (db w))\<rparr>\<rparr>))"

definition save_merchant :: "uuid \<Rightarrow> (merchant \<Rightarrow> merchant) \<Rightarrow> unit aprog" where
  "save_merchant i f = bindM now (\<lambda>t w. if find_merchant (db w) i = None then (Inl DatabaseErr, w)
     else (Inr (), w\<lparr>db := (db w)\<lparr>ac_merchants := update_first (\<lambda>m. mc_id m = i) (\<lambda>m. (f m)\<lparr>mc_updated_at := t\<rparr>) (ac_merchants (db w))\<rparr>\<rparr>))"

definition update_member_row :: "uuid \<Rightarrow> uuid \<Rightarrow> (membership \<Rightarrow> membership) \<Rightarrow> adb \<Rightarrow> adb" where
  "update_member_row m i f d = d\<lparr>ac_members := update_first (\<lambda>r. mb_merchant r = m \<and> tm_id r = i) f (ac_members d)\<rparr>"

definition save_member :: "uuid \<Rightarrow> (membership \<Rightarrow> membership) \<Rightarrow> unit aprog" where
  "save_member i f = bindM now (\<lambda>t. bindM (in_tenant (\<lambda>m d. (m, find_member d m i))) (\<lambda>(m, r).
     if r = None then throw DatabaseErr
     else modifyM (\<lambda>w. w\<lparr>db := update_member_row m i (\<lambda>r. (f r)\<lparr>mb_updated_at := t\<rparr>) (db w)\<rparr>)))"

text \<open>\<open>member.delete()\<close> takes the location assignments with it.\<close>

definition without_member :: "uuid \<Rightarrow> uuid \<Rightarrow> adb \<Rightarrow> adb" where
  "without_member m i d = d\<lparr>ac_assigned := filter (\<lambda>a. \<not> (as_merchant a = m \<and> as_member a = i)) (ac_assigned d),
     ac_members := filter (\<lambda>r. \<not> (mb_merchant r = m \<and> tm_id r = i)) (ac_members d)\<rparr>"

definition delete_member :: "uuid \<Rightarrow> unit aprog" where
  "delete_member i = bindM (in_tenant (\<lambda>m d. m)) (\<lambda>m. modifyM (\<lambda>w. w\<lparr>db := without_member m i (db w)\<rparr>))"

definition delete_assignments :: "(assignment \<Rightarrow> bool) \<Rightarrow> unit aprog" where
  "delete_assignments P = bindM (in_tenant (\<lambda>m d. m)) (\<lambda>m.
     modifyM (\<lambda>w. w\<lparr>db := (db w)\<lparr>ac_assigned := filter (\<lambda>a. \<not> (as_merchant a = m \<and> P a)) (ac_assigned (db w))\<rparr>\<rparr>))"

text \<open>\<open>filter(...).update(...)\<close> on the keys of the tenant: how many rows matched.\<close>

definition update_keys :: "(api_key \<Rightarrow> bool) \<Rightarrow> (api_key \<Rightarrow> api_key) \<Rightarrow> nat aprog" where
  "update_keys P f = bindM (in_tenant (\<lambda>m d. m)) (\<lambda>m.
     bindM (asks (\<lambda>w. length (filter (\<lambda>k. ak_merchant k = m \<and> P k) (ac_keys (db w))))) (\<lambda>n.
     seqM (modifyM (\<lambda>w. w\<lparr>db := (db w)\<lparr>ac_keys := map_if (\<lambda>k. ak_merchant k = m \<and> P k) f (ac_keys (db w))\<rparr>\<rparr>)) (ret n)))"

subsection \<open>The audit log\<close>

definition add_log :: "audit_log \<Rightarrow> unit aprog" where
  "add_log a = modifyM (\<lambda>w. w\<lparr>db := (db w)\<lparr>ac_audit := ac_audit (db w) @ [a]\<rparr>\<rparr>)"

text \<open>\<open>record()\<close>, here always with an actor and a target.\<close>

definition record_action :: "string \<Rightarrow> uuid \<Rightarrow> string \<Rightarrow> uuid \<Rightarrow> (string \<times> json) list \<Rightarrow> unit aprog" where
  "record_action action actor kind i metadata = tenant_atomic False (bindM (in_tenant (\<lambda>m d. (m, is_member d m actor))) (\<lambda>(m, ok).
     if \<not> ok then throw ActorNotMember else add_log (log_row (Some m) action (Some actor) kind i metadata)))"

text \<open>\<open>record_platform()\<close>: the scope is asked for twice, by the function and by the \<open>platform_insert\<close> policy.\<close>

definition record_platform :: "string \<Rightarrow> uuid \<Rightarrow> string \<Rightarrow> uuid \<Rightarrow> (string \<times> json) list \<Rightarrow> unit aprog" where
  "record_platform action actor kind i metadata = (\<lambda>w.
     if platform_write_var (ctx w) = None then (Inl TenantContextError, w)
     else if platform_write_var (guc w) = None then (Inl DatabaseErr, w)
     else add_log (log_row None action (Some actor) kind i metadata) w)"

definition AUDIT_STAFF_DATA_VIEWED :: string where "AUDIT_STAFF_DATA_VIEWED = ''staff.merchant_data_viewed''"

text \<open>\<open>staff_merchant_read()\<close> around the body of its \<open>with\<close> block.\<close>

definition staff_merchant_read :: "user \<Rightarrow> uuid \<Rightarrow> string \<Rightarrow> (merchant \<Rightarrow> 'a aprog) \<Rightarrow> 'a aprog" where
  "staff_merchant_read staff merchant_id resource body = (
     if \<not> (us_active staff \<and> us_staff staff) then throw (App StaffAccessDenied)
     else bindM get_current_merchant_id (\<lambda>c. if c \<noteq> None then throw TenantContextError
     else bindM (bindM (asks (\<lambda>w. find_merchant (db w) merchant_id)) (or_raise DoesNotExist)) (\<lambda>m.
       tenant_context (Some (mc_id m))
         (seqM (tenant_atomic True (seqM (tenant_write (mc_id m)) (add_log (log_row (Some (mc_id m)) AUDIT_STAFF_DATA_VIEWED
             (Some (us_id staff)) ''accounts.merchant'' (mc_id m) [(''resource'', JStr resource)]))))
           (tenant_atomic True (body m))))))"

end
