(* ===== verification/Team.thy ===== *)
theory Team
  imports AccountStore
begin

text \<open>
  \<open>accounts/services.py\<close>: merchants with their owner, the membership a session acts by, and the management
  of the team, which decides on rows read again under the lock of the merchant.
\<close>

definition AUDIT_INVITED :: string where "AUDIT_INVITED = ''team_member.invited''"
definition AUDIT_ROLE_CHANGED :: string where "AUDIT_ROLE_CHANGED = ''team_member.role_changed''"
definition AUDIT_REMOVED :: string where "AUDIT_REMOVED = ''team_member.removed''"
definition AUDIT_ACCEPTED :: string where "AUDIT_ACCEPTED = ''team_member.accepted''"
definition AUDIT_LOCATIONS_CHANGED :: string where "AUDIT_LOCATIONS_CHANGED = ''team_member.locations_changed''"

definition field_error :: "string \<Rightarrow> string \<Rightarrow> aerror" where
  "field_error f msg = App (FieldErrors [(f, [msg])])"

subsection \<open>Merchants and users\<close>

definition check_timezone_name :: "string \<Rightarrow> unit aprog" where
  "check_timezone_name value = bindM (asks apy) (\<lambda>lib.
     if available_timezones lib value then ret () else throw (field_error ''timezone'' ''Must be a valid IANA time zone name.''))"

definition validate_password :: "string \<Rightarrow> string \<Rightarrow> unit aprog" where
  "validate_password password email = bindM (asks auth) (\<lambda>lib.
     case password_problems lib password email of [] \<Rightarrow> ret () | ps \<Rightarrow> throw (App (FieldErrors [(''__all__'', ps)])))"

definition new_user :: "uuid \<Rightarrow> string \<Rightarrow> string option \<Rightarrow> user" where
  "new_user i email password = \<lparr>us_id = i, us_email = email, us_password = password, us_active = True, us_staff = False,
     us_totp_secret = None, us_totp_confirmed = None, us_last_step = None, us_codes = []\<rparr>"

text \<open>\<open>make_password\<close> draws a salt, for the unusable password too.\<close>

definition encoded_password :: "string option \<Rightarrow> string option aprog" where
  "encoded_password password = bindM (asks auth) (\<lambda>lib. bindM draw (\<lambda>salt. ret (map_option (make_password lib salt) password)))"

definition prepare_user :: "string \<Rightarrow> string option \<Rightarrow> user aprog" where
  "prepare_user email password = bindM draw (\<lambda>i. bindM (encoded_password password) (\<lambda>p. ret (new_user i (normalize_email email) p)))"

definition create_user :: "string \<Rightarrow> string option \<Rightarrow> user aprog" where
  "create_user email password = bindM (prepare_user email password) (\<lambda>u. seqM (insert_user u) (ret u))"

definition new_member :: "uuid \<Rightarrow> uuid \<Rightarrow> uuid \<Rightarrow> role \<Rightarrow> instant option \<Rightarrow> instant option \<Rightarrow> instant \<Rightarrow> membership" where
  "new_member i m u r invited acc t = \<lparr>tm_id = i, tm_user = u, tm_role = r, mb_merchant = m, mb_invited_at = invited,
     mb_accepted_at = acc, mb_created_at = t, mb_updated_at = t\<rparr>"

definition email_known :: "string \<Rightarrow> bool aprog" where
  "email_known email = asks (\<lambda>w. user_of_email (db w) email \<noteq> None)"

definition duplicate_email :: aerror where
  "duplicate_email = field_error ''owner_email'' ''A user with this email already exists.''"

definition create_merchant_with_owner :: "string \<Rightarrow> string \<Rightarrow> string \<Rightarrow> string \<Rightarrow> string option \<Rightarrow> membership aprog" where
  "create_merchant_with_owner name tz owner_email owner_password business_type =
     seqM (check_timezone_name tz) (let email = normalize_email owner_email in
     seqM (validate_password owner_password email)
     (bindM (email_known email) (\<lambda>known. if known then throw duplicate_email
      else bindM draw (\<lambda>mid. catchM
        (tenant_context (Some mid) (tenant_atomic False (
           bindM (create_user email (Some owner_password)) (\<lambda>u. bindM now (\<lambda>t.
           seqM (insert_merchant \<lparr>mc_id = mid, mc_name = name, mc_business_type = business_type, mc_timezone = tz,
               mc_status = MActive, mc_updated_at = t\<rparr>)
           (bindM now (\<lambda>acc. bindM draw (\<lambda>i. bindM now (\<lambda>t.
              let r = new_member i mid (us_id u) OWNER None (Some acc) t in seqM (insert_member r) (ret r))))))))))
        (\<lambda>e. if integrity_error e then Some (bindM (email_known email) (\<lambda>k. throw (if k then duplicate_email else e))) else None)))))"

record merchant_changes =
  cm_name :: "string option"
  cm_business_type :: "string option option"
  cm_timezone :: "string option"

definition changed_merchant :: "merchant_changes \<Rightarrow> merchant \<Rightarrow> merchant" where
  "changed_merchant c m = m\<lparr>mc_name := (case cm_name c of None \<Rightarrow> mc_name m | Some n \<Rightarrow> n),
     mc_business_type := (case cm_business_type c of None \<Rightarrow> mc_business_type m | Some b \<Rightarrow> b),
     mc_timezone := (case cm_timezone c of None \<Rightarrow> mc_timezone m | Some t \<Rightarrow> t)\<rparr>"

definition nothing_changed :: "merchant_changes \<Rightarrow> bool" where
  "nothing_changed c \<longleftrightarrow> cm_name c = None \<and> cm_business_type c = None \<and> cm_timezone c = None"

definition update_merchant :: "merchant \<Rightarrow> merchant_changes \<Rightarrow> merchant aprog" where
  "update_merchant m c = seqM (case cm_timezone c of None \<Rightarrow> ret () | Some t \<Rightarrow> check_timezone_name t)
     (seqM (whenM (\<not> nothing_changed c) (save_merchant (mc_id m) (changed_merchant c))) (ret (changed_merchant c m)))"

subsection \<open>The membership of a session\<close>

text \<open>An inner join with the user and the merchant, which must be active.\<close>

definition grants_access :: "adb \<Rightarrow> membership \<Rightarrow> bool" where
  "grants_access d r \<longleftrightarrow> accepted r \<and> merchant_active d (mb_merchant r) \<and> find_user d (tm_user r) \<noteq> None"

definition resolve_login_membership :: "user \<Rightarrow> membership option aprog" where
  "resolve_login_membership u = user_lookup_atomic (us_id u) (bindM (for_lookup_user (us_id u)) (\<lambda>rs.
     asks (\<lambda>w. case sort_key mb_created_at (filter (grants_access (db w)) rs) of [] \<Rightarrow> None | r # _ \<Rightarrow> Some r)))"

definition get_active_membership :: "user \<Rightarrow> membership option aprog" where
  "get_active_membership u = in_tenant (\<lambda>m d. first (\<lambda>r. mb_merchant r = m \<and> tm_user r = us_id u \<and> grants_access d r) (ac_members d))"

subsection \<open>Team management\<close>

text \<open>
  Every writer of the team of a merchant holds the lock of its merchant row; the lock of the member row
  that follows is waited for only while a login reads it, and changes no member.
\<close>

definition lock_team :: "membership \<Rightarrow> membership aprog" where
  "lock_team actor = seqM take_row_lock (bindM (in_tenant (\<lambda>m d. (find_merchant d m, find_member d m (tm_id actor)))) (\<lambda>(mc, r).
     if mc = None then throw DoesNotExist
     else case r of None \<Rightarrow> throw (App TeamPermissionDenied)
       | Some a \<Rightarrow> if accepted a then ret a else throw (App TeamPermissionDenied)))"

definition check_can_manage :: "membership \<Rightarrow> membership \<Rightarrow> role option \<Rightarrow> aerror + unit" where
  "check_can_manage actor target new_role =
     bindE (guardE (tm_id target \<noteq> tm_id actor) (App TeamPermissionDenied)) (\<lambda>_.
       guardE (\<not> (tm_role actor \<noteq> OWNER \<and> (tm_role target = OWNER \<or> new_role = Some OWNER))) (App TeamPermissionDenied))"

definition check_can_grant_owner :: "membership \<Rightarrow> role \<Rightarrow> aerror + unit" where
  "check_can_grant_owner actor r = guardE (\<not> (r = OWNER \<and> tm_role actor \<noteq> OWNER)) (App TeamPermissionDenied)"

definition owner_row :: "uuid \<Rightarrow> membership \<Rightarrow> bool" where
  "owner_row m r \<longleftrightarrow> mb_merchant r = m \<and> tm_role r = OWNER \<and> accepted r"

definition would_orphan_owners :: "membership \<Rightarrow> uuid \<Rightarrow> adb \<Rightarrow> bool" where
  "would_orphan_owners target m d \<longleftrightarrow> tm_role target = OWNER \<and>
     \<not> list_ex (\<lambda>r. owner_row m r \<and> tm_id r \<noteq> tm_id target) (ac_members d)"

definition lock_target :: "uuid \<Rightarrow> membership aprog" where
  "lock_target i = bindM (in_tenant (\<lambda>m d. find_member d m i)) (or_raise (App TeamMemberNotFound))"

definition list_team_members :: "membership list aprog" where
  "list_team_members = in_tenant (\<lambda>m d. sort_key mb_created_at (filter (\<lambda>r. mb_merchant r = m) (ac_members d)))"

definition audit_member :: "string \<Rightarrow> membership \<Rightarrow> membership \<Rightarrow> (string \<times> json) list \<Rightarrow> unit aprog" where
  "audit_member action actor target metadata = record_action action (tm_user actor) ''accounts.teammember'' (tm_id target) metadata"

fun role_name :: "role \<Rightarrow> string" where
  "role_name OWNER = ''OWNER''"
| "role_name ADMIN = ''ADMIN''"
| "role_name MANAGER = ''MANAGER''"
| "role_name VIEWER = ''VIEWER''"

subsection \<open>Invitations\<close>

text \<open>The signer reads the clock for its own timestamp.\<close>

definition make_invite_token :: "membership \<Rightarrow> string aprog" where
  "make_invite_token r = bindM (asks auth) (\<lambda>lib. bindM now (\<lambda>t.
     ret (sign_object lib (JObj [(''tm'', JStr (tm_id r)), (''u'', JStr (tm_user r)),
       (''iat'', JStr (case mb_invited_at r of None \<Rightarrow> [] | Some i \<Rightarrow> isoformat lib i))]) t)))"

definition user_for_invite :: "string \<Rightarrow> user aprog" where
  "user_for_invite email = bindM (prepare_user email None) (\<lambda>u. bindM (created_or_taken (insert_user u)) (\<lambda>created.
     if created then ret u
     else bindM (asks (\<lambda>w. user_of_email (db w) email)) (or_raise DoesNotExist)))"

definition reinvite :: "membership \<Rightarrow> role \<Rightarrow> instant \<Rightarrow> membership aprog" where
  "reinvite r role t = (if accepted r then throw (App AlreadyMember)
     else seqM (save_member (tm_id r) (\<lambda>x. x\<lparr>tm_role := role, mb_invited_at := Some t\<rparr>))
       (ret (r\<lparr>tm_role := role, mb_invited_at := Some t\<rparr>)))"

definition member_for_invite :: "user \<Rightarrow> role \<Rightarrow> membership aprog" where
  "member_for_invite u role = bindM now (\<lambda>t. bindM (in_tenant (\<lambda>m d. m)) (\<lambda>m. bindM draw (\<lambda>i. bindM now (\<lambda>c.
     let r = new_member i m (us_id u) role (Some t) None c in
     bindM (created_or_taken (insert_member r)) (\<lambda>created.
       if created then ret r
       else bindM (bindM (in_tenant (\<lambda>m d. first (\<lambda>r. mb_merchant r = m \<and> tm_user r = us_id u) (ac_members d))) (or_raise DoesNotExist))
         (\<lambda>old. reinvite old role t))))))"

definition invite_team_member :: "membership \<Rightarrow> string \<Rightarrow> role \<Rightarrow> (membership \<times> string) aprog" where
  "invite_team_member actor email role = (let email = normalize_email email in
     tenant_atomic False (bindM (lock_team actor) (\<lambda>actor. seqM (liftE (check_can_grant_owner actor role))
       (bindM (user_for_invite email) (\<lambda>u. bindM (member_for_invite u role) (\<lambda>r.
        seqM (audit_member AUDIT_INVITED actor r [(''role'', JStr (role_name role))])
          (bindM (make_invite_token r) (\<lambda>token. ret (r, token)))))))))"

subsection \<open>Roles\<close>

text \<open>Between the reads and the write nothing waits. The result says whether the role changed, and from what.\<close>

definition assign_role :: "membership \<Rightarrow> uuid \<Rightarrow> role \<Rightarrow> (membership \<times> role option) aprog" where
  "assign_role actor member_id role = bindM (lock_target member_id) (\<lambda>r.
     seqM (liftE (check_can_manage actor r (Some role)))
     (if tm_role r = role then ret (r, None)
      else bindM (in_tenant (would_orphan_owners r)) (\<lambda>orphan.
        if tm_role r = OWNER \<and> role \<noteq> OWNER \<and> orphan then throw (App LastOwner)
        else seqM (save_member (tm_id r) (\<lambda>x. x\<lparr>tm_role := role\<rparr>)) (ret (r\<lparr>tm_role := role\<rparr>, Some (tm_role r))))))"

definition role_metadata :: "role \<Rightarrow> role \<Rightarrow> (string \<times> json) list" where
  "role_metadata old new = [(''role_from'', JStr (role_name old)), (''role_to'', JStr (role_name new))]"

text \<open>A former manager's assignments go; a change that changed nothing is not audited.\<close>

definition after_role_change :: "membership \<Rightarrow> role \<Rightarrow> membership \<Rightarrow> role option \<Rightarrow> membership aprog" where
  "after_role_change actor role r old_role = (case old_role of None \<Rightarrow> ret r
     | Some old \<Rightarrow>
         seqM (whenM (old = MANAGER \<and> role \<noteq> MANAGER) (delete_assignments (\<lambda>a. as_member a = tm_id r)))
         (seqM (audit_member AUDIT_ROLE_CHANGED actor r (role_metadata old role)) (ret r)))"

definition change_team_member_role :: "membership \<Rightarrow> uuid \<Rightarrow> role \<Rightarrow> membership aprog" where
  "change_team_member_role actor member_id role = tenant_atomic False (bindM (lock_team actor) (\<lambda>actor.
     bindM (assign_role actor member_id role) (\<lambda>(r, old). after_role_change actor role r old)))"

definition remove_member :: "membership \<Rightarrow> uuid \<Rightarrow> unit aprog" where
  "remove_member actor member_id = bindM (lock_target member_id) (\<lambda>r.
     seqM (liftE (check_can_manage actor r None))
     (bindM (in_tenant (would_orphan_owners r)) (\<lambda>orphan. if orphan then throw (App LastOwner)
      else seqM (audit_member AUDIT_REMOVED actor r [(''role'', JStr (role_name (tm_role r)))]) (delete_member (tm_id r)))))"

definition revoke_team_member :: "membership \<Rightarrow> uuid \<Rightarrow> unit aprog" where
  "revoke_team_member actor member_id = tenant_atomic False (bindM (lock_team actor) (\<lambda>actor. remove_member actor member_id))"

subsection \<open>Assigned locations\<close>

definition locations_error :: "string \<Rightarrow> aerror" where
  "locations_error msg = field_error ''location_ids'' msg"

definition member_same_merchant :: "membership \<Rightarrow> (uuid \<times> uuid) list \<Rightarrow> unit aprog" where
  "member_same_merchant r ls = bindM get_current_merchant_id (\<lambda>m.
     if Some (mb_merchant r) \<noteq> m \<or> list_ex (\<lambda>l. Some (fst l) \<noteq> m) ls then throw (locations_error ''One or more locations were not found.'')
     else ret ())"

definition assigned_to :: "membership \<Rightarrow> uuid \<Rightarrow> adb \<Rightarrow> uuid list" where
  "assigned_to r m d = map as_location (filter (\<lambda>a. as_merchant a = m \<and> as_member a = tm_id r) (ac_assigned d))"

text \<open>\<open>sorted()\<close> of texts by code points.\<close>

fun text_le :: "string \<Rightarrow> string \<Rightarrow> bool" where
  "text_le [] t = True"
| "text_le (c # cs) [] = False"
| "text_le (c # cs) (d # ds) = (if c = d then text_le cs ds else code_point c < code_point d)"

fun insert_sorted :: "string \<Rightarrow> string list \<Rightarrow> string list" where
  "insert_sorted s [] = [s]"
| "insert_sorted s (t # ts) = (if text_le s t then s # t # ts else t # insert_sorted s ts)"

definition replace_assignments :: "membership \<Rightarrow> (uuid \<times> uuid) list \<Rightarrow> uuid list \<Rightarrow> uuid list \<Rightarrow> unit aprog" where
  "replace_assignments r ls current wanted =
     seqM (delete_assignments (\<lambda>a. as_member a = tm_id r \<and> as_location a \<in> set current \<and> as_location a \<notin> set wanted))
       (forM (filter (\<lambda>l. snd l \<in> set wanted \<and> snd l \<notin> set current) ls)
         (\<lambda>l. insert_assignment \<lparr>as_merchant = mb_merchant r, as_member = tm_id r, as_location = snd l\<rparr>))"

definition set_team_member_locations :: "membership \<Rightarrow> uuid \<Rightarrow> uuid list \<Rightarrow> membership aprog" where
  "set_team_member_locations actor member_id location_ids = tenant_atomic False (bindM (lock_team actor) (\<lambda>actor.
     if tm_role actor \<noteq> OWNER \<and> tm_role actor \<noteq> ADMIN then throw (App TeamPermissionDenied)
     else bindM (lock_target member_id) (\<lambda>r.
       if tm_role r \<noteq> MANAGER then throw (locations_error ''Only MANAGER team members can be assigned locations.'')
       else let wanted = remdups location_ids in
         bindM (in_tenant (\<lambda>m d. filter (\<lambda>l. fst l = m \<and> snd l \<in> set wanted) (ac_locations d))) (\<lambda>ls.
         if length ls \<noteq> length wanted then throw (locations_error ''One or more locations were not found.'')
         else seqM (member_same_merchant r ls)
           (bindM (in_tenant (assigned_to r)) (\<lambda>current.
             if set current = set wanted then ret r
             else seqM (replace_assignments r ls current wanted)
               (seqM (audit_member AUDIT_LOCATIONS_CHANGED actor r
                  [(''location_ids'', JArr (map JStr (foldr insert_sorted wanted [])))]) (ret r))))))))"

subsection \<open>Accepting an invitation\<close>

definition INVITE_MAX_AGE :: instant where "INVITE_MAX_AGE = days 7"

text \<open>\<open>uuid.UUID(x)\<close>: \<open>ValueError\<close> for a malformed text, \<open>TypeError\<close> for \<open>None\<close>, no \<open>replace\<close> on the rest.\<close>

definition to_uuid :: "auth_lib \<Rightarrow> json \<Rightarrow> aerror + uuid" where
  "to_uuid lib j = (case j of JStr s \<Rightarrow> (case uuid_of lib s of None \<Rightarrow> Inl ValueErr | Some u \<Rightarrow> Inr u)
     | JNull \<Rightarrow> Inl TypeErr | _ \<Rightarrow> Inl AttributeErr)"

text \<open>\<open>payload[k]\<close>: \<open>KeyError\<close> without the key and \<open>TypeError\<close> on anything but a dict, both caught as one.\<close>

definition payload_item :: "json \<Rightarrow> string \<Rightarrow> aerror + json" where
  "payload_item payload k = (if is_dict payload \<and> jhas k payload then Inr (jget k payload) else Inl TypeErr)"

definition to_instant :: "pylib \<Rightarrow> json \<Rightarrow> aerror + bool \<times> instant" where
  "to_instant lib j = (case j of JStr s \<Rightarrow> (case fromisoformat lib s of None \<Rightarrow> Inl ValueErr | Some t \<Rightarrow> Inr t) | _ \<Rightarrow> Inl TypeErr)"

definition invite_payload :: "auth_lib \<Rightarrow> pylib \<Rightarrow> json option \<Rightarrow> aerror + uuid \<times> uuid \<times> bool \<times> instant" where
  "invite_payload lib py payload = (case payload of None \<Rightarrow> Inl ValueErr
     | Some p \<Rightarrow> bindE (bindE (payload_item p ''tm'') (to_uuid lib)) (\<lambda>member_id.
         bindE (bindE (payload_item p ''u'') (to_uuid lib)) (\<lambda>user_id.
         bindE (bindE (payload_item p ''iat'') (to_instant py)) (\<lambda>iat. Inr (member_id, user_id, iat)))))"

definition read_invite :: "string \<Rightarrow> (uuid \<times> uuid \<times> bool \<times> instant) aprog" where
  "read_invite token = bindM (asks auth) (\<lambda>lib. bindM (asks apy) (\<lambda>py. bindM now (\<lambda>t.
     case invite_payload lib py (unsign_object lib token t INVITE_MAX_AGE) of
       Inr x \<Rightarrow> ret x
     | Inl e \<Rightarrow> throw (if e = ValueErr \<or> e = TypeErr then App InvalidInvite else e))))"

definition invited_merchant :: "uuid \<Rightarrow> uuid \<Rightarrow> uuid option aprog" where
  "invited_merchant member_id user_id = user_lookup_atomic user_id (bindM (for_lookup_user user_id) (\<lambda>rs.
     asks (\<lambda>w. map_option mb_merchant
       (first (\<lambda>r. tm_id r = member_id \<and> \<not> accepted r \<and> merchant_active (db w) (mb_merchant r)) rs))))"

text \<open>The password of an account that has one is checked, never replaced.\<close>

definition check_or_set_password :: "uuid \<Rightarrow> string \<Rightarrow> user aprog" where
  "check_or_set_password user_id password = bindM (bindM (asks (\<lambda>w. find_user (db w) user_id)) (or_raise DoesNotExist)) (\<lambda>u.
     bindM (asks auth) (\<lambda>lib. case us_password u of
       Some encoded \<Rightarrow> if check_password lib password encoded then ret u else throw (App InvalidInvite)
     | None \<Rightarrow> seqM (validate_password password (us_email u))
         (bindM (encoded_password (Some password)) (\<lambda>p. seqM (save_user user_id (\<lambda>x. x\<lparr>us_password := p\<rparr>)) (ret u)))))"

definition accept_locked :: "uuid \<Rightarrow> uuid \<Rightarrow> uuid \<Rightarrow> bool \<times> instant \<Rightarrow> string \<Rightarrow> unit aprog" where
  "accept_locked merchant_id member_id user_id invited_at password =
     seqM take_row_lock (bindM (asks (\<lambda>w. merchant_active (db w) merchant_id)) (\<lambda>active.
       if \<not> active then throw (App InvalidInvite)
       else bindM (in_tenant (\<lambda>m d. first (\<lambda>r. mb_merchant r = m \<and> tm_id r = member_id \<and> tm_user r = user_id \<and> \<not> accepted r) (ac_members d))) (\<lambda>r.
         case r of None \<Rightarrow> throw (App InvalidInvite)
         | Some r \<Rightarrow>
             if \<not> (fst invited_at \<and> mb_invited_at r = Some (snd invited_at)) then throw (App InvalidInvite)
             else seqM wait (bindM (check_or_set_password user_id password) (\<lambda>u.
               bindM now (\<lambda>t. seqM (save_member (tm_id r) (\<lambda>x. x\<lparr>mb_accepted_at := Some t\<rparr>))
                 (record_action AUDIT_ACCEPTED (us_id u) ''accounts.teammember'' (tm_id r) [])))))))"

definition accept_invite :: "string \<Rightarrow> string \<Rightarrow> unit aprog" where
  "accept_invite token password = bindM (read_invite token) (\<lambda>(member_id, user_id, invited_at).
     bindM (invited_merchant member_id user_id) (\<lambda>merchant_id. case merchant_id of
       None \<Rightarrow> throw (App InvalidInvite)
     | Some m \<Rightarrow> tenant_context (Some m) (tenant_atomic False (accept_locked m member_id user_id invited_at password))))"

end
