(* ===== verification/TwoFactor.thy ===== *)
theory TwoFactor
  imports Team
begin

text \<open>
  \<open>accounts/services.py\<close>: the password step of a login, time-based codes with replay protection, recovery
  codes, the second step of a login, enrolment, and the same for platform staff.
\<close>

definition AUDIT_TOTP_ENABLED :: string where "AUDIT_TOTP_ENABLED = ''user.totp_enabled''"
definition AUDIT_TOTP_DISABLED :: string where "AUDIT_TOTP_DISABLED = ''user.totp_disabled''"
definition AUDIT_TOTP_RECOVERY_USED :: string where "AUDIT_TOTP_RECOVERY_USED = ''user.totp_recovery_code_used''"
definition TOTP_PENDING_MAX_AGE :: instant where "TOTP_PENDING_MAX_AGE = minutes 5"
definition TOTP_MAX_ATTEMPTS :: int where "TOTP_MAX_ATTEMPTS = 5"
definition RECOVERY_CODE_COUNT :: nat where "RECOVERY_CODE_COUNT = 10"
definition STAFF_AUTH_SCOPE :: string where "STAFF_AUTH_SCOPE = ''staff_auth''"

subsection \<open>The password step\<close>

text \<open>\<open>authenticate()\<close> with Django's \<open>ModelBackend\<close>: the normalized email, the password, and an active user.\<close>

definition password_matches :: "auth_lib \<Rightarrow> user \<Rightarrow> string \<Rightarrow> bool" where
  "password_matches lib u password \<longleftrightarrow> (case us_password u of None \<Rightarrow> False | Some enc \<Rightarrow> check_password lib password enc)"

definition authenticate_user :: "auth_lib \<Rightarrow> adb \<Rightarrow> string \<Rightarrow> string \<Rightarrow> user option" where
  "authenticate_user lib d email password = (case user_of_email d (normalize_email email) of
     None \<Rightarrow> None
   | Some u \<Rightarrow> if password_matches lib u password \<and> us_active u then Some u else None)"

definition authenticate_login :: "string \<Rightarrow> string \<Rightarrow> membership aprog" where
  "authenticate_login email password = bindM (asks (\<lambda>w. authenticate_user (auth w) (db w) email password)) (\<lambda>u.
     case u of None \<Rightarrow> throw (App InvalidCredentials)
     | Some u \<Rightarrow> bindM (resolve_login_membership u) (or_raise (App InvalidCredentials)))"

text \<open>\<open>membership.user\<close> is the row read together with the membership.\<close>

definition member_user :: "membership \<Rightarrow> user aprog" where
  "member_user r = bindM (asks (\<lambda>w. find_user (db w) (tm_user r))) (or_raise DoesNotExist)"

definition begin_login :: "string \<Rightarrow> string \<Rightarrow> (membership \<times> bool) aprog" where
  "begin_login email password = bindM (authenticate_login email password) (\<lambda>r.
     bindM (member_user r) (\<lambda>u. ret (r, is_totp_enabled u)))"

subsection \<open>Factors\<close>

definition lock_user :: "uuid \<Rightarrow> user aprog" where
  "lock_user i = seqM wait (bindM (asks (\<lambda>w. find_user (db w) i)) (or_raise DoesNotExist))"

definition normalize_recovery_code :: "string \<Rightarrow> string" where
  "normalize_recovery_code code = filter (\<lambda>c. c \<noteq> CHR 0x2D) (py_lower (strip code))"

definition hash_recovery_code :: "string \<Rightarrow> string" where
  "hash_recovery_code code = hexdigest (sha256 (utf8 (normalize_recovery_code code)))"

text \<open>\<open>hmac.compare_digest\<close> refuses texts beyond ASCII.\<close>

definition ascii :: "string \<Rightarrow> bool" where
  "ascii s \<longleftrightarrow> list_all (\<lambda>c. code_point c < 128) s"

definition compare_digest :: "string \<Rightarrow> string \<Rightarrow> aerror + bool" where
  "compare_digest a b = (if ascii a \<and> ascii b then Inr (a = b) else Inl TypeErr)"

text \<open>The first of the steps around the current one that is not used up and whose code is the given one.\<close>

fun find_step :: "auth_lib \<Rightarrow> string \<Rightarrow> int \<Rightarrow> string \<Rightarrow> int list \<Rightarrow> aerror + int option" where
  "find_step lib secret last_used code [] = Inr None"
| "find_step lib secret last_used code (step # steps) = (
     if step \<le> last_used then find_step lib secret last_used code steps
     else bindE (compare_digest (otp_at lib secret step) code) (\<lambda>same.
       if same then Inr (Some step) else find_step lib secret last_used code steps))"

definition last_used :: "user \<Rightarrow> int" where
  "last_used u = (case us_last_step u of None \<Rightarrow> -1 | Some s \<Rightarrow> s)"

definition steps_around :: "auth_lib \<Rightarrow> instant \<Rightarrow> int list" where
  "steps_around lib t = [timecode lib t - 1, timecode lib t, timecode lib t + 1]"

text \<open>The step a code is good for; \<open>InvalidToken\<close> is what Fernet raises. The user row was read under its lock.\<close>

definition totp_step :: "auth_lib \<Rightarrow> pylib \<Rightarrow> user \<Rightarrow> string \<Rightarrow> instant \<Rightarrow> aerror + int option" where
  "totp_step lib py u code t = (case us_totp_secret u of None \<Rightarrow> Inr None
     | Some enc \<Rightarrow> if enc = [] then Inr None
       else (case decrypt py enc of None \<Rightarrow> Inl (App InvalidToken)
         | Some secret \<Rightarrow> find_step lib secret (last_used u) code (steps_around lib t)))"

definition use_step :: "int \<Rightarrow> user \<Rightarrow> user" where
  "use_step s u = u\<lparr>us_last_step := Some s\<rparr>"

definition verify_totp :: "user \<Rightarrow> string \<Rightarrow> instant \<Rightarrow> user option aprog" where
  "verify_totp u code t = bindM (asks auth) (\<lambda>lib. bindM (asks apy) (\<lambda>py. bindM (liftE (totp_step lib py u code t)) (\<lambda>step.
     case step of None \<Rightarrow> ret None
     | Some s \<Rightarrow> seqM (save_user (us_id u) (use_step s)) (ret (Some (use_step s u))))))"

definition use_code :: "string \<Rightarrow> user \<Rightarrow> user" where
  "use_code h u = u\<lparr>us_codes := filter (\<lambda>x. x \<noteq> h) (us_codes u)\<rparr>"

definition consume_recovery_code :: "user \<Rightarrow> string \<Rightarrow> user option aprog" where
  "consume_recovery_code u code = (let target = hash_recovery_code code; rest = filter (\<lambda>x. x \<noteq> target) (us_codes u) in
     if target \<in> set (us_codes u)
     then seqM (save_user (us_id u) (\<lambda>x. x\<lparr>us_codes := rest\<rparr>)) (ret (Some (use_code target u)))
     else ret None)"

datatype factor = Totp | Recovery

definition six_digits :: "string \<Rightarrow> bool" where
  "six_digits s \<longleftrightarrow> length s = 6 \<and> list_all digit_char s"

definition verify_second_factor :: "user \<Rightarrow> string \<Rightarrow> instant \<Rightarrow> (factor \<times> user) option aprog" where
  "verify_second_factor u code t = (let candidate = strip code in
     bindM (if dollar six_digits candidate then verify_totp u candidate t else ret None) (\<lambda>totp. case totp of
       Some u' \<Rightarrow> ret (Some (Totp, u'))
     | None \<Rightarrow> bindM (consume_recovery_code u code) (\<lambda>used. ret (map_option (Pair Recovery) used))))"

text \<open>The codes as shown, in groups of five, and their hashes.\<close>

definition shown_code :: "string \<Rightarrow> string" where
  "shown_code raw = concat (case chunks 5 raw of [] \<Rightarrow> [] | g # gs \<Rightarrow> g # map ((#) (CHR 0x2D)) gs)"

fun generate_codes :: "nat \<Rightarrow> (string list \<times> string list) aprog" where
  "generate_codes 0 = ret ([], [])"
| "generate_codes (Suc n) = bindM draw (\<lambda>raw. bindM (generate_codes n) (\<lambda>(plain, hashes).
     ret (shown_code raw # plain, hash_recovery_code raw # hashes)))"

definition generate_recovery_codes :: "(string list \<times> string list) aprog" where
  "generate_recovery_codes = generate_codes RECOVERY_CODE_COUNT"

subsection \<open>The second step of a login\<close>

text \<open>The marker the session keeps between the steps; a missing member is \<open>None\<close>.\<close>

record totp_marker =
  pt_user :: "string option"
  pt_issued :: "instant option"
  pt_failed :: int

definition make_pending_totp :: "user \<Rightarrow> totp_marker aprog" where
  "make_pending_totp u = bindM now (\<lambda>t. ret \<lparr>pt_user = Some (us_id u), pt_issued = Some t, pt_failed = 0\<rparr>)"

definition record_failed_totp_attempt :: "totp_marker \<Rightarrow> totp_marker option" where
  "record_failed_totp_attempt p = (let n = pt_failed p + 1 in
     if TOTP_MAX_ATTEMPTS \<le> n then None else Some (p\<lparr>pt_failed := n\<rparr>))"

definition marker_user :: "totp_marker option \<Rightarrow> uuid aprog" where
  "marker_user marker = (case marker of None \<Rightarrow> throw (App InvalidCredentials)
     | Some p \<Rightarrow>
         if TOTP_MAX_ATTEMPTS \<le> pt_failed p then throw (App InvalidCredentials)
         else (case pt_issued p of None \<Rightarrow> throw (App InvalidCredentials)
           | Some iat \<Rightarrow> bindM now (\<lambda>t. if TOTP_PENDING_MAX_AGE < t - iat then throw (App InvalidCredentials)
               else bindM (asks auth) (\<lambda>lib. or_raise (App InvalidCredentials)
                 (case pt_user p of None \<Rightarrow> None | Some s \<Rightarrow> uuid_of lib s)))))"

definition audit_user :: "string \<Rightarrow> user \<Rightarrow> (string \<times> json) list \<Rightarrow> unit aprog" where
  "audit_user action u metadata = record_action action (us_id u) ''accounts.user'' (us_id u) metadata"

definition codes_left :: "user \<Rightarrow> (string \<times> json) list" where
  "codes_left u = [(''recovery_codes_remaining'', JInt (int (length (us_codes u))))]"

definition factor_login :: "uuid \<Rightarrow> uuid \<Rightarrow> string \<Rightarrow> membership aprog" where
  "factor_login member_id user_id code = seqM wait (bindM (in_tenant (\<lambda>m d.
       first (\<lambda>r. mb_merchant r = m \<and> tm_id r = member_id \<and> tm_user r = user_id \<and> grants_access d r) (ac_members d))) (\<lambda>r.
     bindM (or_raise (App InvalidCredentials) r) (\<lambda>r.
     bindM (lock_user user_id) (\<lambda>u.
       if \<not> us_active u \<or> \<not> is_totp_enabled u then throw (App InvalidCredentials)
       else bindM now (\<lambda>t. bindM (verify_second_factor u code t) (\<lambda>f. case f of
           None \<Rightarrow> throw (App InvalidCredentials)
         | Some (Totp, _) \<Rightarrow> ret r
         | Some (Recovery, u') \<Rightarrow> seqM (audit_user AUDIT_TOTP_RECOVERY_USED u' (codes_left u')) (ret r)))))))"

definition complete_totp_login :: "totp_marker option \<Rightarrow> string \<Rightarrow> membership aprog" where
  "complete_totp_login marker code = bindM (marker_user marker) (\<lambda>user_id.
     bindM (bindM (asks (\<lambda>w. find_user (db w) user_id)) (or_raise (App InvalidCredentials))) (\<lambda>u.
       if \<not> us_active u then throw (App InvalidCredentials)
       else bindM (bindM (resolve_login_membership u) (or_raise (App InvalidCredentials))) (\<lambda>r.
         tenant_context (Some (mb_merchant r)) (tenant_atomic False (factor_login (tm_id r) user_id code)))))"

subsection \<open>Enrolment\<close>

text \<open>\<open>user\<close> is the id of the logged-in user.\<close>

definition check_own_password :: "user \<Rightarrow> string \<Rightarrow> unit aprog" where
  "check_own_password u password = bindM (asks auth) (\<lambda>lib.
     if password_matches lib u password then ret () else throw (App ReauthenticationFailed))"

text \<open>A fresh secret, stored encrypted; the second factor is not enabled yet.\<close>

definition store_secret :: "user \<Rightarrow> string aprog" where
  "store_secret u = bindM draw (\<lambda>secret. bindM (asks apy) (\<lambda>py.
     seqM (save_user (us_id u) (\<lambda>x. x\<lparr>us_totp_secret := Some (encrypt py secret)\<rparr>)) (ret secret)))"

definition with_uri :: "(string \<times> string) aprog \<Rightarrow> (string \<times> string) aprog" where
  "with_uri p = bindM p (\<lambda>(secret, email). bindM (asks auth) (\<lambda>lib. ret (secret, provisioning_uri lib secret email)))"

definition begin_totp_setup :: "uuid \<Rightarrow> string \<Rightarrow> (string \<times> string) aprog" where
  "begin_totp_setup user password = with_uri (tenant_atomic False (bindM (lock_user user) (\<lambda>u.
     seqM (check_own_password u password)
     (if is_totp_enabled u then throw (App TotpAlreadyEnabled)
      else bindM (store_secret u) (\<lambda>secret. ret (secret, us_email u))))))"

text \<open>What turns the second factor on, after the code has been verified.\<close>

definition enable_totp :: "user \<Rightarrow> string list aprog" where
  "enable_totp u = bindM generate_recovery_codes (\<lambda>(plain, hashes). bindM now (\<lambda>t.
     seqM (save_user (us_id u) (\<lambda>x. x\<lparr>us_totp_confirmed := Some t, us_codes := hashes\<rparr>)) (ret plain)))"

definition setup_pending :: "user \<Rightarrow> unit aprog" where
  "setup_pending u = (if is_totp_enabled u then throw (App TotpAlreadyEnabled)
     else if us_totp_secret u = None \<or> us_totp_secret u = Some [] then throw (App TotpSetupRequired) else ret ())"

definition confirm_totp_setup :: "uuid \<Rightarrow> string \<Rightarrow> string list aprog" where
  "confirm_totp_setup user code = tenant_atomic False (bindM (lock_user user) (\<lambda>u.
     seqM (setup_pending u)
     (bindM now (\<lambda>t. bindM (verify_totp u code t) (\<lambda>v. if v = None then throw (App InvalidTotpCode)
      else bindM (enable_totp u) (\<lambda>plain. seqM (audit_user AUDIT_TOTP_ENABLED u []) (ret plain)))))))"

definition no_factor :: "user \<Rightarrow> user" where
  "no_factor u = u\<lparr>us_totp_secret := None, us_totp_confirmed := None, us_last_step := None, us_codes := []\<rparr>"

definition disable_totp :: "uuid \<Rightarrow> string \<Rightarrow> string \<Rightarrow> unit aprog" where
  "disable_totp user password code = tenant_atomic False (bindM (lock_user user) (\<lambda>u.
     if \<not> is_totp_enabled u then throw (App TotpNotEnabled)
     else seqM (check_own_password u password)
       (bindM now (\<lambda>t. bindM (verify_second_factor u code t) (\<lambda>f. if f = None then throw (App ReauthenticationFailed)
        else seqM (save_user (us_id u) no_factor) (audit_user AUDIT_TOTP_DISABLED u []))))))"

subsection \<open>Platform staff\<close>

definition is_active_staff :: "user \<Rightarrow> bool" where
  "is_active_staff u \<longleftrightarrow> us_active u \<and> us_staff u"

definition begin_staff_totp_setup :: "uuid \<Rightarrow> (string \<times> string) aprog" where
  "begin_staff_totp_setup user = with_uri (atomic (bindM (lock_user user) (\<lambda>u.
     if \<not> is_active_staff u then throw (App NotActiveStaff)
     else if is_totp_enabled u then throw (App TotpAlreadyEnabled)
     else bindM (store_secret u) (\<lambda>secret. ret (secret, us_email u)))))"

definition platform_audit :: "string \<Rightarrow> user \<Rightarrow> (string \<times> json) list \<Rightarrow> unit aprog" where
  "platform_audit action u metadata = record_platform action (us_id u) ''accounts.user'' (us_id u) metadata"

definition confirm_staff_totp_setup :: "uuid \<Rightarrow> string \<Rightarrow> string list aprog" where
  "confirm_staff_totp_setup user code = (let candidate = strip code in
     platform_write_atomic STAFF_AUTH_SCOPE (bindM (lock_user user) (\<lambda>u.
       if \<not> is_active_staff u then throw (App NotActiveStaff)
       else seqM (setup_pending u)
         (bindM (if dollar six_digits candidate then bindM now (verify_totp u candidate) else ret None) (\<lambda>v.
          if v = None then throw (App InvalidTotpCode)
          else bindM (enable_totp u) (\<lambda>plain. seqM (platform_audit AUDIT_TOTP_ENABLED u []) (ret plain)))))))"

definition verify_staff_admin_login :: "uuid \<Rightarrow> string \<Rightarrow> bool aprog" where
  "verify_staff_admin_login user code = (let candidate = strip code in
     if candidate = [] then ret False
     else if dollar six_digits candidate then
       atomic (bindM (lock_user user) (\<lambda>u. if \<not> (is_active_staff u \<and> is_totp_enabled u) then ret False
         else bindM now (\<lambda>t. bindM (verify_totp u candidate t) (\<lambda>v. ret (v \<noteq> None)))))
     else platform_write_atomic STAFF_AUTH_SCOPE (bindM (lock_user user) (\<lambda>u.
       if \<not> (is_active_staff u \<and> is_totp_enabled u) then ret False
       else bindM (consume_recovery_code u candidate) (\<lambda>v. case v of
           None \<Rightarrow> ret False
         | Some u' \<Rightarrow> seqM (platform_audit AUDIT_TOTP_RECOVERY_USED u' (codes_left u')) (ret True)))))"

end
