(* ===== verification/ApiKeys.thy ===== *)
theory ApiKeys
  imports TwoFactor Middleware
begin

text \<open>
  The session a browser holds and the views that change who is logged in (\<open>accounts/views.py\<close>), and the
  two-factor login of the admin site (\<open>accounts/forms.py\<close>, \<open>config/admin.py\<close>).
\<close>

subsection \<open>The session\<close>

text \<open>
  \<open>ss_user\<close> is \<open>_auth_user_id\<close>, \<open>ss_merchant\<close> \<open>merchant_id\<close>, \<open>ss_pending\<close> \<open>pending_totp\<close>, \<open>ss_shopify\<close>
  \<open>shopify_pending\<close>, \<open>ss_admin\<close> \<open>admin_2fa_user_id\<close>.
\<close>

record session =
  ss_user :: "uuid option"
  ss_merchant :: "uuid option"
  ss_pending :: "totp_marker option"
  ss_shopify :: "json option"
  ss_admin :: "uuid option"

definition no_session :: session where
  "no_session = \<lparr>ss_user = None, ss_merchant = None, ss_pending = None, ss_shopify = None, ss_admin = None\<rparr>"

text \<open>Django's \<open>login()\<close>: the session of another user is flushed, an anonymous one keeps its data.\<close>

definition django_login :: "uuid \<Rightarrow> session \<Rightarrow> session" where
  "django_login u s = (if ss_user s \<noteq> None \<and> ss_user s \<noteq> Some u then no_session else s)\<lparr>ss_user := Some u\<rparr>"

definition flush_session_keeping_pending :: "bool \<Rightarrow> session \<Rightarrow> session" where
  "flush_session_keeping_pending is_authenticated s = no_session\<lparr>ss_shopify := (if is_authenticated then None else ss_shopify s)\<rparr>"

definition log_in :: "membership \<Rightarrow> session \<Rightarrow> session" where
  "log_in r s = (django_login (tm_user r) s)\<lparr>ss_merchant := Some (mb_merchant r)\<rparr>"

subsection \<open>The views\<close>

text \<open>The login view has no authenticator (\<open>authentication_classes = []\<close>), so \<open>request.user\<close> is anonymous in it whoever
  the session belongs to.\<close>

datatype login_answer = LoggedIn membership | TotpRequired | LoginRefused aerror

definition login_post :: "session \<Rightarrow> string \<Rightarrow> string \<Rightarrow> (session \<times> login_answer) aprog" where
  "login_post s email password = catchM
     (bindM (begin_login email password) (\<lambda>(r, totp_required).
        if totp_required then bindM (bindM (member_user r) make_pending_totp) (\<lambda>p.
          ret ((flush_session_keeping_pending False s)\<lparr>ss_pending := Some p\<rparr>, TotpRequired))
        else ret (log_in r s, LoggedIn r)))
     (\<lambda>e. if e = App InvalidCredentials then Some (ret (s, LoginRefused e)) else None)"

definition login_totp_post :: "session \<Rightarrow> string \<Rightarrow> (session \<times> login_answer) aprog" where
  "login_totp_post s code = catchM
     (bindM (complete_totp_login (ss_pending s) code) (\<lambda>r. ret (log_in r (s\<lparr>ss_pending := None\<rparr>), LoggedIn r)))
     (\<lambda>e. if e = App InvalidCredentials
        then Some (ret (s\<lparr>ss_pending := (case ss_pending s of None \<Rightarrow> None | Some p \<Rightarrow> record_failed_totp_attempt p)\<rparr>, LoginRefused e))
        else None)"

definition logout_post :: "session \<Rightarrow> session" where
  "logout_post s = no_session"

subsection \<open>The admin site\<close>

text \<open>\<open>AdminAuthenticationForm\<close> authenticates an active staff user; \<open>clean\<close> then asks for the second factor,
  and fails closed when its audit row cannot be written.\<close>

definition database_error :: "aerror \<Rightarrow> bool" where
  "database_error e \<longleftrightarrow> e = DatabaseErr \<or> e = DataErr \<or> integrity_error e"

text \<open>The \<open>otp_code\<close> field: stripped, and at most 64 characters.\<close>

definition otp_field :: "string \<Rightarrow> string" where
  "otp_field code = (let c = strip code in if 64 < length c then [] else c)"

definition staff_login_clean :: "string \<Rightarrow> string \<Rightarrow> string \<Rightarrow> uuid option aprog" where
  "staff_login_clean email password code = bindM (asks (\<lambda>w. authenticate_user (auth w) (db w) email password)) (\<lambda>u.
     case u of None \<Rightarrow> ret None
     | Some u \<Rightarrow> if \<not> us_staff u then ret None
       else bindM (catchM (verify_staff_admin_login (us_id u) (otp_field code))
           (\<lambda>e. if database_error e then Some (ret False) else None)) (\<lambda>ok.
         ret (if ok then Some (us_id u) else None)))"

text \<open>The flag is set after Django's login view has logged the user in.\<close>

definition admin_login_post :: "bool \<Rightarrow> session \<Rightarrow> string \<Rightarrow> string \<Rightarrow> string \<Rightarrow> session aprog" where
  "admin_login_post allowed s email password code = (if \<not> allowed then ret s
     else bindM (staff_login_clean email password code) (\<lambda>u. ret (case u of None \<Rightarrow> s
       | Some i \<Rightarrow> (django_login i s)\<lparr>ss_admin := Some i\<rparr>)))"

definition admin_has_permission :: "session \<Rightarrow> adb \<Rightarrow> bool" where
  "admin_has_permission s d \<longleftrightarrow> (case ss_user s of None \<Rightarrow> False
     | Some i \<Rightarrow> (case find_user d i of None \<Rightarrow> False | Some u \<Rightarrow> is_active_staff u \<and> ss_admin s = Some i))"

text \<open>
  \<open>apikeys/services.py\<close>, \<open>apikeys/middleware.py\<close> and \<open>apikeys/authentication.py\<close>: keys of the public API, of
  which only the hash is stored, and the request path of a \<open>Bearer\<close> token.
\<close>

subsection \<open>Keys\<close>

definition TOUCH_INTERVAL :: instant where "TOUCH_INTERVAL = seconds 60"

text \<open>\<open>_KEY_RE\<close> without its closing \<open>$\<close>.\<close>

definition key_char :: "char \<Rightarrow> bool" where
  "key_char c \<longleftrightarrow> word_char c \<or> c = CHR 0x2D"

definition key_shape :: "string \<Rightarrow> bool" where
  "key_shape s \<longleftrightarrow> take 8 s = ''rf_live_'' \<and> length s = 40 \<and> list_all key_char (drop 8 s)"

definition hash_key :: "string \<Rightarrow> string" where
  "hash_key raw = hexdigest (sha256 (utf8 raw))"

definition validate_scopes :: "json \<Rightarrow> aerror + string list" where
  "validate_scopes scopes = (case scopes of
     JArr xs \<Rightarrow>
       if xs = [] \<or> \<not> list_all (\<lambda>x. case as_str x of None \<Rightarrow> False | Some s \<Rightarrow> s \<in> set SCOPES) xs then Inl (App InvalidScopes)
       else if \<not> distinct xs then Inl (App InvalidScopes)
       else Inr (map (\<lambda>x. the (as_str x)) xs)
   | _ \<Rightarrow> Inl (App InvalidScopes))"

definition audit_key :: "string \<Rightarrow> membership \<Rightarrow> uuid \<Rightarrow> (string \<times> json) list \<Rightarrow> unit aprog" where
  "audit_key action actor i metadata = record_action action (tm_user actor) ''apikeys.apikey'' i metadata"

definition create_api_key :: "membership \<Rightarrow> json \<Rightarrow> (api_key \<times> string) aprog" where
  "create_api_key actor scopes = bindM (liftE (validate_scopes scopes)) (\<lambda>scopes.
     bindM draw (\<lambda>tok. let raw = ''rf_live_'' @ tok in
     bindM (tenant_atomic False (bindM (in_tenant (\<lambda>m d. m)) (\<lambda>m. bindM draw (\<lambda>i.
       let k = \<lparr>ak_id = i, ak_merchant = m, ak_hash = hash_key raw, ak_scopes = scopes, ak_active = True, ak_last_used = None\<rparr> in
       seqM (insert_key k) (seqM (audit_key ''api_key.created'' actor i [(''scopes'', JArr (map JStr scopes))]) (ret k))))))
     (\<lambda>k. ret (k, raw))))"

definition list_api_keys :: "api_key list aprog" where
  "list_api_keys = in_tenant (\<lambda>m d. filter (\<lambda>k. ak_merchant k = m) (ac_keys d))"

definition get_api_key :: "uuid \<Rightarrow> api_key aprog" where
  "get_api_key i = bindM (in_tenant (\<lambda>m d. first (\<lambda>k. ak_merchant k = m \<and> ak_id k = i) (ac_keys d))) (or_raise (App ApiKeyNotFound))"

definition revoke_api_key :: "membership \<Rightarrow> api_key \<Rightarrow> unit aprog" where
  "revoke_api_key actor k = tenant_atomic False (
     bindM (update_keys (\<lambda>q. ak_id q = ak_id k \<and> ak_active q) (\<lambda>q. q\<lparr>ak_active := False\<rparr>)) (\<lambda>n.
       whenM (0 < n) (audit_key ''api_key.revoked'' actor (ak_id k) [])))"

definition authenticate_api_key :: "string \<Rightarrow> api_key aprog" where
  "authenticate_api_key raw = (if \<not> dollar key_shape raw then throw (App InvalidApiKey)
     else let h = hash_key raw in
       bindM (api_key_lookup_atomic h (bindM (for_lookup_hash h) (\<lambda>ks. asks (\<lambda>w. case ks of
           [] \<Rightarrow> None
         | k # _ \<Rightarrow> if ak_active k \<and> merchant_active (db w) (ak_merchant k) then Some k else None))))
         (or_raise (App InvalidApiKey)))"

definition stale_key :: "api_key \<Rightarrow> instant \<Rightarrow> api_key \<Rightarrow> bool" where
  "stale_key k t q \<longleftrightarrow> ak_id q = ak_id k \<and> (case ak_last_used q of None \<Rightarrow> True | Some u \<Rightarrow> u < t - TOUCH_INTERVAL)"

definition touch_last_used :: "api_key \<Rightarrow> unit aprog" where
  "touch_last_used k = tenant_context (Some (ak_merchant k)) (tenant_atomic False (bindM now (\<lambda>t. bindM now (\<lambda>u.
     bindM (update_keys (stale_key k t) (\<lambda>q. q\<lparr>ak_last_used := Some u\<rparr>)) (\<lambda>_. ret ())))))"

subsection \<open>A request with a token\<close>

text \<open>\<open>br_eligible\<close> is what the resolved view declares for the method (\<open>api_key_methods\<close>), \<open>br_allowed\<close> the
  answer of the throttle of the client address.\<close>

record bearer_request = web_request +
  br_authorization :: string
  br_eligible :: bool
  br_allowed :: bool

datatype key_attempt = NoAttempt | KeyThrottled | KeyRefused | KeyAccepted api_key

text \<open>\<open>s.partition(" ")\<close>.\<close>

definition scheme_and_token :: "string \<Rightarrow> string \<times> string" where
  "scheme_and_token s = (takeWhile (\<lambda>c. c \<noteq> CHR 0x20) s, drop 1 (dropWhile (\<lambda>c. c \<noteq> CHR 0x20) s))"

definition authenticate_bearer :: "bool \<Rightarrow> string \<Rightarrow> key_attempt aprog" where
  "authenticate_bearer allowed token = (if \<not> allowed then ret KeyThrottled
     else catchM (bindM (authenticate_api_key token) (\<lambda>k.
         seqM (catchM (touch_last_used k) (\<lambda>e. if database_error e then Some (ret ()) else None)) (ret (KeyAccepted k))))
       (\<lambda>e. if e = App InvalidApiKey then Some (ret KeyRefused) else None))"

definition api_key_middleware :: "bearer_request \<Rightarrow> key_attempt aprog" where
  "api_key_middleware rq = (case scheme_and_token (br_authorization rq) of (scheme, token) \<Rightarrow>
     if py_lower scheme = ''bearer'' \<and> br_eligible rq then authenticate_bearer (br_allowed rq) token else ret NoAttempt)"

text \<open>\<open>request.merchant_id\<close> as \<open>TenantMiddleware\<close> finds it: an attempt drops the merchant of the session.\<close>

definition request_merchant :: "url_table \<Rightarrow> bearer_request \<Rightarrow> key_attempt \<Rightarrow> uuid option" where
  "request_merchant urls rq attempt = (case attempt of
     NoAttempt \<Rightarrow> session_merchant urls (web_request.truncate rq) | KeyAccepted k \<Rightarrow> Some (ak_merchant k) | _ \<Rightarrow> None)"

text \<open>Who the view sees, once the attempt has been judged: \<open>Inl\<close> answers 401 or 429.\<close>

datatype principal = Session_user uuid | Key_principal api_key | Anonymous

definition view_principal :: "key_attempt \<Rightarrow> session \<Rightarrow> aerror + principal" where
  "view_principal attempt s = (case attempt of
     KeyThrottled \<Rightarrow> Inl (App Throttled)
   | KeyRefused \<Rightarrow> Inl (App ApiKeyAuthenticationFailed)
   | KeyAccepted k \<Rightarrow> Inr (Key_principal k)
   | NoAttempt \<Rightarrow> Inr (case ss_user s of None \<Rightarrow> Anonymous | Some u \<Rightarrow> Session_user u))"

text \<open>\<open>HasApiKeyScope\<close>.\<close>

definition has_api_key_scope :: "string \<Rightarrow> principal \<Rightarrow> bool" where
  "has_api_key_scope scope p \<longleftrightarrow> (case p of Key_principal k \<Rightarrow> ak_active k \<and> scope \<in> set (ak_scopes k) | _ \<Rightarrow> False)"

end
