(* ===== verification/AccountSystem.thy ===== *)
theory AccountSystem
  imports ApiKeys
begin

text \<open>
  What the account statements may do to a row, the contract of a frame relation on them, and the frames
  and critical sections of every operation.
\<close>

subsection \<open>What a write may do to a row\<close>

definition user_ok :: "user \<Rightarrow> bool" where
  "user_ok u \<longleftrightarrow> (\<exists>e. us_email u = normalize_email e) \<and> length (us_email u) \<le> 254 \<and>
     (is_totp_enabled u \<longrightarrow> truthy_text (us_totp_secret u)) \<and> (us_codes u \<noteq> [] \<longrightarrow> is_totp_enabled u) \<and>
     list_all (\<lambda>h. length h = 64) (us_codes u)"

definition user_step :: "user \<Rightarrow> user \<Rightarrow> bool" where
  "user_step u u' \<longleftrightarrow> us_id u' = us_id u \<and> us_email u' = us_email u \<and> us_active u' = us_active u \<and> us_staff u' = us_staff u \<and>
     (us_password u \<noteq> None \<longrightarrow> us_password u' = us_password u) \<and> (user_ok u \<longrightarrow> user_ok u')"

definition merchant_step :: "merchant \<Rightarrow> merchant \<Rightarrow> bool" where
  "merchant_step m m' \<longleftrightarrow> mc_id m' = mc_id m \<and> mc_status m' = mc_status m"

definition member_kept :: "membership \<Rightarrow> membership \<Rightarrow> bool" where
  "member_kept r r' \<longleftrightarrow> tm_id r' = tm_id r \<and> tm_user r' = tm_user r \<and> mb_merchant r' = mb_merchant r \<and> (accepted r \<longrightarrow> accepted r')"

definition member_step :: "uuid \<Rightarrow> adb \<Rightarrow> membership \<Rightarrow> membership \<Rightarrow> bool" where
  "member_step m d r r' \<longleftrightarrow> member_kept r r' \<and> (tm_role r' = tm_role r \<or> \<not> accepted r \<or> \<not> would_orphan_owners r m d)"

definition key_step :: "api_key \<Rightarrow> api_key \<Rightarrow> bool" where
  "key_step k k' \<longleftrightarrow> ak_id k' = ak_id k \<and> ak_merchant k' = ak_merchant k \<and> ak_hash k' = ak_hash k \<and> ak_scopes k' = ak_scopes k \<and>
     (ak_active k' \<longrightarrow> ak_active k)"

definition key_ok :: "api_key \<Rightarrow> bool" where
  "key_ok k \<longleftrightarrow> length (ak_hash k) = 64 \<and> ak_scopes k \<noteq> [] \<and> distinct (ak_scopes k) \<and> set (ak_scopes k) \<subseteq> set SCOPES"

text \<open>A user who has just been created has no second factor.\<close>

definition plain_user :: "user \<Rightarrow> bool" where
  "plain_user u \<longleftrightarrow> user_ok u \<and> \<not> is_totp_enabled u"

lemma unique_members_find:
  assumes "unique_members d" "r \<in> set (ac_members d)" "find_member d m (tm_id r) = Some r'"
  shows "r' = r"
proof -
  from find_memberD [OF assms(3)] have "r' \<in> set (ac_members d)" "tm_id r' = tm_id r" by blast+
  with assms(1,2) show ?thesis unfolding unique_members_def distinct_map inj_on_def by blast
qed

subsection \<open>The contract\<close>

locale account_frame = db_frame R for R :: "adb \<Rightarrow> adb \<Rightarrow> bool" +
  fixes G :: "ctxvars \<Rightarrow> bool"
  assumes R_new_user: "G c \<Longrightarrow> plain_user u \<Longrightarrow> \<not> list_ex (\<lambda>q. us_id q = us_id u) (ac_users d) \<Longrightarrow>
      \<not> list_ex (\<lambda>q. us_email q = us_email u) (ac_users d) \<Longrightarrow> R d (d\<lparr>ac_users := ac_users d @ [u]\<rparr>)"
    and R_new_merchant: "G c \<Longrightarrow> \<not> list_ex (\<lambda>q. mc_id q = mc_id x) (ac_merchants d) \<Longrightarrow> R d (d\<lparr>ac_merchants := ac_merchants d @ [x]\<rparr>)"
    and R_new_member: "G c \<Longrightarrow> merchant_var c = Some (mb_merchant r) \<Longrightarrow> \<not> list_ex (\<lambda>q. tm_id q = tm_id r) (ac_members d) \<Longrightarrow>
      \<not> list_ex (\<lambda>q. mb_merchant q = mb_merchant r \<and> tm_user q = tm_user r) (ac_members d) \<Longrightarrow> R d (d\<lparr>ac_members := ac_members d @ [r]\<rparr>)"
    and R_new_assignment: "G c \<Longrightarrow> merchant_var c = Some (as_merchant a) \<Longrightarrow>
      \<not> list_ex (\<lambda>q. as_member q = as_member a \<and> as_location q = as_location a) (ac_assigned d) \<Longrightarrow> R d (d\<lparr>ac_assigned := ac_assigned d @ [a]\<rparr>)"
    and R_new_key: "G c \<Longrightarrow> merchant_var c = Some (ak_merchant k) \<Longrightarrow> key_ok k \<Longrightarrow> \<not> list_ex (\<lambda>q. ak_id q = ak_id k) (ac_keys d) \<Longrightarrow>
      \<not> list_ex (\<lambda>q. ak_hash q = ak_hash k) (ac_keys d) \<Longrightarrow> R d (d\<lparr>ac_keys := ac_keys d @ [k]\<rparr>)"
    and R_new_log: "G c \<Longrightarrow> al_merchant l = None \<or> al_merchant l = merchant_var c \<Longrightarrow> R d (d\<lparr>ac_audit := ac_audit d @ [l]\<rparr>)"
    and R_user: "G c \<Longrightarrow> find_user d i = Some u \<Longrightarrow> user_step u (f1 u) \<Longrightarrow> R d (d\<lparr>ac_users := update_first (\<lambda>x. us_id x = i) f1 (ac_users d)\<rparr>)"
    and R_merchant: "G c \<Longrightarrow> find_merchant d i = Some x \<Longrightarrow> merchant_step x (f2 x) \<Longrightarrow>
      R d (d\<lparr>ac_merchants := update_first (\<lambda>x. mc_id x = i) f2 (ac_merchants d)\<rparr>)"
    and R_member: "G c \<Longrightarrow> merchant_var c = Some m \<Longrightarrow> find_member d m i = Some r \<Longrightarrow> (unique_members d \<Longrightarrow> member_step m d r (f3 r)) \<Longrightarrow>
      member_kept r (f3 r) \<Longrightarrow> R d (update_member_row m i f3 d)"
    and R_delete_member: "G c \<Longrightarrow> merchant_var c = Some m \<Longrightarrow> find_member d m i = Some r \<Longrightarrow> \<not> would_orphan_owners r m d \<Longrightarrow>
      R d (without_member m i d)"
    and R_delete_assignments: "G c \<Longrightarrow> merchant_var c = Some m \<Longrightarrow>
      R d (d\<lparr>ac_assigned := filter (\<lambda>a. \<not> (as_merchant a = m \<and> P4 a)) (ac_assigned d)\<rparr>)"
    and R_keys: "G c \<Longrightarrow> merchant_var c = Some m \<Longrightarrow> (\<And>k. key_step k (f5 k)) \<Longrightarrow>
      R d (d\<lparr>ac_keys := map_if (\<lambda>k. ak_merchant k = m \<and> P5 k) f5 (ac_keys d)\<rparr>)"
begin

subsection \<open>Statements\<close>

lemma frames_draw [frame_intros]: "frames R H draw"
  by (rule frames_pure) (simp add: draw_def Let_def)

lemma frames_for_lookup [frame_intros]: "frames R H (for_lookup_user u)" "frames R H (for_lookup_hash h)"
  by (rule frames_pure, simp add: for_lookup_user_def for_lookup_hash_def Let_def)+

lemma frames_insert_user: "plain_user u \<or> 254 < length (us_email u) \<Longrightarrow> frames R G (insert_user u)"
  unfolding insert_user_def by (rule frames_waited) (auto simp: R_refl R_new_user split: if_splits)

lemma frames_insert_merchant [frame_intros]: "frames R G (insert_merchant m)"
  unfolding insert_merchant_def by (rule frames_waited) (auto simp: R_refl R_new_merchant split: if_splits)

lemma frames_insert_member [frame_intros]: "frames R G (insert_member r)"
  unfolding insert_member_def by (rule frames_tenant_insert) (auto simp: R_refl R_new_member split: if_splits)

lemma frames_insert_assignment [frame_intros]: "frames R G (insert_assignment a)"
  unfolding insert_assignment_def by (rule frames_tenant_insert) (auto simp: R_refl R_new_assignment split: if_splits)

lemma frames_insert_key: "key_ok k \<Longrightarrow> frames R G (insert_key k)"
  unfolding insert_key_def by (rule frames_tenant_insert) (auto simp: R_refl R_new_key split: if_splits)

lemma frames_tenant_modify:
  assumes "\<And>c m d. G c \<Longrightarrow> merchant_var c = Some m \<Longrightarrow> R d (g m d)"
  shows "frames R G (bindM (in_tenant (\<lambda>m d. m)) (\<lambda>m. modifyM (\<lambda>w :: account_world. w\<lparr>db := g m (db w)\<rparr>)))"
  by (rule framesI) (use assms in \<open>auto simp: run_bind in_tenant_def saves_refl R_refl split: option.splits\<close>)

lemma frames_delete_assignments [frame_intros]: "frames R G (delete_assignments P)"
  unfolding delete_assignments_def by (rule frames_tenant_modify) (rule R_delete_assignments)

lemma frames_update_keys:
  assumes "\<And>k. key_step k (f k)"
  shows "frames R G (update_keys P f)"
  unfolding update_keys_def
  by (rule framesI) (use R_keys assms in \<open>auto simp: run_bind run_seq in_tenant_def saves_refl R_refl split: option.splits\<close>)

lemma frames_save_merchant: "(\<And>x. merchant_step x (f x)) \<Longrightarrow> frames R G (save_merchant i f)"
  unfolding save_merchant_def
  by (intro frames_bind frames_now, rule framesI)
    (auto simp: saves_refl R_refl merchant_step_def intro!: R_merchant split: if_splits)

lemma frames_add_log: "al_merchant l = None \<or> al_merchant l = m \<Longrightarrow> frames R (\<lambda>c. G c \<and> merchant_var c = m) (add_log l)"
  unfolding add_log_def by (rule frames_modify) (auto intro: R_new_log)

lemma frames_record_action [frame_intros]: "frames R G (record_action a u k i md)"
proof -
  have "frames R G (bindM (in_tenant (\<lambda>m d. (m, is_member d m u))) (\<lambda>(m, ok).
       if \<not> ok then throw ActorNotMember else add_log (log_row (Some m) a (Some u) k i md)))"
    by (rule framesI)
      (auto simp: run_bind in_tenant_def add_log_def saves_refl R_refl log_row_def intro!: R_new_log split: option.splits if_splits)
  then show ?thesis unfolding record_action_def by (rule frames_tenant_atomic)
qed

lemma frames_record_platform [frame_intros]: "frames R G (record_platform a u k i md)"
  by (rule framesI) (auto simp: record_platform_def add_log_def log_row_def saves_refl R_refl intro!: R_new_log split: if_splits)

subsection \<open>Statements of sections\<close>

lemma sect_draw [sect_intros]: "sect R G P draw (\<lambda>_. P)"
  by (rule sect_calm) (auto simp: draw_def)

lemma sect_save_user:
  assumes "\<And>c d u. P c d \<Longrightarrow> find_user d i = Some u \<Longrightarrow> user_step u (f u)"
  shows "sect R G P (save_user i f) (\<lambda>_ c d. \<exists>d0 u. P c d0 \<and> find_user d0 i = Some u \<and>
    d = d0\<lparr>ac_users := update_first (\<lambda>u. us_id u = i) f (ac_users d0)\<rparr>)"
proof (rule sectI)
  fix w r w'
  assume g: "G (ctx w)" "P (ctx w) (db w)" and run: "save_user i f w = (r, w')"
  show "ctx w' = ctx w \<and> env w' = env w \<and> R (db w) (db w') \<and> list_all2 R (saves w) (saves w') \<and> (quiet w \<longrightarrow> saves w' = saves w) \<and>
     (\<forall>a. r = Inr a \<longrightarrow> (\<exists>d0 u. P (ctx w') d0 \<and> find_user d0 i = Some u \<and>
       db w' = d0\<lparr>ac_users := update_first (\<lambda>u. us_id u = i) f (ac_users d0)\<rparr>))"
  proof (cases "find_user (db w) i")
    case None
    with run show ?thesis by (auto simp: save_user_def R_refl saves_refl)
  next
    case (Some u)
    have w': "r = Inr ()" "w' = w\<lparr>db := (db w)\<lparr>ac_users := update_first (\<lambda>u. us_id u = i) f (ac_users (db w))\<rparr>\<rparr>"
      using run Some by (auto simp: save_user_def)
    show ?thesis using R_user [where ?f1.0 = f, OF g(1) Some assms [OF g(2) Some]] g(2) Some unfolding w' by (auto simp: saves_refl)
  qed
qed

lemma sect_save_member:
  assumes "\<And>c d m r t. P c d \<Longrightarrow> merchant_var c = Some m \<Longrightarrow> find_member d m i = Some r \<Longrightarrow> member_kept r ((f r)\<lparr>mb_updated_at := t\<rparr>)"
    and "\<And>c d m r t. P c d \<Longrightarrow> merchant_var c = Some m \<Longrightarrow> find_member d m i = Some r \<Longrightarrow> unique_members d \<Longrightarrow>
      member_step m d r ((f r)\<lparr>mb_updated_at := t\<rparr>)"
  shows "sect R G P (save_member i f) (\<lambda>_ _ _. True)"
proof (rule sectI)
  fix w r w'
  assume g: "G (ctx w)" "P (ctx w) (db w)" and run: "save_member i f w = (r, w')"
  show "ctx w' = ctx w \<and> env w' = env w \<and> R (db w) (db w') \<and> list_all2 R (saves w) (saves w') \<and> (quiet w \<longrightarrow> saves w' = saves w) \<and>
     (\<forall>a. r = Inr a \<longrightarrow> True)"
  proof (cases "merchant_var (ctx w)")
    case None
    with run show ?thesis by (auto simp: save_member_def run_bind now_def in_tenant_def tick_def R_refl saves_refl)
  next
    case (Some m)
    show ?thesis
    proof (cases "find_member (db w) m i")
      case None
      with run Some show ?thesis by (auto simp: save_member_def run_bind now_def in_tenant_def tick_def R_refl saves_refl)
    next
      case (Some x)
      let ?t = "clock w (ticks w)"
      have "w' = (tick w)\<lparr>db := update_member_row m i (\<lambda>r. (f r)\<lparr>mb_updated_at := ?t\<rparr>) (db w)\<rparr>"
        using run Some \<open>merchant_var (ctx w) = Some m\<close> by (auto simp: save_member_def run_bind now_def in_tenant_def tick_def)
      moreover have "R (db w) (update_member_row m i (\<lambda>r. (f r)\<lparr>mb_updated_at := ?t\<rparr>) (db w))"
        using R_member [where ?f3.0 = "\<lambda>r. (f r)\<lparr>mb_updated_at := ?t\<rparr>", OF g(1) \<open>merchant_var (ctx w) = Some m\<close> Some]
          assms [OF g(2) \<open>merchant_var (ctx w) = Some m\<close> Some] by blast
      ultimately show ?thesis by (simp add: saves_refl tick_def)
    qed
  qed
qed

lemma frames_save_member:
  assumes "\<And>r t. member_kept r ((f r)\<lparr>mb_updated_at := t\<rparr>)" "\<And>r. tm_role (f r) = tm_role r"
  shows "sect R G P (save_member i f) (\<lambda>_ _ _. True)"
  by (rule sect_save_member) (use assms in \<open>simp_all add: member_step_def\<close>)

lemma sect_delete_member:
  assumes "\<And>c d m. P c d \<Longrightarrow> merchant_var c = Some m \<Longrightarrow> \<exists>r. find_member d m i = Some r \<and> \<not> would_orphan_owners r m d"
  shows "sect R G P (delete_member i) (\<lambda>_ _ _. True)"
proof (rule sectI)
  fix w r w'
  assume g: "G (ctx w)" "P (ctx w) (db w)" and run: "delete_member i w = (r, w')"
  show "ctx w' = ctx w \<and> env w' = env w \<and> R (db w) (db w') \<and> list_all2 R (saves w) (saves w') \<and> (quiet w \<longrightarrow> saves w' = saves w) \<and>
     (\<forall>a. r = Inr a \<longrightarrow> True)"
  proof (cases "merchant_var (ctx w)")
    case None
    with run show ?thesis by (auto simp: delete_member_def run_bind in_tenant_def R_refl saves_refl)
  next
    case (Some m)
    from assms [OF g(2) Some] obtain x where "find_member (db w) m i = Some x" "\<not> would_orphan_owners x m (db w)" by blast
    from R_delete_member [OF g(1) Some this] run Some
    show ?thesis by (auto simp: delete_member_def run_bind in_tenant_def saves_refl)
  qed
qed

text \<open>An audit row changes nothing the section knows, unless it is about the audit log.\<close>

lemma sect_record_action:
  assumes "\<And>c d l. P c d \<Longrightarrow> P c (d\<lparr>ac_audit := ac_audit d @ [l]\<rparr>)"
  shows "sect R G P (record_action a u k i md) (\<lambda>_. P)"
proof (rule sectI)
  fix w r w'
  assume g: "G (ctx w)" "rely R w" "saves w \<noteq> []" "P (ctx w) (db w)" and run: "record_action a u k i md w = (r, w')"
  from framesD [OF frames_record_action g(1,2) run]
  have fr: "ctx w' = ctx w" "env w' = env w" "R (db w) (db w')" "list_all2 R (saves w) (saves w')" "quiet w \<longrightarrow> saves w' = saves w" by blast+
  moreover have "P (ctx w') (db w')" if "r = Inr x" for x
    using run that g(3,4) assms [OF g(4)]
    by (auto simp: record_action_def tenant_atomic_def atomic_def begin_block_def commit_block_def run_seq run_bind set_local_def
        in_tenant_def add_log_def split: option.splits if_splits)
  ultimately show "ctx w' = ctx w \<and> env w' = env w \<and> R (db w) (db w') \<and> list_all2 R (saves w) (saves w') \<and> (quiet w \<longrightarrow> saves w' = saves w) \<and>
     (\<forall>x. r = Inr x \<longrightarrow> P (ctx w') (db w'))" by (intro conjI allI impI) blast+
qed

end

text \<open>
  The account applications as the set of their entries (login requests, team management, enrolment, the
  admin site, API keys), each a thread of a \<open>history\<close>, and that every entry respects a frame relation.
\<close>

subsection \<open>Entries\<close>

datatype account_entry =
    SignUp string string string string "string option"
  | LogIn session string string
  | LogInTotp session string
  | AdminLogIn bool session string string string
  | StaffRead user uuid string
  | AcceptInvite string string
  | Invite uuid membership string role
  | ChangeRole uuid membership uuid role
  | Revoke uuid membership uuid
  | AssignLocations uuid membership uuid "uuid list"
  | ChangeMerchant uuid merchant merchant_changes
  | TotpSetup uuid uuid string
  | TotpConfirm uuid uuid string
  | TotpDisable uuid uuid string string
  | StaffTotpSetup uuid
  | StaffTotpConfirm uuid string
  | NewKey uuid membership json
  | RevokeKey uuid membership uuid
  | KeyRequest bearer_request

abbreviation account_request :: "uuid \<Rightarrow> 'a aprog \<Rightarrow> unit aprog" where
  "account_request m p \<equiv> tenant_middleware m (answered p)"

definition run_account :: "account_entry \<Rightarrow> unit aprog" where
  "run_account entry = (case entry of
     SignUp name tz email password kind \<Rightarrow> answered (create_merchant_with_owner name tz email password kind)
   | LogIn s email password \<Rightarrow> answered (login_post s email password)
   | LogInTotp s code \<Rightarrow> answered (login_totp_post s code)
   | AdminLogIn allowed s email password code \<Rightarrow> answered (admin_login_post allowed s email password code)
   | StaffRead u m resource \<Rightarrow> answered (staff_merchant_read u m resource (\<lambda>_. ret ()))
   | AcceptInvite token password \<Rightarrow> answered (accept_invite token password)
   | Invite m actor email role \<Rightarrow> account_request m (invite_team_member actor email role)
   | ChangeRole m actor i role \<Rightarrow> account_request m (change_team_member_role actor i role)
   | Revoke m actor i \<Rightarrow> account_request m (revoke_team_member actor i)
   | AssignLocations m actor i ls \<Rightarrow> account_request m (set_team_member_locations actor i ls)
   | ChangeMerchant m mc c \<Rightarrow> account_request m (update_merchant mc c)
   | TotpSetup m u password \<Rightarrow> account_request m (begin_totp_setup u password)
   | TotpConfirm m u code \<Rightarrow> account_request m (confirm_totp_setup u code)
   | TotpDisable m u password code \<Rightarrow> account_request m (disable_totp u password code)
   | StaffTotpSetup u \<Rightarrow> answered (begin_staff_totp_setup u)
   | StaffTotpConfirm u code \<Rightarrow> answered (confirm_staff_totp_setup u code)
   | NewKey m actor scopes \<Rightarrow> account_request m (create_api_key actor scopes)
   | RevokeKey m actor i \<Rightarrow> account_request m (bindM (get_api_key i) (revoke_api_key actor))
   | KeyRequest rq \<Rightarrow> answered (api_key_middleware rq))"

text \<open>The merchant whose session or staff page an entry comes from.\<close>

fun account_merchant :: "account_entry \<Rightarrow> uuid option" where
  "account_merchant (Invite m _ _ _) = Some m"
| "account_merchant (ChangeRole m _ _ _) = Some m"
| "account_merchant (Revoke m _ _) = Some m"
| "account_merchant (AssignLocations m _ _ _) = Some m"
| "account_merchant (ChangeMerchant m _ _) = Some m"
| "account_merchant (TotpSetup m _ _) = Some m"
| "account_merchant (TotpConfirm m _ _) = Some m"
| "account_merchant (TotpDisable m _ _ _) = Some m"
| "account_merchant (NewKey m _ _) = Some m"
| "account_merchant (RevokeKey m _ _) = Some m"
| "account_merchant _ = None"

subsection \<open>Facts about rows\<close>

lemma hash_recovery_length [simp]: "length (hash_recovery_code c) = 64"
  by (simp add: hash_recovery_code_def)

lemma hash_key_length [simp]: "length (hash_key raw) = 64"
  by (simp add: hash_key_def)

lemma new_user_ok: "length (normalize_email e) \<le> 254 \<Longrightarrow> plain_user (new_user i (normalize_email e) p)"
  by (auto simp: plain_user_def user_ok_def new_user_def is_totp_enabled_def)

lemma find_user_updated:
  assumes "find_user d i = Some u" "us_id (f u) = us_id u"
  shows "find_user (d\<lparr>ac_users := update_first (\<lambda>u. us_id u = i) f (ac_users d)\<rparr>) i = Some (f u)"
  using first_update_first [OF assms(1), of f] first_SomeD [OF assms(1)] assms(2) by simp

lemma step_use_step: "user_step u (use_step s u)"
  by (auto simp: user_step_def user_ok_def use_step_def is_totp_enabled_def)

lemma use_step_id [simp]: "us_id (use_step s u) = us_id u" "us_totp_secret (use_step s u) = us_totp_secret u"
  by (simp_all add: use_step_def)

lemma step_use_codes: "set cs \<subseteq> set (us_codes u) \<Longrightarrow> user_step u (u\<lparr>us_codes := cs\<rparr>)"
  by (auto simp: user_step_def user_ok_def is_totp_enabled_def list_all_iff)

lemma step_no_factor: "user_step u (no_factor u)"
  by (auto simp: user_step_def user_ok_def no_factor_def is_totp_enabled_def)

lemma validated_scopes:
  assumes "validate_scopes j = Inr ss"
  shows "ss \<noteq> [] \<and> distinct ss \<and> set ss \<subseteq> set SCOPES"
proof -
  from assms obtain xs where x: "xs \<noteq> []" "list_all (\<lambda>x. case as_str x of None \<Rightarrow> False | Some s \<Rightarrow> s \<in> set SCOPES) xs" "distinct xs"
    "ss = map (\<lambda>x. the (as_str x)) xs"
    by (auto simp: validate_scopes_def split: json.splits if_splits)
  have str: "\<exists>s. x = JStr s \<and> s \<in> set SCOPES" if "x \<in> set xs" for x
    using x(2) that by (auto simp: list_all_iff split: option.splits)
  have "inj_on (\<lambda>x. the (as_str x)) (set xs)"
  proof (rule inj_onI)
    fix x y assume "x \<in> set xs" "y \<in> set xs" "the (as_str x) = the (as_str y)"
    moreover from this obtain sx sy where "x = JStr sx" "y = JStr sy" using str by blast
    ultimately show "x = y" by simp
  qed
  then have "distinct ss" using x(3,4) by (simp add: distinct_map)
  moreover have "set ss \<subseteq> set SCOPES" using str x(4) by fastforce
  ultimately show ?thesis using x(1,4) by simp
qed

subsection \<open>Frames of the operations\<close>

context account_frame
begin

lemma frames_lookups [frame_intros]:
  "frames R H (resolve_login_membership u)" "frames R H (invited_merchant i j)"
  unfolding resolve_login_membership_def invited_merchant_def user_lookup_atomic_def
  by (intro frames_lookup_atomic [where G' = "\<lambda>_. True"] frame_intros, simp_all)+

lemma frames_create_user [frame_intros]: "frames R G (create_user email p)"
proof -
  have "frames R G (insert_user (new_user i (normalize_email email) q))" for i q
  proof (rule frames_insert_user)
    show "plain_user (new_user i (normalize_email email) q) \<or> 254 < length (us_email (new_user i (normalize_email email) q))"
      using new_user_ok [of email i q] by (cases "length (normalize_email email) \<le> 254") (simp_all add: new_user_def)
  qed
  note frame_intros = frame_intros this
  show ?thesis unfolding create_user_def prepare_user_def encoded_password_def bind_assoc bind_ret by (intro frame_intros)
qed

lemma frames_checks [frame_intros]:
  "frames R H (check_timezone_name tz)" "frames R H (email_known e)" "frames R H (member_user r)"
  unfolding check_timezone_name_def email_known_def member_user_def by (intro frame_intros)+

lemma frames_validate_password [frame_intros]: "frames R H (validate_password p e)"
  unfolding validate_password_def by (intro frames_bind frames_asks) (auto intro: frames_ret frames_throw split: list.split)

lemma frames_sign_up:
  assumes "\<And>c m. G (c\<lparr>merchant_var := Some m\<rparr>)"
  shows "frames R (\<lambda>_. True) (create_merchant_with_owner name tz email password kind)"
proof -
  have tx: "frames R (\<lambda>_. True) (tenant_context (Some mid) (tenant_atomic False p))" if "frames R G p" for mid p
    by (rule frames_tenant_context [where G' = G]) (intro frames_tenant_atomic that, simp add: assms)
  have "frames R G (create_user (normalize_email email) (Some password))" by (rule frames_create_user)
  then show ?thesis
    unfolding create_merchant_with_owner_def Let_def
    by (intro frame_intros tx) (auto intro!: frame_intros split: if_splits)
qed

lemma frames_update_merchant [frame_intros]: "frames R G (update_merchant m c)"
  unfolding update_merchant_def
  by (intro frame_intros frames_save_merchant) (simp add: merchant_step_def changed_merchant_def)

lemma frames_lock_team [frame_intros]: "frames R H (lock_team a)"
  unfolding lock_team_def by (intro frame_intros)

lemma sect_lock_target [sect_intros]:
  "sect R G P (lock_target i) (\<lambda>r c d. (\<exists>m. merchant_var c = Some m \<and> find_member d m i = Some r) \<and> P c d)"
  unfolding lock_target_def
  by (rule sect_bind [OF sect_in_tenant], rule sect_post [OF sect_or_raise]) auto

lemma frames_invite [frame_intros]: "frames R G (invite_team_member actor email role)"
proof -
  have user: "frames R G (user_for_invite e)" for e
  proof -
    have "frames R G (insert_user u)" if "u = new_user i (normalize_email e) q" for u i q
      using frames_insert_user [of u] new_user_ok [of e i q] that
      by (cases "length (normalize_email e) \<le> 254") (simp_all add: new_user_def)
    then show ?thesis
      unfolding user_for_invite_def prepare_user_def encoded_password_def bind_assoc bind_ret
      by (intro frame_intros) auto
  qed
  have member: "sect R G (\<lambda>_ _. True) (member_for_invite u role) (\<lambda>_ _ _. True)" for u
  proof -
    have old: "sect R G (\<lambda>c d. \<exists>m. merchant_var c = Some m \<and> first (\<lambda>r. mb_merchant r = m \<and> tm_user r = us_id u) (ac_members d) = Some r)
        (reinvite r role t) (\<lambda>_ _ _. True)" for r t
      unfolding reinvite_def
    proof (intro sect_if sect_throw sect_seq [OF sect_save_member])
      fix c d m x t'
      assume a: "\<exists>m. merchant_var c = Some m \<and> first (\<lambda>r. mb_merchant r = m \<and> tm_user r = us_id u) (ac_members d) = Some r"
        and f: "merchant_var c = Some m" "find_member d m (tm_id r) = Some x"
      show "member_kept x ((x\<lparr>tm_role := role, mb_invited_at := Some t\<rparr>)\<lparr>mb_updated_at := t'\<rparr>)"
        by (simp add: member_kept_def accepted_def)
      assume "\<not> accepted r" "unique_members d"
      then show "member_step m d x ((x\<lparr>tm_role := role, mb_invited_at := Some t\<rparr>)\<lparr>mb_updated_at := t'\<rparr>)"
        using a f unique_members_find [of d r m x] by (auto simp: member_step_def member_kept_def accepted_def dest!: first_SomeD)
    qed (rule sect_of_frames [OF frames_ret])
    have "sect R G (\<lambda>_ _. True) (bindM (bindM (in_tenant (\<lambda>m d. first (\<lambda>r. mb_merchant r = m \<and> tm_user r = us_id u) (ac_members d)))
        (or_raise DoesNotExist)) (\<lambda>old. reinvite old role t)) (\<lambda>_ _ _. True)" for t
      by (intro sect_bind [OF _ old] sect_bind [OF sect_in_tenant], rule sect_post [OF sect_or_raise]) auto
    note ready = this
    show ?thesis
      unfolding member_for_invite_def Let_def
      by (rule sect_bind [OF sect_of_frames [OF frames_now]], rule sect_bind [OF sect_of_frames [OF frames_in_tenant_read]],
          rule sect_bind [OF sect_of_frames [OF frames_draw]], rule sect_bind [OF sect_of_frames [OF frames_now]],
          rule sect_bind [OF sect_of_frames [OF frames_created_or_taken [OF frames_insert_member]]], rule sect_if,
          rule sect_of_frames [OF frames_ret], rule ready)
  qed
  show ?thesis
    unfolding invite_team_member_def Let_def make_invite_token_def audit_member_def
    by (rule frames_tx_end, intro sect_bind [OF member] sect_bind [OF sect_of_frames] sect_seq [OF sect_of_frames]
        sect_of_frames user frame_intros)
qed

lemma frames_change_role [frame_intros]: "frames R G (change_team_member_role actor i role)"
proof -
  have assign: "sect R G (\<lambda>_ _. True) (assign_role a i role) (\<lambda>_ _ _. True)" for a
  proof -
    have save: "sect R G (\<lambda>c d. (\<exists>m. merchant_var c = Some m \<and> orphan = would_orphan_owners r m d) \<and>
          (\<exists>m. merchant_var c = Some m \<and> find_member d m i = Some r))
        (save_member (tm_id r) (\<lambda>x. x\<lparr>tm_role := role\<rparr>)) (\<lambda>_ _ _. True)"
      if "tm_role r \<noteq> role" "\<not> (tm_role r = OWNER \<and> role \<noteq> OWNER \<and> orphan)" for r orphan
    proof (rule sect_save_member)
      fix c d m x t
      assume a: "(\<exists>m. merchant_var c = Some m \<and> orphan = would_orphan_owners r m d) \<and> (\<exists>m. merchant_var c = Some m \<and> find_member d m i = Some r)"
        and f: "merchant_var c = Some m" "find_member d m (tm_id r) = Some x"
      show k: "member_kept x ((x\<lparr>tm_role := role\<rparr>)\<lparr>mb_updated_at := t\<rparr>)" by (simp add: member_kept_def accepted_def)
      assume u: "unique_members d"
      have r: "find_member d m i = Some r" and o: "orphan = would_orphan_owners r m d" using a f(1) by auto
      from find_memberD [OF r] have "x = r" using unique_members_find [OF u _ f(2)] by blast
      moreover have "\<not> would_orphan_owners r m d" using that o by (auto simp: would_orphan_owners_def)
      ultimately show "member_step m d x ((x\<lparr>tm_role := role\<rparr>)\<lparr>mb_updated_at := t\<rparr>)" using k by (simp add: member_step_def)
    qed
    show ?thesis unfolding assign_role_def
      by (rule sect_bind [OF sect_lock_target], intro sect_seq [OF sect_post [OF sect_liftE]] sect_if sect_bind [OF sect_in_tenant]
          sect_seq [OF sect_pre [OF save]] sect_throw sect_of_frames [OF frames_ret]) auto
  qed
  have after: "frames R G (after_role_change a role r old)" for a r old
    unfolding after_role_change_def audit_member_def by (intro frame_intros)
  show ?thesis unfolding change_team_member_role_def
    by (rule frames_tx_end, intro sect_bind [OF assign] sect_bind [OF sect_of_frames] sect_case_prod sect_of_frames after frame_intros)
qed

lemma frames_revoke [frame_intros]: "frames R G (revoke_team_member actor i)"
proof -
  define K where "K = (\<lambda>r (c :: ctxvars) d. \<exists>m. merchant_var c = Some m \<and> find_member d m i = Some r)"
  have del: "sect R G (\<lambda>c d. (\<exists>m. merchant_var c = Some m \<and> orphan = would_orphan_owners r m d) \<and> K r c d) (delete_member (tm_id r)) (\<lambda>_ _ _. True)"
    if "\<not> orphan" for r orphan
    by (rule sect_delete_member) (use that in \<open>auto simp: K_def dest: find_memberD\<close>)
  have "sect R G (K r) (seqM (liftE x) (bindM (in_tenant (would_orphan_owners r)) (\<lambda>orphan. if orphan then throw (App LastOwner)
      else seqM (record_action act u k j md) (delete_member (tm_id r))))) (\<lambda>_ _ _. True)" for r x act u k j md
    by (rule sect_seq [where Q = "K r", OF sect_post [OF sect_liftE]], simp, rule sect_bind [OF sect_in_tenant], rule sect_if, rule sect_throw,
        rule sect_seq [OF sect_record_action del])
      (auto simp: K_def find_member_def would_orphan_owners_def)
  then have "sect R G (\<lambda>_ _. True) (remove_member a i) (\<lambda>_ _ _. True)" for a
    unfolding remove_member_def audit_member_def
    by (intro sect_bind [where Q = K, OF sect_post [OF sect_lock_target]]) (simp add: K_def)
  then show ?thesis unfolding revoke_team_member_def
    by (intro frames_tx_end sect_bind [OF sect_of_frames] frame_intros)
qed

lemma frames_set_locations [frame_intros]: "frames R G (set_team_member_locations actor i ls)"
  unfolding set_team_member_locations_def lock_target_def member_same_merchant_def replace_assignments_def audit_member_def
  by (intro frame_intros)

subsection \<open>Invitations and second factors\<close>

lemma sect_encoded_password: "sect R G P (encoded_password p) (\<lambda>_. P)"
  unfolding encoded_password_def
  by (rule sect_bind [OF sect_asks_any], rule sect_bind [OF sect_draw], rule sect_post [OF sect_ret]) simp

lemma sect_validate_password: "sect R G P (validate_password p e) (\<lambda>_. P)"
  unfolding validate_password_def
  by (rule sect_bind [OF sect_asks_any]) (auto intro: sect_throw sect_post [OF sect_ret] split: list.split)

lemma sect_find_user:
  "sect R G P (bindM (asks (\<lambda>w. find_user (db w) i)) (or_raise e)) (\<lambda>u c d. find_user d i = Some u \<and> P c d)"
  by (rule sect_bind [OF sect_asks_db], rule sect_post [OF sect_or_raise]) auto

lemma sect_lock_user [sect_intros]: "sect R G P (lock_user i) (\<lambda>u c d. find_user d i = Some u)"
  unfolding lock_user_def
  by (rule sect_seq [OF sect_of_frames [OF frames_wait]], rule sect_post [OF sect_find_user]) simp

lemma sect_check_or_set_password: "sect R G P (check_or_set_password i password) (\<lambda>_ _ _. True)"
proof -
  have save: "sect R G (\<lambda>c d. find_user d i = Some u \<and> P c d) (save_user i (\<lambda>x. x\<lparr>us_password := p\<rparr>)) (\<lambda>_ _ _. True)"
    if "us_password u = None" for u p
    by (rule sect_post [OF sect_save_user]) (use that in \<open>auto simp: user_step_def user_ok_def is_totp_enabled_def\<close>)
  show ?thesis
    unfolding check_or_set_password_def
    by (rule sect_bind [OF sect_find_user], rule sect_bind [OF sect_asks_any], rule sect_case_option, rule sect_seq [OF sect_validate_password],
        rule sect_bind [OF sect_encoded_password], rule sect_seq [OF save], assumption, rule sect_of_frames [OF frames_ret])
      (intro sect_if sect_of_frames frame_intros)
qed

lemma frames_accept_invite:
  assumes "\<And>c m. G (c\<lparr>merchant_var := Some m\<rparr>)"
  shows "frames R (\<lambda>_. True) (accept_invite token password)"
proof -
  have accepted: "sect R G P (save_member i (\<lambda>x. x\<lparr>mb_accepted_at := Some t\<rparr>)) (\<lambda>_ _ _. True)" for P i t
    by (rule frames_save_member) (simp_all add: member_kept_def accepted_def)
  have "sect R G (\<lambda>_ _. True) (accept_locked m i j iat password) (\<lambda>_ _ _. True)" for m i j iat
    unfolding accept_locked_def
    by (rule sect_seq [OF sect_of_frames [OF frames_take_row_lock]], rule sect_bind [OF sect_of_frames [OF frames_asks]], rule sect_if,
        rule sect_of_frames [OF frames_throw], rule sect_bind [OF sect_of_frames [OF frames_in_tenant_read]], rule sect_case_option,
        rule sect_of_frames [OF frames_throw], rule sect_if, rule sect_of_frames [OF frames_throw], rule sect_seq [OF sect_of_frames [OF frames_wait]],
        rule sect_bind [OF sect_check_or_set_password], rule sect_bind [OF sect_of_frames [OF frames_now]], rule sect_seq [OF accepted],
        rule sect_of_frames [OF frames_record_action])
  then have "frames R (\<lambda>_. True) (tenant_context (Some m) (tenant_atomic False (accept_locked m i j iat password)))" for m i j iat
    by (intro frames_tenant_context [where G' = G] frames_tx_end) (simp_all add: assms)
  note frame_intros = frame_intros this
  have "frames R (\<lambda>_. True) (read_invite token)"
    unfolding read_invite_def by (intro frames_bind frames_asks frames_now) (auto intro: frames_ret frames_throw split: sum.split)
  then show ?thesis unfolding accept_invite_def by (intro frame_intros)
qed

lemma sect_verify_totp:
  assumes "us_id u = i"
  shows "sect R G (\<lambda>c d. find_user d i = Some u) (verify_totp u code t)
    (\<lambda>v c d. case v of None \<Rightarrow> find_user d i = Some u | Some u' \<Rightarrow> \<exists>s. u' = use_step s u \<and> find_user d i = Some u')"
proof -
  have save: "sect R G (\<lambda>c d. r = Inr x \<and> find_user d i = Some u) (save_user i (use_step s)) (\<lambda>_ c d. find_user d i = Some (use_step s u))"
    for s r and x :: "int option"
    by (rule sect_post [OF sect_save_user])
      (auto simp: step_use_step assms intro!: first_update_first)
  show ?thesis
    unfolding verify_totp_def assms
    by (rule sect_bind [OF sect_asks_any], rule sect_bind [OF sect_asks_any], rule sect_bind [OF sect_liftE], rule sect_case_option,
        rule sect_post [OF sect_ret], simp, rule sect_seq [OF save], rule sect_post [OF sect_ret]) auto
qed

lemma sect_consume_code:
  assumes "us_id u = i"
  shows "sect R G (\<lambda>c d. find_user d i = Some u) (consume_recovery_code u code) (\<lambda>_ _ _. True)"
proof -
  have "sect R G (\<lambda>c d. find_user d i = Some u) (save_user i (\<lambda>x. x\<lparr>us_codes := filter Q (us_codes u)\<rparr>)) (\<lambda>_ _ _. True)" for Q
    by (rule sect_post [OF sect_save_user]) (auto intro!: step_use_codes)
  then show ?thesis
    unfolding consume_recovery_code_def Let_def assms
    by (intro sect_if sect_seq [OF _ sect_of_frames [OF frames_ret]] sect_of_frames [OF frames_ret])
qed

lemma sect_second_factor:
  assumes "us_id u = i"
  shows "sect R G (\<lambda>c d. find_user d i = Some u) (verify_second_factor u code t) (\<lambda>_ _ _. True)"
proof -
  have totp: "sect R G (\<lambda>c d. find_user d i = Some u) (if b then verify_totp u c' t else ret None)
      (\<lambda>v c d. v = None \<longrightarrow> find_user d i = Some u)" for b c'
    by (intro sect_if sect_post [OF sect_verify_totp [OF assms]] sect_post [OF sect_ret]) auto
  have rest: "sect R G (\<lambda>c d. v = None \<longrightarrow> find_user d i = Some u) (case v of Some u' \<Rightarrow> ret (Some (Totp, u'))
       | None \<Rightarrow> bindM (consume_recovery_code u code) (\<lambda>used. ret (map_option (Pair Recovery) used))) (\<lambda>_ _ _. True)" for v
    by (rule sect_case_option, rule sect_pre [OF sect_bind [OF sect_consume_code [OF assms] sect_of_frames [OF frames_ret]]], simp)
      (rule sect_of_frames [OF frames_ret])
  show ?thesis unfolding verify_second_factor_def Let_def by (rule sect_bind [OF totp rest])
qed

lemma sect_generate_codes:
  "sect R G P (generate_codes n) (\<lambda>a c d. list_all (\<lambda>h. length h = 64) (snd a) \<and> P c d)"
proof (induction n)
  case 0
  show ?case unfolding generate_codes.simps by (rule sect_post [OF sect_ret]) auto
next
  case (Suc n)
  show ?case unfolding generate_codes.simps
    by (rule sect_bind [OF sect_draw], rule sect_bind [OF Suc], rule sect_case_prod, rule sect_post [OF sect_ret]) auto
qed

lemma sect_enable_totp:
  assumes "us_id u = i" "truthy_text (us_totp_secret u)"
  shows "sect R G (\<lambda>c d. \<exists>s. find_user d i = Some (use_step s u)) (enable_totp u) (\<lambda>_ _ _. True)"
proof -
  have "sect R G (\<lambda>c d. list_all (\<lambda>h. length h = 64) hs \<and> (\<exists>s. find_user d i = Some (use_step s u)))
      (save_user i (\<lambda>x. x\<lparr>us_totp_confirmed := Some t, us_codes := hs\<rparr>)) (\<lambda>_ _ _. True)" for t hs
    by (rule sect_post [OF sect_save_user])
      (use assms in \<open>auto simp: user_step_def user_ok_def use_step_def is_totp_enabled_def\<close>)
  then show ?thesis
    unfolding enable_totp_def generate_recovery_codes_def assms
    by (intro sect_bind [OF sect_generate_codes] sect_case_prod sect_bind [OF sect_now] sect_seq [OF _ sect_of_frames [OF frames_ret]]) simp
qed

lemma sect_setup_pending:
  "sect R G P (setup_pending u) (\<lambda>_ c d. truthy_text (us_totp_secret u) \<and> P c d)"
  unfolding setup_pending_def
  by (intro sect_if sect_throw sect_post [OF sect_ret]) (cases "us_totp_secret u", auto)

lemma sect_store_secret:
  "sect R G (\<lambda>c d. find_user d (us_id u) = Some u \<and> \<not> is_totp_enabled u) (store_secret u) (\<lambda>_ _ _. True)"
proof -
  have "sect R G (\<lambda>c d. find_user d (us_id u) = Some u \<and> \<not> is_totp_enabled u) (save_user (us_id u) (\<lambda>x. x\<lparr>us_totp_secret := s\<rparr>)) (\<lambda>_ _ _. True)" for s
    by (rule sect_post [OF sect_save_user]) (auto simp: user_step_def user_ok_def is_totp_enabled_def)
  then show ?thesis unfolding store_secret_def
    by (intro sect_bind [OF sect_draw] sect_bind [OF sect_asks_any] sect_seq [OF _ sect_of_frames [OF frames_ret]])
qed

lemma sect_locked_user:
  assumes "\<And>u. us_id u = i \<Longrightarrow> sect R G (\<lambda>c d. find_user d i = Some u) (f u) (\<lambda>_ _ _. True)"
  shows "sect R G P (bindM (lock_user i) f) (\<lambda>_ _ _. True)"
proof (rule sect_bind [OF sect_lock_user])
  fix u
  show "sect R G (\<lambda>c d. find_user d i = Some u) (f u) (\<lambda>_ _ _. True)"
  proof (cases "us_id u = i")
    case True
    then show ?thesis by (rule assms)
  next
    case False
    then show ?thesis by (auto simp: sect_def dest: first_SomeD)
  qed
qed

lemma sect_own_password: "sect R G P (check_own_password u p) (\<lambda>_. P)"
  unfolding check_own_password_def by (rule sect_bind [OF sect_asks_any]) (intro sect_if sect_throw sect_post [OF sect_ret], simp)

lemma sect_setup:
  assumes "us_id u = i"
  shows "sect R G (\<lambda>c d. find_user d i = Some u) (if is_totp_enabled u then throw e else bindM (store_secret u) (\<lambda>s. ret (s, us_email u))) (\<lambda>_ _ _. True)"
proof (rule sect_if, rule sect_throw)
  assume "\<not> is_totp_enabled u"
  then show "sect R G (\<lambda>c d. find_user d i = Some u) (bindM (store_secret u) (\<lambda>s. ret (s, us_email u))) (\<lambda>_ _ _. True)"
    using sect_bind [OF sect_store_secret sect_of_frames [OF frames_ret], of u "\<lambda>s. (s, us_email u)"] assms by simp
qed

lemma frames_with_uri: "frames R H p \<Longrightarrow> frames R H (with_uri p)"
  unfolding with_uri_def by (intro frame_intros)

lemma frames_begin_setup [frame_intros]: "frames R G (begin_totp_setup i password)"
  unfolding begin_totp_setup_def
  by (intro frames_with_uri frames_tx_end sect_locked_user sect_seq [OF sect_own_password] sect_setup)

lemma frames_begin_staff_setup [frame_intros]: "frames R G (begin_staff_totp_setup i)"
  unfolding begin_staff_totp_setup_def
  by (intro frames_with_uri frames_atomic_end sect_locked_user, rule sect_if, rule sect_throw, rule sect_setup)

lemma sect_confirm:
  assumes "us_id u = i" "\<And>a. frames R G (k a)"
  shows "sect R G (\<lambda>c d. truthy_text (us_totp_secret u) \<and> find_user d i = Some u)
    (bindM (verify_totp u code t) (\<lambda>v. if v = None then throw e else bindM (enable_totp u) k)) (\<lambda>_ _ _. True)"
proof (cases "truthy_text (us_totp_secret u)")
  case True
  have "sect R G (\<lambda>c d. case v of None \<Rightarrow> find_user d i = Some u | Some u' \<Rightarrow> \<exists>s. u' = use_step s u \<and> find_user d i = Some u')
      (if v = None then throw e else bindM (enable_totp u) k) (\<lambda>_ _ _. True)" for v
    by (intro sect_if sect_throw sect_bind [OF sect_pre [OF sect_enable_totp [OF assms(1) True]]] sect_of_frames assms(2))
      (auto split: option.splits)
  then show ?thesis using True by (simp add: sect_bind [OF sect_verify_totp [OF assms(1)]])
qed (simp add: sect_def)

lemma frames_confirm [frame_intros]: "frames R G (confirm_totp_setup i code)"
  unfolding confirm_totp_setup_def audit_user_def
  by (intro frames_tx_end sect_locked_user sect_seq [OF sect_setup_pending] sect_bind [OF sect_now] sect_confirm frame_intros)

lemma frames_disable [frame_intros]: "frames R G (disable_totp i password code)"
proof -
  have off: "sect R G P (save_user j no_factor) (\<lambda>_ _ _. True)" for P j
    by (rule sect_post [OF sect_save_user]) (simp_all add: step_no_factor)
  show ?thesis unfolding disable_totp_def audit_user_def
    by (intro frames_tx_end sect_locked_user sect_if sect_throw sect_seq [OF sect_own_password] sect_bind [OF sect_now]
        sect_bind [OF sect_second_factor] sect_seq [OF off] sect_of_frames frame_intros)
qed

lemma frames_factor_login: "frames R G (tenant_atomic False (factor_login i j code))"
proof -
  have tail: "frames R G (case f of None \<Rightarrow> throw e | Some (Totp, _) \<Rightarrow> ret r
         | Some (Recovery, u') \<Rightarrow> seqM (audit_user a u' (codes_left u')) (ret r))" for f :: "(factor \<times> user) option" and e a and r :: membership
    by (cases f) (auto simp: audit_user_def intro!: frames_throw frames_ret frames_seq frames_record_action split: factor.split)
  show ?thesis unfolding factor_login_def
    by (rule frames_tx_end, rule sect_seq [OF sect_of_frames [OF frames_wait]], rule sect_bind [OF sect_of_frames [OF frames_in_tenant_read]],
        rule sect_bind [OF sect_of_frames [OF frames_or_raise]], rule sect_locked_user, rule sect_if, rule sect_throw,
        rule sect_bind [OF sect_now], rule sect_bind [OF sect_second_factor], assumption, rule sect_of_frames [OF tail])
qed

subsection \<open>Frames of the entries\<close>

lemma frames_create_key [frame_intros]: "frames R G (create_api_key actor scopes)"
proof -
  have "frames R G (tenant_atomic False (bindM (in_tenant (\<lambda>m d. m)) (\<lambda>m. bindM draw (\<lambda>i.
       let k = \<lparr>ak_id = i, ak_merchant = m, ak_hash = hash_key raw, ak_scopes = ss, ak_active = True, ak_last_used = None\<rparr> in
       seqM (insert_key k) (seqM (audit_key a actor i md) (ret k))))))" if "validate_scopes scopes = Inr ss" for raw ss a md
    unfolding Let_def audit_key_def
    by (intro frame_intros frames_insert_key) (use validated_scopes [OF that] in \<open>simp add: key_ok_def\<close>)
  then show ?thesis
    unfolding create_api_key_def Let_def
    by (cases "validate_scopes scopes") (auto simp: bindM_def [of "liftE _"] intro: frames_throw [unfolded throw_def] intro!: frames_bind frames_draw frames_ret)
qed

lemma frames_revoke_key [frame_intros]: "frames R G (bindM (get_api_key i) (revoke_api_key actor))"
  unfolding get_api_key_def revoke_api_key_def audit_key_def
  by (intro frame_intros frames_update_keys) (simp add: key_step_def)

lemma frames_merchant_account:
  assumes "account_merchant entry = Some m" "\<And>c. G (c\<lparr>merchant_var := Some m\<rparr>)"
  shows "frames R (\<lambda>_. True) (run_account entry)"
  using assms
  by (cases entry) (simp_all add: run_account_def, (rule frames_in_tenant [of G], intro frame_intros, simp)+)

lemma frames_touch: "(\<And>c m. G (c\<lparr>merchant_var := Some m\<rparr>)) \<Longrightarrow> frames R (\<lambda>_. True) (touch_last_used k)"
  unfolding touch_last_used_def
  by (rule frames_tenant_context [where G' = G]) (intro frame_intros frames_update_keys, simp_all add: key_step_def)

lemma frames_key_request:
  assumes "\<And>c m. G (c\<lparr>merchant_var := Some m\<rparr>)"
  shows "frames R (\<lambda>_. True) (api_key_middleware rq)"
proof -
  have look: "frames R (\<lambda>_. True) (api_key_lookup_atomic h p)" if "frames R (\<lambda>_. True) p" for h and p :: "'b aprog"
    unfolding api_key_lookup_atomic_def by (rule frames_lookup_atomic [where G' = "\<lambda>_. True", OF that]) simp_all
  note rules = frames_touch [OF assms] look
  show ?thesis
    unfolding api_key_middleware_def authenticate_bearer_def authenticate_api_key_def Let_def
    by (intro frame_intros rules) (auto intro!: frames_ret split: if_splits)
qed

lemma frames_password_step [frame_intros]: "frames R H (begin_login e p)"
  unfolding begin_login_def authenticate_login_def by (intro frame_intros)

lemma frames_login: "frames R H (login_post s e p)"
  unfolding login_post_def make_pending_totp_def by (intro frame_intros) (auto intro: frames_ret split: if_splits)

lemma frames_login_totp:
  assumes "\<And>c m. G (c\<lparr>merchant_var := Some m\<rparr>)"
  shows "frames R (\<lambda>_. True) (login_totp_post s code)"
proof -
  have "frames R (\<lambda>_. True) (tenant_context (Some m) (tenant_atomic False (factor_login i j code)))" for m i j
    by (rule frames_tenant_context [where G' = G]) (rule frames_factor_login, rule assms)
  note frame_intros = frame_intros this
  show ?thesis unfolding login_totp_post_def complete_totp_login_def marker_user_def
    by (intro frame_intros) (auto intro: frames_ret split: if_splits)
qed

lemma frames_platform:
  assumes "\<And>c. G c" "sect R G (\<lambda>_ _. True) p (\<lambda>_ _ _. True)"
  shows "frames R G (platform_write_atomic scope p)"
  unfolding platform_write_atomic_def by (rule frames_lookup_sect [OF assms(2)]) (simp_all add: assms(1))

lemma frames_verify_staff:
  assumes "\<And>c. G c"
  shows "frames R G (verify_staff_admin_login u code)"
proof -
  have audited: "frames R G (case v of None \<Rightarrow> ret False | Some u' \<Rightarrow> seqM (platform_audit a u' (codes_left u')) (ret True))" for v a
    unfolding platform_audit_def by (intro frame_intros)
  have recovery: "sect R G (\<lambda>_ _. True) (bindM (lock_user u) (\<lambda>u. if \<not> (is_active_staff u \<and> is_totp_enabled u) then ret False
       else bindM (consume_recovery_code u c) (\<lambda>v. case v of None \<Rightarrow> ret False
         | Some u' \<Rightarrow> seqM (platform_audit a u' (codes_left u')) (ret True)))) (\<lambda>_ _ _. True)" for a c
    by (rule sect_locked_user, rule sect_if, rule sect_of_frames [OF frames_ret], rule sect_bind [OF sect_consume_code], assumption,
        rule sect_of_frames [OF audited])
  have totp: "sect R G (\<lambda>_ _. True) (bindM (lock_user u) (\<lambda>u. if \<not> (is_active_staff u \<and> is_totp_enabled u) then ret False
       else bindM now (\<lambda>t. bindM (verify_totp u c t) (\<lambda>v. ret (v \<noteq> None))))) (\<lambda>_ _ _. True)" for c
    by (rule sect_locked_user, rule sect_if, rule sect_of_frames [OF frames_ret], rule sect_bind [OF sect_now],
        rule sect_bind [OF sect_verify_totp], assumption, rule sect_of_frames [OF frames_ret])
  show ?thesis unfolding verify_staff_admin_login_def Let_def
    by (intro frames_if frames_ret frames_atomic_end totp frames_platform assms recovery)
qed

lemma frames_admin_login:
  assumes "\<And>c. G c"
  shows "frames R G (admin_login_post allowed s e p code)"
  unfolding admin_login_post_def staff_login_clean_def
  by (intro frame_intros frames_verify_staff assms) (auto intro: frames_ret split: if_splits)

lemma frames_confirm_staff:
  assumes "\<And>c. G c"
  shows "frames R G (confirm_staff_totp_setup u code)"
proof -
  have "sect R G (\<lambda>c d. truthy_text (us_totp_secret u) \<and> find_user d i = Some u)
      (bindM (if b then bindM now (verify_totp u c) else ret None) (\<lambda>v. if v = None then throw e
          else bindM (enable_totp u) (\<lambda>plain. seqM (platform_audit a u []) (ret plain)))) (\<lambda>_ _ _. True)"
    if "us_id u = i" for u i b c e a
  proof (cases b)
    case True
    have "frames R G (seqM (platform_audit a u []) (ret plain))" for plain
      unfolding platform_audit_def by (intro frame_intros)
    from sect_bind [OF sect_now sect_confirm [OF that this]] True show ?thesis by (simp add: bind_assoc)
  next
    case False
    then show ?thesis by (auto simp: sect_def R_refl saves_refl)
  qed
  then have "sect R G (\<lambda>_ _. True) (bindM (lock_user u) (\<lambda>u. if \<not> is_active_staff u then throw e0
       else seqM (setup_pending u) (bindM (if b then bindM now (verify_totp u c) else ret None) (\<lambda>v. if v = None then throw e
          else bindM (enable_totp u) (\<lambda>plain. seqM (platform_audit a u []) (ret plain)))))) (\<lambda>_ _ _. True)" for e0 b c e a
    by (intro sect_locked_user sect_if sect_throw sect_seq [OF sect_setup_pending])
  then show ?thesis unfolding confirm_staff_totp_setup_def Let_def by (intro frames_platform assms)
qed

lemma frames_staff_read:
  assumes "\<And>c. G c"
  shows "frames R G (staff_merchant_read u m resource (\<lambda>_. ret ()))"
proof -
  have "frames R G (tenant_context (Some x) (seqM (tenant_atomic True (seqM (tenant_write x) (add_log (log_row (Some x) a b k i md))))
      (tenant_atomic True (ret ()))))" for x a b k i md
  proof (rule frames_tenant_context [where G' = "\<lambda>c. G c \<and> merchant_var c = Some x"])
    have "frames R (\<lambda>c. G c \<and> merchant_var c = Some x) (add_log (log_row (Some x) a b k i md))"
      by (rule frames_add_log) (simp add: log_row_def)
    note frame_intros = frame_intros this
    show "frames R (\<lambda>c. G c \<and> merchant_var c = Some x) (seqM (tenant_atomic True (seqM (tenant_write x) (add_log (log_row (Some x) a b k i md))))
      (tenant_atomic True (ret ())))" by (intro frame_intros)
  qed (simp add: assms)
  note frame_intros = frame_intros this
  show ?thesis unfolding staff_merchant_read_def by (intro frame_intros)
qed

lemma frames_account_entry:
  assumes "\<And>c. G c"
  shows "frames R (\<lambda>_. True) (run_account entry)"
proof (cases "account_merchant entry")
  case (Some m)
  then show ?thesis by (rule frames_merchant_account) (rule assms)
next
  case None
  have g: "frames R (\<lambda>_. True) p" if "frames R G p" for p :: "'b aprog" using that assms by (simp add: frames_def)
  note rules = frames_sign_up [OF assms] frames_login frames_login_totp [OF assms] g [OF frames_admin_login [OF assms]]
    g [OF frames_staff_read [OF assms]] frames_accept_invite [OF assms] g [OF frames_begin_staff_setup] g [OF frames_confirm_staff [OF assms]]
    frames_key_request [OF assms]
  from None show ?thesis
    by (cases entry) (simp_all add: run_account_def, (intro frames_answered rules)+)
qed

end

end
