(* ===== verification/AccountRuns.thy ===== *)
theory AccountRuns
  imports ApiKeys Histories Scopes
begin

text \<open>
  A concrete merchant with an owner, an administrator and a manager, on which the theorems about accounts
  are applied. The sample authenticator shows \<open>444444\<close> in step 54 and zeros in every other one.
\<close>

definition sample_auth :: auth_lib where
  "sample_auth = \<lparr>make_password = (\<lambda>salt raw. ''pbkdf2$'' @ raw), check_password = (\<lambda>raw enc. enc = ''pbkdf2$'' @ raw),
     password_problems = (\<lambda>raw email. if length raw < 8 then [''Too short.''] else []),
     sign_object = (\<lambda>j t. ''signed''), unsign_object = (\<lambda>s t age. if s = ''signed''
        then Some (JObj [(''tm'', JStr ''t4''), (''u'', JStr ''u4''), (''iat'', JStr ''noon'')]) else None),
     timecode = (\<lambda>t. unix_timestamp t div 30), otp_at = (\<lambda>s step. if step = 54 then ''444444'' else ''000000''),
     provisioning_uri = (\<lambda>s e. ''otpauth''), uuid_of = Some, isoformat = (\<lambda>t. ''noon'')\<rparr>"

definition account_py :: pylib where
  "account_py = \<lparr>loads = (\<lambda>s. None), str_other = (\<lambda>_. ''?''), fromisoformat = (\<lambda>s. if s = ''noon'' then Some (True, seconds 500) else None),
     decode_utf8_sig = Some, dumps = (\<lambda>_. ''{}''), encrypt = (\<lambda>s. s), decrypt = Some, available_timezones = (\<lambda>_. True)\<rparr>"

definition sample_user :: "uuid \<Rightarrow> string \<Rightarrow> string option \<Rightarrow> user" where
  "sample_user i email password = new_user i email password"

definition sample_member :: "uuid \<Rightarrow> uuid \<Rightarrow> role \<Rightarrow> instant option \<Rightarrow> membership" where
  "sample_member i u r acc = new_member i ''m1'' u r (Some (seconds 500)) acc (seconds 400)"

definition owner_member :: membership where "owner_member = sample_member ''t1'' ''u1'' OWNER (Some (seconds 600))"
definition admin_member :: membership where "admin_member = sample_member ''t2'' ''u2'' ADMIN (Some (seconds 600))"

text \<open>\<open>u2\<close> has a second factor, \<open>u4\<close> is invited and has no password yet.\<close>

definition team_db :: adb where
  "team_db = \<lparr>ac_users = [sample_user ''u1'' ''ann@x.io'' (Some ''pbkdf2$correct horse''),
       (sample_user ''u2'' ''bob@x.io'' (Some ''pbkdf2$battery staple''))\<lparr>us_totp_secret := Some ''secret'', us_totp_confirmed := Some (seconds 700)\<rparr>,
       sample_user ''u4'' ''dan@x.io'' None],
     ac_merchants = [\<lparr>mc_id = ''m1'', mc_name = ''Shop'', mc_business_type = None, mc_timezone = ''UTC'', mc_status = MActive, mc_updated_at = 0\<rparr>],
     ac_members = [owner_member, admin_member, sample_member ''t4'' ''u4'' VIEWER None],
     ac_assigned = [], ac_locations = [(''m1'', ''l1'')],
     ac_keys = [],
     ac_audit = []\<rparr>"

text \<open>With an API key; its hash is never evaluated.\<close>

definition sample_raw_key :: string where "sample_raw_key = ''rf_live_abcdefghijabcdefghijabcdefghijab''"

definition sample_key :: api_key where
  "sample_key = \<lparr>ak_id = ''k1'', ak_merchant = ''m1'', ak_hash = hash_key sample_raw_key, ak_scopes = [''sales:write''],
     ak_active = True, ak_last_used = None\<rparr>"

definition account_idle :: "adb \<Rightarrow> account_world" where
  "account_idle d = \<lparr>db = d, saves = [], ctx = no_vars, guc = no_vars, row_locked = False,
     clock = (\<lambda>n. seconds (1600 + int n)), ticks = 0, env = (\<lambda>_ d. d), env_n = 0, pending = [], queue = [],
     auth = sample_auth, apy = account_py, mint = (\<lambda>n. ''id'' @ replicate n (CHR ''x'')), minted = 0\<rparr>"

definition account_tx :: "adb \<Rightarrow> account_world" where
  "account_tx d = (account_idle d)\<lparr>saves := [d], ctx := no_vars\<lparr>merchant_var := Some ''m1''\<rparr>, guc := no_vars\<lparr>merchant_var := Some ''m1''\<rparr>\<rparr>"

lemma fresh_account_idle [simp]: "fresh_thread (account_idle d)" "quiet (account_idle d)" "db (account_idle d) = d"
  by (simp_all add: fresh_thread_def quiet_def account_idle_def)

lemma in_account_tx [simp]: "in_tx ''m1'' (account_tx d)" "db (account_tx d) = d"
  by (simp_all add: in_tx_def quiet_def account_tx_def account_idle_def)

text \<open>
  Evaluation of the account statements inside the transaction of a thread nobody interferes with.
\<close>

named_theorems account_runs "what the account statements do inside a transaction"

declare run_in_tenant [account_runs] run_wait [account_runs] run_or_raise [account_runs]

definition locked :: "account_world \<Rightarrow> account_world" where
  "locked w = (if row_locked w then w else w\<lparr>env_n := Suc (env_n w), row_locked := True\<rparr>)"

lemma locked_fields [simp]:
  "db (locked w) = db w" "saves (locked w) = saves w" "ctx (locked w) = ctx w" "guc (locked w) = guc w" "in_tx m (locked w) = in_tx m w"
  "clock (locked w) = clock w" "ticks (locked w) = ticks w" "auth (locked w) = auth w" "apy (locked w) = apy w"
  "mint (locked w) = mint w" "minted (locked w) = minted w"
  by (simp_all add: locked_def in_tx_def quiet_def)

lemma run_take_row_lock [account_runs]: "in_tx m w \<Longrightarrow> take_row_lock w = (Inr (), locked w)"
  by (simp add: take_row_lock_def locked_def interfere_quiet in_tx_def)

lemma run_tick [account_runs]: "now w = (Inr (clock w (ticks w)), tick w)"
  by (rule run_now)

lemma in_tx_tick [simp]: "in_tx m (tick w) = in_tx m w"
  by (simp add: tick_def)

lemma run_save_member [account_runs]:
  assumes "in_tx m w"
  shows "save_member i f w = (if find_member (db w) m i = None then (Inl DatabaseErr, tick w)
    else (Inr (), (tick w)\<lparr>db := update_member_row m i (\<lambda>r. (f r)\<lparr>mb_updated_at := clock w (ticks w)\<rparr>) (db w)\<rparr>))"
  using assms by (simp add: save_member_def run_bind account_runs)

lemma run_save_user [account_runs]:
  "save_user i f w = (if find_user (db w) i = None then (Inl DatabaseErr, w)
     else (Inr (), w\<lparr>db := (db w)\<lparr>ac_users := update_first (\<lambda>u. us_id u = i) f (ac_users (db w))\<rparr>\<rparr>))"
  by (simp add: save_user_def)

lemma run_delete_assignments [account_runs]:
  "in_tx m w \<Longrightarrow> delete_assignments P w =
     (Inr (), w\<lparr>db := (db w)\<lparr>ac_assigned := filter (\<lambda>a. \<not> (as_merchant a = m \<and> P a)) (ac_assigned (db w))\<rparr>\<rparr>)"
  by (simp add: delete_assignments_def run_bind run_in_tenant)

lemma run_delete_member [account_runs]:
  "in_tx m w \<Longrightarrow> delete_member i w = (Inr (), w\<lparr>db := without_member m i (db w)\<rparr>)"
  by (simp add: delete_member_def run_bind run_in_tenant)

definition logged :: "audit_log \<Rightarrow> adb \<Rightarrow> adb" where
  "logged l d = d\<lparr>ac_audit := ac_audit d @ [l]\<rparr>"

lemma run_record_action [account_runs]:
  assumes "in_tx m w"
  shows "record_action action actor kind i metadata w = (if is_member (db w) m actor
     then (Inr (), w\<lparr>db := logged (log_row (Some m) action (Some actor) kind i metadata) (db w)\<rparr>) else (Inl ActorNotMember, w))"
proof -
  have s: "saves w \<noteq> []" using assms by (simp add: in_tx_def)
  show ?thesis
    unfolding record_action_def run_nested [OF assms]
    using assms s by (simp add: run_bind run_in_tenant [of m] in_tx_nested add_log_def logged_def rollback_block_def)
qed

subsection \<open>Outermost transactions\<close>

lemma entered_account_fields [simp]:
  "auth (entered m w) = auth w" "apy (entered m w) = apy w" "mint (entered m w) = mint w" "minted (entered m w) = minted w"
  by (simp_all add: entered_def)

lemma left_account_fields [simp]: "auth (left w) = auth w" "apy (left w) = apy w"
  by (simp_all add: left_def)

lemma run_user_lookup:
  assumes "alone w"
  shows "user_lookup_atomic u (bindM (for_lookup_user u) (\<lambda>rs. asks (\<lambda>w. g (db w) rs))) w =
    (Inr (g (db w) (filter (\<lambda>r. tm_user r = u) (ac_members (db w)))), w\<lparr>env_n := Suc (env_n w)\<rparr>)"
  unfolding user_lookup_atomic_def
  by (rule run_lookup [where valid = "\<lambda>_. True", OF assms]) (auto simp: no_vars_def for_lookup_user_def run_bind member_selectable_def intro!: arg_cong [where f = "g (db w)"] filter_cong)

lemma run_key_lookup:
  assumes "alone w" "hex64_match h"
  shows "api_key_lookup_atomic h (bindM (for_lookup_hash h) (\<lambda>ks. asks (\<lambda>w. g (db w) ks))) w =
    (Inr (g (db w) (filter (\<lambda>k. ak_hash k = h) (ac_keys (db w)))), w\<lparr>env_n := Suc (env_n w)\<rparr>)"
  unfolding api_key_lookup_atomic_def
  by (rule run_lookup [where valid = hex64_match, OF assms]) (auto simp: no_vars_def for_lookup_hash_def run_bind key_selectable_def intro!: arg_cong [where f = "g (db w)"] filter_cong)

lemma run_update_keys [account_runs]:
  "in_tx m w \<Longrightarrow> update_keys P f w = (Inr (length (filter (\<lambda>k. ak_merchant k = m \<and> P k) (ac_keys (db w)))),
     w\<lparr>db := (db w)\<lparr>ac_keys := map_if (\<lambda>k. ak_merchant k = m \<and> P k) f (ac_keys (db w))\<rparr>\<rparr>)"
  by (simp add: update_keys_def run_bind run_seq run_in_tenant)

lemma alone_minted [simp]: "alone (w\<lparr>minted := k\<rparr>) = alone w"
  by (simp add: alone_def fresh_thread_def quiet_def)

lemma alone_idle [simp]: "alone (account_idle d)"
  by (simp add: alone_def)

end
