(* ===== verification/AccountProps.thy ===== *)
theory AccountProps
  imports AccountSystem AccountRuns
begin

text \<open>
  What holds along every history of the account applications, however their threads interleave: the
  rows are well-formed, no merchant loses its last owner, keys and passwords are never given back, and
  merchants do not touch each other's rows.
\<close>

subsection \<open>Well-formed rows\<close>

definition account_conforms :: "adb \<Rightarrow> bool" where
  "account_conforms d \<longleftrightarrow> list_all user_ok (ac_users d) \<and> list_all key_ok (ac_keys d) \<and>
     distinct (map us_id (ac_users d)) \<and> distinct (map us_email (ac_users d)) \<and> distinct (map mc_id (ac_merchants d)) \<and>
     unique_members d \<and> distinct (map (\<lambda>r. (mb_merchant r, tm_user r)) (ac_members d)) \<and>
     distinct (map (\<lambda>a. (as_member a, as_location a)) (ac_assigned d)) \<and>
     distinct (map ak_id (ac_keys d)) \<and> distinct (map ak_hash (ac_keys d))"

lemma user_step_fields: "user_step u u' \<Longrightarrow> us_id u' = us_id u \<and> us_email u' = us_email u \<and> (user_ok u \<longrightarrow> user_ok u')"
  by (simp add: user_step_def)

interpretation conforming: account_frame "\<lambda>d d'. account_conforms d \<longrightarrow> account_conforms d'" "\<lambda>_. True"
proof unfold_locales
  fix c d i u and f1 :: "user \<Rightarrow> user"
  assume "find_user d i = Some u" "user_step u (f1 u)"
  then show "account_conforms d \<longrightarrow> account_conforms (d\<lparr>ac_users := update_first (\<lambda>x. us_id x = i) f1 (ac_users d)\<rparr>)"
    using user_step_fields [of u "f1 u"]
    by (simp add: account_conforms_def unique_members_def map_update_found all_update_found)
next
  fix c d i x and f2 :: "merchant \<Rightarrow> merchant"
  assume "find_merchant d i = Some x" "merchant_step x (f2 x)"
  then show "account_conforms d \<longrightarrow> account_conforms (d\<lparr>ac_merchants := update_first (\<lambda>x. mc_id x = i) f2 (ac_merchants d)\<rparr>)"
    by (simp add: account_conforms_def unique_members_def map_update_found merchant_step_def)
next
  fix c m d i r and f3 :: "membership \<Rightarrow> membership"
  assume "find_member d m i = Some r" "member_kept r (f3 r)"
  then show "account_conforms d \<longrightarrow> account_conforms (update_member_row m i f3 d)"
    by (simp add: account_conforms_def unique_members_def update_member_row_def find_member_def member_kept_def map_update_found)
next
  fix m i d
  show "account_conforms d \<longrightarrow> account_conforms (without_member m i d)"
    by (simp add: account_conforms_def unique_members_def without_member_def distinct_filter_map)
next
  fix m d and P5 :: "api_key \<Rightarrow> bool" and f5 :: "api_key \<Rightarrow> api_key"
  assume k: "\<And>k. key_step k (f5 k)"
  then have "key_ok (f5 k) = key_ok k" "ak_id (f5 k) = ak_id k" "ak_hash (f5 k) = ak_hash k" for k
    by (simp_all add: key_step_def key_ok_def)
  then show "account_conforms d \<longrightarrow> account_conforms (d\<lparr>ac_keys := map_if (\<lambda>k. ak_merchant k = m \<and> P5 k) f5 (ac_keys d)\<rparr>)"
    by (simp add: account_conforms_def unique_members_def map_map_if) (auto simp: map_if_def list_all_iff)
qed (auto simp: account_conforms_def unique_members_def list_ex_iff plain_user_def distinct_filter_map)

subsection \<open>The last owner\<close>

definition has_owner :: "uuid \<Rightarrow> adb \<Rightarrow> bool" where
  "has_owner m d \<longleftrightarrow> list_ex (owner_row m) (ac_members d)"

definition owners_later :: "adb \<Rightarrow> adb \<Rightarrow> bool" where
  "owners_later d d' \<longleftrightarrow> (unique_members d \<longrightarrow> unique_members d' \<and> (\<forall>m. has_owner m d \<longrightarrow> has_owner m d'))"

lemma owner_survives_update:
  assumes r: "first P rows = Some r" and o: "list_ex (owner_row m) rows"
    and keep: "owner_row m r \<Longrightarrow> owner_row m (f r) \<or> (\<exists>x\<in>set rows. owner_row m x \<and> tm_id x \<noteq> tm_id r)"
  shows "list_ex (owner_row m) (update_first P f rows)"
proof -
  from update_first_split [OF r, of f] obtain xs ys where s: "rows = xs @ r # ys" "update_first P f rows = xs @ f r # ys" by blast
  have "set rows = set xs \<union> {r} \<union> set ys" "set (update_first P f rows) = set xs \<union> {f r} \<union> set ys"
    by (simp_all add: s(2)) (simp add: s(1))
  with o keep show ?thesis unfolding list_ex_iff by blast
qed

interpretation owners: account_frame owners_later "\<lambda>_. True"
proof unfold_locales
  fix a b c assume "owners_later a b" "owners_later b c"
  then show "owners_later a c" by (auto simp: owners_later_def)
next
  fix c m d i r and f3 :: "membership \<Rightarrow> membership"
  assume r: "find_member d m i = Some r" and st: "unique_members d \<Longrightarrow> member_step m d r (f3 r)" and k: "member_kept r (f3 r)"
  show "owners_later d (update_member_row m i f3 d)"
    unfolding owners_later_def
  proof (intro impI conjI allI)
    assume u: "unique_members d"
    show "unique_members (update_member_row m i f3 d)"
      using u r k by (simp add: unique_members_def update_member_row_def find_member_def member_kept_def map_update_found)
    fix m' assume "has_owner m' d"
    then show "has_owner m' (update_member_row m i f3 d)"
      unfolding has_owner_def update_member_row_def
    proof (simp, rule owner_survives_update [OF r [unfolded find_member_def]])
      assume o: "owner_row m' r"
      from find_memberD [OF r] o have m': "m' = m" by (simp add: owner_row_def)
      from st [OF u] have "tm_role (f3 r) = tm_role r \<or> \<not> would_orphan_owners r m d"
        using o by (auto simp: member_step_def owner_row_def)
      then show "owner_row m' (f3 r) \<or> (\<exists>x\<in>set (ac_members d). owner_row m' x \<and> tm_id x \<noteq> tm_id r)"
        using o k m' by (auto simp: would_orphan_owners_def owner_row_def member_kept_def list_ex_iff)
    qed
  qed
next
  fix c m d i r
  assume r: "find_member d m i = Some r" and n: "\<not> would_orphan_owners r m d"
  show "owners_later d (without_member m i d)"
    unfolding owners_later_def
  proof (intro impI conjI allI)
    assume u: "unique_members d"
    then show "unique_members (without_member m i d)" by (simp add: unique_members_def without_member_def distinct_filter_map)
    fix m' assume "has_owner m' d"
    then obtain x where x: "x \<in> set (ac_members d)" "owner_row m' x" by (auto simp: has_owner_def list_ex_iff)
    have id: "tm_id r = i" "mb_merchant r = m" "r \<in> set (ac_members d)" using find_memberD [OF r] by simp_all
    show "has_owner m' (without_member m i d)"
    proof (cases "mb_merchant x = m \<and> tm_id x = i")
      case True
      then have "x = r" using unique_members_find [OF u x(1)] r by simp
      with n x id obtain y where "y \<in> set (ac_members d)" "owner_row m' y" "tm_id y \<noteq> i"
        by (auto simp: would_orphan_owners_def list_ex_iff owner_row_def)
      then show ?thesis by (auto simp: has_owner_def without_member_def list_ex_iff)
    next
      case False
      with x show ?thesis by (auto simp: has_owner_def without_member_def list_ex_iff)
    qed
  qed
qed (auto simp: owners_later_def unique_members_def has_owner_def list_ex_iff)

subsection \<open>What is never given back\<close>

definition user_later :: "user \<Rightarrow> user \<Rightarrow> bool" where
  "user_later u u' \<longleftrightarrow> us_id u' = us_id u \<and> us_email u' = us_email u \<and> us_active u' = us_active u \<and> us_staff u' = us_staff u \<and>
     (us_password u \<noteq> None \<longrightarrow> us_password u' = us_password u)"

definition account_later :: "adb \<Rightarrow> adb \<Rightarrow> bool" where
  "account_later d d' \<longleftrightarrow> grown user_later (ac_users d) (ac_users d') \<and> grown merchant_step (ac_merchants d) (ac_merchants d') \<and>
     grown key_step (ac_keys d) (ac_keys d') \<and> grown (=) (ac_audit d) (ac_audit d')"

lemma row_later_refl [simp, intro]: "user_later u u" "merchant_step m m" "key_step k k"
  by (simp_all add: user_later_def merchant_step_def key_step_def)

lemma row_later_trans:
  "user_later a b \<Longrightarrow> user_later b c \<Longrightarrow> user_later a c"
  "merchant_step x y \<Longrightarrow> merchant_step y z \<Longrightarrow> merchant_step x z"
  "key_step k k' \<Longrightarrow> key_step k' k'' \<Longrightarrow> key_step k k''"
  unfolding user_later_def merchant_step_def key_step_def by auto

interpretation account_ledger: account_frame account_later "\<lambda>_. True"
proof unfold_locales
  fix d show "account_later d d" by (simp add: account_later_def grown_refl)
next
  fix a b c assume "account_later a b" "account_later b c"
  then show "account_later a c"
    unfolding account_later_def by (auto intro: grown_trans row_later_trans simp: grown_eq)
next
  fix d i u and f1 :: "user \<Rightarrow> user"
  assume "find_user d i = Some u" "user_step u (f1 u)"
  then show "account_later d (d\<lparr>ac_users := update_first (\<lambda>x. us_id x = i) f1 (ac_users d)\<rparr>)"
    by (auto simp: account_later_def grown_refl intro!: grown_update_first) (auto simp: user_step_def user_later_def)
next
  fix d i x and f2 :: "merchant \<Rightarrow> merchant"
  assume "find_merchant d i = Some x" "merchant_step x (f2 x)"
  then show "account_later d (d\<lparr>ac_merchants := update_first (\<lambda>x. mc_id x = i) f2 (ac_merchants d)\<rparr>)"
    by (auto simp: account_later_def grown_refl intro!: grown_update_first)
qed (simp_all add: account_later_def grown_refl grown_add grown_map_if update_member_row_def without_member_def)

subsection \<open>Isolation\<close>

definition account_rows_of :: "uuid \<Rightarrow> adb \<Rightarrow> membership list \<times> assignment list \<times> api_key list \<times> audit_log list" where
  "account_rows_of m d = (filter (\<lambda>r. mb_merchant r = m) (ac_members d), filter (\<lambda>a. as_merchant a = m) (ac_assigned d),
     filter (\<lambda>k. ak_merchant k = m) (ac_keys d), filter (\<lambda>l. al_merchant l = Some m) (ac_audit d))"

interpretation account_others: account_frame "\<lambda>d d'. account_rows_of m d' = account_rows_of m d" "\<lambda>c. merchant_var c \<noteq> Some m" for m
proof unfold_locales
  fix c m' d i r and f3 :: "membership \<Rightarrow> membership"
  assume "merchant_var c \<noteq> Some m" "merchant_var c = Some m'" "find_member d m' i = Some r" "member_kept r (f3 r)"
  then show "account_rows_of m (update_member_row m' i f3 d) = account_rows_of m d"
    using find_memberD [of d m' i r]
    by (auto simp: account_rows_of_def update_member_row_def find_member_def member_kept_def intro!: filter_update_first)
next
  fix c m' d and P5 :: "api_key \<Rightarrow> bool" and f5 :: "api_key \<Rightarrow> api_key"
  assume "merchant_var c \<noteq> Some m" "merchant_var c = Some m'" "\<And>k. key_step k (f5 k)"
  then show "account_rows_of m (d\<lparr>ac_keys := map_if (\<lambda>k. ak_merchant k = m' \<and> P5 k) f5 (ac_keys d)\<rparr>) = account_rows_of m d"
    by (auto simp: account_rows_of_def key_step_def intro!: filter_map_if)
qed (auto simp: account_rows_of_def without_member_def intro!: filter_cong [OF refl])

subsection \<open>The properties\<close>

abbreviation account_history :: "(account_entry \<Rightarrow> bool) \<Rightarrow> adb \<Rightarrow> adb \<Rightarrow> bool" where
  "account_history \<equiv> history run_account"

text \<open>The history of the examples: the owner makes the administrator a viewer.\<close>

definition demotion :: account_entry where
  "demotion = ChangeRole ''m1'' owner_member ''t2'' VIEWER"

lemma sample_demotion:
  "\<exists>d'. account_history (\<lambda>e. e = demotion) team_db d' \<and> map tm_role (ac_members d') = [OWNER, VIEWER, VIEWER] \<and> length (ac_audit d') = 1"
proof -
  let ?w = "account_idle team_db"
  obtain r w' where run: "run_account demotion ?w = (r, w')" by fastforce
  have "account_history (\<lambda>e. e = demotion) (db ?w) (db w')"
    by (rule history_alone [where run = run_account and entry = demotion and w = ?w and r = r]) (simp_all add: run)
  moreover have "(let d' = db (snd (run_account demotion ?w)) in map tm_role (ac_members d') = [OWNER, VIEWER, VIEWER] \<and> length (ac_audit d') = 1)"
    by code_simp
  ultimately show ?thesis using run by (auto simp: Let_def)
qed

lemma team_conforms: "account_conforms team_db"
proof -
  have n: "''ann@x.io'' = normalize_email ''ann@x.io''" "''bob@x.io'' = normalize_email ''bob@x.io''" "''dan@x.io'' = normalize_email ''dan@x.io''"
    by code_simp+
  have "user_ok (sample_user i e p)" if "e = normalize_email e" "length e \<le> 254" for i e p
    using that by (auto simp: user_ok_def sample_user_def new_user_def is_totp_enabled_def)
  moreover have "user_ok (u\<lparr>us_totp_secret := Some ''secret'', us_totp_confirmed := Some c\<rparr>)" if "user_ok u" for u c
    using that by (auto simp: user_ok_def is_totp_enabled_def)
  ultimately have "list_all user_ok (ac_users team_db)" using n by (simp add: team_db_def)
  moreover have "list_all key_ok (ac_keys team_db)" by (simp add: team_db_def)
  ultimately show ?thesis
    by (simp add: account_conforms_def unique_members_def) (simp add: team_db_def sample_user_def new_user_def owner_member_def admin_member_def
        sample_member_def new_member_def)
qed

text \<open>
  C10: The account tables stay well-typed along every history of logins, invitations, role changes,
  enrolments, sign-ups and API-key requests, however their threads interleave, if the first state is:
  e-mail addresses are normalized, fit their column and are unique; an enabled second factor has a secret and only
  64-digit recovery hashes, and a user without one has no recovery codes; every API key is 64 hexadecimal digits with a non-empty,
  duplicate-free list of known scopes; and no primary or unique key occurs twice.
\<close>

theorem account_tables_typed:
  assumes "account_history A d d'" "account_conforms d"
  shows "account_conforms d'"
  using conforming.history_respects [OF assms(1)] conforming.frames_account_entry assms(2) by blast

theorem account_tables_typed_witness:
  "\<exists>d'. account_conforms d' \<and> map tm_role (ac_members d') = [OWNER, VIEWER, VIEWER]"
proof -
  obtain d' where d': "account_history (\<lambda>e. e = demotion) team_db d'" "map tm_role (ac_members d') = [OWNER, VIEWER, VIEWER]"
    using sample_demotion by (elim exE conjE)
  show ?thesis using account_tables_typed [OF d'(1) team_conforms] d'(2) by (intro exI conjI)
qed



text \<open>
  C12: What is never given back. Along every history no user is lost or changes its e-mail address, a password that is set is
  never replaced by an invitation, a revoked API key stays revoked and keeps its hash and its scopes, and no
  row of the audit log is changed or deleted.
\<close>

theorem account_ledgers:
  assumes "account_history A d d'"
  shows "account_later d d'"
  using account_ledger.history_respects [OF assms] account_ledger.frames_account_entry by blast

theorem account_ledgers_witness:
  "\<exists>d'. account_later team_db d' \<and> length (ac_audit d') = 1"
proof -
  obtain d' where d': "account_history (\<lambda>e. e = demotion) team_db d'" "length (ac_audit d') = 1"
    using sample_demotion by (elim exE conjE)
  show ?thesis using account_ledgers [OF d'(1)] d'(2) by (intro exI conjI)
qed

text \<open>
  Requests in the session of another merchant never change a membership, a location assignment, an
  API key or an audit row of merchant \<open>m\<close>, after any history of them.
\<close>

theorem account_isolation:
  assumes "account_history (\<lambda>e. \<exists>m'. account_merchant e = Some m' \<and> m' \<noteq> m) d d'"
  shows "account_rows_of m d' = account_rows_of m d"
proof (rule account_others.history_respects [OF assms])
  fix e assume "\<exists>m'. account_merchant e = Some m' \<and> m' \<noteq> m"
  then obtain m' where e: "account_merchant e = Some m'" "m' \<noteq> m" by blast
  show "frames (\<lambda>d d'. account_rows_of m d' = account_rows_of m d) (\<lambda>_. True) (run_account e)"
    by (rule account_others.frames_merchant_account [OF e(1)]) (simp add: e(2))
qed

theorem account_isolation_witness:
  "\<exists>d'. account_rows_of ''m2'' d' = account_rows_of ''m2'' team_db \<and> length (ac_audit d') = 1"
proof -
  obtain d' where d': "account_history (\<lambda>e. e = demotion) team_db d'" "length (ac_audit d') = 1"
    using sample_demotion by (elim exE conjE)
  have "account_history (\<lambda>e. \<exists>m'. account_merchant e = Some m' \<and> m' \<noteq> ''m2'') team_db d'"
    by (rule history_mono [OF d'(1)]) (simp add: demotion_def)
  from account_isolation [OF this] show ?thesis using d'(2) by (rule exI [of _ d', OF conjI])
qed

end
