(* ===== verification/TeamSpecs.thy ===== *)
theory TeamSpecs
  imports AccountRuns
begin

text \<open>
  What a role change decides and does, as a table on the team, and that an invitation is used once.
\<close>

subsection \<open>Role changes\<close>

datatype verdict = Refused aerror | Kept membership | Changed membership membership

text \<open>There is no case for the last owner: only an owner may touch one, and nobody touches itself.\<close>

definition role_verdict :: "adb \<Rightarrow> uuid \<Rightarrow> membership \<Rightarrow> uuid \<Rightarrow> role \<Rightarrow> verdict" where
  "role_verdict d m actor i role = (if find_merchant d m = None then Refused DoesNotExist
     else case find_member d m (tm_id actor) of None \<Rightarrow> Refused (App TeamPermissionDenied)
     | Some a \<Rightarrow> if \<not> accepted a then Refused (App TeamPermissionDenied)
         else case find_member d m i of None \<Rightarrow> Refused (App TeamMemberNotFound)
         | Some r \<Rightarrow>
             if i = tm_id actor \<or> tm_role a \<noteq> OWNER \<and> OWNER \<in> {tm_role r, role} then Refused (App TeamPermissionDenied)
             else if tm_role r = role then Kept r else Changed a r)"

definition role_changed :: "uuid \<Rightarrow> membership \<Rightarrow> membership \<Rightarrow> role \<Rightarrow> instant \<Rightarrow> adb \<Rightarrow> adb" where
  "role_changed m a r role t d = (let d' = update_member_row m (tm_id r) (\<lambda>x. x\<lparr>tm_role := role, mb_updated_at := t\<rparr>) d in
     logged (log_row (Some m) AUDIT_ROLE_CHANGED (Some (tm_user a)) ''accounts.teammember'' (tm_id r)
       [(''role_from'', JStr (role_name (tm_role r))), (''role_to'', JStr (role_name role))])
     (if tm_role r = MANAGER
      then d'\<lparr>ac_assigned := filter (\<lambda>x. \<not> (as_merchant x = m \<and> as_member x = tm_id r)) (ac_assigned d)\<rparr> else d'))"

lemma run_lock_team:
  assumes "in_tx m w"
  shows "lock_team actor w = (if find_merchant (db w) m = None then Inl DoesNotExist
     else case find_member (db w) m (tm_id actor) of None \<Rightarrow> Inl (App TeamPermissionDenied)
     | Some a \<Rightarrow> if accepted a then Inr a else Inl (App TeamPermissionDenied), locked w)"
  using assms by (simp add: lock_team_def run_seq run_bind account_runs split: option.split)

lemma run_lock_target:
  "in_tx m w \<Longrightarrow> lock_target i w = (case find_member (db w) m i of None \<Rightarrow> Inl (App TeamMemberNotFound) | Some r \<Rightarrow> Inr r, w)"
  by (simp add: lock_target_def run_bind account_runs split: option.split)

text \<open>The actor is a remaining owner when it may change an owner, and a member still when the change is recorded.\<close>

lemma actor_remains:
  assumes "find_member d m (tm_id actor) = Some a" "accepted a" "find_member d m i = Some r" "i \<noteq> tm_id actor"
  shows "tm_role a = OWNER \<Longrightarrow> \<not> would_orphan_owners r m d" "is_member (update_member_row m (tm_id r) f d) m (tm_user a)"
proof -
  have a: "a \<in> set (ac_members d)" "mb_merchant a = m" "tm_id a = tm_id actor" using find_memberD [OF assms(1)] by blast+
  have r: "tm_id r = i" using find_memberD [OF assms(3)] by blast
  show "\<not> would_orphan_owners r m d" if "tm_role a = OWNER"
    using a r assms(2,4) that by (auto simp: would_orphan_owners_def owner_row_def list_ex_iff)
  obtain xs ys where s: "ac_members d = xs @ r # ys" "update_first (\<lambda>x. mb_merchant x = m \<and> tm_id x = i) f (ac_members d) = xs @ f r # ys"
    using update_first_split [OF assms(3) [unfolded find_member_def], of f] by blast
  have "a \<in> set xs \<union> set ys" using a r s(1) assms(4) by auto
  then have "a \<in> set (xs @ f r # ys)" by auto
  then show "is_member (update_member_row m (tm_id r) f d) m (tm_user a)"
    using a assms(2) s r by (auto simp: is_member_def update_member_row_def list_ex_iff)
qed

lemma run_role_body:
  assumes w: "in_tx m w"
  shows "bindM (lock_team actor) (\<lambda>actor. bindM (assign_role actor i role) (\<lambda>(r, old). after_role_change actor role r old)) w =
    (case role_verdict (db w) m actor i role of
       Refused e \<Rightarrow> (Inl e, locked w)
     | Kept r \<Rightarrow> (Inr r, locked w)
     | Changed a r \<Rightarrow> (Inr (r\<lparr>tm_role := role\<rparr>), (tick (locked w))\<lparr>db := role_changed m a r role (clock w (ticks w)) (db w)\<rparr>))"
proof (cases "role_verdict (db w) m actor i role")
  case (Changed a r)
  then have f: "find_merchant (db w) m \<noteq> None" "find_member (db w) m (tm_id actor) = Some a" "accepted a"
      "find_member (db w) m i = Some r" "i \<noteq> tm_id actor" "tm_role a \<noteq> OWNER \<Longrightarrow> tm_role r \<noteq> OWNER \<and> role \<noteq> OWNER" "tm_role r \<noteq> role"
    by (auto simp: role_verdict_def split: if_splits option.splits)
  note remains = actor_remains [OF f(2,3,4,5)]
  have ids: "tm_id r = i" "tm_id a = tm_id actor" using find_memberD [OF f(2)] find_memberD [OF f(4)] by blast+
  have l: "lock_team actor w = (Inr a, locked w)" using f by (simp add: run_lock_team [OF w])
  have "assign_role a i role (locked w) = (Inr (r\<lparr>tm_role := role\<rparr>, Some (tm_role r)),
      (tick (locked w))\<lparr>db := update_member_row m i (\<lambda>x. x\<lparr>tm_role := role, mb_updated_at := clock w (ticks w)\<rparr>) (db w)\<rparr>)"
    using w f ids remains(1)
    by (auto simp: assign_role_def run_bind run_seq run_lock_target account_runs check_can_manage_def bindE_def guardE_def)
  then show ?thesis
    using w f ids remains(2)
    by (auto simp: run_bind l Changed after_role_change_def run_seq account_runs audit_member_def role_changed_def role_metadata_def
        is_member_def update_member_row_def Let_def)
next
  case (Kept r)
  then show ?thesis
    using w find_memberD
    by (auto simp: role_verdict_def run_bind run_seq run_lock_team run_lock_target account_runs assign_role_def
        check_can_manage_def bindE_def guardE_def after_role_change_def split: if_splits option.splits)
next
  case (Refused e)
  then show ?thesis
    using w find_memberD
    by (auto simp: role_verdict_def run_bind run_seq run_lock_team run_lock_target account_runs assign_role_def
        check_can_manage_def bindE_def guardE_def split: if_splits option.splits)
qed

text \<open>
  C13: What a role change decides, on every branch. The actor is read again under the lock of the merchant, and the request is
  refused when it is no accepted member any more, when it targets itself, or when it is no owner and the
  target is one or would become one; a role that does not change writes nothing. Otherwise exactly one row gets the new role, a
  former manager's locations go, and one audit row is written. The guard for the last owner is unreachable, as its docstring says.
\<close>

theorem role_change_exact:
  assumes "in_tx m w"
  shows "case role_verdict (db w) m actor i role of
      Refused e \<Rightarrow> fst (change_team_member_role actor i role w) = Inl e \<and> db (snd (change_team_member_role actor i role w)) = db w
    | Kept r \<Rightarrow> fst (change_team_member_role actor i role w) = Inr r \<and> db (snd (change_team_member_role actor i role w)) = db w
    | Changed a r \<Rightarrow> fst (change_team_member_role actor i role w) = Inr (r\<lparr>tm_role := role\<rparr>) \<and>
        db (snd (change_team_member_role actor i role w)) = role_changed m a r role (clock w (ticks w)) (db w)"
proof -
  let ?v = "w\<lparr>saves := db w # saves w\<rparr>"
  have s: "saves w \<noteq> []" using assms by (simp add: in_tx_def)
  show ?thesis
    unfolding change_team_member_role_def run_nested [OF assms] run_role_body [OF in_tx_nested [OF assms]]
    using s by (simp add: rollback_block_def split: verdict.split)
qed

lemma sample_verdict: "role_verdict team_db ''m1'' owner_member ''t2'' MANAGER = Changed owner_member admin_member"
  by code_simp

theorem role_change_exact_witness:
  "\<exists>w. role_verdict (db w) ''m1'' owner_member ''t2'' MANAGER = Changed owner_member admin_member \<and>
     fst (change_team_member_role owner_member ''t2'' MANAGER w) = Inr (admin_member\<lparr>tm_role := MANAGER\<rparr>)"
  using role_change_exact [of "''m1''" "account_tx team_db" owner_member "''t2''" MANAGER] sample_verdict
  by (intro exI [of _ "account_tx team_db"]) simp

subsection \<open>Invitations\<close>

text \<open>The row an accepted token names.\<close>

definition invited_row :: "adb \<Rightarrow> uuid \<times> uuid \<times> bool \<times> instant \<Rightarrow> membership \<Rightarrow> bool" where
  "invited_row d p r \<longleftrightarrow> (case p of (member_id, user_id, dated, t) \<Rightarrow> r \<in> set (ac_members d) \<and> tm_id r = member_id \<and> tm_user r = user_id \<and>
     \<not> accepted r \<and> merchant_active d (mb_merchant r) \<and> dated \<and> mb_invited_at r = Some t)"

text \<open>A password that was there is the one given, and stays.\<close>

definition password_kept :: "auth_lib \<Rightarrow> string \<Rightarrow> uuid \<Rightarrow> adb \<Rightarrow> adb \<Rightarrow> bool" where
  "password_kept lib password i d d' \<longleftrightarrow> (case find_user d i of None \<Rightarrow> False
     | Some u \<Rightarrow> (case us_password u of None \<Rightarrow> password_problems lib password (us_email u) = []
       | Some encoded \<Rightarrow> check_password lib password encoded \<and> ac_users d' = ac_users d))"

lemma run_password:
  assumes "in_tx m w" "check_or_set_password i password w = (Inr u, w')"
  shows "password_kept (auth w) password i (db w) (db w')" "ac_members (db w') = ac_members (db w)" "in_tx m w'"
  using assms
  by (auto simp: check_or_set_password_def run_bind run_seq account_runs password_kept_def validate_password_def encoded_password_def draw_def
      split: option.splits if_splits list.splits)

lemma run_accept_locked:
  assumes w: "in_tx m w" and ok: "accept_locked m i u (dated, t) password w = (Inr (), w')"
  shows "\<exists>r f. invited_row (db w) (i, u, dated, t) r \<and> mb_merchant r = m \<and> password_kept (auth w) password u (db w) (db w') \<and>
    ac_members (db w') = update_first (\<lambda>r. mb_merchant r = m \<and> tm_id r = i) f (ac_members (db w)) \<and>
    (\<forall>x. accepted (f x) \<and> tm_id (f x) = tm_id x)"
proof -
  from ok w obtain r where r: "first (\<lambda>r. mb_merchant r = m \<and> tm_id r = i \<and> tm_user r = u \<and> \<not> accepted r) (ac_members (db w)) = Some r"
      and ok2: "merchant_active (db w) m" "dated" "mb_invited_at r = Some t"
      "bindM (check_or_set_password u password) (\<lambda>u. bindM now (\<lambda>t. seqM (save_member (tm_id r) (\<lambda>x. x\<lparr>mb_accepted_at := Some t\<rparr>))
         (record_action AUDIT_ACCEPTED (us_id u) ''accounts.teammember'' (tm_id r) []))) ((locked w)\<lparr>env_n := Suc (env_n (locked w))\<rparr>) = (Inr (), w')"
    by (auto simp: accept_locked_def run_seq run_bind account_runs split: if_splits option.splits)
  let ?w = "(locked w)\<lparr>env_n := Suc (env_n (locked w))\<rparr>"
  have tx: "in_tx m ?w" using w by simp
  from r have r': "r \<in> set (ac_members (db w))" "mb_merchant r = m" "tm_id r = i" "tm_user r = u" "\<not> accepted r"
    using first_SomeD by fastforce+
  from ok2(4) obtain v w1 where v: "check_or_set_password u password ?w = (Inr v, w1)"
    by (auto simp: run_bind split: prod.splits sum.splits)
  note kept = run_password [OF tx v]
  from ok2(4) v kept(3) obtain acc upd where members: "ac_members (db w') = update_first (\<lambda>r. mb_merchant r = m \<and> tm_id r = i)
      (\<lambda>x. x\<lparr>mb_accepted_at := Some acc, mb_updated_at := upd\<rparr>) (ac_members (db w1))" and users: "ac_users (db w') = ac_users (db w1)"
    by (auto simp: run_bind run_seq account_runs r'(3) update_member_row_def logged_def split: if_splits)
  show ?thesis
    using r' ok2 kept members users
    by (intro exI [of _ r] exI [of _ "\<lambda>x. x\<lparr>mb_accepted_at := Some acc, mb_updated_at := upd\<rparr>"])
      (simp add: invited_row_def accepted_def password_kept_def cong: option.case_cong)
qed

definition invite_named :: "string \<Rightarrow> account_world \<Rightarrow> aerror + uuid \<times> uuid \<times> bool \<times> instant" where
  "invite_named token w = invite_payload (auth w) (apy w) (unsign_object (auth w) token (clock w (ticks w)) INVITE_MAX_AGE)"

lemma run_read_invite:
  "read_invite token w = (case invite_named token w of Inr x \<Rightarrow> Inr x
     | Inl e \<Rightarrow> Inl (if e = ValueErr \<or> e = TypeErr then App InvalidInvite else e), tick w)"
  by (simp add: read_invite_def run_bind run_now invite_named_def split: sum.split)

lemma run_invited_merchant:
  "alone w \<Longrightarrow> invited_merchant i u w = (Inr (map_option mb_merchant
      (first (\<lambda>r. tm_id r = i \<and> \<not> accepted r \<and> merchant_active (db w) (mb_merchant r)) (filter (\<lambda>r. tm_user r = u) (ac_members (db w))))),
      w\<lparr>env_n := Suc (env_n w)\<rparr>)"
  unfolding invited_merchant_def by (rule run_user_lookup [of w u "\<lambda>d rs. map_option mb_merchant
      (first (\<lambda>r. tm_id r = i \<and> \<not> accepted r \<and> merchant_active d (mb_merchant r)) rs)"])

lemma accept_refused:
  assumes "alone w" "invite_named token w \<in> {Inl ValueErr, Inr (i, u, it)}" "\<And>r. r \<in> set (ac_members (db w)) \<Longrightarrow> tm_id r = i \<Longrightarrow> accepted r"
  shows "fst (accept_invite token password w) = Inl (App InvalidInvite)" "db (snd (accept_invite token password w)) = db w"
proof -
  have "first (\<lambda>r. tm_id r = i \<and> \<not> accepted r \<and> merchant_active (db w) (mb_merchant r)) (filter (\<lambda>r. tm_user r = u) (ac_members (db w))) = None"
    using assms(3) by (auto simp: first_None)
  then show "fst (accept_invite token password w) = Inl (App InvalidInvite)" "db (snd (accept_invite token password w)) = db w"
    using assms(1,2) by (auto simp: accept_invite_def run_bind run_read_invite run_invited_merchant)
qed

lemma accept_accepted:
  assumes w: "alone w" and ok: "accept_invite token password w = (Inr (), w')"
  shows "\<exists>p r f. invite_named token w = Inr p \<and> invited_row (db w) p r \<and> password_kept (auth w) password (fst (snd p)) (db w) (db w') \<and>
    ac_members (db w') = update_first (\<lambda>x. mb_merchant x = mb_merchant r \<and> tm_id x = fst p) f (ac_members (db w)) \<and>
    (\<forall>x. accepted (f x) \<and> tm_id (f x) = tm_id x)"
proof -
  obtain i u dated t where p: "invite_named token w = Inr (i, u, dated, t)"
    using ok by (auto simp: accept_invite_def run_bind run_read_invite split: sum.splits)
  from ok w p obtain m where m: "tenant_context (Some m) (tenant_atomic False (accept_locked m i u (dated, t) password))
      ((tick w)\<lparr>env_n := Suc (env_n (tick w))\<rparr>) = (Inr (), w')"
    by (auto simp: accept_invite_def run_bind run_read_invite run_invited_merchant split: option.splits)
  let ?w = "(tick w)\<lparr>env_n := Suc (env_n (tick w))\<rparr>"
  have "alone ?w" using w by simp
  from m [unfolded run_outermost [OF this]] obtain w1 where
    w1: "accept_locked m i u (dated, t) password (entered m ?w) = (Inr (), w1)" "w' = left w1"
    by (auto split: prod.splits sum.splits)
  from run_accept_locked [OF _ w1(1)] \<open>alone ?w\<close> show ?thesis
    unfolding p w1(2) by fastforce
qed

lemma all_updated:
  "distinct (map g rows) \<Longrightarrow> r \<in> set rows \<Longrightarrow> P r \<Longrightarrow> (\<And>x. P x \<Longrightarrow> g x = k) \<Longrightarrow> (\<And>x. Q (f x)) \<Longrightarrow>
    x \<in> set (update_first P f rows) \<Longrightarrow> g x = k \<Longrightarrow> Q x"
proof (induction rows)
  case (Cons a rows)
  show ?case
  proof (cases "P a")
    case True
    with Cons.prems have "k \<notin> g ` set rows" by auto
    with True Cons.prems show ?thesis by auto
  next
    case False
    with Cons.prems(2,3) have r: "r \<in> set rows" by auto
    have "g r = k" using Cons.prems(3,4) by blast
    then have "g a \<noteq> k" using r Cons.prems(1) by force
    with False Cons r show ?thesis by auto
  qed
qed simp

text \<open>
  C14: An invitation is used once, by the invited person, and takes over no account. When accepting a token succeeds, the token is
  signed and in time, the row it names was still pending in an active merchant with exactly that time of invitation, and
  the password given is the account's own, which stays, or becomes its first one. After that the same token is refused with
  any password and changes nothing, whether its signature is still in time or not.
\<close>

theorem invite_single_use:
  assumes "alone w" "unique_members (db w)" "accept_invite token password w = (Inr (), w')"
  shows "\<exists>p r. invite_named token w = Inr p \<and> invited_row (db w) p r \<and> password_kept (auth w) password (fst (snd p)) (db w) (db w') \<and>
    (\<forall>w2 again. alone w2 \<longrightarrow> db w2 = db w' \<longrightarrow> invite_named token w2 \<in> {Inl ValueErr, Inr p} \<longrightarrow>
       fst (accept_invite token again w2) = Inl (App InvalidInvite) \<and> db (snd (accept_invite token again w2)) = db w')"
proof -
  obtain p r f where p: "invite_named token w = Inr p" "invited_row (db w) p r" "password_kept (auth w) password (fst (snd p)) (db w) (db w')"
      and m: "ac_members (db w') = update_first (\<lambda>x. mb_merchant x = mb_merchant r \<and> tm_id x = fst p) f (ac_members (db w))"
      and f: "\<And>x. accepted (f x)" "\<And>x. tm_id (f x) = tm_id x"
    using accept_accepted [OF assms(1,3)] by blast
  obtain i u it where i: "p = (i, u, it)" by (cases p)
  have "accepted x" if "x \<in> set (ac_members (db w'))" "tm_id x = i" for x
    by (rule all_updated [where g = tm_id and r = r and f = f and Q = accepted and k = i and rows = "ac_members (db w)" and
          P = "\<lambda>x. mb_merchant x = mb_merchant r \<and> tm_id x = i"])
      (use assms(2) p(2) f m that in \<open>auto simp: unique_members_def invited_row_def i\<close>)
  then show ?thesis using p accept_refused [of _ token i u it] unfolding i by metis
qed

definition invited_db :: adb where
  "invited_db = team_db\<lparr>ac_members := [owner_member, sample_member ''t4'' ''u4'' VIEWER None]\<rparr>"

theorem invite_single_use_witness:
  "\<exists>w'. accept_invite ''signed'' ''longpassword'' (account_idle invited_db) = (Inr (), w') \<and>
     fst (accept_invite ''signed'' ''other'' (account_idle (db w'))) = Inl (App InvalidInvite)"
proof -
  let ?w = "account_idle invited_db"
  have "fst (accept_invite ''signed'' ''longpassword'' ?w) = Inr ()" by code_simp
  then obtain w' where r: "accept_invite ''signed'' ''longpassword'' ?w = (Inr (), w')" by (cases "accept_invite ''signed'' ''longpassword'' ?w") simp
  have u: "unique_members invited_db" by code_simp
  have n: "invite_named ''signed'' (account_idle (db w')) = invite_named ''signed'' ?w"
    by (simp add: invite_named_def account_idle_def)
  have a: "alone ?w" "unique_members (db ?w)" using u by simp_all
  obtain p where p: "invite_named ''signed'' ?w = Inr p"
    "\<forall>w2 again. alone w2 \<longrightarrow> db w2 = db w' \<longrightarrow> invite_named ''signed'' w2 \<in> {Inl ValueErr, Inr p} \<longrightarrow>
       fst (accept_invite ''signed'' again w2) = Inl (App InvalidInvite) \<and> db (snd (accept_invite ''signed'' again w2)) = db w'"
    using invite_single_use [OF a r] by blast
  have "fst (accept_invite ''signed'' ''other'' (account_idle (db w'))) = Inl (App InvalidInvite)"
    by (rule p(2) [rule_format, THEN conjunct1]) (simp_all add: n p(1))
  with r show ?thesis by blast
qed

end
