(* ===== verification/FactorProps.thy ===== *)
theory FactorProps
  imports AccountRuns
begin

text \<open>
  The second factor against its specification, and what a browser must have shown before its session
  belongs to a user or to the admin site.
\<close>

subsection \<open>What a code is good for\<close>

text \<open>A step is good for a code when it is at most one from the current one, later than the last one used, and has this code.\<close>

definition good_step :: "auth_lib \<Rightarrow> pylib \<Rightarrow> user \<Rightarrow> string \<Rightarrow> instant \<Rightarrow> int \<Rightarrow> bool" where
  "good_step lib py u code t s \<longleftrightarrow> dollar six_digits code \<and> \<bar>s - timecode lib t\<bar> \<le> 1 \<and> last_used u < s \<and>
     (\<exists>enc secret. us_totp_secret u = Some enc \<and> enc \<noteq> [] \<and> decrypt py enc = Some secret \<and> otp_at lib secret s = code)"

definition good_code :: "user \<Rightarrow> string \<Rightarrow> bool" where
  "good_code u code \<longleftrightarrow> hash_recovery_code code \<in> set (us_codes u)"

lemma find_step_Some: "find_step lib secret n code steps = Inr (Some s) \<Longrightarrow> s \<in> set steps \<and> n < s \<and> otp_at lib secret s = code"
  by (induction steps) (auto simp: compare_digest_def split: if_splits)

lemma find_step_None:
  "find_step lib secret n code steps = Inr None \<Longrightarrow> s \<in> set steps \<Longrightarrow> n < s \<Longrightarrow> otp_at lib secret s \<noteq> code"
  by (induction steps) (auto simp: compare_digest_def split: if_splits)

lemma steps_around: "s \<in> set (steps_around lib t) \<longleftrightarrow> \<bar>s - timecode lib t\<bar> \<le> 1"
  by (auto simp: steps_around_def)

lemma totp_step_Some:
  "dollar six_digits code \<Longrightarrow> totp_step lib py u code t = Inr (Some s) \<Longrightarrow> good_step lib py u code t s"
  using find_step_Some unfolding good_step_def totp_step_def steps_around [symmetric]
  by (fastforce split: option.splits if_splits)

lemma totp_step_None: "totp_step lib py u code t = Inr None \<Longrightarrow> \<not> good_step lib py u code t s"
  using find_step_None unfolding good_step_def totp_step_def steps_around [symmetric]
  by (fastforce split: option.splits if_splits)

lemma find_saved:
  "first (\<lambda>x. us_id x = i) us = Some u \<Longrightarrow> us_id (f u) = i \<Longrightarrow> first (\<lambda>x. us_id x = i) (update_first (\<lambda>x. us_id x = i) f us) = Some (f u)"
  by (induction us) (auto split: if_splits)

lemma run_verify_totp:
  assumes u: "find_user (db w) (us_id u) = Some u"
  shows "verify_totp u code t w = (case totp_step (auth w) (apy w) u code t of
      Inl e \<Rightarrow> (Inl e, w) | Inr None \<Rightarrow> (Inr None, w)
    | Inr (Some s) \<Rightarrow> (Inr (Some (use_step s u)), w\<lparr>db := (db w)\<lparr>ac_users := update_first (\<lambda>x. us_id x = us_id u) (use_step s) (ac_users (db w))\<rparr>\<rparr>))"
  using u by (simp add: verify_totp_def run_bind run_seq run_save_user split: sum.split option.split)

lemma run_consume:
  assumes u: "find_user (db w) (us_id u) = Some u"
  shows "consume_recovery_code u code w = (if good_code u code
     then (Inr (Some (use_code (hash_recovery_code code) u)), w\<lparr>db := (db w)\<lparr>ac_users := update_first (\<lambda>x. us_id x = us_id u)
         (\<lambda>x. x\<lparr>us_codes := us_codes (use_code (hash_recovery_code code) u)\<rparr>) (ac_users (db w))\<rparr>\<rparr>)
     else (Inr None, w))"
  using u by (simp add: consume_recovery_code_def Let_def run_seq run_save_user good_code_def use_code_def)

lemma second_factor_core:
  assumes "find_user (db w) (us_id u) = Some u"
  shows "case verify_second_factor u code t w of
      (Inr (Some (Totp, u')), w') \<Rightarrow> \<exists>s. good_step (auth w) (apy w) u (strip code) t s \<and> u' = u\<lparr>us_last_step := Some s\<rparr> \<and>
        find_user (db w') (us_id u) = Some u' \<and> (\<forall>code' t' s'. good_step (auth w) (apy w) u' code' t' s' \<longrightarrow> s < s')
    | (Inr (Some (Recovery, u')), w') \<Rightarrow> good_code u code \<and> \<not> good_code u' code \<and> find_user (db w') (us_id u) = Some u' \<and>
        us_codes u' = filter (\<lambda>h. h \<noteq> hash_recovery_code code) (us_codes u)
    | (Inr None, w') \<Rightarrow> w' = w \<and> \<not> good_code u code \<and> (\<nexists>s. good_step (auth w) (apy w) u (strip code) t s)
    | (Inl e, w') \<Rightarrow> w' = w"
proof -
  let ?six = "dollar six_digits (strip code)"
  have rec: "case consume_recovery_code u code w of
      (Inr None, w') \<Rightarrow> w' = w \<and> \<not> good_code u code
    | (Inr (Some u'), w') \<Rightarrow> good_code u code \<and> \<not> good_code u' code \<and> find_user (db w') (us_id u) = Some u' \<and>
        us_codes u' = filter (\<lambda>h. h \<noteq> hash_recovery_code code) (us_codes u)
    | (Inl e, w') \<Rightarrow> False"
    using assms by (simp add: run_consume use_code_def good_code_def find_saved)
  have fresh: "good_step lib py (u\<lparr>us_last_step := Some s\<rparr>) code' t' s' \<Longrightarrow> s < s'" for lib py s code' t' s'
    by (simp add: good_step_def last_used_def)
  show ?thesis
  proof (cases "?six")
    case False
    then show ?thesis using rec
      by (auto simp: verify_second_factor_def Let_def run_bind good_step_def split: prod.splits sum.splits option.splits)
  next
    case True
    show ?thesis
    proof (cases "totp_step (auth w) (apy w) u (strip code) t")
      case (Inl e)
      with True assms show ?thesis by (simp add: verify_second_factor_def Let_def run_bind run_verify_totp)
    next
      case (Inr r)
      show ?thesis
      proof (cases r)
        case None
        with True Inr assms rec totp_step_None [of "auth w" "apy w" u "strip code" t] show ?thesis
          by (auto simp: verify_second_factor_def Let_def run_bind run_verify_totp split: prod.splits sum.splits option.splits)
      next
        case (Some s)
        with True Inr assms fresh totp_step_Some [of "strip code" "auth w" "apy w" u t s] show ?thesis
          by (auto simp: verify_second_factor_def Let_def run_bind run_verify_totp use_step_def find_saved)
      qed
    qed
  qed
qed

text \<open>
  C15: The second factor, exactly. On the locked row of the user a six-digit code is accepted only for a step within one of the
  current one that is later than every step used before, and that step is then used up, so no code is accepted twice for its step; otherwise a recovery code is
  accepted only if its hash is stored, and the hash is then gone. When neither holds the answer is that neither holds
  and nothing is written; an exception writes nothing either.
\<close>

theorem second_factor_exact:
  assumes "find_user (db w) (us_id u) = Some u"
  shows "case verify_second_factor u code t w of
      (Inr (Some (Totp, u')), w') \<Rightarrow> \<exists>s. good_step (auth w) (apy w) u (strip code) t s \<and> u' = u\<lparr>us_last_step := Some s\<rparr> \<and>
        find_user (db w') (us_id u) = Some u' \<and> (\<forall>code' t' s'. good_step (auth w) (apy w) u' code' t' s' \<longrightarrow> s < s')
    | (Inr (Some (Recovery, u')), w') \<Rightarrow> good_code u code \<and> \<not> good_code u' code \<and> find_user (db w') (us_id u) = Some u' \<and>
        us_codes u' = filter (\<lambda>h. h \<noteq> hash_recovery_code code) (us_codes u)
    | (Inr None, w') \<Rightarrow> w' = w \<and> \<not> good_code u code \<and> (\<nexists>s. good_step (auth w) (apy w) u (strip code) t s)
    | (Inl e, w') \<Rightarrow> w' = w"
  using second_factor_core [OF assms] .

definition bob :: user where
  "bob = (sample_user ''u2'' ''bob@x.io'' (Some ''pbkdf2$battery staple''))\<lparr>us_totp_secret := Some ''secret'', us_totp_confirmed := Some (seconds 700)\<rparr>"

theorem second_factor_exact_witness:
  "\<exists>s (w' :: account_world). good_step sample_auth account_py bob ''444444'' (seconds 1600) s \<and> find_user (db w') ''u2'' = Some (bob\<lparr>us_last_step := Some s\<rparr>)"
proof -
  let ?w = "account_idle team_db"
  have u: "find_user (db ?w) (us_id bob) = Some bob" by code_simp
  obtain r w' where r: "verify_second_factor bob ''444444'' (seconds 1600) ?w = (r, w')" by fastforce
  have e: "auth ?w = sample_auth" "apy ?w = account_py" by (simp_all add: account_idle_def)
  have "totp_step sample_auth account_py bob ''444444'' (seconds 1600) = Inr (Some 54)" "dollar six_digits (strip ''444444'')" "strip ''444444'' = ''444444''"
    by code_simp+
  then have "fst (verify_second_factor bob ''444444'' (seconds 1600) ?w) = Inr (Some (Totp, bob\<lparr>us_last_step := Some 54\<rparr>))"
    by (simp add: verify_second_factor_def Let_def run_bind run_verify_totp [OF u] e use_step_def)
  with r have "r = Inr (Some (Totp, bob\<lparr>us_last_step := Some 54\<rparr>))" by simp
  moreover have "strip ''444444'' = ''444444''" "us_id bob = ''u2''" by code_simp+
  ultimately obtain s where "good_step sample_auth account_py bob ''444444'' (seconds 1600) s" "find_user (db w') ''u2'' = Some (bob\<lparr>us_last_step := Some s\<rparr>)"
    using second_factor_exact [OF u, of "''444444''" "seconds 1600"] r e by auto
  then show ?thesis by (intro exI conjI)
qed

subsection \<open>What a browser must have shown\<close>

text \<open>
  The requests of one browser, each with the world it arrives in: others may do anything between two
  of them. A request that ends in an exception leaves the stored session as it was.
\<close>

datatype visit =
    PostLogin account_world string string
  | PostCode account_world string
  | PostLogout
  | PostAdmin account_world bool string string string

definition stored :: "session \<Rightarrow> (aerror + session) \<times> account_world \<Rightarrow> session" where
  "stored s r = (case fst r of Inl e \<Rightarrow> s | Inr s' \<Rightarrow> s')"

fun browse :: "session \<Rightarrow> visit \<Rightarrow> session" where
  "browse s (PostLogin w email password) = stored s (bindM (login_post s email password) (\<lambda>(s', a). ret s') w)"
| "browse s (PostCode w code) = stored s (bindM (login_totp_post s code) (\<lambda>(s', a). ret s') w)"
| "browse s PostLogout = logout_post s"
| "browse s (PostAdmin w allowed email password code) = stored s (admin_login_post allowed s email password code w)"

text \<open>A request arrives when nobody interferes with it; \<open>uuid.UUID(str(u))\<close> gives back the identifier of a user.\<close>

definition served :: "auth_lib \<Rightarrow> account_world \<Rightarrow> bool" where
  "served lib w \<longleftrightarrow> alone w \<and> auth w = lib \<and> (\<forall>u\<in>set (ac_users (db w)). uuid_of lib (us_id u) = Some (us_id u))"

fun arrives :: "auth_lib \<Rightarrow> visit \<Rightarrow> bool" where
  "arrives lib (PostLogin w email password) \<longleftrightarrow> served lib w"
| "arrives lib (PostCode w code) \<longleftrightarrow> served lib w"
| "arrives lib PostLogout \<longleftrightarrow> True"
| "arrives lib (PostAdmin w allowed email password code) \<longleftrightarrow> served lib w"

definition enrolled :: "account_world \<Rightarrow> uuid \<Rightarrow> bool" where
  "enrolled w i \<longleftrightarrow> (case find_user (db w) i of None \<Rightarrow> False | Some u \<Rightarrow> is_totp_enabled u)"

definition shows_password :: "account_world \<Rightarrow> string \<Rightarrow> string \<Rightarrow> uuid \<Rightarrow> bool" where
  "shows_password w email password i \<longleftrightarrow> (\<exists>u. authenticate_user (auth w) (db w) email password = Some u \<and> us_id u = i)"

definition shows_factor :: "account_world \<Rightarrow> string \<Rightarrow> uuid \<Rightarrow> bool" where
  "shows_factor w code i \<longleftrightarrow> (\<exists>u t. find_user (db w) i = Some u \<and> us_active u \<and> is_totp_enabled u \<and>
     (good_code u code \<or> (\<exists>s. good_step (auth w) (apy w) u (strip code) t s)))"

definition staff_user :: "account_world \<Rightarrow> uuid \<Rightarrow> bool" where
  "staff_user w i \<longleftrightarrow> (\<exists>u. find_user (db w) i = Some u \<and> is_active_staff u)"

definition admin_shown :: "visit list \<Rightarrow> uuid \<Rightarrow> bool" where
  "admin_shown vs i \<longleftrightarrow> (\<exists>w email password code. PostAdmin w True email password code \<in> set vs \<and> shows_password w email password i \<and>
     staff_user w i \<and> shows_factor w (otp_field code) i)"

definition password_shown :: "visit list \<Rightarrow> uuid \<Rightarrow> bool" where
  "password_shown vs i \<longleftrightarrow> (\<exists>w email password. PostLogin w email password \<in> set vs \<and> shows_password w email password i)"

definition identity_shown :: "visit list \<Rightarrow> uuid \<Rightarrow> bool" where
  "identity_shown vs i \<longleftrightarrow> admin_shown vs i \<or>
     (\<exists>w email password. PostLogin w email password \<in> set vs \<and> shows_password w email password i \<and> \<not> enrolled w i) \<or>
     (\<exists>before w code later. vs = before @ PostCode w code # later \<and> password_shown before i \<and> shows_factor w code i)"

lemma shown_later:
  "admin_shown vs i \<Longrightarrow> admin_shown (vs @ us) i" "password_shown vs i \<Longrightarrow> password_shown (vs @ us) i"
  "identity_shown vs i \<Longrightarrow> identity_shown (vs @ us) i"
proof -
  show a: "admin_shown vs i \<Longrightarrow> admin_shown (vs @ us) i" unfolding admin_shown_def by auto
  show "password_shown vs i \<Longrightarrow> password_shown (vs @ us) i" unfolding password_shown_def by auto
  show "identity_shown vs i \<Longrightarrow> identity_shown (vs @ us) i"
    unfolding identity_shown_def using a by (metis append_Cons append_assoc in_set_conv_decomp)
qed

text \<open>The password step of a served request.\<close>

lemma run_resolve:
  "alone w \<Longrightarrow> resolve_login_membership u w = (Inr (case sort_key mb_created_at (filter (grants_access (db w))
      (filter (\<lambda>r. tm_user r = us_id u) (ac_members (db w)))) of [] \<Rightarrow> None | r # _ \<Rightarrow> Some r), w\<lparr>env_n := Suc (env_n w)\<rparr>)"
  unfolding resolve_login_membership_def by (rule run_user_lookup [of w "us_id u" "\<lambda>d rs. case sort_key mb_created_at (filter (grants_access d) rs) of
      [] \<Rightarrow> None | r # _ \<Rightarrow> Some r"])

lemma first_login_membership:
  assumes "alone w" "resolve_login_membership u w = (Inr (Some r), w')"
  shows "tm_user r = us_id u" "w' = w\<lparr>env_n := Suc (env_n w)\<rparr>"
proof -
  let ?rs = "sort_key mb_created_at (filter (grants_access (db w)) (filter (\<lambda>r. tm_user r = us_id u) (ac_members (db w))))"
  from assms obtain rs where rs: "?rs = r # rs" and w: "w' = w\<lparr>env_n := Suc (env_n w)\<rparr>" by (auto simp: run_resolve split: list.splits)
  from rs have "r \<in> set ?rs" by simp
  then show "tm_user r = us_id u" by simp
  from w show "w' = w\<lparr>env_n := Suc (env_n w)\<rparr>" .
qed

lemma login_begun:
  assumes "alone w" "begin_login email password w = (Inr (r, required), w')"
  shows "shows_password w email password (tm_user r)" "required = enrolled w (tm_user r)" "alone w'" "db w' = db w"
  using assms first_login_membership
  by (fastforce simp: begin_login_def authenticate_login_def member_user_def run_bind run_or_raise shows_password_def enrolled_def
      split: option.splits prod.splits sum.splits)+

text \<open>The code step of a served request.\<close>

lemma verified_factor:
  assumes "verify_second_factor u code t w = (Inr (Some f), w')" "find_user (db w) (us_id u) = Some u"
  shows "good_code u code \<or> (\<exists>s. good_step (auth w) (apy w) u (strip code) t s)"
proof -
  obtain k u' where "f = (k, u')" by (cases f)
  then show ?thesis using second_factor_core [OF assms(2), of code t] assms(1) by (cases k) auto
qed

lemma factor_login_shown:
  assumes "in_tx m w" "factor_login k i code w = (Inr r, w')"
  shows "tm_user r = i" "shows_factor w code i"
proof -
  let ?w = "w\<lparr>env_n := Suc (env_n w)\<rparr>"
  have tx: "in_tx m ?w" using assms(1) by simp
  from assms obtain q u where q: "first (\<lambda>r. mb_merchant r = m \<and> tm_id r = k \<and> tm_user r = i \<and> grants_access (db w) r) (ac_members (db w)) = Some q"
      and u: "find_user (db w) i = Some u"
    and on: "us_active u" "is_totp_enabled u"
    and rest: "bindM now (\<lambda>t. bindM (verify_second_factor u code t) (\<lambda>f. case f of
           None \<Rightarrow> throw (App InvalidCredentials)
         | Some (Totp, _) \<Rightarrow> ret q
         | Some (Recovery, u') \<Rightarrow> seqM (audit_user AUDIT_TOTP_RECOVERY_USED u' (codes_left u')) (ret q)))
         (w\<lparr>env_n := Suc (Suc (env_n w))\<rparr>) = (Inr r, w')"
    by (auto simp: factor_login_def run_seq run_bind account_runs lock_user_def split: option.splits if_splits)
  have i: "us_id u = i" using u first_SomeD by fastforce
  from rest obtain f v where f: "verify_second_factor u code (clock w (ticks w)) (tick (w\<lparr>env_n := Suc (Suc (env_n w))\<rparr>)) = (Inr (Some f), v)" and r: "r = q"
    by (auto simp: run_bind run_now run_seq split: prod.splits sum.splits option.splits factor.splits)
  show "tm_user r = i" using q r first_SomeD by fastforce
  show "shows_factor w code i" using verified_factor [OF f] u on i by (auto simp: shows_factor_def)
qed

lemma code_completed:
  assumes "served lib w" "complete_totp_login marker code w = (Inr r, w')"
  shows "\<exists>p j. marker = Some p \<and> pt_user p = Some j \<and> uuid_of lib j = Some (tm_user r) \<and> shows_factor w code (tm_user r)"
proof -
  have w: "alone w" "auth w = lib" using assms(1) by (simp_all add: served_def)
  obtain i w1 where i: "marker_user marker w = (Inr i, w1)"
    using assms(2) by (auto simp: complete_totp_login_def run_bind split: prod.splits sum.splits)
  then obtain p j where p: "marker = Some p" "pt_user p = Some j" "uuid_of lib j = Some i" and w1: "w1 = tick w"
    using w by (auto simp: marker_user_def run_bind run_now run_or_raise split: option.splits if_splits)
  from assms(2) i obtain u q w2 where q: "resolve_login_membership u w1 = (Inr (Some q), w2)"
    "tenant_context (Some (mb_merchant q)) (tenant_atomic False (factor_login (tm_id q) i code)) w2 = (Inr r, w')"
    by (auto simp: complete_totp_login_def run_bind run_or_raise split: option.splits if_splits prod.splits sum.splits)
  have w2: "w2 = w1\<lparr>env_n := Suc (env_n w1)\<rparr>" using first_login_membership(2) [OF _ q(1)] w w1 by simp
  have v: "alone (w1\<lparr>env_n := Suc (env_n w1)\<rparr>)" using w w1 by simp
  from q(2) [unfolded w2 run_outermost [OF v]] obtain w3 where
    "factor_login (tm_id q) i code (entered (mb_merchant q) (w1\<lparr>env_n := Suc (env_n w1)\<rparr>)) = (Inr r, w3)"
    by (auto split: prod.splits sum.splits)
  from factor_login_shown [OF entered_fields(5) [OF v] this] p show ?thesis by (simp add: shows_factor_def w1)
qed

text \<open>The admin login, which has no tenant.\<close>

lemma atomic_Inr:
  assumes "atomic p w = (Inr a, w')"
  shows "\<exists>v. p (begin_block w) = (Inr a, v)"
  using assms by (auto simp: atomic_def split: prod.splits sum.splits)

lemma platform_Inr:
  assumes "platform_write_atomic s p w = (Inr a, w')" "alone w"
  shows "\<exists>w1 v. p w1 = (Inr a, v) \<and> db w1 = db w \<and> quiet w1 \<and> auth w1 = auth w \<and> apy w1 = apy w"
proof -
  let ?w = "w\<lparr>ctx := (ctx w)\<lparr>platform_write_var := Some s\<rparr>\<rparr>"
  have q: "quiet ?w" using assms(2) by (simp add: alone_def quiet_def)
  have b: "db (begin_block ?w) = db w" "quiet (begin_block ?w)" "auth (begin_block ?w) = auth w" "apy (begin_block ?w) = apy w"
    using interfere_quiet [OF q] q by (simp_all add: begin_block_def Let_def quiet_def)
  from assms(1) have "\<exists>w2. durable_atomic (seqM (set_local platform_write_var_update s) p) ?w = (Inr a, w2)"
    by (auto simp: platform_write_atomic_def lookup_atomic_def with_var_def split: if_splits prod.splits)
  then obtain w2 where "atomic (seqM (set_local platform_write_var_update s) p) ?w = (Inr a, w2)"
    by (auto simp: durable_atomic_def split: if_splits)
  from atomic_Inr [OF this] obtain v where v: "seqM (set_local platform_write_var_update s) p (begin_block ?w) = (Inr a, v)" by blast
  let ?b = "begin_block ?w"
  from v have "p (?b\<lparr>guc := (guc ?b)\<lparr>platform_write_var := Some s\<rparr>\<rparr>) = (Inr a, v)" by (simp add: set_local_def run_seq)
  then show ?thesis using b by (intro exI conjI) (assumption | simp add: quiet_def)+
qed

lemma run_lock_user: "quiet w \<Longrightarrow> lock_user i w = (case find_user (db w) i of None \<Rightarrow> Inl DoesNotExist | Some u \<Rightarrow> Inr u, w\<lparr>env_n := Suc (env_n w)\<rparr>)"
  by (simp add: lock_user_def run_seq run_bind wait_def interfere_quiet run_or_raise split: option.split)

lemma staff_verified:
  assumes w: "alone w" and ok: "verify_staff_admin_login i code w = (Inr True, w')"
  shows "\<exists>u t. find_user (db w) i = Some u \<and> is_active_staff u \<and> is_totp_enabled u \<and>
    (good_code u (strip code) \<or> (\<exists>s. good_step (auth w) (apy w) u (strip code) t s))"
proof (cases "dollar six_digits (strip code)")
  case True
  let ?p = "bindM (lock_user i) (\<lambda>u. if \<not> (is_active_staff u \<and> is_totp_enabled u) then ret False
     else bindM now (\<lambda>t. bindM (verify_totp u (strip code) t) (\<lambda>v. ret (v \<noteq> None))))"
  have b: "db (begin_block w) = db w" "quiet (begin_block w)" "auth (begin_block w) = auth w" "apy (begin_block w) = apy w"
    using w interfere_quiet [of w] by (simp_all add: begin_block_def Let_def alone_def quiet_def)
  from ok True have "atomic ?p w = (Inr True, w')"
    by (auto simp: verify_staff_admin_login_def Let_def split: if_splits)
  from atomic_Inr [OF this] obtain v where "?p (begin_block w) = (Inr True, v)" by blast
  with b obtain u v1 v2 x where u: "find_user (db w) i = Some u" "is_active_staff u" "is_totp_enabled u"
    and v1: "verify_totp u (strip code) (clock (begin_block w) (ticks (begin_block w))) v1 = (Inr (Some x), v2)"
      "db v1 = db w" "auth v1 = auth w" "apy v1 = apy w"
    by (fastforce simp: run_bind run_lock_user run_now split: option.splits if_splits prod.splits sum.splits)
  have "us_id u = i" using u(1) first_SomeD by fastforce
  with u v1 True show ?thesis
    by (auto simp: run_verify_totp split: option.splits sum.splits dest: totp_step_Some)
next
  case False
  let ?p = "bindM (lock_user i) (\<lambda>u. if \<not> (is_active_staff u \<and> is_totp_enabled u) then ret False
     else bindM (consume_recovery_code u (strip code)) (\<lambda>v. case v of None \<Rightarrow> ret False
       | Some u' \<Rightarrow> seqM (platform_audit AUDIT_TOTP_RECOVERY_USED u' (codes_left u')) (ret True)))"
  from ok False have "platform_write_atomic STAFF_AUTH_SCOPE ?p w = (Inr True, w')"
    by (auto simp: verify_staff_admin_login_def Let_def split: if_splits)
  from platform_Inr [OF this w] obtain v v1 where v: "?p v = (Inr True, v1)" "db v = db w" "quiet v" by blast
  then obtain u v2 v3 x where u: "find_user (db w) i = Some u" "is_active_staff u" "is_totp_enabled u"
    and x: "consume_recovery_code u (strip code) v2 = (Inr (Some x), v3)" "db v2 = db w"
    by (fastforce simp: run_bind run_lock_user split: option.splits if_splits prod.splits sum.splits)
  have "us_id u = i" using u(1) first_SomeD by fastforce
  with u x show ?thesis by (auto simp: run_consume split: if_splits)
qed

lemma admin_logged_in:
  assumes "served lib w" "browse s (PostAdmin w allowed email password code) = s'" "s' \<noteq> s"
  shows "\<exists>i. s' = (django_login i s)\<lparr>ss_admin := Some i\<rparr> \<and> admin_shown [PostAdmin w allowed email password code] i"
proof -
  from assms(2,3) obtain i w' where i: "staff_login_clean email password code w = (Inr (Some i), w')" "allowed"
    and s': "s' = (django_login i s)\<lparr>ss_admin := Some i\<rparr>"
    by (auto simp: stored_def admin_login_post_def run_bind split: if_splits sum.splits prod.splits option.splits)
  from i(1) obtain u v where u: "authenticate_user (auth w) (db w) email password = Some u" "us_id u = i"
    and v: "verify_staff_admin_login i (otp_field code) w = (Inr True, v)"
    by (auto simp: staff_login_clean_def run_bind catchM_def split: option.splits if_splits prod.splits sum.splits)
  have "alone w" using assms(1) by (simp add: served_def)
  from staff_verified [OF this v] have "staff_user w i" "shows_factor w (otp_field code) i"
    by (auto simp: staff_user_def shows_factor_def is_active_staff_def good_code_def hash_recovery_code_def normalize_recovery_code_def)
  with u s' i(2) show ?thesis by (auto simp: admin_shown_def shows_password_def)
qed

lemma login_posted:
  assumes "served lib w" "browse s (PostLogin w email password) = s'" "s' \<noteq> s"
  shows "\<exists>r. shows_password w email password (tm_user r) \<and>
    (if enrolled w (tm_user r) then \<exists>p. s' = (flush_session_keeping_pending False s)\<lparr>ss_pending := Some p\<rparr> \<and> pt_user p = Some (tm_user r) \<and>
         uuid_of lib (tm_user r) = Some (tm_user r)
     else s' = log_in r s)"
proof -
  have w: "alone w" using assms(1) by (simp add: served_def)
  from assms(2,3) obtain r required w' where r: "begin_login email password w = (Inr (r, required), w')"
    by (cases "begin_login email password w" rule: prod.exhaust; cases "fst (begin_login email password w)")
      (auto simp: stored_def login_post_def run_bind catchM_def split: if_splits sum.splits prod.splits)
  note begun = login_begun [OF w r]
  show ?thesis
  proof (cases "enrolled w (tm_user r)")
    case False
    with r begun assms(2) show ?thesis
      by (auto simp: stored_def login_post_def run_bind catchM_def)
  next
    case True
    then obtain u where u: "find_user (db w) (tm_user r) = Some u" by (auto simp: enrolled_def split: option.splits)
    then have "u \<in> set (ac_users (db w))" "us_id u = tm_user r" using first_SomeD by fastforce+
    then have "uuid_of lib (tm_user r) = Some (tm_user r)" using assms(1) by (metis served_def)
    with True u r begun assms(2) show ?thesis
      using \<open>us_id u = tm_user r\<close>
      by (intro exI [of _ r]) (auto simp: stored_def login_post_def run_bind catchM_def member_user_def run_or_raise make_pending_totp_def run_now)
  qed
qed

lemma code_posted:
  assumes "served lib w" "browse s (PostCode w code) = s'"
  shows "s' = s \<or> s' = s\<lparr>ss_pending := (case ss_pending s of None \<Rightarrow> None | Some p \<Rightarrow> record_failed_totp_attempt p)\<rparr> \<or>
    (\<exists>r p j. s' = log_in r (s\<lparr>ss_pending := None\<rparr>) \<and> ss_pending s = Some p \<and> pt_user p = Some j \<and> uuid_of lib j = Some (tm_user r) \<and>
      shows_factor w code (tm_user r))"
proof (cases "complete_totp_login (ss_pending s) code w")
  case (Pair a w')
  show ?thesis
  proof (cases a)
    case (Inl e)
    with Pair assms(2) show ?thesis by (auto simp: stored_def login_totp_post_def run_bind catchM_def split: if_splits)
  next
    case (Inr r)
    with Pair assms(2) have "s' = log_in r (s\<lparr>ss_pending := None\<rparr>)"
      by (auto simp: stored_def login_totp_post_def run_bind catchM_def)
    with code_completed [OF assms(1)] Pair Inr show ?thesis by blast
  qed
qed

definition session_shown :: "auth_lib \<Rightarrow> visit list \<Rightarrow> session \<Rightarrow> bool" where
  "session_shown lib vs s \<longleftrightarrow> (\<forall>i. ss_user s = Some i \<longrightarrow> identity_shown vs i) \<and> (\<forall>i. ss_admin s = Some i \<longrightarrow> admin_shown vs i) \<and>
     (\<forall>p j i. ss_pending s = Some p \<longrightarrow> pt_user p = Some j \<longrightarrow> uuid_of lib j = Some i \<longrightarrow> password_shown vs i)"

lemma session_shown_more: "session_shown lib vs s \<Longrightarrow> session_shown lib (vs @ [v]) s"
  unfolding session_shown_def using shown_later by blast

lemma session_shown_fewer:
  "session_shown lib vs s \<Longrightarrow> session_shown lib vs (s\<lparr>ss_pending := None\<rparr>)"
  "session_shown lib vs s \<Longrightarrow> session_shown lib vs (django_login i s) \<longleftrightarrow> identity_shown vs i"
  "session_shown lib vs s \<Longrightarrow> session_shown lib vs (s\<lparr>ss_merchant := m\<rparr>)"
  by (auto simp: session_shown_def django_login_def no_session_def)

lemma session_shown_failed:
  assumes "session_shown lib vs s"
  shows "session_shown lib vs (s\<lparr>ss_pending := (case ss_pending s of None \<Rightarrow> None | Some p \<Rightarrow> record_failed_totp_attempt p)\<rparr>)"
  using assms by (auto simp: session_shown_def record_failed_totp_attempt_def Let_def split: option.splits if_splits)

lemma session_shown_step:
  assumes "session_shown lib vs s" "arrives lib v"
  shows "session_shown lib (vs @ [v]) (browse s v)"
proof (cases v)
  case (PostLogin w email password)
  show ?thesis
  proof (cases "browse s v = s")
    case False
    with PostLogin assms(2) login_posted [of lib w s email password] obtain r where r: "shows_password w email password (tm_user r)"
      "if enrolled w (tm_user r) then \<exists>p. browse s v = (flush_session_keeping_pending False s)\<lparr>ss_pending := Some p\<rparr> \<and> pt_user p = Some (tm_user r) \<and>
         uuid_of lib (tm_user r) = Some (tm_user r) else browse s v = log_in r s" by auto
    show ?thesis
    proof (cases "enrolled w (tm_user r)")
      case True
      have "password_shown (vs @ [v]) (tm_user r)" using r(1) PostLogin by (auto simp: password_shown_def)
      with True r(2) show ?thesis
        by (auto simp: session_shown_def flush_session_keeping_pending_def no_session_def)
    next
      case False
      have "identity_shown (vs @ [v]) (tm_user r)" using r(1) False PostLogin by (auto simp: identity_shown_def)
      with False r(2) assms(1) show ?thesis
        by (simp add: log_in_def session_shown_fewer session_shown_more)
    qed
  qed (simp add: assms(1) session_shown_more)
next
  case (PostCode w code)
  with assms(2) code_posted [of lib w s code "browse s v"] consider "browse s v = s"
    | "browse s v = s\<lparr>ss_pending := (case ss_pending s of None \<Rightarrow> None | Some p \<Rightarrow> record_failed_totp_attempt p)\<rparr>"
    | r p j where "browse s v = log_in r (s\<lparr>ss_pending := None\<rparr>)" "ss_pending s = Some p" "pt_user p = Some j" "uuid_of lib j = Some (tm_user r)"
        "shows_factor w code (tm_user r)"
    by auto
  then show ?thesis
  proof cases
    case 1 then show ?thesis by (simp add: assms(1) session_shown_more)
  next
    case 2 then show ?thesis using session_shown_failed [OF session_shown_more [OF assms(1)]] by simp
  next
    case 3
    then have "password_shown vs (tm_user r)" using assms(1) by (auto simp: session_shown_def)
    with 3 PostCode have "identity_shown (vs @ [v]) (tm_user r)" unfolding identity_shown_def by blast
    with 3 assms(1) show ?thesis by (simp add: log_in_def session_shown_fewer session_shown_more)
  qed
next
  case PostLogout
  then show ?thesis by (simp add: logout_post_def session_shown_def no_session_def)
next
  case (PostAdmin w allowed email password code)
  show ?thesis
  proof (cases "browse s v = s")
    case False
    with PostAdmin assms(2) admin_logged_in [of lib w s allowed email password code] obtain i where
      "browse s v = (django_login i s)\<lparr>ss_admin := Some i\<rparr>" "admin_shown [v] i" by auto
    moreover from this(2) have "admin_shown (vs @ [v]) i" by (auto simp: admin_shown_def)
    ultimately show ?thesis using session_shown_more [OF assms(1), of v]
      by (auto simp: session_shown_def identity_shown_def django_login_def no_session_def)
  qed (simp add: assms(1) session_shown_more)
qed

text \<open>
  C16: No session without both factors. Whatever a browser posts, from an empty session, and whatever others do between its
  requests: the session belongs to a user only if the browser has posted that user's password when the user had no second
  factor enabled, or has posted the password first and later a valid code or recovery code of the same user, or has logged in to the admin
  site; and the admin site is open only to an active staff user whose password and second factor came with the same request.
\<close>

theorem session_needs_factors:
  assumes "list_all (arrives lib) vs"
  shows "(ss_user (foldl browse no_session vs) = Some i \<longrightarrow> identity_shown vs i) \<and>
    (ss_admin (foldl browse no_session vs) = Some i \<longrightarrow> admin_shown vs i)"
proof -
  have "session_shown lib vs (foldl browse no_session vs)"
    using assms
  proof (induction vs rule: rev_induct)
    case Nil
    show ?case by (simp add: session_shown_def no_session_def)
  next
    case (snoc v vs)
    then show ?case using session_shown_step by simp
  qed
  then show ?thesis by (simp add: session_shown_def)
qed

lemma sample_factor:
  assumes "find_user (db w) ''u2'' = Some bob" "auth w = sample_auth" "apy w = account_py" "timecode sample_auth t = 53"
  shows "\<exists>w'. verify_second_factor bob ''444444'' t w = (Inr (Some (Totp, use_step 54 bob)), w')"
proof -
  have i: "us_id bob = ''u2''" "us_totp_secret bob = Some ''secret''" "decrypt account_py ''secret'' = Some ''secret''" "last_used bob = -1"
    by code_simp+
  have c: "strip ''444444'' = ''444444''" "dollar six_digits ''444444''" by code_simp+
  have o: "find_step sample_auth ''secret'' (-1) ''444444'' [52, 53, 54] = Inr (Some 54)" by code_simp
  have s: "totp_step sample_auth account_py bob ''444444'' t = Inr (Some 54)"
    using o by (simp add: totp_step_def i assms(4) steps_around_def)
  have u: "find_user (db w) (us_id bob) = Some bob" using assms(1) by (simp add: i)
  show ?thesis by (simp add: verify_second_factor_def Let_def c run_bind run_verify_totp [OF u] assms(2,3) s)
qed

lemma factor_login_totp:
  assumes "in_tx m w" "first (\<lambda>r. mb_merchant r = m \<and> tm_id r = k \<and> tm_user r = i \<and> grants_access (db w) r) (ac_members (db w)) = Some r"
    "find_user (db w) i = Some u" "us_active u" "is_totp_enabled u"
    "verify_second_factor u code (clock w (ticks w)) (tick (w\<lparr>env_n := Suc (Suc (env_n w))\<rparr>)) = (Inr (Some (Totp, u')), w')"
  shows "factor_login k i code w = (Inr r, w')"
  using assms by (simp add: factor_login_def run_seq run_bind account_runs lock_user_def)

lemma sample_code_step:
  "\<exists>w'. complete_totp_login (Some \<lparr>pt_user = Some ''u2'', pt_issued = Some (seconds 1600), pt_failed = 0\<rparr>) ''444444'' (account_idle team_db) =
     (Inr admin_member, w')"
proof -
  let ?w = "account_idle team_db" and ?p = "\<lparr>pt_user = Some ''u2'', pt_issued = Some (seconds 1600), pt_failed = 0\<rparr>"
  have u: "find_user team_db ''u2'' = Some bob" "us_active bob" "is_totp_enabled bob" "us_id bob = ''u2''" by code_simp+
  have r: "sort_key mb_created_at (filter (grants_access team_db) (filter (\<lambda>r. tm_user r = ''u2'') (ac_members team_db))) = [admin_member]"
    by code_simp
  have a: "mb_merchant admin_member = ''m1''" "tm_id admin_member = ''t2''" by code_simp+
  have f: "first (\<lambda>r. mb_merchant r = ''m1'' \<and> tm_id r = ''t2'' \<and> tm_user r = ''u2'' \<and> grants_access team_db r) (ac_members team_db) = Some admin_member"
    by code_simp
  have m: "marker_user (Some ?p) ?w = (Inr ''u2'', tick ?w)"
    by (simp add: marker_user_def run_bind run_now run_or_raise TOTP_MAX_ATTEMPTS_def TOTP_PENDING_MAX_AGE_def)
      (simp add: account_idle_def sample_auth_def minutes_def seconds_def)
  let ?v = "(tick ?w)\<lparr>env_n := Suc (env_n (tick ?w))\<rparr>" and ?e = "entered ''m1'' ((tick ?w)\<lparr>env_n := Suc (env_n (tick ?w))\<rparr>)"
  have v: "alone ?v" by simp
  have t: "in_tx ''m1'' ?e" using entered_fields(5) [OF v] .
  have k: "timecode sample_auth (clock ?e (ticks ?e)) = 53" "auth ?e = sample_auth" "apy ?e = account_py"
    by (simp_all add: account_idle_def sample_auth_def unix_timestamp_def seconds_def)
  obtain w' where s: "verify_second_factor bob ''444444'' (clock ?e (ticks ?e)) (tick (?e\<lparr>env_n := Suc (Suc (env_n ?e))\<rparr>)) =
      (Inr (Some (Totp, use_step 54 bob)), w')"
    using sample_factor [of "tick (?e\<lparr>env_n := Suc (Suc (env_n ?e))\<rparr>)" "clock ?e (ticks ?e)"] u k by auto
  have "factor_login ''t2'' ''u2'' ''444444'' ?e = (Inr admin_member, w')"
    by (rule factor_login_totp [OF t _ _ u(2,3) s]) (use f u in simp_all)
  with u r a v m show ?thesis
    by (simp add: complete_totp_login_def run_bind run_or_raise run_resolve run_outermost)
qed

theorem session_needs_factors_witness:
  "\<exists>vs. ss_user (foldl browse no_session vs) = Some ''u2'' \<and> identity_shown vs ''u2''"
proof -
  let ?vs = "[PostLogin (account_idle team_db) ''bob@x.io'' ''battery staple'', PostCode (account_idle team_db) ''444444'']"
  have "\<forall>u\<in>set (ac_users (db (account_idle team_db))). uuid_of sample_auth (us_id u) = Some (us_id u)"
    by (simp add: sample_auth_def)
  then have v: "list_all (arrives sample_auth) ?vs" by (simp add: served_def) (simp add: account_idle_def)
  have l: "browse no_session (PostLogin (account_idle team_db) ''bob@x.io'' ''battery staple'') =
      no_session\<lparr>ss_pending := Some \<lparr>pt_user = Some ''u2'', pt_issued = Some (seconds 1600), pt_failed = 0\<rparr>\<rparr>"
    by code_simp
  let ?p = "\<lparr>pt_user = Some ''u2'', pt_issued = Some (seconds 1600), pt_failed = 0\<rparr>"
  have "ss_user (browse (no_session\<lparr>ss_pending := Some ?p\<rparr>) (PostCode (account_idle team_db) ''444444'')) = Some (tm_user admin_member)"
    using sample_code_step by (auto simp: stored_def login_totp_post_def run_bind catchM_def log_in_def django_login_def)
  moreover have "tm_user admin_member = ''u2''" by code_simp
  ultimately have u: "ss_user (foldl browse no_session ?vs) = Some ''u2''"
    by (simp only: foldl.simps l)
  show ?thesis using session_needs_factors [OF v, of "''u2''"] u by blast
qed

text \<open>A pending installation outlives the flush, also in the session of another user.\<close>

lemma pending_survives_other_user:
  "ss_shopify (browse (no_session\<lparr>ss_user := Some ''u1'', ss_shopify := Some JNull\<rparr>)
     (PostLogin (account_idle team_db) ''bob@x.io'' ''battery staple'')) = Some JNull"
  by code_simp

end
