(* ===== verification/KeyProps.thy ===== *)
theory KeyProps
  imports AccountRuns
begin

text \<open>
  The request path of an API key against its decision table.
\<close>

lemma hex_digit_char: "n < 16 \<Longrightarrow> hex_char (hex_digit n)"
  by (auto simp: hex_digit_def hex_char_def of_char_of less_Suc_eq numeral_eq_Suc)

unbundle bit_operations_syntax

lemma hexdigest_hex: "list_all hex_char (hexdigest bs)"
proof -
  have "unat (drop_bit 4 b) < 16" "unat (b AND 15) < 16" for b :: "8 word"
  proof -
    have m: "15 = (mask 4 :: 8 word)" by (simp add: mask_eq_exp_minus_1)
    show "unat (b AND 15) < 16" unfolding m take_bit_eq_mask [symmetric] unsigned_take_bit_eq using take_bit_nat_less_exp [of 4 "unat b"] by simp
    have "unat b < 256" using unsigned_less [of b, where 'a = nat] by simp
    then show "unat (drop_bit 4 b) < 16" by (subst unat_drop_bit_eq, subst drop_bit_eq_div) simp
  qed
  then show ?thesis by (auto simp: hexdigest_def list_all_iff intro!: hex_digit_char)
qed

lemma hash_key_valid: "hex64_match (hash_key raw)"
  using hexdigest_hex [of "sha256 (utf8 raw)"] by (simp add: hex64_match_def hash_key_def)

lemma case_filter: "(case filter P xs of [] \<Rightarrow> None | x # _ \<Rightarrow> if Q x then Some x else None) =
   (case first P xs of None \<Rightarrow> None | Some x \<Rightarrow> if Q x then Some x else None)"
  by (induction xs) auto

text \<open>What a request path answers, as a table on the stored keys.\<close>

definition token_key :: "adb \<Rightarrow> string \<Rightarrow> api_key option" where
  "token_key d token = (if \<not> dollar key_shape token then None
     else case first (\<lambda>k. ak_hash k = hash_key token) (ac_keys d) of None \<Rightarrow> None
     | Some k \<Rightarrow> if ak_active k \<and> merchant_active d (ak_merchant k) then Some k else None)"

definition key_decision :: "bearer_request \<Rightarrow> adb \<Rightarrow> key_attempt" where
  "key_decision rq d = (case scheme_and_token (br_authorization rq) of (scheme, token) \<Rightarrow>
     if py_lower scheme \<noteq> ''bearer'' \<or> \<not> br_eligible rq then NoAttempt
     else if \<not> br_allowed rq then KeyThrottled
     else case token_key d token of None \<Rightarrow> KeyRefused | Some k \<Rightarrow> KeyAccepted k)"

definition key_touched :: "api_key \<Rightarrow> instant \<Rightarrow> instant \<Rightarrow> adb \<Rightarrow> adb" where
  "key_touched k t u d = d\<lparr>ac_keys := map_if (\<lambda>q. ak_merchant q = ak_merchant k \<and> stale_key k t q) (\<lambda>q. q\<lparr>ak_last_used := Some u\<rparr>) (ac_keys d)\<rparr>"

lemma run_authenticate_key:
  assumes "alone w"
  shows "authenticate_api_key token w = (case token_key (db w) token of None \<Rightarrow> Inl (App InvalidApiKey) | Some k \<Rightarrow> Inr k,
     if dollar key_shape token then w\<lparr>env_n := Suc (env_n w)\<rparr> else w)"
proof -
  let ?h = "hash_key token"
  have "api_key_lookup_atomic ?h (bindM (for_lookup_hash ?h) (\<lambda>ks. asks (\<lambda>w. case ks of
           [] \<Rightarrow> None | k # _ \<Rightarrow> if ak_active k \<and> merchant_active (db w) (ak_merchant k) then Some k else None))) w =
      (Inr (case filter (\<lambda>k. ak_hash k = ?h) (ac_keys (db w)) of [] \<Rightarrow> None
         | k # _ \<Rightarrow> if ak_active k \<and> merchant_active (db w) (ak_merchant k) then Some k else None), w\<lparr>env_n := Suc (env_n w)\<rparr>)"
    by (rule run_key_lookup [OF assms hash_key_valid, where g = "\<lambda>d ks. case ks of [] \<Rightarrow> None
        | k # _ \<Rightarrow> if ak_active k \<and> merchant_active d (ak_merchant k) then Some k else None"])
  then show ?thesis
    by (simp add: authenticate_api_key_def Let_def run_bind run_or_raise token_key_def case_filter split: option.split)
qed

lemma run_touch:
  assumes "alone w"
  shows "touch_last_used k w = (Inr (), left ((tick (tick (entered (ak_merchant k) w)))\<lparr>db := key_touched k (clock w (ticks w)) (clock w (Suc (ticks w))) (db w)\<rparr>))"
proof -
  have t: "in_tx (ak_merchant k) (tick (tick (entered (ak_merchant k) w)))" using assms by simp
  show ?thesis
    unfolding touch_last_used_def run_outermost [OF assms]
    by (simp add: run_bind run_now run_update_keys [OF t] key_touched_def)
qed

text \<open>
  C17: The gate of the public API, exactly. A request is an attempt when its scheme is \<open>Bearer\<close>, in any case, and the view
  accepts keys for the method; a throttled attempt looks nothing up; otherwise the attempt succeeds if and only if the token has
  the shape of a key and the row stored under its hash is active, of an active merchant. A refused attempt writes nothing and an accepted one
  only the time of last use, at most once a minute. An attempt, refused or not, never acts in the name of the session's user or merchant.
\<close>

theorem api_key_gate:
  assumes "alone w"
  shows "\<exists>w'. api_key_middleware rq w = (Inr (key_decision rq (db w)), w') \<and>
    db w' = (case key_decision rq (db w) of
       KeyAccepted k \<Rightarrow> key_touched k (clock w (ticks w)) (clock w (Suc (ticks w))) (db w) | _ \<Rightarrow> db w) \<and>
    (key_decision rq (db w) \<noteq> NoAttempt \<longrightarrow> (\<forall>u. view_principal (key_decision rq (db w)) s \<noteq> Inr (Session_user u)) \<and>
       request_merchant urls rq (key_decision rq (db w)) =
         (case key_decision rq (db w) of KeyAccepted k \<Rightarrow> Some (ak_merchant k) | _ \<Rightarrow> None))"
  using assms
  by (simp add: api_key_middleware_def key_decision_def authenticate_bearer_def run_bind catchM_def run_authenticate_key run_seq run_touch
      view_principal_def request_merchant_def split: prod.split option.split)

definition key_request :: bearer_request where
  "key_request = \<lparr>wq_method = ''POST'', wq_path = ''/api/v1/transactions'', wq_url_name = Some ''transactions'', wq_session_merchant = Some ''m2'',
     wq_authenticated = True, wq_client_ip = ''10.0.0.1'', br_authorization = ''bearer '' @ sample_raw_key, br_eligible = True, br_allowed = True\<rparr>"

definition key_db :: adb where "key_db = team_db\<lparr>ac_keys := [sample_key]\<rparr>"

lemma sample_decision_key: "key_decision key_request key_db = KeyAccepted sample_key"
proof -
  have t: "scheme_and_token (br_authorization key_request) = (''bearer'', sample_raw_key)" "py_lower ''bearer'' = ''bearer''"
      "dollar key_shape sample_raw_key" "br_eligible key_request" "br_allowed key_request" "merchant_active team_db ''m1''"
    by code_simp+
  have "first (\<lambda>k. ak_hash k = hash_key sample_raw_key) (ac_keys key_db) = Some sample_key"
    by (simp add: key_db_def sample_key_def)
  moreover have "ak_active sample_key" "ak_merchant sample_key = ''m1''" by (simp_all add: sample_key_def)
  moreover have "merchant_active key_db ''m1''" using t(6) by (simp add: key_db_def merchant_active_def)
  ultimately show ?thesis using t by (simp add: key_decision_def token_key_def)
qed

theorem api_key_gate_witness:
  "\<forall>urls. \<exists>w'. api_key_middleware key_request (account_idle key_db) = (Inr (KeyAccepted sample_key), w') \<and>
     request_merchant urls key_request (KeyAccepted sample_key) = Some (ak_merchant sample_key)"
proof
  fix urls
  show "\<exists>w'. api_key_middleware key_request (account_idle key_db) = (Inr (KeyAccepted sample_key), w') \<and>
     request_merchant urls key_request (KeyAccepted sample_key) = Some (ak_merchant sample_key)"
    using api_key_gate [OF alone_idle, of key_request key_db no_session urls] sample_decision_key by auto
qed

end
