(* ===== verification/AccountApi.thy ===== *)
theory AccountApi
  imports ApiKeys AccountRuns
begin

text \<open>
  The views of \<open>accounts/views.py\<close> and \<open>apikeys/views.py\<close> behind the tenant middleware: who may call them, the
  service they call, and the answer to every error. Throttling, pagination and the rendering of rows are
  not modelled; a view answers the values its serializers render.
\<close>

subsection \<open>Answers\<close>

datatype 'a answer = Answer nat 'a | Failed nat string | Unhandled

text \<open>An error that declares no status is not handled; a \<open>ValidationError\<close> of Django is answered with 422.\<close>

fun account_http :: "account_error \<Rightarrow> (nat \<times> string) option" where
  "account_http InvalidCredentials = Some (401, ''invalid_credentials'')"
| "account_http InvalidInvite = Some (400, ''invalid_invite'')"
| "account_http AlreadyMember = Some (409, ''already_member'')"
| "account_http LastOwner = Some (409, ''last_owner'')"
| "account_http TeamPermissionDenied = Some (403, ''team_permission_denied'')"
| "account_http TeamMemberNotFound = Some (404, ''not_found'')"
| "account_http ReauthenticationFailed = Some (400, ''reauthentication_failed'')"
| "account_http InvalidTotpCode = Some (400, ''invalid_totp_code'')"
| "account_http TotpAlreadyEnabled = Some (409, ''totp_already_enabled'')"
| "account_http TotpSetupRequired = Some (409, ''totp_setup_required'')"
| "account_http NotActiveStaff = Some (403, ''not_active_staff'')"
| "account_http TotpNotEnabled = Some (409, ''totp_not_enabled'')"
| "account_http StaffAccessDenied = Some (403, ''staff_access_denied'')"
| "account_http InvalidScopes = Some (422, ''invalid_scopes'')"
| "account_http ApiKeyNotFound = Some (404, ''not_found'')"
| "account_http ApiKeyAuthenticationFailed = Some (401, ''invalid_api_key'')"
| "account_http Throttled = Some (429, ''throttled'')"
| "account_http (FieldErrors _) = Some (422, ''validation_error'')"
| "account_http InvalidApiKey = None"
| "account_http InvalidToken = None"

fun account_failure :: "aerror \<Rightarrow> 'a answer" where
  "account_failure (App e) = (case account_http e of None \<Rightarrow> Unhandled | Some (status, code) \<Rightarrow> Failed status code)"
| "account_failure ActorNotMember = Failed 403 ''actor_not_member''"
| "account_failure _ = Unhandled"

definition account_respond :: "(nat \<times> 'a) aprog \<Rightarrow> 'a answer aprog" where
  "account_respond m = catchM (bindM m (\<lambda>(status, body). ret (Answer status body))) (\<lambda>e. Some (ret (account_failure e)))"

subsection \<open>Permissions\<close>

text \<open>\<open>request.user\<close> of a session, and the membership \<open>IsMerchantMember\<close> puts on the request.\<close>

definition request_user :: "session \<Rightarrow> user option aprog" where
  "request_user s = asks (\<lambda>w. case ss_user s of None \<Rightarrow> None
     | Some i \<Rightarrow> (case find_user (db w) i of None \<Rightarrow> None | Some u \<Rightarrow> if us_active u then Some u else None))"

definition request_member :: "user option \<Rightarrow> membership option aprog" where
  "request_member u = bindM get_current_merchant_id (\<lambda>m. case (u, m) of
     (Some u, Some _) \<Rightarrow> get_active_membership u | _ \<Rightarrow> ret None)"

definition not_allowed :: "user option \<Rightarrow> 'a answer" where
  "not_allowed u = Failed 403 (case u of None \<Rightarrow> ''not_authenticated'' | Some _ \<Rightarrow> ''permission_denied'')"

definition member_view :: "role list \<Rightarrow> session \<Rightarrow> (membership \<Rightarrow> (nat \<times> 'a) aprog) \<Rightarrow> 'a answer aprog" where
  "member_view roles s handler = bindM (request_user s) (\<lambda>u. bindM (request_member u) (\<lambda>r. case r of
     None \<Rightarrow> ret (not_allowed u)
   | Some a \<Rightarrow> if tm_role a \<in> set roles then account_respond (handler a) else ret (not_allowed u)))"

abbreviation any_role :: "role list" where "any_role \<equiv> [OWNER, ADMIN, MANAGER, VIEWER]"

subsection \<open>Views\<close>

definition answered_with :: "nat \<Rightarrow> 'a aprog \<Rightarrow> (nat \<times> 'a) aprog" where
  "answered_with status p = bindM p (\<lambda>x. ret (status, x))"

definition team_get :: "session \<Rightarrow> membership list answer aprog" where
  "team_get s = member_view [OWNER, ADMIN] s (\<lambda>_. answered_with 200 list_team_members)"

definition team_post :: "session \<Rightarrow> string \<Rightarrow> role \<Rightarrow> (membership \<times> string) answer aprog" where
  "team_post s email role = member_view [OWNER, ADMIN] s (\<lambda>a. answered_with 201 (invite_team_member a email role))"

definition team_patch :: "session \<Rightarrow> uuid \<Rightarrow> role \<Rightarrow> membership answer aprog" where
  "team_patch s pk role = member_view [OWNER, ADMIN] s (\<lambda>a. answered_with 200 (change_team_member_role a pk role))"

definition team_delete :: "session \<Rightarrow> uuid \<Rightarrow> unit answer aprog" where
  "team_delete s pk = member_view [OWNER, ADMIN] s (\<lambda>a. answered_with 204 (revoke_team_member a pk))"

definition team_locations_put :: "session \<Rightarrow> uuid \<Rightarrow> uuid list \<Rightarrow> membership answer aprog" where
  "team_locations_put s pk ids = member_view [OWNER, ADMIN] s (\<lambda>a. answered_with 200 (set_team_member_locations a pk ids))"

definition invite_accept_post :: "string \<Rightarrow> string \<Rightarrow> unit answer aprog" where
  "invite_accept_post token password = account_respond (answered_with 204 (accept_invite token password))"

definition totp_setup_post :: "session \<Rightarrow> string \<Rightarrow> (string \<times> string) answer aprog" where
  "totp_setup_post s password = member_view any_role s (\<lambda>a. answered_with 200 (begin_totp_setup (tm_user a) password))"

definition totp_confirm_post :: "session \<Rightarrow> string \<Rightarrow> string list answer aprog" where
  "totp_confirm_post s code = member_view any_role s (\<lambda>a. answered_with 200 (confirm_totp_setup (tm_user a) code))"

definition totp_disable_post :: "session \<Rightarrow> string \<Rightarrow> string \<Rightarrow> unit answer aprog" where
  "totp_disable_post s password code = member_view any_role s (\<lambda>a. answered_with 204 (disable_totp (tm_user a) password code))"

definition refresh_post :: "session \<Rightarrow> membership answer aprog" where
  "refresh_post s = member_view any_role s (\<lambda>a. ret (200, a))"

text \<open>\<open>MerchantView\<close>: any active key reads its own merchant, and only sessions write.\<close>

definition read_merchant :: "uuid \<Rightarrow> merchant aprog" where
  "read_merchant i = bindM (asks (\<lambda>w. find_merchant (db w) i)) (or_raise DoesNotExist)"

definition merchant_get :: "key_attempt \<Rightarrow> session \<Rightarrow> merchant answer aprog" where
  "merchant_get attempt s = (case view_principal attempt s of
     Inl e \<Rightarrow> ret (account_failure e)
   | Inr (Key_principal k) \<Rightarrow> account_respond (answered_with 200 (read_merchant (ak_merchant k)))
   | Inr _ \<Rightarrow> member_view any_role s (\<lambda>a. answered_with 200 (read_merchant (mb_merchant a))))"

definition merchant_patch :: "session \<Rightarrow> merchant_changes \<Rightarrow> merchant answer aprog" where
  "merchant_patch s c = member_view [OWNER, ADMIN] s (\<lambda>a.
     answered_with 200 (bindM (read_merchant (mb_merchant a)) (\<lambda>m. update_merchant m c)))"

definition keys_get :: "session \<Rightarrow> api_key list answer aprog" where
  "keys_get s = member_view [OWNER, ADMIN] s (\<lambda>_. answered_with 200 list_api_keys)"

definition keys_post :: "session \<Rightarrow> json \<Rightarrow> (api_key \<times> string) answer aprog" where
  "keys_post s scopes = member_view [OWNER, ADMIN] s (\<lambda>a. answered_with 201 (create_api_key a scopes))"

definition key_delete :: "session \<Rightarrow> uuid \<Rightarrow> unit answer aprog" where
  "key_delete s pk = member_view [OWNER, ADMIN] s (\<lambda>a. answered_with 204 (bindM (get_api_key pk) (revoke_api_key a)))"

subsection \<open>The gate\<close>

text \<open>The membership a session acts by in the merchant of its request.\<close>

definition acting_member :: "adb \<Rightarrow> uuid \<Rightarrow> session \<Rightarrow> membership option" where
  "acting_member d m s = (case ss_user s of None \<Rightarrow> None
     | Some i \<Rightarrow> (case find_user d i of None \<Rightarrow> None
       | Some u \<Rightarrow> if us_active u \<and> merchant_active d m
           then first (\<lambda>r. mb_merchant r = m \<and> tm_user r = i \<and> accepted r) (ac_members d) else None))"

lemma first_cong: "(\<And>x. P x = Q x) \<Longrightarrow> first P xs = first Q xs"
  by (induction xs) auto

lemma run_request_member:
  assumes "in_tx m w"
  shows "bindM (request_user s) request_member w = (Inr (acting_member (db w) m s), w)"
proof -
  have c: "get_current_merchant_id w = (Inr (Some m), w)" by (rule run_merchant [OF assms])
  show ?thesis
  proof (cases "ss_user s")
    case None
    then show ?thesis by (simp add: run_bind request_user_def request_member_def acting_member_def c)
  next
    case (Some i)
    show ?thesis
    proof (cases "find_user (db w) i")
      case None
      with Some show ?thesis by (simp add: run_bind request_user_def request_member_def acting_member_def c)
    next
      case u: (Some u)
      then have i: "us_id u = i" using first_SomeD by fastforce
      have "first (\<lambda>r. mb_merchant r = m \<and> tm_user r = i \<and> grants_access (db w) r) (ac_members (db w)) =
          (if merchant_active (db w) m then first (\<lambda>r. mb_merchant r = m \<and> tm_user r = i \<and> accepted r) (ac_members (db w)) else None)"
        using u by (auto simp: grants_access_def intro!: first_cong first_None [THEN iffD2])
      with Some u i assms show ?thesis
        by (simp add: run_bind request_user_def request_member_def acting_member_def c get_active_membership_def run_in_tenant)
    qed
  qed
qed

text \<open>
  Who may act. A team, key, merchant or two-factor endpoint runs its service only when the session's user is active and has an
  accepted membership with one of the endpoint's roles in the merchant of the request, which must be active, and then with
  exactly this membership as the actor; everybody else is answered 403 and nothing is written.
\<close>

theorem member_view_gate:
  assumes "in_tx m w"
  shows "(\<exists>a. acting_member (db w) m s = Some a \<and> tm_role a \<in> set roles \<and> accepted a \<and> mb_merchant a = m \<and>
      member_view roles s handler w = account_respond (handler a) w) \<or>
    (\<exists>code. member_view roles s handler w = (Inr (Failed 403 code), w) \<and>
      (\<forall>a. acting_member (db w) m s = Some a \<longrightarrow> tm_role a \<notin> set roles))"
proof -
  let ?rest = "\<lambda>u r. case r of None \<Rightarrow> ret (not_allowed u)
   | Some a \<Rightarrow> if tm_role a \<in> set roles then account_respond (handler a) else ret (not_allowed u)"
  obtain u where u: "request_user s w = (Inr u, w)" by (simp add: request_user_def)
  have "request_member u w = (Inr (acting_member (db w) m s), w)"
    using run_request_member [OF assms, of s] by (simp add: run_bind u)
  then have v: "member_view roles s handler w = ?rest u (acting_member (db w) m s) w" by (simp add: member_view_def run_bind u)
  show ?thesis
  proof (cases "acting_member (db w) m s")
    case None
    with v show ?thesis by (simp add: not_allowed_def)
  next
    case (Some a)
    then have "accepted a" "mb_merchant a = m"
      by (auto simp: acting_member_def dest: first_SomeD split: option.splits if_splits)
    with Some v show ?thesis by (auto simp: not_allowed_def)
  qed
qed

theorem member_view_gate_witness:
  "\<exists>w. acting_member (db w) ''m1'' (no_session\<lparr>ss_user := Some ''u1''\<rparr>) = Some owner_member \<and>
     team_delete (no_session\<lparr>ss_user := Some ''u1''\<rparr>) ''t2'' w = account_respond (answered_with 204 (revoke_team_member owner_member ''t2'')) w"
proof -
  let ?s = "no_session\<lparr>ss_user := Some ''u1''\<rparr>" and ?w = "account_tx team_db"
  have a: "acting_member team_db ''m1'' ?s = Some owner_member" "tm_role owner_member = OWNER" by code_simp+
  then show ?thesis
    using member_view_gate [OF in_account_tx(1), of team_db ?s "[OWNER, ADMIN]" "\<lambda>a. answered_with 204 (revoke_team_member a ''t2'')"]
    by (intro exI [of _ ?w]) (simp add: team_delete_def)
qed

end
