(* ===== verification/MessagingStore.thy ===== *)
theory MessagingStore
  imports IntakeModels Statements "HOL-Library.Char_ord" "HOL-Library.List_Lexorder" "HOL-Library.Product_Lexorder"
begin

text \<open>
  The tables of \<open>whatsapp\<close> and those of other applications its services read (locations, customers, team,
  merchants), its errors, and the world the services run in: Meta's transport, the broker, outages.
\<close>

subsection \<open>Errors\<close>

text \<open>
  \<open>RetryRequested\<close> is Celery's \<open>Retry\<close>, \<open>RetryRejected\<close> the \<open>Reject\<close> it raises when the retry cannot be published;
  \<open>BrokerDown\<close> stands for whatever a failed publish raises.
\<close>

datatype messaging_error =
    WhatsAppNotConfigured
  | SenderNotFound
  | TemplateConflict
  | MetaSignatureInvalid
  | WebhookVerificationFailed
  | SenderInUse
  | WebhookEnqueueFailed
  | OptOutTargetLookupFailed
  | OptOutFanOutIncomplete nat
  | ProviderTransientError
  | ProviderPermanentError
  | InvalidFields "(string \<times> string list) list"
  | NoSuchLocation
  | BrokerDown
  | RetryRequested
  | RetryRejected
  | KeyMissing

type_synonym merror = "messaging_error exn"

subsection \<open>Rows\<close>

datatype sender_type = OwnNumber | SharedPool

fun sender_type_text :: "sender_type \<Rightarrow> string" where
  "sender_type_text OwnNumber = ''OWN_NUMBER''"
| "sender_type_text SharedPool = ''SHARED_POOL''"

datatype sender_status = SenderActive | SenderPending | SenderSuspended

fun sender_status_text :: "sender_status \<Rightarrow> string" where
  "sender_status_text SenderActive = ''ACTIVE''"
| "sender_status_text SenderPending = ''PENDING''"
| "sender_status_text SenderSuspended = ''SUSPENDED''"

text \<open>\<open>Status.values\<close>.\<close>

definition sender_status_of :: "string \<Rightarrow> sender_status option" where
  "sender_status_of s = first (\<lambda>x. sender_status_text x = s) [SenderActive, SenderPending, SenderSuspended]"

definition META_CLOUD :: string where "META_CLOUD = ''meta_cloud''"

record whatsapp_account =
  wa_id :: uuid
  wa_merchant :: "uuid option"
  wa_type :: sender_type
  wa_provider :: string
  wa_phone :: string
  wa_business :: "string option"
  wa_status :: sender_status
  wa_connected_at :: "instant option"
  wa_token :: "string option"
  wa_created_at :: instant
  wa_updated_at :: instant

text \<open>The merchant of a mapping is that of its location.\<close>

record sender_mapping =
  sm_account :: uuid
  sm_location :: uuid
  sm_merchant :: uuid
  sm_updated_at :: instant

datatype template_status = TemplatePending | TemplateApproved | TemplateRejected

record message_template =
  mt_id :: uuid
  mt_merchant :: uuid
  mt_name :: string
  mt_language :: string
  mt_body :: string
  mt_status :: template_status
  mt_provider_id :: "string option"
  mt_account :: "uuid option"
  mt_created_at :: instant
  mt_updated_at :: instant

record signup_state =
  es_id :: uuid
  es_merchant :: uuid
  es_user :: uuid
  es_hash :: string
  es_expires_at :: instant

record mdb =
  m_merchants :: "(uuid \<times> merchant_status) list"
  m_members :: "(uuid \<times> uuid) list"
  m_assignments :: "(uuid \<times> uuid) list"
  m_locations :: "location list"
  m_customers :: "customer list"
  senders :: "whatsapp_account list"
  sender_maps :: "sender_mapping list"
  templates :: "message_template list"
  signups :: "signup_state list"
  m_audit :: "audit_log list"

abbreviation find_sender :: "mdb \<Rightarrow> uuid \<Rightarrow> whatsapp_account option" where
  "find_sender d i \<equiv> first (\<lambda>a. wa_id a = i) (senders d)"

subsection \<open>Constraints\<close>

text \<open>The two check constraints of \<open>WhatsAppAccount\<close>.\<close>

definition sender_ok :: "whatsapp_account \<Rightarrow> bool" where
  "sender_ok a \<longleftrightarrow> (wa_type a = SharedPool \<longleftrightarrow> wa_merchant a = None) \<and> (wa_type a = OwnNumber \<or> wa_token a = None)"

text \<open>The two partial unique constraints of templates, and that of the provider's id.\<close>

definition same_template_key :: "message_template \<Rightarrow> message_template \<Rightarrow> bool" where
  "same_template_key t q \<longleftrightarrow> mt_merchant q = mt_merchant t \<and> mt_account q = mt_account t \<and> mt_name q = mt_name t \<and> mt_language q = mt_language t"

definition provider_id_taken :: "mdb \<Rightarrow> uuid \<Rightarrow> string option \<Rightarrow> bool" where
  "provider_id_taken d i p \<longleftrightarrow> p \<noteq> None \<and> list_ex (\<lambda>q. mt_id q \<noteq> i \<and> mt_provider_id q = p) (templates d)"

subsection \<open>The world\<close>

text \<open>A fan-out carries the merchants still to do (all, if \<open>None\<close>) and how often it has been retried.\<close>

datatype mtask =
    SubmitTemplate uuid uuid
  | SyncMerchantTemplates uuid
  | FanOutOptOut string string "uuid list option" nat

record messaging_settings =
  fernet_key :: string
  meta_app_id :: string
  meta_app_secret :: string
  meta_config_id :: string
  meta_verify_token :: string
  shared_pool_token :: string
  graph_version :: string
  signup_enabled :: bool
  signup_max_age :: int
  template_languages :: "string list"
  template_body_max :: nat
  opt_out_keywords :: "string list"
  quality_alert_ratings :: "string list"

text \<open>A call of the Graph API: the token is the credential in its header.\<close>

record meta_request = http_request +
  mq_token :: string

text \<open>What is written to the log at error level and watched from outside.\<close>

datatype alert = QualityLow uuid string | FanOutExhausted "uuid list option"

text \<open>
  \<open>m_http n rq\<close> is what the \<open>n\<close>th call gets, \<open>broker_up n\<close> whether the \<open>n\<close>th publish succeeds, \<open>db_up n\<close> whether the
  database answers the \<open>n\<close>th time the opt-out code turns to it, \<open>m_mint n\<close> the \<open>n\<close>th random value.
\<close>

record messaging_world = "(mdb, mtask) world" +
  m_lib :: pylib
  m_cfg :: messaging_settings
  m_http :: "nat \<Rightarrow> meta_request \<Rightarrow> http_reply"
  m_calls :: "meta_request list"
  broker_up :: "nat \<Rightarrow> bool"
  broker_n :: nat
  db_up :: "nat \<Rightarrow> bool"
  db_n :: nat
  m_mint :: "nat \<Rightarrow> string"
  m_minted :: nat
  alerts :: "alert list"

type_synonym 'a mprog = "(messaging_world, merror, 'a) prog"

definition random_value :: "string mprog" where
  "random_value = (\<lambda>w. (Inr (m_mint w (m_minted w)), w\<lparr>m_minted := Suc (m_minted w)\<rparr>))"

definition reach_database :: "unit mprog" where
  "reach_database = (\<lambda>w. (if db_up w (db_n w) then Inr () else Inl DatabaseErr, w\<lparr>db_n := Suc (db_n w)\<rparr>))"

definition publish :: "mtask \<Rightarrow> unit mprog" where
  "publish t = (\<lambda>w. let w' = w\<lparr>broker_n := Suc (broker_n w)\<rparr> in
     if broker_up w (broker_n w) then (Inr (), w'\<lparr>queue := queue w @ [t]\<rparr>) else (Inl (App BrokerDown), w'))"

text \<open>An \<open>on_commit\<close> callback that swallows a broker error: the oracle is asked when it is registered.\<close>

definition guarded_on_commit :: "mtask \<Rightarrow> unit mprog" where
  "guarded_on_commit t = (\<lambda>w. let w' = w\<lparr>broker_n := Suc (broker_n w)\<rparr> in
     if broker_up w (broker_n w) then on_commit t w' else (Inr (), w'))"

definition raise_alert :: "alert \<Rightarrow> unit mprog" where
  "raise_alert a = modifyM (\<lambda>w. w\<lparr>alerts := alerts w @ [a]\<rparr>)"

lemma messaging_in_tx [simp]:
  "in_tx m (w\<lparr>m_calls := x\<rparr>) = in_tx m (w :: messaging_world)" "in_tx m (w\<lparr>broker_n := n\<rparr>) = in_tx m (w :: messaging_world)"
  "in_tx m (w\<lparr>db_n := n\<rparr>) = in_tx m (w :: messaging_world)" "in_tx m (w\<lparr>m_minted := n\<rparr>) = in_tx m (w :: messaging_world)"
  "in_tx m (w\<lparr>alerts := z\<rparr>) = in_tx m (w :: messaging_world)"
  by (simp_all add: in_tx_def quiet_def)

lemma tick_messaging [simp]:
  "m_lib (tick w) = m_lib w" "m_cfg (tick w) = m_cfg w" "m_http (tick w) = m_http w" "m_calls (tick w) = m_calls w"
  "broker_up (tick w) = broker_up w" "broker_n (tick w) = broker_n w" "db_up (tick w) = db_up w" "db_n (tick w) = db_n w"
  "m_mint (tick w) = m_mint w" "m_minted (tick w) = m_minted w" "alerts (tick w) = alerts w"
  by (simp_all add: tick_def)

lemma wp_random_value [wp_simps]: "wp random_value Q E w = Q (m_mint w (m_minted w)) (w\<lparr>m_minted := Suc (m_minted w)\<rparr>)"
  by (simp add: wp_def random_value_def)

text \<open>
  The statements of the WhatsApp services on their tables. Tenant reads filter on the merchant of the context, as
  the managers do; they all run inside \<open>tenant_atomic\<close>, where row-level security has the same merchant. Writes, locks and
  the pre-tenant lookup are checked against the policies of \<open>core/rls.py\<close> on the session variables.
\<close>

subsection \<open>Policies\<close>

text \<open>The policies of the account table (\<open>rls_shared_pool\<close>, \<open>rls_select_by_phone_number_id\<close>), one per command.\<close>

definition sender_selectable :: "ctxvars \<Rightarrow> whatsapp_account \<Rightarrow> bool" where
  "sender_selectable g a \<longleftrightarrow> wa_merchant a = None \<or> wa_merchant a = merchant_var g \<or>
     wa_type a = OwnNumber \<and> wa_provider a = META_CLOUD \<and> phone_number_var g = Some (wa_phone a)"

definition own_number_row :: "ctxvars \<Rightarrow> whatsapp_account \<Rightarrow> bool" where
  "own_number_row g a \<longleftrightarrow> merchant_var g \<noteq> None \<and> wa_merchant a = merchant_var g \<and> wa_type a = OwnNumber"

definition shared_pool_row :: "ctxvars \<Rightarrow> whatsapp_account \<Rightarrow> bool" where
  "shared_pool_row g a \<longleftrightarrow> wa_merchant a = None \<and> wa_type a = SharedPool \<and> platform_write_var g = Some ''whatsapp_shared_pool''"

definition sender_insertable :: "ctxvars \<Rightarrow> whatsapp_account \<Rightarrow> bool" where
  "sender_insertable g a \<longleftrightarrow> own_number_row g a \<or> shared_pool_row g a"

text \<open>\<open>USING\<close> of the update policies, and their \<open>WITH CHECK\<close>.\<close>

definition sender_updatable :: "ctxvars \<Rightarrow> whatsapp_account \<Rightarrow> bool" where
  "sender_updatable g a \<longleftrightarrow> merchant_var g \<noteq> None \<and> wa_merchant a = merchant_var g \<or> shared_pool_row g a"

abbreviation sender_check :: "ctxvars \<Rightarrow> whatsapp_account \<Rightarrow> bool" where
  "sender_check \<equiv> sender_insertable"

subsection \<open>Accounts\<close>

text \<open>\<open>WhatsAppAccountManager.get_queryset\<close>: the rows of the merchant and the shared one.\<close>

definition sender_visible :: "uuid \<Rightarrow> whatsapp_account \<Rightarrow> bool" where
  "sender_visible m a \<longleftrightarrow> wa_merchant a = Some m \<or> wa_merchant a = None"

definition visible_senders :: "(whatsapp_account \<Rightarrow> bool) \<Rightarrow> whatsapp_account list mprog" where
  "visible_senders P = in_tenant (\<lambda>m d. filter (\<lambda>a. sender_visible m a \<and> P a) (senders d))"

definition shared_pool :: "(whatsapp_account \<Rightarrow> bool) \<Rightarrow> whatsapp_account list mprog" where
  "shared_pool P = seqM autocommit (asks (\<lambda>w. filter (\<lambda>a. wa_type a = SharedPool \<and> wa_merchant a = None \<and> P a) (senders (db w))))"

definition for_lookup_phone_number_id :: "string \<Rightarrow> whatsapp_account list mprog" where
  "for_lookup_phone_number_id p = (\<lambda>w. if phone_number_var (ctx w) \<noteq> Some p then (Inl TenantContextError, w)
     else (Inr (filter (\<lambda>a. sender_selectable (guc w) a \<and> wa_type a = OwnNumber \<and> wa_provider a = META_CLOUD \<and> wa_phone a = p)
       (senders (db w))), w))"

definition sender_conflict :: "mdb \<Rightarrow> whatsapp_account \<Rightarrow> bool" where
  "sender_conflict d a \<longleftrightarrow> list_ex (\<lambda>q. wa_id q \<noteq> wa_id a \<and>
     (wa_provider q = wa_provider a \<and> wa_phone q = wa_phone a \<or> wa_type q = SharedPool \<and> wa_type a = SharedPool)) (senders d)"

definition too_long :: "whatsapp_account \<Rightarrow> bool" where
  "too_long a \<longleftrightarrow> 64 < length (wa_phone a) \<or> (case wa_business a of None \<Rightarrow> False | Some b \<Rightarrow> 64 < length b)"

definition insert_sender :: "whatsapp_account \<Rightarrow> unit mprog" where
  "insert_sender a = seqM wait (\<lambda>w.
     if \<not> sender_insertable (guc w) a then (Inl DatabaseErr, w)
     else if too_long a then (Inl DataErr, w)
     else if \<not> sender_ok a then (Inl CheckViolation, w)
     else if list_ex (\<lambda>q. wa_id q = wa_id a) (senders (db w)) \<or> sender_conflict (db w) a
     then (Inl (UniqueViolation ''whatsapp_account''), w)
     else (Inr (), w\<lparr>db := (db w)\<lparr>senders := senders (db w) @ [a]\<rparr>\<rparr>))"

text \<open>\<open>save()\<close> by primary key.\<close>

definition save_sender :: "uuid \<Rightarrow> (whatsapp_account \<Rightarrow> whatsapp_account) \<Rightarrow> unit mprog" where
  "save_sender i f = bindM now (\<lambda>t w. case find_sender (db w) i of None \<Rightarrow> (Inl DatabaseErr, w)
     | Some a \<Rightarrow> let a' = (f a)\<lparr>wa_updated_at := t\<rparr> in
       if \<not> sender_updatable (guc w) a \<or> \<not> sender_check (guc w) a' then (Inl DatabaseErr, w)
       else if too_long a' then (Inl DataErr, w)
       else if \<not> sender_ok a' then (Inl CheckViolation, w)
       else if sender_conflict (db w) a' then (Inl (UniqueViolation ''whatsapp_account''), w)
       else (Inr (), w\<lparr>db := (db w)\<lparr>senders := update_first (\<lambda>a. wa_id a = i) (\<lambda>_. a') (senders (db w))\<rparr>\<rparr>))"

text \<open>\<open>filter(pk=i, status=s).update(...)\<close>: whether a row matched; a row the policies hide is not updated.\<close>

definition update_sender :: "uuid \<Rightarrow> sender_status \<Rightarrow> (whatsapp_account \<Rightarrow> whatsapp_account) \<Rightarrow> bool mprog" where
  "update_sender i s f = seqM wait (bindM (in_tenant (\<lambda>m d. m)) (\<lambda>m w.
     let P = (\<lambda>a. sender_visible m a \<and> wa_id a = i \<and> wa_status a = s \<and> sender_updatable (guc w) a) in
     if list_ex (\<lambda>a. P a \<and> \<not> sender_check (guc w) (f a)) (senders (db w)) then (Inl DatabaseErr, w)
     else (Inr (list_ex P (senders (db w))), w\<lparr>db := (db w)\<lparr>senders := map_if P f (senders (db w))\<rparr>\<rparr>)))"

subsection \<open>Locks on an account\<close>

text \<open>
  While this transaction holds the row of account \<open>i\<close> \<open>FOR UPDATE\<close>, nobody else changes that row, and nobody adds or
  repoints a mapping to it: the foreign key would need the row's key lock.
\<close>

definition keeps_sender :: "uuid \<Rightarrow> mdb \<Rightarrow> mdb \<Rightarrow> bool" where
  "keeps_sender i d d' \<longleftrightarrow> find_sender d' i = find_sender d i \<and>
     list_all (\<lambda>s. sm_account s = i \<longrightarrow> list_ex (\<lambda>q. sm_account q = i \<and> sm_location q = sm_location s \<and> sm_merchant q = sm_merchant s) (sender_maps d))
       (sender_maps d')"

text \<open>\<open>select_for_update()\<close> re-reads the row after the wait. Nothing is held by this transaction before it.\<close>

definition lock_senders :: "(whatsapp_account \<Rightarrow> bool) \<Rightarrow> whatsapp_account option mprog" where
  "lock_senders P = seqM wait (bindM (visible_senders P) (\<lambda>rows w. (Inr (first (sender_updatable (guc w)) rows), w)))"

subsection \<open>Rows of the tenant\<close>

definition tenant_rows :: "('r \<Rightarrow> uuid) \<Rightarrow> (mdb \<Rightarrow> 'r list) \<Rightarrow> ('r \<Rightarrow> bool) \<Rightarrow> 'r list mprog" where
  "tenant_rows owner rows P = in_tenant (\<lambda>m d. filter (\<lambda>r. owner r = m \<and> P r) (rows d))"

text \<open>\<open>filter(...).update(...)\<close> and \<open>filter(...).delete()\<close> wait for the rows they match; the count of what matched.\<close>

definition update_templates :: "(message_template \<Rightarrow> bool) \<Rightarrow> (message_template \<Rightarrow> message_template) \<Rightarrow> nat mprog" where
  "update_templates P f = seqM wait (bindM (in_tenant (\<lambda>m d. (m, length (filter (\<lambda>t. mt_merchant t = m \<and> P t) (templates d))))) (\<lambda>(m, n).
     seqM (modifyM (\<lambda>w. w\<lparr>db := (db w)\<lparr>templates := map_if (\<lambda>t. mt_merchant t = m \<and> P t) f (templates (db w))\<rparr>\<rparr>)) (ret n)))"

definition delete_signups :: "(signup_state \<Rightarrow> bool) \<Rightarrow> nat mprog" where
  "delete_signups P = seqM wait (bindM (in_tenant (\<lambda>m d. (m, length (filter (\<lambda>s. es_merchant s = m \<and> P s) (signups d))))) (\<lambda>(m, n).
     seqM (modifyM (\<lambda>w. w\<lparr>db := (db w)\<lparr>signups := filter (\<lambda>s. \<not> (es_merchant s = m \<and> P s)) (signups (db w))\<rparr>\<rparr>)) (ret n)))"

definition update_phone :: "(customer \<Rightarrow> bool) \<Rightarrow> (customer \<Rightarrow> customer) \<Rightarrow> unit mprog" where
  "update_phone P f = seqM wait (bindM (in_tenant (\<lambda>m d. m)) (\<lambda>m.
     modifyM (\<lambda>w. w\<lparr>db := (db w)\<lparr>m_customers := map_if (\<lambda>c. cu_merchant c = m \<and> P c) f (m_customers (db w))\<rparr>\<rparr>)))"

text \<open>\<open>save(update_fields=...)\<close> of a template, under the unique constraint of the provider's id and its column width.\<close>

definition save_template :: "uuid \<Rightarrow> (message_template \<Rightarrow> message_template) \<Rightarrow> unit mprog" where
  "save_template i f = bindM now (\<lambda>t. bindM (tenant_rows mt_merchant templates (\<lambda>x. mt_id x = i)) (\<lambda>rows. case rows of
     [] \<Rightarrow> throw DatabaseErr
   | x # _ \<Rightarrow> (\<lambda>w. let x' = (f x)\<lparr>mt_updated_at := t\<rparr> in
       if (case mt_provider_id x' of None \<Rightarrow> False | Some p \<Rightarrow> 64 < length p) then (Inl DataErr, w)
       else if provider_id_taken (db w) i (mt_provider_id x') then (Inl (UniqueViolation ''whatsapp_template_provider_id_uniq''), w)
       else (Inr (), w\<lparr>db := (db w)\<lparr>templates := update_first (\<lambda>y. mt_merchant y = mt_merchant x \<and> mt_id y = i) (\<lambda>_. x') (templates (db w))\<rparr>\<rparr>))))"

subsection \<open>Inserts\<close>

text \<open>The policy of a mapping looks up its location under the location's own policy.\<close>

definition insert_sender_map :: "(mdb \<Rightarrow> mdb \<Rightarrow> bool) \<Rightarrow> sender_mapping \<Rightarrow> unit mprog" where
  "insert_sender_map keep s = seqM (tenant_write (sm_merchant s)) (seqM (wait_holding keep) (\<lambda>w.
     if \<not> list_ex (\<lambda>l. lo_id l = sm_location s \<and> lo_merchant l = sm_merchant s) (m_locations (db w)) then (Inl DatabaseErr, w)
     else if find_sender (db w) (sm_account s) = None then (Inl (UniqueViolation ''foreign_key''), w)
     else if list_ex (\<lambda>q. sm_location q = sm_location s) (sender_maps (db w)) then (Inl (UniqueViolation ''location_id''), w)
     else (Inr (), w\<lparr>db := (db w)\<lparr>sender_maps := sender_maps (db w) @ [s]\<rparr>\<rparr>)))"

definition insert_template :: "message_template \<Rightarrow> unit mprog" where
  "insert_template t = seqM (tenant_write (mt_merchant t)) (seqM wait (\<lambda>w.
     if 255 < length (mt_name t) \<or> 16 < length (mt_language t) then (Inl DataErr, w)
     else if list_ex (\<lambda>q. mt_id q = mt_id t \<or> same_template_key t q) (templates (db w)) then (Inl (UniqueViolation ''whatsapp_template''), w)
     else (Inr (), w\<lparr>db := (db w)\<lparr>templates := templates (db w) @ [t]\<rparr>\<rparr>)))"

definition insert_signup :: "signup_state \<Rightarrow> unit mprog" where
  "insert_signup s = seqM (tenant_write (es_merchant s)) (seqM wait (\<lambda>w.
     if list_ex (\<lambda>q. es_id q = es_id s \<or> es_hash q = es_hash s) (signups (db w)) then (Inl (UniqueViolation ''state_hash''), w)
     else (Inr (), w\<lparr>db := (db w)\<lparr>signups := signups (db w) @ [s]\<rparr>\<rparr>)))"

subsection \<open>Audit\<close>

definition add_audit :: "audit_log \<Rightarrow> unit mprog" where
  "add_audit a = modifyM (\<lambda>w. w\<lparr>db := (db w)\<lparr>m_audit := m_audit (db w) @ [a]\<rparr>\<rparr>)"

text \<open>\<open>record()\<close>; a system event has no actor.\<close>

definition record_event_log :: "string \<Rightarrow> uuid option \<Rightarrow> string \<Rightarrow> uuid \<Rightarrow> (string \<times> json) list \<Rightarrow> unit mprog" where
  "record_event_log action actor kind i metadata = tenant_atomic False (bindM (in_tenant (\<lambda>m d. (m, m_members d))) (\<lambda>(m, ms).
     if (case actor of None \<Rightarrow> False | Some u \<Rightarrow> (m, u) \<notin> set ms) then throw ActorNotMember
     else add_audit (log_row (Some m) action actor kind i metadata)))"

definition record_platform_log :: "string \<Rightarrow> uuid option \<Rightarrow> uuid \<Rightarrow> (string \<times> json) list \<Rightarrow> unit mprog" where
  "record_platform_log action actor i metadata = (\<lambda>w.
     if platform_write_var (ctx w) = None then (Inl TenantContextError, w)
     else if platform_write_var (guc w) = None then (Inl DatabaseErr, w)
     else add_audit (log_row None action actor ''whatsapp.whatsappaccount'' i metadata) w)"

end
