(* ===== verification/UrlText.thy ===== *)
theory UrlText
  imports PyText
begin

text \<open>
  What the clients of web APIs use of Python's library: percent-encoding, form encoding, the parts of a URL, the
  url-safe base64 of tokens, dictionaries as lists without repetitions, and guarded reads of decoded JSON.
\<close>

subsection \<open>Encoding\<close>

text \<open>\<open>dict.fromkeys\<close>: each value once, in the order of its first occurrence.\<close>

fun fromkeys :: "'a list \<Rightarrow> 'a list" where
  "fromkeys [] = []"
| "fromkeys (x # xs) = x # filter (\<lambda>y. y \<noteq> x) (fromkeys xs)"

lemma set_fromkeys [simp]: "set (fromkeys xs) = set xs"
  by (induction xs) auto

lemma distinct_fromkeys [simp]: "distinct (fromkeys xs)"
  by (induction xs) auto

definition percent_char :: "nat \<Rightarrow> char" where
  "percent_char n = ''0123456789ABCDEF'' ! n"

definition percent :: "(char \<Rightarrow> bool) \<Rightarrow> string \<Rightarrow> string" where
  "percent plain s = concat (map (\<lambda>b. let n = unat b; c = char_of n in
     if n < 128 \<and> plain c then [c] else [CHR 0x25, percent_char (n div 16), percent_char (n mod 16)]) (utf8 s))"

definition unreserved :: "char \<Rightarrow> bool" where
  "unreserved c \<longleftrightarrow> word_char c \<or> c \<in> set ''.-~''"

text \<open>\<open>urllib.parse.quote(str(value), safe="")\<close> and \<open>urlencode\<close>.\<close>

definition quote :: "string \<Rightarrow> string" where
  "quote s = percent unreserved s"

definition plus_plain :: "char \<Rightarrow> bool" where
  "plus_plain c \<longleftrightarrow> unreserved c \<or> c = CHR 0x20"

definition plus_char :: "char \<Rightarrow> char" where
  "plus_char c = (if c = CHR 0x20 then CHR 0x2B else c)"

definition quote_plus :: "string \<Rightarrow> string" where
  "quote_plus s = map plus_char (percent plus_plain s)"

fun joined :: "string \<Rightarrow> string list \<Rightarrow> string" where
  "joined sep [] = []"
| "joined sep [x] = x"
| "joined sep (x # y # xs) = x @ sep @ joined sep (y # xs)"

definition urlencode :: "(string \<times> string) list \<Rightarrow> string" where
  "urlencode q = joined ''&'' (map (\<lambda>(k, v). quote_plus k @ ''='' @ quote_plus v) q)"

text \<open>\<open>isinstance(x, list)\<close> guards: anything else has no items.\<close>

fun items :: "json \<Rightarrow> json list" where
  "items (JArr xs) = xs"
| "items _ = []"


text \<open>\<open>isinstance(x, (int, float))\<close> but no \<open>bool\<close>.\<close>

fun is_number :: "json \<Rightarrow> bool" where
  "is_number (JInt _) = True"
| "is_number (JFloat _ _) = True"
| "is_number _ = False"

text \<open>\<open>value if isinstance(value, str) and value else None\<close>.\<close>

fun text_or_none :: "json \<Rightarrow> string option" where
  "text_or_none (JStr s) = (if s = [] then None else Some s)"
| "text_or_none _ = None"

lemma text_or_none_Some [simp]: "text_or_none j = Some s \<longleftrightarrow> j = JStr s \<and> s \<noteq> []"
  by (cases j) auto

subsection \<open>The parts of a URL\<close>

definition ascii_letter :: "char \<Rightarrow> bool" where
  "ascii_letter c \<longleftrightarrow> (let n = code_point c in 65 \<le> n \<and> n \<le> 90 \<or> 97 \<le> n \<and> n \<le> 122)"

definition scheme_char :: "char \<Rightarrow> bool" where
  "scheme_char c \<longleftrightarrow> ascii_letter c \<or> digit_char c \<or> c \<in> set ''+-.''"

definition split_scheme :: "string \<Rightarrow> string \<times> string" where
  "split_scheme s = (let p = takeWhile (\<lambda>c. c \<noteq> CHR 0x3A) s in
     if p \<noteq> [] \<and> length p < length s \<and> ascii_letter (hd p) \<and> list_all scheme_char p then (py_lower p, drop (Suc (length p)) s)
     else ([], s))"

record split_url =
  us_scheme :: string
  us_netloc :: string
  us_fragment :: string

text \<open>\<open>urlsplit\<close> of a text without blanks and control characters; \<open>ip_literal\<close> decides what may stand in brackets.\<close>

definition urlsplit :: "(string \<Rightarrow> bool) \<Rightarrow> string \<Rightarrow> split_url option" where
  "urlsplit ip_literal s = (let
      (scheme, r) = split_scheme s;
      (netloc, path) = (if take 2 r = ''//'' then split_while (\<lambda>c. c \<notin> set ''/?#'') (drop 2 r) else ([], r));
      opened = CHR 0x5B \<in> set netloc; closed = CHR 0x5D \<in> set netloc in
    if opened \<noteq> closed \<or> opened \<and> \<not> ip_literal netloc then None
    else Some \<lparr>us_scheme = scheme, us_netloc = netloc, us_fragment = tl (dropWhile (\<lambda>c. c \<noteq> CHR 0x23) path)\<rparr>)"

definition after_last :: "char \<Rightarrow> string \<Rightarrow> string" where
  "after_last c s = rev (takeWhile (\<lambda>x. x \<noteq> c) (rev s))"

text \<open>\<open>SplitResult.hostname\<close>; the zone of a scoped address keeps its case.\<close>

definition hostname :: "split_url \<Rightarrow> string option" where
  "hostname u = (let info = after_last (CHR 0x40) (us_netloc u);
      inside = tl (dropWhile (\<lambda>c. c \<noteq> CHR 0x5B) info);
      host = (if CHR 0x5B \<in> set info then takeWhile (\<lambda>c. c \<noteq> CHR 0x5D) inside else takeWhile (\<lambda>c. c \<noteq> CHR 0x3A) info) in
    if host = [] then None else Some (let (name, zone) = split_while (\<lambda>c. c \<noteq> CHR 0x25) host in py_lower name @ zone))"

subsection \<open>Tokens\<close>

definition b64url_value :: "char \<Rightarrow> nat option" where
  "b64url_value c = (let n = code_point c in
     if 65 \<le> n \<and> n \<le> 90 then Some (n - 65) else if 97 \<le> n \<and> n \<le> 122 then Some (n - 71)
     else if 48 \<le> n \<and> n \<le> 57 then Some (n + 4) else if n = 45 then Some 62 else if n = 95 then Some 63 else None)"

text \<open>Four digits of six bits are three bytes; what is left over at the end is dropped.\<close>

fun sextets :: "nat list \<Rightarrow> string" where
  "sextets (a # b # c # d # rest) = char_of (4 * a + b div 16) # char_of (16 * (b mod 16) + c div 4) # char_of (64 * (c mod 4) + d) # sextets rest"
| "sextets [a, b, c] = [char_of (4 * a + b div 16), char_of (16 * (b mod 16) + c div 4)]"
| "sextets [a, b] = [char_of (4 * a + b div 16)]"
| "sextets _ = []"

text \<open>
  \<open>urlsafe_b64decode\<close> of the padded text: the pattern in front of it lets one final newline pass, which the
  decoder skips, but which counts for the padding that is added.
\<close>

definition b64url_decode :: "string \<Rightarrow> string option" where
  "b64url_decode s = (let ds = List.map_filter b64url_value s; left_over = length ds mod 4; pad = (4 - length s mod 4) mod 4 in
     if dollar (list_all (\<lambda>c. b64url_value c \<noteq> None)) s \<and> (left_over = 0 \<or> 2 \<le> left_over \<and> 4 \<le> left_over + pad)
     then Some (sextets ds) else None)"

text \<open>\<open>int.from_bytes(b, "big")\<close>.\<close>

definition big_endian :: "string \<Rightarrow> int" where
  "big_endian s = foldl (\<lambda>n c. 256 * n + int (code_point c)) 0 s"

text \<open>A pattern search for \<open>name=(\\d+)\<close>: the first place where digits follow.\<close>

fun search_number :: "string \<Rightarrow> string \<Rightarrow> nat option" where
  "search_number name [] = None"
| "search_number name (c # cs) = (let s = c # cs; ds = takeWhile digit_char (drop (length name) s) in
     if take (length name) s = name \<and> ds \<noteq> [] then Some (digits_value ds) else search_number name cs)"

end
