(* ===== verification/MetaCloud.thy ===== *)
theory MetaCloud
  imports MessagingStore UrlText
begin

text \<open>
  \<open>whatsapp/providers/meta_cloud.py\<close>, the only module that talks to Meta: the request function with its error
  mapping, the webhook parsers, and one function per operation. Its answers are the field \<open>m_http\<close> of the world.
\<close>

subsection \<open>Text\<close>

text \<open>\<open>\\w\<close> of a Python pattern: what \<open>str.isalnum\<close> accepts, and the underscore.\<close>

definition py_word_char :: "char \<Rightarrow> bool" where
  "py_word_char c \<longleftrightarrow> (let n = code_point c in word_char c \<or> n \<in> {170, 178, 179, 181, 185, 186, 188, 189, 190} \<or>
     192 \<le> n \<and> n \<noteq> 215 \<and> n \<noteq> 247)"

text \<open>\<open>_PLACEHOLDER\<close> at the head of a text: the name, and what follows.\<close>

definition placeholder_at :: "string \<Rightarrow> (string \<times> string) option" where
  "placeholder_at s = (let name = takeWhile py_word_char (drop 2 s); rest = drop (2 + length name) s in
     if take 2 s = ''{{'' \<and> name \<noteq> [] \<and> take 2 rest = ''}}'' then Some (name, drop 2 rest) else None)"

lemma placeholder_at_shorter: "placeholder_at s = Some (name, rest) \<Longrightarrow> length rest < length s"
  by (auto simp: placeholder_at_def Let_def split: if_splits) (metis diff_less length_greater_0_conv list.distinct(1) take_Nil zero_less_Suc add_2_eq_Suc)

text \<open>\<open>findall\<close> and \<open>sub("", body)\<close>: the matches from left to right, and the text without them.\<close>

function placeholders :: "string \<Rightarrow> string list" where
  "placeholders s = (case s of [] \<Rightarrow> [] | c # cs \<Rightarrow>
     (case placeholder_at s of Some (name, rest) \<Rightarrow> name # placeholders rest | None \<Rightarrow> placeholders cs))"
  by auto
termination by (relation "measure length") (auto dest: placeholder_at_shorter)

function without_placeholders :: "string \<Rightarrow> string" where
  "without_placeholders s = (case s of [] \<Rightarrow> [] | c # cs \<Rightarrow>
     (case placeholder_at s of Some (name, rest) \<Rightarrow> without_placeholders rest | None \<Rightarrow> c # without_placeholders cs))"
  by auto
termination by (relation "measure length") (auto dest: placeholder_at_shorter)

declare placeholders.simps [simp del] without_placeholders.simps [simp del]

definition opt_str :: "string option \<Rightarrow> string" where
  "opt_str x = (case x of None \<Rightarrow> ''None'' | Some s \<Rightarrow> s)"

text \<open>The Meta-side name, derived from the primary key.\<close>

definition provider_template_name :: "message_template \<Rightarrow> string" where
  "provider_template_name t = ''rf_'' @ filter (\<lambda>c. c \<noteq> CHR 0x2D) (mt_id t)"

definition named_examples :: "string \<Rightarrow> json list" where
  "named_examples body = map (\<lambda>n. JObj [(''param_name'', JStr n), (''example'', JStr (''example_'' @ n))]) (fromkeys (placeholders body))"

subsection \<open>Reading answers\<close>

text \<open>\<open>for x in value or []\<close>, and \<open>(value or {}).get(key)\<close>.\<close>

definition iterate :: "json \<Rightarrow> merror + json list" where
  "iterate j = (if \<not> truthy j then Inr [] else (case j of
     JArr xs \<Rightarrow> Inr xs
   | JObj kvs \<Rightarrow> Inr (map JStr (fromkeys (map fst kvs)))
   | JStr s \<Rightarrow> Inr (map (\<lambda>c. JStr [c]) s)
   | _ \<Rightarrow> Inl TypeErr))"

definition get_or_empty :: "json \<Rightarrow> string \<Rightarrow> merror + json" where
  "get_or_empty j k = (if \<not> truthy j then Inr JNull else if is_dict j then Inr (jget k j) else Inl AttributeErr)"

text \<open>\<open>_values\<close>: every \<open>entry[].changes[].value\<close> that is an object.\<close>

definition webhook_values :: "json \<Rightarrow> json list" where
  "webhook_values payload = filter is_dict (map (jget ''value'') (concat (map (\<lambda>entry. items (jget ''changes'' entry)) (items (jget ''entry'' payload)))))"

fun id_text :: "json \<Rightarrow> string option" where
  "id_text (JInt i) = Some (int_text i)"
| "id_text (JStr s) = (if s = [] then None else Some s)"
| "id_text _ = None"

subsection \<open>Webhooks\<close>

record inbound_message =
  im_phone_number_id :: string
  im_from :: string
  im_text :: "string option"

record status_update =
  su_message_id :: string
  su_status :: string
  su_occurred_at :: "instant option"
  su_error_code :: "int option"

definition SIGNATURE_PREFIX :: string where "SIGNATURE_PREFIX = ''sha256=''"

definition verify_meta_signature :: "messaging_settings \<Rightarrow> string \<Rightarrow> string option \<Rightarrow> bool" where
  "verify_meta_signature c raw_body signature = (case signature of None \<Rightarrow> False
     | Some s \<Rightarrow> if take 7 s \<noteq> SIGNATURE_PREFIX then False
         else verify_hmac_sha256 (meta_app_secret c) raw_body (drop 7 s) Hex)"

definition message_text :: "json \<Rightarrow> string option" where
  "message_text message = (if jget ''type'' message = JStr ''text'' then as_str (jget ''body'' (jget ''text'' message)) else None)"

definition messages_of :: "json \<Rightarrow> inbound_message list" where
  "messages_of value = (case id_text (jget ''phone_number_id'' (jget ''metadata'' value)) of
     None \<Rightarrow> []
   | Some number \<Rightarrow> concat (map (\<lambda>message. case id_text (jget ''from'' message) of
         None \<Rightarrow> []
       | Some sender \<Rightarrow> [\<lparr>im_phone_number_id = number, im_from = sender, im_text = message_text message\<rparr>])
       (items (jget ''messages'' value))))"

definition parse_inbound_webhook :: "json \<Rightarrow> inbound_message list" where
  "parse_inbound_webhook payload = concat (map messages_of (webhook_values payload))"

definition STATUS_MAP :: "(string \<times> string) list" where
  "STATUS_MAP = [(''sent'', ''SENT''), (''delivered'', ''DELIVERED''), (''read'', ''READ''), (''failed'', ''FAILED'')]"

text \<open>\<open>int(x)\<close> of a decoded value, towards zero for a float.\<close>

fun int_of_json :: "json \<Rightarrow> int option" where
  "int_of_json (JInt i) = Some i"
| "int_of_json (JBool b) = Some (if b then 1 else 0)"
| "int_of_json (JFloat m e) = Some (if 0 \<le> e then m * 2 ^ nat e else sgn m * (\<bar>m\<bar> div 2 ^ nat (- e)))"
| "int_of_json (JStr s) = py_int s"
| "int_of_json _ = None"

text \<open>\<open>datetime.fromtimestamp\<close> in UTC: the years 1 to 9999.\<close>

definition from_timestamp :: "int \<Rightarrow> instant option" where
  "from_timestamp t = (if -62135596800 \<le> t \<and> t \<le> 253402300799 then Some (seconds t) else None)"

definition status_update_of :: "json \<Rightarrow> status_update option" where
  "status_update_of status = (case as_str (jget ''status'' status) of None \<Rightarrow> None
     | Some name \<Rightarrow> (case (map_of STATUS_MAP name, id_text (jget ''id'' status)) of
         (Some mapped, Some message_id) \<Rightarrow> Some \<lparr>su_message_id = message_id, su_status = mapped,
           su_occurred_at = (case int_of_json (jget ''timestamp'' status) of None \<Rightarrow> None | Some t \<Rightarrow> from_timestamp t),
           su_error_code = (case items (jget ''errors'' status) of [] \<Rightarrow> None | e # _ \<Rightarrow> as_int (jget ''code'' e))\<rparr>
       | _ \<Rightarrow> None))"

definition parse_status_webhook :: "json \<Rightarrow> status_update list" where
  "parse_status_webhook payload =
     concat (map (\<lambda>value. List.map_filter status_update_of (items (jget ''statuses'' value))) (webhook_values payload))"

subsection \<open>Requests\<close>

definition HTTP_PERMANENT :: "int \<Rightarrow> bool" where
  "HTTP_PERMANENT status \<longleftrightarrow> \<not> (status = 429 \<or> 500 \<le> status)"

text \<open>\<open>urlopen\<close>: the call is recorded; outside every transaction others commit meanwhile.\<close>

definition meta_urlopen :: "meta_request \<Rightarrow> http_reply mprog" where
  "meta_urlopen rq = (\<lambda>w. let w' = (if saves w = [] then interfere w else w) in
     (Inr (m_http w (length (m_calls w)) rq), w'\<lparr>m_calls := m_calls w' @ [rq]\<rparr>))"

definition graph_request :: "messaging_settings \<Rightarrow> http_method \<Rightarrow> string \<Rightarrow> json option \<Rightarrow> string \<Rightarrow> meta_request" where
  "graph_request c method path body token = \<lparr>rq_method = method,
     rq_path = ''https://graph.facebook.com/'' @ graph_version c @ path, rq_body = body, mq_token = token\<rparr>"

definition meta_reply :: "http_reply \<Rightarrow> merror + json" where
  "meta_reply reply = (case reply of
     HttpError status _ \<Rightarrow> Inl (App (if HTTP_PERMANENT status then ProviderPermanentError else ProviderTransientError))
   | TransportError \<Rightarrow> Inl (App ProviderTransientError)
   | Reply result \<Rightarrow> (case result of None \<Rightarrow> Inl (App ProviderTransientError)
       | Some r \<Rightarrow> if is_dict r then Inr r else Inl (App ProviderTransientError)))"

definition meta_call :: "http_method \<Rightarrow> string \<Rightarrow> json option \<Rightarrow> string \<Rightarrow> json mprog" where
  "meta_call method path body token = (if token = [] then throw (App WhatsAppNotConfigured)
     else bindM (asks m_cfg) (\<lambda>c. bindM (meta_urlopen (graph_request c method path body token)) (\<lambda>reply. liftE (meta_reply reply))))"

definition token_for :: "pylib \<Rightarrow> messaging_settings \<Rightarrow> whatsapp_account \<Rightarrow> merror + string" where
  "token_for lib c a = bindE (case wa_type a of
       SharedPool \<Rightarrow> Inr (shared_pool_token c)
     | OwnNumber \<Rightarrow> if \<not> truthy_text (wa_token a) then Inl (App WhatsAppNotConfigured)
         else (case decrypt lib (the (wa_token a)) of None \<Rightarrow> Inl (App WhatsAppNotConfigured) | Some t \<Rightarrow> Inr t))
     (\<lambda>token. if token = [] then Inl (App WhatsAppNotConfigured) else Inr token)"

definition account_call :: "whatsapp_account \<Rightarrow> http_method \<Rightarrow> string \<Rightarrow> json option \<Rightarrow> json mprog" where
  "account_call a method path body = bindM (asks (\<lambda>w. token_for (m_lib w) (m_cfg w) a)) (\<lambda>t. bindM (liftE t) (meta_call method path body))"

definition business_path :: "whatsapp_account \<Rightarrow> string \<Rightarrow> string" where
  "business_path a rest = ''/'' @ quote (opt_str (wa_business a)) @ rest"

subsection \<open>Operations\<close>

definition TEMPLATE_CATEGORY :: string where "TEMPLATE_CATEGORY = ''UTILITY''"

definition template_body :: "message_template \<Rightarrow> json" where
  "template_body t = JObj ([(''type'', JStr ''BODY''), (''text'', JStr (mt_body t))] @
     (let examples = named_examples (mt_body t) in
      if examples = [] then [] else [(''example'', JObj [(''body_text_named_params'', JArr examples)])]))"

definition provider_submit :: "whatsapp_account \<Rightarrow> message_template \<Rightarrow> string mprog" where
  "provider_submit a t = bindM (account_call a POST (business_path a ''/message_templates'')
       (Some (JObj [(''name'', JStr (provider_template_name t)), (''category'', JStr TEMPLATE_CATEGORY),
         (''language'', JStr (mt_language t)), (''parameter_format'', JStr ''NAMED''), (''components'', JArr [template_body t])])))
     (\<lambda>result. if \<not> truthy (jget ''id'' result) then throw (App ProviderTransientError)
        else bindM (asks m_lib) (\<lambda>lib. ret (py_str lib (jget ''id'' result))))"

definition FIND_PAGE_SIZE :: string where "FIND_PAGE_SIZE = ''100''"
definition FIND_MAX_PAGES :: nat where "FIND_MAX_PAGES = 50"

definition is_template :: "message_template \<Rightarrow> json \<Rightarrow> bool" where
  "is_template t item \<longleftrightarrow> is_dict item \<and> jget ''name'' item = JStr (provider_template_name t) \<and> jget ''language'' item = JStr (mt_language t)"

text \<open>One page of the template list: the id of the template, or whether and where to go on.\<close>

datatype scan = Found string | Absent | More json

definition scan_page :: "pylib \<Rightarrow> message_template \<Rightarrow> json \<Rightarrow> merror + scan" where
  "scan_page lib t page = bindE (iterate (jget ''data'' page)) (\<lambda>data. case first (is_template t) data of
     Some item \<Rightarrow> if truthy (jget ''id'' item) then Inr (Found (py_str lib (jget ''id'' item))) else Inl (App ProviderTransientError)
   | None \<Rightarrow> bindE (get_or_empty (jget ''paging'' page) ''next'') (\<lambda>next.
       if \<not> truthy next then Inr Absent
       else bindE (get_or_empty (jget ''cursors'' (jget ''paging'' page)) ''after'') (\<lambda>after.
         if truthy after then Inr (More after) else Inl (App ProviderTransientError))))"

definition lookup_path :: "pylib \<Rightarrow> whatsapp_account \<Rightarrow> json \<Rightarrow> string" where
  "lookup_path lib a after = business_path a (''/message_templates?'' @
     urlencode ([(''fields'', ''id,name,language''), (''limit'', FIND_PAGE_SIZE)] @ (if truthy after then [(''after'', py_str lib after)] else [])))"

fun find_from :: "nat \<Rightarrow> whatsapp_account \<Rightarrow> message_template \<Rightarrow> json \<Rightarrow> string option mprog" where
  "find_from 0 a t after = throw (App ProviderTransientError)"
| "find_from (Suc pages) a t after = bindM (asks m_lib) (\<lambda>lib. bindM (account_call a GET (lookup_path lib a after) None) (\<lambda>page.
     bindM (liftE (scan_page lib t page)) (\<lambda>s. case s of
       Found i \<Rightarrow> ret (Some i) | Absent \<Rightarrow> ret None | More next \<Rightarrow> find_from pages a t next)))"

definition find_template_id :: "whatsapp_account \<Rightarrow> message_template \<Rightarrow> string option mprog" where
  "find_template_id a t = find_from FIND_MAX_PAGES a t JNull"

definition REJECTED_STATES :: "string list" where
  "REJECTED_STATES = [''REJECTED'', ''DISABLED'', ''DELETED'', ''ARCHIVED'', ''PENDING_DELETION'']"

text \<open>Membership of a set hashes the value: a list or an object raises.\<close>

definition template_status_of :: "json \<Rightarrow> merror + template_status" where
  "template_status_of status = (case status of
     JStr s \<Rightarrow> Inr (if s = ''APPROVED'' then TemplateApproved else if s \<in> set REJECTED_STATES then TemplateRejected else TemplatePending)
   | JArr _ \<Rightarrow> Inl TypeErr | JObj _ \<Rightarrow> Inl TypeErr | _ \<Rightarrow> Inr TemplatePending)"

definition fetch_template_status :: "whatsapp_account \<Rightarrow> string \<Rightarrow> template_status mprog" where
  "fetch_template_status a i = bindM (account_call a GET (''/'' @ quote i @ ''?fields=status'') None)
     (\<lambda>r. liftE (template_status_of (jget ''status'' r)))"

definition fetch_quality_rating :: "whatsapp_account \<Rightarrow> string mprog" where
  "fetch_quality_rating a = bindM (account_call a GET (business_path a ''/phone_numbers?fields=id,quality_rating'') None) (\<lambda>r.
     bindM (liftE (iterate (jget ''data'' r))) (\<lambda>numbers. bindM (asks m_lib) (\<lambda>lib.
       case first (\<lambda>n. is_dict n \<and> jget ''id'' n = JStr (wa_phone a)) numbers of None \<Rightarrow> ret ''UNKNOWN''
       | Some n \<Rightarrow> ret (if truthy (jget ''quality_rating'' n) then py_str lib (jget ''quality_rating'' n) else ''UNKNOWN''))))"

text \<open>\<open>messages[0]\<close> of what \<open>result.get("messages") or []\<close> is.\<close>

definition first_message :: "json \<Rightarrow> merror + json" where
  "first_message j = (if \<not> truthy j then Inl (App ProviderTransientError) else (case j of
     JArr xs \<Rightarrow> Inr (hd xs) | JStr s \<Rightarrow> Inr (JStr [hd s]) | JObj _ \<Rightarrow> Inl (App KeyMissing) | _ \<Rightarrow> Inl TypeErr))"

definition lstrip_plus :: "string \<Rightarrow> string" where
  "lstrip_plus s = dropWhile (\<lambda>c. c = CHR 0x2B) s"

definition send_parameters :: "pylib \<Rightarrow> message_template \<Rightarrow> (string \<times> json) list \<Rightarrow> merror + json list" where
  "send_parameters lib t vars = (let names = fromkeys (placeholders (mt_body t)) in
     if list_all (\<lambda>n. map_of vars n \<noteq> None) names
     then Inr (map (\<lambda>n. JObj [(''type'', JStr ''text''), (''parameter_name'', JStr n), (''text'', JStr (py_str lib (the (map_of vars n))))]) names)
     else Inl (App KeyMissing))"

definition send_message :: "whatsapp_account \<Rightarrow> string \<Rightarrow> message_template \<Rightarrow> (string \<times> json) list \<Rightarrow> string mprog" where
  "send_message a to t vars = bindM (asks m_lib) (\<lambda>lib. bindM (liftE (send_parameters lib t vars)) (\<lambda>ps.
     bindM (account_call a POST (''/'' @ quote (wa_phone a) @ ''/messages'')
       (Some (JObj [(''messaging_product'', JStr ''whatsapp''), (''to'', JStr (lstrip_plus to)), (''type'', JStr ''template''),
         (''template'', JObj [(''name'', JStr (provider_template_name t)), (''language'', JObj [(''code'', JStr (mt_language t))]),
           (''components'', JArr [JObj [(''type'', JStr ''body''), (''parameters'', JArr ps)]])])]))) (\<lambda>r.
     bindM (liftE (first_message (jget ''messages'' r))) (\<lambda>m.
       if is_dict m \<and> truthy (jget ''id'' m) then ret (py_str lib (jget ''id'' m)) else throw (App ProviderTransientError)))))"

definition expect_success :: "json \<Rightarrow> unit mprog" where
  "expect_success r = (if jget ''success'' r = JBool True then ret () else throw (App ProviderTransientError))"

definition register_number :: "string \<Rightarrow> string \<Rightarrow> string \<Rightarrow> unit mprog" where
  "register_number access_token phone_number_id pin = bindM (meta_call POST (''/'' @ quote phone_number_id @ ''/register'')
     (Some (JObj [(''messaging_product'', JStr ''whatsapp''), (''pin'', JStr pin)])) access_token) expect_success"

definition subscribe_app :: "whatsapp_account \<Rightarrow> unit mprog" where
  "subscribe_app a = bindM (account_call a POST (business_path a ''/subscribed_apps'') None) expect_success"

end
