(* ===== verification/Senders.thy ===== *)
theory Senders
  imports MetaCloud
begin

text \<open>
  The sender half of \<open>whatsapp/services.py\<close>: the shared pool account, which location sends from which account,
  the states of the embedded signup, and the life of an own number.
\<close>

definition field_error :: "string \<Rightarrow> string \<Rightarrow> merror" where
  "field_error field message = App (InvalidFields [(field, [message])])"

definition oldest_first :: "('r \<Rightarrow> instant) \<Rightarrow> ('r \<Rightarrow> uuid) \<Rightarrow> 'r list \<Rightarrow> 'r list" where
  "oldest_first created key rows = sort_key (\<lambda>r. (created r, key r)) rows"

subsection \<open>The shared sender\<close>

definition SHARED_POOL_SCOPE :: string where "SHARED_POOL_SCOPE = ''whatsapp_shared_pool''"

text \<open>\<open>shared_pool().select_for_update()\<close>: the update policy shows the row in the platform scope only.\<close>

definition lock_shared_pool :: "whatsapp_account option mprog" where
  "lock_shared_pool = seqM wait (bindM (shared_pool (\<lambda>_. True)) (\<lambda>rows w. (Inr (first (sender_updatable (guc w)) rows), w)))"

definition new_shared :: "uuid \<Rightarrow> string \<Rightarrow> string \<Rightarrow> sender_status \<Rightarrow> instant option \<Rightarrow> instant \<Rightarrow> whatsapp_account" where
  "new_shared i phone business status connected t = \<lparr>wa_id = i, wa_merchant = None, wa_type = SharedPool, wa_provider = META_CLOUD,
     wa_phone = phone, wa_business = Some business, wa_status = status, wa_connected_at = connected, wa_token = None,
     wa_created_at = t, wa_updated_at = t\<rparr>"

definition create_shared :: "string \<Rightarrow> string \<Rightarrow> sender_status \<Rightarrow> (whatsapp_account \<times> bool) mprog" where
  "create_shared phone business status = bindM random_value (\<lambda>i.
     bindM (if status = SenderActive then bindM now (\<lambda>t. ret (Some t)) else ret None) (\<lambda>connected. bindM now (\<lambda>t.
     let a = new_shared i phone business status connected t in
     catchM (bindM (atomic (insert_sender a)) (\<lambda>_. ret (a, True)))
       (\<lambda>conflict. if integrity_error conflict
         then Some (bindM lock_shared_pool (\<lambda>r. case r of None \<Rightarrow> throw conflict | Some a \<Rightarrow> ret (a, False))) else None))))"

definition reconfigure_shared :: "whatsapp_account \<Rightarrow> string \<Rightarrow> string \<Rightarrow> sender_status \<Rightarrow> whatsapp_account mprog" where
  "reconfigure_shared a phone business status =
     bindM (if status = SenderActive \<and> wa_connected_at a = None then bindM now (\<lambda>t. ret (Some t)) else ret (wa_connected_at a)) (\<lambda>connected.
     let f = (\<lambda>a. a\<lparr>wa_phone := phone, wa_business := Some business, wa_connected_at := connected, wa_status := status\<rparr>) in
     seqM (save_sender (wa_id a) f) (ret (f a)))"

definition audit_shared :: "uuid option \<Rightarrow> sender_status \<Rightarrow> whatsapp_account \<Rightarrow> unit mprog" where
  "audit_shared actor status a =
     record_platform_log ''whatsapp.shared_pool_configured'' actor (wa_id a) [(''status'', JStr (sender_status_text status))]"

definition configure_shared :: "string \<Rightarrow> string \<Rightarrow> sender_status \<Rightarrow> uuid option \<Rightarrow> whatsapp_account mprog" where
  "configure_shared phone business status actor = bindM lock_shared_pool (\<lambda>r.
     bindM (case r of None \<Rightarrow> create_shared phone business status | Some a \<Rightarrow> ret (a, False)) (\<lambda>(a, created).
       if created then seqM (audit_shared actor status a) (ret a)
       else if wa_phone a = phone \<and> wa_business a = Some business \<and> wa_status a = status then ret a
       else bindM (reconfigure_shared a phone business status) (\<lambda>a. seqM (audit_shared actor status a) (ret a))))"

definition upsert_shared_pool_account :: "string \<Rightarrow> string \<Rightarrow> string \<Rightarrow> uuid option \<Rightarrow> whatsapp_account mprog" where
  "upsert_shared_pool_account phone business status actor = (
     if phone = [] \<or> business = [] then throw (App (InvalidFields []))
     else (case sender_status_of status of None \<Rightarrow> throw (App (InvalidFields []))
       | Some s \<Rightarrow> platform_write_atomic SHARED_POOL_SCOPE (configure_shared phone business s actor)))"

definition active_shared_account :: "whatsapp_account option mprog" where
  "active_shared_account = bindM (shared_pool (\<lambda>a. wa_status a = SenderActive)) (\<lambda>rows. ret (first (\<lambda>_. True) rows))"

subsection \<open>Which sender a location uses\<close>

definition list_senders :: "whatsapp_account list mprog" where
  "list_senders = bindM (visible_senders (\<lambda>a. wa_type a = OwnNumber \<or> wa_type a = SharedPool \<and> wa_status a = SenderActive))
     (\<lambda>rows. ret (oldest_first wa_created_at wa_id rows))"

definition get_sender :: "uuid \<Rightarrow> whatsapp_account mprog" where
  "get_sender i = bindM (visible_senders (\<lambda>a. wa_id a = i)) (\<lambda>rows. or_raise (App SenderNotFound) (first (\<lambda>_. True) rows))"

text \<open>\<open>select_related("whatsapp_account")\<close>: an inner join, with the account under its own policies.\<close>

definition mapping_of :: "uuid \<Rightarrow> (sender_mapping \<times> whatsapp_account) option mprog" where
  "mapping_of l = in_tenant (\<lambda>m d. case first (\<lambda>s. sm_merchant s = m \<and> sm_location s = l) (sender_maps d) of
     None \<Rightarrow> None
   | Some s \<Rightarrow> (case find_sender d (sm_account s) of None \<Rightarrow> None | Some a \<Rightarrow> if sender_visible m a then Some (s, a) else None))"

definition get_location_sender :: "uuid \<Rightarrow> whatsapp_account option mprog" where
  "get_location_sender l = bindM (mapping_of l) (\<lambda>m. case m of None \<Rightarrow> ret None
     | Some (s, a) \<Rightarrow> ret (if wa_status a = SenderActive then Some a else None))"

text \<open>\<open>_locked_mapping\<close>, while the transaction may already hold an account.\<close>

definition locked_mapping :: "(mdb \<Rightarrow> mdb \<Rightarrow> bool) \<Rightarrow> uuid \<Rightarrow> (sender_mapping \<times> whatsapp_account) option mprog" where
  "locked_mapping keep l = seqM (wait_holding keep) (mapping_of l)"

definition not_active :: merror where
  "not_active = field_error ''whatsapp_account_id'' ''This sender is not active.''"

definition lock_active_account :: "whatsapp_account \<Rightarrow> whatsapp_account mprog" where
  "lock_active_account a = bindM
     (if wa_type a = OwnNumber then lock_senders (\<lambda>x. wa_id x = wa_id a)
      else bindM (visible_senders (\<lambda>x. wa_id x = wa_id a)) (\<lambda>rows. ret (first (\<lambda>_. True) rows)))
     (\<lambda>fresh. case fresh of None \<Rightarrow> throw (App SenderNotFound)
      | Some x \<Rightarrow> if wa_status x \<noteq> SenderActive then throw not_active else ret x)"

definition held :: "whatsapp_account \<Rightarrow> mdb \<Rightarrow> mdb \<Rightarrow> bool" where
  "held a = (if wa_type a = OwnNumber then keeps_sender (wa_id a) else (\<lambda>_ _. True))"

text \<open>The mapping of the location: found, created, or created by somebody else meanwhile (and gone again: \<open>None.whatsapp_account\<close>).\<close>

definition mapping_for :: "(mdb \<Rightarrow> mdb \<Rightarrow> bool) \<Rightarrow> whatsapp_account \<Rightarrow> location \<Rightarrow> (sender_mapping \<times> whatsapp_account \<times> bool) mprog" where
  "mapping_for keep a l = bindM (locked_mapping keep (lo_id l)) (\<lambda>m. case m of
     Some (s, q) \<Rightarrow> ret (s, q, False)
   | None \<Rightarrow> bindM now (\<lambda>t.
       let s = \<lparr>sm_account = wa_id a, sm_location = lo_id l, sm_merchant = lo_merchant l, sm_updated_at = t\<rparr> in
       bindM (created_or_taken (insert_sender_map keep s)) (\<lambda>created. if created then ret (s, a, True)
         else bindM (locked_mapping keep (lo_id l)) (\<lambda>m. case m of None \<Rightarrow> throw AttributeErr | Some (s, q) \<Rightarrow> ret (s, q, False)))))"

definition save_sender_map :: "uuid \<Rightarrow> (sender_mapping \<Rightarrow> sender_mapping) \<Rightarrow> unit mprog" where
  "save_sender_map l f = bindM now (\<lambda>t. bindM (in_tenant (\<lambda>m d. (m, first (\<lambda>s. sm_merchant s = m \<and> sm_location s = l) (sender_maps d)))) (\<lambda>(m, s).
     if s = None then throw DatabaseErr
     else modifyM (\<lambda>w. w\<lparr>db := (db w)\<lparr>sender_maps := update_first (\<lambda>s. sm_merchant s = m \<and> sm_location s = l)
       (\<lambda>s. (f s)\<lparr>sm_updated_at := t\<rparr>) (sender_maps (db w))\<rparr>\<rparr>)))"

definition sender_changed :: "uuid \<Rightarrow> uuid \<Rightarrow> sender_type option \<Rightarrow> sender_type option \<Rightarrow> unit mprog" where
  "sender_changed actor l old new = record_event_log ''whatsapp.sender_changed'' (Some actor) ''locations.location'' l
     [(''from_sender_type'', nullable_str (map_option sender_type_text old)), (''to_sender_type'', nullable_str (map_option sender_type_text new))]"

definition set_location_sender :: "location \<Rightarrow> whatsapp_account \<Rightarrow> uuid \<Rightarrow> unit mprog" where
  "set_location_sender l account actor = (
     if wa_status account \<noteq> SenderActive then throw not_active
     else if wa_type account = OwnNumber \<and> wa_merchant account \<noteq> Some (lo_merchant l)
     then throw (field_error ''whatsapp_account_id'' ''This sender cannot serve this location.'')
     else tenant_atomic False (bindM (lock_active_account account) (\<lambda>a.
       bindM (mapping_for (held account) a l) (\<lambda>(s, q, created).
         let changed = (created \<or> sm_account s \<noteq> wa_id a) in
         seqM (whenM (changed \<and> \<not> created) (save_sender_map (lo_id l) (\<lambda>s. s\<lparr>sm_account := wa_id a\<rparr>)))
           (whenM changed (sender_changed actor (lo_id l) (if created then None else Some (wa_type q)) (Some (wa_type a))))))))"

definition delete_sender_map :: "uuid \<Rightarrow> unit mprog" where
  "delete_sender_map l = bindM (in_tenant (\<lambda>m d. m)) (\<lambda>m.
     modifyM (\<lambda>w. w\<lparr>db := (db w)\<lparr>sender_maps := filter (\<lambda>s. \<not> (sm_merchant s = m \<and> sm_location s = l)) (sender_maps (db w))\<rparr>\<rparr>))"

definition clear_location_sender :: "location \<Rightarrow> uuid \<Rightarrow> unit mprog" where
  "clear_location_sender l actor = tenant_atomic False (bindM (locked_mapping (\<lambda>_ _. True) (lo_id l)) (\<lambda>m. case m of
     None \<Rightarrow> ret ()
   | Some (s, q) \<Rightarrow> seqM (delete_sender_map (lo_id l)) (sender_changed actor (lo_id l) (Some (wa_type q)) None)))"

subsection \<open>Embedded signup\<close>

definition hash_signup_state :: "string \<Rightarrow> string" where
  "hash_signup_state state = hexdigest (sha256 (utf8 state))"

definition issue_signup_state :: "uuid \<Rightarrow> string mprog" where
  "issue_signup_state actor = bindM get_current_merchant_id (\<lambda>m. case m of
     None \<Rightarrow> throw TenantContextError
   | Some m \<Rightarrow> bindM now (\<lambda>t. bindM random_value (\<lambda>state. bindM (asks m_cfg) (\<lambda>c.
       tenant_atomic False (bindM (delete_signups (\<lambda>s. es_expires_at s \<le> t)) (\<lambda>_. bindM random_value (\<lambda>i.
         seqM (insert_signup \<lparr>es_id = i, es_merchant = m, es_user = actor, es_hash = hash_signup_state state,
             es_expires_at = t + seconds (signup_max_age c)\<rparr>) (ret state))))))))"

definition consume_signup_state :: "uuid \<Rightarrow> string \<Rightarrow> bool mprog" where
  "consume_signup_state actor state = bindM now (\<lambda>t.
     bindM (tenant_atomic False (delete_signups (\<lambda>s. es_hash s = hash_signup_state state \<and> es_user s = actor \<and> t < es_expires_at s)))
       (\<lambda>n. ret (n = 1)))"

definition signup_configured :: "messaging_settings \<Rightarrow> bool" where
  "signup_configured c \<longleftrightarrow> signup_enabled c \<and> meta_app_id c \<noteq> [] \<and> meta_app_secret c \<noteq> [] \<and> meta_config_id c \<noteq> [] \<and> fernet_key c \<noteq> []"

definition begin_embedded_signup :: "uuid \<Rightarrow> (string \<times> string \<times> string) mprog" where
  "begin_embedded_signup actor = bindM (asks m_cfg) (\<lambda>c.
     if \<not> signup_configured c then throw (App WhatsAppNotConfigured)
     else bindM (issue_signup_state actor) (\<lambda>state. ret (state, meta_app_id c, meta_config_id c)))"

subsection \<open>An own number\<close>

text \<open>\<open>get_provider(account)\<close>: a dictionary with one entry.\<close>

definition get_provider :: "whatsapp_account \<Rightarrow> unit mprog" where
  "get_provider a = (if wa_provider a = META_CLOUD then ret () else throw (App KeyMissing))"

definition activating :: "uuid \<Rightarrow> whatsapp_account option mprog" where
  "activating i = tenant_atomic False (bindM (visible_senders (\<lambda>a. wa_id a = i \<and> wa_type a = OwnNumber \<and>
     wa_status a = SenderPending \<and> wa_token a \<noteq> None)) (\<lambda>rows. ret (first (\<lambda>_. True) rows)))"

definition activation_failed :: "uuid \<Rightarrow> unit mprog" where
  "activation_failed i = tenant_atomic False (bindM now (\<lambda>t.
     bindM (update_sender i SenderPending (\<lambda>a. a\<lparr>wa_status := SenderSuspended, wa_updated_at := t\<rparr>)) (\<lambda>changed.
       whenM changed (record_event_log ''whatsapp.own_number_activation_failed'' None ''whatsapp.whatsappaccount'' i []))))"

definition activation_done :: "uuid \<Rightarrow> unit mprog" where
  "activation_done i = bindM now (\<lambda>t. tenant_atomic False
     (bindM (update_sender i SenderPending (\<lambda>a. a\<lparr>wa_status := SenderActive,
       wa_connected_at := (case wa_connected_at a of None \<Rightarrow> Some t | Some c \<Rightarrow> Some c), wa_updated_at := t\<rparr>)) (\<lambda>_. ret ())))"

definition activate_own_number :: "uuid \<Rightarrow> unit mprog" where
  "activate_own_number i = bindM (activating i) (\<lambda>r. case r of None \<Rightarrow> ret ()
     | Some a \<Rightarrow> bindM (catchM (seqM (get_provider a) (seqM (subscribe_app a) (ret True)))
           (\<lambda>e. if e = App ProviderPermanentError then Some (ret False) else None))
         (\<lambda>subscribed. if subscribed then activation_done i else activation_failed i))"

definition disconnect_own_number :: "whatsapp_account \<Rightarrow> uuid \<Rightarrow> unit mprog" where
  "disconnect_own_number account actor = tenant_atomic False
     (bindM (lock_senders (\<lambda>a. wa_id a = wa_id account \<and> wa_type a = OwnNumber)) (\<lambda>r. case r of
        None \<Rightarrow> throw (App SenderNotFound)
      | Some a \<Rightarrow> if wa_status a = SenderSuspended \<and> wa_token a = None then ret ()
          else bindM (tenant_rows sm_merchant sender_maps (\<lambda>s. sm_account s = wa_id a)) (\<lambda>used.
            if used \<noteq> [] then throw (App SenderInUse)
            else seqM (save_sender (wa_id a) (\<lambda>x. x\<lparr>wa_status := SenderSuspended, wa_token := None\<rparr>))
              (record_event_log ''whatsapp.own_number_disconnected'' (Some actor) ''whatsapp.whatsappaccount'' (wa_id a) []))))"

definition own_number_merchant_id :: "string \<Rightarrow> uuid option mprog" where
  "own_number_merchant_id phone_number_id = (if \<not> is_valid_phone_number_id phone_number_id then ret None
     else bindM (whatsapp_number_lookup_atomic phone_number_id (for_lookup_phone_number_id phone_number_id)) (\<lambda>rows.
       ret (case rows of [a] \<Rightarrow> wa_merchant a | _ \<Rightarrow> None)))"

end
