(* ===== verification/Templates.thy ===== *)
theory Templates
  imports Senders
begin

text \<open>
  The template half of \<open>whatsapp/services.py\<close> with its tasks: validation, creation, submission to Meta with the
  recovery of a lost submission, synchronisation of statuses, and the quality alert.
\<close>

subsection \<open>Validation\<close>

definition STANDARD_VARIABLES :: "string list" where
  "STANDARD_VARIABLES = [''customer_name'', ''business_name'', ''location_name'', ''review_link'']"

fun has_text :: "string \<Rightarrow> string \<Rightarrow> bool" where
  "has_text sub [] = (sub = [])"
| "has_text sub (c # cs) = (take (length sub) (c # cs) = sub \<or> has_text sub cs)"

definition placeholder_errors :: "string \<Rightarrow> uuid option \<Rightarrow> string list" where
  "placeholder_errors body account = (let used = placeholders body; left_over = without_placeholders body in
     (if \<not> set used \<subseteq> set STANDARD_VARIABLES
      then [''Unknown placeholder: only business_name, customer_name, location_name, review_link are allowed.''] else []) @
     (if has_text ''{{'' left_over \<or> has_text ''}}'' left_over then [''Malformed placeholder.''] else []) @
     (if account = None \<and> ''business_name'' \<notin> set used then [''Must include {{business_name}}.''] else []))"

definition body_errors :: "messaging_settings \<Rightarrow> string \<Rightarrow> uuid option \<Rightarrow> string list" where
  "body_errors c body account = (
     if strip body = [] then [''Required.'']
     else if template_body_max c < length body then [''At most '' @ nat_digits (template_body_max c) @ '' characters.'']
     else placeholder_errors body account)"

definition template_errors :: "messaging_settings \<Rightarrow> string \<Rightarrow> string \<Rightarrow> string \<Rightarrow> uuid option \<Rightarrow> (string \<times> string list) list" where
  "template_errors c name language body account =
     (if strip name = [] \<or> 255 < length name then [(''name'', [''Required, at most 255 characters.''])] else []) @
     (if language \<notin> set (template_languages c) then [(''language'', [''Unsupported language.''])] else []) @
     (if body_errors c body account \<noteq> [] then [(''body'', body_errors c body account)] else [])"

definition validate_template :: "string \<Rightarrow> string \<Rightarrow> string \<Rightarrow> uuid option \<Rightarrow> unit mprog" where
  "validate_template name language body account = bindM (asks m_cfg) (\<lambda>c.
     let errors = template_errors c name language body account in
     if errors = [] then ret () else throw (App (InvalidFields errors)))"

subsection \<open>Creation\<close>

definition new_template :: "uuid \<Rightarrow> uuid \<Rightarrow> string \<Rightarrow> string \<Rightarrow> string \<Rightarrow> instant \<Rightarrow> message_template" where
  "new_template i m name language body t = \<lparr>mt_id = i, mt_merchant = m, mt_name = name, mt_language = language, mt_body = body,
     mt_status = TemplatePending, mt_provider_id = None, mt_account = None, mt_created_at = t, mt_updated_at = t\<rparr>"

definition store_template :: "uuid \<Rightarrow> string \<Rightarrow> string \<Rightarrow> string \<Rightarrow> message_template mprog" where
  "store_template m name language body = bindM random_value (\<lambda>i. bindM now (\<lambda>t.
     let x = new_template i m (strip name) language body t in
     bindM (created_or_taken (insert_template x)) (\<lambda>created.
       if \<not> created then throw (App TemplateConflict) else seqM (guarded_on_commit (SubmitTemplate m i)) (ret x))))"

definition create_template :: "string \<Rightarrow> string \<Rightarrow> string \<Rightarrow> uuid option \<Rightarrow> message_template mprog" where
  "create_template name language body account = (
     if account \<noteq> None then throw (field_error ''whatsapp_account_id'' ''not yet available'')
     else seqM (validate_template name language body None) (bindM (asks m_cfg) (\<lambda>c.
       bindM (if shared_pool_token c = [] then ret None else active_shared_account) (\<lambda>a.
       if a = None then throw (App WhatsAppNotConfigured)
       else bindM get_current_merchant_id (\<lambda>m. tenant_atomic False (case m of None \<Rightarrow> throw TenantContextError
         | Some m \<Rightarrow> store_template m name language body))))))"

definition template_status_text :: "template_status \<Rightarrow> string" where
  "template_status_text s = (case s of TemplatePending \<Rightarrow> ''PENDING'' | TemplateApproved \<Rightarrow> ''APPROVED'' | TemplateRejected \<Rightarrow> ''REJECTED'')"

definition template_status_named :: "string option \<Rightarrow> template_status option" where
  "template_status_named s = first (\<lambda>x. Some (template_status_text x) = s) [TemplatePending, TemplateApproved, TemplateRejected]"

definition list_templates :: "string option \<Rightarrow> message_template list mprog" where
  "list_templates status = bindM (tenant_rows mt_merchant templates
       (\<lambda>t. case template_status_named status of None \<Rightarrow> True | Some s \<Rightarrow> mt_status t = s))
     (\<lambda>rows. ret (oldest_first mt_created_at mt_id rows))"

subsection \<open>Submission\<close>

definition unsubmitted :: "uuid \<Rightarrow> message_template option mprog" where
  "unsubmitted i = bindM (tenant_rows mt_merchant templates (\<lambda>t. mt_id t = i \<and> mt_status t = TemplatePending \<and> mt_provider_id t = None))
     (\<lambda>rows. ret (first (\<lambda>_. True) rows))"

definition required_shared_account :: "whatsapp_account mprog" where
  "required_shared_account = bindM active_shared_account (or_raise (App WhatsAppNotConfigured))"

text \<open>What Meta says to a submission: its id, or, after a refusal and a complete scan, that there is none.\<close>

definition submit_to_meta :: "whatsapp_account \<Rightarrow> message_template \<Rightarrow> (string option \<times> template_status) mprog" where
  "submit_to_meta a t = bindM (catchM (bindM (provider_submit a t) (\<lambda>i. ret (Inl i)))
       (\<lambda>e. if e = App ProviderPermanentError then Some (ret (Inr ())) else None))
     (\<lambda>r. case r of Inl i \<Rightarrow> ret (Some i, TemplatePending)
      | Inr _ \<Rightarrow> bindM (find_template_id a t) (\<lambda>found. ret (found, if found = None then TemplateRejected else TemplatePending)))"

definition record_submission :: "uuid \<Rightarrow> string option \<times> template_status \<Rightarrow> unit mprog" where
  "record_submission i r = tenant_atomic False (seqM wait (bindM (unsubmitted i) (\<lambda>locked. case locked of
     None \<Rightarrow> ret ()
   | Some x \<Rightarrow> save_template (mt_id x) (\<lambda>x. x\<lparr>mt_provider_id := fst r, mt_status := snd r\<rparr>))))"

definition submit_template_to_provider :: "uuid \<Rightarrow> unit mprog" where
  "submit_template_to_provider i = bindM (tenant_atomic False (unsubmitted i)) (\<lambda>t. case t of
     None \<Rightarrow> ret ()
   | Some t \<Rightarrow> bindM required_shared_account (\<lambda>a. seqM (get_provider a) (bindM (submit_to_meta a t) (record_submission i))))"

subsection \<open>Synchronisation\<close>

definition submitted :: "(uuid \<times> string) list mprog" where
  "submitted = bindM (tenant_rows mt_merchant templates (\<lambda>t. mt_status t = TemplatePending \<and> mt_provider_id t \<noteq> None))
     (\<lambda>rows. ret (map (\<lambda>t. (mt_id t, the (mt_provider_id t))) rows))"

definition templates_pending_sync :: "bool mprog" where
  "templates_pending_sync = bindM submitted (\<lambda>rows. ret (rows \<noteq> []))"

definition provider_failure :: "merror \<Rightarrow> bool" where
  "provider_failure e \<longleftrightarrow> e = App ProviderTransientError \<or> e = App ProviderPermanentError"

definition apply_status :: "uuid \<Rightarrow> string \<Rightarrow> template_status \<Rightarrow> nat mprog" where
  "apply_status i p s = tenant_atomic False (bindM now (\<lambda>t.
     update_templates (\<lambda>x. mt_id x = i \<and> mt_status x = TemplatePending \<and> mt_provider_id x = Some p)
       (\<lambda>x. x\<lparr>mt_status := s, mt_updated_at := t\<rparr>)))"

text \<open>A failed fetch is skipped, as is a template that is still pending.\<close>

definition sync_one :: "whatsapp_account \<Rightarrow> uuid \<times> string \<Rightarrow> nat mprog" where
  "sync_one a = (\<lambda>(i, p). bindM (catchM (fetch_template_status a p) (\<lambda>e. if provider_failure e then Some (ret TemplatePending) else None))
     (\<lambda>s. if s = TemplatePending then ret 0 else apply_status i p s))"

fun sync_each :: "whatsapp_account \<Rightarrow> (uuid \<times> string) list \<Rightarrow> nat \<Rightarrow> nat mprog" where
  "sync_each a [] changed = ret changed"
| "sync_each a (x # xs) changed = bindM (sync_one a x) (\<lambda>n. sync_each a xs (changed + n))"

definition sync_template_statuses :: "nat mprog" where
  "sync_template_statuses = bindM active_shared_account (\<lambda>r. case r of
     None \<Rightarrow> ret 0
   | Some a \<Rightarrow> seqM (get_provider a) (bindM (tenant_atomic False submitted) (\<lambda>pending. sync_each a pending 0)))"

subsection \<open>Quality of the shared number\<close>

definition check_quality :: "whatsapp_account \<Rightarrow> unit mprog" where
  "check_quality a = bindM (asks m_cfg) (\<lambda>c.
     bindM (catchM (bindM (seqM (get_provider a) (fetch_quality_rating a)) (\<lambda>r. ret (Some r)))
       (\<lambda>e. if provider_failure e \<or> e = App WhatsAppNotConfigured then Some (ret None) else None))
     (\<lambda>rating. case rating of None \<Rightarrow> ret () | Some r \<Rightarrow> whenM (r \<in> set (quality_alert_ratings c)) (raise_alert (QualityLow (wa_id a) r))))"

definition check_shared_pool_quality :: "unit mprog" where
  "check_shared_pool_quality = bindM (shared_pool (\<lambda>a. wa_status a = SenderActive)) (\<lambda>rows. forM rows check_quality)"

subsection \<open>Tasks\<close>

text \<open>The retries of a task that ends in a transient error are Celery's.\<close>

definition submit_template :: "uuid option \<Rightarrow> uuid \<Rightarrow> unit mprog" where
  "submit_template m i = tenant_task (\<lambda>_. submit_template_to_provider i) m"

definition sync_merchant_templates :: "uuid option \<Rightarrow> unit mprog" where
  "sync_merchant_templates m = tenant_task (\<lambda>_. bindM sync_template_statuses (\<lambda>_. ret ())) m"

definition activate_own_number_task :: "uuid option \<Rightarrow> uuid \<Rightarrow> unit mprog" where
  "activate_own_number_task m i = tenant_task (\<lambda>_. activate_own_number i) m"

definition active_merchant_ids :: "uuid list mprog" where
  "active_merchant_ids = seqM autocommit (asks (\<lambda>w. map fst (filter (\<lambda>(i, s). s \<noteq> MDeleted) (m_merchants (db w)))))"

definition poll_merchant :: "uuid \<Rightarrow> unit mprog" where
  "poll_merchant m = catchM (tenant_context (Some m) (tenant_atomic False (bindM templates_pending_sync (\<lambda>pending.
     whenM pending (guarded_on_commit (SyncMerchantTemplates m)))))) (\<lambda>_. Some (ret ()))"

definition poll_template_statuses :: "unit mprog" where
  "poll_template_statuses = bindM active_merchant_ids (\<lambda>ms. forM ms poll_merchant)"

end
