(* ===== verification/OptOut.thy ===== *)
theory OptOut
  imports Templates
begin

text \<open>
  Inbound opt-outs: the webhook of \<open>whatsapp/receivers.py\<close>, the merchants a STOP applies to, and the task that
  opts the phone out merchant by merchant and retries the ones that failed.
\<close>

subsection \<open>The delivery\<close>

text \<open>\<open>str.casefold\<close> on code points below 256.\<close>

definition casefold :: "string \<Rightarrow> string" where
  "casefold s = concat (map (\<lambda>c. if code_point c = 223 then ''ss'' else py_lower [c]) s)"

definition is_keyword :: "messaging_settings \<Rightarrow> string option \<Rightarrow> bool" where
  "is_keyword c text = (case text of None \<Rightarrow> False | Some t \<Rightarrow> casefold (strip t) \<in> set (map casefold (opt_out_keywords c)))"

definition opt_out_pair :: "messaging_settings \<Rightarrow> inbound_message \<Rightarrow> (string \<times> string) option" where
  "opt_out_pair c msg = (if \<not> is_keyword c (im_text msg) then None
     else let phone = CHR 0x2B # lstrip_plus (im_from msg) in
       (case validate_e164 phone of Inl _ \<Rightarrow> None | Inr _ \<Rightarrow> Some (im_phone_number_id msg, phone)))"

definition parse_inbound_opt_outs :: "pylib \<Rightarrow> messaging_settings \<Rightarrow> string \<Rightarrow> string option \<Rightarrow> merror + (string \<times> string) list" where
  "parse_inbound_opt_outs lib c raw_body signature = (
     if \<not> verify_meta_signature c raw_body signature then Inl (App MetaSignatureInvalid)
     else (case loads lib raw_body of None \<Rightarrow> Inr []
       | Some payload \<Rightarrow> if \<not> is_dict payload then Inr []
           else Inr (fromkeys (List.map_filter (opt_out_pair c) (parse_inbound_webhook payload)))))"

definition publish_opt_out_fan_out :: "string \<times> string \<Rightarrow> unit mprog" where
  "publish_opt_out_fan_out = (\<lambda>(phone_number_id, phone). publish (FanOutOptOut phone_number_id phone None 0))"

definition publish_or_503 :: "string \<times> string \<Rightarrow> unit mprog" where
  "publish_or_503 p = catchM (publish_opt_out_fan_out p) (\<lambda>_. Some (throw (App WebhookEnqueueFailed)))"

definition receive_meta_webhook :: "string \<Rightarrow> string option \<Rightarrow> unit mprog" where
  "receive_meta_webhook raw_body signature = bindM (asks (\<lambda>w. parse_inbound_opt_outs (m_lib w) (m_cfg w) raw_body signature)) (\<lambda>r.
     bindM (liftE r) (\<lambda>pairs. forM pairs publish_or_503))"

definition verify_subscription :: "messaging_settings \<Rightarrow> string option \<Rightarrow> string option \<Rightarrow> string option \<Rightarrow> merror + string" where
  "verify_subscription c mode verify_token challenge = (
     if meta_verify_token c = [] \<or> mode \<noteq> Some ''subscribe'' \<or> \<not> truthy_text verify_token \<or> challenge = None \<or>
        utf8 (the verify_token) \<noteq> utf8 (meta_verify_token c)
     then Inl (App WebhookVerificationFailed) else Inr (the challenge))"

subsection \<open>Whom it concerns\<close>

definition is_shared_pool_number :: "string \<Rightarrow> bool mprog" where
  "is_shared_pool_number p = bindM (shared_pool (\<lambda>a. wa_provider a = META_CLOUD \<and> wa_phone a = p)) (\<lambda>rows. ret (rows \<noteq> []))"

definition resolve_inbound_opt_out_targets :: "string \<Rightarrow> (bool \<times> uuid list) mprog" where
  "resolve_inbound_opt_out_targets p = seqM reach_database (bindM (is_shared_pool_number p) (\<lambda>shared.
     if shared then bindM active_merchant_ids (\<lambda>ms. ret (True, ms))
     else bindM (own_number_merchant_id p) (\<lambda>m. ret (False, case m of None \<Rightarrow> [] | Some m \<Rightarrow> [m]))))"

text \<open>A customer with the phone, and a location mapped to the shared account.\<close>

definition shared_opt_out_applies :: "string \<Rightarrow> bool mprog" where
  "shared_opt_out_applies phone = bindM get_current_merchant_id (\<lambda>m. if m = None then throw TenantContextError
     else bindM (tenant_rows cu_merchant m_customers (\<lambda>c. cu_phone c = phone)) (\<lambda>cs.
       bindM (in_tenant (\<lambda>m d. list_ex (\<lambda>s. sm_merchant s = m \<and>
           (case find_sender d (sm_account s) of None \<Rightarrow> False | Some a \<Rightarrow> wa_type a = SharedPool)) (sender_maps d))) (\<lambda>mapped.
       ret (cs \<noteq> [] \<and> mapped))))"

subsection \<open>Opting out\<close>

definition customer_opted_out :: "instant \<Rightarrow> customer \<Rightarrow> customer" where
  "customer_opted_out t c = c\<lparr>cu_opted_out := True, cu_opted_out_at := Some t, cu_updated_at := t\<rparr>"

text \<open>\<open>opt_out_customer(phone=...)\<close> of \<open>customers/services.py\<close>.\<close>

definition opt_out_phone :: "string \<Rightarrow> unit mprog" where
  "opt_out_phone phone = tenant_atomic False (bindM now (\<lambda>t.
     update_phone (\<lambda>c. cu_phone c = phone \<and> \<not> cu_opted_out c) (customer_opted_out t)))"

definition opt_out_inbound_for_merchant :: "uuid \<Rightarrow> string \<Rightarrow> bool \<Rightarrow> unit mprog" where
  "opt_out_inbound_for_merchant m phone shared = seqM reach_database (tenant_context (Some m) (tenant_atomic False
     (bindM (if shared then shared_opt_out_applies phone else ret True) (\<lambda>applies. whenM applies (opt_out_phone phone)))))"

subsection \<open>The fan-out\<close>

definition OPT_OUT_MAX_RETRIES :: nat where "OPT_OUT_MAX_RETRIES = 5"
definition OPT_OUT_LOGGED_MERCHANT_IDS_CAP :: nat where "OPT_OUT_LOGGED_MERCHANT_IDS_CAP = 20"

text \<open>\<open>_retry_opt_out_fan_out\<close> never returns. The countdown of the retry is Celery's.\<close>

definition retry_opt_out_fan_out :: "string \<Rightarrow> string \<Rightarrow> uuid list option \<Rightarrow> nat \<Rightarrow> merror \<Rightarrow> unit mprog" where
  "retry_opt_out_fan_out p phone failed_ids retries e = (
     if OPT_OUT_MAX_RETRIES \<le> retries
     then seqM (raise_alert (FanOutExhausted (map_option (take OPT_OUT_LOGGED_MERCHANT_IDS_CAP) failed_ids))) (throw e)
     else seqM (catchM (publish (FanOutOptOut p phone failed_ids (Suc retries))) (\<lambda>_. Some (throw (App RetryRejected))))
       (throw (App RetryRequested)))"

text \<open>Every merchant is attempted; the ones that failed are collected.\<close>

fun opt_out_each :: "bool \<Rightarrow> string \<Rightarrow> uuid list \<Rightarrow> uuid list mprog" where
  "opt_out_each shared phone [] = ret []"
| "opt_out_each shared phone (m # ms) =
     bindM (catchM (seqM (opt_out_inbound_for_merchant m phone shared) (ret [])) (\<lambda>_. Some (ret [m]))) (\<lambda>failed.
     bindM (opt_out_each shared phone ms) (\<lambda>rest. ret (failed @ rest)))"

definition fan_out_to :: "string \<Rightarrow> string \<Rightarrow> uuid list option \<Rightarrow> nat \<Rightarrow> bool \<times> uuid list \<Rightarrow> unit mprog" where
  "fan_out_to p phone merchant_ids retries = (\<lambda>(shared, universe).
     let targets = (case merchant_ids of None \<Rightarrow> universe | Some wanted \<Rightarrow> filter (\<lambda>m. m \<in> set wanted) universe) in
     bindM (opt_out_each shared phone targets) (\<lambda>failed. if failed = [] then ret ()
       else retry_opt_out_fan_out p phone (Some failed) retries (App (OptOutFanOutIncomplete (length failed)))))"

definition fan_out_inbound_opt_out :: "string \<Rightarrow> string \<Rightarrow> uuid list option \<Rightarrow> nat \<Rightarrow> unit mprog" where
  "fan_out_inbound_opt_out p phone merchant_ids retries =
     bindM (catchM (bindM (resolve_inbound_opt_out_targets p) (\<lambda>r. ret (Some r))) (\<lambda>_. Some (ret None))) (\<lambda>r. case r of
       None \<Rightarrow> retry_opt_out_fan_out p phone None retries (App OptOutTargetLookupFailed)
     | Some targets \<Rightarrow> fan_out_to p phone merchant_ids retries targets)"

text \<open>The task kept for a manual re-drive.\<close>

definition process_inbound_opt_out :: "uuid option \<Rightarrow> string \<Rightarrow> unit mprog" where
  "process_inbound_opt_out m phone = tenant_task (\<lambda>_. opt_out_phone phone) m"

subsection \<open>The worker\<close>

definition run_task :: "mtask \<Rightarrow> unit mprog" where
  "run_task t = (case t of
     SubmitTemplate m i \<Rightarrow> submit_template (Some m) i
   | SyncMerchantTemplates m \<Rightarrow> sync_merchant_templates (Some m)
   | FanOutOptOut p phone ids retries \<Rightarrow> fan_out_inbound_opt_out p phone ids retries)"

end
