(* ===== verification/MessagingApi.thy ===== *)
theory MessagingApi
  imports OptOut
begin

text \<open>
  The views of \<open>whatsapp/views.py\<close> and \<open>whatsapp/receivers.py\<close> behind the tenant middleware: who may call them, the
  service they call and the answer to every error. The membership the permission class found is an argument;
  throttling, pagination and field checks of serializers are not modelled.
\<close>

subsection \<open>Answers\<close>

datatype 'a sender_answer = SenderAnswer nat 'a | SenderFailure nat string | SenderCrash

fun messaging_http :: "messaging_error \<Rightarrow> (nat \<times> string) option" where
  "messaging_http WhatsAppNotConfigured = Some (503, ''whatsapp_not_configured'')"
| "messaging_http SenderNotFound = Some (404, ''not_found'')"
| "messaging_http TemplateConflict = Some (409, ''template_conflict'')"
| "messaging_http MetaSignatureInvalid = Some (401, ''invalid_signature'')"
| "messaging_http WebhookVerificationFailed = Some (403, ''forbidden'')"
| "messaging_http SenderInUse = Some (409, ''sender_in_use'')"
| "messaging_http WebhookEnqueueFailed = Some (503, ''service_unavailable'')"
| "messaging_http (InvalidFields _) = Some (422, ''validation_error'')"
| "messaging_http NoSuchLocation = Some (404, ''not_found'')"
| "messaging_http _ = None"

fun messaging_failure :: "merror \<Rightarrow> 'a sender_answer" where
  "messaging_failure (App e) = (case messaging_http e of None \<Rightarrow> SenderCrash | Some (status, code) \<Rightarrow> SenderFailure status code)"
| "messaging_failure ActorNotMember = SenderFailure 403 ''actor_not_member''"
| "messaging_failure _ = SenderCrash"

definition messaging_respond :: "(nat \<times> 'a) mprog \<Rightarrow> 'a sender_answer mprog" where
  "messaging_respond m = catchM (bindM m (\<lambda>(status, body). ret (SenderAnswer status body))) (\<lambda>e. Some (ret (messaging_failure e)))"

definition messaging_view :: "role list \<Rightarrow> team_member option \<Rightarrow> (team_member \<Rightarrow> (nat \<times> 'a) mprog) \<Rightarrow> 'a sender_answer mprog" where
  "messaging_view roles member handler = (case member of
     None \<Rightarrow> ret (SenderFailure 403 ''permission_denied'')
   | Some tm \<Rightarrow> if has_role roles member then messaging_respond (handler tm) else ret (SenderFailure 403 ''permission_denied''))"

abbreviation every_role :: "role list" where "every_role \<equiv> [OWNER, ADMIN, MANAGER, VIEWER]"

subsection \<open>What is shown\<close>

text \<open>\<open>SenderSerializer\<close> and \<open>TemplateSerializer\<close>: no provider id, number or token.\<close>

definition sender_data :: "whatsapp_account \<Rightarrow> uuid \<times> string \<times> string" where
  "sender_data a = (wa_id a, sender_type_text (wa_type a), sender_status_text (wa_status a))"

record template_data =
  td_id :: uuid
  td_name :: string
  td_language :: string
  td_body :: string
  td_status :: string
  td_created_at :: instant
  td_updated_at :: instant

definition template_data_of :: "message_template \<Rightarrow> template_data" where
  "template_data_of t = \<lparr>td_id = mt_id t, td_name = mt_name t, td_language = mt_language t, td_body = mt_body t,
     td_status = template_status_text (mt_status t), td_created_at = mt_created_at t, td_updated_at = mt_updated_at t\<rparr>"

subsection \<open>Views\<close>

text \<open>\<open>get_accessible_location\<close> of \<open>locations/services.py\<close> on these tables.\<close>

definition location_for :: "team_member \<Rightarrow> uuid \<Rightarrow> location mprog" where
  "location_for actor i = bindM (in_tenant (\<lambda>m d. first (\<lambda>l. lo_merchant l = m \<and> lo_id l = i \<and>
     (tm_role actor = MANAGER \<longrightarrow> (tm_id actor, lo_id l) \<in> set (m_assignments d))) (m_locations d))) (or_raise (App NoSuchLocation))"

definition signup_start_post :: "team_member option \<Rightarrow> (string \<times> string \<times> string) sender_answer mprog" where
  "signup_start_post member = messaging_view [OWNER, ADMIN] member (\<lambda>tm. bindM (begin_embedded_signup (tm_user tm)) (\<lambda>r. ret (200, r)))"

definition senders_get :: "team_member option \<Rightarrow> (uuid \<times> string \<times> string) list sender_answer mprog" where
  "senders_get member = messaging_view every_role member (\<lambda>_. bindM list_senders (\<lambda>rows. ret (200, map sender_data rows)))"

definition sender_delete :: "team_member option \<Rightarrow> uuid \<Rightarrow> unit sender_answer mprog" where
  "sender_delete member pk = messaging_view [OWNER, ADMIN] member (\<lambda>tm.
     bindM (get_sender pk) (\<lambda>a. bindM (disconnect_own_number a (tm_user tm)) (\<lambda>_. ret (204, ()))))"

definition sender_body :: "location \<Rightarrow> (nat \<times> (uuid \<times> string \<times> string) option) mprog" where
  "sender_body l = bindM (get_location_sender (lo_id l)) (\<lambda>a. ret (200, map_option sender_data a))"

definition location_sender_get :: "team_member option \<Rightarrow> uuid \<Rightarrow> (uuid \<times> string \<times> string) option sender_answer mprog" where
  "location_sender_get member pk = messaging_view every_role member (\<lambda>tm. bindM (location_for tm pk) sender_body)"

definition location_sender_put :: "team_member option \<Rightarrow> uuid \<Rightarrow> uuid \<Rightarrow> (uuid \<times> string \<times> string) option sender_answer mprog" where
  "location_sender_put member pk account_id = messaging_view [OWNER, ADMIN, MANAGER] member (\<lambda>tm.
     bindM (location_for tm pk) (\<lambda>l. bindM (get_sender account_id) (\<lambda>a.
       seqM (set_location_sender l a (tm_user tm)) (sender_body l))))"

definition location_sender_delete :: "team_member option \<Rightarrow> uuid \<Rightarrow> unit sender_answer mprog" where
  "location_sender_delete member pk = messaging_view [OWNER, ADMIN, MANAGER] member (\<lambda>tm.
     bindM (location_for tm pk) (\<lambda>l. bindM (clear_location_sender l (tm_user tm)) (\<lambda>_. ret (204, ()))))"

definition templates_get :: "team_member option \<Rightarrow> string option \<Rightarrow> template_data list sender_answer mprog" where
  "templates_get member status = messaging_view every_role member (\<lambda>_.
     bindM (list_templates status) (\<lambda>rows. ret (200, map template_data_of rows)))"

definition templates_post :: "team_member option \<Rightarrow> string \<Rightarrow> string \<Rightarrow> string \<Rightarrow> uuid option \<Rightarrow> template_data sender_answer mprog" where
  "templates_post member name language body account_id = messaging_view [OWNER, ADMIN] member (\<lambda>_.
     bindM (create_template name language body account_id) (\<lambda>t. ret (201, template_data_of t)))"

text \<open>The webhook view has no authentication: the token of the handshake and the signature of a delivery are all there is.\<close>

definition meta_webhook_get :: "string option \<Rightarrow> string option \<Rightarrow> string option \<Rightarrow> string sender_answer mprog" where
  "meta_webhook_get mode token challenge = messaging_respond (bindM (asks (\<lambda>w. verify_subscription (m_cfg w) mode token challenge)) (\<lambda>r.
     bindM (liftE r) (\<lambda>c. ret (200, c))))"

definition meta_webhook_post :: "string \<Rightarrow> string option \<Rightarrow> unit sender_answer mprog" where
  "meta_webhook_post raw_body signature = messaging_respond (bindM (receive_meta_webhook raw_body signature) (\<lambda>_. ret (200, ())))"

end
