(* ===== verification/MessagingFrames.thy ===== *)
theory MessagingFrames
  imports MessagingApi
begin

text \<open>
  What the WhatsApp statements may do to a row, the contract of a frame relation on them (the locale
  \<open>messaging_frame\<close>), and the frames and critical sections of every operation.
\<close>

subsection \<open>What a write may do to a row\<close>

definition sender_kept :: "whatsapp_account \<Rightarrow> whatsapp_account \<Rightarrow> bool" where
  "sender_kept a a' \<longleftrightarrow> wa_id a' = wa_id a \<and> wa_type a' = wa_type a \<and> wa_merchant a' = wa_merchant a \<and> wa_provider a' = wa_provider a"

definition senders_later :: "mdb \<Rightarrow> mdb \<Rightarrow> bool" where
  "senders_later d d' \<longleftrightarrow> grown sender_kept (senders d) (senders d')"

definition sender_keys :: "mdb \<Rightarrow> bool" where
  "sender_keys d \<longleftrightarrow> distinct (map wa_id (senders d)) \<and> list_all (\<lambda>a. wa_type a = SharedPool \<longleftrightarrow> wa_merchant a = None) (senders d)"

definition template_keys :: "mdb \<Rightarrow> bool" where
  "template_keys d \<longleftrightarrow> distinct (map mt_id (templates d))"

text \<open>An account a location of merchant \<open>m\<close> may send from.\<close>

definition usable_by :: "uuid \<Rightarrow> whatsapp_account \<Rightarrow> bool" where
  "usable_by m a \<longleftrightarrow> wa_type a = SharedPool \<or> wa_status a = SenderActive \<and> wa_merchant a = Some m"

definition usable_sender :: "mdb \<Rightarrow> uuid \<Rightarrow> uuid \<Rightarrow> bool" where
  "usable_sender d i m \<longleftrightarrow> (case find_sender d i of None \<Rightarrow> False | Some a \<Rightarrow> usable_by m a)"

text \<open>What validation leaves of a template, whatever the settings are.\<close>

definition template_ok :: "message_template \<Rightarrow> bool" where
  "template_ok t \<longleftrightarrow> mt_name t \<noteq> [] \<and> strip (mt_name t) = mt_name t \<and> length (mt_name t) \<le> 255 \<and> strip (mt_body t) \<noteq> [] \<and>
     placeholder_errors (mt_body t) (mt_account t) = []"

definition same_content :: "message_template \<Rightarrow> message_template \<Rightarrow> bool" where
  "same_content t t' \<longleftrightarrow> mt_id t' = mt_id t \<and> mt_merchant t' = mt_merchant t \<and> mt_name t' = mt_name t \<and>
     mt_language t' = mt_language t \<and> mt_body t' = mt_body t \<and> mt_account t' = mt_account t"

text \<open>The outcome of a submission: an id, or a refusal.\<close>

definition submission_outcome :: "message_template \<Rightarrow> bool" where
  "submission_outcome t \<longleftrightarrow> mt_provider_id t \<noteq> None \<and> mt_status t = TemplatePending \<or> mt_provider_id t = None \<and> mt_status t = TemplateRejected"

lemma sender_kept_refl [simp]: "sender_kept a a"
  by (simp add: sender_kept_def)

lemma sender_kept_trans: "sender_kept a b \<Longrightarrow> sender_kept b c \<Longrightarrow> sender_kept a c"
  by (simp add: sender_kept_def)

lemma senders_later_refl [simp]: "senders_later d d"
  by (simp add: senders_later_def grown_refl)

lemma senders_later_trans: "senders_later a b \<Longrightarrow> senders_later b c \<Longrightarrow> senders_later a c"
  unfolding senders_later_def by (erule grown_trans, assumption, rule sender_kept_trans)

lemma senders_later_same: "senders d' = senders d \<Longrightarrow> senders_later d d'"
  by (simp add: senders_later_def grown_refl)

lemma senders_later_update:
  "find_sender d i = Some a \<Longrightarrow> sender_kept a (f a) \<Longrightarrow> senders_later d (d\<lparr>senders := update_first (\<lambda>a. wa_id a = i) f (senders d)\<rparr>)"
  by (simp add: senders_later_def grown_update_first)

lemma senders_later_map: "(\<And>a. sender_kept a (f a)) \<Longrightarrow> senders_later d (d\<lparr>senders := map_if P f (senders d)\<rparr>)"
  by (simp add: senders_later_def grown_map_if)

lemma senders_later_add: "senders_later d (d\<lparr>senders := senders d @ xs\<rparr>)"
  by (simp add: senders_later_def grown_add)

lemma first_grown:
  assumes "list_all2 K xs us" "\<And>x y. K x y \<Longrightarrow> P y = P x" "first P xs = Some a"
  shows "\<exists>b. first P us = Some b \<and> K a b"
  using assms by (induction rule: list_all2_induct) (auto split: if_splits)

text \<open>An account, once found, stays the account found under its id.\<close>

lemma find_sender_later:
  assumes "senders_later d d'" "find_sender d i = Some a"
  shows "\<exists>b. find_sender d' i = Some b \<and> sender_kept a b"
proof -
  from assms(1) obtain us vs where s: "senders d' = us @ vs" "list_all2 sender_kept (senders d) us"
    by (auto simp: senders_later_def grown_def)
  have "\<exists>b. first (\<lambda>a. wa_id a = i) us = Some b \<and> sender_kept a b"
    by (rule first_grown [OF s(2) _ assms(2)]) (simp add: sender_kept_def)
  then show ?thesis by (auto simp: s(1) first_append)
qed

lemma sender_keys_before:
  assumes "senders_later d d'" "sender_keys d'"
  shows "sender_keys d"
proof -
  from assms(1) obtain us vs where s: "senders d' = us @ vs" "list_all2 sender_kept (senders d) us"
    by (auto simp: senders_later_def grown_def)
  have "map wa_id us = map wa_id (senders d)"
    using s(2) by (induction rule: list_all2_induct) (simp_all add: sender_kept_def)
  moreover have "list_all (\<lambda>a. wa_type a = SharedPool \<longleftrightarrow> wa_merchant a = None) us \<Longrightarrow>
      list_all (\<lambda>a. wa_type a = SharedPool \<longleftrightarrow> wa_merchant a = None) (senders d)"
    using s(2) by (induction rule: list_all2_induct) (simp_all add: sender_kept_def)
  ultimately show ?thesis using assms(2) by (simp add: sender_keys_def s(1))
qed

lemma distinct_first:
  assumes "distinct (map key rows)" "r \<in> set rows"
  shows "first (\<lambda>x. key x = key r) rows = Some r"
  using assms by (induction rows) auto

lemma find_sender_of: "sender_keys d \<Longrightarrow> a \<in> set (senders d) \<Longrightarrow> find_sender d (wa_id a) = Some a"
  unfolding sender_keys_def using distinct_first [of wa_id "senders d" a] by blast

lemma find_senderD: "find_sender d i = Some a \<Longrightarrow> a \<in> set (senders d) \<and> wa_id a = i"
  using first_SomeD by fastforce

lemma length_strip: "length (strip s) \<le> length s"
  unfolding strip_def by (metis length_dropWhile_le length_rev order_trans)

subsection \<open>The contract\<close>

locale messaging_frame = db_frame R for R :: "mdb \<Rightarrow> mdb \<Rightarrow> bool" +
  fixes G :: "ctxvars \<Rightarrow> bool"
  assumes R_kept: "R d d' \<Longrightarrow> senders_later d d'"
    and R_new_shared: "G c \<Longrightarrow> platform_write_var c = Some SHARED_POOL_SCOPE \<Longrightarrow> wa_type a = SharedPool \<Longrightarrow> wa_merchant a = None \<Longrightarrow>
      find_sender d (wa_id a) = None \<Longrightarrow> R d (d\<lparr>senders := senders d @ [a]\<rparr>)"
    and R_shared: "G c \<Longrightarrow> platform_write_var c = Some SHARED_POOL_SCOPE \<Longrightarrow> find_sender d i = Some a \<Longrightarrow>
      (sender_keys d \<Longrightarrow> wa_type a = SharedPool) \<Longrightarrow> sender_kept a (f1 a) \<Longrightarrow>
      R d (d\<lparr>senders := update_first (\<lambda>a. wa_id a = i) f1 (senders d)\<rparr>)"
    and R_activate: "G c \<Longrightarrow> merchant_var c = Some m \<Longrightarrow> (\<And>a. P2 a \<Longrightarrow> sender_visible m a \<and> wa_status a = SenderPending) \<Longrightarrow>
      (\<And>a. sender_kept a (f2 a)) \<Longrightarrow> R d (d\<lparr>senders := map_if P2 f2 (senders d)\<rparr>)"
    and R_disconnect: "G c \<Longrightarrow> merchant_var c = Some m \<Longrightarrow> find_sender d i = Some a \<Longrightarrow>
      (sender_keys d \<Longrightarrow> wa_type a = OwnNumber \<and> wa_merchant a = Some m \<and> \<not> list_ex (\<lambda>s. sm_merchant s = m \<and> sm_account s = i) (sender_maps d)) \<Longrightarrow>
      sender_kept a (f3 a) \<Longrightarrow> R d (d\<lparr>senders := update_first (\<lambda>a. wa_id a = i) f3 (senders d)\<rparr>)"
    and R_new_map: "G c \<Longrightarrow> merchant_var c = Some (sm_merchant s) \<Longrightarrow> (sender_keys d \<Longrightarrow> usable_sender d (sm_account s) (sm_merchant s)) \<Longrightarrow>
      \<not> list_ex (\<lambda>q. sm_location q = sm_location s) (sender_maps d) \<Longrightarrow> R d (d\<lparr>sender_maps := sender_maps d @ [s]\<rparr>)"
    and R_repoint: "G c \<Longrightarrow> merchant_var c = Some m \<Longrightarrow> (sender_keys d \<Longrightarrow> usable_sender d i m) \<Longrightarrow>
      (\<And>s. sm_account (f4 s) = i \<and> sm_location (f4 s) = sm_location s \<and> sm_merchant (f4 s) = sm_merchant s) \<Longrightarrow>
      first (\<lambda>s. sm_merchant s = m \<and> sm_location s = l) (sender_maps d) = Some s \<Longrightarrow>
      R d (d\<lparr>sender_maps := update_first (\<lambda>s. sm_merchant s = m \<and> sm_location s = l) f4 (sender_maps d)\<rparr>)"
    and R_delete_map: "G c \<Longrightarrow> merchant_var c = Some m \<Longrightarrow> R d (d\<lparr>sender_maps := filter (\<lambda>s. \<not> (sm_merchant s = m \<and> P5 s)) (sender_maps d)\<rparr>)"
    and R_new_template: "G c \<Longrightarrow> merchant_var c = Some (mt_merchant t) \<Longrightarrow> template_ok t \<Longrightarrow> mt_status t = TemplatePending \<Longrightarrow> mt_provider_id t = None \<Longrightarrow>
      \<not> list_ex (\<lambda>q. mt_id q = mt_id t \<or> same_template_key t q) (templates d) \<Longrightarrow> R d (d\<lparr>templates := templates d @ [t]\<rparr>)"
    and R_template: "G c \<Longrightarrow> merchant_var c = Some m \<Longrightarrow> first (\<lambda>y. mt_merchant y = m \<and> mt_id y = i) (templates d) = Some x \<Longrightarrow>
      (template_keys d \<Longrightarrow> mt_status x = TemplatePending \<and> mt_provider_id x = None) \<Longrightarrow> same_content x y \<Longrightarrow> submission_outcome y \<Longrightarrow>
      \<not> provider_id_taken d i (mt_provider_id y) \<Longrightarrow>
      R d (d\<lparr>templates := update_first (\<lambda>y. mt_merchant y = m \<and> mt_id y = i) (\<lambda>_. y) (templates d)\<rparr>)"
    and R_status: "G c \<Longrightarrow> merchant_var c = Some m \<Longrightarrow> st \<noteq> TemplatePending \<Longrightarrow>
      (\<And>x. P6 x \<Longrightarrow> mt_status x = TemplatePending \<and> mt_provider_id x \<noteq> None) \<Longrightarrow>
      R d (d\<lparr>templates := map_if (\<lambda>x. mt_merchant x = m \<and> P6 x) (\<lambda>x. x\<lparr>mt_status := st, mt_updated_at := tm\<rparr>) (templates d)\<rparr>)"
    and R_opt_out: "G c \<Longrightarrow> merchant_var c = Some m \<Longrightarrow> (\<And>x. P7 x \<Longrightarrow> \<not> cu_opted_out x) \<Longrightarrow>
      R d (d\<lparr>m_customers := map_if (\<lambda>x. cu_merchant x = m \<and> P7 x) (customer_opted_out tm) (m_customers d)\<rparr>)"
    and R_new_signup: "G c \<Longrightarrow> merchant_var c = Some (es_merchant e) \<Longrightarrow> \<not> list_ex (\<lambda>q. es_id q = es_id e \<or> es_hash q = es_hash e) (signups d) \<Longrightarrow>
      R d (d\<lparr>signups := signups d @ [e]\<rparr>)"
    and R_delete_signups: "G c \<Longrightarrow> merchant_var c = Some m \<Longrightarrow> R d (d\<lparr>signups := filter (\<lambda>e. \<not> (es_merchant e = m \<and> P8 e)) (signups d)\<rparr>)"
    and R_new_audit: "G c \<Longrightarrow> al_merchant lg = None \<or> al_merchant lg = merchant_var c \<Longrightarrow> R d (d\<lparr>m_audit := m_audit d @ [lg]\<rparr>)"
begin

subsection \<open>Statements\<close>

lemma frames_random_value [frame_intros]: "frames R H random_value"
  by (rule frames_pure) (simp add: random_value_def Let_def)

lemma frames_reach_database [frame_intros]: "frames R H reach_database"
  by (rule frames_pure) (simp add: reach_database_def Let_def)

lemma frames_publish [frame_intros]: "frames R H (publish t)" "frames R H (guarded_on_commit t)" "frames R H (raise_alert a)"
  by (rule frames_pure, simp add: publish_def guarded_on_commit_def on_commit_def raise_alert_def Let_def)+

lemma frames_meta_urlopen [frame_intros]: "frames R H (meta_urlopen rq)"
  by (rule framesI) (auto simp: meta_urlopen_def Let_def interfere_frame interfere_saves R_refl saves_refl split: if_splits)

lemma frames_visible_senders [frame_intros]: "frames R H (visible_senders P)" "frames R H (shared_pool P)" "frames R H (tenant_rows owner rows Q)"
  unfolding visible_senders_def shared_pool_def tenant_rows_def by (intro frame_intros)+

lemma frames_for_phone [frame_intros]: "frames R H (for_lookup_phone_number_id p)"
  by (rule frames_pure) (simp add: for_lookup_phone_number_id_def Let_def)

lemma frames_lock_senders [frame_intros]: "frames R H (lock_senders P)" "frames R H lock_shared_pool"
proof -
  have p: "frames R H (\<lambda>w. (Inr (first (sender_updatable (guc w)) rows), w))" for rows
    by (rule frames_pure) (simp add: Let_def)
  show "frames R H (lock_senders P)" "frames R H lock_shared_pool"
    unfolding lock_senders_def lock_shared_pool_def by (intro frame_intros p)+
qed

lemma frames_update_sender:
  assumes "\<And>a. sender_kept a (f a)"
  shows "frames R G (update_sender i SenderPending f)"
proof -
  have "frames R G (bindM (in_tenant (\<lambda>m d. m)) (\<lambda>m (w :: messaging_world).
     let P = (\<lambda>a. sender_visible m a \<and> wa_id a = i \<and> wa_status a = SenderPending \<and> sender_updatable (guc w) a) in
     if list_ex (\<lambda>a. P a \<and> \<not> sender_check (guc w) (f a)) (senders (db w)) then (Inl DatabaseErr, w)
     else (Inr (list_ex P (senders (db w))), w\<lparr>db := (db w)\<lparr>senders := map_if P f (senders (db w))\<rparr>\<rparr>)))"
    by (rule framesI) (auto simp: run_bind in_tenant_def Let_def saves_refl R_refl intro!: R_activate assms split: option.splits if_splits)
  then show ?thesis unfolding update_sender_def by (intro frames_seq frames_wait)
qed

lemma frames_tenant_update:
  assumes "\<And>c m d. G c \<Longrightarrow> merchant_var c = Some m \<Longrightarrow> R d (g m d)"
  shows "frames R G (bindM (in_tenant (\<lambda>m d. (m, n m d))) (\<lambda>(m, k). seqM (modifyM (\<lambda>w :: messaging_world. w\<lparr>db := g m (db w)\<rparr>)) (ret k)))"
    "frames R G (bindM (in_tenant (\<lambda>m d. m)) (\<lambda>m. modifyM (\<lambda>w :: messaging_world. w\<lparr>db := g m (db w)\<rparr>)))"
  by (rule framesI, use assms in \<open>auto simp: run_bind run_seq in_tenant_def saves_refl R_refl split: option.splits\<close>)+

lemma frames_apply_status [frame_intros]: "s \<noteq> TemplatePending \<Longrightarrow> frames R G (apply_status i p s)"
  unfolding apply_status_def update_templates_def
  by (intro frame_intros frames_tenant_update) (rule R_status, auto)

lemma frames_delete_signups [frame_intros]: "frames R G (delete_signups P)"
  unfolding delete_signups_def by (intro frame_intros frames_tenant_update) (rule R_delete_signups)

lemma frames_opt_out_phone [frame_intros]: "frames R G (opt_out_phone phone)"
  unfolding opt_out_phone_def update_phone_def
  by (intro frame_intros frames_tenant_update) (rule R_opt_out, auto)

lemma frames_insert_template: "template_ok t \<Longrightarrow> mt_status t = TemplatePending \<Longrightarrow> mt_provider_id t = None \<Longrightarrow> frames R G (insert_template t)"
  unfolding insert_template_def by (rule frames_tenant_insert) (auto simp: R_refl intro!: R_new_template split: if_splits)

lemma frames_insert_signup [frame_intros]: "frames R G (insert_signup e)"
  unfolding insert_signup_def by (rule frames_tenant_insert) (auto simp: R_refl intro!: R_new_signup split: if_splits)

lemma frames_delete_sender_map [frame_intros]: "frames R G (delete_sender_map l)"
  unfolding delete_sender_map_def by (rule frames_tenant_update) (rule R_delete_map)

lemma frames_mapping_of [frame_intros]: "frames R H (mapping_of l)" "frames R H (locked_mapping keep l)"
  unfolding locked_mapping_def mapping_of_def by (intro frame_intros)+

lemma frames_record_event_log [frame_intros]: "frames R G (record_event_log a u k i md)"
proof -
  have "frames R G (bindM (in_tenant (\<lambda>m d. (m, m_members d))) (\<lambda>(m, ms).
     if (case u of None \<Rightarrow> False | Some u \<Rightarrow> (m, u) \<notin> set ms) then throw ActorNotMember
     else add_audit (log_row (Some m) a u k i md)))"
    by (rule framesI)
      (auto simp: run_bind in_tenant_def add_audit_def saves_refl R_refl log_row_def intro!: R_new_audit split: option.splits if_splits)
  then show ?thesis unfolding record_event_log_def by (rule frames_tenant_atomic)
qed

lemma frames_record_platform_log [frame_intros]: "frames R (\<lambda>c. G c \<and> K c) (record_platform_log a u i md)"
  by (rule framesI) (auto simp: record_platform_log_def add_audit_def log_row_def saves_refl R_refl intro!: R_new_audit split: if_splits)

subsection \<open>Calls of Meta\<close>

lemma frames_account_call [frame_intros]: "frames R H (account_call a method path body)" "frames R H (meta_call method path body token)"
  unfolding account_call_def meta_call_def by (intro frame_intros)+

lemma frames_expect_success [frame_intros]: "frames R H (expect_success r)"
  unfolding expect_success_def by (intro frame_intros)

lemma frames_find_from [frame_intros]: "frames R H (find_from n a t after)"
proof (induction n arbitrary: after)
  case 0
  show ?case unfolding find_from.simps by (rule frames_throw)
next
  case (Suc n)
  have "frames R H (case s of Found i \<Rightarrow> ret (Some i) | Absent \<Rightarrow> ret None | More next \<Rightarrow> find_from n a t next)" for s
    by (cases s) (simp_all add: frames_ret Suc)
  then show ?case unfolding find_from.simps by (intro frame_intros)
qed

lemma frames_provider [frame_intros]:
  "frames R H (provider_submit a t)" "frames R H (find_template_id a t)" "frames R H (fetch_template_status a i)"
  "frames R H (fetch_quality_rating a)" "frames R H (subscribe_app a)" "frames R H (get_provider a)"
  unfolding provider_submit_def find_template_id_def fetch_template_status_def fetch_quality_rating_def subscribe_app_def get_provider_def
  by (intro frame_intros)+

end

end
