(* ===== verification/MessagingSystem.thy ===== *)
theory MessagingSystem
  imports MessagingFrames
begin

text \<open>
  The WhatsApp application as the set of its entries (requests, webhook deliveries, tasks, the platform
  command), each a thread of a \<open>history\<close>, and that every entry respects a frame relation.
\<close>

subsection \<open>Entries\<close>

datatype messaging_entry =
    ConfigureShared string string string "uuid option"
  | SetSender uuid team_member uuid uuid
  | ClearSender uuid team_member uuid
  | DisconnectSender uuid team_member uuid
  | StartSignup uuid team_member
  | ConsumeSignup uuid uuid string
  | NewTemplate uuid team_member string string string "uuid option"
  | MetaDelivery string "string option"
  | RunTask mtask
  | ActivateTask uuid uuid
  | OptOutTask uuid string
  | PollTemplates
  | CheckQuality

abbreviation messaging_request :: "uuid \<Rightarrow> 'a mprog \<Rightarrow> unit mprog" where
  "messaging_request m p \<equiv> tenant_middleware m (bindM p (\<lambda>_. ret ()))"

text \<open>The signup completion runs in the tenant context without a transaction around it.\<close>

definition run_messaging :: "messaging_entry \<Rightarrow> unit mprog" where
  "run_messaging entry = (case entry of
     ConfigureShared phone business status actor \<Rightarrow> bindM (upsert_shared_pool_account phone business status actor) (\<lambda>_. ret ())
   | SetSender m tm l a \<Rightarrow> messaging_request m (location_sender_put (Some tm) l a)
   | ClearSender m tm l \<Rightarrow> messaging_request m (location_sender_delete (Some tm) l)
   | DisconnectSender m tm a \<Rightarrow> messaging_request m (sender_delete (Some tm) a)
   | StartSignup m tm \<Rightarrow> messaging_request m (signup_start_post (Some tm))
   | ConsumeSignup m u state \<Rightarrow> tenant_context (Some m) (answered (consume_signup_state u state))
   | NewTemplate m tm name language body account \<Rightarrow> messaging_request m (templates_post (Some tm) name language body account)
   | MetaDelivery raw signature \<Rightarrow> bindM (meta_webhook_post raw signature) (\<lambda>_. ret ())
   | RunTask t \<Rightarrow> run_task t
   | ActivateTask m i \<Rightarrow> activate_own_number_task (Some m) i
   | OptOutTask m phone \<Rightarrow> process_inbound_opt_out (Some m) phone
   | PollTemplates \<Rightarrow> poll_template_statuses
   | CheckQuality \<Rightarrow> check_shared_pool_quality)"

fun task_merchant :: "mtask \<Rightarrow> uuid option" where
  "task_merchant (SubmitTemplate m _) = Some m"
| "task_merchant (SyncMerchantTemplates m) = Some m"
| "task_merchant (FanOutOptOut _ _ _ _) = None"

fun messaging_merchant :: "messaging_entry \<Rightarrow> uuid option" where
  "messaging_merchant (SetSender m _ _ _) = Some m"
| "messaging_merchant (ClearSender m _ _) = Some m"
| "messaging_merchant (DisconnectSender m _ _) = Some m"
| "messaging_merchant (StartSignup m _) = Some m"
| "messaging_merchant (ConsumeSignup m _ _) = Some m"
| "messaging_merchant (NewTemplate m _ _ _ _ _) = Some m"
| "messaging_merchant (RunTask t) = task_merchant t"
| "messaging_merchant (ActivateTask m _) = Some m"
| "messaging_merchant (OptOutTask m _) = Some m"
| "messaging_merchant _ = None"

subsection \<open>Sections\<close>

context messaging_frame
begin

text \<open>What is known of an account once it has been read: its row stays, with its type and its merchant.\<close>

definition known :: "whatsapp_account \<Rightarrow> mdb \<Rightarrow> bool" where
  "known a d \<longleftrightarrow> (sender_keys d \<longrightarrow> (\<exists>b. find_sender d (wa_id a) = Some b \<and> wa_type b = wa_type a \<and> wa_merchant b = wa_merchant a))"

definition targeted :: "whatsapp_account \<Rightarrow> mdb \<Rightarrow> bool" where
  "targeted a d \<longleftrightarrow> (sender_keys d \<longrightarrow> (\<exists>b. find_sender d (wa_id a) = Some b \<and> wa_type b = wa_type a \<and> wa_merchant b = wa_merchant a \<and>
     (wa_type a = OwnNumber \<longrightarrow> wa_status b = SenderActive)))"

lemma known_later:
  assumes "known a d" "R d d'"
  shows "known a d'"
  unfolding known_def
proof
  assume "sender_keys d'"
  then have "sender_keys d" using sender_keys_before R_kept [OF assms(2)] by blast
  then obtain b where b: "find_sender d (wa_id a) = Some b" "wa_type b = wa_type a" "wa_merchant b = wa_merchant a"
    using assms(1) by (auto simp: known_def)
  from find_sender_later [OF R_kept [OF assms(2)] b(1)] b(2,3)
  show "\<exists>b. find_sender d' (wa_id a) = Some b \<and> wa_type b = wa_type a \<and> wa_merchant b = wa_merchant a" by (auto simp: sender_kept_def)
qed

lemma targeted_later:
  assumes "targeted a d" "R d d'" "held a d d'"
  shows "targeted a d'"
  unfolding targeted_def
proof
  assume "sender_keys d'"
  then have "sender_keys d" using sender_keys_before R_kept [OF assms(2)] by blast
  then obtain b where b: "find_sender d (wa_id a) = Some b" "wa_type b = wa_type a" "wa_merchant b = wa_merchant a"
    "wa_type a = OwnNumber \<longrightarrow> wa_status b = SenderActive" using assms(1) by (auto simp: targeted_def)
  show "\<exists>b. find_sender d' (wa_id a) = Some b \<and> wa_type b = wa_type a \<and> wa_merchant b = wa_merchant a \<and>
     (wa_type a = OwnNumber \<longrightarrow> wa_status b = SenderActive)"
  proof (cases "wa_type a")
    case OwnNumber
    with assms(3) b show ?thesis by (auto simp: held_def keeps_sender_def)
  next
    case SharedPool
    with find_sender_later [OF R_kept [OF assms(2)] b(1)] b show ?thesis by (auto simp: sender_kept_def)
  qed
qed

lemma targeted_usable:
  assumes "targeted a d" "sender_keys d" "wa_type a = OwnNumber \<longrightarrow> wa_merchant a = Some m"
  shows "usable_sender d (wa_id a) m"
  using assms by (cases "wa_type a") (auto simp: targeted_def usable_sender_def usable_by_def)

lemma sect_visible [sect_intros]:
  "sect R G P (visible_senders Q) (\<lambda>rows c d. (\<exists>m. merchant_var c = Some m \<and> rows = filter (\<lambda>a. sender_visible m a \<and> Q a) (senders d)) \<and> P c d)"
  unfolding visible_senders_def by (rule sect_in_tenant)

lemma sect_tenant_rows [sect_intros]:
  "sect R G P (tenant_rows owner rows Q) (\<lambda>xs c d. (\<exists>m. merchant_var c = Some m \<and> xs = filter (\<lambda>r. owner r = m \<and> Q r) (rows d)) \<and> P c d)"
  unfolding tenant_rows_def by (rule sect_in_tenant)

lemma sect_lock_senders:
  assumes "\<And>c d d'. P c d \<Longrightarrow> R d d' \<Longrightarrow> P c d'"
  shows "sect R G P (lock_senders Q) (\<lambda>r c d. (\<forall>a. r = Some a \<longrightarrow>
     (\<exists>m. merchant_var c = Some m \<and> sender_visible m a) \<and> a \<in> set (senders d) \<and> Q a) \<and> P c d)"
  unfolding lock_senders_def
  by (rule sect_seq [OF sect_wait [OF assms]], assumption, assumption, rule sect_bind [OF sect_visible], rule sect_calm) (auto dest!: first_SomeD)

lemma known_of: "a \<in> set (senders d) \<Longrightarrow> known a d"
  by (auto simp: known_def dest: find_sender_of)

lemma sect_get_sender: "sect R G P (get_sender i) (\<lambda>a c d. known a d \<and> P c d)"
  unfolding get_sender_def
  by (rule sect_bind [OF sect_visible], rule sect_post [OF sect_or_raise]) (auto dest!: first_SomeD intro: known_of)

lemma sect_location_for: "sect R G P (location_for tm i) (\<lambda>l c d. merchant_var c = Some (lo_merchant l) \<and> P c d)"
  unfolding location_for_def
  by (rule sect_bind [OF sect_in_tenant], rule sect_post [OF sect_or_raise]) (auto dest: first_SomeD [OF sym])

lemma sect_lock_active:
  "sect R G (\<lambda>c d. K c \<and> known acct d) (lock_active_account acct) (\<lambda>a c d. wa_id a = wa_id acct \<and> K c \<and> targeted acct d)"
proof -
  have "sect R G (\<lambda>c d. K c \<and> known acct d)
      (if wa_type acct = OwnNumber then lock_senders (\<lambda>x. wa_id x = wa_id acct)
      else bindM (visible_senders (\<lambda>x. wa_id x = wa_id acct)) (\<lambda>rows. ret (first (\<lambda>_. True) rows)))
      (\<lambda>r c d. (\<forall>a. r = Some a \<longrightarrow> a \<in> set (senders d) \<and> wa_id a = wa_id acct) \<and> K c \<and> known acct d)"
    by (rule sect_if, rule sect_post [OF sect_lock_senders], blast intro: known_later, blast,
        rule sect_bind [OF sect_visible], rule sect_post [OF sect_ret]) (auto dest!: first_SomeD)
  then show ?thesis
    unfolding lock_active_account_def
  proof (rule sect_bind, intro sect_case_option sect_throw sect_if)
    fix r :: "whatsapp_account option" and x
    assume r: "r = Some x" "\<not> wa_status x \<noteq> SenderActive"
    show "sect R G (\<lambda>c d. (\<forall>a. r = Some a \<longrightarrow> a \<in> set (senders d) \<and> wa_id a = wa_id acct) \<and> K c \<and> known acct d) (ret x)
      (\<lambda>a c d. wa_id a = wa_id acct \<and> K c \<and> targeted acct d)"
      by (rule sect_post [OF sect_ret]) (use r in \<open>auto simp: targeted_def known_def dest: find_sender_of\<close>)
  qed
qed

lemma sect_locked_mapping:
  assumes "\<And>c d d'. P c d \<Longrightarrow> R d d' \<Longrightarrow> keep d d' \<Longrightarrow> P c d'"
  shows "sect R G P (locked_mapping keep l) (\<lambda>_. P)"
  unfolding locked_mapping_def mapping_of_def
  by (rule sect_seq [OF sect_wait_holding [OF assms]], assumption, assumption, assumption, rule sect_post [OF sect_in_tenant]) blast

lemma sect_insert_map:
  assumes st: "\<And>c d d'. P c d \<Longrightarrow> R d d' \<Longrightarrow> keep d d' \<Longrightarrow> P c d'"
    and use: "\<And>c d. P c d \<Longrightarrow> sender_keys d \<Longrightarrow> usable_sender d (sm_account s) (sm_merchant s)"
  shows "sect R G P (insert_sender_map keep s) (\<lambda>_ _ _. True)"
proof -
  have w: "sect R G P (tenant_write (sm_merchant s)) (\<lambda>_ c d. merchant_var c = Some (sm_merchant s) \<and> P c d)"
    by (rule sect_calm) (auto simp: tenant_write_def split: if_splits)
  have h: "sect R G (\<lambda>c d. merchant_var c = Some (sm_merchant s) \<and> P c d) (wait_holding keep)
      (\<lambda>_ c d. merchant_var c = Some (sm_merchant s) \<and> P c d)"
    by (rule sect_wait_holding) (use st in blast)
  show ?thesis
    unfolding insert_sender_map_def
    by (rule sect_seq [OF w], rule sect_seq [OF h], rule sectI)
      (auto simp: R_refl saves_refl intro!: R_new_map use split: if_splits)
qed

lemma sect_created_map:
  assumes st: "\<And>c d d'. P c d \<Longrightarrow> R d d' \<Longrightarrow> keep d d' \<Longrightarrow> P c d'"
    and use: "\<And>c d. P c d \<Longrightarrow> sender_keys d \<Longrightarrow> usable_sender d (sm_account s) (sm_merchant s)"
  shows "sect R G P (created_or_taken (insert_sender_map keep s)) (\<lambda>b c d. \<not> b \<longrightarrow> P c d)"
proof (rule sect_post [OF sect_created_or_taken [OF sect_insert_map [where P = P]]])
  fix w ds e w'
  assume g: "rely R w" "P (ctx w) (db w)" "saves w = db w # ds" and run: "insert_sender_map keep s w = (Inl e, w')"
  have "R (db w) (env w (env_n w) (db w))" using g(1) by (simp add: rely_def)
  then show "P (ctx w) (hd (saves w'))"
    using run g st [OF g(2)]
    by (auto simp: insert_sender_map_def run_seq tenant_write_def wait_holding_def interfere_def Let_def split: if_splits)
qed (use st use in auto)

lemma sect_mapping_for:
  assumes "wa_id a = wa_id acct" "wa_type acct = OwnNumber \<longrightarrow> wa_merchant acct = Some (lo_merchant l)"
  shows "sect R G (\<lambda>c d. K c \<and> targeted acct d) (mapping_for (held acct) a l) (\<lambda>(s, q, created) c d. \<not> created \<longrightarrow> K c \<and> targeted acct d)"
proof -
  let ?P = "\<lambda>c d. K c \<and> targeted acct d"
  have st: "?P c d \<Longrightarrow> R d d' \<Longrightarrow> held acct d d' \<Longrightarrow> ?P c d'" for c d d' using targeted_later by blast
  have use: "?P c d \<Longrightarrow> sender_keys d \<Longrightarrow> usable_sender d (wa_id a) (lo_merchant l)" for c d
    using targeted_usable assms by metis
  have lock: "sect R G ?P (locked_mapping (held acct) (lo_id l)) (\<lambda>_. ?P)" by (rule sect_locked_mapping) (rule st)
  have ins: "sect R G ?P (created_or_taken (insert_sender_map (held acct) \<lparr>sm_account = wa_id a, sm_location = lo_id l, sm_merchant = lo_merchant l,
      sm_updated_at = t\<rparr>)) (\<lambda>b c d. \<not> b \<longrightarrow> ?P c d)" for t
    by (rule sect_created_map) (use st use in auto)
  have again: "sect R G ?P (bindM (locked_mapping (held acct) (lo_id l)) (\<lambda>m. case m of None \<Rightarrow> throw AttributeErr | Some (s, q) \<Rightarrow> ret (s, q, False)))
      (\<lambda>(s, q, created) c d. \<not> created \<longrightarrow> ?P c d)"
    by (rule sect_bind [OF lock], intro sect_case_option sect_throw sect_case_prod, rule sect_post [OF sect_ret]) auto
  show ?thesis
    unfolding mapping_for_def Let_def
  proof (rule sect_bind [OF lock], intro sect_case_option sect_case_prod)
    fix m s q
    show "sect R G ?P (ret (s, q, False)) (\<lambda>(s, q, created) c d. \<not> created \<longrightarrow> ?P c d)"
      by (rule sect_post [OF sect_ret]) auto
  next
    show "sect R G ?P (bindM now (\<lambda>t. bindM (created_or_taken (insert_sender_map (held acct) \<lparr>sm_account = wa_id a, sm_location = lo_id l,
        sm_merchant = lo_merchant l, sm_updated_at = t\<rparr>)) (\<lambda>created. if created then ret (\<lparr>sm_account = wa_id a, sm_location = lo_id l,
        sm_merchant = lo_merchant l, sm_updated_at = t\<rparr>, a, True)
        else bindM (locked_mapping (held acct) (lo_id l)) (\<lambda>m. case m of None \<Rightarrow> throw AttributeErr | Some (s, q) \<Rightarrow> ret (s, q, False)))))
      (\<lambda>(s, q, created) c d. \<not> created \<longrightarrow> ?P c d)"
      by (rule sect_bind [OF sect_now], rule sect_bind [OF ins], rule sect_if, rule sect_post [OF sect_ret], simp,
          rule sect_pre [OF again]) simp
  qed
qed

lemma sect_save_map:
  assumes "\<And>c d. P c d \<Longrightarrow> sender_keys d \<Longrightarrow> merchant_var c = Some m \<and> usable_sender d i m" "\<And>c d. P c d \<Longrightarrow> merchant_var c = Some m"
  shows "sect R G P (save_sender_map l (\<lambda>s. s\<lparr>sm_account := i\<rparr>)) (\<lambda>_ _ _. True)"
  unfolding save_sender_map_def
proof (rule sect_bind [OF sect_now], rule sect_bind [OF sect_in_tenant], intro sect_case_prod sect_if sect_throw)
  fix t m' s and x :: "uuid \<times> sender_mapping option"
  assume x: "x = (m', s)" "s \<noteq> None"
  show "sect R G (\<lambda>c d. (\<exists>m. merchant_var c = Some m \<and> x = (m, first (\<lambda>s. sm_merchant s = m \<and> sm_location s = l) (sender_maps d))) \<and> P c d)
      (modifyM (\<lambda>w. w\<lparr>db := (db w)\<lparr>sender_maps := update_first (\<lambda>s. sm_merchant s = m' \<and> sm_location s = l)
         (\<lambda>s. (s\<lparr>sm_account := i\<rparr>)\<lparr>sm_updated_at := t\<rparr>) (sender_maps (db w))\<rparr>\<rparr>)) (\<lambda>_ _ _. True)"
    by (rule sectI) (use x assms in \<open>auto simp: saves_refl intro!: R_repoint\<close>)
qed

lemma frames_sender_changed [frame_intros]: "frames R G (sender_changed u l x y)"
  unfolding sender_changed_def by (rule frames_record_event_log)

lemma sect_set_location_sender:
  "sect R G (\<lambda>c d. known acct d \<and> merchant_var c = Some (lo_merchant l)) (set_location_sender l acct actor) (\<lambda>_ _ _. True)"
proof (cases "wa_type acct = OwnNumber \<and> wa_merchant acct \<noteq> Some (lo_merchant l)")
  case True
  then show ?thesis unfolding set_location_sender_def by (intro sect_if sect_throw) simp
next
  case False
  let ?K = "\<lambda>c. merchant_var c = Some (lo_merchant l)"
  have body: "sect R G (\<lambda>c d. \<not> created \<longrightarrow> ?K c \<and> targeted acct d)
      (seqM (whenM (changed \<and> \<not> created) (save_sender_map (lo_id l) (\<lambda>s. s\<lparr>sm_account := wa_id a\<rparr>))) (whenM changed' (sender_changed actor (lo_id l) x y)))
      (\<lambda>_ _ _. True)" if "wa_id a = wa_id acct" for created changed changed' a x y
  proof (rule sect_seq [OF _ sect_of_frames [OF frames_when [OF frames_sender_changed]]], cases "changed \<and> \<not> created")
    case True
    have "sect R G (\<lambda>c d. ?K c \<and> targeted acct d) (save_sender_map (lo_id l) (\<lambda>s. s\<lparr>sm_account := wa_id a\<rparr>)) (\<lambda>_ _ _. True)"
      by (rule sect_save_map [where m = "lo_merchant l"]) (use False that targeted_usable in auto)
    with True show "sect R G (\<lambda>c d. \<not> created \<longrightarrow> ?K c \<and> targeted acct d) (whenM (changed \<and> \<not> created)
        (save_sender_map (lo_id l) (\<lambda>s. s\<lparr>sm_account := wa_id a\<rparr>))) (\<lambda>_ _ _. True)"
      by (simp add: whenM_def sect_pre)
  next
    case False
    then show "sect R G (\<lambda>c d. \<not> created \<longrightarrow> ?K c \<and> targeted acct d) (whenM (changed \<and> \<not> created)
        (save_sender_map (lo_id l) (\<lambda>s. s\<lparr>sm_account := wa_id a\<rparr>))) (\<lambda>_ _ _. True)"
      by (simp only: whenM_def if_False simp_thms) (rule sect_of_frames [OF frames_ret])
  qed
  have map: "sect R G (\<lambda>c d. wa_id a = wa_id acct \<and> ?K c \<and> targeted acct d) (mapping_for (held acct) a l)
      (\<lambda>r c d. wa_id a = wa_id acct \<and> (\<not> snd (snd r) \<longrightarrow> ?K c \<and> targeted acct d))" for a
  proof (cases "wa_id a = wa_id acct")
    case True
    from sect_mapping_for [OF True, of l ?K] False
    have "sect R G (\<lambda>c d. ?K c \<and> targeted acct d) (mapping_for (held acct) a l) (\<lambda>(s, q, created) c d. \<not> created \<longrightarrow> ?K c \<and> targeted acct d)" by blast
    from sect_post [OF this, of "\<lambda>r c d. \<not> snd (snd r) \<longrightarrow> ?K c \<and> targeted acct d"] True show ?thesis by (simp add: split_beta)
  next
    case False
    then show ?thesis by (simp add: sect_def)
  qed
  show ?thesis
    unfolding set_location_sender_def Let_def
  proof (intro sect_if sect_throw sect_nested)
    show "sect R G (\<lambda>c d. known acct d \<and> ?K c) (bindM (lock_active_account acct) (\<lambda>a. bindM (mapping_for (held acct) a l) (\<lambda>(s, q, created).
         seqM (whenM ((created \<or> sm_account s \<noteq> wa_id a) \<and> \<not> created) (save_sender_map (lo_id l) (\<lambda>s. s\<lparr>sm_account := wa_id a\<rparr>)))
           (whenM (created \<or> sm_account s \<noteq> wa_id a) (sender_changed actor (lo_id l) (if created then None else Some (wa_type q)) (Some (wa_type a)))))))
       (\<lambda>_ _ _. True)"
    proof (rule sect_bind [OF sect_pre [OF sect_lock_active [of ?K acct]]])
      fix a
      show "sect R G (\<lambda>c d. wa_id a = wa_id acct \<and> ?K c \<and> targeted acct d) (bindM (mapping_for (held acct) a l) (\<lambda>(s, q, created).
         seqM (whenM ((created \<or> sm_account s \<noteq> wa_id a) \<and> \<not> created) (save_sender_map (lo_id l) (\<lambda>s. s\<lparr>sm_account := wa_id a\<rparr>)))
           (whenM (created \<or> sm_account s \<noteq> wa_id a) (sender_changed actor (lo_id l) (if created then None else Some (wa_type q)) (Some (wa_type a))))))
         (\<lambda>_ _ _. True)"
      proof (rule sect_bind [OF map], rule sect_case_prod, rule sect_case_prod)
        fix s q created and r :: "sender_mapping \<times> whatsapp_account \<times> bool" and x :: "whatsapp_account \<times> bool"
        assume "r = (s, x)" "x = (q, created)"
        then show "sect R G (\<lambda>c d. wa_id a = wa_id acct \<and> (\<not> snd (snd r) \<longrightarrow> ?K c \<and> targeted acct d))
           (seqM (whenM ((created \<or> sm_account s \<noteq> wa_id a) \<and> \<not> created) (save_sender_map (lo_id l) (\<lambda>s. s\<lparr>sm_account := wa_id a\<rparr>)))
           (whenM (created \<or> sm_account s \<noteq> wa_id a) (sender_changed actor (lo_id l) (if created then None else Some (wa_type q)) (Some (wa_type a)))))
           (\<lambda>_ _ _. True)"
          by (cases "wa_id a = wa_id acct") (simp_all add: body, simp add: sect_def)
      qed
    qed simp
  qed
qed

subsection \<open>The shared account\<close>

lemma sect_lock_shared:
  "sect R H (\<lambda>_ _. True) lock_shared_pool (\<lambda>r c d. \<forall>a. r = Some a \<longrightarrow> known a d \<and> wa_type a = SharedPool)"
proof -
  have pool: "sect R H (\<lambda>_ _. True) (shared_pool (\<lambda>_. True)) (\<lambda>rows c d. rows = filter (\<lambda>a. wa_type a = SharedPool \<and> wa_merchant a = None \<and> True) (senders d))"
    unfolding shared_pool_def
    by (rule sect_seq [OF sect_of_frames [OF frames_autocommit]], rule sect_post [OF sect_asks_db]) simp
  show ?thesis
    unfolding lock_shared_pool_def
    by (rule sect_seq [OF sect_of_frames [OF frames_wait]], rule sect_bind [OF pool], rule sect_calm) (auto dest!: first_SomeD intro: known_of)
qed

lemma sect_save_sender:
  assumes "\<And>c d a t. H c \<Longrightarrow> P c d \<Longrightarrow> find_sender d i = Some a \<Longrightarrow>
    R d (d\<lparr>senders := update_first (\<lambda>a. wa_id a = i) (\<lambda>_. (f a)\<lparr>wa_updated_at := t\<rparr>) (senders d)\<rparr>)"
  shows "sect R H P (save_sender i f) (\<lambda>_ _ _. True)"
  unfolding save_sender_def
  by (rule sect_bind [OF sect_now], rule sectI)
    (auto simp: Let_def R_refl saves_refl intro!: assms split: option.splits if_splits)

abbreviation on_platform :: "ctxvars \<Rightarrow> bool" where
  "on_platform c \<equiv> G c \<and> platform_write_var c = Some SHARED_POOL_SCOPE"

lemma frames_insert_shared: "wa_type a = SharedPool \<Longrightarrow> wa_merchant a = None \<Longrightarrow> frames R on_platform (insert_sender a)"
  unfolding insert_sender_def
  by (rule frames_waited) (auto simp: R_refl first_None list_ex_iff intro!: R_new_shared split: if_splits)

lemma sect_create_shared:
  "sect R on_platform (\<lambda>_ _. True) (create_shared phone business status) (\<lambda>r c d. \<not> snd r \<longrightarrow> known (fst r) d \<and> wa_type (fst r) = SharedPool)"
proof -
  have new: "sect R on_platform (\<lambda>_ _. True) (bindM (atomic (insert_sender (new_shared i phone business status u t))) (\<lambda>_. ret (new_shared i phone business status u t, True)))
      (\<lambda>r c d. \<not> snd r \<longrightarrow> known (fst r) d \<and> wa_type (fst r) = SharedPool)" for i u t
    by (rule sect_bind [OF sect_of_frames [OF frames_atomic [OF frames_insert_shared]]], simp_all add: new_shared_def, rule sect_post [OF sect_ret]) simp
  have old: "sect R on_platform (\<lambda>_ _. True) (bindM lock_shared_pool (\<lambda>r. case r of None \<Rightarrow> throw e | Some a \<Rightarrow> ret (a, False)))
      (\<lambda>r c d. \<not> snd r \<longrightarrow> known (fst r) d \<and> wa_type (fst r) = SharedPool)" for e
    by (rule sect_bind [OF sect_lock_shared], intro sect_case_option sect_throw, rule sect_post [OF sect_ret]) auto
  have pure: "sect R on_platform (\<lambda>_ _. True) (if b then bindM now (\<lambda>t. ret (Some t)) else ret None) (\<lambda>_ _ _. True)" for b
    by (intro sect_of_frames frame_intros)
  show ?thesis
    unfolding create_shared_def Let_def
    by (rule sect_bind [OF sect_of_frames [OF frames_random_value]], rule sect_bind [OF pure], rule sect_bind [OF sect_of_frames [OF frames_now]],
        rule sect_catch [OF new]) (auto intro: old split: if_splits)
qed

lemma sect_reconfigure: "sect R on_platform (\<lambda>c d. known a d \<and> wa_type a = SharedPool) (reconfigure_shared a phone business status) (\<lambda>_ _ _. True)"
proof -
  have calm: "sect R on_platform P (if b then bindM now (\<lambda>t. ret (Some t)) else ret y) (\<lambda>_. P)" for b y P
    by (rule sect_calm) (auto simp: run_bind now_def tick_def split: if_splits)
  have save: "sect R on_platform (\<lambda>c d. known a d \<and> wa_type a = SharedPool) (save_sender (wa_id a) f) (\<lambda>_ _ _. True)"
    if "\<And>x t. sender_kept x ((f x)\<lparr>wa_updated_at := t\<rparr>)" for f
  proof (rule sect_save_sender)
    fix c d x t
    assume h: "on_platform c" "known a d \<and> wa_type a = SharedPool" "find_sender d (wa_id a) = Some x"
    show "R d (d\<lparr>senders := update_first (\<lambda>x. wa_id x = wa_id a) (\<lambda>_. (f x)\<lparr>wa_updated_at := t\<rparr>) (senders d)\<rparr>)"
      by (rule R_shared [where a = x and c = c]) (use h that in \<open>auto simp: known_def\<close>)
  qed
  show ?thesis
    unfolding reconfigure_shared_def Let_def
    by (rule sect_bind [OF calm], rule sect_seq [OF save], simp add: sender_kept_def, rule sect_of_frames [OF frames_ret])
qed

lemma sect_configure: "sect R on_platform (\<lambda>_ _. True) (configure_shared phone business status actor) (\<lambda>_ _ _. True)"
proof -
  have audit: "frames R on_platform (seqM (audit_shared actor status a) (ret a))" for a
    unfolding audit_shared_def by (intro frame_intros)
  have found: "sect R on_platform (\<lambda>c d. \<forall>a. r = Some a \<longrightarrow> known a d \<and> wa_type a = SharedPool)
      (case r of None \<Rightarrow> create_shared phone business status | Some a \<Rightarrow> ret (a, False))
      (\<lambda>r c d. \<not> snd r \<longrightarrow> known (fst r) d \<and> wa_type (fst r) = SharedPool)" for r
    by (intro sect_case_option, rule sect_pre [OF sect_create_shared], simp, rule sect_post [OF sect_ret]) auto
  show ?thesis
    unfolding configure_shared_def
  proof (rule sect_bind [OF sect_lock_shared], rule sect_bind [OF found], rule sect_case_prod, intro sect_if)
    fix x a created
    show "sect R on_platform P (seqM (audit_shared actor status a) (ret a)) (\<lambda>_ _ _. True)" for P
      by (rule sect_of_frames [OF audit])
    show "sect R on_platform P (ret a) (\<lambda>_ _ _. True)" for P by (rule sect_of_frames [OF frames_ret])
    assume "x = (a, created)" "\<not> created"
    then show "sect R on_platform (\<lambda>c d. \<not> snd x \<longrightarrow> known (fst x) d \<and> wa_type (fst x) = SharedPool)
        (bindM (reconfigure_shared a phone business status) (\<lambda>a. seqM (audit_shared actor status a) (ret a))) (\<lambda>_ _ _. True)"
      by (intro sect_bind [OF sect_pre [OF sect_reconfigure]] sect_of_frames audit) simp
  qed
qed

lemma frames_configure:
  assumes "\<And>c. G c"
  shows "frames R (\<lambda>_. True) (upsert_shared_pool_account phone business status actor)"
proof -
  have "frames R (\<lambda>_. True) (platform_write_atomic SHARED_POOL_SCOPE (configure_shared phone business s actor))" for s
    unfolding platform_write_atomic_def by (rule frames_lookup_sect [OF sect_configure]) (simp_all add: assms)
  note frame_intros = frame_intros this
  show ?thesis unfolding upsert_shared_pool_account_def by (intro frame_intros)
qed

subsection \<open>Own numbers\<close>

lemma frames_disconnect [frame_intros]: "frames R G (disconnect_own_number acct actor)"
proof -
  let ?Q = "\<lambda>a c d. (\<exists>m. merchant_var c = Some m \<and> sender_visible m a) \<and> a \<in> set (senders d) \<and> wa_type a = OwnNumber"
  have save: "sect R G (\<lambda>c d. (\<exists>m. merchant_var c = Some m \<and> used = filter (\<lambda>s. sm_merchant s = m \<and> sm_account s = wa_id a) (sender_maps d)) \<and> ?Q a c d)
      (save_sender (wa_id a) (\<lambda>x. x\<lparr>wa_status := SenderSuspended, wa_token := None\<rparr>)) (\<lambda>_ _ _. True)" if "used = []" for used a
  proof (rule sect_save_sender)
    fix c d x t
    assume g: "G c" and h: "(\<exists>m. merchant_var c = Some m \<and> used = filter (\<lambda>s. sm_merchant s = m \<and> sm_account s = wa_id a) (sender_maps d)) \<and> ?Q a c d"
      and f: "find_sender d (wa_id a) = Some x"
    from h obtain m where m: "merchant_var c = Some m" "used = filter (\<lambda>s. sm_merchant s = m \<and> sm_account s = wa_id a) (sender_maps d)"
      "sender_visible m a" "a \<in> set (senders d)" "wa_type a = OwnNumber" by auto
    have none: "\<not> list_ex (\<lambda>s. sm_merchant s = m \<and> sm_account s = wa_id a) (sender_maps d)"
      using m(2) [symmetric] that by (auto simp: list_ex_iff filter_empty_conv)
    show "R d (d\<lparr>senders := update_first (\<lambda>y. wa_id y = wa_id a) (\<lambda>_. (x\<lparr>wa_status := SenderSuspended, wa_token := None\<rparr>)\<lparr>wa_updated_at := t\<rparr>) (senders d)\<rparr>)"
    proof (rule R_disconnect [OF g m(1) f])
      assume k: "sender_keys d"
      then have "x = a" using find_sender_of [OF k m(4)] f by simp
      moreover have "wa_merchant a \<noteq> None" using k m(4,5) by (auto simp: sender_keys_def list_all_iff)
      ultimately show "wa_type x = OwnNumber \<and> wa_merchant x = Some m \<and> \<not> list_ex (\<lambda>s. sm_merchant s = m \<and> sm_account s = wa_id a) (sender_maps d)"
        using m(3,5) none by (auto simp: sender_visible_def)
    qed (simp add: sender_kept_def)
  qed
  have "sect R G (\<lambda>_ _. True) (bindM (lock_senders (\<lambda>a. wa_id a = wa_id acct \<and> wa_type a = OwnNumber)) (\<lambda>r. case r of
        None \<Rightarrow> throw (App SenderNotFound)
      | Some a \<Rightarrow> if wa_status a = SenderSuspended \<and> wa_token a = None then ret ()
          else bindM (tenant_rows sm_merchant sender_maps (\<lambda>s. sm_account s = wa_id a)) (\<lambda>used.
            if used \<noteq> [] then throw (App SenderInUse)
            else seqM (save_sender (wa_id a) (\<lambda>x. x\<lparr>wa_status := SenderSuspended, wa_token := None\<rparr>))
              (record_event_log ''whatsapp.own_number_disconnected'' (Some actor) ''whatsapp.whatsappaccount'' (wa_id a) []))))
      (\<lambda>_ _ _. True)"
  proof (rule sect_bind [OF sect_lock_senders], simp, intro sect_case_option sect_throw sect_if)
    fix r :: "whatsapp_account option" and a
    assume r: "r = Some a"
    show "sect R G P (ret ()) (\<lambda>_ _ _. True)" for P by (rule sect_of_frames [OF frames_ret])
    show "sect R G (\<lambda>c d. (\<forall>x. r = Some x \<longrightarrow> (\<exists>m. merchant_var c = Some m \<and> sender_visible m x) \<and> x \<in> set (senders d) \<and>
          wa_id x = wa_id acct \<and> wa_type x = OwnNumber) \<and> True)
        (bindM (tenant_rows sm_merchant sender_maps (\<lambda>s. sm_account s = wa_id a)) (\<lambda>used.
            if used \<noteq> [] then throw (App SenderInUse)
            else seqM (save_sender (wa_id a) (\<lambda>x. x\<lparr>wa_status := SenderSuspended, wa_token := None\<rparr>))
              (record_event_log ''whatsapp.own_number_disconnected'' (Some actor) ''whatsapp.whatsappaccount'' (wa_id a) []))) (\<lambda>_ _ _. True)"
      by (rule sect_bind [OF sect_pre [OF sect_tenant_rows [where P = "?Q a"]]], use r in blast,
          intro sect_if sect_throw sect_seq [OF save] sect_of_frames frames_record_event_log) simp
  qed
  then show ?thesis unfolding disconnect_own_number_def by (rule frames_tx_end)
qed

lemma frames_activate [frame_intros]: "frames R G (activate_own_number i)"
proof -
  have "frames R G (activation_failed i)" "frames R G (activation_done i)"
    unfolding activation_failed_def activation_done_def
    by (intro frame_intros frames_update_sender, simp add: sender_kept_def)+
  note frame_intros = frame_intros this
  show ?thesis unfolding activate_own_number_def activating_def by (intro frame_intros) (auto intro: frames_ret split: if_splits)
qed

lemma frames_clear [frame_intros]: "frames R G (clear_location_sender l actor)"
  unfolding clear_location_sender_def by (intro frame_intros)

lemma frames_signup [frame_intros]: "frames R G (issue_signup_state u)" "frames R G (consume_signup_state u s)" "frames R G (begin_embedded_signup u)"
proof -
  show i: "frames R G (issue_signup_state u)" unfolding issue_signup_state_def by (intro frame_intros)
  show "frames R G (consume_signup_state u s)" unfolding consume_signup_state_def by (intro frame_intros)
  show "frames R G (begin_embedded_signup u)" unfolding begin_embedded_signup_def by (intro frame_intros i)
qed

subsection \<open>Templates\<close>

lemma sect_save_template:
  assumes "\<And>c d m x t. P c d \<Longrightarrow> merchant_var c = Some m \<Longrightarrow> first (\<lambda>y. mt_merchant y = m \<and> mt_id y = i) (templates d) = Some x \<Longrightarrow>
      (template_keys d \<longrightarrow> mt_status x = TemplatePending \<and> mt_provider_id x = None)"
    and "\<And>x t. same_content x ((f x)\<lparr>mt_updated_at := t\<rparr>) \<and> submission_outcome ((f x)\<lparr>mt_updated_at := t\<rparr>)"
  shows "sect R G P (save_template i f) (\<lambda>_ _ _. True)"
  unfolding save_template_def
proof (rule sect_bind [OF sect_now], rule sect_bind [OF sect_tenant_rows])
  fix t rows
  show "sect R G (\<lambda>c d. (\<exists>m. merchant_var c = Some m \<and> rows = filter (\<lambda>x. mt_merchant x = m \<and> mt_id x = i) (templates d)) \<and> P c d)
     (case rows of [] \<Rightarrow> throw DatabaseErr
      | x # _ \<Rightarrow> (\<lambda>w. let x' = (f x)\<lparr>mt_updated_at := t\<rparr> in
       if (case mt_provider_id x' of None \<Rightarrow> False | Some p \<Rightarrow> 64 < length p) then (Inl DataErr, w)
       else if provider_id_taken (db w) i (mt_provider_id x') then (Inl (UniqueViolation ''whatsapp_template_provider_id_uniq''), w)
       else (Inr (), w\<lparr>db := (db w)\<lparr>templates := update_first (\<lambda>y. mt_merchant y = mt_merchant x \<and> mt_id y = i) (\<lambda>_. x') (templates (db w))\<rparr>\<rparr>)))
     (\<lambda>_ _ _. True)"
  proof (cases rows)
    case Nil
    then show ?thesis by (simp add: sect_throw)
  next
    case (Cons x xs)
    have first: "first Q ys = Some x" if "x # xs = filter Q ys" for Q :: "message_template \<Rightarrow> bool" and ys
      using that by (induction ys) (auto split: if_splits)
    show ?thesis
      unfolding Cons list.case
    proof (rule sectI)
      fix w r w'
      let ?x = "(f x)\<lparr>mt_updated_at := t\<rparr>"
      assume g: "G (ctx w)" and h: "(\<exists>m. merchant_var (ctx w) = Some m \<and> x # xs = filter (\<lambda>x. mt_merchant x = m \<and> mt_id x = i) (templates (db w))) \<and> P (ctx w) (db w)"
        and run: "(let x' = ?x in
           if (case mt_provider_id x' of None \<Rightarrow> False | Some p \<Rightarrow> 64 < length p) then (Inl DataErr, w)
           else if provider_id_taken (db w) i (mt_provider_id x') then (Inl (UniqueViolation ''whatsapp_template_provider_id_uniq''), w)
           else (Inr (), w\<lparr>db := (db w)\<lparr>templates := update_first (\<lambda>y. mt_merchant y = mt_merchant x \<and> mt_id y = i) (\<lambda>_. x') (templates (db w))\<rparr>\<rparr>)) = (r, w')"
      from h obtain m where m: "merchant_var (ctx w) = Some m" "x # xs = filter (\<lambda>x. mt_merchant x = m \<and> mt_id x = i) (templates (db w))" by blast
      have f1: "first (\<lambda>x. mt_merchant x = m \<and> mt_id x = i) (templates (db w)) = Some x" by (rule first [OF m(2)])
      have mx: "mt_merchant x = m" using first_SomeD [OF f1] by simp
      have pend: "template_keys (db w) \<Longrightarrow> mt_status x = TemplatePending \<and> mt_provider_id x = None"
        using assms(1) [OF _ m(1) f1] h by blast
      have "\<not> provider_id_taken (db w) i (mt_provider_id ?x) \<Longrightarrow>
        R (db w) ((db w)\<lparr>templates := update_first (\<lambda>y. mt_merchant y = m \<and> mt_id y = i) (\<lambda>_. ?x) (templates (db w))\<rparr>)"
        by (rule R_template [OF g m(1) f1 pend]) (use assms(2) in blast)+
      with run show "ctx w' = ctx w \<and> env w' = env w \<and> R (db w) (db w') \<and> list_all2 R (saves w) (saves w') \<and> (quiet w \<longrightarrow> saves w' = saves w) \<and>
        (\<forall>a. r = Inr a \<longrightarrow> True)"
        by (auto simp: Let_def mx R_refl saves_refl split: if_splits)
    qed
  qed
qed

lemma frames_record_submission:
  assumes "fst r \<noteq> None \<and> snd r = TemplatePending \<or> fst r = None \<and> snd r = TemplateRejected"
  shows "frames R G (record_submission i r)"
proof -
  have un: "sect R G (\<lambda>_ _. True) (unsubmitted i) (\<lambda>l c d. \<forall>x. l = Some x \<longrightarrow> x \<in> set (templates d) \<and> merchant_var c = Some (mt_merchant x) \<and>
      mt_status x = TemplatePending \<and> mt_provider_id x = None)"
    unfolding unsubmitted_def
    by (rule sect_bind [OF sect_tenant_rows], rule sect_post [OF sect_ret]) (auto dest!: first_SomeD)
  have save: "sect R G (\<lambda>c d. x \<in> set (templates d) \<and> merchant_var c = Some (mt_merchant x) \<and> mt_status x = TemplatePending \<and> mt_provider_id x = None)
      (save_template (mt_id x) (\<lambda>x. x\<lparr>mt_provider_id := fst r, mt_status := snd r\<rparr>)) (\<lambda>_ _ _. True)" for x
  proof (rule sect_save_template)
    fix c m t and d :: mdb and y :: message_template
    assume h: "x \<in> set (templates d) \<and> merchant_var c = Some (mt_merchant x) \<and> mt_status x = TemplatePending \<and> mt_provider_id x = None"
      and y: "first (\<lambda>y. mt_merchant y = m \<and> mt_id y = mt_id x) (templates d) = Some y"
    show "template_keys d \<longrightarrow> mt_status y = TemplatePending \<and> mt_provider_id y = None"
    proof
      assume "template_keys d"
      then have "inj_on mt_id (set (templates d))" by (simp add: template_keys_def distinct_map)
      moreover from y have "y \<in> set (templates d)" "mt_id y = mt_id x" by (auto dest: first_SomeD)
      ultimately have "y = x" using h by (auto dest: inj_onD)
      with h show "mt_status y = TemplatePending \<and> mt_provider_id y = None" by simp
    qed
  qed (use assms in \<open>auto simp: same_content_def submission_outcome_def\<close>)
  show ?thesis
    unfolding record_submission_def
  proof (rule frames_tx_end, rule sect_seq [OF sect_of_frames [OF frames_wait]], rule sect_bind [OF un], intro sect_case_option)
    show "sect R G P (ret ()) (\<lambda>_ _ _. True)" for P by (rule sect_of_frames [OF frames_ret])
    fix l and x :: message_template
    assume "l = Some x"
    then show "sect R G (\<lambda>c d. \<forall>x. l = Some x \<longrightarrow> x \<in> set (templates d) \<and> merchant_var c = Some (mt_merchant x) \<and>
      mt_status x = TemplatePending \<and> mt_provider_id x = None)
      (save_template (mt_id x) (\<lambda>x. x\<lparr>mt_provider_id := fst r, mt_status := snd r\<rparr>)) (\<lambda>_ _ _. True)"
      by (intro sect_pre [OF save]) simp
  qed
qed

lemma frames_active_shared [frame_intros]: "frames R H active_shared_account" "frames R H required_shared_account"
  unfolding required_shared_account_def active_shared_account_def by (intro frame_intros)+

lemma frames_submit_to_meta [frame_intros]: "frames R H (submit_to_meta a t)"
proof -
  have c: "frames R H (case r of Inl i \<Rightarrow> f i | Inr u \<Rightarrow> g u)" if "\<And>i. frames R H (f i)" "\<And>u. frames R H (g u)" for r f g
    using that by (cases r) simp_all
  show ?thesis unfolding submit_to_meta_def
    by (intro frame_intros c) (auto intro: frames_ret split: if_splits)
qed

lemma submit_to_meta_outcome:
  assumes "submit_to_meta a t w = (Inr r, w')"
  shows "fst r \<noteq> None \<and> snd r = TemplatePending \<or> fst r = None \<and> snd r = TemplateRejected"
  using assms by (auto simp: submit_to_meta_def run_bind split: sum.splits prod.splits if_splits)

lemma frames_submit [frame_intros]: "frames R G (submit_template_to_provider i)"
proof -
  have send: "frames R G (seqM (get_provider a) (bindM (submit_to_meta a t) (record_submission i)))" for a t
    by (rule frames_seq, intro frame_intros, rule frames_bind_when [OF frames_submit_to_meta submit_to_meta_outcome frames_record_submission]) assumption
  have un: "frames R G (unsubmitted i)" unfolding unsubmitted_def by (intro frame_intros)
  show ?thesis
    unfolding submit_template_to_provider_def
    by (rule frames_bind [OF frames_tenant_atomic [OF un]], intro frames_case_option frames_ret, rule frames_bind [OF frames_active_shared(2) send])
qed

lemma frames_sync [frame_intros]: "frames R G sync_template_statuses"
proof -
  have one: "frames R G (sync_one a x)" for a x
    unfolding sync_one_def by (intro frame_intros) (auto intro: frames_ret split: if_splits)
  have "frames R G (sync_each a xs n)" for a xs n
    by (induction xs arbitrary: n) (simp_all only: sync_each.simps frames_ret frames_bind one)
  moreover have "frames R G submitted" unfolding submitted_def by (intro frame_intros)
  ultimately show ?thesis unfolding sync_template_statuses_def by (intro frame_intros)
qed

lemma frames_create_template [frame_intros]: "frames R G (create_template name language body account)"
proof -
  have store: "frames R G (store_template m name language body)" if e: "template_errors c name language body None = []" for m c
  proof -
    have b: "strip name \<noteq> []" "length name \<le> 255" "strip body \<noteq> []" "placeholder_errors body None = []"
      using e by (auto simp: template_errors_def body_errors_def split: if_splits)
    have "template_ok (new_template i m (strip name) language body t)" for i t
      using b length_strip [of name] by (simp add: template_ok_def new_template_def)
    then have "frames R G (insert_template (new_template i m (strip name) language body t))" for i t
      by (rule frames_insert_template) (simp_all add: new_template_def)
    note frame_intros = frame_intros this
    show ?thesis unfolding store_template_def Let_def by (intro frame_intros)
  qed
  have v: "seqM (validate_template name language body None) k = bindM (asks m_cfg) (\<lambda>c. if template_errors c name language body None = [] then k
      else throw (App (InvalidFields (template_errors c name language body None))))" for k :: "message_template mprog"
    by (rule ext) (simp add: validate_template_def run_seq run_bind Let_def)
  show ?thesis
    unfolding create_template_def v by (intro frame_intros store) assumption
qed

subsection \<open>Opt-outs\<close>

lemma frames_opt_out_inbound:
  assumes "\<And>c. G (c\<lparr>merchant_var := Some m\<rparr>)"
  shows "frames R H (opt_out_inbound_for_merchant m phone shared)"
proof -
  have "frames R G (shared_opt_out_applies phone)" unfolding shared_opt_out_applies_def by (intro frame_intros)
  note frame_intros = frame_intros this
  have "frames R H (tenant_context (Some m) (tenant_atomic False (bindM (if shared then shared_opt_out_applies phone else ret True)
      (\<lambda>applies. whenM applies (opt_out_phone phone)))))"
    by (rule frames_tenant_context [where G' = G], intro frame_intros, simp add: assms)
  then show ?thesis unfolding opt_out_inbound_for_merchant_def by (intro frame_intros)
qed

lemma frames_fan_out:
  assumes "\<And>c. G c"
  shows "frames R H (fan_out_inbound_opt_out p phone ids retries)"
proof -
  have "frames R H (catchM (seqM (opt_out_inbound_for_merchant m phone shared) (ret [])) (\<lambda>_. Some (ret [m])))" for m shared
    by (intro frames_catch frames_seq frames_ret frames_opt_out_inbound assms) (auto intro: frames_ret)
  then have each: "frames R H (opt_out_each shared phone ms)" for shared ms
    by (induction ms) (simp_all only: opt_out_each.simps frames_ret frames_bind)
  have own: "frames R H (own_number_merchant_id p)"
    unfolding own_number_merchant_id_def whatsapp_number_lookup_atomic_def
    by (intro frame_intros, rule frames_lookup_atomic [where G' = "\<lambda>_. True"]) (intro frame_intros, simp_all)
  have retry: "frames R H (retry_opt_out_fan_out p phone x n e)" for x n e
    unfolding retry_opt_out_fan_out_def by (intro frame_intros) (auto intro: frames_throw)
  have resolve: "frames R H (resolve_inbound_opt_out_targets p)"
    unfolding resolve_inbound_opt_out_targets_def is_shared_pool_number_def active_merchant_ids_def by (intro frame_intros own)
  show ?thesis
    unfolding fan_out_inbound_opt_out_def fan_out_to_def Let_def
    by (intro frame_intros each retry resolve) (auto intro: frames_ret)
qed

subsection \<open>Entries\<close>

lemma frames_messaging_respond [frame_intros]: "frames R H m \<Longrightarrow> frames R H (messaging_respond m)"
  unfolding messaging_respond_def by (intro frame_intros) (auto intro: frame_intros)

lemma frames_messaging_view [frame_intros]: "(\<And>tm. frames R H (handler tm)) \<Longrightarrow> frames R H (messaging_view roles member handler)"
  unfolding messaging_view_def by (intro frame_intros)

lemma frames_sender_reads [frame_intros]:
  "frames R H (location_for tm i)" "frames R H (get_sender j)" "frames R H (sender_body l)"
  unfolding location_for_def get_sender_def sender_body_def get_location_sender_def by (intro frame_intros)+

lemma sect_put: "sect R G (\<lambda>_ _. True) (location_sender_put (Some tm) l a) (\<lambda>_ _ _. True)"
proof -
  have set: "sect R G (\<lambda>_ _. True) (bindM (location_for tm l) (\<lambda>loc. bindM (get_sender a) (\<lambda>acct. seqM (set_location_sender loc acct actor) (sender_body loc))))
      (\<lambda>_ _ _. True)" for actor
  proof (rule sect_bind [OF sect_location_for], rule sect_bind [OF sect_get_sender], rule sect_seq)
    fix loc acct
    show "sect R G (\<lambda>c d. known acct d \<and> merchant_var c = Some (lo_merchant loc) \<and> True) (set_location_sender loc acct actor) (\<lambda>_ _ _. True)"
      by (rule sect_pre [OF sect_set_location_sender]) simp
  qed (intro sect_of_frames frame_intros)
  show ?thesis
    unfolding location_sender_put_def messaging_view_def messaging_respond_def option.case
  proof (intro sect_if)
    show "sect R G (\<lambda>_ _. True) (ret x) (\<lambda>_ _ _. True)" for x by (rule sect_of_frames [OF frames_ret])
    show "sect R G (\<lambda>_ _. True) (catchM (bindM (bindM (location_for tm l) (\<lambda>loc. bindM (get_sender a) (\<lambda>acct. seqM (set_location_sender loc acct (tm_user tm)) (sender_body loc))))
        (\<lambda>(status, body). ret (SenderAnswer status body))) (\<lambda>e. Some (ret (messaging_failure e)))) (\<lambda>_ _ _. True)"
      by (rule sect_catch, rule sect_bind [OF set], intro sect_of_frames frame_intros) (auto intro!: sect_of_frames frames_ret)
  qed
qed

lemma frames_merchant_messaging:
  assumes "messaging_merchant entry = Some m" "\<And>c. G (c\<lparr>merchant_var := Some m\<rparr>)"
  shows "frames R (\<lambda>_. True) (run_messaging entry)"
proof -
  have req: "frames R (\<lambda>_. True) (messaging_request m p)" if "frames R G p" for p :: "'b mprog"
    by (rule frames_in_tenant [of G]) (intro frame_intros that, rule assms(2))
  have task: "frames R (\<lambda>_. True) (tenant_task (\<lambda>_. p) (Some m))" if "frames R G p" for p
    by (rule frames_in_task [of G]) (use that assms(2) in auto)
  have put: "frames R (\<lambda>_. True) (messaging_request m (location_sender_put (Some tm) l a))" for tm l a
  proof -
    have "frames R (\<lambda>_. True) (tenant_context (Some m) (tenant_atomic False (bindM (location_sender_put (Some tm) l a) (\<lambda>_. ret ()))))"
      by (rule frames_tenant_context [where G' = G], rule frames_tx_end, rule sect_bind [OF sect_put], rule sect_of_frames [OF frames_ret])
        (use assms(2) in auto)
    then show ?thesis by (simp add: tenant_middleware_def)
  qed
  have views: "frames R G (location_sender_delete (Some tm) l)" "frames R G (sender_delete (Some tm) a)" "frames R G (signup_start_post (Some tm))"
    "frames R G (templates_post (Some tm) name language body account)" for tm l a name language body account
    unfolding location_sender_delete_def sender_delete_def signup_start_post_def templates_post_def by (intro frame_intros)+
  have run_task: "frames R (\<lambda>_. True) (run_task t)" if "task_merchant t = Some m" for t
    using that by (cases t) (simp_all add: run_task_def submit_template_def sync_merchant_templates_def, (intro task frame_intros)+)
  have consume: "frames R (\<lambda>_. True) (tenant_context (Some m) (answered (consume_signup_state u st)))" for u st
    by (rule frames_tenant_context [where G' = G]) (intro frame_intros, use assms(2) in simp)
  show ?thesis
    using assms(1)
    by (cases entry) (simp_all add: run_messaging_def activate_own_number_task_def process_inbound_opt_out_def,
      (rule put consume run_task req task; (intro views frame_intros | simp)?)+)
qed

lemma frames_messaging_entry:
  assumes "\<And>c. G c"
  shows "frames R (\<lambda>_. True) (run_messaging entry)"
proof (cases "messaging_merchant entry")
  case (Some m)
  then show ?thesis by (rule frames_merchant_messaging) (rule assms)
next
  case None
  have delivery: "frames R (\<lambda>_. True) (meta_webhook_post raw signature)" for raw signature
    unfolding meta_webhook_post_def receive_meta_webhook_def publish_or_503_def publish_opt_out_fan_out_def
    by (intro frame_intros) (auto intro: frames_throw)
  have poll: "frames R (\<lambda>_. True) poll_template_statuses"
  proof -
    have "frames R (\<lambda>_. True) (tenant_context (Some m) (tenant_atomic False (bindM templates_pending_sync (\<lambda>pending.
        whenM pending (guarded_on_commit (SyncMerchantTemplates m))))))" for m
      unfolding templates_pending_sync_def submitted_def
      by (rule frames_tenant_context [where G' = "\<lambda>_. True"]) (intro frame_intros, simp)
    then have "frames R (\<lambda>_. True) (poll_merchant m)" for m
      unfolding poll_merchant_def by (intro frames_catch) (auto intro: frames_ret)
    note frame_intros = frame_intros this
    show ?thesis unfolding poll_template_statuses_def active_merchant_ids_def by (intro frame_intros)
  qed
  have quality: "frames R (\<lambda>_. True) check_shared_pool_quality"
    unfolding check_shared_pool_quality_def check_quality_def
    by (intro frame_intros) (auto intro: frames_ret split: if_splits)
  have task: "frames R (\<lambda>_. True) (run_task t)" if "task_merchant t = None" for t
    using that by (cases t) (simp_all add: run_task_def frames_fan_out assms)
  from None show ?thesis
    by (cases entry) (simp_all add: run_messaging_def poll quality task frames_bind frames_ret frames_configure assms delivery)
qed

end

end
