(* ===== verification/MessagingSamples.thy ===== *)
theory MessagingSamples
  imports MessagingSystem
begin

text \<open>
  A concrete WhatsApp deployment, on which the theorems are applied: the shared number, the own number of merchant
  \<open>m1\<close>, a location of \<open>m1\<close> and one of \<open>m2\<close> that sends from the shared number, a customer of each, and a template
  Meta has not decided on yet.
\<close>

definition messaging_cfg :: messaging_settings where
  "messaging_cfg = \<lparr>fernet_key = ''fernet'', meta_app_id = ''app'', meta_app_secret = ''secret'', meta_config_id = ''cfg'',
     meta_verify_token = ''verify'', shared_pool_token = ''token'', graph_version = ''v20.0'', signup_enabled = True, signup_max_age = 600,
     template_languages = [''en''], template_body_max = 1024, opt_out_keywords = [''stop''], quality_alert_ratings = [''RED'']\<rparr>"

definition shared_account :: whatsapp_account where
  "shared_account = \<lparr>wa_id = ''a0'', wa_merchant = None, wa_type = SharedPool, wa_provider = META_CLOUD, wa_phone = ''100'',
     wa_business = Some ''200'', wa_status = SenderActive, wa_connected_at = Some (seconds 10), wa_token = None,
     wa_created_at = 0, wa_updated_at = 0\<rparr>"

definition own_account :: whatsapp_account where
  "own_account = \<lparr>wa_id = ''a1'', wa_merchant = Some ''m1'', wa_type = OwnNumber, wa_provider = META_CLOUD, wa_phone = ''101'',
     wa_business = Some ''201'', wa_status = SenderActive, wa_connected_at = Some (seconds 20), wa_token = Some ''sealed'',
     wa_created_at = seconds 1, wa_updated_at = seconds 1\<rparr>"

definition sample_location :: "uuid \<Rightarrow> uuid \<Rightarrow> location" where
  "sample_location i m = \<lparr>lo_id = i, lo_merchant = m, lo_name = ''Centre'', lo_address = None, lo_phone = None, lo_timezone = None,
     lo_active = True, lo_updated_at = 0\<rparr>"

definition sample_customer :: "uuid \<Rightarrow> uuid \<Rightarrow> customer" where
  "sample_customer i m = \<lparr>cu_id = i, cu_merchant = m, cu_phone = ''+15550001111'', cu_name = None, cu_first_seen = None,
     cu_last_seen = None, cu_total = 1, cu_opted_out = False, cu_opted_out_at = None, cu_updated_at = 0\<rparr>"

definition sample_template :: message_template where
  "sample_template = (new_template ''t-1'' ''m1'' ''Thanks'' ''en'' ''Hi from {{business_name}}'' 0)\<lparr>mt_provider_id := Some ''tpl1''\<rparr>"

definition messaging_db :: mdb where
  "messaging_db = \<lparr>m_merchants = [(''m1'', MActive), (''m2'', MActive)], m_members = [(''m1'', ''u1''), (''m2'', ''u2'')], m_assignments = [],
     m_locations = [sample_location ''l1'' ''m1'', sample_location ''l2'' ''m2''],
     m_customers = [sample_customer ''c1'' ''m1'', sample_customer ''c2'' ''m2''],
     senders = [shared_account, own_account],
     sender_maps = [\<lparr>sm_account = ''a0'', sm_location = ''l2'', sm_merchant = ''m2'', sm_updated_at = 0\<rparr>],
     templates = [sample_template], signups = [], m_audit = []\<rparr>"

definition messaging_lib :: pylib where
  "messaging_lib = \<lparr>loads = (\<lambda>s. None), str_other = (\<lambda>_. ''?''), fromisoformat = (\<lambda>s. None),
     decode_utf8_sig = Some, dumps = (\<lambda>_. ''{}''), encrypt = (\<lambda>s. s), decrypt = Some, available_timezones = (\<lambda>_. True)\<rparr>"

definition meta_accepts :: "nat \<Rightarrow> meta_request \<Rightarrow> http_reply" where
  "meta_accepts n rq = Reply (Some (JObj [(''id'', JStr ''tpl1''), (''success'', JBool True), (''status'', JStr ''APPROVED'')]))"

definition messaging_idle :: "mdb \<Rightarrow> messaging_world" where
  "messaging_idle d = \<lparr>db = d, saves = [], ctx = no_vars, guc = no_vars, row_locked = False,
     clock = (\<lambda>n. seconds (1600 + int n)), ticks = 0, env = (\<lambda>_ d. d), env_n = 0, pending = [], queue = [],
     m_lib = messaging_lib, m_cfg = messaging_cfg, m_http = meta_accepts, m_calls = [], broker_up = (\<lambda>_. True), broker_n = 0,
     db_up = (\<lambda>_. True), db_n = 0, m_mint = (\<lambda>n. ''id'' @ replicate n (CHR ''x'')), m_minted = 0, alerts = []\<rparr>"

lemma fresh_messaging_idle [simp]: "fresh_thread (messaging_idle d)" "quiet (messaging_idle d)" "db (messaging_idle d) = d" "alone (messaging_idle d)"
  by (simp_all add: fresh_thread_def quiet_def messaging_idle_def alone_def)

definition messaging_owner :: team_member where
  "messaging_owner = \<lparr>tm_id = ''t1'', tm_user = ''u1'', tm_role = OWNER\<rparr>"

text \<open>The owner lets the location send from the merchant's own number; a customer writes STOP to it.\<close>

definition own_sender :: messaging_entry where
  "own_sender = SetSender ''m1'' messaging_owner ''l1'' ''a1''"

definition stop_received :: messaging_entry where
  "stop_received = RunTask (FanOutOptOut ''101'' ''+15550001111'' None 0)"

definition synchronisation :: messaging_entry where
  "synchronisation = RunTask (SyncMerchantTemplates ''m1'')"

lemma run_own_sender:
  "let d = db (snd (run_messaging own_sender (messaging_idle messaging_db))) in
     map sm_account (sender_maps d) = [''a0'', ''a1''] \<and> length (m_audit d) = 1"
  by code_simp

lemma run_stop: "map cu_opted_out (m_customers (db (snd (run_messaging stop_received (messaging_idle messaging_db))))) = [True, False]"
  by code_simp

lemma run_synchronisation: "map mt_status (templates (db (snd (run_messaging synchronisation (messaging_idle messaging_db))))) = [TemplateApproved]"
  by code_simp

end
