(* ===== verification/MessagingProps.thy ===== *)
theory MessagingProps
  imports MessagingSamples
begin

text \<open>
  What holds along every history of the WhatsApp application, however its threads interleave: a location
  is mapped to an account it may use, templates are well-formed and decided once, opt-outs and audit rows stay, and
  merchants do not touch each other's rows.
\<close>

subsection \<open>Senders of locations\<close>

definition senders_mapped :: "mdb \<Rightarrow> bool" where
  "senders_mapped d \<longleftrightarrow> sender_keys d \<and> distinct (map sm_location (sender_maps d)) \<and>
     list_all (\<lambda>s. usable_sender d (sm_account s) (sm_merchant s)) (sender_maps d)"

lemma other_tables [simp]:
  "usable_sender (d\<lparr>sender_maps := v\<rparr>) i m = usable_sender d i m" "sender_keys (d\<lparr>sender_maps := v\<rparr>) = sender_keys d"
  "usable_sender (d\<lparr>templates := w\<rparr>) i m = usable_sender d i m" "sender_keys (d\<lparr>templates := w\<rparr>) = sender_keys d"
  "usable_sender (d\<lparr>signups := x\<rparr>) i m = usable_sender d i m" "sender_keys (d\<lparr>signups := x\<rparr>) = sender_keys d"
  "usable_sender (d\<lparr>m_customers := y\<rparr>) i m = usable_sender d i m" "sender_keys (d\<lparr>m_customers := y\<rparr>) = sender_keys d"
  "usable_sender (d\<lparr>m_audit := z\<rparr>) i m = usable_sender d i m" "sender_keys (d\<lparr>m_audit := z\<rparr>) = sender_keys d"
  by (simp_all add: usable_sender_def sender_keys_def)

lemma sender_keys_update:
  "find_sender d i = Some a \<Longrightarrow> sender_kept a (f a) \<Longrightarrow> sender_keys d \<Longrightarrow>
     sender_keys (d\<lparr>senders := update_first (\<lambda>a. wa_id a = i) f (senders d)\<rparr>)"
  by (auto simp: sender_keys_def sender_kept_def map_update_found intro: all_update_found)

lemma sender_keys_map:
  assumes "\<And>a. sender_kept a (f a)"
  shows "sender_keys (d\<lparr>senders := map_if P f (senders d)\<rparr>) = sender_keys d"
proof -
  have "wa_id (f a) = wa_id a" "(wa_type (f a) = SharedPool \<longleftrightarrow> wa_merchant (f a) = None) = (wa_type a = SharedPool \<longleftrightarrow> wa_merchant a = None)" for a
    using assms [of a] by (simp_all add: sender_kept_def)
  then show ?thesis by (simp add: sender_keys_def map_map_if all_map_if)
qed

lemma sender_keys_add:
  "find_sender d (wa_id a) = None \<Longrightarrow> wa_type a = SharedPool \<Longrightarrow> wa_merchant a = None \<Longrightarrow> sender_keys d \<Longrightarrow>
     sender_keys (d\<lparr>senders := senders d @ [a]\<rparr>)"
  by (auto simp: sender_keys_def first_None)

lemma usable_update:
  assumes "find_sender d i = Some a" "sender_kept a (f a)" "usable_by m a \<Longrightarrow> i = j \<Longrightarrow> usable_by m (f a)" "usable_sender d j m"
  shows "usable_sender (d\<lparr>senders := update_first (\<lambda>a. wa_id a = i) f (senders d)\<rparr>) j m"
proof (cases "i = j")
  case True
  from find_senderD [OF assms(1)] assms(2) have "wa_id (f a) = i" by (simp add: sender_kept_def)
  then have "first (\<lambda>a. wa_id a = i) (update_first (\<lambda>a. wa_id a = i) f (senders d)) = Some (f a)"
    by (rule first_update_first [OF assms(1)])
  with assms(1,3,4) True show ?thesis by (simp add: usable_sender_def)
next
  case False
  have "first (\<lambda>a. wa_id a = j) (update_first (\<lambda>a. wa_id a = i) f rows) = first (\<lambda>a. wa_id a = j) rows"
    if "first (\<lambda>a. wa_id a = i) rows = Some a" for rows
    using that False assms(2) by (induction rows) (auto simp: sender_kept_def split: if_splits)
  with assms show ?thesis by (simp add: usable_sender_def)
qed

definition mapping_sound :: "mdb \<Rightarrow> mdb \<Rightarrow> bool" where
  "mapping_sound d d' \<longleftrightarrow> senders_later d d' \<and> (senders_mapped d \<longrightarrow> senders_mapped d')"

interpretation mapped: messaging_frame mapping_sound "\<lambda>_. True"
proof unfold_locales
  fix a b c assume "mapping_sound a b" "mapping_sound b c"
  then show "mapping_sound a c" unfolding mapping_sound_def using senders_later_trans by blast
next
  fix a :: whatsapp_account and d assume n: "find_sender d (wa_id a) = None" and a: "wa_type a = SharedPool" "wa_merchant a = None"
  have "usable_sender d i m \<Longrightarrow> usable_sender (d\<lparr>senders := senders d @ [a]\<rparr>) i m" for i m
    by (cases "find_sender d i") (simp_all add: usable_sender_def first_append)
  with sender_keys_add [OF n a] show "mapping_sound d (d\<lparr>senders := senders d @ [a]\<rparr>)"
    by (auto simp: mapping_sound_def senders_later_add senders_mapped_def list_all_iff)
next
  fix d i a and f1 :: "whatsapp_account \<Rightarrow> whatsapp_account"
  assume f: "find_sender d i = Some a" and s: "sender_keys d \<Longrightarrow> wa_type a = SharedPool" and k: "sender_kept a (f1 a)"
  have "wa_type a = SharedPool \<Longrightarrow> usable_by m (f1 a)" for m using k by (simp add: usable_by_def sender_kept_def)
  then show "mapping_sound d (d\<lparr>senders := update_first (\<lambda>a. wa_id a = i) f1 (senders d)\<rparr>)"
    unfolding mapping_sound_def senders_mapped_def using senders_later_update [where f = f1, OF f k] sender_keys_update [where f = f1, OF f k] usable_update [where f = f1, OF f k] s
    by (auto simp: list_all_iff)
next
  fix d P2 and f2 :: "whatsapp_account \<Rightarrow> whatsapp_account" and m
  assume P: "\<And>a. P2 a \<Longrightarrow> sender_visible m a \<and> wa_status a = SenderPending" and k: "\<And>a. sender_kept a (f2 a)"
  have "P2 a \<Longrightarrow> usable_by n a \<Longrightarrow> usable_by n (f2 a)" for n a
    using P [of a] k [of a] by (auto simp: usable_by_def sender_kept_def)
  then have "usable_sender d i n \<Longrightarrow> usable_sender (d\<lparr>senders := map_if P2 f2 (senders d)\<rparr>) i n" for i n
    using k by (auto simp: usable_sender_def first_map_if sender_kept_def split: option.splits)
  then show "mapping_sound d (d\<lparr>senders := map_if P2 f2 (senders d)\<rparr>)"
    by (auto simp: mapping_sound_def senders_mapped_def list_all_iff sender_keys_map k senders_later_map)
next
  fix d m i a and f3 :: "whatsapp_account \<Rightarrow> whatsapp_account"
  assume f: "find_sender d i = Some a" and k: "sender_kept a (f3 a)"
    and o: "sender_keys d \<Longrightarrow> wa_type a = OwnNumber \<and> wa_merchant a = Some m \<and> \<not> list_ex (\<lambda>s. sm_merchant s = m \<and> sm_account s = i) (sender_maps d)"
  have "usable_sender (d\<lparr>senders := update_first (\<lambda>a. wa_id a = i) f3 (senders d)\<rparr>) (sm_account s) (sm_merchant s)"
    if "sender_keys d" "s \<in> set (sender_maps d)" "usable_sender d (sm_account s) (sm_merchant s)" for s
    by (rule usable_update [where f = f3, OF f k _ that(3)]) (use o [OF that(1)] that(2) in \<open>auto simp: usable_by_def list_ex_iff\<close>)
  then show "mapping_sound d (d\<lparr>senders := update_first (\<lambda>a. wa_id a = i) f3 (senders d)\<rparr>)"
    unfolding mapping_sound_def senders_mapped_def using senders_later_update [where f = f3, OF f k] sender_keys_update [where f = f3, OF f k] by (auto simp: list_all_iff)
next
  fix d m i l s and f4 :: "sender_mapping \<Rightarrow> sender_mapping"
  assume u: "sender_keys d \<Longrightarrow> usable_sender d i m"
    and f4: "\<And>s. sm_account (f4 s) = i \<and> sm_location (f4 s) = sm_location s \<and> sm_merchant (f4 s) = sm_merchant s"
    and s: "first (\<lambda>s. sm_merchant s = m \<and> sm_location s = l) (sender_maps d) = Some s"
  have "sm_merchant s = m" using first_SomeD [OF s] by simp
  with u f4 s show "mapping_sound d (d\<lparr>sender_maps := update_first (\<lambda>s. sm_merchant s = m \<and> sm_location s = l) f4 (sender_maps d)\<rparr>)"
    by (auto simp: mapping_sound_def senders_later_same senders_mapped_def map_update_found intro!: all_update_found)
next
  fix d P5 m
  show "mapping_sound d (d\<lparr>sender_maps := filter (\<lambda>s. \<not> (sm_merchant s = m \<and> P5 s)) (sender_maps d)\<rparr>)"
    by (auto simp: mapping_sound_def senders_later_same senders_mapped_def distinct_filter_map list_all_iff)
qed (auto simp: mapping_sound_def senders_later_same senders_mapped_def list_ex_iff)

subsection \<open>Templates\<close>

definition template_decided :: "message_template \<Rightarrow> bool" where
  "template_decided t \<longleftrightarrow> mt_status t = TemplateApproved \<longrightarrow> mt_provider_id t \<noteq> None"

definition templates_conform :: "mdb \<Rightarrow> bool" where
  "templates_conform d \<longleftrightarrow> list_all template_ok (templates d) \<and> list_all template_decided (templates d) \<and> template_keys d \<and>
     distinct (map (\<lambda>t. (mt_merchant t, mt_account t, mt_name t, mt_language t)) (templates d)) \<and>
     list_all (\<lambda>t. \<not> provider_id_taken d (mt_id t) (mt_provider_id t)) (templates d)"

definition templates_later :: "mdb \<Rightarrow> mdb \<Rightarrow> bool" where
  "templates_later d d' \<longleftrightarrow> senders_later d d' \<and> (templates_conform d \<longrightarrow> templates_conform d')"

lemma taken_none:
  "(\<And>t q. t \<in> set ts \<Longrightarrow> q \<in> set ts \<Longrightarrow> \<not> (mt_id q \<noteq> mt_id t \<and> mt_provider_id t \<noteq> None \<and> mt_provider_id q = mt_provider_id t)) \<Longrightarrow>
     list_all (\<lambda>t. \<not> provider_id_taken (d\<lparr>templates := ts\<rparr>) (mt_id t) (mt_provider_id t)) ts"
  by (simp add: provider_id_taken_def list_ex_iff list_all_iff) blast

lemma taken_update:
  assumes k: "template_keys d" and f: "first (\<lambda>y. mt_merchant y = m \<and> mt_id y = i) (templates d) = Some x"
    and y: "mt_id y = i" "\<not> provider_id_taken d i (mt_provider_id y)"
    and ok: "list_all (\<lambda>t. \<not> provider_id_taken d (mt_id t) (mt_provider_id t)) (templates d)"
  shows "list_all (\<lambda>t. \<not> provider_id_taken (d\<lparr>templates := update_first (\<lambda>y. mt_merchant y = m \<and> mt_id y = i) (\<lambda>_. y) (templates d)\<rparr>)
    (mt_id t) (mt_provider_id t)) (update_first (\<lambda>y. mt_merchant y = m \<and> mt_id y = i) (\<lambda>_. y) (templates d))"
proof -
  from update_first_split [OF f, of "\<lambda>_. y"] obtain us vs where s: "templates d = us @ x # vs" "mt_id x = i"
    "update_first (\<lambda>y. mt_merchant y = m \<and> mt_id y = i) (\<lambda>_. y) (templates d) = us @ y # vs" by blast
  let ?u = "us @ y # vs"
  have new: "t = y \<or> t \<in> set (templates d) \<and> mt_id t \<noteq> i" if "t \<in> set ?u" for t
    using that k s(1,2) by (auto simp: template_keys_def image_iff)
  have "\<not> (mt_id q \<noteq> mt_id t \<and> mt_provider_id t \<noteq> None \<and> mt_provider_id q = mt_provider_id t)" if "t \<in> set ?u" "q \<in> set ?u" for t q
    using new [OF that(1)] new [OF that(2)] y ok
    by (elim disjE conjE; simp add: provider_id_taken_def list_ex_iff list_all_iff; metis)
  then show ?thesis unfolding s(3) by (rule taken_none)
qed

lemma taken_map_if:
  assumes "\<And>x. mt_id (f x) = mt_id x \<and> mt_provider_id (f x) = mt_provider_id x"
  shows "provider_id_taken (d\<lparr>templates := map_if P f (templates d)\<rparr>) i p = provider_id_taken d i p"
proof -
  have "list_ex (\<lambda>q. mt_id q \<noteq> i \<and> mt_provider_id q = p) (map_if P f rows) = list_ex (\<lambda>q. mt_id q \<noteq> i \<and> mt_provider_id q = p) rows" for rows
    unfolding map_if_def by (induction rows) (auto simp: assms)
  then show ?thesis by (simp add: provider_id_taken_def)
qed

interpretation conforming_templates: messaging_frame templates_later "\<lambda>_. True"
proof unfold_locales
  fix a b c assume "templates_later a b" "templates_later b c"
  then show "templates_later a c" unfolding templates_later_def using senders_later_trans by blast
next
  fix d m i x y
  assume f: "first (\<lambda>y. mt_merchant y = m \<and> mt_id y = i) (templates d) = Some x" and c: "same_content x y" and o: "submission_outcome y"
    and n: "\<not> provider_id_taken d i (mt_provider_id y)"
  let ?u = "update_first (\<lambda>y. mt_merchant y = m \<and> mt_id y = i) (\<lambda>_. y) (templates d)"
  have x: "mt_id x = i" using first_SomeD [OF f] by simp
  have ok: "template_ok x \<Longrightarrow> template_ok y" "template_decided y" using c o
    by (auto simp: same_content_def template_ok_def template_decided_def submission_outcome_def)
  show "templates_later d (d\<lparr>templates := ?u\<rparr>)"
    unfolding templates_later_def templates_conform_def
  proof (intro conjI impI; (elim conjE)?)
    assume k: "template_keys d" and t: "list_all (\<lambda>t. \<not> provider_id_taken d (mt_id t) (mt_provider_id t)) (templates d)"
    show "list_all (\<lambda>t. \<not> provider_id_taken (d\<lparr>templates := ?u\<rparr>) (mt_id t) (mt_provider_id t)) (templates (d\<lparr>templates := ?u\<rparr>))"
      using taken_update [OF k f _ n t] c x by (simp add: same_content_def)
  qed (use f c ok in \<open>simp_all add: senders_later_same same_content_def template_keys_def map_update_found all_update_found\<close>)
next
  fix m st tm and d :: mdb and P6 :: "message_template \<Rightarrow> bool"
  assume st: "st \<noteq> TemplatePending" and P: "\<And>x. P6 x \<Longrightarrow> mt_status x = TemplatePending \<and> mt_provider_id x \<noteq> None"
  let ?f = "\<lambda>x :: message_template. x\<lparr>mt_status := st, mt_updated_at := tm\<rparr>"
  have "list_all template_decided (map_if (\<lambda>x. mt_merchant x = m \<and> P6 x) ?f rows)" if "list_all template_decided rows" for rows
    using that P by (auto simp: map_if_def list_all_iff template_decided_def)
  then show "templates_later d (d\<lparr>templates := map_if (\<lambda>x. mt_merchant x = m \<and> P6 x) ?f (templates d)\<rparr>)"
    by (simp add: templates_later_def senders_later_same templates_conform_def taken_map_if all_map_if template_ok_def template_keys_def map_map_if)
next
  fix t and d :: mdb
  assume "template_ok t" "mt_status t = TemplatePending" "mt_provider_id t = None"
    "\<not> list_ex (\<lambda>q. mt_id q = mt_id t \<or> same_template_key t q) (templates d)"
  then show "templates_later d (d\<lparr>templates := templates d @ [t]\<rparr>)"
    by (auto simp: templates_later_def senders_later_same templates_conform_def template_decided_def template_keys_def same_template_key_def
        provider_id_taken_def list_ex_iff list_all_iff)
next
  fix d :: mdb and a :: whatsapp_account
  show "templates_later d (d\<lparr>senders := senders d @ [a]\<rparr>)"
    by (simp add: templates_later_def senders_later_add templates_conform_def template_keys_def provider_id_taken_def)
qed (simp_all add: templates_later_def senders_later_same senders_later_update senders_later_map templates_conform_def template_keys_def provider_id_taken_def)

subsection \<open>What is never given back\<close>

definition template_step :: "message_template \<Rightarrow> message_template \<Rightarrow> bool" where
  "template_step t t' \<longleftrightarrow> same_content t t' \<and> (mt_provider_id t \<noteq> None \<longrightarrow> mt_provider_id t' = mt_provider_id t) \<and>
     (mt_status t \<noteq> TemplatePending \<longrightarrow> mt_status t' = mt_status t \<and> mt_provider_id t' = mt_provider_id t)"

definition opt_out_step :: "customer \<Rightarrow> customer \<Rightarrow> bool" where
  "opt_out_step c c' \<longleftrightarrow> c' = c \<or> \<not> cu_opted_out c \<and> cu_opted_out c' \<and> (\<exists>t. c' = customer_opted_out t c)"

definition messaging_later :: "mdb \<Rightarrow> mdb \<Rightarrow> bool" where
  "messaging_later d d' \<longleftrightarrow> senders_later d d' \<and> grown opt_out_step (m_customers d) (m_customers d') \<and> grown (=) (m_audit d) (m_audit d') \<and>
     (template_keys d \<longrightarrow> template_keys d' \<and> grown template_step (templates d) (templates d'))"

lemma ledger_step_refl [simp, intro]: "template_step t t" "opt_out_step c c"
  by (simp_all add: template_step_def same_content_def opt_out_step_def)

lemma ledger_step_trans:
  "template_step s t \<Longrightarrow> template_step t u \<Longrightarrow> template_step s u" "opt_out_step a b \<Longrightarrow> opt_out_step b c \<Longrightarrow> opt_out_step a c"
  by (auto simp: template_step_def same_content_def opt_out_step_def)

interpretation messaging_ledger: messaging_frame messaging_later "\<lambda>_. True"
proof unfold_locales
  fix a b c assume "messaging_later a b" "messaging_later b c"
  then show "messaging_later a c"
    unfolding messaging_later_def by (auto intro: senders_later_trans grown_trans ledger_step_trans simp: grown_eq)
next
  fix m i x y and d :: mdb
  assume f: "first (\<lambda>y. mt_merchant y = m \<and> mt_id y = i) (templates d) = Some x" and c: "same_content x y"
    and p: "template_keys d \<Longrightarrow> mt_status x = TemplatePending \<and> mt_provider_id x = None"
  then show "messaging_later d (d\<lparr>templates := update_first (\<lambda>y. mt_merchant y = m \<and> mt_id y = i) (\<lambda>_. y) (templates d)\<rparr>)"
    by (auto simp: messaging_later_def senders_later_same grown_refl template_keys_def map_update_found same_content_def template_step_def
        intro!: grown_update_first)
next
  fix m st tm and d :: mdb and P6 :: "message_template \<Rightarrow> bool"
  assume "st \<noteq> TemplatePending" "\<And>x. P6 x \<Longrightarrow> mt_status x = TemplatePending \<and> mt_provider_id x \<noteq> None"
  then show "messaging_later d (d\<lparr>templates := map_if (\<lambda>x. mt_merchant x = m \<and> P6 x) (\<lambda>x. x\<lparr>mt_status := st, mt_updated_at := tm\<rparr>) (templates d)\<rparr>)"
    by (auto simp: messaging_later_def senders_later_same grown_refl template_keys_def map_map_if same_content_def template_step_def
        intro!: grown_map_if)
next
  fix m tm and d :: mdb and P7 :: "customer \<Rightarrow> bool"
  assume "\<And>x. P7 x \<Longrightarrow> \<not> cu_opted_out x"
  then show "messaging_later d (d\<lparr>m_customers := map_if (\<lambda>x. cu_merchant x = m \<and> P7 x) (customer_opted_out tm) (m_customers d)\<rparr>)"
    by (auto simp: messaging_later_def senders_later_same grown_refl template_keys_def opt_out_step_def customer_opted_out_def
        intro!: grown_map_if)
next
  fix t and d :: mdb
  assume "\<not> list_ex (\<lambda>q. mt_id q = mt_id t \<or> same_template_key t q) (templates d)"
  then show "messaging_later d (d\<lparr>templates := templates d @ [t]\<rparr>)"
    by (auto simp: messaging_later_def senders_later_same grown_refl grown_add template_keys_def list_ex_iff)
next
  fix d :: mdb and a :: whatsapp_account
  show "messaging_later d (d\<lparr>senders := senders d @ [a]\<rparr>)"
    by (simp add: messaging_later_def senders_later_add grown_refl template_keys_def)
qed (simp_all add: messaging_later_def senders_later_same senders_later_update senders_later_map grown_refl grown_add template_keys_def)

subsection \<open>Isolation\<close>

definition messaging_rows_of :: "uuid \<Rightarrow> mdb \<Rightarrow> whatsapp_account list \<times> sender_mapping list \<times> message_template list \<times> signup_state list \<times>
    customer list \<times> audit_log list" where
  "messaging_rows_of m d = (filter (\<lambda>a. wa_merchant a = Some m) (senders d), filter (\<lambda>s. sm_merchant s = m) (sender_maps d),
     filter (\<lambda>t. mt_merchant t = m) (templates d), filter (\<lambda>s. es_merchant s = m) (signups d),
     filter (\<lambda>c. cu_merchant c = m) (m_customers d), filter (\<lambda>l. al_merchant l = Some m) (m_audit d))"

definition others_only :: "uuid \<Rightarrow> mdb \<Rightarrow> mdb \<Rightarrow> bool" where
  "others_only m d d' \<longleftrightarrow> senders_later d d' \<and> (sender_keys d \<longrightarrow> sender_keys d' \<and> messaging_rows_of m d' = messaging_rows_of m d)"

interpretation messaging_others: messaging_frame "others_only m" "\<lambda>c. merchant_var c \<noteq> Some m" for m
proof unfold_locales
  fix a b c assume "others_only m a b" "others_only m b c"
  then show "others_only m a c" unfolding others_only_def using senders_later_trans by auto
next
  fix d and a :: whatsapp_account
  assume "find_sender d (wa_id a) = None" "wa_type a = SharedPool" "wa_merchant a = None"
  then show "others_only m d (d\<lparr>senders := senders d @ [a]\<rparr>)"
    by (simp add: others_only_def senders_later_add sender_keys_add messaging_rows_of_def)
next
  fix d i a and f1 :: "whatsapp_account \<Rightarrow> whatsapp_account"
  assume f: "find_sender d i = Some a" and s: "sender_keys d \<Longrightarrow> wa_type a = SharedPool" and k: "sender_kept a (f1 a)"
  have "sender_keys d \<Longrightarrow> wa_merchant a = None" using s find_senderD [OF f] by (auto simp: sender_keys_def list_all_iff)
  then show "others_only m d (d\<lparr>senders := update_first (\<lambda>a. wa_id a = i) f1 (senders d)\<rparr>)"
    using senders_later_update [where f = f1, OF f k] sender_keys_update [where f = f1, OF f k] k filter_update_first [OF f]
    by (auto simp: others_only_def messaging_rows_of_def sender_kept_def)
next
  fix c P2 m' and d :: mdb and f2 :: "whatsapp_account \<Rightarrow> whatsapp_account"
  assume c: "merchant_var c \<noteq> Some m" "merchant_var c = Some m'" and P: "\<And>a. P2 a \<Longrightarrow> sender_visible m' a \<and> wa_status a = SenderPending"
    and k: "\<And>a. sender_kept a (f2 a)"
  have "filter (\<lambda>a. wa_merchant a = Some m) (map_if P2 f2 (senders d)) = filter (\<lambda>a. wa_merchant a = Some m) (senders d)"
    by (rule filter_map_if, drule P) (use c k in \<open>auto simp: sender_visible_def sender_kept_def\<close>)
  then show "others_only m d (d\<lparr>senders := map_if P2 f2 (senders d)\<rparr>)"
    by (simp add: others_only_def senders_later_map sender_keys_map k messaging_rows_of_def)
next
  fix c m' i a and d :: mdb and f3 :: "whatsapp_account \<Rightarrow> whatsapp_account"
  assume c: "merchant_var c \<noteq> Some m" "merchant_var c = Some m'" and f: "find_sender d i = Some a" and k: "sender_kept a (f3 a)"
    and o: "sender_keys d \<Longrightarrow> wa_type a = OwnNumber \<and> wa_merchant a = Some m' \<and> \<not> list_ex (\<lambda>s. sm_merchant s = m' \<and> sm_account s = i) (sender_maps d)"
  show "others_only m d (d\<lparr>senders := update_first (\<lambda>a. wa_id a = i) f3 (senders d)\<rparr>)"
    using senders_later_update [where f = f3, OF f k] sender_keys_update [where f = f3, OF f k] k filter_update_first [OF f] o c
    by (auto simp: others_only_def messaging_rows_of_def sender_kept_def)
next
  fix c m' i l s and d :: mdb and f4 :: "sender_mapping \<Rightarrow> sender_mapping"
  assume c: "merchant_var c \<noteq> Some m" "merchant_var c = Some m'"
    and f4: "\<And>s. sm_account (f4 s) = i \<and> sm_location (f4 s) = sm_location s \<and> sm_merchant (f4 s) = sm_merchant s"
    and s: "first (\<lambda>s. sm_merchant s = m' \<and> sm_location s = l) (sender_maps d) = Some s"
  have "filter (\<lambda>s. sm_merchant s = m) (update_first (\<lambda>s. sm_merchant s = m' \<and> sm_location s = l) f4 (sender_maps d)) =
      filter (\<lambda>s. sm_merchant s = m) (sender_maps d)"
    by (rule filter_update_first [OF s]) (use c f4 first_SomeD [OF s] in auto)
  then show "others_only m d (d\<lparr>sender_maps := update_first (\<lambda>s. sm_merchant s = m' \<and> sm_location s = l) f4 (sender_maps d)\<rparr>)"
    by (simp add: others_only_def senders_later_same messaging_rows_of_def)
next
  fix c m' i x y and d :: mdb
  assume c: "merchant_var c \<noteq> Some m" "merchant_var c = Some m'" and f: "first (\<lambda>y. mt_merchant y = m' \<and> mt_id y = i) (templates d) = Some x"
    and k: "same_content x y"
  have "filter (\<lambda>t. mt_merchant t = m) (update_first (\<lambda>y. mt_merchant y = m' \<and> mt_id y = i) (\<lambda>_. y) (templates d)) =
      filter (\<lambda>t. mt_merchant t = m) (templates d)"
    by (rule filter_update_first [OF f]) (use c k first_SomeD [OF f] in \<open>auto simp: same_content_def\<close>)
  then show "others_only m d (d\<lparr>templates := update_first (\<lambda>y. mt_merchant y = m' \<and> mt_id y = i) (\<lambda>_. y) (templates d)\<rparr>)"
    by (simp add: others_only_def senders_later_same messaging_rows_of_def)
qed (auto simp: others_only_def senders_later_same messaging_rows_of_def customer_opted_out_def intro!: filter_cong [OF refl] filter_map_if)

subsection \<open>The properties\<close>

abbreviation messaging_history :: "(messaging_entry \<Rightarrow> bool) \<Rightarrow> mdb \<Rightarrow> mdb \<Rightarrow> bool" where
  "messaging_history \<equiv> history run_messaging"

lemma messaging_sample:
  "\<exists>d'. messaging_history (\<lambda>x. x = e) messaging_db d' \<and> d' = db (snd (run_messaging e (messaging_idle messaging_db)))"
proof -
  let ?w = "messaging_idle messaging_db"
  obtain r w' where run: "run_messaging e ?w = (r, w')" by fastforce
  have "messaging_history (\<lambda>x. x = e) (db ?w) (db w')"
    by (rule history_alone [where run = run_messaging and entry = e and w = ?w and r = r]) (simp_all add: run)
  then show ?thesis by (simp add: run)
qed

lemma sample_keys: "sender_keys messaging_db"
  by code_simp

lemma sample_mapped: "senders_mapped messaging_db"
  by code_simp

lemma sample_templates: "templates_conform messaging_db"
  by code_simp

text \<open>
  C18: A location never sends from an account it may not use: along every history of sender changes, disconnections, activations
  and configurations of the shared number, however they interleave, every mapped account exists and is either the shared one or an own
  number of the location's merchant that is active. In particular a number that is being disconnected is not mapped at the same time.
\<close>

theorem sender_mapping_sound:
  assumes "messaging_history A d d'" "senders_mapped d"
  shows "senders_mapped d'"
  using mapped.history_respects [OF assms(1)] mapped.frames_messaging_entry assms(2) by (auto simp: mapping_sound_def)

theorem sender_mapping_sound_witness:
  "\<exists>d'. senders_mapped d' \<and> map sm_account (sender_maps d') = [''a0'', ''a1'']"
proof -
  obtain d' where d': "messaging_history (\<lambda>x. x = own_sender) messaging_db d'" "d' = db (snd (run_messaging own_sender (messaging_idle messaging_db)))"
    using messaging_sample by blast
  from sender_mapping_sound [OF d'(1) sample_mapped] d'(2) run_own_sender show ?thesis by (auto simp: Let_def)
qed

text \<open>
  The template table stays well-typed along every history of creations, submissions and synchronisations: names are
  trimmed, not empty and fit their column; bodies use only the standard placeholders, well-formed, and name the business;
  an approved template has a provider id; no two templates of a merchant share account, name and language, and no two share a provider id.
\<close>

theorem templates_typed:
  assumes "messaging_history A d d'" "templates_conform d"
  shows "templates_conform d'"
  using conforming_templates.history_respects [OF assms(1)] conforming_templates.frames_messaging_entry assms(2)
  by (auto simp: templates_later_def)

theorem templates_typed_witness:
  "\<exists>d'. templates_conform d' \<and> map mt_status (templates d') = [TemplateApproved]"
proof -
  obtain d' where d': "messaging_history (\<lambda>x. x = synchronisation) messaging_db d'"
      "d' = db (snd (run_messaging synchronisation (messaging_idle messaging_db)))"
    using messaging_sample by blast
  from templates_typed [OF d'(1) sample_templates] d'(2) run_synchronisation show ?thesis by auto
qed

text \<open>
  C22: What is never given back. Along every history of the WhatsApp application a customer who has opted out stays opted out,
  with the time of the first STOP; a template keeps its content, leaves \<open>PENDING\<close> at most once and keeps the provider id it was given;
  accounts keep their type and merchant; and no audit row is changed or deleted.
\<close>

theorem messaging_ledgers:
  assumes "messaging_history A d d'"
  shows "messaging_later d d'"
  using messaging_ledger.history_respects [OF assms] messaging_ledger.frames_messaging_entry by blast

theorem messaging_ledgers_witness:
  "\<exists>d'. messaging_later messaging_db d' \<and> map cu_opted_out (m_customers d') = [True, False]"
proof -
  obtain d' where d': "messaging_history (\<lambda>x. x = stop_received) messaging_db d'"
      "d' = db (snd (run_messaging stop_received (messaging_idle messaging_db)))"
    using messaging_sample by blast
  from messaging_ledgers [OF d'(1)] d'(2) run_stop show ?thesis by auto
qed

text \<open>
  Requests and tasks of other merchants never change an account, a sender mapping, a template, a signup state, a customer or
  an audit row of merchant \<open>m\<close>, after any history of them, although the shared account is visible to all.
\<close>

theorem messaging_isolation:
  assumes "messaging_history (\<lambda>e. \<exists>m'. messaging_merchant e = Some m' \<and> m' \<noteq> m) d d'" "sender_keys d"
  shows "messaging_rows_of m d' = messaging_rows_of m d"
proof -
  have "others_only m d d'"
  proof (rule messaging_others.history_respects [OF assms(1)])
    fix e assume "\<exists>m'. messaging_merchant e = Some m' \<and> m' \<noteq> m"
    then obtain m' where e: "messaging_merchant e = Some m'" "m' \<noteq> m" by blast
    show "frames (others_only m) (\<lambda>_. True) (run_messaging e)"
      by (rule messaging_others.frames_merchant_messaging [OF e(1)]) (simp add: e(2))
  qed
  with assms(2) show ?thesis by (simp add: others_only_def)
qed

theorem messaging_isolation_witness:
  "\<exists>d'. messaging_rows_of ''m2'' d' = messaging_rows_of ''m2'' messaging_db \<and> length (m_audit d') = 1"
proof -
  obtain d' where d': "messaging_history (\<lambda>x. x = own_sender) messaging_db d'" "d' = db (snd (run_messaging own_sender (messaging_idle messaging_db)))"
    using messaging_sample by blast
  have "messaging_history (\<lambda>e. \<exists>m'. messaging_merchant e = Some m' \<and> m' \<noteq> ''m2'') messaging_db d'"
    by (rule history_mono [OF d'(1)]) (simp add: own_sender_def)
  from messaging_isolation [OF this sample_keys] d'(2) run_own_sender show ?thesis by (auto simp: Let_def)
qed

end
