(* ===== verification/StopProps.thy ===== *)
theory StopProps
  imports MessagingSamples
begin

text \<open>
  What happens to a STOP: which deliveries of Meta are believed, what they publish, and what the fan-out task has
  done when it ends, whatever outages of broker and database it meets.
\<close>

subsection \<open>The delivery\<close>

definition fan_out_of :: "string \<times> string \<Rightarrow> mtask" where
  "fan_out_of = (\<lambda>(number, phone). FanOutOptOut number phone None 0)"

lemma run_publish_or_503:
  "publish_or_503 p w = (if broker_up w (broker_n w) then (Inr (), w\<lparr>broker_n := Suc (broker_n w), queue := queue w @ [fan_out_of p]\<rparr>)
     else (Inl (App WebhookEnqueueFailed), w\<lparr>broker_n := Suc (broker_n w)\<rparr>))"
  by (simp add: publish_or_503_def publish_opt_out_fan_out_def publish_def fan_out_of_def catchM_def Let_def split: prod.split)

lemma run_publish_all:
  "\<exists>n\<le>length pairs. \<exists>k. forM pairs publish_or_503 w = (if n = length pairs then Inr () else Inl (App WebhookEnqueueFailed),
       w\<lparr>broker_n := k, queue := queue w @ map fan_out_of (take n pairs)\<rparr>) \<and>
     (n < length pairs \<longrightarrow> \<not> broker_up w (broker_n w + n))"
proof (induction pairs arbitrary: w)
  case Nil
  show ?case by (rule exI [of _ 0]) (auto intro!: exI [of _ "broker_n w"])
next
  case (Cons p pairs)
  show ?case
  proof (cases "broker_up w (broker_n w)")
    case False
    then show ?thesis by (intro exI [of _ 0]) (auto simp: run_seq run_publish_or_503 [of p w])
  next
    case True
    let ?v = "w\<lparr>broker_n := Suc (broker_n w), queue := queue w @ [fan_out_of p]\<rparr>"
    from Cons.IH [of ?v] obtain n k where "n \<le> length pairs" "n < length pairs \<longrightarrow> \<not> broker_up ?v (broker_n ?v + n)"
      "forM pairs publish_or_503 ?v = (if n = length pairs then Inr () else Inl (App WebhookEnqueueFailed),
         ?v\<lparr>broker_n := k, queue := queue ?v @ map fan_out_of (take n pairs)\<rparr>)" by blast
    with True show ?thesis by (intro exI [of _ "Suc n"]) (auto simp: run_seq run_publish_or_503 [of p w])
  qed
qed

lemma verify_meta_signature_iff:
  "verify_meta_signature c raw signature \<longleftrightarrow> meta_app_secret c \<noteq> [] \<and>
     signature = Some (''sha256='' @ hexdigest (hmac_sha256 (utf8 (meta_app_secret c)) (text_bytes raw)))"
proof (cases signature)
  case (Some s)
  let ?x = "hexdigest (hmac_sha256 (utf8 (meta_app_secret c)) (text_bytes raw))"
  have "?x \<noteq> []" using hexdigest_length [of "hmac_sha256 (utf8 (meta_app_secret c)) (text_bytes raw)"] by fastforce
  then have v: "verify_meta_signature c raw signature \<longleftrightarrow> meta_app_secret c \<noteq> [] \<and> take 7 s = SIGNATURE_PREFIX \<and> drop 7 s = ?x"
    by (auto simp: Some verify_meta_signature_def verify_hmac_sha256_def Let_def)
  have "length SIGNATURE_PREFIX = 7" by (simp add: SIGNATURE_PREFIX_def)
  then have "take 7 s = SIGNATURE_PREFIX \<and> drop 7 s = ?x \<longleftrightarrow> s = SIGNATURE_PREFIX @ ?x"
    by (metis append_eq_conv_conj append_take_drop_id)
  with v show ?thesis unfolding Some SIGNATURE_PREFIX_def option.inject by blast
qed (simp add: verify_meta_signature_def)

text \<open>The messages of a delivery, and who asks to be left alone.\<close>

definition delivered :: "pylib \<Rightarrow> string \<Rightarrow> inbound_message list" where
  "delivered lib raw = (case loads lib raw of None \<Rightarrow> [] | Some payload \<Rightarrow> if is_dict payload then parse_inbound_webhook payload else [])"

definition asks_to_stop :: "messaging_settings \<Rightarrow> inbound_message \<Rightarrow> string \<Rightarrow> bool" where
  "asks_to_stop c msg phone \<longleftrightarrow> is_keyword c (im_text msg) \<and> phone = CHR 0x2B # lstrip_plus (im_from msg) \<and> (\<exists>p. validate_e164 phone = Inr p)"

lemma opt_out_pair_iff: "opt_out_pair c msg = Some (number, phone) \<longleftrightarrow> number = im_phone_number_id msg \<and> asks_to_stop c msg phone"
  by (auto simp: opt_out_pair_def asks_to_stop_def Let_def split: sum.splits)

lemma parse_inbound_opt_outs_spec:
  assumes "verify_meta_signature c raw signature"
  shows "\<exists>pairs. parse_inbound_opt_outs lib c raw signature = Inr pairs \<and> distinct pairs \<and>
    set pairs = {(im_phone_number_id msg, phone) | msg phone. msg \<in> set (delivered lib raw) \<and> asks_to_stop c msg phone}"
proof -
  have "set (List.map_filter (opt_out_pair c) ms) = {(im_phone_number_id msg, phone) | msg phone. msg \<in> set ms \<and> asks_to_stop c msg phone}" for ms
  proof -
    have "set (List.map_filter (opt_out_pair c) ms) = {x. \<exists>msg\<in>set ms. opt_out_pair c msg = Some x}"
      by (induction ms) (auto simp: List.map_filter_simps split: option.splits)
    then show ?thesis using opt_out_pair_iff by auto
  qed
  with assms show ?thesis
    by (auto simp: parse_inbound_opt_outs_def delivered_def split: option.split)
qed

text \<open>
  C20: A webhook delivery from Meta is believed only with the HMAC of its exact body under the application's secret; anything
  else is answered 401 and changes nothing. A believed delivery publishes one fan-out for every pair of a number and a phone that sent
  a stop keyword to it, none twice and none for any other message, and is answered 200; if the broker fails, what was published is a
  prefix, and the answer is 503, so that Meta delivers again. The database is never touched in the request.
\<close>

theorem stop_delivery_exact:
  assumes "meta_webhook_post raw signature w = (r, w')"
  shows "if meta_app_secret (m_cfg w) \<noteq> [] \<and>
       signature = Some (''sha256='' @ hexdigest (hmac_sha256 (utf8 (meta_app_secret (m_cfg w))) (text_bytes raw)))
     then db w' = db w \<and> (\<exists>pairs n. distinct pairs \<and>
       set pairs = {(im_phone_number_id msg, phone) | msg phone. msg \<in> set (delivered (m_lib w) raw) \<and> asks_to_stop (m_cfg w) msg phone} \<and>
       queue w' = queue w @ map fan_out_of (take n pairs) \<and>
       (if n = length pairs then r = Inr (SenderAnswer 200 ())
        else n < length pairs \<and> \<not> broker_up w (broker_n w + n) \<and> r = Inr (SenderFailure 503 ''service_unavailable'')))
     else r = Inr (SenderFailure 401 ''invalid_signature'') \<and> w' = w"
proof (cases "verify_meta_signature (m_cfg w) raw signature")
  case False
  then have "receive_meta_webhook raw signature w = (Inl (App MetaSignatureInvalid), w)"
    by (simp add: receive_meta_webhook_def run_bind parse_inbound_opt_outs_def liftE_def)
  with assms have "r = Inr (SenderFailure 401 ''invalid_signature'') \<and> w' = w"
    by (simp add: meta_webhook_post_def messaging_respond_def catchM_def run_bind)
  then show ?thesis unfolding if_not_P [OF False [unfolded verify_meta_signature_iff]] .
next
  case True
  then obtain pairs where p: "parse_inbound_opt_outs (m_lib w) (m_cfg w) raw signature = Inr pairs" "distinct pairs"
    "set pairs = {(im_phone_number_id msg, phone) | msg phone. msg \<in> set (delivered (m_lib w) raw) \<and> asks_to_stop (m_cfg w) msg phone}"
    using parse_inbound_opt_outs_spec by blast
  obtain n k where n: "n \<le> length pairs" "n < length pairs \<longrightarrow> \<not> broker_up w (broker_n w + n)"
    "forM pairs publish_or_503 w = (if n = length pairs then Inr () else Inl (App WebhookEnqueueFailed),
       w\<lparr>broker_n := k, queue := queue w @ map fan_out_of (take n pairs)\<rparr>)" using run_publish_all by blast
  have "receive_meta_webhook raw signature w = forM pairs publish_or_503 w"
    by (simp add: receive_meta_webhook_def run_bind p(1) liftE_def)
  with n(3) assms have "db w' = db w" "queue w' = queue w @ map fan_out_of (take n pairs)"
    "r = (if n = length pairs then Inr (SenderAnswer 200 ()) else Inr (SenderFailure 503 ''service_unavailable''))"
    by (auto simp: meta_webhook_post_def messaging_respond_def catchM_def run_bind split: if_splits)
  with n(1,2) p(2,3) show ?thesis
    unfolding if_P [OF True [unfolded verify_meta_signature_iff]] by (intro conjI exI [of _ pairs] exI [of _ n]) simp_all
qed

text \<open>A signed delivery with a STOP; its digest is left symbolic.\<close>

definition stop_payload :: json where
  "stop_payload = JObj [(''entry'', JArr [JObj [(''changes'', JArr [JObj [(''value'', JObj [
     (''metadata'', JObj [(''phone_number_id'', JStr ''101'')]),
     (''messages'', JArr [JObj [(''from'', JStr ''15550001111''), (''type'', JStr ''text''),
        (''text'', JObj [(''body'', JStr '' STOP '')])]])])]])]])]"

definition stop_world :: messaging_world where
  "stop_world = (messaging_idle messaging_db)\<lparr>m_lib := messaging_lib\<lparr>loads := (\<lambda>_. Some stop_payload)\<rparr>\<rparr>"

definition stop_signature :: "string option" where
  "stop_signature = Some (''sha256='' @ hexdigest (hmac_sha256 (utf8 ''secret'') (text_bytes ''body'')))"

lemma stop_parsed: "parse_inbound_webhook stop_payload = [\<lparr>im_phone_number_id = ''101'', im_from = ''15550001111'', im_text = Some '' STOP ''\<rparr>]"
  by code_simp

lemma stop_pair: "opt_out_pair messaging_cfg \<lparr>im_phone_number_id = ''101'', im_from = ''15550001111'', im_text = Some '' STOP ''\<rparr> =
    Some (''101'', ''+15550001111'')"
  by code_simp

theorem stop_delivery_exact_witness:
  "queue (snd (meta_webhook_post ''body'' stop_signature stop_world)) = [FanOutOptOut ''101'' ''+15550001111'' None 0]"
proof -
  obtain r w' where run: "meta_webhook_post ''body'' stop_signature stop_world = (r, w')" by fastforce
  have c: "m_cfg stop_world = messaging_cfg" "queue stop_world = []" "broker_up stop_world = (\<lambda>_. True)"
    by (simp_all add: stop_world_def messaging_idle_def)
  have b: "meta_app_secret messaging_cfg \<noteq> [] \<and> stop_signature =
      Some (''sha256='' @ hexdigest (hmac_sha256 (utf8 (meta_app_secret messaging_cfg)) (text_bytes ''body'')))"
    by (simp add: messaging_cfg_def stop_signature_def)
  have d: "delivered (m_lib stop_world) ''body'' = [\<lparr>im_phone_number_id = ''101'', im_from = ''15550001111'', im_text = Some '' STOP ''\<rparr>]"
    unfolding stop_parsed [symmetric] by (simp add: delivered_def stop_world_def messaging_idle_def) (simp add: stop_payload_def)
  have asks: "asks_to_stop messaging_cfg \<lparr>im_phone_number_id = ''101'', im_from = ''15550001111'', im_text = Some '' STOP ''\<rparr> phone \<longleftrightarrow>
      phone = ''+15550001111''" for phone
    using opt_out_pair_iff [of messaging_cfg "\<lparr>im_phone_number_id = ''101'', im_from = ''15550001111'', im_text = Some '' STOP ''\<rparr>" "''101''" phone]
    unfolding stop_pair by auto
  from stop_delivery_exact [OF run, unfolded c, unfolded if_P [OF b] d] obtain pairs where
    p: "distinct pairs" "set pairs = {(''101'', ''+15550001111'')}" "queue w' = map fan_out_of pairs"
    using asks by (auto split: if_splits)
  then have "pairs = [(''101'', ''+15550001111'')]"
    by (cases pairs; cases "tl pairs") auto
  with p(3) run show ?thesis by (simp add: fan_out_of_def)
qed

subsection \<open>The fan-out\<close>

text \<open>Whom a STOP to a number concerns: the specification the task is compared with.\<close>

definition shared_number :: "mdb \<Rightarrow> string \<Rightarrow> bool" where
  "shared_number d p \<longleftrightarrow> list_ex (\<lambda>a. wa_type a = SharedPool \<and> wa_merchant a = None \<and> wa_provider a = META_CLOUD \<and> wa_phone a = p) (senders d)"

definition concerned :: "mdb \<Rightarrow> string \<Rightarrow> uuid list" where
  "concerned d p = (if shared_number d p then map fst (filter (\<lambda>(i, s). s \<noteq> MDeleted) (m_merchants d))
     else if \<not> is_valid_phone_number_id p then []
     else (case filter (\<lambda>a. wa_type a = OwnNumber \<and> wa_provider a = META_CLOUD \<and> wa_phone a = p) (senders d) of
       [a] \<Rightarrow> (case wa_merchant a of None \<Rightarrow> [] | Some m \<Rightarrow> [m]) | _ \<Rightarrow> []))"

definition uses_shared :: "mdb \<Rightarrow> uuid \<Rightarrow> bool" where
  "uses_shared d m \<longleftrightarrow> list_ex (\<lambda>s. sm_merchant s = m \<and>
     (case find_sender d (sm_account s) of None \<Rightarrow> False | Some a \<Rightarrow> wa_type a = SharedPool)) (sender_maps d)"

definition silenced :: "mdb \<Rightarrow> string \<Rightarrow> uuid \<Rightarrow> bool" where
  "silenced d phone m \<longleftrightarrow> list_all (\<lambda>c. cu_merchant c = m \<and> cu_phone c = phone \<longrightarrow> cu_opted_out c) (m_customers d)"

text \<open>What a step of the fan-out leaves alone.\<close>

definition fan_out_step :: "messaging_world \<Rightarrow> messaging_world \<Rightarrow> bool" where
  "fan_out_step w w' \<longleftrightarrow> alone w' \<and> queue w' = queue w \<and> broker_up w' = broker_up w \<and> broker_n w' = broker_n w \<and> alerts w' = alerts w \<and>
     db_up w' = db_up w \<and> senders (db w') = senders (db w) \<and> sender_maps (db w') = sender_maps (db w) \<and> m_merchants (db w') = m_merchants (db w) \<and>
     (\<forall>phone m. silenced (db w) phone m \<longrightarrow> silenced (db w') phone m)"

lemma fan_out_step_trans: "fan_out_step w v \<Longrightarrow> fan_out_step v u \<Longrightarrow> fan_out_step w u"
  by (auto simp: fan_out_step_def)

lemma alone_messaging [simp]: "alone (w\<lparr>db_n := n\<rparr>) = alone (w :: messaging_world)"
  by (simp add: alone_def fresh_thread_def quiet_def)

lemma alone_autocommit: "alone w \<Longrightarrow> autocommit w = (Inr (), w\<lparr>env_n := Suc (env_n w)\<rparr>)"
  by (simp add: autocommit_def alone_def fresh_thread_def interfere_quiet)

lemma run_own_number:
  assumes "alone w"
  shows "\<exists>k. own_number_merchant_id p w = (Inr (if \<not> is_valid_phone_number_id p then None
     else (case filter (\<lambda>a. wa_type a = OwnNumber \<and> wa_provider a = META_CLOUD \<and> wa_phone a = p) (senders (db w)) of
       [a] \<Rightarrow> wa_merchant a | _ \<Rightarrow> None)), w\<lparr>env_n := k\<rparr>)"
proof (cases "is_valid_phone_number_id p")
  case True
  have "whatsapp_number_lookup_atomic p (for_lookup_phone_number_id p) w =
    (Inr (filter (\<lambda>a. wa_type a = OwnNumber \<and> wa_provider a = META_CLOUD \<and> wa_phone a = p) (senders (db w))), w\<lparr>env_n := Suc (env_n w)\<rparr>)"
    unfolding whatsapp_number_lookup_atomic_def
    by (rule run_lookup [where valid = is_valid_phone_number_id, OF assms True])
      (auto simp: no_vars_def for_lookup_phone_number_id_def sender_selectable_def intro!: filter_cong)
  with True show ?thesis by (auto simp: own_number_merchant_id_def run_bind)
next
  case False
  then show ?thesis by (auto simp: own_number_merchant_id_def intro!: exI [of _ "env_n w"])
qed

lemma run_resolve_targets:
  assumes "alone w"
  shows "\<exists>k. resolve_inbound_opt_out_targets p w =
    (if db_up w (db_n w) then Inr (shared_number (db w) p, concerned (db w) p) else Inl DatabaseErr, w\<lparr>db_n := Suc (db_n w), env_n := k\<rparr>)"
proof (cases "db_up w (db_n w)")
  case True
  let ?w = "w\<lparr>db_n := Suc (db_n w), env_n := Suc (env_n w)\<rparr>"
  have s: "is_shared_pool_number p (w\<lparr>db_n := Suc (db_n w)\<rparr>) = (Inr (shared_number (db w) p), ?w)"
    using assms by (auto simp: alone_autocommit is_shared_pool_number_def shared_pool_def run_bind run_seq shared_number_def filter_empty_conv list_ex_iff)
  have a: "alone ?w" using assms by simp
  have m: "active_merchant_ids ?w = (Inr (map fst (filter (\<lambda>(i, s). s \<noteq> MDeleted) (m_merchants (db w)))), ?w\<lparr>env_n := Suc (env_n ?w)\<rparr>)"
    by (simp add: active_merchant_ids_def run_seq alone_autocommit [OF a])
  from run_own_number [OF a, of p] obtain k where o: "own_number_merchant_id p ?w = (Inr (if \<not> is_valid_phone_number_id p then None
     else (case filter (\<lambda>a. wa_type a = OwnNumber \<and> wa_provider a = META_CLOUD \<and> wa_phone a = p) (senders (db ?w)) of
       [a] \<Rightarrow> wa_merchant a | _ \<Rightarrow> None)), ?w\<lparr>env_n := k\<rparr>)" by blast
  show ?thesis
    using True by (auto simp: resolve_inbound_opt_out_targets_def run_seq run_bind reach_database_def s m o concerned_def split: list.split option.split)
qed (auto simp: resolve_inbound_opt_out_targets_def run_seq reach_database_def intro!: exI [of _ "env_n w"])

lemma run_shared_opt_out_applies:
  "in_tx m w \<Longrightarrow> shared_opt_out_applies phone w =
     (Inr (list_ex (\<lambda>c. cu_merchant c = m \<and> cu_phone c = phone) (m_customers (db w)) \<and> uses_shared (db w) m), w)"
  by (auto simp: shared_opt_out_applies_def get_current_merchant_id_def run_bind in_tx_def tenant_rows_def in_tenant_def uses_shared_def
      filter_empty_conv list_ex_iff)

lemma run_opt_out_phone:
  assumes "in_tx m w"
  shows "\<exists>k. opt_out_phone phone w = (Inr (), w\<lparr>ticks := Suc (ticks w), env_n := k, db := (db w)\<lparr>m_customers :=
    map_if (\<lambda>c. cu_merchant c = m \<and> cu_phone c = phone \<and> \<not> cu_opted_out c) (customer_opted_out (clock w (ticks w))) (m_customers (db w))\<rparr>\<rparr>)"
proof -
  let ?v = "w\<lparr>saves := db w # saves w, ticks := Suc (ticks w)\<rparr>"
  have i: "in_tx m ?v" using in_tx_nested [OF assms] by simp
  then have j: "in_tx m (?v\<lparr>env_n := k\<rparr>)" for k by simp
  show ?thesis
    unfolding opt_out_phone_def run_nested [OF assms]
    by (simp add: run_bind run_now tick_def update_phone_def run_seq run_wait [OF i] run_in_tenant [OF j]) (rule exI, rule refl)
qed

lemma all_map_ifI:
  "(\<And>r. r \<in> set rows \<Longrightarrow> P r \<Longrightarrow> Q (f r)) \<Longrightarrow> (\<And>r. r \<in> set rows \<Longrightarrow> \<not> P r \<Longrightarrow> Q r) \<Longrightarrow> list_all Q (map_if P f rows)"
  unfolding map_if_def by (auto simp: list_all_iff)

lemma silenced_map:
  "silenced (d\<lparr>m_customers := map_if (\<lambda>c. cu_merchant c = m \<and> cu_phone c = phone \<and> \<not> cu_opted_out c) (customer_opted_out t) (m_customers d)\<rparr>) phone m"
  "silenced d phone' m' \<Longrightarrow>
     silenced (d\<lparr>m_customers := map_if (\<lambda>c. cu_merchant c = m \<and> cu_phone c = phone \<and> \<not> cu_opted_out c) (customer_opted_out t) (m_customers d)\<rparr>) phone' m'"
proof -
  let ?u = "map_if (\<lambda>c. cu_merchant c = m \<and> cu_phone c = phone \<and> \<not> cu_opted_out c) (customer_opted_out t) (m_customers d)"
  have "list_all (\<lambda>c. cu_merchant c = m \<and> cu_phone c = phone \<longrightarrow> cu_opted_out c) ?u"
    by (rule all_map_ifI) (simp_all add: customer_opted_out_def)
  then show "silenced (d\<lparr>m_customers := ?u\<rparr>) phone m" by (simp add: silenced_def)
  assume "silenced d phone' m'"
  then have "list_all (\<lambda>c. cu_merchant c = m' \<and> cu_phone c = phone' \<longrightarrow> cu_opted_out c) ?u"
    by (intro all_map_ifI) (simp_all add: silenced_def customer_opted_out_def list_all_iff)
  then show "silenced (d\<lparr>m_customers := ?u\<rparr>) phone' m'" by (simp add: silenced_def)
qed

lemma fan_out_step_left:
  assumes "alone w"
  shows "fan_out_step w (left ((entered m (w\<lparr>db_n := n\<rparr>))\<lparr>ticks := t, env_n := k, db := (db w)\<lparr>m_customers :=
      map_if (\<lambda>c. cu_merchant c = m \<and> cu_phone c = phone \<and> \<not> cu_opted_out c) (customer_opted_out now') (m_customers (db w))\<rparr>\<rparr>))"
    "fan_out_step w (left (entered m (w\<lparr>db_n := n\<rparr>)))"
  using assms by (auto simp: fan_out_step_def left_def entered_def alone_def fresh_thread_def quiet_def no_vars_def silenced_map)

lemma run_opt_out_inbound:
  assumes "alone w"
  shows "\<exists>w'. opt_out_inbound_for_merchant m phone shared w = (if db_up w (db_n w) then Inr () else Inl DatabaseErr, w') \<and> fan_out_step w w' \<and>
    (db_up w (db_n w) \<longrightarrow> (shared \<longrightarrow> uses_shared (db w) m) \<longrightarrow> silenced (db w') phone m)"
proof (cases "db_up w (db_n w)")
  case True
  let ?u = "w\<lparr>db_n := Suc (db_n w)\<rparr>" and ?e = "entered m (w\<lparr>db_n := Suc (db_n w)\<rparr>)"
  have u: "alone ?u" using assms by simp
  have tx: "in_tx m ?e" using u by simp
  let ?a = "shared \<longrightarrow> list_ex (\<lambda>c. cu_merchant c = m \<and> cu_phone c = phone) (m_customers (db w)) \<and> uses_shared (db w) m"
  have ap: "(if shared then shared_opt_out_applies phone else ret True) ?e = (Inr ?a, ?e)"
    by (simp add: run_shared_opt_out_applies [OF tx])
  from run_opt_out_phone [OF tx, of phone] obtain k where o: "opt_out_phone phone ?e = (Inr (), ?e\<lparr>ticks := Suc (ticks ?e), env_n := k, db := (db ?e)\<lparr>m_customers :=
    map_if (\<lambda>c. cu_merchant c = m \<and> cu_phone c = phone \<and> \<not> cu_opted_out c) (customer_opted_out (clock ?e (ticks ?e))) (m_customers (db ?e))\<rparr>\<rparr>)" by blast
  let ?o = "?e\<lparr>ticks := Suc (ticks ?e), env_n := k, db := (db ?e)\<lparr>m_customers :=
    map_if (\<lambda>c. cu_merchant c = m \<and> cu_phone c = phone \<and> \<not> cu_opted_out c) (customer_opted_out (clock ?e (ticks ?e))) (m_customers (db ?e))\<rparr>\<rparr>"
  have body: "bindM (if shared then shared_opt_out_applies phone else ret True) (\<lambda>applies. whenM applies (opt_out_phone phone)) ?e =
      (Inr (), if ?a then ?o else ?e)"
    unfolding run_bind ap by (simp add: o)
  have run: "opt_out_inbound_for_merchant m phone shared w = (Inr (), left (if ?a then ?o else ?e))"
    using True by (simp only: opt_out_inbound_for_merchant_def run_seq reach_database_def run_outermost [OF u] body if_True prod.case sum.case)
  have step: "fan_out_step w (left (if ?a then ?o else ?e))"
    using fan_out_step_left [OF assms] by simp
  have "\<not> ?a \<Longrightarrow> (shared \<longrightarrow> uses_shared (db w) m) \<longrightarrow> silenced (db w) phone m"
    by (auto simp: silenced_def list_ex_iff list_all_iff)
  then have "(shared \<longrightarrow> uses_shared (db w) m) \<longrightarrow> silenced (db (left (if ?a then ?o else ?e))) phone m"
    by (cases ?a) (simp_all add: silenced_map(1))
  with run step True show ?thesis by auto
next
  case False
  then show ?thesis
    using assms by (auto simp: opt_out_inbound_for_merchant_def run_seq reach_database_def fan_out_step_def)
qed

lemma run_opt_out_each:
  assumes "alone w"
  shows "\<exists>failed w'. opt_out_each shared phone ms w = (Inr failed, w') \<and> fan_out_step w w' \<and> set failed \<subseteq> set ms \<and>
    (\<forall>m\<in>set ms - set failed. (shared \<longrightarrow> uses_shared (db w) m) \<longrightarrow> silenced (db w') phone m)"
  using assms
proof (induction ms arbitrary: w)
  case Nil
  then show ?case by (simp add: fan_out_step_def)
next
  case (Cons m ms)
  from run_opt_out_inbound [OF Cons.prems, of m phone shared] obtain v where
    v: "opt_out_inbound_for_merchant m phone shared w = (if db_up w (db_n w) then Inr () else Inl DatabaseErr, v)" "fan_out_step w v"
      "db_up w (db_n w) \<longrightarrow> (shared \<longrightarrow> uses_shared (db w) m) \<longrightarrow> silenced (db v) phone m" by blast
  let ?f = "if db_up w (db_n w) then [] else [m]"
  have one: "catchM (seqM (opt_out_inbound_for_merchant m phone shared) (ret [])) (\<lambda>_. Some (ret [m])) w = (Inr ?f, v)"
    by (simp add: catchM_def run_seq v(1))
  have "alone v" using v(2) by (simp add: fan_out_step_def)
  from Cons.IH [OF this] obtain failed w' where
    ih: "opt_out_each shared phone ms v = (Inr failed, w')" "fan_out_step v w'" "set failed \<subseteq> set ms"
      "\<forall>m\<in>set ms - set failed. (shared \<longrightarrow> uses_shared (db v) m) \<longrightarrow> silenced (db w') phone m" by blast
  have u: "uses_shared (db v) = uses_shared (db w)" using v(2) by (intro ext) (simp add: fan_out_step_def uses_shared_def)
  have "opt_out_each shared phone (m # ms) w = (Inr (?f @ failed), w')" by (simp only: opt_out_each.simps run_bind one) (simp add: run_bind ih(1))
  moreover have "\<forall>x\<in>set (m # ms) - set (?f @ failed). (shared \<longrightarrow> uses_shared (db w) x) \<longrightarrow> silenced (db w') phone x"
    using ih(2-4) v(3) u by (auto simp: fan_out_step_def)
  ultimately show ?case using ih(3) fan_out_step_trans [OF v(2) ih(2)] by (intro exI [of _ "?f @ failed"] exI [of _ w']) auto
qed

definition wanted :: "uuid list option \<Rightarrow> uuid \<Rightarrow> bool" where
  "wanted ids m \<longleftrightarrow> (case ids of None \<Rightarrow> True | Some xs \<Rightarrow> m \<in> set xs)"

definition stops_for :: "mdb \<Rightarrow> string \<Rightarrow> uuid \<Rightarrow> bool" where
  "stops_for d p m \<longleftrightarrow> m \<in> set (concerned d p) \<and> (shared_number d p \<longrightarrow> uses_shared d m)"

text \<open>What becomes of the merchants \<open>rest\<close> (all, if \<open>None\<close>) that a delivery with \<open>n\<close> retries behind it did not reach.\<close>

definition not_lost :: "string \<Rightarrow> string \<Rightarrow> uuid list option \<Rightarrow> nat \<Rightarrow> messaging_world \<Rightarrow> merror + unit \<Rightarrow> messaging_world \<Rightarrow> bool" where
  "not_lost p phone rest n w r w' \<longleftrightarrow> (
     if rest = Some [] then r = Inr () \<and> queue w' = queue w \<and> alerts w' = alerts w
     else if OPT_OUT_MAX_RETRIES \<le> n
     then (\<exists>e. r = Inl e) \<and> alerts w' = alerts w @ [FanOutExhausted (map_option (take OPT_OUT_LOGGED_MERCHANT_IDS_CAP) rest)]
     else if broker_up w (broker_n w) then r = Inl (App RetryRequested) \<and> queue w' = queue w @ [FanOutOptOut p phone rest (Suc n)]
     else r = Inl (App RetryRejected))"

lemma retry_not_lost:
  assumes "fan_out_step w v" "rest \<noteq> Some []" "retry_opt_out_fan_out p phone rest n e v = (r, w')"
  shows "not_lost p phone rest n w r w' \<and> db w' = db v"
  using assms by (auto simp: not_lost_def retry_opt_out_fan_out_def fan_out_step_def run_seq catchM_def raise_alert_def publish_def Let_def split: if_splits)

lemma fan_out_to_spec:
  assumes "alone w" "fan_out_to p phone ids n (shared, universe) w = (r, w')"
  shows "\<exists>rest. (\<forall>m. m \<in> set universe \<and> wanted ids m \<and> (shared \<longrightarrow> uses_shared (db w) m) \<and> \<not> wanted (Some rest) m \<longrightarrow> silenced (db w') phone m) \<and>
    set rest \<subseteq> set universe \<and> not_lost p phone (Some rest) n w r w'"
proof -
  let ?targets = "case ids of None \<Rightarrow> universe | Some xs \<Rightarrow> filter (\<lambda>m. m \<in> set xs) universe"
  from run_opt_out_each [OF assms(1), of shared phone ?targets] obtain failed v where
    f: "opt_out_each shared phone ?targets w = (Inr failed, v)" "fan_out_step w v" "set failed \<subseteq> set ?targets"
      "\<forall>m\<in>set ?targets - set failed. (shared \<longrightarrow> uses_shared (db w) m) \<longrightarrow> silenced (db v) phone m" by blast
  have t: "m \<in> set ?targets \<longleftrightarrow> m \<in> set universe \<and> wanted ids m" for m by (auto simp: wanted_def split: option.split)
  have reached: "\<forall>m. m \<in> set universe \<and> wanted ids m \<and> (shared \<longrightarrow> uses_shared (db w) m) \<and> \<not> wanted (Some failed) m \<longrightarrow> silenced (db v) phone m"
    using f(4) t by (simp add: wanted_def [of "Some failed"])
  have run: "(if failed = [] then ret () else retry_opt_out_fan_out p phone (Some failed) n (App (OptOutFanOutIncomplete (length failed)))) v = (r, w')"
    using assms(2) unfolding fan_out_to_def prod.case Let_def run_bind f(1) by simp
  have "not_lost p phone (Some failed) n w r w' \<and> db w' = db v"
  proof (cases "failed = []")
    case True
    with run f(2) show ?thesis by (auto simp: not_lost_def fan_out_step_def)
  next
    case False
    with run retry_not_lost [OF f(2), of "Some failed"] show ?thesis by simp
  qed
  with reached f(3) t show ?thesis by (intro exI [of _ failed]) auto
qed



end
