(* ===== verification/SubmissionProps.thy ===== *)
theory SubmissionProps
  imports MessagingSamples
begin

text \<open>
  When a template counts as rejected, and that a state of the embedded signup can be used once only.
\<close>

subsection \<open>Calls\<close>

definition answered_by :: "messaging_world \<Rightarrow> messaging_world \<Rightarrow> meta_request \<Rightarrow> http_reply \<Rightarrow> bool" where
  "answered_by w w' rq reply \<longleftrightarrow> m_calls w' = m_calls w @ [rq] \<and> m_http w' = m_http w \<and> m_http w (length (m_calls w)) rq = reply"

lemma meta_call_run:
  assumes "meta_call method path body token w = (r, w')"
  shows "r = Inl (App WhatsAppNotConfigured) \<and> w' = w \<or> (\<exists>rq. rq_method rq = method \<and> answered_by w w' rq (m_http w (length (m_calls w)) rq) \<and>
     r = meta_reply (m_http w (length (m_calls w)) rq))"
  using assms
  by (auto simp: meta_call_def run_bind meta_urlopen_def Let_def answered_by_def liftE_def interfere_def graph_request_def split: if_splits sum.splits)

lemma account_call_run:
  assumes "account_call a method path body w = (r, w')"
  shows "r = Inl (App WhatsAppNotConfigured) \<and> w' = w \<or> (\<exists>rq. rq_method rq = method \<and> answered_by w w' rq (m_http w (length (m_calls w)) rq) \<and>
     r = meta_reply (m_http w (length (m_calls w)) rq))"
proof (cases "token_for (m_lib w) (m_cfg w) a")
  case (Inl e)
  then have "e = App WhatsAppNotConfigured"
    by (auto simp: token_for_def bindE_def split: sender_type.splits if_splits option.splits sum.splits)
  with Inl assms show ?thesis by (simp add: account_call_def run_bind liftE_def)
next
  case (Inr t)
  with assms have "meta_call method path body t w = (r, w')" by (simp add: account_call_def run_bind liftE_def)
  then show ?thesis by (rule meta_call_run)
qed

lemma meta_reply_page: "meta_reply reply = Inr page \<Longrightarrow> reply = Reply (Some page)"
  by (auto simp: meta_reply_def split: http_reply.splits option.splits if_splits)

lemma meta_reply_refused: "meta_reply reply = Inl (App ProviderPermanentError) \<Longrightarrow> \<exists>status b. reply = HttpError status b \<and> HTTP_PERMANENT status"
  by (auto simp: meta_reply_def split: http_reply.splits option.splits if_splits)

subsection \<open>The scan\<close>

text \<open>A page of Meta's template list without the template, and one that nothing follows.\<close>

definition page_without :: "message_template \<Rightarrow> json \<Rightarrow> bool" where
  "page_without t page \<longleftrightarrow> (case iterate (jget ''data'' page) of Inl _ \<Rightarrow> False | Inr xs \<Rightarrow> list_all (\<lambda>x. \<not> is_template t x) xs)"

definition last_page :: "json \<Rightarrow> bool" where
  "last_page page \<longleftrightarrow> (case get_or_empty (jget ''paging'' page) ''next'' of Inl _ \<Rightarrow> False | Inr next \<Rightarrow> \<not> truthy next)"

lemma scan_page_absent: "scan_page lib t page = Inr Absent \<Longrightarrow> page_without t page \<and> last_page page"
  by (auto simp: scan_page_def bindE_def page_without_def last_page_def first_None list_all_iff split: sum.splits option.splits if_splits)

lemma scan_page_more: "scan_page lib t page = Inr (More next) \<Longrightarrow> page_without t page"
  by (auto simp: scan_page_def bindE_def page_without_def first_None list_all_iff split: sum.splits option.splits if_splits)

text \<open>The calls from \<open>w\<close> to \<open>w'\<close> read the list to its end and did not find the template.\<close>

definition scanned :: "messaging_world \<Rightarrow> message_template \<Rightarrow> meta_request list \<Rightarrow> json list \<Rightarrow> messaging_world \<Rightarrow> bool" where
  "scanned w t rqs pages w' \<longleftrightarrow> m_calls w' = m_calls w @ rqs \<and> m_http w' = m_http w \<and> length pages = length rqs \<and> rqs \<noteq> [] \<and> last_page (last pages) \<and>
     (\<forall>i<length rqs. rq_method (rqs ! i) = GET \<and> m_http w (length (m_calls w) + i) (rqs ! i) = Reply (Some (pages ! i)) \<and> page_without t (pages ! i))"

lemma scanned_one: "answered_by w w' rq (Reply (Some page)) \<Longrightarrow> rq_method rq = GET \<Longrightarrow> page_without t page \<Longrightarrow> last_page page \<Longrightarrow> scanned w t [rq] [page] w'"
  by (simp add: scanned_def answered_by_def)

lemma scanned_more:
  assumes "answered_by w v rq (Reply (Some page))" "rq_method rq = GET" "page_without t page" "scanned v t rqs pages w'"
  shows "scanned w t (rq # rqs) (page # pages) w'"
proof -
  have "rq_method ((rq # rqs) ! i) = GET \<and> m_http w (length (m_calls w) + i) ((rq # rqs) ! i) = Reply (Some ((page # pages) ! i)) \<and>
      page_without t ((page # pages) ! i)" if "i < length (rq # rqs)" for i
    using that assms by (cases i) (auto simp: scanned_def answered_by_def)
  then show ?thesis using assms by (auto simp: scanned_def answered_by_def)
qed

lemma find_from_absent:
  assumes "find_from n a t after w = (Inr None, w')"
  shows "\<exists>rqs pages. scanned w t rqs pages w' \<and> length rqs \<le> n"
  using assms
proof (induction n arbitrary: after w)
  case (Suc n)
  obtain r v where c: "account_call a GET (lookup_path (m_lib w) a after) None w = (r, v)" by fastforce
  from Suc.prems c obtain page where page: "r = Inr page"
    by (cases r) (auto simp: run_bind)
  from account_call_run [OF c] page obtain rq where rq: "rq_method rq = GET" "answered_by w v rq (Reply (Some page))"
    using meta_reply_page by fastforce
  from Suc.prems c page obtain s where s: "scan_page (m_lib w) t page = Inr s"
    by (cases "scan_page (m_lib w) t page") (auto simp: run_bind liftE_def)
  have run: "(case s of Found i \<Rightarrow> ret (Some i) | Absent \<Rightarrow> ret None | More next \<Rightarrow> find_from n a t next) v = (Inr None, w')"
    using Suc.prems c page s by (simp add: run_bind liftE_def)
  show ?case
  proof (cases s)
    case (Found i)
    with run show ?thesis by simp
  next
    case Absent
    with run s scanned_one [OF rq(2,1)] scan_page_absent show ?thesis by (intro exI [of _ "[rq]"] exI [of _ "[page]"]) auto
  next
    case (More rest)
    with run Suc.IH [of rest v] obtain rqs pages where "scanned v t rqs pages w'" "length rqs \<le> n" by auto
    with scanned_more [OF rq(2,1) scan_page_more [OF s [unfolded More]]] show ?thesis
      by (intro exI [of _ "rq # rqs"] exI [of _ "page # pages"]) auto
  qed
qed simp

lemma provider_submit_refused:
  assumes "provider_submit a t w = (Inl (App ProviderPermanentError), w')"
  shows "\<exists>rq status b. rq_method rq = POST \<and> answered_by w w' rq (HttpError status b) \<and> HTTP_PERMANENT status"
proof -
  obtain verb path body r v where c: "account_call a verb path body w = (r, v)" "verb = POST"
      "(case r of Inr result \<Rightarrow> (if \<not> truthy (jget ''id'' result) then throw (App ProviderTransientError)
        else bindM (asks m_lib) (\<lambda>lib. ret (py_str lib (jget ''id'' result)))) v | Inl e \<Rightarrow> (Inl e, v)) = (Inl (App ProviderPermanentError), w')"
    using assms unfolding provider_submit_def run_bind by (auto split: prod.splits sum.splits)
  then have "r = Inl (App ProviderPermanentError)" "v = w'" by (auto simp: run_bind split: sum.splits if_splits)
  with account_call_run [OF c(1)] c(2) meta_reply_refused show ?thesis by fastforce
qed


definition refusing :: "nat \<Rightarrow> meta_request \<Rightarrow> http_reply" where
  "refusing n rq = (if n = 0 then HttpError 400 None else Reply (Some (JObj [(''data'', JArr [])])))"

definition refusing_world :: messaging_world where
  "refusing_world = (messaging_idle messaging_db)\<lparr>m_http := refusing\<rparr>"


subsection \<open>The embedded signup\<close>

definition live_state :: "uuid \<Rightarrow> uuid \<Rightarrow> string \<Rightarrow> instant \<Rightarrow> signup_state \<Rightarrow> bool" where
  "live_state m u state t e \<longleftrightarrow> es_merchant e = m \<and> es_hash e = hash_signup_state state \<and> es_user e = u \<and> t < es_expires_at e"

lemma run_consume_state:
  assumes "alone w"
  shows "\<exists>w'. tenant_context (Some m) (consume_signup_state u state) w =
      (Inr (length (filter (live_state m u state (clock w (ticks w))) (signups (db w))) = 1), w') \<and>
    db w' = (db w)\<lparr>signups := filter (\<lambda>e. \<not> live_state m u state (clock w (ticks w)) e) (signups (db w))\<rparr>"
proof -
  let ?t = "clock w (ticks w)"
  have a: "alone (tick w)" using assms by simp
  let ?e = "entered m (tick w)"
  have tx: "in_tx m ?e" "in_tx m (?e\<lparr>env_n := k\<rparr>)" for k using a by simp_all
  have live: "live_state m u state ?t = (\<lambda>e. es_merchant e = m \<and> es_hash e = hash_signup_state state \<and> es_user e = u \<and> ?t < es_expires_at e)"
    by (rule ext) (simp add: live_state_def)
  have del: "delete_signups (\<lambda>s. es_hash s = hash_signup_state state \<and> es_user s = u \<and> ?t < es_expires_at s) ?e =
     (Inr (length (filter (live_state m u state ?t) (signups (db w)))), ?e\<lparr>env_n := Suc (env_n ?e),
       db := (db w)\<lparr>signups := filter (\<lambda>e. \<not> live_state m u state ?t e) (signups (db w))\<rparr>\<rparr>)"
    by (simp add: delete_signups_def run_seq run_wait [OF tx(1)] run_bind run_in_tenant [OF tx(2)] live)
  have swap: "w\<lparr>ctx := c, ticks := n\<rparr> = w\<lparr>ticks := n, ctx := c\<rparr>" for c n by simp
  have c: "tenant_context (Some m) (consume_signup_state u state) w = (case tenant_context (Some m) (tenant_atomic False
      (delete_signups (\<lambda>s. es_hash s = hash_signup_state state \<and> es_user s = u \<and> ?t < es_expires_at s))) (tick w) of
      (Inr n, w') \<Rightarrow> (Inr (n = 1), w') | (Inl e, w') \<Rightarrow> (Inl e, w'))"
    using assms by (simp add: tenant_context_def with_var_def consume_signup_state_def run_bind run_now tick_def alone_def fresh_thread_def Let_def
        no_vars_def swap split: prod.split sum.split)
  show ?thesis unfolding c run_outermost [OF a] by (simp add: del)
qed

text \<open>
  The state of an embedded signup is single-use. Consuming it succeeds exactly when the merchant has one unexpired state
  with its hash that was issued to the same user; afterwards it never succeeds again for them, at any later time, while the states of others are kept.
\<close>

theorem signup_state_once:
  assumes "alone w" "tenant_context (Some m) (consume_signup_state u state) w = (r, w')"
  shows "r = Inr (length (filter (live_state m u state (clock w (ticks w))) (signups (db w))) = 1) \<and>
    filter (\<lambda>e. es_merchant e \<noteq> m \<or> es_user e \<noteq> u) (signups (db w')) = filter (\<lambda>e. es_merchant e \<noteq> m \<or> es_user e \<noteq> u) (signups (db w)) \<and>
    (\<forall>v. alone v \<longrightarrow> db v = db w' \<longrightarrow> clock w (ticks w) \<le> clock v (ticks v) \<longrightarrow>
       fst (tenant_context (Some m) (consume_signup_state u state) v) = Inr False)"
proof -
  let ?t = "clock w (ticks w)"
  from run_consume_state [OF assms(1), of m u state] assms(2) have w': "r = Inr (length (filter (live_state m u state ?t) (signups (db w))) = 1)"
    "signups (db w') = filter (\<lambda>e. \<not> live_state m u state ?t e) (signups (db w))" by auto
  have "fst (tenant_context (Some m) (consume_signup_state u state) v) = Inr False"
    if v: "alone v" "db v = db w'" "?t \<le> clock v (ticks v)" for v
  proof -
    have "\<not> live_state m u state (clock v (ticks v)) e" if "e \<in> set (signups (db v))" for e
      using that v(2,3) w'(2) by (auto simp: live_state_def)
    then have "filter (live_state m u state (clock v (ticks v))) (signups (db v)) = []" by (simp add: filter_empty_conv)
    with run_consume_state [OF v(1), of m u state] show ?thesis by auto
  qed
  moreover have "filter (\<lambda>e. es_merchant e \<noteq> m \<or> es_user e \<noteq> u) (signups (db w')) = filter (\<lambda>e. es_merchant e \<noteq> m \<or> es_user e \<noteq> u) (signups (db w))"
    unfolding w'(2) filter_filter by (rule filter_cong) (auto simp: live_state_def)
  ultimately show ?thesis using w'(1) by blast
qed

text \<open>A state issued to the owner; its hash is never evaluated.\<close>

definition issued_state :: signup_state where
  "issued_state = \<lparr>es_id = ''e1'', es_merchant = ''m1'', es_user = ''u1'', es_hash = hash_signup_state ''state'', es_expires_at = seconds 2000\<rparr>"

theorem signup_state_once_witness:
  "let w = messaging_idle (messaging_db\<lparr>signups := [issued_state]\<rparr>); (r, w') = tenant_context (Some ''m1'') (consume_signup_state ''u1'' ''state'') w in
     r = Inr True \<and> fst (tenant_context (Some ''m1'') (consume_signup_state ''u1'' ''state'') (messaging_idle (db w'))) = Inr False"
proof -
  let ?w = "messaging_idle (messaging_db\<lparr>signups := [issued_state]\<rparr>)"
  obtain r w' where run: "tenant_context (Some ''m1'') (consume_signup_state ''u1'' ''state'') ?w = (r, w')" by fastforce
  have "live_state ''m1'' ''u1'' ''state'' (seconds 1600) issued_state"
    by (simp add: live_state_def issued_state_def seconds_def)
  moreover have "clock ?w (ticks ?w) = seconds 1600" "clock (messaging_idle d) (ticks (messaging_idle d)) = seconds 1600" for d
    by (simp_all add: messaging_idle_def)
  ultimately show ?thesis
    using signup_state_once [OF fresh_messaging_idle(4) run] by (simp add: Let_def run)
qed

end
