(* ===== verification/GoogleStore.thy ===== *)
theory GoogleStore
  imports IntakeModels Statements UrlText
begin

text \<open>
  The tables of \<open>google_reviews\<close> and those of other applications its services read (locations, team, merchants),
  its errors (\<open>exceptions.py\<close>, \<open>providers/base.py\<close>), and the world the services run in: Google's transport, the
  signing keys a process has cached, the broker.
\<close>

subsection \<open>Errors\<close>

text \<open>
  The domain errors, those of the provider, and what the services let through: \<open>InvalidToken\<close> of Fernet,
  \<open>ImproperlyConfigured\<close> of \<open>core/crypto.py\<close>, \<open>OverflowError\<close>, whatever a failed publish raises. \<open>Unfinished\<close>
  is no exception of the code: it ends a run that has been given less pages than Google has.
\<close>

datatype google_error =
    GoogleNotConfigured
  | InvalidOAuthState
  | GoogleNeedsReauth
  | GoogleTokenRefreshPending
  | GooglePlaceIdMissing
  | ReviewLinkMissing
  | GoogleLocationAlreadyMapped
  | GoogleLocationNotAvailable
  | GoogleNotFound
  | GoogleRateLimitedError
  | GoogleUnavailable
  | GoogleRequestFailed
  | GoogleTransientError
  | GooglePermanentError
  | GoogleAuthRevoked string
  | GoogleRateLimited
  | IdTokenInvalid
  | IdTokenUnverifiable
  | AttemptNoLongerPending
  | UnknownLocation
  | FernetInvalidToken
  | ImproperlyConfigured
  | OverflowErr
  | PublishFailed
  | Unfinished

type_synonym gerror = "google_error exn"

subsection \<open>Rows\<close>

datatype connection_status = ConnectionActive | NeedsReauth

record google_connection =
  gc_id :: uuid
  gc_merchant :: uuid
  gc_sub :: string
  gc_email :: string
  gc_access :: string
  gc_refresh :: string
  gc_expires_at :: instant
  gc_status :: connection_status
  gc_connected_at :: "instant option"
  gc_updated_at :: instant

datatype attempt_status = AttemptIssued | AttemptPending | AttemptCompleted | AttemptFailed

datatype failure_code =
    OAUTH_EXPIRED
  | EXCHANGE_FAILED
  | EXCHANGE_INTERRUPTED
  | SCOPE_MISSING
  | IDENTITY_MISSING
  | REFRESH_TOKEN_MISSING
  | ID_TOKEN_INVALID
  | ID_TOKEN_UNVERIFIABLE
  | ACTOR_NOT_MEMBER
  | GOOGLE_ACCOUNT_ALREADY_CONNECTED

record oauth_attempt =
  oa_id :: uuid
  oa_merchant :: uuid
  oa_user :: uuid
  oa_state_hash :: string
  oa_nonce_hash :: string
  oa_status :: attempt_status
  oa_code :: "string option"
  oa_failure :: "failure_code option"
  oa_connection :: "uuid option"
  oa_expires_at :: instant
  oa_completed_at :: "instant option"
  oa_updated_at :: instant

text \<open>The merchant of a mapping is that of its location, the merchant of a review that of its mapping. Ratings are in tenths.\<close>

record google_location =
  gl_id :: uuid
  gl_location :: uuid
  gl_merchant :: uuid
  gl_connection :: uuid
  gl_google_id :: string
  gl_place :: "string option"
  gl_link :: string
  gl_rating :: "int option"
  gl_count :: "int option"
  gl_synced_at :: "instant option"
  gl_updated_at :: instant

record google_review =
  gr_id :: uuid
  gr_mapping :: uuid
  gr_merchant :: uuid
  gr_review :: string
  gr_name :: "string option"
  gr_rating :: int
  gr_text :: "string option"
  gr_created_at :: instant
  gr_fetched_at :: instant
  gr_updated_at :: instant

record gdb =
  g_merchants :: "(uuid \<times> merchant_status) list"
  g_members :: "(uuid \<times> uuid) list"
  g_assignments :: "(uuid \<times> uuid) list"
  g_locations :: "location list"
  connections :: "google_connection list"
  attempts :: "oauth_attempt list"
  google_maps :: "google_location list"
  reviews :: "google_review list"
  g_audit :: "audit_log list"

abbreviation find_connection :: "gdb \<Rightarrow> uuid \<Rightarrow> google_connection option" where
  "find_connection d i \<equiv> first (\<lambda>c. gc_id c = i) (connections d)"

abbreviation find_attempt :: "gdb \<Rightarrow> uuid \<Rightarrow> oauth_attempt option" where
  "find_attempt d i \<equiv> first (\<lambda>a. oa_id a = i) (attempts d)"

abbreviation find_map :: "gdb \<Rightarrow> uuid \<Rightarrow> google_location option" where
  "find_map d i \<equiv> first (\<lambda>g. gl_id g = i) (google_maps d)"

subsection \<open>Constraints\<close>

text \<open>The three check constraints of \<open>GoogleOAuthState\<close> and the one of \<open>GoogleReview\<close>.\<close>

definition attempt_ok :: "oauth_attempt \<Rightarrow> bool" where
  "attempt_ok a \<longleftrightarrow> (oa_code a = None \<or> oa_status a = AttemptPending) \<and> (oa_status a = AttemptFailed \<longleftrightarrow> oa_failure a \<noteq> None) \<and>
     (oa_status a = AttemptCompleted \<longrightarrow> oa_connection a \<noteq> None)"

definition review_ok :: "google_review \<Rightarrow> bool" where
  "review_ok r \<longleftrightarrow> 1 \<le> gr_rating r \<and> gr_rating r \<le> 5"

text \<open>A text the column cannot hold: too long, or with the character PostgreSQL has no text for.\<close>

definition bad_text :: "nat option \<Rightarrow> string \<Rightarrow> bool" where
  "bad_text width s \<longleftrightarrow> CHR 0x00 \<in> set s \<or> (case width of None \<Rightarrow> False | Some n \<Rightarrow> n < length s)"

definition bad_nullable :: "nat option \<Rightarrow> string option \<Rightarrow> bool" where
  "bad_nullable width s = (case s of None \<Rightarrow> False | Some x \<Rightarrow> bad_text width x)"

definition connection_fits :: "google_connection \<Rightarrow> bool" where
  "connection_fits c \<longleftrightarrow> \<not> bad_text (Some 255) (gc_sub c) \<and> \<not> bad_text (Some 254) (gc_email c)"

definition map_fits :: "google_location \<Rightarrow> bool" where
  "map_fits g \<longleftrightarrow> \<not> bad_text (Some 255) (gl_google_id g) \<and> \<not> bad_nullable (Some 255) (gl_place g) \<and> \<not> bad_text (Some 2048) (gl_link g)"

definition review_fits :: "google_review \<Rightarrow> bool" where
  "review_fits r \<longleftrightarrow> \<not> bad_text (Some 255) (gr_review r) \<and> \<not> bad_nullable (Some 255) (gr_name r) \<and> \<not> bad_nullable None (gr_text r)"

text \<open>\<open>IntegerField\<close>.\<close>

definition MAX_INTEGER :: int where "MAX_INTEGER = 2147483647"

definition same_map_key :: "google_location \<Rightarrow> google_location \<Rightarrow> bool" where
  "same_map_key g q \<longleftrightarrow> gl_connection q = gl_connection g \<and> gl_google_id q = gl_google_id g"

subsection \<open>The world\<close>

datatype gtask =
    SyncMerchantReviews uuid
  | SyncLocation uuid uuid
  | RefreshMerchantTokens uuid
  | ExchangeCode uuid uuid
  | RefreshToken uuid uuid

record google_settings =
  g_enabled :: bool
  g_client_id :: string
  g_client_secret :: string
  g_redirect_uri :: string
  g_fernet_key :: string
  g_grace :: int
  g_retention :: int
  g_state_max_age :: int
  g_refresh_margin :: int
  g_sync_interval :: int
  g_jwks_uri :: string

text \<open>
  A call: the form it posts or none, the access token it carries or none. Its answer: the status (200 for every
  success), the \<open>Cache-Control\<close> header and the body as \<open>json.loads\<close> decodes it, \<open>None\<close> where that raises. A number
  that is not finite, which the decoder accepts too, is outside the model, as everywhere.
\<close>

record google_request =
  gq_method :: http_method
  gq_url :: string
  gq_form :: "(string \<times> string) list option"
  gq_token :: "string option"

datatype google_reply = GoogleAnswer int "string option" "json option" | NoAnswer

text \<open>An RSA key is its exponent and its modulus.\<close>

type_synonym rsa_key = "int \<times> int"

text \<open>
  Third-party functions and those of the library the code never looks into: Fernet (its tokens are randomised, the
  first argument is the key), RSA, the microseconds of \<open>timedelta(seconds=x)\<close> for a float, what \<open>urlsplit\<close> accepts in brackets.
\<close>

record google_lib =
  g_py :: pylib
  fernet_key_ok :: "string \<Rightarrow> bool"
  fernet_encrypt :: "string \<Rightarrow> nat \<Rightarrow> string \<Rightarrow> string"
  fernet_decrypt :: "string \<Rightarrow> string \<Rightarrow> string option"
  rsa_key_ok :: "rsa_key \<Rightarrow> bool"
  rsa_verify :: "rsa_key \<Rightarrow> string \<Rightarrow> string \<Rightarrow> bool"
  float_micros :: "int \<Rightarrow> int \<Rightarrow> int"
  ip_literal :: "string \<Rightarrow> bool"

text \<open>
  \<open>g_http n rq\<close> is what the \<open>n\<close>th call gets, \<open>g_broker_up n\<close> whether the \<open>n\<close>th publish succeeds, \<open>g_mint n\<close> the \<open>n\<close>th random
  value, \<open>g_mono n\<close> the \<open>n\<close>th reading of \<open>time.monotonic\<close>; \<open>jwks_keys\<close> and \<open>jwks_expires\<close> are \<open>_jwks_cache\<close> of the process.
\<close>

record google_world = "(gdb, gtask) world" +
  g_lib :: google_lib
  g_cfg :: google_settings
  g_http :: "nat \<Rightarrow> google_request \<Rightarrow> google_reply"
  g_calls :: "google_request list"
  g_broker_up :: "nat \<Rightarrow> bool"
  g_broker_n :: nat
  g_mint :: "nat \<Rightarrow> string"
  g_minted :: nat
  g_sealed :: nat
  g_mono :: "nat \<Rightarrow> instant"
  g_mono_n :: nat
  jwks_keys :: "(string \<times> rsa_key) list"
  jwks_expires :: instant

type_synonym 'a gprog = "(google_world, gerror, 'a) prog"

definition google_random :: "string gprog" where
  "google_random = (\<lambda>w. (Inr (g_mint w (g_minted w)), w\<lparr>g_minted := Suc (g_minted w)\<rparr>))"

definition monotonic :: "instant gprog" where
  "monotonic = (\<lambda>w. (Inr (g_mono w (g_mono_n w)), w\<lparr>g_mono_n := Suc (g_mono_n w)\<rparr>))"

subsection \<open>\<open>core/crypto.py\<close>\<close>

definition fernet :: "string gprog" where
  "fernet = (\<lambda>w. let key = g_fernet_key (g_cfg w) in
     if key = [] \<or> \<not> fernet_key_ok (g_lib w) key then (Inl (App ImproperlyConfigured), w) else (Inr key, w))"

definition encrypt_text :: "string \<Rightarrow> string gprog" where
  "encrypt_text plaintext = bindM fernet (\<lambda>key w.
     (Inr (fernet_encrypt (g_lib w) key (g_sealed w) plaintext), w\<lparr>g_sealed := Suc (g_sealed w)\<rparr>))"

definition decrypt_text :: "string \<Rightarrow> string gprog" where
  "decrypt_text token = bindM fernet (\<lambda>key w. case fernet_decrypt (g_lib w) key token of
     None \<Rightarrow> (Inl (App FernetInvalidToken), w) | Some s \<Rightarrow> (Inr s, w))"

subsection \<open>The broker\<close>

definition publish_google :: "gtask \<Rightarrow> unit gprog" where
  "publish_google t = (\<lambda>w. let w' = w\<lparr>g_broker_n := Suc (g_broker_n w)\<rparr> in
     if g_broker_up w (g_broker_n w) then (Inr (), w'\<lparr>queue := queue w @ [t]\<rparr>) else (Inl (App PublishFailed), w'))"

text \<open>\<open>_enqueue_on_commit\<close>: the callback swallows a broker error; the oracle is asked when it is registered.\<close>

definition enqueue_on_commit :: "gtask \<Rightarrow> unit gprog" where
  "enqueue_on_commit t = (\<lambda>w. let w' = w\<lparr>g_broker_n := Suc (g_broker_n w)\<rparr> in
     if g_broker_up w (g_broker_n w) then on_commit t w' else (Inr (), w'))"

lemma google_in_tx [simp]:
  "in_tx m (w\<lparr>g_calls := x\<rparr>) = in_tx m (w :: google_world)" "in_tx m (w\<lparr>g_broker_n := n\<rparr>) = in_tx m (w :: google_world)"
  "in_tx m (w\<lparr>g_minted := n\<rparr>) = in_tx m (w :: google_world)" "in_tx m (w\<lparr>g_sealed := n\<rparr>) = in_tx m (w :: google_world)"
  by (simp_all add: in_tx_def quiet_def)

lemma tick_google [simp]:
  "g_lib (tick w) = g_lib w" "g_cfg (tick w) = g_cfg w" "g_http (tick w) = g_http w" "g_calls (tick w) = g_calls w"
  "g_broker_up (tick w) = g_broker_up w" "g_broker_n (tick w) = g_broker_n w" "g_mint (tick w) = g_mint w" "g_minted (tick w) = g_minted w"
  "g_sealed (tick w) = g_sealed w" "g_mono (tick w) = g_mono w" "g_mono_n (tick w) = g_mono_n w"
  "jwks_keys (tick w) = jwks_keys w" "jwks_expires (tick w) = jwks_expires w"
  by (simp_all add: tick_def)

text \<open>
  The statements of the Google services on their tables. They all run inside \<open>tenant_atomic\<close> or in the tenant
  transaction of a request, so tenant reads, updates and deletes reach exactly the rows of the context's merchant:
  the filter of the managers and the policies of \<open>core/rls.py\<close> agree there. Inserts are checked on the session variables.
\<close>

abbreviation anything :: "gdb \<Rightarrow> gdb \<Rightarrow> bool" where
  "anything \<equiv> \<lambda>_ _. True"

definition g_rows :: "('r \<Rightarrow> uuid) \<Rightarrow> (gdb \<Rightarrow> 'r list) \<Rightarrow> ('r \<Rightarrow> bool) \<Rightarrow> 'r list gprog" where
  "g_rows owner rows P = in_tenant (\<lambda>m d. filter (\<lambda>r. owner r = m \<and> P r) (rows d))"

definition g_first :: "('r \<Rightarrow> uuid) \<Rightarrow> (gdb \<Rightarrow> 'r list) \<Rightarrow> ('r \<Rightarrow> bool) \<Rightarrow> 'r option gprog" where
  "g_first owner rows P = in_tenant (\<lambda>m d. first (\<lambda>r. owner r = m \<and> P r) (rows d))"

subsection \<open>OAuth attempts\<close>

text \<open>\<open>filter(...).update(...)\<close> waits for the rows it matches and judges them as they are then; the count of what matched.\<close>

definition update_attempts :: "(gdb \<Rightarrow> gdb \<Rightarrow> bool) \<Rightarrow> (oauth_attempt \<Rightarrow> bool) \<Rightarrow> (oauth_attempt \<Rightarrow> oauth_attempt) \<Rightarrow> nat gprog" where
  "update_attempts keep P f = seqM (wait_holding keep) (bindM (in_tenant (\<lambda>m d. (m, filter (\<lambda>a. oa_merchant a = m \<and> P a) (attempts d)))) (\<lambda>(m, rows).
     if list_ex (\<lambda>a. \<not> attempt_ok (f a)) rows then throw CheckViolation
     else seqM (modifyM (\<lambda>w. w\<lparr>db := (db w)\<lparr>attempts := map_if (\<lambda>a. oa_merchant a = m \<and> P a) f (attempts (db w))\<rparr>\<rparr>)) (ret (length rows))))"

definition delete_attempts :: "(oauth_attempt \<Rightarrow> bool) \<Rightarrow> unit gprog" where
  "delete_attempts P = seqM wait (bindM (in_tenant (\<lambda>m d. m)) (\<lambda>m.
     modifyM (\<lambda>w. w\<lparr>db := (db w)\<lparr>attempts := filter (\<lambda>a. \<not> (oa_merchant a = m \<and> P a)) (attempts (db w))\<rparr>\<rparr>)))"

definition insert_attempt :: "oauth_attempt \<Rightarrow> unit gprog" where
  "insert_attempt a = seqM (tenant_write (oa_merchant a)) (seqM wait (\<lambda>w.
     if \<not> attempt_ok a then (Inl CheckViolation, w)
     else if list_ex (\<lambda>q. oa_id q = oa_id a \<or> oa_state_hash q = oa_state_hash a) (attempts (db w)) then (Inl (UniqueViolation ''state_hash''), w)
     else (Inr (), w\<lparr>db := (db w)\<lparr>attempts := attempts (db w) @ [a]\<rparr>\<rparr>)))"

subsection \<open>Connections\<close>

definition CONNECTION_UNIQUE :: string where "CONNECTION_UNIQUE = ''google_connection_merchant_sub_uniq''"
definition LOCATION_UNIQUE :: string where "LOCATION_UNIQUE = ''google_location_unique_per_connection''"
definition LOCATION_ONE_TO_ONE :: string where "LOCATION_ONE_TO_ONE = ''google_reviews_googlelocation_location_id_key''"

text \<open>
  While this transaction holds the row of a connection, nobody else changes that row.
\<close>

definition keeps_connection :: "uuid \<Rightarrow> gdb \<Rightarrow> gdb \<Rightarrow> bool" where
  "keeps_connection i d d' \<longleftrightarrow> filter (\<lambda>c. gc_id c = i) (connections d') = filter (\<lambda>c. gc_id c = i) (connections d)"

text \<open>\<open>select_for_update()\<close> reads the row again after the wait.\<close>

definition lock_connection :: "(google_connection \<Rightarrow> bool) \<Rightarrow> google_connection option gprog" where
  "lock_connection P = seqM wait (g_first gc_merchant connections P)"

definition insert_connection :: "google_connection \<Rightarrow> unit gprog" where
  "insert_connection c = seqM (tenant_write (gc_merchant c)) (seqM wait (\<lambda>w.
     if \<not> connection_fits c then (Inl DataErr, w)
     else if list_ex (\<lambda>q. gc_merchant q = gc_merchant c \<and> gc_sub q = gc_sub c) (connections (db w)) then (Inl (UniqueViolation CONNECTION_UNIQUE), w)
     else if find_connection (db w) (gc_id c) \<noteq> None then (Inl (UniqueViolation ''google_reviews_googleconnection_pkey''), w)
     else (Inr (), w\<lparr>db := (db w)\<lparr>connections := connections (db w) @ [c]\<rparr>\<rparr>)))"

text \<open>\<open>save(update_fields=...)\<close> of a row this transaction holds.\<close>

definition save_connection :: "uuid \<Rightarrow> (google_connection \<Rightarrow> google_connection) \<Rightarrow> google_connection gprog" where
  "save_connection i f = bindM now (\<lambda>t. bindM (g_first gc_merchant connections (\<lambda>c. gc_id c = i)) (\<lambda>r. case r of
     None \<Rightarrow> throw DatabaseErr
   | Some c \<Rightarrow> let c' = (f c)\<lparr>gc_updated_at := t\<rparr> in
       if \<not> connection_fits c' then throw DataErr
       else seqM (modifyM (\<lambda>w. w\<lparr>db := (db w)\<lparr>connections := update_first (\<lambda>x. gc_merchant x = gc_merchant c \<and> gc_id x = i) (\<lambda>_. c') (connections (db w))\<rparr>\<rparr>))
         (ret c')))"

definition update_connections :: "(google_connection \<Rightarrow> bool) \<Rightarrow> (google_connection \<Rightarrow> google_connection) \<Rightarrow> nat gprog" where
  "update_connections P f = seqM wait (bindM (in_tenant (\<lambda>m d. (m, length (filter (\<lambda>c. gc_merchant c = m \<and> P c) (connections d))))) (\<lambda>(m, n).
     seqM (modifyM (\<lambda>w. w\<lparr>db := (db w)\<lparr>connections := map_if (\<lambda>c. gc_merchant c = m \<and> P c) f (connections (db w))\<rparr>\<rparr>)) (ret n)))"

subsection \<open>Mappings\<close>

text \<open>
  While this transaction holds the row of mapping \<open>i\<close>, nobody else changes it, and nobody adds a review to it: the
  foreign key would need the row's key lock.
\<close>

definition keeps_map :: "uuid \<Rightarrow> gdb \<Rightarrow> gdb \<Rightarrow> bool" where
  "keeps_map i d d' \<longleftrightarrow> filter (\<lambda>g. gl_id g = i) (google_maps d') = filter (\<lambda>g. gl_id g = i) (google_maps d) \<and>
     list_all (\<lambda>r. gr_mapping r = i \<longrightarrow> list_ex (\<lambda>q. gr_mapping q = i \<and> gr_review q = gr_review r) (reviews d)) (reviews d')"

definition lock_map :: "(google_location \<Rightarrow> bool) \<Rightarrow> google_location option gprog" where
  "lock_map P = seqM wait (g_first gl_merchant google_maps P)"

text \<open>\<open>save()\<close> of all columns: an update of the row that has the key, or an insert.\<close>

definition save_map :: "(gdb \<Rightarrow> gdb \<Rightarrow> bool) \<Rightarrow> google_location \<Rightarrow> google_location gprog" where
  "save_map keep g0 = bindM now (\<lambda>t. let g = g0\<lparr>gl_updated_at := t\<rparr> in
     seqM (tenant_write (gl_merchant g)) (seqM (wait_holding keep) (\<lambda>w.
       if \<not> map_fits g then (Inl DataErr, w)
       else if \<not> list_ex (\<lambda>l. lo_id l = gl_location g \<and> lo_merchant l = gl_merchant g) (g_locations (db w)) then (Inl DatabaseErr, w)
       else if list_ex (\<lambda>q. gl_id q \<noteq> gl_id g \<and> gl_location q = gl_location g) (google_maps (db w)) then (Inl (UniqueViolation LOCATION_ONE_TO_ONE), w)
       else if list_ex (\<lambda>q. gl_id q \<noteq> gl_id g \<and> same_map_key g q) (google_maps (db w)) then (Inl (UniqueViolation LOCATION_UNIQUE), w)
       else (case find_map (db w) (gl_id g) of
         None \<Rightarrow> (Inr g, w\<lparr>db := (db w)\<lparr>google_maps := google_maps (db w) @ [g]\<rparr>\<rparr>)
       | Some q \<Rightarrow> if gl_merchant q \<noteq> gl_merchant g then (Inl (UniqueViolation ''google_reviews_googlelocation_pkey''), w)
           else (Inr g, w\<lparr>db := (db w)\<lparr>google_maps := update_first (\<lambda>q. gl_id q = gl_id g) (\<lambda>_. g) (google_maps (db w))\<rparr>\<rparr>)))))"

definition update_maps :: "(google_location \<Rightarrow> bool) \<Rightarrow> (google_location \<Rightarrow> google_location) \<Rightarrow> unit gprog" where
  "update_maps P f = seqM wait (bindM (in_tenant (\<lambda>m d. m)) (\<lambda>m w.
     if list_ex (\<lambda>g. gl_merchant g = m \<and> P g \<and> (case gl_count (f g) of None \<Rightarrow> False | Some n \<Rightarrow> MAX_INTEGER < n)) (google_maps (db w))
     then (Inl DataErr, w)
     else (Inr (), w\<lparr>db := (db w)\<lparr>google_maps := map_if (\<lambda>g. gl_merchant g = m \<and> P g) f (google_maps (db w))\<rparr>\<rparr>)))"

subsection \<open>Reviews\<close>

definition delete_reviews :: "(gdb \<Rightarrow> gdb \<Rightarrow> bool) \<Rightarrow> uuid \<Rightarrow> unit gprog" where
  "delete_reviews keep i = seqM (wait_holding keep) (bindM (in_tenant (\<lambda>m d. m)) (\<lambda>m.
     modifyM (\<lambda>w. w\<lparr>db := (db w)\<lparr>reviews := filter (\<lambda>r. \<not> (gr_merchant r = m \<and> gr_mapping r = i)) (reviews (db w))\<rparr>\<rparr>)))"

text \<open>
  One row of \<open>INSERT ... ON CONFLICT DO UPDATE\<close>: the update leaves the key, the owner and the primary key of the stored row.
\<close>

definition same_review :: "google_review \<Rightarrow> google_review \<Rightarrow> bool" where
  "same_review r q \<longleftrightarrow> gr_mapping q = gr_mapping r \<and> gr_review q = gr_review r"

definition overwrite_review :: "google_review \<Rightarrow> google_review \<Rightarrow> google_review" where
  "overwrite_review r q = q\<lparr>gr_name := gr_name r, gr_rating := gr_rating r, gr_text := gr_text r, gr_created_at := gr_created_at r,
     gr_fetched_at := gr_fetched_at r, gr_updated_at := gr_updated_at r\<rparr>"

definition upsert_review :: "google_review \<Rightarrow> google_review list \<Rightarrow> google_review list" where
  "upsert_review r rows = (case first (same_review r) rows of
     None \<Rightarrow> rows @ [r] | Some _ \<Rightarrow> update_first (same_review r) (overwrite_review r) rows)"

text \<open>\<open>bulk_create(update_conflicts=True)\<close>: one statement, all rows or none; no row twice.\<close>

definition bulk_upsert :: "(gdb \<Rightarrow> gdb \<Rightarrow> bool) \<Rightarrow> google_review list \<Rightarrow> unit gprog" where
  "bulk_upsert keep rows = seqM (forM rows (\<lambda>r. tenant_write (gr_merchant r))) (seqM (wait_holding keep) (\<lambda>w.
     if list_ex (\<lambda>r. \<not> review_fits r) rows then (Inl DataErr, w)
     else if list_ex (\<lambda>r. \<not> review_ok r) rows then (Inl CheckViolation, w)
     else if \<not> distinct (map (\<lambda>r. (gr_mapping r, gr_review r)) rows) then (Inl DatabaseErr, w)
     else if list_ex (\<lambda>r. find_map (db w) (gr_mapping r) = None) rows then (Inl (UniqueViolation ''foreign_key''), w)
     else if \<not> distinct (map gr_id rows) \<or> list_ex (\<lambda>r. list_ex (\<lambda>q. gr_id q = gr_id r \<and> \<not> same_review r q) (reviews (db w))) rows
     then (Inl (UniqueViolation ''google_reviews_googlereview_pkey''), w)
     else (Inr (), w\<lparr>db := (db w)\<lparr>reviews := fold upsert_review rows (reviews (db w))\<rparr>\<rparr>)))"

subsection \<open>Audit\<close>

definition add_google_audit :: "audit_log \<Rightarrow> unit gprog" where
  "add_google_audit a = modifyM (\<lambda>w. w\<lparr>db := (db w)\<lparr>g_audit := g_audit (db w) @ [a]\<rparr>\<rparr>)"

text \<open>\<open>record(action, actor, target)\<close> with a user as the actor.\<close>

definition record_connection_log :: "string \<Rightarrow> uuid \<Rightarrow> uuid \<Rightarrow> unit gprog" where
  "record_connection_log action actor i = tenant_atomic False (bindM (in_tenant (\<lambda>m d. (m, g_members d))) (\<lambda>(m, ms).
     if (m, actor) \<notin> set ms then throw ActorNotMember
     else add_google_audit (log_row (Some m) action (Some actor) ''google_reviews.googleconnection'' i [])))"

end
