(* ===== verification/GoogleProvider.thy ===== *)
theory GoogleProvider
  imports GoogleStore
begin

text \<open>
  \<open>providers/google_business_profile.py\<close>, the only module that talks to Google: the call with its error mapping, the
  signing keys and their cache, the validation of ID tokens, and the read-only lists. Its answers are the field
  \<open>g_http\<close> of the world. A token that cannot be a header value is not modelled.
\<close>

subsection \<open>Calls\<close>

definition AUTH_URL :: string where "AUTH_URL = ''https://accounts.google.com/o/oauth2/v2/auth''"
definition TOKEN_URL :: string where "TOKEN_URL = ''https://oauth2.googleapis.com/token''"
definition ACCOUNTS_URL :: string where "ACCOUNTS_URL = ''https://mybusinessaccountmanagement.googleapis.com/v1/accounts''"
definition LOCATIONS_BASE :: string where "LOCATIONS_BASE = ''https://mybusinessbusinessinformation.googleapis.com/v1''"
definition REVIEWS_BASE :: string where "REVIEWS_BASE = ''https://mybusiness.googleapis.com/v4''"
definition SCOPES :: string where "SCOPES = ''openid email https://www.googleapis.com/auth/business.manage''"

definition MAX_ACCOUNT_PAGES :: nat where "MAX_ACCOUNT_PAGES = 50"
definition MAX_LOCATION_PAGES :: nat where "MAX_LOCATION_PAGES = 100"

text \<open>\<open>http.client\<close> refuses blanks and control characters in a request line.\<close>

definition url_char :: "char \<Rightarrow> bool" where
  "url_char c \<longleftrightarrow> 32 < code_point c \<and> code_point c \<noteq> 127"

text \<open>\<open>urlopen\<close>: the call is recorded; outside every transaction others commit meanwhile.\<close>

definition google_urlopen :: "google_request \<Rightarrow> google_reply gprog" where
  "google_urlopen rq = (\<lambda>w. if \<not> list_all url_char (gq_url rq) then (Inr NoAnswer, w)
     else let w' = (if saves w = [] then interfere w else w) in
       (Inr (g_http w (length (g_calls w)) rq), w'\<lparr>g_calls := g_calls w' @ [rq]\<rparr>))"

definition google_call :: "google_request \<Rightarrow> (int \<times> string option \<times> json option) gprog" where
  "google_call rq = bindM (google_urlopen rq) (\<lambda>reply. case reply of
     NoAnswer \<Rightarrow> throw (App GoogleTransientError)
   | GoogleAnswer status cache body \<Rightarrow> ret (status, cache, body))"

definition status_error :: "int \<Rightarrow> gerror" where
  "status_error status = App (if status = 429 then GoogleRateLimited else if 500 \<le> status then GoogleTransientError else GooglePermanentError)"

definition json_dict :: "json option \<Rightarrow> gerror + json" where
  "json_dict raw = (case raw of None \<Rightarrow> Inl (App GoogleTransientError)
     | Some j \<Rightarrow> if is_dict j then Inr j else Inl (App GoogleTransientError))"

definition error_code :: "json option \<Rightarrow> string option" where
  "error_code raw = (case raw of None \<Rightarrow> None | Some j \<Rightarrow> as_str (jget ''error'' j))"

definition get_json :: "string \<Rightarrow> string \<Rightarrow> json gprog" where
  "get_json url access_token = bindM (google_call \<lparr>gq_method = GET, gq_url = url, gq_form = None, gq_token = Some access_token\<rparr>)
     (\<lambda>(status, _, raw). if status \<noteq> 200 then throw (status_error status) else liftE (json_dict raw))"

definition token_request :: "(string \<times> string) list \<Rightarrow> (int \<times> json option) gprog" where
  "token_request form = bindM (google_call \<lparr>gq_method = POST, gq_url = TOKEN_URL, gq_form = Some form, gq_token = None\<rparr>)
     (\<lambda>(status, _, raw). ret (status, raw))"

subsection \<open>Signing keys\<close>

text \<open>One entry of the key set, if it is an RSA signing key that can be built.\<close>

definition key_of :: "google_lib \<Rightarrow> json \<Rightarrow> (string \<times> rsa_key) option" where
  "key_of lib item = (if jget ''kty'' item \<noteq> JStr ''RSA'' \<or> jget ''use'' item \<noteq> JStr ''sig'' \<or> jget ''alg'' item \<noteq> JStr ''RS256'' then None
     else (case (text_or_none (jget ''kid'' item), as_str (jget ''n'' item), as_str (jget ''e'' item)) of
       (Some kid, Some n, Some e) \<Rightarrow> (case (b64url_decode e, b64url_decode n) of
           (Some e, Some n) \<Rightarrow> let key = (big_endian e, big_endian n) in if rsa_key_ok lib key then Some (kid, key) else None
         | _ \<Rightarrow> None)
     | _ \<Rightarrow> None))"

text \<open>\<open>keys[kid] = ...\<close>: of several entries for a key id the last one counts, so the list is kept in reverse.\<close>

definition keys_of :: "google_lib \<Rightarrow> json \<Rightarrow> (string \<times> rsa_key) list" where
  "keys_of lib body = rev (List.map_filter (key_of lib) (filter is_dict (items (jget ''keys'' body))))"

definition MAX_JWKS_TTL :: int where "MAX_JWKS_TTL = 86400"

definition cache_ttl :: "string option \<Rightarrow> int" where
  "cache_ttl cache = (case cache of None \<Rightarrow> 0 | Some h \<Rightarrow>
     (case search_number ''max-age='' h of None \<Rightarrow> 0 | Some n \<Rightarrow> min (int n) MAX_JWKS_TTL))"

definition fetch_jwks :: "((string \<times> rsa_key) list \<times> int) gprog" where
  "fetch_jwks = bindM (asks (\<lambda>w. g_jwks_uri (g_cfg w))) (\<lambda>uri.
     bindM (catchM (google_call \<lparr>gq_method = GET, gq_url = uri, gq_form = None, gq_token = None\<rparr>)
         (\<lambda>e. if e = App GoogleTransientError then Some (throw (App IdTokenUnverifiable)) else None))
       (\<lambda>(status, cache, raw). if status \<noteq> 200 then throw (App IdTokenUnverifiable)
          else (case json_dict raw of Inl _ \<Rightarrow> throw (App IdTokenUnverifiable)
            | Inr body \<Rightarrow> bindM (asks g_lib) (\<lambda>lib. ret (keys_of lib body, cache_ttl cache)))))"

definition jwks_key :: "string \<Rightarrow> rsa_key option gprog" where
  "jwks_key kid = bindM monotonic (\<lambda>t. bindM (asks (\<lambda>w. if t < jwks_expires w then map_of (jwks_keys w) kid else None)) (\<lambda>cached.
     case cached of Some key \<Rightarrow> ret (Some key)
     | None \<Rightarrow> bindM fetch_jwks (\<lambda>(keys, ttl). bindM monotonic (\<lambda>t.
         seqM (modifyM (\<lambda>w. w\<lparr>jwks_keys := keys, jwks_expires := t + seconds ttl\<rparr>)) (ret (map_of keys kid))))))"

subsection \<open>ID tokens\<close>

record id_claims =
  ic_sub :: "string option"
  ic_email :: "string option"
  ic_email_verified :: "bool option"
  ic_nonce :: "string option"

definition ISSUERS :: "string list" where
  "ISSUERS = [''https://accounts.google.com'', ''accounts.google.com'']"

text \<open>The three parts of a token, decoded: the header, the payload, the signature, and the text that is signed.\<close>

definition token_parts :: "google_lib \<Rightarrow> string \<Rightarrow> (json \<times> json \<times> string \<times> string) option" where
  "token_parts lib id_token = (case split_on (CHR 0x2E) id_token of
     [h, p, s] \<Rightarrow> (case (b64url_decode h, b64url_decode p, b64url_decode s) of
         (Some h', Some p', Some s') \<Rightarrow> (case (loads (g_py lib) h', loads (g_py lib) p') of
             (Some header, Some payload) \<Rightarrow> if is_dict header \<and> is_dict payload then Some (header, payload, s', h @ ''.'' @ p) else None
           | _ \<Rightarrow> None)
       | _ \<Rightarrow> None)
   | _ \<Rightarrow> None)"

definition token_kid :: "json \<Rightarrow> string option" where
  "token_kid header = (if jget ''alg'' header = JStr ''RS256'' then text_or_none (jget ''kid'' header) else None)"

text \<open>\<open>iss not in _ISSUERS\<close> raises for a value that cannot be hashed.\<close>

fun hashable :: "json \<Rightarrow> bool" where
  "hashable (JArr _) = False"
| "hashable (JObj _) = False"
| "hashable _ = True"

definition audience_ok :: "string \<Rightarrow> json \<Rightarrow> bool" where
  "audience_ok client_id payload \<longleftrightarrow> client_id \<noteq> [] \<and> (case jget ''aud'' payload of
     JArr xs \<Rightarrow> JStr client_id \<in> set xs \<and> jget ''azp'' payload = JStr client_id
   | aud \<Rightarrow> aud = JStr client_id)"

text \<open>\<open>time.time() >= exp\<close> refuses.\<close>

definition unexpired :: "instant \<Rightarrow> json \<Rightarrow> bool" where
  "unexpired t payload \<longleftrightarrow> (case jget ''exp'' payload of JInt e \<Rightarrow> t < seconds e | _ \<Rightarrow> False)"

definition claims_of :: "json \<Rightarrow> id_claims" where
  "claims_of payload = \<lparr>ic_sub = text_or_none (jget ''sub'' payload), ic_email = text_or_none (jget ''email'' payload),
     ic_email_verified = (case jget ''email_verified'' payload of JBool b \<Rightarrow> Some b | _ \<Rightarrow> None), ic_nonce = text_or_none (jget ''nonce'' payload)\<rparr>"

definition verify_payload :: "json \<Rightarrow> id_claims gprog" where
  "verify_payload payload = (
     if \<not> hashable (jget ''iss'' payload) then throw TypeErr
     else if jget ''iss'' payload \<notin> set (map JStr ISSUERS) then throw (App IdTokenInvalid)
     else bindM (asks (\<lambda>w. g_client_id (g_cfg w))) (\<lambda>client_id.
       if \<not> audience_ok client_id payload then throw (App IdTokenInvalid)
       else bindM now (\<lambda>t. if \<not> unexpired t payload then throw (App IdTokenInvalid) else ret (claims_of payload))))"

definition verify_id_token :: "string \<Rightarrow> id_claims gprog" where
  "verify_id_token id_token = bindM (asks g_lib) (\<lambda>lib. case token_parts lib id_token of
     None \<Rightarrow> throw (App IdTokenInvalid)
   | Some (header, payload, signature, input) \<Rightarrow> (case token_kid header of
       None \<Rightarrow> throw (App IdTokenInvalid)
     | Some kid \<Rightarrow> bindM (jwks_key kid) (\<lambda>key. case key of
         None \<Rightarrow> throw (App IdTokenInvalid)
       | Some k \<Rightarrow> if \<not> rsa_verify lib k signature input then throw (App IdTokenInvalid) else verify_payload payload)))"

subsection \<open>Tokens\<close>

definition authorization_url :: "google_settings \<Rightarrow> string \<Rightarrow> string \<Rightarrow> string" where
  "authorization_url c state nonce = AUTH_URL @ ''?'' @ urlencode [(''client_id'', g_client_id c), (''redirect_uri'', g_redirect_uri c),
     (''response_type'', ''code''), (''scope'', SCOPES), (''state'', state), (''nonce'', nonce), (''access_type'', ''offline''), (''prompt'', ''consent'')]"

text \<open>The last instant a \<open>datetime\<close> holds.\<close>

definition MAX_INSTANT :: instant where "MAX_INSTANT = seconds 253402300800 - 1"

definition positive_number :: "json \<Rightarrow> bool" where
  "positive_number j \<longleftrightarrow> (case j of JInt i \<Rightarrow> 0 < i | JFloat m e \<Rightarrow> 0 < m | _ \<Rightarrow> False)"

definition lifetime :: "google_lib \<Rightarrow> json \<Rightarrow> int" where
  "lifetime lib j = (case j of JInt i \<Rightarrow> seconds i | JFloat m e \<Rightarrow> float_micros lib m e | _ \<Rightarrow> 0)"

text \<open>The access token and the end of its life; a lifetime beyond the calendar overflows.\<close>

definition usable_token :: "json \<Rightarrow> (string \<times> instant) gprog" where
  "usable_token body = (case text_or_none (jget ''access_token'' body) of
     None \<Rightarrow> throw (App GooglePermanentError)
   | Some access_token \<Rightarrow> if \<not> positive_number (jget ''expires_in'' body) then throw (App GooglePermanentError)
       else bindM now (\<lambda>t. bindM (asks g_lib) (\<lambda>lib. let u = t + lifetime lib (jget ''expires_in'' body) in
         if MAX_INSTANT < u then throw (App OverflowErr) else ret (access_token, u))))"

record exchange_result =
  er_access :: string
  er_refresh :: "string option"
  er_expires_at :: instant
  er_scopes :: "string list"
  er_id_token :: "string option"

text \<open>\<open>scope.split()\<close>.\<close>

function split_blanks :: "string \<Rightarrow> string list" where
  "split_blanks s = (let r = dropWhile space_char s in
     if r = [] then [] else takeWhile (\<lambda>c. \<not> space_char c) r # split_blanks (dropWhile (\<lambda>c. \<not> space_char c) r))"
  by auto
termination
proof (relation "measure length", simp)
  fix s r :: string
  assume r: "r = dropWhile space_char s" "r \<noteq> []"
  then have h: "\<not> space_char (hd r)" using hd_dropWhile by blast
  have "length (dropWhile (\<lambda>c. \<not> space_char c) r) < length r" using h r(2)
    by (cases r) (auto simp: less_Suc_eq_le length_dropWhile_le)
  also have "length r \<le> length s" unfolding r(1) by (rule length_dropWhile_le)
  finally show "(dropWhile (\<lambda>c. \<not> space_char c) r, s) \<in> measure length" by simp
qed

declare split_blanks.simps [simp del]

definition exchange_form :: "google_settings \<Rightarrow> string \<Rightarrow> (string \<times> string) list" where
  "exchange_form c code = [(''code'', code), (''client_id'', g_client_id c), (''client_secret'', g_client_secret c),
     (''redirect_uri'', g_redirect_uri c), (''grant_type'', ''authorization_code'')]"

definition exchange_code :: "string \<Rightarrow> exchange_result gprog" where
  "exchange_code code = bindM (asks (\<lambda>w. exchange_form (g_cfg w) code)) (\<lambda>form. bindM (token_request form) (\<lambda>(status, raw).
     if status \<noteq> 200 then throw (status_error status)
     else bindM (liftE (json_dict raw)) (\<lambda>body. bindM (usable_token body) (\<lambda>(access_token, expires_at).
       ret \<lparr>er_access = access_token, er_refresh = text_or_none (jget ''refresh_token'' body), er_expires_at = expires_at,
         er_scopes = (case as_str (jget ''scope'' body) of None \<Rightarrow> [] | Some s \<Rightarrow> split_blanks s),
         er_id_token = text_or_none (jget ''id_token'' body)\<rparr>))))"

definition REVOKED_ERRORS :: "string list" where
  "REVOKED_ERRORS = [''invalid_grant'', ''admin_policy_enforced'']"

definition refresh_error :: "int \<Rightarrow> json option \<Rightarrow> gerror" where
  "refresh_error status raw = (case error_code raw of
     Some e \<Rightarrow> if status = 400 \<and> e \<in> set REVOKED_ERRORS then App (GoogleAuthRevoked e) else status_error status
   | None \<Rightarrow> status_error status)"

definition refresh_form :: "google_settings \<Rightarrow> string \<Rightarrow> (string \<times> string) list" where
  "refresh_form c refresh_token = [(''client_id'', g_client_id c), (''client_secret'', g_client_secret c),
     (''grant_type'', ''refresh_token''), (''refresh_token'', refresh_token)]"

record token_set =
  ts_access :: string
  ts_refresh :: "string option"
  ts_expires_at :: instant

definition refresh_tokens :: "string \<Rightarrow> token_set gprog" where
  "refresh_tokens refresh_token = bindM (asks (\<lambda>w. refresh_form (g_cfg w) refresh_token)) (\<lambda>form. bindM (token_request form) (\<lambda>(status, raw).
     if status \<noteq> 200 then throw (refresh_error status raw)
     else bindM (liftE (json_dict raw)) (\<lambda>body. bindM (usable_token body) (\<lambda>(access_token, expires_at).
       ret \<lparr>ts_access = access_token, ts_refresh = text_or_none (jget ''refresh_token'' body), ts_expires_at = expires_at\<rparr>))))"

subsection \<open>Locations\<close>

record provider_location =
  pl_google_id :: string
  pl_title :: string
  pl_place :: "string option"
  pl_uri :: "string option"

definition name_char :: "char \<Rightarrow> bool" where
  "name_char c \<longleftrightarrow> word_char c \<or> c \<in> set ''.-''"

definition resource_name :: "string \<Rightarrow> string \<Rightarrow> bool" where
  "resource_name kind s \<longleftrightarrow> take (length kind) s = kind \<and> drop (length kind) s \<noteq> [] \<and> list_all name_char (drop (length kind) s)"

text \<open>\<open>_ACCOUNT_NAME\<close> and \<open>_LOCATION_NAME\<close>.\<close>

definition account_name_ok :: "string \<Rightarrow> bool" where
  "account_name_ok s \<longleftrightarrow> dollar (resource_name ''accounts/'') s"

definition location_name_ok :: "string \<Rightarrow> bool" where
  "location_name_ok s \<longleftrightarrow> dollar (resource_name ''locations/'') s"

definition paged :: "(string \<times> string) list \<Rightarrow> string option \<Rightarrow> (string \<times> string) list" where
  "paged query token = query @ (case token of None \<Rightarrow> [] | Some t \<Rightarrow> if t = [] then [] else [(''pageToken'', t)])"

definition account_names_of :: "json \<Rightarrow> string list" where
  "account_names_of body = List.map_filter (\<lambda>item. case as_str (jget ''name'' item) of None \<Rightarrow> None
     | Some name \<Rightarrow> if account_name_ok name then Some name else None) (items (jget ''accounts'' body))"

text \<open>The loops end by the page bounds of the code; the first argument is how many pages are left.\<close>

fun account_names_from :: "nat \<Rightarrow> string \<Rightarrow> string option \<Rightarrow> string list gprog" where
  "account_names_from 0 access_token token = throw (App GooglePermanentError)"
| "account_names_from (Suc n) access_token token =
     bindM (get_json (ACCOUNTS_URL @ ''?'' @ urlencode (paged [(''pageSize'', ''20'')] token)) access_token) (\<lambda>body.
       case text_or_none (jget ''nextPageToken'' body) of
         None \<Rightarrow> ret (account_names_of body)
       | Some next \<Rightarrow> bindM (account_names_from n access_token (Some next)) (\<lambda>names. ret (account_names_of body @ names)))"

definition account_names :: "string \<Rightarrow> string list gprog" where
  "account_names access_token = account_names_from MAX_ACCOUNT_PAGES access_token None"

definition parse_location :: "string \<Rightarrow> json \<Rightarrow> provider_location option" where
  "parse_location account_name item = (case as_str (jget ''name'' item) of None \<Rightarrow> None
     | Some name \<Rightarrow> if \<not> location_name_ok name then None
         else Some \<lparr>pl_google_id = account_name @ ''/'' @ name,
           pl_title = (case text_or_none (jget ''title'' item) of None \<Rightarrow> [] | Some t \<Rightarrow> t),
           pl_place = text_or_none (jget ''placeId'' (jget ''metadata'' item)),
           pl_uri = text_or_none (jget ''newReviewUri'' (jget ''metadata'' item))\<rparr>)"

definition locations_of :: "string \<Rightarrow> json \<Rightarrow> provider_location list" where
  "locations_of account_name body = List.map_filter (parse_location account_name) (items (jget ''locations'' body))"

fun locations_from :: "nat \<Rightarrow> string \<Rightarrow> string \<Rightarrow> string option \<Rightarrow> provider_location list gprog" where
  "locations_from 0 account_name access_token token = throw (App GooglePermanentError)"
| "locations_from (Suc n) account_name access_token token =
     bindM (get_json (LOCATIONS_BASE @ ''/'' @ account_name @ ''/locations?'' @
         urlencode (paged [(''readMask'', ''name,title,metadata''), (''pageSize'', ''100'')] token)) access_token) (\<lambda>body.
       case text_or_none (jget ''nextPageToken'' body) of
         None \<Rightarrow> ret (locations_of account_name body)
       | Some next \<Rightarrow> bindM (locations_from n account_name access_token (Some next)) (\<lambda>rest. ret (locations_of account_name body @ rest)))"

fun locations_each :: "string \<Rightarrow> string list \<Rightarrow> provider_location list gprog" where
  "locations_each access_token [] = ret []"
| "locations_each access_token (name # names) = bindM (locations_from MAX_LOCATION_PAGES name access_token None) (\<lambda>found.
     bindM (locations_each access_token names) (\<lambda>rest. ret (found @ rest)))"

definition list_locations :: "string \<Rightarrow> provider_location list gprog" where
  "list_locations access_token = bindM (account_names access_token) (locations_each access_token)"

subsection \<open>Reviews\<close>

record provider_review =
  pr_review :: string
  pr_name :: "string option"
  pr_rating :: "int option"
  pr_text :: "string option"
  pr_created_at :: "instant option"

record review_page =
  rp_reviews :: "provider_review list"
  rp_average :: "int option"
  rp_count :: "int option"
  rp_next :: "string option"

definition STARS :: "(string \<times> int) list" where
  "STARS = [(''ONE'', 1), (''TWO'', 2), (''THREE'', 3), (''FOUR'', 4), (''FIVE'', 5)]"

text \<open>\<open>_STARS.get(x)\<close> raises for a value that cannot be hashed.\<close>

definition stars_of :: "json \<Rightarrow> gerror + int option" where
  "stars_of j = (if \<not> hashable j then Inl TypeErr else Inr (case as_str j of None \<Rightarrow> None | Some s \<Rightarrow> map_of STARS s))"

definition parse_time :: "google_lib \<Rightarrow> json \<Rightarrow> instant option" where
  "parse_time lib j = (case as_str j of None \<Rightarrow> None | Some s \<Rightarrow> map_option snd (fromisoformat (g_py lib) s))"

definition parse_review :: "google_lib \<Rightarrow> json \<Rightarrow> gerror + provider_review option" where
  "parse_review lib item = (case text_or_none (jget ''reviewId'' item) of None \<Rightarrow> Inr None
     | Some review_id \<Rightarrow> let reviewer = jget ''reviewer'' item in
         bindE (stars_of (jget ''starRating'' item)) (\<lambda>rating. Inr (Some \<lparr>pr_review = review_id,
           pr_name = (if is_dict reviewer \<and> jget ''isAnonymous'' reviewer \<noteq> JBool True then text_or_none (jget ''displayName'' reviewer) else None),
           pr_rating = rating, pr_text = text_or_none (jget ''comment'' item), pr_created_at = parse_time lib (jget ''createTime'' item)\<rparr>)))"

fun parse_reviews :: "google_lib \<Rightarrow> json list \<Rightarrow> gerror + provider_review list" where
  "parse_reviews lib [] = Inr []"
| "parse_reviews lib (j # js) = bindE (parse_review lib j) (\<lambda>r. bindE (parse_reviews lib js) (\<lambda>rs.
     Inr ((case r of None \<Rightarrow> [] | Some x \<Rightarrow> [x]) @ rs)))"

text \<open>
  \<open>Decimal(str(x)).quantize(Decimal("0.1"))\<close> in tenths, rounded half to even; a result of more than 28 digits is
  \<open>InvalidOperation\<close>, and out of range anyway.
\<close>

definition tenths :: "py_decimal \<Rightarrow> int option" where
  "tenths d = (case d of DFin neg n e \<Rightarrow> (let
        k = (if -1 \<le> e then int n * 10 ^ nat (e + 1)
             else (let p = 10 ^ nat (- e - 1); q = int n div p; r = int n mod p in if 2 * r > p \<or> 2 * r = p \<and> odd q then q + 1 else q)) in
      Some (if neg then - k else k))
    | _ \<Rightarrow> None)"

definition average_rating :: "google_lib \<Rightarrow> json \<Rightarrow> int option" where
  "average_rating lib j = (if \<not> is_number j then None else (case parse_decimal (py_str (g_py lib) j) of None \<Rightarrow> None
     | Some d \<Rightarrow> (case tenths d of None \<Rightarrow> None | Some k \<Rightarrow> if 0 \<le> k \<and> k \<le> 50 then Some k else None)))"

definition review_count :: "json \<Rightarrow> int option" where
  "review_count j = (case as_int j of None \<Rightarrow> None | Some n \<Rightarrow> if 0 \<le> n then Some n else None)"

text \<open>\<open>_FULL_LOCATION_NAME\<close>: the account and the location.\<close>

definition split_location_name :: "string \<Rightarrow> (string \<times> string) option" where
  "split_location_name s0 = (let s = (if s0 \<noteq> [] \<and> last s0 = CHR 0x0A then butlast s0 else s0);
      (account, r) = split_while name_char (drop 9 s); location = drop 11 r in
     if take 9 s = ''accounts/'' \<and> account \<noteq> [] \<and> take 11 r = ''/locations/'' \<and> location \<noteq> [] \<and> list_all name_char location
     then Some (account, location) else None)"

definition reviews_url :: "string \<Rightarrow> string \<Rightarrow> string option \<Rightarrow> string" where
  "reviews_url account location page_token = REVIEWS_BASE @ ''/accounts/'' @ quote account @ ''/locations/'' @ quote location @ ''/reviews?'' @
     urlencode (paged [(''pageSize'', ''50'')] page_token)"

definition page_of :: "google_lib \<Rightarrow> json \<Rightarrow> gerror + review_page" where
  "page_of lib body = bindE (parse_reviews lib (items (jget ''reviews'' body))) (\<lambda>rs.
     Inr \<lparr>rp_reviews = rs, rp_average = average_rating lib (jget ''averageRating'' body), rp_count = review_count (jget ''totalReviewCount'' body),
       rp_next = text_or_none (jget ''nextPageToken'' body)\<rparr>)"

definition list_review_page :: "string \<Rightarrow> string \<Rightarrow> string option \<Rightarrow> review_page gprog" where
  "list_review_page access_token google_location_id page_token = (case split_location_name google_location_id of
     None \<Rightarrow> throw (App GooglePermanentError)
   | Some (account, location) \<Rightarrow> bindM (get_json (reviews_url account location page_token) access_token) (\<lambda>body.
       bindM (asks g_lib) (\<lambda>lib. liftE (page_of lib body))))"

end
