(* ===== verification/GoogleServices.thy ===== *)
theory GoogleServices
  imports GoogleProvider "HOL-Library.AList"
begin

text \<open>
  The first half of \<open>google_reviews/services.py\<close>: OAuth attempts and their expiry, the exchange of the authorization code,
  connections and the refresh of their tokens. Provider calls are made between transactions, never inside one.
\<close>

subsection \<open>Settings and review links\<close>

definition BUSINESS_SCOPE :: string where "BUSINESS_SCOPE = ''https://www.googleapis.com/auth/business.manage''"
definition MAX_REVIEW_LINK :: nat where "MAX_REVIEW_LINK = 2048"

definition hash_text :: "string \<Rightarrow> string" where
  "hash_text s = hexdigest (sha256 (utf8 s))"

definition google_enabled :: "google_settings \<Rightarrow> bool" where
  "google_enabled c \<longleftrightarrow> g_enabled c \<and> g_client_id c \<noteq> [] \<and> g_client_secret c \<noteq> [] \<and> g_redirect_uri c \<noteq> [] \<and> g_fernet_key c \<noteq> []"

definition google_merchant :: "uuid gprog" where
  "google_merchant = bindM get_current_merchant_id (\<lambda>m. case m of None \<Rightarrow> throw TenantContextError | Some m \<Rightarrow> ret m)"

definition validate_review_link :: "google_lib \<Rightarrow> string option \<Rightarrow> gerror + string" where
  "validate_review_link lib uri = (case uri of None \<Rightarrow> Inl (App ReviewLinkMissing)
     | Some s \<Rightarrow> if s = [] \<or> MAX_REVIEW_LINK < length s then Inl (App ReviewLinkMissing)
         else if s \<noteq> strip s \<or> list_ex (\<lambda>c. code_point c \<le> 32 \<or> code_point c = 127) s then Inl (App ReviewLinkMissing)
         else (case urlsplit (ip_literal lib) s of None \<Rightarrow> Inl (App ReviewLinkMissing)
           | Some u \<Rightarrow> if us_scheme u \<noteq> ''https'' \<or> hostname u = None \<or> CHR 0x40 \<in> set (us_netloc u) \<or> us_fragment u \<noteq> []
               then Inl (App ReviewLinkMissing) else Inr s))"

subsection \<open>Attempts\<close>

text \<open>\<open>expire_attempts\<close>, the two rules at the instant \<open>t\<close>, for one attempt or for all of the merchant.\<close>

definition unclaimed :: "oauth_attempt \<Rightarrow> bool" where
  "unclaimed a \<longleftrightarrow> oa_status a = AttemptIssued \<or> oa_status a = AttemptPending \<and> oa_code a \<noteq> None"

definition failed_attempt :: "failure_code \<Rightarrow> instant \<Rightarrow> oauth_attempt \<Rightarrow> oauth_attempt" where
  "failed_attempt code t a = a\<lparr>oa_status := AttemptFailed, oa_failure := Some code, oa_code := None, oa_completed_at := Some t, oa_updated_at := t\<rparr>"

definition expire_attempts :: "uuid option \<Rightarrow> instant \<Rightarrow> unit gprog" where
  "expire_attempts attempt_id t = bindM (asks (\<lambda>w. seconds (g_grace (g_cfg w)))) (\<lambda>grace.
     let wanted = (\<lambda>a. case attempt_id of None \<Rightarrow> True | Some i \<Rightarrow> oa_id a = i) in
     bindM (update_attempts anything (\<lambda>a. wanted a \<and> unclaimed a \<and> oa_expires_at a \<le> t) (failed_attempt OAUTH_EXPIRED t)) (\<lambda>_.
     bindM (update_attempts anything (\<lambda>a. wanted a \<and> oa_status a = AttemptPending \<and> oa_code a = None \<and> oa_expires_at a \<le> t - grace)
         (\<lambda>a. a\<lparr>oa_status := AttemptFailed, oa_failure := Some EXCHANGE_INTERRUPTED, oa_completed_at := Some t, oa_updated_at := t\<rparr>)) (\<lambda>_. ret ())))"

definition purge_attempts :: "instant \<Rightarrow> unit gprog" where
  "purge_attempts t = bindM (asks (\<lambda>w. t - seconds (g_retention (g_cfg w)))) (\<lambda>cutoff.
     delete_attempts (\<lambda>a. oa_status a \<in> {AttemptCompleted, AttemptFailed} \<and> oa_expires_at a \<le> cutoff))"

definition new_attempt :: "uuid \<Rightarrow> uuid \<Rightarrow> uuid \<Rightarrow> string \<Rightarrow> string \<Rightarrow> instant \<Rightarrow> instant \<Rightarrow> oauth_attempt" where
  "new_attempt i m u state nonce expires t = \<lparr>oa_id = i, oa_merchant = m, oa_user = u, oa_state_hash = hash_text state, oa_nonce_hash = hash_text nonce,
     oa_status = AttemptIssued, oa_code = None, oa_failure = None, oa_connection = None, oa_expires_at = expires, oa_completed_at = None, oa_updated_at = t\<rparr>"

definition issue_oauth_state :: "uuid \<Rightarrow> (string \<times> string) gprog" where
  "issue_oauth_state actor = bindM google_merchant (\<lambda>m. bindM now (\<lambda>t. bindM google_random (\<lambda>state. bindM google_random (\<lambda>nonce.
     tenant_atomic False (seqM (expire_attempts None t) (seqM (purge_attempts t) (bindM (asks (\<lambda>w. seconds (g_state_max_age (g_cfg w)))) (\<lambda>age.
       bindM google_random (\<lambda>i. bindM now (\<lambda>u. seqM (insert_attempt (new_attempt i m actor state nonce (t + age) u)) (ret (state, nonce)))))))))))) "

definition begin_google_oauth :: "uuid \<Rightarrow> string gprog" where
  "begin_google_oauth actor = bindM (asks g_cfg) (\<lambda>c. if \<not> google_enabled c then throw (App GoogleNotConfigured)
     else bindM (issue_oauth_state actor) (\<lambda>(state, nonce). ret (authorization_url c state nonce)))"

text \<open>The claim and the task that follows its commit.\<close>

definition claim_attempt :: "uuid \<Rightarrow> string \<Rightarrow> string \<Rightarrow> instant \<Rightarrow> oauth_attempt gprog" where
  "claim_attempt actor state_hash code_enc t = bindM (update_attempts anything
       (\<lambda>a. oa_state_hash a = state_hash \<and> oa_user a = actor \<and> oa_status a = AttemptIssued \<and> t < oa_expires_at a)
       (\<lambda>a. a\<lparr>oa_status := AttemptPending, oa_code := Some code_enc, oa_updated_at := t\<rparr>)) (\<lambda>claimed.
     if claimed \<noteq> 1 then throw (App InvalidOAuthState)
     else bindM (g_first oa_merchant attempts (\<lambda>a. oa_state_hash a = state_hash)) (\<lambda>r. case r of
       None \<Rightarrow> throw DoesNotExist
     | Some a \<Rightarrow> seqM (enqueue_on_commit (ExchangeCode (oa_merchant a) (oa_id a))) (ret a)))"

definition complete_google_oauth :: "uuid \<Rightarrow> string \<Rightarrow> string \<Rightarrow> oauth_attempt gprog" where
  "complete_google_oauth actor code state = bindM (asks g_cfg) (\<lambda>c. if \<not> google_enabled c then throw (App GoogleNotConfigured)
     else bindM now (\<lambda>t. bindM (encrypt_text code) (\<lambda>code_enc. tenant_atomic False (claim_attempt actor (hash_text state) code_enc t))))"

definition get_oauth_attempt :: "uuid \<Rightarrow> uuid \<Rightarrow> oauth_attempt gprog" where
  "get_oauth_attempt actor i = bindM (tenant_atomic False (bindM now (\<lambda>t. seqM (expire_attempts (Some i) t)
     (g_first oa_merchant attempts (\<lambda>a. oa_id a = i \<and> oa_user a = actor))))) (or_raise (App GoogleNotFound))"

subsection \<open>The code exchange\<close>

text \<open>\<open>_violated_constraint\<close>.\<close>

fun violated_constraint :: "gerror \<Rightarrow> string \<Rightarrow> bool" where
  "violated_constraint (UniqueViolation c) name = (c = name)"
| "violated_constraint _ _ = False"

definition mark_failed :: "uuid \<Rightarrow> failure_code \<Rightarrow> instant \<Rightarrow> bool gprog" where
  "mark_failed i code t = bindM (update_attempts anything (\<lambda>a. oa_id a = i \<and> oa_status a = AttemptPending) (failed_attempt code t)) (\<lambda>n. ret (n = 1))"

definition fail_attempt :: "uuid \<Rightarrow> failure_code \<Rightarrow> unit gprog" where
  "fail_attempt i code = bindM (tenant_atomic False (bindM now (mark_failed i code))) (\<lambda>_. ret ())"

text \<open>The stored code, the hash of the nonce and the user, if this task is the one that takes them.\<close>

definition take_code :: "uuid \<Rightarrow> (string \<times> string \<times> uuid) option gprog" where
  "take_code i = bindM now (\<lambda>t. tenant_atomic False (bindM (g_first oa_merchant attempts
       (\<lambda>a. oa_id a = i \<and> oa_status a = AttemptPending \<and> oa_code a \<noteq> None \<and> t < oa_expires_at a)) (\<lambda>r. case r of
     None \<Rightarrow> ret None
   | Some row \<Rightarrow> bindM (update_attempts anything (\<lambda>a. oa_id a = i \<and> oa_status a = AttemptPending \<and> oa_code a = oa_code row \<and> t < oa_expires_at a)
         (\<lambda>a. a\<lparr>oa_code := None, oa_updated_at := t\<rparr>)) (\<lambda>taken.
       ret (if taken = 1 then Some (the (oa_code row), oa_nonce_hash row, oa_user row) else None)))))"

text \<open>The checks in their order: the ID token with its nonce, the identity, the scope.\<close>

definition identity_ok :: "id_claims \<Rightarrow> bool" where
  "identity_ok claims \<longleftrightarrow> (case (ic_sub claims, ic_email claims) of
     (Some sub, Some email) \<Rightarrow> length sub \<le> 255 \<and> length email \<le> 254 | _ \<Rightarrow> False)"

definition judge_claims :: "exchange_result \<Rightarrow> string \<Rightarrow> id_claims \<Rightarrow> failure_code + id_claims" where
  "judge_claims result nonce_hash claims = (
     if (case ic_nonce claims of None \<Rightarrow> True | Some n \<Rightarrow> hash_text n \<noteq> nonce_hash) then Inl ID_TOKEN_INVALID
     else if \<not> identity_ok claims then Inl IDENTITY_MISSING
     else if BUSINESS_SCOPE \<notin> set (er_scopes result) then Inl SCOPE_MISSING
     else Inr claims)"

definition validate_exchange :: "exchange_result \<Rightarrow> string \<Rightarrow> (failure_code + id_claims) gprog" where
  "validate_exchange result nonce_hash = (case er_id_token result of
     None \<Rightarrow> ret (Inl IDENTITY_MISSING)
   | Some t \<Rightarrow> catchM (bindM (verify_id_token t) (\<lambda>claims. ret (judge_claims result nonce_hash claims)))
       (\<lambda>e. if e = App IdTokenUnverifiable then Some (ret (Inl ID_TOKEN_UNVERIFIABLE))
            else if e = App IdTokenInvalid then Some (ret (Inl ID_TOKEN_INVALID)) else None))"

definition new_connection :: "uuid \<Rightarrow> uuid \<Rightarrow> id_claims \<Rightarrow> string \<Rightarrow> string \<Rightarrow> instant \<Rightarrow> instant \<Rightarrow> instant \<Rightarrow> google_connection" where
  "new_connection i m claims access refresh expires t u = \<lparr>gc_id = i, gc_merchant = m, gc_sub = the (ic_sub claims), gc_email = the (ic_email claims),
     gc_access = access, gc_refresh = refresh, gc_expires_at = expires, gc_status = ConnectionActive, gc_connected_at = Some t, gc_updated_at = u\<rparr>"

definition reauthorized :: "id_claims \<Rightarrow> string \<Rightarrow> string option \<Rightarrow> instant \<Rightarrow> instant \<Rightarrow> google_connection \<Rightarrow> google_connection" where
  "reauthorized claims access refresh expires t c = c\<lparr>gc_access := access, gc_refresh := (case refresh of None \<Rightarrow> gc_refresh c | Some r \<Rightarrow> r),
     gc_email := the (ic_email claims), gc_expires_at := expires, gc_status := ConnectionActive, gc_connected_at := Some t\<rparr>"

text \<open>The connection and whether it is new, or why there is none.\<close>

definition upsert_connection :: "id_claims \<Rightarrow> exchange_result \<Rightarrow> instant \<Rightarrow> (failure_code + google_connection \<times> bool) gprog" where
  "upsert_connection claims result t = bindM (lock_connection (\<lambda>c. Some (gc_sub c) = ic_sub claims)) (\<lambda>existing. case existing of
     None \<Rightarrow> (case er_refresh result of None \<Rightarrow> ret (Inl REFRESH_TOKEN_MISSING)
       | Some refresh_token \<Rightarrow> bindM google_merchant (\<lambda>m. bindM (encrypt_text (er_access result)) (\<lambda>access. bindM (encrypt_text refresh_token) (\<lambda>refresh.
           bindM google_random (\<lambda>i. bindM now (\<lambda>u. let c = new_connection i m claims access refresh (er_expires_at result) t u in
             seqM (insert_connection c) (ret (Inr (c, True)))))))))
   | Some c \<Rightarrow> if er_refresh result = None \<and> gc_status c \<noteq> ConnectionActive then ret (Inl REFRESH_TOKEN_MISSING)
       else bindM (encrypt_text (er_access result)) (\<lambda>access.
         bindM (case er_refresh result of None \<Rightarrow> ret None | Some r \<Rightarrow> bindM (encrypt_text r) (\<lambda>x. ret (Some x))) (\<lambda>refresh.
         bindM (save_connection (gc_id c) (reauthorized claims access refresh (er_expires_at result) t)) (\<lambda>c'. ret (Inr (c', False))))))"

text \<open>The conditional end of the attempt. The connection written before it is held until the transaction ends.\<close>

definition complete_attempt :: "uuid \<Rightarrow> google_connection \<Rightarrow> instant \<Rightarrow> unit gprog" where
  "complete_attempt i c t = bindM (update_attempts (keeps_connection (gc_id c)) (\<lambda>a. oa_id a = i \<and> oa_status a = AttemptPending)
       (\<lambda>a. a\<lparr>oa_status := AttemptCompleted, oa_connection := Some (gc_id c), oa_completed_at := Some t, oa_code := None, oa_updated_at := t\<rparr>)) (\<lambda>updated.
     if updated \<noteq> 1 then throw (App AttemptNoLongerPending) else ret ())"

definition finish_ok :: "uuid \<Rightarrow> uuid \<Rightarrow> id_claims \<Rightarrow> exchange_result \<Rightarrow> unit gprog" where
  "finish_ok i user claims result = bindM now (\<lambda>t. bindM (in_tenant (\<lambda>m d. (m, user) \<in> set (g_members d))) (\<lambda>member.
     if \<not> member then bindM (mark_failed i ACTOR_NOT_MEMBER t) (\<lambda>_. ret ())
     else bindM (upsert_connection claims result t) (\<lambda>r. case r of
       Inl failure \<Rightarrow> bindM (mark_failed i failure t) (\<lambda>_. ret ())
     | Inr (c, created) \<Rightarrow> seqM (record_connection_log (if created then ''google.connection_added'' else ''google.connection_reauthorized'') user (gc_id c))
         (complete_attempt i c t))))"

definition finish_attempt :: "uuid \<Rightarrow> uuid \<Rightarrow> id_claims \<Rightarrow> exchange_result \<Rightarrow> unit gprog" where
  "finish_attempt i user claims result = catchM (tenant_atomic True (finish_ok i user claims result)) (\<lambda>e.
     if e = App AttemptNoLongerPending then Some (ret ())
     else if e = ActorNotMember then Some (fail_attempt i ACTOR_NOT_MEMBER)
     else if integrity_error e \<and> violated_constraint e CONNECTION_UNIQUE then Some (fail_attempt i GOOGLE_ACCOUNT_ALREADY_CONNECTED)
     else None)"

text \<open>The token response, or \<open>None\<close> where the exchange has failed for good.\<close>

definition redeem_code :: "string \<Rightarrow> exchange_result option gprog" where
  "redeem_code code_enc = catchM (bindM (bindM (decrypt_text code_enc) exchange_code) (\<lambda>r. ret (Some r)))
     (\<lambda>e. if e \<in> {App FernetInvalidToken, App GoogleTransientError, App GooglePermanentError, App GoogleRateLimited} then Some (ret None) else None)"

definition exchange_attempt :: "uuid \<Rightarrow> unit gprog" where
  "exchange_attempt i = bindM (take_code i) (\<lambda>taken. case taken of
     None \<Rightarrow> ret ()
   | Some (code_enc, nonce_hash, user) \<Rightarrow> bindM (redeem_code code_enc) (\<lambda>r. case r of
       None \<Rightarrow> fail_attempt i EXCHANGE_FAILED
     | Some result \<Rightarrow> bindM (validate_exchange result nonce_hash) (\<lambda>v. case v of
         Inl failure \<Rightarrow> fail_attempt i failure
       | Inr claims \<Rightarrow> finish_attempt i user claims result)))"

subsection \<open>Token refresh\<close>

definition still_seen :: "uuid \<Rightarrow> string \<Rightarrow> google_connection \<Rightarrow> bool" where
  "still_seen i seen c \<longleftrightarrow> gc_id c = i \<and> gc_status c = ConnectionActive \<and> gc_refresh c = seen"

definition mark_needs_reauth :: "uuid \<Rightarrow> string \<Rightarrow> bool gprog" where
  "mark_needs_reauth i seen = bindM now (\<lambda>t. bindM (tenant_atomic False (update_connections (still_seen i seen)
     (\<lambda>c. c\<lparr>gc_status := NeedsReauth, gc_updated_at := t\<rparr>))) (\<lambda>n. ret (n \<noteq> 0)))"

definition refreshed :: "string \<Rightarrow> string option \<Rightarrow> instant \<Rightarrow> instant \<Rightarrow> google_connection \<Rightarrow> google_connection" where
  "refreshed access refresh expires t c = c\<lparr>gc_access := access, gc_expires_at := expires, gc_updated_at := t,
     gc_refresh := (case refresh of None \<Rightarrow> gc_refresh c | Some r \<Rightarrow> r)\<rparr>"

definition store_refreshed :: "uuid \<Rightarrow> string \<Rightarrow> token_set \<Rightarrow> unit gprog" where
  "store_refreshed i seen tokens = bindM now (\<lambda>t. bindM (encrypt_text (ts_access tokens)) (\<lambda>access.
     bindM (case ts_refresh tokens of None \<Rightarrow> ret None | Some r \<Rightarrow> bindM (encrypt_text r) (\<lambda>x. ret (Some x))) (\<lambda>refresh.
       bindM (tenant_atomic False (update_connections (still_seen i seen) (refreshed access refresh (ts_expires_at tokens) t))) (\<lambda>_. ret ()))))"

definition refresh_margin :: "instant gprog" where
  "refresh_margin = asks (\<lambda>w. seconds (g_refresh_margin (g_cfg w)))"

text \<open>The answer of Google: new tokens, or a revocation.\<close>

definition ask_refresh :: "string \<Rightarrow> token_set option gprog" where
  "ask_refresh refresh_token = catchM (bindM (refresh_tokens refresh_token) (\<lambda>ts. ret (Some ts)))
     (\<lambda>e. case e of App (GoogleAuthRevoked reason) \<Rightarrow> Some (ret None) | _ \<Rightarrow> None)"

definition refresh_now :: "uuid \<Rightarrow> string \<Rightarrow> unit gprog" where
  "refresh_now i seen = bindM (catchM (bindM (decrypt_text seen) (\<lambda>s. ret (Some s)))
       (\<lambda>e. if e = App FernetInvalidToken then Some (ret None) else None)) (\<lambda>r. case r of
     None \<Rightarrow> ret ()
   | Some refresh_token \<Rightarrow> bindM (ask_refresh refresh_token) (\<lambda>answer. case answer of
       None \<Rightarrow> bindM (mark_needs_reauth i seen) (\<lambda>_. ret ())
     | Some tokens \<Rightarrow> store_refreshed i seen tokens))"

definition refresh_connection :: "uuid \<Rightarrow> unit gprog" where
  "refresh_connection i = bindM (tenant_atomic False (g_first gc_merchant connections (\<lambda>c. gc_id c = i))) (\<lambda>r. case r of
     None \<Rightarrow> ret ()
   | Some c \<Rightarrow> if gc_status c \<noteq> ConnectionActive then ret ()
       else bindM refresh_margin (\<lambda>margin. bindM now (\<lambda>t. if t + margin < gc_expires_at c then ret () else refresh_now i (gc_refresh c))))"

definition get_access_token :: "uuid \<Rightarrow> string option gprog" where
  "get_access_token i = seqM (refresh_connection i)
     (bindM (tenant_atomic False (g_first gc_merchant connections (\<lambda>c. gc_id c = i \<and> gc_status c = ConnectionActive))) (\<lambda>r. case r of
       None \<Rightarrow> ret None | Some c \<Rightarrow> bindM (decrypt_text (gc_access c)) (\<lambda>t. ret (Some t))))"

definition sweep_oauth_attempts :: "unit gprog" where
  "sweep_oauth_attempts = bindM now (\<lambda>t. tenant_atomic False (seqM (expire_attempts None t) (purge_attempts t)))"

text \<open>A loop whose failing items are logged and passed over.\<close>

definition logged :: "unit gprog \<Rightarrow> unit gprog" where
  "logged m = catchM m (\<lambda>_. Some (ret ()))"

definition refresh_merchant_tokens :: "unit gprog" where
  "refresh_merchant_tokens = seqM sweep_oauth_attempts
     (bindM (tenant_atomic False (g_rows gc_merchant connections (\<lambda>c. gc_status c = ConnectionActive))) (\<lambda>rows.
       forM rows (\<lambda>c. logged (refresh_connection (gc_id c)))))"

definition merchant_ids_with_google :: "uuid list gprog" where
  "merchant_ids_with_google = seqM autocommit (asks (\<lambda>w. map fst (filter (\<lambda>(m, s). s \<noteq> MDeleted) (g_merchants (db w)))))"

end
