(* ===== verification/GoogleSync.thy ===== *)
theory GoogleSync
  imports GoogleServices
begin

text \<open>
  The second half of \<open>google_reviews/services.py\<close>: the locations of a Google account and their mapping to locations of the
  merchant, the synchronisation of reviews, and the tasks of \<open>tasks.py\<close>.
\<close>

subsection \<open>Locations on request\<close>

text \<open>\<open>_read_token_in_block\<close>: \<open>None\<close> when a refresh is needed, whose task starts after the commit of the block.\<close>

definition read_token_in_block :: "google_connection \<Rightarrow> string option gprog" where
  "read_token_in_block c = (if gc_status c \<noteq> ConnectionActive then throw (App GoogleNeedsReauth)
     else bindM refresh_margin (\<lambda>margin. bindM now (\<lambda>t.
       if gc_expires_at c \<le> t + margin then seqM (enqueue_on_commit (RefreshToken (gc_merchant c) (gc_id c))) (ret None)
       else bindM (decrypt_text (gc_access c)) (\<lambda>token. ret (Some token)))))"

definition connection_in_block :: "uuid \<Rightarrow> google_connection gprog" where
  "connection_in_block i = bindM (g_first gc_merchant connections (\<lambda>c. gc_id c = i)) (or_raise (App GoogleNotFound))"

definition assert_same_merchant :: "location \<Rightarrow> google_connection \<Rightarrow> unit gprog" where
  "assert_same_merchant l c = bindM google_merchant (\<lambda>m.
     if lo_merchant l = gc_merchant c \<and> gc_merchant c = m then ret () else throw (App GoogleLocationNotAvailable))"

text \<open>The one place where a failure of Google becomes an answer of the API.\<close>

definition request_error :: "gerror \<Rightarrow> gerror option" where
  "request_error e = (if e = App GoogleRateLimited then Some (App GoogleRateLimitedError)
     else if e = App GoogleTransientError then Some (App GoogleUnavailable)
     else if e = App GooglePermanentError then Some (App GoogleRequestFailed) else None)"

definition list_google_locations :: "string \<Rightarrow> provider_location list gprog" where
  "list_google_locations token = catchM (list_locations token) (\<lambda>e. map_option throw (request_error e))"

definition require_token :: "string option \<Rightarrow> string gprog" where
  "require_token token = or_raise (App GoogleTokenRefreshPending) token"

record available_location =
  av_google_id :: string
  av_title :: string
  av_has_place :: bool
  av_has_link :: bool
  av_mapped :: "uuid option"

definition available_of :: "google_location list \<Rightarrow> provider_location \<Rightarrow> available_location" where
  "available_of mapped item = \<lparr>av_google_id = pl_google_id item, av_title = pl_title item, av_has_place = pl_place item \<noteq> None,
     av_has_link = pl_uri item \<noteq> None,
     av_mapped = map_option gl_location (first (\<lambda>g. gl_google_id g = pl_google_id item) mapped)\<rparr>"

definition list_available_locations :: "uuid \<Rightarrow> available_location list gprog" where
  "list_available_locations i = bindM (tenant_atomic False (bindM (connection_in_block i) read_token_in_block)) (\<lambda>token.
     bindM (require_token token) (\<lambda>token. bindM (list_google_locations token) (\<lambda>found.
       bindM (tenant_atomic False (g_rows gl_merchant google_maps (\<lambda>g. gl_connection g = i))) (\<lambda>mapped.
         ret (map (available_of mapped) found)))))"

text \<open>\<open>get_accessible_location\<close> of \<open>locations/services.py\<close> on these tables.\<close>

definition google_location_for :: "team_member \<Rightarrow> uuid \<Rightarrow> location gprog" where
  "google_location_for actor i = bindM (in_tenant (\<lambda>m d. first (\<lambda>l. lo_merchant l = m \<and> lo_id l = i \<and>
     (tm_role actor = MANAGER \<longrightarrow> (tm_id actor, lo_id l) \<in> set (g_assignments d))) (g_locations d))) (or_raise (App UnknownLocation))"

text \<open>What \<open>_write_mapping\<close> stores (its result carries the connection, as the instance does): a new row, the row that points there already, or a row that is pointed elsewhere
  and so emptied; and whether a row is locked.\<close>

definition blank_map :: "uuid \<Rightarrow> location \<Rightarrow> google_location" where
  "blank_map i l = \<lparr>gl_id = i, gl_location = lo_id l, gl_merchant = lo_merchant l, gl_connection = [], gl_google_id = [], gl_place = None,
     gl_link = [], gl_rating = None, gl_count = None, gl_synced_at = None, gl_updated_at = 0\<rparr>"

definition emptied :: "google_location \<Rightarrow> google_location" where
  "emptied g = g\<lparr>gl_rating := None, gl_count := None, gl_synced_at := None\<rparr>"

definition mapping_target :: "location \<Rightarrow> provider_location \<Rightarrow> (google_location \<times> bool) gprog" where
  "mapping_target l found = bindM (lock_map (\<lambda>g. gl_location g = lo_id l)) (\<lambda>existing. case existing of
     None \<Rightarrow> bindM google_random (\<lambda>i. ret (blank_map i l, False))
   | Some g \<Rightarrow> if gl_google_id g \<noteq> pl_google_id found then seqM (delete_reviews (keeps_map (gl_id g)) (gl_id g)) (ret (emptied g, True)) else ret (g, True))"

definition pointed :: "uuid \<Rightarrow> provider_location \<Rightarrow> string \<Rightarrow> google_location \<Rightarrow> google_location" where
  "pointed c found link g = g\<lparr>gl_connection := c, gl_google_id := pl_google_id found, gl_place := pl_place found, gl_link := link\<rparr>"

definition write_mapping :: "location \<Rightarrow> uuid \<Rightarrow> provider_location \<Rightarrow> string \<Rightarrow> (google_location \<times> google_connection) gprog" where
  "write_mapping l i found link = bindM (g_first gc_merchant connections (\<lambda>c. gc_id c = i \<and> gc_status c = ConnectionActive)) (\<lambda>r. case r of
     None \<Rightarrow> throw (App GoogleNeedsReauth)
   | Some c \<Rightarrow> seqM (assert_same_merchant l c) (bindM (mapping_target l found) (\<lambda>(g, held).
       bindM (save_map (if held then keeps_map (gl_id g) else anything) (pointed (gc_id c) found link g)) (\<lambda>g'.
         seqM (enqueue_on_commit (SyncLocation (gc_merchant c) (gl_id g'))) (ret (g', c))))))"

definition already_mapped :: "gerror \<Rightarrow> bool" where
  "already_mapped e \<longleftrightarrow> violated_constraint e LOCATION_UNIQUE \<or> violated_constraint e LOCATION_ONE_TO_ONE"

definition map_found :: "location \<Rightarrow> uuid \<Rightarrow> provider_location \<Rightarrow> (google_location \<times> google_connection) gprog" where
  "map_found l i found = (if \<not> truthy_text (pl_place found) then throw (App GooglePlaceIdMissing)
     else bindM (asks (\<lambda>w. validate_review_link (g_lib w) (pl_uri found))) (\<lambda>r. bindM (liftE r) (\<lambda>link.
       catchM (tenant_atomic False (write_mapping l i found link))
         (\<lambda>e. if already_mapped e then Some (throw (App GoogleLocationAlreadyMapped)) else None))))"

definition map_location :: "team_member \<Rightarrow> uuid \<Rightarrow> uuid \<Rightarrow> string \<Rightarrow> (google_location \<times> google_connection) gprog" where
  "map_location actor location_id i google_location_id = bindM (tenant_atomic False (bindM (google_location_for actor location_id) (\<lambda>l.
       bindM (connection_in_block i) (\<lambda>c. seqM (assert_same_merchant l c) (bindM (read_token_in_block c) (\<lambda>token. ret (l, token))))))) (\<lambda>(l, token).
     bindM (require_token token) (\<lambda>token. bindM (list_google_locations token) (\<lambda>found.
       bindM (or_raise (App GoogleLocationNotAvailable) (first (\<lambda>item. pl_google_id item = google_location_id) found)) (map_found l i))))"

subsection \<open>Reviews\<close>

text \<open>A page as rows: without the unusable reviews, of several with one id the last, at the place of the first.\<close>

definition usable_review :: "provider_review \<Rightarrow> bool" where
  "usable_review r \<longleftrightarrow> pr_rating r \<noteq> None \<and> pr_created_at r \<noteq> None \<and> length (pr_review r) \<le> 255"

definition page_rows :: "provider_review list \<Rightarrow> (string \<times> provider_review) list" where
  "page_rows rs = fold (\<lambda>r. AList.update (pr_review r) r) (filter usable_review rs) []"

definition review_row :: "uuid \<Rightarrow> uuid \<Rightarrow> uuid \<Rightarrow> instant \<Rightarrow> instant \<Rightarrow> provider_review \<Rightarrow> google_review" where
  "review_row i g m t u r = \<lparr>gr_id = i, gr_mapping = g, gr_merchant = m, gr_review = pr_review r,
     gr_name = map_option (take 255) (pr_name r), gr_rating = the (pr_rating r), gr_text = pr_text r,
     gr_created_at = the (pr_created_at r), gr_fetched_at = t, gr_updated_at = u\<rparr>"

fun rows_with_ids :: "uuid \<Rightarrow> uuid \<Rightarrow> instant \<Rightarrow> instant \<Rightarrow> provider_review list \<Rightarrow> google_review list gprog" where
  "rows_with_ids g m t u [] = ret []"
| "rows_with_ids g m t u (r # rs) = bindM google_random (\<lambda>i. bindM (rows_with_ids g m t u rs) (\<lambda>rest. ret (review_row i g m t u r # rest)))"

definition upsert_reviews :: "uuid \<Rightarrow> provider_review list \<Rightarrow> string \<Rightarrow> bool gprog" where
  "upsert_reviews g rs expected = bindM now (\<lambda>t. let rows = map snd (page_rows rs) in
     if rows = [] then ret True
     else tenant_atomic False (bindM (lock_map (\<lambda>x. gl_id x = g \<and> gl_google_id x = expected)) (\<lambda>r. case r of
       None \<Rightarrow> ret False
     | Some x \<Rightarrow> bindM now (\<lambda>u. bindM (rows_with_ids g (gl_merchant x) t u rows) (\<lambda>new. seqM (bulk_upsert (keeps_map g) new) (ret True))))))"

text \<open>
  The page loop. Google decides how long it goes on: the first argument is how many pages are read at most. The
  answer is the average and the count of the first page, or \<open>None\<close> when the location has been pointed elsewhere.
\<close>

fun sync_pages :: "nat \<Rightarrow> google_location \<Rightarrow> string \<Rightarrow> string option \<Rightarrow> string list \<Rightarrow> int option \<times> int option \<Rightarrow>
    (int option \<times> int option) option gprog" where
  "sync_pages 0 g token page_token seen figures = throw (App Unfinished)"
| "sync_pages (Suc n) g token page_token seen figures =
     bindM (list_review_page token (gl_google_id g) page_token) (\<lambda>page.
     bindM (upsert_reviews (gl_id g) (rp_reviews page) (gl_google_id g)) (\<lambda>kept.
       if \<not> kept then ret None
       else let figures = (if page_token = None then (rp_average page, rp_count page) else figures) in
         (case rp_next page of
           None \<Rightarrow> ret (Some figures)
         | Some next \<Rightarrow> if next \<in> set seen then throw (App GooglePermanentError)
             else sync_pages n g token (Some next) (next # seen) figures)))"

datatype sync_outcome = SyncedAll "int option" "int option" | SyncStopped | SyncLimited

definition sync_outcome_of :: "nat \<Rightarrow> google_location \<Rightarrow> string \<Rightarrow> sync_outcome gprog" where
  "sync_outcome_of n g token = catchM (bindM (sync_pages n g token None [] (None, None)) (\<lambda>r. ret (case r of
       None \<Rightarrow> SyncStopped | Some (average, count) \<Rightarrow> SyncedAll average count)))
     (\<lambda>e. if e = App GoogleRateLimited then Some (ret SyncLimited)
          else if e = App GooglePermanentError then Some (ret SyncStopped) else None)"

definition store_figures :: "google_location \<Rightarrow> int option \<Rightarrow> int option \<Rightarrow> unit gprog" where
  "store_figures g average count = bindM now (\<lambda>t. tenant_atomic False (update_maps (\<lambda>x. gl_id x = gl_id g \<and> gl_google_id x = gl_google_id g)
     (\<lambda>x. x\<lparr>gl_rating := average, gl_count := count, gl_synced_at := Some t, gl_updated_at := t\<rparr>)))"

text \<open>\<open>select_related("google_connection")\<close>.\<close>

definition map_with_connection :: "uuid \<Rightarrow> (google_location \<times> google_connection) option gprog" where
  "map_with_connection i = in_tenant (\<lambda>m d. case first (\<lambda>g. gl_merchant g = m \<and> gl_id g = i) (google_maps d) of
     None \<Rightarrow> None
   | Some g \<Rightarrow> (case first (\<lambda>c. gc_merchant c = m \<and> gc_id c = gl_connection g) (connections d) of None \<Rightarrow> None | Some c \<Rightarrow> Some (g, c)))"

definition sync_location_reviews :: "nat \<Rightarrow> uuid \<Rightarrow> bool gprog" where
  "sync_location_reviews n i = bindM (tenant_atomic False (map_with_connection i)) (\<lambda>r. case r of
     None \<Rightarrow> ret False
   | Some (g, c) \<Rightarrow> if gc_status c \<noteq> ConnectionActive then ret False
       else bindM (get_access_token (gl_connection g)) (\<lambda>token. case token of
         None \<Rightarrow> ret False
       | Some token \<Rightarrow> bindM (sync_outcome_of n g token) (\<lambda>outcome. case outcome of
           SyncLimited \<Rightarrow> ret True
         | SyncStopped \<Rightarrow> ret False
         | SyncedAll average count \<Rightarrow> seqM (store_figures g average count) (ret False))))"

text \<open>The loop over the due locations ends at a rate limit; another failure is logged and passed over.\<close>

fun sync_each :: "nat \<Rightarrow> uuid list \<Rightarrow> unit gprog" where
  "sync_each n [] = ret ()"
| "sync_each n (i # is) = bindM (catchM (sync_location_reviews n i) (\<lambda>e. if e = App Unfinished then None else Some (ret False)))
     (\<lambda>limited. if limited then ret () else sync_each n is)"

definition due_locations :: "instant \<Rightarrow> uuid list gprog" where
  "due_locations cutoff = in_tenant (\<lambda>m d. map gl_id (filter (\<lambda>g. gl_merchant g = m \<and>
     list_ex (\<lambda>c. gc_merchant c = m \<and> gc_id c = gl_connection g \<and> gc_status c = ConnectionActive) (connections d) \<and>
     (case gl_synced_at g of None \<Rightarrow> True | Some t \<Rightarrow> t \<le> cutoff)) (google_maps d)))"

definition sync_merchant_reviews :: "nat \<Rightarrow> unit gprog" where
  "sync_merchant_reviews n = bindM now (\<lambda>t. bindM (asks (\<lambda>w. seconds (g_sync_interval (g_cfg w)))) (\<lambda>interval.
     bindM (tenant_atomic False (due_locations (t - interval))) (sync_each n)))"

text \<open>\<open>list_reviews\<close>: a manager sees the reviews of the assigned locations only; an API key has no team member.\<close>

record review_filter =
  rf_location :: "uuid option"
  rf_from :: "instant option"
  rf_to :: "instant option"
  rf_rating_min :: "int option"

definition review_wanted :: "review_filter \<Rightarrow> google_location \<Rightarrow> google_review \<Rightarrow> bool" where
  "review_wanted f g r \<longleftrightarrow> (case rf_location f of None \<Rightarrow> True | Some l \<Rightarrow> gl_location g = l) \<and>
     (case rf_from f of None \<Rightarrow> True | Some t \<Rightarrow> t \<le> gr_created_at r) \<and> (case rf_to f of None \<Rightarrow> True | Some t \<Rightarrow> gr_created_at r \<le> t) \<and>
     (case rf_rating_min f of None \<Rightarrow> True | Some n \<Rightarrow> n \<le> gr_rating r)"

definition location_scope :: "gdb \<Rightarrow> team_member option \<Rightarrow> uuid \<Rightarrow> bool" where
  "location_scope d member l \<longleftrightarrow> (case member of None \<Rightarrow> True
     | Some tm \<Rightarrow> tm_role tm = MANAGER \<longrightarrow> (tm_id tm, l) \<in> set (g_assignments d))"

definition list_reviews :: "team_member option \<Rightarrow> review_filter \<Rightarrow> (google_review \<times> google_location) list gprog" where
  "list_reviews member f = in_tenant (\<lambda>m d. List.map_filter (\<lambda>r. if gr_merchant r \<noteq> m then None
     else (case first (\<lambda>g. gl_merchant g = m \<and> gl_id g = gr_mapping r) (google_maps d) of None \<Rightarrow> None
       | Some g \<Rightarrow> if location_scope d member (gl_location g) \<and> review_wanted f g r then Some (r, g) else None)) (reviews d))"

subsection \<open>Tasks\<close>

definition google_fan_out :: "(uuid \<Rightarrow> gtask) \<Rightarrow> unit gprog" where
  "google_fan_out task = bindM merchant_ids_with_google (\<lambda>ms. forM ms (\<lambda>m. logged (publish_google (task m))))"

definition sync_google_reviews :: "unit gprog" where
  "sync_google_reviews = google_fan_out SyncMerchantReviews"

definition refresh_google_tokens :: "unit gprog" where
  "refresh_google_tokens = google_fan_out RefreshMerchantTokens"

definition sync_location :: "nat \<Rightarrow> uuid option \<Rightarrow> uuid \<Rightarrow> unit gprog" where
  "sync_location n merchant_id i = tenant_task (\<lambda>_. bindM (sync_location_reviews n i) (\<lambda>_. ret ())) merchant_id"

definition run_google_task :: "nat \<Rightarrow> gtask \<Rightarrow> unit gprog" where
  "run_google_task n t = (case t of
     SyncMerchantReviews m \<Rightarrow> tenant_task (\<lambda>_. sync_merchant_reviews n) (Some m)
   | SyncLocation m i \<Rightarrow> sync_location n (Some m) i
   | RefreshMerchantTokens m \<Rightarrow> tenant_task (\<lambda>_. refresh_merchant_tokens) (Some m)
   | ExchangeCode m i \<Rightarrow> tenant_task (\<lambda>_. exchange_attempt i) (Some m)
   | RefreshToken m i \<Rightarrow> tenant_task (\<lambda>_. refresh_connection i) (Some m))"

text \<open>
  The views of \<open>google_reviews/views.py\<close>: who may call them, the service they call, what \<open>serializers.py\<close> shows and
  the answer to every error. The membership the permission class found is an argument; throttling, pagination and the
  field checks of serializers are not modelled.
\<close>

subsection \<open>Answers\<close>

datatype 'a google_answer = GoogleOk nat 'a | GoogleFailure nat string | GoogleCrash

fun google_http :: "google_error \<Rightarrow> (nat \<times> string) option" where
  "google_http GoogleNotConfigured = Some (503, ''google_not_configured'')"
| "google_http InvalidOAuthState = Some (400, ''invalid_oauth_state'')"
| "google_http GoogleNeedsReauth = Some (409, ''google_needs_reauth'')"
| "google_http GoogleTokenRefreshPending = Some (409, ''google_token_refresh_pending'')"
| "google_http GooglePlaceIdMissing = Some (422, ''google_place_id_missing'')"
| "google_http ReviewLinkMissing = Some (422, ''google_review_link_missing'')"
| "google_http GoogleLocationAlreadyMapped = Some (409, ''google_location_already_mapped'')"
| "google_http GoogleLocationNotAvailable = Some (422, ''google_location_not_available'')"
| "google_http GoogleNotFound = Some (404, ''not_found'')"
| "google_http GoogleRateLimitedError = Some (429, ''google_rate_limited'')"
| "google_http GoogleUnavailable = Some (503, ''google_unavailable'')"
| "google_http GoogleRequestFailed = Some (502, ''google_request_failed'')"
| "google_http UnknownLocation = Some (404, ''not_found'')"
| "google_http _ = None"

fun google_failure :: "gerror \<Rightarrow> 'a google_answer" where
  "google_failure (App e) = (case google_http e of None \<Rightarrow> GoogleCrash | Some (status, code) \<Rightarrow> GoogleFailure status code)"
| "google_failure ActorNotMember = GoogleFailure 403 ''actor_not_member''"
| "google_failure _ = GoogleCrash"

definition google_respond :: "(nat \<times> 'a) gprog \<Rightarrow> 'a google_answer gprog" where
  "google_respond m = catchM (bindM m (\<lambda>(status, body). ret (GoogleOk status body))) (\<lambda>e. Some (ret (google_failure e)))"

definition google_view :: "role list \<Rightarrow> team_member option \<Rightarrow> (team_member \<Rightarrow> (nat \<times> 'a) gprog) \<Rightarrow> 'a google_answer gprog" where
  "google_view roles member handler = (case member of
     None \<Rightarrow> ret (GoogleFailure 403 ''permission_denied'')
   | Some tm \<Rightarrow> if has_role roles member then google_respond (handler tm) else ret (GoogleFailure 403 ''permission_denied''))"

subsection \<open>What is shown\<close>

text \<open>No token, code or account id.\<close>

fun attempt_status_text :: "attempt_status \<Rightarrow> string" where
  "attempt_status_text AttemptIssued = ''ISSUED''"
| "attempt_status_text AttemptPending = ''PENDING''"
| "attempt_status_text AttemptCompleted = ''COMPLETED''"
| "attempt_status_text AttemptFailed = ''FAILED''"

fun connection_status_text :: "connection_status \<Rightarrow> string" where
  "connection_status_text ConnectionActive = ''ACTIVE''"
| "connection_status_text NeedsReauth = ''NEEDS_REAUTH''"

record attempt_data =
  ad_id :: uuid
  ad_status :: string
  ad_failure :: "failure_code option"
  ad_connection :: "uuid option"

definition attempt_data_of :: "oauth_attempt \<Rightarrow> attempt_data" where
  "attempt_data_of a = \<lparr>ad_id = oa_id a, ad_status = attempt_status_text (oa_status a), ad_failure = oa_failure a, ad_connection = oa_connection a\<rparr>"

definition connection_data :: "google_connection \<Rightarrow> uuid \<times> string \<times> string \<times> instant option" where
  "connection_data c = (gc_id c, gc_email c, connection_status_text (gc_status c), gc_connected_at c)"

record map_data =
  md_id :: uuid
  md_google_id :: string
  md_place :: "string option"
  md_link :: string
  md_rating :: "int option"
  md_count :: "int option"
  md_synced_at :: "instant option"
  md_status :: string

definition map_data_of :: "google_location \<Rightarrow> google_connection \<Rightarrow> map_data" where
  "map_data_of g c = \<lparr>md_id = gl_id g, md_google_id = gl_google_id g, md_place = gl_place g, md_link = gl_link g, md_rating = gl_rating g,
     md_count = gl_count g, md_synced_at = gl_synced_at g, md_status = connection_status_text (gc_status c)\<rparr>"

record review_data =
  rd_id :: uuid
  rd_location :: uuid
  rd_review :: string
  rd_name :: "string option"
  rd_rating :: int
  rd_text :: "string option"
  rd_created_at :: instant

definition review_data_of :: "google_review \<Rightarrow> google_location \<Rightarrow> review_data" where
  "review_data_of r g = \<lparr>rd_id = gr_id r, rd_location = gl_location g, rd_review = gr_review r, rd_name = gr_name r, rd_rating = gr_rating r,
     rd_text = gr_text r, rd_created_at = gr_created_at r\<rparr>"

subsection \<open>Views\<close>

definition oauth_start_post :: "team_member option \<Rightarrow> string google_answer gprog" where
  "oauth_start_post member = google_view [OWNER, ADMIN] member (\<lambda>tm. bindM (begin_google_oauth (tm_user tm)) (\<lambda>url. ret (200, url)))"

definition oauth_complete_post :: "team_member option \<Rightarrow> string \<Rightarrow> string \<Rightarrow> (uuid \<times> string) google_answer gprog" where
  "oauth_complete_post member code state = google_view [OWNER, ADMIN] member (\<lambda>tm.
     bindM (complete_google_oauth (tm_user tm) code state) (\<lambda>a. ret (202, (oa_id a, attempt_status_text (oa_status a)))))"

definition oauth_attempt_get :: "team_member option \<Rightarrow> uuid \<Rightarrow> attempt_data google_answer gprog" where
  "oauth_attempt_get member pk = google_view [OWNER, ADMIN] member (\<lambda>tm.
     bindM (get_oauth_attempt (tm_user tm) pk) (\<lambda>a. ret (200, attempt_data_of a)))"

definition connections_get :: "team_member option \<Rightarrow> (uuid \<times> string \<times> string \<times> instant option) list google_answer gprog" where
  "connections_get member = google_view [OWNER, ADMIN, MANAGER, VIEWER] member (\<lambda>_.
     bindM (g_rows gc_merchant connections (\<lambda>_. True)) (\<lambda>rows. ret (200, map connection_data rows)))"

definition connection_locations_get :: "team_member option \<Rightarrow> uuid \<Rightarrow> available_location list google_answer gprog" where
  "connection_locations_get member pk = google_view [OWNER, ADMIN] member (\<lambda>_.
     bindM (list_available_locations pk) (\<lambda>rows. ret (200, rows)))"

definition google_location_get :: "team_member option \<Rightarrow> uuid \<Rightarrow> map_data option google_answer gprog" where
  "google_location_get member pk = google_view [OWNER, ADMIN, MANAGER, VIEWER] member (\<lambda>tm. bindM (google_location_for tm pk) (\<lambda>l.
     bindM (in_tenant (\<lambda>m d. case first (\<lambda>g. gl_merchant g = m \<and> gl_location g = lo_id l) (google_maps d) of
         None \<Rightarrow> None
       | Some g \<Rightarrow> map_option (map_data_of g) (first (\<lambda>c. gc_merchant c = m \<and> gc_id c = gl_connection g) (connections d))))
       (\<lambda>body. ret (200, body))))"

definition google_location_put :: "team_member option \<Rightarrow> uuid \<Rightarrow> uuid \<Rightarrow> string \<Rightarrow> map_data google_answer gprog" where
  "google_location_put member pk connection_id google_location_id = google_view [OWNER, ADMIN, MANAGER] member (\<lambda>tm.
     bindM (map_location tm pk connection_id google_location_id) (\<lambda>(g, c). ret (200, map_data_of g c)))"

text \<open>A session, or an API key with its scopes.\<close>

datatype reviews_auth = SessionAuth "team_member option" | KeyAuth "string list"

definition reviews_get :: "reviews_auth \<Rightarrow> review_filter \<Rightarrow> review_data list google_answer gprog" where
  "reviews_get auth f = (case auth of
     SessionAuth member \<Rightarrow> google_view [OWNER, ADMIN, MANAGER, VIEWER] member (\<lambda>tm.
       bindM (list_reviews (Some tm) f) (\<lambda>rows. ret (200, map (\<lambda>(r, g). review_data_of r g) rows)))
   | KeyAuth scopes \<Rightarrow> if ''reviews:read'' \<notin> set scopes then ret (GoogleFailure 403 ''permission_denied'')
       else google_respond (bindM (list_reviews None f) (\<lambda>rows. ret (200, map (\<lambda>(r, g). review_data_of r g) rows))))"

end
