(* ===== verification/GoogleFrames.thy ===== *)
theory GoogleFrames
  imports GoogleSync
begin

text \<open>
  What the Google statements may do to a row, the contract of a frame relation on them (the locale \<open>google_frame\<close>), and
  the frames and critical sections of every operation.
\<close>

subsection \<open>What a write may do to a row\<close>

definition connection_kept :: "google_connection \<Rightarrow> google_connection \<Rightarrow> bool" where
  "connection_kept c c' \<longleftrightarrow> gc_id c' = gc_id c \<and> gc_merchant c' = gc_merchant c \<and> gc_sub c' = gc_sub c"

definition connections_later :: "gdb \<Rightarrow> gdb \<Rightarrow> bool" where
  "connections_later d d' \<longleftrightarrow> grown connection_kept (connections d) (connections d')"

definition connection_of :: "gdb \<Rightarrow> uuid \<Rightarrow> uuid \<Rightarrow> bool" where
  "connection_of d m i \<longleftrightarrow> list_ex (\<lambda>c. gc_id c = i \<and> gc_merchant c = m) (connections d)"

definition attempt_kept :: "oauth_attempt \<Rightarrow> oauth_attempt \<Rightarrow> bool" where
  "attempt_kept a a' \<longleftrightarrow> oa_id a' = oa_id a \<and> oa_merchant a' = oa_merchant a \<and> oa_user a' = oa_user a \<and> oa_state_hash a' = oa_state_hash a \<and>
     oa_nonce_hash a' = oa_nonce_hash a \<and> oa_expires_at a' = oa_expires_at a"

definition terminal :: "oauth_attempt \<Rightarrow> bool" where
  "terminal a \<longleftrightarrow> oa_status a \<in> {AttemptCompleted, AttemptFailed}"

text \<open>The life of an attempt: issued, claimed with a code, the code taken once, decided once.\<close>

definition attempt_later :: "oauth_attempt \<Rightarrow> oauth_attempt \<Rightarrow> bool" where
  "attempt_later a a' \<longleftrightarrow> attempt_kept a a' \<and> (terminal a \<longrightarrow> a' = a) \<and> (oa_status a = AttemptPending \<longrightarrow> oa_status a' \<noteq> AttemptIssued \<and>
     oa_code a' \<in> {oa_code a, None})"

definition map_kept :: "google_location \<Rightarrow> google_location \<Rightarrow> bool" where
  "map_kept g g' \<longleftrightarrow> gl_id g' = gl_id g \<and> gl_merchant g' = gl_merchant g"

definition map_pointed_alike :: "google_location \<Rightarrow> google_location \<Rightarrow> bool" where
  "map_pointed_alike g g' \<longleftrightarrow> map_kept g g' \<and> gl_location g' = gl_location g \<and> gl_connection g' = gl_connection g \<and> gl_google_id g' = gl_google_id g \<and>
     gl_place g' = gl_place g \<and> gl_link g' = gl_link g"

definition map_free :: "gdb \<Rightarrow> google_location \<Rightarrow> bool" where
  "map_free d g \<longleftrightarrow> \<not> list_ex (\<lambda>q. gl_id q \<noteq> gl_id g \<and> (gl_location q = gl_location g \<or> same_map_key g q)) (google_maps d)"

definition location_of :: "gdb \<Rightarrow> uuid \<Rightarrow> uuid \<Rightarrow> bool" where
  "location_of d m l \<longleftrightarrow> list_ex (\<lambda>x. lo_id x = l \<and> lo_merchant x = m) (g_locations d)"

definition map_of_merchant :: "gdb \<Rightarrow> uuid \<Rightarrow> uuid \<Rightarrow> bool" where
  "map_of_merchant d m i \<longleftrightarrow> list_ex (\<lambda>g. gl_id g = i \<and> gl_merchant g = m) (google_maps d)"

text \<open>A set of review rows that may be written for a mapping of merchant \<open>m\<close>.\<close>

definition upsertable :: "gdb \<Rightarrow> uuid \<Rightarrow> google_review list \<Rightarrow> bool" where
  "upsertable d m rows \<longleftrightarrow> list_all (\<lambda>r. gr_merchant r = m \<and> review_ok r \<and> review_fits r \<and>
       map_of_merchant d m (gr_mapping r) \<and>
       \<not> list_ex (\<lambda>q. gr_id q = gr_id r \<and> \<not> same_review r q) (reviews d)) rows \<and>
     distinct (map gr_id rows) \<and> distinct (map (\<lambda>r. (gr_mapping r, gr_review r)) rows)"

lemma connection_kept_refl [simp]: "connection_kept c c"
  by (simp add: connection_kept_def)

lemma connection_kept_trans: "connection_kept a b \<Longrightarrow> connection_kept b c \<Longrightarrow> connection_kept a c"
  by (simp add: connection_kept_def)

lemma attempt_later_refl [simp]: "attempt_later a a"
  by (simp add: attempt_later_def attempt_kept_def)

lemma attempt_later_trans: "attempt_later a b \<Longrightarrow> attempt_later b c \<Longrightarrow> attempt_later a c"
  unfolding attempt_later_def attempt_kept_def terminal_def by (cases "oa_status b") auto

lemma connections_later_refl [simp]: "connections_later d d"
  by (simp add: connections_later_def grown_refl)

lemma connections_later_trans: "connections_later a b \<Longrightarrow> connections_later b c \<Longrightarrow> connections_later a c"
  unfolding connections_later_def by (erule grown_trans, assumption, rule connection_kept_trans)

lemma connections_later_same: "connections d' = connections d \<Longrightarrow> connections_later d d'"
  by (simp add: connections_later_def grown_refl)

lemma connections_later_update:
  "first P (connections d) = Some c \<Longrightarrow> connection_kept c (f c) \<Longrightarrow> connections_later d (d\<lparr>connections := update_first P f (connections d)\<rparr>)"
  by (simp add: connections_later_def grown_update_first)

lemma connections_later_map: "(\<And>c. connection_kept c (f c)) \<Longrightarrow> connections_later d (d\<lparr>connections := map_if P f (connections d)\<rparr>)"
  by (simp add: connections_later_def grown_map_if)

lemma connections_later_add: "connections_later d (d\<lparr>connections := connections d @ xs\<rparr>)"
  by (simp add: connections_later_def grown_add)

lemma ex_grown:
  assumes "list_all2 K xs us" "\<And>x y. K x y \<Longrightarrow> P x \<Longrightarrow> P y" "list_ex P xs"
  shows "list_ex P us"
  using assms by (induction rule: list_all2_induct) auto

lemma connection_of_later:
  assumes "connections_later d d'" "connection_of d m i"
  shows "connection_of d' m i"
proof -
  from assms(1) obtain us vs where s: "connections d' = us @ vs" "list_all2 connection_kept (connections d) us"
    by (auto simp: connections_later_def grown_def)
  have "list_ex (\<lambda>c. gc_id c = i \<and> gc_merchant c = m) us"
    by (rule ex_grown [OF s(2)]) (use assms(2) in \<open>auto simp: connection_kept_def connection_of_def\<close>)
  then show ?thesis by (simp add: connection_of_def s(1))
qed

lemma map_of_merchant_later:
  assumes "grown map_kept (google_maps d) (google_maps d')" "map_of_merchant d m i"
  shows "map_of_merchant d' m i"
proof -
  from assms(1) obtain us vs where s: "google_maps d' = us @ vs" "list_all2 map_kept (google_maps d) us" by (auto simp: grown_def)
  have "list_ex (\<lambda>g. gl_id g = i \<and> gl_merchant g = m) us"
    by (rule ex_grown [OF s(2)]) (use assms(2) in \<open>auto simp: map_kept_def map_of_merchant_def\<close>)
  then show ?thesis by (simp add: map_of_merchant_def s(1))
qed

lemma map_kept_refl [simp]: "map_kept g g" "map_pointed_alike g g"
  by (simp_all add: map_kept_def map_pointed_alike_def)

lemma map_kept_trans: "map_kept a b \<Longrightarrow> map_kept b c \<Longrightarrow> map_kept a c"
  by (simp add: map_kept_def)

lemma connection_of_first: "first (\<lambda>c. gc_merchant c = m \<and> P c) (connections d) = Some c \<Longrightarrow> connection_of d m (gc_id c) \<and> gc_merchant c = m"
  by (auto simp: connection_of_def list_ex_iff dest!: first_SomeD)

subsection \<open>Reads and calls\<close>

text \<open>What changes no table respects every preorder.\<close>

locale google_reads = db_frame R for R :: "gdb \<Rightarrow> gdb \<Rightarrow> bool"
begin

lemma frames_oracles [frame_intros]: "frames R H google_random" "frames R H monotonic" "frames R H fernet" "frames R H (publish_google t)"
  "frames R H (enqueue_on_commit t)"
  by (rule frames_pure, simp add: google_random_def monotonic_def fernet_def publish_google_def enqueue_on_commit_def on_commit_def Let_def)+

lemma frames_crypto [frame_intros]: "frames R H (encrypt_text s)" "frames R H (decrypt_text s)"
proof -
  have "frames R H (\<lambda>w :: google_world. (Inr (fernet_encrypt (g_lib w) key (g_sealed w) s), w\<lparr>g_sealed := Suc (g_sealed w)\<rparr>))"
    "frames R H (\<lambda>w :: google_world. case fernet_decrypt (g_lib w) key s of None \<Rightarrow> (Inl (App FernetInvalidToken), w) | Some s \<Rightarrow> (Inr s, w))" for key
    by (rule frames_pure, simp add: Let_def split: option.split)+
  note frame_intros = frame_intros this
  show "frames R H (encrypt_text s)" "frames R H (decrypt_text s)"
    unfolding encrypt_text_def decrypt_text_def by (intro frame_intros)+
qed

lemma frames_google_urlopen [frame_intros]: "frames R H (google_urlopen rq)"
  by (rule framesI) (auto simp: google_urlopen_def Let_def interfere_frame interfere_saves R_refl saves_refl split: if_splits)

lemma frames_google_rows [frame_intros]: "frames R H (g_rows owner rows P)" "frames R H (g_first owner rows P)" "frames R H google_merchant"
  unfolding g_rows_def g_first_def google_merchant_def by (intro frame_intros)+

lemma frames_locks [frame_intros]: "frames R H (lock_connection P)" "frames R H (lock_map Q)"
  unfolding lock_connection_def lock_map_def by (intro frame_intros)+

subsection \<open>Calls of Google\<close>

lemma frames_google_call [frame_intros]: "frames R H (google_call rq)"
proof -
  have "frames R H (case reply of NoAnswer \<Rightarrow> throw (App GoogleTransientError) | GoogleAnswer s c b \<Rightarrow> ret (s, c, b))" for reply
    by (cases reply) (simp_all add: frames_ret frames_throw)
  then show ?thesis unfolding google_call_def by (intro frame_intros)
qed

lemma frames_get_json [frame_intros]: "frames R H (get_json url token)" "frames R H (token_request form)"
  unfolding get_json_def token_request_def by (intro frame_intros)+

lemma frames_jwks [frame_intros]: "frames R H (jwks_key kid)"
proof -
  have c: "frames R H (case x of Inl e \<Rightarrow> throw (App IdTokenUnverifiable) | Inr b \<Rightarrow> f b)" if "\<And>b. frames R H (f b)" for x :: "gerror + json" and f
    using that by (cases x) (simp_all add: frames_throw)
  have f: "frames R H fetch_jwks" unfolding fetch_jwks_def by (intro frame_intros c) (auto intro: frames_throw split: if_splits)
  have m: "frames R H (modifyM (\<lambda>w. w\<lparr>jwks_keys := k, jwks_expires := t\<rparr>))" for k t
    by (rule frames_modify) (simp add: R_refl)
  show ?thesis unfolding jwks_key_def by (intro frame_intros f m)
qed

lemma frames_provider [frame_intros]:
  "frames R H (verify_id_token t)" "frames R H (exchange_code code)" "frames R H (refresh_tokens s)"
proof -
  have u: "frames R H (usable_token b)" for b unfolding usable_token_def by (intro frame_intros)
  note frame_intros = frame_intros u
  show "frames R H (verify_id_token t)" unfolding verify_id_token_def verify_payload_def by (intro frame_intros)
  show "frames R H (exchange_code code)" "frames R H (refresh_tokens s)" unfolding exchange_code_def refresh_tokens_def by (intro frame_intros)+
qed

lemma frames_list_locations [frame_intros]: "frames R H (list_locations token)"
proof -
  have n: "frames R H (account_names_from k token t)" for k t
    by (induction k arbitrary: t) (simp_all only: account_names_from.simps frames_throw, intro frame_intros)
  have l: "frames R H (locations_from k a token t)" for k a t
    by (induction k arbitrary: t) (simp_all only: locations_from.simps frames_throw, intro frame_intros)
  have "frames R H (locations_each token names)" for names
    by (induction names) (simp_all only: locations_each.simps frames_ret, intro frame_intros l)
  then show ?thesis unfolding list_locations_def account_names_def by (intro frame_intros n)
qed

lemma frames_list_review_page [frame_intros]: "frames R H (list_review_page token i p)"
  unfolding list_review_page_def by (intro frame_intros)

end

subsection \<open>The contract\<close>

locale google_frame = google_reads R for R :: "gdb \<Rightarrow> gdb \<Rightarrow> bool" +
  fixes G :: "ctxvars \<Rightarrow> bool"
  assumes R_kept: "R d d' \<Longrightarrow> connections_later d d'"
    and R_kept_maps: "R d d' \<Longrightarrow> grown map_kept (google_maps d) (google_maps d')"
    and R_new_attempt: "G c \<Longrightarrow> merchant_var c = Some (oa_merchant a) \<Longrightarrow> oa_status a = AttemptIssued \<Longrightarrow> oa_connection a = None \<Longrightarrow> attempt_ok a \<Longrightarrow>
      \<not> list_ex (\<lambda>q. oa_id q = oa_id a \<or> oa_state_hash q = oa_state_hash a) (attempts d) \<Longrightarrow> R d (d\<lparr>attempts := attempts d @ [a]\<rparr>)"
    and R_attempts: "G c \<Longrightarrow> merchant_var c = Some m \<Longrightarrow> (\<And>a. P1 a \<Longrightarrow> attempt_later a (f1 a)) \<Longrightarrow>
      (\<And>a. a \<in> set (attempts d) \<Longrightarrow> oa_merchant a = m \<Longrightarrow> P1 a \<Longrightarrow> attempt_ok (f1 a)) \<Longrightarrow>
      (\<And>a. P1 a \<Longrightarrow> oa_connection (f1 a) = oa_connection a \<or> (\<exists>i. oa_connection (f1 a) = Some i \<and> connection_of d m i)) \<Longrightarrow>
      R d (d\<lparr>attempts := map_if (\<lambda>a. oa_merchant a = m \<and> P1 a) f1 (attempts d)\<rparr>)"
    and R_purge: "G c \<Longrightarrow> merchant_var c = Some m \<Longrightarrow> (\<And>a. P2 a \<Longrightarrow> terminal a) \<Longrightarrow>
      R d (d\<lparr>attempts := filter (\<lambda>a. \<not> (oa_merchant a = m \<and> P2 a)) (attempts d)\<rparr>)"
    and R_new_connection: "G c \<Longrightarrow> merchant_var c = Some (gc_merchant x) \<Longrightarrow> connection_fits x \<Longrightarrow> find_connection d (gc_id x) = None \<Longrightarrow>
      \<not> list_ex (\<lambda>q. gc_merchant q = gc_merchant x \<and> gc_sub q = gc_sub x) (connections d) \<Longrightarrow> R d (d\<lparr>connections := connections d @ [x]\<rparr>)"
    and R_connection: "G c \<Longrightarrow> merchant_var c = Some m \<Longrightarrow> first (\<lambda>x. gc_merchant x = m \<and> gc_id x = i) (connections d) = Some x \<Longrightarrow>
      connection_kept x y \<Longrightarrow> connection_fits y \<Longrightarrow> R d (d\<lparr>connections := update_first (\<lambda>x. gc_merchant x = m \<and> gc_id x = i) (\<lambda>_. y) (connections d)\<rparr>)"
    and R_connections: "G c \<Longrightarrow> merchant_var c = Some m \<Longrightarrow> (\<And>x. connection_kept x (f3 x) \<and> gc_email (f3 x) = gc_email x) \<Longrightarrow>
      R d (d\<lparr>connections := map_if (\<lambda>x. gc_merchant x = m \<and> P3 x) f3 (connections d)\<rparr>)"
    and R_new_map: "G c \<Longrightarrow> merchant_var c = Some (gl_merchant g) \<Longrightarrow> find_map d (gl_id g) = None \<Longrightarrow> map_fits g \<Longrightarrow> map_free d g \<Longrightarrow>
      location_of d (gl_merchant g) (gl_location g) \<Longrightarrow> connection_of d (gl_merchant g) (gl_connection g) \<Longrightarrow>
      R d (d\<lparr>google_maps := google_maps d @ [g]\<rparr>)"
    and R_map: "G c \<Longrightarrow> merchant_var c = Some (gl_merchant g) \<Longrightarrow> find_map d (gl_id g) = Some q \<Longrightarrow> gl_merchant q = gl_merchant g \<Longrightarrow> map_fits g \<Longrightarrow>
      map_free d g \<Longrightarrow> location_of d (gl_merchant g) (gl_location g) \<Longrightarrow> connection_of d (gl_merchant g) (gl_connection g) \<Longrightarrow>
      R d (d\<lparr>google_maps := update_first (\<lambda>q. gl_id q = gl_id g) (\<lambda>_. g) (google_maps d)\<rparr>)"
    and R_figures: "G c \<Longrightarrow> merchant_var c = Some m \<Longrightarrow> (\<And>g. map_pointed_alike g (f4 g)) \<Longrightarrow>
      R d (d\<lparr>google_maps := map_if (\<lambda>g. gl_merchant g = m \<and> P4 g) f4 (google_maps d)\<rparr>)"
    and R_delete_reviews: "G c \<Longrightarrow> merchant_var c = Some m \<Longrightarrow> R d (d\<lparr>reviews := filter (\<lambda>r. \<not> (gr_merchant r = m \<and> gr_mapping r = i)) (reviews d)\<rparr>)"
    and R_upsert: "G c \<Longrightarrow> merchant_var c = Some m \<Longrightarrow> upsertable d m rows \<Longrightarrow> R d (d\<lparr>reviews := fold upsert_review rows (reviews d)\<rparr>)"
    and R_new_audit: "G c \<Longrightarrow> al_merchant lg = merchant_var c \<Longrightarrow> R d (d\<lparr>g_audit := g_audit d @ [lg]\<rparr>)"
begin

subsection \<open>Statements\<close>

lemma sect_g_first [sect_intros]:
  "sect R G P (g_first owner rows Q) (\<lambda>r c d. (\<exists>m. merchant_var c = Some m \<and> r = first (\<lambda>x. owner x = m \<and> Q x) (rows d)) \<and> P c d)"
  unfolding g_first_def by (rule sect_in_tenant)

lemma sect_google_merchant: "sect R G P google_merchant (\<lambda>m c d. merchant_var c = Some m \<and> P c d)"
  by (rule sect_calm) (auto simp: google_merchant_def run_bind get_current_merchant_id_def split: option.splits)

text \<open>A conditional update of attempts, with what the section knows of the connection it names.\<close>

lemma sect_update_attempts:
  assumes "\<And>a. Q a \<Longrightarrow> attempt_later a (f a)" "\<And>c d d'. P c d \<Longrightarrow> R d d' \<Longrightarrow> keep d d' \<Longrightarrow> P c d'"
    "\<And>c d m a. P c d \<Longrightarrow> merchant_var c = Some m \<Longrightarrow> Q a \<Longrightarrow> oa_connection (f a) = oa_connection a \<or> (\<exists>i. oa_connection (f a) = Some i \<and> connection_of d m i)"
  shows "sect R G P (update_attempts keep Q f) (\<lambda>_ _ _. True)"
  unfolding update_attempts_def
proof (rule sect_seq [OF sect_wait_holding [OF assms(2)]], assumption, assumption, assumption, rule sectI)
  fix w r w'
  assume g: "G (ctx w)" and p: "P (ctx w) (db w)"
    and run: "bindM (in_tenant (\<lambda>m d. (m, filter (\<lambda>a. oa_merchant a = m \<and> Q a) (attempts d)))) (\<lambda>(m, rows).
     if list_ex (\<lambda>a. \<not> attempt_ok (f a)) rows then throw CheckViolation
     else seqM (modifyM (\<lambda>w. w\<lparr>db := (db w)\<lparr>attempts := map_if (\<lambda>a. oa_merchant a = m \<and> Q a) f (attempts (db w))\<rparr>\<rparr>)) (ret (length rows))) w = (r, w')"
  show "ctx w' = ctx w \<and> env w' = env w \<and> R (db w) (db w') \<and> list_all2 R (saves w) (saves w') \<and> (quiet w \<longrightarrow> saves w' = saves w) \<and> (\<forall>a. r = Inr a \<longrightarrow> True)"
  proof (cases "merchant_var (ctx w)")
    case None
    with run show ?thesis by (auto simp: run_bind in_tenant_def R_refl saves_refl)
  next
    case (Some m)
    show ?thesis
    proof (cases "list_ex (\<lambda>a. \<not> attempt_ok (f a)) (filter (\<lambda>a. oa_merchant a = m \<and> Q a) (attempts (db w)))")
      case True
      with run Some show ?thesis by (auto simp: run_bind in_tenant_def R_refl saves_refl)
    next
      case False
      have "R (db w) ((db w)\<lparr>attempts := map_if (\<lambda>a. oa_merchant a = m \<and> Q a) f (attempts (db w))\<rparr>)"
        by (rule R_attempts [OF g Some assms(1)]) (use False assms(3) [OF p Some] in \<open>auto simp: list_ex_iff\<close>)
      with run Some False show ?thesis by (auto simp: run_bind run_seq in_tenant_def saves_refl)
    qed
  qed
qed

lemma frames_update_attempts:
  assumes "\<And>a. Q a \<Longrightarrow> attempt_later a (f a)" "\<And>a. Q a \<Longrightarrow> oa_connection (f a) = oa_connection a"
  shows "frames R G (update_attempts keep Q f)"
proof -
  have "frames R G (bindM (in_tenant (\<lambda>m d. (m, filter (\<lambda>a. oa_merchant a = m \<and> Q a) (attempts d)))) (\<lambda>(m, rows).
     if list_ex (\<lambda>a. \<not> attempt_ok (f a)) rows then throw CheckViolation
     else seqM (modifyM (\<lambda>w :: google_world. w\<lparr>db := (db w)\<lparr>attempts := map_if (\<lambda>a. oa_merchant a = m \<and> Q a) f (attempts (db w))\<rparr>\<rparr>)) (ret (length rows))))"
    by (rule framesI)
      (auto simp: run_bind run_seq in_tenant_def saves_refl R_refl list_ex_iff assms(2) intro!: R_attempts assms(1) split: option.splits if_splits)
  then show ?thesis unfolding update_attempts_def by (intro frames_seq frames_wait_holding)
qed

lemma frames_tenant_modify:
  assumes "\<And>c m d. G c \<Longrightarrow> merchant_var c = Some m \<Longrightarrow> R d (g m d)"
  shows "frames R G (bindM (in_tenant (\<lambda>m d. (m, n m d))) (\<lambda>(m, k). seqM (modifyM (\<lambda>w :: google_world. w\<lparr>db := g m (db w)\<rparr>)) (ret k)))"
    "frames R G (bindM (in_tenant (\<lambda>m d. m)) (\<lambda>m. modifyM (\<lambda>w :: google_world. w\<lparr>db := g m (db w)\<rparr>)))"
  by (rule framesI, use assms in \<open>auto simp: run_bind run_seq in_tenant_def saves_refl R_refl split: option.splits\<close>)+

lemma frames_delete_attempts: "(\<And>a. Q a \<Longrightarrow> terminal a) \<Longrightarrow> frames R G (delete_attempts Q)"
  unfolding delete_attempts_def by (intro frames_seq frames_wait frames_tenant_modify) (rule R_purge)

lemma frames_insert_attempt: "oa_status a = AttemptIssued \<Longrightarrow> oa_connection a = None \<Longrightarrow> frames R G (insert_attempt a)"
  unfolding insert_attempt_def by (rule frames_tenant_insert) (auto simp: R_refl intro!: R_new_attempt split: if_splits)

lemma frames_insert_connection [frame_intros]: "frames R G (insert_connection x)"
  unfolding insert_connection_def by (rule frames_tenant_insert) (auto simp: R_refl intro!: R_new_connection split: if_splits)

lemma frames_update_connections: "(\<And>x. connection_kept x (f x) \<and> gc_email (f x) = gc_email x) \<Longrightarrow> frames R G (update_connections Q f)"
  unfolding update_connections_def by (intro frames_seq frames_wait frames_tenant_modify) (rule R_connections)

lemma frames_delete_reviews [frame_intros]: "frames R G (delete_reviews keep i)"
  unfolding delete_reviews_def by (intro frames_seq frames_wait_holding frames_tenant_modify) (rule R_delete_reviews)

lemma frames_update_maps:
  assumes "\<And>g. map_pointed_alike g (f g)"
  shows "frames R G (update_maps Q f)"
proof -
  have "frames R G (bindM (in_tenant (\<lambda>m d. m)) (\<lambda>m (w :: google_world).
     if list_ex (\<lambda>g. gl_merchant g = m \<and> Q g \<and> (case gl_count (f g) of None \<Rightarrow> False | Some n \<Rightarrow> MAX_INTEGER < n)) (google_maps (db w))
     then (Inl DataErr, w)
     else (Inr (), w\<lparr>db := (db w)\<lparr>google_maps := map_if (\<lambda>g. gl_merchant g = m \<and> Q g) f (google_maps (db w))\<rparr>\<rparr>)))"
    by (rule framesI) (auto simp: run_bind in_tenant_def saves_refl R_refl intro!: R_figures assms split: option.splits if_splits)
  then show ?thesis unfolding update_maps_def by (intro frames_seq frames_wait)
qed

lemma frames_record_connection_log [frame_intros]: "frames R G (record_connection_log a u i)"
proof -
  have "frames R G (bindM (in_tenant (\<lambda>m d. (m, g_members d))) (\<lambda>(m, ms).
     if (m, u) \<notin> set ms then throw ActorNotMember
     else add_google_audit (log_row (Some m) a (Some u) ''google_reviews.googleconnection'' i [])))"
    by (rule framesI)
      (auto simp: run_bind in_tenant_def add_google_audit_def saves_refl R_refl log_row_def intro!: R_new_audit split: option.splits if_splits)
  then show ?thesis unfolding record_connection_log_def by (rule frames_tenant_atomic)
qed

lemma frames_save_connection:
  assumes "\<And>x. connection_kept x (f x)"
  shows "frames R G (save_connection i f)"
proof (rule framesI)
  fix w r w'
  assume g: "G (ctx w)" and run: "save_connection i f w = (r, w')"
  show "ctx w' = ctx w \<and> env w' = env w \<and> R (db w) (db w') \<and> list_all2 R (saves w) (saves w') \<and> (quiet w \<longrightarrow> saves w' = saves w)"
  proof (cases "merchant_var (ctx w)")
    case None
    with run show ?thesis by (auto simp: save_connection_def run_bind now_def tick_def g_first_def in_tenant_def R_refl saves_refl)
  next
    case (Some m)
    let ?t = "clock w (ticks w)"
    show ?thesis
    proof (cases "first (\<lambda>x. gc_merchant x = m \<and> gc_id x = i) (connections (db w))")
      case None
      with run Some show ?thesis by (auto simp: save_connection_def run_bind now_def tick_def g_first_def in_tenant_def R_refl saves_refl)
    next
      case (Some x)
      note x = this
      let ?y = "(f x)\<lparr>gc_updated_at := ?t\<rparr>"
      have m: "gc_merchant x = m" using first_SomeD [OF x] by simp
      have k: "connection_kept x ?y" using assms [of x] by (simp add: connection_kept_def)
      have "connection_fits ?y \<Longrightarrow> R (db w) ((db w)\<lparr>connections := update_first (\<lambda>x. gc_merchant x = m \<and> gc_id x = i) (\<lambda>_. ?y) (connections (db w))\<rparr>)"
        by (rule R_connection [OF g \<open>merchant_var (ctx w) = Some m\<close> x k])
      with run \<open>merchant_var (ctx w) = Some m\<close> x m show ?thesis
        by (auto simp: save_connection_def run_bind run_seq now_def tick_def g_first_def in_tenant_def Let_def R_refl saves_refl split: if_splits)
    qed
  qed
qed

end

end
