(* ===== verification/GoogleSystem.thy ===== *)
theory GoogleSystem
  imports GoogleFrames
begin

text \<open>
  The Google application as the set of its entries (requests, tasks, the two periodic tasks), each a thread of a
  \<open>history\<close>, and that every entry respects a frame relation.
\<close>

subsection \<open>Entries\<close>

datatype google_entry =
    StartOAuth uuid team_member
  | CompleteOAuth uuid team_member string string
  | ShowAttempt uuid team_member uuid
  | ShowConnections uuid team_member
  | ShowAvailable uuid team_member uuid
  | ShowMapping uuid team_member uuid
  | MapLocation uuid team_member uuid uuid string
  | ShowReviews uuid reviews_auth review_filter
  | GoogleTask nat gtask
  | SyncBeat
  | RefreshBeat

abbreviation google_request_of :: "uuid \<Rightarrow> 'a gprog \<Rightarrow> unit gprog" where
  "google_request_of m p \<equiv> tenant_middleware m (bindM p (\<lambda>_. ret ()))"

abbreviation exempt_request :: "uuid \<Rightarrow> 'a gprog \<Rightarrow> unit gprog" where
  "exempt_request m p \<equiv> tenant_context (Some m) (bindM p (\<lambda>_. ret ()))"

text \<open>The two views that call Google run in the tenant context without a transaction around them.\<close>

definition run_google :: "google_entry \<Rightarrow> unit gprog" where
  "run_google entry = (case entry of
     StartOAuth m tm \<Rightarrow> google_request_of m (oauth_start_post (Some tm))
   | CompleteOAuth m tm code state \<Rightarrow> google_request_of m (oauth_complete_post (Some tm) code state)
   | ShowAttempt m tm i \<Rightarrow> google_request_of m (oauth_attempt_get (Some tm) i)
   | ShowConnections m tm \<Rightarrow> google_request_of m (connections_get (Some tm))
   | ShowAvailable m tm i \<Rightarrow> exempt_request m (connection_locations_get (Some tm) i)
   | ShowMapping m tm l \<Rightarrow> google_request_of m (google_location_get (Some tm) l)
   | MapLocation m tm l c g \<Rightarrow> exempt_request m (google_location_put (Some tm) l c g)
   | ShowReviews m auth f \<Rightarrow> google_request_of m (reviews_get auth f)
   | GoogleTask n t \<Rightarrow> run_google_task n t
   | SyncBeat \<Rightarrow> sync_google_reviews
   | RefreshBeat \<Rightarrow> refresh_google_tokens)"

fun gtask_merchant :: "gtask \<Rightarrow> uuid" where
  "gtask_merchant (SyncMerchantReviews m) = m"
| "gtask_merchant (SyncLocation m _) = m"
| "gtask_merchant (RefreshMerchantTokens m) = m"
| "gtask_merchant (ExchangeCode m _) = m"
| "gtask_merchant (RefreshToken m _) = m"

fun google_merchant_of :: "google_entry \<Rightarrow> uuid option" where
  "google_merchant_of (StartOAuth m _) = Some m"
| "google_merchant_of (CompleteOAuth m _ _ _) = Some m"
| "google_merchant_of (ShowAttempt m _ _) = Some m"
| "google_merchant_of (ShowConnections m _) = Some m"
| "google_merchant_of (ShowAvailable m _ _) = Some m"
| "google_merchant_of (ShowMapping m _ _) = Some m"
| "google_merchant_of (MapLocation m _ _ _ _) = Some m"
| "google_merchant_of (ShowReviews m _ _) = Some m"
| "google_merchant_of (GoogleTask _ t) = Some (gtask_merchant t)"
| "google_merchant_of _ = None"

context google_frame
begin

subsection \<open>Attempts and the exchange\<close>

lemma frames_expire [frame_intros]: "frames R G (expire_attempts i t)"
  unfolding expire_attempts_def Let_def
  by (intro frame_intros frames_update_attempts)
    (auto simp: attempt_later_def attempt_kept_def terminal_def unclaimed_def failed_attempt_def)

lemma frames_purge [frame_intros]: "frames R G (purge_attempts t)"
  unfolding purge_attempts_def by (intro frame_intros frames_delete_attempts) (simp add: terminal_def)

lemma frames_oauth [frame_intros]:
  "frames R G (begin_google_oauth u)" "frames R G (complete_google_oauth u code state)" "frames R G (get_oauth_attempt u i)"
proof -
  have "frames R G (insert_attempt (new_attempt i m u s n e t))" for i m s n e t
    by (rule frames_insert_attempt) (simp_all add: new_attempt_def)
  note frame_intros = frame_intros this
  show "frames R G (begin_google_oauth u)" unfolding begin_google_oauth_def issue_oauth_state_def by (intro frame_intros)
  have "frames R G (claim_attempt u h e t)" for h e t
    unfolding claim_attempt_def
    by (intro frame_intros frames_update_attempts) (auto simp: attempt_later_def attempt_kept_def terminal_def)
  note frame_intros = frame_intros this
  show "frames R G (complete_google_oauth u code state)" unfolding complete_google_oauth_def by (intro frame_intros)
  show "frames R G (get_oauth_attempt u i)" unfolding get_oauth_attempt_def by (intro frame_intros)
qed

lemma frames_mark_failed [frame_intros]: "frames R G (mark_failed i code t)"
  unfolding mark_failed_def
  by (intro frame_intros frames_update_attempts) (auto simp: attempt_later_def attempt_kept_def terminal_def failed_attempt_def)

lemma frames_fail [frame_intros]: "frames R G (fail_attempt i code)"
  unfolding fail_attempt_def by (intro frame_intros)

lemma frames_take_code [frame_intros]: "frames R G (take_code i)"
  unfolding take_code_def
  by (intro frame_intros frames_update_attempts) (auto simp: attempt_later_def attempt_kept_def terminal_def)

lemma sect_after: "frames R G m \<Longrightarrow> (\<And>a. sect R G (\<lambda>_ _. True) (f a) S) \<Longrightarrow> sect R G P (bindM m f) S"
  by (rule sect_bind [OF sect_of_frames])

text \<open>What the finish knows: the connection it has found or made is one of the merchant's.\<close>

abbreviation own_connection :: "uuid \<Rightarrow> ctxvars \<Rightarrow> gdb \<Rightarrow> bool" where
  "own_connection i c d \<equiv> \<exists>m. merchant_var c = Some m \<and> connection_of d m i"

lemma own_connection_later: "own_connection i c d \<Longrightarrow> R d d' \<Longrightarrow> own_connection i c d'"
  using connection_of_later [OF R_kept] by blast

lemma save_connection_id: "save_connection i f w = (Inr c, w') \<Longrightarrow> (\<And>x. connection_kept x (f x)) \<Longrightarrow> gc_id c = i"
  by (auto simp: save_connection_def run_bind run_seq now_def g_first_def in_tenant_def Let_def connection_kept_def
      dest!: first_SomeD split: option.splits if_splits)

lemma insert_connection_own: "insert_connection x w = (Inr u, w') \<Longrightarrow> own_connection (gc_id x) (ctx w') (db w')"
  by (auto simp: insert_connection_def run_seq tenant_write_def wait_def interfere_def Let_def connection_of_def split: if_splits)

lemma sect_upsert_connection:
  "sect R G (\<lambda>_ _. True) (upsert_connection claims result t) (\<lambda>r c d. \<forall>x cr. r = Inr (x, cr) \<longrightarrow> own_connection (gc_id x) c d)"
proof -
  let ?none = "case er_refresh result of None \<Rightarrow> ret (Inl REFRESH_TOKEN_MISSING)
       | Some refresh_token \<Rightarrow> bindM google_merchant (\<lambda>m. bindM (encrypt_text (er_access result)) (\<lambda>access. bindM (encrypt_text refresh_token) (\<lambda>refresh.
           bindM google_random (\<lambda>i. bindM now (\<lambda>u. let c = new_connection i m claims access refresh (er_expires_at result) t u in
             seqM (insert_connection c) (ret (Inr (c, True))))))))"
  have none: "sect R G P ?none (\<lambda>r c d. \<forall>x cr. r = Inr (x, cr) \<longrightarrow> own_connection (gc_id x) c d)" for P
  proof (rule sect_post [OF sect_pre [where P = "\<lambda>_ _. True"]])
    have "sect R G (\<lambda>_ _. True) (insert_connection x) (\<lambda>_ c d. own_connection (gc_id x) c d \<and> True)" for x
      by (rule sect_result [OF frames_insert_connection]) (use insert_connection_own in blast)+
    then have i: "sect R G (\<lambda>_ _. True) (seqM (insert_connection x) (ret (Inr (x, True)))) (\<lambda>r c d. r = Inr (x, True) \<and> own_connection (gc_id x) c d)" for x
      by (rule sect_seq) (rule sect_post [OF sect_ret], auto)
    show "sect R G (\<lambda>_ _. True) ?none (\<lambda>r c d. r = Inl REFRESH_TOKEN_MISSING \<or> (\<exists>x. r = Inr (x, True) \<and> own_connection (gc_id x) c d))"
      unfolding Let_def
      by (intro sect_case_option sect_after sect_post [OF sect_ret] sect_post [OF i] frame_intros) auto
  qed auto
  let ?own = "\<lambda>x c d. (\<exists>m. merchant_var c = Some m \<and> Some x = first (\<lambda>y. gc_merchant y = m \<and> Some (gc_sub y) = ic_sub claims) (connections d)) \<and> True"
  have own: "?own x c d \<Longrightarrow> own_connection (gc_id x) c d" for x c and d :: gdb
    by (metis connection_of_first)
  have kept: "connection_kept x (reauthorized claims access refresh e t x)" for x access refresh e
    by (simp add: connection_kept_def reauthorized_def)
  have save: "sect R G (own_connection i) (bindM (save_connection i (reauthorized claims access refresh e t)) (\<lambda>c'. ret (Inr (c', False))))
      (\<lambda>r c d. \<forall>x cr. r = Inr (x, cr) \<longrightarrow> own_connection (gc_id x) c d)" for i access refresh e
    by (rule sect_bind [OF sect_result [where Q = "\<lambda>x _ _. gc_id x = i", OF frames_save_connection [OF kept] own_connection_later]],
        assumption, assumption, rule save_connection_id [OF _ kept], assumption, rule sect_post [OF sect_ret], auto)
  have some: "sect R G (own_connection (gc_id x)) (if er_refresh result = None \<and> gc_status x \<noteq> ConnectionActive then ret (Inl REFRESH_TOKEN_MISSING)
       else bindM (encrypt_text (er_access result)) (\<lambda>access.
         bindM (case er_refresh result of None \<Rightarrow> ret None | Some r \<Rightarrow> bindM (encrypt_text r) (\<lambda>x. ret (Some x))) (\<lambda>refresh.
         bindM (save_connection (gc_id x) (reauthorized claims access refresh (er_expires_at result) t)) (\<lambda>c'. ret (Inr (c', False))))))
      (\<lambda>r c d. \<forall>x cr. r = Inr (x, cr) \<longrightarrow> own_connection (gc_id x) c d)" for x
    by (intro sect_if sect_post [OF sect_ret] sect_bind [OF sect_kept [OF _ own_connection_later]] save frame_intros) auto
  show ?thesis
    unfolding upsert_connection_def lock_connection_def
    by (rule sect_bind [OF sect_seq [OF sect_wait [where P = "\<lambda>_ _. True"] sect_g_first]], simp, rule sect_case_option, rule none,
        rule sect_pre [OF some], rule own, simp)
qed

lemma sect_complete_attempt: "sect R G (own_connection (gc_id x)) (complete_attempt i x t) (\<lambda>_ _ _. True)"
proof -
  have u: "sect R G (own_connection (gc_id x)) (update_attempts (keeps_connection (gc_id x)) (\<lambda>a. oa_id a = i \<and> oa_status a = AttemptPending)
       (\<lambda>a. a\<lparr>oa_status := AttemptCompleted, oa_connection := Some (gc_id x), oa_completed_at := Some t, oa_code := None, oa_updated_at := t\<rparr>)) (\<lambda>_ _ _. True)"
  proof (rule sect_update_attempts)
    fix c d d'
    assume "own_connection (gc_id x) c d" "R d d'"
    then show "own_connection (gc_id x) c d'" by (rule own_connection_later)
  qed (auto simp: attempt_later_def attempt_kept_def terminal_def)
  show ?thesis unfolding complete_attempt_def
    by (rule sect_bind [OF u]) (intro sect_if sect_of_frames frame_intros)
qed

lemma frames_finish [frame_intros]: "frames R G (finish_attempt i u claims result)"
proof -
  have "sect R G (\<lambda>_ _. True) (finish_ok i u claims result) (\<lambda>_ _ _. True)"
    unfolding finish_ok_def
  proof (rule sect_bind [OF sect_of_frames [OF frames_now]], rule sect_bind [OF sect_of_frames [OF frames_in_tenant_read]], rule sect_if)
    show "sect R G (\<lambda>_ _. True) (bindM (mark_failed i c t) (\<lambda>_. ret ())) (\<lambda>_ _ _. True)" for c t
      by (intro sect_of_frames frame_intros)
    fix t
    show "sect R G (\<lambda>_ _. True) (bindM (upsert_connection claims result t) (\<lambda>r. case r of
       Inl failure \<Rightarrow> bindM (mark_failed i failure t) (\<lambda>_. ret ())
     | Inr (c, created) \<Rightarrow> seqM (record_connection_log (if created then ''google.connection_added'' else ''google.connection_reauthorized'') u (gc_id c))
         (complete_attempt i c t))) (\<lambda>_ _ _. True)"
    proof (rule sect_bind [OF sect_upsert_connection])
      fix r :: "failure_code + google_connection \<times> bool"
      show "sect R G (\<lambda>c d. \<forall>x cr. r = Inr (x, cr) \<longrightarrow> own_connection (gc_id x) c d) (case r of
         Inl failure \<Rightarrow> bindM (mark_failed i failure t) (\<lambda>_. ret ())
       | Inr (c, created) \<Rightarrow> seqM (record_connection_log (if created then ''google.connection_added'' else ''google.connection_reauthorized'') u (gc_id c))
           (complete_attempt i c t)) (\<lambda>_ _ _. True)"
      proof (cases r)
        case (Inl f)
        then show ?thesis by (simp, intro sect_of_frames frame_intros)
      next
        case (Inr xc)
        obtain x cr where xc: "xc = (x, cr)" by fastforce
        have "sect R G (own_connection (gc_id x)) (seqM (record_connection_log a u (gc_id x)) (complete_attempt i x t)) (\<lambda>_ _ _. True)" for a
          by (rule sect_seq [OF sect_kept [OF frames_record_connection_log own_connection_later] sect_complete_attempt])
        then show ?thesis unfolding Inr xc by (auto intro: sect_pre)
      qed
    qed
  qed
  then have "frames R G (tenant_atomic True (finish_ok i u claims result))" by (rule frames_tx_end)
  then show ?thesis unfolding finish_attempt_def
    by (rule frames_catch) (auto intro: frame_intros split: if_splits)
qed

lemma frames_exchange [frame_intros]: "frames R G (exchange_attempt i)"
proof -
  have r: "frames R G (redeem_code code)" for code
    unfolding redeem_code_def by (intro frame_intros) (auto intro: frame_intros split: if_splits)
  have v: "frames R G (validate_exchange result n)" for result n
    unfolding validate_exchange_def by (intro frame_intros) (auto intro: frame_intros split: if_splits)
  have c: "frames R G (case x of Inl f \<Rightarrow> p f | Inr y \<Rightarrow> q y)" if "\<And>f. frames R G (p f)" "\<And>y. frames R G (q y)" for x :: "failure_code + id_claims" and p q
    using that by (cases x) simp_all
  show ?thesis unfolding exchange_attempt_def by (intro frame_intros r v c)
qed

subsection \<open>Connections\<close>

lemma frames_logged [frame_intros]: "frames R H m \<Longrightarrow> frames R H (logged m)"
  unfolding logged_def by (rule frames_catch) (auto intro: frame_intros)

lemma frames_refresh [frame_intros]: "frames R G (refresh_connection i)" "frames R G (get_access_token i)" "frames R G refresh_merchant_tokens"
proof -
  have "frames R G (mark_needs_reauth i s)" for s
    unfolding mark_needs_reauth_def by (intro frame_intros frames_update_connections) (simp add: connection_kept_def)
  note frame_intros = frame_intros this
  have s: "frames R G (store_refreshed i s ts)" for i s ts
    unfolding store_refreshed_def by (intro frame_intros frames_update_connections) (simp add: connection_kept_def refreshed_def)
  have a: "frames R G (ask_refresh s)" for s
    unfolding ask_refresh_def
    by (intro frame_intros) (auto intro: frame_intros split: exn.splits google_error.splits)
  have m: "frames R G (mark_needs_reauth i s)" for i s
    unfolding mark_needs_reauth_def by (intro frame_intros frames_update_connections) (simp add: connection_kept_def)
  have n: "frames R G (refresh_now i s)" for i s
    unfolding refresh_now_def by (intro frame_intros s a m) (auto intro: frame_intros split: if_splits)
  have r: "frames R G (refresh_connection i)" for i
    unfolding refresh_connection_def refresh_margin_def by (intro frame_intros n)
  show "frames R G (refresh_connection i)" by (rule r)
  show "frames R G (get_access_token i)" unfolding get_access_token_def by (intro frame_intros r)
  show "frames R G refresh_merchant_tokens" unfolding refresh_merchant_tokens_def sweep_oauth_attempts_def by (intro frame_intros r)
qed

subsection \<open>Mappings\<close>

lemma sect_save_map:
  assumes "\<And>c d. P c d \<Longrightarrow> merchant_var c = Some (gl_merchant g) \<and> connection_of d (gl_merchant g) (gl_connection g)"
    "\<And>c d d'. P c d \<Longrightarrow> R d d' \<Longrightarrow> P c d'"
  shows "sect R G P (save_map keep g) (\<lambda>_ _ _. True)"
  unfolding save_map_def Let_def
proof (rule sect_bind [OF sect_now], rule sect_seq [OF sect_kept [OF frames_tenant_write assms(2)]], assumption, assumption,
    rule sect_seq [OF sect_wait_holding [OF assms(2)]], assumption, assumption, rule sectI)
  fix t w r w'
  let ?g = "g\<lparr>gl_updated_at := t\<rparr>"
  assume g: "G (ctx w)" and p: "P (ctx w) (db w)"
    and run: "(if \<not> map_fits ?g then (Inl DataErr, w)
       else if \<not> list_ex (\<lambda>l. lo_id l = gl_location ?g \<and> lo_merchant l = gl_merchant ?g) (g_locations (db w)) then (Inl DatabaseErr, w)
       else if list_ex (\<lambda>q. gl_id q \<noteq> gl_id ?g \<and> gl_location q = gl_location ?g) (google_maps (db w)) then (Inl (UniqueViolation LOCATION_ONE_TO_ONE), w)
       else if list_ex (\<lambda>q. gl_id q \<noteq> gl_id ?g \<and> same_map_key ?g q) (google_maps (db w)) then (Inl (UniqueViolation LOCATION_UNIQUE), w)
       else (case find_map (db w) (gl_id ?g) of
         None \<Rightarrow> (Inr ?g, w\<lparr>db := (db w)\<lparr>google_maps := google_maps (db w) @ [?g]\<rparr>\<rparr>)
       | Some q \<Rightarrow> if gl_merchant q \<noteq> gl_merchant ?g then (Inl (UniqueViolation ''google_reviews_googlelocation_pkey''), w)
           else (Inr ?g, w\<lparr>db := (db w)\<lparr>google_maps := update_first (\<lambda>q. gl_id q = gl_id ?g) (\<lambda>_. ?g) (google_maps (db w))\<rparr>\<rparr>))) = (r, w')"
  have c: "merchant_var (ctx w) = Some (gl_merchant ?g)" "connection_of (db w) (gl_merchant ?g) (gl_connection ?g)" using assms(1) [OF p] by simp_all
  have new: "R (db w) ((db w)\<lparr>google_maps := google_maps (db w) @ [?g]\<rparr>)"
    if "find_map (db w) (gl_id ?g) = None" "map_fits ?g" "map_free (db w) ?g" "location_of (db w) (gl_merchant ?g) (gl_location ?g)"
    by (rule R_new_map [OF g c(1) that c(2)])
  have old: "R (db w) ((db w)\<lparr>google_maps := update_first (\<lambda>q. gl_id q = gl_id ?g) (\<lambda>_. ?g) (google_maps (db w))\<rparr>)"
    if "find_map (db w) (gl_id ?g) = Some q" "gl_merchant q = gl_merchant ?g" "map_fits ?g" "map_free (db w) ?g"
      "location_of (db w) (gl_merchant ?g) (gl_location ?g)" for q
    by (rule R_map [OF g c(1) that c(2)])
  have free: "map_free (db w) ?g \<longleftrightarrow> \<not> list_ex (\<lambda>q. gl_id q \<noteq> gl_id ?g \<and> gl_location q = gl_location ?g) (google_maps (db w)) \<and>
      \<not> list_ex (\<lambda>q. gl_id q \<noteq> gl_id ?g \<and> same_map_key ?g q) (google_maps (db w))"
    by (auto simp: map_free_def list_ex_iff)
  have loc: "location_of (db w) (gl_merchant ?g) (gl_location ?g) \<longleftrightarrow>
      list_ex (\<lambda>l. lo_id l = gl_location ?g \<and> lo_merchant l = gl_merchant ?g) (g_locations (db w))"
    by (simp add: location_of_def)
  show "ctx w' = ctx w \<and> env w' = env w \<and> R (db w) (db w') \<and> list_all2 R (saves w) (saves w') \<and> (quiet w \<longrightarrow> saves w' = saves w) \<and> (\<forall>a. r = Inr a \<longrightarrow> True)"
    using run new old unfolding free loc by (auto simp: R_refl saves_refl split: if_splits option.splits)
qed

lemma frames_google_reads [frame_intros]:
  "frames R H (connection_in_block i)" "frames R H (assert_same_merchant l c)" "frames R H (read_token_in_block c)" "frames R H (require_token t)"
  "frames R H (google_location_for tm j)" "frames R H (map_with_connection k)" "frames R H (due_locations cutoff)" "frames R H (list_reviews member f)"
  unfolding connection_in_block_def assert_same_merchant_def read_token_in_block_def require_token_def google_location_for_def map_with_connection_def
    due_locations_def list_reviews_def refresh_margin_def by (intro frame_intros)+

lemma frames_list_google_locations [frame_intros]: "frames R H (list_google_locations token)"
  unfolding list_google_locations_def by (intro frame_intros) (auto intro: frames_throw)

lemma frames_mapping_target: "frames R G (mapping_target l found)"
  unfolding mapping_target_def by (intro frame_intros)

lemma mapping_target_merchant: "mapping_target l found w = (Inr (g, held), w') \<Longrightarrow> merchant_var (ctx w) = Some m \<Longrightarrow> lo_merchant l = m \<Longrightarrow> gl_merchant g = m"
  by (auto simp: mapping_target_def run_bind run_seq lock_map_def wait_def interfere_def Let_def g_first_def in_tenant_def google_random_def blank_map_def
      emptied_def delete_reviews_def wait_holding_def dest!: first_SomeD split: option.splits if_splits)

text \<open>The mapping that is saved belongs to the merchant, and so does the connection it names.\<close>

abbreviation mapping_known :: "location \<Rightarrow> google_connection \<Rightarrow> ctxvars \<Rightarrow> gdb \<Rightarrow> bool" where
  "mapping_known l x c d \<equiv> merchant_var c = Some (lo_merchant l) \<and> connection_of d (lo_merchant l) (gc_id x)"

lemma mapping_known_later: "mapping_known l x c d \<Longrightarrow> R d d' \<Longrightarrow> mapping_known l x c d'"
  using connection_of_later [OF R_kept] by blast

lemma sect_mapping_target: "sect R G (mapping_known l x) (mapping_target l found)
   (\<lambda>r c d. gl_merchant (fst r) = lo_merchant l \<and> mapping_known l x c d)"
proof (rule sectI)
  fix w r w'
  assume g: "G (ctx w)" "rely R w" "mapping_known l x (ctx w) (db w)" and run: "mapping_target l found w = (r, w')"
  note fr = framesD [OF frames_mapping_target g(1,2) run]
  have k: "mapping_known l x (ctx w') (db w')" using mapping_known_later [OF g(3) fr(3)] fr(1) by simp
  have "gl_merchant (fst a) = lo_merchant l" if "r = Inr a" for a
    using mapping_target_merchant [of l found w "fst a" "snd a" w' "lo_merchant l"] run that g(3) by simp
  then show "ctx w' = ctx w \<and> env w' = env w \<and> R (db w) (db w') \<and> list_all2 R (saves w) (saves w') \<and> (quiet w \<longrightarrow> saves w' = saves w) \<and>
     (\<forall>a. r = Inr a \<longrightarrow> gl_merchant (fst a) = lo_merchant l \<and> mapping_known l x (ctx w') (db w'))"
    using fr(1-4,6) k by (intro conjI allI impI) simp_all
qed

lemma frames_write_mapping [frame_intros]: "frames R G (tenant_atomic False (write_mapping l i found link))"
proof (rule frames_tx_end)
  let ?first = "\<lambda>r c d. (\<exists>m. merchant_var c = Some m \<and> r = first (\<lambda>y. gc_merchant y = m \<and> gc_id y = i \<and> gc_status y = ConnectionActive) (connections d)) \<and> True"
  have assert: "sect R G (?first (Some x)) (assert_same_merchant l x) (\<lambda>_. mapping_known l x)" for x
    by (rule sect_calm) (auto simp: assert_same_merchant_def run_bind google_merchant_def get_current_merchant_id_def
        dest!: connection_of_first [OF sym] split: option.splits if_splits)
  have save: "sect R G (\<lambda>c d. gl_merchant (fst r) = lo_merchant l \<and> mapping_known l x c d) (case r of (g, held) \<Rightarrow>
      bindM (save_map (if held then keeps_map (gl_id g) else anything) (pointed (gc_id x) found link g)) (\<lambda>g'.
         seqM (enqueue_on_commit (SyncLocation (gc_merchant x) (gl_id g'))) (ret (g', x)))) (\<lambda>_ _ _. True)" for r x
  proof (cases r)
    case (Pair g held)
    have "sect R G (\<lambda>c d. gl_merchant g = lo_merchant l \<and> mapping_known l x c d) (save_map keep (pointed (gc_id x) found link g)) (\<lambda>_ _ _. True)" for keep
    proof (rule sect_save_map)
      fix c d d'
      assume "gl_merchant g = lo_merchant l \<and> mapping_known l x c d" "R d d'"
      then show "gl_merchant g = lo_merchant l \<and> mapping_known l x c d'" using connection_of_later [OF R_kept] by blast
    qed (simp add: pointed_def)
    then show ?thesis unfolding Pair prod.case fst_conv by (rule sect_bind) (intro sect_of_frames frame_intros)
  qed
  show "sect R G (\<lambda>_ _. True) (write_mapping l i found link) (\<lambda>_ _ _. True)"
    unfolding write_mapping_def
  proof (rule sect_bind [OF sect_g_first], rule sect_case_option)
    fix r x
    assume r: "r = Some (x :: google_connection)"
    show "sect R G (?first r) (seqM (assert_same_merchant l x) (bindM (mapping_target l found) (\<lambda>(g, held).
        bindM (save_map (if held then keeps_map (gl_id g) else anything) (pointed (gc_id x) found link g)) (\<lambda>g'.
         seqM (enqueue_on_commit (SyncLocation (gc_merchant x) (gl_id g'))) (ret (g', x)))))) (\<lambda>_ _ _. True)"
      unfolding r by (rule sect_seq [OF assert], rule sect_bind [OF sect_mapping_target], rule save)
  qed (rule sect_throw)
qed

lemma frames_map_location [frame_intros]: "frames R G (map_location tm l i gid)"
  unfolding map_location_def map_found_def by (intro frame_intros) (auto intro: frames_throw split: if_splits)

subsection \<open>Reviews\<close>

lemma rows_with_ids_of: "rows_with_ids g m t u rs w = (Inr rows, w') \<Longrightarrow> r \<in> set rows \<Longrightarrow> gr_mapping r = g \<and> gr_merchant r = m"
  by (induction rs arbitrary: w rows w') (auto simp: run_bind google_random_def review_row_def split: sum.splits prod.splits)

lemma frames_rows_with_ids [frame_intros]: "frames R H (rows_with_ids g m t u rs)"
  by (induction rs) (simp_all only: rows_with_ids.simps frames_ret, intro frame_intros)

lemma for_tenant_write: "(forM rows (\<lambda>r. tenant_write (f r)) :: unit gprog) w = (Inr (), w') \<Longrightarrow> w' = w \<and> (\<forall>r\<in>set rows. merchant_var (ctx w) = Some (f r))"
proof (induction rows)
  case (Cons r rows)
  show ?case
  proof (cases "merchant_var (ctx w) = Some (f r) \<and> merchant_var (guc w) = Some (f r)")
    case True
    with Cons.prems have "(forM rows (\<lambda>r. tenant_write (f r)) :: unit gprog) w = (Inr (), w')" by (simp add: run_seq tenant_write_def)
    with Cons.IH True show ?thesis by simp
  next
    case False
    with Cons.prems show ?thesis by (auto simp: run_seq tenant_write_def)
  qed
qed simp

lemma sect_bulk_upsert:
  assumes "\<And>c d r. P c d \<Longrightarrow> r \<in> set rows \<Longrightarrow> map_of_merchant d (gr_merchant r) (gr_mapping r)" "\<And>c d d'. P c d \<Longrightarrow> R d d' \<Longrightarrow> P c d'"
  shows "sect R G P (bulk_upsert keep rows) (\<lambda>_ _ _. True)"
  unfolding bulk_upsert_def
proof (rule sect_seq)
  show "sect R G P (forM rows (\<lambda>r. tenant_write (gr_merchant r)) :: unit gprog) (\<lambda>_ c d. (\<forall>r\<in>set rows. merchant_var c = Some (gr_merchant r)) \<and> P c d)"
  proof (rule sect_result)
    fix w u w'
    assume "(forM rows (\<lambda>r. tenant_write (gr_merchant r)) :: unit gprog) w = (Inr u, w')"
    from for_tenant_write [OF this [unfolded unit_eq [of u]]] show "\<forall>r\<in>set rows. merchant_var (ctx w') = Some (gr_merchant r)" by simp
  qed (rule frames_for [OF frames_tenant_write], rule assms(2))
  show "sect R G (\<lambda>c d. (\<forall>r\<in>set rows. merchant_var c = Some (gr_merchant r)) \<and> P c d) (seqM (wait_holding keep) (\<lambda>w.
     if list_ex (\<lambda>r. \<not> review_fits r) rows then (Inl DataErr, w)
     else if list_ex (\<lambda>r. \<not> review_ok r) rows then (Inl CheckViolation, w)
     else if \<not> distinct (map (\<lambda>r. (gr_mapping r, gr_review r)) rows) then (Inl DatabaseErr, w)
     else if list_ex (\<lambda>r. find_map (db w) (gr_mapping r) = None) rows then (Inl (UniqueViolation ''foreign_key''), w)
     else if \<not> distinct (map gr_id rows) \<or> list_ex (\<lambda>r. list_ex (\<lambda>q. gr_id q = gr_id r \<and> \<not> same_review r q) (reviews (db w))) rows
     then (Inl (UniqueViolation ''google_reviews_googlereview_pkey''), w)
     else (Inr (), w\<lparr>db := (db w)\<lparr>reviews := fold upsert_review rows (reviews (db w))\<rparr>\<rparr>))) (\<lambda>_ _ _. True)" (is "sect R G ?P (seqM _ ?ins) _")
  proof (rule sect_seq [OF sect_wait_holding])
    fix c d d'
    assume "?P c d" "R d d'"
    then show "?P c d'" using assms(2) by blast
  next
    show "sect R G ?P ?ins (\<lambda>_ _ _. True)"
    proof (rule sectI)
      fix w r w'
      assume g: "G (ctx w)" and p: "?P (ctx w) (db w)" and run: "?ins w = (r, w')"
      have "R (db w) ((db w)\<lparr>reviews := fold upsert_review rows (reviews (db w))\<rparr>)"
        if "\<not> list_ex (\<lambda>r. \<not> review_fits r) rows" "\<not> list_ex (\<lambda>r. \<not> review_ok r) rows" "distinct (map (\<lambda>r. (gr_mapping r, gr_review r)) rows)"
          "distinct (map gr_id rows)" "\<not> list_ex (\<lambda>r. list_ex (\<lambda>q. gr_id q = gr_id r \<and> \<not> same_review r q) (reviews (db w))) rows"
      proof (cases rows)
        case Nil
        then show ?thesis by (simp add: R_refl)
      next
        case (Cons r0 rs)
        with p have m: "merchant_var (ctx w) = Some (gr_merchant r0)" by simp
        have u: "upsertable (db w) (gr_merchant r0) rows"
          unfolding upsertable_def list_all_iff
        proof (intro conjI ballI that(3,4))
          fix r assume r: "r \<in> set rows"
          with p m show same: "gr_merchant r = gr_merchant r0" by auto
          show "map_of_merchant (db w) (gr_merchant r0) (gr_mapping r)" using assms(1) p r same by metis
        qed (use that(1,2,5) in \<open>auto simp: list_ex_iff\<close>)
        show ?thesis by (rule R_upsert [OF g m u])
      qed
      with run show "ctx w' = ctx w \<and> env w' = env w \<and> R (db w) (db w') \<and> list_all2 R (saves w) (saves w') \<and> (quiet w \<longrightarrow> saves w' = saves w) \<and>
        (\<forall>a. r = Inr a \<longrightarrow> True)"
        by (auto simp: R_refl saves_refl split: if_splits)
    qed
  qed
qed

lemma frames_upsert_reviews [frame_intros]: "frames R G (upsert_reviews g rs expected)"
proof -
  have stable: "map_of_merchant d m g \<Longrightarrow> R d d' \<Longrightarrow> map_of_merchant d' m g" for d d' m
    using map_of_merchant_later [OF R_kept_maps] by blast
  have rows: "sect R G (\<lambda>c d. map_of_merchant d m g) (bindM now (\<lambda>u. bindM (rows_with_ids g m t u xs) (\<lambda>new.
      seqM (bulk_upsert (keeps_map g) new) (ret True)))) (\<lambda>_ _ _. True)" for m t xs
  proof (rule sect_bind [OF sect_now], rule sect_bind)
    fix u
    show "sect R G (\<lambda>c d. map_of_merchant d m g) (rows_with_ids g m t u xs)
        (\<lambda>new c d. (\<forall>r\<in>set new. gr_mapping r = g \<and> gr_merchant r = m) \<and> map_of_merchant d m g)"
      by (rule sect_result [OF frames_rows_with_ids stable]) (assumption, assumption, use rows_with_ids_of in blast)
    fix new
    show "sect R G (\<lambda>c d. (\<forall>r\<in>set new. gr_mapping r = g \<and> gr_merchant r = m) \<and> map_of_merchant d m g) (seqM (bulk_upsert (keeps_map g) new) (ret True))
        (\<lambda>_ _ _. True)"
    proof (rule sect_seq [OF sect_bulk_upsert sect_of_frames [OF frames_ret]])
      fix c d d'
      assume "(\<forall>r\<in>set new. gr_mapping r = g \<and> gr_merchant r = m) \<and> map_of_merchant d m g" "R d d'"
      then show "(\<forall>r\<in>set new. gr_mapping r = g \<and> gr_merchant r = m) \<and> map_of_merchant d' m g" using stable by blast
    qed auto
  qed
  have "sect R G (\<lambda>_ _. True) (bindM (lock_map (\<lambda>x. gl_id x = g \<and> gl_google_id x = expected)) (\<lambda>r. case r of
       None \<Rightarrow> ret False
     | Some x \<Rightarrow> bindM now (\<lambda>u. bindM (rows_with_ids g (gl_merchant x) t u xs) (\<lambda>new. seqM (bulk_upsert (keeps_map g) new) (ret True))))) (\<lambda>_ _ _. True)" for t xs
    unfolding lock_map_def
  proof (rule sect_bind [OF sect_seq [OF sect_wait [where P = "\<lambda>_ _. True"] sect_g_first]], simp, rule sect_case_option)
    show "sect R G P (ret False) (\<lambda>_ _ _. True)" for P by (rule sect_of_frames [OF frames_ret])
    fix r x
    assume r: "r = Some (x :: google_location)"
    show "sect R G (\<lambda>c d. (\<exists>m. merchant_var c = Some m \<and> r = first (\<lambda>y. gl_merchant y = m \<and> gl_id y = g \<and> gl_google_id y = expected) (google_maps d)) \<and> True)
        (bindM now (\<lambda>u. bindM (rows_with_ids g (gl_merchant x) t u xs) (\<lambda>new. seqM (bulk_upsert (keeps_map g) new) (ret True)))) (\<lambda>_ _ _. True)"
      by (rule sect_pre [OF rows]) (auto simp: r map_of_merchant_def list_ex_iff dest!: first_SomeD [OF sym])
  qed
  then have "frames R G (tenant_atomic False (bindM (lock_map (\<lambda>x. gl_id x = g \<and> gl_google_id x = expected)) (\<lambda>r. case r of
       None \<Rightarrow> ret False
     | Some x \<Rightarrow> bindM now (\<lambda>u. bindM (rows_with_ids g (gl_merchant x) t u xs) (\<lambda>new. seqM (bulk_upsert (keeps_map g) new) (ret True))))))" for t xs
    by (rule frames_tx_end)
  note frame_intros = frame_intros this
  show ?thesis unfolding upsert_reviews_def Let_def by (intro frame_intros)
qed

lemma frames_sync_pages [frame_intros]: "frames R G (sync_pages n g token p seen figs)"
  by (induction n arbitrary: p seen figs) (simp_all only: sync_pages.simps frames_throw Let_def, intro frame_intros)

lemma frames_sync_location [frame_intros]: "frames R G (sync_location_reviews n i)"
proof -
  have o: "frames R G (sync_outcome_of n g token)" for g token
    unfolding sync_outcome_of_def by (intro frame_intros) (auto intro: frame_intros split: if_splits)
  have s: "frames R G (store_figures g a c)" for g a c
    unfolding store_figures_def by (intro frame_intros frames_update_maps) (simp add: map_pointed_alike_def map_kept_def)
  have c: "frames R G (case x of SyncedAll a b \<Rightarrow> seqM (store_figures g a b) (ret False) | SyncStopped \<Rightarrow> ret False | SyncLimited \<Rightarrow> ret True)" for x g
    by (cases x) (simp_all, intro frame_intros s, (intro frame_intros)+)
  show ?thesis unfolding sync_location_reviews_def by (intro frame_intros o c)
qed

lemma frames_sync_merchant [frame_intros]: "frames R G (sync_merchant_reviews n)"
proof -
  have "frames R G (sync_each n is)" for "is"
  proof (induction "is")
    case (Cons i "is")
    show ?case unfolding sync_each.simps by (intro frame_intros Cons) (auto intro: frame_intros split: if_splits)
  qed (simp only: sync_each.simps frames_ret)
  then show ?thesis unfolding sync_merchant_reviews_def by (intro frame_intros)
qed

subsection \<open>Entries\<close>

lemma frames_google_respond [frame_intros]: "frames R H m \<Longrightarrow> frames R H (google_respond m)"
  unfolding google_respond_def by (intro frame_intros) (auto intro: frame_intros)

lemma frames_google_view [frame_intros]: "(\<And>tm. frames R H (handler tm)) \<Longrightarrow> frames R H (google_view roles member handler)"
  unfolding google_view_def by (intro frame_intros)

lemma frames_merchant_google:
  assumes "google_merchant_of entry = Some m" "\<And>c. G (c\<lparr>merchant_var := Some m\<rparr>)"
  shows "frames R (\<lambda>_. True) (run_google entry)"
proof -
  have req: "frames R (\<lambda>_. True) (google_request_of m p)" if "frames R G p" for p :: "'b gprog"
    by (rule frames_in_tenant [of G]) (intro frame_intros that, rule assms(2))
  have exempt: "frames R (\<lambda>_. True) (exempt_request m p)" if "frames R G p" for p :: "'b gprog"
    by (rule frames_tenant_context [where G' = G]) (intro frame_intros that, use assms(2) in auto)
  have task: "frames R (\<lambda>_. True) (tenant_task (\<lambda>_. p) (Some m))" if "frames R G p" for p
    by (rule frames_in_task [of G]) (use that assms(2) in auto)
  have avail: "frames R G (list_available_locations i)" for i unfolding list_available_locations_def by (intro frame_intros)
  have views: "frames R G (oauth_start_post (Some tm))" "frames R G (oauth_complete_post (Some tm) code state)" "frames R G (oauth_attempt_get (Some tm) i)"
    "frames R G (connections_get (Some tm))" "frames R G (connection_locations_get (Some tm) i)" "frames R G (google_location_get (Some tm) i)"
    "frames R G (google_location_put (Some tm) i c gid)" for tm code state i c gid
    unfolding oauth_start_post_def oauth_complete_post_def oauth_attempt_get_def connections_get_def connection_locations_get_def google_location_get_def
      google_location_put_def by (intro frame_intros avail)+
  have rev: "frames R G (reviews_get auth f)" for auth f
    unfolding reviews_get_def by (cases auth) (simp_all only: reviews_auth.case, (intro frame_intros)+)
  have run_task: "frames R (\<lambda>_. True) (run_google_task n t)" if "gtask_merchant t = m" for n t
    using that by (cases t) (simp_all add: run_google_task_def sync_location_def, (intro task frame_intros)+)
  show ?thesis
    using assms(1) by (cases entry) (simp_all add: run_google_def, (rule req exempt run_task; (intro views rev | simp)?)+)
qed

lemma frames_google_entry:
  assumes "\<And>c. G c"
  shows "frames R (\<lambda>_. True) (run_google entry)"
proof (cases "google_merchant_of entry")
  case (Some m)
  then show ?thesis by (rule frames_merchant_google) (rule assms)
next
  case None
  have "frames R H (google_fan_out task)" for task H
    unfolding google_fan_out_def merchant_ids_with_google_def by (intro frame_intros)
  with None show ?thesis by (cases entry) (simp_all add: run_google_def sync_google_reviews_def refresh_google_tokens_def)
qed

end

end
