(* ===== verification/GoogleTables.thy ===== *)
theory GoogleTables
  imports GoogleSystem "HOL-Library.Sublist"
begin

text \<open>
  What the tables of \<open>google_reviews\<close> satisfy at every commit: primary and unique keys, check constraints, column widths and
  foreign keys that stay within one merchant; and that every write the contract \<open>google_frame\<close> allows keeps it.
\<close>

subsection \<open>Conforming tables\<close>

definition attempts_conform :: "gdb \<Rightarrow> bool" where
  "attempts_conform d \<longleftrightarrow> distinct (map oa_id (attempts d)) \<and> distinct (map oa_state_hash (attempts d)) \<and> list_all attempt_ok (attempts d) \<and>
     list_all (\<lambda>a. pred_option (connection_of d (oa_merchant a)) (oa_connection a)) (attempts d)"

definition connections_conform :: "gdb \<Rightarrow> bool" where
  "connections_conform d \<longleftrightarrow> distinct (map gc_id (connections d)) \<and> distinct (map (\<lambda>c. (gc_merchant c, gc_sub c)) (connections d)) \<and>
     list_all connection_fits (connections d)"

definition maps_conform :: "gdb \<Rightarrow> bool" where
  "maps_conform d \<longleftrightarrow> distinct (map gl_id (google_maps d)) \<and> distinct (map gl_location (google_maps d)) \<and>
     distinct (map (\<lambda>g. (gl_connection g, gl_google_id g)) (google_maps d)) \<and>
     list_all (\<lambda>g. map_fits g \<and> connection_of d (gl_merchant g) (gl_connection g) \<and> location_of d (gl_merchant g) (gl_location g)) (google_maps d)"

definition reviews_conform :: "gdb \<Rightarrow> bool" where
  "reviews_conform d \<longleftrightarrow> distinct (map gr_id (reviews d)) \<and> distinct (map (\<lambda>r. (gr_mapping r, gr_review r)) (reviews d)) \<and>
     list_all (\<lambda>r. review_ok r \<and> review_fits r \<and> map_of_merchant d (gr_merchant r) (gr_mapping r)) (reviews d)"

definition google_conform :: "gdb \<Rightarrow> bool" where
  "google_conform d \<longleftrightarrow> attempts_conform d \<and> connections_conform d \<and> maps_conform d \<and> reviews_conform d"

lemma references_elsewhere [simp]:
  "connection_of (d\<lparr>attempts := a\<rparr>) = connection_of d" "connection_of (d\<lparr>google_maps := g\<rparr>) = connection_of d"
  "connection_of (d\<lparr>reviews := r\<rparr>) = connection_of d" "connection_of (d\<lparr>g_audit := l\<rparr>) = connection_of d"
  "location_of (d\<lparr>attempts := a\<rparr>) = location_of d" "location_of (d\<lparr>google_maps := g\<rparr>) = location_of d"
  "location_of (d\<lparr>reviews := r\<rparr>) = location_of d" "location_of (d\<lparr>g_audit := l\<rparr>) = location_of d"
  "location_of (d\<lparr>connections := c\<rparr>) = location_of d"
  "map_of_merchant (d\<lparr>attempts := a\<rparr>) = map_of_merchant d" "map_of_merchant (d\<lparr>connections := c\<rparr>) = map_of_merchant d"
  "map_of_merchant (d\<lparr>reviews := r\<rparr>) = map_of_merchant d" "map_of_merchant (d\<lparr>g_audit := l\<rparr>) = map_of_merchant d"
  by (simp_all add: fun_eq_iff connection_of_def location_of_def map_of_merchant_def)

lemma conform_elsewhere [simp]:
  "attempts_conform (d\<lparr>google_maps := g\<rparr>) = attempts_conform d" "attempts_conform (d\<lparr>reviews := r\<rparr>) = attempts_conform d"
  "attempts_conform (d\<lparr>g_audit := l\<rparr>) = attempts_conform d"
  "connections_conform (d\<lparr>attempts := a\<rparr>) = connections_conform d" "connections_conform (d\<lparr>google_maps := g\<rparr>) = connections_conform d"
  "connections_conform (d\<lparr>reviews := r\<rparr>) = connections_conform d" "connections_conform (d\<lparr>g_audit := l\<rparr>) = connections_conform d"
  "maps_conform (d\<lparr>attempts := a\<rparr>) = maps_conform d" "maps_conform (d\<lparr>reviews := r\<rparr>) = maps_conform d" "maps_conform (d\<lparr>g_audit := l\<rparr>) = maps_conform d"
  "reviews_conform (d\<lparr>attempts := a\<rparr>) = reviews_conform d" "reviews_conform (d\<lparr>connections := c\<rparr>) = reviews_conform d"
  "reviews_conform (d\<lparr>g_audit := l\<rparr>) = reviews_conform d"
  by (simp_all add: attempts_conform_def connections_conform_def maps_conform_def reviews_conform_def)

text \<open>References stay when the rows they point to stay.\<close>

lemma conform_references:
  assumes "connections_later d (d\<lparr>connections := c\<rparr>)"
  shows "attempts_conform d \<Longrightarrow> attempts_conform (d\<lparr>connections := c\<rparr>)" "maps_conform d \<Longrightarrow> maps_conform (d\<lparr>connections := c\<rparr>)"
  using connection_of_later [OF assms]
  by (auto simp: attempts_conform_def maps_conform_def list_all_iff pred_option_def)

subsection \<open>Every write keeps them\<close>

lemma conform_new_attempt:
  assumes "oa_connection a = None" "attempt_ok a" "\<not> list_ex (\<lambda>q. oa_id q = oa_id a \<or> oa_state_hash q = oa_state_hash a) (attempts d)"
  shows "google_conform d \<Longrightarrow> google_conform (d\<lparr>attempts := attempts d @ [a]\<rparr>)"
  using assms by (auto simp: google_conform_def attempts_conform_def list_ex_iff)

lemma conform_attempts:
  assumes "\<And>a. P a \<Longrightarrow> attempt_later a (f a)" "\<And>a. a \<in> set (attempts d) \<Longrightarrow> oa_merchant a = m \<Longrightarrow> P a \<Longrightarrow> attempt_ok (f a)"
    "\<And>a. P a \<Longrightarrow> oa_connection (f a) = oa_connection a \<or> (\<exists>i. oa_connection (f a) = Some i \<and> connection_of d m i)"
  shows "google_conform d \<Longrightarrow> google_conform (d\<lparr>attempts := map_if (\<lambda>a. oa_merchant a = m \<and> P a) f (attempts d)\<rparr>)"
proof -
  assume c: "google_conform d"
  let ?f = "\<lambda>a. if oa_merchant a = m \<and> P a then f a else a"
  have k: "oa_id (?f a) = oa_id a \<and> oa_state_hash (?f a) = oa_state_hash a \<and> oa_merchant (?f a) = oa_merchant a" for a
    using assms(1) [of a] by (auto simp: attempt_later_def attempt_kept_def)
  have "map oa_id (map ?f rows) = map oa_id rows" "map oa_state_hash (map ?f rows) = map oa_state_hash rows" for rows
    using k by simp_all
  moreover have "list_all attempt_ok (map ?f (attempts d))"
    using c assms(2) by (auto simp: google_conform_def attempts_conform_def list_all_iff)
  moreover have "pred_option (connection_of d (oa_merchant (?f a))) (oa_connection (?f a))" if "a \<in> set (attempts d)" for a
  proof -
    have o: "pred_option (connection_of d (oa_merchant a)) (oa_connection a)"
      using c that by (simp add: google_conform_def attempts_conform_def list_all_iff)
    show ?thesis
    proof (cases "oa_merchant a = m \<and> P a")
      case True
      with assms(3) [of a] k [of a] o show ?thesis by (cases "oa_connection a") auto
    qed (use o in auto)
  qed
  then have "list_all (\<lambda>a. pred_option (connection_of d (oa_merchant a)) (oa_connection a)) (map ?f (attempts d))"
    unfolding list_all_iff set_map ball_simps by blast
  ultimately show ?thesis using c by (simp add: google_conform_def attempts_conform_def map_if_def del: map_map)
qed

lemma conform_purge: "google_conform d \<Longrightarrow> google_conform (d\<lparr>attempts := filter P (attempts d)\<rparr>)"
  by (auto simp: google_conform_def attempts_conform_def distinct_filter_map list_all_iff)

lemma conform_new_connection:
  assumes "connection_fits x" "find_connection d (gc_id x) = None"
    "\<not> list_ex (\<lambda>q. gc_merchant q = gc_merchant x \<and> gc_sub q = gc_sub x) (connections d)"
  shows "google_conform d \<Longrightarrow> google_conform (d\<lparr>connections := connections d @ [x]\<rparr>)"
proof -
  assume c: "google_conform d"
  have "connections_conform (d\<lparr>connections := connections d @ [x]\<rparr>)"
    using c assms by (auto simp: google_conform_def connections_conform_def list_ex_iff first_None)
  with c conform_references [OF connections_later_add, of d "[x]"] show ?thesis by (simp add: google_conform_def)
qed

lemma conform_connection:
  assumes "first (\<lambda>x. gc_merchant x = m \<and> gc_id x = i) (connections d) = Some x" "connection_kept x y" "connection_fits y"
  shows "google_conform d \<Longrightarrow> google_conform (d\<lparr>connections := update_first (\<lambda>x. gc_merchant x = m \<and> gc_id x = i) (\<lambda>_. y) (connections d)\<rparr>)"
proof -
  let ?c = "update_first (\<lambda>x. gc_merchant x = m \<and> gc_id x = i) (\<lambda>_. y) (connections d)"
  assume c: "google_conform d"
  have k: "map g ?c = map g (connections d)" if "g y = g x" for g :: "google_connection \<Rightarrow> 'k"
    by (rule map_update_found [OF assms(1) that])
  have "connections_conform (d\<lparr>connections := ?c\<rparr>)"
    using c assms(2,3) k [of gc_id] k [of "\<lambda>c. (gc_merchant c, gc_sub c)"] all_update_found [OF _ assms(1), of connection_fits "\<lambda>_. y"]
    by (simp add: google_conform_def connections_conform_def connection_kept_def)
  moreover have "connections_later d (d\<lparr>connections := ?c\<rparr>)" using connections_later_update [OF assms(1), of "\<lambda>_. y"] assms(2) by simp
  ultimately show ?thesis using c conform_references [of d ?c] by (simp add: google_conform_def)
qed

lemma conform_connections:
  assumes "\<And>x. connection_kept x (f x) \<and> gc_email (f x) = gc_email x"
  shows "google_conform d \<Longrightarrow> google_conform (d\<lparr>connections := map_if P f (connections d)\<rparr>)"
proof -
  let ?c = "map_if P f (connections d)"
  assume c: "google_conform d"
  have e: "gc_id (f x) = gc_id x" "gc_merchant (f x) = gc_merchant x" "gc_sub (f x) = gc_sub x" "connection_fits (f x) = connection_fits x" for x
    using assms [of x] by (simp_all add: connection_kept_def connection_fits_def)
  have "connections_conform (d\<lparr>connections := ?c\<rparr>)"
    using c by (simp add: google_conform_def connections_conform_def map_map_if all_map_if e)
  moreover have "connections_later d (d\<lparr>connections := ?c\<rparr>)" by (rule connections_later_map) (use assms in blast)
  ultimately show ?thesis using c conform_references [of d ?c] by (simp add: google_conform_def)
qed

lemma map_reference_kept:
  assumes "grown map_kept (google_maps d) g" "reviews_conform d"
  shows "reviews_conform (d\<lparr>google_maps := g\<rparr>)"
proof -
  have "map_of_merchant d m i \<Longrightarrow> map_of_merchant (d\<lparr>google_maps := g\<rparr>) m i" for m i
    by (rule map_of_merchant_later) (use assms(1) in simp_all)
  with assms(2) show ?thesis by (auto simp: reviews_conform_def list_all_iff)
qed

lemma conform_new_map:
  assumes "find_map d (gl_id g) = None" "map_fits g" "map_free d g" "location_of d (gl_merchant g) (gl_location g)"
    "connection_of d (gl_merchant g) (gl_connection g)"
  shows "google_conform d \<Longrightarrow> google_conform (d\<lparr>google_maps := google_maps d @ [g]\<rparr>)"
proof -
  assume c: "google_conform d"
  have n: "gl_id q \<noteq> gl_id g \<and> gl_location q \<noteq> gl_location g \<and> (gl_connection q, gl_google_id q) \<noteq> (gl_connection g, gl_google_id g)"
    if "q \<in> set (google_maps d)" for q
    using that assms(1,3) by (auto simp: first_None map_free_def list_ex_iff same_map_key_def)
  have "maps_conform (d\<lparr>google_maps := google_maps d @ [g]\<rparr>)"
    using c assms(2,4,5) n by (fastforce simp: google_conform_def maps_conform_def)
  with c show ?thesis using map_reference_kept [OF grown_add, of d "[g]"] by (simp add: google_conform_def)
qed

lemma distinct_replaced:
  assumes "distinct (map key (us @ q # vs))" "\<And>x. x \<in> set (us @ vs) \<Longrightarrow> key x \<noteq> key g"
  shows "distinct (map key (us @ g # vs))"
  using assms by (auto simp: image_iff) metis+

lemma conform_map:
  assumes "find_map d (gl_id g) = Some q" "gl_merchant q = gl_merchant g" "map_fits g" "map_free d g"
    "location_of d (gl_merchant g) (gl_location g)" "connection_of d (gl_merchant g) (gl_connection g)"
  shows "google_conform d \<Longrightarrow> google_conform (d\<lparr>google_maps := update_first (\<lambda>q. gl_id q = gl_id g) (\<lambda>_. g) (google_maps d)\<rparr>)"
proof -
  assume c: "google_conform d"
  from update_first_split [OF assms(1), of "\<lambda>_. g"] obtain us vs where s: "google_maps d = us @ q # vs" "gl_id q = gl_id g"
    "update_first (\<lambda>q. gl_id q = gl_id g) (\<lambda>_. g) (google_maps d) = us @ g # vs" by blast
  have keys: "distinct (map gl_id (us @ q # vs))" using c s(1) by (simp add: google_conform_def maps_conform_def)
  have n: "gl_id x \<noteq> gl_id g \<and> gl_location x \<noteq> gl_location g \<and> (gl_connection x, gl_google_id x) \<noteq> (gl_connection g, gl_google_id g)"
    if "x \<in> set (us @ vs)" for x
  proof -
    have "gl_id x \<noteq> gl_id q" using that keys by (auto simp: image_iff)
    then show ?thesis using that s(1,2) assms(4) by (auto simp: map_free_def list_ex_iff same_map_key_def)
  qed
  have "maps_conform (d\<lparr>google_maps := us @ g # vs\<rparr>)"
    using c s(1) assms(3,5,6) distinct_replaced [of gl_id us q vs g] distinct_replaced [of gl_location us q vs g]
      distinct_replaced [of "\<lambda>g. (gl_connection g, gl_google_id g)" us q vs g] n
    by (simp add: google_conform_def maps_conform_def del: map_append list.map distinct_append)
  moreover have "grown map_kept (google_maps d) (us @ g # vs)"
    using grown_update_first [of map_kept "\<lambda>q. gl_id q = gl_id g" "google_maps d" q "\<lambda>_. g"] assms(1,2) s by (simp add: map_kept_def)
  ultimately show ?thesis using c map_reference_kept [of d "us @ g # vs"] by (simp add: s(3) google_conform_def)
qed

lemma conform_figures:
  assumes "\<And>g. map_pointed_alike g (f g)"
  shows "google_conform d \<Longrightarrow> google_conform (d\<lparr>google_maps := map_if P f (google_maps d)\<rparr>)"
proof -
  assume c: "google_conform d"
  have e: "gl_id (f g) = gl_id g" "gl_location (f g) = gl_location g" "gl_merchant (f g) = gl_merchant g" "gl_connection (f g) = gl_connection g"
      "gl_google_id (f g) = gl_google_id g" "map_fits (f g) = map_fits g" for g
    using assms [of g] by (simp_all add: map_pointed_alike_def map_kept_def map_fits_def)
  have "maps_conform (d\<lparr>google_maps := map_if P f (google_maps d)\<rparr>)"
    using c by (simp add: google_conform_def maps_conform_def map_map_if all_map_if e)
  moreover have "grown map_kept (google_maps d) (map_if P f (google_maps d))" by (rule grown_map_if) (simp_all add: map_kept_def e)
  ultimately show ?thesis using c map_reference_kept by (simp add: google_conform_def)
qed

lemma conform_delete_reviews: "google_conform d \<Longrightarrow> google_conform (d\<lparr>reviews := filter P (reviews d)\<rparr>)"
  by (auto simp: google_conform_def reviews_conform_def distinct_filter_map list_all_iff)

text \<open>Upserting rows one after the other.\<close>

abbreviation review_key :: "google_review \<Rightarrow> uuid \<times> string" where
  "review_key r \<equiv> (gr_mapping r, gr_review r)"

definition insertable :: "google_review list \<Rightarrow> google_review \<Rightarrow> bool" where
  "insertable rows r \<longleftrightarrow> (\<forall>q\<in>set rows. gr_id q = gr_id r \<longrightarrow> review_key q = review_key r)"

lemma overwritten [simp]: "gr_id (overwrite_review r q) = gr_id q" "gr_mapping (overwrite_review r q) = gr_mapping q"
  "gr_review (overwrite_review r q) = gr_review q" "gr_merchant (overwrite_review r q) = gr_merchant q" "gr_rating (overwrite_review r q) = gr_rating r"
  "gr_name (overwrite_review r q) = gr_name r" "gr_text (overwrite_review r q) = gr_text r"
  by (simp_all add: overwrite_review_def)

lemma set_upsert: "x \<in> set (upsert_review r rows) \<Longrightarrow> x = r \<or> x \<in> set rows \<or> (\<exists>q\<in>set rows. same_review r q \<and> x = overwrite_review r q)"
proof (cases "first (same_review r) rows")
  case (Some q)
  then show "x \<in> set (upsert_review r rows) \<Longrightarrow> ?thesis"
    using update_first_split [OF Some, of "overwrite_review r"] by (auto simp: upsert_review_def)
qed (auto simp: upsert_review_def)

lemma keys_upsert:
  assumes "distinct (map gr_id rows)" "distinct (map review_key rows)" "insertable rows r"
  shows "distinct (map gr_id (upsert_review r rows)) \<and> distinct (map review_key (upsert_review r rows))"
proof (cases "first (same_review r) rows")
  case None
  then have n: "review_key q \<noteq> review_key r" if "q \<in> set rows" for q using that by (auto simp: first_None same_review_def)
  have "gr_id r \<notin> gr_id ` set rows" "review_key r \<notin> review_key ` set rows"
    using n assms(3) by (auto simp: insertable_def image_iff) metis+
  then show ?thesis using assms(1,2) None by (simp add: upsert_review_def)
next
  case (Some q)
  then show ?thesis
    using assms map_update_found [OF Some, where f = "overwrite_review r" and g = gr_id]
      map_update_found [OF Some, where f = "overwrite_review r" and g = review_key] by (simp add: upsert_review_def)
qed

lemma insertable_upsert:
  assumes "insertable rows x" "gr_id x \<noteq> gr_id r"
  shows "insertable (upsert_review r rows) x"
  unfolding insertable_def
proof (intro ballI impI)
  fix q
  assume "q \<in> set (upsert_review r rows)" "gr_id q = gr_id x"
  from set_upsert [OF this(1)] this(2) assms show "review_key q = review_key x" by (auto simp: insertable_def)
qed

lemma keys_fold_upsert:
  assumes "distinct (map gr_id rows)" "distinct (map review_key rows)" "distinct (map gr_id new)" "\<forall>r\<in>set new. insertable rows r"
  shows "distinct (map gr_id (fold upsert_review new rows)) \<and> distinct (map review_key (fold upsert_review new rows))"
  using assms
proof (induction new arbitrary: rows)
  case (Cons r new)
  have "\<forall>x\<in>set new. insertable (upsert_review r rows) x"
    using Cons.prems(3,4) insertable_upsert by (auto simp: image_iff)
  with Cons keys_upsert [OF Cons.prems(1,2), of r] show ?case by simp
qed simp

lemma all_fold_upsert:
  assumes "list_all Q rows" "list_all Q new" "\<And>r q. Q r \<Longrightarrow> Q q \<Longrightarrow> Q (overwrite_review r q)"
  shows "list_all Q (fold upsert_review new rows)"
  using assms(1,2)
proof (induction new arbitrary: rows)
  case (Cons r new)
  have "list_all Q (upsert_review r rows)"
    unfolding list_all_iff using set_upsert [of _ r rows] Cons.prems assms(3) by (auto simp: list_all_iff)
  with Cons show ?case by simp
qed simp

lemma conform_upsert:
  assumes "upsertable d m new"
  shows "google_conform d \<Longrightarrow> google_conform (d\<lparr>reviews := fold upsert_review new (reviews d)\<rparr>)"
proof -
  assume c: "google_conform d"
  have "\<forall>r\<in>set new. insertable (reviews d) r"
    using assms by (auto simp: upsertable_def list_all_iff list_ex_iff insertable_def same_review_def)
  then have k: "distinct (map gr_id (fold upsert_review new (reviews d))) \<and> distinct (map review_key (fold upsert_review new (reviews d)))"
    using c assms by (intro keys_fold_upsert) (simp_all add: google_conform_def reviews_conform_def upsertable_def)
  have "list_all (\<lambda>r. review_ok r \<and> review_fits r \<and> map_of_merchant d (gr_merchant r) (gr_mapping r)) (fold upsert_review new (reviews d))"
    by (rule all_fold_upsert) (use c assms in \<open>auto simp: google_conform_def reviews_conform_def upsertable_def list_all_iff review_ok_def review_fits_def\<close>)
  with k c show ?thesis by (simp add: google_conform_def reviews_conform_def)
qed

lemma conform_audit: "google_conform d \<Longrightarrow> google_conform (d\<lparr>g_audit := l\<rparr>)"
  by (simp add: google_conform_def)

subsection \<open>Rows of one merchant\<close>

definition google_rows_of :: "uuid \<Rightarrow> gdb \<Rightarrow> oauth_attempt list \<times> google_connection list \<times> google_location list \<times> google_review list \<times> audit_log list" where
  "google_rows_of m d = (filter (\<lambda>a. oa_merchant a = m) (attempts d), filter (\<lambda>c. gc_merchant c = m) (connections d),
     filter (\<lambda>g. gl_merchant g = m) (google_maps d), filter (\<lambda>r. gr_merchant r = m) (reviews d), filter (\<lambda>l. al_merchant l = Some m) (g_audit d))"

lemma filter_upsert:
  assumes "gr_merchant r \<noteq> m" "\<forall>q\<in>set rows. same_review r q \<longrightarrow> gr_merchant q \<noteq> m"
  shows "filter (\<lambda>r. gr_merchant r = m) (upsert_review r rows) = filter (\<lambda>r. gr_merchant r = m) rows"
proof (cases "first (same_review r) rows")
  case (Some q)
  then have "gr_merchant q \<noteq> m" using assms(2) first_SomeD [OF Some] by simp
  then show ?thesis using Some filter_update_first [OF Some, of "\<lambda>r. gr_merchant r = m" "overwrite_review r"] by (simp add: upsert_review_def)
qed (use assms(1) in \<open>simp add: upsert_review_def\<close>)

text \<open>A mapping has one merchant, so a review that is overwritten belongs to the merchant of the one that overwrites it.\<close>

lemma one_merchant:
  assumes "maps_conform d" "map_of_merchant d m i" "map_of_merchant d n i"
  shows "m = n"
proof -
  from assms(2,3) obtain g h where g: "g \<in> set (google_maps d)" "gl_id g = i" "gl_merchant g = m"
    and h: "h \<in> set (google_maps d)" "gl_id h = i" "gl_merchant h = n" by (auto simp: map_of_merchant_def list_ex_iff)
  from assms(1) have "inj_on gl_id (set (google_maps d))" by (simp add: maps_conform_def distinct_map)
  with g h have "g = h" by (auto dest: inj_onD)
  with g h show ?thesis by simp
qed

lemma filter_fold_upsert:
  assumes "google_conform d" "upsertable d n new" "n \<noteq> m"
  shows "filter (\<lambda>r. gr_merchant r = m) (fold upsert_review new (reviews d)) = filter (\<lambda>r. gr_merchant r = m) (reviews d)"
proof -
  have "filter (\<lambda>r. gr_merchant r = m) (fold upsert_review new rows) = filter (\<lambda>r. gr_merchant r = m) rows"
    if "\<forall>r\<in>set new. gr_merchant r = n \<and> map_of_merchant d n (gr_mapping r)" "\<forall>q\<in>set rows. map_of_merchant d (gr_merchant q) (gr_mapping q)" for rows
    using that
  proof (induction new arbitrary: rows)
    case (Cons r new)
    have "same_review r q \<longrightarrow> gr_merchant q \<noteq> m" if "q \<in> set rows" for q
      using that Cons.prems one_merchant [of d "gr_merchant q" "gr_mapping q" n] assms(1,3) by (auto simp: google_conform_def same_review_def)
    then have "filter (\<lambda>r. gr_merchant r = m) (upsert_review r rows) = filter (\<lambda>r. gr_merchant r = m) rows"
      by (intro filter_upsert) (use Cons.prems(1) assms(3) in auto)
    moreover have "\<forall>q\<in>set (upsert_review r rows). map_of_merchant d (gr_merchant q) (gr_mapping q)"
    proof
      fix q
      assume "q \<in> set (upsert_review r rows)"
      from set_upsert [OF this] Cons.prems show "map_of_merchant d (gr_merchant q) (gr_mapping q)" by auto
    qed
    ultimately show ?case using Cons by simp
  qed simp
  then show ?thesis using assms(1,2) by (simp add: upsertable_def google_conform_def reviews_conform_def list_all_iff)
qed

subsection \<open>Tables whose rows may go\<close>

text \<open>
  \<open>ys\<close> has, in their order, successors of some rows of \<open>xs\<close>, and after them new rows: rows may be deleted, none is ever
  put back or moved.
\<close>

definition evolved :: "('a \<Rightarrow> 'a \<Rightarrow> bool) \<Rightarrow> 'a list \<Rightarrow> 'a list \<Rightarrow> bool" where
  "evolved K xs ys \<longleftrightarrow> (\<exists>zs us vs. subseq zs xs \<and> list_all2 K zs us \<and> ys = us @ vs)"

lemma evolved_grown: "grown K xs ys \<Longrightarrow> evolved K xs ys"
  unfolding grown_def evolved_def by blast

lemma evolved_filter: "(\<And>x. K x x) \<Longrightarrow> evolved K xs (filter P xs)"
  unfolding evolved_def by (intro exI [of _ "filter P xs"] exI [of _ "[]"]) (simp add: list_all2_refl)

lemma subseq_related:
  assumes "list_all2 K zs us" "subseq ws us"
  shows "\<exists>ys. subseq ys zs \<and> list_all2 K ys ws"
  using assms
proof (induction arbitrary: ws rule: list_all2_induct)
  case (Cons z zs u us)
  show ?case
  proof (cases "\<exists>ws'. ws = u # ws' \<and> subseq ws' us")
    case True
    with Cons.IH obtain ws' ys where "ws = u # ws'" "subseq ys zs" "list_all2 K ys ws'" by blast
    with Cons.hyps show ?thesis by (intro exI [of _ "z # ys"]) auto
  next
    case False
    with Cons.prems have "subseq ws us" by (cases ws) (auto split: if_splits)
    with Cons.IH show ?thesis by (metis list_emb_Cons)
  qed
qed auto

lemma evolved_trans:
  assumes "evolved K xs ys" "evolved K ys zs" "\<And>x y z. K x y \<Longrightarrow> K y z \<Longrightarrow> K x z"
  shows "evolved K xs zs"
proof -
  from assms(1) obtain as us vs where 1: "subseq as xs" "list_all2 K as us" "ys = us @ vs" by (auto simp: evolved_def)
  from assms(2) obtain bs us' vs' where 2: "subseq bs ys" "list_all2 K bs us'" "zs = us' @ vs'" by (auto simp: evolved_def)
  from 2(1) 1(3) obtain b1 b2 where b: "bs = b1 @ b2" "subseq b1 us" by (auto simp: subseq_append_iff)
  from subseq_related [OF 1(2) b(2)] obtain a1 where a: "subseq a1 as" "list_all2 K a1 b1" by blast
  from 2(2) b(1) obtain u1 u2 where u: "us' = u1 @ u2" "list_all2 K b1 u1" by (auto simp: list_all2_append1)
  have "list_all2 K a1 u1" by (rule list_all2_trans [OF _ a(2) u(2)]) (rule assms(3))
  moreover have "subseq a1 xs" using a(1) 1(1) by (rule subseq_order.order_trans)
  ultimately show ?thesis unfolding evolved_def by (intro exI [of _ a1] exI [of _ u1] exI [of _ "u2 @ vs'"]) (simp add: 2(3) u(1))
qed

end
