(* ===== verification/GoogleSamples.thy ===== *)
theory GoogleSamples
  imports GoogleTables
begin

text \<open>
  A concrete deployment of the Google application, on which the theorems are applied: two merchants with a connection and
  a location each; \<open>m1\<close> has a mapped location with one review and an OAuth attempt whose code has not been exchanged.
  Google answers every kind of call.
\<close>

definition google_cfg :: google_settings where
  "google_cfg = \<lparr>g_enabled = True, g_client_id = ''c'', g_client_secret = ''s'', g_redirect_uri = ''r'', g_fernet_key = ''k'',
     g_grace = 900, g_retention = 86400, g_state_max_age = 600, g_refresh_margin = 300, g_sync_interval = 3600, g_jwks_uri = ''j''\<rparr>"

definition sample_connection :: "uuid \<Rightarrow> uuid \<Rightarrow> instant \<Rightarrow> google_connection" where
  "sample_connection i m expires = \<lparr>gc_id = i, gc_merchant = m, gc_sub = ''s'', gc_email = ''e'', gc_access = ''a'', gc_refresh = ''r'',
     gc_expires_at = expires, gc_status = ConnectionActive, gc_connected_at = Some 0, gc_updated_at = 0\<rparr>"

definition sample_attempt :: oauth_attempt where
  "sample_attempt = \<lparr>oa_id = ''a1'', oa_merchant = ''m1'', oa_user = ''u1'', oa_state_hash = ''s'', oa_nonce_hash = ''n'', oa_status = AttemptPending,
     oa_code = Some ''c'', oa_failure = None, oa_connection = None, oa_expires_at = seconds 1500, oa_completed_at = None, oa_updated_at = 0\<rparr>"

definition sample_map :: google_location where
  "sample_map = \<lparr>gl_id = ''g1'', gl_location = ''l1'', gl_merchant = ''m1'', gl_connection = ''c1'', gl_google_id = ''accounts/1/locations/1'',
     gl_place = Some ''p'', gl_link = ''h'', gl_rating = Some 40, gl_count = Some 1, gl_synced_at = Some 0, gl_updated_at = 0\<rparr>"

definition sample_review :: google_review where
  "sample_review = \<lparr>gr_id = ''r1'', gr_mapping = ''g1'', gr_merchant = ''m1'', gr_review = ''x'', gr_name = None, gr_rating = 4, gr_text = None,
     gr_created_at = 0, gr_fetched_at = 0, gr_updated_at = 0\<rparr>"

definition google_place :: "uuid \<Rightarrow> uuid \<Rightarrow> location" where
  "google_place i m = \<lparr>lo_id = i, lo_merchant = m, lo_name = ''C'', lo_address = None, lo_phone = None, lo_timezone = None,
     lo_active = True, lo_updated_at = 0\<rparr>"

definition google_db :: gdb where
  "google_db = \<lparr>g_merchants = [(''m1'', MActive), (''m2'', MActive)], g_members = [(''m1'', ''u1''), (''m2'', ''u2'')], g_assignments = [],
     g_locations = [google_place ''l1'' ''m1'', google_place ''l2'' ''m2''],
     connections = [sample_connection ''c1'' ''m1'' (seconds 9000), sample_connection ''c2'' ''m2'' (seconds 9000)],
     attempts = [sample_attempt], google_maps = [sample_map], reviews = [sample_review], g_audit = []\<rparr>"

definition id_header :: json where
  "id_header = JObj [(''alg'', JStr ''RS256''), (''kid'', JStr ''k'')]"

definition id_payload :: json where
  "id_payload = JObj [(''iss'', JStr ''accounts.google.com''), (''aud'', JStr ''c''), (''exp'', JInt 9000), (''sub'', JStr ''new''),
     (''email'', JStr ''n@x''), (''nonce'', JStr ''n'')]"

definition sample_loads :: "string \<Rightarrow> json option" where
  "sample_loads s = (if s = ''H'' then Some id_header else if s = ''P'' then Some id_payload else None)"

definition google_sample_lib :: google_lib where
  "google_sample_lib = \<lparr>g_py = \<lparr>loads = sample_loads, str_other = (\<lambda>_. ''?''),
       fromisoformat = (\<lambda>s. Some (True, seconds 5)), decode_utf8_sig = Some, dumps = (\<lambda>_. ''{}''), encrypt = (\<lambda>s. s), decrypt = Some,
       available_timezones = (\<lambda>_. True)\<rparr>,
     fernet_key_ok = (\<lambda>_. True), fernet_encrypt = (\<lambda>_ _ s. s), fernet_decrypt = (\<lambda>_ s. Some s), rsa_key_ok = (\<lambda>_. True), rsa_verify = (\<lambda>_ _ _. True),
     float_micros = (\<lambda>_ _. 0), ip_literal = (\<lambda>_. True)\<rparr>"

definition token_body :: json where
  "token_body = JObj [(''access_token'', JStr ''fresh''), (''refresh_token'', JStr ''again''), (''expires_in'', JInt 3600),
     (''scope'', JStr BUSINESS_SCOPE), (''id_token'', JStr ''SA.UA.Uw'')]"

definition keys_body :: json where
  "keys_body = JObj [(''keys'', JArr [JObj [(''kty'', JStr ''RSA''), (''use'', JStr ''sig''), (''alg'', JStr ''RS256''), (''kid'', JStr ''k''),
     (''n'', JStr ''AQ''), (''e'', JStr ''AQ'')]])]"

definition accounts_body :: json where
  "accounts_body = JObj [(''accounts'', JArr [JObj [(''name'', JStr ''accounts/1'')]])]"

definition locations_body :: json where
  "locations_body = JObj [(''locations'', JArr [JObj [(''name'', JStr ''locations/2''), (''title'', JStr ''Shop''),
     (''metadata'', JObj [(''placeId'', JStr ''p2''), (''newReviewUri'', JStr ''https://g/2'')])]])]"

definition reviews_body :: json where
  "reviews_body = JObj [(''reviews'', JArr [JObj [(''reviewId'', JStr ''x''), (''starRating'', JStr ''TWO''), (''createTime'', JStr ''t'')],
       JObj [(''reviewId'', JStr ''y''), (''starRating'', JStr ''FIVE''), (''createTime'', JStr ''t''), (''comment'', JStr ''good'')]]),
     (''totalReviewCount'', JInt 2)]"

text \<open>Google answers by what is asked.\<close>

definition google_answers :: "nat \<Rightarrow> google_request \<Rightarrow> google_reply" where
  "google_answers n rq = GoogleAnswer 200 None (Some (
     if gq_method rq = POST then token_body
     else if gq_url rq = ''j'' then keys_body
     else if take 20 (drop 18 (gq_url rq)) = ''accountmanagement.go'' then accounts_body
     else if take 20 (drop 18 (gq_url rq)) = ''businessinformation.'' then locations_body
     else reviews_body))"

definition google_idle :: "gdb \<Rightarrow> google_world" where
  "google_idle d = \<lparr>db = d, saves = [], ctx = no_vars, guc = no_vars, row_locked = False,
     clock = (\<lambda>n. seconds (1600 + int n)), ticks = 0, env = (\<lambda>_ d. d), env_n = 0, pending = [], queue = [],
     g_lib = google_sample_lib, g_cfg = google_cfg, g_http = google_answers, g_calls = [], g_broker_up = (\<lambda>_. True), g_broker_n = 0,
     g_mint = (\<lambda>n. ''id'' @ replicate n (CHR ''x'')), g_minted = 0, g_sealed = 0, g_mono = (\<lambda>n. seconds (int n)), g_mono_n = 0,
     jwks_keys = [], jwks_expires = 0\<rparr>"

lemma fresh_google_idle [simp]: "fresh_thread (google_idle d)" "quiet (google_idle d)" "db (google_idle d) = d" "alone (google_idle d)"
  by (simp_all add: fresh_thread_def quiet_def google_idle_def alone_def)

definition google_owner :: team_member where
  "google_owner = \<lparr>tm_id = ''t1'', tm_user = ''u1'', tm_role = OWNER\<rparr>"

text \<open>The owner asks for the attempt after it has expired.\<close>

definition late_poll :: google_entry where
  "late_poll = ShowAttempt ''m1'' google_owner ''a1''"

lemma run_late_poll:
  "let d = db (snd (run_google late_poll (google_idle google_db))) in map oa_status (attempts d) = [AttemptFailed] \<and> map oa_code (attempts d) = [None]"
  by code_simp

end
