(* ===== verification/GoogleProps.thy ===== *)
theory GoogleProps
  imports GoogleSamples
begin

text \<open>
  What holds along every history of the Google application, however its threads interleave: the tables satisfy their
  constraints, rows are lost only where the code deletes them, and merchants do not touch each other's rows.
\<close>

subsection \<open>Conforming tables\<close>

definition google_later :: "gdb \<Rightarrow> gdb \<Rightarrow> bool" where
  "google_later d d' \<longleftrightarrow> connections_later d d' \<and> grown map_kept (google_maps d) (google_maps d') \<and>
     evolved attempt_later (attempts d) (attempts d') \<and> grown (=) (g_audit d) (g_audit d')"

definition google_sound :: "gdb \<Rightarrow> gdb \<Rightarrow> bool" where
  "google_sound d d' \<longleftrightarrow> google_later d d' \<and> (google_conform d \<longrightarrow> google_conform d')"

lemma evolved_attempts [simp]: "evolved attempt_later as as" "evolved attempt_later as (as @ bs)" "evolved attempt_later as (filter P as)"
  "grown map_kept gs gs"
  by (simp_all add: evolved_grown grown_refl grown_add evolved_filter)

lemma google_later_trans: "google_later a b \<Longrightarrow> google_later b c \<Longrightarrow> google_later a c"
  unfolding google_later_def
  by (auto intro: connections_later_trans grown_trans map_kept_trans evolved_trans attempt_later_trans simp: grown_eq)

lemma map_kept_found:
  assumes "find_map d (gl_id g) = Some q" "gl_merchant q = gl_merchant g"
  shows "grown map_kept (google_maps d) (update_first (\<lambda>q. gl_id q = gl_id g) (\<lambda>_. g) (google_maps d))"
  by (rule grown_update_first [OF _ assms(1)]) (use assms first_SomeD [OF assms(1)] in \<open>simp_all add: map_kept_def\<close>)

lemmas later_simps = google_sound_def google_later_def connections_later_same grown_refl

interpretation sound: google_frame google_sound "\<lambda>_. True"
proof unfold_locales
  fix a b c assume "google_sound a b" "google_sound b c"
  then show "google_sound a c" unfolding google_sound_def using google_later_trans by blast
next
  fix c :: ctxvars and m x y i and d :: gdb
  assume f: "first (\<lambda>x. gc_merchant x = m \<and> gc_id x = i) (connections d) = Some x" and k: "connection_kept x y" "connection_fits y"
  show "google_sound d (d\<lparr>connections := update_first (\<lambda>x. gc_merchant x = m \<and> gc_id x = i) (\<lambda>_. y) (connections d)\<rparr>)"
    using conform_connection [OF f k] connections_later_update [OF f, where f = "\<lambda>_. y"] k(1) by (simp add: google_sound_def google_later_def grown_refl)
next
  fix c :: ctxvars and m P3 and f3 :: "google_connection \<Rightarrow> google_connection" and d :: gdb
  assume k: "\<And>x. connection_kept x (f3 x) \<and> gc_email (f3 x) = gc_email x"
  then show "google_sound d (d\<lparr>connections := map_if (\<lambda>x. gc_merchant x = m \<and> P3 x) f3 (connections d)\<rparr>)"
    by (simp add: google_sound_def google_later_def connections_later_map conform_connections grown_refl)
next
  fix c :: ctxvars and g q and d :: gdb
  assume "find_map d (gl_id g) = Some q" "gl_merchant q = gl_merchant g" "map_fits g" "map_free d g"
    "location_of d (gl_merchant g) (gl_location g)" "connection_of d (gl_merchant g) (gl_connection g)"
  then show "google_sound d (d\<lparr>google_maps := update_first (\<lambda>q. gl_id q = gl_id g) (\<lambda>_. g) (google_maps d)\<rparr>)"
    using conform_map [of g d q] map_kept_found [of g d q] by (simp add: google_sound_def google_later_def connections_later_same grown_refl)
next
  fix c :: ctxvars and m P4 and f4 :: "google_location \<Rightarrow> google_location" and d :: gdb
  assume k: "\<And>g. map_pointed_alike g (f4 g)"
  have "grown map_kept (google_maps d) (map_if (\<lambda>g. gl_merchant g = m \<and> P4 g) f4 (google_maps d))"
    by (rule grown_map_if) (use k in \<open>simp_all add: map_pointed_alike_def\<close>)
  then show "google_sound d (d\<lparr>google_maps := map_if (\<lambda>g. gl_merchant g = m \<and> P4 g) f4 (google_maps d)\<rparr>)"
    using conform_figures [of f4, OF k] by (simp add: google_sound_def google_later_def connections_later_same grown_refl)
next
  fix c :: ctxvars and m P1 and f1 :: "oauth_attempt \<Rightarrow> oauth_attempt" and d :: gdb
  assume k: "\<And>a. P1 a \<Longrightarrow> attempt_later a (f1 a)" "\<And>a. a \<in> set (attempts d) \<Longrightarrow> oa_merchant a = m \<Longrightarrow> P1 a \<Longrightarrow> attempt_ok (f1 a)"
    "\<And>a. P1 a \<Longrightarrow> oa_connection (f1 a) = oa_connection a \<or> (\<exists>i. oa_connection (f1 a) = Some i \<and> connection_of d m i)"
  have "evolved attempt_later (attempts d) (map_if (\<lambda>a. oa_merchant a = m \<and> P1 a) f1 (attempts d))"
    by (rule evolved_grown, rule grown_map_if) (use k(1) in simp_all)
  moreover have "google_conform d \<Longrightarrow> google_conform (d\<lparr>attempts := map_if (\<lambda>a. oa_merchant a = m \<and> P1 a) f1 (attempts d)\<rparr>)"
    by (rule conform_attempts [where P = P1 and f = f1 and m = m]) (use k in blast)+
  ultimately show "google_sound d (d\<lparr>attempts := map_if (\<lambda>a. oa_merchant a = m \<and> P1 a) f1 (attempts d)\<rparr>)"
    by (simp add: google_sound_def google_later_def connections_later_same grown_refl)
next
  fix c :: ctxvars and a and d :: gdb
  assume "oa_connection a = None" "attempt_ok a" "\<not> list_ex (\<lambda>q. oa_id q = oa_id a \<or> oa_state_hash q = oa_state_hash a) (attempts d)"
  from conform_new_attempt [OF this] show "google_sound d (d\<lparr>attempts := attempts d @ [a]\<rparr>)" by (simp add: later_simps)
next
  fix P2 m and d :: gdb
  show "google_sound d (d\<lparr>attempts := filter (\<lambda>a. \<not> (oa_merchant a = m \<and> P2 a)) (attempts d)\<rparr>)"
    using conform_purge [of d] by (simp add: later_simps)
next
  fix x and d :: gdb
  assume "connection_fits x" "find_connection d (gc_id x) = None" "\<not> list_ex (\<lambda>q. gc_merchant q = gc_merchant x \<and> gc_sub q = gc_sub x) (connections d)"
  from conform_new_connection [OF this] show "google_sound d (d\<lparr>connections := connections d @ [x]\<rparr>)" by (simp add: later_simps connections_later_add)
next
  fix g and d :: gdb
  assume "find_map d (gl_id g) = None" "map_fits g" "map_free d g" "location_of d (gl_merchant g) (gl_location g)"
    "connection_of d (gl_merchant g) (gl_connection g)"
  from conform_new_map [OF this] show "google_sound d (d\<lparr>google_maps := google_maps d @ [g]\<rparr>)" by (simp add: later_simps grown_add)
next
  fix m i and d :: gdb
  show "google_sound d (d\<lparr>reviews := filter (\<lambda>r. \<not> (gr_merchant r = m \<and> gr_mapping r = i)) (reviews d)\<rparr>)"
    using conform_delete_reviews [of d] by (simp add: later_simps)
next
  fix m rows and d :: gdb
  assume "upsertable d m rows"
  from conform_upsert [OF this] show "google_sound d (d\<lparr>reviews := fold upsert_review rows (reviews d)\<rparr>)" by (simp add: later_simps)
next
  fix l and d :: gdb
  show "google_sound d (d\<lparr>g_audit := g_audit d @ [l]\<rparr>)" using conform_audit [of d] by (simp add: later_simps grown_add)
qed (simp_all add: google_sound_def google_later_def grown_refl)

subsection \<open>Isolation\<close>

definition google_others :: "uuid \<Rightarrow> gdb \<Rightarrow> gdb \<Rightarrow> bool" where
  "google_others m d d' \<longleftrightarrow> google_sound d d' \<and> (google_conform d \<longrightarrow> google_rows_of m d' = google_rows_of m d)"

interpretation google_other: google_frame "google_others m" "\<lambda>c. merchant_var c \<noteq> Some m" for m
proof unfold_locales
  fix a b c assume "google_others m a b" "google_others m b c"
  then show "google_others m a c" unfolding google_others_def using sound.R_trans [of a b c] by (simp add: google_sound_def)
next
  fix c :: ctxvars and m' x y i and d :: gdb
  assume c: "merchant_var c \<noteq> Some m" "merchant_var c = Some m'"
    and f: "first (\<lambda>x. gc_merchant x = m' \<and> gc_id x = i) (connections d) = Some x" and k: "connection_kept x y" "connection_fits y"
  have "filter (\<lambda>c. gc_merchant c = m) (update_first (\<lambda>x. gc_merchant x = m' \<and> gc_id x = i) (\<lambda>_. y) (connections d)) =
      filter (\<lambda>c. gc_merchant c = m) (connections d)"
    by (rule filter_update_first [OF f]) (use c k(1) first_SomeD [OF f] in \<open>auto simp: connection_kept_def\<close>)
  with sound.R_connection [OF TrueI c(2) f k]
  show "google_others m d (d\<lparr>connections := update_first (\<lambda>x. gc_merchant x = m' \<and> gc_id x = i) (\<lambda>_. y) (connections d)\<rparr>)"
    by (simp add: google_others_def google_rows_of_def)
next
  fix c :: ctxvars and m' P3 and f3 :: "google_connection \<Rightarrow> google_connection" and d :: gdb
  assume c: "merchant_var c \<noteq> Some m" "merchant_var c = Some m'" and k: "\<And>x. connection_kept x (f3 x) \<and> gc_email (f3 x) = gc_email x"
  have "filter (\<lambda>c. gc_merchant c = m) (map_if (\<lambda>x. gc_merchant x = m' \<and> P3 x) f3 (connections d)) = filter (\<lambda>c. gc_merchant c = m) (connections d)"
    by (rule filter_map_if) (use c k in \<open>auto simp: connection_kept_def\<close>)
  with sound.R_connections [OF TrueI c(2) k] show "google_others m d (d\<lparr>connections := map_if (\<lambda>x. gc_merchant x = m' \<and> P3 x) f3 (connections d)\<rparr>)"
    by (simp add: google_others_def google_rows_of_def)
next
  fix c :: ctxvars and g q and d :: gdb
  assume c: "merchant_var c \<noteq> Some m" "merchant_var c = Some (gl_merchant g)" and f: "find_map d (gl_id g) = Some q" "gl_merchant q = gl_merchant g"
    and o: "map_fits g" "map_free d g" "location_of d (gl_merchant g) (gl_location g)" "connection_of d (gl_merchant g) (gl_connection g)"
  have "filter (\<lambda>g. gl_merchant g = m) (update_first (\<lambda>q. gl_id q = gl_id g) (\<lambda>_. g) (google_maps d)) = filter (\<lambda>g. gl_merchant g = m) (google_maps d)"
    by (rule filter_update_first [OF f(1)]) (use c f in simp_all)
  with sound.R_map [OF TrueI c(2) f o] show "google_others m d (d\<lparr>google_maps := update_first (\<lambda>q. gl_id q = gl_id g) (\<lambda>_. g) (google_maps d)\<rparr>)"
    by (simp add: google_others_def google_rows_of_def)
next
  fix c :: ctxvars and m' P4 and f4 :: "google_location \<Rightarrow> google_location" and d :: gdb
  assume c: "merchant_var c \<noteq> Some m" "merchant_var c = Some m'" and k: "\<And>g. map_pointed_alike g (f4 g)"
  have "filter (\<lambda>g. gl_merchant g = m) (map_if (\<lambda>g. gl_merchant g = m' \<and> P4 g) f4 (google_maps d)) = filter (\<lambda>g. gl_merchant g = m) (google_maps d)"
    by (rule filter_map_if) (use c k in \<open>auto simp: map_pointed_alike_def map_kept_def\<close>)
  with sound.R_figures [OF TrueI c(2) k] show "google_others m d (d\<lparr>google_maps := map_if (\<lambda>g. gl_merchant g = m' \<and> P4 g) f4 (google_maps d)\<rparr>)"
    by (simp add: google_others_def google_rows_of_def)
next
  fix c :: ctxvars and m' P1 and f1 :: "oauth_attempt \<Rightarrow> oauth_attempt" and d :: gdb
  assume c: "merchant_var c \<noteq> Some m" "merchant_var c = Some m'"
    and k: "\<And>a. P1 a \<Longrightarrow> attempt_later a (f1 a)" "\<And>a. a \<in> set (attempts d) \<Longrightarrow> oa_merchant a = m' \<Longrightarrow> P1 a \<Longrightarrow> attempt_ok (f1 a)"
      "\<And>a. P1 a \<Longrightarrow> oa_connection (f1 a) = oa_connection a \<or> (\<exists>i. oa_connection (f1 a) = Some i \<and> connection_of d m' i)"
  have "filter (\<lambda>a. oa_merchant a = m) (map_if (\<lambda>a. oa_merchant a = m' \<and> P1 a) f1 (attempts d)) = filter (\<lambda>a. oa_merchant a = m) (attempts d)"
    by (rule filter_map_if, elim conjE, frule k(1)) (use c in \<open>auto simp: attempt_later_def attempt_kept_def\<close>)
  moreover have "google_sound d (d\<lparr>attempts := map_if (\<lambda>a. oa_merchant a = m' \<and> P1 a) f1 (attempts d)\<rparr>)"
    by (rule sound.R_attempts [OF TrueI c(2)]; fact k)
  ultimately show "google_others m d (d\<lparr>attempts := map_if (\<lambda>a. oa_merchant a = m' \<and> P1 a) f1 (attempts d)\<rparr>)"
    by (simp add: google_others_def google_rows_of_def)
next
  fix c :: ctxvars and m' rows and d :: gdb
  assume c: "merchant_var c \<noteq> Some m" "merchant_var c = Some m'" and u: "upsertable d m' rows"
  with sound.R_upsert [OF TrueI c(2) u] filter_fold_upsert [OF _ u, of m] show "google_others m d (d\<lparr>reviews := fold upsert_review rows (reviews d)\<rparr>)"
    by (auto simp: google_others_def google_rows_of_def)
next
  fix c :: ctxvars and m' P2 and d :: gdb
  assume c: "merchant_var c \<noteq> Some m" "merchant_var c = Some m'" and t: "\<And>a. P2 a \<Longrightarrow> terminal a"
  have "filter (\<lambda>a. oa_merchant a = m) (filter (\<lambda>a. \<not> (oa_merchant a = m' \<and> P2 a)) (attempts d)) = filter (\<lambda>a. oa_merchant a = m) (attempts d)"
    unfolding filter_filter by (rule filter_cong [OF refl]) (use c in auto)
  with sound.R_purge [OF TrueI c(2), of P2 d] t show "google_others m d (d\<lparr>attempts := filter (\<lambda>a. \<not> (oa_merchant a = m' \<and> P2 a)) (attempts d)\<rparr>)"
    by (simp add: google_others_def google_rows_of_def)
next
  fix c :: ctxvars and m' i and d :: gdb
  assume c: "merchant_var c \<noteq> Some m" "merchant_var c = Some m'"
  have "filter (\<lambda>r. gr_merchant r = m) (filter (\<lambda>r. \<not> (gr_merchant r = m' \<and> gr_mapping r = i)) (reviews d)) = filter (\<lambda>r. gr_merchant r = m) (reviews d)"
    unfolding filter_filter by (rule filter_cong [OF refl]) (use c in auto)
  with sound.R_delete_reviews [OF TrueI c(2), of d i] show "google_others m d (d\<lparr>reviews := filter (\<lambda>r. \<not> (gr_merchant r = m' \<and> gr_mapping r = i)) (reviews d)\<rparr>)"
    by (simp add: google_others_def google_rows_of_def)
next
  fix c :: ctxvars and a and d :: gdb
  assume c: "merchant_var c \<noteq> Some m" "merchant_var c = Some (oa_merchant a)" and a: "oa_status a = AttemptIssued" "oa_connection a = None" "attempt_ok a"
    "\<not> list_ex (\<lambda>q. oa_id q = oa_id a \<or> oa_state_hash q = oa_state_hash a) (attempts d)"
  from sound.R_new_attempt [OF TrueI c(2) a] c show "google_others m d (d\<lparr>attempts := attempts d @ [a]\<rparr>)"
    by (simp add: google_others_def google_rows_of_def)
next
  fix c :: ctxvars and x and d :: gdb
  assume c: "merchant_var c \<noteq> Some m" "merchant_var c = Some (gc_merchant x)" and x: "connection_fits x" "find_connection d (gc_id x) = None"
    "\<not> list_ex (\<lambda>q. gc_merchant q = gc_merchant x \<and> gc_sub q = gc_sub x) (connections d)"
  from sound.R_new_connection [OF TrueI c(2) x] c show "google_others m d (d\<lparr>connections := connections d @ [x]\<rparr>)"
    by (simp add: google_others_def google_rows_of_def)
next
  fix c :: ctxvars and g and d :: gdb
  assume c: "merchant_var c \<noteq> Some m" "merchant_var c = Some (gl_merchant g)" and g: "find_map d (gl_id g) = None" "map_fits g" "map_free d g"
    "location_of d (gl_merchant g) (gl_location g)" "connection_of d (gl_merchant g) (gl_connection g)"
  from sound.R_new_map [OF TrueI c(2) g] c show "google_others m d (d\<lparr>google_maps := google_maps d @ [g]\<rparr>)"
    by (simp add: google_others_def google_rows_of_def)
next
  fix c :: ctxvars and l :: audit_log and d :: gdb
  assume c: "merchant_var c \<noteq> Some m" "al_merchant l = merchant_var c"
  from sound.R_new_audit [OF TrueI c(2)] c show "google_others m d (d\<lparr>g_audit := g_audit d @ [l]\<rparr>)"
    by (simp add: google_others_def google_rows_of_def)
next
  fix a b assume "google_others m a b"
  then show "connections_later a b" "grown map_kept (google_maps a) (google_maps b)" by (simp_all add: google_others_def google_sound_def google_later_def)
qed (simp add: google_others_def sound.R_refl)

subsection \<open>The properties\<close>

abbreviation google_history :: "(google_entry \<Rightarrow> bool) \<Rightarrow> gdb \<Rightarrow> gdb \<Rightarrow> bool" where
  "google_history \<equiv> history run_google"

lemma google_sample:
  "\<exists>d'. google_history (\<lambda>x. x = e) google_db d' \<and> d' = db (snd (run_google e (google_idle google_db)))"
proof -
  let ?w = "google_idle google_db"
  obtain r w' where run: "run_google e ?w = (r, w')" by fastforce
  have "google_history (\<lambda>x. x = e) (db ?w) (db w')"
    by (rule history_alone [where run = run_google and entry = e and w = ?w and r = r]) (simp_all add: run)
  then show ?thesis by (simp add: run)
qed

lemma sample_conform: "google_conform google_db"
  unfolding google_conform_def
proof (intro conjI)
  show "attempts_conform google_db" by (simp add: attempts_conform_def google_db_def sample_attempt_def attempt_ok_def)
  show "connections_conform google_db" by code_simp
  show "maps_conform google_db" by code_simp
  show "reviews_conform google_db" by code_simp
qed

text \<open>
  C34: Along every history of connects, exchanges, refreshes, mappings and synchronisations, however they interleave, the tables keep
  their constraints: an attempt holds a code only while it is pending, has a failure code exactly when it failed and a connection when
  it completed; a Google account is connected once per merchant; a location is mapped once and a Google location once per connection; a review has
  one to five stars and is stored once per mapping; and attempts, mappings and reviews only point to rows of their own merchant.
\<close>

theorem google_tables_sound:
  assumes "google_history A d d'" "google_conform d"
  shows "google_conform d'"
  using sound.history_respects [OF assms(1)] sound.frames_google_entry assms(2) by (auto simp: google_sound_def)

theorem google_tables_sound_witness:
  "\<exists>d'. google_conform d' \<and> map oa_status (attempts d') = [AttemptFailed]"
proof -
  obtain d' where d': "google_history (\<lambda>x. x = late_poll) google_db d'" "d' = db (snd (run_google late_poll (google_idle google_db)))"
    using google_sample by blast
  from google_tables_sound [OF d'(1) sample_conform] d'(2) run_late_poll show ?thesis by (auto simp: Let_def)
qed



text \<open>
  Requests and tasks of other merchants never change an attempt, a connection, a mapping, a review or an audit row of merchant \<open>m\<close>.
\<close>

theorem google_isolation:
  assumes "google_history (\<lambda>e. \<exists>m'. google_merchant_of e = Some m' \<and> m' \<noteq> m) d d'" "google_conform d"
  shows "google_rows_of m d' = google_rows_of m d"
proof -
  have "google_others m d d'"
  proof (rule google_other.history_respects [OF assms(1)])
    fix e assume "\<exists>m'. google_merchant_of e = Some m' \<and> m' \<noteq> m"
    then obtain m' where e: "google_merchant_of e = Some m'" "m' \<noteq> m" by blast
    show "frames (google_others m) (\<lambda>_. True) (run_google e)"
      by (rule google_other.frames_merchant_google [OF e(1)]) (simp add: e(2))
  qed
  with assms(2) show ?thesis by (simp add: google_others_def)
qed

end
