(* ===== verification/GoogleSpecs.thy ===== *)
theory GoogleSpecs
  imports GoogleSamples
begin

text \<open>
  What single operations of the Google application do while others commit: what a refresh and a synchronisation may write,
  that the page loop ends, and that no attempt stays open.
\<close>

subsection \<open>Threads that are interfered with\<close>

definition commits :: "(nat \<Rightarrow> gdb \<Rightarrow> gdb) \<Rightarrow> gdb \<Rightarrow> gdb \<Rightarrow> bool" where
  "commits e d d' \<longleftrightarrow> (\<exists>n. d' = e n d)"

abbreviation reached :: "google_world \<Rightarrow> gdb \<Rightarrow> gdb \<Rightarrow> bool" where
  "reached w \<equiv> (commits (env w))\<^sup>*\<^sup>*"

context google_reads
begin

lemma frames_ask_refresh: "frames R H (ask_refresh s)"
  unfolding ask_refresh_def by (intro frame_intros) (auto split: exn.splits google_error.splits intro: frames_ret)

end

interpretation reaching: google_reads "(commits e)\<^sup>*\<^sup>*" for e
  by unfold_locales simp_all

lemma rely_commits: "(\<And>d d'. commits (env w) d d' \<Longrightarrow> R d d') \<Longrightarrow> rely R w"
  by (auto simp: rely_def commits_def)

lemma rely_reached: "rely (reached w) w"
  by (rule rely_commits) (rule r_into_rtranclp)

text \<open>The world in which the body of an outermost tenant transaction starts.\<close>

definition begun :: "uuid \<Rightarrow> google_world \<Rightarrow> google_world" where
  "begun m w = (let d = env w (env_n w) (db w) in
     w\<lparr>db := d, env_n := Suc (env_n w), saves := [d], guc := (guc w)\<lparr>merchant_var := Some m\<rparr>\<rparr>)"

lemma begun_fields [simp]:
  "ctx (begun m w) = ctx w" "env (begun m w) = env w" "saves (begun m w) = [db (begun m w)]" "g_calls (begun m w) = g_calls w"
  "g_http (begun m w) = g_http w" "clock (begun m w) = clock w" "ticks (begun m w) = ticks w" "quiet (begun m w) = quiet w"
  "merchant_var (guc (begun m w)) = Some m"
  by (simp_all add: begun_def Let_def quiet_def)

lemma reached_begun: "reached w (db w) (db (begun m w))"
  by (rule r_into_rtranclp) (auto simp: begun_def Let_def commits_def)

lemma begun_quiet: "quiet w \<Longrightarrow> db (begun m w) = db w"
  by (simp add: begun_def Let_def quiet_def)

lemma run_begun:
  assumes "saves w = []" "merchant_var (ctx w) = Some m"
  shows "tenant_atomic durable p w = (case p (begun m w) of
     (Inr a, w') \<Rightarrow> (Inr a, commit_block w w') | (Inl e, w') \<Rightarrow> (Inl e, rollback_block w w'))"
proof -
  have b: "seqM (set_local merchant_var_update m) p (begin_block w) = p (begun m w)"
    using assms(1) by (simp add: run_seq set_local_def begin_block_def interfere_def begun_def Let_def)
  show ?thesis using assms by (simp add: tenant_atomic_def durable_atomic_def atomic_def b)
qed

text \<open>A transaction that only reads.\<close>

lemma run_read:
  assumes "tenant_atomic durable (in_tenant f) w = (r, w')" "saves w = []" "merchant_var (ctx w) = Some m"
  shows "r = Inr (f m (db w')) \<and> reached w (db w) (db w') \<and> saves w' = [] \<and> ctx w' = ctx w \<and> env w' = env w \<and> g_calls w' = g_calls w \<and> g_http w' = g_http w"
  using assms(1) reached_begun [of w m] by (auto simp: run_begun [OF assms(2,3)] in_tenant_def assms(2,3) commit_block_def)

subsection \<open>Token refresh\<close>

lemma run_update_connections:
  assumes "tenant_atomic False (update_connections P f) w = (r, w')" "saves w = []" "merchant_var (ctx w) = Some m"
  shows "\<exists>d. reached w (db w) d \<and> db w' = d\<lparr>connections := map_if (\<lambda>c. gc_merchant c = m \<and> P c) f (connections d)\<rparr> \<and>
     g_calls w' = g_calls w \<and> g_http w' = g_http w"
proof -
  let ?d = "env w (env_n (begun m w)) (db (begun m w))"
  have "reached w (db w) ?d"
    using reached_begun [of w m] by (rule rtranclp.rtrancl_into_rtrancl) (auto simp: commits_def)
  then show ?thesis
    using assms(1) by (auto simp: run_begun [OF assms(2,3)] update_connections_def wait_def run_bind run_seq in_tenant_def interfere_def Let_def assms(2,3)
        commit_block_def intro!: exI [of _ ?d])
qed

text \<open>Google has answered the call of this step with a revocation.\<close>

definition revocation_answered :: "google_world \<Rightarrow> google_world \<Rightarrow> bool" where
  "revocation_answered w w' \<longleftrightarrow> (\<exists>rq cache body e. g_calls w' = g_calls w @ [rq] \<and> gq_url rq = TOKEN_URL \<and>
     g_http w (length (g_calls w)) rq = GoogleAnswer 400 cache body \<and> error_code body = Some e \<and> e \<in> set REVOKED_ERRORS)"

lemma google_call_run:
  assumes "google_call rq w = (r, w')"
  shows "g_http w' = g_http w \<and> (r = Inl (App GoogleTransientError) \<or> (\<exists>s c b. r = Inr (s, c, b) \<and> g_calls w' = g_calls w @ [rq] \<and>
     g_http w (length (g_calls w)) rq = GoogleAnswer s c b))"
  using assms by (auto simp: google_call_def google_urlopen_def run_bind Let_def interfere_def split: google_reply.splits if_splits)

lemma token_request_run:
  assumes "token_request form w = (r, w')"
  shows "g_http w' = g_http w \<and> (r = Inl (App GoogleTransientError) \<or> (\<exists>rq s c b. r = Inr (s, b) \<and> g_calls w' = g_calls w @ [rq] \<and>
     gq_url rq = TOKEN_URL \<and> gq_form rq = Some form \<and> g_http w (length (g_calls w)) rq = GoogleAnswer s c b))"
proof -
  let ?rq = "\<lparr>gq_method = POST, gq_url = TOKEN_URL, gq_form = Some form, gq_token = None\<rparr>"
  obtain r1 w1 where c: "google_call ?rq w = (r1, w1)" by fastforce
  from google_call_run [OF c] assms c show ?thesis
    by (auto simp: token_request_def run_bind intro!: exI [of _ ?rq])
qed

lemma usable_token_run: "usable_token body w = (r, w') \<Longrightarrow> g_calls w' = g_calls w \<and> g_http w' = g_http w \<and> (\<forall>e. r \<noteq> Inl (App (GoogleAuthRevoked e)))"
  by (auto simp: usable_token_def run_bind run_now Let_def split: option.splits if_splits)

lemma ask_refresh_run:
  assumes "ask_refresh s w = (Inr answer, w')"
  shows "g_http w' = g_http w \<and> (answer = None \<longrightarrow> revocation_answered w w')"
proof -
  let ?form = "refresh_form (g_cfg w) s"
  obtain r1 w1 where c: "token_request ?form w = (r1, w1)" by fastforce
  note t = token_request_run [OF c]
  obtain r2 w2 where f: "refresh_tokens s w = (r2, w2)" by fastforce
  have tokens: "g_http w2 = g_http w \<and> (\<forall>e. r2 = Inl (App (GoogleAuthRevoked e)) \<longrightarrow> revocation_answered w w2)"
  proof (cases r1)
    case (Inl e)
    with t f c show ?thesis by (auto simp: refresh_tokens_def run_bind)
  next
    case (Inr x)
    obtain status raw where x: "x = (status, raw)" by fastforce
    with t Inr obtain rq cache where q: "g_calls w1 = g_calls w @ [rq]" "gq_url rq = TOKEN_URL" "g_http w (length (g_calls w)) rq = GoogleAnswer status cache raw" by auto
    show ?thesis
    proof (cases "status = 200")
      case False
      with f c Inr x have "r2 = Inl (refresh_error status raw)" "w2 = w1" by (auto simp: refresh_tokens_def run_bind)
      with q t show ?thesis
        by (auto simp: revocation_answered_def refresh_error_def status_error_def split: option.splits if_splits)
    next
      case True
      obtain r3 w3 where u: "\<And>body. json_dict raw = Inr body \<Longrightarrow> usable_token body w1 = (r3, w3)"
        by (cases "json_dict raw") (auto, metis surj_pair)
      show ?thesis
        using True f c Inr x t u usable_token_run [OF u]
        by (cases "json_dict raw") (auto simp: refresh_tokens_def run_bind liftE_def json_dict_def split: option.splits if_splits sum.splits prod.splits)
    qed
  qed
  with assms f show ?thesis
    by (cases r2) (auto simp: ask_refresh_def catchM_def run_bind split: exn.splits google_error.splits)
qed

lemma calm_catch_decrypt:
  "catchM (bindM (decrypt_text s) (\<lambda>s. ret (Some s))) (\<lambda>e. if e = App FernetInvalidToken then Some (ret None) else None) w = (r, w') \<Longrightarrow> w' = w"
  by (auto simp: catchM_def run_bind decrypt_text_def fernet_def Let_def split: if_splits option.splits)

lemma encrypt_text_run: "encrypt_text s w = (r, w') \<Longrightarrow> db w' = db w \<and> saves w' = saves w \<and> ctx w' = ctx w \<and> env w' = env w"
  by (auto simp: encrypt_text_def run_bind fernet_def Let_def split: if_splits)

lemma encrypt_option_run:
  "(case s of None \<Rightarrow> ret None | Some r \<Rightarrow> bindM (encrypt_text r) (\<lambda>x. ret (Some x))) w = (r, w') \<Longrightarrow>
     db w' = db w \<and> saves w' = saves w \<and> ctx w' = ctx w \<and> env w' = env w"
  by (auto simp: run_bind split: option.splits prod.splits sum.splits dest!: encrypt_text_run)

text \<open>What a refresh that has read the token \<open>seen\<close> may do to the rows it still matches.\<close>

definition swapped :: "string \<Rightarrow> uuid \<Rightarrow> uuid \<Rightarrow> (google_connection \<Rightarrow> google_connection) \<Rightarrow> gdb \<Rightarrow> gdb" where
  "swapped seen m i f d = d\<lparr>connections := map_if (\<lambda>x. gc_merchant x = m \<and> still_seen i seen x) f (connections d)\<rparr>"

lemma store_refreshed_run:
  assumes "store_refreshed i seen tokens w = (r, w')" "saves w = []" "merchant_var (ctx w) = Some m"
  shows "reached w (db w) (db w') \<or> (\<exists>d a rt t. reached w (db w) d \<and> db w' = swapped seen m i (refreshed a rt (ts_expires_at tokens) t) d)"
proof -
  let ?w1 = "tick w"
  let ?opt = "case ts_refresh tokens of None \<Rightarrow> ret None | Some r \<Rightarrow> bindM (encrypt_text r) (\<lambda>x. ret (Some x))"
  obtain r2 w2 where e: "encrypt_text (ts_access tokens) ?w1 = (r2, w2)" by fastforce
  note e' = encrypt_text_run [OF e]
  obtain r3 w3 where o: "?opt w2 = (r3, w3)" by fastforce
  note o' = encrypt_option_run [OF o]
  show ?thesis
  proof (cases "\<exists>a rt. r2 = Inr a \<and> r3 = Inr rt")
    case False
    with assms(1) e o e' o' have "db w' = db w" by (cases r2; cases r3) (auto simp: store_refreshed_def run_bind run_now)
    then show ?thesis by simp
  next
    case True
    then obtain a rt where a: "r2 = Inr a" "r3 = Inr rt" by blast
    let ?f = "refreshed a rt (ts_expires_at tokens) (clock w (ticks w))"
    obtain r4 w4 where t: "tenant_atomic False (update_connections (still_seen i seen) ?f) w3 = (r4, w4)" by fastforce
    have "db w' = db w4" using assms(1) e o a t by (cases r4) (simp_all add: store_refreshed_def run_bind run_now)
    moreover have "saves w3 = []" "merchant_var (ctx w3) = Some m" using assms(2,3) e' o' by simp_all
    ultimately show ?thesis using run_update_connections [OF t] e' o' by (auto simp: swapped_def)
  qed
qed

lemma mark_needs_reauth_run:
  assumes "mark_needs_reauth i seen w = (r, w')" "saves w = []" "merchant_var (ctx w) = Some m"
  shows "\<exists>d t. reached w (db w) d \<and> db w' = swapped seen m i (\<lambda>x. x\<lparr>gc_status := NeedsReauth, gc_updated_at := t\<rparr>) d \<and>
     g_calls w' = g_calls w"
proof -
  let ?f = "\<lambda>x. x\<lparr>gc_status := NeedsReauth, gc_updated_at := clock w (ticks w)\<rparr>"
  obtain r4 w4 where t: "tenant_atomic False (update_connections (still_seen i seen) ?f) (tick w) = (r4, w4)" by fastforce
  have "w' = w4" using assms(1) t by (cases r4) (simp_all add: mark_needs_reauth_def run_bind run_now)
  with run_update_connections [OF t] assms(2,3) show ?thesis by (auto simp: swapped_def)
qed

text \<open>The second half of a refresh, after the connection has been read and found due.\<close>

definition swap_allowed :: "google_world \<Rightarrow> google_world \<Rightarrow> (google_connection \<Rightarrow> google_connection) \<Rightarrow> bool" where
  "swap_allowed w w' f \<longleftrightarrow> (\<exists>a rt e t. f = refreshed a rt e t) \<or>
     revocation_answered w w' \<and> (\<exists>t. f = (\<lambda>x. x\<lparr>gc_status := NeedsReauth, gc_updated_at := t\<rparr>))"

lemma refresh_now_run:
  assumes "refresh_now i seen w = (r, w')" "saves w = []" "merchant_var (ctx w) = Some m"
  shows "reached w (db w) (db w') \<or> (\<exists>d f. reached w (db w) d \<and> db w' = swapped seen m i f d \<and> swap_allowed w w' f)"
proof -
  obtain r3 w3 where d3: "catchM (bindM (decrypt_text seen) (\<lambda>s. ret (Some s)))
      (\<lambda>e. if e = App FernetInvalidToken then Some (ret None) else None) w = (r3, w3)" by fastforce
  have w3: "w3 = w" by (rule calm_catch_decrypt [OF d3])
  show ?thesis
  proof (cases "\<exists>s. r3 = Inr (Some s)")
    case False
    with assms(1) d3 w3 have "db w' = db w" by (cases r3) (auto simp: refresh_now_def run_bind split: option.splits)
    then show ?thesis by simp
  next
    case True
    then obtain s where s: "r3 = Inr (Some s)" by blast
    obtain r4 w4 where a: "ask_refresh s w = (r4, w4)" by fastforce
    note f = framesD [OF reaching.frames_ask_refresh TrueI rely_reached a]
    have w4: "reached w (db w) (db w4)" "saves w4 = []" "merchant_var (ctx w4) = Some m" "env w4 = env w"
      using f assms(2,3) by simp_all
    consider (gone) "w' = w4" | (revoked) r5 where "r4 = Inr None" "mark_needs_reauth i seen w4 = (r5, w')"
      | (answered) tokens where "r4 = Inr (Some tokens)" "store_refreshed i seen tokens w4 = (r, w')"
      using assms(1) d3 w3 s a
      by (cases r4) (auto simp: refresh_now_def run_bind split: option.splits prod.splits sum.splits)
    then show ?thesis
    proof cases
      case gone
      with w4(1) show ?thesis by simp
    next
      case revoked
      from mark_needs_reauth_run [OF revoked(2) w4(2,3)] obtain d t where d: "reached w4 (db w4) d" "g_calls w' = g_calls w4"
        "db w' = swapped seen m i (\<lambda>x. x\<lparr>gc_status := NeedsReauth, gc_updated_at := t\<rparr>) d" by blast
      have "revocation_answered w w'" using ask_refresh_run [OF a [unfolded revoked(1)]] d(2) by (simp add: revocation_answered_def)
      then have "swap_allowed w w' (\<lambda>x. x\<lparr>gc_status := NeedsReauth, gc_updated_at := t\<rparr>)" unfolding swap_allowed_def by blast
      moreover have "reached w (db w) d" using w4(1,4) d(1) by simp
      ultimately show ?thesis using d(3) by blast
    next
      case answered
      from store_refreshed_run [OF answered(2) w4(2,3)] w4(1,4) show ?thesis
        by (auto simp: swap_allowed_def) (metis rtranclp_trans)+
    qed
  qed
qed

text \<open>
  C37: A refresh never overwrites what others have done meanwhile. Whatever is committed while Google is asked, a run of
  \<open>refresh_connection\<close> writes at most once, and only to a row that is still active and still holds the refresh token that was read and sent: it
  stores the new tokens, or it asks for a new authorization, and the latter only when Google has answered the refresh with status 400 and one of
  the two error codes that mean a revocation.
\<close>

theorem refresh_compare_and_set:
  assumes "refresh_connection i w = (r, w')" "saves w = []" "merchant_var (ctx w) = Some m"
  shows "reached w (db w) (db w') \<or> (\<exists>d0 c d f. reached w (db w) d0 \<and> first (\<lambda>c. gc_merchant c = m \<and> gc_id c = i) (connections d0) = Some c \<and>
     gc_status c = ConnectionActive \<and> reached w d0 d \<and> db w' = swapped (gc_refresh c) m i f d \<and> swap_allowed w w' f)"
proof -
  obtain r1 w1 where read: "tenant_atomic False (g_first gc_merchant connections (\<lambda>c. gc_id c = i)) w = (r1, w1)" by fastforce
  note q = run_read [OF read [unfolded g_first_def] assms(2,3)]
  let ?c = "first (\<lambda>c. gc_merchant c = m \<and> gc_id c = i) (connections (db w1))"
  let ?due = "\<exists>c. ?c = Some c \<and> gc_status c = ConnectionActive \<and> \<not> clock w1 (ticks w1) + seconds (g_refresh_margin (g_cfg w1)) < gc_expires_at c"
  show ?thesis
  proof (cases ?due)
    case False
    with assms(1) read q have "db w' = db w1"
      by (auto simp: refresh_connection_def run_bind run_now refresh_margin_def split: option.splits if_splits)
    with q show ?thesis by simp
  next
    case True
    then obtain c where c: "?c = Some c" "gc_status c = ConnectionActive" and due: "\<not> clock w1 (ticks w1) + seconds (g_refresh_margin (g_cfg w1)) < gc_expires_at c"
      by blast
    have run: "refresh_now i (gc_refresh c) (tick w1) = (r, w')"
      using assms(1) read q c due by (simp add: refresh_connection_def run_bind run_now refresh_margin_def)
    have same: "swap_allowed (tick w1) w' f = swap_allowed w w' f" for f using q by (simp add: swap_allowed_def revocation_answered_def)
    have pre: "saves (tick w1) = []" "merchant_var (ctx (tick w1)) = Some m" "env (tick w1) = env w" "db (tick w1) = db w1" "reached w (db w) (db w1)"
      using q assms(3) by simp_all
    consider "reached w (db w1) (db w')" | d f where "reached w (db w1) d" "db w' = swapped (gc_refresh c) m i f d" "swap_allowed w w' f"
      using refresh_now_run [OF run pre(1,2)] unfolding pre(3,4) same by blast
    then show ?thesis using pre(5) c by cases (auto intro: rtranclp_trans)
  qed
qed

text \<open>Google answers the refresh of an expired token with a revocation; another merchant's connection stays as it is.\<close>

definition revoked_world :: google_world where
  "revoked_world = (google_idle (google_db\<lparr>connections := [sample_connection ''c1'' ''m1'' (seconds 1000), sample_connection ''c2'' ''m2'' (seconds 1000)]\<rparr>))
     \<lparr>ctx := no_vars\<lparr>merchant_var := Some ''m1''\<rparr>, g_http := (\<lambda>_ _. GoogleAnswer 400 None (Some (JObj [(''error'', JStr ''invalid_grant'')])))\<rparr>"

lemma run_revoked:
  "map gc_status (connections (db (snd (refresh_connection ''c1'' revoked_world)))) = [NeedsReauth, ConnectionActive]"
  by code_simp

theorem refresh_compare_and_set_witness:
  "\<exists>r w'. refresh_connection ''c1'' revoked_world = (r, w') \<and> map gc_status (connections (db w')) = [NeedsReauth, ConnectionActive] \<and>
     (reached revoked_world (db revoked_world) (db w') \<or> (\<exists>d0 c d f. reached revoked_world (db revoked_world) d0 \<and>
       first (\<lambda>c. gc_merchant c = ''m1'' \<and> gc_id c = ''c1'') (connections d0) = Some c \<and>
       gc_status c = ConnectionActive \<and> reached revoked_world d0 d \<and> db w' = swapped (gc_refresh c) ''m1'' ''c1'' f d \<and> swap_allowed revoked_world w' f))"
proof -
  obtain r w' where run: "refresh_connection ''c1'' revoked_world = (r, w')" by fastforce
  have "saves revoked_world = []" "merchant_var (ctx revoked_world) = Some ''m1''" by (simp_all add: revoked_world_def google_idle_def)
  from refresh_compare_and_set [OF run this] run run_revoked show ?thesis by auto
qed

subsection \<open>Synchronisation\<close>

text \<open>
  A step during the synchronisation of mapping \<open>i\<close> of merchant \<open>m\<close> from Google location \<open>x\<close>: a commit of others, or a write of the run
  itself. It writes reviews and figures of that mapping only while the mapping still points to \<open>x\<close>.
\<close>

abbreviation points_to :: "uuid \<Rightarrow> uuid \<Rightarrow> string \<Rightarrow> google_location \<Rightarrow> bool" where
  "points_to m i x g \<equiv> gl_merchant g = m \<and> gl_id g = i \<and> gl_google_id g = x"

definition sync_step :: "(nat \<Rightarrow> gdb \<Rightarrow> gdb) \<Rightarrow> uuid \<Rightarrow> uuid \<Rightarrow> string \<Rightarrow> gdb \<Rightarrow> gdb \<Rightarrow> bool" where
  "sync_step e m i x d d' \<longleftrightarrow> commits e d d' \<or>
     (\<exists>new. list_ex (points_to m i x) (google_maps d) \<and> list_all (\<lambda>r. gr_merchant r = m \<and> gr_mapping r = i) new \<and>
        d' = d\<lparr>reviews := fold upsert_review new (reviews d)\<rparr>) \<or>
     (\<exists>f. (\<forall>g. map_pointed_alike g (f g)) \<and> d' = d\<lparr>google_maps := map_if (points_to m i x) f (google_maps d)\<rparr>) \<or>
     (\<exists>seen j f. d' = swapped seen m j f d)"

abbreviation sync_steps :: "(nat \<Rightarrow> gdb \<Rightarrow> gdb) \<Rightarrow> uuid \<Rightarrow> uuid \<Rightarrow> string \<Rightarrow> gdb \<Rightarrow> gdb \<Rightarrow> bool" where
  "sync_steps e m i x \<equiv> (sync_step e m i x)\<^sup>*\<^sup>*"

text \<open>What refreshes a token respects every preorder that has these writes.\<close>

locale token_frame = google_reads R for R :: "gdb \<Rightarrow> gdb \<Rightarrow> bool" +
  fixes m :: uuid
  assumes R_swap: "R d (swapped seen m i f d)"
begin

lemma frames_swap: "frames R (\<lambda>c. merchant_var c = Some m) (tenant_atomic False (update_connections (still_seen i seen) f))"
proof -
  have "frames R (\<lambda>c. merchant_var c = Some m) (bindM (in_tenant (\<lambda>n d. (n, length (filter (\<lambda>c. gc_merchant c = n \<and> still_seen i seen c) (connections d)))))
     (\<lambda>(n, k). seqM (modifyM (\<lambda>w :: google_world. w\<lparr>db := (db w)\<lparr>connections := map_if (\<lambda>c. gc_merchant c = n \<and> still_seen i seen c) f (connections (db w))\<rparr>\<rparr>)) (ret k)))"
    by (rule framesI) (use R_swap [unfolded swapped_def] in \<open>auto simp: run_bind run_seq in_tenant_def saves_refl\<close>)
  then show ?thesis unfolding update_connections_def by (intro frames_tenant_atomic frames_seq frames_wait)
qed

lemma frames_token: "frames R (\<lambda>c. merchant_var c = Some m) (get_access_token i)"
proof -
  have n: "frames R (\<lambda>c. merchant_var c = Some m) (refresh_now i seen)" for seen
    unfolding refresh_now_def mark_needs_reauth_def store_refreshed_def
    by (intro frame_intros frames_swap frames_ask_refresh) (auto intro: frame_intros split: if_splits)
  show ?thesis unfolding get_access_token_def refresh_connection_def refresh_margin_def by (intro frame_intros n)
qed

end

interpretation syncing: token_frame "sync_steps e m i x" m for e m i x
proof unfold_locales
  show "sync_steps e m i x d (swapped seen m j f d)" for seen j f and d :: gdb
    by (rule r_into_rtranclp) (unfold sync_step_def, blast)
qed simp_all

lemma rely_sync: "rely (sync_steps (env w) m i x) w"
  by (rule rely_commits) (auto simp: sync_step_def)

lemma reached_sync: "reached w d d' \<Longrightarrow> sync_steps (env w) m i x d d'"
  by (erule rtranclp_mono [THEN predicate2D, rotated]) (auto simp: sync_step_def)

text \<open>What the section knows while it holds the mapping.\<close>

lemma first_of_row: "first (\<lambda>g. gl_merchant g = m \<and> gl_id g = i \<and> gl_google_id g = x) rows =
   first (\<lambda>g. gl_merchant g = m \<and> gl_google_id g = x) (filter (\<lambda>g. gl_id g = i) rows)"
  by (induction rows) auto

lemma list_ex_first: "list_ex P rows \<longleftrightarrow> first P rows \<noteq> None"
  by (induction rows) auto

lemma pointed_kept: "keeps_map i d d' \<Longrightarrow> list_ex (points_to m i x) (google_maps d) \<Longrightarrow> list_ex (points_to m i x) (google_maps d')"
  unfolding list_ex_first first_of_row keeps_map_def by simp

lemma tenant_writes_calm: "(forM rows (\<lambda>r. tenant_write (f r)) :: unit gprog) w = (r, w') \<Longrightarrow> w' = w"
  by (induction rows) (auto simp: run_seq tenant_write_def split: if_splits)

lemma rows_with_ids_calm: "rows_with_ids g m t u rs w = (r, w') \<Longrightarrow> ctx w' = ctx w \<and> env w' = env w \<and> db w' = db w \<and> saves w' = saves w"
proof (induction rs arbitrary: w r w')
  case (Cons x rs)
  obtain r1 w1 where s: "rows_with_ids g m t u rs (w\<lparr>g_minted := Suc (g_minted w)\<rparr>) = (r1, w1)" by fastforce
  from Cons.IH [OF this] Cons.prems s show ?case by (cases r1) (auto simp: run_bind google_random_def)
qed simp

lemma sound_rows_with_ids: "rows_with_ids i m t u rs w = (Inr rows, w') \<Longrightarrow> \<forall>r\<in>set rows. gr_merchant r = m \<and> gr_mapping r = i"
  by (induction rs arbitrary: w rows w') (auto simp: run_bind google_random_def review_row_def split: sum.splits prod.splits)

lemma sect_page_insert:
  "sect (sync_steps e m i x) (\<lambda>c. merchant_var c = Some m) (\<lambda>c d. list_ex (points_to m i x) (google_maps d) \<and> (\<forall>r\<in>set new. gr_merchant r = m \<and> gr_mapping r = i))
     (bulk_upsert (keeps_map i) new) (\<lambda>_ _ _. True)" (is "sect ?R ?G ?P _ _")
  unfolding bulk_upsert_def
proof (rule syncing.sect_seq [where Q = ?P])
  show "sect ?R ?G ?P (forM new (\<lambda>r. tenant_write (gr_merchant r)) :: unit gprog) (\<lambda>_. ?P)"
    by (rule syncing.sect_calm) (auto dest: tenant_writes_calm)
  show "sect ?R ?G ?P (seqM (wait_holding (keeps_map i)) (\<lambda>w.
     if list_ex (\<lambda>r. \<not> review_fits r) new then (Inl DataErr, w)
     else if list_ex (\<lambda>r. \<not> review_ok r) new then (Inl CheckViolation, w)
     else if \<not> distinct (map (\<lambda>r. (gr_mapping r, gr_review r)) new) then (Inl DatabaseErr, w)
     else if list_ex (\<lambda>r. find_map (db w) (gr_mapping r) = None) new then (Inl (UniqueViolation ''foreign_key''), w)
     else if \<not> distinct (map gr_id new) \<or> list_ex (\<lambda>r. list_ex (\<lambda>q. gr_id q = gr_id r \<and> \<not> same_review r q) (reviews (db w))) new
     then (Inl (UniqueViolation ''google_reviews_googlereview_pkey''), w)
     else (Inr (), w\<lparr>db := (db w)\<lparr>reviews := fold upsert_review new (reviews (db w))\<rparr>\<rparr>))) (\<lambda>_ _ _. True)" (is "sect _ _ _ (seqM _ ?ins) _")
  proof (rule syncing.sect_seq [OF syncing.sect_wait_holding])
    fix c d d'
    assume "?P c d" "keeps_map i d d'"
    then show "?P c d'" using pointed_kept by blast
  next
    show "sect ?R ?G ?P ?ins (\<lambda>_ _ _. True)"
    proof (rule sectI)
      fix w r w'
      assume p: "?P (ctx w) (db w)" and run: "?ins w = (r, w')"
      have "?R (db w) ((db w)\<lparr>reviews := fold upsert_review new (reviews (db w))\<rparr>)"
        by (rule r_into_rtranclp) (use p in \<open>auto simp: sync_step_def list_all_iff\<close>)
      with run show "ctx w' = ctx w \<and> env w' = env w \<and> ?R (db w) (db w') \<and> list_all2 ?R (saves w) (saves w') \<and> (quiet w \<longrightarrow> saves w' = saves w) \<and>
        (\<forall>a. r = Inr a \<longrightarrow> True)"
        by (auto simp: syncing.saves_refl split: if_splits)
    qed
  qed
qed

lemma frames_page: "frames (sync_steps e m i x) (\<lambda>c. merchant_var c = Some m) (upsert_reviews i rs x)" (is "frames ?R ?G _")
proof -
  let ?locked = "\<lambda>c d. merchant_var c = Some m \<and> list_ex (points_to m i x) (google_maps d)"
  have insert: "sect ?R ?G ?locked (bindM now (\<lambda>u. bindM (rows_with_ids i m t u ys) (\<lambda>new. seqM (bulk_upsert (keeps_map i) new) (ret True)))) (\<lambda>_ _ _. True)" for t ys
  proof (rule syncing.sect_bind [OF syncing.sect_now], rule syncing.sect_bind)
    fix u
    show "sect ?R ?G ?locked (rows_with_ids i m t u ys)
        (\<lambda>new c d. list_ex (points_to m i x) (google_maps d) \<and> (\<forall>r\<in>set new. gr_merchant r = m \<and> gr_mapping r = i))"
    proof (rule syncing.sect_calm)
      show "rows_with_ids i m t u ys w = (r, w') \<Longrightarrow> ctx w' = ctx w \<and> env w' = env w \<and> db w' = db w \<and> saves w' = saves w" for w r w'
        by (rule rows_with_ids_calm)
      show "?locked (ctx w) (db w) \<Longrightarrow> rows_with_ids i m t u ys w = (Inr new, w') \<Longrightarrow>
          list_ex (points_to m i x) (google_maps (db w)) \<and> (\<forall>r\<in>set new. gr_merchant r = m \<and> gr_mapping r = i)" for w new w'
        using sound_rows_with_ids by blast
    qed
    show "sect ?R ?G (\<lambda>c d. list_ex (points_to m i x) (google_maps d) \<and> (\<forall>r\<in>set new. gr_merchant r = m \<and> gr_mapping r = i))
        (seqM (bulk_upsert (keeps_map i) new) (ret True)) (\<lambda>_ _ _. True)" for new
      by (rule syncing.sect_seq [OF sect_page_insert syncing.sect_of_frames [OF syncing.frames_ret]])
  qed
  have page: "sect ?R ?G (\<lambda>_ _. True) (bindM (lock_map (\<lambda>y. gl_id y = i \<and> gl_google_id y = x)) (\<lambda>r. case r of
      None \<Rightarrow> ret False
    | Some g \<Rightarrow> bindM now (\<lambda>u. bindM (rows_with_ids i (gl_merchant g) t u ys) (\<lambda>new. seqM (bulk_upsert (keeps_map i) new) (ret True))))) (\<lambda>_ _ _. True)" for t ys
    unfolding lock_map_def g_first_def
  proof (rule syncing.sect_bind [OF syncing.sect_seq [OF syncing.sect_wait [where P = "\<lambda>_ _. True"] syncing.sect_in_tenant]], simp, rule syncing.sect_case_option)
    show "sect ?R ?G P (ret False) (\<lambda>_ _ _. True)" for P by (rule syncing.sect_of_frames [OF syncing.frames_ret])
    fix r g
    assume r: "r = Some (g :: google_location)"
    show "sect ?R ?G (\<lambda>c d. (\<exists>m'. merchant_var c = Some m' \<and> r = first (\<lambda>y. gl_merchant y = m' \<and> gl_id y = i \<and> gl_google_id y = x) (google_maps d)) \<and> True)
        (bindM now (\<lambda>u. bindM (rows_with_ids i (gl_merchant g) t u ys) (\<lambda>new. seqM (bulk_upsert (keeps_map i) new) (ret True)))) (\<lambda>_ _ _. True)"
    proof (rule sectI)
      fix w r' w'
      assume g: "?G (ctx w)" "rely ?R w" "saves w \<noteq> []"
        and f: "(\<exists>m'. merchant_var (ctx w) = Some m' \<and> r = first (\<lambda>y. gl_merchant y = m' \<and> gl_id y = i \<and> gl_google_id y = x) (google_maps (db w))) \<and> True"
        and run: "bindM now (\<lambda>u. bindM (rows_with_ids i (gl_merchant g) t u ys) (\<lambda>new. seqM (bulk_upsert (keeps_map i) new) (ret True))) w = (r', w')"
      have f': "first (points_to m i x) (google_maps (db w)) = Some g" using f r g(1) by auto
      then have "gl_merchant g = m" "?locked (ctx w) (db w)" using first_SomeD [OF f'] g(1) by (auto simp: list_ex_first)
      then show "ctx w' = ctx w \<and> env w' = env w \<and> ?R (db w) (db w') \<and> list_all2 ?R (saves w) (saves w') \<and> (quiet w \<longrightarrow> saves w' = saves w) \<and>
          (\<forall>a. r' = Inr a \<longrightarrow> True)"
        using sectD(1-5) [OF insert g, of t ys r' w'] run by simp
    qed
  qed
  show ?thesis
    unfolding upsert_reviews_def Let_def
    by (rule syncing.frames_bind [OF syncing.frames_now], rule syncing.frames_if, rule syncing.frames_ret, rule syncing.frames_tx_end [OF page])
qed

lemma frames_sync_loop: "frames (sync_steps e m (gl_id g) (gl_google_id g)) (\<lambda>c. merchant_var c = Some m) (sync_pages n g token p seen figs)"
proof (induction n arbitrary: p seen figs)
  case (Suc n)
  show ?case
    unfolding sync_pages.simps Let_def
    by (intro syncing.frames_bind syncing.frames_list_review_page frames_page syncing.frames_if syncing.frames_ret syncing.frames_case_option syncing.frames_throw Suc)
qed (simp only: sync_pages.simps syncing.frames_throw)

lemma frames_store_figures:
  "frames (sync_steps e m (gl_id g) (gl_google_id g)) (\<lambda>c. merchant_var c = Some m) (store_figures g a k)" (is "frames ?R ?G _")
proof -
  have "frames ?R ?G (update_maps (\<lambda>x. gl_id x = gl_id g \<and> gl_google_id x = gl_google_id g) f)" if f: "\<And>x. map_pointed_alike x (f x)" for f
  proof -
    have "?R d (d\<lparr>google_maps := map_if (points_to m (gl_id g) (gl_google_id g)) f (google_maps d)\<rparr>)" for d
      by (rule r_into_rtranclp) (unfold sync_step_def, use f in blast)
    then have "frames ?R ?G (bindM (in_tenant (\<lambda>m d. m)) (\<lambda>m (w :: google_world).
       if list_ex (\<lambda>y. gl_merchant y = m \<and> (gl_id y = gl_id g \<and> gl_google_id y = gl_google_id g) \<and> (case gl_count (f y) of None \<Rightarrow> False | Some n \<Rightarrow> MAX_INTEGER < n)) (google_maps (db w))
       then (Inl DataErr, w)
       else (Inr (), w\<lparr>db := (db w)\<lparr>google_maps := map_if (\<lambda>y. gl_merchant y = m \<and> gl_id y = gl_id g \<and> gl_google_id y = gl_google_id g) f (google_maps (db w))\<rparr>\<rparr>)))"
      by - (rule framesI, auto simp: run_bind in_tenant_def syncing.saves_refl split: if_splits)
    then show ?thesis unfolding update_maps_def by (intro syncing.frames_seq syncing.frames_wait)
  qed
  then show ?thesis unfolding store_figures_def
    by (intro syncing.frames_bind syncing.frames_now syncing.frames_tenant_atomic) (simp add: map_pointed_alike_def map_kept_def)
qed

lemma frames_sync_rest:
  "frames (sync_steps e m (gl_id g) (gl_google_id g)) (\<lambda>c. merchant_var c = Some m) (bindM (get_access_token j) (\<lambda>token. case token of
     None \<Rightarrow> ret False
   | Some token \<Rightarrow> bindM (sync_outcome_of n g token) (\<lambda>outcome. case outcome of
       SyncLimited \<Rightarrow> ret True
     | SyncStopped \<Rightarrow> ret False
     | SyncedAll average count \<Rightarrow> seqM (store_figures g average count) (ret False))))" (is "frames ?R ?G _")
proof -
  have o: "frames ?R ?G (sync_outcome_of n g token)" for token
    unfolding sync_outcome_of_def
    by (rule syncing.frames_catch, intro syncing.frames_bind frames_sync_loop syncing.frames_ret) (auto intro: syncing.frames_ret split: if_splits)
  have c: "frames ?R ?G (case x of SyncedAll a k \<Rightarrow> seqM (store_figures g a k) (ret False) | SyncStopped \<Rightarrow> ret False | SyncLimited \<Rightarrow> ret True)" for x
    by (cases x) (simp_all add: syncing.frames_ret syncing.frames_seq frames_store_figures)
  show ?thesis by (intro syncing.frames_bind syncing.frames_token syncing.frames_case_option syncing.frames_ret o c)
qed


definition merchant_world :: google_world where
  "merchant_world = (google_idle google_db)\<lparr>ctx := no_vars\<lparr>merchant_var := Some ''m1''\<rparr>\<rparr>"

lemma merchant_world_fields [simp]:
  "saves merchant_world = []" "merchant_var (ctx merchant_world) = Some ''m1''" "quiet merchant_world" "db merchant_world = google_db" "g_cfg merchant_world = google_cfg"
  by (simp_all add: merchant_world_def google_idle_def quiet_def)

lemma run_sync:
  "map gr_rating (reviews (db (snd (sync_location_reviews 1 ''g1'' merchant_world)))) = [2, 5]"
  by code_simp


subsection \<open>Steady programs\<close>

text \<open>A program leaves Google, the library, the clock and the settings as they are, and is not cut off by the page bound.\<close>

named_theorems steady_intros "rules of steady programs"

definition same_google :: "google_world \<Rightarrow> google_world \<Rightarrow> bool" where
  "same_google w w' \<longleftrightarrow> g_http w' = g_http w \<and> g_lib w' = g_lib w \<and> g_cfg w' = g_cfg w \<and> jwks_keys w' = jwks_keys w \<and> clock w' = clock w"

definition steady :: "'a gprog \<Rightarrow> bool" where
  "steady p \<longleftrightarrow> (\<forall>w r w'. p w = (r, w') \<longrightarrow> same_google w w' \<and> r \<noteq> Inl (App Unfinished))"

lemma same_google_refl [simp]: "same_google w w"
  by (simp add: same_google_def)

lemma same_google_trans: "same_google a b \<Longrightarrow> same_google b c \<Longrightarrow> same_google a c"
  by (simp add: same_google_def)

lemma steadyD: "steady p \<Longrightarrow> p w = (r, w') \<Longrightarrow> same_google w w' \<and> r \<noteq> Inl (App Unfinished)"
  by (simp add: steady_def)

lemma steady_bind [steady_intros]:
  assumes "steady p" "\<And>a. steady (f a)"
  shows "steady (bindM p f)"
  unfolding steady_def
proof (intro allI impI)
  fix w r w'
  assume run: "bindM p f w = (r, w')"
  obtain r1 w1 where p: "p w = (r1, w1)" by fastforce
  show "same_google w w' \<and> r \<noteq> Inl (App Unfinished)"
  proof (cases r1)
    case (Inl e)
    with run p steadyD [OF assms(1) p] show ?thesis by (auto simp: run_bind)
  next
    case (Inr a)
    with run p have "f a w1 = (r, w')" by (simp add: run_bind)
    from steadyD [OF assms(2) this] steadyD [OF assms(1) p] show ?thesis by (blast intro: same_google_trans)
  qed
qed

lemma steady_seq [steady_intros]: "steady p \<Longrightarrow> steady q \<Longrightarrow> steady (seqM p q)"
  unfolding seqM_def by (rule steady_bind)

lemma steady_cases [steady_intros]:
  "(b \<Longrightarrow> steady p) \<Longrightarrow> (\<not> b \<Longrightarrow> steady q) \<Longrightarrow> steady (if b then p else q)"
  "(x = None \<Longrightarrow> steady p) \<Longrightarrow> (\<And>a. x = Some a \<Longrightarrow> steady (f a)) \<Longrightarrow> steady (case x of None \<Rightarrow> p | Some a \<Rightarrow> f a)"
  "(\<And>a b. z = (a, b) \<Longrightarrow> steady (g a b)) \<Longrightarrow> steady (case z of (a, b) \<Rightarrow> g a b)"
  by (auto split: option.split prod.split)

lemma steady_basic [steady_intros]: "steady (ret a)" "steady (asks f)" "steady now" "steady wait" "steady (wait_holding keep)" "steady google_random"
  "steady (in_tenant h)" "steady (tenant_write m)" "steady (google_urlopen rq)"
  by (auto simp: steady_def same_google_def now_def tick_def wait_def wait_holding_def interfere_def Let_def google_random_def in_tenant_def tenant_write_def
      google_urlopen_def split: option.splits if_splits)

lemma steady_throw: "e \<noteq> App Unfinished \<Longrightarrow> steady (throw e)"
  by (simp add: steady_def)

lemma steady_liftE: "r \<noteq> Inl (App Unfinished) \<Longrightarrow> steady (liftE r)"
  by (simp add: steady_def)

lemma steady_for [steady_intros]: "(\<And>x. steady (f x)) \<Longrightarrow> steady (forM xs f)"
  by (induction xs) (simp_all add: steady_basic steady_seq)

lemma steady_tx [steady_intros]:
  assumes "steady p"
  shows "steady (tenant_atomic durable p)"
  unfolding steady_def
proof (intro allI impI)
  fix w r w'
  assume run: "tenant_atomic durable p w = (r, w')"
  have b: "same_google w ((begin_block w)\<lparr>guc := g\<rparr>)" for g
    by (simp add: same_google_def begin_block_def interfere_def Let_def)
  have c: "same_google w' (commit_block w w')" "same_google w' (rollback_block w w')" for w w' :: google_world
    by (simp_all add: same_google_def commit_block_def rollback_block_def split: list.split)
  show "same_google w w' \<and> r \<noteq> Inl (App Unfinished)"
  proof (cases "merchant_var (ctx w)")
    case None
    with run show ?thesis by (auto simp: tenant_atomic_def)
  next
    case (Some m)
    obtain r1 w1 where p: "p ((begin_block w)\<lparr>guc := (guc (begin_block w))\<lparr>merchant_var := Some m\<rparr>\<rparr>) = (r1, w1)" by fastforce
    from steadyD [OF assms p] have "same_google w w1" "r1 \<noteq> Inl (App Unfinished)" by (auto intro: same_google_trans [OF b])
    with run Some p same_google_trans [OF _ c(1)] same_google_trans [OF _ c(2)] show ?thesis
      by (cases r1) (auto simp: tenant_atomic_def durable_atomic_def atomic_def run_seq set_local_def split: if_splits)
  qed
qed

lemma steady_page: "steady (list_review_page token i p)"
proof -
  have call: "steady (google_call rq)" for rq
    unfolding google_call_def by (intro steady_intros) (auto simp: steady_basic steady_throw split: google_reply.split)
  have "page_of lib body \<noteq> Inl (App Unfinished)" for lib body
  proof -
    have "parse_reviews lib js \<noteq> Inl (App Unfinished)" for js
      by (induction js) (auto simp: bindE_def parse_review_def stars_of_def Let_def split: sum.splits option.splits if_splits)
    then show ?thesis by (auto simp: page_of_def bindE_def split: sum.splits)
  qed
  moreover have "json_dict raw \<noteq> Inl (App Unfinished)" "status_error k \<noteq> App Unfinished" for raw k
    by (auto simp: json_dict_def status_error_def split: option.split)
  ultimately show ?thesis
    unfolding list_review_page_def get_json_def by (intro steady_intros steady_throw steady_liftE call) simp_all
qed

lemma steady_upsert: "steady (upsert_reviews i rs x)"
proof -
  have "steady (rows_with_ids g m t u ys)" for g m t u ys
    by (induction ys) (simp_all only: rows_with_ids.simps steady_basic, intro steady_intros)
  moreover have "steady (bulk_upsert keep new)" for keep new
    unfolding bulk_upsert_def by (intro steady_intros) (auto simp: steady_def same_google_def split: if_splits)
  ultimately show ?thesis
    unfolding upsert_reviews_def Let_def lock_map_def g_first_def by (intro steady_intros)
qed

subsection \<open>The page loop\<close>

lemma page_token:
  assumes "list_review_page token i p w = (Inr page, w')" "rp_next page = Some t"
  shows "\<exists>n rq cache body. g_http w n rq = GoogleAnswer 200 cache (Some body) \<and> text_or_none (jget ''nextPageToken'' body) = Some t"
  using assms
  by (fastforce simp: list_review_page_def get_json_def google_call_def google_urlopen_def run_bind liftE_def json_dict_def page_of_def bindE_def Let_def
      split: option.splits prod.splits sum.splits if_splits google_reply.splits)

text \<open>
  C39: The page loop ends. If Google uses only the page tokens of a finite set \<open>S\<close>, in whatever order and however often, the loop reads at most
  one page more than \<open>S\<close> has tokens, because a token that comes back ends it: a bound of more than \<open>card S\<close> pages is never what ends
  the loop, so it is no restriction of the code's \<open>while True\<close>.
\<close>

theorem sync_terminates:
  assumes "finite S" "\<And>n rq cache body t. g_http w n rq = GoogleAnswer 200 cache (Some body) \<Longrightarrow> text_or_none (jget ''nextPageToken'' body) = Some t \<Longrightarrow> t \<in> S"
    "card S < n"
  shows "fst (sync_pages n g token None [] figs w) \<noteq> Inl (App Unfinished)"
proof -
  have "fst (sync_pages k g token p seen figs v) \<noteq> Inl (App Unfinished)" if "g_http v = g_http w" "card (S - set seen) < k" for k p seen figs v
    using that
  proof (induction k arbitrary: p seen figs v)
    case (Suc k)
    obtain r1 v1 where page: "list_review_page token (gl_google_id g) p v = (r1, v1)" by fastforce
    note s1 = steadyD [OF steady_page page]
    show ?case
    proof (cases r1)
      case (Inl e)
      with page s1 show ?thesis by (simp add: run_bind)
    next
      case (Inr pg)
      obtain r2 v2 where up: "upsert_reviews (gl_id g) (rp_reviews pg) (gl_google_id g) v1 = (r2, v2)" by fastforce
      note s2 = steadyD [OF steady_upsert up]
      have http: "g_http v2 = g_http w" using s1 s2 Suc.prems(1) by (simp add: same_google_def)
      have more: "fst (sync_pages k g token (Some t) (t # seen) fs v2) \<noteq> Inl (App Unfinished)" if t: "rp_next pg = Some t" "t \<notin> set seen" for t fs
      proof (rule Suc.IH [OF http])
        have "t \<in> S" using page_token [OF page [unfolded Inr] t(1)] assms(2) Suc.prems(1) by auto
        then have "card (S - set (t # seen)) < card (S - set seen)" using assms(1) t(2) by (intro psubset_card_mono) auto
        with Suc.prems(2) show "card (S - set (t # seen)) < k" by simp
      qed
      show ?thesis
        using page Inr up s2 more by (cases r2) (auto simp: run_bind Let_def split: option.splits)
    qed
  qed simp
  from this [of w "[]" n None figs] assms(3) show ?thesis by simp
qed

text \<open>A Google that hands out the same page token for ever.\<close>

definition looping_world :: google_world where
  "looping_world = merchant_world\<lparr>g_http := (\<lambda>_ _. GoogleAnswer 200 None (Some (JObj [(''nextPageToken'', JStr ''p'')])))\<rparr>"

theorem sync_terminates_witness: "fst (sync_pages 2 sample_map ''t'' None [] (None, None) looping_world) \<noteq> Inl (App Unfinished)"
proof (rule sync_terminates [of "{''p''}"])
  show "g_http looping_world n rq = GoogleAnswer 200 cache (Some body) \<Longrightarrow> text_or_none (jget ''nextPageToken'' body) = Some t \<Longrightarrow> t \<in> {''p''}" for n rq cache body t
    by (auto simp: looping_world_def)
qed simp_all

subsection \<open>Attempts come to an end\<close>

lemma run_update_attempts:
  assumes "in_tx m w"
  shows "update_attempts keep P f w = (if list_ex (\<lambda>a. \<not> attempt_ok (f a)) (filter (\<lambda>a. oa_merchant a = m \<and> P a) (attempts (db w)))
     then (Inl CheckViolation, w\<lparr>env_n := Suc (env_n w)\<rparr>)
     else (Inr (length (filter (\<lambda>a. oa_merchant a = m \<and> P a) (attempts (db w)))),
       w\<lparr>env_n := Suc (env_n w), db := (db w)\<lparr>attempts := map_if (\<lambda>a. oa_merchant a = m \<and> P a) f (attempts (db w))\<rparr>\<rparr>))"
proof -
  have t: "in_tx m (w\<lparr>env_n := Suc (env_n w)\<rparr>)" using assms by simp
  show ?thesis
    unfolding update_attempts_def run_seq run_wait_holding [OF assms] by (simp add: run_bind run_seq run_in_tenant [OF t])
qed

lemma run_delete_attempts:
  assumes "in_tx m w"
  shows "delete_attempts P w = (Inr (), w\<lparr>env_n := Suc (env_n w), db := (db w)\<lparr>attempts := filter (\<lambda>a. \<not> (oa_merchant a = m \<and> P a)) (attempts (db w))\<rparr>\<rparr>)"
proof -
  have t: "in_tx m (w\<lparr>env_n := Suc (env_n w)\<rparr>)" using assms by simp
  show ?thesis
    unfolding delete_attempts_def run_seq run_wait [OF assms] by (simp add: run_bind run_in_tenant [OF t])
qed

lemma begun_in_tx: "quiet w \<Longrightarrow> merchant_var (ctx w) = Some m \<Longrightarrow> in_tx m (begun m w)"
  by (simp add: in_tx_def)

text \<open>The two rules of expiry on a table, and the deletion.\<close>

definition expire_all :: "uuid \<Rightarrow> instant \<Rightarrow> instant \<Rightarrow> oauth_attempt list \<Rightarrow> oauth_attempt list" where
  "expire_all m grace t rows = map_if (\<lambda>a. oa_merchant a = m \<and> oa_status a = AttemptPending \<and> oa_code a = None \<and> oa_expires_at a \<le> t - grace)
     (\<lambda>a. a\<lparr>oa_status := AttemptFailed, oa_failure := Some EXCHANGE_INTERRUPTED, oa_completed_at := Some t, oa_updated_at := t\<rparr>)
     (map_if (\<lambda>a. oa_merchant a = m \<and> unclaimed a \<and> oa_expires_at a \<le> t) (failed_attempt OAUTH_EXPIRED t) rows)"

lemma run_expire_attempts:
  assumes "in_tx m w"
  shows "expire_attempts None t w = (Inr (), w\<lparr>env_n := Suc (Suc (env_n w)),
     db := (db w)\<lparr>attempts := expire_all m (seconds (g_grace (g_cfg w))) t (attempts (db w))\<rparr>\<rparr>)"
proof -
  have t: "in_tx m (w\<lparr>env_n := k, db := d\<rparr>)" for k d using assms by simp
  have ok: "attempt_ok (failed_attempt c t a)" for c a by (simp add: attempt_ok_def failed_attempt_def)
  have ok': "oa_code a = None \<Longrightarrow> attempt_ok (a\<lparr>oa_status := AttemptFailed, oa_failure := Some c, oa_completed_at := x, oa_updated_at := u\<rparr>)" for c a x u
    by (simp add: attempt_ok_def)
  show ?thesis
    unfolding expire_attempts_def Let_def expire_all_def
    by (auto simp: run_bind run_update_attempts [OF assms] run_update_attempts [OF t] list_ex_iff ok ok' conj_assoc)
qed

lemma run_sweep:
  assumes "saves w = []" "quiet w" "merchant_var (ctx w) = Some m"
  shows "\<exists>w'. sweep_oauth_attempts w = (Inr (), w') \<and> db w' = (db w)\<lparr>attempts :=
     filter (\<lambda>a. \<not> (oa_merchant a = m \<and> terminal a \<and> oa_expires_at a \<le> clock w (ticks w) - seconds (g_retention (g_cfg w))))
       (expire_all m (seconds (g_grace (g_cfg w))) (clock w (ticks w)) (attempts (db w)))\<rparr>"
proof -
  let ?v = "tick w"
  have pre: "saves ?v = []" "merchant_var (ctx ?v) = Some m" "quiet ?v" using assms by (simp_all add: tick_def quiet_def)
  have tx: "in_tx m (begun m ?v)" by (rule begun_in_tx [OF pre(3,2)])
  have tx': "in_tx m ((begun m ?v)\<lparr>env_n := k, db := d\<rparr>)" for k d using tx by simp
  have b: "db (begun m ?v) = db w" "g_cfg (begun m ?v) = g_cfg w" using begun_quiet [OF pre(3)] by (simp_all add: begun_def Let_def)
  show ?thesis
    unfolding sweep_oauth_attempts_def
    by (simp add: run_bind run_now run_seq run_begun [OF pre(1,2)] run_expire_attempts [OF tx] purge_attempts_def run_delete_attempts [OF tx'] b commit_block_def pre(1) terminal_def)
qed

text \<open>
  C40: No attempt stays open for ever. The daily sweep, run at any time \<open>t\<close>, always returns, and after it every attempt of the merchant that expired at
  least the grace period before \<open>t\<close> is decided; one that has expired at all can no longer be claimed and holds no code; and none that
  is decided is kept beyond the retention period.
\<close>

theorem attempts_settle:
  assumes "saves w = []" "quiet w" "merchant_var (ctx w) = Some m" "0 \<le> g_grace (g_cfg w)" "list_all attempt_ok (attempts (db w))"
  shows "\<exists>w'. sweep_oauth_attempts w = (Inr (), w') \<and> (\<forall>a\<in>set (attempts (db w')). oa_merchant a = m \<longrightarrow>
     (oa_expires_at a \<le> clock w (ticks w) - seconds (g_grace (g_cfg w)) \<longrightarrow> terminal a) \<and>
     (oa_expires_at a \<le> clock w (ticks w) \<longrightarrow> oa_status a \<noteq> AttemptIssued \<and> oa_code a = None) \<and>
     \<not> (terminal a \<and> oa_expires_at a \<le> clock w (ticks w) - seconds (g_retention (g_cfg w))))"
proof -
  obtain w' where run: "sweep_oauth_attempts w = (Inr (), w')"
    and d: "attempts (db w') = filter (\<lambda>a. \<not> (oa_merchant a = m \<and> terminal a \<and> oa_expires_at a \<le> clock w (ticks w) - seconds (g_retention (g_cfg w))))
       (expire_all m (seconds (g_grace (g_cfg w))) (clock w (ticks w)) (attempts (db w)))"
    using run_sweep [OF assms(1-3)] by auto
  have g: "0 \<le> seconds (g_grace (g_cfg w))" using assms(4) by (simp add: seconds_def)
  have "(oa_expires_at a \<le> clock w (ticks w) - seconds (g_grace (g_cfg w)) \<longrightarrow> terminal a) \<and>
     (oa_expires_at a \<le> clock w (ticks w) \<longrightarrow> oa_status a \<noteq> AttemptIssued \<and> oa_code a = None)"
    if a: "a \<in> set (expire_all m (seconds (g_grace (g_cfg w))) (clock w (ticks w)) (attempts (db w)))" "oa_merchant a = m" for a
  proof -
    from a(1) obtain b where b: "b \<in> set (attempts (db w))" "a \<in> set (expire_all m (seconds (g_grace (g_cfg w))) (clock w (ticks w)) [b])"
      by (auto simp: expire_all_def map_if_def)
    then have "attempt_ok b" using assms(5) by (auto simp: list_all_iff)
    with b(2) a(2) g show ?thesis
      by (cases "oa_status b")
        (auto simp: expire_all_def map_if_def failed_attempt_def unclaimed_def terminal_def attempt_ok_def split: if_splits)
  qed
  then show ?thesis using run d by auto
qed

theorem attempts_settle_witness:
  "\<exists>w'. sweep_oauth_attempts merchant_world = (Inr (), w') \<and> (\<forall>a\<in>set (attempts (db w')). oa_merchant a = ''m1'' \<longrightarrow>
     (oa_expires_at a \<le> clock merchant_world (ticks merchant_world) - seconds (g_grace (g_cfg merchant_world)) \<longrightarrow> terminal a) \<and>
     (oa_expires_at a \<le> clock merchant_world (ticks merchant_world) \<longrightarrow> oa_status a \<noteq> AttemptIssued \<and> oa_code a = None) \<and>
     \<not> (terminal a \<and> oa_expires_at a \<le> clock merchant_world (ticks merchant_world) - seconds (g_retention (g_cfg merchant_world))))"
  by (rule attempts_settle) (simp_all add: google_db_def google_cfg_def sample_attempt_def attempt_ok_def)

end
