(* ===== verification/GoogleExchange.thy ===== *)
theory GoogleExchange
  imports GoogleSpecs
begin

text \<open>
  On what evidence the exchange of an authorization code connects a Google account. The statement holds whatever other
  transactions commit meanwhile.
\<close>

subsection \<open>Runs that write no connection\<close>

definition connect_step :: "(nat \<Rightarrow> gdb \<Rightarrow> gdb) \<Rightarrow> gdb \<Rightarrow> gdb \<Rightarrow> bool" where
  "connect_step e d d' \<longleftrightarrow> commits e d d' \<or> connections d' = connections d"

text \<open>Connections change by what others commit only.\<close>

abbreviation unconnected :: "(nat \<Rightarrow> gdb \<Rightarrow> gdb) \<Rightarrow> gdb \<Rightarrow> gdb \<Rightarrow> bool" where
  "unconnected e \<equiv> (connect_step e)\<^sup>*\<^sup>*"

interpretation connecting: google_reads "unconnected e" for e
  by unfold_locales simp_all

lemma unconnected_same: "connections d' = connections d \<Longrightarrow> unconnected e d d'"
  by (rule r_into_rtranclp) (simp add: connect_step_def)

lemma rely_unconnected: "rely (unconnected (env w)) w"
  by (rule rely_commits) (auto simp: connect_step_def)

lemma reached_unconnected: "reached w d d' \<Longrightarrow> unconnected (env w) d d'"
  by (erule rtranclp_mono [THEN predicate2D, rotated]) (auto simp: connect_step_def)

lemma unconnected_alone: "(\<And>n d. e n d = d) \<Longrightarrow> unconnected e d d' \<Longrightarrow> connections d' = connections d"
  by (rotate_tac, induction rule: rtranclp_induct) (auto simp: connect_step_def commits_def)

lemma frames_attempts: "frames (unconnected e) H (update_attempts keep P f)"
proof -
  have "frames (unconnected e) H (bindM (in_tenant (\<lambda>m d. (m, filter (\<lambda>a. oa_merchant a = m \<and> P a) (attempts d)))) (\<lambda>(m, rows).
     if list_ex (\<lambda>a. \<not> attempt_ok (f a)) rows then throw CheckViolation
     else seqM (modifyM (\<lambda>w :: google_world. w\<lparr>db := (db w)\<lparr>attempts := map_if (\<lambda>a. oa_merchant a = m \<and> P a) f (attempts (db w))\<rparr>\<rparr>)) (ret (length rows))))"
    by (rule framesI) (auto simp: run_bind run_seq in_tenant_def connecting.saves_refl intro!: unconnected_same split: option.splits if_splits)
  then show ?thesis unfolding update_attempts_def by (intro connecting.frames_seq connecting.frames_wait_holding)
qed

lemma frames_mark: "frames (unconnected e) H (mark_failed i code t)"
  unfolding mark_failed_def by (intro connecting.frames_bind frames_attempts connecting.frames_ret)

lemma frames_failure: "frames (unconnected e) H (fail_attempt i code)"
  unfolding fail_attempt_def
  by (intro connecting.frames_bind connecting.frames_tenant_atomic connecting.frames_now frames_mark connecting.frames_ret)

lemma frames_taking: "frames (unconnected e) H (take_code i)"
  unfolding take_code_def
  by (intro connecting.frames_bind connecting.frames_now connecting.frames_tenant_atomic connecting.frames_google_rows
      connecting.frames_case_option connecting.frames_ret frames_attempts)

lemma frames_redeem: "frames (unconnected e) H (redeem_code c)"
  unfolding redeem_code_def
  by (rule connecting.frames_catch, intro connecting.frames_bind connecting.frames_crypto connecting.frames_provider connecting.frames_ret)
    (auto intro: connecting.frames_ret split: if_splits)

lemma frames_validate: "frames (unconnected e) H (validate_exchange result h)"
  unfolding validate_exchange_def
  by (intro connecting.frames_case_option connecting.frames_ret connecting.frames_catch connecting.frames_bind connecting.frames_provider)
    (auto intro: connecting.frames_ret split: if_splits)

text \<open>The finish of a user who is no member of the team.\<close>

lemma finish_unconnected:
  assumes run: "finish_attempt i u claims result w = (r, w')" and w: "saves w = []" "merchant_var (ctx w) = Some m"
  shows "unconnected (env w) (db w) (db w') \<or> (\<exists>d. unconnected (env w) (db w) d \<and> (m, u) \<in> set (g_members d))"
proof (cases "(m, u) \<in> set (g_members (db (begun m w)))")
  case True
  with reached_unconnected [OF reached_begun] show ?thesis by blast
next
  case False
  let ?h = "\<lambda>e. if e = App AttemptNoLongerPending then Some (ret ())
     else if e = ActorNotMember then Some (fail_attempt i ACTOR_NOT_MEMBER)
     else if integrity_error e \<and> violated_constraint e CONNECTION_UNIQUE then Some (fail_attempt i GOOGLE_ACCOUNT_ALREADY_CONNECTED)
     else None"
  let ?failing = "bindM now (\<lambda>t. bindM (mark_failed i ACTOR_NOT_MEMBER t) (\<lambda>_. ret ()))"
  have "finish_ok i u claims result (begun m w) = ?failing (begun m w)"
    using False w(2) by (simp add: finish_ok_def run_bind run_now in_tenant_def)
  then have "tenant_atomic True (finish_ok i u claims result) w = tenant_atomic True ?failing w"
    by (simp add: run_begun [OF w])
  with run have "catchM (tenant_atomic True ?failing) ?h w = (r, w')"
    by (simp add: finish_attempt_def catchM_def)
  moreover have "frames (unconnected (env w)) (\<lambda>_. True) (catchM (tenant_atomic True ?failing) ?h)"
    by (intro connecting.frames_catch connecting.frames_tenant_atomic connecting.frames_bind connecting.frames_now frames_mark connecting.frames_ret)
      (auto intro: connecting.frames_ret frames_failure split: if_splits)
  ultimately show ?thesis using framesD(3) [OF _ _ rely_unconnected] by blast
qed

subsection \<open>The attempt and its code\<close>

definition claimed_open :: "uuid \<Rightarrow> uuid \<Rightarrow> instant \<Rightarrow> oauth_attempt \<Rightarrow> bool" where
  "claimed_open m i t a \<longleftrightarrow> oa_merchant a = m \<and> oa_id a = i \<and> oa_status a = AttemptPending \<and> oa_code a \<noteq> None \<and> t < oa_expires_at a"

lemma take_code_run:
  assumes run: "take_code i w = (Inr (Some (code, h, u)), w')" and w: "saves w = []" "merchant_var (ctx w) = Some m"
  shows "\<exists>d a. reached w (db w) d \<and> a \<in> set (attempts d) \<and> claimed_open m i (clock w (ticks w)) a \<and> oa_code a = Some code \<and> oa_nonce_hash a = h \<and> oa_user a = u"
proof -
  let ?v = "begun m (tick w)"
  let ?t = "clock w (ticks w)"
  let ?a = "first (\<lambda>a. oa_merchant a = m \<and> oa_id a = i \<and> oa_status a = AttemptPending \<and> oa_code a \<noteq> None \<and> ?t < oa_expires_at a) (attempts (db ?v))"
  have pre: "saves (tick w) = []" "merchant_var (ctx (tick w)) = Some m" using w by simp_all
  obtain a where a: "?a = Some a"
    using run w(2) by (cases ?a) (auto simp: take_code_def run_bind run_now run_begun [OF pre] g_first_def in_tenant_def)
  have "the (oa_code a) = code \<and> oa_nonce_hash a = h \<and> oa_user a = u"
    using run a w(2)
    by (auto simp: take_code_def run_bind run_now run_begun [OF pre] g_first_def in_tenant_def split: sum.splits prod.splits if_splits)
  moreover have "reached w (db w) (db ?v)" using reached_begun [of "tick w" m] by simp
  ultimately show ?thesis using first_SomeD [OF a] by (fastforce simp: claimed_open_def)
qed

lemma steady_update_attempts: "steady (update_attempts keep P f)"
  unfolding update_attempts_def modifyM_def by (intro steady_intros steady_throw) (auto simp: steady_def same_google_def)

lemma steady_take_code: "steady (take_code i)"
  unfolding take_code_def g_first_def by (intro steady_intros steady_update_attempts)

text \<open>What Google has answered for a code.\<close>

definition code_redeemed :: "google_world \<Rightarrow> string \<Rightarrow> exchange_result \<Rightarrow> bool" where
  "code_redeemed w code_enc result \<longleftrightarrow> (\<exists>code n rq cache body. fernet_decrypt (g_lib w) (g_fernet_key (g_cfg w)) code_enc = Some code \<and>
     gq_url rq = TOKEN_URL \<and> gq_form rq = Some (exchange_form (g_cfg w) code) \<and> g_http w n rq = GoogleAnswer 200 cache (Some body) \<and>
     er_id_token result = text_or_none (jget ''id_token'' body) \<and>
     er_scopes result = (case as_str (jget ''scope'' body) of None \<Rightarrow> [] | Some s \<Rightarrow> split_blanks s))"

lemma decrypt_run: "decrypt_text s w = (r, w') \<Longrightarrow> w' = w \<and> (\<forall>p. r = Inr p \<longrightarrow> fernet_decrypt (g_lib w) (g_fernet_key (g_cfg w)) s = Some p)"
  by (auto simp: decrypt_text_def run_bind fernet_def Let_def split: if_splits option.splits)

lemma usable_token_same: "usable_token body w = (r, w') \<Longrightarrow> same_google w w'"
  by (auto simp: usable_token_def run_bind run_now Let_def same_google_def tick_def split: option.splits if_splits)

lemma steady_token_request: "steady (token_request form)"
  unfolding token_request_def google_call_def
  by (intro steady_intros) (auto simp: steady_basic steady_throw split: google_reply.split)

lemma redeem_run:
  assumes run: "redeem_code c w = (Inr (Some result), w')"
  shows "code_redeemed w c result \<and> same_google w w'"
proof -
  obtain r1 w1 where d: "decrypt_text c w = (r1, w1)" by fastforce
  note d' = decrypt_run [OF d]
  from run d d' obtain p where p: "r1 = Inr p" "exchange_code p w = (Inr result, w')"
    by (cases r1) (auto simp: redeem_code_def catchM_def run_bind split: prod.splits sum.splits if_splits)
  let ?form = "exchange_form (g_cfg w) p"
  obtain r2 w2 where q: "token_request ?form w = (r2, w2)" by fastforce
  note s = steadyD [OF steady_token_request q]
  from p(2) q obtain raw where raw: "r2 = Inr (200, raw)"
    by (cases r2) (auto simp: exchange_code_def run_bind split: if_splits prod.splits)
  from p(2) q raw obtain body where body: "raw = Some body" "is_dict body"
    by (auto simp: exchange_code_def run_bind liftE_def json_dict_def split: option.splits if_splits)
  obtain r3 w3 where t: "usable_token body w2 = (r3, w3)" by fastforce
  from p(2) q raw body t have res: "w' = w3" "er_id_token result = text_or_none (jget ''id_token'' body)"
    "er_scopes result = (case as_str (jget ''scope'' body) of None \<Rightarrow> [] | Some s \<Rightarrow> split_blanks s)"
    by (cases r3, auto simp: exchange_code_def run_bind liftE_def json_dict_def)+
  from token_request_run [OF q] raw body(1) obtain rq cache where
    "gq_url rq = TOKEN_URL" "gq_form rq = Some ?form" "g_http w (length (g_calls w)) rq = GoogleAnswer 200 cache (Some body)" by auto
  with res d' p(1) have "code_redeemed w c result" unfolding code_redeemed_def by blast
  moreover have "same_google w w'" using s usable_token_same [OF t] res(1) by (blast intro: same_google_trans)
  ultimately show ?thesis by blast
qed

subsection \<open>The ID token\<close>

definition google_key :: "google_world \<Rightarrow> string \<Rightarrow> rsa_key \<Rightarrow> bool" where
  "google_key w kid key \<longleftrightarrow> map_of (jwks_keys w) kid = Some key \<or>
     (\<exists>n rq cache body. gq_url rq = g_jwks_uri (g_cfg w) \<and> g_http w n rq = GoogleAnswer 200 cache (Some body) \<and> map_of (keys_of (g_lib w) body) kid = Some key)"

definition id_token_valid :: "google_world \<Rightarrow> string \<Rightarrow> json \<Rightarrow> bool" where
  "id_token_valid w t payload \<longleftrightarrow> (\<exists>header signature input kid key n. token_parts (g_lib w) t = Some (header, payload, signature, input) \<and>
     token_kid header = Some kid \<and> google_key w kid key \<and> rsa_verify (g_lib w) key signature input \<and>
     jget ''iss'' payload \<in> set (map JStr ISSUERS) \<and> audience_ok (g_client_id (g_cfg w)) payload \<and> unexpired (clock w n) payload)"

lemma evidence_same:
  assumes "same_google w w'"
  shows "code_redeemed w' = code_redeemed w" "id_token_valid w' = id_token_valid w"
  using assms by (simp_all add: fun_eq_iff same_google_def code_redeemed_def id_token_valid_def google_key_def)

lemma steady_monotonic: "steady monotonic"
  by (simp add: steady_def same_google_def monotonic_def)

lemma fetch_jwks_run:
  assumes "fetch_jwks w = (r, w')"
  shows "g_http w' = g_http w \<and> g_lib w' = g_lib w \<and> g_cfg w' = g_cfg w \<and> clock w' = clock w \<and>
    (\<forall>keys ttl kid key. r = Inr (keys, ttl) \<longrightarrow> map_of keys kid = Some key \<longrightarrow> google_key w kid key)"
proof -
  let ?rq = "\<lparr>gq_method = GET, gq_url = g_jwks_uri (g_cfg w), gq_form = None, gq_token = None\<rparr>"
  obtain r1 w1 where c: "google_call ?rq w = (r1, w1)" by fastforce
  have "steady (google_call rq)" for rq
    unfolding google_call_def by (intro steady_intros) (auto simp: steady_basic steady_throw split: google_reply.split)
  from steadyD [OF this c] have s: "same_google w w1" by simp
  have keys: "\<exists>n rq cache body. gq_url rq = g_jwks_uri (g_cfg w) \<and> g_http w n rq = GoogleAnswer 200 cache (Some body) \<and> keys = keys_of (g_lib w) body"
    if k: "r = Inr (keys, ttl)" for keys ttl
  proof -
    obtain cache body where a: "r1 = Inr (200, cache, Some body)" "keys = keys_of (g_lib w1) body"
      using assms c k
      by (cases r1) (auto simp: fetch_jwks_def run_bind catchM_def json_dict_def split: if_splits sum.splits option.splits prod.splits)
    with google_call_run [OF c] have "g_http w (length (g_calls w)) ?rq = GoogleAnswer 200 cache (Some body)" by auto
    then show ?thesis using a(2) s by (intro exI [of _ "length (g_calls w)"] exI [of _ ?rq]) (auto simp: same_google_def)
  qed
  have "w' = w1"
    using assms c
    by (cases r1) (auto simp: fetch_jwks_def run_bind catchM_def split: if_splits sum.splits option.splits prod.splits)
  with s show ?thesis using keys unfolding google_key_def same_google_def by blast
qed

lemma jwks_key_run:
  assumes "jwks_key kid w = (Inr (Some key), w')"
  shows "google_key w kid key \<and> g_http w' = g_http w \<and> g_lib w' = g_lib w \<and> g_cfg w' = g_cfg w \<and> clock w' = clock w"
proof -
  obtain t w1 where m: "monotonic w = (Inr t, w1)" by (simp add: monotonic_def)
  note s = steadyD [OF steady_monotonic m]
  show ?thesis
  proof (cases "t < jwks_expires w1 \<and> map_of (jwks_keys w1) kid \<noteq> None")
    case True
    with assms m s show ?thesis by (auto simp: jwks_key_def run_bind same_google_def google_key_def)
  next
    case False
    then have none: "(if t < jwks_expires w1 then map_of (jwks_keys w1) kid else None) = None" by (auto simp del: not_None_eq)
    obtain r2 w2 where f: "fetch_jwks w1 = (r2, w2)" by fastforce
    from assms m f none obtain keys ttl where k: "r2 = Inr (keys, ttl)" "map_of keys kid = Some key"
      by (cases r2) (auto simp: jwks_key_def run_bind run_seq monotonic_def split: prod.splits)
    from assms m f none k have "g_http w' = g_http w2 \<and> g_lib w' = g_lib w2 \<and> g_cfg w' = g_cfg w2 \<and> clock w' = clock w2"
      by (auto simp: jwks_key_def run_bind run_seq monotonic_def)
    moreover from fetch_jwks_run [OF f] k have "google_key w1 kid key" by blast
    ultimately show ?thesis using fetch_jwks_run [OF f] s by (simp add: same_google_def google_key_def)
  qed
qed

lemma verify_run:
  assumes "verify_id_token t w = (Inr claims, w')"
  shows "\<exists>payload. id_token_valid w t payload \<and> claims = claims_of payload"
proof -
  obtain header payload signature input where parts: "token_parts (g_lib w) t = Some (header, payload, signature, input)"
    using assms by (cases "token_parts (g_lib w) t") (auto simp: verify_id_token_def run_bind)
  with assms obtain kid where kid: "token_kid header = Some kid"
    by (cases "token_kid header") (auto simp: verify_id_token_def run_bind)
  obtain r1 w1 where j: "jwks_key kid w = (r1, w1)" by fastforce
  with assms parts kid obtain key where key: "r1 = Inr (Some key)" "rsa_verify (g_lib w) key signature input" "verify_payload payload w1 = (Inr claims, w')"
    by (cases r1) (auto simp: verify_id_token_def run_bind split: option.splits if_splits)
  note k = jwks_key_run [OF j [unfolded key(1)]]
  from key(3) have "jget ''iss'' payload \<in> set (map JStr ISSUERS)" "audience_ok (g_client_id (g_cfg w1)) payload" "unexpired (clock w1 (ticks w1)) payload"
    "claims = claims_of payload"
    by (auto simp: verify_payload_def run_bind run_now split: if_splits)
  moreover from this parts kid key(2) k have "id_token_valid w t payload" unfolding id_token_valid_def by (metis (no_types))
  ultimately show ?thesis by blast
qed

text \<open>The claims that are accepted for an attempt with this nonce hash.\<close>

definition claims_accepted :: "string \<Rightarrow> exchange_result \<Rightarrow> json \<Rightarrow> bool" where
  "claims_accepted nonce_hash result payload \<longleftrightarrow> (\<exists>n. text_or_none (jget ''nonce'' payload) = Some n \<and> hash_text n = nonce_hash) \<and>
     identity_ok (claims_of payload) \<and> BUSINESS_SCOPE \<in> set (er_scopes result)"

lemma validate_run:
  assumes "validate_exchange result h w = (Inr (Inr claims), w')"
  shows "\<exists>t payload. er_id_token result = Some t \<and> id_token_valid w t payload \<and> claims_accepted h result payload"
proof -
  obtain t where t: "er_id_token result = Some t" using assms by (cases "er_id_token result") (auto simp: validate_exchange_def)
  obtain r1 w1 where v: "verify_id_token t w = (r1, w1)" by fastforce
  with assms t obtain c where c: "r1 = Inr c" "judge_claims result h c = Inr claims"
    by (cases r1) (auto simp: validate_exchange_def catchM_def run_bind split: if_splits)
  from verify_run [OF v [unfolded c(1)]] obtain payload where p: "id_token_valid w t payload" "c = claims_of payload" by blast
  from c(2) p(2) have "claims_accepted h result payload"
    by (auto simp: judge_claims_def claims_accepted_def claims_of_def split: if_splits option.splits)
  with t p(1) show ?thesis by blast
qed

subsection \<open>The evidence\<close>


text \<open>An attempt with nonce hash \<open>h\<close>; the ID token Google returns carries the nonce \<open>n\<close>.\<close>

definition connect_world :: "string \<Rightarrow> google_world" where
  "connect_world h = (google_idle (google_db\<lparr>attempts := [sample_attempt\<lparr>oa_nonce_hash := h, oa_expires_at := seconds 9000\<rparr>]\<rparr>))
     \<lparr>ctx := no_vars\<lparr>merchant_var := Some ''m1''\<rparr>\<rparr>"

definition sample_result :: exchange_result where
  "sample_result = \<lparr>er_access = ''fresh'', er_refresh = Some ''again'', er_expires_at = seconds 5201, er_scopes = [BUSINESS_SCOPE], er_id_token = Some ''SA.UA.Uw''\<rparr>"

lemma run_stages:
  "let (r1, w1) = take_code ''a1'' (connect_world h); (r2, w2) = redeem_code ''c'' w1; (r3, w3) = verify_id_token ''SA.UA.Uw'' w2 in
     r1 = Inr (Some (''c'', h, ''u1'')) \<and> r2 = Inr (Some sample_result) \<and> r3 = Inr (claims_of id_payload) \<and>
     length (connections (db (snd (finish_attempt ''a1'' ''u1'' (claims_of id_payload) sample_result w3)))) = 3"
  by code_simp

lemma run_connect: "length (connections (db (snd (exchange_attempt ''a1'' (connect_world (hash_text ''n'')))))) = 3"
proof -
  let ?h = "hash_text ''n''"
  obtain r1 w1 where t: "take_code ''a1'' (connect_world ?h) = (r1, w1)" by fastforce
  obtain r2 w2 where q: "redeem_code ''c'' w1 = (r2, w2)" by fastforce
  obtain r3 w3 where v: "verify_id_token ''SA.UA.Uw'' w2 = (r3, w3)" by fastforce
  have r: "r1 = Inr (Some (''c'', ?h, ''u1''))" "r2 = Inr (Some sample_result)" "r3 = Inr (claims_of id_payload)"
    "length (connections (db (snd (finish_attempt ''a1'' ''u1'' (claims_of id_payload) sample_result w3)))) = 3"
    using run_stages [of ?h] t q v by simp_all
  have "identity_ok (claims_of id_payload)" "ic_nonce (claims_of id_payload) = Some ''n''" by code_simp+
  then have "judge_claims sample_result ?h (claims_of id_payload) = Inr (claims_of id_payload)" by (simp add: judge_claims_def sample_result_def)
  then have "validate_exchange sample_result ?h w2 = (Inr (Inr (claims_of id_payload)), w3)"
    using v r(3) by (simp add: validate_exchange_def sample_result_def catchM_def run_bind)
  with t q r show ?thesis by (simp add: exchange_attempt_def run_bind)
qed


end
