(* ===== verification/Spec2Isabelle.thy ===== *)
theory Spec2Isabelle
  imports SystemProps ReplacementProps DunningProps EventProps IntakeProps IntakeSpecs SaleSpecs
    AccountProps TeamSpecs FactorProps KeyProps AccountApi MessagingProps StopProps SubmissionProps GoogleProps GoogleExchange
begin

text \<open>
  The verification library of the ReviewFlow backend, a multi-tenant Django service: merchants connect
  their sales systems, the sales come in as events, and a subscription pays for the review requests.
  The code is under \<open>src/\<close>; every definition follows the function whose name it carries.

  \<^bold>\<open>The base.\<close> \<open>Prelude\<close> has the vocabulary every component shares: JSON values, instants (microseconds), the
  exceptions (\<open>'e exn\<close>: the errors of an application next to those of Django, PostgreSQL and Python), the
  state-and-exception programs \<open>('w, 'e, 'a) prog\<close> with a weakest-precondition calculus (\<open>wp\<close>, \<open>wp_simps\<close>) and
  the relation of tables that only grow. \<open>Tenancy\<close> models \<open>core/tenancy.py\<close>: a world holds the database as this
  thread sees it, its savepoints (\<open>saves\<close>), the Python context variables (\<open>ctx\<close>), the \<open>SET LOCAL\<close> settings
  row-level security reads (\<open>guc\<close>), the callbacks of the open transaction (\<open>pending\<close>), the tasks handed to the
  broker (\<open>queue\<close>), a clock whose readings are arbitrary, and what other transactions commit (\<open>env\<close>). They
  commit where PostgreSQL lets them be seen: when an outermost transaction begins, while a row lock or
  a unique index is waited for, and during a provider call. \<open>Frames\<close> has the locale \<open>db_frame\<close>: a preorder on
  database states that others respect, and that every block structure of \<open>Tenancy\<close> preserves; invariants,
  append-only ledgers and isolation are its interpretations. \<open>Scopes\<close> evaluates the context managers of a
  single thread. The roles of \<open>accounts/permissions.py\<close> are in \<open>Tenancy\<close> too; \<open>Middleware\<close> models \<open>accounts/middleware.py\<close> and
  \<open>core/middleware.py\<close>, \<open>Histories\<close> is the closure of an application's entries: interleaved threads, each of
  which sees a history of the others. \<open>Statements\<close> has what every service writes: tenant reads and writes, waits, updates by key,
  savepoints, audit rows, with their frames, critical sections and evaluation.

  \<^bold>\<open>Billing\<close> (\<open>billing/\<close>). \<open>BillingModels\<close>: rows, settings, the world with the provider's transport and the check
  constraints. \<open>BillingStore\<close>: queries, saves, inserts, audit (\<open>auditlog/services.py\<close>) and the locale
  \<open>billing_frame\<close>. \<open>Sha256\<close> and \<open>Razorpay\<close>: an executable HMAC-SHA256 and \<open>razorpay.py\<close>. \<open>BillingQuota\<close>: entitlement and
  the reservation of a unit. \<open>BillingSnapshot\<close>: \<open>apply_snapshot\<close>, which applies a fetched provider state
  to the locked row; \<open>SnapshotSpec\<close> states the lifecycle it implements as a pure function, \<open>SnapshotProps\<close>
  the theorems. \<open>BillingReplacement\<close>, \<open>ReplacementSpec\<close>, \<open>ReplacementProps\<close>: plan changes by replacement. \<open>BillingSync\<close>,
  \<open>Threads\<close>, \<open>DunningProps\<close>: synchronisation, the dunning schedule and the sweep. \<open>BillingCheckout\<close>, \<open>BillingWebhook\<close>,
  \<open>WebhookProps\<close>: checkout and the receiver. \<open>BillingSystem\<close>, \<open>BillingConstraints\<close>, \<open>SystemProps\<close>: the views, all
  entries as one system, and what holds along its histories.

  \<^bold>\<open>Sale intake\<close> (\<open>locations/\<close>, \<open>customers/\<close>, \<open>transactions/\<close>, \<open>integrations/\<close>, \<open>events/\<close>). \<open>PyText\<close>: the text functions of
  Python the code leans on (\<open>strip\<close>, \<open>int\<close>, \<open>Decimal\<close>, base64, UTF-8), executable, and the record \<open>pylib\<close> of those taken
  as parameters. \<open>SaleSchema\<close>: \<open>core/schemas.py\<close> and \<open>core/events.py\<close>. \<open>IntakeModels\<close>, \<open>IntakeStore\<close>: rows and statements.
  \<open>Adapters\<close>: the four provider adapters. \<open>Sales\<close> (locations, customers and sales), \<open>Integrations\<close>, \<open>Events\<close>: the service
  modules. \<open>Intake\<close>: the state machine of Python's \<open>csv\<close> module and the three ways in (webhook, CSV, REST). \<open>IntakeSystem\<close> has the
  locale \<open>intake_frame\<close>, the frame lemma of every operation and the histories, \<open>IntakeProps\<close> what holds along them,
  \<open>IntakeRuns\<close> the evaluation of statements inside a transaction nobody interferes with and the concrete states of the examples,
  \<open>SalesProps\<close>, \<open>EventProps\<close>, \<open>IntakeSpecs\<close> and \<open>SaleSpecs\<close> the theorems.

  \<^bold>\<open>Accounts\<close> (\<open>accounts/\<close>, \<open>apikeys/\<close>, \<open>auditlog/services.py\<close>). \<open>AccountStore\<close>: users, merchants, memberships,
  assignments and keys, the libraries as the record \<open>auth_lib\<close>, and the statements on the tables. \<open>Team\<close>: sign-up and team management,
  which decides on rows read again under the lock of the merchant, and invitations. \<open>TwoFactor\<close>: both steps of a login and
  enrolment. \<open>ApiKeys\<close>: what a browser's session holds and the views that write it, the admin login too; keys and the
  \<open>Bearer\<close> middleware. \<open>AccountApi\<close>: permissions, the views and their answers. \<open>Sections\<close> has the calculus of critical sections:
  what a thread knows about the rows it has locked until it ends its transaction (\<open>sect\<close>), on which \<open>AccountSystem\<close> (the
  locale \<open>account_frame\<close>) bases the frame of every entry, and \<open>AccountProps\<close> the invariants of all histories.
  \<open>AccountRuns\<close> evaluates statements for a single thread and has the team of the examples; \<open>TeamSpecs\<close>, \<open>FactorProps\<close> and \<open>KeyProps\<close>
  state what role changes, invitations, second factors, browser sessions and keys decide.

  \<^bold>\<open>WhatsApp\<close> (\<open>whatsapp/\<close>). \<open>MessagingStore\<close>: accounts (own numbers of merchants, and the shared one without a
  merchant), the mapping of locations to them, templates, signup states; the policies of \<open>core/rls.py\<close> on accounts; a world in
  which broker and database fail at arbitrary moments (\<open>broker_up\<close>, \<open>db_up\<close>) and error-level logs are kept (\<open>alerts\<close>).
  \<open>MetaCloud\<close>: \<open>providers/meta_cloud.py\<close> over an arbitrary transport. \<open>Senders\<close>, \<open>Templates\<close>, \<open>OptOut\<close>: \<open>services.py\<close> and \<open>tasks.py\<close>.
  \<open>MessagingApi\<close>: views and receiver. A wait while an account is locked does not let others touch what its row lock and the
  foreign keys to it protect (\<open>keeps_sender\<close>). \<open>MessagingFrames\<close> (the locale \<open>messaging_frame\<close>) and \<open>MessagingSystem\<close> give the frame of every
  entry, \<open>MessagingProps\<close> the invariants of all histories; \<open>StopProps\<close> follows a STOP from the signed delivery to the last merchant
  under outages, \<open>SubmissionProps\<close> the verdict on a template and the signup state; \<open>MessagingSamples\<close> is the deployment of the examples.
  The scan for a template is bounded by the 50 pages of the code.

  \<^bold>\<open>Google reviews\<close> (\<open>google_reviews/\<close>, \<open>core/crypto.py\<close>). \<open>UrlText\<close>: quoting, \<open>urlsplit\<close> and URL-safe base64. \<open>GoogleStore\<close>: connections,
  OAuth attempts, mapped locations and reviews with the statements on them; a world in which Google answers each request with anything
  (\<open>g_http\<close>), with the process's cache of signing keys. \<open>GoogleProvider\<close>: \<open>providers/google_business_profile.py\<close>, the validation of ID tokens
  included. \<open>GoogleServices\<close>: attempts, code exchange, refresh. \<open>GoogleSync\<close>: mapping, synchronisation, tasks and views. \<open>GoogleFrames\<close> (the
  locale \<open>google_frame\<close>) and \<open>GoogleSystem\<close> give the frame of every entry, \<open>GoogleTables\<close> the constraints, \<open>GoogleProps\<close> what holds
  along all histories, \<open>GoogleSpecs\<close> what a refresh, a synchronisation and the sweep do while others commit, \<open>GoogleExchange\<close> on what
  evidence an account is connected; \<open>GoogleSamples\<close> is the deployment of the examples. Google decides how many pages of
  reviews there are, so \<open>sync_pages\<close> takes a bound (and raises \<open>Unfinished\<close>, which no handler catches, beyond it); a token that comes back ends the loop, so a bound above the number of different tokens is
  never reached (\<open>GoogleSpecs\<close>). Numbers of a response that are not finite and access tokens that cannot be sent in a header are outside the model.

  \<^bold>\<open>What the theorems show.\<close> For single threads (\<open>in_tx\<close>, \<open>alone\<close>, \<open>quiet\<close>: nobody else commits meanwhile) the functional
  behaviour of the central operations on every branch, errors included, often against a pure
  specification. For all interleavings: the constraints of the tables, the append-only ledgers, and the
  isolation of merchants, along every history; and the soundness of the quota reservation.
  Termination: every definition is total; retries of an event end (\<open>EventProps\<close>), a grace period ends
  (\<open>DunningProps\<close>), OAuth attempts are decided by the daily sweep. No fuel is used but page bounds.

  \<^bold>\<open>Modelling decisions.\<close> A merchant has at most one subscription row, as the unique constraint has it, so
  \<open>subs\<close> is a function; other tables are lists in insertion order. Characters are 8-bit. UUIDs are texts,
  generated ones a stream of the world; a malformed one is \<open>None\<close>. The provider's answers, the object store, the
  JSON decoder, Fernet, RSA signatures, \<open>datetime.fromisoformat\<close> and \<open>str\<close> of a float or container are parameters. A task handed to
  the broker is in \<open>queue\<close>; broker outages are modelled for WhatsApp and Google reviews, whose code handles them. Error messages and other logging are left out.

  \<^bold>\<open>Not modelled.\<close> Serializers, throttling, pagination, URL tables, admin classes, migrations and settings:
  declarations without logic of their own. Django's upgrade of old password hashes at login and its session
  storage are left out, as are the delays of Celery's retries. The installation of the Shopify app is an
  exchange with Shopify's web API and its signed query strings; only what the intake calls of it is modelled.
\<close>

end
